(* ===== verification/Prelude.thy ===== *)
theory Prelude
  imports Main "HOL-Library.AList" "HOL-Library.Char_ord" "HOL-Library.List_Lexorder"
    "HOL-Library.Sublist" "HOL-Library.Multiset" "HOL-Library.Product_Lexorder"
begin

text \<open>
  Shared vocabulary of the development: Python exceptions as values, the string methods
  the sources call, insertion-ordered dictionaries, and stable sorting by a key.

  Strings are \<^typ>\<open>string\<close>: a code point of the ASCII range is one \<^typ>\<open>char\<close>, a code
  point beyond it is the bytes of its UTF-8 form, so percent-encoding is exact and the
  order of strings is the order of Python (UTF-8 keeps the order of code points).
  Exception messages are not modelled, only the class raised.
\<close>

named_theorems py_simps \<open>equations that evaluate the Python helpers\<close>
named_theorems roundtrip_simps \<open>decode (encode x) equations\<close>
named_theorems frame_simps \<open>what an operation leaves unchanged\<close>

section \<open>Errors as values\<close>

datatype pyexc =
    ValueError | TypeError | KeyError | AttributeError | RuntimeError | OverflowError | ZeroDivisionError
  | LookupError | NotImplementedError
  | IndexError | AssertionError
  | ToolNameCollisionError | ResourceNameCollisionError | RecipeError | RecipeNotFoundError | SlateError
  | InsufficientFundsError | UnknownHoldError
  | UnauthorizedRegistrationError
  | IncompatibleTargetError | InvalidTargetTypeError | UnauthorizedError
  | FormatViolationError | ProtocolError
  | WatchError | TransportError | FileExistsError

type_synonym 'a res = "pyexc + 'a"

definition rbind :: "'a res \<Rightarrow> ('a \<Rightarrow> 'b res) \<Rightarrow> 'b res" where
  "rbind r f = (case r of Inl e \<Rightarrow> Inl e | Inr x \<Rightarrow> f x)"

lemma rbind_simps [simp]: "rbind (Inl e) f = Inl e" "rbind (Inr x) f = f x"
  by (simp_all add: rbind_def)

lemma rbind_eq_Inr: "rbind r f = Inr y \<longleftrightarrow> (\<exists>x. r = Inr x \<and> f x = Inr y)"
  by (cases r) auto

definition guard_res :: "bool \<Rightarrow> pyexc \<Rightarrow> unit res" where
  "guard_res ok e = (if ok then Inr () else Inl e)"

lemma guard_res_simps [simp]:
  "guard_res True e = Inr ()" "guard_res False e = Inl e"
  "guard_res b e = Inr u \<longleftrightarrow> b" "guard_res b e = Inl e' \<longleftrightarrow> \<not> b \<and> e' = e"
  by (auto simp: guard_res_def)

section \<open>Operations on a store\<close>

text \<open>
  An operation on a store returns a result or raises, and leaves a store either way: what
  was written before an exception stays written.
\<close>

type_synonym ('s, 'a) op = "'s \<Rightarrow> 'a res \<times> 's"

definition sbind :: "('s, 'a) op \<Rightarrow> ('a \<Rightarrow> ('s, 'b) op) \<Rightarrow> ('s, 'b) op" where
  "sbind f g s = (case f s of (Inl e, t) \<Rightarrow> (Inl e, t) | (Inr a, t) \<Rightarrow> g a t)"

definition sret :: "'a \<Rightarrow> ('s, 'a) op" where "sret a s = (Inr a, s)"
definition sraise :: "pyexc \<Rightarrow> ('s, 'a) op" where "sraise e s = (Inl e, s)"
definition sread :: "('s \<Rightarrow> 'a) \<Rightarrow> ('s, 'a) op" where "sread f s = (Inr (f s), s)"
definition sreadr :: "('s \<Rightarrow> 'a res) \<Rightarrow> ('s, 'a) op" where "sreadr f s = (f s, s)"
definition slift :: "'a res \<Rightarrow> ('s, 'a) op" where "slift r s = (r, s)"
definition swrite :: "('s \<Rightarrow> 's) \<Rightarrow> ('s, unit) op" where "swrite f s = (Inr (), f s)"

lemma sop_simps [simp]:
  "sret a s = (Inr a, s)" "sraise e s = (Inl e, s)" "sread f s = (Inr (f s), s)"
  "sreadr r s = (r s, s)" "slift r' s = (r', s)" "swrite w s = (Inr (), w s)"
  by (simp_all add: sret_def sraise_def sread_def sreadr_def slift_def swrite_def)

lemma sbind_run:
  "f s = (Inr a, t) \<Longrightarrow> sbind f g s = g a t"
  "f s = (Inl e, t) \<Longrightarrow> sbind f g s = (Inl e, t)"
  by (simp_all add: sbind_def)

lemma sbind_simps [simp]:
  "sbind (sret a) g s = g a s" "sbind (sraise e) g s = (Inl e, s)" "sbind (sread f) g s = g (f s) s"
  "sbind (swrite w) h s = h () (w s)"
  "sbind (sreadr r) g s = (case r s of Inl e \<Rightarrow> (Inl e, s) | Inr a \<Rightarrow> g a s)"
  "sbind (slift r') g s = (case r' of Inl e \<Rightarrow> (Inl e, s) | Inr a \<Rightarrow> g a s)"
  by (simp_all add: sbind_def split: sum.splits)

lemma sbind_eq_Inr:
  "sbind f g s = (Inr b, u) \<longleftrightarrow> (\<exists>a t. f s = (Inr a, t) \<and> g a t = (Inr b, u))"
  by (auto simp: sbind_def split: prod.splits sum.splits)

lemma sbind_InrE:
  assumes "sbind f g s = (Inr b, u)"
  obtains a t where "f s = (Inr a, t)" "g a t = (Inr b, u)"
  using assms by (auto simp: sbind_eq_Inr)

text \<open>\<open>try: f except ... as e: h(e)\<close>; a handler re-raises what it does not catch.\<close>

definition scatch :: "('s, 'a) op \<Rightarrow> (pyexc \<Rightarrow> ('s, 'a) op) \<Rightarrow> ('s, 'a) op" where
  "scatch f h s = (case f s of (Inl e, t) \<Rightarrow> h e t | (Inr a, t) \<Rightarrow> (Inr a, t))"

text \<open>What holds of every value an operation returns.\<close>

definition yields :: "('s, 'a) op \<Rightarrow> ('a \<Rightarrow> bool) \<Rightarrow> bool" where
  "yields f P \<longleftrightarrow> (\<forall>s a t. f s = (Inr a, t) \<longrightarrow> P a)"

lemma yieldsD: "yields f P \<Longrightarrow> f s = (Inr a, t) \<Longrightarrow> P a"
  by (auto simp: yields_def)

lemma yields_bind: "(\<And>a. yields (g a) P) \<Longrightarrow> yields (sbind f g) P"
  by (fastforce simp: yields_def sbind_eq_Inr)

lemma yields_bind_with: "yields f Q \<Longrightarrow> (\<And>a. Q a \<Longrightarrow> yields (g a) P) \<Longrightarrow> yields (sbind f g) P"
  by (fastforce simp: yields_def sbind_eq_Inr)

lemma yields_ret: "P a \<Longrightarrow> yields (sret a) P" by (simp add: yields_def)
lemma yields_raise: "yields (sraise e) P" by (simp add: yields_def)
lemma yields_lift: "(\<And>a. r = Inr a \<Longrightarrow> P a) \<Longrightarrow> yields (slift r) P" by (simp add: yields_def)

lemma yields_catch: "yields f P \<Longrightarrow> (\<And>e. yields (h e) P) \<Longrightarrow> yields (scatch f h) P"
  by (fastforce simp: yields_def scatch_def split: prod.splits sum.splits)

lemma scatch_run:
  "f s = (Inr a, t) \<Longrightarrow> scatch f h s = (Inr a, t)"
  "f s = (Inl e, t) \<Longrightarrow> scatch f h s = h e t"
  by (simp_all add: scatch_def)

text \<open>\<open>for x in xs: ...\<close> with a body that may raise.\<close>

fun sfor :: "('a \<Rightarrow> ('s, unit) op) \<Rightarrow> 'a list \<Rightarrow> ('s, unit) op" where
  "sfor f [] s = (Inr (), s)"
| "sfor f (x # xs) s = sbind (f x) (\<lambda>_. sfor f xs) s"

section \<open>String methods\<close>

text \<open>\<open>s.split(c)\<close> for a one-character separator: never empty, keeps empty fields.\<close>

fun split_on :: "char \<Rightarrow> string \<Rightarrow> string list" where
  "split_on c [] = [[]]"
| "split_on c (x # xs) =
     (if x = c then [] # split_on c xs
      else (case split_on c xs of [] \<Rightarrow> [[x]] | y # ys \<Rightarrow> (x # y) # ys))"

text \<open>\<open>sep.join(parts)\<close>.\<close>

fun join :: "string \<Rightarrow> string list \<Rightarrow> string" where
  "join sep [] = []"
| "join sep [x] = x"
| "join sep (x # y # zs) = x @ sep @ join sep (y # zs)"

text \<open>\<open>s.partition(c)\<close>, without the separator.\<close>

definition partition_on :: "char \<Rightarrow> string \<Rightarrow> string \<times> string" where
  "partition_on c s = (takeWhile (\<lambda>x. x \<noteq> c) s, tl (dropWhile (\<lambda>x. x \<noteq> c) s))"

text \<open>\<open>str.isspace\<close> on the ASCII range, and \<open>s.strip()\<close>.\<close>

definition is_space :: "char \<Rightarrow> bool" where
  "is_space c \<longleftrightarrow> c \<in> {CHR '' '', CHR 0x09, CHR 0x0A, CHR 0x0B, CHR 0x0C, CHR 0x0D,
      CHR 0x1C, CHR 0x1D, CHR 0x1E, CHR 0x1F}"

definition lstrip :: "string \<Rightarrow> string" where
  "lstrip s = dropWhile is_space s"

definition strip :: "string \<Rightarrow> string" where
  "strip s = rev (dropWhile is_space (rev (lstrip s)))"

definition startswith :: "string \<Rightarrow> string \<Rightarrow> bool" where
  "startswith s p \<longleftrightarrow> take (length p) s = p"

text \<open>\<open>len(s)\<close> counts code points: the continuation bytes of a UTF-8 form do not count.\<close>

definition py_len :: "string \<Rightarrow> int" where
  "py_len s = int (length (filter (\<lambda>c. \<not> (CHR 0x80 \<le> c \<and> c < CHR 0xC0)) s))"

definition endswith :: "string \<Rightarrow> string \<Rightarrow> bool" where
  "endswith s p \<longleftrightarrow> startswith (rev s) (rev p)"

text \<open>\<open>x or dflt\<close> on an optional string.\<close>

definition or_default :: "string option \<Rightarrow> string \<Rightarrow> string" where
  "or_default x dflt = (case x of Some t \<Rightarrow> if t = [] then dflt else t | None \<Rightarrow> dflt)"

text \<open>What \<open>$\<close> of a regular expression leaves to match: it also matches before a final newline.\<close>

definition drop_final_newline :: "string \<Rightarrow> string" where
  "drop_final_newline s = (if s \<noteq> [] \<and> last s = CHR 0x0A then butlast s else s)"

lemma split_on_nonempty [simp]: "split_on c s \<noteq> []"
  by (induction s) (auto split: list.splits)

lemma split_on_no_sep: "c \<notin> set s \<Longrightarrow> split_on c s = [s]"
  by (induction s) auto

lemma split_on_append_sep: "c \<notin> set s \<Longrightarrow> split_on c (s @ c # t) = s # split_on c t"
  by (induction s) auto

lemma split_on_join:
  assumes "xs \<noteq> []" and "\<forall>x\<in>set xs. c \<notin> set x"
  shows "split_on c (join [c] xs) = xs"
  using assms
proof (induction "[c]" xs rule: join.induct)
  case (2 x) then show ?case by (simp add: split_on_no_sep)
next
  case (3 x y zs) then show ?case by (simp add: split_on_append_sep)
qed simp

lemma join_split_on: "join [c] (split_on c s) = s"
proof (induction s)
  case (Cons x s)
  then show ?case
    by (cases "split_on c s"; cases "tl (split_on c s)") (auto split: list.splits)
qed simp

lemma split_on_parts: "x \<in> set (split_on c s) \<Longrightarrow> c \<notin> set x"
  by (induction s arbitrary: x) (auto split: list.splits if_splits)

lemma set_join: "set (join sep xs) \<subseteq> set sep \<union> (\<Union>x\<in>set xs. set x)"
  by (induction sep xs rule: join.induct) auto

lemma partition_on_append:
  "c \<notin> set s \<Longrightarrow> partition_on c (s @ c # t) = (s, t)"
  by (induction s) (auto simp: partition_on_def)

lemma strip_id:
  assumes "s \<noteq> [] \<Longrightarrow> \<not> is_space (hd s) \<and> \<not> is_space (last s)"
  shows "strip s = s"
proof (cases s)
  case (Cons x xs)
  with assms have h: "\<not> is_space x" and l: "\<not> is_space (last s)" by auto
  from Cons h have "lstrip s = s" by (simp add: lstrip_def)
  moreover from l have "\<not> is_space (hd (rev s))" by (simp add: hd_rev)
  then have "dropWhile is_space (rev s) = rev s" by (auto simp: dropWhile_eq_self_iff)
  ultimately show ?thesis by (simp add: strip_def)
qed (simp add: strip_def lstrip_def)

lemma startswith_append [simp]: "startswith (p @ s) p"
  by (simp add: startswith_def)

lemma startswith_iff: "startswith s p \<longleftrightarrow> (\<exists>t. s = p @ t)"
  by (metis append_eq_conv_conj startswith_def append_take_drop_id)

lemma endswith_iff: "endswith s p \<longleftrightarrow> (\<exists>t. s = t @ p)"
  by (metis endswith_def startswith_iff rev_append rev_rev_ident)

section \<open>Numerals\<close>

text \<open>\<open>str(n)\<close> and \<open>int(text)\<close> on plain decimal digits.\<close>

fun decimal :: "nat \<Rightarrow> string" where
  "decimal i = (if i < 10 then [char_of (48 + i)] else decimal (i div 10) @ [char_of (48 + i mod 10)])"

declare decimal.simps [simp del]

definition is_digit :: "char \<Rightarrow> bool" where "is_digit c \<longleftrightarrow> CHR ''0'' \<le> c \<and> c \<le> CHR ''9''"

definition digits_value :: "string \<Rightarrow> int" where
  "digits_value ds = fold (\<lambda>c n. 10 * n + (int (of_char c) - 48)) ds 0"

lemma is_digit_iff: "is_digit c \<longleftrightarrow> 48 \<le> (of_char c :: nat) \<and> (of_char c :: nat) \<le> 57"
  by (simp add: is_digit_def less_eq_char_def)

lemma digits_value_snoc [simp]: "digits_value (ds @ [c]) = 10 * digits_value ds + (int (of_char c) - 48)"
  by (simp add: digits_value_def)

lemma decimal_digits: "decimal i \<noteq> [] \<and> list_all is_digit (decimal i)"
proof (induction i rule: decimal.induct)
  case (1 i)
  have "is_digit (char_of (48 + i mod 10))" "i < 10 \<Longrightarrow> is_digit (char_of (48 + i))" by (simp_all add: is_digit_iff)
  with 1 show ?case by (subst (1 2) decimal.simps) auto
qed

lemma digits_value_decimal [simp]: "digits_value (decimal i) = int i"
proof (induction i rule: decimal.induct)
  case (1 i)
  have "10 * int (i div 10) + int (i mod 10) = int i"
    by (simp add: zdiv_int zmod_int)
  with 1 show ?case by (subst decimal.simps) (auto simp: digits_value_def)
qed

lemma decimal_inject [simp]: "decimal i = decimal j \<longleftrightarrow> i = j"
  by (metis digits_value_decimal of_nat_eq_iff)

section \<open>Dictionaries in insertion order\<close>

text \<open>
  A Python dict is an association list with distinct keys: \<^const>\<open>AList.update\<close> assigns in
  place or appends, \<^const>\<open>AList.delete\<close> pops, \<^const>\<open>map_of\<close> is \<open>d.get\<close>.
\<close>

type_synonym ('k, 'v) dict = "('k \<times> 'v) list"

abbreviation is_dict :: "('k, 'v) dict \<Rightarrow> bool" where
  "is_dict d \<equiv> distinct (map fst d)"

definition dict_get :: "('k, 'v) dict \<Rightarrow> 'k \<Rightarrow> 'v \<Rightarrow> 'v" where
  "dict_get d k dflt = (case map_of d k of None \<Rightarrow> dflt | Some v \<Rightarrow> v)"

text \<open>\<open>dict(pairs)\<close>: a later pair for the same key overwrites the value, not the position.\<close>

definition dict_of :: "('k \<times> 'v) list \<Rightarrow> ('k, 'v) dict" where
  "dict_of ps = fold (\<lambda>(k, v) d. AList.update k v d) ps []"

lemma is_dict_update: "is_dict d \<Longrightarrow> is_dict (AList.update k v d)"
  by (rule distinct_update)

lemma is_dict_delete: "is_dict d \<Longrightarrow> is_dict (AList.delete k d)"
  by (rule distinct_delete)

lemma is_dict_of: "is_dict (dict_of ps)"
proof -
  have "is_dict d \<Longrightarrow> is_dict (fold (\<lambda>(k, v) d. AList.update k v d) ps d)" for d
    by (induction ps arbitrary: d) (auto simp: is_dict_update)
  then show ?thesis by (simp add: dict_of_def)
qed

lemma update_new: "k \<notin> fst ` set d \<Longrightarrow> AList.update k v d = d @ [(k, v)]"
  by (induction d) auto

lemma dict_of_id:
  assumes "is_dict d" shows "dict_of d = d"
proof -
  have "is_dict (e @ d) \<Longrightarrow> fold (\<lambda>(k, v) d. AList.update k v d) d e = e @ d" for e
  proof (induction d arbitrary: e)
    case (Cons p d)
    obtain k v where p: "p = (k, v)" by (cases p)
    from Cons.prems have "k \<notin> fst ` set e" by (auto simp: p)
    with Cons p show ?case by (simp add: update_new)
  qed simp
  from this [of "[]"] assms show ?thesis by (simp add: dict_of_def)
qed

lemma delete_absent: "k \<notin> fst ` set d \<Longrightarrow> AList.delete k d = d"
  by (induction d) (auto simp: AList.delete_eq)

section \<open>Stable sorting by a key\<close>

text \<open>\<open>sorted(xs, key=f)\<close> and \<open>xs.sort(key=f)\<close>: \<^const>\<open>sort_key\<close> is stable, as Python's sort.\<close>

lemma hd_sort_key_least:
  assumes "xs \<noteq> []"
  shows "hd (sort_key f xs) \<in> set xs" and "\<And>y. y \<in> set xs \<Longrightarrow> f (hd (sort_key f xs)) \<le> f y"
proof -
  have ne: "sort_key f xs \<noteq> []" using assms by (metis length_0_conv length_sort)
  then have "hd (sort_key f xs) \<in> set (sort_key f xs)" by (rule hd_in_set)
  then show "hd (sort_key f xs) \<in> set xs" by (simp only: set_sort)
  fix y assume "y \<in> set xs"
  then have "y \<in> set (sort_key f xs)" by simp
  moreover have "sorted (map f (sort_key f xs))" by simp
  ultimately show "f (hd (sort_key f xs)) \<le> f y"
    using ne by (cases "sort_key f xs") auto
qed

lemma sorted_by_key_unique:
  assumes "mset xs = mset ys" and "inj_on f (set xs)"
  shows "sort_key f xs = sort_key f ys"
  using assms by (metis mset_sort set_mset_mset properties_for_sort_key sorted_sort_key
      sort_key_inj_key_eq)

text \<open>Sorting a list that is kept sorted, after every append, is sorting once at the end.\<close>

lemma sort_key_resort: "sort_key f (sort_key f xs @ ys) = sort_key f (xs @ ys)"
proof (rule properties_for_sort_key)
  have stable: "filter (\<lambda>x. f k = f x) (sort_key f zs) = filter (\<lambda>x. f k = f x) zs" for k zs
    using sort_key_stable [of f "f k" zs] by (simp add: eq_commute)
  show "filter (\<lambda>x. f k = f x) (sort_key f (xs @ ys)) = filter (\<lambda>x. f k = f x) (sort_key f xs @ ys)" for k
    by (simp add: stable)
qed simp_all

end
