(* ===== verification/PyFloat.thy ===== *)
theory PyFloat
  imports Complex_Main Prelude
begin

text \<open>
  Python floats: IEEE 754 binary64 with round-to-nearest-even, built on exact rationals.
  A finite float is its rational value; every arithmetic operation computes the exact
  result and rounds it to 53 bits (subnormals included), overflowing to an infinity.
  The two zeros are identified, as Python's comparisons do. \<open>max\<close>, \<open>min\<close>, \<open>abs\<close>,
  comparisons and \<open>round(x, n)\<close> follow Python, with NaN unordered.
\<close>

section \<open>Rounding to 53 bits\<close>

text \<open>The binary logarithm of a positive natural number, rounded down.\<close>

fun ilog2 :: "nat \<Rightarrow> nat" where
  "ilog2 n = (if n < 2 then 0 else Suc (ilog2 (n div 2)))"

declare ilog2.simps [simp del]

lemma ilog2_bounds: "0 < n \<Longrightarrow> 2 ^ ilog2 n \<le> n \<and> n < 2 ^ Suc (ilog2 n)"
proof (induction n rule: ilog2.induct)
  case (1 n)
  show ?case
  proof (cases "n < 2")
    case True
    with "1.prems" have "n = 1" by simp
    then show ?thesis by (simp add: ilog2.simps)
  next
    case False
    then have "0 < n div 2" by simp
    with "1.IH" False have "2 ^ ilog2 (n div 2) \<le> n div 2 \<and> n div 2 < 2 ^ Suc (ilog2 (n div 2))"
      by simp
    then have "2 * 2 ^ ilog2 (n div 2) \<le> n \<and> n < 2 * 2 ^ Suc (ilog2 (n div 2))" by linarith
    with False show ?thesis by (subst (1 2) ilog2.simps) simp
  qed
qed

lemma powi_of_nat_int:
  "(2::rat) powi int n = of_int (2 ^ n)" "(2::rat) powi (int n + 1) = of_int (2 ^ Suc n)"
  using power_int_of_nat [of "2::rat" n] power_int_of_nat [of "2::rat" "Suc n"]
  by (simp_all add: add.commute)

text \<open>\<open>flog2 x\<close> is the exponent of the binade of a positive rational.\<close>

definition flog2 :: "rat \<Rightarrow> int" where
  "flog2 x = (let (p, q) = quotient_of x;
                  k = int (ilog2 (nat p)) - int (ilog2 (nat q))
              in if 2 powi k \<le> x then k else k - 1)"

lemma powi_less_iff [simp]: "(2::rat) powi a < 2 powi b \<longleftrightarrow> a < b"
  using power_int_strict_increasing [of a b "2::rat"] power_int_increasing [of b a "2::rat"]
  by fastforce

lemma powi_le_iff [simp]: "(2::rat) powi a \<le> 2 powi b \<longleftrightarrow> a \<le> b"
  using powi_less_iff [of b a] by (simp only: not_less [symmetric])

lemma powi_pos [simp]: "0 < (2::rat) powi a"
  by (simp add: zero_less_power_int)

lemma powi_nonzero [simp]: "(2::rat) powi a \<noteq> 0"
  by (metis less_irrefl powi_pos)

lemma powi_split: "a \<le> b \<Longrightarrow> (2::rat) powi b = of_int (2 ^ nat (b - a)) * 2 powi a"
  using power_int_add [of "2::rat" "b - a" a] power_int_of_nat [of "2::rat" "nat (b - a)"]
  by simp

lemma flog2_bounds:
  assumes "0 < x"
  shows "2 powi flog2 x \<le> x" and "x < 2 powi (flog2 x + 1)"
proof -
  obtain p q where pq: "quotient_of x = (p, q)" by (cases "quotient_of x")
  have q: "0 < q" using pq by (rule quotient_of_denom_pos)
  have x: "x = of_int p / of_int q" using pq by (rule quotient_of_div)
  with assms q have p: "0 < p" by (simp add: zero_less_divide_iff)
  define a b where "a = ilog2 (nat p)" and "b = ilog2 (nat q)"
  have "2 ^ a \<le> nat p \<and> nat p < 2 ^ Suc a" "2 ^ b \<le> nat q \<and> nat q < 2 ^ Suc b"
    using ilog2_bounds [of "nat p"] ilog2_bounds [of "nat q"] p q by (simp_all add: a_def b_def)
  then have "2 ^ a \<le> p \<and> p < 2 ^ Suc a" "2 ^ b \<le> q \<and> q < 2 ^ Suc b"
    using p q by (simp_all only: le_nat_iff nat_less_iff of_nat_power of_nat_numeral less_imp_le)
  then have pa: "(2::rat) powi int a \<le> of_int p" "of_int p < (2::rat) powi (int a + 1)"
    and qb: "(2::rat) powi int b \<le> of_int q" "of_int q < (2::rat) powi (int b + 1)"
    by (simp_all only: powi_of_nat_int of_int_le_iff of_int_less_iff)
  define k where "k = int a - int b"
  have up: "x < 2 powi (k + 1)"
  proof -
    have "x * 2 powi int b \<le> x * of_int q" using qb(1) assms by simp
    also have "\<dots> = of_int p" using x q by simp
    also have "\<dots> < 2 powi (k + 1) * 2 powi int b" 
      using pa(2) power_int_add [of "2::rat" "k + 1" "int b"] by (simp add: k_def)
    finally show ?thesis by simp
  qed
  have low: "2 powi (k - 1) \<le> x"
  proof -
    have "2 powi (k - 1) * of_int q \<le> 2 powi (k - 1) * (2::rat) powi (int b + 1)" using qb(2) by simp
    also have "\<dots> = 2 powi int a"
      using power_int_add [of "2::rat" "k - 1" "int b + 1"] by (simp add: k_def)
    also have "\<dots> \<le> x * of_int q" using pa(1) x q by simp
    finally show ?thesis using q by simp
  qed
  have "flog2 x = (if 2 powi k \<le> x then k else k - 1)"
    by (simp add: flog2_def pq k_def a_def b_def)
  then show "2 powi flog2 x \<le> x" and "x < 2 powi (flog2 x + 1)"
    using up low by auto
qed

lemma flog2_unique:
  assumes "0 < x" "2 powi k \<le> x" "x < 2 powi (k + 1)"
  shows "flog2 x = k"
proof -
  have "(2::rat) powi flog2 x < 2 powi (k + 1)"
    using flog2_bounds(1) [OF assms(1)] assms(3) by (rule le_less_trans)
  moreover have "(2::rat) powi k < 2 powi (flog2 x + 1)"
    using assms(2) flog2_bounds(2) [OF assms(1)] by (rule le_less_trans)
  ultimately show ?thesis by simp
qed

lemma flog2_mono: assumes "0 < x" "x \<le> y" shows "flog2 x \<le> flog2 y"
proof -
  have "2 powi flog2 x \<le> y" using flog2_bounds(1) [OF assms(1)] assms(2) by (rule order_trans)
  also have "y < 2 powi (flog2 y + 1)" using assms by (intro flog2_bounds) simp
  finally show ?thesis by simp
qed

text \<open>Round half to even.\<close>

definition rhe :: "rat \<Rightarrow> int" where
  "rhe x = (let f = \<lfloor>x\<rfloor>; d = x - of_int f
            in if d < 1/2 then f else if 1/2 < d then f + 1
               else if even f then f else f + 1)"

lemma rhe_of_int [simp]: "rhe (of_int n) = n"
  by (simp add: rhe_def)

lemma rhe_cases: "rhe x = \<lfloor>x\<rfloor> \<or> rhe x = \<lfloor>x\<rfloor> + 1"
  by (simp add: rhe_def Let_def)

lemma rhe_near: "\<bar>of_int (rhe x) - x\<bar> \<le> 1/2"
  using of_int_floor_le [of x] floor_correct [of x] unfolding rhe_def Let_def
  by (simp add: abs_le_iff split: if_splits)

lemma rhe_mono: assumes "x \<le> y" shows "rhe x \<le> rhe y"
proof (cases "\<lfloor>x\<rfloor> = \<lfloor>y\<rfloor>")
  case True
  with assms show ?thesis by (simp add: rhe_def Let_def)
next
  case False
  with floor_mono [OF assms] have "\<lfloor>x\<rfloor> + 1 \<le> \<lfloor>y\<rfloor>" by linarith
  then show ?thesis using rhe_cases [of x] rhe_cases [of y] by linarith
qed

lemma rhe_nonneg: "0 \<le> x \<Longrightarrow> 0 \<le> rhe x"
  using rhe_mono [of 0 x] rhe_of_int [of 0] by simp

text \<open>The exponent of the last place, bounded below by that of the subnormals.\<close>

definition ulp_exp :: "rat \<Rightarrow> int" where
  "ulp_exp x = max (flog2 x - 52) (- 1074)"

definition rnd_pos :: "rat \<Rightarrow> rat" where
  "rnd_pos x = of_int (rhe (x / 2 powi ulp_exp x)) * 2 powi ulp_exp x"

definition rnd :: "rat \<Rightarrow> rat" where
  "rnd x = (if x = 0 then 0 else if 0 < x then rnd_pos x else - rnd_pos (- x))"

lemma rnd_0 [simp]: "rnd 0 = 0"
  by (simp add: rnd_def)

lemma rnd_minus: "rnd (- x) = - rnd x"
  by (auto simp: rnd_def)

lemma rnd_pos_nonneg: "0 < x \<Longrightarrow> 0 \<le> rnd_pos x"
  by (simp add: rnd_pos_def rhe_nonneg)

lemma rnd_pos_mono:
  assumes "0 < x" "x \<le> y"
  shows "rnd_pos x \<le> rnd_pos y"
proof (cases "ulp_exp x = ulp_exp y")
  case True
  with assms show ?thesis by (simp add: rnd_pos_def rhe_mono divide_right_mono)
next
  case False
  define k e f where "k = flog2 y" and "e = ulp_exp x" and "f = ulp_exp y"
  have y: "0 < y" using assms by simp
  have mono: "flog2 x \<le> k" unfolding k_def by (rule flog2_mono [OF assms])
  with False have ef: "e < f" and f: "f = k - 52" and "flog2 x < k"
    by (auto simp: ulp_exp_def k_def e_def f_def)
  have "x \<le> 2 powi k"
    using flog2_bounds(2) [OF assms(1)] \<open>flog2 x < k\<close>
    by (meson add1_zle_eq less_imp_le order_trans powi_le_iff)
  then have "x / 2 powi e \<le> 2 powi k / 2 powi e" by (simp add: divide_right_mono)
  also have "\<dots> = of_int (2 ^ nat (k - e))"
    using ef f powi_split [of e k] by simp
  finally have "rhe (x / 2 powi e) \<le> 2 ^ nat (k - e)"
    using rhe_mono [of "x / 2 powi e" "of_int (2 ^ nat (k - e))"] by (simp only: rhe_of_int)
  then have "of_int (rhe (x / 2 powi e)) * (2::rat) powi e \<le> of_int (2 ^ nat (k - e)) * 2 powi e"
    by (simp only: mult_right_mono of_int_le_iff powi_pos less_imp_le)
  also have "\<dots> = 2 powi k"
    using ef f powi_split [of e k] by simp
  finally have le: "rnd_pos x \<le> 2 powi k" by (simp add: rnd_pos_def e_def)
  have "of_int (2 ^ 52) = (2::rat) powi k / 2 powi f"
    using powi_split [of f k] by (simp add: f)
  also have "\<dots> \<le> y / 2 powi f" using flog2_bounds(1) [OF y] by (simp add: k_def divide_right_mono)
  finally have "2 ^ 52 \<le> rhe (y / 2 powi f)"
    using rhe_mono [of "of_int (2 ^ 52)" "y / 2 powi f"] by (simp only: rhe_of_int)
  then have "(of_int (2 ^ 52) :: rat) * 2 powi f \<le> of_int (rhe (y / 2 powi f)) * 2 powi f"
    by (simp only: mult_right_mono of_int_le_iff powi_pos less_imp_le)
  moreover have "(of_int (2 ^ 52) :: rat) * 2 powi f = 2 powi k"
    using powi_split [of f k] by (simp add: f)
  ultimately have "2 powi k \<le> rnd_pos y" by (simp only: rnd_pos_def f_def)
  with le show ?thesis by simp
qed

lemma rnd_mono: assumes "x \<le> y" shows "rnd x \<le> rnd y"
proof -
  consider "0 < x" | "x = 0" | "x < 0" "0 \<le> y" | "x < 0" "y < 0" by linarith
  then show ?thesis
  proof cases
    case 1 with assms show ?thesis by (simp add: rnd_def rnd_pos_mono)
  next
    case 2 with assms show ?thesis by (simp add: rnd_def rnd_pos_nonneg)
  next
    case 3 then show ?thesis
      using rnd_pos_nonneg [of y] rnd_pos_nonneg [of "- x"] by (auto simp: rnd_def)
  next
    case 4 with assms show ?thesis by (simp add: rnd_def rnd_pos_mono)
  qed
qed

lemma rnd_nonneg [intro]: "0 \<le> x \<Longrightarrow> 0 \<le> rnd x"
  using rnd_mono [of 0 x] by simp

lemma rnd_nonpos [intro]: "x \<le> 0 \<Longrightarrow> rnd x \<le> 0"
  using rnd_mono [of x 0] by simp

text \<open>Numbers with at most 53 significant bits are exact.\<close>

lemma rnd_pos_exact:
  assumes x: "x = of_int m * 2 powi e" and m: "0 < m" "m \<le> 2 ^ 53" and e: "- 1074 \<le> e"
  shows "rnd_pos x = x"
proof -
  have pos: "0 < x" using x m by simp
  define u where "u = ulp_exp x"
  have "u \<le> e \<or> (u = e + 1 \<and> m = 2 ^ 53)"
  proof (rule disjCI)
    assume "\<not> (u = e + 1 \<and> m = 2 ^ 53)"
    show "u \<le> e"
    proof (rule ccontr)
      assume "\<not> u \<le> e"
      then have u: "u = flog2 x - 52" and fl: "e + 53 \<le> flog2 x" using e by (auto simp: u_def ulp_exp_def)
      have "(2::rat) powi (e + 53) \<le> x"
        using flog2_bounds(1) [OF pos] fl by (meson order_trans powi_le_iff)
      then have "(2::rat) powi 53 \<le> of_int m" by (simp add: x power_int_add mult.commute)
      then have "(of_int (2 ^ 53) :: rat) \<le> of_int m" by simp
      then have m53: "m = 2 ^ 53" using m(2) by (simp only: of_int_le_iff)
      then have "x = 2 powi (e + 53)" by (simp add: x power_int_add)
      then have "flog2 x = e + 53" by (intro flog2_unique) auto
      with u m53 \<open>\<not> (u = e + 1 \<and> m = 2 ^ 53)\<close> show False by simp
    qed
  qed
  then obtain n where n: "x = of_int n * 2 powi u"
  proof
    assume le: "u \<le> e"
    have "x = of_int (m * 2 ^ nat (e - u)) * 2 powi u"
      using powi_split [OF le] by (simp add: x mult.assoc)
    then show ?thesis by (rule that)
  next
    assume ue: "u = e + 1 \<and> m = 2 ^ 53"
    then have "x = of_int (2 ^ 52) * 2 powi u" by (simp add: x power_int_add)
    then show ?thesis by (rule that)
  qed
  then have "x / 2 powi u = of_int n" by simp
  then have "rnd_pos x = of_int n * 2 powi u" unfolding rnd_pos_def u_def [symmetric] by simp
  with n show ?thesis by simp
qed

lemma rnd_exact:
  assumes "x = of_int m * 2 powi e" and "\<bar>m\<bar> \<le> 2 ^ 53" and "- 1074 \<le> e"
  shows "rnd x = x"
proof -
  consider "m = 0" | "0 < m" | "m < 0" by linarith
  then show ?thesis
  proof cases
    case 2
    then have "rnd_pos x = x" using assms by (intro rnd_pos_exact [of x m e]) auto
    moreover have "0 < x" using 2 assms(1) by simp
    ultimately show ?thesis by (simp add: rnd_def)
  next
    case 3
    then have "rnd_pos (- x) = - x" using assms by (intro rnd_pos_exact [of "- x" "- m" e]) auto
    moreover have "x < 0" using 3 assms(1) by (simp add: mult_neg_pos)
    ultimately show ?thesis by (simp add: rnd_def)
  qed (simp add: assms(1))
qed

lemma rnd_of_int: "\<bar>n\<bar> \<le> 2 ^ 53 \<Longrightarrow> rnd (of_int n) = of_int n"
  by (rule rnd_exact [of _ n 0]) simp_all

text \<open>The error of one rounding: half a unit in the last place, relative or subnormal.\<close>

lemma rnd_pos_err:
  assumes "0 < x"
  shows "\<bar>rnd_pos x - x\<bar> \<le> x / 2 ^ 53 + 1 / 2 ^ 1075"
proof -
  define u where "u = ulp_exp x"
  have p: "0 < (2::rat) powi u" by simp
  have "\<bar>rnd_pos x - x\<bar> = \<bar>of_int (rhe (x / 2 powi u)) - x / 2 powi u\<bar> * 2 powi u"
  proof -
    have "rnd_pos x - x = (of_int (rhe (x / 2 powi u)) - x / 2 powi u) * 2 powi u"
      by (simp add: rnd_pos_def u_def [symmetric] left_diff_distrib)
    then show ?thesis by (simp add: abs_mult)
  qed
  also have "\<dots> \<le> 1/2 * 2 powi u" using rhe_near [of "x / 2 powi u"] p by (intro mult_right_mono) auto
  also have "\<dots> \<le> x / 2 ^ 53 + 1 / 2 ^ 1075"
  proof (cases "- 1074 \<le> flog2 x - 52")
    case True
    then have "(2::rat) powi u = 2 powi flog2 x / 2 ^ 52" by (simp add: u_def ulp_exp_def power_int_diff)
    then have "1/2 * (2::rat) powi u \<le> x / 2 ^ 53" using flog2_bounds(1) [OF assms] by simp
    moreover have "0 \<le> 1 / (2::rat) ^ 1075" by simp
    ultimately show ?thesis by linarith
  next
    case False
    then have "(2::rat) powi u = 2 powi (- 1074)" by (simp add: u_def ulp_exp_def)
    then have "1/2 * (2::rat) powi u = 1 / 2 ^ 1075" by (simp add: power_int_minus inverse_eq_divide)
    moreover have "0 \<le> x / 2 ^ 53" using assms by simp
    ultimately show ?thesis by linarith
  qed
  finally show ?thesis .
qed

lemma rnd_err: "\<bar>rnd x - x\<bar> \<le> \<bar>x\<bar> / 2 ^ 53 + 1 / 2 ^ 1075"
proof (cases x "0 :: rat" rule: linorder_cases)
  case less
  then have "\<bar>rnd x - x\<bar> = \<bar>rnd_pos (- x) - (- x)\<bar>" by (simp add: rnd_def)
  with rnd_pos_err [of "- x"] less show ?thesis by simp
next
  case greater
  with rnd_pos_err [of x] show ?thesis by (simp add: rnd_def)
qed simp

text \<open>A rounded value is a double.\<close>

lemma rnd_pos_idem:
  assumes "0 < x" shows "rnd (rnd_pos x) = rnd_pos x"
proof (rule rnd_exact)
  define u where "u = ulp_exp x"
  show "rnd_pos x = of_int (rhe (x / 2 powi u)) * 2 powi u" by (simp add: rnd_pos_def u_def)
  show "- 1074 \<le> u" by (simp add: u_def ulp_exp_def)
  have "x < 2 powi (flog2 x + 1)" by (rule flog2_bounds(2) [OF assms])
  also have "\<dots> \<le> 2 powi (53 + u)" by (simp add: u_def ulp_exp_def)
  also have "\<dots> = 2 ^ 53 * 2 powi u" by (simp add: power_int_add)
  finally have "x / 2 powi u \<le> of_int (2 ^ 53)" by (simp add: divide_le_eq)
  then have "rhe (x / 2 powi u) \<le> 2 ^ 53" using rhe_mono rhe_of_int by metis
  moreover have "0 \<le> rhe (x / 2 powi u)" using assms by (intro rhe_nonneg) simp
  ultimately show "\<bar>rhe (x / 2 powi u)\<bar> \<le> 2 ^ 53" by simp
qed

lemma rnd_idem [simp]: "rnd (rnd x) = rnd x"
  using rnd_pos_idem [of x] rnd_pos_idem [of "- x"] by (auto simp: rnd_def [of x] rnd_minus)

section \<open>The values\<close>

datatype pyfloat = Fin rat | PInf | NInf | NaN

text \<open>Every finite result is rounded; a rounded value past the largest double is infinite.\<close>

definition mk :: "rat \<Rightarrow> pyfloat" where
  "mk x = (let r = rnd x in
     if 2 ^ 1024 \<le> r then PInf else if r \<le> - (2 ^ 1024) then NInf else Fin r)"

text \<open>A float literal, and \<open>float(n)\<close> of an int.\<close>

abbreviation flit :: "rat \<Rightarrow> pyfloat" where "flit \<equiv> mk"

definition fl_of_int :: "int \<Rightarrow> pyfloat" where
  "fl_of_int n = mk (of_int n)"

text \<open>An int that does not fit raises OverflowError where it meets a float.\<close>

definition int_float :: "int \<Rightarrow> pyfloat res" where
  "int_float n = (case fl_of_int n of Fin x \<Rightarrow> Inr (Fin x) | _ \<Rightarrow> Inl OverflowError)"

fun fneg :: "pyfloat \<Rightarrow> pyfloat" where
  "fneg (Fin x) = Fin (- x)" | "fneg PInf = NInf" | "fneg NInf = PInf" | "fneg NaN = NaN"

fun fadd :: "pyfloat \<Rightarrow> pyfloat \<Rightarrow> pyfloat" where
  "fadd (Fin x) (Fin y) = mk (x + y)"
| "fadd NaN _ = NaN" | "fadd _ NaN = NaN"
| "fadd PInf NInf = NaN" | "fadd NInf PInf = NaN"
| "fadd PInf _ = PInf" | "fadd NInf _ = NInf"
| "fadd _ PInf = PInf" | "fadd _ NInf = NInf"

definition fsub :: "pyfloat \<Rightarrow> pyfloat \<Rightarrow> pyfloat" where
  "fsub a b = fadd a (fneg b)"

definition inf_sgn :: "rat \<Rightarrow> pyfloat \<Rightarrow> pyfloat" where
  "inf_sgn x i = (if x = 0 then NaN else if 0 < x then i else fneg i)"

fun fmul :: "pyfloat \<Rightarrow> pyfloat \<Rightarrow> pyfloat" where
  "fmul (Fin x) (Fin y) = mk (x * y)"
| "fmul NaN _ = NaN" | "fmul _ NaN = NaN"
| "fmul (Fin x) i = inf_sgn x i" | "fmul i (Fin y) = inf_sgn y i"
| "fmul PInf i = i" | "fmul NInf i = fneg i"

text \<open>Division raises on a zero divisor, as Python does.\<close>

fun fdiv :: "pyfloat \<Rightarrow> pyfloat \<Rightarrow> pyfloat res" where
  "fdiv a (Fin y) =
     (if y = 0 then Inl ZeroDivisionError
      else Inr (case a of Fin x \<Rightarrow> mk (x / y) | NaN \<Rightarrow> NaN | i \<Rightarrow> inf_sgn y i))"
| "fdiv a NaN = Inr NaN"
| "fdiv a _ = Inr (case a of Fin x \<Rightarrow> Fin 0 | _ \<Rightarrow> NaN)"

fun fabs :: "pyfloat \<Rightarrow> pyfloat" where
  "fabs (Fin x) = Fin \<bar>x\<bar>" | "fabs NaN = NaN" | "fabs _ = PInf"

fun flt :: "pyfloat \<Rightarrow> pyfloat \<Rightarrow> bool" where
  "flt (Fin x) (Fin y) \<longleftrightarrow> x < y"
| "flt NaN _ \<longleftrightarrow> False" | "flt _ NaN \<longleftrightarrow> False"
| "flt a PInf \<longleftrightarrow> a \<noteq> PInf" | "flt NInf b \<longleftrightarrow> b \<noteq> NInf"
| "flt _ _ \<longleftrightarrow> False"

definition feq :: "pyfloat \<Rightarrow> pyfloat \<Rightarrow> bool" where
  "feq a b \<longleftrightarrow> a = b \<and> a \<noteq> NaN"

definition fle :: "pyfloat \<Rightarrow> pyfloat \<Rightarrow> bool" where
  "fle a b \<longleftrightarrow> flt a b \<or> feq a b"

text \<open>\<open>max(a, b)\<close> and \<open>min(a, b)\<close> return the first argument unless the second is strictly better.\<close>

definition fmax :: "pyfloat \<Rightarrow> pyfloat \<Rightarrow> pyfloat" where
  "fmax a b = (if flt a b then b else a)"

definition fmin :: "pyfloat \<Rightarrow> pyfloat \<Rightarrow> pyfloat" where
  "fmin a b = (if flt b a then b else a)"

text \<open>\<open>max(xs)\<close> and \<open>min(xs)\<close> of a non-empty list scan from the left.\<close>

fun fmax_list :: "pyfloat \<Rightarrow> pyfloat list \<Rightarrow> pyfloat" where
  "fmax_list m [] = m" | "fmax_list m (x # xs) = fmax_list (fmax m x) xs"

fun fmin_list :: "pyfloat \<Rightarrow> pyfloat list \<Rightarrow> pyfloat" where
  "fmin_list m [] = m" | "fmin_list m (x # xs) = fmin_list (fmin m x) xs"

text \<open>\<open>round(x, n)\<close>: correctly rounded to \<open>n\<close> decimals, then to the nearest double.\<close>

fun fround :: "pyfloat \<Rightarrow> nat \<Rightarrow> pyfloat" where
  "fround (Fin x) n = mk (of_int (rhe (x * 10 ^ n)) / 10 ^ n)"
| "fround a n = a"

abbreviation fzero :: pyfloat where "fzero \<equiv> Fin 0"
abbreviation fone :: pyfloat where "fone \<equiv> Fin 1"

section \<open>Facts about the operations\<close>

definition is_fin :: "pyfloat \<Rightarrow> bool" where
  "is_fin a \<longleftrightarrow> (case a of Fin _ \<Rightarrow> True | _ \<Rightarrow> False)"

lemma is_fin_iff: "is_fin a \<longleftrightarrow> (\<exists>x. a = Fin x)"
  by (cases a) (simp_all add: is_fin_def)

fun fval :: "pyfloat \<Rightarrow> rat" where
  "fval (Fin x) = x" | "fval _ = 0"

text \<open>A closed interval of finite floats, the range of a score or a multiplier.\<close>

definition in_range :: "rat \<Rightarrow> rat \<Rightarrow> pyfloat \<Rightarrow> bool" where
  "in_range lo hi a \<longleftrightarrow> (case a of Fin x \<Rightarrow> lo \<le> x \<and> x \<le> hi | _ \<Rightarrow> False)"

lemma in_range_Fin [simp]: "in_range lo hi (Fin x) \<longleftrightarrow> lo \<le> x \<and> x \<le> hi"
  by (simp add: in_range_def)

lemma in_rangeE: assumes "in_range lo hi a" obtains x where "a = Fin x" "lo \<le> x" "x \<le> hi"
  using assms by (cases a) (auto simp: in_range_def)

lemma mk_0 [simp]: "mk 0 = Fin 0"
  by (simp add: mk_def)

lemma mk_exact:
  assumes "x = of_int m * 2 powi e" and "\<bar>m\<bar> \<le> 2 ^ 53" and "- 1074 \<le> e" and "\<bar>x\<bar> < 2 ^ 1024"
  shows "mk x = Fin x"
  using assms(4) rnd_exact [OF assms(1-3)] by (simp add: mk_def Let_def abs_less_iff)

lemma mk_of_int: assumes "\<bar>n\<bar> \<le> 2 ^ 53" shows "mk (of_int n) = Fin (of_int n)"
proof (rule mk_exact [of _ n 0])
  have "\<bar>of_int n :: rat\<bar> = of_int \<bar>n\<bar>" by simp
  also have "\<dots> \<le> of_int (2 ^ 53)" using assms by (simp only: of_int_le_iff)
  also have "\<dots> < (2::rat) ^ 1024" by simp
  finally show "\<bar>of_int n :: rat\<bar> < 2 ^ 1024" .
qed (use assms in simp_all)

text \<open>Monotonicity keeps a rounded result inside an interval with representable ends.\<close>

lemma mk_in_range:
  assumes "lo \<le> x" "x \<le> hi" "rnd lo = lo" "rnd hi = hi" "- (2 ^ 1024) < lo" "hi < 2 ^ 1024"
  shows "in_range lo hi (mk x)"
  using rnd_mono [OF assms(1)] rnd_mono [OF assms(2)] assms(3-6)
  by (auto simp: mk_def Let_def)

lemma fmax_fmin_range:
  assumes "lo \<le> hi" shows "in_range lo hi (fmax (Fin lo) (fmin (Fin hi) a))"
  using assms by (cases a) (auto simp: fmax_def fmin_def)

lemma fmin_fmax_range:
  assumes "lo \<le> hi" shows "in_range lo hi (fmin (Fin hi) (fmax (Fin lo) a))"
  using assms by (cases a) (auto simp: fmax_def fmin_def)

lemma flt_irrefl [simp]: "\<not> flt a a"
  by (cases a) auto

lemma flt_trans: "flt a b \<Longrightarrow> flt b c \<Longrightarrow> flt a c"
  by (cases a; cases b; cases c) auto

lemma fsub_Fin [simp]: "fsub (Fin x) (Fin y) = mk (x - y)"
  by (simp add: fsub_def)

lemma fle_Fin [simp]: "fle (Fin x) (Fin y) \<longleftrightarrow> x \<le> y"
  by (auto simp: fle_def feq_def)

lemma feq_Fin [simp]: "feq (Fin x) (Fin y) \<longleftrightarrow> x = y"
  by (simp add: feq_def)

lemma fmax_Fin [simp]: "fmax (Fin x) (Fin y) = Fin (max x y)"
  by (simp add: fmax_def max_def)

lemma fmin_Fin [simp]: "fmin (Fin x) (Fin y) = Fin (min x y)"
  by (simp add: fmin_def min_def)

lemma fmax_nan [simp]: "fmax a NaN = a" by (cases a) (simp_all add: fmax_def)
lemma fmin_nan [simp]: "fmin a NaN = a" by (simp add: fmin_def)

lemma mk_FinD: "mk x = Fin y \<Longrightarrow> y = rnd x"
  by (auto simp: mk_def Let_def split: if_splits)

lemma mk_abs_le:
  assumes "\<bar>x\<bar> \<le> y" "rnd y = y" "y < 2 ^ 1024"
  shows "mk x = Fin (rnd x)"
proof -
  have "rnd (- y) = - y" using assms(2) by (simp add: rnd_minus)
  then have "in_range (- y) y (mk x)" using assms by (intro mk_in_range) auto
  then obtain z where "mk x = Fin z" by (rule in_rangeE)
  then show ?thesis by (simp add: mk_FinD)
qed

text \<open>Not below zero, NaN included: closed under the products and sums of a price.\<close>

definition not_neg :: "pyfloat \<Rightarrow> bool" where
  "not_neg a \<longleftrightarrow> \<not> flt a fzero"

lemma not_neg_simps [simp]:
  "not_neg (Fin x) \<longleftrightarrow> 0 \<le> x" "not_neg PInf" "\<not> not_neg NInf" "not_neg NaN"
  by (auto simp: not_neg_def)

lemma not_neg_mk: "0 \<le> x \<Longrightarrow> not_neg (mk x)"
  using rnd_nonneg [of x] by (auto simp: mk_def Let_def)

lemma not_neg_fmul: "not_neg a \<Longrightarrow> not_neg b \<Longrightarrow> not_neg (fmul a b)"
  by (cases a; cases b) (auto simp: not_neg_mk inf_sgn_def)

lemma not_neg_fadd: "not_neg a \<Longrightarrow> not_neg b \<Longrightarrow> not_neg (fadd a b)"
  by (cases a; cases b) (auto simp: not_neg_mk)

lemma in_range_not_neg: "in_range lo hi a \<Longrightarrow> 0 \<le> lo \<Longrightarrow> not_neg a"
  by (auto elim: in_rangeE)

lemma is_fin_fsubD: "is_fin (fsub a b) \<Longrightarrow> is_fin a \<and> is_fin b"
  by (cases a; cases b) (auto simp: is_fin_def fsub_def)

text \<open>A weighted mean of two scores stays a score.\<close>

lemma ewma_range:
  assumes "0 \<le> v" "0 \<le> w" "rnd v = v" "rnd w = w" "rnd (v + w) \<le> 1"
    "in_range 0 1 a" "in_range 0 1 b"
  shows "in_range 0 1 (fadd (fmul (Fin v) a) (fmul (Fin w) b))"
proof -
  obtain x where x: "a = Fin x" "0 \<le> x" "x \<le> 1" using assms(6) by (rule in_rangeE)
  obtain y where y: "b = Fin y" "0 \<le> y" "y \<le> 1" using assms(7) by (rule in_rangeE)
  have v1: "v \<le> 1" using rnd_mono [of v "v + w"] assms by simp
  have w1: "w \<le> 1" using rnd_mono [of w "v + w"] assms by simp
  have "in_range 0 v (mk (v * x))" using x assms v1
    by (intro mk_in_range) (auto simp: mult_left_le intro: le_less_trans [of _ 1])
  then obtain p where p: "mk (v * x) = Fin p" "0 \<le> p" "p \<le> v" by (rule in_rangeE)
  have "in_range 0 w (mk (w * y))" using y assms w1
    by (intro mk_in_range) (auto simp: mult_left_le intro: le_less_trans [of _ 1])
  then obtain q where q: "mk (w * y) = Fin q" "0 \<le> q" "q \<le> w" by (rule in_rangeE)
  have "rnd (p + q) \<le> rnd (v + w)" using p q by (intro rnd_mono) simp
  moreover have "0 \<le> rnd (p + q)" using p q by (intro rnd_nonneg) simp
  ultimately show ?thesis using assms(5) p(1) q(1) x(1) y(1) by (simp add: mk_def Let_def)
qed

subsection \<open>Sorting by float keys\<close>

text \<open>
  Sorting compares keys with \<open><\<close>. On keys without NaN that is the linear order below;
  where it matters the model's sorts are read on NaN-free keys.
\<close>

fun float_class :: "pyfloat \<Rightarrow> nat" where
  "float_class NInf = 0" | "float_class (Fin _) = 1" | "float_class PInf = 2" | "float_class NaN = 3"

instantiation pyfloat :: linorder
begin

definition less_eq_pyfloat :: "pyfloat \<Rightarrow> pyfloat \<Rightarrow> bool" where
  "less_eq_pyfloat a b \<longleftrightarrow> float_class a < float_class b \<or> float_class a = float_class b \<and> fval a \<le> fval b"

definition less_pyfloat :: "pyfloat \<Rightarrow> pyfloat \<Rightarrow> bool" where
  "less_pyfloat a b \<longleftrightarrow> float_class a < float_class b \<or> float_class a = float_class b \<and> fval a < fval b"

instance
proof
  fix a b c :: pyfloat
  show "a < b \<longleftrightarrow> a \<le> b \<and> \<not> b \<le> a" "a \<le> a" "a \<le> b \<or> b \<le> a"
    by (auto simp: less_eq_pyfloat_def less_pyfloat_def)
  show "a \<le> b \<Longrightarrow> b \<le> c \<Longrightarrow> a \<le> c"
    by (auto simp: less_eq_pyfloat_def)
  show "a \<le> b \<Longrightarrow> b \<le> a \<Longrightarrow> a = b"
    by (cases a; cases b) (auto simp: less_eq_pyfloat_def)
qed

end

lemma less_eq_Fin [simp]: "Fin x \<le> Fin y \<longleftrightarrow> x \<le> y"
  by (simp add: less_eq_pyfloat_def)

lemma less_Fin [simp]: "Fin x < Fin y \<longleftrightarrow> x < y"
  by (simp add: less_pyfloat_def)

lemma less_iff_flt: "a \<noteq> NaN \<Longrightarrow> b \<noteq> NaN \<Longrightarrow> a < b \<longleftrightarrow> flt a b"
  by (cases a; cases b) (simp_all add: less_pyfloat_def)

lemma less_eq_iff_fle: "a \<noteq> NaN \<Longrightarrow> b \<noteq> NaN \<Longrightarrow> a \<le> b \<longleftrightarrow> fle a b"
  by (cases a; cases b) (auto simp: less_eq_pyfloat_def fle_def feq_def)

subsection \<open>Evaluating a rounded constant\<close>

text \<open>
  A normal number below 1 is rounded by naming its 53-bit significand \<open>m\<close> and its
  exponent \<open>- n\<close>: the simplifier then only compares rational numerals.
\<close>

lemma rnd_eval:
  assumes "2 ^ 52 \<le> x * 2 ^ n" "x * 2 ^ n < 2 ^ 53" "\<bar>x * 2 ^ n - of_int m\<bar> < 1/2" "n \<le> 1074"
  shows "rnd x = of_int m / 2 ^ n"
proof -
  have p: "(2::rat) powi (- int n) = 1 / 2 ^ n" by (simp add: power_int_minus inverse_eq_divide)
  have "0 < x * 2 ^ n" using assms(1) by (rule less_le_trans [rotated]) simp
  then have x: "0 < x" by (simp add: zero_less_mult_iff)
  have "2 powi (52 - int n) \<le> x" "x < 2 powi (52 - int n + 1)"
    using assms(1,2) by (simp_all add: power_int_diff field_simps flip: diff_add_eq)
  then have "flog2 x = 52 - int n" by (rule flog2_unique [OF x])
  then have u: "ulp_exp x = - int n" using assms(4) by (simp add: ulp_exp_def)
  have "rhe (x * 2 ^ n) = m"
  proof -
    have "\<bar>of_int (rhe (x * 2 ^ n)) - of_int m :: rat\<bar> < 1"
      using rhe_near [of "x * 2 ^ n"] assms(3) by linarith
    then have "\<bar>of_int (rhe (x * 2 ^ n) - m) :: rat\<bar> < 1" by simp
    then have "\<bar>rhe (x * 2 ^ n) - m\<bar> < 1" by (simp only: of_int_abs [symmetric] of_int_less_1_iff)
    then show ?thesis by simp
  qed
  with x u p show ?thesis by (simp add: rnd_def rnd_pos_def)
qed

lemma mk_eval:
  assumes "2 ^ 52 \<le> x * 2 ^ n" "x * 2 ^ n < 2 ^ 53" "\<bar>x * 2 ^ n - of_int m\<bar> < 1/2" "n \<le> 1074"
    "of_int m / 2 ^ n < (2::rat) ^ 1024"  "0 \<le> m"
  shows "mk x = Fin (of_int m / 2 ^ n)"
proof -
  have "- ((2::rat) ^ 1024) < 0" by simp
  also have "\<dots> \<le> of_int m / 2 ^ n" using assms(6) by simp
  finally show ?thesis using rnd_eval [OF assms(1-4)] assms(5) by (simp add: mk_def Let_def)
qed

subsection \<open>The grid of exact amounts\<close>

text \<open>
  Multiples of \<open>1/1024\<close> below \<open>2^43\<close> are exact doubles, and their sums and differences
  in that range are exact too. Amounts on the grid are the ones whose bookkeeping is free
  of rounding.
\<close>

definition on_grid :: "rat \<Rightarrow> bool" where
  "on_grid x \<longleftrightarrow> x * 1024 \<in> \<int>"

lemma on_gridE: assumes "on_grid x" obtains n where "x = of_int n / 1024"
proof -
  from assms obtain n where "x * 1024 = of_int n" by (auto simp: on_grid_def elim: Ints_cases)
  then have "x = of_int n / 1024" by simp
  then show thesis by (rule that)
qed

lemma on_gridI: "x = of_int n / 1024 \<Longrightarrow> on_grid x"
  by (simp add: on_grid_def)

lemma on_grid_arith [simp, intro]:
  "on_grid 0" "on_grid x \<Longrightarrow> on_grid y \<Longrightarrow> on_grid (x + y)" "on_grid x \<Longrightarrow> on_grid y \<Longrightarrow> on_grid (x - y)"
  by (auto simp: on_grid_def algebra_simps intro: Ints_add Ints_diff)

lemma on_grid_exact:
  assumes "on_grid x" and "\<bar>x\<bar> \<le> 2 ^ 43"
  shows "mk x = Fin x"
proof -
  obtain n where n: "x = of_int n / 1024" using assms(1) by (rule on_gridE)
  have "\<bar>of_int n :: rat\<bar> \<le> of_int (2 ^ 53)" using assms(2) by (simp add: n)
  then have "\<bar>n\<bar> \<le> 2 ^ 53" by (simp only: of_int_abs [symmetric] of_int_le_iff)
  moreover have "x = of_int n * 2 powi (-10)" by (simp add: n power_int_minus)
  moreover have "\<bar>x\<bar> < 2 ^ 1024" using assms(2) by (rule le_less_trans) simp
  ultimately show ?thesis by (intro mk_exact [of x n "-10"]) simp_all
qed

text \<open>Two different grid points are at least \<open>1/1024\<close> apart.\<close>

lemma on_grid_gap:
  assumes "on_grid x" "on_grid y" "x < y + 1 / 1024"
  shows "x \<le> y"
proof -
  obtain m n where x: "x = of_int m / 1024" and y: "y = of_int n / 1024"
    using assms(1,2) by (metis on_gridE)
  have "(of_int m :: rat) < of_int (n + 1)" using assms(3) by (simp add: x y)
  then have "m < n + 1" by (simp only: of_int_less_iff)
  then have "m \<le> n" by simp
  then show ?thesis by (simp add: x y divide_right_mono)
qed

subsection \<open>The literals of the sources\<close>

lemma flit_0_05: "mk (5/100) = Fin (7205759403792794 / 2 ^ 57)"
  using mk_eval [of "5/100" 57 7205759403792794] by simp

lemma flit_0_6: "mk (60/100) = Fin (5404319552844595 / 2 ^ 53)"
  using mk_eval [of "60/100" 53 5404319552844595] by simp

lemma flit_0_005: "mk (5/1000) = Fin (5764607523034235 / 2 ^ 60)"
  using mk_eval [of "5/1000" 60 5764607523034235] by simp

lemma flit_0_3: "mk (30/100) = Fin (5404319552844595 / 2 ^ 54)"
  using mk_eval [of "30/100" 54 5404319552844595] by simp

lemma flit_0_1: "mk (1/10) = Fin (7205759403792794 / 2 ^ 56)"
  using mk_eval [of "1/10" 56 7205759403792794] by simp

lemma flit_1e9: "mk (1/1000000000) = Fin (4835703278458517 / 2 ^ 82)"
  using mk_eval [of "1/1000000000" 82 4835703278458517] by simp

lemma flit_1e12: "mk (1/1000000000000) = Fin (4951760157141521 / 2 ^ 92)"
  using mk_eval [of "1/1000000000000" 92 4951760157141521] by simp

lemma flit_0_0002: "mk (2/10000) = Fin (7378697629483821 / 2 ^ 65)"
  using mk_eval [of "2/10000" 65 7378697629483821] by simp

lemma flit_0_2: "mk (20/100) = Fin (7205759403792794 / 2 ^ 55)"
  using mk_eval [of "20/100" 55 7205759403792794] by simp

lemma flit_0_15: "mk (15/100) = Fin (5404319552844595 / 2 ^ 55)"
  using mk_eval [of "15/100" 55 5404319552844595] by simp

lemma flit_0_65: "mk (65/100) = Fin (5854679515581645 / 2 ^ 53)"
  using mk_eval [of "65/100" 53 5854679515581645] by simp

end
