(* ===== verification/PyVal.thy ===== *)
theory PyVal
  imports PyFloat
begin

text \<open>
  Dynamic Python values: message bodies, audit payloads and the decoded form of every
  JSON text the program stores. \<open>json.loads\<close> inverts \<open>json.dumps\<close> on the values without
  bytes (\<open>json_ok\<close>), so a stored text is modelled by the value it encodes.
\<close>

datatype pyval =
    PNone
  | PBool bool
  | PInt int
  | PFloat pyfloat
  | PStr string
  | PBytes string
  | PList "pyval list"
  | PDict "(string \<times> pyval) list"

text \<open>\<open>json.dumps\<close> raises TypeError on bytes, at any depth.\<close>

fun json_ok :: "pyval \<Rightarrow> bool" where
  "json_ok (PBytes b) = False"
| "json_ok (PList xs) = list_all json_ok xs"
| "json_ok (PDict d) = list_all (\<lambda>p. json_ok (snd p)) d"
| "json_ok v = True"

section \<open>Decoding helpers\<close>

text \<open>\<open>data["k"]\<close> raises KeyError; \<open>data.get("k", dflt)\<close> does not.\<close>

definition item :: "(string \<times> pyval) list \<Rightarrow> string \<Rightarrow> pyval res" where
  "item d k = (case map_of d k of None \<Rightarrow> Inl KeyError | Some v \<Rightarrow> Inr v)"

fun as_dict :: "pyval \<Rightarrow> (string \<times> pyval) list res" where
  "as_dict (PDict d) = Inr d" | "as_dict _ = Inl TypeError"

fun as_str :: "pyval \<Rightarrow> string res" where
  "as_str (PStr s) = Inr s" | "as_str _ = Inl TypeError"

fun as_str_opt :: "pyval \<Rightarrow> string option res" where
  "as_str_opt PNone = Inr None" | "as_str_opt (PStr s) = Inr (Some s)" | "as_str_opt _ = Inl TypeError"

fun as_int :: "pyval \<Rightarrow> int res" where
  "as_int (PInt n) = Inr n" | "as_int _ = Inl TypeError"

fun as_bool :: "pyval \<Rightarrow> bool res" where
  "as_bool (PBool b) = Inr b" | "as_bool _ = Inl TypeError"

text \<open>\<open>float(v)\<close> on a number or a bool; strings are not parsed here.\<close>

fun py_float :: "pyval \<Rightarrow> pyfloat res" where
  "py_float (PFloat x) = Inr x"
| "py_float (PInt n) = int_float n"
| "py_float (PBool b) = Inr (if b then Fin 1 else Fin 0)"
| "py_float (PStr s) = Inl ValueError"
| "py_float _ = Inl TypeError"

text \<open>A number where a number is declared.\<close>

fun as_num :: "pyval \<Rightarrow> pyfloat res" where
  "as_num (PFloat x) = Inr x" | "as_num (PInt n) = Inr (fl_of_int n)" | "as_num _ = Inl TypeError"

text \<open>Truth of a value, \<open>bool(v)\<close>.\<close>

fun truthy :: "pyval \<Rightarrow> bool" where
  "truthy PNone = False"
| "truthy (PBool b) = b"
| "truthy (PInt n) = (n \<noteq> 0)"
| "truthy (PFloat x) = (x \<noteq> Fin 0)"
| "truthy (PStr s) = (s \<noteq> [])"
| "truthy (PBytes s) = (s \<noteq> [])"
| "truthy (PList xs) = (xs \<noteq> [])"
| "truthy (PDict d) = (d \<noteq> [])"

fun mapM :: "('a \<Rightarrow> 'b res) \<Rightarrow> 'a list \<Rightarrow> 'b list res" where
  "mapM f [] = Inr []"
| "mapM f (x # xs) = rbind (f x) (\<lambda>y. rbind (mapM f xs) (\<lambda>ys. Inr (y # ys)))"

lemma mapM_map [simp]: "(\<And>x. x \<in> set xs \<Longrightarrow> f (g x) = Inr x) \<Longrightarrow> mapM f (map g xs) = Inr xs"
  by (induction xs) auto

lemma mapM_Inr: "mapM f xs = Inr ys \<longleftrightarrow> list_all2 (\<lambda>x y. f x = Inr y) xs ys"
  by (induction xs arbitrary: ys) (auto simp: rbind_eq_Inr list_all2_Cons1)

fun as_list :: "pyval \<Rightarrow> pyval list res" where
  "as_list (PList xs) = Inr xs" | "as_list _ = Inl TypeError"

definition as_str_list :: "pyval \<Rightarrow> string list res" where
  "as_str_list v = rbind (as_list v) (mapM as_str)"

lemma mapM_as_str [simp]: "mapM as_str (map PStr xs) = Inr xs"
  by (rule mapM_map) simp

lemma as_str_list_PList [simp]: "as_str_list (PList (map PStr xs)) = Inr xs"
  by (simp add: as_str_list_def)

text \<open>\<open>str(v)\<close>, given the text of a value that is no string; \<open>list(v)\<close> of lists, texts, bytes and the keys of dicts.\<close>

definition value_text :: "(pyval \<Rightarrow> string) \<Rightarrow> pyval \<Rightarrow> string" where
  "value_text to_text v = (case v of PStr t \<Rightarrow> t | _ \<Rightarrow> to_text v)"

definition iterate :: "pyval \<Rightarrow> pyval list res" where
  "iterate v =
     (case v of PList xs \<Rightarrow> Inr xs | PStr t \<Rightarrow> Inr (map (\<lambda>c. PStr [c]) t) | PBytes b \<Rightarrow> Inr (map (\<lambda>c. PInt (of_char c)) b)
      | PDict d \<Rightarrow> Inr (map (PStr \<circ> fst) d) | _ \<Rightarrow> Inl TypeError)"

section \<open>Codecs\<close>

text \<open>
  The contract of every pair \<open>to_json\<close>/\<open>from_json\<close>, \<open>__str__\<close>/\<open>parse\<close>, \<open>to_dict\<close>/\<open>from_dict\<close>:
  on well-formed values decoding inverts encoding, up to the normal form the decoder
  restores (\<open>norm\<close>).
\<close>

locale codec =
  fixes enc :: "'a \<Rightarrow> 'b" and dec :: "'b \<Rightarrow> 'a res" and ok :: "'a \<Rightarrow> bool" and norm :: "'a \<Rightarrow> 'a"
  assumes dec_enc: "ok x \<Longrightarrow> dec (enc x) = Inr (norm x)"
begin

lemma enc_eq_norm: "ok x \<Longrightarrow> ok y \<Longrightarrow> enc x = enc y \<Longrightarrow> norm x = norm y"
  using dec_enc [of x] dec_enc [of y] by simp

lemma enc_inj_on: "(\<And>x. norm x = x) \<Longrightarrow> inj_on enc {x. ok x}"
  by (rule inj_onI) (metis enc_eq_norm mem_Collect_eq)

lemma mapM_dec_enc: "\<forall>x\<in>set xs. ok x \<Longrightarrow> mapM dec (map enc xs) = Inr (map norm xs)"
  by (induction xs) (auto simp: dec_enc)

end

end
