(* ===== verification/Pricing.thy ===== *)
theory Pricing
  imports PyVal
begin

text \<open>
  \<open>ahp/economy/tiers.py\<close> and \<open>ahp/economy/pricing.py\<close>: tiers, the dispatch-time hold, the
  settlement formula with its four behavioural multipliers, and the rolling overage.

  \<open>math.log10\<close> is the C library's, whose accuracy Python does not fix: it is the argument
  \<open>log10\<close> (from a positive int), and what the formula relies on is the locale \<open>log10_fun\<close>.
\<close>

section \<open>Tiers\<close>

definition TIER_MULTIPLIER :: "(string, int) dict" where
  "TIER_MULTIPLIER = [(''tiny'', 1), (''small'', 2), (''medium'', 4), (''big'', 8)]"

definition TIER_ORDER :: "string list" where
  "TIER_ORDER = [''tiny'', ''small'', ''medium'', ''big'']"

definition DEFAULT_TIER :: string where "DEFAULT_TIER = ''small''"

definition parse_tier :: "string \<Rightarrow> string res" where
  "parse_tier v = (if map_of TIER_MULTIPLIER v = None then Inl ValueError else Inr v)"

definition tier_multiplier :: "string \<Rightarrow> int res" where
  "tier_multiplier tier =
     rbind (if map_of TIER_MULTIPLIER tier = None then parse_tier tier else Inr tier)
       (\<lambda>t. case map_of TIER_MULTIPLIER t of None \<Rightarrow> Inl KeyError | Some m \<Rightarrow> Inr m)"

lemma tier_multiplier_eq:
  "tier_multiplier t = (case map_of TIER_MULTIPLIER t of None \<Rightarrow> Inl ValueError | Some m \<Rightarrow> Inr m)"
  by (simp add: tier_multiplier_def parse_tier_def split: option.splits)

lemma tier_multiplier_range: "tier_multiplier t = Inr m \<Longrightarrow> 1 \<le> m \<and> m \<le> 8"
  by (auto simp: tier_multiplier_eq TIER_MULTIPLIER_def split: option.splits if_splits)

lemma tier_multiplier_known: "(\<exists>m. tier_multiplier t = Inr m) \<longleftrightarrow> t \<in> set TIER_ORDER"
  by (auto simp: tier_multiplier_eq TIER_MULTIPLIER_def TIER_ORDER_def)

lemma parse_tier_known: "parse_tier t = (if t \<in> set TIER_ORDER then Inr t else Inl ValueError)"
  by (auto simp: parse_tier_def TIER_MULTIPLIER_def TIER_ORDER_def)

section \<open>Constants\<close>

definition DEFAULT_BASE_RATE :: pyfloat where "DEFAULT_BASE_RATE = flit (2/10000)"
definition DEFAULT_EXPECTED_RESPONSE_CHARS :: int where "DEFAULT_EXPECTED_RESPONSE_CHARS = 800"
definition PROTOCOL_TAX_RATE :: pyfloat where "PROTOCOL_TAX_RATE = flit (5/100)"
definition BROKER_TAX_SHARE :: pyfloat where "BROKER_TAX_SHARE = flit (60/100)"
definition COMMONS_TAX_SHARE :: pyfloat where "COMMONS_TAX_SHARE = fsub fone BROKER_TAX_SHARE"
definition RETENTION_ALPHA :: pyfloat where "RETENTION_ALPHA = flit (5/100)"
definition REPUTATION_FLOOR_MULT :: pyfloat where "REPUTATION_FLOOR_MULT = flit (1/2)"
definition REPUTATION_CEIL_MULT :: pyfloat where "REPUTATION_CEIL_MULT = flit (3/2)"
definition VERBOSITY_FLOOR_MULT :: pyfloat where "VERBOSITY_FLOOR_MULT = flit (1/2)"
definition VERBOSITY_CEIL_MULT :: pyfloat where "VERBOSITY_CEIL_MULT = flit (11/10)"
definition LAMBDA_AVG_OVERAGE :: pyfloat where "LAMBDA_AVG_OVERAGE = flit (5/100)"

definition EXPECTED_LATENCY_MS :: "(string, pyfloat) dict" where
  "EXPECTED_LATENCY_MS = [(''tiny'', Fin 200), (''small'', Fin 600), (''medium'', Fin 1500), (''big'', Fin 4000)]"

section \<open>Data\<close>

record SettlementInputs =
  si_base_rate :: pyfloat
  si_tier :: string
  si_response_chars :: int
  si_max_response_chars :: int
  si_actual_latency_ms :: pyfloat
  si_leaf_rate :: pyfloat
  si_completed_with_caller :: int
  si_server_reputation :: pyfloat
  si_server_avg_overage :: pyfloat
  si_tier_verdict :: string

record Settlement =
  st_pre_tax :: pyfloat
  st_to_server :: pyfloat
  st_to_compute :: pyfloat
  st_to_broker :: pyfloat
  st_to_commons :: pyfloat
  st_effective_chars :: int

definition total_tax :: "Settlement \<Rightarrow> pyfloat" where
  "total_tax st = fadd (st_to_broker st) (st_to_commons st)"

record Hold =
  h_amount :: pyfloat
  h_estimated_chars :: int

section \<open>Calculations\<close>

definition character_count :: "string option list \<Rightarrow> int" where
  "character_count parts = sum_list (map (\<lambda>p. case p of None \<Rightarrow> 0 | Some s \<Rightarrow> py_len s) parts)"

text \<open>
  \<open>estimate_hold\<close> also computes a compute cost it never uses; its only effect would be the
  OverflowError that the first product has raised already.
\<close>

definition estimate_hold :: "pyfloat \<Rightarrow> string \<Rightarrow> int \<Rightarrow> int \<Rightarrow> Hold res" where
  "estimate_hold base_rate tier prompt_chars max_response_chars =
     (let chars = max 0 prompt_chars + max 0 max_response_chars in
      rbind (tier_multiplier tier) (\<lambda>tm.
      rbind (int_float tm) (\<lambda>tmf.
      rbind (int_float chars) (\<lambda>cf.
        Inr \<lparr>h_amount = fmul (fmul base_rate tmf) cf, h_estimated_chars = chars\<rparr>))))"

definition verbosity_multiplier :: "pyfloat \<Rightarrow> pyfloat" where
  "verbosity_multiplier avg_overage =
     (let raw = fsub (Fin 2) (fmax fzero avg_overage)
      in fmax VERBOSITY_FLOOR_MULT (fmin VERBOSITY_CEIL_MULT raw))"

definition compute_multiplier :: "pyfloat \<Rightarrow> string \<Rightarrow> string \<Rightarrow> pyfloat" where
  "compute_multiplier actual_latency_ms tier tier_verdict =
     (let expected = dict_get EXPECTED_LATENCY_MS tier (Fin 1000);
          too_fast = flt actual_latency_ms (fmul (flit (30/100)) expected);
          latency_mult = (if too_fast then flit (1/2) else fone);
          verdict_mult = (if tier_verdict = ''sub_tier'' then flit (1/2) else fone)
      in fmul latency_mult verdict_mult)"

definition retention_multiplier :: "(int \<Rightarrow> pyfloat) \<Rightarrow> int \<Rightarrow> pyfloat" where
  "retention_multiplier log10 completed = fadd fone (fmul RETENTION_ALPHA (log10 (1 + max 0 completed)))"

definition reputation_multiplier :: "pyfloat \<Rightarrow> pyfloat" where
  "reputation_multiplier reputation =
     (let rep = fmax fzero (fmin fone reputation);
          rep_mult = fadd REPUTATION_FLOOR_MULT rep
      in fmax REPUTATION_FLOOR_MULT (fmin REPUTATION_CEIL_MULT rep_mult))"

definition settle_payment :: "(int \<Rightarrow> pyfloat) \<Rightarrow> SettlementInputs \<Rightarrow> Settlement res" where
  "settle_payment log10 inp =
     (let chars = max 0 (min (si_response_chars inp) (si_max_response_chars inp)) in
      rbind (tier_multiplier (si_tier inp)) (\<lambda>tm.
      let retention = retention_multiplier log10 (si_completed_with_caller inp);
          rep_mult = reputation_multiplier (si_server_reputation inp);
          verbosity_mult = verbosity_multiplier (si_server_avg_overage inp);
          compute_mult = compute_multiplier (si_actual_latency_ms inp) (si_tier inp) (si_tier_verdict inp)
      in rbind (int_float tm) (\<lambda>tmf.
         rbind (int_float chars) (\<lambda>cf.
         let pre_tax = fmul (fmul (fmul (fmul (fmul (fmul (si_base_rate inp) tmf) cf)
                         retention) rep_mult) verbosity_mult) compute_mult
         in rbind (fdiv cf (Fin 1000)) (\<lambda>kchars.
            let compute_cost = fmul (si_leaf_rate inp) kchars;
                protocol_tax = fmul pre_tax PROTOCOL_TAX_RATE;
                to_broker = fmul protocol_tax BROKER_TAX_SHARE;
                to_commons = fmul protocol_tax COMMONS_TAX_SHARE;
                to_server = fsub (fsub pre_tax compute_cost) protocol_tax
            in Inr \<lparr>st_pre_tax = pre_tax, st_to_server = to_server, st_to_compute = compute_cost,
                 st_to_broker = to_broker, st_to_commons = to_commons, st_effective_chars = chars\<rparr>)))))"

text \<open>\<open>max(0.0, n)\<close> of an int keeps the int when it is positive.\<close>

definition update_avg_overage :: "pyfloat \<Rightarrow> int \<Rightarrow> int \<Rightarrow> pyfloat \<Rightarrow> pyfloat res" where
  "update_avg_overage current new_response_chars max_response_chars lmbd =
     (if max_response_chars \<le> 0 then Inr current
      else rbind (if 0 < new_response_chars then int_float new_response_chars else Inr fzero) (\<lambda>n.
           rbind (int_float max_response_chars) (\<lambda>m.
           rbind (fdiv n m) (\<lambda>new_ratio.
             Inr (fadd (fmul (fsub fone lmbd) current) (fmul lmbd new_ratio))))))"

section \<open>What the formula relies on of \<open>math.log10\<close>\<close>

locale log10_fun =
  fixes log10 :: "int \<Rightarrow> pyfloat"
  assumes finite_log: "1 \<le> n \<Longrightarrow> n < 2 ^ 1024 \<Longrightarrow> is_fin (log10 n)"
    and log_1: "log10 1 = Fin 0"
    and log_mono: "1 \<le> m \<Longrightarrow> m \<le> n \<Longrightarrow> n < 2 ^ 1024 \<Longrightarrow> fval (log10 m) \<le> fval (log10 n)"
    and log_pow: "k \<le> 100 \<Longrightarrow> log10 (10 ^ k) = Fin (of_nat k)"
begin

lemma log_cases:
  assumes "1 \<le> n" "n < 2 ^ 1024" obtains x where "log10 n = Fin x" "0 \<le> x"
  using finite_log [OF assms] log_mono [of 1 n] assms by (auto simp: is_fin_iff log_1)

lemma log_le:
  assumes "1 \<le> n" "n \<le> 10 ^ k" "k \<le> 100" obtains x where "log10 n = Fin x" "0 \<le> x" "x \<le> of_nat k"
proof -
  have "(10::int) ^ k \<le> 10 ^ 100" using assms(3) by (intro power_increasing) auto
  also have "\<dots> < 2 ^ 1024" by simp
  finally have b: "(10::int) ^ k < 2 ^ 1024" .
  with assms(2) have "n < 2 ^ 1024" by simp
  with assms(1) obtain x where "log10 n = Fin x" "0 \<le> x" by (rule log_cases)
  moreover have "fval (log10 n) \<le> fval (log10 (10 ^ k))" using assms b by (intro log_mono) auto
  ultimately show thesis using that assms(3) by (simp add: log_pow)
qed

end

text \<open>The integer part of the decimal logarithm is one such function.\<close>

fun ilog10_aux :: "nat \<Rightarrow> nat \<Rightarrow> nat" where
  "ilog10_aux 0 n = 0"
| "ilog10_aux (Suc f) n = (if n < 10 then 0 else Suc (ilog10_aux f (n div 10)))"

definition floor_log10 :: "int \<Rightarrow> pyfloat" where
  "floor_log10 n = Fin (of_nat (ilog10_aux 400 (nat n)))"

lemma ilog10_mono: "m \<le> n \<Longrightarrow> ilog10_aux f m \<le> ilog10_aux f n"
proof (induction f arbitrary: m n)
  case (Suc f)
  from Suc.prems have "m div 10 \<le> n div 10" by (rule div_le_mono)
  with Suc show ?case by auto
qed simp

lemma ilog10_pow: "k \<le> f \<Longrightarrow> ilog10_aux f (10 ^ k) = k"
proof (induction f arbitrary: k)
  case (Suc f)
  then show ?case by (cases k) auto
qed simp

interpretation floor_log10: log10_fun floor_log10
proof
  show "floor_log10 1 = Fin 0" using ilog10_pow [of 0 400] by (simp add: floor_log10_def)
  show "k \<le> 100 \<Longrightarrow> floor_log10 (10 ^ k) = Fin (of_nat k)" for k
    using ilog10_pow [of k 400] by (simp add: floor_log10_def nat_power_eq)
qed (simp_all add: floor_log10_def is_fin_iff ilog10_mono)

section \<open>Ranges of the multipliers\<close>

lemma mk_dyadic:
  "mk (1/2) = Fin (1/2)" "mk (3/2) = Fin (3/2)"
  by (rule mk_exact [of _ 1 "-1"] mk_exact [of _ 3 "-1"]; simp add: power_int_minus)+

lemma flit_1_1: "mk (11/10) = Fin (4953959590107546 / 2 ^ 52)"
  using mk_eval [of "11/10" 52 4953959590107546] by simp

lemma const_simps [simp]:
  "PROTOCOL_TAX_RATE = Fin (7205759403792794 / 2 ^ 57)"
  "BROKER_TAX_SHARE = Fin (5404319552844595 / 2 ^ 53)"
  "RETENTION_ALPHA = Fin (7205759403792794 / 2 ^ 57)"
  "REPUTATION_FLOOR_MULT = Fin (1/2)" "REPUTATION_CEIL_MULT = Fin (3/2)"
  "VERBOSITY_FLOOR_MULT = Fin (1/2)" "VERBOSITY_CEIL_MULT = Fin (4953959590107546 / 2 ^ 52)"
  unfolding PROTOCOL_TAX_RATE_def BROKER_TAX_SHARE_def RETENTION_ALPHA_def REPUTATION_FLOOR_MULT_def
    REPUTATION_CEIL_MULT_def VERBOSITY_FLOOR_MULT_def VERBOSITY_CEIL_MULT_def
  by (simp_all only: flit_0_05 flit_0_6 mk_dyadic flit_1_1)

lemma lambda_overage [simp]: "LAMBDA_AVG_OVERAGE = Fin (7205759403792794 / 2 ^ 57)"
  by (simp only: LAMBDA_AVG_OVERAGE_def flit_0_05)

lemma commons_share [simp]: "COMMONS_TAX_SHARE = Fin (3602879701896397 / 2 ^ 53)"
proof -
  have "mk (1 - 5404319552844595 / 2 ^ 53) = Fin (3602879701896397 / 2 ^ 53)"
    using mk_exact [of "3602879701896397 / 2 ^ 53" 3602879701896397 "-53"] by (simp add: power_int_minus)
  then show ?thesis by (simp add: COMMONS_TAX_SHARE_def)
qed

lemma verbosity_range: "in_range (1/2) (4953959590107546 / 2 ^ 52) (verbosity_multiplier a)"
  unfolding verbosity_multiplier_def Let_def const_simps by (rule fmax_fmin_range) simp

lemma reputation_range: "in_range (1/2) (3/2) (reputation_multiplier a)"
  unfolding reputation_multiplier_def Let_def const_simps by (rule fmax_fmin_range) simp

lemma compute_range: "compute_multiplier l t v \<in> {Fin (1/4), Fin (1/2), Fin 1}"
proof -
  have "mk (1/4) = Fin (1/4)" by (rule mk_exact [of _ 1 "-2"]) (simp_all add: power_int_minus)
  moreover have "mk 1 = Fin 1" using mk_of_int [of 1] by simp
  ultimately show ?thesis by (simp add: compute_multiplier_def Let_def mk_dyadic)
qed

text \<open>With no common history, at most even reputation and no brevity bonus, no multiplier exceeds 1.\<close>

lemma mk_1 [simp]: "mk 1 = Fin 1"
  using mk_of_int [of 1] by simp

lemma rnd_1 [simp]: "rnd 1 = 1"
  using rnd_of_int [of 1] by simp

lemma mk_2 [simp]: "mk 2 = Fin 2"
  using mk_of_int [of 2] by simp

lemma reputation_neutral:
  assumes "fle r (Fin (1/2))"
  shows "in_range (1/2) 1 (reputation_multiplier r)"
proof (cases r)
  case (Fin x)
  define y where "y = max 0 (min 1 x)"
  have y: "0 \<le> y" "y \<le> 1/2" using assms Fin by (auto simp: y_def)
  have h: "rnd (1/2) = (1/2::rat)" using mk_dyadic(1) by (metis mk_FinD)
  have "in_range (1/2) 1 (mk (1/2 + y))" using y h by (intro mk_in_range) auto
  then show ?thesis
    by (auto simp: reputation_multiplier_def Fin y_def [symmetric] Let_def elim!: in_rangeE)
qed (use assms mk_dyadic in \<open>auto simp: fle_def feq_def reputation_multiplier_def Let_def fmin_def fmax_def\<close>)

lemma verbosity_neutral:
  assumes "fle (Fin 1) a"
  shows "in_range (1/2) 1 (verbosity_multiplier a)"
proof (cases a)
  case (Fin x)
  have x: "1 \<le> x" using assms Fin by simp
  have "rnd (2 - x) \<le> 1" using rnd_mono [of "2 - x" 1] x by simp
  then have "mk (2 - x) = NInf \<or> (\<exists>z. mk (2 - x) = Fin z \<and> z \<le> 1)"
    by (auto simp: mk_def Let_def)
  then show ?thesis using x
    by (auto simp: verbosity_multiplier_def Fin Let_def max_def min_def fmax_def fmin_def)
qed (use assms in \<open>auto simp: fle_def feq_def verbosity_multiplier_def Let_def fmin_def fmax_def fsub_def\<close>)

lemma scale_down:
  assumes "in_range lo 1 m" "0 \<le> lo" "0 \<le> x" "rnd x = x" "x < 2 ^ 1024"
  obtains y where "fmul (Fin x) m = Fin y" "0 \<le> y" "y \<le> x" "rnd y = y"
proof -
  obtain k where k: "m = Fin k" "lo \<le> k" "k \<le> 1" using assms(1) by (rule in_rangeE)
  have "0 \<le> x * k" "x * k \<le> x" using assms k by (simp_all add: mult_left_le)
  then have "in_range 0 x (mk (x * k))" using assms by (intro mk_in_range) auto
  then obtain y where "mk (x * k) = Fin y" "0 \<le> y" "y \<le> x" by (rule in_rangeE)
  then show thesis using that k(1) by (metis fmul.simps(1) mk_FinD rnd_idem)
qed

lemma compute_neutral: "in_range (1/4) 1 (compute_multiplier l t v)"
  using compute_range [of l t v] by auto

lemma int_float_Inr: "int_float n = Inr a \<Longrightarrow> a = Fin (rnd (of_int n)) \<and> rnd (of_int n) < 2 ^ 1024"
  by (auto simp: int_float_def fl_of_int_def mk_def Let_def split: pyfloat.splits if_splits)

lemma int_float_small: "\<bar>n\<bar> \<le> 2 ^ 53 \<Longrightarrow> int_float n = Inr (Fin (of_int n))"
  by (simp add: int_float_def fl_of_int_def mk_of_int)

lemma tier_float: "tier_multiplier t = Inr m \<Longrightarrow> int_float m = Inr (Fin (of_int m))"
  using tier_multiplier_range [of t m] by (intro int_float_small) auto

section \<open>The split\<close>

text \<open>The four shares, given the price \<open>P\<close> and the compute cost \<open>C\<close>, all finite.\<close>

lemma split_error:
  fixes P C :: rat
  defines "T \<equiv> rnd (P * (7205759403792794 / 2 ^ 57))"
  defines "U \<equiv> rnd (P - C)"
  defines "B \<equiv> rnd (T * (5404319552844595 / 2 ^ 53))"
  defines "M \<equiv> rnd (T * (3602879701896397 / 2 ^ 53))"
  shows "\<bar>rnd (U - T) + C + B + M - P\<bar> \<le> (\<bar>P\<bar> + \<bar>C\<bar>) / 2 ^ 51 + 1 / 2 ^ 1072"
proof -
  define e :: rat where "e = 1 / 2 ^ 1075"
  define d :: rat where "d = 1 / 2 ^ 53"
  have e: "0 \<le> e" "1 / 2 ^ 1072 = 8 * e" and d: "0 \<le> d" "d \<le> 1 / 1024" by (simp_all add: e_def d_def)
  have err: "\<bar>rnd x - x\<bar> \<le> \<bar>x\<bar> * d + e" for x
    using rnd_err [of x] by (simp add: d_def e_def)
  define p where "p = \<bar>P\<bar>"
  define c where "c = \<bar>C\<bar>"
  have 1: "\<bar>P * (7205759403792794 / 2 ^ 57)\<bar> \<le> p / 16" by (simp add: p_def abs_mult)
  have d_le: "x * d \<le> x / 1024" if "0 \<le> x" for x using mult_left_mono [OF d(2) that] by simp
  have "\<bar>rnd X\<bar> \<le> p / 16 + (p / 16 / 1024 + e)" if "\<bar>X\<bar> \<le> p / 16" for X
    using err [of X] that d_le [OF abs_ge_zero, of X] by linarith
  from this [OF 1] have "\<bar>T\<bar> \<le> p / 16 + (p / 16 / 1024 + e)" by (simp only: T_def)
  then have T: "\<bar>T\<bar> \<le> p / 8 + e" by (simp add: p_def)
  have U1: "\<bar>U - (P - C)\<bar> \<le> (p + c) * d + e"
  proof -
    have "\<bar>P - C\<bar> * d \<le> (p + c) * d" using d(1) by (intro mult_right_mono) (auto simp: p_def c_def)
    with err [of "P - C"] show ?thesis unfolding U_def by linarith
  qed
  have U: "\<bar>U\<bar> \<le> 2 * (p + c) + e"
    using U1 d_le [of "p + c"] by (simp add: p_def c_def) linarith
  have S: "\<bar>rnd (U - T) - (U - T)\<bar> \<le> (2 * (p + c) + p / 8) * d + 2 * e"
  proof -
    have "\<bar>U - T\<bar> * d \<le> (2 * (p + c) + p / 8 + 2 * e) * d" using d(1) T U by (intro mult_right_mono) auto
    also have "\<dots> \<le> (2 * (p + c) + p / 8) * d + e"
      using d_le [of "2 * e"] e by (simp add: distrib_right)
    finally show ?thesis using err [of "U - T"] by linarith
  qed
  have BM: "\<bar>B + M - T\<bar> \<le> p / 8 * d + 3 * e"
  proof -
    have "\<bar>B - T * (5404319552844595 / 2 ^ 53)\<bar> \<le> \<bar>T\<bar> * (5404319552844595 / 2 ^ 53) * d + e"
      "\<bar>M - T * (3602879701896397 / 2 ^ 53)\<bar> \<le> \<bar>T\<bar> * (3602879701896397 / 2 ^ 53) * d + e"
      using err [of "T * (5404319552844595 / 2 ^ 53)"] err [of "T * (3602879701896397 / 2 ^ 53)"]
      unfolding B_def M_def by (simp_all only: abs_mult) simp_all
    moreover have "T * (5404319552844595 / 2 ^ 53) + T * (3602879701896397 / 2 ^ 53) = T"
      by (simp add: field_simps)
    moreover have "\<bar>T\<bar> * (5404319552844595 / 2 ^ 53) * d + \<bar>T\<bar> * (3602879701896397 / 2 ^ 53) * d = \<bar>T\<bar> * d"
      by (simp add: field_simps)
    moreover have "\<bar>T\<bar> * d \<le> (p / 8 + e) * d" using d(1) T by (intro mult_right_mono) auto
    moreover have "(p / 8 + e) * d \<le> p / 8 * d + e" using d_le [of e] e by (simp add: distrib_right)
    ultimately show ?thesis by linarith
  qed
  have "\<bar>rnd (U - T) + C + B + M - P\<bar>
      \<le> \<bar>rnd (U - T) - (U - T)\<bar> + \<bar>U - (P - C)\<bar> + \<bar>B + M - T\<bar>" by linarith
  also have "\<dots> \<le> (2 * (p + c) + p / 8) * d + (p + c) * d + p / 8 * d + 6 * e"
    using S U1 BM by linarith
  also have "\<dots> \<le> 4 * (p + c) * d + 8 * e"
  proof -
    have "0 \<le> p * d" "0 \<le> c * d" using d(1) by (simp_all add: p_def c_def)
    moreover have "(2 * (p + c) + p / 8) * d + (p + c) * d + p / 8 * d + 6 * e
        = 13 / 4 * (p * d) + 3 * (c * d) + 6 * e" by (simp add: field_simps)
    moreover have "4 * (p + c) * d + 8 * e = 4 * (p * d) + 4 * (c * d) + 8 * e" by (simp add: field_simps)
    moreover have "13 / 4 * x + 3 * y + 6 * z \<le> 4 * x + 4 * y + 8 * z"
      if "0 \<le> x" "0 \<le> y" "0 \<le> z" for x y z :: rat using that by simp
    ultimately show ?thesis using e(1) by (simp only:)
  qed
  also have "\<dots> = (\<bar>P\<bar> + \<bar>C\<bar>) / 2 ^ 51 + 1 / 2 ^ 1072" by (simp only: e(2) d_def p_def c_def) simp
  finally show ?thesis .
qed

lemma settle_split:
  assumes "settle_payment log10 inp = Inr st"
  shows "st_to_broker st = fmul (fmul (st_pre_tax st) PROTOCOL_TAX_RATE) BROKER_TAX_SHARE"
    "st_to_commons st = fmul (fmul (st_pre_tax st) PROTOCOL_TAX_RATE) COMMONS_TAX_SHARE"
    "st_to_server st = fsub (fsub (st_pre_tax st) (st_to_compute st)) (fmul (st_pre_tax st) PROTOCOL_TAX_RATE)"
    "st_effective_chars st = max 0 (min (si_response_chars inp) (si_max_response_chars inp))"
  using assms by (auto simp: settle_payment_def Let_def rbind_eq_Inr simp del: const_simps commons_share)

lemma settle_price:
  assumes "settle_payment log10 inp = Inr st"
  obtains tm cf where "tier_multiplier (si_tier inp) = Inr tm"
    "int_float (max 0 (min (si_response_chars inp) (si_max_response_chars inp))) = Inr cf"
    "st_pre_tax st = fmul (fmul (fmul (fmul (fmul (fmul (si_base_rate inp) (Fin (of_int tm))) cf)
        (retention_multiplier log10 (si_completed_with_caller inp)))
        (reputation_multiplier (si_server_reputation inp))) (verbosity_multiplier (si_server_avg_overage inp)))
        (compute_multiplier (si_actual_latency_ms inp) (si_tier inp) (si_tier_verdict inp))"
    "\<exists>k. fdiv cf (Fin 1000) = Inr k \<and> st_to_compute st = fmul (si_leaf_rate inp) k"
proof -
  from assms obtain tm where tm: "tier_multiplier (si_tier inp) = Inr tm"
    by (auto simp: settle_payment_def Let_def rbind_eq_Inr)
  from assms tm obtain cf k where
    "int_float (max 0 (min (si_response_chars inp) (si_max_response_chars inp))) = Inr cf"
    "fdiv cf (Fin 1000) = Inr k" "st_to_compute st = fmul (si_leaf_rate inp) k"
    "st_pre_tax st = fmul (fmul (fmul (fmul (fmul (fmul (si_base_rate inp) (Fin (of_int tm))) cf)
        (retention_multiplier log10 (si_completed_with_caller inp)))
        (reputation_multiplier (si_server_reputation inp))) (verbosity_multiplier (si_server_avg_overage inp)))
        (compute_multiplier (si_actual_latency_ms inp) (si_tier inp) (si_tier_verdict inp))"
    by (auto simp: settle_payment_def Let_def rbind_eq_Inr tier_float [OF tm]
        simp del: const_simps commons_share fdiv.simps)
  then show thesis using tm by (intro that) blast+
qed

lemma settle_total:
  "(\<exists>st. settle_payment log10 inp = Inr st) \<longleftrightarrow> si_tier inp \<in> set TIER_ORDER \<and>
     is_fin (fl_of_int (max 0 (min (si_response_chars inp) (si_max_response_chars inp))))"
  (is "?L \<longleftrightarrow> ?R")
proof
  assume ?L
  then show ?R
    by (auto elim!: settle_price simp: int_float_def is_fin_def tier_multiplier_known [symmetric] split: pyfloat.splits)
next
  assume ?R
  then obtain tm x where "tier_multiplier (si_tier inp) = Inr tm"
    "int_float (max 0 (min (si_response_chars inp) (si_max_response_chars inp))) = Inr (Fin x)"
    by (auto simp: int_float_def is_fin_iff tier_multiplier_known [symmetric])
  then show ?L
    by (simp add: settle_payment_def Let_def tier_float del: const_simps commons_share)
qed

section \<open>Properties\<close>

text \<open>C4: The four recipient amounts of a settlement add up to the price the caller pays: as rationals their
  sum differs from \<open>pre_tax\<close> by at most one part in 2^51 of price plus compute cost (the documented
  exact sum holds only up to this rounding).\<close>

theorem settlement_conserves:
  assumes "settle_payment log10 inp = Inr st" and "is_fin (st_to_server st)"
  shows "\<bar>fval (st_to_server st) + fval (st_to_compute st) + fval (st_to_broker st) + fval (st_to_commons st)
      - fval (st_pre_tax st)\<bar> \<le> (\<bar>fval (st_pre_tax st)\<bar> + \<bar>fval (st_to_compute st)\<bar>) / 2 ^ 51 + 1 / 2 ^ 1072"
proof -
  note sp = settle_split [OF assms(1)]
  from assms(2) is_fin_fsubD obtain P C T where f: "st_pre_tax st = Fin P" "st_to_compute st = Fin C"
    "fmul (st_pre_tax st) PROTOCOL_TAX_RATE = Fin T" unfolding sp(3) by (metis is_fin_iff)
  have T: "T = rnd (P * (7205759403792794 / 2 ^ 57))" using f(1,3) mk_FinD by simp
  obtain S where S: "st_to_server st = Fin S" using assms(2) by (auto simp: is_fin_iff)
  have "is_fin (fsub (st_pre_tax st) (st_to_compute st))" using assms(2) is_fin_fsubD unfolding sp(3) by blast
  then have U: "mk (P - C) = Fin (rnd (P - C))" using f(1,2) by (auto simp: is_fin_iff mk_FinD)
  then have Sv: "S = rnd (rnd (P - C) - T)" using S sp(3) f by (simp add: mk_FinD)
  have lt: "\<bar>T\<bar> < 2 ^ 1024" using f(1,3) by (auto simp: mk_def Let_def T split: if_splits)
  have Ta: "rnd \<bar>T\<bar> = \<bar>T\<bar>" using T by (cases "0 \<le> T") (simp_all add: rnd_minus)
  have "\<bar>T * k\<bar> \<le> \<bar>T\<bar>" if "0 \<le> k" "k \<le> 1" for k using that by (simp add: abs_mult mult_left_le)
  then have share: "mk (T * k) = Fin (rnd (T * k))" if "0 \<le> k" "k \<le> 1" for k
    using that Ta lt by (intro mk_abs_le [of _ "\<bar>T\<bar>"]) auto
  have "st_to_broker st = Fin (rnd (T * (5404319552844595 / 2 ^ 53)))"
    "st_to_commons st = Fin (rnd (T * (3602879701896397 / 2 ^ 53)))"
    using sp(1,2) f(3) share [of "5404319552844595 / 2 ^ 53"] share [of "3602879701896397 / 2 ^ 53"] by simp_all
  then show ?thesis using split_error [of P C] f(1,2) S Sv T by simp
qed

theorem settlement_conserves_witness:
  "\<exists>st. settle_payment floor_log10 \<lparr>si_base_rate = Fin 1, si_tier = ''small'', si_response_chars = 0,
       si_max_response_chars = 800, si_actual_latency_ms = Fin 700, si_leaf_rate = Fin 1,
       si_completed_with_caller = 0, si_server_reputation = Fin 1, si_server_avg_overage = Fin 1,
       si_tier_verdict = ''matched''\<rparr> = Inr st \<and>
     \<bar>fval (st_to_server st) + fval (st_to_compute st) + fval (st_to_broker st) + fval (st_to_commons st)
      - fval (st_pre_tax st)\<bar> \<le> (\<bar>fval (st_pre_tax st)\<bar> + \<bar>fval (st_to_compute st)\<bar>) / 2 ^ 51 + 1 / 2 ^ 1072"
proof -
  let ?inp = "\<lparr>si_base_rate = Fin 1, si_tier = ''small'', si_response_chars = 0,
       si_max_response_chars = 800, si_actual_latency_ms = Fin 700, si_leaf_rate = Fin 1,
       si_completed_with_caller = 0, si_server_reputation = Fin 1, si_server_avg_overage = Fin 1,
       si_tier_verdict = ''matched''\<rparr>"
  have "\<exists>st. settle_payment floor_log10 ?inp = Inr st"
    unfolding settle_total by (simp add: TIER_ORDER_def fl_of_int_def is_fin_def)
  then obtain st where st: "settle_payment floor_log10 ?inp = Inr st" by blast
  obtain r where r: "reputation_multiplier (Fin 1) = Fin r"
    using reputation_range by (rule in_rangeE)
  obtain v where v: "verbosity_multiplier (Fin 1) = Fin v"
    using verbosity_range by (rule in_rangeE)
  obtain c where c: "compute_multiplier (Fin 700) ''small'' ''matched'' = Fin c"
    using compute_neutral by (rule in_rangeE)
  have z: "floor_log10 1 = Fin 0" by (rule floor_log10.log_1)
  have "int_float 2 = Inr (Fin 2)" "int_float 0 = Inr (Fin 0)"
    using int_float_small [of 2] int_float_small [of 0] by simp_all
  then have "is_fin (st_to_server st)"
    using st r v c z by (auto simp: settle_payment_def Let_def rbind_eq_Inr tier_multiplier_eq TIER_MULTIPLIER_def
        retention_multiplier_def is_fin_def split: if_splits)
  with st settlement_conserves show ?thesis by blast
qed

lemma mk_pos_cases:
  assumes "0 \<le> x" shows "mk x = PInf \<or> mk x = Fin (rnd x) \<and> rnd x < 2 ^ 1024"
proof -
  have "- (2 ^ 1024) < rnd x" by (rule less_le_trans [OF _ rnd_nonneg [OF assms]]) simp
  then show ?thesis by (simp add: mk_def Let_def)
qed

lemma is_fin_fmulD: "is_fin (fmul a b) \<Longrightarrow> is_fin a \<and> is_fin b"
  by (cases a; cases b) (auto simp: is_fin_def inf_sgn_def split: if_splits)

lemma mk_finD: "0 \<le> x \<Longrightarrow> is_fin (mk x) \<Longrightarrow> mk x = Fin (rnd x) \<and> rnd x < 2 ^ 1024"
  using mk_pos_cases [of x] by (auto simp: is_fin_def)

lemma mk_below: "0 \<le> x \<Longrightarrow> rnd x < 2 ^ 1024 \<Longrightarrow> mk x = Fin (rnd x)"
  using rnd_nonneg [of x] by (simp add: mk_def Let_def not_le less_le_trans [of "- (2 ^ 1024)" 0])

text \<open>What the hold is for: no price exceeds it while the multipliers are neutral.\<close>

lemma price_at_most_hold:
  assumes log: "log10_fun log10"
    and h: "estimate_hold (si_base_rate inp) (si_tier inp) prompt (si_max_response_chars inp) = Inr h"
    and st: "settle_payment log10 inp = Inr st"
    and fin: "is_fin (h_amount h)" "si_base_rate inp = Fin b" "0 \<le> b"
    and neutral: "si_completed_with_caller inp \<le> 0" "fle (si_server_reputation inp) (Fin (1/2))"
      "fle (Fin 1) (si_server_avg_overage inp)"
  shows "not_neg (st_pre_tax st) \<and> fle (st_pre_tax st) (h_amount h)"
proof -
  define c where "c = max 0 (min (si_response_chars inp) (si_max_response_chars inp))"
  define d where "d = max 0 prompt + max 0 (si_max_response_chars inp)"
  have cd: "0 \<le> c" "c \<le> d" by (auto simp: c_def d_def)
  from h obtain tm df where tm: "tier_multiplier (si_tier inp) = Inr tm" and df: "int_float d = Inr df"
    and hv: "h_amount h = fmul (fmul (Fin b) (Fin (of_int tm))) df"
    by (auto simp: estimate_hold_def Let_def rbind_eq_Inr d_def [symmetric] fin(2) tier_float)
  from st obtain tm' cf where tm': "tier_multiplier (si_tier inp) = Inr tm'" and cf: "int_float c = Inr cf"
    and pv': "st_pre_tax st = fmul (fmul (fmul (fmul (fmul (fmul (si_base_rate inp) (Fin (of_int tm'))) cf)
        (retention_multiplier log10 (si_completed_with_caller inp)))
        (reputation_multiplier (si_server_reputation inp))) (verbosity_multiplier (si_server_avg_overage inp)))
        (compute_multiplier (si_actual_latency_ms inp) (si_tier inp) (si_tier_verdict inp))"
    unfolding c_def by (rule settle_price)
  have "tm' = tm" using tm tm' by simp
  note pv = pv' [unfolded this fin(2)]
  have r1: "retention_multiplier log10 (si_completed_with_caller inp) = Fin 1"
    using neutral(1) log10_fun.log_1 [OF log] by (simp add: retention_multiplier_def max_absorb1)
  have tm0: "0 \<le> tm" using tier_multiplier_range [OF tm] by simp
  have bt: "0 \<le> b * of_int tm" using fin(3) tm0 by simp
  have "is_fin (mk (b * of_int tm))" using is_fin_fmulD fin(1) unfolding hv by (metis fmul.simps(1))
  from mk_finD [OF bt this] have u: "mk (b * of_int tm) = Fin (rnd (b * of_int tm))" by blast
  define u where "u = rnd (b * of_int tm)"
  have u0: "0 \<le> u" unfolding u_def using bt by (rule rnd_nonneg)
  define x where "x = rnd (of_int c)"
  define y where "y = rnd (of_int d)"
  have xy: "cf = Fin x" "df = Fin y" using int_float_Inr [OF cf] int_float_Inr [OF df] by (simp_all only: x_def y_def)
  have x0: "0 \<le> x" "x \<le> y" unfolding x_def y_def using cd by (auto intro!: rnd_nonneg rnd_mono)
  have uy: "0 \<le> u * x" "u * x \<le> u * y" "0 \<le> u * y" using x0 u0 by (auto intro: mult_left_mono)
  have hm: "h_amount h = mk (u * y)" by (simp only: hv xy fmul.simps u u_def)
  with mk_finD [OF uy(3)] fin(1) have hy: "h_amount h = Fin (rnd (u * y))" "rnd (u * y) < 2 ^ 1024" by simp_all
  have m: "rnd (u * x) \<le> rnd (u * y)" "0 \<le> rnd (u * x)" using uy by (auto intro: rnd_mono rnd_nonneg)
  have p0: "fmul (Fin u) (Fin x) = Fin (rnd (u * x))" unfolding fmul.simps
    by (rule mk_below [OF uy(1)]) (rule le_less_trans [OF m(1) hy(2)])
  have p0x: "rnd (u * x) < 2 ^ 1024" by (rule le_less_trans [OF m(1) hy(2)])
  have one: "in_range 0 1 (Fin 1)" by simp
  obtain p1 where p1: "fmul (Fin (rnd (u * x))) (Fin 1) = Fin p1" "0 \<le> p1" "p1 \<le> rnd (u * x)" "rnd p1 = p1"
    by (rule scale_down [OF one order_refl m(2) rnd_idem p0x])
  have half: "(0::rat) \<le> 1/2" "(0::rat) \<le> 1/4" by simp_all
  note p1x = le_less_trans [OF p1(3) p0x]
  obtain p2 where p2: "fmul (Fin p1) (reputation_multiplier (si_server_reputation inp)) = Fin p2" "0 \<le> p2" "p2 \<le> p1" "rnd p2 = p2"
    by (rule scale_down [OF reputation_neutral [OF neutral(2)] half(1) p1(2,4) p1x])
  note p2x = le_less_trans [OF p2(3) p1x]
  obtain p3 where p3: "fmul (Fin p2) (verbosity_multiplier (si_server_avg_overage inp)) = Fin p3" "0 \<le> p3" "p3 \<le> p2" "rnd p3 = p3"
    by (rule scale_down [OF verbosity_neutral [OF neutral(3)] half(1) p2(2,4) p2x])
  note p3x = le_less_trans [OF p3(3) p2x]
  obtain p4 where p4: "fmul (Fin p3) (compute_multiplier (si_actual_latency_ms inp) (si_tier inp) (si_tier_verdict inp)) = Fin p4" "0 \<le> p4" "p4 \<le> p3"
    by (rule scale_down [OF compute_neutral half(2) p3(2,4) p3x])
  have "st_pre_tax st = Fin p4"
    by (simp only: pv r1 xy(1) fmul.simps(1) [of b] u u_def [symmetric] p0 p1(1) p2(1) p3(1) p4(1))
  then show ?thesis using p1 p2 p3 p4 m by (simp add: hy(1))
qed

text \<open>C5: The hold covers the bill while the behavioural multipliers are neutral: for a pair without history, a
  reputation of at most 1/2 and an average overage of at least 1, the settled price of any response is
  between 0 and the amount held at dispatch for the same rate, tier and budget, whatever prompt size the
  hold was computed with.\<close>

theorem hold_covers_neutral_price:
  assumes "log10_fun log10"
    and "estimate_hold (si_base_rate inp) (si_tier inp) prompt (si_max_response_chars inp) = Inr h"
    and "settle_payment log10 inp = Inr st"
    and "is_fin (h_amount h)" and "is_fin (si_base_rate inp)" and "0 \<le> fval (si_base_rate inp)"
    and "si_completed_with_caller inp \<le> 0" and "fle (si_server_reputation inp) (Fin (1/2))"
    and "fle (Fin 1) (si_server_avg_overage inp)"
  shows "\<not> flt (st_pre_tax st) fzero \<and> fle (st_pre_tax st) (h_amount h)"
proof -
  obtain b where "si_base_rate inp = Fin b" "0 \<le> b" using assms(5,6) by (auto simp: is_fin_iff)
  from price_at_most_hold [OF assms(1-4) this assms(7-9)] show ?thesis by (simp add: not_neg_def)
qed

definition sample_inputs :: "pyfloat \<Rightarrow> int \<Rightarrow> SettlementInputs" where
  "sample_inputs reputation chars = \<lparr>si_base_rate = Fin 1, si_tier = ''small'', si_response_chars = chars,
     si_max_response_chars = 100, si_actual_latency_ms = Fin 700, si_leaf_rate = Fin 0,
     si_completed_with_caller = 0, si_server_reputation = reputation, si_server_avg_overage = Fin 1,
     si_tier_verdict = ''matched''\<rparr>"

lemma sample_settles: "\<bar>chars\<bar> \<le> 2 ^ 53 \<Longrightarrow> \<exists>st. settle_payment log10 (sample_inputs r chars) = Inr st"
  unfolding settle_total by (simp add: sample_inputs_def TIER_ORDER_def fl_of_int_def is_fin_def mk_of_int)

lemma sample_hold: "estimate_hold (Fin 1) ''small'' 0 100 = Inr \<lparr>h_amount = Fin 200, h_estimated_chars = 100\<rparr>"
proof -
  have "mk 200 = Fin 200" using mk_of_int [of 200] by simp
  then show ?thesis
    by (simp add: estimate_hold_def Let_def tier_multiplier_eq TIER_MULTIPLIER_def int_float_small)
qed

theorem hold_covers_neutral_price_witness:
  "\<exists>st. settle_payment floor_log10 (sample_inputs (Fin 0) 70) = Inr st
     \<and> \<not> flt (st_pre_tax st) fzero \<and> fle (st_pre_tax st) (Fin 200)"
proof -
  obtain st where st: "settle_payment floor_log10 (sample_inputs (Fin 0) 70) = Inr st"
    using sample_settles [of 70] by auto
  have "\<not> flt (st_pre_tax st) fzero \<and> fle (st_pre_tax st) (h_amount \<lparr>h_amount = Fin 200, h_estimated_chars = 100\<rparr>)"
    by (rule hold_covers_neutral_price [OF floor_log10.log10_fun_axioms _ st, of 0])
      (simp_all add: sample_inputs_def sample_hold is_fin_def)
  with st show ?thesis by auto
qed

text \<open>Without that neutrality the hold is not the conservative bound the documentation calls it: a server of
  reputation 1.0 that uses the whole budget settles at one and a half times the amount held (here 300
  credits against a hold of 200).\<close>

lemma hold_can_be_exceeded:
  assumes "log10_fun log10"
  shows "estimate_hold (Fin 1) ''small'' 0 100 = Inr \<lparr>h_amount = Fin 200, h_estimated_chars = 100\<rparr>
     \<and> (\<exists>st. settle_payment log10 (sample_inputs (Fin 1) 100) = Inr st \<and> st_pre_tax st = Fin 300)"
proof -
  have n: "mk 200 = Fin 200" "mk 300 = Fin 300" using mk_of_int [of 200] mk_of_int [of 300] by simp_all
  have v: "verbosity_multiplier (Fin 1) = Fin 1" by (simp add: verbosity_multiplier_def Let_def)
  have r: "reputation_multiplier (Fin 1) = Fin (3/2)" by (simp add: reputation_multiplier_def Let_def mk_dyadic)
  have m: "mk (5404319552844595 / 2 ^ 54 * 600) = Fin (6333186975989760 / 2 ^ 45)"
    using mk_eval [of "5404319552844595 / 2 ^ 54 * 600" 45 6333186975989760] by simp
  have c: "compute_multiplier (Fin 700) ''small'' ''matched'' = Fin 1"
    using m by (simp add: compute_multiplier_def Let_def EXPECTED_LATENCY_MS_def dict_get_def flit_0_3 [simplified])
  have ret: "retention_multiplier log10 0 = Fin 1"
    using log10_fun.log_1 [OF assms] by (simp add: retention_multiplier_def)
  obtain st where st: "settle_payment log10 (sample_inputs (Fin 1) 100) = Inr st"
    using sample_settles [of 100] by auto
  then have "st_pre_tax st = Fin 300"
    by (rule settle_price) (auto simp: sample_inputs_def tier_multiplier_eq TIER_MULTIPLIER_def int_float_small n v r c ret)
  with st sample_hold show ?thesis by blast
qed

lemma hold_can_be_exceeded_witness:
  "\<exists>st. settle_payment floor_log10 (sample_inputs (Fin 1) 100) = Inr st \<and> st_pre_tax st = Fin 300"
  using hold_can_be_exceeded [OF floor_log10.log10_fun_axioms] by blast

text \<open>The retention bonus has no cap: the documented range 1.0 to 1.2 is left after about ten thousand
  calls, and the multiplier passes 1.39 at a hundred million.\<close>

lemma retention_not_capped:
  assumes "log10_fun log10"
  shows "flt (flit (139/100)) (retention_multiplier log10 (10 ^ 8 - 1))"
proof -
  have l: "log10 100000000 = Fin 8" using log10_fun.log_pow [OF assms, of 8] by simp
  have a: "mk (7205759403792794 / 2 ^ 57 * 8) = Fin (7205759403792794 / 2 ^ 54)"
    using mk_exact [of "7205759403792794 / 2 ^ 54" 7205759403792794 "-54"] by (simp add: power_int_minus)
  have c: "mk (139/100) = Fin (6260003482044989 / 2 ^ 52)"
    using mk_eval [of "139/100" 52 6260003482044989] by simp
  have "rnd (6305039478318693 / 2 ^ 52) = (6305039478318693 / 2 ^ 52 :: rat)"
    using rnd_exact [of "6305039478318693 / 2 ^ 52" 6305039478318693 "-52"] by (simp add: power_int_minus)
  then have "6305039478318693 / 2 ^ 52 \<le> rnd (1 + 7205759403792794 / 2 ^ 54)"
    using rnd_mono [of "6305039478318693 / 2 ^ 52" "1 + 7205759403792794 / 2 ^ 54"] by simp
  then show ?thesis using l a c mk_pos_cases [of "1 + 7205759403792794 / 2 ^ 54"]
    by (auto simp: retention_multiplier_def)
qed

lemma retention_not_capped_witness: "flt (flit (139/100)) (retention_multiplier floor_log10 (10 ^ 8 - 1))"
  by (rule retention_not_capped) (rule floor_log10.log10_fun_axioms)

text \<open>The rolling overage of a server that keeps to its budgets stays in the interval [0, 1]: one update with
  the default decay, from a value in that interval and with a response no longer than a positive budget
  below 2^53, ends in it again.\<close>

lemma avg_overage_in_unit:
  assumes "in_range 0 1 a" and "0 < m" and "m \<le> 2 ^ 53" and "n \<le> m"
  shows "\<exists>a'. update_avg_overage a n m LAMBDA_AVG_OVERAGE = Inr a' \<and> in_range 0 1 a'"
proof -
  define k where "k = max 0 n"
  have k: "0 \<le> k" "k \<le> m" "\<bar>k\<bar> \<le> 2 ^ 53" using assms by (auto simp: k_def)
  have n: "(if 0 < n then int_float n else Inr fzero) = Inr (Fin (of_int k))"
    using k(3) int_float_small [of k] by (auto simp: k_def)
  have m: "int_float m = Inr (Fin (of_int m))" using assms by (intro int_float_small) auto
  have "0 \<le> (of_int k :: rat) / of_int m" "(of_int k :: rat) / of_int m \<le> 1" using k assms by (auto simp: divide_le_eq)
  then have "in_range 0 1 (mk (of_int k / of_int m))" by (intro mk_in_range) auto
  moreover have w: "mk (1 - 7205759403792794 / 2 ^ 57) = Fin (8556839292003942 / 2 ^ 53)"
    using mk_eval [of "1 - 7205759403792794 / 2 ^ 57" 53 8556839292003942] by simp
  moreover have "in_range 0 1 (fadd (fmul (Fin (8556839292003942 / 2 ^ 53)) a) (fmul (Fin (7205759403792794 / 2 ^ 57)) b))"
    if "in_range 0 1 b" for b
  proof (rule ewma_range [OF _ _ _ _ _ assms(1) that])
    show "rnd (8556839292003942 / 2 ^ 53) = (8556839292003942 / 2 ^ 53 :: rat)" using mk_FinD [OF w] by (metis rnd_idem)
    show "rnd (7205759403792794 / 2 ^ 57) = (7205759403792794 / 2 ^ 57 :: rat)" using mk_FinD [OF flit_0_05] by (metis rnd_idem)
    show "rnd (8556839292003942 / 2 ^ 53 + 7205759403792794 / 2 ^ 57) \<le> 1"
      using rnd_mono [of "8556839292003942 / 2 ^ 53 + 7205759403792794 / 2 ^ 57" 1] by simp
  qed simp_all
  ultimately show ?thesis using assms(2)
    by (simp add: update_avg_overage_def n m)
qed

lemma avg_overage_in_unit_witness:
  "\<exists>a'. update_avg_overage (Fin 1) 300 800 LAMBDA_AVG_OVERAGE = Inr a' \<and> in_range 0 1 a'"
  by (rule avg_overage_in_unit) simp_all

end
