(* ===== verification/Reputation.thy ===== *)
theory Reputation
  imports Pricing
begin

text \<open>
  \<open>ahp/economy/reputation.py\<close>: the reputation record of an economic actor, its update by a
  settled call or a survey score, and the visibility the router draws against.
\<close>

definition DEFAULT_REPUTATION :: pyfloat where "DEFAULT_REPUTATION = flit (1/2)"
definition DEFAULT_VISIBILITY :: pyfloat where "DEFAULT_VISIBILITY = flit (5/100)"
definition MIN_REPUTATION_FLOOR :: pyfloat where "MIN_REPUTATION_FLOOR = flit (30/100)"
definition REP_REWARD_SUCCESS :: pyfloat where "REP_REWARD_SUCCESS = flit (5/1000)"
definition REP_PENALTY_FAILURE :: pyfloat where "REP_PENALTY_FAILURE = flit (5/100)"
definition VISIBILITY_FULL_AT :: int where "VISIBILITY_FULL_AT = 500"
definition LAMBDA_CSAT :: pyfloat where "LAMBDA_CSAT = flit (1/10)"

record ReputationEntry =
  re_owner :: string
  re_reputation :: pyfloat
  re_completed_accepted :: int
  re_completed_total :: int
  re_failed :: int
  re_sum_latency_ms :: pyfloat
  re_avg_overage :: pyfloat
  re_csat :: pyfloat
  re_csat_samples :: int

definition new_entry :: "string \<Rightarrow> ReputationEntry" where
  "new_entry owner = \<lparr>re_owner = owner, re_reputation = DEFAULT_REPUTATION, re_completed_accepted = 0,
     re_completed_total = 0, re_failed = 0, re_sum_latency_ms = fzero, re_avg_overage = fone,
     re_csat = flit (1/2), re_csat_samples = 0\<rparr>"

definition avg_latency_ms :: "ReputationEntry \<Rightarrow> pyfloat res" where
  "avg_latency_ms e =
     (if re_completed_total e \<noteq> 0
      then rbind (int_float (re_completed_total e)) (fdiv (re_sum_latency_ms e)) else Inr fzero)"

definition apply_outcome :: "ReputationEntry \<Rightarrow> string \<Rightarrow> pyfloat \<Rightarrow> ReputationEntry" where
  "apply_outcome e outcome latency_ms =
     (if outcome = ''accepted'' then
        e\<lparr>re_reputation := fmin fone (fadd (re_reputation e) REP_REWARD_SUCCESS),
          re_completed_accepted := re_completed_accepted e + 1,
          re_completed_total := re_completed_total e + 1,
          re_sum_latency_ms := fadd (re_sum_latency_ms e) (fmax fzero latency_ms)\<rparr>
      else if outcome = ''verbose'' then
        e\<lparr>re_reputation := fmax fzero (fsub (re_reputation e) REP_REWARD_SUCCESS),
          re_completed_total := re_completed_total e + 1,
          re_sum_latency_ms := fadd (re_sum_latency_ms e) (fmax fzero latency_ms)\<rparr>
      else
        e\<lparr>re_reputation := fmax fzero (fsub (re_reputation e) REP_PENALTY_FAILURE),
          re_failed := re_failed e + 1\<rparr>)"

definition apply_csat :: "ReputationEntry \<Rightarrow> pyfloat \<Rightarrow> ReputationEntry" where
  "apply_csat e score =
     (let score = fmax fzero (fmin fone score) in
      e\<lparr>re_csat := (if re_csat_samples e = 0 then score
                     else fadd (fmul (fsub fone LAMBDA_CSAT) (re_csat e)) (fmul LAMBDA_CSAT score)),
        re_csat_samples := re_csat_samples e + 1\<rparr>)"

definition visibility_factor :: "(int \<Rightarrow> pyfloat) \<Rightarrow> ReputationEntry \<Rightarrow> pyfloat res" where
  "visibility_factor log10 e =
     (if flt (re_reputation e) MIN_REPUTATION_FLOOR then Inr fzero
      else let n = max 0 (re_completed_accepted e) in
        if VISIBILITY_FULL_AT \<le> n then Inr fone
        else rbind (fdiv (log10 (1 + n)) (log10 (1 + VISIBILITY_FULL_AT))) (\<lambda>fraction.
          Inr (fadd DEFAULT_VISIBILITY (fmul (fsub fone DEFAULT_VISIBILITY) fraction))))"

section \<open>Scores stay scores\<close>

text \<open>One thing that can happen to an entry: a settled call, or a survey answer.\<close>

datatype rep_event = Outcome string pyfloat | Survey pyfloat

fun rep_step :: "rep_event \<Rightarrow> ReputationEntry \<Rightarrow> ReputationEntry" where
  "rep_step (Outcome out latency) e = apply_outcome e out latency"
| "rep_step (Survey score) e = apply_csat e score"

definition entry_ok :: "ReputationEntry \<Rightarrow> bool" where
  "entry_ok e \<longleftrightarrow> in_range 0 1 (re_reputation e) \<and> in_range 0 1 (re_csat e)
     \<and> 0 \<le> re_completed_accepted e \<and> re_completed_accepted e \<le> re_completed_total e
     \<and> 0 \<le> re_failed e \<and> 0 \<le> re_csat_samples e \<and> not_neg (re_sum_latency_ms e)"

lemma rep_consts [simp]:
  "DEFAULT_REPUTATION = Fin (1/2)" "DEFAULT_VISIBILITY = Fin (7205759403792794 / 2 ^ 57)"
  "MIN_REPUTATION_FLOOR = Fin (5404319552844595 / 2 ^ 54)"
  "REP_REWARD_SUCCESS = Fin (5764607523034235 / 2 ^ 60)"
  "REP_PENALTY_FAILURE = Fin (7205759403792794 / 2 ^ 57)"
  "LAMBDA_CSAT = Fin (7205759403792794 / 2 ^ 56)"
  unfolding DEFAULT_REPUTATION_def DEFAULT_VISIBILITY_def MIN_REPUTATION_FLOOR_def REP_REWARD_SUCCESS_def
    REP_PENALTY_FAILURE_def LAMBDA_CSAT_def
  by (simp_all only: flit_0_05 flit_0_3 flit_0_005 flit_0_1 mk_dyadic)

lemma rnd_2 [simp]: "rnd 2 = 2"
  using rnd_of_int [of 2] by simp

lemma rnd_neg_1 [simp]: "rnd (- 1) = - 1"
  by (simp add: rnd_minus)

lemma reward_range:
  assumes "in_range 0 1 a" "0 \<le> r" "r \<le> 1"
  shows "in_range 0 1 (fmin fone (fadd a (Fin r)))"
proof -
  obtain x where x: "a = Fin x" "0 \<le> x" "x \<le> 1" using assms(1) by (rule in_rangeE)
  have "in_range 0 2 (mk (x + r))" using x assms by (intro mk_in_range) auto
  then show ?thesis by (auto simp: x(1) elim: in_rangeE)
qed

lemma penalty_range:
  assumes "in_range 0 1 a" "0 \<le> r" "r \<le> 1"
  shows "in_range 0 1 (fmax fzero (fsub a (Fin r)))"
proof -
  obtain x where x: "a = Fin x" "0 \<le> x" "x \<le> 1" using assms(1) by (rule in_rangeE)
  have "in_range (- 1) 1 (mk (x - r))" using x assms by (intro mk_in_range) auto
  then show ?thesis by (auto simp: x(1) elim: in_rangeE)
qed

lemma not_neg_latency: "not_neg a \<Longrightarrow> not_neg (fadd a (fmax fzero b))"
  by (intro not_neg_fadd) (cases b; auto simp: fmax_def)+

lemma outcome_ok: "entry_ok e \<Longrightarrow> entry_ok (apply_outcome e out latency)"
  by (auto simp: entry_ok_def apply_outcome_def reward_range penalty_range not_neg_latency simp del: fmin_Fin fmax_Fin)

lemma csat_ok:
  assumes "entry_ok e" shows "entry_ok (apply_csat e score)"
proof -
  define s where "s = fmax fzero (fmin fone score)"
  have s: "in_range 0 1 s" unfolding s_def by (rule fmax_fmin_range) simp
  have w: "mk (1 - 7205759403792794 / 2 ^ 56) = Fin (8106479329266893 / 2 ^ 53)"
    using mk_eval [of "1 - 7205759403792794 / 2 ^ 56" 53 8106479329266893] by simp
  have "in_range 0 1 (fadd (fmul (Fin (8106479329266893 / 2 ^ 53)) (re_csat e)) (fmul (Fin (7205759403792794 / 2 ^ 56)) s))"
  proof (rule ewma_range)
    show "rnd (8106479329266893 / 2 ^ 53) = (8106479329266893 / 2 ^ 53 :: rat)" using mk_FinD [OF w] by (metis rnd_idem)
    show "rnd (7205759403792794 / 2 ^ 56) = (7205759403792794 / 2 ^ 56 :: rat)" using mk_FinD [OF flit_0_1] by (metis rnd_idem)
    show "rnd (8106479329266893 / 2 ^ 53 + 7205759403792794 / 2 ^ 56) \<le> 1"
      using rnd_eval [of "8106479329266893 / 2 ^ 53 + 7205759403792794 / 2 ^ 56" 52 "2 ^ 52"] by simp
  qed (use assms s in \<open>simp_all add: entry_ok_def\<close>)
  then show ?thesis using assms s w
    by (auto simp: apply_csat_def s_def [symmetric] Let_def entry_ok_def)
qed

lemma new_entry_ok: "entry_ok (new_entry owner)"
  by (simp add: entry_ok_def new_entry_def mk_dyadic)

lemma rep_step_ok: "entry_ok e \<Longrightarrow> entry_ok (rep_step x e)"
  by (cases x) (simp_all add: outcome_ok csat_ok)

section \<open>Visibility\<close>

lemma mk_rangeD: "in_range lo hi (mk x) \<Longrightarrow> mk x = Fin (rnd x) \<and> lo \<le> rnd x \<and> rnd x \<le> hi"
  by (metis in_rangeE mk_FinD)

text \<open>The curve between a fresh server and a proven one, in the argument \<open>x / y\<close> of the scaling.\<close>

definition curve :: "rat \<Rightarrow> rat" where
  "curve q = rnd (7205759403792794 / 2 ^ 57 + rnd (8556839292003942 / 2 ^ 53 * rnd q))"

lemma curve_mono: "0 \<le> p \<Longrightarrow> p \<le> q \<Longrightarrow> curve p \<le> curve q"
  unfolding curve_def by (intro rnd_mono add_mono mult_left_mono order_refl) auto

lemma curve_range:
  assumes "0 \<le> q" "q \<le> 1"
  shows "7205759403792794 / 2 ^ 57 \<le> curve q" and "curve q \<le> 1"
proof -
  have "curve 0 = 7205759403792794 / 2 ^ 57"
    using mk_FinD [OF flit_0_05] rnd_idem [of "5/100"] by (simp only: curve_def) (simp del: rnd_idem)
  moreover have k: "rnd (8556839292003942 / 2 ^ 53) = (8556839292003942 / 2 ^ 53 :: rat)"
    by (rule rnd_exact [of _ 8556839292003942 "-53"]) (simp_all add: power_int_minus)
  have "curve 1 = rnd (7205759403792794 / 2 ^ 57 + 8556839292003942 / 2 ^ 53)"
    by (simp only: curve_def rnd_1 mult_1_right k)
  then have "curve 1 \<le> 1"
    using rnd_mono [of "7205759403792794 / 2 ^ 57 + 8556839292003942 / 2 ^ 53" 1] by simp
  ultimately show "7205759403792794 / 2 ^ 57 \<le> curve q" "curve q \<le> 1"
    using curve_mono [of 0 q] curve_mono [of q 1] assms by simp_all
qed

context log10_fun
begin

lemma visibility_eq:
  assumes "\<not> flt (re_reputation e) MIN_REPUTATION_FLOOR" "re_completed_accepted e < 500"
  shows "visibility_factor log10 e =
    Inr (Fin (curve (fval (log10 (1 + max 0 (re_completed_accepted e))) / fval (log10 501))))"
    and "0 \<le> fval (log10 (1 + max 0 (re_completed_accepted e))) / fval (log10 501)"
    and "fval (log10 (1 + max 0 (re_completed_accepted e))) / fval (log10 501) \<le> 1"
proof -
  define n where "n = max 0 (re_completed_accepted e)"
  have n: "0 \<le> n" "n < 500" using assms(2) by (auto simp: n_def)
  have "(1000::int) < 2 ^ 1024" by simp
  with n have big: "1 + n < 2 ^ 1024" "(501::int) < 2 ^ 1024" "(100::int) < 2 ^ 1024" by linarith+
  have "1 \<le> 1 + n" using n by simp
  then obtain x where x: "log10 (1 + n) = Fin x" "0 \<le> x" using big(1) by (rule log_cases)
  obtain y where y: "log10 501 = Fin y" "0 \<le> y" using log_cases [of 501] big by auto
  have "log10 100 = Fin 2" using log_pow [of 2] by simp
  then have y2: "2 \<le> y" using log_mono [of 100 501] big by (simp add: y)
  have xy: "x \<le> y" using log_mono [of "1 + n" 501] big n by (simp add: x y)
  have q: "0 \<le> x / y" "x / y \<le> 1" using x y2 xy by (simp_all add: divide_le_eq)
  then have "in_range 0 1 (mk (x / y))" by (intro mk_in_range) auto
  then have d: "fdiv (log10 (1 + n)) (log10 501) = Inr (Fin (rnd (x / y)))" and r: "0 \<le> rnd (x / y)" "rnd (x / y) \<le> 1"
    using y2 by (auto simp: x y dest!: mk_rangeD)
  have w: "mk (1 - 7205759403792794 / 2 ^ 57) = Fin (8556839292003942 / 2 ^ 53)"
    using mk_eval [of "1 - 7205759403792794 / 2 ^ 57" 53 8556839292003942] by simp
  have "in_range 0 1 (mk (8556839292003942 / 2 ^ 53 * rnd (x / y)))"
    using r by (intro mk_in_range) auto
  then have m: "mk (8556839292003942 / 2 ^ 53 * rnd (x / y)) = Fin (rnd (8556839292003942 / 2 ^ 53 * rnd (x / y)))"
    and rm: "0 \<le> rnd (8556839292003942 / 2 ^ 53 * rnd (x / y))"
      "rnd (8556839292003942 / 2 ^ 53 * rnd (x / y)) \<le> 1" by (blast dest: mk_rangeD)+
  have "in_range 0 2 (mk (7205759403792794 / 2 ^ 57 + rnd (8556839292003942 / 2 ^ 53 * rnd (x / y))))"
    using rm by (intro mk_in_range) auto
  then have v: "mk (7205759403792794 / 2 ^ 57 + rnd (8556839292003942 / 2 ^ 53 * rnd (x / y))) = Fin (curve (x / y))"
    unfolding curve_def by (blast dest: mk_rangeD)
  have "visibility_factor log10 e = Inr (Fin (curve (x / y)))"
    using assms(1) n d w m v
    by (simp add: visibility_factor_def n_def [symmetric] VISIBILITY_FULL_AT_def)
  then show "visibility_factor log10 e =
      Inr (Fin (curve (fval (log10 (1 + max 0 (re_completed_accepted e))) / fval (log10 501))))"
    by (simp add: n_def [symmetric] x y)
  show "0 \<le> fval (log10 (1 + max 0 (re_completed_accepted e))) / fval (log10 501)"
    "fval (log10 (1 + max 0 (re_completed_accepted e))) / fval (log10 501) \<le> 1"
    using q by (simp_all add: n_def [symmetric] x y)
qed

end

section \<open>Properties\<close>

text \<open>C36: Scores never leave their range: after any sequence of settled calls (any outcome text, any latency)
  and survey answers (any float score, out of range or NaN included), a fresh entry still has reputation and
  CSAT in the closed unit interval, accepted calls are among the completed ones, and no counter or latency
  total is negative.\<close>

theorem reputation_invariant:
  "let e = fold rep_step xs (new_entry owner) in
     in_range 0 1 (re_reputation e) \<and> in_range 0 1 (re_csat e)
   \<and> 0 \<le> re_completed_accepted e \<and> re_completed_accepted e \<le> re_completed_total e
   \<and> 0 \<le> re_failed e \<and> 0 \<le> re_csat_samples e \<and> \<not> flt (re_sum_latency_ms e) fzero"
proof -
  have "entry_ok e \<Longrightarrow> entry_ok (fold rep_step xs e)" for e
    by (induction xs arbitrary: e) (auto simp: rep_step_ok)
  from this [OF new_entry_ok, of owner] show ?thesis by (simp add: entry_ok_def not_neg_def Let_def)
qed

text \<open>Visibility is a probability with the documented shape: zero below the reputation floor; otherwise
  between the starting value 0.05 (as a double) and 1, equal to 1 from 500 accepted calls on, and never
  lower for an entry with at least as many accepted calls.\<close>

lemma visibility_shape:
  assumes "log10_fun log10"
  shows "\<exists>v. visibility_factor log10 e = Inr (Fin v) \<and> 0 \<le> v \<and> v \<le> 1
     \<and> (if flt (re_reputation e) MIN_REPUTATION_FLOOR then v = 0
        else fval DEFAULT_VISIBILITY \<le> v \<and> (500 \<le> re_completed_accepted e \<longrightarrow> v = 1)
          \<and> (\<forall>e' v'. re_completed_accepted e \<le> re_completed_accepted e' \<longrightarrow>
               \<not> flt (re_reputation e') MIN_REPUTATION_FLOOR \<longrightarrow>
               visibility_factor log10 e' = Inr (Fin v') \<longrightarrow> v \<le> v'))"
proof (cases "flt (re_reputation e) MIN_REPUTATION_FLOOR")
  case True
  then show ?thesis by (simp add: visibility_factor_def del: rep_consts)
next
  case False
  note eq = log10_fun.visibility_eq [OF assms]
  have full: "visibility_factor log10 e' = Inr (Fin 1)"
    if "\<not> flt (re_reputation e') MIN_REPUTATION_FLOOR" "500 \<le> re_completed_accepted e'" for e'
    using that by (simp add: visibility_factor_def VISIBILITY_FULL_AT_def Let_def del: rep_consts)
  show ?thesis
  proof (cases "500 \<le> re_completed_accepted e")
    case True
    have "visibility_factor log10 e' = Inr (Fin v') \<Longrightarrow> v' = 1"
      if "re_completed_accepted e \<le> re_completed_accepted e'" "\<not> flt (re_reputation e') MIN_REPUTATION_FLOOR" for e' v'
      using full [OF that(2)] order_trans [OF True that(1)] by simp
    moreover have "fval DEFAULT_VISIBILITY \<le> 1" by simp
    ultimately show ?thesis using False full [OF False True]
      by (intro exI [of _ 1]) (auto simp del: rep_consts)
  next
    case le: False
    define q where "q e = fval (log10 (1 + max 0 (re_completed_accepted e))) / fval (log10 501)" for e :: ReputationEntry
    have v: "visibility_factor log10 e = Inr (Fin (curve (q e)))" "0 \<le> q e" "q e \<le> 1"
      using eq [of e] False le by (simp_all add: q_def del: rep_consts)
    have mono: "curve (q e) \<le> v'"
      if le': "re_completed_accepted e \<le> re_completed_accepted e'"
        and fl: "\<not> flt (re_reputation e') MIN_REPUTATION_FLOOR" and v': "visibility_factor log10 e' = Inr (Fin v')" for e' v'
    proof (cases "500 \<le> re_completed_accepted e'")
      case True
      then show ?thesis using full [OF fl] v' curve_range(2) [OF v(2,3)] by simp
    next
      case False
      then have v'': "visibility_factor log10 e' = Inr (Fin (curve (q e')))" "0 \<le> q e'"
        using eq [of e'] fl by (simp_all add: q_def del: rep_consts)
      have "(1000::int) < 2 ^ 1024" by simp
      then have "fval (log10 (1 + max 0 (re_completed_accepted e))) \<le> fval (log10 (1 + max 0 (re_completed_accepted e')))"
        using le' False by (intro log10_fun.log_mono [OF assms]) auto
      moreover have "0 \<le> fval (log10 501)"
        using log10_fun.log_mono [OF assms, of 1 501] log10_fun.log_1 [OF assms] by simp
      ultimately have "q e \<le> q e'" unfolding q_def by (rule divide_right_mono)
      then show ?thesis using v'' v' v(2) curve_mono by simp
    qed
    show ?thesis
      using v curve_range [OF v(2,3)] mono False le
      by (intro exI [of _ "curve (q e)"]) (auto simp: order_trans [of 0 "7205759403792794 / 2 ^ 57"])
  qed
qed

lemma visibility_shape_witness:
  "\<exists>v. visibility_factor floor_log10 ((new_entry ''a'')\<lparr>re_completed_accepted := 99\<rparr>) = Inr (Fin v)
     \<and> fval DEFAULT_VISIBILITY \<le> v \<and> v \<le> 1"
  using visibility_shape [OF floor_log10.log10_fun_axioms, of "(new_entry ''a'')\<lparr>re_completed_accepted := 99\<rparr>"]
  by (auto simp: new_entry_def)

end
