(* ===== verification/Address.thy ===== *)
theory Address
  imports PyVal
begin

text \<open>
  \<open>ahp/core/address.py\<close>: the seven-field agent address with query parameters, its
  validation, parser and canonical printer, equality and accept tests.
\<close>

section \<open>Percent-encoding (urllib.parse, as the printer and the parser use it)\<close>

definition unreserved :: "char \<Rightarrow> bool" where
  "unreserved c \<longleftrightarrow> (CHR ''a'' \<le> c \<and> c \<le> CHR ''z'') \<or> (CHR ''A'' \<le> c \<and> c \<le> CHR ''Z'')
     \<or> (CHR ''0'' \<le> c \<and> c \<le> CHR ''9'') \<or> c \<in> set ''_.-~''"

definition hex_digit :: "nat \<Rightarrow> char" where
  "hex_digit n = ''0123456789ABCDEF'' ! n"

definition hex_val :: "char \<Rightarrow> nat option" where
  "hex_val c = (let n = of_char c :: nat in
     if 48 \<le> n \<and> n \<le> 57 then Some (n - 48)
     else if 65 \<le> n \<and> n \<le> 70 then Some (n - 55)
     else if 97 \<le> n \<and> n \<le> 102 then Some (n - 87) else None)"

definition quote_char :: "char \<Rightarrow> string" where
  "quote_char c = (if unreserved c then [c]
     else [CHR ''%'', hex_digit (of_char c div 16), hex_digit (of_char c mod 16)])"

text \<open>\<open>quote(s, safe='')\<close>.\<close>

definition quote :: "string \<Rightarrow> string" where
  "quote s = concat (map quote_char s)"

text \<open>\<open>unquote(s)\<close>: a percent sign not followed by two hex digits stays literal.\<close>

fun unquote :: "string \<Rightarrow> string" where
  "unquote (c # h # l # cs) =
     (if c = CHR ''%'' then
        (case (hex_val h, hex_val l) of
           (Some a, Some b) \<Rightarrow> char_of (16 * a + b) # unquote cs
         | _ \<Rightarrow> c # unquote (h # l # cs))
      else c # unquote (h # l # cs))"
| "unquote (c # cs) = c # unquote cs"
| "unquote [] = []"

definition unquote_plus :: "string \<Rightarrow> string" where
  "unquote_plus s = unquote (map (\<lambda>c. if c = CHR ''+'' then CHR '' '' else c) s)"

text \<open>\<open>parse_qsl(qs, keep_blank_values=True)\<close>: empty chunks are skipped, a chunk without
  \<open>=\<close> has an empty value.\<close>

definition parse_qsl :: "string \<Rightarrow> (string \<times> string) list" where
  "parse_qsl qs = map (\<lambda>nv. (unquote_plus (fst (partition_on (CHR ''='') nv)),
                              unquote_plus (snd (partition_on (CHR ''='') nv))))
                    (filter (\<lambda>nv. nv \<noteq> []) (split_on (CHR ''&'') qs))"

lemma hex_val_digit: assumes "n < 16" shows "hex_val (hex_digit n) = Some n"
proof -
  have "n \<in> set [0..<16]" using assms by simp
  then show ?thesis by (auto simp: hex_digit_def hex_val_def upt_rec)
qed

lemma unquote_other: "c \<noteq> CHR ''%'' \<Longrightarrow> unquote (c # cs) = c # unquote cs"
  by (cases cs; cases "tl cs") auto

lemma unquote_quote_char: "unquote (quote_char c @ s) = c # unquote s"
proof (cases "unreserved c")
  case True
  then have "c \<noteq> CHR ''%''" by (auto simp: unreserved_def less_eq_char_def)
  with True show ?thesis by (simp add: quote_char_def unquote_other)
next
  case False
  have "(of_char c :: nat) div 16 < 16" by (rule less_mult_imp_div_less) simp
  with False show ?thesis by (simp add: quote_char_def hex_val_digit)
qed

lemma unquote_quote: "unquote (quote s) = s"
  by (induction s) (simp_all add: quote_def unquote_quote_char)

text \<open>Quoted text holds only unreserved characters and percent signs.\<close>

definition quoted_char :: "char \<Rightarrow> bool" where
  "quoted_char c \<longleftrightarrow> unreserved c \<or> c = CHR ''%''"

lemma unreserved_hex_digit: assumes "n < 16" shows "unreserved (hex_digit n)"
proof -
  have "n \<in> set [0..<16]" using assms by simp
  then show ?thesis by (auto simp: hex_digit_def unreserved_def upt_rec less_eq_char_def)
qed

lemma quote_chars: "c \<in> set (quote s) \<Longrightarrow> quoted_char c"
proof (induction s)
  case (Cons x s)
  have "(of_char x :: nat) div 16 < 16" by (rule less_mult_imp_div_less) simp
  with Cons show ?case
    by (auto simp: quote_def quote_char_def quoted_char_def unreserved_hex_digit split: if_splits)
qed (simp add: quote_def)

lemma quoted_char_not:
  "\<not> quoted_char (CHR ''&'')" "\<not> quoted_char (CHR ''='')" "\<not> quoted_char (CHR ''+'')"
  "\<not> quoted_char (CHR ''?'')" "quoted_char c \<Longrightarrow> \<not> is_space c"
  by (auto simp: quoted_char_def unreserved_def less_eq_char_def is_space_def)

lemma unquote_plus_quote: "unquote_plus (quote s) = s"
proof -
  have "map (\<lambda>c. if c = CHR ''+'' then CHR '' '' else c) (quote s) = quote s"
    by (rule map_idI) (use quote_chars quoted_char_not in auto)
  then show ?thesis by (simp add: unquote_plus_def unquote_quote)
qed

definition enc_param :: "string \<times> string \<Rightarrow> string" where
  "enc_param kv = quote (fst kv) @ ''='' @ quote (snd kv)"

lemma enc_param_no_amp: "CHR ''&'' \<notin> set (enc_param kv)"
  using quote_chars quoted_char_not by (auto simp: enc_param_def)

lemma partition_enc_param:
  "partition_on (CHR ''='') (enc_param kv) = (quote (fst kv), quote (snd kv))"
proof -
  have "CHR ''='' \<notin> set (quote (fst kv))" using quote_chars quoted_char_not by blast
  then show ?thesis by (simp add: enc_param_def partition_on_append)
qed

lemma parse_qsl_enc: assumes "ps \<noteq> []" shows "parse_qsl (join ''&'' (map enc_param ps)) = ps"
proof -
  have "split_on (CHR ''&'') (join [CHR ''&''] (map enc_param ps)) = map enc_param ps"
    using assms by (intro split_on_join) (auto simp: enc_param_no_amp)
  moreover have "filter (\<lambda>nv. nv \<noteq> []) (map enc_param ps) = map enc_param ps"
    by (auto simp: enc_param_def)
  ultimately show ?thesis
    by (simp add: parse_qsl_def partition_enc_param unquote_plus_quote map_idI)
qed

section \<open>Accept tiers\<close>

definition ACCEPT_TIER_ORDER :: string where "ACCEPT_TIER_ORDER = ''sjbe''"

text \<open>\<open>_ACCEPT_RANK\<close>, defined on the valid tier characters.\<close>

definition accept_rank :: "char \<Rightarrow> nat" where
  "accept_rank c = length (takeWhile (\<lambda>d. d \<noteq> c) ACCEPT_TIER_ORDER)"

definition canonical_accept :: "string \<Rightarrow> string" where
  "canonical_accept acc = sort_key accept_rank acc"

definition VALID_LIFECYCLES :: "string list" where
  "VALID_LIFECYCLES = [''longterm'', ''session'', ''ephemeral'', ''stale-ok'']"

section \<open>Addresses\<close>

record AgentAddress =
  a_org :: string
  a_role :: string
  a_domain :: string
  a_subdomain :: string
  a_accept :: string
  a_lifecycle :: string
  a_instance :: string
  a_params :: "(string, string) dict"

text \<open>The seven structural fields, in canonical order.\<close>

definition addr_fields :: "AgentAddress \<Rightarrow> string list" where
  "addr_fields a = [a_org a, a_role a, a_domain a, a_subdomain a, a_accept a, a_lifecycle a, a_instance a]"

definition validate_token :: "string \<Rightarrow> unit res" where
  "validate_token v =
     (if v = [] then Inl ValueError
      else if list_ex (\<lambda>c. c \<in> set v) [CHR ''.'', CHR ''?'', CHR '' '', CHR 0x09, CHR 0x0A]
      then Inl ValueError else Inr ())"

text \<open>\<open>__post_init__\<close>: the checks of the constructor, in its order.\<close>

definition post_init :: "AgentAddress \<Rightarrow> AgentAddress res" where
  "post_init a =
     rbind (validate_token (a_org a)) (\<lambda>_.
     rbind (validate_token (a_role a)) (\<lambda>_.
     rbind (validate_token (a_domain a)) (\<lambda>_.
     rbind (validate_token (a_subdomain a)) (\<lambda>_.
     rbind (validate_token (a_instance a)) (\<lambda>_.
     if a_accept a = [] then Inl ValueError
     else if list_ex (\<lambda>c. c \<notin> set ACCEPT_TIER_ORDER) (a_accept a) then Inl ValueError
     else if \<not> distinct (a_accept a) then Inl ValueError
     else if a_accept a \<noteq> canonical_accept (a_accept a) then Inl ValueError
     else if a_lifecycle a \<notin> set VALID_LIFECYCLES then Inl ValueError
     else Inr a)))))"

text \<open>\<open>AgentAddress.parse\<close>: strip, split off the query part, split the seven fields, construct.\<close>

definition parse_stripped :: "string \<Rightarrow> AgentAddress res" where
  "parse_stripped uri =
     (if uri = [] then Inl ValueError
      else let has_q = CHR ''?'' \<in> set uri;
               addr_part = (if has_q then fst (partition_on (CHR ''?'') uri) else uri);
               params = (if has_q then dict_of (parse_qsl (snd (partition_on (CHR ''?'') uri))) else [])
           in (case split_on (CHR ''.'') addr_part of
                 [o', r, d, sd, ac, lc, i] \<Rightarrow>
                   post_init \<lparr>a_org = o', a_role = r, a_domain = d, a_subdomain = sd,
                     a_accept = ac, a_lifecycle = lc, a_instance = i, a_params = params\<rparr>
               | _ \<Rightarrow> Inl ValueError))"

definition parse :: "string \<Rightarrow> AgentAddress res" where
  "parse uri = parse_stripped (strip uri)"

text \<open>\<open>__str__\<close>: the fields joined by dots, then the parameters sorted by key and encoded.\<close>

definition to_str :: "AgentAddress \<Rightarrow> string" where
  "to_str a =
     (let base = join ''.'' (addr_fields a)
      in if a_params a = [] then base
         else base @ ''?'' @ join ''&'' (map enc_param (sort_key fst (a_params a))))"

text \<open>\<open>__eq__\<close> (and \<open>__hash__\<close>) go through the canonical string.\<close>

definition addr_eq :: "AgentAddress \<Rightarrow> AgentAddress \<Rightarrow> bool" where
  "addr_eq a b \<longleftrightarrow> to_str a = to_str b"

definition accepts :: "AgentAddress \<Rightarrow> string \<Rightarrow> bool res" where
  "accepts a tier = (case tier of [c] \<Rightarrow> Inr (c \<in> set (a_accept a)) | _ \<Rightarrow> Inl ValueError)"

definition accepts_any :: "AgentAddress \<Rightarrow> char set \<Rightarrow> bool" where
  "accepts_any a tiers \<longleftrightarrow> list_ex (\<lambda>c. c \<in> tiers) (a_accept a)"

definition is_human :: "AgentAddress \<Rightarrow> bool" where
  "is_human a \<longleftrightarrow> a_role a = ''human''"

text \<open>
  \<open>cache_key\<close>: \<open>digest\<close> stands for the hex SHA-256 of the JSON text with sorted keys.
\<close>

definition address_cache_key :: "(pyval \<Rightarrow> string) \<Rightarrow> AgentAddress \<Rightarrow> string \<Rightarrow> string" where
  "address_cache_key digest a code =
     digest (PDict [(''addr'', PStr (to_str a)), (''code'', PStr code)])"

section \<open>Well-formed addresses\<close>

text \<open>The type invariant: what the constructor lets through, with the params a dict.\<close>

definition valid_address :: "AgentAddress \<Rightarrow> bool" where
  "valid_address a \<longleftrightarrow> post_init a = Inr a \<and> is_dict (a_params a)"

definition token_ok :: "string \<Rightarrow> bool" where
  "token_ok v \<longleftrightarrow> v \<noteq> [] \<and> (\<forall>c \<in> {CHR ''.'', CHR ''?'', CHR '' '', CHR 0x09, CHR 0x0A}. c \<notin> set v)"

lemma validate_token_iff [simp]: "validate_token v = Inr u \<longleftrightarrow> token_ok v"
  by (auto simp: validate_token_def token_ok_def)

lemma post_init_eq:
  "post_init a = Inr b \<longleftrightarrow> b = a \<and>
     (\<forall>v \<in> {a_org a, a_role a, a_domain a, a_subdomain a, a_instance a}. token_ok v) \<and>
     a_accept a \<noteq> [] \<and> set (a_accept a) \<subseteq> set ACCEPT_TIER_ORDER \<and> distinct (a_accept a) \<and>
     a_accept a = canonical_accept (a_accept a) \<and> a_lifecycle a \<in> set VALID_LIFECYCLES"
  by (auto simp: post_init_def rbind_eq_Inr list_ex_iff split: if_splits)

lemma post_init_cases: "post_init a = Inr a \<or> post_init a = Inl ValueError"
  by (auto simp: post_init_def rbind_def validate_token_def split: sum.splits if_splits)

lemma post_init_error: "post_init a = Inl e \<Longrightarrow> e = ValueError"
  using post_init_cases [of a] by auto

lemma address_rebuild [simp]:
  "\<lparr>a_org = a_org a, a_role = a_role a, a_domain = a_domain a, a_subdomain = a_subdomain a,
     a_accept = a_accept a, a_lifecycle = a_lifecycle a, a_instance = a_instance a,
     a_params = ps\<rparr> = a\<lparr>a_params := ps\<rparr>"
  by (cases a) simp

lemma params_update_id [simp]: "a_params a = ps \<Longrightarrow> a\<lparr>a_params := ps\<rparr> = a"
  by (cases a) simp

lemma post_init_params: "post_init (a\<lparr>a_params := ps\<rparr>) = Inr (a\<lparr>a_params := ps\<rparr>) \<longleftrightarrow> post_init a = Inr a"
  by (simp add: post_init_eq)

lemma accept_no_sep: "set v \<subseteq> set ACCEPT_TIER_ORDER \<Longrightarrow> CHR ''.'' \<notin> set v \<and> CHR ''?'' \<notin> set v"
  by (auto simp: ACCEPT_TIER_ORDER_def)

lemma lifecycle_no_sep: "v \<in> set VALID_LIFECYCLES \<Longrightarrow> CHR ''.'' \<notin> set v \<and> CHR ''?'' \<notin> set v"
  by (auto simp: VALID_LIFECYCLES_def)

lemma valid_fields_no_sep:
  assumes "post_init a = Inr a" "v \<in> set (addr_fields a)"
  shows "CHR ''.'' \<notin> set v" "CHR ''?'' \<notin> set v"
  using assms accept_no_sep lifecycle_no_sep
  by (auto simp: post_init_eq addr_fields_def token_ok_def)

lemma base_no_question:
  assumes "post_init a = Inr a" shows "CHR ''?'' \<notin> set (join ''.'' (addr_fields a))"
  using set_join [of "''.''" "addr_fields a"] valid_fields_no_sep(2) [OF assms] by auto

lemma base_nonempty: "join ''.'' (addr_fields a) \<noteq> []"
  by (simp add: addr_fields_def)

text \<open>The canonical form: parameters sorted by key.\<close>

definition canonical :: "AgentAddress \<Rightarrow> AgentAddress" where
  "canonical a = a\<lparr>a_params := sort_key fst (a_params a)\<rparr>"

lemma is_dict_sort: "is_dict (sort_key fst d) \<longleftrightarrow> is_dict d"
proof -
  have "mset (map fst (sort_key fst d)) = mset (map fst d)" by simp
  then show ?thesis by (rule mset_eq_imp_distinct_iff)
qed

lemma parse_stripped_query:
  assumes "CHR ''?'' \<notin> set base" "split_on (CHR ''.'') base = addr_fields a"
  shows "parse_stripped (base @ CHR ''?'' # q) = post_init (a\<lparr>a_params := dict_of (parse_qsl q)\<rparr>)"
  using assms by (simp add: parse_stripped_def Let_def partition_on_append addr_fields_def)

text \<open>Parsing the canonical string restores the canonical form.\<close>

lemma parse_stripped_to_str:
  assumes "valid_address a"
  shows "parse_stripped (to_str a) = Inr (canonical a)"
proof -
  have pi: "post_init a = Inr a" and dict: "is_dict (a_params a)"
    using assms by (simp_all add: valid_address_def)
  define ps where "ps = sort_key fst (a_params a)"
  have split: "split_on (CHR ''.'') (join ''.'' (addr_fields a)) = addr_fields a"
    using valid_fields_no_sep(1) [OF pi] by (intro split_on_join) (auto simp: addr_fields_def)
  have noq: "CHR ''?'' \<notin> set (join ''.'' (addr_fields a))" by (rule base_no_question [OF pi])
  have pi': "post_init (canonical a) = Inr (canonical a)"
    using pi by (simp add: canonical_def post_init_params)
  show ?thesis
  proof (cases "a_params a = []")
    case True
    then have "canonical a = a" by (simp add: canonical_def)
    with True pi noq split base_nonempty [of a] show ?thesis
      by (simp add: parse_stripped_def to_str_def Let_def addr_fields_def)
  next
    case False
    then have ne: "ps \<noteq> []" unfolding ps_def by (metis length_0_conv length_sort)
    have str: "to_str a = join ''.'' (addr_fields a) @ CHR ''?'' # join ''&'' (map enc_param ps)"
      using False by (simp add: to_str_def ps_def Let_def)
    have "dict_of ps = ps" using dict by (intro dict_of_id) (simp add: ps_def is_dict_sort)
    with pi' show ?thesis
      by (simp add: str parse_stripped_query [OF noq split] parse_qsl_enc [OF ne])
        (simp add: canonical_def ps_def)
  qed
qed

lemma to_str_canonical: "to_str (canonical a) = to_str a"
proof -
  have "sort_key fst (sort_key fst (a_params a)) = sort_key fst (a_params a)"
    by (rule sort_key_id_if_sorted) simp
  moreover have "sort_key fst (a_params a) = [] \<longleftrightarrow> a_params a = []"
    by (metis length_0_conv length_sort)
  ultimately show ?thesis by (simp add: to_str_def canonical_def addr_fields_def Let_def)
qed

lemma canonical_valid: "valid_address a \<Longrightarrow> valid_address (canonical a)"
  by (simp add: valid_address_def canonical_def post_init_params is_dict_sort)

text \<open>
  The parser strips the text first, so the round trip needs the printed form to carry no
  outer whitespace. The token check forbids space, tab and newline but not the other
  whitespace characters, so this is an extra condition on \<open>org\<close> and \<open>instance\<close>.
\<close>

definition edges_ok :: "AgentAddress \<Rightarrow> bool" where
  "edges_ok a \<longleftrightarrow> \<not> is_space (hd (a_org a)) \<and> (a_params a = [] \<longrightarrow> \<not> is_space (last (a_instance a)))"

lemma to_str_edges:
  assumes "valid_address a" "edges_ok a"
  shows "\<not> is_space (hd (to_str a))" "\<not> is_space (last (to_str a))"
proof -
  have ne: "a_org a \<noteq> []" "a_instance a \<noteq> []"
    using assms(1) by (auto simp: valid_address_def post_init_eq token_ok_def)
  show "\<not> is_space (hd (to_str a))"
    using assms(2) ne by (simp add: to_str_def Let_def addr_fields_def edges_ok_def hd_append)
  show "\<not> is_space (last (to_str a))"
  proof (cases "a_params a = []")
    case True
    then show ?thesis using assms(2) ne by (simp add: to_str_def addr_fields_def edges_ok_def)
  next
    case False
    define t where "t = join ''&'' (map enc_param (sort_key fst (a_params a)))"
    have last: "last (to_str a) = last (CHR ''?'' # t)"
      using False by (simp add: to_str_def Let_def t_def)
    have "\<not> is_space c" if "c \<in> set (CHR ''?'' # t)" for c
    proof -
      have "c = CHR ''?'' \<or> c = CHR ''&'' \<or> c = CHR ''='' \<or> quoted_char c"
        using that set_join [of "''&''" "map enc_param (sort_key fst (a_params a))"] quote_chars
        by (fastforce simp: t_def enc_param_def)
      then show ?thesis using quoted_char_not(5) by (auto simp: is_space_def)
    qed
    then show ?thesis unfolding last by (metis last_in_set list.distinct(1))
  qed
qed

lemma parse_to_str:
  assumes "valid_address a \<and> edges_ok a"
  shows "parse (to_str a) = Inr (canonical a)"
proof -
  have "strip (to_str a) = to_str a"
    using to_str_edges assms by (intro strip_id) blast
  then show ?thesis using assms by (simp add: parse_def parse_stripped_to_str)
qed

interpretation uri: codec to_str parse "\<lambda>a. valid_address a \<and> edges_ok a" canonical
  by unfold_locales (rule parse_to_str)

text \<open>The parser only returns well-formed addresses, and raises only ValueError.\<close>

lemma parse_stripped_valid: "parse_stripped u = Inr a \<Longrightarrow> valid_address a"
  by (auto simp: parse_stripped_def Let_def valid_address_def post_init_eq is_dict_of
      split: if_splits list.splits)

lemma parse_valid: "parse u = Inr a \<Longrightarrow> valid_address a"
  by (simp add: parse_def parse_stripped_valid)

lemma parse_error: "parse u = Inl e \<Longrightarrow> e = ValueError"
  by (auto simp: parse_def parse_stripped_def Let_def post_init_error split: if_splits list.splits)

text \<open>Equality of valid addresses: the same fields and the same parameter dictionary.\<close>

lemma sort_key_fst_eq_iff:
  assumes "is_dict d" "is_dict e"
  shows "sort_key fst d = sort_key fst e \<longleftrightarrow> map_of d = map_of e"
proof
  assume "sort_key fst d = sort_key fst e"
  then have "set d = set e" by (metis set_sort)
  then show "map_of d = map_of e" using assms by (metis map_of_inject_set)
next
  assume "map_of d = map_of e"
  then have "set d = set e" using assms by (simp add: map_of_inject_set)
  then have "mset d = mset e"
    using assms by (metis distinct_map set_eq_iff_mset_eq_distinct)
  moreover have "inj_on fst (set d)" using assms(1) by (simp add: distinct_map)
  ultimately show "sort_key fst d = sort_key fst e" by (rule sorted_by_key_unique)
qed

lemma addr_eq_iff:
  assumes "valid_address a" "valid_address b"
  shows "addr_eq a b \<longleftrightarrow> addr_fields a = addr_fields b \<and> map_of (a_params a) = map_of (a_params b)"
proof -
  have dict: "is_dict (a_params a)" "is_dict (a_params b)"
    using assms by (simp_all add: valid_address_def)
  have "addr_eq a b \<longleftrightarrow> canonical a = canonical b"
    unfolding addr_eq_def using parse_stripped_to_str assms to_str_canonical by (metis sum.inject(2))
  also have "\<dots> \<longleftrightarrow> addr_fields a = addr_fields b \<and> sort_key fst (a_params a) = sort_key fst (a_params b)"
    by (cases a; cases b) (auto simp: canonical_def addr_fields_def)
  finally show ?thesis using sort_key_fst_eq_iff [OF dict] by simp
qed

section \<open>Properties\<close>

text \<open>C1: Printing and parsing an address round-trip: a well-formed address whose text carries no outer whitespace
  parses back to itself with its parameters in key order, percent-encoding included.\<close>

theorem address_roundtrip:
  assumes "valid_address a" and "edges_ok a"
  shows "parse (to_str a) = Inr (canonical a)"
  using assms by (simp add: parse_to_str)

definition sample_address :: "string \<Rightarrow> AgentAddress" where
  "sample_address inst = \<lparr>a_org = ''acme'', a_role = ''agent'', a_domain = ''nlp'', a_subdomain = ''sum'',
     a_accept = ''sj'', a_lifecycle = ''session'', a_instance = inst, a_params = [(''v'', ''1 2''), (''k'', ''x&y'')]\<rparr>"

theorem address_roundtrip_witness: "parse (to_str (sample_address ''i1'')) = Inr (canonical (sample_address ''i1''))"
  by (rule address_roundtrip) (code_simp, code_simp)

text \<open>The parser returns only addresses the constructor accepts, and the only exception it raises is
  \<open>ValueError\<close>, whatever the text.\<close>

lemma address_parse_sound:
  "case parse u of Inr a \<Rightarrow> valid_address a | Inl e \<Rightarrow> e = ValueError"
  by (auto simp: parse_valid parse_error split: sum.splits)

definition cr_address :: AgentAddress where
  "cr_address = (sample_address [CHR ''i'', CHR 0x0D])\<lparr>a_params := []\<rparr>"

text \<open>The round trip has a hole: the token check forbids space, tab and newline but not the other
  whitespace, so an instance ending in a carriage return is a well-formed address that parses back as a
  different one.\<close>

lemma address_roundtrip_hole:
  "valid_address cr_address \<and> parse (to_str cr_address) = Inr (cr_address\<lparr>a_instance := ''i''\<rparr>)
   \<and> \<not> addr_eq cr_address (cr_address\<lparr>a_instance := ''i''\<rparr>)"
  by code_simp

end
