(* ===== verification/Pattern.thy ===== *)
theory Pattern
  imports Address
begin

text \<open>
  \<open>ahp/core/pattern.py\<close>: seven-field patterns with per-field wildcards and subset
  semantics on the accept field.
\<close>

definition WILDCARD :: string where "WILDCARD = ''*''"

record AddressPattern =
  p_org :: string
  p_role :: string
  p_domain :: string
  p_subdomain :: string
  p_accept :: string
  p_lifecycle :: string
  p_instance :: string

definition pfields :: "AddressPattern \<Rightarrow> string list" where
  "pfields p = [p_org p, p_role p, p_domain p, p_subdomain p, p_accept p, p_lifecycle p, p_instance p]"

definition pattern_field_ok :: "string \<Rightarrow> bool" where
  "pattern_field_ok v \<longleftrightarrow> v \<noteq> [] \<and> CHR ''.'' \<notin> set v \<and> CHR ''?'' \<notin> set v"

text \<open>\<open>__post_init__\<close>.\<close>

definition pattern_post_init :: "AddressPattern \<Rightarrow> AddressPattern res" where
  "pattern_post_init p = (if list_all pattern_field_ok (pfields p) then Inr p else Inl ValueError)"

definition pparse :: "string \<Rightarrow> AddressPattern res" where
  "pparse text =
     (let pat = strip text
      in if CHR ''?'' \<in> set pat then Inl ValueError
         else (case split_on (CHR ''.'') pat of
                 [o', r, d, sd, ac, lc, i] \<Rightarrow>
                   pattern_post_init \<lparr>p_org = o', p_role = r, p_domain = d, p_subdomain = sd,
                     p_accept = ac, p_lifecycle = lc, p_instance = i\<rparr>
               | _ \<Rightarrow> Inl ValueError))"

definition pall :: AddressPattern where
  "pall = \<lparr>p_org = WILDCARD, p_role = WILDCARD, p_domain = WILDCARD, p_subdomain = WILDCARD,
     p_accept = WILDCARD, p_lifecycle = WILDCARD, p_instance = WILDCARD\<rparr>"

definition pto_str :: "AddressPattern \<Rightarrow> string" where
  "pto_str p = join ''.'' (pfields p)"

text \<open>The structural fields in the order \<open>matches\<close> visits them; the accept field comes last.\<close>

definition structural :: "AddressPattern \<Rightarrow> AgentAddress \<Rightarrow> (string \<times> string) list" where
  "structural p a = [(p_org p, a_org a), (p_role p, a_role a), (p_domain p, a_domain a),
     (p_subdomain p, a_subdomain a), (p_lifecycle p, a_lifecycle a), (p_instance p, a_instance a)]"

fun match_fields :: "(string \<times> string) list \<Rightarrow> bool" where
  "match_fields [] = True"
| "match_fields ((pat, v) # rest) =
     (if pat = WILDCARD then match_fields rest
      else if pat \<noteq> v then False else match_fields rest)"

definition pmatches :: "AddressPattern \<Rightarrow> AgentAddress \<Rightarrow> bool" where
  "pmatches p a =
     (if \<not> match_fields (structural p a) then False
      else if p_accept p \<noteq> WILDCARD \<and> \<not> list_all (\<lambda>c. c \<in> set (a_accept a)) (p_accept p) then False
      else True)"

definition matches_accept :: "string \<Rightarrow> string \<Rightarrow> bool" where
  "matches_accept sender receiver \<longleftrightarrow> list_all (\<lambda>c. c \<in> set receiver) sender"

definition valid_pattern :: "AddressPattern \<Rightarrow> bool" where
  "valid_pattern p \<longleftrightarrow> pattern_post_init p = Inr p"

section \<open>Facts\<close>

lemma pattern_post_init_eq: "pattern_post_init p = Inr q \<longleftrightarrow> q = p \<and> list_all pattern_field_ok (pfields p)"
  by (auto simp: pattern_post_init_def)

lemma match_fields_iff: "match_fields ps \<longleftrightarrow> (\<forall>(pat, v) \<in> set ps. pat = WILDCARD \<or> pat = v)"
  by (induction ps rule: match_fields.induct) auto

definition field_match :: "string \<Rightarrow> string \<Rightarrow> bool" where
  "field_match pat v \<longleftrightarrow> pat = WILDCARD \<or> pat = v"

definition accept_match :: "string \<Rightarrow> string \<Rightarrow> bool" where
  "accept_match pat v \<longleftrightarrow> pat = WILDCARD \<or> set pat \<subseteq> set v"

lemma pmatches_iff:
  "pmatches p a \<longleftrightarrow> field_match (p_org p) (a_org a) \<and> field_match (p_role p) (a_role a) \<and>
     field_match (p_domain p) (a_domain a) \<and> field_match (p_subdomain p) (a_subdomain a) \<and>
     accept_match (p_accept p) (a_accept a) \<and>
     field_match (p_lifecycle p) (a_lifecycle a) \<and> field_match (p_instance p) (a_instance a)"
  by (auto simp: pmatches_def match_fields_iff structural_def field_match_def accept_match_def list_all_iff)

lemma pall_matches [simp]: "pmatches pall a"
  by (simp add: pmatches_iff pall_def field_match_def accept_match_def)

text \<open>Matching reads the structural fields only: parameters never matter.\<close>

lemma pmatches_fields: "addr_fields a = addr_fields b \<Longrightarrow> pmatches p a \<longleftrightarrow> pmatches p b"
  by (simp add: pmatches_iff addr_fields_def)

lemma pmatches_canonical [simp]: "pmatches p (canonical a) \<longleftrightarrow> pmatches p a"
  by (rule pmatches_fields) (simp add: canonical_def addr_fields_def)

text \<open>Generality of patterns, and the semantic inclusion it implies.\<close>

definition narrower :: "AddressPattern \<Rightarrow> AddressPattern \<Rightarrow> bool" where
  "narrower p q \<longleftrightarrow> list_all2 field_match
       [p_org q, p_role q, p_domain q, p_subdomain q, p_lifecycle q, p_instance q]
       [p_org p, p_role p, p_domain p, p_subdomain p, p_lifecycle p, p_instance p] \<and>
     (p_accept q = WILDCARD \<or> p_accept p \<noteq> WILDCARD \<and> set (p_accept q) \<subseteq> set (p_accept p))"

lemma field_match_trans: "field_match q p \<Longrightarrow> field_match p v \<Longrightarrow> field_match q v"
  by (auto simp: field_match_def)

lemma narrower_pmatches:
  assumes "narrower p q" "pmatches p a" shows "pmatches q a"
proof -
  have "accept_match (p_accept q) (a_accept a)"
    using assms by (auto simp: narrower_def pmatches_iff accept_match_def)
  then show ?thesis
    using assms unfolding narrower_def pmatches_iff list.rel_inject by (blast intro: field_match_trans)
qed

lemma pattern_rebuild [simp]:
  "\<lparr>p_org = p_org p, p_role = p_role p, p_domain = p_domain p, p_subdomain = p_subdomain p,
     p_accept = p_accept p, p_lifecycle = p_lifecycle p, p_instance = p_instance p\<rparr> = p"
  by (cases p) simp

definition pedges_ok :: "AddressPattern \<Rightarrow> bool" where
  "pedges_ok p \<longleftrightarrow> \<not> is_space (hd (p_org p)) \<and> \<not> is_space (last (p_instance p))"

lemma pparse_pto_str:
  assumes "valid_pattern p \<and> pedges_ok p"
  shows "pparse (pto_str p) = Inr p"
proof -
  have ok: "list_all pattern_field_ok (pfields p)"
    using assms by (simp add: valid_pattern_def pattern_post_init_eq)
  then have ne: "p_org p \<noteq> []" "p_instance p \<noteq> []"
    by (auto simp: pfields_def pattern_field_ok_def)
  have "strip (pto_str p) = pto_str p"
    using assms ne by (intro strip_id) (simp add: pto_str_def pfields_def pedges_ok_def hd_append)
  moreover have "split_on (CHR ''.'') (pto_str p) = pfields p"
    using ok unfolding pto_str_def
    by (intro split_on_join) (auto simp: pfields_def pattern_field_ok_def)
  moreover have "CHR ''?'' \<notin> set (pto_str p)"
    using ok by (auto simp: pto_str_def pfields_def pattern_field_ok_def)
  ultimately show ?thesis
    using assms by (simp add: pparse_def Let_def pfields_def valid_pattern_def)
qed

interpretation pat: codec pto_str pparse "\<lambda>p. valid_pattern p \<and> pedges_ok p" "\<lambda>p. p"
  by unfold_locales (rule pparse_pto_str)

lemma pparse_valid: "pparse u = Inr p \<Longrightarrow> valid_pattern p"
  by (auto simp: pparse_def Let_def valid_pattern_def pattern_post_init_eq split: if_splits list.splits)

lemma pparse_error: "pparse u = Inl e \<Longrightarrow> e = ValueError"
  by (auto simp: pparse_def Let_def pattern_post_init_def split: if_splits list.splits)

section \<open>Properties\<close>

text \<open>A pattern's text parses back to the pattern, and a pattern that is at most as wide field by field
  (in the accept field: demands at least the same tiers) only matches addresses the wider one matches.\<close>

lemma pattern_roundtrip_and_order:
  assumes "valid_pattern p" and "pedges_ok p" and "narrower p q" and "pmatches p a"
  shows "pparse (pto_str p) = Inr p \<and> pmatches q a"
  using assms by (simp add: pparse_pto_str narrower_pmatches)

lemma pattern_roundtrip_and_order_witness:
  "\<exists>p. pparse ''acme.*.*.*.s.*.*'' = Inr p \<and> pparse (pto_str p) = Inr p \<and> pmatches pall (sample_address ''i'')"
proof -
  define p where "p = pall\<lparr>p_org := ''acme'', p_accept := ''s''\<rparr>"
  have "pparse (pto_str p) = Inr p \<and> pmatches pall (sample_address ''i'')"
    by (rule pattern_roundtrip_and_order)
      (simp_all add: p_def pall_def WILDCARD_def valid_pattern_def pattern_post_init_eq pfields_def
        pattern_field_ok_def pedges_ok_def is_space_def narrower_def field_match_def pmatches_iff
        accept_match_def sample_address_def)
  moreover have "pto_str p = ''acme.*.*.*.s.*.*''"
    by (simp add: p_def pall_def WILDCARD_def pto_str_def pfields_def)
  ultimately show ?thesis by auto
qed

end
