(* ===== verification/Codes.thy ===== *)
theory Codes
  imports Pattern
begin

text \<open>
  \<open>ahp/core/codes.py\<close> and \<open>ahp/core/compatibility.py\<close>: the hierarchical interaction codes,
  their families and selectors, and the matrix of payload tiers each code requires.
\<close>

section \<open>The code constants\<close>

definition INTERVIEW_CODES :: "string list" where
  "INTERVIEW_CODES = [
    ''interview.text'', ''interview.schema'', ''interview.data'', ''interview.embeddings'',
    ''interview.sufficiency'']"

definition ADVERSARIAL_CODES :: "string list" where
  "ADVERSARIAL_CODES = [
    ''adversarial.challenge'', ''adversarial.debate'', ''adversarial.audit'',
    ''adversarial.redteam'']"

definition COLLAB_CODES :: "string list" where
  "COLLAB_CODES = [
    ''collaborative.reason'', ''collaborative.delegate'', ''collaborative.merge'',
    ''collaborative.consensus'']"

definition HUMAN_CODES :: "string list" where
  "HUMAN_CODES = [
    ''human.query'', ''human.observe'', ''human.intervene'', ''human.approve'',
    ''human.explain'', ''human.halt'']"

definition TEACHER_CODES :: "string list" where
  "TEACHER_CODES = [
    ''teacher.judge'', ''teacher.survey'', ''teacher.observe'', ''teacher.rubric'']"

definition KG_CODES :: "string list" where
  "KG_CODES = [
    ''kg.write'', ''kg.read'', ''kg.query'']"

definition INFO_CODES :: "string list" where
  "INFO_CODES = [
    ''info.query'', ''info.query.embedding'', ''info.list'', ''info.write'']"

definition TURN_CODES :: "string list" where
  "TURN_CODES = [
    ''turn.acknowledge'', ''turn.advance'', ''turn.amplify'', ''turn.answer'', ''turn.aporia'',
    ''turn.appeal'', ''turn.ask'', ''turn.assert'', ''turn.back-or-qualify'', ''turn.bridge'',
    ''turn.carnivalize'', ''turn.challenge-warrant'', ''turn.check'', ''turn.claim'',
    ''turn.clarify'', ''turn.commit'', ''turn.confirm'', ''turn.connect'', ''turn.consolidate'',
    ''turn.contest'', ''turn.couple'', ''turn.decide'', ''turn.disclose'', ''turn.discuss'',
    ''turn.elicit'', ''turn.encounter'', ''turn.execute'', ''turn.explore-options'',
    ''turn.expose-contradiction'', ''turn.extend'', ''turn.fuse'', ''turn.hear-a'',
    ''turn.hear-b'', ''turn.hypothesize'', ''turn.identify-binary'', ''turn.instruct'',
    ''turn.integrate'', ''turn.interpret'', ''turn.interrogate'', ''turn.interrupt'',
    ''turn.invert'', ''turn.layer'', ''turn.leave-open'', ''turn.listen'', ''turn.mirror'',
    ''turn.move'', ''turn.negate'', ''turn.offer'', ''turn.open'', ''turn.position'',
    ''turn.present'', ''turn.probe'', ''turn.problematize'', ''turn.propose'', ''turn.rebut'',
    ''turn.recalibrate'', ''turn.receive'', ''turn.reciprocate'', ''turn.recognize'',
    ''turn.reconstruct'', ''turn.recurse'', ''turn.reflect'', ''turn.reframe'', ''turn.report'',
    ''turn.respond'', ''turn.responsibility'', ''turn.retell'', ''turn.reterritorialize'',
    ''turn.revise'', ''turn.revoice'', ''turn.riff'', ''turn.rupture'', ''turn.scaffold'',
    ''turn.show-aporia'', ''turn.state-interest'', ''turn.support'', ''turn.surface-mismatch'',
    ''turn.sustain'', ''turn.sustain-tension'', ''turn.synthesize'', ''turn.tell'',
    ''turn.test'', ''turn.trade'', ''turn.validate'', ''turn.voice'', ''turn.weave'',
    ''turn.weigh'', ''turn.witness'']"

definition ERROR_CODES :: "string list" where
  "ERROR_CODES = [
    ''error.malformed'', ''error.unauthorized'', ''error.scope'', ''error.timeout'',
    ''error.conflict'', ''error.internal'', ''error.confidence'', ''error.upstream'',
    ''error.overloaded'']"

text \<open>\<open>Code.all()\<close>.\<close>

definition code_all :: "string list" where
  "code_all = INTERVIEW_CODES @ ADVERSARIAL_CODES @ COLLAB_CODES @ HUMAN_CODES @ TEACHER_CODES
     @ KG_CODES @ INFO_CODES @ TURN_CODES @ ERROR_CODES"

definition family :: "string \<Rightarrow> string res" where
  "family code = (if code = [] then Inl ValueError else Inr (fst (partition_on (CHR ''.'') code)))"

definition is_error :: "string \<Rightarrow> bool res" where
  "is_error code = rbind (family code) (\<lambda>f. Inr (f = ''error''))"

text \<open>Hierarchical match; a selector ending in \<open>.*\<close> is a family glob.\<close>

definition code_matches :: "string \<Rightarrow> string \<Rightarrow> bool" where
  "code_matches code selector =
     (if selector = ''*'' then True
      else if endswith selector ''.*'' then
        (let prefix = take (length selector - 2) selector
         in code = prefix \<or> startswith code (prefix @ ''.''))
      else code = selector)"

section \<open>The compatibility matrix\<close>

definition REQUIREMENTS_base :: "(string \<times> string) list" where
  "REQUIREMENTS_base = [
    (''interview.text'', ''s''), (''interview.schema'', ''j''), (''interview.data'', ''j''),
    (''interview.embeddings'', ''be''), (''interview.sufficiency'', ''sj''),
    (''adversarial.challenge'', ''s''), (''adversarial.debate'', ''s''),
    (''adversarial.audit'', ''j''), (''adversarial.redteam'', ''s''),
    (''collaborative.reason'', ''s''), (''collaborative.delegate'', ''sj''),
    (''collaborative.merge'', ''be''), (''collaborative.consensus'', ''j''),
    (''human.query'', ''s''), (''human.observe'', ''s''), (''human.intervene'', ''s''),
    (''human.approve'', ''s''), (''human.explain'', ''s''), (''human.halt'', ''s''),
    (''teacher.judge'', ''sj''), (''teacher.survey'', ''sj''), (''teacher.observe'', ''sj''),
    (''teacher.rubric'', ''sj''), (''kg.write'', ''j''), (''kg.read'', ''j''),
    (''kg.query'', ''je''), (''info.query'', ''sj''), (''info.query.embedding'', ''be''),
    (''info.list'', ''j''), (''info.write'', ''j'')]"

definition REQUIREMENTS_turn :: "(string \<times> string) list" where
  "REQUIREMENTS_turn = [
    (''turn.acknowledge'', ''sj''), (''turn.advance'', ''sj''), (''turn.amplify'', ''sj''),
    (''turn.answer'', ''sj''), (''turn.aporia'', ''sj''), (''turn.appeal'', ''sj''),
    (''turn.ask'', ''sj''), (''turn.assert'', ''sj''), (''turn.back-or-qualify'', ''sj''),
    (''turn.bridge'', ''sj''), (''turn.carnivalize'', ''sj''),
    (''turn.challenge-warrant'', ''sj''), (''turn.check'', ''sj''), (''turn.claim'', ''sj''),
    (''turn.clarify'', ''sj''), (''turn.commit'', ''j''), (''turn.confirm'', ''sj''),
    (''turn.connect'', ''sj''), (''turn.consolidate'', ''sj''), (''turn.contest'', ''sj''),
    (''turn.couple'', ''sj''), (''turn.decide'', ''j''), (''turn.disclose'', ''sj''),
    (''turn.discuss'', ''sj''), (''turn.elicit'', ''sj''), (''turn.encounter'', ''sj''),
    (''turn.execute'', ''j''), (''turn.explore-options'', ''sj''),
    (''turn.expose-contradiction'', ''sj''), (''turn.extend'', ''sj''), (''turn.fuse'', ''sj''),
    (''turn.hear-a'', ''sj''), (''turn.hear-b'', ''sj''), (''turn.hypothesize'', ''sj''),
    (''turn.identify-binary'', ''sj''), (''turn.instruct'', ''sj''),
    (''turn.integrate'', ''sj''), (''turn.interpret'', ''sj''), (''turn.interrogate'', ''sj''),
    (''turn.interrupt'', ''sj''), (''turn.invert'', ''sj''), (''turn.layer'', ''sj''),
    (''turn.leave-open'', ''sj''), (''turn.listen'', ''sj''), (''turn.mirror'', ''sj''),
    (''turn.move'', ''sj''), (''turn.negate'', ''sj''), (''turn.offer'', ''sj''),
    (''turn.open'', ''sj''), (''turn.position'', ''sj''), (''turn.present'', ''sj''),
    (''turn.probe'', ''sj''), (''turn.problematize'', ''sj''), (''turn.propose'', ''sj''),
    (''turn.rebut'', ''sj''), (''turn.recalibrate'', ''sj''), (''turn.receive'', ''sj''),
    (''turn.reciprocate'', ''sj''), (''turn.recognize'', ''sj''), (''turn.reconstruct'', ''sj''),
    (''turn.recurse'', ''sj''), (''turn.reflect'', ''sj''), (''turn.reframe'', ''sj''),
    (''turn.report'', ''j''), (''turn.respond'', ''sj''), (''turn.responsibility'', ''sj''),
    (''turn.retell'', ''sj''), (''turn.reterritorialize'', ''sj''), (''turn.revise'', ''sj''),
    (''turn.revoice'', ''sj''), (''turn.riff'', ''sj''), (''turn.rupture'', ''sj''),
    (''turn.scaffold'', ''sj''), (''turn.show-aporia'', ''sj''),
    (''turn.state-interest'', ''sj''), (''turn.support'', ''sj''),
    (''turn.surface-mismatch'', ''sj''), (''turn.sustain'', ''sj''),
    (''turn.sustain-tension'', ''sj''), (''turn.synthesize'', ''sj''), (''turn.tell'', ''sj''),
    (''turn.test'', ''sj''), (''turn.trade'', ''j''), (''turn.validate'', ''sj''),
    (''turn.voice'', ''sj''), (''turn.weave'', ''sj''), (''turn.weigh'', ''sj''),
    (''turn.witness'', ''sj'')]"

definition REQUIREMENTS_error :: "(string \<times> string) list" where
  "REQUIREMENTS_error = [
    (''error.malformed'', ''s''), (''error.unauthorized'', ''s''), (''error.scope'', ''s''),
    (''error.timeout'', ''s''), (''error.conflict'', ''s''), (''error.internal'', ''s''),
    (''error.confidence'', ''s''), (''error.upstream'', ''s''), (''error.overloaded'', ''s'')]"

definition CODE_REQUIREMENTS :: "(string, string) dict" where
  "CODE_REQUIREMENTS = REQUIREMENTS_base @ REQUIREMENTS_turn @ REQUIREMENTS_error"

definition DEFAULT_REQUIREMENT :: string where "DEFAULT_REQUIREMENT = ''s''"

definition required_tiers :: "string \<Rightarrow> string" where
  "required_tiers code = dict_get CODE_REQUIREMENTS code DEFAULT_REQUIREMENT"

definition is_known :: "string \<Rightarrow> bool" where
  "is_known code \<longleftrightarrow> map_of CODE_REQUIREMENTS code \<noteq> None"

definition can_route :: "AgentAddress \<Rightarrow> AgentAddress \<Rightarrow> string \<Rightarrow> bool" where
  "can_route source target code \<longleftrightarrow> list_ex (\<lambda>c. c \<in> set (required_tiers code)) (a_accept target)"

definition matrix_filter_targets :: "AgentAddress \<Rightarrow> AgentAddress list \<Rightarrow> string \<Rightarrow> AgentAddress list" where
  "matrix_filter_targets source targets code = filter (\<lambda>t. can_route source t code) targets"

section \<open>Target filters\<close>

text \<open>
  The contract shared by every layer that narrows a resolved target list (the matrix here,
  the scope policy later): a per-target decision, applied in order.
\<close>

locale target_filter =
  fixes allow :: "AgentAddress \<Rightarrow> AgentAddress \<Rightarrow> string \<Rightarrow> bool"
    and filt :: "AgentAddress \<Rightarrow> AgentAddress list \<Rightarrow> string \<Rightarrow> AgentAddress list"
  assumes filt_Nil: "filt s [] c = []"
    and filt_Cons: "filt s (t # ts) c = (if allow s t c then t # filt s ts c else filt s ts c)"
begin

lemma filt_filter: "filt s ts c = filter (\<lambda>t. allow s t c) ts"
  by (induction ts) (simp_all add: filt_Nil filt_Cons)

lemma set_filt: "set (filt s ts c) = {t \<in> set ts. allow s t c}"
  by (simp add: filt_filter)

lemma filt_idem: "filt s (filt s ts c) c = filt s ts c"
  by (simp add: filt_filter)

lemma filt_append: "filt s (ts @ us) c = filt s ts c @ filt s us c"
  by (simp add: filt_filter)

lemma filt_all: "(\<And>t. t \<in> set ts \<Longrightarrow> allow s t c) \<Longrightarrow> filt s ts c = ts"
  by (simp add: filt_filter)

lemma filt_commute: "filt s (filter P ts) c = filter P (filt s ts c)"
  by (simp add: filt_filter conj_commute)

end

interpretation matrix: target_filter can_route matrix_filter_targets
  by unfold_locales (simp_all add: matrix_filter_targets_def)

section \<open>Facts\<close>

lemma can_route_iff: "can_route s t c \<longleftrightarrow> set (a_accept t) \<inter> set (required_tiers c) \<noteq> {}"
  by (auto simp: can_route_def list_ex_iff)

lemma endswith_glob: "endswith (p @ ''.*'') ''.*''"
  by (auto simp: endswith_iff)

lemma code_matches_glob:
  "code_matches code (p @ ''.*'') \<longleftrightarrow> code = p \<or> startswith code (p @ ''.'')"
proof -
  have "p @ ''.*'' \<noteq> ''*''" by (cases p) auto
  then show ?thesis by (simp add: code_matches_def endswith_glob)
qed

text \<open>A glob matches exactly the codes whose dotted segments extend the segments of its stem.\<close>

lemma split_on_append:
  "split_on c (s @ c # t) = split_on c s @ split_on c t"
  by (induction s) (auto split: list.splits)

lemma code_matches_segments:
  "code_matches code (p @ ''.*'') \<longleftrightarrow> prefix (split_on (CHR ''.'') p) (split_on (CHR ''.'') code)"
proof
  assume "code_matches code (p @ ''.*'')"
  then show "prefix (split_on (CHR ''.'') p) (split_on (CHR ''.'') code)"
    by (auto simp: code_matches_glob startswith_iff split_on_append)
next
  assume "prefix (split_on (CHR ''.'') p) (split_on (CHR ''.'') code)"
  then obtain zs where zs: "split_on (CHR ''.'') code = split_on (CHR ''.'') p @ zs"
    by (auto simp: prefix_def)
  have code: "code = join ''.'' (split_on (CHR ''.'') p @ zs)"
    using join_split_on [of "CHR ''.''" code] by (simp add: zs)
  show "code_matches code (p @ ''.*'')"
  proof (cases zs)
    case Nil
    then show ?thesis using code by (simp add: code_matches_glob join_split_on)
  next
    case (Cons z zs')
    have "join ''.'' (xs @ z # zs') = join ''.'' xs @ ''.'' @ join ''.'' (z # zs')" if "xs \<noteq> []" for xs
      using that by (induction "''.''" xs rule: join.induct) auto
    then show ?thesis using code Cons by (simp add: code_matches_glob startswith_iff join_split_on)
  qed
qed

section \<open>Properties\<close>

text \<open>A code selector ending in a star is a subtree selector: it matches exactly the codes whose dotted
  segments start with the segments of its stem, never a code that merely shares a textual prefix.\<close>

lemma code_glob_is_subtree:
  "code_matches code (p @ ''.*'') \<longleftrightarrow> prefix (split_on (CHR ''.'') p) (split_on (CHR ''.'') code)"
  by (rule code_matches_segments)

text \<open>Every registered interaction code has an entry in the compatibility matrix, with a non-empty set of
  admissible response tiers drawn from the four known ones.\<close>

lemma matrix_complete:
  "list_all (\<lambda>c. is_known c \<and> required_tiers c \<noteq> [] \<and> set (required_tiers c) \<subseteq> set ACCEPT_TIER_ORDER) code_all"
proof -
  have keys: "map fst CODE_REQUIREMENTS = code_all" by code_simp
  have vals: "list_all (\<lambda>p. snd p \<noteq> [] \<and> list_all (\<lambda>t. t \<in> set ACCEPT_TIER_ORDER) (snd p)) CODE_REQUIREMENTS" by code_simp
  have "is_known c \<and> required_tiers c \<noteq> [] \<and> set (required_tiers c) \<subseteq> set ACCEPT_TIER_ORDER"
    if "c \<in> set (map fst CODE_REQUIREMENTS)" for c
  proof -
    obtain ts where ts: "map_of CODE_REQUIREMENTS c = Some ts"
      using \<open>c \<in> set (map fst CODE_REQUIREMENTS)\<close> by (cases "map_of CODE_REQUIREMENTS c") (auto simp: map_of_eq_None_iff)
    then have "(c, ts) \<in> set CODE_REQUIREMENTS" by (rule map_of_SomeD)
    with vals have "ts \<noteq> []" "set ts \<subseteq> set ACCEPT_TIER_ORDER" by (auto simp: list_all_iff)
    with ts show ?thesis by (simp add: is_known_def required_tiers_def dict_get_def)
  qed
  then show ?thesis by (simp only: keys [symmetric] list_all_iff) blast
qed

text \<open>Error codes are not always deliverable, against the comment that says they must be: an agent that does not
  accept the structured tier \<open>s\<close> is filtered out for every error code.\<close>

lemma errors_undeliverable_without_s:
  assumes "code \<in> set ERROR_CODES" and "CHR ''s'' \<notin> set (a_accept t)"
  shows "is_error code = Inr True \<and> \<not> can_route s t code"
proof -
  have "list_all (\<lambda>c. is_error c = Inr True \<and> required_tiers c = ''s'') ERROR_CODES" by code_simp
  then have "is_error code = Inr True \<and> required_tiers code = ''s''" using assms(1) by (simp add: list_all_iff)
  then show ?thesis using assms(2) by (simp add: can_route_iff)
qed

lemma errors_undeliverable_without_s_witness:
  "is_error ''error.timeout'' = Inr True \<and> \<not> can_route (sample_address ''k'') ((sample_address ''i'')\<lparr>a_accept := ''j''\<rparr>) ''error.timeout''"
  by (rule errors_undeliverable_without_s) (simp_all add: ERROR_CODES_def)

end
