(* ===== verification/Message.thy ===== *)
theory Message
  imports Codes
begin

text \<open>
  \<open>ahp/core/message.py\<close>: the message envelope, its validation, its cache key and its
  transport dictionary. A datetime is represented by its ISO text (the value of
  \<open>isoformat\<close>); \<open>fromisoformat\<close> accepts the texts of that shape.
\<close>

section \<open>Verbs and lifetimes\<close>

definition VALID_VERBS :: "string list" where
  "VALID_VERBS = [''SEND'', ''SEND-GET'', ''CAST'', ''CAST-GET'', ''CAST-SUB'', ''INVALIDATE'']"

definition LIFECYCLE_TTL :: "(string, int) dict" where
  "LIFECYCLE_TTL = [(''longterm'', 86400), (''session'', 3600), (''ephemeral'', 0), (''stale-ok'', 604800)]"

definition POINT_TO_POINT_VERBS :: "string list" where
  "POINT_TO_POINT_VERBS = [''SEND'', ''SEND-GET'']"

definition BROADCAST_VERBS :: "string list" where
  "BROADCAST_VERBS = [''CAST'', ''CAST-GET'', ''CAST-SUB'', ''INVALIDATE'']"

section \<open>Timestamps\<close>

fun like_template :: "string \<Rightarrow> string \<Rightarrow> bool" where
  "like_template [] [] = True"
| "like_template (t # ts) (c # cs) =
     ((if t = CHR ''d'' then CHR ''0'' \<le> c \<and> c \<le> CHR ''9'' else c = t) \<and> like_template ts cs)"
| "like_template _ _ = False"

definition iso_naive :: "string \<Rightarrow> bool" where
  "iso_naive t \<longleftrightarrow> like_template ''dddd-dd-ddTdd:dd:dd'' t \<or> like_template ''dddd-dd-ddTdd:dd:dd.dddddd'' t"

text \<open>An aware text carries an offset after the naive part.\<close>

definition iso_aware :: "string \<Rightarrow> bool" where
  "iso_aware t \<longleftrightarrow> iso_naive (take (length t - 6) t) \<and>
     (like_template ''+dd:dd'' (drop (length t - 6) t) \<or> like_template ''-dd:dd'' (drop (length t - 6) t))"

definition fromisoformat :: "string \<Rightarrow> string res" where
  "fromisoformat t = (if iso_naive t \<or> iso_aware t then Inr t else Inl ValueError)"

text \<open>\<open>timestamp.replace(tzinfo=timezone.utc)\<close> for a naive one.\<close>

definition normalize_ts :: "string \<Rightarrow> string" where
  "normalize_ts t = (if iso_aware t then t else t @ ''+00:00'')"

section \<open>The envelope\<close>

datatype msg_target = TAddr AgentAddress | TPat AddressPattern

record Message =
  m_source :: AgentAddress
  m_target :: msg_target
  m_verb :: string
  m_code :: string
  m_thread :: string
  m_body :: pyval
  m_timestamp :: string
  m_ttl :: "int option"
  m_reply_to :: "string option"
  m_message_id :: string
  m_format :: "string option"

text \<open>\<open>__post_init__\<close>. The type checks on source and target hold by the model's types.\<close>

definition msg_post_init :: "Message \<Rightarrow> Message res" where
  "msg_post_init m =
     (if m_verb m \<notin> set VALID_VERBS then Inl ValueError
      else if m_verb m \<in> set POINT_TO_POINT_VERBS \<and> (case m_target m of TPat _ \<Rightarrow> True | TAddr _ \<Rightarrow> False)
      then Inl ValueError
      else if m_code m = [] then Inl ValueError
      else if m_thread m = [] then Inl ValueError
      else rbind (case m_ttl m of
                    None \<Rightarrow> Inr (m\<lparr>m_ttl := Some (dict_get LIFECYCLE_TTL (a_lifecycle (m_source m)) 0)\<rparr>)
                  | Some t \<Rightarrow> if t < 0 then Inl ValueError else Inr m)
             (\<lambda>m. Inr (m\<lparr>m_timestamp := normalize_ts (m_timestamp m)\<rparr>)))"

definition is_broadcast :: "Message \<Rightarrow> bool" where
  "is_broadcast m \<longleftrightarrow> (case m_target m of TPat _ \<Rightarrow> True | TAddr _ \<Rightarrow> False)"

definition expects_response :: "Message \<Rightarrow> bool" where
  "expects_response m \<longleftrightarrow> m_verb m \<in> {''SEND-GET'', ''CAST-GET''}"

definition target_str :: "msg_target \<Rightarrow> string" where
  "target_str t = (case t of TAddr a \<Rightarrow> to_str a | TPat p \<Rightarrow> pto_str p)"

text \<open>
  \<open>body_digest\<close>: \<open>digest\<close> is the hex SHA-256 of the sorted-key JSON text of a value (or of
  its \<open>repr\<close> where JSON refuses it), \<open>bytes_digest\<close> that of raw bytes.
\<close>

definition body_digest :: "(pyval \<Rightarrow> string) \<Rightarrow> (string \<Rightarrow> string) \<Rightarrow> pyval \<Rightarrow> string" where
  "body_digest digest bytes_digest body =
     (case body of PNone \<Rightarrow> [] | PBytes b \<Rightarrow> bytes_digest b | _ \<Rightarrow> digest body)"

definition cache_key :: "(pyval \<Rightarrow> string) \<Rightarrow> (string \<Rightarrow> string) \<Rightarrow> Message \<Rightarrow> string res" where
  "cache_key digest bytes_digest m =
     (case m_target m of
        TPat _ \<Rightarrow> Inl ValueError
      | TAddr a \<Rightarrow> Inr (digest (PDict [(''addr'', PStr (to_str a)),
          (''body'', PStr (body_digest digest bytes_digest (m_body m))), (''code'', PStr (m_code m))])))"

section \<open>Transport dictionaries\<close>

definition opt_str :: "string option \<Rightarrow> pyval" where
  "opt_str s = (case s of None \<Rightarrow> PNone | Some t \<Rightarrow> PStr t)"

definition to_dict :: "Message \<Rightarrow> (string, pyval) dict" where
  "to_dict m = [
     (''message_id'', PStr (m_message_id m)),
     (''source'', PStr (to_str (m_source m))),
     (''target'', PStr (target_str (m_target m))),
     (''target_kind'', PStr (if is_broadcast m then ''pattern'' else ''address'')),
     (''verb'', PStr (m_verb m)),
     (''code'', PStr (m_code m)),
     (''thread'', PStr (m_thread m)),
     (''body'', m_body m),
     (''timestamp'', PStr (m_timestamp m)),
     (''ttl'', case m_ttl m of None \<Rightarrow> PNone | Some t \<Rightarrow> PInt t),
     (''reply_to'', opt_str (m_reply_to m)),
     (''format'', opt_str (m_format m))]"

text \<open>The target of a dictionary: by \<open>target_kind\<close>, else inferred from the verb.\<close>

definition parse_target :: "(string, pyval) dict \<Rightarrow> string \<Rightarrow> msg_target res" where
  "parse_target d text =
     (let as_pattern = rbind (pparse text) (\<lambda>p. Inr (TPat p));
          as_address = rbind (parse text) (\<lambda>a. Inr (TAddr a))
      in if map_of d ''target_kind'' = Some (PStr ''pattern'') then as_pattern
         else if map_of d ''target_kind'' = Some (PStr ''address'') then as_address
         else rbind (item d ''verb'') (\<lambda>v. rbind (as_str v) (\<lambda>verb.
                if verb \<in> set BROADCAST_VERBS then as_pattern else as_address)))"

definition parse_ttl :: "pyval \<Rightarrow> int option res" where
  "parse_ttl v = (case v of PNone \<Rightarrow> Inr None | PInt t \<Rightarrow> Inr (Some t) | _ \<Rightarrow> Inl ValueError)"

text \<open>\<open>from_dict\<close>; \<open>new_id\<close> is the fresh UUID used when the id is missing.\<close>

definition from_dict :: "string \<Rightarrow> (string, pyval) dict \<Rightarrow> Message res" where
  "from_dict new_id d =
     rbind (item d ''source'') (\<lambda>v. rbind (as_str v) (\<lambda>src. rbind (parse src) (\<lambda>source.
     rbind (item d ''target'') (\<lambda>v. rbind (as_str v) (\<lambda>tgt. rbind (parse_target d tgt) (\<lambda>target.
     rbind (item d ''timestamp'') (\<lambda>v. rbind (as_str v) (\<lambda>ts. rbind (fromisoformat ts) (\<lambda>timestamp.
     rbind (item d ''verb'') (\<lambda>v. rbind (as_str v) (\<lambda>verb.
     rbind (item d ''code'') (\<lambda>v. rbind (as_str v) (\<lambda>code.
     rbind (item d ''thread'') (\<lambda>v. rbind (as_str v) (\<lambda>thread.
     rbind (parse_ttl (dict_get d ''ttl'' PNone)) (\<lambda>ttl.
     rbind (as_str_opt (dict_get d ''reply_to'' PNone)) (\<lambda>reply.
     rbind (as_str (dict_get d ''message_id'' (PStr new_id))) (\<lambda>mid.
     rbind (as_str_opt (dict_get d ''format'' PNone)) (\<lambda>fmt.
       msg_post_init \<lparr>m_source = source, m_target = target, m_verb = verb, m_code = code,
         m_thread = thread, m_body = dict_get d ''body'' PNone, m_timestamp = timestamp,
         m_ttl = ttl, m_reply_to = reply, m_message_id = mid, m_format = fmt\<rparr>)))))))))))))))))))"

section \<open>Well-formed messages\<close>

definition valid_target :: "msg_target \<Rightarrow> bool" where
  "valid_target t = (case t of TAddr a \<Rightarrow> valid_address a \<and> edges_ok a | TPat p \<Rightarrow> valid_pattern p \<and> pedges_ok p)"

text \<open>What the constructor establishes, with printable addresses.\<close>

definition valid_message :: "Message \<Rightarrow> bool" where
  "valid_message m \<longleftrightarrow> valid_address (m_source m) \<and> edges_ok (m_source m) \<and> valid_target (m_target m)
     \<and> m_verb m \<in> set VALID_VERBS
     \<and> (m_verb m \<in> set POINT_TO_POINT_VERBS \<longrightarrow> \<not> is_broadcast m)
     \<and> m_code m \<noteq> [] \<and> m_thread m \<noteq> []
     \<and> (\<exists>t. m_ttl m = Some t \<and> 0 \<le> t) \<and> iso_aware (m_timestamp m)"

definition canonical_target :: "msg_target \<Rightarrow> msg_target" where
  "canonical_target t = (case t of TAddr a \<Rightarrow> TAddr (canonical a) | TPat p \<Rightarrow> TPat p)"

definition canonical_msg :: "Message \<Rightarrow> Message" where
  "canonical_msg m = m\<lparr>m_source := canonical (m_source m), m_target := canonical_target (m_target m)\<rparr>"

lemma like_template_length: "like_template t s \<Longrightarrow> length s = length t"
  by (induction t s rule: like_template.induct) auto

lemma iso_naive_length: "iso_naive t \<Longrightarrow> length t = 19 \<or> length t = 26"
  unfolding iso_naive_def by (elim disjE; drule like_template_length; simp)

lemma iso_naive_aware:
  assumes "iso_naive t" shows "\<not> iso_aware t" "iso_aware (t @ ''+00:00'')"
proof -
  have "length (take (length t - 6) t) = 13 \<or> length (take (length t - 6) t) = 20"
    using iso_naive_length [OF assms] by auto
  then have "\<not> iso_naive (take (length t - 6) t)"
    using iso_naive_length [of "take (length t - 6) t"] by linarith
  then show "\<not> iso_aware t" by (simp add: iso_aware_def)
  show "iso_aware (t @ ''+00:00'')" using assms by (simp add: iso_aware_def less_eq_char_def)
qed

lemma msg_post_init_id:
  assumes "valid_message m" shows "msg_post_init m = Inr m"
  using assms
  by (auto simp: valid_message_def msg_post_init_def normalize_ts_def is_broadcast_def
      split: msg_target.splits)

lemma msg_post_init_error: "msg_post_init m = Inl e \<Longrightarrow> e = ValueError"
  by (auto simp: msg_post_init_def split: if_splits option.splits)

lemma msg_post_init_valid:
  assumes "msg_post_init m = Inr m'"
    and "valid_address (m_source m) \<and> edges_ok (m_source m) \<and> valid_target (m_target m)"
    and "fromisoformat (m_timestamp m) = Inr ts"
  shows "valid_message m'"
proof -
  have "iso_aware (normalize_ts (m_timestamp m))"
    using assms(3) iso_naive_aware by (auto simp: fromisoformat_def normalize_ts_def split: if_splits)
  moreover have "0 \<le> dict_get LIFECYCLE_TTL lc 0" for lc
    by (simp add: dict_get_def LIFECYCLE_TTL_def)
  ultimately show ?thesis
    using assms(1,2)
    by (auto simp: msg_post_init_def valid_message_def rbind_eq_Inr is_broadcast_def
        split: if_splits option.splits)
qed

lemma canonical_valid_message:
  assumes "valid_message m" shows "valid_message (canonical_msg m)"
proof -
  have ne: "sort_key fst (d :: (string, string) dict) = [] \<longleftrightarrow> d = []" for d
    by (metis length_0_conv length_sort)
  have edges: "edges_ok (canonical a) \<longleftrightarrow> edges_ok a" for a
    by (simp add: edges_ok_def canonical_def ne)
  have "valid_target (canonical_target t)" if "valid_target t" for t
    using that by (cases t) (simp_all add: valid_target_def canonical_target_def canonical_valid edges)
  then show ?thesis using assms
    by (auto simp: valid_message_def canonical_msg_def canonical_valid edges is_broadcast_def
        canonical_target_def split: msg_target.splits)
qed

lemma parse_target_to_dict:
  assumes "valid_message m"
  shows "parse_target (to_dict m) (target_str (m_target m)) = Inr (canonical_target (m_target m))"
  using assms
  by (cases "m_target m")
    (simp_all add: parse_target_def to_dict_def Let_def target_str_def canonical_target_def
      valid_message_def valid_target_def is_broadcast_def parse_to_str pparse_pto_str)

lemma message_rebuild:
  "\<lparr>m_source = s, m_target = t, m_verb = m_verb m, m_code = m_code m, m_thread = m_thread m,
     m_body = m_body m, m_timestamp = m_timestamp m, m_ttl = m_ttl m, m_reply_to = m_reply_to m,
     m_message_id = m_message_id m, m_format = m_format m\<rparr> = m\<lparr>m_source := s, m_target := t\<rparr>"
  by (cases m) simp

lemma from_dict_to_dict:
  assumes "valid_message m"
  shows "from_dict nid (to_dict m) = Inr (canonical_msg m)"
proof -
  have src: "parse (to_str (m_source m)) = Inr (canonical (m_source m))"
    and ts: "fromisoformat (m_timestamp m) = Inr (m_timestamp m)"
    using assms by (simp_all add: valid_message_def parse_to_str fromisoformat_def)
  have ttl: "parse_ttl (case m_ttl m of None \<Rightarrow> PNone | Some t \<Rightarrow> PInt t) = Inr (m_ttl m)"
    by (cases "m_ttl m") (simp_all add: parse_ttl_def)
  have opt: "as_str_opt (opt_str s) = Inr s" for s by (cases s) (simp_all add: opt_str_def)
  have pi: "msg_post_init (m\<lparr>m_source := canonical (m_source m), m_target := canonical_target (m_target m)\<rparr>)
      = Inr (canonical_msg m)"
    using msg_post_init_id [OF canonical_valid_message [OF assms]] by (simp add: canonical_msg_def)
  note tgt = parse_target_to_dict [OF assms]
  show ?thesis
    using src ts tgt ttl pi
    by (simp add: from_dict_def item_def dict_get_def opt message_rebuild to_dict_def)
qed

interpretation wire: codec to_dict "from_dict nid" valid_message canonical_msg for nid
  by unfold_locales (rule from_dict_to_dict)

section \<open>Properties\<close>

text \<open>C2: The wire form of a message loses nothing: decoding the encoded dictionary of a well-formed message gives
  the message back, with the parameters of its addresses in key order, and whatever fresh id the decoder
  would have used for a missing one.\<close>

theorem message_roundtrip:
  assumes "valid_message m" shows "from_dict nid (to_dict m) = Inr (canonical_msg m)"
  using assms by (rule from_dict_to_dict)

definition sample_message :: Message where
  "sample_message = \<lparr>m_source = sample_address ''i1'', m_target = TAddr (sample_address ''i2''), m_verb = ''SEND-GET'',
     m_code = ''query'', m_thread = ''t1'', m_body = PDict [(''q'', PStr ''hi'')],
     m_timestamp = ''2024-05-01T10:00:00+00:00'', m_ttl = Some 60, m_reply_to = None, m_message_id = ''m1'', m_format = None\<rparr>"

theorem message_roundtrip_witness: "from_dict [] (to_dict sample_message) = Inr (canonical_msg sample_message)"
proof (rule message_roundtrip)
  have "valid_address (sample_address ''i1'')" "edges_ok (sample_address ''i1'')"
    "valid_address (sample_address ''i2'')" "edges_ok (sample_address ''i2'')" by code_simp+
  moreover have "iso_aware ''2024-05-01T10:00:00+00:00''" by code_simp
  ultimately show "valid_message sample_message"
    by (simp add: valid_message_def sample_message_def valid_target_def VALID_VERBS_def is_broadcast_def)
qed

text \<open>The constructor establishes the message invariant: from printable addresses and an ISO timestamp it
  either raises \<open>ValueError\<close> or returns a message with a known verb, an addressed target for point-to-point
  verbs, a non-empty code and thread, a non-negative TTL (defaulted from the source's lifecycle) and a
  timezone-aware timestamp.\<close>

lemma message_constructor_sound:
  assumes "valid_address (m_source m)" "edges_ok (m_source m)" "valid_target (m_target m)"
    and "fromisoformat (m_timestamp m) = Inr ts"
  shows "case msg_post_init m of Inl e \<Rightarrow> e = ValueError | Inr m' \<Rightarrow> valid_message m'"
  using assms msg_post_init_valid [of m _ ts] msg_post_init_error [of m]
  by (auto split: sum.splits)

lemma message_constructor_sound_witness:
  "case msg_post_init (sample_message\<lparr>m_ttl := None, m_timestamp := ''2024-05-01T10:00:00''\<rparr>) of
     Inl e \<Rightarrow> e = ValueError | Inr m' \<Rightarrow> valid_message m'"
proof (rule message_constructor_sound)
  let ?m = "sample_message\<lparr>m_ttl := None, m_timestamp := ''2024-05-01T10:00:00''\<rparr>"
  show "fromisoformat (m_timestamp ?m) = Inr ''2024-05-01T10:00:00''" by code_simp
  show "valid_address (m_source ?m)" "edges_ok (m_source ?m)" "valid_target (m_target ?m)" by code_simp+
qed

end
