(* ===== verification/Redis.thy ===== *)
theory Redis
  imports Message
begin

text \<open>
  The interface to the Redis client. The client and the server are not part of the
  program: every definition that talks to Redis takes the record of the commands it calls
  (\<open>'s redis\<close>) as an argument, over an arbitrary state type \<open>'s\<close>. What the program relies
  on is the locale \<open>redis\<close>: the documented effect of each command, read through a view of
  the key space. \<open>mem_redis\<close> is an in-memory instance, the one witnesses run on.

  A stored text is the \<^typ>\<open>pyval\<close> it encodes. The commands are read on states in which a
  key carries one type; keys vanish by expiry between commands, never within one.
\<close>

section \<open>The commands\<close>

text \<open>
  The three ways a transaction can end: \<open>execute()\<close> returns the replies, raises WatchError
  because a watched key changed, or returns \<open>None\<close> (what the retry loops test for).
\<close>

datatype 's exec_result = Committed 's | Conflict 's | NoReply 's

record 's redis =
  r_get :: "string \<Rightarrow> 's \<Rightarrow> pyval option"
  r_set :: "string \<Rightarrow> pyval \<Rightarrow> 's \<Rightarrow> 's"
  r_setex :: "string \<Rightarrow> pyval \<Rightarrow> int \<Rightarrow> 's \<Rightarrow> 's"
  r_setnx :: "string \<Rightarrow> pyval \<Rightarrow> 's \<Rightarrow> bool \<times> 's"
  r_delete :: "string \<Rightarrow> 's \<Rightarrow> 's"
  r_exists :: "string \<Rightarrow> 's \<Rightarrow> bool"
  r_scan :: "string \<Rightarrow> 's \<Rightarrow> string list"
  r_hget :: "string \<Rightarrow> string \<Rightarrow> 's \<Rightarrow> pyval option"
  r_hset :: "string \<Rightarrow> string \<Rightarrow> pyval \<Rightarrow> 's \<Rightarrow> 's"
  r_hdel :: "string \<Rightarrow> string \<Rightarrow> 's \<Rightarrow> 's"
  r_hgetall :: "string \<Rightarrow> 's \<Rightarrow> (string, pyval) dict"
  r_sadd :: "string \<Rightarrow> string \<Rightarrow> 's \<Rightarrow> 's"
  r_srem :: "string \<Rightarrow> string \<Rightarrow> 's \<Rightarrow> 's"
  r_smembers :: "string \<Rightarrow> 's \<Rightarrow> string list"
  r_zadd :: "string \<Rightarrow> string \<Rightarrow> pyfloat \<Rightarrow> 's \<Rightarrow> 's"
  r_zrem :: "string \<Rightarrow> string \<Rightarrow> 's \<Rightarrow> 's"
  r_zrangebyscore :: "string \<Rightarrow> pyfloat \<Rightarrow> 's \<Rightarrow> string list"
  r_xadd :: "string \<Rightarrow> pyval \<Rightarrow> 's \<Rightarrow> 's"
  r_xrange :: "string \<Rightarrow> 's \<Rightarrow> pyval list"
  r_publish :: "string \<Rightarrow> pyval \<Rightarrow> 's \<Rightarrow> int \<times> 's"
  r_watch_exec :: "string \<Rightarrow> ('s \<Rightarrow> 's) \<Rightarrow> 's \<Rightarrow> 's exec_result"

definition r_hexists :: "'s redis \<Rightarrow> string \<Rightarrow> string \<Rightarrow> 's \<Rightarrow> bool" where
  "r_hexists R k f s \<longleftrightarrow> r_hget R k f s \<noteq> None"

definition r_hlen :: "'s redis \<Rightarrow> string \<Rightarrow> 's \<Rightarrow> int" where
  "r_hlen R k s = int (length (r_hgetall R k s))"

definition r_sismember :: "'s redis \<Rightarrow> string \<Rightarrow> string \<Rightarrow> 's \<Rightarrow> bool" where
  "r_sismember R k m s \<longleftrightarrow> m \<in> set (r_smembers R k s)"

section \<open>The view of the key space\<close>

record view =
  strs :: "string \<Rightarrow> pyval option"
  ttls :: "string \<Rightarrow> int option"
  hashes :: "string \<Rightarrow> string \<Rightarrow> pyval option"
  sets :: "string \<Rightarrow> string set"
  zsets :: "string \<Rightarrow> string \<Rightarrow> pyfloat option"
  streams :: "string \<Rightarrow> pyval list"
  published :: "(string \<times> pyval) list"

definition key_exists :: "view \<Rightarrow> string \<Rightarrow> bool" where
  "key_exists v k \<longleftrightarrow> strs v k \<noteq> None \<or> hashes v k \<noteq> Map.empty \<or> sets v k \<noteq> {}
     \<or> zsets v k \<noteq> Map.empty \<or> streams v k \<noteq> []"

definition del_key :: "string \<Rightarrow> view \<Rightarrow> view" where
  "del_key k v = v\<lparr>strs := (strs v)(k := None), ttls := (ttls v)(k := None),
     hashes := (hashes v)(k := Map.empty), sets := (sets v)(k := {}),
     zsets := (zsets v)(k := Map.empty), streams := (streams v)(k := [])\<rparr>"

definition put_str :: "string \<Rightarrow> pyval \<Rightarrow> int option \<Rightarrow> view \<Rightarrow> view" where
  "put_str k x ttl v = (del_key k v)\<lparr>strs := (strs v)(k \<mapsto> x), ttls := (ttls v)(k := ttl)\<rparr>"

text \<open>The part of the view a WATCH protects.\<close>

definition same_key :: "string \<Rightarrow> view \<Rightarrow> view \<Rightarrow> bool" where
  "same_key k v w \<longleftrightarrow> strs v k = strs w k \<and> hashes v k = hashes w k \<and> sets v k = sets w k
     \<and> zsets v k = zsets w k \<and> streams v k = streams w k"

lemma del_key_sel [simp]:
  "strs (del_key k v) = (strs v)(k := None)" "ttls (del_key k v) = (ttls v)(k := None)"
  "hashes (del_key k v) = (hashes v)(k := Map.empty)" "sets (del_key k v) = (sets v)(k := {})"
  "zsets (del_key k v) = (zsets v)(k := Map.empty)" "streams (del_key k v) = (streams v)(k := [])"
  "published (del_key k v) = published v"
  by (simp_all add: del_key_def)

lemma put_str_sel [simp]:
  "strs (put_str k x t v) = (strs v)(k \<mapsto> x)" "ttls (put_str k x t v) = (ttls v)(k := t)"
  "hashes (put_str k x t v) = (hashes v)(k := Map.empty)" "sets (put_str k x t v) = (sets v)(k := {})"
  "zsets (put_str k x t v) = (zsets v)(k := Map.empty)" "streams (put_str k x t v) = (streams v)(k := [])"
  "published (put_str k x t v) = published v"
  by (simp_all add: put_str_def)

lemma same_key_refl [simp]: "same_key k v v"
  by (simp add: same_key_def)

lemma map_of_empty_iff: "map_of d = Map.empty \<longleftrightarrow> d = []"
  by (cases d) (auto simp: fun_eq_iff)

section \<open>What the program relies on\<close>

locale redis =
  fixes R :: "'s redis" and abs :: "'s \<Rightarrow> view"
  assumes get [simp]: "r_get R k s = strs (abs s) k"
    and abs_set [simp]: "abs (r_set R k x s) = put_str k x None (abs s)"
    and abs_setex [simp]: "abs (r_setex R k x n s) = put_str k x (Some n) (abs s)"
    and setnx: "r_setnx R k x s = (if key_exists (abs s) k then (False, s) else (True, r_set R k x s))"
    and abs_delete [simp]: "abs (r_delete R k s) = del_key k (abs s)"
    and exists_key [simp]: "r_exists R k s \<longleftrightarrow> key_exists (abs s) k"
    and scan: "set (r_scan R p s) = {k. key_exists (abs s) k \<and> startswith k p}" "distinct (r_scan R p s)"
    and hget [simp]: "r_hget R k f s = hashes (abs s) k f"
    and abs_hset [simp]: "abs (r_hset R k f x s) = (abs s)\<lparr>hashes := (hashes (abs s))(k := (hashes (abs s) k)(f \<mapsto> x))\<rparr>"
    and abs_hdel [simp]: "abs (r_hdel R k f s) = (abs s)\<lparr>hashes := (hashes (abs s))(k := (hashes (abs s) k)(f := None))\<rparr>"
    and hgetall: "map_of (r_hgetall R k s) = hashes (abs s) k" "is_dict (r_hgetall R k s)"
    and abs_sadd [simp]: "abs (r_sadd R k m s) = (abs s)\<lparr>sets := (sets (abs s))(k := insert m (sets (abs s) k))\<rparr>"
    and abs_srem [simp]: "abs (r_srem R k m s) = (abs s)\<lparr>sets := (sets (abs s))(k := sets (abs s) k - {m})\<rparr>"
    and smembers [simp]: "set (r_smembers R k s) = sets (abs s) k" "distinct (r_smembers R k s)"
    and abs_zadd [simp]: "abs (r_zadd R k m sc s) = (abs s)\<lparr>zsets := (zsets (abs s))(k := (zsets (abs s) k)(m \<mapsto> sc))\<rparr>"
    and abs_zrem [simp]: "abs (r_zrem R k m s) = (abs s)\<lparr>zsets := (zsets (abs s))(k := (zsets (abs s) k)(m := None))\<rparr>"
    and zrange: "set (r_zrangebyscore R k hi s) = {m. \<exists>sc. zsets (abs s) k m = Some sc \<and> sc \<le> hi}"
      "distinct (r_zrangebyscore R k hi s)"
      "sorted (map (\<lambda>m. the (zsets (abs s) k m)) (r_zrangebyscore R k hi s))"
    and abs_xadd [simp]: "abs (r_xadd R k x s) = (abs s)\<lparr>streams := (streams (abs s))(k := streams (abs s) k @ [x])\<rparr>"
    and xrange [simp]: "r_xrange R k s = streams (abs s) k"
    and abs_publish [simp]: "abs (snd (r_publish R c x s)) = (abs s)\<lparr>published := published (abs s) @ [(c, x)]\<rparr>"
    and publish_count: "0 \<le> fst (r_publish R c x s)"
    and exec_committed: "r_watch_exec R k q s = Committed t \<Longrightarrow> \<exists>u. same_key k (abs s) (abs u) \<and> t = q u"
    and exec_raises: "r_watch_exec R k q s \<noteq> NoReply t"
begin

lemma hexists [simp]: "r_hexists R k f s \<longleftrightarrow> hashes (abs s) k f \<noteq> None"
  by (simp add: r_hexists_def)

lemma sismember [simp]: "r_sismember R k m s \<longleftrightarrow> m \<in> sets (abs s) k"
  by (simp add: r_sismember_def)

lemma in_hgetall: "(f, x) \<in> set (r_hgetall R k s) \<longleftrightarrow> hashes (abs s) k f = Some x"
  using hgetall [of k s] by (metis map_of_eq_Some_iff)

lemma hgetall_Nil: "r_hgetall R k s = [] \<longleftrightarrow> hashes (abs s) k = Map.empty"
  using map_of_empty_iff [of "r_hgetall R k s"] by (simp add: hgetall(1))

end

text \<open>No other client writes between a WATCH and its EXEC.\<close>

locale quiet_redis = redis R abs for R :: "'s redis" and abs :: "'s \<Rightarrow> view" +
  assumes exec_quiet [simp]: "r_watch_exec R k q s = Committed (q s)"

section \<open>An in-memory instance\<close>

record mem =
  ms_strs :: "(string \<times> pyval) list"
  ms_ttls :: "(string \<times> int) list"
  ms_hashes :: "(string \<times> (string \<times> pyval) list) list"
  ms_sets :: "(string \<times> string list) list"
  ms_zsets :: "(string \<times> (string \<times> pyfloat) list) list"
  ms_streams :: "(string \<times> pyval list) list"
  ms_published :: "(string \<times> pyval) list"

definition empty_mem :: mem where
  "empty_mem = \<lparr>ms_strs = [], ms_ttls = [], ms_hashes = [], ms_sets = [], ms_zsets = [],
     ms_streams = [], ms_published = []\<rparr>"

definition table :: "(string \<times> 'a list) list \<Rightarrow> string \<Rightarrow> 'a list" where
  "table t k = (case map_of t k of None \<Rightarrow> [] | Some xs \<Rightarrow> xs)"

lemma table_update [simp]: "table (AList.update k xs t) j = (if j = k then xs else table t j)"
  by (simp add: table_def update_conv')

lemma table_delete [simp]: "table (AList.delete k t) j = (if j = k then [] else table t j)"
  by (simp add: table_def delete_conv')

definition mem_view :: "mem \<Rightarrow> view" where
  "mem_view m = \<lparr>strs = map_of (ms_strs m), ttls = map_of (ms_ttls m),
     hashes = (\<lambda>k. map_of (table (ms_hashes m) k)), sets = (\<lambda>k. set (table (ms_sets m) k)),
     zsets = (\<lambda>k. map_of (table (ms_zsets m) k)), streams = table (ms_streams m),
     published = ms_published m\<rparr>"

definition mem_del :: "string \<Rightarrow> mem \<Rightarrow> mem" where
  "mem_del k m = m\<lparr>ms_strs := AList.delete k (ms_strs m), ms_ttls := AList.delete k (ms_ttls m),
     ms_hashes := AList.delete k (ms_hashes m), ms_sets := AList.delete k (ms_sets m),
     ms_zsets := AList.delete k (ms_zsets m), ms_streams := AList.delete k (ms_streams m)\<rparr>"

definition mem_put :: "string \<Rightarrow> pyval \<Rightarrow> int option \<Rightarrow> mem \<Rightarrow> mem" where
  "mem_put k x ttl m = (let d = mem_del k m in
     d\<lparr>ms_strs := AList.update k x (ms_strs d),
       ms_ttls := (case ttl of None \<Rightarrow> ms_ttls d | Some n \<Rightarrow> AList.update k n (ms_ttls d))\<rparr>)"

definition mem_exists :: "string \<Rightarrow> mem \<Rightarrow> bool" where
  "mem_exists k m \<longleftrightarrow> map_of (ms_strs m) k \<noteq> None \<or> table (ms_hashes m) k \<noteq> []
     \<or> table (ms_sets m) k \<noteq> [] \<or> table (ms_zsets m) k \<noteq> [] \<or> table (ms_streams m) k \<noteq> []"

definition mem_keys :: "mem \<Rightarrow> string list" where
  "mem_keys m = remdups (map fst (ms_strs m) @ map fst (ms_hashes m) @ map fst (ms_sets m)
     @ map fst (ms_zsets m) @ map fst (ms_streams m))"

definition mem_redis :: "mem redis" where
  "mem_redis = \<lparr>
     r_get = (\<lambda>k m. map_of (ms_strs m) k),
     r_set = (\<lambda>k x. mem_put k x None),
     r_setex = (\<lambda>k x n. mem_put k x (Some n)),
     r_setnx = (\<lambda>k x m. if mem_exists k m then (False, m) else (True, mem_put k x None m)),
     r_delete = mem_del,
     r_exists = mem_exists,
     r_scan = (\<lambda>p m. filter (\<lambda>k. mem_exists k m \<and> startswith k p) (mem_keys m)),
     r_hget = (\<lambda>k f m. map_of (table (ms_hashes m) k) f),
     r_hset = (\<lambda>k f x m. m\<lparr>ms_hashes := AList.update k (AList.update f x (table (ms_hashes m) k)) (ms_hashes m)\<rparr>),
     r_hdel = (\<lambda>k f m. m\<lparr>ms_hashes := AList.update k (AList.delete f (table (ms_hashes m) k)) (ms_hashes m)\<rparr>),
     r_hgetall = (\<lambda>k m. AList.clearjunk (table (ms_hashes m) k)),
     r_sadd = (\<lambda>k x m. m\<lparr>ms_sets := AList.update k (List.insert x (table (ms_sets m) k)) (ms_sets m)\<rparr>),
     r_srem = (\<lambda>k x m. m\<lparr>ms_sets := AList.update k (filter (\<lambda>y. y \<noteq> x) (table (ms_sets m) k)) (ms_sets m)\<rparr>),
     r_smembers = (\<lambda>k m. remdups (table (ms_sets m) k)),
     r_zadd = (\<lambda>k x sc m. m\<lparr>ms_zsets := AList.update k (AList.update x sc (table (ms_zsets m) k)) (ms_zsets m)\<rparr>),
     r_zrem = (\<lambda>k x m. m\<lparr>ms_zsets := AList.update k (AList.delete x (table (ms_zsets m) k)) (ms_zsets m)\<rparr>),
     r_zrangebyscore = (\<lambda>k hi m. map fst (sort_key snd (filter (\<lambda>p. snd p \<le> hi) (AList.clearjunk (table (ms_zsets m) k))))),
     r_xadd = (\<lambda>k x m. m\<lparr>ms_streams := AList.update k (table (ms_streams m) k @ [x]) (ms_streams m)\<rparr>),
     r_xrange = (\<lambda>k m. table (ms_streams m) k),
     r_publish = (\<lambda>c x m. (1, m\<lparr>ms_published := ms_published m @ [(c, x)]\<rparr>)),
     r_watch_exec = (\<lambda>k q m. Committed (q m))\<rparr>"

lemma mem_view_sel [simp]:
  "strs (mem_view m) = map_of (ms_strs m)" "ttls (mem_view m) = map_of (ms_ttls m)"
  "hashes (mem_view m) k = map_of (table (ms_hashes m) k)" "sets (mem_view m) k = set (table (ms_sets m) k)"
  "zsets (mem_view m) k = map_of (table (ms_zsets m) k)" "streams (mem_view m) k = table (ms_streams m) k"
  "published (mem_view m) = ms_published m"
  by (simp_all add: mem_view_def)

lemma view_eqI:
  "strs v = strs w \<Longrightarrow> ttls v = ttls w \<Longrightarrow> (\<And>k. hashes v k = hashes w k) \<Longrightarrow> (\<And>k. sets v k = sets w k) \<Longrightarrow>
   (\<And>k. zsets v k = zsets w k) \<Longrightarrow> (\<And>k. streams v k = streams w k) \<Longrightarrow> published v = published w \<Longrightarrow>
   v = (w :: view)"
  by (cases v; cases w) (auto simp: fun_eq_iff)

lemma mem_exists_view: "mem_exists k m \<longleftrightarrow> key_exists (mem_view m) k"
  by (simp add: mem_exists_def key_exists_def map_of_empty_iff)

lemma mem_view_del: "mem_view (mem_del k m) = del_key k (mem_view m)"
  by (rule view_eqI) (simp_all add: mem_del_def delete_conv')

lemma mem_view_put: "mem_view (mem_put k x t m) = put_str k x t (mem_view m)"
  by (rule view_eqI)
    (auto simp: mem_put_def Let_def mem_del_def delete_conv' update_conv' split: option.splits)

lemma mem_exists_keys: "mem_exists k m \<Longrightarrow> k \<in> set (mem_keys m)"
proof -
  have t: "table t k \<noteq> [] \<Longrightarrow> k \<in> fst ` set t" for t :: "(string \<times> 'a list) list"
    by (auto simp: table_def split: option.splits dest: map_of_SomeD intro: rev_image_eqI)
  have "map_of (ms_strs m) k \<noteq> None \<Longrightarrow> k \<in> fst ` set (ms_strs m)" by (simp add: map_of_eq_None_iff)
  then show "mem_exists k m \<Longrightarrow> k \<in> set (mem_keys m)"
    using t [of "ms_hashes m"] t [of "ms_sets m"] t [of "ms_zsets m"] t [of "ms_streams m"]
    by (auto simp: mem_exists_def mem_keys_def)
qed

lemma mem_zrange:
  fixes d :: "(string \<times> pyfloat) list" and hi :: pyfloat
  assumes "is_dict d"
  defines "xs \<equiv> sort_key snd (filter (\<lambda>p. snd p \<le> hi) d)"
  shows "set (map fst xs) = {m. \<exists>sc. map_of d m = Some sc \<and> sc \<le> hi}"
    and "distinct (map fst xs)" and "sorted (map (\<lambda>m. the (map_of d m)) (map fst xs))"
proof -
  have set: "set xs = {p \<in> set d. snd p \<le> hi}" by (auto simp: xs_def)
  have mo: "(m, sc) \<in> set d \<longleftrightarrow> map_of d m = Some sc" for m sc
    using assms(1) by (simp add: map_of_eq_Some_iff)
  show "set (map fst xs) = {m. \<exists>sc. map_of d m = Some sc \<and> sc \<le> hi}"
    by (force simp: set mo [symmetric])
  have "distinct (map fst (filter (\<lambda>p. snd p \<le> hi) d))" using assms(1) by (rule distinct_map_filter)
  moreover have "mset (map fst xs) = mset (map fst (filter (\<lambda>p. snd p \<le> hi) d))" by (simp add: xs_def)
  ultimately show "distinct (map fst xs)" by (metis mset_eq_imp_distinct_iff)
  have "map (\<lambda>m. the (map_of d m)) (map fst xs) = map snd xs"
    using mo by (auto simp: set)
  moreover have "sorted (map snd xs)" by (simp add: xs_def)
  ultimately show "sorted (map (\<lambda>m. the (map_of d m)) (map fst xs))" by (simp only:)
qed

lemma mem_quiet_redis: "quiet_redis mem_redis mem_view"
proof
  fix k p s hi
  show "set (r_scan mem_redis p s) = {k. key_exists (mem_view s) k \<and> startswith k p}"
    by (auto simp: mem_redis_def mem_exists_view [symmetric] mem_exists_keys)
  show "distinct (r_scan mem_redis p s)" by (simp add: mem_redis_def mem_keys_def)
  note z = mem_zrange [of "AList.clearjunk (table (ms_zsets s) k)" hi, OF distinct_clearjunk]
  show "set (r_zrangebyscore mem_redis k hi s) = {m. \<exists>sc. zsets (mem_view s) k m = Some sc \<and> sc \<le> hi}"
    "distinct (r_zrangebyscore mem_redis k hi s)"
    "sorted (map (\<lambda>m. the (zsets (mem_view s) k m)) (r_zrangebyscore mem_redis k hi s))"
    using z by (simp_all add: mem_redis_def map_of_clearjunk)
  show "\<And>q t. r_watch_exec mem_redis k q s = Committed t \<Longrightarrow>
      \<exists>u. same_key k (mem_view s) (mem_view u) \<and> t = q u"
    by (rule exI [of _ s]) (simp add: mem_redis_def)
qed (auto simp: mem_redis_def mem_view_put mem_view_del mem_exists_view [symmetric]
      map_of_clearjunk update_conv' delete_conv' intro!: view_eqI)

interpretation mem: quiet_redis mem_redis mem_view
  by (rule mem_quiet_redis)

text \<open>The same store with another client always writing the watched key in between.\<close>

definition busy_redis :: "mem redis" where
  "busy_redis = mem_redis\<lparr>r_watch_exec := (\<lambda>k q m. Conflict m)\<rparr>"

lemma busy_sel [simp]:
  "r_get busy_redis = r_get mem_redis" "r_set busy_redis = r_set mem_redis"
  "r_setex busy_redis = r_setex mem_redis" "r_setnx busy_redis = r_setnx mem_redis"
  "r_delete busy_redis = r_delete mem_redis" "r_exists busy_redis = r_exists mem_redis"
  "r_scan busy_redis = r_scan mem_redis" "r_hget busy_redis = r_hget mem_redis"
  "r_hset busy_redis = r_hset mem_redis" "r_hdel busy_redis = r_hdel mem_redis"
  "r_hgetall busy_redis = r_hgetall mem_redis" "r_sadd busy_redis = r_sadd mem_redis"
  "r_srem busy_redis = r_srem mem_redis" "r_smembers busy_redis = r_smembers mem_redis"
  "r_zadd busy_redis = r_zadd mem_redis" "r_zrem busy_redis = r_zrem mem_redis"
  "r_zrangebyscore busy_redis = r_zrangebyscore mem_redis" "r_xadd busy_redis = r_xadd mem_redis"
  "r_xrange busy_redis = r_xrange mem_redis" "r_publish busy_redis = r_publish mem_redis"
  "r_watch_exec busy_redis k q m = Conflict m"
  by (simp_all add: busy_redis_def)

lemma busy_redis: "redis busy_redis mem_view"
  by unfold_locales
    (use mem.zrange(3) in \<open>simp_all add: mem.setnx mem.scan mem.hgetall mem.zrange(1,2) mem.publish_count\<close>)

end
