(* ===== verification/RepStore.thy ===== *)
theory RepStore
  imports Reputation Redis
begin

text \<open>
  The reputation records of \<open>ahp/broker/broker.py\<close>: one JSON text per owner, read and written
  without a transaction.
\<close>

definition reputation_key :: "string \<Rightarrow> string" where
  "reputation_key owner = ''ahp:reputation:'' @ owner"

definition rep_to_json :: "ReputationEntry \<Rightarrow> pyval" where
  "rep_to_json e = PDict [(''owner'', PStr (re_owner e)), (''reputation'', PFloat (re_reputation e)),
     (''completed_accepted'', PInt (re_completed_accepted e)), (''completed_total'', PInt (re_completed_total e)),
     (''failed'', PInt (re_failed e)), (''sum_latency_ms'', PFloat (re_sum_latency_ms e)),
     (''avg_overage'', PFloat (re_avg_overage e)), (''csat'', PFloat (re_csat e)),
     (''csat_samples'', PInt (re_csat_samples e))]"

text \<open>\<open>data.items()\<close> of a value that is not an object raises AttributeError.\<close>

fun items_of :: "pyval \<Rightarrow> (string \<times> pyval) list res" where
  "items_of (PDict d) = Inr d" | "items_of _ = Inl AttributeError"

definition rep_from_json :: "pyval \<Rightarrow> ReputationEntry res" where
  "rep_from_json raw =
     rbind (items_of raw) (\<lambda>d.
     rbind (as_str (dict_get d ''owner'' PNone)) (\<lambda>owner.
     rbind (as_num (dict_get d ''reputation'' (PFloat DEFAULT_REPUTATION))) (\<lambda>rep.
     rbind (as_int (dict_get d ''completed_accepted'' (PInt 0))) (\<lambda>acc.
     rbind (as_int (dict_get d ''completed_total'' (PInt 0))) (\<lambda>tot.
     rbind (as_int (dict_get d ''failed'' (PInt 0))) (\<lambda>fl.
     rbind (as_num (dict_get d ''sum_latency_ms'' (PFloat fzero))) (\<lambda>lat.
     rbind (as_num (dict_get d ''avg_overage'' (PFloat fone))) (\<lambda>ov.
     rbind (as_num (dict_get d ''csat'' (PFloat (flit (1/2))))) (\<lambda>cs.
     rbind (as_int (dict_get d ''csat_samples'' (PInt 0))) (\<lambda>n.
       Inr \<lparr>re_owner = owner, re_reputation = rep, re_completed_accepted = acc, re_completed_total = tot,
         re_failed = fl, re_sum_latency_ms = lat, re_avg_overage = ov, re_csat = cs, re_csat_samples = n\<rparr>))))))))))"

lemma rep_roundtrip [simp]: "rep_from_json (rep_to_json e) = Inr e"
  by (cases e) (simp add: rep_from_json_def rep_to_json_def dict_get_def)

definition get_reputation :: "'s redis \<Rightarrow> string \<Rightarrow> 's \<Rightarrow> ReputationEntry option res" where
  "get_reputation R owner s =
     (case r_get R (reputation_key owner) s of
        None \<Rightarrow> Inr None
      | Some raw \<Rightarrow> rbind (rep_from_json raw) (\<lambda>e. Inr (Some e)))"

definition set_reputation :: "'s redis \<Rightarrow> ReputationEntry \<Rightarrow> 's \<Rightarrow> 's" where
  "set_reputation R e = r_set R (reputation_key (re_owner e)) (rep_to_json e)"

text \<open>The record an owner is judged by: the stored one, else a fresh one.\<close>

definition current_reputation :: "'s redis \<Rightarrow> string \<Rightarrow> 's \<Rightarrow> ReputationEntry res" where
  "current_reputation R owner s =
     rbind (get_reputation R owner s) (\<lambda>found. Inr (case found of None \<Rightarrow> new_entry owner | Some e \<Rightarrow> e))"

definition record_outcome ::
  "'s redis \<Rightarrow> string \<Rightarrow> string \<Rightarrow> pyfloat \<Rightarrow> int \<Rightarrow> int \<Rightarrow> ('s, ReputationEntry) op" where
  "record_outcome R owner outcome latency_ms response_chars max_response_chars =
     sbind (sreadr (current_reputation R owner)) (\<lambda>current.
     let updated = apply_outcome current outcome latency_ms in
     sbind (slift (if 0 < max_response_chars
                   then update_avg_overage (re_avg_overage updated) response_chars max_response_chars LAMBDA_AVG_OVERAGE
                   else Inr (re_avg_overage updated))) (\<lambda>ov.
     let updated = updated\<lparr>re_avg_overage := ov\<rparr> in
     sbind (swrite (set_reputation R updated)) (\<lambda>_. sret updated)))"

lemma reputation_key_inj [simp]: "reputation_key a = reputation_key b \<longleftrightarrow> a = b"
  by (simp add: reputation_key_def)

text \<open>Stored records name their owner.\<close>

definition reps_ok :: "('s \<Rightarrow> view) \<Rightarrow> 's \<Rightarrow> bool" where
  "reps_ok v s \<longleftrightarrow> (\<forall>owner raw e. strs (v s) (reputation_key owner) = Some raw \<longrightarrow>
     rep_from_json raw = Inr e \<longrightarrow> re_owner e = owner \<and> entry_ok e)"

lemma apply_outcome_owner [simp]: "re_owner (apply_outcome e out l) = re_owner e"
  by (simp add: apply_outcome_def)

lemma apply_csat_owner [simp]: "re_owner (apply_csat e sc) = re_owner e"
  by (simp add: apply_csat_def Let_def)

context redis
begin

lemma get_reputation_view:
  "get_reputation R owner s = (case strs (abs s) (reputation_key owner) of
     None \<Rightarrow> Inr None | Some raw \<Rightarrow> rbind (rep_from_json raw) (\<lambda>e. Inr (Some e)))"
  by (simp add: get_reputation_def)

lemma get_reputation_cong:
  "strs (abs s) (reputation_key owner) = strs (abs t) (reputation_key owner) \<Longrightarrow>
   get_reputation R owner s = get_reputation R owner t"
  by (simp add: get_reputation_view)

lemma set_reputation_get [simp]:
  "get_reputation R owner (set_reputation R e s) = (if owner = re_owner e then Inr (Some e) else get_reputation R owner s)"
  by (simp add: get_reputation_view set_reputation_def)

lemma set_reputation_strs [simp]:
  "strs (abs (set_reputation R e s)) = (strs (abs s))(reputation_key (re_owner e) \<mapsto> rep_to_json e)"
  by (simp add: set_reputation_def)

lemma record_outcome_frame:
  "record_outcome R owner out l c m s = (r, t) \<Longrightarrow> k \<notin> range reputation_key \<Longrightarrow> strs (abs t) k = strs (abs s) k"
  by (auto simp: record_outcome_def Let_def split: sum.splits)

lemma record_outcome_run:
  assumes "current_reputation R owner s = Inr e" "re_owner e = owner"
    "(if 0 < m then update_avg_overage (re_avg_overage (apply_outcome e out l)) c m LAMBDA_AVG_OVERAGE
      else Inr (re_avg_overage (apply_outcome e out l))) = Inr ov"
  shows "\<exists>t. record_outcome R owner out l c m s = (Inr ((apply_outcome e out l)\<lparr>re_avg_overage := ov\<rparr>), t)
     \<and> get_reputation R owner t = Inr (Some ((apply_outcome e out l)\<lparr>re_avg_overage := ov\<rparr>))
     \<and> (\<forall>k. k \<noteq> reputation_key owner \<longrightarrow> strs (abs t) k = strs (abs s) k)"
  using assms by (simp add: record_outcome_def Let_def)

lemma current_owner:
  assumes "reps_ok abs s" "current_reputation R owner s = Inr e"
  shows "re_owner e = owner \<and> entry_ok e"
proof (cases "strs (abs s) (reputation_key owner)")
  case None
  then show ?thesis using assms(2) new_entry_ok [of owner]
    by (simp add: current_reputation_def get_reputation_view) (auto simp: new_entry_def)
next
  case (Some raw)
  then show ?thesis using assms
    by (auto simp: current_reputation_def get_reputation_view rbind_eq_Inr reps_ok_def)
qed

end

end
