(* ===== verification/Wallet.thy ===== *)
theory Wallet
  imports Redis
begin

text \<open>
  \<open>ahp/economy/wallet.py\<close>: the pure wallet state with its four operations, the persisted
  form, and the Redis-backed wallet whose operations are optimistic transactions.
\<close>

section \<open>Pure state\<close>

definition INITIAL_FUND :: pyfloat where "INITIAL_FUND = Fin 100"
definition HOLD_TTL_SECONDS :: int where "HOLD_TTL_SECONDS = 300"

record WalletState =
  ws_owner :: string
  ws_balance :: pyfloat
  ws_held_total :: pyfloat
  ws_holds :: "(string, pyfloat) dict"
  ws_history :: "pyval list"

definition new_wallet :: "string \<Rightarrow> WalletState" where
  "new_wallet owner = \<lparr>ws_owner = owner, ws_balance = INITIAL_FUND, ws_held_total = fzero,
     ws_holds = [], ws_history = []\<rparr>"

definition available :: "WalletState \<Rightarrow> pyfloat" where
  "available st = fsub (ws_balance st) (ws_held_total st)"

text \<open>\<open>list(history)[-50:]\<close>.\<close>

definition last50 :: "'a list \<Rightarrow> 'a list" where
  "last50 xs = drop (length xs - 50) xs"

definition ws_to_json :: "WalletState \<Rightarrow> pyval" where
  "ws_to_json st = PDict [
     (''owner'', PStr (ws_owner st)),
     (''balance'', PFloat (ws_balance st)),
     (''held_total'', PFloat (ws_held_total st)),
     (''holds'', PDict (map (\<lambda>(k, x). (k, PFloat x)) (ws_holds st))),
     (''history'', PList (last50 (ws_history st)))]"

definition ws_from_json :: "string \<Rightarrow> pyval \<Rightarrow> WalletState res" where
  "ws_from_json owner raw =
     rbind (as_dict raw) (\<lambda>data.
     rbind (py_float (dict_get data ''balance'' (PFloat INITIAL_FUND))) (\<lambda>balance.
     rbind (py_float (dict_get data ''held_total'' (PFloat fzero))) (\<lambda>held.
     rbind (let h = dict_get data ''holds'' PNone in if truthy h then as_dict h else Inr []) (\<lambda>hs.
     rbind (mapM (\<lambda>(k, v). rbind (py_float v) (\<lambda>x. Inr (k, x))) hs) (\<lambda>holds.
     rbind (let h = dict_get data ''history'' PNone in if truthy h then as_list h else Inr []) (\<lambda>hist.
       Inr \<lparr>ws_owner = owner, ws_balance = balance, ws_held_total = held,
         ws_holds = holds, ws_history = hist\<rparr>))))))"

text \<open>\<open>_record\<close> stamps the entry with the wall clock \<open>now\<close>.\<close>

definition record_entry :: "pyfloat \<Rightarrow> (string, pyval) dict \<Rightarrow> WalletState \<Rightarrow> WalletState" where
  "record_entry now entry st = st\<lparr>ws_history := ws_history st @ [PDict (AList.update ''ts'' (PFloat now) entry)]\<rparr>"

definition apply_hold :: "pyfloat \<Rightarrow> WalletState \<Rightarrow> string \<Rightarrow> pyfloat \<Rightarrow> string \<Rightarrow> WalletState res" where
  "apply_hold now st hold_id amount reason =
     (if flt amount fzero then Inl ValueError
      else case map_of (ws_holds st) hold_id of
        Some held \<Rightarrow>
          if flt (fabs (fsub held amount)) (flit (1 / 1000000000)) then Inr st else Inl ValueError
      | None \<Rightarrow>
          if flt (available st) amount then Inl InsufficientFundsError
          else Inr (record_entry now [(''op'', PStr ''hold''), (''id'', PStr hold_id),
                      (''amount'', PFloat amount), (''reason'', PStr reason)]
                 (st\<lparr>ws_holds := AList.update hold_id amount (ws_holds st),
                     ws_held_total := fadd (ws_held_total st) amount\<rparr>)))"

definition apply_release :: "pyfloat \<Rightarrow> WalletState \<Rightarrow> string \<Rightarrow> pyfloat \<Rightarrow> string \<Rightarrow> WalletState res" where
  "apply_release now st hold_id debit reason =
     (case map_of (ws_holds st) hold_id of
        None \<Rightarrow> Inl UnknownHoldError
      | Some held \<Rightarrow>
          if flt debit fzero then Inl ValueError
          else if flt (fadd held (flit (1 / 1000000000))) debit then Inl InsufficientFundsError
          else Inr (record_entry now [(''op'', PStr ''release''), (''id'', PStr hold_id),
                      (''held'', PFloat held), (''debit'', PFloat debit), (''reason'', PStr reason)]
                 (st\<lparr>ws_holds := AList.delete hold_id (ws_holds st),
                     ws_held_total := fsub (ws_held_total st) held,
                     ws_balance := fsub (ws_balance st) debit\<rparr>)))"

definition apply_credit :: "pyfloat \<Rightarrow> WalletState \<Rightarrow> pyfloat \<Rightarrow> string \<Rightarrow> WalletState res" where
  "apply_credit now st amount reason =
     (if flt amount fzero then Inl ValueError
      else Inr (record_entry now [(''op'', PStr ''credit''), (''amount'', PFloat amount), (''reason'', PStr reason)]
             (st\<lparr>ws_balance := fadd (ws_balance st) amount\<rparr>)))"

definition apply_refund :: "pyfloat \<Rightarrow> WalletState \<Rightarrow> string \<Rightarrow> string \<Rightarrow> WalletState res" where
  "apply_refund now st hold_id reason =
     (case map_of (ws_holds st) hold_id of
        None \<Rightarrow> Inl UnknownHoldError
      | Some held \<Rightarrow>
          Inr (record_entry now [(''op'', PStr ''refund''), (''id'', PStr hold_id),
                 (''amount'', PFloat held), (''reason'', PStr reason)]
               (st\<lparr>ws_holds := AList.delete hold_id (ws_holds st),
                   ws_held_total := fsub (ws_held_total st) held\<rparr>)))"

section \<open>The Redis-backed wallet\<close>

definition wallet_key :: "string \<Rightarrow> string" where
  "wallet_key owner = ''ahp:wallet:'' @ owner"

definition hold_key :: "string \<Rightarrow> string \<Rightarrow> string" where
  "hold_key owner hold_id = ''ahp:hold:'' @ owner @ '':'' @ hold_id"

definition get_state :: "'s redis \<Rightarrow> string \<Rightarrow> 's \<Rightarrow> WalletState res" where
  "get_state R owner s =
     (case r_get R (wallet_key owner) s of
        None \<Rightarrow> Inr (new_wallet owner)
      | Some raw \<Rightarrow> ws_from_json owner raw)"

definition ws_save :: "'s redis \<Rightarrow> WalletState \<Rightarrow> 's \<Rightarrow> 's" where
  "ws_save R st s = r_set R (wallet_key (ws_owner st)) (ws_to_json st) s"

text \<open>
  The retry loop of every operation: watch, read, compute, queue, execute; \<open>for _ in range(8)\<close>
  around it, leaving on the first reply that is not \<open>None\<close>.
\<close>

fun cas_loop :: "nat \<Rightarrow> 's redis \<Rightarrow> string \<Rightarrow> ('s \<Rightarrow> 'a res) \<Rightarrow> ('a \<Rightarrow> 's \<Rightarrow> 's) \<Rightarrow> 's \<Rightarrow> 'a res \<times> 's" where
  "cas_loop 0 R key compute queued s = (Inl RuntimeError, s)"
| "cas_loop (Suc n) R key compute queued s =
     (case compute s of
        Inl e \<Rightarrow> (Inl e, s)
      | Inr st \<Rightarrow>
          (case r_watch_exec R key (queued st) s of
             Committed t \<Rightarrow> (Inr st, t)
           | Conflict t \<Rightarrow> (Inl WatchError, t)
           | NoReply t \<Rightarrow> cas_loop n R key compute queued t))"

definition CAS_RETRIES :: nat where "CAS_RETRIES = 8"

definition topup :: "'s redis \<Rightarrow> pyfloat \<Rightarrow> string \<Rightarrow> pyfloat \<Rightarrow> string \<Rightarrow> 's \<Rightarrow> WalletState res \<times> 's" where
  "topup R now owner amount reason =
     cas_loop CAS_RETRIES R (wallet_key owner)
       (\<lambda>s. rbind (get_state R owner s) (\<lambda>st. apply_credit now st amount reason))
       (\<lambda>st. r_set R (wallet_key owner) (ws_to_json st))"

definition wallet_hold :: "'s redis \<Rightarrow> pyfloat \<Rightarrow> string \<Rightarrow> string \<Rightarrow> pyfloat \<Rightarrow> string \<Rightarrow> 's \<Rightarrow> WalletState res \<times> 's" where
  "wallet_hold R now owner hold_id amount reason =
     cas_loop CAS_RETRIES R (wallet_key owner)
       (\<lambda>s. rbind (get_state R owner s) (\<lambda>st. apply_hold now st hold_id amount reason))
       (\<lambda>st s. r_setex R (hold_key owner hold_id) (PFloat amount) HOLD_TTL_SECONDS
                 (r_set R (wallet_key owner) (ws_to_json st) s))"

definition wallet_refund :: "'s redis \<Rightarrow> pyfloat \<Rightarrow> string \<Rightarrow> string \<Rightarrow> string \<Rightarrow> 's \<Rightarrow> WalletState res \<times> 's" where
  "wallet_refund R now owner hold_id reason =
     cas_loop CAS_RETRIES R (wallet_key owner)
       (\<lambda>s. rbind (get_state R owner s) (\<lambda>st. apply_refund now st hold_id reason))
       (\<lambda>st s. r_delete R (hold_key owner hold_id) (r_set R (wallet_key owner) (ws_to_json st) s))"

definition settle_against_hold :: "'s redis \<Rightarrow> pyfloat \<Rightarrow> string \<Rightarrow> string \<Rightarrow> pyfloat \<Rightarrow> string \<Rightarrow> 's \<Rightarrow> WalletState res \<times> 's" where
  "settle_against_hold R now owner hold_id debit reason =
     cas_loop CAS_RETRIES R (wallet_key owner)
       (\<lambda>s. rbind (get_state R owner s) (\<lambda>st. apply_release now st hold_id debit reason))
       (\<lambda>st s. r_delete R (hold_key owner hold_id) (r_set R (wallet_key owner) (ws_to_json st) s))"

section \<open>Persistence\<close>

text \<open>What a stored wallet reads back as: the history is cut to its last fifty entries.\<close>

definition trimmed :: "WalletState \<Rightarrow> WalletState" where
  "trimmed st = st\<lparr>ws_history := last50 (ws_history st)\<rparr>"

lemma truthy_map [simp]: "truthy (PDict d) \<longleftrightarrow> d \<noteq> []" "truthy (PList xs) \<longleftrightarrow> xs \<noteq> []"
  by simp_all

lemma mapM_holds:
  "mapM (\<lambda>(k, v). rbind (py_float v) (\<lambda>x. Inr (k, x))) (map (\<lambda>(k, x). (k, PFloat x)) hs) = Inr hs"
  by (rule mapM_map) auto

lemma ws_from_to_json: "ws_from_json (ws_owner st) (ws_to_json st) = Inr (trimmed st)"
proof -
  show ?thesis
    by (cases "ws_holds st = []"; cases "last50 (ws_history st) = []")
      (simp_all add: ws_from_json_def ws_to_json_def dict_get_def Let_def mapM_holds trimmed_def)
qed

interpretation wallet_codec: codec ws_to_json "ws_from_json o'" "\<lambda>st. ws_owner st = o'" trimmed for o'
  by unfold_locales (auto simp: ws_from_to_json)

lemma last50_le: "length (last50 xs) \<le> 50"
  by (simp add: last50_def)

lemma last50_idem [simp]: "last50 (last50 xs) = last50 xs"
  by (simp add: last50_def)

lemma trimmed_sel [simp]:
  "ws_owner (trimmed st) = ws_owner st" "ws_balance (trimmed st) = ws_balance st"
  "ws_held_total (trimmed st) = ws_held_total st" "ws_holds (trimmed st) = ws_holds st"
  by (simp_all add: trimmed_def)

lemma record_entry_sel [simp]:
  "ws_owner (record_entry now e st) = ws_owner st" "ws_balance (record_entry now e st) = ws_balance st"
  "ws_held_total (record_entry now e st) = ws_held_total st" "ws_holds (record_entry now e st) = ws_holds st"
  by (simp_all add: record_entry_def)

lemma get_state_owner: "get_state R owner s = Inr st \<Longrightarrow> ws_owner st = owner"
  by (auto simp: get_state_def ws_from_json_def new_wallet_def rbind_eq_Inr split: option.splits)

lemma apply_owner [frame_simps]:
  "apply_hold now st i a r = Inr st' \<Longrightarrow> ws_owner st' = ws_owner st"
  "apply_release now st i a r = Inr st' \<Longrightarrow> ws_owner st' = ws_owner st"
  "apply_credit now st a r = Inr st' \<Longrightarrow> ws_owner st' = ws_owner st"
  "apply_refund now st i r = Inr st' \<Longrightarrow> ws_owner st' = ws_owner st"
  by (auto simp: apply_hold_def apply_release_def apply_credit_def apply_refund_def
      split: if_splits option.splits)

section \<open>Exact bookkeeping on the grid\<close>

text \<open>
  The abstract ledger: what is free to spend, and what is held under which id. Balance and
  total held are derived from it, never stored twice.
\<close>

record ledger =
  l_free :: rat
  l_holds :: "string \<Rightarrow> rat option"

datatype wallet_op =
    OpHold string pyfloat | OpRelease string pyfloat | OpCredit pyfloat | OpRefund string

fun ledger_step :: "wallet_op \<Rightarrow> ledger \<Rightarrow> ledger res" where
  "ledger_step (OpHold i a) l =
     (if fval a < 0 then Inl ValueError
      else case l_holds l i of
        Some h \<Rightarrow> if h = fval a then Inr l else Inl ValueError
      | None \<Rightarrow> if l_free l < fval a then Inl InsufficientFundsError
                else Inr (l\<lparr>l_free := l_free l - fval a, l_holds := (l_holds l)(i \<mapsto> fval a)\<rparr>))"
| "ledger_step (OpRelease i d) l =
     (case l_holds l i of
        None \<Rightarrow> Inl UnknownHoldError
      | Some h \<Rightarrow> if fval d < 0 then Inl ValueError
                else if h < fval d then Inl InsufficientFundsError
                else Inr (l\<lparr>l_free := l_free l + (h - fval d), l_holds := (l_holds l)(i := None)\<rparr>))"
| "ledger_step (OpCredit a) l =
     (if fval a < 0 then Inl ValueError else Inr (l\<lparr>l_free := l_free l + fval a\<rparr>))"
| "ledger_step (OpRefund i) l =
     (case l_holds l i of
        None \<Rightarrow> Inl UnknownHoldError
      | Some h \<Rightarrow> Inr (l\<lparr>l_free := l_free l + h, l_holds := (l_holds l)(i := None)\<rparr>))"

fun wallet_step :: "pyfloat \<Rightarrow> string \<Rightarrow> wallet_op \<Rightarrow> WalletState \<Rightarrow> WalletState res" where
  "wallet_step now r (OpHold i a) st = apply_hold now st i a r"
| "wallet_step now r (OpRelease i d) st = apply_release now st i d r"
| "wallet_step now r (OpCredit a) st = apply_credit now st a r"
| "wallet_step now r (OpRefund i) st = apply_refund now st i r"

text \<open>A sequence of operations in which a failed one leaves the wallet as it was.\<close>

fun wallet_run :: "pyfloat \<Rightarrow> string \<Rightarrow> wallet_op list \<Rightarrow> WalletState \<Rightarrow> WalletState" where
  "wallet_run now r [] st = st"
| "wallet_run now r (x # xs) st =
     wallet_run now r xs (case wallet_step now r x st of Inl e \<Rightarrow> st | Inr st' \<Rightarrow> st')"

fun ledger_run :: "wallet_op list \<Rightarrow> ledger \<Rightarrow> ledger" where
  "ledger_run [] l = l"
| "ledger_run (x # xs) l = ledger_run xs (case ledger_step x l of Inl e \<Rightarrow> l | Inr l' \<Rightarrow> l')"

definition abs_wallet :: "WalletState \<Rightarrow> ledger" where
  "abs_wallet st = \<lparr>l_free = fval (ws_balance st) - fval (ws_held_total st),
     l_holds = map_option fval \<circ> map_of (ws_holds st)\<rparr>"

definition grid_amount :: "pyfloat \<Rightarrow> bool" where
  "grid_amount a \<longleftrightarrow> (\<exists>x. a = Fin x \<and> on_grid x \<and> \<bar>x\<bar> \<le> 2 ^ 40)"

fun op_on_grid :: "wallet_op \<Rightarrow> bool" where
  "op_on_grid (OpHold i a) = grid_amount a"
| "op_on_grid (OpRelease i d) = grid_amount d"
| "op_on_grid (OpCredit a) = grid_amount a"
| "op_on_grid (OpRefund i) = True"

fun credited :: "wallet_op \<Rightarrow> rat" where
  "credited (OpCredit a) = max 0 (fval a)" | "credited _ = 0"

definition held_sum :: "(string, pyfloat) dict \<Rightarrow> rat" where
  "held_sum d = sum_list (map (fval \<circ> snd) d)"

text \<open>The wallet invariant, with a ceiling \<open>c\<close> on the balance.\<close>

definition wallet_ok :: "rat \<Rightarrow> WalletState \<Rightarrow> bool" where
  "wallet_ok c st \<longleftrightarrow> (\<exists>b. ws_balance st = Fin b \<and> on_grid b \<and> b \<le> c)
     \<and> ws_held_total st = Fin (held_sum (ws_holds st))
     \<and> is_dict (ws_holds st) \<and> (\<forall>a \<in> snd ` set (ws_holds st). grid_amount a \<and> 0 \<le> fval a)
     \<and> held_sum (ws_holds st) \<le> fval (ws_balance st)"

section \<open>Refinement\<close>

lemma held_sum_Nil [simp]: "held_sum [] = 0"
  and held_sum_Cons [simp]: "held_sum ((k, a) # d) = fval a + held_sum d"
  and held_sum_append [simp]: "held_sum (d @ e) = held_sum d + held_sum e"
  by (simp_all add: held_sum_def)

lemma held_sum_update: "k \<notin> fst ` set d \<Longrightarrow> held_sum (AList.update k a d) = held_sum d + fval a"
  by (simp add: update_new)

lemma held_sum_delete:
  "is_dict d \<Longrightarrow> map_of d k = Some a \<Longrightarrow> held_sum (AList.delete k d) = held_sum d - fval a"
proof (induction d)
  case (Cons p d)
  then show ?case by (cases p) (auto simp: delete_absent)
qed simp

lemma held_sum_nonneg: "\<forall>a \<in> snd ` set d. 0 \<le> fval a \<Longrightarrow> 0 \<le> held_sum d"
  by (induction d) (auto simp: held_sum_def)

lemma held_sum_grid: "\<forall>a \<in> snd ` set d. grid_amount a \<Longrightarrow> on_grid (held_sum d)"
  by (induction d) (auto simp: held_sum_def grid_amount_def)

lemma map_of_snd: "map_of d k = Some a \<Longrightarrow> a \<in> snd ` set d"
  by (force dest: map_of_SomeD)

lemma held_le_sum:
  "is_dict d \<Longrightarrow> \<forall>a \<in> snd ` set d. 0 \<le> fval a \<Longrightarrow> map_of d k = Some a \<Longrightarrow> fval a \<le> held_sum d"
  by (induction d) (auto simp: add_increasing add_increasing2 held_sum_nonneg split: if_splits)

text \<open>On the grid the tolerance \<open>1e-9\<close> changes no comparison.\<close>

lemma grid_tolerance_eq:
  assumes "on_grid x" "on_grid y" "\<bar>x - y\<bar> \<le> 2 ^ 43"
  shows "flt (fabs (fsub (Fin x) (Fin y))) (flit (1 / 1000000000)) \<longleftrightarrow> x = y"
proof -
  have "mk (x - y) = Fin (x - y)" using assms by (intro on_grid_exact) auto
  then have "flt (fabs (fsub (Fin x) (Fin y))) (flit (1 / 1000000000)) \<longleftrightarrow> \<bar>x - y\<bar> < 4835703278458517 / 2 ^ 82"
    by (simp add: flit_1e9)
  also have "\<dots> \<longleftrightarrow> x = y"
  proof
    assume "\<bar>x - y\<bar> < 4835703278458517 / 2 ^ 82"
    moreover have "4835703278458517 / 2 ^ 82 < (1 / 1024 :: rat)" by simp
    ultimately have "\<bar>x - y\<bar> < 1 / 1024" by (rule less_trans)
    then have "x < y + 1 / 1024" "y < x + 1 / 1024" by linarith+
    then show "x = y" using on_grid_gap assms(1,2) by (meson order_antisym)
  qed simp
  finally show ?thesis .
qed

lemma grid_tolerance_le:
  assumes "on_grid x" "on_grid y" "0 \<le> x" "x \<le> 2 ^ 41"
  shows "flt (fadd (Fin x) (flit (1 / 1000000000))) (Fin y) \<longleftrightarrow> x < y"
proof -
  obtain n where n: "x = of_int n / 1024" using assms(1) by (rule on_gridE)
  define e :: rat where "e = 4835703278458517 / 2 ^ 82"
  have e: "0 < e" "e < 1 / 2048" by (simp_all add: e_def)
  have xr: "rnd x = x"
    using on_grid_exact [OF assms(1)] assms(3,4) by (simp add: mk_def Let_def split: if_splits)
  have hn: "x + 1 / 2048 = of_int (2 * n + 1) * 2 powi (- 11)" by (simp add: n power_int_minus field_simps)
  have "\<bar>of_int (2 * n + 1) :: rat\<bar> \<le> of_int (2 ^ 53)" using assms(3,4) by (simp add: n)
  then have "\<bar>2 * n + 1\<bar> \<le> 2 ^ 53" by (simp only: of_int_abs [symmetric] of_int_le_iff)
  then have hr: "rnd (x + 1 / 2048) = x + 1 / 2048" by (rule rnd_exact [OF hn]) simp
  have r: "x \<le> rnd (x + e)" "rnd (x + e) \<le> x + 1 / 2048"
    using rnd_mono [of x "x + e"] rnd_mono [of "x + e" "x + 1 / 2048"] e xr hr by simp_all
  then have "mk (x + e) = Fin (rnd (x + e))"
    using assms(3,4) by (auto simp: mk_def Let_def dest: order_trans)
  then have "flt (fadd (Fin x) (flit (1 / 1000000000))) (Fin y) \<longleftrightarrow> rnd (x + e) < y"
    by (simp add: flit_1e9 e_def)
  also have "\<dots> \<longleftrightarrow> x < y"
  proof
    assume "x < y"
    then have "x + 1 / 1024 \<le> y"
      using on_grid_gap [OF assms(2,1)] by (meson not_le)
    with r(2) show "rnd (x + e) < y" by simp
  qed (use r(1) in simp)
  finally show ?thesis .
qed

lemma grid_amountE:
  assumes "grid_amount a" obtains x where "a = Fin x" "on_grid x" "\<bar>x\<bar> \<le> 2 ^ 40" "fval a = x"
  using assms by (auto simp: grid_amount_def)

text \<open>What the invariant gives at a glance.\<close>

lemma wallet_okE:
  assumes "wallet_ok c st"
  obtains b h where "ws_balance st = Fin b" "ws_held_total st = Fin h" "h = held_sum (ws_holds st)"
    "on_grid b" "on_grid h" "0 \<le> h" "h \<le> b" "b \<le> c" "is_dict (ws_holds st)"
    "\<And>a. a \<in> snd ` set (ws_holds st) \<Longrightarrow> grid_amount a \<and> 0 \<le> fval a"
proof -
  from assms obtain b where b: "ws_balance st = Fin b" "on_grid b" "b \<le> c" by (auto simp: wallet_ok_def)
  show thesis
    using assms b by (intro that [of b "held_sum (ws_holds st)"])
      (auto simp: wallet_ok_def held_sum_nonneg held_sum_grid)
qed

lemma wallet_okI:
  assumes "ws_balance st = Fin b" "ws_held_total st = Fin (held_sum (ws_holds st))"
    "on_grid b" "held_sum (ws_holds st) \<le> b" "b \<le> c" "is_dict (ws_holds st)"
    "\<And>a. a \<in> snd ` set (ws_holds st) \<Longrightarrow> grid_amount a \<and> 0 \<le> fval a"
  shows "wallet_ok c st"
  using assms by (auto simp: wallet_ok_def)

definition step_refines :: "rat \<Rightarrow> WalletState res \<Rightarrow> ledger res \<Rightarrow> bool" where
  "step_refines c r l \<longleftrightarrow> map_sum id abs_wallet r = l \<and> (\<forall>st'. r = Inr st' \<longrightarrow> wallet_ok c st')"

lemma step_refines_simps [simp]:
  "step_refines c (Inl e) l \<longleftrightarrow> l = Inl e"
  "step_refines c (Inr st') l \<longleftrightarrow> l = Inr (abs_wallet st') \<and> wallet_ok c st'"
  by (auto simp: step_refines_def)

lemma snd_set_update: "a' \<in> snd ` set (AList.update k a d) \<Longrightarrow> a' = a \<or> a' \<in> snd ` set d"
  by (induction d) (auto split: if_splits)

lemma snd_set_delete: "a' \<in> snd ` set (AList.delete k d) \<Longrightarrow> a' \<in> snd ` set d"
  by (force simp: AList.delete_eq)

lemma map_option_fun_upd: "map_option f \<circ> m(k := v) = (map_option f \<circ> m)(k := map_option f v)"
  by (rule ext) simp

lemma hold_refines:
  assumes ok: "wallet_ok c st" and c: "c \<le> 2 ^ 42" and a: "grid_amount a"
  shows "step_refines c (apply_hold now st i a r) (ledger_step (OpHold i a) (abs_wallet st))"
proof -
  from ok obtain b h where b: "ws_balance st = Fin b" "ws_held_total st = Fin h" "h = held_sum (ws_holds st)"
    "on_grid b" "on_grid h" "0 \<le> h" "h \<le> b" "b \<le> c" "is_dict (ws_holds st)"
    and g: "\<And>a. a \<in> snd ` set (ws_holds st) \<Longrightarrow> grid_amount a \<and> 0 \<le> fval a"
    by (rule wallet_okE) blast
  from a obtain x where x: "a = Fin x" "on_grid x" "\<bar>x\<bar> \<le> 2 ^ 40" by (rule grid_amountE) blast
  have av: "available st = Fin (b - h)" using b c by (simp add: available_def on_grid_exact)
  show ?thesis
  proof (cases "map_of (ws_holds st) i")
    case (Some y)
    then have "y \<in> snd ` set (ws_holds st)" by (rule map_of_snd)
    from g [OF this] obtain v where v: "y = Fin v" "on_grid v" "\<bar>v\<bar> \<le> 2 ^ 40" by (auto simp: grid_amount_def)
    have "flt (fabs (fsub y a)) (flit (1 / 1000000000)) \<longleftrightarrow> v = x"
      unfolding v(1) x(1) using x v by (intro grid_tolerance_eq) auto
    then show ?thesis
      using Some ok by (auto simp: apply_hold_def x v abs_wallet_def)
  next
    case None
    then have n: "i \<notin> fst ` set (ws_holds st)" by (simp add: map_of_eq_None_iff)
    have up: "fadd (Fin h) (Fin x) = Fin (h + x)" if "x \<le> b - h" "0 \<le> x"
      using that b c x by (simp add: on_grid_exact)
    have bx: "mk (b - h - x) = Fin (b - h - x)" if "x \<le> b - h" "0 \<le> x"
      using that b c x by (simp add: on_grid_exact)
    show ?thesis
    proof (cases "0 \<le> x \<and> x \<le> b - h")
      case True
      define st' where "st' = st\<lparr>ws_holds := AList.update i a (ws_holds st),
        ws_held_total := fadd (ws_held_total st) a\<rparr>"
      have "wallet_ok c (record_entry now e st')" for e
        using True b x up g n by (intro wallet_okI [of _ b])
          (auto simp: st'_def held_sum_update is_dict_update grid_amount_def dest!: snd_set_update)
      moreover have "ledger_step (OpHold i a) (abs_wallet st) = Inr (abs_wallet (record_entry now e st'))" for e
        using True b x up None
        by (simp add: abs_wallet_def st'_def update_conv' map_option_fun_upd algebra_simps)
      ultimately show ?thesis
        using True None av x by (simp add: apply_hold_def st'_def del: ledger_step.simps)
    next
      case False
      then show ?thesis using None av b x by (auto simp: apply_hold_def abs_wallet_def)
    qed
  qed
qed

lemma drop_hold:
  assumes ok: "wallet_ok c st" and k: "map_of (ws_holds st) i = Some y"
  obtains v where "y = Fin v" "on_grid v" "0 \<le> v" "v \<le> 2 ^ 40"
    "v \<le> held_sum (ws_holds st)" "held_sum (AList.delete i (ws_holds st)) = held_sum (ws_holds st) - v"
    "is_dict (AList.delete i (ws_holds st))"
    "\<And>a. a \<in> snd ` set (AList.delete i (ws_holds st)) \<Longrightarrow> grid_amount a \<and> 0 \<le> fval a"
proof -
  from ok have d: "is_dict (ws_holds st)"
    and g: "\<forall>a \<in> snd ` set (ws_holds st). grid_amount a \<and> 0 \<le> fval a" by (auto simp: wallet_ok_def)
  from g map_of_snd [OF k] have "grid_amount y \<and> 0 \<le> fval y" by blast
  then obtain v where v: "y = Fin v" "on_grid v" "0 \<le> v" "v \<le> 2 ^ 40" by (auto simp: grid_amount_def)
  show thesis
    using v g held_le_sum [OF d _ k] held_sum_delete [OF d k] is_dict_delete [OF d]
    by (intro that [of v]) (auto dest!: snd_set_delete)
qed

lemma release_refines:
  assumes ok: "wallet_ok c st" and c: "c \<le> 2 ^ 42" and a: "grid_amount a"
  shows "step_refines c (apply_release now st i a r) (ledger_step (OpRelease i a) (abs_wallet st))"
proof -
  from ok obtain b h where b: "ws_balance st = Fin b" "ws_held_total st = Fin h" "h = held_sum (ws_holds st)"
    "on_grid b" "on_grid h" "0 \<le> h" "h \<le> b" "b \<le> c" by (rule wallet_okE) blast
  from a obtain x where x: "a = Fin x" "on_grid x" "\<bar>x\<bar> \<le> 2 ^ 40" by (rule grid_amountE) blast
  show ?thesis
  proof (cases "map_of (ws_holds st) i")
    case (Some y)
    from drop_hold [OF ok Some] obtain v where v: "y = Fin v" "on_grid v" "0 \<le> v" "v \<le> 2 ^ 40" "v \<le> h"
      "held_sum (AList.delete i (ws_holds st)) = h - v" "is_dict (AList.delete i (ws_holds st))"
      and g: "\<And>a. a \<in> snd ` set (AList.delete i (ws_holds st)) \<Longrightarrow> grid_amount a \<and> 0 \<le> fval a"
      unfolding b(3) by blast
    have t: "flt (fadd y (flit (1 / 1000000000))) a \<longleftrightarrow> v < x"
      unfolding v(1) x(1) using x v by (intro grid_tolerance_le) auto
    show ?thesis
    proof (cases "0 \<le> x \<and> x \<le> v")
      case True
      have e: "mk (h - v) = Fin (h - v)" "mk (b - x) = Fin (b - x)"
        using True b c v x by (auto intro!: on_grid_exact)
      define st' where "st' = st\<lparr>ws_holds := AList.delete i (ws_holds st),
        ws_held_total := fsub (ws_held_total st) y, ws_balance := fsub (ws_balance st) a\<rparr>"
      have "wallet_ok c (record_entry now en st')" for en
        using True b x v e g by (intro wallet_okI [of _ "b - x"]) (auto simp: st'_def)
      moreover have "ledger_step (OpRelease i a) (abs_wallet st) = Inr (abs_wallet (record_entry now en st'))" for en
        using True b x v e Some
        by (simp add: abs_wallet_def st'_def delete_conv' map_option_fun_upd algebra_simps)
      ultimately show ?thesis
        using True Some t x by (simp add: apply_release_def st'_def del: ledger_step.simps)
    next
      case False
      then show ?thesis using Some t b x v by (auto simp: apply_release_def abs_wallet_def)
    qed
  qed (simp add: apply_release_def abs_wallet_def)
qed

lemma refund_refines:
  assumes ok: "wallet_ok c st" and c: "c \<le> 2 ^ 42"
  shows "step_refines c (apply_refund now st i r) (ledger_step (OpRefund i) (abs_wallet st))"
proof -
  from ok obtain b h where b: "ws_balance st = Fin b" "ws_held_total st = Fin h" "h = held_sum (ws_holds st)"
    "on_grid b" "on_grid h" "0 \<le> h" "h \<le> b" "b \<le> c" by (rule wallet_okE) blast
  show ?thesis
  proof (cases "map_of (ws_holds st) i")
    case (Some y)
    from drop_hold [OF ok Some] obtain v where v: "y = Fin v" "on_grid v" "0 \<le> v" "v \<le> 2 ^ 40" "v \<le> h"
      "held_sum (AList.delete i (ws_holds st)) = h - v" "is_dict (AList.delete i (ws_holds st))"
      and g: "\<And>a. a \<in> snd ` set (AList.delete i (ws_holds st)) \<Longrightarrow> grid_amount a \<and> 0 \<le> fval a"
      unfolding b(3) by blast
    have e: "mk (h - v) = Fin (h - v)" using b c v by (auto intro!: on_grid_exact)
    define st' where "st' = st\<lparr>ws_holds := AList.delete i (ws_holds st),
      ws_held_total := fsub (ws_held_total st) y\<rparr>"
    have "wallet_ok c (record_entry now en st')" for en
      using b v e g by (intro wallet_okI [of _ b]) (auto simp: st'_def)
    moreover have "ledger_step (OpRefund i) (abs_wallet st) = Inr (abs_wallet (record_entry now en st'))" for en
      using b v e Some by (simp add: abs_wallet_def st'_def delete_conv' map_option_fun_upd algebra_simps)
    ultimately show ?thesis
      using Some by (simp add: apply_refund_def st'_def del: ledger_step.simps)
  qed (simp add: apply_refund_def abs_wallet_def)
qed

lemma credit_refines:
  assumes ok: "wallet_ok c st" and c: "c + max 0 (fval a) \<le> 2 ^ 42" and a: "grid_amount a"
  shows "step_refines (c + max 0 (fval a)) (apply_credit now st a r) (ledger_step (OpCredit a) (abs_wallet st))"
proof -
  from ok obtain b h where b: "ws_balance st = Fin b" "ws_held_total st = Fin h" "h = held_sum (ws_holds st)"
    "on_grid b" "on_grid h" "0 \<le> h" "h \<le> b" "b \<le> c" "is_dict (ws_holds st)"
    and g: "\<And>a. a \<in> snd ` set (ws_holds st) \<Longrightarrow> grid_amount a \<and> 0 \<le> fval a"
    by (rule wallet_okE) blast
  from a obtain x where x: "a = Fin x" "on_grid x" "\<bar>x\<bar> \<le> 2 ^ 40" by (rule grid_amountE) blast
  show ?thesis
  proof (cases "0 \<le> x")
    case True
    have e: "mk (b + x) = Fin (b + x)" using True b c x by (auto intro!: on_grid_exact)
    define st' where "st' = st\<lparr>ws_balance := fadd (ws_balance st) a\<rparr>"
    have "wallet_ok (c + max 0 (fval a)) (record_entry now en st')" for en
      using True b x e g by (intro wallet_okI [of _ "b + x"]) (auto simp: st'_def)
    moreover have "ledger_step (OpCredit a) (abs_wallet st) = Inr (abs_wallet (record_entry now en st'))" for en
      using True b x e by (simp add: abs_wallet_def st'_def algebra_simps)
    ultimately show ?thesis
      using True x by (simp add: apply_credit_def st'_def del: ledger_step.simps)
  qed (use x in \<open>simp add: apply_credit_def\<close>)
qed

lemma credited_nonneg: "0 \<le> credited x"
  by (cases x) auto

lemma wallet_step_refines:
  assumes "wallet_ok c st" "c + credited x \<le> 2 ^ 42" "op_on_grid x"
  shows "step_refines (c + credited x) (wallet_step now r x st) (ledger_step x (abs_wallet st))"
  using assms hold_refines release_refines refund_refines credit_refines
  by (cases x) (simp_all del: ledger_step.simps)

lemma wallet_ok_mono: "wallet_ok c st \<Longrightarrow> c \<le> d \<Longrightarrow> wallet_ok d st"
  by (auto simp: wallet_ok_def)

lemma run_refines:
  assumes "wallet_ok c st" "c + sum_list (map credited xs) \<le> 2 ^ 42" "\<forall>x \<in> set xs. op_on_grid x"
  shows "abs_wallet (wallet_run now r xs st) = ledger_run xs (abs_wallet st)
     \<and> wallet_ok (c + sum_list (map credited xs)) (wallet_run now r xs st)"
  using assms
proof (induction xs arbitrary: c st)
  case (Cons x xs)
  have n: "0 \<le> sum_list (map credited xs)" by (induction xs) (auto simp: credited_nonneg add_nonneg_nonneg)
  with Cons.prems have "step_refines (c + credited x) (wallet_step now r x st) (ledger_step x (abs_wallet st))"
    by (intro wallet_step_refines) auto
  then show ?case
    using Cons.IH [of "c + credited x"] Cons.prems wallet_ok_mono [of c st "c + credited x"] credited_nonneg [of x]
    by (cases "wallet_step now r x st") (auto simp: add.assoc)
qed simp

lemma new_wallet_ok: "wallet_ok 100 (new_wallet owner)"
  by (rule wallet_okI [of _ 100]) (simp_all add: new_wallet_def INITIAL_FUND_def on_grid_def)

section \<open>Transactions\<close>

lemma keys_apart [simp]: "wallet_key a \<noteq> hold_key b i" "hold_key b i \<noteq> wallet_key a"
  by (simp_all add: wallet_key_def hold_key_def)

lemma wallet_key_inj [simp]: "wallet_key a = wallet_key b \<longleftrightarrow> a = b"
  by (simp add: wallet_key_def)

text \<open>What the four queued command lists have in common.\<close>

definition writes_wallet :: "('s \<Rightarrow> view) \<Rightarrow> string \<Rightarrow> (WalletState \<Rightarrow> 's \<Rightarrow> 's) \<Rightarrow> bool" where
  "writes_wallet w owner queued \<longleftrightarrow>
     (\<forall>st s. strs (w (queued st s)) (wallet_key owner) = Some (ws_to_json st))
   \<and> (\<forall>st s o'. o' \<noteq> owner \<longrightarrow> strs (w (queued st s)) (wallet_key o') = strs (w s) (wallet_key o'))"

context redis
begin

lemma get_state_view:
  "get_state R owner s = (case strs (abs s) (wallet_key owner) of
     None \<Rightarrow> Inr (new_wallet owner) | Some raw \<Rightarrow> ws_from_json owner raw)"
  by (simp add: get_state_def)

lemma queued_writes:
  "writes_wallet abs owner (\<lambda>st. r_set R (wallet_key owner) (ws_to_json st))"
  "writes_wallet abs owner (\<lambda>st s. r_setex R (hold_key owner i) x n (r_set R (wallet_key owner) (ws_to_json st) s))"
  "writes_wallet abs owner (\<lambda>st s. r_delete R (hold_key owner i) (r_set R (wallet_key owner) (ws_to_json st) s))"
  by (simp_all add: writes_wallet_def)

text \<open>A loop body that sees no \<open>None\<close> reply runs once.\<close>

lemma cas_once:
  "cas_loop CAS_RETRIES R key compute queued s =
     (case compute s of
        Inl e \<Rightarrow> (Inl e, s)
      | Inr st \<Rightarrow>
          (case r_watch_exec R key (queued st) s of
             Committed t \<Rightarrow> (Inr st, t)
           | Conflict t \<Rightarrow> (Inl WatchError, t)
           | NoReply t \<Rightarrow> (Inl RuntimeError, t)))"
proof -
  have n: "CAS_RETRIES = Suc 7" by (simp add: CAS_RETRIES_def)
  show ?thesis
    unfolding n cas_loop.simps using exec_raises [of key _ s] by (auto split: sum.splits exec_result.splits)
qed

lemma cas_commit:
  assumes "cas_loop CAS_RETRIES R (wallet_key owner) (\<lambda>s. rbind (get_state R owner s) f) queued s = (Inr st', t)"
    and "writes_wallet abs owner queued" and "ws_owner st' = owner"
  shows "\<exists>u st. get_state R owner u = Inr st \<and> f st = Inr st' \<and> get_state R owner s = Inr st
     \<and> t = queued st' u \<and> get_state R owner t = Inr (trimmed st')
     \<and> (\<forall>o'. o' \<noteq> owner \<longrightarrow> get_state R o' t = get_state R o' u)"
proof -
  from assms(1) obtain st where st: "get_state R owner s = Inr st" "f st = Inr st'"
    and ex: "r_watch_exec R (wallet_key owner) (queued st') s = Committed t"
    by (auto simp: cas_once rbind_eq_Inr split: sum.splits exec_result.splits)
  from exec_committed [OF ex] obtain u where u: "same_key (wallet_key owner) (abs s) (abs u)" "t = queued st' u"
    by blast
  have "get_state R owner u = Inr st" using st(1) u(1) by (simp add: get_state_view same_key_def)
  moreover have "get_state R owner t = Inr (trimmed st')"
    using assms(2,3) u(2) ws_from_to_json [of st'] by (simp add: get_state_view writes_wallet_def)
  moreover have "\<forall>o'. o' \<noteq> owner \<longrightarrow> get_state R o' t = get_state R o' u"
    using assms(2) u(2) by (simp add: get_state_view writes_wallet_def)
  ultimately show ?thesis using st u(2) by blast
qed

end

context quiet_redis
begin

lemma cas_quiet:
  "cas_loop CAS_RETRIES R key compute queued s =
     (case compute s of Inl e \<Rightarrow> (Inl e, s) | Inr st \<Rightarrow> (Inr st, queued st s))"
  by (simp add: cas_once split: sum.splits)

end

text \<open>The four operations of the class, by the pure step each of them commits.\<close>

fun wallet_tx :: "'s redis \<Rightarrow> pyfloat \<Rightarrow> string \<Rightarrow> string \<Rightarrow> wallet_op \<Rightarrow> 's \<Rightarrow> WalletState res \<times> 's" where
  "wallet_tx R now owner r (OpHold i a) = wallet_hold R now owner i a r"
| "wallet_tx R now owner r (OpRelease i d) = settle_against_hold R now owner i d r"
| "wallet_tx R now owner r (OpCredit a) = topup R now owner a r"
| "wallet_tx R now owner r (OpRefund i) = wallet_refund R now owner i r"

lemmas wallet_tx_defs = wallet_hold_def settle_against_hold_def topup_def wallet_refund_def

lemma wallet_step_eta:
  "wallet_step now r (OpHold i a) = (\<lambda>st. apply_hold now st i a r)"
  "wallet_step now r (OpRelease i a) = (\<lambda>st. apply_release now st i a r)"
  "wallet_step now r (OpCredit a) = (\<lambda>st. apply_credit now st a r)"
  "wallet_step now r (OpRefund i) = (\<lambda>st. apply_refund now st i r)"
  by (rule ext, simp)+

lemma wallet_step_owner: "wallet_step now r x st = Inr st' \<Longrightarrow> ws_owner st' = ws_owner st"
  by (cases x) (auto simp: frame_simps)

context redis
begin

lemma tx_shape:
  "\<exists>queued. writes_wallet abs owner queued \<and>
     wallet_tx R now owner r x =
       cas_loop CAS_RETRIES R (wallet_key owner) (\<lambda>s. rbind (get_state R owner s) (wallet_step now r x)) queued"
proof (cases x)
  case (OpHold i a)
  then show ?thesis using queued_writes(2) [of owner i "PFloat a" HOLD_TTL_SECONDS]
    by (auto simp: wallet_tx_defs wallet_step_eta)
next
  case (OpRelease i d)
  then show ?thesis using queued_writes(3) [of owner i] by (auto simp: wallet_tx_defs wallet_step_eta)
next
  case (OpCredit a)
  then show ?thesis using queued_writes(1) [of owner] by (auto simp: wallet_tx_defs wallet_step_eta)
next
  case (OpRefund i)
  then show ?thesis using queued_writes(3) [of owner i] by (auto simp: wallet_tx_defs wallet_step_eta)
qed

lemma tx_commit:
  assumes "wallet_tx R now owner r x s = (Inr st', t)"
  shows "\<exists>u st. get_state R owner s = Inr st \<and> get_state R owner u = Inr st \<and> wallet_step now r x st = Inr st'
     \<and> get_state R owner t = Inr (trimmed st')
     \<and> (\<forall>o'. o' \<noteq> owner \<longrightarrow> get_state R o' t = get_state R o' u)"
proof -
  from tx_shape obtain queued where q: "writes_wallet abs owner queued"
    and e: "wallet_tx R now owner r x =
       cas_loop CAS_RETRIES R (wallet_key owner) (\<lambda>s. rbind (get_state R owner s) (wallet_step now r x)) queued"
    by blast
  from assms have loop: "cas_loop CAS_RETRIES R (wallet_key owner)
      (\<lambda>s. rbind (get_state R owner s) (wallet_step now r x)) queued s = (Inr st', t)" by (simp only: e)
  then obtain st where "get_state R owner s = Inr st" "wallet_step now r x st = Inr st'"
    by (auto simp: cas_once rbind_eq_Inr split: sum.splits exec_result.splits)
  then have "ws_owner st' = owner" by (simp add: wallet_step_owner get_state_owner)
  from cas_commit [OF loop q this] show ?thesis by blast
qed

lemma tx_conflict:
  assumes "get_state R owner s = Inr st" "wallet_step now r x st = Inr st'"
    and "\<And>q. \<exists>t. r_watch_exec R (wallet_key owner) q s = Conflict t"
  shows "fst (wallet_tx R now owner r x s) = Inl WatchError"
proof -
  from tx_shape obtain queued where e: "wallet_tx R now owner r x =
       cas_loop CAS_RETRIES R (wallet_key owner) (\<lambda>s. rbind (get_state R owner s) (wallet_step now r x)) queued"
    by blast
  obtain t where "r_watch_exec R (wallet_key owner) (queued st') s = Conflict t" using assms(3) by blast
  then show ?thesis using assms(1,2) by (simp add: e cas_once)
qed

end

context quiet_redis
begin

lemma tx_quiet:
  assumes "get_state R owner s = Inr st"
  shows "case wallet_step now r x st of
      Inl e \<Rightarrow> wallet_tx R now owner r x s = (Inl e, s)
    | Inr st' \<Rightarrow> \<exists>t. wallet_tx R now owner r x s = (Inr st', t) \<and> get_state R owner t = Inr (trimmed st')
        \<and> (\<forall>o'. o' \<noteq> owner \<longrightarrow> get_state R o' t = get_state R o' s)"
proof -
  from tx_shape obtain queued where q: "writes_wallet abs owner queued"
    and e: "wallet_tx R now owner r x =
       cas_loop CAS_RETRIES R (wallet_key owner) (\<lambda>s. rbind (get_state R owner s) (wallet_step now r x)) queued"
    by blast
  show ?thesis
  proof (cases "wallet_step now r x st")
    case (Inl er)
    then show ?thesis by (simp add: e cas_quiet assms)
  next
    case (Inr st')
    then have o: "ws_owner st' = owner" using assms by (simp add: wallet_step_owner get_state_owner)
    have "wallet_tx R now owner r x s = (Inr st', queued st' s)" using Inr by (simp add: e cas_quiet assms)
    moreover have "get_state R owner (queued st' s) = Inr (trimmed st')"
      using q o ws_from_to_json [of st'] by (simp add: get_state_view writes_wallet_def)
    moreover have "\<forall>o'. o' \<noteq> owner \<longrightarrow> get_state R o' (queued st' s) = get_state R o' s"
      using q by (simp add: get_state_view writes_wallet_def)
    ultimately show ?thesis using Inr by simp
  qed
qed

end

section \<open>Properties\<close>

text \<open>C3: On amounts that are multiples of 1/1024 (up to 2^40, with at most 2^40 credited in all) the
  float bookkeeping of a wallet is exact: any sequence of holds, releases, credits and refunds, failed ones
  included, leaves the wallet that the abstract ledger over rationals describes, \<open>held_total\<close> is the
  sum of the outstanding holds, and what is held never exceeds the balance, which is never negative.\<close>

theorem wallet_refines_ledger:
  assumes "\<forall>x \<in> set xs. op_on_grid x" and "sum_list (map credited xs) \<le> 2 ^ 40"
  shows "let st = wallet_run now r xs (new_wallet owner) in
     abs_wallet st = ledger_run xs (abs_wallet (new_wallet owner))
   \<and> ws_held_total st = Fin (held_sum (ws_holds st))
   \<and> 0 \<le> held_sum (ws_holds st) \<and> held_sum (ws_holds st) \<le> fval (ws_balance st)"
proof -
  have "(100::rat) + sum_list (map credited xs) \<le> 2 ^ 42" using assms(2) by simp
  from run_refines [OF new_wallet_ok this assms(1), of now r owner] show ?thesis
    by (auto simp: Let_def elim!: wallet_okE)
qed

theorem wallet_refines_ledger_witness:
  "let st = wallet_run (Fin 0) [] [OpHold ''h'' (Fin 30), OpCredit (Fin 5), OpRelease ''h'' (Fin 12)] (new_wallet ''a'') in
     abs_wallet st = ledger_run [OpHold ''h'' (Fin 30), OpCredit (Fin 5), OpRelease ''h'' (Fin 12)] (abs_wallet (new_wallet ''a''))
   \<and> ws_held_total st = Fin (held_sum (ws_holds st))
   \<and> 0 \<le> held_sum (ws_holds st) \<and> held_sum (ws_holds st) \<le> fval (ws_balance st)"
  by (rule wallet_refines_ledger) (auto simp: grid_amount_def on_grid_def)

text \<open>Off that grid the documented invariant that a balance never goes negative fails: the tolerance
  \<open>1e-9\<close> of \<open>apply_release\<close> lets a fully held wallet be debited past its balance.\<close>

lemma wallet_overdraft:
  "ws_balance (wallet_run now r [OpHold i (Fin 100), OpRelease i (Fin (100 + 1 / 2 ^ 31))] (new_wallet owner))
     = Fin (- (1 / 2 ^ 31))"
proof -
  have r: "mk (100 + 4835703278458517 / 2 ^ 82) = Fin (of_int 7036874417836769 / 2 ^ 46)"
    by (rule mk_eval) simp_all
  have d: "mk (- (1 / 2147483648)) = Fin (- (1 / 2147483648))"
    by (rule mk_exact [of _ "-1" "-31"]) (simp_all add: power_int_minus)
  show ?thesis
    using r d by (simp add: apply_hold_def apply_release_def available_def flit_1e9 new_wallet_def
      INITIAL_FUND_def on_grid_exact on_grid_def)
qed

text \<open>C35: Every wallet operation that reports success committed against the wallet it had read (no lost
  update): the store \<open>u\<close> the commit was applied to held the same wallet state \<open>st\<close> as the one read, the
  new state is the pure step of \<open>st\<close>, the wallet reads back as that state (history cut to fifty entries),
  and no other owner's wallet changed. Interference by other clients is allowed.\<close>

theorem wallet_no_lost_update:
  assumes "redis R view" and "wallet_tx R now owner r x s = (Inr st', t)"
  shows "\<exists>u st. get_state R owner s = Inr st \<and> get_state R owner u = Inr st \<and> wallet_step now r x st = Inr st'
     \<and> get_state R owner t = Inr (trimmed st')
     \<and> (\<forall>o'. o' \<noteq> owner \<longrightarrow> get_state R o' t = get_state R o' u)"
  using assms by (rule redis.tx_commit)

theorem wallet_no_lost_update_witness:
  "\<exists>st' t u st. get_state mem_redis ''a'' empty_mem = Inr st \<and> get_state mem_redis ''a'' u = Inr st
     \<and> wallet_step (Fin 0) [] (OpCredit (Fin 0)) st = Inr st' \<and> get_state mem_redis ''a'' t = Inr (trimmed st')
     \<and> (\<forall>o'. o' \<noteq> ''a'' \<longrightarrow> get_state mem_redis o' t = get_state mem_redis o' u)"
proof -
  have g: "get_state mem_redis ''a'' empty_mem = Inr (new_wallet ''a'')"
    by (simp add: mem.get_state_view empty_mem_def)
  have "\<exists>st' t. wallet_tx mem_redis (Fin 0) ''a'' [] (OpCredit (Fin 0)) empty_mem = (Inr st', t)"
    using mem.tx_quiet [OF g, of "Fin 0" "[]" "OpCredit (Fin 0)"] by (auto simp: apply_credit_def)
  then obtain st' t where "wallet_tx mem_redis (Fin 0) ''a'' [] (OpCredit (Fin 0)) empty_mem = (Inr st', t)" by blast
  from wallet_no_lost_update [OF mem.redis_axioms this] show ?thesis by blast
qed

text \<open>The retry loops never retry: redis-py reports a changed watched key by raising \<open>WatchError\<close>, not by
  returning \<open>None\<close>, so the first conflict leaves the operation with \<open>WatchError\<close>.\<close>

lemma wallet_conflict_not_retried:
  assumes "redis R view" "get_state R owner s = Inr st" "wallet_step now r x st = Inr st'"
    and "\<And>q. \<exists>t. r_watch_exec R (wallet_key owner) q s = Conflict t"
  shows "fst (wallet_tx R now owner r x s) = Inl WatchError"
  using assms by (rule redis.tx_conflict)

lemma wallet_conflict_not_retried_witness:
  "fst (wallet_tx busy_redis (Fin 0) ''a'' [] (OpCredit (Fin 0)) empty_mem) = Inl WatchError"
proof (rule wallet_conflict_not_retried [OF busy_redis])
  show "get_state busy_redis ''a'' empty_mem = Inr (new_wallet ''a'')"
    by (simp add: get_state_def mem.get empty_mem_def)
  show "wallet_step (Fin 0) [] (OpCredit (Fin 0)) (new_wallet ''a'') = Inr (record_entry (Fin 0)
      [(''op'', PStr ''credit''), (''amount'', PFloat (Fin 0)), (''reason'', PStr [])]
      ((new_wallet ''a'')\<lparr>ws_balance := fadd INITIAL_FUND (Fin 0)\<rparr>))"
    by (simp add: apply_credit_def new_wallet_def)
qed simp

end
