(* ===== verification/WalletTx.thy ===== *)
theory WalletTx
  imports Wallet Pricing
begin

text \<open>
  What wallet transactions do to the store as a whole, for the components that chain them:
  each step with its effect on every wallet, the frame it leaves alone, and the three-step
  transfer (hold, settle, credit) that funding and survey rewards share.
\<close>

section \<open>The steps\<close>

text \<open>The keys wallets own.\<close>

definition money_key :: "string \<Rightarrow> bool" where
  "money_key k \<longleftrightarrow> startswith k ''ahp:wallet:'' \<or> startswith k ''ahp:hold:''"

lemma money_keys [simp]: "money_key (wallet_key o')" "money_key (hold_key o' i)"
  by (simp_all add: money_key_def wallet_key_def hold_key_def startswith_def)

lemma not_money: "\<not> money_key k \<Longrightarrow> k \<noteq> wallet_key o' \<and> k \<noteq> hold_key o' i"
  by auto

lemma tx_names:
  "wallet_hold R now owner i a r = wallet_tx R now owner r (OpHold i a)"
  "settle_against_hold R now owner i a r = wallet_tx R now owner r (OpRelease i a)"
  "topup R now owner a r = wallet_tx R now owner r (OpCredit a)"
  "wallet_refund R now owner i r = wallet_tx R now owner r (OpRefund i)"
  by simp_all

context quiet_redis
begin

lemma tx_frame:
  assumes "wallet_tx R now owner r x s = (res, t)" "\<not> money_key k"
  shows "same_key k (abs t) (abs s)"
  using assms not_money [OF assms(2)]
  by (cases x) (auto simp: wallet_tx_defs cas_quiet same_key_def split: sum.splits)

lemma step_ok:
  assumes "get_state R owner s = Inr st" "wallet_step now r x st = Inr st'"
  obtains t where "wallet_tx R now owner r x s = (Inr st', t)" "get_state R owner t = Inr (trimmed st')"
    "\<forall>o'. o' \<noteq> owner \<longrightarrow> get_state R o' t = get_state R o' s"
    "\<forall>k. \<not> money_key k \<longrightarrow> same_key k (abs t) (abs s)"
proof -
  obtain t where t: "wallet_tx R now owner r x s = (Inr st', t)" "get_state R owner t = Inr (trimmed st')"
    "\<forall>o'. o' \<noteq> owner \<longrightarrow> get_state R o' t = get_state R o' s"
    using tx_quiet [OF assms(1), of now r x] assms(2) by auto
  show thesis using that [OF t(1,2)] t(3) tx_frame [OF t(1)] by simp
qed

lemma step_fails:
  assumes "get_state R owner s = Inr st" "wallet_step now r x st = Inl e"
  shows "wallet_tx R now owner r x s = (Inl e, s)"
  using tx_quiet [OF assms(1), of now r x] assms(2) by simp

end

lemma credit_ok:
  "\<not> flt a fzero \<Longrightarrow> \<exists>st'. wallet_step now r (OpCredit a) st = Inr st' \<and> ws_balance st' = fadd (ws_balance st) a
     \<and> ws_holds st' = ws_holds st \<and> ws_held_total st' = ws_held_total st"
  by (simp add: apply_credit_def)

lemma hold_fresh_ok:
  "\<not> flt a fzero \<Longrightarrow> map_of (ws_holds st) i = None \<Longrightarrow> \<not> flt (available st) a \<Longrightarrow>
   \<exists>st'. wallet_step now r (OpHold i a) st = Inr st' \<and> ws_balance st' = ws_balance st
     \<and> ws_holds st' = AList.update i a (ws_holds st) \<and> ws_held_total st' = fadd (ws_held_total st) a"
  by (simp add: apply_hold_def)

lemma hold_fresh_fails:
  "\<not> flt a fzero \<Longrightarrow> map_of (ws_holds st) i = None \<Longrightarrow> flt (available st) a \<Longrightarrow>
   wallet_step now r (OpHold i a) st = Inl InsufficientFundsError"
  by (simp add: apply_hold_def)

lemma release_ok:
  "\<not> flt d fzero \<Longrightarrow> map_of (ws_holds st) i = Some h \<Longrightarrow> \<not> flt (fadd h (flit (1 / 1000000000))) d \<Longrightarrow>
   \<exists>st'. wallet_step now r (OpRelease i d) st = Inr st' \<and> ws_balance st' = fsub (ws_balance st) d
     \<and> ws_holds st' = AList.delete i (ws_holds st) \<and> ws_held_total st' = fsub (ws_held_total st) h"
  by (simp add: apply_release_def)

text \<open>A release of at most what was held passes the tolerance check.\<close>

lemma release_passes:
  assumes "0 \<le> d" "d \<le> h" "rnd d = d" shows "\<not> flt (fadd (Fin h) (flit (1 / 1000000000))) (Fin d)"
proof -
  have "0 \<le> h + 4835703278458517 / 2 ^ 82" "d \<le> h + 4835703278458517 / 2 ^ 82" using assms(1,2) by simp_all
  from mk_pos_cases [OF this(1)] rnd_mono [OF this(2)] assms(3)
  show ?thesis by (auto simp: flit_1e9)
qed

lemmas full_release_passes = release_passes [OF _ order_refl]

lemma delete_snoc: "k \<notin> fst ` set d \<Longrightarrow> AList.delete k (d @ [(k, v)]) = d"
  by (induction d) auto

section \<open>A transfer\<close>

context quiet_redis
begin

lemma transfer:
  assumes f: "get_state R src s = Inr f" and a: "get_state R dst s = Inr a" and ne: "dst \<noteq> src"
    and x: "0 < x" "rnd x = x" and av: "\<not> flt (available f) (Fin x)" and h: "map_of (ws_holds f) i = None"
  obtains f1 t1 f2 t2 a3 t3 where "wallet_hold R now src i (Fin x) r1 s = (Inr f1, t1)"
    "settle_against_hold R now src i (Fin x) r2 t1 = (Inr f2, t2)" "topup R now dst (Fin x) r3 t2 = (Inr a3, t3)"
    "get_state R src t3 = Inr (trimmed f2)" "ws_balance f2 = fsub (ws_balance f) (Fin x)" "ws_holds f2 = ws_holds f"
    "get_state R dst t3 = Inr (trimmed a3)" "ws_balance a3 = fadd (ws_balance a) (Fin x)"
    "\<forall>k. \<not> money_key k \<longrightarrow> same_key k (abs t3) (abs s)"
proof -
  have p: "\<not> flt (Fin x) fzero" using x by simp
  obtain f1 where f1: "wallet_step now r1 (OpHold i (Fin x)) f = Inr f1"
    "ws_balance f1 = ws_balance f" "ws_holds f1 = AList.update i (Fin x) (ws_holds f)"
    using hold_fresh_ok [OF p h av] by blast
  obtain t1 where t1: "wallet_tx R now src r1 (OpHold i (Fin x)) s = (Inr f1, t1)"
    "get_state R src t1 = Inr (trimmed f1)" "\<forall>o'. o' \<noteq> src \<longrightarrow> get_state R o' t1 = get_state R o' s"
    "\<forall>k. \<not> money_key k \<longrightarrow> same_key k (abs t1) (abs s)"
    by (rule step_ok [OF f f1(1)])
  have m: "map_of (ws_holds (trimmed f1)) i = Some (Fin x)" by (simp add: f1 update_conv')
  obtain f2 where f2: "wallet_step now r2 (OpRelease i (Fin x)) (trimmed f1) = Inr f2"
    "ws_balance f2 = fsub (ws_balance f) (Fin x)" "ws_holds f2 = AList.delete i (AList.update i (Fin x) (ws_holds f))"
    using release_ok [OF p m full_release_passes] x f1 by (metis less_imp_le trimmed_sel(2,4))
  obtain t2 where t2: "wallet_tx R now src r2 (OpRelease i (Fin x)) t1 = (Inr f2, t2)"
    "get_state R src t2 = Inr (trimmed f2)" "\<forall>o'. o' \<noteq> src \<longrightarrow> get_state R o' t2 = get_state R o' t1"
    "\<forall>k. \<not> money_key k \<longrightarrow> same_key k (abs t2) (abs t1)"
    by (rule step_ok [OF t1(2) f2(1)])
  have a2: "get_state R dst t2 = Inr a" using t1(3) t2(3) a ne by simp
  obtain a3 where a3: "wallet_step now r3 (OpCredit (Fin x)) a = Inr a3" "ws_balance a3 = fadd (ws_balance a) (Fin x)"
    using credit_ok [OF p] by blast
  obtain t3 where t3: "wallet_tx R now dst r3 (OpCredit (Fin x)) t2 = (Inr a3, t3)"
    "get_state R dst t3 = Inr (trimmed a3)" "\<forall>o'. o' \<noteq> dst \<longrightarrow> get_state R o' t3 = get_state R o' t2"
    "\<forall>k. \<not> money_key k \<longrightarrow> same_key k (abs t3) (abs t2)"
    by (rule step_ok [OF a2 a3(1)])
  have "i \<notin> fst ` set (ws_holds f)" using h by (simp add: map_of_eq_None_iff)
  then have hs: "ws_holds f2 = ws_holds f" by (simp add: f2(3) update_new delete_snoc)
  have src: "get_state R src t3 = Inr (trimmed f2)" using t3(3) t2(2) ne by simp
  have fr: "\<forall>k. \<not> money_key k \<longrightarrow> same_key k (abs t3) (abs s)"
    using t1(4) t2(4) t3(4) by (simp add: same_key_def)
  show thesis
    using that [OF t1(1) [folded tx_names] t2(1) [folded tx_names] t3(1) [folded tx_names] src f2(2) hs t3(2) a3(2) fr] .
qed

end

end
