(* ===== verification/AuditSink.thy ===== *)
theory AuditSink
  imports Redis
begin

text \<open>
  \<open>ahp/audit\<close> and \<open>ahp/transport/keys.py\<close>: audit events, the sinks that write to the
  process or to a Redis stream, and the key layout shared by registry, cache and bus.

  A sink is what \<open>emit\<close> does to the store. The contract the emitting components rely on is
  the locale \<open>audit_sink\<close>: an emission is observational, it changes no key the protocol reads.
\<close>

section \<open>Keys\<close>

definition agent_channel :: "string \<Rightarrow> string" where "agent_channel a = ''ahp:agent:'' @ a"
definition reply_channel :: "string \<Rightarrow> string" where "reply_channel i = ''ahp:reply:'' @ i"
definition tap_channel :: string where "tap_channel = ''ahp:tap''"
definition thread_stream :: "string \<Rightarrow> string" where "thread_stream t = ''ahp:thread:'' @ t"
definition thread_meta :: "string \<Rightarrow> string" where "thread_meta t = ''ahp:thread-meta:'' @ t"
definition thread_participants :: "string \<Rightarrow> string" where "thread_participants t = ''ahp:thread-parts:'' @ t"
definition registry_hash :: string where "registry_hash = ''ahp:registry''"
definition alive_key :: "string \<Rightarrow> string" where "alive_key a = ''ahp:alive:'' @ a"
definition cache_entry_key :: "string \<Rightarrow> string" where "cache_entry_key d = ''ahp:cache:'' @ d"

text \<open>The SCAN pattern \<open>ahp:cache:*\<close>, by the prefix it selects.\<close>

definition cache_scan_prefix :: string where "cache_scan_prefix = ''ahp:cache:''"

section \<open>Events\<close>

record AuditEvent =
  ae_op :: string
  ae_timestamp :: pyfloat
  ae_principal :: "string option"
  ae_source :: "string option"
  ae_target :: "string option"
  ae_code :: "string option"
  ae_verb :: "string option"
  ae_success :: bool
  ae_error :: "string option"
  ae_extra :: "(string, pyval) dict"

definition ae_to_dict :: "AuditEvent \<Rightarrow> (string, pyval) dict" where
  "ae_to_dict e = [(''op'', PStr (ae_op e)), (''timestamp'', PFloat (ae_timestamp e)),
     (''principal'', opt_str (ae_principal e)), (''source'', opt_str (ae_source e)),
     (''target'', opt_str (ae_target e)), (''code'', opt_str (ae_code e)), (''verb'', opt_str (ae_verb e)),
     (''success'', PBool (ae_success e)), (''error'', opt_str (ae_error e)), (''extra'', PDict (ae_extra e))]"

section \<open>Sinks\<close>

type_synonym 's sink = "AuditEvent \<Rightarrow> 's \<Rightarrow> 's"

definition null_sink :: "'s sink" where "null_sink e s = s"

text \<open>The bounded ring of \<open>InMemoryAuditSink\<close>: \<open>deque(maxlen=capacity).append\<close>.\<close>

definition new_ring :: "int \<Rightarrow> AuditEvent list res" where
  "new_ring capacity = (if capacity \<le> 0 then Inl ValueError else Inr [])"

definition ring_emit :: "nat \<Rightarrow> AuditEvent \<Rightarrow> AuditEvent list \<Rightarrow> AuditEvent list" where
  "ring_emit capacity e evs = (let evs' = evs @ [e] in drop (length evs' - capacity) evs')"

text \<open>\<open>MultiSink\<close>: every sink in order; a failing one is logged and skipped.\<close>

definition multi_sink :: "'s sink list \<Rightarrow> 's sink" where
  "multi_sink sinks e s = fold (\<lambda>sink. sink e) sinks s"

definition AUDIT_STREAM :: string where "AUDIT_STREAM = ''ahp:audit:stream''"

text \<open>\<open>RedisStreamAuditSink\<close>; the trimming to about \<open>maxlen\<close> entries is left to the server.\<close>

definition redis_stream_sink :: "'s redis \<Rightarrow> string \<Rightarrow> 's sink" where
  "redis_stream_sink R key e s = r_xadd R key (PDict [(''data'', PDict (ae_to_dict e))]) s"

section \<open>The contract of a sink\<close>

text \<open>What the protocol reads of the store: everything but the audit streams and the channel log.\<close>

definition audit_key :: "string \<Rightarrow> bool" where
  "audit_key k \<longleftrightarrow> startswith k ''ahp:audit:''"

definition same_data :: "view \<Rightarrow> view \<Rightarrow> bool" where
  "same_data v w \<longleftrightarrow> strs v = strs w \<and> ttls v = ttls w \<and> hashes v = hashes w \<and> sets v = sets w \<and> zsets v = zsets w
     \<and> (\<forall>k. \<not> audit_key k \<longrightarrow> streams v k = streams w k)"

lemma same_dataD:
  "same_data v w \<Longrightarrow> strs v = strs w" "same_data v w \<Longrightarrow> ttls v = ttls w" "same_data v w \<Longrightarrow> hashes v = hashes w"
  "same_data v w \<Longrightarrow> sets v = sets w" "same_data v w \<Longrightarrow> zsets v = zsets w"
  "same_data v w \<Longrightarrow> \<not> audit_key k \<Longrightarrow> streams v k = streams w k"
  by (simp_all add: same_data_def)

lemma same_data_exists: "same_data v w \<Longrightarrow> \<not> audit_key k \<Longrightarrow> key_exists v k \<longleftrightarrow> key_exists w k"
  by (simp add: same_data_def key_exists_def)

lemma same_data_refl [simp]: "same_data v v"
  by (simp add: same_data_def)

lemma same_data_trans: "same_data u v \<Longrightarrow> same_data v w \<Longrightarrow> same_data u w"
  by (simp add: same_data_def)

locale audit_sink =
  fixes emit :: "'s sink" and abs :: "'s \<Rightarrow> view"
  assumes observational: "same_data (abs (emit e s)) (abs s)"
begin

lemma emit_view [simp]:
  "strs (abs (emit e s)) = strs (abs s)" "ttls (abs (emit e s)) = ttls (abs s)"
  "hashes (abs (emit e s)) = hashes (abs s)" "sets (abs (emit e s)) = sets (abs s)"
  "zsets (abs (emit e s)) = zsets (abs s)"
  using observational [of e s] by (simp_all add: same_data_def)

end

interpretation null_sink: audit_sink null_sink v for v
  by unfold_locales (simp add: null_sink_def)

context redis
begin

lemma stream_sink: "audit_key key \<Longrightarrow> audit_sink (redis_stream_sink R key) abs"
  by unfold_locales (auto simp: redis_stream_sink_def same_data_def)

end

interpretation mem_stream: audit_sink "redis_stream_sink mem_redis AUDIT_STREAM" mem_view
  by (rule mem.stream_sink) (simp add: audit_key_def AUDIT_STREAM_def startswith_def)

lemma multi_sink_observational:
  assumes "\<And>sink. sink \<in> set sinks \<Longrightarrow> audit_sink sink v"
  shows "audit_sink (multi_sink sinks) v"
proof
  fix e s
  have "same_data (v (fold (\<lambda>sink. sink e) xs s)) (v s)" if "set xs \<subseteq> set sinks" for xs s
    using that
  proof (induction xs arbitrary: s)
    case (Cons x xs)
    then have "same_data (v (x e s)) (v s)" using assms [of x] by (simp add: audit_sink_def)
    with Cons.IH [of "x e s"] Cons.prems show ?case by (auto intro: same_data_trans)
  qed simp
  then show "same_data (v (multi_sink sinks e s)) (v s)" by (simp add: multi_sink_def)
qed

lemma ring_bounded: "length (ring_emit n e evs) \<le> n"
  by (simp add: ring_emit_def Let_def)

lemma ring_last: "0 < n \<Longrightarrow> ring_emit n e evs \<noteq> [] \<and> last (ring_emit n e evs) = e"
  by (simp add: ring_emit_def Let_def)

text \<open>An optional sink: no sink, no emission.\<close>

definition emit_opt :: "'s sink option \<Rightarrow> AuditEvent \<Rightarrow> 's \<Rightarrow> 's" where
  "emit_opt sink e s = (case sink of None \<Rightarrow> s | Some f \<Rightarrow> f e s)"

definition sink_ok :: "('s \<Rightarrow> view) \<Rightarrow> 's sink option \<Rightarrow> bool" where
  "sink_ok v sink \<longleftrightarrow> (\<forall>e s. same_data (v (emit_opt sink e s)) (v s))"

lemma sink_ok_None [simp]: "sink_ok v None"
  by (simp add: sink_ok_def emit_opt_def)

lemma sink_ok_Some: "audit_sink f v \<Longrightarrow> sink_ok v (Some f)"
  by (simp add: sink_ok_def emit_opt_def audit_sink_def)

lemma emit_opt_view [simp]:
  assumes "sink_ok v sink"
  shows "strs (v (emit_opt sink e s)) = strs (v s)" "ttls (v (emit_opt sink e s)) = ttls (v s)"
    "hashes (v (emit_opt sink e s)) = hashes (v s)" "sets (v (emit_opt sink e s)) = sets (v s)"
    "zsets (v (emit_opt sink e s)) = zsets (v s)"
    "\<not> audit_key k \<Longrightarrow> key_exists (v (emit_opt sink e s)) k \<longleftrightarrow> key_exists (v s) k"
  using assms by (simp_all add: sink_ok_def same_data_exists) (simp_all add: same_data_def)

end
