(* ===== verification/Surveys.thy ===== *)
theory Surveys
  imports RepStore WalletTx AuditSink
begin

text \<open>
  \<open>ahp/broker/surveys.py\<close>: the queue of survey requests, their dispatch, the collection of
  responses with its payment and CSAT update, and the consent-filtered export. \<open>send\<close> is the
  bus; \<open>now\<close> is the clock of the call; \<open>act_digest\<close> the truncated hex SHA-256 of a text.
\<close>

section \<open>Requests and responses\<close>

record SurveyRequest =
  sq_survey_id :: string
  sq_kind :: string
  sq_target_server :: string
  sq_surveyed_actor :: string
  sq_recipe :: string
  sq_settlement_id :: string
  sq_reward :: pyfloat
  sq_dispatch_at :: pyfloat
  sq_expires_at :: pyfloat
  sq_consent_csat :: bool
  sq_consent_training :: bool

text \<open>\<open>SurveyRequest.new\<close>: \<open>uuid\<close> is the fresh identifier.\<close>

definition new_survey_request ::
  "string \<Rightarrow> pyfloat \<Rightarrow> string \<Rightarrow> string \<Rightarrow> string \<Rightarrow> string \<Rightarrow> string \<Rightarrow> pyfloat \<Rightarrow> pyfloat \<Rightarrow> pyfloat \<Rightarrow> SurveyRequest" where
  "new_survey_request uuid now kind target_server surveyed_actor recipe settlement_id reward delay_seconds ttl_seconds =
     \<lparr>sq_survey_id = uuid, sq_kind = kind, sq_target_server = target_server, sq_surveyed_actor = surveyed_actor,
       sq_recipe = recipe, sq_settlement_id = settlement_id, sq_reward = reward,
       sq_dispatch_at = fadd now delay_seconds, sq_expires_at = fadd now ttl_seconds,
       sq_consent_csat = True, sq_consent_training = False\<rparr>"

record SurveyResponse =
  sp_survey_id :: string
  sp_surveyed_actor :: string
  sp_target_server :: string
  sp_recipe :: string
  sp_settlement_id :: string
  sp_score :: pyfloat
  sp_free_text :: string
  sp_collected_at :: pyfloat
  sp_consent_csat_routing :: bool
  sp_consent_training_export :: bool

definition request_to_json :: "SurveyRequest \<Rightarrow> pyval" where
  "request_to_json q = PDict [(''survey_id'', PStr (sq_survey_id q)), (''kind'', PStr (sq_kind q)),
     (''target_server'', PStr (sq_target_server q)), (''surveyed_actor'', PStr (sq_surveyed_actor q)),
     (''recipe'', PStr (sq_recipe q)), (''settlement_id'', PStr (sq_settlement_id q)), (''reward'', PFloat (sq_reward q)),
     (''dispatch_at'', PFloat (sq_dispatch_at q)), (''expires_at'', PFloat (sq_expires_at q)),
     (''consent_csat_routing_at_queue'', PBool (sq_consent_csat q)),
     (''consent_training_export_at_queue'', PBool (sq_consent_training q))]"

text \<open>A missing field without a default is the TypeError of the constructor.\<close>

definition request_from_raw :: "pyval \<Rightarrow> SurveyRequest res" where
  "request_from_raw raw =
     rbind (items_of raw) (\<lambda>d.
     rbind (as_str (dict_get d ''survey_id'' PNone)) (\<lambda>sid.
     rbind (as_str (dict_get d ''kind'' PNone)) (\<lambda>kd.
     rbind (as_str (dict_get d ''target_server'' PNone)) (\<lambda>tg.
     rbind (as_str (dict_get d ''surveyed_actor'' PNone)) (\<lambda>ac.
     rbind (as_str (dict_get d ''recipe'' PNone)) (\<lambda>rc.
     rbind (as_str (dict_get d ''settlement_id'' PNone)) (\<lambda>st.
     rbind (as_num (dict_get d ''reward'' PNone)) (\<lambda>rw.
     rbind (as_num (dict_get d ''dispatch_at'' PNone)) (\<lambda>da.
     rbind (as_num (dict_get d ''expires_at'' PNone)) (\<lambda>ea.
     rbind (as_bool (dict_get d ''consent_csat_routing_at_queue'' (PBool True))) (\<lambda>cc.
     rbind (as_bool (dict_get d ''consent_training_export_at_queue'' (PBool False))) (\<lambda>ct.
       Inr \<lparr>sq_survey_id = sid, sq_kind = kd, sq_target_server = tg, sq_surveyed_actor = ac, sq_recipe = rc,
         sq_settlement_id = st, sq_reward = rw, sq_dispatch_at = da, sq_expires_at = ea,
         sq_consent_csat = cc, sq_consent_training = ct\<rparr>))))))))))))"

definition response_to_json :: "SurveyResponse \<Rightarrow> pyval" where
  "response_to_json p = PDict [(''survey_id'', PStr (sp_survey_id p)), (''surveyed_actor'', PStr (sp_surveyed_actor p)),
     (''target_server'', PStr (sp_target_server p)), (''recipe'', PStr (sp_recipe p)),
     (''settlement_id'', PStr (sp_settlement_id p)), (''score'', PFloat (sp_score p)),
     (''free_text'', PStr (sp_free_text p)), (''collected_at'', PFloat (sp_collected_at p)),
     (''consent_csat_routing'', PBool (sp_consent_csat_routing p)),
     (''consent_training_export'', PBool (sp_consent_training_export p))]"

definition response_from_raw :: "pyfloat \<Rightarrow> pyval \<Rightarrow> SurveyResponse res" where
  "response_from_raw now raw =
     rbind (items_of raw) (\<lambda>d.
     rbind (as_str (dict_get d ''survey_id'' PNone)) (\<lambda>sid.
     rbind (as_str (dict_get d ''surveyed_actor'' PNone)) (\<lambda>ac.
     rbind (as_str (dict_get d ''target_server'' PNone)) (\<lambda>tg.
     rbind (as_str (dict_get d ''recipe'' PNone)) (\<lambda>rc.
     rbind (as_str (dict_get d ''settlement_id'' PNone)) (\<lambda>st.
     rbind (as_num (dict_get d ''score'' PNone)) (\<lambda>sc.
     rbind (as_str (dict_get d ''free_text'' (PStr []))) (\<lambda>ft.
     rbind (as_num (dict_get d ''collected_at'' (PFloat now))) (\<lambda>ca.
     rbind (as_bool (dict_get d ''consent_csat_routing'' (PBool True))) (\<lambda>cc.
     rbind (as_bool (dict_get d ''consent_training_export'' (PBool False))) (\<lambda>ct.
       Inr \<lparr>sp_survey_id = sid, sp_surveyed_actor = ac, sp_target_server = tg, sp_recipe = rc, sp_settlement_id = st,
         sp_score = sc, sp_free_text = ft, sp_collected_at = ca, sp_consent_csat_routing = cc,
         sp_consent_training_export = ct\<rparr>)))))))))))"

lemma request_roundtrip [simp]: "request_from_raw (request_to_json q) = Inr q"
  by (cases q) (simp add: request_from_raw_def request_to_json_def dict_get_def)

lemma response_roundtrip [simp]: "response_from_raw now (response_to_json p) = Inr p"
  by (cases p) (simp add: response_from_raw_def response_to_json_def dict_get_def)

section \<open>The queue\<close>

definition SURVEY_QUEUE_KEY :: string where "SURVEY_QUEUE_KEY = ''ahp:survey:queue''"
definition survey_request_key :: "string \<Rightarrow> string" where "survey_request_key sid = ''ahp:survey:request:'' @ sid"
definition survey_response_key :: "string \<Rightarrow> string" where "survey_response_key sid = ''ahp:survey:response:'' @ sid"
definition SURVEY_RESPONSE_INDEX :: string where "SURVEY_RESPONSE_INDEX = ''ahp:survey:responses''"
definition SURVEY_FIRED_INDEX :: string where "SURVEY_FIRED_INDEX = ''ahp:survey:fired''"
definition DEFAULT_BROKER_ADDRESS :: string where
  "DEFAULT_BROKER_ADDRESS = ''broker.broker.survey.system.s.longterm.surveys''"

record 's SurveyQueue =
  sy_redis :: "'s redis"
  sy_commons :: string
  sy_audit :: "'s sink option"

definition sy_emit :: "'s SurveyQueue \<Rightarrow> pyfloat \<Rightarrow> string \<Rightarrow> string \<Rightarrow> (string, pyval) dict \<Rightarrow> 's \<Rightarrow> 's" where
  "sy_emit Y now op' target extra =
     emit_opt (sy_audit Y) \<lparr>ae_op = op', ae_timestamp = now, ae_principal = None, ae_source = None,
       ae_target = Some target, ae_code = None, ae_verb = None, ae_success = True, ae_error = None, ae_extra = extra\<rparr>"

definition enqueue :: "'s SurveyQueue \<Rightarrow> pyfloat \<Rightarrow> SurveyRequest \<Rightarrow> 's \<Rightarrow> bool \<times> 's" where
  "enqueue Y now q s =
     (let (was_new, t) = r_setnx (sy_redis Y) (survey_request_key (sq_survey_id q)) (request_to_json q) s in
      if \<not> was_new then (False, t)
      else (True, sy_emit Y now ''survey.enqueue'' (sq_survey_id q)
              [(''kind'', PStr (sq_kind q)), (''surveyed_actor'', PStr (sq_surveyed_actor q)),
               (''target_server'', PStr (sq_target_server q)), (''recipe'', PStr (sq_recipe q)),
               (''reward'', PFloat (sq_reward q)), (''dispatch_at'', PFloat (sq_dispatch_at q)),
               (''expires_at'', PFloat (sq_expires_at q)),
               (''consent_csat_routing_at_queue'', PBool (sq_consent_csat q)),
               (''consent_training_export_at_queue'', PBool (sq_consent_training q))]
            (r_zadd (sy_redis Y) SURVEY_QUEUE_KEY (sq_survey_id q) (sq_dispatch_at q) t)))"

definition get_request :: "'s SurveyQueue \<Rightarrow> string \<Rightarrow> 's \<Rightarrow> SurveyRequest option res" where
  "get_request Y sid s =
     (case r_get (sy_redis Y) (survey_request_key sid) s of
        None \<Rightarrow> Inr None
      | Some raw \<Rightarrow> rbind (request_from_raw raw) (\<lambda>q. Inr (Some q)))"

definition abandon :: "'s SurveyQueue \<Rightarrow> string \<Rightarrow> 's \<Rightarrow> 's" where
  "abandon Y sid s =
     r_delete (sy_redis Y) (survey_request_key sid)
       (r_srem (sy_redis Y) SURVEY_FIRED_INDEX sid (r_zrem (sy_redis Y) SURVEY_QUEUE_KEY sid s))"

text \<open>\<open>ZRANGEBYSCORE key -inf hi LIMIT 0 num\<close>: a negative \<open>num\<close> means all.\<close>

definition range_limit :: "'s redis \<Rightarrow> string \<Rightarrow> pyfloat \<Rightarrow> int \<Rightarrow> 's \<Rightarrow> string list" where
  "range_limit R k hi num s = (let ids = r_zrangebyscore R k hi s in if num < 0 then ids else take (nat num) ids)"

text \<open>The walk both \<open>list_pending\<close> and \<open>fire_due\<close> make: stale and expired entries are dropped on the way.\<close>

fun pending_loop :: "'s SurveyQueue \<Rightarrow> pyfloat \<Rightarrow> string option \<Rightarrow> string list \<Rightarrow> SurveyRequest list \<Rightarrow> ('s, SurveyRequest list) op" where
  "pending_loop Y cutoff actor [] out s = (Inr (rev out), s)"
| "pending_loop Y cutoff actor (sid # sids) out s =
     (case get_request Y sid s of
        Inl e \<Rightarrow> (Inl e, s)
      | Inr None \<Rightarrow> pending_loop Y cutoff actor sids out (r_zrem (sy_redis Y) SURVEY_QUEUE_KEY sid s)
      | Inr (Some q) \<Rightarrow>
          if fle (sq_expires_at q) cutoff then pending_loop Y cutoff actor sids out (abandon Y sid s)
          else if (case actor of None \<Rightarrow> False | Some a \<Rightarrow> a \<noteq> [] \<and> sq_surveyed_actor q \<noteq> a)
          then pending_loop Y cutoff actor sids out s
          else pending_loop Y cutoff actor sids (q # out) s)"

definition list_pending :: "'s SurveyQueue \<Rightarrow> pyfloat \<Rightarrow> bool \<Rightarrow> string option \<Rightarrow> int \<Rightarrow> ('s, SurveyRequest list) op" where
  "list_pending Y cutoff include_future actor limit s =
     pending_loop Y cutoff actor
       (range_limit (sy_redis Y) SURVEY_QUEUE_KEY (if include_future then PInf else cutoff) limit s) [] s"

section \<open>Dispatch\<close>

text \<open>The first half of \<open>fire_due\<close>; the loop ends once \<open>max_dispatch\<close> surveys are ready.\<close>

fun ready_loop :: "'s SurveyQueue \<Rightarrow> pyfloat \<Rightarrow> int \<Rightarrow> string list \<Rightarrow> SurveyRequest list \<Rightarrow> ('s, SurveyRequest list) op" where
  "ready_loop Y cutoff max_dispatch [] out s = (Inr (rev out), s)"
| "ready_loop Y cutoff max_dispatch (sid # sids) out s =
     (case get_request Y sid s of
        Inl e \<Rightarrow> (Inl e, s)
      | Inr None \<Rightarrow> ready_loop Y cutoff max_dispatch sids out (r_zrem (sy_redis Y) SURVEY_QUEUE_KEY sid s)
      | Inr (Some q) \<Rightarrow>
          if fle (sq_expires_at q) cutoff then ready_loop Y cutoff max_dispatch sids out (abandon Y sid s)
          else if r_sismember (sy_redis Y) SURVEY_FIRED_INDEX sid s
          then ready_loop Y cutoff max_dispatch sids out s
          else if max_dispatch \<le> int (length (q # out)) then (Inr (rev (q # out)), s)
          else ready_loop Y cutoff max_dispatch sids (q # out) s)"

definition survey_message :: "AgentAddress \<Rightarrow> AgentAddress \<Rightarrow> string \<Rightarrow> string \<Rightarrow> SurveyRequest \<Rightarrow> Message res" where
  "survey_message source target mid ts q =
     msg_post_init \<lparr>m_source = source, m_target = TAddr target, m_verb = ''SEND'', m_code = ''human.observe'',
       m_thread = ''survey::'' @ sq_survey_id q,
       m_body = PDict [(''kind'', PStr ''survey''), (''survey_id'', PStr (sq_survey_id q)), (''survey_kind'', PStr (sq_kind q)),
         (''target_server'', PStr (sq_target_server q)), (''recipe'', PStr (sq_recipe q)),
         (''settlement_id'', PStr (sq_settlement_id q)), (''reward'', PFloat (sq_reward q)),
         (''expires_at'', PFloat (sq_expires_at q)), (''consent_csat_routing_at_queue'', PBool (sq_consent_csat q)),
         (''consent_training_export_at_queue'', PBool (sq_consent_training q)),
         (''prompt'', PStr (''rate the response from '' @ sq_target_server q @ '' (recipe='' @ sq_recipe q
            @ ''). submit a score in [0,1] with `ahp vote --survey-id '' @ sq_survey_id q @ '' --score N`''))],
       m_timestamp = ts, m_ttl = None, m_reply_to = None, m_message_id = mid, m_format = None\<rparr>"

text \<open>
  The second half: a request whose actor does not parse is skipped, a failed send is left for
  the next sweep, a sent one is marked. \<open>ids\<close> gives the message its identifier and time.
\<close>

fun dispatch_loop :: "'s SurveyQueue \<Rightarrow> pyfloat \<Rightarrow> (string \<Rightarrow> string \<times> string) \<Rightarrow> (Message \<Rightarrow> ('s, unit) op) \<Rightarrow> AgentAddress \<Rightarrow>
    SurveyRequest list \<Rightarrow> SurveyRequest list \<Rightarrow> ('s, SurveyRequest list) op" where
  "dispatch_loop Y now ids send source [] out s = (Inr (rev out), s)"
| "dispatch_loop Y now ids send source (q # qs) out s =
     (case parse (sq_surveyed_actor q) of
        Inl e \<Rightarrow> if e = ValueError then dispatch_loop Y now ids send source qs out s else (Inl e, s)
      | Inr target \<Rightarrow>
          (case survey_message source target (fst (ids (sq_survey_id q))) (snd (ids (sq_survey_id q))) q of
             Inl e \<Rightarrow> (Inl e, s)
           | Inr m \<Rightarrow>
               (case send m s of
                  (Inl _, t) \<Rightarrow> dispatch_loop Y now ids send source qs out t
                | (Inr _, t) \<Rightarrow> dispatch_loop Y now ids send source qs (q # out)
                    (sy_emit Y now ''survey.dispatch'' (sq_survey_id q)
                       [(''surveyed_actor'', PStr (sq_surveyed_actor q)), (''target_server'', PStr (sq_target_server q)),
                        (''kind'', PStr (sq_kind q))]
                     (r_sadd (sy_redis Y) SURVEY_FIRED_INDEX (sq_survey_id q) t)))))"

definition fire_due :: "'s SurveyQueue \<Rightarrow> pyfloat \<Rightarrow> (string \<Rightarrow> string \<times> string) \<Rightarrow> (Message \<Rightarrow> ('s, unit) op) option \<Rightarrow> string \<Rightarrow>
    int \<Rightarrow> ('s, SurveyRequest list) op" where
  "fire_due Y cutoff ids bus broker_address max_dispatch =
     sbind (\<lambda>s. ready_loop Y cutoff max_dispatch
              (range_limit (sy_redis Y) SURVEY_QUEUE_KEY cutoff (max_dispatch * 2) s) [] s) (\<lambda>ready.
     case bus of
       None \<Rightarrow> sret ready
     | Some send \<Rightarrow> sbind (slift (parse broker_address)) (\<lambda>source. dispatch_loop Y cutoff ids send source ready []))"

section \<open>Responses\<close>

text \<open>The payment half of \<open>_pay_and_score\<close>: any failure is logged and swallowed, what moved stays moved.\<close>

definition pay_reward :: "'s SurveyQueue \<Rightarrow> 's redis \<Rightarrow> pyfloat \<Rightarrow> SurveyRequest \<Rightarrow> 's \<Rightarrow> 's" where
  "pay_reward Y R now q s =
     (if flt fzero (sq_reward q)
      then
        let hold_id = ''survey:'' @ sq_survey_id q in
        snd (sbind (wallet_hold R now (sy_commons Y) hold_id (sq_reward q) (''survey reward '' @ sq_survey_id q)) (\<lambda>_.
             sbind (settle_against_hold R now (sy_commons Y) hold_id (sq_reward q) (''survey payout '' @ sq_survey_id q)) (\<lambda>_.
             topup R now (sq_surveyed_actor q) (sq_reward q) (''survey reward '' @ sq_survey_id q))) s)
      else s)"

text \<open>The CSAT half; a record that does not decode leaves the store alone.\<close>

definition fold_csat :: "'s redis \<Rightarrow> SurveyRequest \<Rightarrow> SurveyResponse \<Rightarrow> 's \<Rightarrow> 's" where
  "fold_csat R q p s =
     (case current_reputation R (sq_target_server q) s of
        Inl _ \<Rightarrow> s
      | Inr rep \<Rightarrow> set_reputation R (apply_csat rep (sp_score p)) s)"

definition pay_and_score :: "'s SurveyQueue \<Rightarrow> 's redis \<Rightarrow> pyfloat \<Rightarrow> SurveyRequest \<Rightarrow> SurveyResponse \<Rightarrow> 's \<Rightarrow> 's" where
  "pay_and_score Y R now q p s = fold_csat R q p (pay_reward Y R now q s)"

text \<open>\<open>submit_response\<close>; \<open>broker\<close> is the store of the wired broker, if any.\<close>

definition submit_response :: "'s SurveyQueue \<Rightarrow> pyfloat \<Rightarrow> SurveyResponse \<Rightarrow> 's redis option \<Rightarrow> ('s, bool) op" where
  "submit_response Y now p broker s =
     (let sid = sp_survey_id p;
          (was_new, s1) = r_setnx (sy_redis Y) (survey_response_key sid) (response_to_json p) s in
      if \<not> was_new then (Inr False, s1)
      else
        let s2 = r_srem (sy_redis Y) SURVEY_FIRED_INDEX sid
                   (r_zrem (sy_redis Y) SURVEY_QUEUE_KEY sid (r_sadd (sy_redis Y) SURVEY_RESPONSE_INDEX sid s1));
            done = (\<lambda>s. (Inr True, sy_emit Y now ''survey.response'' sid
              [(''surveyed_actor'', PStr (sp_surveyed_actor p)), (''target_server'', PStr (sp_target_server p)),
               (''score'', PFloat (sp_score p)), (''consent_csat_routing'', PBool (sp_consent_csat_routing p)),
               (''consent_training_export'', PBool (sp_consent_training_export p)),
               (''has_free_text'', PBool (sp_free_text p \<noteq> []))] s))
        in case broker of
             None \<Rightarrow> done s2
           | Some R \<Rightarrow>
               (case get_request Y sid s2 of
                  Inl e \<Rightarrow> (Inl e, s2)
                | Inr None \<Rightarrow> done s2
                | Inr (Some q) \<Rightarrow> done (pay_and_score Y R now q p s2)))"

section \<open>Export\<close>

record TrainingDataRow =
  td_row_id :: string
  td_target_server :: string
  td_recipe :: string
  td_score :: pyfloat
  td_free_text :: string
  td_collected_at :: pyfloat
  td_actor_handle :: string

definition anonymize_actor :: "(string \<Rightarrow> string) \<Rightarrow> string \<Rightarrow> string" where
  "anonymize_actor act_digest actor = ''act-'' @ act_digest actor"

definition row_from_response :: "(string \<Rightarrow> string) \<Rightarrow> bool \<Rightarrow> SurveyResponse \<Rightarrow> TrainingDataRow res" where
  "row_from_response act_digest anonymize p =
     (if \<not> sp_consent_training_export p then Inl ValueError
      else Inr \<lparr>td_row_id = sp_survey_id p, td_target_server = sp_target_server p, td_recipe = sp_recipe p,
        td_score = sp_score p, td_free_text = (if sp_consent_training_export p then sp_free_text p else []),
        td_collected_at = sp_collected_at p,
        td_actor_handle = (if anonymize then anonymize_actor act_digest (sp_surveyed_actor p) else sp_surveyed_actor p)\<rparr>)"

fun export_loop :: "'s redis \<Rightarrow> pyfloat \<Rightarrow> (string \<Rightarrow> string) \<Rightarrow> bool \<Rightarrow> pyfloat \<Rightarrow> string list \<Rightarrow> TrainingDataRow list \<Rightarrow>
    ('s, TrainingDataRow list) op" where
  "export_loop R now act_digest anonymize since [] out s = (Inr (rev out), s)"
| "export_loop R now act_digest anonymize since (sid # sids) out s =
     (case r_get R (survey_response_key sid) s of
        None \<Rightarrow> export_loop R now act_digest anonymize since sids out (r_srem R SURVEY_RESPONSE_INDEX sid s)
      | Some raw \<Rightarrow>
          (case response_from_raw now raw of
             Inl e \<Rightarrow> if e = KeyError \<or> e = TypeError then export_loop R now act_digest anonymize since sids out s
                       else (Inl e, s)
           | Inr p \<Rightarrow>
               if \<not> sp_consent_training_export p \<or> flt (sp_collected_at p) since
               then export_loop R now act_digest anonymize since sids out s
               else (case row_from_response act_digest anonymize p of
                       Inl _ \<Rightarrow> export_loop R now act_digest anonymize since sids out s
                     | Inr row \<Rightarrow> export_loop R now act_digest anonymize since sids (row # out) s)))"

definition export_corpus :: "'s redis \<Rightarrow> pyfloat \<Rightarrow> (string \<Rightarrow> string) \<Rightarrow> pyfloat \<Rightarrow> bool \<Rightarrow> ('s, TrainingDataRow list) op" where
  "export_corpus R now act_digest since anonymize =
     sbind (\<lambda>s. export_loop R now act_digest anonymize since (r_smembers R SURVEY_RESPONSE_INDEX s) [] s)
       (\<lambda>out. sret (sort_key td_collected_at out))"

section \<open>The keys are apart\<close>

lemma survey_keys [simp]:
  "survey_request_key a = survey_request_key b \<longleftrightarrow> a = b" "survey_response_key a = survey_response_key b \<longleftrightarrow> a = b"
  "survey_request_key a \<noteq> survey_response_key b" "survey_response_key b \<noteq> survey_request_key a"
  "survey_request_key a \<noteq> SURVEY_QUEUE_KEY" "survey_response_key a \<noteq> SURVEY_QUEUE_KEY"
  "survey_request_key a \<noteq> SURVEY_RESPONSE_INDEX" "survey_response_key a \<noteq> SURVEY_RESPONSE_INDEX"
  "survey_request_key a \<noteq> SURVEY_FIRED_INDEX" "survey_response_key a \<noteq> SURVEY_FIRED_INDEX"
  "SURVEY_QUEUE_KEY \<noteq> survey_request_key a" "SURVEY_QUEUE_KEY \<noteq> survey_response_key a"
  "SURVEY_RESPONSE_INDEX \<noteq> survey_request_key a" "SURVEY_RESPONSE_INDEX \<noteq> survey_response_key a"
  "SURVEY_FIRED_INDEX \<noteq> survey_request_key a" "SURVEY_FIRED_INDEX \<noteq> survey_response_key a"
  "wallet_key o' \<noteq> survey_request_key a" "wallet_key o' \<noteq> survey_response_key a"
  "survey_request_key a \<noteq> wallet_key o'" "survey_response_key a \<noteq> wallet_key o'"
  "reputation_key r \<noteq> wallet_key o'" "wallet_key o' \<noteq> reputation_key r"
  "reputation_key r \<noteq> survey_request_key a" "survey_request_key a \<noteq> reputation_key r"
  "reputation_key r \<noteq> survey_response_key a" "survey_response_key a \<noteq> reputation_key r"
  "hold_key o' i \<noteq> reputation_key r" "hold_key o' i \<noteq> survey_response_key a" "hold_key o' i \<noteq> survey_request_key a"
  "SURVEY_QUEUE_KEY \<noteq> SURVEY_FIRED_INDEX" "SURVEY_FIRED_INDEX \<noteq> SURVEY_RESPONSE_INDEX"
  "SURVEY_RESPONSE_INDEX \<noteq> SURVEY_FIRED_INDEX" "wallet_key o' \<noteq> SURVEY_QUEUE_KEY" "reputation_key r \<noteq> SURVEY_QUEUE_KEY"
  by (simp_all add: survey_request_key_def survey_response_key_def SURVEY_QUEUE_KEY_def SURVEY_RESPONSE_INDEX_def
      SURVEY_FIRED_INDEX_def wallet_key_def reputation_key_def hold_key_def)

lemma survey_not_money [simp]:
  "\<not> money_key (survey_request_key a)" "\<not> money_key (survey_response_key a)" "\<not> money_key (reputation_key o')"
  by (simp_all add: money_key_def survey_request_key_def survey_response_key_def reputation_key_def startswith_def)

section \<open>One answer, one reward\<close>

text \<open>What \<open>submit_response\<close> writes before it pays.\<close>

definition recorded_response :: "'s SurveyQueue \<Rightarrow> SurveyResponse \<Rightarrow> 's \<Rightarrow> 's" where
  "recorded_response Y p s = r_srem (sy_redis Y) SURVEY_FIRED_INDEX (sp_survey_id p)
     (r_zrem (sy_redis Y) SURVEY_QUEUE_KEY (sp_survey_id p)
       (r_sadd (sy_redis Y) SURVEY_RESPONSE_INDEX (sp_survey_id p)
         (r_set (sy_redis Y) (survey_response_key (sp_survey_id p)) (response_to_json p) s)))"

context redis
begin

lemma current_reputation_cong:
  "strs (abs s) (reputation_key owner) = strs (abs t) (reputation_key owner) \<Longrightarrow>
   current_reputation R owner s = current_reputation R owner t"
  using get_reputation_cong [of s owner t] by (simp add: current_reputation_def)

lemma get_state_cong:
  "strs (abs s) (wallet_key owner) = strs (abs t) (wallet_key owner) \<Longrightarrow> get_state R owner s = get_state R owner t"
  by (simp add: get_state_view)

lemma resubmission:
  assumes "sy_redis Y = R" "key_exists (abs s) (survey_response_key (sp_survey_id p))"
  shows "submit_response Y now p broker s = (Inr False, s)"
  using assms by (simp add: submit_response_def setnx Let_def)

lemma recorded_strs:
  "sy_redis Y = R \<Longrightarrow> strs (abs (recorded_response Y p s))
     = (strs (abs s))(survey_response_key (sp_survey_id p) \<mapsto> response_to_json p)"
  by (simp add: recorded_response_def)

end

context quiet_redis
begin

lemma survey_settles:
  assumes Y: "sy_redis Y = R" and sink: "sink_ok abs (sy_audit Y)"
    and fresh: "\<not> key_exists (abs s) (survey_response_key (sp_survey_id p))"
    and req: "strs (abs s) (survey_request_key (sp_survey_id p)) = Some (request_to_json q)" "sq_survey_id q = sp_survey_id p"
    and c: "get_state R (sy_commons Y) s = Inr c" "\<not> flt (available c) (Fin x)"
      "map_of (ws_holds c) (''survey:'' @ sp_survey_id p) = None"
    and a: "get_state R (sq_surveyed_actor q) s = Inr a" "sq_surveyed_actor q \<noteq> sy_commons Y"
    and x: "sq_reward q = Fin x" "0 < x" "rnd x = x"
    and rep: "current_reputation R (sq_target_server q) s = Inr e" "re_owner e = sq_target_server q"
  shows "\<exists>t c' a'. submit_response Y now p (Some R) s = (Inr True, t)
     \<and> get_state R (sy_commons Y) t = Inr c' \<and> ws_balance c' = fsub (ws_balance c) (Fin x) \<and> ws_holds c' = ws_holds c
     \<and> get_state R (sq_surveyed_actor q) t = Inr a' \<and> ws_balance a' = fadd (ws_balance a) (Fin x)
     \<and> get_reputation R (sq_target_server q) t = Inr (Some (apply_csat e (sp_score p)))
     \<and> strs (abs t) (survey_response_key (sp_survey_id p)) = Some (response_to_json p)"
proof -
  let ?i = "sp_survey_id p"
  define s2 where "s2 = recorded_response Y p s"
  have s2: "strs (abs s2) = (strs (abs s))(survey_response_key ?i \<mapsto> response_to_json p)"
    unfolding s2_def by (rule recorded_strs [OF Y])
  have gs: "get_state R o' s2 = get_state R o' s" for o' by (rule get_state_cong) (simp add: s2)
  obtain f1 t1 f2 t2 a3 t3 where t: "wallet_hold R now (sy_commons Y) (''survey:'' @ ?i) (Fin x) (''survey reward '' @ ?i) s2 = (Inr f1, t1)"
    "settle_against_hold R now (sy_commons Y) (''survey:'' @ ?i) (Fin x) (''survey payout '' @ ?i) t1 = (Inr f2, t2)"
    "topup R now (sq_surveyed_actor q) (Fin x) (''survey reward '' @ ?i) t2 = (Inr a3, t3)"
    "get_state R (sy_commons Y) t3 = Inr (trimmed f2)" "ws_balance f2 = fsub (ws_balance c) (Fin x)" "ws_holds f2 = ws_holds c"
    "get_state R (sq_surveyed_actor q) t3 = Inr (trimmed a3)" "ws_balance a3 = fadd (ws_balance a) (Fin x)"
    "\<forall>k. \<not> money_key k \<longrightarrow> same_key k (abs t3) (abs s2)"
    by (rule transfer [OF c(1) [folded gs] a(1) [folded gs] a(2) x(2,3) c(2,3)])
  have pay: "pay_reward Y R now q s2 = t3"
    using t(1-3) by (simp add: pay_reward_def x req(2) sbind_run)
  have "strs (abs t3) (reputation_key (sq_target_server q)) = strs (abs s) (reputation_key (sq_target_server q))"
    using t(9) [THEN spec, of "reputation_key (sq_target_server q)"] by (simp add: same_key_def s2)
  then have cr: "current_reputation R (sq_target_server q) t3 = Inr e" using rep(1) current_reputation_cong by metis
  define t4 where "t4 = set_reputation R (apply_csat e (sp_score p)) t3"
  have ps: "pay_and_score Y R now q p s2 = t4" by (simp add: pay_and_score_def pay fold_csat_def cr t4_def)
  have t4: "strs (abs t4) = (strs (abs t3))(reputation_key (sq_target_server q) \<mapsto> rep_to_json (apply_csat e (sp_score p)))"
    by (simp add: t4_def rep(2))
  have gr: "get_request Y ?i s2 = Inr (Some q)" by (simp add: get_request_def Y s2 req)
  obtain ev where run: "submit_response Y now p (Some R) s = (Inr True, emit_opt (sy_audit Y) ev t4)"
    using fresh gr ps
    by (simp add: submit_response_def setnx Let_def Y s2_def [unfolded recorded_response_def Y, symmetric] sy_emit_def)
  define t where "t = emit_opt (sy_audit Y) ev t4"
  have st: "strs (abs t) = strs (abs t4)" unfolding t_def by (rule emit_opt_view(1) [OF sink])
  have ga: "get_state R o' t = get_state R o' t3" for o' by (rule get_state_cong) (simp add: st t4)
  have rp: "get_reputation R (sq_target_server q) t = Inr (Some (apply_csat e (sp_score p)))"
    by (simp add: get_reputation_view st t4)
  have rs: "strs (abs t) (survey_response_key ?i) = Some (response_to_json p)"
    using t(9) [THEN spec, of "survey_response_key ?i"] by (simp add: st t4 same_key_def s2)
  show ?thesis
    using run t(4-8) ga rp rs unfolding t_def [symmetric] by (metis trimmed_sel(2,4))
qed

end

section \<open>The export is consented\<close>

definition exportable :: "pyfloat \<Rightarrow> (string \<Rightarrow> string) \<Rightarrow> bool \<Rightarrow> pyfloat \<Rightarrow> pyval \<Rightarrow> TrainingDataRow \<Rightarrow> bool" where
  "exportable now act_digest anonymize since raw row \<longleftrightarrow>
     (\<exists>p. response_from_raw now raw = Inr p \<and> sp_consent_training_export p \<and> \<not> flt (sp_collected_at p) since
        \<and> row_from_response act_digest anonymize p = Inr row)"

lemma exportable_iff:
  "exportable now act_digest anonymize since raw row \<longleftrightarrow>
     (\<exists>p. response_from_raw now raw = Inr p \<and> sp_consent_training_export p \<and> \<not> flt (sp_collected_at p) since
        \<and> row = \<lparr>td_row_id = sp_survey_id p, td_target_server = sp_target_server p, td_recipe = sp_recipe p,
           td_score = sp_score p, td_free_text = sp_free_text p, td_collected_at = sp_collected_at p,
           td_actor_handle = (if anonymize then anonymize_actor act_digest (sp_surveyed_actor p) else sp_surveyed_actor p)\<rparr>)"
proof -
  have "sp_consent_training_export p \<Longrightarrow> row_from_response act_digest anonymize p = Inr row \<longleftrightarrow>
     row = \<lparr>td_row_id = sp_survey_id p, td_target_server = sp_target_server p, td_recipe = sp_recipe p,
           td_score = sp_score p, td_free_text = sp_free_text p, td_collected_at = sp_collected_at p,
           td_actor_handle = (if anonymize then anonymize_actor act_digest (sp_surveyed_actor p) else sp_surveyed_actor p)\<rparr>" for p
    by (auto simp: row_from_response_def)
  then show ?thesis unfolding exportable_def by blast
qed

context redis
begin

lemma export_loop_rows:
  "export_loop R now dg anon since ids out s = (Inr rows, t) \<Longrightarrow>
   row \<in> set rows \<longleftrightarrow> row \<in> set out \<or> (\<exists>sid raw. sid \<in> set ids \<and> strs (abs s) (survey_response_key sid) = Some raw
     \<and> exportable now dg anon since raw row)"
proof (induction ids arbitrary: out s)
  case (Cons sid sids)
  show ?case
  proof (cases "strs (abs s) (survey_response_key sid)")
    case None
    with Cons.prems Cons.IH [of out "r_srem R SURVEY_RESPONSE_INDEX sid s"] show ?thesis by auto
  next
    case raw: (Some raw)
    show ?thesis
    proof (cases "response_from_raw now raw")
      case (Inl e)
      with Cons.prems raw have "export_loop R now dg anon since sids out s = (Inr rows, t)" by (simp split: if_splits)
      from Cons.IH [OF this] Inl raw show ?thesis by (auto simp: exportable_def)
    next
      case (Inr p)
      show ?thesis
      proof (cases "sp_consent_training_export p \<and> \<not> flt (sp_collected_at p) since")
        case False
        then have ex: "\<not> exportable now dg anon since raw row" using Inr by (auto simp: exportable_def)
        from False Cons.prems raw Inr have "export_loop R now dg anon since sids out s = (Inr rows, t)" by auto
        from Cons.IH [OF this] ex raw show ?thesis by auto
      next
        case True
        then obtain r where r: "row_from_response dg anon p = Inr r" by (simp add: row_from_response_def)
        then have ex: "exportable now dg anon since raw row \<longleftrightarrow> row = r" using Inr True by (auto simp: exportable_def)
        have "export_loop R now dg anon since sids (r # out) s = (Inr rows, t)" using True Cons.prems raw Inr r by auto
        from Cons.IH [OF this] ex raw show ?thesis by auto
      qed
    qed
  qed
qed auto

lemma export_rows:
  assumes "export_corpus R now dg since anon s = (Inr rows, t)"
  shows "row \<in> set rows \<longleftrightarrow> (\<exists>sid raw. sid \<in> sets (abs s) SURVEY_RESPONSE_INDEX
       \<and> strs (abs s) (survey_response_key sid) = Some raw \<and> exportable now dg anon since raw row)"
    and "sorted (map td_collected_at rows)"
proof -
  obtain out where o: "export_loop R now dg anon since (r_smembers R SURVEY_RESPONSE_INDEX s) [] s = (Inr out, t)"
    "rows = sort_key td_collected_at out"
    using assms by (auto simp: export_corpus_def sbind_eq_Inr)
  show "row \<in> set rows \<longleftrightarrow> (\<exists>sid raw. sid \<in> sets (abs s) SURVEY_RESPONSE_INDEX
       \<and> strs (abs s) (survey_response_key sid) = Some raw \<and> exportable now dg anon since raw row)"
    using export_loop_rows [OF o(1), of row] by (simp add: o(2))
  show "sorted (map td_collected_at rows)" by (simp add: o(2))
qed

end

section \<open>Properties\<close>

text \<open>C8: One answer, one reward: the first response to a stored survey with a positive reward the commons can pay
  moves exactly that amount from the commons to the surveyed actor, folds the score into the rated server's CSAT,
  and is kept; any further response under the same survey id changes nothing (no other client writing in between).\<close>

theorem survey_rewarded_once:
  assumes "quiet_redis R view" and "sy_redis Y = R" and "sink_ok view (sy_audit Y)"
    and "\<not> key_exists (view s) (survey_response_key (sp_survey_id p))"
    and "strs (view s) (survey_request_key (sp_survey_id p)) = Some (request_to_json q)" and "sq_survey_id q = sp_survey_id p"
    and "get_state R (sy_commons Y) s = Inr c" and "\<not> flt (available c) (Fin x)"
    and "map_of (ws_holds c) (''survey:'' @ sp_survey_id p) = None"
    and "get_state R (sq_surveyed_actor q) s = Inr a" and "sq_surveyed_actor q \<noteq> sy_commons Y"
    and "sq_reward q = Fin x" and "0 < x" and "rnd x = x"
    and "current_reputation R (sq_target_server q) s = Inr e" and "re_owner e = sq_target_server q"
  shows "\<exists>t c' a'. submit_response Y now p (Some R) s = (Inr True, t)
     \<and> get_state R (sy_commons Y) t = Inr c' \<and> ws_balance c' = fsub (ws_balance c) (Fin x) \<and> ws_holds c' = ws_holds c
     \<and> get_state R (sq_surveyed_actor q) t = Inr a' \<and> ws_balance a' = fadd (ws_balance a) (Fin x)
     \<and> get_reputation R (sq_target_server q) t = Inr (Some (apply_csat e (sp_score p)))
     \<and> (\<forall>now' p' broker. sp_survey_id p' = sp_survey_id p \<longrightarrow> submit_response Y now' p' broker t = (Inr False, t))"
proof -
  obtain t c' a' where t: "submit_response Y now p (Some R) s = (Inr True, t)"
    "get_state R (sy_commons Y) t = Inr c'" "ws_balance c' = fsub (ws_balance c) (Fin x)" "ws_holds c' = ws_holds c"
    "get_state R (sq_surveyed_actor q) t = Inr a'" "ws_balance a' = fadd (ws_balance a) (Fin x)"
    "get_reputation R (sq_target_server q) t = Inr (Some (apply_csat e (sp_score p)))"
    "strs (view t) (survey_response_key (sp_survey_id p)) = Some (response_to_json p)"
    using quiet_redis.survey_settles [OF assms] by blast
  have "submit_response Y now' p' broker t = (Inr False, t)" if "sp_survey_id p' = sp_survey_id p" for now' p' broker
    by (rule redis.resubmission [OF quiet_redis.axioms(1) [OF assms(1)] assms(2)]) (simp add: that t(8) key_exists_def)
  with t(1-7) show ?thesis by blast
qed

definition sample_survey :: SurveyRequest where
  "sample_survey = \<lparr>sq_survey_id = ''s1'', sq_kind = ''periodic'', sq_target_server = ''srv'', sq_surveyed_actor = ''me'',
     sq_recipe = ''r'', sq_settlement_id = ''h1'', sq_reward = Fin 1, sq_dispatch_at = Fin 0, sq_expires_at = Fin 9,
     sq_consent_csat = True, sq_consent_training = True\<rparr>"

definition sample_answer :: SurveyResponse where
  "sample_answer = \<lparr>sp_survey_id = ''s1'', sp_surveyed_actor = ''me'', sp_target_server = ''srv'', sp_recipe = ''r'',
     sp_settlement_id = ''h1'', sp_score = Fin 1, sp_free_text = [], sp_collected_at = Fin 5,
     sp_consent_csat_routing = True, sp_consent_training_export = True\<rparr>"

definition sample_queue :: "mem SurveyQueue" where
  "sample_queue = \<lparr>sy_redis = mem_redis, sy_commons = ''__commons__'', sy_audit = None\<rparr>"

definition survey_store :: mem where
  "survey_store = snd (enqueue sample_queue (Fin 0) sample_survey empty_mem)"

lemma survey_store_strs:
  "strs (mem_view survey_store) = [survey_request_key ''s1'' \<mapsto> request_to_json sample_survey]"
  by (simp add: survey_store_def enqueue_def sample_queue_def sample_survey_def mem.setnx sy_emit_def emit_opt_def
      key_exists_def del: mem_view_sel) (simp add: empty_mem_def table_def)

theorem survey_rewarded_once_witness:
  "\<exists>t c'. submit_response sample_queue (Fin 5) sample_answer (Some mem_redis) survey_store = (Inr True, t)
     \<and> get_state mem_redis ''__commons__'' t = Inr c' \<and> ws_balance c' = fsub INITIAL_FUND (Fin 1)
     \<and> submit_response sample_queue (Fin 6) sample_answer (Some mem_redis) t = (Inr False, t)"
proof -
  have st: "get_state mem_redis o' survey_store = Inr (new_wallet o')" for o'
    by (simp add: mem.get_state_view survey_store_strs del: mem_view_sel)
  have cr: "current_reputation mem_redis ''srv'' survey_store = Inr (new_entry ''srv'')"
    by (simp add: current_reputation_def mem.get_reputation_view survey_store_strs del: mem_view_sel)
  have fresh: "\<not> key_exists (mem_view survey_store) (survey_response_key ''s1'')"
    by (simp add: survey_store_def enqueue_def sample_queue_def sample_survey_def mem.setnx sy_emit_def emit_opt_def
      key_exists_def del: mem_view_sel) (simp add: empty_mem_def table_def)
  have n: "mk 100 = Fin 100" using mk_of_int [of 100] by simp
  have "\<exists>t c' a'. submit_response sample_queue (Fin 5) sample_answer (Some mem_redis) survey_store = (Inr True, t)
     \<and> get_state mem_redis (sy_commons sample_queue) t = Inr c' \<and> ws_balance c' = fsub (ws_balance (new_wallet ''__commons__'')) (Fin 1)
     \<and> ws_holds c' = ws_holds (new_wallet ''__commons__'')
     \<and> get_state mem_redis (sq_surveyed_actor sample_survey) t = Inr a' \<and> ws_balance a' = fadd (ws_balance (new_wallet ''me'')) (Fin 1)
     \<and> get_reputation mem_redis (sq_target_server sample_survey) t = Inr (Some (apply_csat (new_entry ''srv'') (sp_score sample_answer)))
     \<and> (\<forall>now' p' broker. sp_survey_id p' = sp_survey_id sample_answer \<longrightarrow> submit_response sample_queue now' p' broker t = (Inr False, t))"
    by (rule survey_rewarded_once [OF mem.quiet_redis_axioms])
      (simp_all add: sample_queue_def sample_answer_def sample_survey_def survey_store_strs new_wallet_def available_def
        INITIAL_FUND_def new_entry_def n del: mem_view_sel,
       simp_all add: fresh st cr new_wallet_def INITIAL_FUND_def new_entry_def del: mem_view_sel)
  then show ?thesis by (simp add: sample_queue_def new_wallet_def) blast
qed

text \<open>The training export is consented: \<open>export_corpus\<close> returns exactly the rows of indexed responses that were
  collected with export consent at or after the cutoff, in order of collection, and with anonymization on no row
  carries an actor's address but only its digest.\<close>

lemma export_consented:
  assumes "redis R view" and "export_corpus R now act_digest since anonymize s = (Inr rows, t)"
  shows "(row \<in> set rows \<longleftrightarrow> (\<exists>sid raw p. sid \<in> sets (view s) SURVEY_RESPONSE_INDEX
       \<and> strs (view s) (survey_response_key sid) = Some raw \<and> response_from_raw now raw = Inr p
       \<and> sp_consent_training_export p \<and> \<not> flt (sp_collected_at p) since
       \<and> row = \<lparr>td_row_id = sp_survey_id p, td_target_server = sp_target_server p, td_recipe = sp_recipe p,
           td_score = sp_score p, td_free_text = sp_free_text p, td_collected_at = sp_collected_at p,
           td_actor_handle = (if anonymize then anonymize_actor act_digest (sp_surveyed_actor p) else sp_surveyed_actor p)\<rparr>))
     \<and> sorted (map td_collected_at rows)"
  using redis.export_rows [OF assms] unfolding exportable_iff by blast

lemma distinct_singletonD: assumes "set xs = {a}" "distinct xs" shows "xs = [a]"
proof (cases xs)
  case (Cons b ys)
  then have "b = a" "set ys \<subseteq> {a}" "a \<notin> set ys" using assms by auto
  then show ?thesis using Cons by (cases ys) auto
qed (use assms in simp)

lemma export_consented_witness:
  "\<exists>s rows t row. export_corpus mem_redis (Fin 9) (\<lambda>a. ''d'') (Fin 0) True s = (Inr rows, t) \<and> row \<in> set rows
     \<and> td_actor_handle row = ''act-d''"
proof -
  define s where "s = snd (submit_response sample_queue (Fin 5) sample_answer None empty_mem)"
  have st: "strs (mem_view s) = [survey_response_key ''s1'' \<mapsto> response_to_json sample_answer]"
    "sets (mem_view s) SURVEY_RESPONSE_INDEX = {''s1''}"
    by (simp_all add: s_def submit_response_def sample_queue_def sample_answer_def Let_def mem.setnx sy_emit_def emit_opt_def
      key_exists_def del: mem_view_sel) (simp_all add: empty_mem_def table_def)
  have "r_smembers mem_redis SURVEY_RESPONSE_INDEX s = [''s1'']"
    using mem.smembers [of SURVEY_RESPONSE_INDEX s] unfolding st(2) by (rule distinct_singletonD)
  then obtain rows where run: "export_corpus mem_redis (Fin 9) (\<lambda>a. ''d'') (Fin 0) True s = (Inr rows, s)"
    by (simp add: export_corpus_def sbind_def st row_from_response_def sample_answer_def del: mem_view_sel)
  let ?row = "\<lparr>td_row_id = ''s1'', td_target_server = ''srv'', td_recipe = ''r'', td_score = Fin 1, td_free_text = [],
     td_collected_at = Fin 5, td_actor_handle = ''act-d''\<rparr>"
  have "?row \<in> set rows"
    using export_consented [OF mem.redis_axioms run, of ?row] by (simp add: st sample_answer_def anonymize_actor_def del: mem_view_sel)
  with run show ?thesis by fastforce
qed

end
