(* ===== verification/ServerRegistry.thy ===== *)
theory ServerRegistry
  imports AuditSink Pricing
begin

text \<open>
  \<open>ahp/broker/server_registry.py\<close>: the directory of servers, one hash of declared metadata and
  one expiring liveness marker per server, with discovery by capability.
\<close>

section \<open>Metadata\<close>

record ServerMeta =
  sm_server_id :: string
  sm_org :: string
  sm_operator :: string
  sm_public_key :: string
  sm_specialties :: "string list"
  sm_integrations :: "string list"
  sm_supported_codes :: "string list"
  sm_supported_tiers :: "string list"
  sm_base_rate :: pyfloat
  sm_compute_binding :: string
  sm_compute_ranking :: string
  sm_survey_opt_in :: bool
  sm_csat_routing_opt_in :: bool
  sm_training_data_opt_in :: bool
  sm_registered_at :: pyfloat
  sm_extra :: "(string, pyval) dict"

definition server_meta_post_init :: "ServerMeta \<Rightarrow> ServerMeta res" where
  "server_meta_post_init m =
     (if sm_server_id m = [] then Inl ValueError
      else if flt (sm_base_rate m) fzero then Inl ValueError
      else rbind (mapM parse_tier (sm_supported_tiers m)) (\<lambda>_. Inr m))"

definition strs_json :: "string list \<Rightarrow> pyval" where
  "strs_json xs = PList (map PStr xs)"

definition server_to_json :: "ServerMeta \<Rightarrow> pyval res" where
  "server_to_json m =
     (let v = PDict [(''server_id'', PStr (sm_server_id m)), (''org'', PStr (sm_org m)),
        (''operator'', PStr (sm_operator m)), (''public_key'', PStr (sm_public_key m)),
        (''specialties'', strs_json (sm_specialties m)), (''integrations'', strs_json (sm_integrations m)),
        (''supported_codes'', strs_json (sm_supported_codes m)), (''supported_tiers'', strs_json (sm_supported_tiers m)),
        (''base_rate'', PFloat (sm_base_rate m)), (''compute_binding'', PStr (sm_compute_binding m)),
        (''compute_ranking'', PStr (sm_compute_ranking m)), (''survey_opt_in'', PBool (sm_survey_opt_in m)),
        (''csat_routing_opt_in'', PBool (sm_csat_routing_opt_in m)),
        (''training_data_opt_in'', PBool (sm_training_data_opt_in m)),
        (''registered_at'', PFloat (sm_registered_at m)), (''extra'', PDict (sm_extra m))]
      in if json_ok v then Inr v else Inl TypeError)"

text \<open>
  Unknown keys are dropped, missing ones take their defaults, a missing \<open>server_id\<close> is a
  TypeError; a value that is not of the declared type is read as a TypeError here.
\<close>

definition server_from_json :: "pyfloat \<Rightarrow> pyval \<Rightarrow> ServerMeta res" where
  "server_from_json now raw =
     rbind (as_dict raw) (\<lambda>d.
     rbind (as_str (dict_get d ''server_id'' PNone)) (\<lambda>sid.
     rbind (as_str (dict_get d ''org'' (PStr []))) (\<lambda>org.
     rbind (as_str (dict_get d ''operator'' (PStr []))) (\<lambda>operator.
     rbind (as_str (dict_get d ''public_key'' (PStr []))) (\<lambda>pk.
     rbind (as_str_list (dict_get d ''specialties'' (PList []))) (\<lambda>sp.
     rbind (as_str_list (dict_get d ''integrations'' (PList []))) (\<lambda>ig.
     rbind (as_str_list (dict_get d ''supported_codes'' (PList []))) (\<lambda>sc.
     rbind (as_str_list (dict_get d ''supported_tiers'' (PList []))) (\<lambda>ti.
     rbind (as_num (dict_get d ''base_rate'' (PFloat DEFAULT_BASE_RATE))) (\<lambda>br.
     rbind (as_str (dict_get d ''compute_binding'' (PStr ''*.*.*''))) (\<lambda>cb.
     rbind (as_str (dict_get d ''compute_ranking'' (PStr ''cheapest''))) (\<lambda>cr.
     rbind (as_bool (dict_get d ''survey_opt_in'' (PBool True))) (\<lambda>so.
     rbind (as_bool (dict_get d ''csat_routing_opt_in'' (PBool True))) (\<lambda>co.
     rbind (as_bool (dict_get d ''training_data_opt_in'' (PBool False))) (\<lambda>tr.
     rbind (as_num (dict_get d ''registered_at'' (PFloat now))) (\<lambda>ra.
     rbind (as_dict (dict_get d ''extra'' (PDict []))) (\<lambda>ex.
       server_meta_post_init \<lparr>sm_server_id = sid, sm_org = org, sm_operator = operator, sm_public_key = pk,
         sm_specialties = sp, sm_integrations = ig, sm_supported_codes = sc, sm_supported_tiers = ti,
         sm_base_rate = br, sm_compute_binding = cb, sm_compute_ranking = cr, sm_survey_opt_in = so,
         sm_csat_routing_opt_in = co, sm_training_data_opt_in = tr, sm_registered_at = ra, sm_extra = ex\<rparr>)))))))))))))))))"

definition valid_server :: "ServerMeta \<Rightarrow> bool" where
  "valid_server m \<longleftrightarrow> server_meta_post_init m = Inr m"

lemma server_roundtrip:
  assumes "server_to_json m = Inr v" "valid_server m"
  shows "server_from_json now v = Inr m"
proof -
  have d: "v = PDict [(''server_id'', PStr (sm_server_id m)), (''org'', PStr (sm_org m)),
        (''operator'', PStr (sm_operator m)), (''public_key'', PStr (sm_public_key m)),
        (''specialties'', strs_json (sm_specialties m)), (''integrations'', strs_json (sm_integrations m)),
        (''supported_codes'', strs_json (sm_supported_codes m)), (''supported_tiers'', strs_json (sm_supported_tiers m)),
        (''base_rate'', PFloat (sm_base_rate m)), (''compute_binding'', PStr (sm_compute_binding m)),
        (''compute_ranking'', PStr (sm_compute_ranking m)), (''survey_opt_in'', PBool (sm_survey_opt_in m)),
        (''csat_routing_opt_in'', PBool (sm_csat_routing_opt_in m)),
        (''training_data_opt_in'', PBool (sm_training_data_opt_in m)),
        (''registered_at'', PFloat (sm_registered_at m)), (''extra'', PDict (sm_extra m))]"
    using assms(1) by (simp add: server_to_json_def Let_def split: if_splits)
  have "server_meta_post_init m = Inr m" using assms(2) by (simp add: valid_server_def)
  then show ?thesis unfolding d
    by (cases m) (simp add: server_from_json_def dict_get_def strs_json_def)
qed

section \<open>The registry\<close>

record 's servers =
  sv_redis :: "'s redis"
  sv_ttl :: int

definition new_servers :: "'s redis \<Rightarrow> int \<Rightarrow> 's servers res" where
  "new_servers R ttl = (if ttl \<le> 0 then Inl ValueError else Inr \<lparr>sv_redis = R, sv_ttl = ttl\<rparr>)"

definition SERVER_HASH_KEY :: string where "SERVER_HASH_KEY = ''ahp:server''"

definition server_alive_key :: "string \<Rightarrow> string" where
  "server_alive_key sid = ''ahp:server:alive:'' @ sid"

definition server_mark_alive :: "'s servers \<Rightarrow> string \<Rightarrow> 's \<Rightarrow> 's" where
  "server_mark_alive V sid = r_setex (sv_redis V) (server_alive_key sid) (PStr ''1'') (sv_ttl V)"

definition server_register :: "'s servers \<Rightarrow> ServerMeta \<Rightarrow> ('s, unit) op" where
  "server_register V m =
     sbind (slift (server_to_json m)) (\<lambda>v.
     sbind (swrite (r_hset (sv_redis V) SERVER_HASH_KEY (sm_server_id m) v)) (\<lambda>_.
     swrite (server_mark_alive V (sm_server_id m))))"

definition server_deregister :: "'s servers \<Rightarrow> string \<Rightarrow> 's \<Rightarrow> 's" where
  "server_deregister V sid s = r_delete (sv_redis V) (server_alive_key sid) (r_hdel (sv_redis V) SERVER_HASH_KEY sid s)"

definition server_heartbeat :: "'s servers \<Rightarrow> string \<Rightarrow> 's \<Rightarrow> bool \<times> 's" where
  "server_heartbeat V sid s =
     (if r_hexists (sv_redis V) SERVER_HASH_KEY sid s then (True, server_mark_alive V sid s) else (False, s))"

definition server_is_alive :: "'s servers \<Rightarrow> string \<Rightarrow> 's \<Rightarrow> bool" where
  "server_is_alive V sid = r_exists (sv_redis V) (server_alive_key sid)"

definition server_get :: "'s servers \<Rightarrow> pyfloat \<Rightarrow> string \<Rightarrow> 's \<Rightarrow> ServerMeta option res" where
  "server_get V now sid s =
     (case r_hget (sv_redis V) SERVER_HASH_KEY sid s of
        None \<Rightarrow> Inr None
      | Some raw \<Rightarrow> rbind (server_from_json now raw) (\<lambda>m. Inr (Some m)))"

text \<open>\<open>_scan\<close>: liveness is looked up under the key of the hash, corrupt entries are skipped.\<close>

definition server_scan :: "'s servers \<Rightarrow> pyfloat \<Rightarrow> bool \<Rightarrow> 's \<Rightarrow> ServerMeta list" where
  "server_scan V now alive_only s =
     List.map_filter (\<lambda>(sid, raw).
       case server_from_json now raw of
         Inl _ \<Rightarrow> None
       | Inr m \<Rightarrow> if alive_only \<and> \<not> server_is_alive V sid s then None else Some m)
     (r_hgetall (sv_redis V) SERVER_HASH_KEY s)"

definition server_list_all :: "'s servers \<Rightarrow> pyfloat \<Rightarrow> bool \<Rightarrow> 's \<Rightarrow> ServerMeta list" where
  "server_list_all V now alive_only s = server_scan V now alive_only s"

definition server_count :: "'s servers \<Rightarrow> pyfloat \<Rightarrow> bool \<Rightarrow> 's \<Rightarrow> int" where
  "server_count V now alive_only s =
     (if \<not> alive_only then r_hlen (sv_redis V) SERVER_HASH_KEY s else int (length (server_scan V now True s)))"

text \<open>The four capability filters; an absent or empty argument, and an empty declaration, filter nothing.\<close>

definition capable :: "string option \<Rightarrow> string option \<Rightarrow> string option \<Rightarrow> string option \<Rightarrow> ServerMeta \<Rightarrow> bool" where
  "capable specialty integration code tier m \<longleftrightarrow>
     (case specialty of None \<Rightarrow> True | Some x \<Rightarrow> x = [] \<or> x \<in> set (sm_specialties m))
   \<and> (case integration of None \<Rightarrow> True | Some x \<Rightarrow> x = [] \<or> x \<in> set (sm_integrations m))
   \<and> (case code of None \<Rightarrow> True | Some x \<Rightarrow> x = [] \<or> sm_supported_codes m = [] \<or> x \<in> set (sm_supported_codes m))
   \<and> (case tier of None \<Rightarrow> True | Some x \<Rightarrow> sm_supported_tiers m = [] \<or> x \<in> set (sm_supported_tiers m))"

definition server_discover :: "'s servers \<Rightarrow> pyfloat \<Rightarrow> string option \<Rightarrow> string option \<Rightarrow> string option \<Rightarrow> string option \<Rightarrow> bool \<Rightarrow> 's \<Rightarrow> ServerMeta list res" where
  "server_discover V now specialty integration code tier alive_only s =
     rbind (case tier of None \<Rightarrow> Inr [] | Some t \<Rightarrow> parse_tier t) (\<lambda>_.
       Inr (filter (capable specialty integration code tier) (server_scan V now alive_only s)))"

section \<open>Facts\<close>

lemma map_filter_mem: "y \<in> set (List.map_filter f xs) \<longleftrightarrow> (\<exists>x \<in> set xs. f x = Some y)"
  by (induction xs) (auto simp: List.map_filter_simps split: option.splits)

lemma server_keys [simp]: "server_alive_key a \<noteq> SERVER_HASH_KEY" "SERVER_HASH_KEY \<noteq> server_alive_key a"
  "server_alive_key a = server_alive_key b \<longleftrightarrow> a = b"
  by (simp_all add: server_alive_key_def SERVER_HASH_KEY_def)

locale servers_on = redis "sv_redis V" abs for V :: "'s servers" and abs :: "'s \<Rightarrow> view"
begin

lemma in_server_scan:
  "m \<in> set (server_scan V now alive s) \<longleftrightarrow>
     (\<exists>sid raw. hashes (abs s) SERVER_HASH_KEY sid = Some raw \<and> server_from_json now raw = Inr m
        \<and> (alive \<longrightarrow> server_is_alive V sid s))"
proof -
  have e: "(case server_from_json now raw of Inl _ \<Rightarrow> None
       | Inr m \<Rightarrow> if alive \<and> \<not> server_is_alive V sid s then None else Some m) = Some m
     \<longleftrightarrow> server_from_json now raw = Inr m \<and> (alive \<longrightarrow> server_is_alive V sid s)" for sid raw
    by (cases "server_from_json now raw") auto
  show ?thesis
    unfolding server_scan_def map_filter_mem Bex_def split_paired_Ex prod.case e by (simp only: in_hgetall)
qed

lemma server_alive_iff: "server_is_alive V sid s \<longleftrightarrow> key_exists (abs s) (server_alive_key sid)"
  by (simp add: server_is_alive_def)

lemma register_then_discover:
  assumes "valid_server m" "server_to_json m = Inr v" "tier = None \<or> (\<exists>t. tier = Some t \<and> t \<in> set TIER_ORDER)"
  obtains t ms where "server_register V m s = (Inr (), t)" "server_get V now (sm_server_id m) t = Inr (Some m)"
    "server_discover V now sp ig code tier True t = Inr ms" "m \<in> set ms \<longleftrightarrow> capable sp ig code tier m"
proof -
  define t where "t = server_mark_alive V (sm_server_id m) (r_hset (sv_redis V) SERVER_HASH_KEY (sm_server_id m) v s)"
  have rt: "server_from_json now v = Inr m" by (rule server_roundtrip [OF assms(2,1)])
  have "server_register V m s = (Inr (), t)" using assms(2) by (simp add: server_register_def t_def)
  moreover have h: "hashes (abs t) SERVER_HASH_KEY (sm_server_id m) = Some v"
    by (simp add: t_def server_mark_alive_def)
  then have "server_get V now (sm_server_id m) t = Inr (Some m)" using rt by (simp add: server_get_def)
  moreover have "server_is_alive V (sm_server_id m) t"
    by (simp add: server_alive_iff t_def server_mark_alive_def key_exists_def)
  then have "m \<in> set (server_scan V now True t)" unfolding in_server_scan using h rt by blast
  moreover have "\<exists>x. (case tier of None \<Rightarrow> Inr [] | Some t \<Rightarrow> parse_tier t) = Inr x"
    using assms(3) by (auto simp: parse_tier_known)
  then obtain x where "(case tier of None \<Rightarrow> Inr [] | Some t \<Rightarrow> parse_tier t) = Inr x" by blast
  then have "server_discover V now sp ig code tier True t = Inr (filter (capable sp ig code tier) (server_scan V now True t))"
    by (simp add: server_discover_def)
  ultimately show thesis using that by simp
qed

lemma deregistered_gone:
  assumes "\<And>sid raw m. hashes (abs s) SERVER_HASH_KEY sid = Some raw \<Longrightarrow> server_from_json now raw = Inr m \<Longrightarrow> sm_server_id m = sid"
  shows "server_get V now sid (server_deregister V sid s) = Inr None"
    and "set (server_scan V now alive (server_deregister V sid s)) = {m \<in> set (server_scan V now alive s). sm_server_id m \<noteq> sid}"
proof -
  have al: "server_is_alive V j (server_deregister V sid s) \<longleftrightarrow> j \<noteq> sid \<and> server_is_alive V j s" for j
    by (auto simp: server_alive_iff server_deregister_def key_exists_def)
  have h: "hashes (abs (server_deregister V sid s)) SERVER_HASH_KEY = (hashes (abs s) SERVER_HASH_KEY)(sid := None)"
    by (simp add: server_deregister_def)
  show "server_get V now sid (server_deregister V sid s) = Inr None"
    by (simp add: server_get_def h)
  show "set (server_scan V now alive (server_deregister V sid s)) = {m \<in> set (server_scan V now alive s). sm_server_id m \<noteq> sid}"
    unfolding set_eq_iff mem_Collect_eq in_server_scan h al using assms by (auto split: if_splits) 
qed

end

interpretation mem_servers: servers_on "\<lparr>sv_redis = mem_redis, sv_ttl = ttl\<rparr>" mem_view for ttl
  by (simp add: servers_on_def mem.redis_axioms)

section \<open>Properties\<close>

text \<open>A registered server is found by what it declares: after \<open>register\<close> of a well-formed server, \<open>get\<close> returns
  its metadata unchanged, and live discovery (with any known tier) lists it exactly when it declares the
  requested specialty and integration and supports the code and tier (an empty declaration supports all).\<close>

lemma server_discovery:
  assumes "servers_on V view" and "valid_server m" and "server_to_json m = Inr v"
    and "tier = None \<or> (\<exists>t. tier = Some t \<and> t \<in> set TIER_ORDER)"
  shows "\<exists>t ms. server_register V m s = (Inr (), t) \<and> server_get V now (sm_server_id m) t = Inr (Some m)
     \<and> server_discover V now sp ig code tier True t = Inr ms \<and> (m \<in> set ms \<longleftrightarrow> capable sp ig code tier m)"
  using servers_on.register_then_discover [OF assms] by metis

definition sample_server :: ServerMeta where
  "sample_server = \<lparr>sm_server_id = ''srv'', sm_org = ''acme'', sm_operator = [], sm_public_key = [],
     sm_specialties = [''nlp''], sm_integrations = [], sm_supported_codes = [''query''], sm_supported_tiers = [''small''],
     sm_base_rate = Fin 1, sm_compute_binding = ''*.*.*'', sm_compute_ranking = ''cheapest'',
     sm_survey_opt_in = True, sm_csat_routing_opt_in = True, sm_training_data_opt_in = False,
     sm_registered_at = Fin 0, sm_extra = []\<rparr>"

lemma server_discovery_witness:
  "\<exists>t ms. server_register \<lparr>sv_redis = mem_redis, sv_ttl = 30\<rparr> sample_server empty_mem = (Inr (), t)
     \<and> server_discover \<lparr>sv_redis = mem_redis, sv_ttl = 30\<rparr> (Fin 0) (Some ''nlp'') None (Some ''query'') (Some ''small'') True t = Inr ms
     \<and> sample_server \<in> set ms"
proof -
  have v: "valid_server sample_server"
    by (simp add: valid_server_def server_meta_post_init_def sample_server_def parse_tier_known TIER_ORDER_def)
  obtain w where w: "server_to_json sample_server = Inr w"
    by (simp add: server_to_json_def sample_server_def Let_def strs_json_def)
  have "capable (Some ''nlp'') None (Some ''query'') (Some ''small'') sample_server"
    by (simp add: capable_def sample_server_def)
  moreover have "\<exists>t ms. server_register \<lparr>sv_redis = mem_redis, sv_ttl = 30\<rparr> sample_server empty_mem = (Inr (), t)
     \<and> server_get \<lparr>sv_redis = mem_redis, sv_ttl = 30\<rparr> (Fin 0) (sm_server_id sample_server) t = Inr (Some sample_server)
     \<and> server_discover \<lparr>sv_redis = mem_redis, sv_ttl = 30\<rparr> (Fin 0) (Some ''nlp'') None (Some ''query'') (Some ''small'') True t = Inr ms
     \<and> (sample_server \<in> set ms \<longleftrightarrow> capable (Some ''nlp'') None (Some ''query'') (Some ''small'') sample_server)"
    by (rule server_discovery [OF mem_servers.servers_on_axioms v w]) (simp add: TIER_ORDER_def)
  ultimately show ?thesis by blast
qed

end
