(* ===== verification/ComputeMenu.thy ===== *)
theory ComputeMenu
  imports Pricing
begin

text \<open>
  \<open>ahp/economy/compute_provider.py\<close>: providers, menu leaves with their validation, the glob
  match of a binding pattern against a leaf address, and the ranking of the matches.
\<close>

section \<open>Data\<close>

record ComputeProvider =
  cp_provider_id :: string
  cp_operator :: string
  cp_endpoint :: string
  cp_region :: string
  cp_reputation :: pyfloat
  cp_public_key :: string
  cp_metadata :: "(string, string) dict"

record MenuLeaf =
  ml_provider_id :: string
  ml_tier :: string
  ml_model :: string
  ml_rate_per_1k_chars :: pyfloat
  ml_latency_p95_ms :: pyfloat
  ml_capacity :: pyfloat
  ml_healthy :: bool

definition is_lower_alnum :: "char \<Rightarrow> bool" where
  "is_lower_alnum c \<longleftrightarrow> CHR ''a'' \<le> c \<and> c \<le> CHR ''z'' \<or> CHR ''0'' \<le> c \<and> c \<le> CHR ''9''"

text \<open>
  A match of the anchored regex \<open>[a-z0-9]\<close> then \<open>[a-z0-9...]*\<close>: the final anchor also
  accepts one newline at the end.
\<close>

definition slug_match :: "string \<Rightarrow> string \<Rightarrow> bool" where
  "slug_match extra s =
     (case drop_final_newline s of
        [] \<Rightarrow> False
      | c # cs \<Rightarrow> is_lower_alnum c \<and> list_all (\<lambda>c. is_lower_alnum c \<or> c \<in> set extra) cs)"

definition menu_leaf_post_init :: "MenuLeaf \<Rightarrow> MenuLeaf res" where
  "menu_leaf_post_init l =
     rbind (parse_tier (ml_tier l)) (\<lambda>_.
     if flt (ml_rate_per_1k_chars l) fzero then Inl ValueError
     else if \<not> (fle fzero (ml_capacity l) \<and> fle (ml_capacity l) fone) then Inl ValueError
     else if flt (ml_latency_p95_ms l) fzero then Inl ValueError
     else if \<not> slug_match ''-'' (ml_provider_id l) then Inl ValueError
     else if \<not> slug_match ''._-'' (ml_model l) then Inl ValueError
     else Inr l)"

definition leaf_address :: "MenuLeaf \<Rightarrow> string" where
  "leaf_address l = ml_provider_id l @ ''.'' @ ml_tier l @ ''.'' @ ml_model l"

section \<open>Pattern matching\<close>

text \<open>The anchored regex a glob field becomes: \<open>.*\<close> does not cross a newline.\<close>

fun glob :: "string \<Rightarrow> string \<Rightarrow> bool" where
  "glob [] s = (s = [] \<or> s = [CHR 0x0A])"
| "glob (c # p) [] = (c = CHR ''*'' \<and> glob p [])"
| "glob (c # p) (x # xs) =
     (if c = CHR ''*'' then glob p (x # xs) \<or> x \<noteq> CHR 0x0A \<and> glob (c # p) xs
      else x = c \<and> glob p xs)"

definition pattern_matches :: "string \<Rightarrow> string \<Rightarrow> bool" where
  "pattern_matches pattern address =
     (let p_parts = split_on (CHR ''.'') pattern; a_parts = split_on (CHR ''.'') address in
      if length p_parts \<noteq> 3 \<or> length a_parts \<noteq> 3 then False
      else list_all (\<lambda>(pp, aa). glob pp aa) (zip p_parts a_parts))"

definition matching_leaves :: "string \<Rightarrow> MenuLeaf list \<Rightarrow> MenuLeaf list" where
  "matching_leaves pattern leaves = filter (\<lambda>l. pattern_matches pattern (leaf_address l)) leaves"

section \<open>Ranking\<close>

definition DEFAULT_WEIGHTS :: "(string, pyfloat \<times> pyfloat \<times> pyfloat \<times> pyfloat) dict" where
  "DEFAULT_WEIGHTS =
     [(''cheapest'', flit (60/100), flit (20/100), flit (15/100), flit (5/100)),
      (''lowest_latency'', flit (15/100), flit (60/100), flit (20/100), flit (5/100)),
      (''best_uptime'', flit (15/100), flit (20/100), flit (60/100), flit (5/100)),
      (''best_reputation'', flit (15/100), flit (10/100), flit (10/100), flit (65/100))]"

definition normalize_inverse :: "pyfloat list \<Rightarrow> pyfloat list res" where
  "normalize_inverse values =
     (case values of [] \<Rightarrow> Inr [] | v # vs \<Rightarrow>
        let lo = fmin_list v vs; hi = fmax_list v vs in
        if flt (fsub hi lo) (flit (1 / 1000000000000)) then Inr (replicate (length values) fone)
        else mapM (\<lambda>v. rbind (fdiv (fsub v lo) (fsub hi lo)) (\<lambda>q. Inr (fsub fone q))) values)"

definition normalize_direct :: "pyfloat list \<Rightarrow> pyfloat list res" where
  "normalize_direct values =
     (case values of [] \<Rightarrow> Inr [] | v # vs \<Rightarrow>
        let lo = fmin_list v vs; hi = fmax_list v vs in
        if flt (fsub hi lo) (flit (1 / 1000000000000)) then Inr (replicate (length values) fone)
        else mapM (\<lambda>v. fdiv (fsub v lo) (fsub hi lo)) values)"

definition rank_leaves :: "MenuLeaf list \<Rightarrow> string \<Rightarrow> (string, pyfloat) dict \<Rightarrow> (MenuLeaf \<times> pyfloat) list res" where
  "rank_leaves leaves rank_by reps =
     (let healthy = filter ml_healthy leaves in
      if healthy = [] then Inr []
      else
        let (w_price, w_lat, w_cap, w_rep) =
              dict_get DEFAULT_WEIGHTS rank_by (the (map_of DEFAULT_WEIGHTS ''cheapest''))
        in rbind (normalize_inverse (map ml_rate_per_1k_chars healthy)) (\<lambda>price_n.
           rbind (normalize_inverse (map ml_latency_p95_ms healthy)) (\<lambda>lat_n.
           rbind (normalize_direct (map ml_capacity healthy)) (\<lambda>cap_n.
           rbind (normalize_direct (map (\<lambda>l. dict_get reps (ml_provider_id l) (flit (1/2))) healthy)) (\<lambda>rep_n.
             Inr (sort_key (\<lambda>(l, sc). (fneg sc, leaf_address l))
               (map (\<lambda>i. (healthy ! i,
                      fadd (fadd (fadd (fmul w_price (price_n ! i)) (fmul w_lat (lat_n ! i)))
                        (fmul w_cap (cap_n ! i))) (fmul w_rep (rep_n ! i))))
                 [0 ..< length healthy])))))))"

definition best_leaf :: "string \<Rightarrow> MenuLeaf list \<Rightarrow> string \<Rightarrow> (string, pyfloat) dict \<Rightarrow> MenuLeaf option res" where
  "best_leaf pattern leaves rank_by reps =
     rbind (rank_leaves (matching_leaves pattern leaves) rank_by reps) (\<lambda>ranked.
       Inr (case ranked of [] \<Rightarrow> None | (l, _) # _ \<Rightarrow> Some l))"

section \<open>Normalization as a function of the bounds\<close>

definition norm_dir :: "pyfloat \<Rightarrow> pyfloat \<Rightarrow> pyfloat \<Rightarrow> pyfloat res" where
  "norm_dir lo hi v = (if flt (fsub hi lo) (flit (1 / 1000000000000)) then Inr fone
     else fdiv (fsub v lo) (fsub hi lo))"

definition norm_inv :: "pyfloat \<Rightarrow> pyfloat \<Rightarrow> pyfloat \<Rightarrow> pyfloat res" where
  "norm_inv lo hi v = (if flt (fsub hi lo) (flit (1 / 1000000000000)) then Inr fone
     else rbind (fdiv (fsub v lo) (fsub hi lo)) (\<lambda>q. Inr (fsub fone q)))"

lemma mapM_const: "mapM (\<lambda>_. Inr c) xs = Inr (replicate (length xs) c)"
  by (induction xs) simp_all

lemma normalize_direct_eq:
  "values = v # vs \<Longrightarrow> normalize_direct values = mapM (norm_dir (fmin_list v vs) (fmax_list v vs)) values"
  by (simp add: normalize_direct_def norm_dir_def [abs_def] Let_def mapM_const)

lemma normalize_inverse_eq:
  "values = v # vs \<Longrightarrow> normalize_inverse values = mapM (norm_inv (fmin_list v vs) (fmax_list v vs)) values"
  by (simp add: normalize_inverse_def norm_inv_def [abs_def] Let_def mapM_const)

text \<open>On finite values the bounds are the least and the greatest one, in whatever order they come.\<close>

lemma Min_insert_min: "finite A \<Longrightarrow> Min (insert (min a x) A) = Min (insert a (insert x A))" for x :: "'a :: linorder"
  by (cases "A = {}") (simp_all add: min.assoc)

lemma Max_insert_max: "finite A \<Longrightarrow> Max (insert (max a x) A) = Max (insert a (insert x A))" for x :: "'a :: linorder"
  by (cases "A = {}") (simp_all add: max.assoc)

lemma fmin_list_Min: "fmin_list (Fin x) (map Fin xs) = Fin (Min (insert x (set xs)))"
  by (induction xs arbitrary: x) (simp_all add: Min_insert_min min.commute insert_commute del: Min_insert)

lemma fmax_list_Max: "fmax_list (Fin x) (map Fin xs) = Fin (Max (insert x (set xs)))"
  by (induction xs arbitrary: x) (simp_all add: Max_insert_max max.commute insert_commute del: Max_insert)

lemma list_bounds_set:
  assumes "\<forall>v \<in> set vs. is_fin v" "\<forall>v \<in> set ws. is_fin v" "set vs = set ws" "vs \<noteq> []"
  shows "fmin_list (hd vs) (tl vs) = fmin_list (hd ws) (tl ws)"
    and "fmax_list (hd vs) (tl vs) = fmax_list (hd ws) (tl ws)"
proof -
  have conv: "xs = map Fin (map fval xs)" if "\<forall>v \<in> set xs. is_fin v" for xs
    using that by (induction xs) (auto simp: is_fin_iff)
  have b: "fmin_list (hd xs) (tl xs) = Fin (Min (fval ` set xs))" "fmax_list (hd xs) (tl xs) = Fin (Max (fval ` set xs))"
    if "\<forall>v \<in> set xs. is_fin v" "xs \<noteq> []" for xs
  proof -
    obtain y ys where xs: "xs = y # ys" using \<open>xs \<noteq> []\<close> by (cases xs) auto
    have "y = Fin (fval y)" using that(1) by (auto simp: xs is_fin_iff)
    moreover have "ys = map Fin (map fval ys)" using that(1) by (intro conv) (simp add: xs)
    ultimately show "fmin_list (hd xs) (tl xs) = Fin (Min (fval ` set xs))"
      "fmax_list (hd xs) (tl xs) = Fin (Max (fval ` set xs))"
      using fmin_list_Min [of "fval y" "map fval ys"] fmax_list_Max [of "fval y" "map fval ys"]
      by (simp_all add: xs del: Min_insert Max_insert)
  qed
  have "ws \<noteq> []" using assms(3,4) by auto
  with b [OF assms(1,4)] b [OF assms(2)] assms(3)
  show "fmin_list (hd vs) (tl vs) = fmin_list (hd ws) (tl ws)"
    "fmax_list (hd vs) (tl vs) = fmax_list (hd ws) (tl ws)" by simp_all
qed

section \<open>The ranking as a sort by score\<close>

text \<open>A division of the normalization never meets a zero divisor: equal bounds take the other branch.\<close>

lemma fdiv_total: "b \<noteq> Fin 0 \<Longrightarrow> \<exists>q. fdiv a b = Inr q"
  by (cases b) auto

lemma norm_total: "\<exists>q. norm_dir lo hi v = Inr q" "\<exists>q. norm_inv lo hi v = Inr q"
proof -
  have "\<not> flt d (flit (1 / 1000000000000)) \<Longrightarrow> d \<noteq> Fin 0" for d
    by (auto simp: flit_1e12)
  then have "\<not> flt (fsub hi lo) (flit (1 / 1000000000000)) \<Longrightarrow> \<exists>q. fdiv (fsub v lo) (fsub hi lo) = Inr q"
    using fdiv_total by blast
  then show "\<exists>q. norm_dir lo hi v = Inr q" "\<exists>q. norm_inv lo hi v = Inr q"
    by (auto simp: norm_dir_def norm_inv_def)
qed

definition res_val :: "pyfloat res \<Rightarrow> pyfloat" where
  "res_val r = (case r of Inl _ \<Rightarrow> NaN | Inr x \<Rightarrow> x)"

lemma mapM_total: "(\<And>x. \<exists>y. f x = Inr y) \<Longrightarrow> mapM f xs = Inr (map (res_val \<circ> f) xs)"
proof (induction xs)
  case (Cons x xs)
  then obtain y where "f x = Inr y" by blast
  with Cons show ?case by (simp add: res_val_def)
qed simp

lemma normalize_map:
  assumes "xs \<noteq> []"
  shows "normalize_direct (map f xs) = Inr (map (\<lambda>l. res_val (norm_dir (fmin_list (hd (map f xs)) (tl (map f xs)))
      (fmax_list (hd (map f xs)) (tl (map f xs))) (f l))) xs)"
    and "normalize_inverse (map f xs) = Inr (map (\<lambda>l. res_val (norm_inv (fmin_list (hd (map f xs)) (tl (map f xs)))
      (fmax_list (hd (map f xs)) (tl (map f xs))) (f l))) xs)"
proof -
  obtain y ys where xs: "xs = y # ys" using assms by (cases xs) auto
  show "normalize_direct (map f xs) = Inr (map (\<lambda>l. res_val (norm_dir (fmin_list (hd (map f xs)) (tl (map f xs)))
      (fmax_list (hd (map f xs)) (tl (map f xs))) (f l))) xs)"
    using normalize_direct_eq [of "map f xs" "f y" "map f ys"]
    by (simp add: xs mapM_total norm_total del: mapM.simps)
  show "normalize_inverse (map f xs) = Inr (map (\<lambda>l. res_val (norm_inv (fmin_list (hd (map f xs)) (tl (map f xs)))
      (fmax_list (hd (map f xs)) (tl (map f xs))) (f l))) xs)"
    using normalize_inverse_eq [of "map f xs" "f y" "map f ys"]
    by (simp add: xs mapM_total norm_total del: mapM.simps)
qed

definition provider_rep :: "(string, pyfloat) dict \<Rightarrow> MenuLeaf \<Rightarrow> pyfloat" where
  "provider_rep reps l = dict_get reps (ml_provider_id l) (flit (1/2))"

text \<open>The composite score of one leaf within the healthy candidates \<open>hs\<close>.\<close>

definition leaf_score :: "string \<Rightarrow> (string, pyfloat) dict \<Rightarrow> MenuLeaf list \<Rightarrow> MenuLeaf \<Rightarrow> pyfloat" where
  "leaf_score rank_by reps hs l =
     (let (w_price, w_lat, w_cap, w_rep) =
            dict_get DEFAULT_WEIGHTS rank_by (the (map_of DEFAULT_WEIGHTS ''cheapest''));
          b = (\<lambda>n f. res_val (n (fmin_list (hd (map f hs)) (tl (map f hs))) (fmax_list (hd (map f hs)) (tl (map f hs))) (f l)))
      in fadd (fadd (fadd (fmul w_price (b norm_inv ml_rate_per_1k_chars)) (fmul w_lat (b norm_inv ml_latency_p95_ms)))
           (fmul w_cap (b norm_dir ml_capacity))) (fmul w_rep (b norm_dir (provider_rep reps))))"

definition rank_key :: "MenuLeaf \<times> pyfloat \<Rightarrow> pyfloat \<times> string" where
  "rank_key p = (fneg (snd p), leaf_address (fst p))"

lemma rank_leaves_eq:
  "rank_leaves leaves rank_by reps =
     Inr (sort_key rank_key (map (\<lambda>l. (l, leaf_score rank_by reps (filter ml_healthy leaves) l)) (filter ml_healthy leaves)))"
proof (cases "filter ml_healthy leaves = []")
  case False
  define hs where "hs = filter ml_healthy leaves"
  with False have "hs \<noteq> []" by simp
  note n = normalize_map [OF this]
  obtain a b c d where w: "dict_get DEFAULT_WEIGHTS rank_by (the (map_of DEFAULT_WEIGHTS ''cheapest'')) = (a, b, c, d)"
    by (cases "dict_get DEFAULT_WEIGHTS rank_by (the (map_of DEFAULT_WEIGHTS ''cheapest''))") auto
  have key: "(\<lambda>(l, sc). (fneg sc, leaf_address l)) = rank_key" by (auto simp: rank_key_def fun_eq_iff)
  have rep: "(\<lambda>l. dict_get reps (ml_provider_id l) (flit (1/2))) = provider_rep reps"
    by (simp add: provider_rep_def fun_eq_iff)
  have sorts: "xs = ys \<Longrightarrow> sort_key rank_key xs = sort_key rank_key ys" for xs ys by simp
  show ?thesis
    unfolding rank_leaves_def hs_def [symmetric] Let_def w rep
    using False by (simp add: hs_def [symmetric] n key)
      (rule sorts, rule nth_equalityI, simp_all add: leaf_score_def w Let_def)
qed (simp add: rank_leaves_def)

lemma rank_leaves_set:
  "rank_leaves leaves rank_by reps = Inr ranked \<Longrightarrow> fst ` set ranked = {l \<in> set leaves. ml_healthy l}"
  by (auto simp: rank_leaves_eq image_image)

section \<open>Independence of the listing order\<close>

definition finite_leaf :: "MenuLeaf \<Rightarrow> bool" where
  "finite_leaf l \<longleftrightarrow> is_fin (ml_rate_per_1k_chars l) \<and> is_fin (ml_latency_p95_ms l) \<and> is_fin (ml_capacity l)"

lemma provider_rep_fin:
  assumes "\<forall>v \<in> snd ` set reps. is_fin v" shows "is_fin (provider_rep reps l)"
proof (cases "map_of reps (ml_provider_id l)")
  case (Some v)
  then have "v \<in> snd ` set reps" by (force dest: map_of_SomeD)
  with assms have "is_fin v" by blast
  with Some show ?thesis by (simp add: provider_rep_def dict_get_def)
qed (simp add: provider_rep_def dict_get_def mk_dyadic is_fin_def)

lemma leaf_score_cong:
  assumes "set hs = set hs'" "hs \<noteq> []" "\<forall>l \<in> set hs. finite_leaf l" "\<forall>v \<in> snd ` set reps. is_fin v"
  shows "leaf_score rank_by reps hs l = leaf_score rank_by reps hs' l"
proof -
  have b: "fmin_list (hd (map f hs)) (tl (map f hs)) = fmin_list (hd (map f hs')) (tl (map f hs'))
    \<and> fmax_list (hd (map f hs)) (tl (map f hs)) = fmax_list (hd (map f hs')) (tl (map f hs'))"
    if "\<forall>l \<in> set hs. is_fin (f l)" for f
    using list_bounds_set [of "map f hs" "map f hs'"] assms(1,2) that by auto
  note b [of ml_rate_per_1k_chars] b [of ml_latency_p95_ms] b [of ml_capacity] b [of "provider_rep reps"]
  then show ?thesis
    using assms(3) provider_rep_fin [OF assms(4)] by (simp add: leaf_score_def Let_def finite_leaf_def)
qed

lemma rank_order_independent:
  assumes "mset ls = mset ls'" "\<forall>l \<in> set ls. finite_leaf l" "\<forall>v \<in> snd ` set reps. is_fin v"
    "inj_on leaf_address (set ls)"
  shows "rank_leaves ls rank_by reps = rank_leaves ls' rank_by reps"
proof -
  define hs hs' where "hs = filter ml_healthy ls" and "hs' = filter ml_healthy ls'"
  have m: "mset hs = mset hs'" using assms(1) by (simp add: hs_def hs'_def)
  then have st: "set hs = set hs'" by (rule mset_eq_setD)
  have sc: "leaf_score rank_by reps hs = leaf_score rank_by reps hs'"
  proof (cases "hs = []")
    case False
    with st assms(2,3) show ?thesis by (intro ext leaf_score_cong) (auto simp: hs_def)
  qed (use m in simp)
  have "inj_on rank_key (set (map (\<lambda>l. (l, leaf_score rank_by reps hs l)) hs))"
    using assms(4) by (auto simp: inj_on_def rank_key_def hs_def)
  then have "sort_key rank_key (map (\<lambda>l. (l, leaf_score rank_by reps hs l)) hs) =
      sort_key rank_key (map (\<lambda>l. (l, leaf_score rank_by reps hs l)) hs')"
    using m by (intro sorted_by_key_unique) simp_all
  then show ?thesis by (simp add: rank_leaves_eq hs_def [symmetric] hs'_def [symmetric] sc)
qed

section \<open>Addresses with more than three fields\<close>

lemma split_on_length: "length (split_on c s) = Suc (count_list s c)"
  by (induction s) (auto split: list.splits)

lemma count_list_gt_zero: "0 < count_list xs x \<longleftrightarrow> x \<in> set xs"
  by (induction xs) auto

lemma best_leaf_ok:
  "\<exists>r. best_leaf pattern leaves rank_by reps = Inr r \<and>
     (case r of
        None \<Rightarrow> filter (\<lambda>l. ml_healthy l \<and> pattern_matches pattern (leaf_address l)) leaves = []
      | Some l \<Rightarrow> l \<in> set leaves \<and> ml_healthy l \<and> pattern_matches pattern (leaf_address l))"
proof -
  obtain ranked where r: "rank_leaves (matching_leaves pattern leaves) rank_by reps = Inr ranked"
    using rank_leaves_eq by blast
  then have b: "best_leaf pattern leaves rank_by reps = Inr (case ranked of [] \<Rightarrow> None | (l, _) # _ \<Rightarrow> Some l)"
    by (simp add: best_leaf_def)
  show ?thesis
  proof (cases ranked)
    case Nil
    with rank_leaves_set [OF r] show ?thesis by (auto simp: b matching_leaves_def filter_empty_conv)
  next
    case (Cons p ps)
    with rank_leaves_set [OF r] have "fst p \<in> {l \<in> set (matching_leaves pattern leaves). ml_healthy l}" by auto
    with Cons show ?thesis by (auto simp: b matching_leaves_def split: prod.splits)
  qed
qed

section \<open>Properties\<close>

text \<open>The choice of a leaf is total and sound: \<open>best_leaf\<close> never raises, returns \<open>None\<close> exactly when no
  healthy leaf of the menu matches the pattern, and otherwise returns a healthy matching leaf of the menu.\<close>

lemma best_leaf_sound:
  "\<exists>r. best_leaf pattern leaves rank_by reps = Inr r \<and>
     (case r of
        None \<Rightarrow> filter (\<lambda>l. ml_healthy l \<and> pattern_matches pattern (leaf_address l)) leaves = []
      | Some l \<Rightarrow> l \<in> set leaves \<and> ml_healthy l \<and> pattern_matches pattern (leaf_address l))"
  by (rule best_leaf_ok)

text \<open>Routing to compute is deterministic: on leaves with finite figures and distinct addresses, and finite
  provider reputations, \<open>best_leaf\<close> does not depend on the order in which the menu was read.\<close>

lemma best_leaf_order_independent:
  assumes "mset ls = mset ls'" and "\<forall>l \<in> set ls. finite_leaf l" and "\<forall>v \<in> snd ` set reps. is_fin v"
    and "inj_on leaf_address (set ls)"
  shows "best_leaf pattern ls rank_by reps = best_leaf pattern ls' rank_by reps"
proof -
  have "rank_leaves (matching_leaves pattern ls) rank_by reps = rank_leaves (matching_leaves pattern ls') rank_by reps"
    using assms by (intro rank_order_independent) (auto simp: matching_leaves_def inj_on_def)
  then show ?thesis by (simp add: best_leaf_def)
qed

definition sample_leaf :: "string \<Rightarrow> MenuLeaf" where
  "sample_leaf m = \<lparr>ml_provider_id = ''p'', ml_tier = ''small'', ml_model = m, ml_rate_per_1k_chars = Fin 1,
     ml_latency_p95_ms = Fin 1000, ml_capacity = Fin 1, ml_healthy = True\<rparr>"

lemma best_leaf_order_independent_witness:
  "best_leaf ''*.small.*'' [sample_leaf ''a'', sample_leaf ''b''] ''cheapest'' [] =
   best_leaf ''*.small.*'' [sample_leaf ''b'', sample_leaf ''a''] ''cheapest'' []"
  by (rule best_leaf_order_independent)
    (auto simp: sample_leaf_def finite_leaf_def is_fin_def inj_on_def leaf_address_def add_mset_commute)

text \<open>A leaf whose model name contains a dot, which the leaf validation accepts (as in "gpt-4.1"), can never
  be bound: no pattern whatever matches its address.\<close>

lemma dotted_model_unroutable:
  assumes "CHR ''.'' \<in> set (ml_model l)"
  shows "\<not> pattern_matches pattern (leaf_address l)"
proof -
  have "0 < count_list (ml_model l) (CHR ''.'')" using assms by (simp add: count_list_gt_zero)
  then have "length (split_on (CHR ''.'') (leaf_address l)) \<noteq> 3"
    by (simp add: split_on_length leaf_address_def)
  then show ?thesis by (simp add: pattern_matches_def Let_def)
qed

lemma dotted_model_unroutable_witness:
  "menu_leaf_post_init (sample_leaf ''gpt-4.1'') = Inr (sample_leaf ''gpt-4.1'')
   \<and> \<not> pattern_matches ''*.*.*'' (leaf_address (sample_leaf ''gpt-4.1''))"
  using dotted_model_unroutable [of "sample_leaf ''gpt-4.1''" "''*.*.*''"]
  by (simp add: menu_leaf_post_init_def sample_leaf_def parse_tier_def TIER_MULTIPLIER_def slug_match_def
        drop_final_newline_def is_lower_alnum_def less_eq_char_def)

end
