(* ===== verification/ComputeRegistry.thy ===== *)
theory ComputeRegistry
  imports ComputeMenu AuditSink
begin

text \<open>
  \<open>ahp/broker/compute_registry.py\<close>: providers with liveness and outage sentinels, and their
  menu leaves, one key per leaf plus an index set. \<open>stamp\<close> is the text of the clock that the
  sentinel stores; it is never read back.
\<close>

section \<open>Stored forms\<close>

definition str_dict_json :: "(string, string) dict \<Rightarrow> pyval" where
  "str_dict_json d = PDict (map (\<lambda>(k, v). (k, PStr v)) d)"

definition as_str_dict :: "pyval \<Rightarrow> (string, string) dict res" where
  "as_str_dict v = rbind (as_dict v) (mapM (\<lambda>(k, x). rbind (as_str x) (\<lambda>t. Inr (k, t))))"

lemma as_str_dict_json [simp]: "as_str_dict (str_dict_json d) = Inr d"
proof -
  have "mapM (\<lambda>(k, x). rbind (as_str x) (\<lambda>t. Inr (k, t))) (map (\<lambda>(k, v). (k, PStr v)) d) = Inr d"
    by (rule mapM_map) auto
  then show ?thesis by (simp add: as_str_dict_def str_dict_json_def)
qed

definition provider_to_json :: "ComputeProvider \<Rightarrow> pyval" where
  "provider_to_json p = PDict [(''provider_id'', PStr (cp_provider_id p)), (''operator'', PStr (cp_operator p)),
     (''endpoint'', PStr (cp_endpoint p)), (''region'', PStr (cp_region p)), (''reputation'', PFloat (cp_reputation p)),
     (''public_key'', PStr (cp_public_key p)), (''metadata'', str_dict_json (cp_metadata p))]"

definition provider_from_raw :: "pyval \<Rightarrow> ComputeProvider res" where
  "provider_from_raw raw =
     rbind (as_dict raw) (\<lambda>d.
     rbind (as_str (dict_get d ''provider_id'' PNone)) (\<lambda>pid.
     rbind (as_str (dict_get d ''operator'' (PStr []))) (\<lambda>op'.
     rbind (as_str (dict_get d ''endpoint'' (PStr []))) (\<lambda>ep.
     rbind (as_str (dict_get d ''region'' (PStr []))) (\<lambda>rg.
     rbind (as_num (dict_get d ''reputation'' (PFloat (flit (1/2))))) (\<lambda>rep.
     rbind (as_str (dict_get d ''public_key'' (PStr []))) (\<lambda>pk.
     rbind (as_str_dict (dict_get d ''metadata'' (PDict []))) (\<lambda>md.
       Inr \<lparr>cp_provider_id = pid, cp_operator = op', cp_endpoint = ep, cp_region = rg,
         cp_reputation = rep, cp_public_key = pk, cp_metadata = md\<rparr>))))))))"

definition leaf_to_json :: "MenuLeaf \<Rightarrow> pyval" where
  "leaf_to_json l = PDict [(''provider_id'', PStr (ml_provider_id l)), (''tier'', PStr (ml_tier l)),
     (''model'', PStr (ml_model l)), (''rate_per_1k_chars'', PFloat (ml_rate_per_1k_chars l)),
     (''latency_p95_ms'', PFloat (ml_latency_p95_ms l)), (''capacity'', PFloat (ml_capacity l)),
     (''healthy'', PBool (ml_healthy l))]"

definition leaf_from_raw :: "pyval \<Rightarrow> MenuLeaf res" where
  "leaf_from_raw raw =
     rbind (as_dict raw) (\<lambda>d.
     rbind (item d ''tier'') (\<lambda>tv. rbind (as_str tv) (\<lambda>tier. rbind (parse_tier tier) (\<lambda>_.
     rbind (item d ''provider_id'') (\<lambda>pv. rbind (as_str pv) (\<lambda>pid.
     rbind (item d ''model'') (\<lambda>mv. rbind (as_str mv) (\<lambda>model.
     rbind (py_float (dict_get d ''rate_per_1k_chars'' (PFloat fzero))) (\<lambda>rate.
     rbind (py_float (dict_get d ''latency_p95_ms'' (PFloat (Fin 1000)))) (\<lambda>lat.
     rbind (py_float (dict_get d ''capacity'' (PFloat fone))) (\<lambda>cap.
       menu_leaf_post_init \<lparr>ml_provider_id = pid, ml_tier = tier, ml_model = model,
         ml_rate_per_1k_chars = rate, ml_latency_p95_ms = lat, ml_capacity = cap,
         ml_healthy = truthy (dict_get d ''healthy'' (PBool True))\<rparr>)))))))))))"

definition valid_leaf :: "MenuLeaf \<Rightarrow> bool" where
  "valid_leaf l \<longleftrightarrow> menu_leaf_post_init l = Inr l"

lemma leaf_roundtrip:
  assumes "valid_leaf l" shows "leaf_from_raw (leaf_to_json l) = Inr l"
proof -
  have pi: "menu_leaf_post_init l = Inr l" using assms by (simp add: valid_leaf_def)
  then obtain t where t: "parse_tier (ml_tier l) = Inr t" by (auto simp: menu_leaf_post_init_def rbind_eq_Inr)
  show ?thesis using pi t
    by (cases l) (simp add: leaf_from_raw_def leaf_to_json_def item_def dict_get_def)
qed

lemma provider_roundtrip: "provider_from_raw (provider_to_json p) = Inr p"
  by (cases p) (simp add: provider_from_raw_def provider_to_json_def dict_get_def)

section \<open>The registry\<close>

record 's computes =
  cr_redis :: "'s redis"
  cr_ttl :: int

definition new_computes :: "'s redis \<Rightarrow> int \<Rightarrow> 's computes res" where
  "new_computes R ttl = (if ttl \<le> 0 then Inl ValueError else Inr \<lparr>cr_redis = R, cr_ttl = ttl\<rparr>)"

definition PROVIDER_HASH_KEY :: string where "PROVIDER_HASH_KEY = ''ahp:compute_provider''"
definition provider_alive_key :: "string \<Rightarrow> string" where
  "provider_alive_key pid = ''ahp:compute_provider:alive:'' @ pid"
definition provider_last_seen_key :: "string \<Rightarrow> string" where
  "provider_last_seen_key pid = ''ahp:compute_provider:last_seen:'' @ pid"
definition menu_leaf_key :: "string \<Rightarrow> string" where "menu_leaf_key address = ''ahp:compute_menu:'' @ address"
definition MENU_LEAF_INDEX :: string where "MENU_LEAF_INDEX = ''ahp:compute_menu:index''"

definition provider_mark_alive :: "'s computes \<Rightarrow> string \<Rightarrow> string \<Rightarrow> 's \<Rightarrow> 's" where
  "provider_mark_alive C stamp pid s =
     r_set (cr_redis C) (provider_last_seen_key pid) (PStr stamp)
       (r_setex (cr_redis C) (provider_alive_key pid) (PStr ''1'') (cr_ttl C) s)"

definition register_provider :: "'s computes \<Rightarrow> string \<Rightarrow> ComputeProvider \<Rightarrow> bool \<Rightarrow> 's \<Rightarrow> 's" where
  "register_provider C stamp p prove_alive s =
     (let s1 = r_hset (cr_redis C) PROVIDER_HASH_KEY (cp_provider_id p) (provider_to_json p) s
      in if prove_alive then provider_mark_alive C stamp (cp_provider_id p) s1 else s1)"

definition get_leaf :: "'s computes \<Rightarrow> string \<Rightarrow> 's \<Rightarrow> MenuLeaf option res" where
  "get_leaf C address s =
     (case r_get (cr_redis C) (menu_leaf_key address) s of
        None \<Rightarrow> Inr None
      | Some raw \<Rightarrow> rbind (leaf_from_raw raw) (\<lambda>l. Inr (Some l)))"

definition is_provider_alive :: "'s computes \<Rightarrow> string \<Rightarrow> 's \<Rightarrow> bool" where
  "is_provider_alive C pid = r_exists (cr_redis C) (provider_alive_key pid)"

text \<open>\<open>list_leaves\<close> drops stale index entries on the way; a leaf that does not decode raises.\<close>

fun list_leaves_loop :: "'s computes \<Rightarrow> bool \<Rightarrow> string list \<Rightarrow> MenuLeaf list \<Rightarrow> ('s, MenuLeaf list) op" where
  "list_leaves_loop C only_alive [] out s = (Inr (rev out), s)"
| "list_leaves_loop C only_alive (addr # addrs) out s =
     (case get_leaf C addr s of
        Inl e \<Rightarrow> (Inl e, s)
      | Inr None \<Rightarrow> list_leaves_loop C only_alive addrs out (r_srem (cr_redis C) MENU_LEAF_INDEX addr s)
      | Inr (Some l) \<Rightarrow>
          if only_alive \<and> \<not> is_provider_alive C (ml_provider_id l) s
          then list_leaves_loop C only_alive addrs out s
          else list_leaves_loop C only_alive addrs (l # out) s)"

definition list_leaves :: "'s computes \<Rightarrow> bool \<Rightarrow> ('s, MenuLeaf list) op" where
  "list_leaves C only_alive s = list_leaves_loop C only_alive (r_smembers (cr_redis C) MENU_LEAF_INDEX s) [] s"

definition menu_for_provider :: "'s computes \<Rightarrow> string \<Rightarrow> ('s, MenuLeaf list) op" where
  "menu_for_provider C pid = sbind (list_leaves C False) (\<lambda>ls. sret (filter (\<lambda>l. ml_provider_id l = pid) ls))"

definition register_leaf :: "'s computes \<Rightarrow> string \<Rightarrow> MenuLeaf \<Rightarrow> 's \<Rightarrow> 's" where
  "register_leaf C stamp l s =
     (let s1 = (if r_hexists (cr_redis C) PROVIDER_HASH_KEY (ml_provider_id l) s then s
                else register_provider C stamp \<lparr>cp_provider_id = ml_provider_id l, cp_operator = [], cp_endpoint = [],
                       cp_region = [], cp_reputation = flit (1/2), cp_public_key = [], cp_metadata = []\<rparr> True s)
      in r_sadd (cr_redis C) MENU_LEAF_INDEX (leaf_address l)
           (r_set (cr_redis C) (menu_leaf_key (leaf_address l)) (leaf_to_json l) s1))"

definition deregister_leaf :: "'s computes \<Rightarrow> string \<Rightarrow> 's \<Rightarrow> 's" where
  "deregister_leaf C address s =
     r_srem (cr_redis C) MENU_LEAF_INDEX address (r_delete (cr_redis C) (menu_leaf_key address) s)"

definition deregister_provider :: "'s computes \<Rightarrow> string \<Rightarrow> bool \<Rightarrow> ('s, unit) op" where
  "deregister_provider C pid graceful =
     sbind (menu_for_provider C pid) (\<lambda>ls.
     sbind (swrite (\<lambda>s. fold (\<lambda>l. deregister_leaf C (leaf_address l)) ls s)) (\<lambda>_.
     sbind (swrite (r_hdel (cr_redis C) PROVIDER_HASH_KEY pid)) (\<lambda>_.
     sbind (swrite (r_delete (cr_redis C) (provider_alive_key pid))) (\<lambda>_.
     swrite (if graceful then r_delete (cr_redis C) (provider_last_seen_key pid) else id)))))"

definition heartbeat_provider :: "'s computes \<Rightarrow> string \<Rightarrow> string \<Rightarrow> 's \<Rightarrow> bool \<times> 's" where
  "heartbeat_provider C stamp pid s =
     (if r_hexists (cr_redis C) PROVIDER_HASH_KEY pid s then (True, provider_mark_alive C stamp pid s) else (False, s))"

definition detect_outage :: "'s computes \<Rightarrow> string \<Rightarrow> 's \<Rightarrow> bool \<times> 's" where
  "detect_outage C pid s =
     (if r_exists (cr_redis C) (provider_last_seen_key pid) s \<and> \<not> r_exists (cr_redis C) (provider_alive_key pid) s
      then (True, r_delete (cr_redis C) (provider_last_seen_key pid) s) else (False, s))"

definition get_provider :: "'s computes \<Rightarrow> string \<Rightarrow> 's \<Rightarrow> ComputeProvider option res" where
  "get_provider C pid s =
     (case r_hget (cr_redis C) PROVIDER_HASH_KEY pid s of
        None \<Rightarrow> Inr None
      | Some raw \<Rightarrow> rbind (provider_from_raw raw) (\<lambda>p. Inr (Some p)))"

definition list_providers :: "'s computes \<Rightarrow> 's \<Rightarrow> ComputeProvider list" where
  "list_providers C s =
     List.map_filter (\<lambda>(_, raw). case provider_from_raw raw of Inl _ \<Rightarrow> None | Inr p \<Rightarrow> Some p)
       (r_hgetall (cr_redis C) PROVIDER_HASH_KEY s)"

section \<open>The menu as a set\<close>

lemma startswith_same: "startswith (p @ s) p"
  by (simp add: startswith_def)

lemma compute_keys [simp]:
  "provider_alive_key a \<noteq> PROVIDER_HASH_KEY" "provider_last_seen_key a \<noteq> PROVIDER_HASH_KEY"
  "provider_alive_key a \<noteq> provider_last_seen_key b" "provider_last_seen_key b \<noteq> provider_alive_key a"
  "menu_leaf_key x \<noteq> PROVIDER_HASH_KEY" "menu_leaf_key x \<noteq> provider_alive_key a" "menu_leaf_key x \<noteq> provider_last_seen_key a"
  "provider_alive_key a \<noteq> menu_leaf_key x" "provider_last_seen_key a \<noteq> menu_leaf_key x"
  "MENU_LEAF_INDEX \<noteq> PROVIDER_HASH_KEY" "MENU_LEAF_INDEX \<noteq> provider_alive_key a" "MENU_LEAF_INDEX \<noteq> provider_last_seen_key a"
  "provider_alive_key a \<noteq> MENU_LEAF_INDEX" "provider_last_seen_key a \<noteq> MENU_LEAF_INDEX"
  "PROVIDER_HASH_KEY \<noteq> menu_leaf_key x" "PROVIDER_HASH_KEY \<noteq> provider_alive_key a" "PROVIDER_HASH_KEY \<noteq> provider_last_seen_key a"
  "menu_leaf_key x = menu_leaf_key y \<longleftrightarrow> x = y" "provider_alive_key a = provider_alive_key b \<longleftrightarrow> a = b"
  "provider_last_seen_key a = provider_last_seen_key b \<longleftrightarrow> a = b"
  "menu_leaf_key x = MENU_LEAF_INDEX \<longleftrightarrow> x = ''index''" "MENU_LEAF_INDEX = menu_leaf_key x \<longleftrightarrow> x = ''index''"
  by (simp_all add: provider_alive_key_def provider_last_seen_key_def menu_leaf_key_def PROVIDER_HASH_KEY_def
      MENU_LEAF_INDEX_def eq_commute)

lemma leaf_address_not_index [simp]: "leaf_address l \<noteq> ''index''"
proof
  assume "leaf_address l = ''index''"
  then have "CHR ''.'' \<in> set ''index''" by (metis leaf_address_def in_set_conv_decomp append_Cons append_Nil)
  then show False by simp
qed

text \<open>The menu a store represents: the indexed addresses whose leaf decodes.\<close>

definition menu :: "view \<Rightarrow> MenuLeaf set" where
  "menu v = {l. \<exists>addr raw. addr \<in> sets v MENU_LEAF_INDEX \<and> strs v (menu_leaf_key addr) = Some raw \<and> leaf_from_raw raw = Inr l}"

text \<open>Every stored leaf is the JSON of a well-formed leaf under its own address.\<close>

definition menu_ok :: "view \<Rightarrow> bool" where
  "menu_ok v \<longleftrightarrow> (\<forall>addr \<in> sets v MENU_LEAF_INDEX. \<forall>raw. strs v (menu_leaf_key addr) = Some raw \<longrightarrow>
     (\<exists>l. raw = leaf_to_json l \<and> valid_leaf l \<and> addr = leaf_address l))"

lemma menu_okD:
  assumes "menu_ok v"
  shows "menu v = {l. valid_leaf l \<and> leaf_address l \<in> sets v MENU_LEAF_INDEX
     \<and> strs v (menu_leaf_key (leaf_address l)) = Some (leaf_to_json l)}"
proof (rule set_eqI, rule iffI)
  fix l assume "l \<in> menu v"
  then obtain addr raw where r: "addr \<in> sets v MENU_LEAF_INDEX" "strs v (menu_leaf_key addr) = Some raw" "leaf_from_raw raw = Inr l"
    by (auto simp: menu_def)
  with assms obtain l' where l': "raw = leaf_to_json l'" "valid_leaf l'" "addr = leaf_address l'" by (auto simp: menu_ok_def)
  with r(3) have "l' = l" by (simp add: leaf_roundtrip)
  with r l' show "l \<in> {l. valid_leaf l \<and> leaf_address l \<in> sets v MENU_LEAF_INDEX
     \<and> strs v (menu_leaf_key (leaf_address l)) = Some (leaf_to_json l)}" by simp
next
  fix l assume "l \<in> {l. valid_leaf l \<and> leaf_address l \<in> sets v MENU_LEAF_INDEX
     \<and> strs v (menu_leaf_key (leaf_address l)) = Some (leaf_to_json l)}"
  then show "l \<in> menu v" by (auto simp: menu_def leaf_roundtrip)
qed

lemma menu_cong:
  "sets v MENU_LEAF_INDEX = sets w MENU_LEAF_INDEX \<Longrightarrow> (\<And>a. strs v (menu_leaf_key a) = strs w (menu_leaf_key a)) \<Longrightarrow>
   menu v = menu w \<and> (menu_ok v \<longleftrightarrow> menu_ok w)"
  by (simp add: menu_def menu_ok_def)

locale computes_on = redis "cr_redis C" abs for C :: "'s computes" and abs :: "'s \<Rightarrow> view"
begin

lemma provider_alive_iff: "is_provider_alive C pid s \<longleftrightarrow> key_exists (abs s) (provider_alive_key pid)"
  by (simp add: is_provider_alive_def)

text \<open>Listing succeeds on a well-formed menu, returns it, and only cleans the index.\<close>

lemma list_leaves_loop_run:
  assumes "\<forall>addr \<in> set addrs. \<forall>raw. strs (abs s) (menu_leaf_key addr) = Some raw \<longrightarrow> (\<exists>l. leaf_from_raw raw = Inr l)"
    "distinct addrs"
  shows "\<exists>ls t. list_leaves_loop C only addrs out s = (Inr (rev out @ ls), t)
     \<and> set ls = {l. \<exists>addr raw. addr \<in> set addrs \<and> strs (abs s) (menu_leaf_key addr) = Some raw \<and> leaf_from_raw raw = Inr l
          \<and> (only \<longrightarrow> is_provider_alive C (ml_provider_id l) s)}
     \<and> abs t = (abs s)\<lparr>sets := (sets (abs s))(MENU_LEAF_INDEX := sets (abs s) MENU_LEAF_INDEX
          - {addr \<in> set addrs. strs (abs s) (menu_leaf_key addr) = None})\<rparr>"
  using assms
proof (induction addrs arbitrary: out s)
  case Nil
  then show ?case by (auto intro!: exI [of _ "[]"])
next
  case (Cons a as)
  let ?F = "\<lambda>as s. {l. \<exists>addr raw. addr \<in> set as \<and> strs (abs s) (menu_leaf_key addr) = Some raw \<and> leaf_from_raw raw = Inr l
          \<and> (only \<longrightarrow> is_provider_alive C (ml_provider_id l) s)}"
  have tail: "\<forall>addr \<in> set as. \<forall>raw. strs (abs s) (menu_leaf_key addr) = Some raw \<longrightarrow> (\<exists>l. leaf_from_raw raw = Inr l)"
    "distinct as" using Cons.prems by auto
  show ?case
  proof (cases "strs (abs s) (menu_leaf_key a)")
    case None
    let ?s = "r_srem (cr_redis C) MENU_LEAF_INDEX a s"
    have "is_provider_alive C p ?s \<longleftrightarrow> is_provider_alive C p s" for p
      by (simp add: provider_alive_iff key_exists_def)
    then have f: "?F as ?s = ?F (a # as) s" using None by auto
    have "\<forall>addr \<in> set as. \<forall>raw. strs (abs ?s) (menu_leaf_key addr) = Some raw \<longrightarrow> (\<exists>l. leaf_from_raw raw = Inr l)"
      using tail(1) by simp
    from Cons.IH [OF this tail(2), of out] obtain ls t where
      "list_leaves_loop C only as out ?s = (Inr (rev out @ ls), t)" "set ls = ?F as ?s"
      "abs t = (abs ?s)\<lparr>sets := (sets (abs ?s))(MENU_LEAF_INDEX := sets (abs ?s) MENU_LEAF_INDEX
          - {addr \<in> set as. strs (abs ?s) (menu_leaf_key addr) = None})\<rparr>" by blast
    moreover have "sets (abs s) MENU_LEAF_INDEX - {a} - {addr \<in> set as. strs (abs s) (menu_leaf_key addr) = None}
        = sets (abs s) MENU_LEAF_INDEX - {addr \<in> set (a # as). strs (abs s) (menu_leaf_key addr) = None}"
      using None by auto
    ultimately show ?thesis using None f by (simp add: get_leaf_def) (simp add: fun_upd_def)
  next
    case (Some raw)
    with Cons.prems(1) obtain l where l: "leaf_from_raw raw = Inr l" by auto
    have idx: "{addr \<in> set (a # as). strs (abs s) (menu_leaf_key addr) = None}
        = {addr \<in> set as. strs (abs s) (menu_leaf_key addr) = None}" using Some by auto
    show ?thesis
    proof (cases "only \<and> \<not> is_provider_alive C (ml_provider_id l) s")
      case True
      then have "?F (a # as) s = ?F as s" using Some l by auto
      with Cons.IH [OF tail, of out] True Some l idx show ?thesis by (simp add: get_leaf_def)
    next
      case False
      then have f: "?F (a # as) s = insert l (?F as s)" using Some l by auto
      from Cons.IH [OF tail, of "l # out"] obtain ls t where
        "list_leaves_loop C only as (l # out) s = (Inr (rev (l # out) @ ls), t)" "set ls = ?F as s"
        "abs t = (abs s)\<lparr>sets := (sets (abs s))(MENU_LEAF_INDEX := sets (abs s) MENU_LEAF_INDEX
          - {addr \<in> set as. strs (abs s) (menu_leaf_key addr) = None})\<rparr>" by blast
      moreover have "list_leaves_loop C only (a # as) out s = list_leaves_loop C only as (l # out) s"
        using False Some l by (auto simp: get_leaf_def)
      ultimately show ?thesis unfolding f idx by (intro exI [of _ "l # ls"] exI [of _ t]) (simp add: fun_upd_def del: list_leaves_loop.simps)
    qed
  qed
qed

lemma list_leaves_run:
  assumes "menu_ok (abs s)"
  obtains ls t where "list_leaves C only s = (Inr ls, t)"
    "set ls = {l \<in> menu (abs s). only \<longrightarrow> is_provider_alive C (ml_provider_id l) s}"
    "menu (abs t) = menu (abs s)" "menu_ok (abs t)" "strs (abs t) = strs (abs s)" "hashes (abs t) = hashes (abs s)"
    "\<And>k. k \<noteq> MENU_LEAF_INDEX \<Longrightarrow> key_exists (abs t) k \<longleftrightarrow> key_exists (abs s) k"
proof -
  have dec: "\<forall>addr \<in> set (r_smembers (cr_redis C) MENU_LEAF_INDEX s). \<forall>raw.
      strs (abs s) (menu_leaf_key addr) = Some raw \<longrightarrow> (\<exists>l. leaf_from_raw raw = Inr l)"
    using assms leaf_roundtrip by (fastforce simp: menu_ok_def)
  from list_leaves_loop_run [OF dec, of only "[]"] obtain ls t where
    t: "list_leaves_loop C only (r_smembers (cr_redis C) MENU_LEAF_INDEX s) [] s = (Inr ls, t)"
    "set ls = {l. \<exists>addr raw. addr \<in> sets (abs s) MENU_LEAF_INDEX \<and> strs (abs s) (menu_leaf_key addr) = Some raw
        \<and> leaf_from_raw raw = Inr l \<and> (only \<longrightarrow> is_provider_alive C (ml_provider_id l) s)}"
    "abs t = (abs s)\<lparr>sets := (sets (abs s))(MENU_LEAF_INDEX := sets (abs s) MENU_LEAF_INDEX
          - {addr \<in> sets (abs s) MENU_LEAF_INDEX. strs (abs s) (menu_leaf_key addr) = None})\<rparr>" by auto
  show thesis
  proof (rule that [of ls t])
    show "list_leaves C only s = (Inr ls, t)" using t(1) by (simp add: list_leaves_def)
    show "set ls = {l \<in> menu (abs s). only \<longrightarrow> is_provider_alive C (ml_provider_id l) s}"
      using t(2) by (auto simp: menu_def)
    show "menu (abs t) = menu (abs s)" by (auto simp: t(3) menu_def)
    show "menu_ok (abs t)" using assms by (auto simp: t(3) menu_ok_def)
  qed (simp_all add: t(3) key_exists_def)
qed

text \<open>A registered leaf joins the menu, replacing what was stored under its address.\<close>

lemma register_leaf_menu:
  assumes "menu_ok (abs s)" "valid_leaf l"
  shows "menu_ok (abs (register_leaf C stamp l s))"
    and "menu (abs (register_leaf C stamp l s)) = insert l {m \<in> menu (abs s). leaf_address m \<noteq> leaf_address l}"
proof -
  let ?t = "register_leaf C stamp l s"
  have st: "strs (abs ?t) (menu_leaf_key a) = (if a = leaf_address l then Some (leaf_to_json l) else strs (abs s) (menu_leaf_key a))" for a
    by (simp add: register_leaf_def Let_def register_provider_def provider_mark_alive_def)
  have ix: "sets (abs ?t) MENU_LEAF_INDEX = insert (leaf_address l) (sets (abs s) MENU_LEAF_INDEX)"
    by (simp add: register_leaf_def Let_def register_provider_def provider_mark_alive_def)
  show ok: "menu_ok (abs ?t)" using assms by (auto simp: menu_ok_def st ix)
  show "menu (abs ?t) = insert l {m \<in> menu (abs s). leaf_address m \<noteq> leaf_address l}"
    using assms(2) leaf_roundtrip [OF assms(2)]
    by (auto simp: menu_okD [OF ok] menu_okD [OF assms(1)] st ix dest: arg_cong [where f = leaf_from_raw] leaf_roundtrip)
qed

lemma register_leaf_alive:
  assumes "hashes (abs s) PROVIDER_HASH_KEY (ml_provider_id l) = None"
  shows "is_provider_alive C (ml_provider_id l) (register_leaf C stamp l s)"
    and "key_exists (abs (register_leaf C stamp l s)) (provider_last_seen_key (ml_provider_id l))"
  using assms by (simp_all add: provider_alive_iff register_leaf_def Let_def register_provider_def provider_mark_alive_def key_exists_def)

text \<open>Deregistering a provider removes its leaves, and no other.\<close>

lemma deregister_leaves:
  "sets (abs (fold (\<lambda>l. deregister_leaf C (leaf_address l)) ls s)) MENU_LEAF_INDEX
     = sets (abs s) MENU_LEAF_INDEX - leaf_address ` set ls
   \<and> strs (abs (fold (\<lambda>l. deregister_leaf C (leaf_address l)) ls s)) (menu_leaf_key a)
     = (if a \<in> leaf_address ` set ls then None else strs (abs s) (menu_leaf_key a))
   \<and> strs (abs (fold (\<lambda>l. deregister_leaf C (leaf_address l)) ls s)) (provider_last_seen_key p)
     = strs (abs s) (provider_last_seen_key p)
   \<and> (key_exists (abs (fold (\<lambda>l. deregister_leaf C (leaf_address l)) ls s)) (provider_last_seen_key p)
     \<longleftrightarrow> key_exists (abs s) (provider_last_seen_key p))"
proof (induction ls arbitrary: s)
  case (Cons l ls)
  show ?case using Cons.IH [of "deregister_leaf C (leaf_address l) s"]
    by (auto simp: deregister_leaf_def key_exists_def)
qed simp

lemma deregister_provider_menu:
  assumes "menu_ok (abs s)"
  obtains t where "deregister_provider C pid graceful s = (Inr (), t)"
    "menu (abs t) = {m \<in> menu (abs s). ml_provider_id m \<noteq> pid}" "menu_ok (abs t)"
    "\<not> is_provider_alive C pid t"
    "key_exists (abs t) (provider_last_seen_key pid) \<longleftrightarrow> \<not> graceful \<and> key_exists (abs s) (provider_last_seen_key pid)"
proof -
  obtain ls u where u: "list_leaves C False s = (Inr ls, u)"
    "set ls = menu (abs s)" "menu (abs u) = menu (abs s)" "menu_ok (abs u)"
    "key_exists (abs u) (provider_last_seen_key pid) \<longleftrightarrow> key_exists (abs s) (provider_last_seen_key pid)"
    by (rule list_leaves_run [OF assms, of False]) simp
  define mine where "mine = filter (\<lambda>l. ml_provider_id l = pid) ls"
  define w where "w = fold (\<lambda>l. deregister_leaf C (leaf_address l)) mine u"
  define t where "t = (if graceful then r_delete (cr_redis C) (provider_last_seen_key pid) else id)
     (r_delete (cr_redis C) (provider_alive_key pid) (r_hdel (cr_redis C) PROVIDER_HASH_KEY pid w))"
  have run: "deregister_provider C pid graceful s = (Inr (), t)"
    by (simp add: deregister_provider_def menu_for_provider_def sbind_def u(1) mine_def [symmetric] w_def [symmetric] t_def)
  have ix: "sets (abs t) MENU_LEAF_INDEX = sets (abs u) MENU_LEAF_INDEX - leaf_address ` set mine"
    using deregister_leaves [of mine u] by (simp add: t_def w_def)
  have st: "strs (abs t) (menu_leaf_key a) = (if a \<in> leaf_address ` set mine then None else strs (abs u) (menu_leaf_key a))" for a
    using deregister_leaves [of mine u a] by (simp add: t_def w_def)
  have ok: "menu_ok (abs t)" using u(4) by (auto simp: menu_ok_def ix st split: if_splits)
  have one: "m = m'" if "m \<in> menu (abs u)" "m' \<in> menu (abs u)" "leaf_address m = leaf_address m'" for m m'
  proof -
    have "leaf_to_json m = leaf_to_json m'" "valid_leaf m" "valid_leaf m'"
      using that by (auto simp: menu_okD [OF u(4)])
    then show ?thesis by (metis leaf_roundtrip Inr_inject)
  qed
  have mine: "set mine = {m \<in> menu (abs u). ml_provider_id m = pid}" using u(2,3) by (auto simp: mine_def)
  have addr: "leaf_address m \<in> leaf_address ` set mine \<longleftrightarrow> ml_provider_id m = pid" if "m \<in> menu (abs u)" for m
    using one [OF that] that by (auto simp: mine)
  have mem: "m \<in> menu (abs t) \<longleftrightarrow> m \<in> menu (abs u) \<and> leaf_address m \<notin> leaf_address ` set mine" for m
    by (simp add: menu_okD [OF ok] menu_okD [OF u(4)] ix st)
  have menu: "menu (abs t) = {m \<in> menu (abs s). ml_provider_id m \<noteq> pid}"
    unfolding set_eq_iff mem_Collect_eq mem u(3) [symmetric] using addr by metis
  have dead: "\<not> is_provider_alive C pid t" by (cases graceful) (simp_all add: provider_alive_iff t_def key_exists_def)
  have seen: "key_exists (abs t) (provider_last_seen_key pid) \<longleftrightarrow> \<not> graceful \<and> key_exists (abs s) (provider_last_seen_key pid)"
  proof -
    have "key_exists (abs w) (provider_last_seen_key pid) \<longleftrightarrow> key_exists (abs s) (provider_last_seen_key pid)"
      using deregister_leaves [of mine u undefined pid] u(5) by (simp add: w_def)
    then show ?thesis by (cases graceful) (simp_all add: t_def key_exists_def)
  qed
  show thesis using that [OF run menu ok dead seen] .
qed

text \<open>It also leaves the provider hash, and no other entry of it changes.\<close>

lemma deregister_leaves_hash:
  "hashes (abs (fold (\<lambda>l. deregister_leaf C (leaf_address l)) ls s)) PROVIDER_HASH_KEY = hashes (abs s) PROVIDER_HASH_KEY"
  by (induction ls arbitrary: s) (simp_all add: deregister_leaf_def)

lemma deregister_provider_hash:
  assumes "menu_ok (abs s)" "deregister_provider C pid graceful s = (r, t)"
  shows "hashes (abs t) PROVIDER_HASH_KEY = (hashes (abs s) PROVIDER_HASH_KEY)(pid := None)"
proof -
  obtain ls u where u: "list_leaves C False s = (Inr ls, u)" "hashes (abs u) = hashes (abs s)"
    by (rule list_leaves_run [OF assms(1), of False]) simp
  have "t = (if graceful then r_delete (cr_redis C) (provider_last_seen_key pid) else id)
     (r_delete (cr_redis C) (provider_alive_key pid) (r_hdel (cr_redis C) PROVIDER_HASH_KEY pid
       (fold (\<lambda>l. deregister_leaf C (leaf_address l)) (filter (\<lambda>l. ml_provider_id l = pid) ls) u)))"
    using assms(2) by (simp add: deregister_provider_def menu_for_provider_def sbind_def u(1))
  then show ?thesis by (cases graceful) (simp_all add: deregister_leaves_hash u(2))
qed

lemma in_list_providers:
  "p \<in> set (list_providers C s) \<longleftrightarrow> (\<exists>k raw. hashes (abs s) PROVIDER_HASH_KEY k = Some raw \<and> provider_from_raw raw = Inr p)"
proof -
  have f: "y \<in> set (List.map_filter f xs) \<longleftrightarrow> (\<exists>x \<in> set xs. f x = Some y)" for y f and xs :: "(string \<times> pyval) list"
    by (induction xs) (auto simp: List.map_filter_simps split: option.splits)
  have e: "(case provider_from_raw raw of Inl _ \<Rightarrow> None | Inr p \<Rightarrow> Some p) = Some p \<longleftrightarrow> provider_from_raw raw = Inr p" for raw
    by (cases "provider_from_raw raw") auto
  show ?thesis unfolding list_providers_def f Bex_def split_paired_Ex prod.case e by (simp only: in_hgetall)
qed

text \<open>An outage is reported for a provider seen and no longer alive, and once.\<close>

lemma detect_outage_once:
  "fst (detect_outage C pid s) \<longleftrightarrow> key_exists (abs s) (provider_last_seen_key pid) \<and> \<not> is_provider_alive C pid s"
  "fst (detect_outage C pid s) \<Longrightarrow> \<not> fst (detect_outage C pid (snd (detect_outage C pid s)))"
  by (simp_all add: detect_outage_def provider_alive_iff key_exists_def)

lemma register_arms:
  "is_provider_alive C pid (provider_mark_alive C stamp pid s)"
  "key_exists (abs (provider_mark_alive C stamp pid s)) (provider_last_seen_key pid)"
  by (simp_all add: provider_alive_iff provider_mark_alive_def key_exists_def)

end

interpretation mem_computes: computes_on "\<lparr>cr_redis = mem_redis, cr_ttl = ttl\<rparr>" mem_view for ttl
  by (simp add: computes_on_def mem.redis_axioms)

section \<open>Properties\<close>

text \<open>A compute provider's departure takes exactly its own leaves off the menu: on a well-formed menu
  \<open>deregister_provider\<close> succeeds, removes the leaves of that provider and keeps every other, leaves the
  provider not alive, and arms one outage report exactly when it was abrupt and the provider had been seen.\<close>

lemma provider_departure:
  assumes "computes_on C view" and "menu_ok (view s)"
  shows "\<exists>t. deregister_provider C pid graceful s = (Inr (), t)
     \<and> menu (view t) = {m \<in> menu (view s). ml_provider_id m \<noteq> pid} \<and> menu_ok (view t)
     \<and> \<not> is_provider_alive C pid t
     \<and> (fst (detect_outage C pid t) \<longleftrightarrow> \<not> graceful \<and> key_exists (view s) (provider_last_seen_key pid))"
proof -
  obtain t where t: "deregister_provider C pid graceful s = (Inr (), t)"
    "menu (view t) = {m \<in> menu (view s). ml_provider_id m \<noteq> pid}" "menu_ok (view t)"
    "\<not> is_provider_alive C pid t"
    "key_exists (view t) (provider_last_seen_key pid) \<longleftrightarrow> \<not> graceful \<and> key_exists (view s) (provider_last_seen_key pid)"
    by (rule computes_on.deregister_provider_menu [OF assms])
  have "fst (detect_outage C pid t) \<longleftrightarrow> \<not> graceful \<and> key_exists (view s) (provider_last_seen_key pid)"
    using t(4,5) by (simp add: computes_on.detect_outage_once(1) [OF assms(1)])
  with t(1-4) show ?thesis by blast
qed

lemma provider_departure_witness:
  "\<exists>s t. menu (mem_view s) = {sample_leaf ''a''}
     \<and> deregister_provider \<lparr>cr_redis = mem_redis, cr_ttl = 30\<rparr> ''p'' False s = (Inr (), t)
     \<and> menu (mem_view t) = {} \<and> fst (detect_outage \<lparr>cr_redis = mem_redis, cr_ttl = 30\<rparr> ''p'' t)"
proof -
  let ?C = "\<lparr>cr_redis = mem_redis, cr_ttl = 30\<rparr>"
  have ok: "menu_ok (mem_view empty_mem)" by (simp add: menu_ok_def empty_mem_def table_def)
  have none: "menu (mem_view empty_mem) = {}" by (simp add: menu_def empty_mem_def table_def)
  have v: "valid_leaf (sample_leaf ''a'')"
    by (simp add: valid_leaf_def menu_leaf_post_init_def sample_leaf_def parse_tier_known TIER_ORDER_def slug_match_def
        drop_final_newline_def is_lower_alnum_def less_eq_char_def)
  define s where "s = register_leaf ?C [] (sample_leaf ''a'') empty_mem"
  have s: "menu_ok (mem_view s)" "menu (mem_view s) = {sample_leaf ''a''}"
    using mem_computes.register_leaf_menu [OF ok v] by (simp_all add: s_def none)
  have "hashes (mem_view empty_mem) PROVIDER_HASH_KEY ''p'' = None" by (simp add: empty_mem_def table_def)
  then have k: "key_exists (mem_view s) (provider_last_seen_key ''p'')"
    using mem_computes.register_leaf_alive(2) [of empty_mem "sample_leaf ''a''" 30 "[]"] by (simp add: s_def sample_leaf_def)
  obtain t where "deregister_provider ?C ''p'' False s = (Inr (), t)"
    "menu (mem_view t) = {m \<in> {sample_leaf ''a''}. ml_provider_id m \<noteq> ''p''}" "fst (detect_outage ?C ''p'' t)"
    using provider_departure [OF mem_computes.computes_on_axioms s(1), of 30 "''p''" False] k unfolding s(2) by blast
  moreover have "{m \<in> {sample_leaf ''a''}. ml_provider_id m \<noteq> ''p''} = {}" by (simp add: sample_leaf_def)
  ultimately show ?thesis using s(2) by metis
qed

end
