(* ===== verification/Router.thy ===== *)
theory Router
  imports ServerRegistry ComputeRegistry Reputation
begin

text \<open>
  \<open>ahp/broker/router.py\<close>: one routing decision, from live discovery through the hard filter,
  the visibility coin flips, the soft preferences and the ranking, to a compute leaf and the
  hold. The texts of the reasons are constructors; \<open>rng seed n\<close> is the \<open>n\<close>-th draw of
  \<open>random.Random(seed)\<close>, and \<open>log10\<close> the library function.
\<close>

section \<open>Data\<close>

record RoutingPreferences =
  rp_min_reputation :: pyfloat
  rp_min_csat :: pyfloat
  rp_required_specialties :: "string list"
  rp_required_integrations :: "string list"
  rp_max_cost_per_call :: "pyfloat option"
  rp_blocked_servers :: "string list"
  rp_preferred_specialties :: "string list"
  rp_preferred_integrations :: "string list"
  rp_preferred_servers :: "string list"
  rp_server_rank_by :: string
  rp_compute_rank_by :: string
  rp_rng_seed :: "int option"

definition default_prefs :: RoutingPreferences where
  "default_prefs = \<lparr>rp_min_reputation = MIN_REPUTATION_FLOOR, rp_min_csat = fzero, rp_required_specialties = [],
     rp_required_integrations = [], rp_max_cost_per_call = None, rp_blocked_servers = [],
     rp_preferred_specialties = [], rp_preferred_integrations = [], rp_preferred_servers = [],
     rp_server_rank_by = ''cheapest'', rp_compute_rank_by = ''cheapest'', rp_rng_seed = None\<rparr>"

datatype reason =
    BlockedByCaller | ReputationBelow pyfloat pyfloat | CsatBelow pyfloat pyfloat
  | MissingSpecialty string | MissingIntegration string | NotInRoll pyfloat

datatype annotation =
    UnmetSpecialty string | UnmetIntegration string | NoPreferredServer
  | RequiredSpecialties "string list" | RequiredIntegrations "string list"
  | MinReputation pyfloat | MinCsat pyfloat
  | NoLiveLeaf string string | HoldAbove pyfloat pyfloat

record FilterReason =
  fr_server_id :: string
  fr_stage :: string
  fr_reason :: reason

record RoutingDecision =
  rd_server :: "ServerMeta option"
  rd_leaf :: "MenuLeaf option"
  rd_estimated_hold :: pyfloat
  rd_rejections :: "FilterReason list"
  rd_soft_preferences_unmet :: "annotation list"
  rd_unmet_requirements :: "annotation list"

definition succeeded :: "RoutingDecision \<Rightarrow> bool" where
  "succeeded d \<longleftrightarrow> rd_server d \<noteq> None \<and> rd_leaf d \<noteq> None"

definition no_route :: "FilterReason list \<Rightarrow> annotation list \<Rightarrow> annotation list \<Rightarrow> RoutingDecision" where
  "no_route rejections soft unmet = \<lparr>rd_server = None, rd_leaf = None, rd_estimated_hold = fzero,
     rd_rejections = rejections, rd_soft_preferences_unmet = soft, rd_unmet_requirements = unmet\<rparr>"

type_synonym candidate = "ServerMeta \<times> ReputationEntry"

section \<open>The stages\<close>

definition hard_filter_one :: "RoutingPreferences \<Rightarrow> ServerMeta \<Rightarrow> ReputationEntry \<Rightarrow> FilterReason option" where
  "hard_filter_one prefs srv rep =
     (let reject = (\<lambda>r. Some \<lparr>fr_server_id = sm_server_id srv, fr_stage = ''hard'', fr_reason = r\<rparr>) in
      if sm_server_id srv \<in> set (rp_blocked_servers prefs) then reject BlockedByCaller
      else if flt (re_reputation rep) (rp_min_reputation prefs)
        then reject (ReputationBelow (re_reputation rep) (rp_min_reputation prefs))
      else if flt (re_csat rep) (rp_min_csat prefs) then reject (CsatBelow (re_csat rep) (rp_min_csat prefs))
      else case find (\<lambda>sp. sp \<notin> set (sm_specialties srv)) (rp_required_specialties prefs) of
          Some sp \<Rightarrow> reject (MissingSpecialty sp)
        | None \<Rightarrow> (case find (\<lambda>ig. ig \<notin> set (sm_integrations srv)) (rp_required_integrations prefs) of
            Some ig \<Rightarrow> reject (MissingIntegration ig)
          | None \<Rightarrow> None))"

fun hard_filter :: "(string \<Rightarrow> ReputationEntry option res) \<Rightarrow> RoutingPreferences \<Rightarrow> ServerMeta list \<Rightarrow>
    (FilterReason list \<times> candidate list) res" where
  "hard_filter rep_of prefs [] = Inr ([], [])"
| "hard_filter rep_of prefs (srv # srvs) =
     rbind (rep_of (sm_server_id srv)) (\<lambda>found.
       let rep = (case found of None \<Rightarrow> new_entry (sm_server_id srv) | Some e \<Rightarrow> e) in
       rbind (hard_filter rep_of prefs srvs) (\<lambda>(rejected, kept).
         Inr (case hard_filter_one prefs srv rep of
                Some r \<Rightarrow> (r # rejected, kept)
              | None \<Rightarrow> (rejected, (srv, rep) # kept))))"

fun visibility_gate :: "(int \<Rightarrow> pyfloat) \<Rightarrow> (nat \<Rightarrow> pyfloat) \<Rightarrow> nat \<Rightarrow> candidate list \<Rightarrow>
    (FilterReason list \<times> candidate list) res" where
  "visibility_gate log10 draw n [] = Inr ([], [])"
| "visibility_gate log10 draw n ((srv, rep) # cs) =
     rbind (visibility_factor log10 rep) (\<lambda>v.
     rbind (visibility_gate log10 draw (Suc n) cs) (\<lambda>(rejected, gated).
       Inr (if flt (draw n) v then (rejected, (srv, rep) # gated)
            else (\<lparr>fr_server_id = sm_server_id srv, fr_stage = ''visibility'', fr_reason = NotInRoll v\<rparr> # rejected, gated))))"

text \<open>One soft filter: dropped, and noted, when it would empty the set.\<close>

definition soft_step :: "(candidate \<Rightarrow> bool) \<Rightarrow> annotation \<Rightarrow> candidate list \<times> annotation list \<Rightarrow> candidate list \<times> annotation list" where
  "soft_step P unmet st = (let after = filter P (fst st) in
     if after \<noteq> [] then (after, snd st) else (fst st, snd st @ [unmet]))"

definition apply_soft_filter :: "RoutingPreferences \<Rightarrow> candidate list \<Rightarrow> candidate list \<times> annotation list" where
  "apply_soft_filter prefs kept =
     (let st = fold (\<lambda>sp. soft_step (\<lambda>(s, r). sp \<in> set (sm_specialties s)) (UnmetSpecialty sp)) (rp_preferred_specialties prefs) (kept, []);
          st = fold (\<lambda>ig. soft_step (\<lambda>(s, r). ig \<in> set (sm_integrations s)) (UnmetIntegration ig)) (rp_preferred_integrations prefs) st
      in if rp_preferred_servers prefs \<noteq> []
         then soft_step (\<lambda>(s, r). sm_server_id s \<in> set (rp_preferred_servers prefs)) NoPreferredServer st else st)"

definition rank_key_of :: "string \<Rightarrow> candidate \<Rightarrow> (pyfloat \<times> string) res" where
  "rank_key_of rank_by c =
     (let srv = fst c; rep = snd c in
      if rank_by = ''cheapest'' then Inr (sm_base_rate srv, sm_server_id srv)
      else if rank_by = ''best_reputation'' then Inr (fneg (re_reputation rep), sm_server_id srv)
      else if rank_by = ''highest_csat'' then Inr (fneg (re_csat rep), sm_server_id srv)
      else if rank_by = ''lowest_latency''
        then rbind (avg_latency_ms rep) (\<lambda>l. Inr (if feq l fzero then PInf else l, sm_server_id srv))
      else Inr (fzero, sm_server_id srv))"

definition rank_candidates :: "RoutingPreferences \<Rightarrow> candidate list \<Rightarrow> candidate list res" where
  "rank_candidates prefs cs =
     rbind (mapM (\<lambda>c. rbind (rank_key_of (rp_server_rank_by prefs) c) (\<lambda>k. Inr (k, c))) cs) (\<lambda>keyed.
       Inr (map snd (sort_key fst keyed)))"

definition summarize_required :: "RoutingPreferences \<Rightarrow> annotation list" where
  "summarize_required prefs =
     (if rp_required_specialties prefs \<noteq> [] then [RequiredSpecialties (rp_required_specialties prefs)] else [])
     @ (if rp_required_integrations prefs \<noteq> [] then [RequiredIntegrations (rp_required_integrations prefs)] else [])
     @ (if flt fzero (rp_min_reputation prefs) then [MinReputation (rp_min_reputation prefs)] else [])
     @ (if flt fzero (rp_min_csat prefs) then [MinCsat (rp_min_csat prefs)] else [])"

section \<open>Resolving\<close>

record 's Router =
  ro_servers :: "'s servers"
  ro_compute :: "'s computes"
  ro_rep :: "string \<Rightarrow> 's \<Rightarrow> ReputationEntry option res"

text \<open>Stages 6 and 7, for the chosen server: a leaf, the hold, the ceiling.\<close>

definition place :: "RoutingPreferences \<Rightarrow> string \<Rightarrow> int \<Rightarrow> int \<Rightarrow> FilterReason list \<Rightarrow> annotation list \<Rightarrow>
    ServerMeta \<Rightarrow> MenuLeaf list \<Rightarrow> RoutingDecision res" where
  "place prefs tier prompt_chars max_response_chars rejections soft srv leaves =
     rbind (best_leaf (sm_compute_binding srv) leaves (rp_compute_rank_by prefs)
         (fold (\<lambda>l d. AList.update (ml_provider_id l) (flit (1/2)) d) leaves [])) (\<lambda>chosen.
       case chosen of
         None \<Rightarrow> Inr (no_route rejections soft [NoLiveLeaf (sm_server_id srv) (sm_compute_binding srv)])
       | Some leaf \<Rightarrow>
           rbind (estimate_hold (sm_base_rate srv) tier prompt_chars max_response_chars) (\<lambda>hold.
             case rp_max_cost_per_call prefs of
               Some cap \<Rightarrow> if flt cap (h_amount hold)
                 then Inr (no_route rejections soft [HoldAbove (h_amount hold) cap])
                 else Inr \<lparr>rd_server = Some srv, rd_leaf = Some leaf, rd_estimated_hold = h_amount hold,
                    rd_rejections = rejections, rd_soft_preferences_unmet = soft, rd_unmet_requirements = []\<rparr>
             | None \<Rightarrow> Inr \<lparr>rd_server = Some srv, rd_leaf = Some leaf, rd_estimated_hold = h_amount hold,
                    rd_rejections = rejections, rd_soft_preferences_unmet = soft, rd_unmet_requirements = []\<rparr>))"

text \<open>Stages 3 to 5, on the servers that passed the hard filter.\<close>

definition choose_server :: "(int \<Rightarrow> pyfloat) \<Rightarrow> (int option \<Rightarrow> nat \<Rightarrow> pyfloat) \<Rightarrow> RoutingPreferences \<Rightarrow> candidate list \<Rightarrow>
    (FilterReason list \<times> annotation list \<times> candidate list) res" where
  "choose_server log10 rng prefs kept =
     rbind (visibility_gate log10 (rng (rp_rng_seed prefs)) 0 kept) (\<lambda>(throttled, gated).
     let (narrowed, soft) = apply_soft_filter prefs (if gated = [] then kept else gated) in
     rbind (rank_candidates prefs narrowed) (\<lambda>ranked. Inr (throttled, soft, ranked)))"

definition resolve_route :: "'s Router \<Rightarrow> (int \<Rightarrow> pyfloat) \<Rightarrow> (int option \<Rightarrow> nat \<Rightarrow> pyfloat) \<Rightarrow> pyfloat \<Rightarrow>
    string \<Rightarrow> string \<Rightarrow> int \<Rightarrow> int \<Rightarrow> RoutingPreferences \<Rightarrow> ('s, RoutingDecision) op" where
  "resolve_route Q log10 rng now code tier prompt_chars max_response_chars prefs =
     sbind (slift (parse_tier tier)) (\<lambda>_.
     sbind (sreadr (server_discover (ro_servers Q) now None None (Some code) (Some tier) True)) (\<lambda>candidates.
     sbind (sreadr (\<lambda>s. hard_filter (\<lambda>owner. ro_rep Q owner s) prefs candidates)) (\<lambda>(rejected, kept).
     if kept = [] then sret (no_route rejected [] (summarize_required prefs))
     else
       sbind (slift (choose_server log10 rng prefs kept)) (\<lambda>(throttled, soft, ranked).
       case ranked of
         [] \<Rightarrow> sraise LookupError
       | (srv, _) # _ \<Rightarrow>
           sbind (list_leaves (ro_compute Q) True) (\<lambda>leaves.
           slift (place prefs tier prompt_chars max_response_chars (rejected @ throttled) soft srv leaves))))))"

section \<open>What the stages keep\<close>

text \<open>The hard requirements, and the reputation a server is judged by.\<close>

definition meets_hard :: "RoutingPreferences \<Rightarrow> ServerMeta \<Rightarrow> ReputationEntry \<Rightarrow> bool" where
  "meets_hard prefs srv rep \<longleftrightarrow> sm_server_id srv \<notin> set (rp_blocked_servers prefs)
     \<and> \<not> flt (re_reputation rep) (rp_min_reputation prefs) \<and> \<not> flt (re_csat rep) (rp_min_csat prefs)
     \<and> set (rp_required_specialties prefs) \<subseteq> set (sm_specialties srv)
     \<and> set (rp_required_integrations prefs) \<subseteq> set (sm_integrations srv)"

definition rep_or_new :: "(string \<Rightarrow> ReputationEntry option res) \<Rightarrow> ServerMeta \<Rightarrow> ReputationEntry res" where
  "rep_or_new rep_of srv = rbind (rep_of (sm_server_id srv)) (\<lambda>found.
     Inr (case found of None \<Rightarrow> new_entry (sm_server_id srv) | Some e \<Rightarrow> e))"

lemma hard_filter_one_None: "hard_filter_one prefs srv rep = None \<longleftrightarrow> meets_hard prefs srv rep"
proof -
  have f: "find (\<lambda>x. x \<notin> A) xs = None \<longleftrightarrow> set xs \<subseteq> A" for A and xs :: "string list"
    by (auto simp: find_None_iff)
  show ?thesis
    by (auto simp: hard_filter_one_def meets_hard_def Let_def f [symmetric] simp del: not_None_eq split: option.splits)
qed

lemma hard_filter_sound:
  "hard_filter rep_of prefs srvs = Inr (rejected, kept) \<Longrightarrow>
   (srv, rep) \<in> set kept \<longleftrightarrow> srv \<in> set srvs \<and> rep_or_new rep_of srv = Inr rep \<and> meets_hard prefs srv rep"
proof (induction srvs arbitrary: rejected kept)
  case (Cons x xs)
  from Cons.prems obtain found rj kp where
    f: "rep_of (sm_server_id x) = Inr found" and h: "hard_filter rep_of prefs xs = Inr (rj, kp)"
    by (auto simp: rbind_eq_Inr Let_def)
  define r where "r = (case found of None \<Rightarrow> new_entry (sm_server_id x) | Some e \<Rightarrow> e)"
  have "rep_or_new rep_of x = Inr r" by (simp add: rep_or_new_def f r_def)
  moreover have "kept = (if meets_hard prefs x r then (x, r) # kp else kp)"
    using Cons.prems by (auto simp: f h Let_def r_def [symmetric] hard_filter_one_None [symmetric] split: option.splits)
  ultimately show ?case using Cons.IH [OF h] by auto
qed simp

lemma hard_filter_total:
  "(\<And>srv. srv \<in> set srvs \<Longrightarrow> \<exists>r. rep_of (sm_server_id srv) = Inr r) \<Longrightarrow>
   \<exists>rejected kept. hard_filter rep_of prefs srvs = Inr (rejected, kept)"
proof (induction srvs)
  case (Cons x xs)
  then obtain rj kp r where "hard_filter rep_of prefs xs = Inr (rj, kp)" "rep_of (sm_server_id x) = Inr r" by fastforce
  then show ?case by (cases "hard_filter_one prefs x (case r of None \<Rightarrow> new_entry (sm_server_id x) | Some e \<Rightarrow> e)")
      (auto simp: Let_def)
qed simp

lemma visibility_gate_subset:
  "visibility_gate log10 draw n cs = Inr (rejected, gated) \<Longrightarrow> set gated \<subseteq> set cs"
proof (induction cs arbitrary: n rejected gated)
  case (Cons c cs)
  obtain srv rep where c: "c = (srv, rep)" by (cases c)
  from Cons.prems obtain v rj g where "visibility_gate log10 draw (Suc n) cs = Inr (rj, g)"
    "gated = (if flt (draw n) v then c # g else g)" by (auto simp: c rbind_eq_Inr split: if_splits)
  with Cons.IH show ?case by auto
qed simp

lemma soft_step_keeps:
  "fst st \<noteq> [] \<Longrightarrow> fst (soft_step P u st) \<noteq> [] \<and> set (fst (soft_step P u st)) \<subseteq> set (fst st)"
  by (auto simp: soft_step_def Let_def)

lemma soft_fold_keeps:
  "fst st \<noteq> [] \<Longrightarrow> fst (fold (\<lambda>x. soft_step (P x) (u x)) xs st) \<noteq> []
     \<and> set (fst (fold (\<lambda>x. soft_step (P x) (u x)) xs st)) \<subseteq> set (fst st)"
proof (induction xs arbitrary: st)
  case (Cons x xs)
  from soft_step_keeps [OF Cons.prems, of "P x" "u x"] Cons.IH [of "soft_step (P x) (u x) st"]
  show ?case by auto
qed simp

lemma soft_filter_keeps:
  assumes "kept \<noteq> []" "apply_soft_filter prefs kept = (narrowed, unmet)"
  shows "narrowed \<noteq> []" "set narrowed \<subseteq> set kept"
proof -
  define a where "a = fold (\<lambda>sp. soft_step (\<lambda>(s, r). sp \<in> set (sm_specialties s)) (UnmetSpecialty sp)) (rp_preferred_specialties prefs) (kept, [])"
  define b where "b = fold (\<lambda>ig. soft_step (\<lambda>(s, r). ig \<in> set (sm_integrations s)) (UnmetIntegration ig)) (rp_preferred_integrations prefs) a"
  have a: "fst a \<noteq> []" "set (fst a) \<subseteq> set kept" unfolding a_def
    using soft_fold_keeps [of "(kept, [])" "\<lambda>sp (s, r). sp \<in> set (sm_specialties s)" UnmetSpecialty "rp_preferred_specialties prefs"]
      assms(1) by simp_all
  have b: "fst b \<noteq> []" "set (fst b) \<subseteq> set kept" unfolding b_def
    using soft_fold_keeps [OF a(1), of "\<lambda>ig (s, r). ig \<in> set (sm_integrations s)" UnmetIntegration "rp_preferred_integrations prefs"]
      a(2) by (simp, blast)
  have n: "(narrowed, unmet) = (if rp_preferred_servers prefs \<noteq> []
      then soft_step (\<lambda>(s, r). sm_server_id s \<in> set (rp_preferred_servers prefs)) NoPreferredServer b else b)"
    using assms(2) unfolding apply_soft_filter_def Let_def a_def [symmetric] b_def [symmetric] by simp
  show "narrowed \<noteq> []" "set narrowed \<subseteq> set kept"
    using soft_step_keeps [OF b(1)] b n by (auto split: if_splits) (metis fst_conv subsetD)+
qed

lemma rank_candidates_set:
  assumes "rank_candidates prefs cs = Inr ranked" shows "mset ranked = mset cs"
proof -
  from assms obtain keyed where k: "mapM (\<lambda>c. rbind (rank_key_of (rp_server_rank_by prefs) c) (\<lambda>k. Inr (k, c))) cs = Inr keyed"
    "ranked = map snd (sort_key fst keyed)" by (auto simp: rank_candidates_def rbind_eq_Inr)
  have "map snd keyed = cs" using k(1)
  proof (induction cs arbitrary: keyed)
    case (Cons c cs)
    then show ?case by (auto simp: rbind_eq_Inr)
  qed simp
  moreover have "mset ranked = mset (map snd keyed)" by (simp add: k(2))
  ultimately show ?thesis by simp
qed

lemma choose_server_sound:
  assumes "choose_server log10 rng prefs kept = Inr (throttled, soft, ranked)" "kept \<noteq> []"
  shows "ranked \<noteq> []" "set ranked \<subseteq> set kept"
proof -
  obtain th gated where g0: "visibility_gate log10 (rng (rp_rng_seed prefs)) 0 kept = Inr (th, gated)"
    using assms(1) by (auto simp: choose_server_def rbind_eq_Inr)
  obtain narrowed sf where n0: "apply_soft_filter prefs (if gated = [] then kept else gated) = (narrowed, sf)"
    by fastforce
  have r: "rank_candidates prefs narrowed = Inr ranked" and e: "th = throttled" "sf = soft"
    using assms(1) by (auto simp: choose_server_def g0 n0 rbind_eq_Inr)
  note g = g0 [unfolded e] and n = n0 [unfolded e]
  have "(if gated = [] then kept else gated) \<noteq> []" using assms(2) by simp
  note sf = soft_filter_keeps [OF this n]
  have m: "set ranked = set narrowed" "ranked = [] \<longleftrightarrow> narrowed = []"
    using rank_candidates_set [OF r] by (metis set_mset_mset, metis mset_zero_iff)
  show "ranked \<noteq> []" using sf(1) m(2) by simp
  show "set ranked \<subseteq> set kept" using sf(2) m(1) visibility_gate_subset [OF g] by (auto split: if_splits)
qed

lemma place_sound:
  assumes "place prefs tier pc mrc rejections soft srv leaves = Inr d" "succeeded d"
  obtains leaf hold where "rd_server d = Some srv" "rd_leaf d = Some leaf" "leaf \<in> set leaves" "ml_healthy leaf"
    "pattern_matches (sm_compute_binding srv) (leaf_address leaf)"
    "estimate_hold (sm_base_rate srv) tier pc mrc = Inr hold" "rd_estimated_hold d = h_amount hold"
    "\<forall>cap. rp_max_cost_per_call prefs = Some cap \<longrightarrow> \<not> flt cap (h_amount hold)"
proof -
  let ?reps = "fold (\<lambda>l d. AList.update (ml_provider_id l) (flit (1/2)) d) leaves []"
  obtain r where r: "best_leaf (sm_compute_binding srv) leaves (rp_compute_rank_by prefs) ?reps = Inr r"
    "case r of None \<Rightarrow> filter (\<lambda>l. ml_healthy l \<and> pattern_matches (sm_compute_binding srv) (leaf_address l)) leaves = []
      | Some l \<Rightarrow> l \<in> set leaves \<and> ml_healthy l \<and> pattern_matches (sm_compute_binding srv) (leaf_address l)"
    using best_leaf_ok by blast
  show thesis
  proof (cases r)
    case None
    with r assms show ?thesis by (auto simp: place_def no_route_def succeeded_def)
  next
    case (Some leaf)
    with r assms(1) obtain hold where h: "estimate_hold (sm_base_rate srv) tier pc mrc = Inr hold"
      by (auto simp: place_def rbind_eq_Inr)
    show ?thesis using r assms Some h that
      by (auto simp: place_def no_route_def succeeded_def split: option.splits if_splits)
  qed
qed

lemma estimate_hold_total:
  assumes "tier \<in> set TIER_ORDER" "max 0 pc + max 0 mrc \<le> 2 ^ 53"
  shows "\<exists>hold. estimate_hold base tier pc mrc = Inr hold"
proof -
  obtain m where m: "tier_multiplier tier = Inr m" using assms(1) tier_multiplier_known by blast
  have "int_float (max 0 pc + max 0 mrc) = Inr (Fin (of_int (max 0 pc + max 0 mrc)))"
    using assms(2) by (intro int_float_small) simp
  then show ?thesis using m tier_float [OF m] by (simp add: estimate_hold_def)
qed

lemma place_succeeds:
  assumes "tier \<in> set TIER_ORDER" "max 0 pc + max 0 mrc \<le> 2 ^ 53" "rp_max_cost_per_call prefs = None"
    "leaf \<in> set leaves" "ml_healthy leaf" "pattern_matches (sm_compute_binding srv) (leaf_address leaf)"
  shows "\<exists>d. place prefs tier pc mrc rejections soft srv leaves = Inr d \<and> succeeded d"
proof -
  let ?reps = "fold (\<lambda>l d. AList.update (ml_provider_id l) (flit (1/2)) d) leaves []"
  obtain r where r: "best_leaf (sm_compute_binding srv) leaves (rp_compute_rank_by prefs) ?reps = Inr r"
    "case r of None \<Rightarrow> filter (\<lambda>l. ml_healthy l \<and> pattern_matches (sm_compute_binding srv) (leaf_address l)) leaves = []
      | Some l \<Rightarrow> l \<in> set leaves \<and> ml_healthy l \<and> pattern_matches (sm_compute_binding srv) (leaf_address l)"
    using best_leaf_ok by blast
  have "r \<noteq> None" using r(2) assms(4-6) by (cases r) (auto simp: filter_empty_conv)
  moreover obtain hold where "estimate_hold (sm_base_rate srv) tier pc mrc = Inr hold"
    using estimate_hold_total [OF assms(1,2)] by blast
  ultimately show ?thesis using r(1) assms(3) by (auto simp: place_def succeeded_def)
qed

lemma rank_candidates_total:
  assumes "\<And>srv rep. (srv, rep) \<in> set cs \<Longrightarrow> \<bar>re_completed_total rep\<bar> \<le> 2 ^ 53"
  shows "\<exists>ranked. rank_candidates prefs cs = Inr ranked"
proof -
  have k: "\<exists>k. rank_key_of by' (srv, rep) = Inr k" if "\<bar>re_completed_total rep\<bar> \<le> 2 ^ 53" for by' srv rep
    using int_float_small [OF that] by (auto simp: rank_key_of_def avg_latency_ms_def Let_def)
  have "\<exists>ys. mapM (\<lambda>c. rbind (rank_key_of (rp_server_rank_by prefs) c) (\<lambda>k. Inr (k, c))) cs = Inr ys"
    using assms
  proof (induction cs)
    case (Cons c cs)
    then obtain ys where "mapM (\<lambda>c. rbind (rank_key_of (rp_server_rank_by prefs) c) (\<lambda>k. Inr (k, c))) cs = Inr ys" by fastforce
    moreover obtain k' where "rank_key_of (rp_server_rank_by prefs) c = Inr k'"
      using Cons.prems k by (cases c) fastforce
    ultimately show ?case by simp
  qed simp
  then show ?thesis by (auto simp: rank_candidates_def)
qed

context log10_fun
begin

lemma visibility_total: "\<exists>v. visibility_factor log10 e = Inr v"
proof (cases "flt (re_reputation e) MIN_REPUTATION_FLOOR \<or> 500 \<le> re_completed_accepted e")
  case True
  then show ?thesis by (auto simp: visibility_factor_def VISIBILITY_FULL_AT_def Let_def)
next
  case False
  then show ?thesis using visibility_eq(1) [of e] by auto
qed

lemma visibility_gate_total: "\<exists>rejected gated. visibility_gate log10 draw n cs = Inr (rejected, gated)"
proof (induction cs arbitrary: n)
  case (Cons c cs)
  obtain srv rep where c: "c = (srv, rep)" by (cases c)
  obtain rj g where "visibility_gate log10 draw (Suc n) cs = Inr (rj, g)" using Cons.IH by blast
  moreover obtain v where "visibility_factor log10 rep = Inr v" using visibility_total by blast
  ultimately show ?case by (cases "flt (draw n) v") (simp_all add: c)
qed simp

lemma choose_server_total:
  assumes "\<And>srv rep. (srv, rep) \<in> set kept \<Longrightarrow> \<bar>re_completed_total rep\<bar> \<le> 2 ^ 53" "kept \<noteq> []"
  shows "\<exists>throttled soft ranked. choose_server log10 rng prefs kept = Inr (throttled, soft, ranked)"
proof -
  obtain th gated where g: "visibility_gate log10 (rng (rp_rng_seed prefs)) 0 kept = Inr (th, gated)"
    using visibility_gate_total by blast
  obtain narrowed sf where n: "apply_soft_filter prefs (if gated = [] then kept else gated) = (narrowed, sf)" by fastforce
  have "(if gated = [] then kept else gated) \<noteq> []" using assms(2) by simp
  from soft_filter_keeps(2) [OF this n] visibility_gate_subset [OF g] have "set narrowed \<subseteq> set kept"
    by (auto split: if_splits)
  then have "\<exists>ranked. rank_candidates prefs narrowed = Inr ranked" using assms(1) by (intro rank_candidates_total) blast
  then show ?thesis by (auto simp: choose_server_def g n)
qed

end

section \<open>Decisions\<close>

locale routing = sv: servers_on "ro_servers Q" abs + cr: computes_on "ro_compute Q" abs
  for Q :: "'s Router" and abs :: "'s \<Rightarrow> view"
begin

text \<open>The servers a call may be routed to: live, capable, and past the hard filter.\<close>

lemma resolve_sound:
  assumes run: "resolve_route Q log10 rng now code tier pc mrc prefs s = (Inr d, t)"
    and ok: "succeeded d" and menu: "menu_ok (abs s)"
  obtains srv rep leaf hold where "rd_server d = Some srv" "rd_leaf d = Some leaf"
    "srv \<in> set (server_scan (ro_servers Q) now True s)" "capable None None (Some code) (Some tier) srv"
    "rep_or_new (\<lambda>owner. ro_rep Q owner s) srv = Inr rep" "meets_hard prefs srv rep"
    "leaf \<in> menu (abs s)" "is_provider_alive (ro_compute Q) (ml_provider_id leaf) s" "ml_healthy leaf"
    "pattern_matches (sm_compute_binding srv) (leaf_address leaf)"
    "estimate_hold (sm_base_rate srv) tier pc mrc = Inr hold" "rd_estimated_hold d = h_amount hold"
    "\<forall>cap. rp_max_cost_per_call prefs = Some cap \<longrightarrow> \<not> flt cap (h_amount hold)"
proof -
  obtain tt where tt: "parse_tier tier = Inr tt" using run
    by (cases "parse_tier tier") (auto simp: resolve_route_def)
  let ?cands = "filter (capable None None (Some code) (Some tier)) (server_scan (ro_servers Q) now True s)"
  let ?rep = "\<lambda>owner. ro_rep Q owner s"
  obtain rj kp where hf: "hard_filter ?rep prefs ?cands = Inr (rj, kp)" using run
    by (cases "hard_filter ?rep prefs ?cands") (auto simp: resolve_route_def tt server_discover_def)
  have ne: "kp \<noteq> []" using run ok
    by (auto simp: resolve_route_def tt server_discover_def hf succeeded_def no_route_def)
  obtain th sf ranked where cs: "choose_server log10 rng prefs kp = Inr (th, sf, ranked)" using run ne
    by (cases "choose_server log10 rng prefs kp") (auto simp: resolve_route_def tt server_discover_def hf)
  note sound = choose_server_sound [OF cs ne]
  then obtain srv rep rest where rk: "ranked = (srv, rep) # rest" by (cases ranked) auto
  obtain ls u where ls: "list_leaves (ro_compute Q) True s = (Inr ls, u)"
    "set ls = {l \<in> menu (abs s). is_provider_alive (ro_compute Q) (ml_provider_id l) s}"
    by (rule cr.list_leaves_run [OF menu, of True]) simp
  have "place prefs tier pc mrc (rj @ th) sf srv ls = Inr d"
    using run ne by (simp add: resolve_route_def tt server_discover_def hf cs rk sbind_def ls(1))
  from this ok obtain leaf hold where l: "rd_server d = Some srv" "rd_leaf d = Some leaf" "leaf \<in> set ls" "ml_healthy leaf"
    "pattern_matches (sm_compute_binding srv) (leaf_address leaf)"
    "estimate_hold (sm_base_rate srv) tier pc mrc = Inr hold" "rd_estimated_hold d = h_amount hold"
    "\<forall>cap. rp_max_cost_per_call prefs = Some cap \<longrightarrow> \<not> flt cap (h_amount hold)" by (rule place_sound)
  have "(srv, rep) \<in> set kp" using sound(2) rk by auto
  then have "srv \<in> set ?cands" "rep_or_new ?rep srv = Inr rep" "meets_hard prefs srv rep"
    by (simp_all add: hard_filter_sound [OF hf])
  with l ls(2) show thesis by (intro that) auto
qed

lemma resolve_succeeds:
  assumes logf: "log10_fun log10" and menu: "menu_ok (abs s)"
    and tier: "tier \<in> set TIER_ORDER" and chars: "max 0 pc + max 0 mrc \<le> 2 ^ 53"
    and reps: "\<forall>owner. \<exists>r. ro_rep Q owner s = Inr r \<and> (\<forall>e. r = Some e \<longrightarrow> \<bar>re_completed_total e\<bar> \<le> 2 ^ 53)"
    and srv: "srv \<in> set (server_scan (ro_servers Q) now True s)" "capable None None (Some code) (Some tier) srv"
      "rep_or_new (\<lambda>owner. ro_rep Q owner s) srv = Inr rep" "meets_hard prefs srv rep"
    and leaves: "\<forall>v \<in> set (server_scan (ro_servers Q) now True s). \<exists>l \<in> menu (abs s). ml_healthy l
       \<and> is_provider_alive (ro_compute Q) (ml_provider_id l) s \<and> pattern_matches (sm_compute_binding v) (leaf_address l)"
    and cap: "rp_max_cost_per_call prefs = None"
  shows "\<exists>d t. resolve_route Q log10 rng now code tier pc mrc prefs s = (Inr d, t) \<and> succeeded d"
proof -
  have tt: "parse_tier tier = Inr tier" using tier by (simp add: parse_tier_known)
  let ?cands = "filter (capable None None (Some code) (Some tier)) (server_scan (ro_servers Q) now True s)"
  let ?rep = "\<lambda>owner. ro_rep Q owner s"
  obtain rj kp where hf: "hard_filter ?rep prefs ?cands = Inr (rj, kp)"
    using hard_filter_total [of ?cands ?rep prefs] reps by blast
  have "(srv, rep) \<in> set kp" using srv by (simp add: hard_filter_sound [OF hf])
  then have ne: "kp \<noteq> []" by auto
  have small: "\<bar>re_completed_total r\<bar> \<le> 2 ^ 53" if "(v, r) \<in> set kp" for v r
  proof -
    have "rep_or_new ?rep v = Inr r" using that by (simp add: hard_filter_sound [OF hf])
    then obtain found where "ro_rep Q (sm_server_id v) s = Inr found"
      "r = (case found of None \<Rightarrow> new_entry (sm_server_id v) | Some e \<Rightarrow> e)" by (auto simp: rep_or_new_def rbind_eq_Inr)
    moreover from this(1) have "\<forall>e. found = Some e \<longrightarrow> \<bar>re_completed_total e\<bar> \<le> 2 ^ 53"
      using reps [THEN spec, of "sm_server_id v"] by auto
    ultimately show ?thesis by (cases found) (simp_all add: new_entry_def)
  qed
  obtain th sf ranked where cs: "choose_server log10 rng prefs kp = Inr (th, sf, ranked)"
    using log10_fun.choose_server_total [OF logf _ ne, of rng prefs] small by blast
  note sound = choose_server_sound [OF cs ne]
  then obtain v r rest where rk: "ranked = (v, r) # rest" by (cases ranked) auto
  then have "(v, r) \<in> set kp" using sound(2) by auto
  then have "v \<in> set (server_scan (ro_servers Q) now True s)" by (simp add: hard_filter_sound [OF hf])
  with leaves obtain l where l: "l \<in> menu (abs s)" "ml_healthy l" "is_provider_alive (ro_compute Q) (ml_provider_id l) s"
    "pattern_matches (sm_compute_binding v) (leaf_address l)" by blast
  obtain ls u where ls: "list_leaves (ro_compute Q) True s = (Inr ls, u)"
    "set ls = {l \<in> menu (abs s). is_provider_alive (ro_compute Q) (ml_provider_id l) s}"
    by (rule cr.list_leaves_run [OF menu, of True]) simp
  have "l \<in> set ls" using l ls(2) by simp
  from place_succeeds [OF tier chars cap this l(2,4), of "rj @ th" sf] obtain d where
    "place prefs tier pc mrc (rj @ th) sf v ls = Inr d" "succeeded d" by blast
  then show ?thesis using ne by (simp add: resolve_route_def tt server_discover_def hf cs rk sbind_def ls(1))
qed

end

interpretation mem_routing: routing "\<lparr>ro_servers = \<lparr>sv_redis = mem_redis, sv_ttl = ttl\<rparr>,
     ro_compute = \<lparr>cr_redis = mem_redis, cr_ttl = ttl'\<rparr>, ro_rep = rep\<rparr>" mem_view for ttl ttl' rep
  by (simp add: routing_def mem_servers.servers_on_axioms mem_computes.computes_on_axioms)

section \<open>Properties\<close>

text \<open>C37: A routing decision is sound: whatever the visibility draws, a successful decision names a live server
  that declares the code and tier and meets every hard requirement under its current reputation, and a healthy
  leaf of a live provider that matches the server's binding; the hold is the estimate for that server and never
  above the caller's ceiling.\<close>

theorem routing_sound:
  assumes "routing Q view" and "menu_ok (view s)"
    and "resolve_route Q log10 rng now code tier pc mrc prefs s = (Inr d, t)" and "succeeded d"
  shows "\<exists>srv rep leaf hold. rd_server d = Some srv \<and> rd_leaf d = Some leaf
     \<and> srv \<in> set (server_scan (ro_servers Q) now True s) \<and> capable None None (Some code) (Some tier) srv
     \<and> rep_or_new (\<lambda>owner. ro_rep Q owner s) srv = Inr rep \<and> meets_hard prefs srv rep
     \<and> leaf \<in> menu (view s) \<and> is_provider_alive (ro_compute Q) (ml_provider_id leaf) s \<and> ml_healthy leaf
     \<and> pattern_matches (sm_compute_binding srv) (leaf_address leaf)
     \<and> estimate_hold (sm_base_rate srv) tier pc mrc = Inr hold \<and> rd_estimated_hold d = h_amount hold
     \<and> (\<forall>cap. rp_max_cost_per_call prefs = Some cap \<longrightarrow> \<not> flt cap (h_amount hold))"
  by (rule routing.resolve_sound [OF assms(1,3,4,2)]) blast

text \<open>C38: Routing does not fail for lack of luck: when an eligible server exists and every live server's binding
  matches a healthy leaf of a live provider, a call with a known tier and no ceiling is routed, whatever the draws,
  the preferences and the ranking.\<close>

theorem routing_complete:
  assumes "routing Q view" and "log10_fun log10" and "menu_ok (view s)"
    and "tier \<in> set TIER_ORDER" and "max 0 pc + max 0 mrc \<le> 2 ^ 53"
    and "\<forall>owner. \<exists>r. ro_rep Q owner s = Inr r \<and> (\<forall>e. r = Some e \<longrightarrow> \<bar>re_completed_total e\<bar> \<le> 2 ^ 53)"
    and "srv \<in> set (server_scan (ro_servers Q) now True s)" and "capable None None (Some code) (Some tier) srv"
    and "rep_or_new (\<lambda>owner. ro_rep Q owner s) srv = Inr rep" and "meets_hard prefs srv rep"
    and "\<forall>v \<in> set (server_scan (ro_servers Q) now True s). \<exists>l \<in> menu (view s). ml_healthy l
       \<and> is_provider_alive (ro_compute Q) (ml_provider_id l) s \<and> pattern_matches (sm_compute_binding v) (leaf_address l)"
    and "rp_max_cost_per_call prefs = None"
  shows "\<exists>d t. resolve_route Q log10 rng now code tier pc mrc prefs s = (Inr d, t) \<and> succeeded d"
  by (rule routing.resolve_succeeds [OF assms])

text \<open>One server and one leaf, on the in-memory store.\<close>

definition sample_router :: "mem Router" where
  "sample_router = \<lparr>ro_servers = \<lparr>sv_redis = mem_redis, sv_ttl = 30\<rparr>,
     ro_compute = \<lparr>cr_redis = mem_redis, cr_ttl = 30\<rparr>, ro_rep = (\<lambda>_ _. Inr None)\<rparr>"

definition sample_store :: mem where
  "sample_store = snd (server_register (ro_servers sample_router) sample_server
     (register_leaf (ro_compute sample_router) [] (sample_leaf ''a'') empty_mem))"

lemma sample_routing: "routing sample_router mem_view"
  unfolding sample_router_def by (rule mem_routing.routing_axioms)

lemma server_compute_keys [simp]:
  "server_alive_key a \<noteq> menu_leaf_key x" "server_alive_key a \<noteq> MENU_LEAF_INDEX" "SERVER_HASH_KEY \<noteq> menu_leaf_key x"
  "menu_leaf_key x \<noteq> server_alive_key a" "MENU_LEAF_INDEX \<noteq> server_alive_key a"
  "provider_alive_key p \<noteq> server_alive_key a" "provider_alive_key p \<noteq> SERVER_HASH_KEY"
  "SERVER_HASH_KEY \<noteq> PROVIDER_HASH_KEY" "SERVER_HASH_KEY \<noteq> provider_alive_key p" "SERVER_HASH_KEY \<noteq> provider_last_seen_key p"
  by (simp_all add: server_alive_key_def menu_leaf_key_def MENU_LEAF_INDEX_def SERVER_HASH_KEY_def provider_alive_key_def
      PROVIDER_HASH_KEY_def provider_last_seen_key_def)

lemma sample_leaf_valid: "valid_leaf (sample_leaf ''a'')"
  by (simp add: valid_leaf_def menu_leaf_post_init_def sample_leaf_def parse_tier_known TIER_ORDER_def slug_match_def
      drop_final_newline_def is_lower_alnum_def less_eq_char_def)

lemma sample_store_facts:
  "menu_ok (mem_view sample_store)" "menu (mem_view sample_store) = {sample_leaf ''a''}"
  "set (server_scan (ro_servers sample_router) (Fin 0) True sample_store) = {sample_server}"
  "is_provider_alive (ro_compute sample_router) ''p'' sample_store"
proof -
  let ?C = "\<lparr>cr_redis = mem_redis, cr_ttl = 30\<rparr>" and ?V = "\<lparr>sv_redis = mem_redis, sv_ttl = 30\<rparr>"
  let ?m = "register_leaf ?C [] (sample_leaf ''a'') empty_mem"
  obtain v where v: "server_to_json sample_server = Inr v"
    by (simp add: server_to_json_def sample_server_def Let_def strs_json_def)
  have st: "sample_store = server_mark_alive ?V ''srv'' (r_hset mem_redis SERVER_HASH_KEY ''srv'' v ?m)"
    by (simp add: sample_store_def sample_router_def server_register_def v) (simp add: sample_server_def)
  have ok0: "menu_ok (mem_view empty_mem)" and no0: "menu (mem_view empty_mem) = {}"
    by (simp_all add: menu_ok_def menu_def empty_mem_def table_def)
  note m = mem_computes.register_leaf_menu [OF ok0 sample_leaf_valid, of 30 "[]", unfolded no0]
  have al: "is_provider_alive ?C ''p'' ?m"
    using mem_computes.register_leaf_alive(1) [of empty_mem "sample_leaf ''a''" 30 "[]"]
    by (simp add: sample_leaf_def empty_mem_def table_def)
  have same: "sets (mem_view sample_store) MENU_LEAF_INDEX = sets (mem_view ?m) MENU_LEAF_INDEX"
    "strs (mem_view sample_store) (menu_leaf_key a) = strs (mem_view ?m) (menu_leaf_key a)" for a
    unfolding st server_mark_alive_def by (simp_all del: mem_view_sel)
  from menu_cong [OF same] m show "menu_ok (mem_view sample_store)" "menu (mem_view sample_store) = {sample_leaf ''a''}"
    by (simp_all del: mem_view_sel)
  have "key_exists (mem_view sample_store) (provider_alive_key ''p'') \<longleftrightarrow> key_exists (mem_view ?m) (provider_alive_key ''p'')"
    unfolding st server_mark_alive_def by (simp add: key_exists_def del: mem_view_sel)
  then show "is_provider_alive (ro_compute sample_router) ''p'' sample_store"
    using al by (simp add: sample_router_def mem_computes.provider_alive_iff del: mem_view_sel)
  have h: "hashes (mem_view sample_store) SERVER_HASH_KEY = [''srv'' \<mapsto> v]"
    unfolding st server_mark_alive_def
    by (simp add: register_leaf_def register_provider_def provider_mark_alive_def Let_def del: mem_view_sel)
      (simp add: empty_mem_def table_def)
  have a: "server_is_alive ?V ''srv'' sample_store"
    unfolding mem_servers.server_alive_iff st server_mark_alive_def by (simp add: key_exists_def del: mem_view_sel)
  have rt: "server_from_json (Fin 0) v = Inr sample_server"
    by (rule server_roundtrip [OF v])
      (simp add: valid_server_def server_meta_post_init_def sample_server_def parse_tier_known TIER_ORDER_def)
  show "set (server_scan (ro_servers sample_router) (Fin 0) True sample_store) = {sample_server}"
    using a rt by (auto simp: sample_router_def mem_servers.in_server_scan h simp del: mem_view_sel split: if_splits)
qed

lemma sample_new_entry_meets: "meets_hard default_prefs sample_server (new_entry ''srv'')"
proof -
  have "mk (1/2) = Fin (1/2)" using rep_consts(1) by (simp add: DEFAULT_REPUTATION_def del: rep_consts)
  then show ?thesis by (simp add: meets_hard_def default_prefs_def new_entry_def sample_server_def)
qed

lemma sample_binding: "pattern_matches ''*.*.*'' (leaf_address (sample_leaf ''a''))"
  by (simp add: pattern_matches_def leaf_address_def sample_leaf_def Let_def)

lemma sample_route_hyps:
  "\<forall>owner. \<exists>r. ro_rep sample_router owner sample_store = Inr r \<and> (\<forall>e. r = Some e \<longrightarrow> \<bar>re_completed_total e\<bar> \<le> 2 ^ 53)"
  "sample_server \<in> set (server_scan (ro_servers sample_router) (Fin 0) True sample_store)"
  "capable None None (Some ''query'') (Some ''small'') sample_server"
  "rep_or_new (\<lambda>owner. ro_rep sample_router owner sample_store) sample_server = Inr (new_entry ''srv'')"
  "meets_hard default_prefs sample_server (new_entry ''srv'')"
  "\<forall>v \<in> set (server_scan (ro_servers sample_router) (Fin 0) True sample_store). \<exists>l \<in> menu (mem_view sample_store). ml_healthy l
     \<and> is_provider_alive (ro_compute sample_router) (ml_provider_id l) sample_store \<and> pattern_matches (sm_compute_binding v) (leaf_address l)"
  "rp_max_cost_per_call default_prefs = None" "''small'' \<in> set TIER_ORDER" "max 0 0 + max 0 800 \<le> (2 ^ 53 :: int)"
proof -
  show "\<forall>v \<in> set (server_scan (ro_servers sample_router) (Fin 0) True sample_store). \<exists>l \<in> menu (mem_view sample_store). ml_healthy l
       \<and> is_provider_alive (ro_compute sample_router) (ml_provider_id l) sample_store \<and> pattern_matches (sm_compute_binding v) (leaf_address l)"
    using sample_store_facts(4) sample_binding by (simp add: sample_store_facts(2,3)) (simp add: sample_leaf_def sample_server_def)
  show "meets_hard default_prefs sample_server (new_entry ''srv'')" by (rule sample_new_entry_meets)
  show "sample_server \<in> set (server_scan (ro_servers sample_router) (Fin 0) True sample_store)"
    by (simp add: sample_store_facts(3))
qed (simp_all add: TIER_ORDER_def default_prefs_def capable_def rep_or_new_def sample_router_def sample_server_def)

lemma sample_route:
  "\<exists>d t. resolve_route sample_router floor_log10 (\<lambda>_ _. Fin 1) (Fin 0) ''query'' ''small'' 0 800 default_prefs sample_store = (Inr d, t)
     \<and> succeeded d"
  by (rule routing.resolve_succeeds [OF sample_routing floor_log10.log10_fun_axioms sample_store_facts(1)
    sample_route_hyps(8,9,1-7)])

theorem routing_complete_witness:
  "\<exists>d t. resolve_route sample_router floor_log10 (\<lambda>_ _. Fin 1) (Fin 0) ''query'' ''small'' 0 800 default_prefs sample_store = (Inr d, t)
     \<and> succeeded d"
  by (rule routing_complete [OF sample_routing floor_log10.log10_fun_axioms sample_store_facts(1)
    sample_route_hyps(8,9,1-7)])

theorem routing_sound_witness:
  "\<exists>d t. resolve_route sample_router floor_log10 (\<lambda>_ _. Fin 1) (Fin 0) ''query'' ''small'' 0 800 default_prefs sample_store = (Inr d, t)
     \<and> rd_server d = Some sample_server \<and> rd_leaf d = Some (sample_leaf ''a'')"
proof -
  obtain d t where d: "resolve_route sample_router floor_log10 (\<lambda>_ _. Fin 1) (Fin 0) ''query'' ''small'' 0 800 default_prefs sample_store = (Inr d, t)"
    "succeeded d" using sample_route by blast
  from routing_sound [OF sample_routing sample_store_facts(1) d] sample_store_facts(2,3) d(1) show ?thesis by auto
qed

end
