(* ===== verification/Auth.thy ===== *)
theory Auth
  imports Message
begin

text \<open>
  \<open>ahp/registry/auth.py\<close>: principals with address claims and the policies that decide who
  may mutate which registry entry.
\<close>

record Principal =
  pr_id :: string
  pr_claims :: "AddressPattern list"

definition principal_covers :: "Principal \<Rightarrow> AgentAddress \<Rightarrow> bool" where
  "principal_covers p address \<longleftrightarrow> list_ex (\<lambda>pat. pmatches pat address) (pr_claims p)"

text \<open>\<open>Principal.with_claims\<close>, patterns given as texts.\<close>

definition with_claims :: "string \<Rightarrow> string list \<Rightarrow> Principal res" where
  "with_claims i pats = rbind (mapM pparse pats) (\<lambda>cs. Inr \<lparr>pr_id = i, pr_claims = cs\<rparr>)"

datatype AuthPolicy = OpenAuthPolicy | AddressClaimPolicy | DenyAllPolicy

fun can_register :: "AuthPolicy \<Rightarrow> Principal option \<Rightarrow> AgentAddress \<Rightarrow> bool" where
  "can_register OpenAuthPolicy p a = True"
| "can_register AddressClaimPolicy p a = (case p of None \<Rightarrow> False | Some pr \<Rightarrow> principal_covers pr a)"
| "can_register DenyAllPolicy p a = False"

definition can_deregister :: "AuthPolicy \<Rightarrow> Principal option \<Rightarrow> AgentAddress \<Rightarrow> bool" where
  "can_deregister pol p a = can_register pol p a"

definition can_heartbeat :: "AuthPolicy \<Rightarrow> Principal option \<Rightarrow> AgentAddress \<Rightarrow> bool" where
  "can_heartbeat pol p a = can_register pol p a"

text \<open>
  The abstract base class: the two derived decisions follow \<open>can_register\<close>, and a decision
  depends on the structural fields of the address only.
\<close>

locale auth_policy =
  fixes reg dereg hb :: "Principal option \<Rightarrow> AgentAddress \<Rightarrow> bool"
  assumes dereg_reg: "dereg p a \<longleftrightarrow> reg p a"
    and hb_reg: "hb p a \<longleftrightarrow> reg p a"
    and reg_fields: "addr_fields a = addr_fields b \<Longrightarrow> reg p a \<longleftrightarrow> reg p b"
begin

lemma decisions_agree: "dereg p a \<longleftrightarrow> hb p a"
  by (simp add: dereg_reg hb_reg)

lemma canonical_same: "reg p (canonical a) \<longleftrightarrow> reg p a"
  by (rule reg_fields) (simp add: canonical_def addr_fields_def)

end

interpretation policy: auth_policy "can_register pol" "can_deregister pol" "can_heartbeat pol" for pol
proof
  fix p and a b :: AgentAddress
  assume "addr_fields a = addr_fields b"
  then have "pmatches pat a \<longleftrightarrow> pmatches pat b" for pat by (rule pmatches_fields)
  then show "can_register pol p a \<longleftrightarrow> can_register pol p b"
    by (cases pol; cases p) (simp_all add: principal_covers_def)
qed (simp_all add: can_deregister_def can_heartbeat_def)

lemma claim_policy_iff:
  "can_register AddressClaimPolicy p a \<longleftrightarrow> (\<exists>pr pat. p = Some pr \<and> pat \<in> set (pr_claims pr) \<and> pmatches pat a)"
  by (cases p) (auto simp: principal_covers_def list_ex_iff)

section \<open>Properties\<close>

text \<open>Under the claim policy the three registry decisions are one: a caller may register, deregister or send a
  heartbeat for an address exactly when it is identified and one of its claims matches the address.\<close>

lemma claim_policy_decisions:
  "(can_register AddressClaimPolicy p a \<longleftrightarrow> (\<exists>pr pat. p = Some pr \<and> pat \<in> set (pr_claims pr) \<and> pmatches pat a))
   \<and> can_deregister AddressClaimPolicy p a = can_register AddressClaimPolicy p a
   \<and> can_heartbeat AddressClaimPolicy p a = can_register AddressClaimPolicy p a"
  by (simp only: claim_policy_iff policy.dereg_reg policy.hb_reg)

end
