(* ===== verification/Registry.thy ===== *)
theory Registry
  imports AuditSink Auth
begin

text \<open>
  \<open>ahp/registry/registry.py\<close>: registration, liveness and discovery over one Redis hash and
  one expiring marker per agent.
\<close>

section \<open>Metadata\<close>

record AgentMeta =
  am_capabilities :: "string list"
  am_reputation :: pyfloat
  am_health_endpoint :: "string option"
  am_description :: "string option"
  am_extra :: "(string, pyval) dict"
  am_registered_at :: pyfloat

definition default_meta :: "pyfloat \<Rightarrow> AgentMeta" where
  "default_meta now = \<lparr>am_capabilities = [], am_reputation = fzero, am_health_endpoint = None,
     am_description = None, am_extra = [], am_registered_at = now\<rparr>"

definition meta_to_json :: "AgentMeta \<Rightarrow> pyval res" where
  "meta_to_json m =
     (let v = PDict [(''capabilities'', PList (map PStr (am_capabilities m))),
        (''reputation'', PFloat (am_reputation m)), (''health_endpoint'', opt_str (am_health_endpoint m)),
        (''description'', opt_str (am_description m)), (''extra'', PDict (am_extra m)),
        (''registered_at'', PFloat (am_registered_at m))]
      in if json_ok v then Inr v else Inl TypeError)"

definition META_FIELDS :: "string list" where
  "META_FIELDS = [''capabilities'', ''reputation'', ''health_endpoint'', ''description'', ''extra'', ''registered_at'']"

text \<open>
  \<open>cls(**data)\<close>: an unknown key is a TypeError, a missing one takes its default (\<open>now\<close> for
  the time stamp). A value that is not of the declared type is read as a TypeError here.
\<close>

definition meta_from_json :: "pyfloat \<Rightarrow> pyval \<Rightarrow> AgentMeta res" where
  "meta_from_json now raw =
     rbind (as_dict raw) (\<lambda>d.
     if list_ex (\<lambda>p. fst p \<notin> set META_FIELDS) d then Inl TypeError
     else
       rbind (as_str_list (dict_get d ''capabilities'' (PList []))) (\<lambda>caps.
       rbind (as_num (dict_get d ''reputation'' (PFloat fzero))) (\<lambda>rep.
       rbind (as_str_opt (dict_get d ''health_endpoint'' PNone)) (\<lambda>he.
       rbind (as_str_opt (dict_get d ''description'' PNone)) (\<lambda>desc.
       rbind (as_dict (dict_get d ''extra'' (PDict []))) (\<lambda>ex.
       rbind (as_num (dict_get d ''registered_at'' (PFloat now))) (\<lambda>ra.
         Inr \<lparr>am_capabilities = caps, am_reputation = rep, am_health_endpoint = he,
           am_description = desc, am_extra = ex, am_registered_at = ra\<rparr>)))))))"

lemma meta_roundtrip: "meta_to_json m = Inr v \<Longrightarrow> meta_from_json now v = Inr m"
proof -
  have opt: "as_str_opt (opt_str s) = Inr s" for s by (cases s) (simp_all add: opt_str_def)
  show "meta_to_json m = Inr v \<Longrightarrow> meta_from_json now v = Inr m"
    by (cases m) (auto simp: meta_to_json_def meta_from_json_def META_FIELDS_def dict_get_def opt Let_def split: if_splits)
qed

section \<open>The registry\<close>

record 's registry =
  rg_redis :: "'s redis"
  rg_heartbeat_ttl :: int
  rg_principal :: "Principal option"
  rg_policy :: AuthPolicy
  rg_audit :: "'s sink option"

definition DEFAULT_HEARTBEAT_TTL :: int where "DEFAULT_HEARTBEAT_TTL = 30"

definition new_registry :: "'s redis \<Rightarrow> int \<Rightarrow> Principal option \<Rightarrow> AuthPolicy option \<Rightarrow> 's sink option \<Rightarrow> 's registry res" where
  "new_registry R ttl who policy audit =
     (if ttl \<le> 0 then Inl ValueError
      else Inr \<lparr>rg_redis = R, rg_heartbeat_ttl = ttl, rg_principal = who,
        rg_policy = (case policy of None \<Rightarrow> OpenAuthPolicy | Some p \<Rightarrow> p), rg_audit = audit\<rparr>)"

definition rg_emit :: "'s registry \<Rightarrow> pyfloat \<Rightarrow> string \<Rightarrow> AgentAddress \<Rightarrow> bool \<Rightarrow> string option \<Rightarrow> 's \<Rightarrow> 's" where
  "rg_emit G now op' address success err =
     emit_opt (rg_audit G) \<lparr>ae_op = op', ae_timestamp = now, ae_principal = map_option pr_id (rg_principal G),
       ae_source = None, ae_target = Some (to_str address), ae_code = None, ae_verb = None,
       ae_success = success, ae_error = err, ae_extra = []\<rparr>"

definition mark_alive :: "'s registry \<Rightarrow> AgentAddress \<Rightarrow> 's \<Rightarrow> 's" where
  "mark_alive G address = r_setex (rg_redis G) (alive_key (to_str address)) (PStr ''1'') (rg_heartbeat_ttl G)"

definition unauthorized :: "'s registry \<Rightarrow> pyfloat \<Rightarrow> string \<Rightarrow> AgentAddress \<Rightarrow> ('s, 'a) op" where
  "unauthorized G now op' address =
     sbind (swrite (rg_emit G now op' address False (Some ''UnauthorizedRegistrationError'')))
       (\<lambda>_. sraise UnauthorizedRegistrationError)"

definition register :: "'s registry \<Rightarrow> pyfloat \<Rightarrow> AgentAddress \<Rightarrow> AgentMeta option \<Rightarrow> bool \<Rightarrow> ('s, unit) op" where
  "register G now address metadata alive =
     (if \<not> can_register (rg_policy G) (rg_principal G) address
      then unauthorized G now ''registry.register'' address
      else
        let meta = (case metadata of None \<Rightarrow> default_meta now | Some m \<Rightarrow> m)
        in sbind (slift (meta_to_json meta)) (\<lambda>v.
           sbind (swrite (r_hset (rg_redis G) registry_hash (to_str address) v)) (\<lambda>_.
           sbind (swrite (if alive then mark_alive G address else id)) (\<lambda>_.
           swrite (rg_emit G now ''registry.register'' address True None)))))"

definition hide :: "'s registry \<Rightarrow> pyfloat \<Rightarrow> AgentAddress \<Rightarrow> ('s, bool) op" where
  "hide G now address =
     (if \<not> can_deregister (rg_policy G) (rg_principal G) address
      then unauthorized G now ''registry.hide'' address
      else
        sbind (sread (r_hexists (rg_redis G) registry_hash (to_str address))) (\<lambda>present.
        if \<not> present
        then sbind (swrite (rg_emit G now ''registry.hide'' address False (Some ''NotRegistered''))) (\<lambda>_. sret False)
        else sbind (swrite (r_delete (rg_redis G) (alive_key (to_str address)))) (\<lambda>_.
             sbind (swrite (rg_emit G now ''registry.hide'' address True None)) (\<lambda>_. sret True))))"

definition deregister :: "'s registry \<Rightarrow> pyfloat \<Rightarrow> AgentAddress \<Rightarrow> ('s, unit) op" where
  "deregister G now address =
     (if \<not> can_deregister (rg_policy G) (rg_principal G) address
      then unauthorized G now ''registry.deregister'' address
      else sbind (swrite (r_hdel (rg_redis G) registry_hash (to_str address))) (\<lambda>_.
           sbind (swrite (r_delete (rg_redis G) (alive_key (to_str address)))) (\<lambda>_.
           swrite (rg_emit G now ''registry.deregister'' address True None))))"

definition heartbeat :: "'s registry \<Rightarrow> pyfloat \<Rightarrow> AgentAddress \<Rightarrow> ('s, bool) op" where
  "heartbeat G now address =
     (if \<not> can_heartbeat (rg_policy G) (rg_principal G) address
      then unauthorized G now ''registry.heartbeat'' address
      else
        sbind (sread (r_hexists (rg_redis G) registry_hash (to_str address))) (\<lambda>present.
        if \<not> present
        then sbind (swrite (rg_emit G now ''registry.heartbeat'' address False (Some ''NotRegistered''))) (\<lambda>_. sret False)
        else sbind (swrite (mark_alive G address)) (\<lambda>_.
             sbind (swrite (rg_emit G now ''registry.heartbeat'' address True None)) (\<lambda>_. sret True))))"

definition is_alive :: "'s registry \<Rightarrow> AgentAddress \<Rightarrow> 's \<Rightarrow> bool" where
  "is_alive G address = r_exists (rg_redis G) (alive_key (to_str address))"

definition rg_get :: "'s registry \<Rightarrow> pyfloat \<Rightarrow> AgentAddress \<Rightarrow> 's \<Rightarrow> AgentMeta option res" where
  "rg_get G now address s =
     (case r_hget (rg_redis G) registry_hash (to_str address) s of
        None \<Rightarrow> Inr None
      | Some raw \<Rightarrow> rbind (meta_from_json now raw) (\<lambda>m. Inr (Some m)))"

text \<open>The optimistic loop of \<open>update_reputation\<close>, \<open>for _ in range(8)\<close>.\<close>

fun update_reputation_loop ::
  "nat \<Rightarrow> 's registry \<Rightarrow> pyfloat \<Rightarrow> AgentAddress \<Rightarrow> pyfloat \<Rightarrow> ('s, AgentMeta option) op" where
  "update_reputation_loop 0 G now address delta s =
     (Inr None, rg_emit G now ''registry.update_reputation'' address False (Some ''CASRetryExhausted'') s)"
| "update_reputation_loop (Suc n) G now address delta s =
     (case r_hget (rg_redis G) registry_hash (to_str address) s of
        None \<Rightarrow> (Inr None, rg_emit G now ''registry.update_reputation'' address False (Some ''NotRegistered'') s)
      | Some raw \<Rightarrow>
          (case rbind (meta_from_json now raw) (\<lambda>m.
              let m' = m\<lparr>am_reputation := fmax fzero (fmin fone (fadd (am_reputation m) delta))\<rparr>
              in rbind (meta_to_json m') (\<lambda>v. Inr (m', v))) of
             Inl e \<Rightarrow> (Inl e, s)
           | Inr (m', v) \<Rightarrow>
               (case r_watch_exec (rg_redis G) registry_hash (r_hset (rg_redis G) registry_hash (to_str address) v) s of
                  Committed t \<Rightarrow> (Inr (Some m'), rg_emit G now ''registry.update_reputation'' address True None t)
                | Conflict t \<Rightarrow> (Inl WatchError, t)
                | NoReply t \<Rightarrow> update_reputation_loop n G now address delta t)))"

definition update_reputation :: "'s registry \<Rightarrow> pyfloat \<Rightarrow> AgentAddress \<Rightarrow> pyfloat \<Rightarrow> ('s, AgentMeta option) op" where
  "update_reputation G now address delta = update_reputation_loop 8 G now address delta"

section \<open>Discovery\<close>

text \<open>\<open>_scan\<close>: entries that do not parse are skipped, then the dead ones, then the unreadable ones.\<close>

definition scan_entry :: "'s registry \<Rightarrow> pyfloat \<Rightarrow> bool \<Rightarrow> 's \<Rightarrow> string \<times> pyval \<Rightarrow> (AgentAddress \<times> AgentMeta) option" where
  "scan_entry G now alive_only s = (\<lambda>(k, raw).
     case parse k of
       Inl _ \<Rightarrow> None
     | Inr addr \<Rightarrow>
         if alive_only \<and> \<not> is_alive G addr s then None
         else (case meta_from_json now raw of Inl _ \<Rightarrow> None | Inr meta \<Rightarrow> Some (addr, meta)))"

definition rg_scan :: "'s registry \<Rightarrow> pyfloat \<Rightarrow> bool \<Rightarrow> 's \<Rightarrow> (AgentAddress \<times> AgentMeta) list" where
  "rg_scan G now alive_only s =
     List.map_filter (scan_entry G now alive_only s) (r_hgetall (rg_redis G) registry_hash s)"

definition resolve :: "'s registry \<Rightarrow> pyfloat \<Rightarrow> AddressPattern \<Rightarrow> bool \<Rightarrow> 's \<Rightarrow> AgentAddress list" where
  "resolve G now pat alive_only s = filter (pmatches pat) (map fst (rg_scan G now alive_only s))"

definition list_all_agents :: "'s registry \<Rightarrow> pyfloat \<Rightarrow> bool \<Rightarrow> 's \<Rightarrow> AgentAddress list" where
  "list_all_agents G now alive_only s = map fst (rg_scan G now alive_only s)"

definition rg_count :: "'s registry \<Rightarrow> pyfloat \<Rightarrow> bool \<Rightarrow> 's \<Rightarrow> int" where
  "rg_count G now alive_only s =
     (if \<not> alive_only then r_hlen (rg_redis G) registry_hash s else int (length (rg_scan G now True s)))"

definition discover ::
  "'s registry \<Rightarrow> pyfloat \<Rightarrow> AddressPattern \<Rightarrow> pyfloat \<Rightarrow> string option \<Rightarrow> bool \<Rightarrow> 's \<Rightarrow> (AgentAddress \<times> AgentMeta) list res" where
  "discover G now flds min_reputation capability alive_only s =
     rbind (pattern_post_init flds) (\<lambda>pat.
       Inr (filter (\<lambda>(addr, meta). pmatches pat addr \<and> \<not> flt (am_reputation meta) min_reputation
              \<and> (case capability of None \<Rightarrow> True | Some c \<Rightarrow> c \<in> set (am_capabilities meta)))
            (rg_scan G now alive_only s)))"

section \<open>What discovery returns\<close>

lemma set_map_filter_iff: "y \<in> set (List.map_filter f xs) \<longleftrightarrow> (\<exists>x \<in> set xs. f x = Some y)"
  by (induction xs) (auto simp: List.map_filter_simps split: option.splits)

lemma scan_entry_Some:
  "scan_entry G now alive s (k, raw) = Some (a, m) \<longleftrightarrow>
     parse k = Inr a \<and> (alive \<longrightarrow> is_alive G a s) \<and> meta_from_json now raw = Inr m"
  by (cases "parse k"; cases "meta_from_json now raw") (auto simp: scan_entry_def)

lemma keys_distinct [simp]:
  "alive_key a \<noteq> registry_hash" "registry_hash \<noteq> alive_key a" "alive_key a = alive_key b \<longleftrightarrow> a = b"
  by (simp_all add: alive_key_def registry_hash_def)

text \<open>The record an agent has in the hash.\<close>

definition recorded :: "('s \<Rightarrow> view) \<Rightarrow> AgentAddress \<Rightarrow> AgentMeta \<Rightarrow> pyfloat \<Rightarrow> 's \<Rightarrow> bool" where
  "recorded w ad m now s \<longleftrightarrow> (\<exists>v. hashes (w s) registry_hash (to_str ad) = Some v \<and> meta_from_json now v = Inr m)"

locale registry_on = redis "rg_redis G" abs for G :: "'s registry" and abs :: "'s \<Rightarrow> view" +
  assumes sink: "sink_ok abs (rg_audit G)"
begin

lemma in_scan:
  "(a, m) \<in> set (rg_scan G now alive s) \<longleftrightarrow>
     (\<exists>k raw. hashes (abs s) registry_hash k = Some raw \<and> parse k = Inr a
        \<and> (alive \<longrightarrow> is_alive G a s) \<and> meta_from_json now raw = Inr m)"
  unfolding rg_scan_def set_map_filter_iff Bex_def split_paired_Ex scan_entry_Some
  by (simp only: in_hgetall)

lemma in_resolve:
  "a \<in> set (resolve G now pat alive s) \<longleftrightarrow> pmatches pat a \<and> (\<exists>m. (a, m) \<in> set (rg_scan G now alive s))"
  by (force simp: resolve_def)

lemma alive_iff: "is_alive G a s \<longleftrightarrow> key_exists (abs s) (alive_key (to_str a))"
  by (simp add: is_alive_def)

lemma recorded_resolve:
  assumes "recorded abs ad m now s" "valid_address ad" "edges_ok ad"
  shows "canonical ad \<in> set (resolve G now pat alive s) \<longleftrightarrow> pmatches pat ad \<and> (alive \<longrightarrow> is_alive G ad s)"
    and "rg_get G now ad s = Inr (Some m)"
proof -
  have p: "parse (to_str ad) = Inr (canonical ad)" using assms(2,3) by (simp add: parse_to_str)
  obtain v where v: "hashes (abs s) registry_hash (to_str ad) = Some v" "meta_from_json now v = Inr m"
    using assms(1) by (auto simp: recorded_def)
  have al: "is_alive G (canonical ad) s \<longleftrightarrow> is_alive G ad s" by (simp add: is_alive_def to_str_canonical)
  show "rg_get G now ad s = Inr (Some m)" using v by (simp add: rg_get_def)
  show "canonical ad \<in> set (resolve G now pat alive s) \<longleftrightarrow> pmatches pat ad \<and> (alive \<longrightarrow> is_alive G ad s)"
    unfolding in_resolve in_scan using v p al by auto
qed

text \<open>A discovery query finds a recorded agent exactly when every filter admits it.\<close>

lemma recorded_discover:
  assumes "recorded abs ad m now s" "valid_address ad" "edges_ok ad" "pattern_post_init flds = Inr pat"
  shows "\<exists>found. discover G now flds min_rep cap alive s = Inr found \<and> ((canonical ad, m) \<in> set found \<longleftrightarrow>
     pmatches pat ad \<and> \<not> flt (am_reputation m) min_rep \<and> (\<forall>c. cap = Some c \<longrightarrow> c \<in> set (am_capabilities m)) \<and> (alive \<longrightarrow> is_alive G ad s))"
proof -
  have p: "parse (to_str ad) = Inr (canonical ad)" using assms(2,3) by (simp add: parse_to_str)
  have al: "is_alive G (canonical ad) s \<longleftrightarrow> is_alive G ad s" by (simp add: is_alive_def to_str_canonical)
  have "(canonical ad, m) \<in> set (rg_scan G now alive s) \<longleftrightarrow> (alive \<longrightarrow> is_alive G ad s)"
    unfolding in_scan al using assms(1) p by (auto simp: recorded_def)
  then show ?thesis by (auto simp: discover_def assms(4) split: option.splits)
qed

lemma emit_same [simp]:
  "hashes (abs (rg_emit G now op' a ok err s)) = hashes (abs s)"
  "strs (abs (rg_emit G now op' a ok err s)) = strs (abs s)"
  using sink by (simp_all add: rg_emit_def)

lemma alive_emit [simp]: "is_alive G b (rg_emit G now op' a ok err s) \<longleftrightarrow> is_alive G b s"
  using sink by (simp add: alive_iff rg_emit_def audit_key_def alive_key_def startswith_def)

lemma alive_marked [simp]: "is_alive G b (mark_alive G a s) \<longleftrightarrow> to_str b = to_str a \<or> is_alive G b s"
  by (auto simp: alive_iff mark_alive_def key_exists_def)

lemma hashes_marked [simp]: "hashes (abs (mark_alive G a s)) registry_hash = hashes (abs s) registry_hash"
  by (simp add: mark_alive_def)

lemma alive_hset [simp]: "is_alive G b (r_hset (rg_redis G) registry_hash f v s) \<longleftrightarrow> is_alive G b s"
  by (simp add: alive_iff key_exists_def)

lemma alive_deleted [simp]:
  "is_alive G b (r_delete (rg_redis G) (alive_key (to_str a)) s) \<longleftrightarrow> to_str b \<noteq> to_str a \<and> is_alive G b s"
  by (auto simp: alive_iff key_exists_def)

lemma recorded_cong: "hashes (abs t) registry_hash = hashes (abs s) registry_hash \<Longrightarrow> recorded abs ad m now t \<longleftrightarrow> recorded abs ad m now s"
  by (simp add: recorded_def)

lemma register_run:
  assumes "can_register (rg_policy G) (rg_principal G) ad" "meta_to_json m = Inr v"
  obtains t where "register G now ad (Some m) mark s = (Inr (), t)" "recorded abs ad m now t"
    "is_alive G ad t \<longleftrightarrow> mark \<or> is_alive G ad s"
proof (rule that)
  define t where "t = rg_emit G now ''registry.register'' ad True None
    ((if mark then mark_alive G ad else id) (r_hset (rg_redis G) registry_hash (to_str ad) v s))"
  show "register G now ad (Some m) mark s = (Inr (), t)"
    using assms by (simp add: register_def t_def)
  show "recorded abs ad m now t"
    using meta_roundtrip [OF assms(2)] by (simp add: recorded_def t_def)
  show "is_alive G ad t \<longleftrightarrow> mark \<or> is_alive G ad s"
    by (simp add: t_def)
qed

lemma hide_run:
  assumes "can_register (rg_policy G) (rg_principal G) ad" "recorded abs ad m now s"
  obtains t where "hide G now ad s = (Inr True, t)" "recorded abs ad m now t" "\<not> is_alive G ad t"
proof (rule that)
  define t where "t = rg_emit G now ''registry.hide'' ad True None (r_delete (rg_redis G) (alive_key (to_str ad)) s)"
  show "hide G now ad s = (Inr True, t)"
    using assms by (auto simp: hide_def t_def can_deregister_def recorded_def)
  show "recorded abs ad m now t" using assms(2) by (simp add: recorded_def t_def)
  show "\<not> is_alive G ad t" by (simp add: t_def)
qed

lemma heartbeat_run:
  assumes "can_register (rg_policy G) (rg_principal G) ad" "recorded abs ad m now s"
  obtains t where "heartbeat G now ad s = (Inr True, t)" "recorded abs ad m now t" "is_alive G ad t"
proof (rule that)
  define t where "t = rg_emit G now ''registry.heartbeat'' ad True None (mark_alive G ad s)"
  show "heartbeat G now ad s = (Inr True, t)"
    using assms by (auto simp: heartbeat_def t_def can_heartbeat_def recorded_def)
  show "recorded abs ad m now t" using assms(2) by (simp add: recorded_def t_def)
  show "is_alive G ad t" by (simp add: t_def)
qed

lemma denied_run:
  assumes "\<not> can_register (rg_policy G) (rg_principal G) ad"
  shows "\<exists>t. register G now ad m mark s = (Inl UnauthorizedRegistrationError, t) \<and> same_data (abs t) (abs s)"
    and "\<exists>t. hide G now ad s = (Inl UnauthorizedRegistrationError, t) \<and> same_data (abs t) (abs s)"
    and "\<exists>t. deregister G now ad s = (Inl UnauthorizedRegistrationError, t) \<and> same_data (abs t) (abs s)"
    and "\<exists>t. heartbeat G now ad s = (Inl UnauthorizedRegistrationError, t) \<and> same_data (abs t) (abs s)"
  using assms sink
  by (simp_all add: register_def hide_def deregister_def heartbeat_def can_deregister_def can_heartbeat_def
      unauthorized_def rg_emit_def sink_ok_def)

end

interpretation mem_registry: registry_on
  "\<lparr>rg_redis = mem_redis, rg_heartbeat_ttl = ttl, rg_principal = who, rg_policy = pol, rg_audit = None\<rparr>" mem_view
  for ttl who pol
  by (simp add: registry_on_def registry_on_axioms_def mem.redis_axioms)

section \<open>Properties\<close>

text \<open>C39: Registration makes an agent discoverable: after an authorised \<open>register\<close>, \<open>get\<close> returns the metadata as
  given; a pattern resolves to the agent exactly when it matches the address, and for live-only resolution when
  besides the call marked it alive or it was alive before; and a \<open>discover\<close> query returns it, with its metadata,
  exactly when its pattern matches, its reputation is not below the minimum, it has the capability asked for, and it
  is alive if the query is for live agents.\<close>

theorem registration_visible:
  assumes "registry_on G view" and "can_register (rg_policy G) (rg_principal G) ad"
    and "valid_address ad" and "edges_ok ad" and "meta_to_json m = Inr v"
  shows "\<exists>t. register G now ad (Some m) mark s = (Inr (), t) \<and> rg_get G now ad t = Inr (Some m)
     \<and> (canonical ad \<in> set (resolve G now pat False t) \<longleftrightarrow> pmatches pat ad)
     \<and> (canonical ad \<in> set (resolve G now pat True t) \<longleftrightarrow> pmatches pat ad \<and> (mark \<or> is_alive G ad s))
     \<and> (\<forall>flds q min_rep cap live. pattern_post_init flds = Inr q \<longrightarrow>
          (\<exists>found. discover G now flds min_rep cap live t = Inr found \<and> ((canonical ad, m) \<in> set found \<longleftrightarrow>
             pmatches q ad \<and> \<not> flt (am_reputation m) min_rep \<and> (\<forall>c. cap = Some c \<longrightarrow> c \<in> set (am_capabilities m))
             \<and> (live \<longrightarrow> mark \<or> is_alive G ad s))))"
proof -
  obtain t where t: "register G now ad (Some m) mark s = (Inr (), t)" "recorded view ad m now t"
    "is_alive G ad t \<longleftrightarrow> mark \<or> is_alive G ad s"
    by (rule registry_on.register_run [OF assms(1,2,5)])
  have "\<forall>flds q min_rep cap live. pattern_post_init flds = Inr q \<longrightarrow>
      (\<exists>found. discover G now flds min_rep cap live t = Inr found \<and> ((canonical ad, m) \<in> set found \<longleftrightarrow>
         pmatches q ad \<and> \<not> flt (am_reputation m) min_rep \<and> (\<forall>c. cap = Some c \<longrightarrow> c \<in> set (am_capabilities m))
         \<and> (live \<longrightarrow> mark \<or> is_alive G ad s)))"
    using registry_on.recorded_discover [OF assms(1) t(2) assms(3,4)] unfolding t(3) by blast
  moreover have "rg_get G now ad t = Inr (Some m)" "canonical ad \<in> set (resolve G now pat False t) \<longleftrightarrow> pmatches pat ad"
    "canonical ad \<in> set (resolve G now pat True t) \<longleftrightarrow> pmatches pat ad \<and> (mark \<or> is_alive G ad s)"
    using t registry_on.recorded_resolve [OF assms(1) t(2) assms(3,4)] by auto
  ultimately show ?thesis using t(1) by blast
qed

definition open_registry :: "mem registry" where
  "open_registry = \<lparr>rg_redis = mem_redis, rg_heartbeat_ttl = 30, rg_principal = None,
     rg_policy = OpenAuthPolicy, rg_audit = None\<rparr>"

lemma open_registry_on: "registry_on open_registry mem_view"
  unfolding open_registry_def by (rule mem_registry.registry_on_axioms)

lemma sample_valid: "valid_address (sample_address ''i'')" "edges_ok (sample_address ''i'')"
  by code_simp+

lemma default_meta_json: "\<exists>v. meta_to_json (default_meta now) = Inr v"
  by (simp add: meta_to_json_def default_meta_def Let_def opt_str_def)

theorem registration_visible_witness:
  "\<exists>t. register open_registry (Fin 0) (sample_address ''i'') (Some (default_meta (Fin 0))) False empty_mem = (Inr (), t)
     \<and> canonical (sample_address ''i'') \<in> set (resolve open_registry (Fin 0) pall False t)
     \<and> canonical (sample_address ''i'') \<notin> set (resolve open_registry (Fin 0) pall True t)
     \<and> (\<exists>found. discover open_registry (Fin 0) pall (Fin 0) None False t = Inr found
          \<and> (canonical (sample_address ''i''), default_meta (Fin 0)) \<in> set found)
     \<and> (\<exists>found. discover open_registry (Fin 0) pall (Fin 0) (Some ''c'') False t = Inr found
          \<and> (canonical (sample_address ''i''), default_meta (Fin 0)) \<notin> set found)"
proof -
  obtain v where v: "meta_to_json (default_meta (Fin 0)) = Inr v" using default_meta_json by blast
  have may: "can_register (rg_policy open_registry) (rg_principal open_registry) (sample_address ''i'')"
    by (simp add: open_registry_def)
  have dead: "\<not> is_alive open_registry (sample_address ''i'') empty_mem"
    by (simp add: is_alive_def open_registry_def mem.exists_key key_exists_def empty_mem_def table_def del: mem_view_sel)
      (simp add: mem_view_def table_def)
  have q: "pattern_post_init pall = Inr pall" "pmatches pall (sample_address ''i'')" by code_simp+
  have m: "\<not> flt (am_reputation (default_meta (Fin 0))) (Fin 0)" "am_capabilities (default_meta (Fin 0)) = []"
    by (simp_all add: default_meta_def)
  from registration_visible [OF open_registry_on may sample_valid v, of "Fin 0" False empty_mem pall]
  obtain t where t: "register open_registry (Fin 0) (sample_address ''i'') (Some (default_meta (Fin 0))) False empty_mem = (Inr (), t)"
    "canonical (sample_address ''i'') \<in> set (resolve open_registry (Fin 0) pall False t)"
    "canonical (sample_address ''i'') \<notin> set (resolve open_registry (Fin 0) pall True t)"
    "\<And>cap. \<exists>found. discover open_registry (Fin 0) pall (Fin 0) cap False t = Inr found
       \<and> ((canonical (sample_address ''i''), default_meta (Fin 0)) \<in> set found \<longleftrightarrow> (\<forall>c. cap = Some c \<longrightarrow> c \<in> set []))"
    using dead q m by (metis empty_iff list.set(1))
  show ?thesis using t(1-3) t(4) [of None] t(4) [of "Some ''c''"] by auto
qed

text \<open>Hiding is reversible: for an authorised caller, \<open>hide\<close> removes a registered agent from live resolution
  while its record stays, and the next \<open>heartbeat\<close> brings it back for every pattern that matches it.\<close>

lemma hide_then_heartbeat:
  assumes "registry_on G view" and "can_register (rg_policy G) (rg_principal G) ad"
    and "valid_address ad" and "edges_ok ad"
    and "hashes (view s) registry_hash (to_str ad) = Some v" and "meta_from_json now v = Inr m"
  shows "\<exists>t u. hide G now ad s = (Inr True, t) \<and> canonical ad \<notin> set (resolve G now pat True t)
     \<and> (canonical ad \<in> set (resolve G now pat False t) \<longleftrightarrow> pmatches pat ad)
     \<and> rg_get G now ad t = Inr (Some m)
     \<and> heartbeat G now ad t = (Inr True, u) \<and> (canonical ad \<in> set (resolve G now pat True u) \<longleftrightarrow> pmatches pat ad)"
proof -
  have r: "recorded view ad m now s"
    using assms(5,6) by (simp add: recorded_def)
  obtain t where t: "hide G now ad s = (Inr True, t)" "recorded view ad m now t" "\<not> is_alive G ad t"
    by (rule registry_on.hide_run [OF assms(1,2) r])
  obtain u where u: "heartbeat G now ad t = (Inr True, u)" "recorded view ad m now u" "is_alive G ad u"
    by (rule registry_on.heartbeat_run [OF assms(1,2) t(2)])
  show ?thesis
    using t u registry_on.recorded_resolve [OF assms(1) t(2) assms(3,4)]
      registry_on.recorded_resolve [OF assms(1) u(2) assms(3,4)] by auto
qed

lemma hide_then_heartbeat_witness:
  "\<exists>s t u. hide open_registry (Fin 0) (sample_address ''i'') s = (Inr True, t)
     \<and> canonical (sample_address ''i'') \<notin> set (resolve open_registry (Fin 0) pall True t)
     \<and> heartbeat open_registry (Fin 0) (sample_address ''i'') t = (Inr True, u)
     \<and> canonical (sample_address ''i'') \<in> set (resolve open_registry (Fin 0) pall True u)"
proof -
  obtain v where v: "meta_to_json (default_meta (Fin 0)) = Inr v" using default_meta_json by blast
  define s where "s = r_hset mem_redis registry_hash (to_str (sample_address ''i'')) v empty_mem"
  have "hashes (mem_view s) registry_hash (to_str (sample_address ''i'')) = Some v"
    unfolding s_def mem.abs_hset by simp
  moreover have "can_register (rg_policy open_registry) (rg_principal open_registry) (sample_address ''i'')"
    by (simp add: open_registry_def)
  ultimately show ?thesis
    using hide_then_heartbeat [OF open_registry_on _ sample_valid _ meta_roundtrip [OF v], of s "Fin 0" pall]
    by fastforce
qed

text \<open>C40: A caller the policy refuses changes nothing: register, hide, deregister and heartbeat all raise
  \<open>UnauthorizedRegistrationError\<close> and leave the data of the store (strings, expiries, hashes, sets and
  sorted sets) as it was.\<close>

theorem unauthorized_changes_nothing:
  assumes "registry_on G view" and "\<not> can_register (rg_policy G) (rg_principal G) ad"
  shows "(\<exists>t. register G now ad m mark s = (Inl UnauthorizedRegistrationError, t) \<and> same_data (view t) (view s))
     \<and> (\<exists>t. hide G now ad s = (Inl UnauthorizedRegistrationError, t) \<and> same_data (view t) (view s))
     \<and> (\<exists>t. deregister G now ad s = (Inl UnauthorizedRegistrationError, t) \<and> same_data (view t) (view s))
     \<and> (\<exists>t. heartbeat G now ad s = (Inl UnauthorizedRegistrationError, t) \<and> same_data (view t) (view s))"
  by (intro conjI registry_on.denied_run [OF assms])

theorem unauthorized_changes_nothing_witness:
  "\<exists>t. register (open_registry\<lparr>rg_policy := DenyAllPolicy\<rparr>) (Fin 0) (sample_address ''i'') None True empty_mem
     = (Inl UnauthorizedRegistrationError, t) \<and> same_data (mem_view t) (mem_view empty_mem)"
proof -
  have "registry_on (open_registry\<lparr>rg_policy := DenyAllPolicy\<rparr>) mem_view"
    using mem_registry.registry_on_axioms by (simp add: open_registry_def)
  moreover have "\<not> can_register (rg_policy (open_registry\<lparr>rg_policy := DenyAllPolicy\<rparr>))
      (rg_principal (open_registry\<lparr>rg_policy := DenyAllPolicy\<rparr>)) (sample_address ''i'')" by simp
  ultimately show ?thesis by (rule unauthorized_changes_nothing [THEN conjunct1])
qed

end
