(* ===== verification/AgentBanker.thy ===== *)
theory AgentBanker
  imports WalletTx
begin

text \<open>
  \<open>ahp/economy/agent_banker.py\<close>: wallets seeded when an agent is provisioned and drained when
  it leaves. Every step is a wallet transaction of its own.
\<close>

definition COMMONS_WALLET :: string where "COMMONS_WALLET = ''__commons__''"
definition BROKER_WALLET :: string where "BROKER_WALLET = ''__broker__''"

definition STARTING_FUND_BY_LIFECYCLE :: "(string, pyfloat) dict" where
  "STARTING_FUND_BY_LIFECYCLE =
     [(''session'', Fin 5), (''longterm'', Fin 15), (''ephemeral'', Fin 1), (''stale-ok'', Fin 3)]"

text \<open>\<open>if lifecycle == "session" and host_server_id\<close>: an empty id counts as none.\<close>

definition funding_source_for :: "string \<Rightarrow> string option \<Rightarrow> string" where
  "funding_source_for lifecycle host =
     (case host of
        Some h \<Rightarrow> if lifecycle = ''session'' \<and> h \<noteq> [] then h else COMMONS_WALLET
      | None \<Rightarrow> COMMONS_WALLET)"

definition refund_destination_for :: "string \<Rightarrow> string option \<Rightarrow> string option" where
  "refund_destination_for lifecycle host =
     (if lifecycle = ''session'' then host
      else if lifecycle = ''longterm'' then None
      else if lifecycle = ''ephemeral'' then Some COMMONS_WALLET
      else if lifecycle = ''stale-ok'' then host
      else host)"

definition fund_agent :: "'s redis \<Rightarrow> pyfloat \<Rightarrow> AgentAddress \<Rightarrow> string option \<Rightarrow> pyfloat option \<Rightarrow> ('s, pyfloat) op" where
  "fund_agent R now address host amount =
     (let amount = (case amount of None \<Rightarrow> dict_get STARTING_FUND_BY_LIFECYCLE (a_lifecycle address) INITIAL_FUND
                     | Some a \<Rightarrow> a) in
      if fle amount fzero then sret fzero
      else
        let funder = funding_source_for (a_lifecycle address) host;
            hold_id = ''fund:'' @ to_str address
        in sbind (sreadr (get_state R funder)) (\<lambda>funder_state.
           if flt (available funder_state) amount then sraise InsufficientFundsError
           else sbind (wallet_hold R now funder hold_id amount (''fund agent '' @ to_str address)) (\<lambda>_.
                sbind (settle_against_hold R now funder hold_id amount (''funded agent '' @ to_str address)) (\<lambda>_.
                sbind (topup R now (to_str address) amount (''funded by '' @ funder)) (\<lambda>_.
                sret amount)))))"

definition drain_agent :: "'s redis \<Rightarrow> pyfloat \<Rightarrow> AgentAddress \<Rightarrow> string option \<Rightarrow> ('s, pyfloat) op" where
  "drain_agent R now address host =
     (case refund_destination_for (a_lifecycle address) host of
        None \<Rightarrow> sret fzero
      | Some destination \<Rightarrow>
          sbind (sreadr (get_state R (to_str address))) (\<lambda>st.
          let residual = ws_balance st in
          if fle residual fzero then sret fzero
          else sbind (topup R now destination residual (''residual from agent '' @ to_str address)) (\<lambda>_.
               let hold_id = ''drain:'' @ to_str address in
               sbind (wallet_hold R now (to_str address) hold_id residual (''drain to '' @ destination)) (\<lambda>_.
               sbind (settle_against_hold R now (to_str address) hold_id residual (''drained to '' @ destination)) (\<lambda>_.
               sret residual)))))"

section \<open>Lemmas\<close>

context quiet_redis
begin

lemma fund_moves:
  assumes f: "get_state R (funding_source_for (a_lifecycle ad) host) s = Inr f"
    and a: "get_state R (to_str ad) s = Inr a"
    and ne: "to_str ad \<noteq> funding_source_for (a_lifecycle ad) host"
    and x: "0 < x" "rnd x = x" and av: "\<not> flt (available f) (Fin x)"
    and h: "map_of (ws_holds f) (''fund:'' @ to_str ad) = None"
  shows "\<exists>t f' a'. fund_agent R now ad host (Some (Fin x)) s = (Inr (Fin x), t)
     \<and> get_state R (funding_source_for (a_lifecycle ad) host) t = Inr f' \<and> ws_balance f' = fsub (ws_balance f) (Fin x)
     \<and> ws_holds f' = ws_holds f
     \<and> get_state R (to_str ad) t = Inr a' \<and> ws_balance a' = fadd (ws_balance a) (Fin x)"
proof -
  let ?fn = "funding_source_for (a_lifecycle ad) host" and ?id = "''fund:'' @ to_str ad"
  obtain f1 t1 f2 t2 a3 t3 where t: "wallet_hold R now ?fn ?id (Fin x) (''fund agent '' @ to_str ad) s = (Inr f1, t1)"
    "settle_against_hold R now ?fn ?id (Fin x) (''funded agent '' @ to_str ad) t1 = (Inr f2, t2)"
    "topup R now (to_str ad) (Fin x) (''funded by '' @ ?fn) t2 = (Inr a3, t3)"
    "get_state R ?fn t3 = Inr (trimmed f2)" "ws_balance f2 = fsub (ws_balance f) (Fin x)" "ws_holds f2 = ws_holds f"
    "get_state R (to_str ad) t3 = Inr (trimmed a3)" "ws_balance a3 = fadd (ws_balance a) (Fin x)"
    by (rule transfer [OF f a ne x av h])
  have "fund_agent R now ad host (Some (Fin x)) s = (Inr (Fin x), t3)"
    using x(1) av f t(1-3) by (simp add: fund_agent_def Let_def sbind_run)
  with t(4-8) show ?thesis by (metis trimmed_sel(2,4))
qed

lemma drain_mints:
  assumes a: "get_state R (to_str ad) s = Inr a" and d: "get_state R dest s = Inr d"
    and dest: "refund_destination_for (a_lifecycle ad) host = Some dest" "dest \<noteq> to_str ad"
    and x: "ws_balance a = Fin x" "0 < x" and av: "flt (available a) (Fin x)"
    and h: "map_of (ws_holds a) (''drain:'' @ to_str ad) = None"
  shows "\<exists>t d'. drain_agent R now ad host s = (Inl InsufficientFundsError, t)
     \<and> get_state R (to_str ad) t = Inr a
     \<and> get_state R dest t = Inr d' \<and> ws_balance d' = fadd (ws_balance d) (Fin x)"
proof -
  have p: "\<not> flt (Fin x) fzero" using x by simp
  obtain d1 where d1: "wallet_step now (''residual from agent '' @ to_str ad) (OpCredit (Fin x)) d = Inr d1"
    "ws_balance d1 = fadd (ws_balance d) (Fin x)" using credit_ok [OF p] by blast
  obtain t1 where t1: "wallet_tx R now dest (''residual from agent '' @ to_str ad) (OpCredit (Fin x)) s = (Inr d1, t1)"
    "get_state R dest t1 = Inr (trimmed d1)" "\<And>o'. o' \<noteq> dest \<Longrightarrow> get_state R o' t1 = get_state R o' s"
    using step_ok [OF d d1(1)] by metis
  have a1: "get_state R (to_str ad) t1 = Inr a" using t1(3) dest(2) a by simp
  have "wallet_tx R now (to_str ad) (''drain to '' @ dest) (OpHold (''drain:'' @ to_str ad) (Fin x)) t1
      = (Inl InsufficientFundsError, t1)"
    by (rule step_fails [OF a1 hold_fresh_fails [OF p h av]])
  then have "drain_agent R now ad host s = (Inl InsufficientFundsError, t1)"
    using a x dest(1) t1(1) by (simp add: drain_agent_def Let_def tx_names sbind_run del: wallet_tx.simps)
  then show ?thesis using a1 t1(2) d1(2) by (metis trimmed_sel(2))
qed

end

section \<open>Properties\<close>

text \<open>Funding moves money once: when the funder can pay a positive double amount, \<open>fund_agent\<close> returns it,
  the funder's balance falls by it and the agent's rises by it, and the funder is left with exactly the
  holds it had (no other client writing in between).\<close>

lemma fund_agent_moves_once:
  assumes "quiet_redis R view" and "get_state R (funding_source_for (a_lifecycle ad) host) s = Inr f"
    and "get_state R (to_str ad) s = Inr a" and "to_str ad \<noteq> funding_source_for (a_lifecycle ad) host"
    and "0 < x" "rnd x = x" and "\<not> flt (available f) (Fin x)"
    and "map_of (ws_holds f) (''fund:'' @ to_str ad) = None"
  shows "\<exists>t f' a'. fund_agent R now ad host (Some (Fin x)) s = (Inr (Fin x), t)
     \<and> get_state R (funding_source_for (a_lifecycle ad) host) t = Inr f' \<and> ws_balance f' = fsub (ws_balance f) (Fin x)
     \<and> ws_holds f' = ws_holds f
     \<and> get_state R (to_str ad) t = Inr a' \<and> ws_balance a' = fadd (ws_balance a) (Fin x)"
  using assms by (rule quiet_redis.fund_moves)

definition sample_agent :: AgentAddress where
  "sample_agent = \<lparr>a_org = ''acme'', a_role = ''agent'', a_domain = ''d'', a_subdomain = ''s'', a_accept = ''r'',
     a_lifecycle = ''session'', a_instance = ''i1'', a_params = []\<rparr>"

lemma fresh_state: "get_state mem_redis owner empty_mem = Inr (new_wallet owner)"
  by (simp add: mem.get_state_view empty_mem_def)

lemma sample_name: "to_str sample_agent = ''acme.agent.d.s.r.session.i1''"
  by (simp add: to_str_def sample_agent_def addr_fields_def)

lemma mk_100 [simp]: "mk 100 = Fin 100" "mk 105 = Fin 105" "mk 95 = Fin 95"
  using mk_of_int [of 100] mk_of_int [of 105] mk_of_int [of 95] by simp_all

lemma fund_agent_moves_once_witness:
  "\<exists>t f' a'. fund_agent mem_redis (Fin 0) sample_agent (Some ''server'') (Some (Fin 5)) empty_mem = (Inr (Fin 5), t)
     \<and> get_state mem_redis ''server'' t = Inr f' \<and> ws_balance f' = Fin 95
     \<and> get_state mem_redis (to_str sample_agent) t = Inr a' \<and> ws_balance a' = Fin 105"
proof -
  have src: "funding_source_for (a_lifecycle sample_agent) (Some ''server'') = ''server''"
    by (simp add: funding_source_for_def sample_agent_def)
  have "rnd 5 = 5" using rnd_of_int [of 5] by simp
  then have "\<exists>t f' a'. fund_agent mem_redis (Fin 0) sample_agent (Some ''server'') (Some (Fin 5)) empty_mem = (Inr (Fin 5), t)
     \<and> get_state mem_redis (funding_source_for (a_lifecycle sample_agent) (Some ''server'')) t = Inr f'
     \<and> ws_balance f' = fsub (ws_balance (new_wallet ''server'')) (Fin 5) \<and> ws_holds f' = ws_holds (new_wallet ''server'')
     \<and> get_state mem_redis (to_str sample_agent) t = Inr a'
     \<and> ws_balance a' = fadd (ws_balance (new_wallet (to_str sample_agent))) (Fin 5)"
    by (intro fund_agent_moves_once [OF mem.quiet_redis_axioms])
      (simp_all only: src fresh_state, simp_all add: sample_name new_wallet_def INITIAL_FUND_def available_def)
  then show ?thesis unfolding src by (simp add: new_wallet_def INITIAL_FUND_def) blast
qed

text \<open>Draining an agent that still has credits on hold pays its full balance out and then fails: the
  destination keeps the credited balance, the agent keeps its own, and the caller sees
  \<open>InsufficientFundsError\<close>; the same credits exist twice.\<close>

lemma drain_agent_duplicates_credits:
  assumes "quiet_redis R view" and "get_state R (to_str ad) s = Inr a" and "get_state R dest s = Inr d"
    and "refund_destination_for (a_lifecycle ad) host = Some dest" "dest \<noteq> to_str ad"
    and "ws_balance a = Fin x" "0 < x" and "flt (available a) (Fin x)"
    and "map_of (ws_holds a) (''drain:'' @ to_str ad) = None"
  shows "\<exists>t d'. drain_agent R now ad host s = (Inl InsufficientFundsError, t)
     \<and> get_state R (to_str ad) t = Inr a
     \<and> get_state R dest t = Inr d' \<and> ws_balance d' = fadd (ws_balance d) (Fin x)"
  using assms by (rule quiet_redis.drain_mints)

text \<open>The wallet of an agent with a call in flight.\<close>

definition busy_agent :: WalletState where
  "busy_agent = \<lparr>ws_owner = to_str sample_agent, ws_balance = Fin 100, ws_held_total = Fin 5,
     ws_holds = [(''call'', Fin 5)], ws_history = []\<rparr>"

lemma drain_agent_duplicates_credits_witness:
  "\<exists>s t d'. get_state mem_redis ''server'' s = Inr (new_wallet ''server'')
     \<and> drain_agent mem_redis (Fin 0) sample_agent (Some ''server'') s = (Inl InsufficientFundsError, t)
     \<and> get_state mem_redis (to_str sample_agent) t = Inr busy_agent
     \<and> get_state mem_redis ''server'' t = Inr d' \<and> ws_balance d' = Fin 200"
proof -
  define s where "s = ws_save mem_redis busy_agent empty_mem"
  have own: "ws_owner busy_agent = to_str sample_agent" and tr: "trimmed busy_agent = busy_agent"
    by (simp_all add: busy_agent_def trimmed_def last50_def)
  have a: "get_state mem_redis (to_str sample_agent) s = Inr busy_agent"
    using ws_from_to_json [of busy_agent] by (simp add: mem.get_state_view s_def ws_save_def own tr
      mem.abs_set del: mem_view_sel)
  have "(strs (mem_view s)) (wallet_key ''server'') = None"
    using sample_name by (simp add: s_def ws_save_def mem.abs_set own del: mem_view_sel) (simp add: empty_mem_def)
  then have d: "get_state mem_redis ''server'' s = Inr (new_wallet ''server'')"
    by (simp add: mem.get_state_view del: mem_view_sel)
  have n: "mk 200 = Fin 200" using mk_of_int [of 200] by simp
  have "\<exists>t d'. drain_agent mem_redis (Fin 0) sample_agent (Some ''server'') s = (Inl InsufficientFundsError, t)
     \<and> get_state mem_redis (to_str sample_agent) t = Inr busy_agent
     \<and> get_state mem_redis ''server'' t = Inr d' \<and> ws_balance d' = fadd (ws_balance (new_wallet ''server'')) (Fin 100)"
    by (rule drain_agent_duplicates_credits [OF mem.quiet_redis_axioms a d])
      (simp_all add: refund_destination_for_def sample_agent_def [THEN arg_cong [of _ _ a_lifecycle]]
        sample_name busy_agent_def available_def)
  with d n show ?thesis by (auto simp: new_wallet_def INITIAL_FUND_def)
qed

text \<open>An agent whose wallet has never been written starts far above the documented starting fund: reading an
  unknown owner yields a wallet of 100 credits, so funding it with the default of its lifecycle (5 credits
  for a session agent) leaves it with that much on top of 100.\<close>

lemma fund_agent_default_on_top_of_initial_fund:
  assumes "quiet_redis R view" and "get_state R (funding_source_for (a_lifecycle ad) host) s = Inr f"
    and "strs (view s) (wallet_key (to_str ad)) = None" and "to_str ad \<noteq> funding_source_for (a_lifecycle ad) host"
    and "a_lifecycle ad = ''session''" and "\<not> flt (available f) (Fin 5)"
    and "map_of (ws_holds f) (''fund:'' @ to_str ad) = None"
  shows "\<exists>t a'. fund_agent R now ad host None s = (Inr (Fin 5), t)
     \<and> get_state R (to_str ad) t = Inr a' \<and> ws_balance a' = Fin 105"
proof -
  have a: "get_state R (to_str ad) s = Inr (new_wallet (to_str ad))"
    using assms(3) by (simp add: redis.get_state_view [OF quiet_redis.axioms(1) [OF assms(1)]])
  have "fund_agent R now ad host None = fund_agent R now ad host (Some (Fin 5))"
    using assms(5) by (simp add: fund_agent_def STARTING_FUND_BY_LIFECYCLE_def dict_get_def)
  moreover have "rnd 5 = 5" using rnd_of_int [of 5] by simp
  ultimately show ?thesis
    using quiet_redis.fund_moves [OF assms(1,2) a assms(4) _ _ assms(6,7), of now]
    by (fastforce simp: new_wallet_def INITIAL_FUND_def)
qed

lemma fund_agent_default_on_top_of_initial_fund_witness:
  "\<exists>t a'. fund_agent mem_redis (Fin 0) sample_agent (Some ''server'') None empty_mem = (Inr (Fin 5), t)
     \<and> get_state mem_redis (to_str sample_agent) t = Inr a' \<and> ws_balance a' = Fin 105"
proof (rule fund_agent_default_on_top_of_initial_fund [OF mem.quiet_redis_axioms])
  have src: "funding_source_for (a_lifecycle sample_agent) (Some ''server'') = ''server''"
    by (simp add: funding_source_for_def sample_agent_def)
  show "get_state mem_redis (funding_source_for (a_lifecycle sample_agent) (Some ''server'')) empty_mem
      = Inr (new_wallet ''server'')" by (simp only: src fresh_state)
  show "strs (mem_view empty_mem) (wallet_key (to_str sample_agent)) = None" by (simp add: empty_mem_def)
  show "to_str sample_agent \<noteq> funding_source_for (a_lifecycle sample_agent) (Some ''server'')"
    by (simp only: src sample_name) simp
  show "a_lifecycle sample_agent = ''session''" by (simp add: sample_agent_def)
qed (simp_all add: available_def new_wallet_def INITIAL_FUND_def)

end
