(* ===== verification/Broker.thy ===== *)
theory Broker
  imports Surveys Router Registry AgentBanker
begin

text \<open>
  \<open>ahp/broker/broker.py\<close>: the facade that composes registries, router, wallets, reputation and
  surveys, with the settlement pipeline. \<open>now\<close> is the clock of the call, \<open>stamp\<close> its text,
  \<open>uuid\<close> a fresh identifier, \<open>env k\<close> the float read of an environment variable.
\<close>

section \<open>Composition\<close>

record 's Broker =
  bk_redis :: "'s redis"
  bk_audit :: "'s sink option"
  bk_registry :: "'s registry option"

definition bk_servers :: "'s Broker \<Rightarrow> 's servers" where
  "bk_servers B = \<lparr>sv_redis = bk_redis B, sv_ttl = DEFAULT_HEARTBEAT_TTL\<rparr>"

definition bk_compute :: "'s Broker \<Rightarrow> 's computes" where
  "bk_compute B = \<lparr>cr_redis = bk_redis B, cr_ttl = DEFAULT_HEARTBEAT_TTL\<rparr>"

definition bk_surveys :: "'s Broker \<Rightarrow> 's SurveyQueue" where
  "bk_surveys B = \<lparr>sy_redis = bk_redis B, sy_commons = ''__commons__'', sy_audit = bk_audit B\<rparr>"

definition bk_router :: "'s Broker \<Rightarrow> 's Router" where
  "bk_router B = \<lparr>ro_servers = bk_servers B, ro_compute = bk_compute B, ro_rep = get_reputation (bk_redis B)\<rparr>"

definition bk_emit :: "'s Broker \<Rightarrow> pyfloat \<Rightarrow> string \<Rightarrow> string \<Rightarrow> bool \<Rightarrow> string option \<Rightarrow> (string, pyval) dict \<Rightarrow> 's \<Rightarrow> 's" where
  "bk_emit B now op' target success err extra =
     emit_opt (bk_audit B) \<lparr>ae_op = op', ae_timestamp = now, ae_principal = None, ae_source = None,
       ae_target = Some target, ae_code = None, ae_verb = None, ae_success = success, ae_error = err, ae_extra = extra\<rparr>"

section \<open>Lifecycles\<close>

definition bk_register_server :: "'s Broker \<Rightarrow> pyfloat \<Rightarrow> ServerMeta \<Rightarrow> ('s, unit) op" where
  "bk_register_server B now m =
     sbind (server_register (bk_servers B) m) (\<lambda>_.
     swrite (bk_emit B now ''broker.server.register'' (sm_server_id m) True None
       [(''org'', PStr (sm_org m)), (''base_rate'', PFloat (sm_base_rate m)), (''binding'', PStr (sm_compute_binding m))]))"

definition bk_deregister_server :: "'s Broker \<Rightarrow> pyfloat \<Rightarrow> string \<Rightarrow> 's \<Rightarrow> 's" where
  "bk_deregister_server B now sid s =
     bk_emit B now ''broker.server.deregister'' sid True None [] (server_deregister (bk_servers B) sid s)"

definition not_registered :: "bool \<Rightarrow> string option" where
  "not_registered ok = (if ok then None else Some ''NotRegistered'')"

definition bk_heartbeat_server :: "'s Broker \<Rightarrow> pyfloat \<Rightarrow> string \<Rightarrow> 's \<Rightarrow> bool \<times> 's" where
  "bk_heartbeat_server B now sid s =
     (let (ok, t) = server_heartbeat (bk_servers B) sid s
      in (ok, bk_emit B now ''broker.server.heartbeat'' sid ok (not_registered ok) [] t))"

definition bk_register_provider :: "'s Broker \<Rightarrow> pyfloat \<Rightarrow> string \<Rightarrow> ComputeProvider \<Rightarrow> bool \<Rightarrow> 's \<Rightarrow> 's" where
  "bk_register_provider B now stamp p prove_alive s =
     bk_emit B now ''broker.provider.register'' (cp_provider_id p) True None [(''prove_alive'', PBool prove_alive)]
       (register_provider (bk_compute B) stamp p prove_alive s)"

definition bk_deregister_provider :: "'s Broker \<Rightarrow> pyfloat \<Rightarrow> string \<Rightarrow> bool \<Rightarrow> ('s, unit) op" where
  "bk_deregister_provider B now pid graceful =
     sbind (deregister_provider (bk_compute B) pid graceful) (\<lambda>_.
     swrite (bk_emit B now ''broker.provider.deregister'' pid True None [(''graceful'', PBool graceful)]))"

definition bk_heartbeat_provider :: "'s Broker \<Rightarrow> pyfloat \<Rightarrow> string \<Rightarrow> string \<Rightarrow> 's \<Rightarrow> bool \<times> 's" where
  "bk_heartbeat_provider B now stamp pid s =
     (let (ok, t) = heartbeat_provider (bk_compute B) stamp pid s
      in (ok, bk_emit B now ''broker.provider.heartbeat'' pid ok (not_registered ok) [] t))"

definition bk_register_leaf :: "'s Broker \<Rightarrow> pyfloat \<Rightarrow> string \<Rightarrow> MenuLeaf \<Rightarrow> 's \<Rightarrow> 's" where
  "bk_register_leaf B now stamp l s =
     bk_emit B now ''broker.leaf.register'' (leaf_address l) True None
       [(''provider'', PStr (ml_provider_id l)), (''tier'', PStr (ml_tier l)), (''model'', PStr (ml_model l)),
        (''rate_per_1k_chars'', PFloat (ml_rate_per_1k_chars l)), (''latency_p95_ms'', PFloat (ml_latency_p95_ms l))]
       (register_leaf (bk_compute B) stamp l s)"

fun outage_loop :: "'s Broker \<Rightarrow> pyfloat \<Rightarrow> string list \<Rightarrow> string list \<Rightarrow> ('s, string list) op" where
  "outage_loop B now [] hit s = (Inr (rev hit), s)"
| "outage_loop B now (pid # pids) hit s =
     (let (down, t) = detect_outage (bk_compute B) pid s in
      if \<not> down then outage_loop B now pids hit t
      else sbind (record_outcome (bk_redis B) pid ''timeout'' fzero 0 0) (\<lambda>_ u.
             outage_loop B now pids (pid # hit)
               (bk_emit B now ''broker.provider.outage'' pid False (Some ''UnplannedDeregister'') [] u)) t)"

definition check_compute_outages :: "'s Broker \<Rightarrow> pyfloat \<Rightarrow> ('s, string list) op" where
  "check_compute_outages B now s = outage_loop B now (map cp_provider_id (list_providers (bk_compute B) s)) [] s"

section \<open>Routing and wallets\<close>

definition bk_resolve :: "'s Broker \<Rightarrow> (int \<Rightarrow> pyfloat) \<Rightarrow> (int option \<Rightarrow> nat \<Rightarrow> pyfloat) \<Rightarrow> pyfloat \<Rightarrow>
    string \<Rightarrow> string \<Rightarrow> int \<Rightarrow> int \<Rightarrow> RoutingPreferences \<Rightarrow> ('s, RoutingDecision) op" where
  "bk_resolve B = resolve_route (bk_router B)"

definition bk_hold :: "'s Broker \<Rightarrow> pyfloat \<Rightarrow> string \<Rightarrow> pyfloat \<Rightarrow> string \<Rightarrow> string \<Rightarrow> ('s, unit) op" where
  "bk_hold B now caller amount hold_id reason =
     sbind (wallet_hold (bk_redis B) now caller hold_id amount reason) (\<lambda>_. sret ())"

definition bk_refund :: "'s Broker \<Rightarrow> pyfloat \<Rightarrow> string \<Rightarrow> string \<Rightarrow> string \<Rightarrow> ('s, unit) op" where
  "bk_refund B now caller hold_id reason = sbind (wallet_refund (bk_redis B) now caller hold_id reason) (\<lambda>_. sret ())"

text \<open>\<open>if share > 0: await wallet.topup(share)\<close>.\<close>

definition pay_share :: "'s redis \<Rightarrow> pyfloat \<Rightarrow> string \<Rightarrow> pyfloat \<Rightarrow> string \<Rightarrow> ('s, unit) op" where
  "pay_share R now owner amount reason =
     (if flt fzero amount then sbind (topup R now owner amount reason) (\<lambda>_. sret ()) else sret ())"

definition bk_settle :: "'s Broker \<Rightarrow> pyfloat \<Rightarrow> string \<Rightarrow> string \<Rightarrow> Settlement \<Rightarrow> string \<Rightarrow> string option \<Rightarrow> ('s, unit) op" where
  "bk_settle B now caller hold_id st server_owner compute_provider_id =
     (let R = bk_redis B;
          target = (case compute_provider_id of Some c \<Rightarrow> if c \<noteq> [] then c else server_owner | None \<Rightarrow> server_owner) in
      sbind (settle_against_hold R now caller hold_id (st_pre_tax st) (''settle hold '' @ hold_id)) (\<lambda>_.
      sbind (pay_share R now server_owner (st_to_server st) (''server share of '' @ hold_id)) (\<lambda>_.
      sbind (pay_share R now target (st_to_compute st) (''compute share of '' @ hold_id)) (\<lambda>_.
      sbind (pay_share R now BROKER_WALLET (st_to_broker st) (''broker tax '' @ hold_id)) (\<lambda>_.
      pay_share R now COMMONS_WALLET (st_to_commons st) (''commons tax '' @ hold_id))))))"

section \<open>Surveys\<close>

definition request_survey ::
  "'s Broker \<Rightarrow> string \<Rightarrow> pyfloat \<Rightarrow> string \<Rightarrow> string \<Rightarrow> string \<Rightarrow> string \<Rightarrow> string \<Rightarrow> pyfloat \<Rightarrow> pyfloat \<Rightarrow> pyfloat \<Rightarrow>
   ('s, SurveyRequest option) op" where
  "request_survey B uuid now kind target_server surveyed_actor recipe settlement_id reward delay_seconds ttl_seconds =
     sbind (sreadr (server_get (bk_servers B) now target_server)) (\<lambda>meta.
     if (case meta of None \<Rightarrow> False | Some m \<Rightarrow> \<not> sm_survey_opt_in m) then sret None
     else
       let q = (new_survey_request uuid now kind target_server surveyed_actor recipe settlement_id reward delay_seconds ttl_seconds)
           \<lparr>sq_consent_csat := (case meta of None \<Rightarrow> True | Some m \<Rightarrow> sm_csat_routing_opt_in m),
             sq_consent_training := (case meta of None \<Rightarrow> False | Some m \<Rightarrow> sm_training_data_opt_in m)\<rparr>
       in sbind (\<lambda>s. let (_, t) = enqueue (bk_surveys B) now q s in (Inr (), t)) (\<lambda>_. sret (Some q)))"

definition submit_survey_response :: "'s Broker \<Rightarrow> pyfloat \<Rightarrow> SurveyResponse \<Rightarrow> ('s, bool) op" where
  "submit_survey_response B now p = submit_response (bk_surveys B) now p (Some (bk_redis B))"

definition DEFAULT_SURVEY_STAKES_THRESHOLD :: pyfloat where "DEFAULT_SURVEY_STAKES_THRESHOLD = Fin 5"
definition DEFAULT_SURVEY_REWARD_RATE :: pyfloat where "DEFAULT_SURVEY_REWARD_RATE = flit (5/100)"

definition survey_knobs :: "(string \<Rightarrow> pyfloat res option) \<Rightarrow> pyfloat \<times> pyfloat" where
  "survey_knobs env =
     (case rbind (case env ''AHP_SURVEY_STAKES_THRESHOLD'' of None \<Rightarrow> Inr DEFAULT_SURVEY_STAKES_THRESHOLD | Some r \<Rightarrow> r) (\<lambda>th.
           rbind (case env ''AHP_SURVEY_REWARD_RATE'' of None \<Rightarrow> Inr DEFAULT_SURVEY_REWARD_RATE | Some r \<Rightarrow> r) (\<lambda>rate.
             Inr (th, rate))) of
        Inl _ \<Rightarrow> (DEFAULT_SURVEY_STAKES_THRESHOLD, DEFAULT_SURVEY_REWARD_RATE)
      | Inr k \<Rightarrow> k)"

text \<open>\<open>_maybe_request_survey\<close>: an enqueue that fails is logged and swallowed.\<close>

definition maybe_request_survey ::
  "'s Broker \<Rightarrow> (string \<Rightarrow> pyfloat res option) \<Rightarrow> string \<Rightarrow> pyfloat \<Rightarrow> string \<Rightarrow> ServerMeta \<Rightarrow> Settlement \<Rightarrow> string \<Rightarrow> ('s, unit) op" where
  "maybe_request_survey B env uuid now caller server st hold_id =
     (let (threshold, rate) = survey_knobs env in
      if flt (st_pre_tax st) threshold then sret ()
      else scatch (sbind (request_survey B uuid now ''post_settlement'' (sm_server_id server) caller ''post_settlement:csat''
                hold_id (fround (fmul (st_pre_tax st) rate) 6) (Fin 300) (Fin 86400)) (\<lambda>_. sret ())) (\<lambda>_. sret ()))"

section \<open>The settlement pipeline\<close>

record Call =
  ca_caller :: string
  ca_hold_id :: string
  ca_server :: ServerMeta
  ca_leaf :: "MenuLeaf option"
  ca_response_chars :: int
  ca_max_response_chars :: int
  ca_actual_latency_ms :: pyfloat
  ca_completed_with_caller :: int
  ca_tier_verdict :: string
  ca_responder :: "AgentAddress option"

definition settlement_inputs :: "Call \<Rightarrow> ReputationEntry \<Rightarrow> SettlementInputs" where
  "settlement_inputs c rep =
     \<lparr>si_base_rate = sm_base_rate (ca_server c),
       si_tier = (case ca_leaf c of None \<Rightarrow> ''small'' | Some l \<Rightarrow> ml_tier l),
       si_response_chars = ca_response_chars c, si_max_response_chars = ca_max_response_chars c,
       si_actual_latency_ms = ca_actual_latency_ms c,
       si_leaf_rate = (case ca_leaf c of None \<Rightarrow> fzero | Some l \<Rightarrow> ml_rate_per_1k_chars l),
       si_completed_with_caller = ca_completed_with_caller c, si_server_reputation = re_reputation rep,
       si_server_avg_overage = re_avg_overage rep, si_tier_verdict = ca_tier_verdict c\<rparr>"

definition call_outcome :: "Call \<Rightarrow> string" where
  "call_outcome c = (if ca_tier_verdict c = ''sub_tier'' then ''sub_tier'' else ''accepted'')"

text \<open>The nudge of the responding agent's own reputation; a failure is logged and swallowed.\<close>

definition nudge_responder :: "'s Broker \<Rightarrow> pyfloat \<Rightarrow> Call \<Rightarrow> ('s, unit) op" where
  "nudge_responder B now c =
     (case (ca_responder c, bk_registry B) of
        (Some responder, Some G) \<Rightarrow>
          scatch (sbind (update_reputation G now responder
              (if call_outcome c = ''accepted'' then REP_REWARD_SUCCESS else fneg REP_PENALTY_FAILURE)) (\<lambda>_. sret ()))
            (\<lambda>_. sret ())
      | _ \<Rightarrow> sret ())"

definition calculate_and_settle ::
  "'s Broker \<Rightarrow> (int \<Rightarrow> pyfloat) \<Rightarrow> (string \<Rightarrow> pyfloat res option) \<Rightarrow> string \<Rightarrow> pyfloat \<Rightarrow> Call \<Rightarrow> ('s, Settlement) op" where
  "calculate_and_settle B log10 env uuid now c =
     sbind (sreadr (current_reputation (bk_redis B) (sm_server_id (ca_server c)))) (\<lambda>rep.
     sbind (slift (settle_payment log10 (settlement_inputs c rep))) (\<lambda>st.
     sbind (bk_settle B now (ca_caller c) (ca_hold_id c) st (sm_server_id (ca_server c)) (map_option ml_provider_id (ca_leaf c))) (\<lambda>_.
     sbind (record_outcome (bk_redis B) (sm_server_id (ca_server c)) (call_outcome c) (ca_actual_latency_ms c)
              (ca_response_chars c) (ca_max_response_chars c)) (\<lambda>_.
     sbind (nudge_responder B now c) (\<lambda>_.
     sbind (swrite (bk_emit B now ''broker.settlement'' (sm_server_id (ca_server c)) True None
        [(''caller'', PStr (ca_caller c)), (''hold_id'', PStr (ca_hold_id c)),
         (''leaf'', opt_str (map_option leaf_address (ca_leaf c))),
         (''pre_tax'', PFloat (fround (st_pre_tax st) 6)), (''to_server'', PFloat (fround (st_to_server st) 6)),
         (''to_compute'', PFloat (fround (st_to_compute st) 6)), (''to_broker'', PFloat (fround (st_to_broker st) 6)),
         (''to_commons'', PFloat (fround (st_to_commons st) 6)), (''effective_chars'', PInt (st_effective_chars st)),
         (''actual_latency_ms'', PFloat (fround (ca_actual_latency_ms c) 2)),
         (''tier_verdict'', PStr (ca_tier_verdict c))])) (\<lambda>_.
     sbind (maybe_request_survey B env uuid now (ca_caller c) (ca_server c) st (ca_hold_id c)) (\<lambda>_.
     sret st)))))))"

section \<open>What a settlement moves\<close>

text \<open>
  The specification of the payout: balances by owner, the debit of the caller, then the
  positive shares in order, whatever wallets coincide.
\<close>

definition balances :: "'s redis \<Rightarrow> 's \<Rightarrow> string \<Rightarrow> pyfloat" where
  "balances R s owner = (case get_state R owner s of Inr st \<Rightarrow> ws_balance st | Inl _ \<Rightarrow> NaN)"

definition holds_of :: "'s redis \<Rightarrow> 's \<Rightarrow> string \<Rightarrow> (string, pyfloat) dict" where
  "holds_of R s owner = (case get_state R owner s of Inr st \<Rightarrow> ws_holds st | Inl _ \<Rightarrow> [])"

definition wallets_readable :: "'s redis \<Rightarrow> 's \<Rightarrow> bool" where
  "wallets_readable R s \<longleftrightarrow> (\<forall>owner. \<exists>st. get_state R owner s = Inr st)"

fun credit_all :: "(string \<times> pyfloat) list \<Rightarrow> (string \<Rightarrow> pyfloat) \<Rightarrow> string \<Rightarrow> pyfloat" where
  "credit_all [] b = b"
| "credit_all ((owner, a) # cs) b = credit_all cs (if flt fzero a then b(owner := fadd (b owner) a) else b)"

definition payout :: "Settlement \<Rightarrow> string \<Rightarrow> string option \<Rightarrow> (string \<times> pyfloat) list" where
  "payout st server provider =
     [(server, st_to_server st),
      (case provider of Some c \<Rightarrow> if c \<noteq> [] then c else server | None \<Rightarrow> server, st_to_compute st),
      (BROKER_WALLET, st_to_broker st), (COMMONS_WALLET, st_to_commons st)]"

lemma positive_not_negative: "flt fzero a \<Longrightarrow> \<not> flt a fzero"
  by (cases a) auto

context quiet_redis
begin

lemma balances_step:
  assumes "get_state R owner s = Inr st" "wallet_step now r x st = Inr st'" "wallets_readable R s"
  obtains t where "wallet_tx R now owner r x s = (Inr st', t)" "wallets_readable R t"
    "balances R t = (balances R s)(owner := ws_balance st')" "holds_of R t = (holds_of R s)(owner := ws_holds st')"
    "\<forall>k. \<not> money_key k \<longrightarrow> same_key k (abs t) (abs s)"
proof -
  obtain t where t: "wallet_tx R now owner r x s = (Inr st', t)" "get_state R owner t = Inr (trimmed st')"
    "\<forall>o'. o' \<noteq> owner \<longrightarrow> get_state R o' t = get_state R o' s" "\<forall>k. \<not> money_key k \<longrightarrow> same_key k (abs t) (abs s)"
    by (rule step_ok [OF assms(1,2)])
  have e: "get_state R o' t = (if o' = owner then Inr (trimmed st') else get_state R o' s)" for o'
    using t(2,3) by simp
  have "\<exists>st. get_state R o' t = Inr st" for o'
    using assms(3) by (cases "o' = owner") (simp_all only: e wallets_readable_def simp_thms if_True if_False, blast)
  then have "wallets_readable R t" unfolding wallets_readable_def by blast
  moreover have "balances R t = (balances R s)(owner := ws_balance st')" "holds_of R t = (holds_of R s)(owner := ws_holds st')"
    by (rule ext, simp add: balances_def holds_of_def e)+
  ultimately show thesis by (intro that [OF t(1)] t(4))
qed

lemma pay_share_run:
  assumes "wallets_readable R s"
  obtains t where "pay_share R now owner amount r s = (Inr (), t)" "wallets_readable R t"
    "balances R t = credit_all [(owner, amount)] (balances R s)" "holds_of R t = holds_of R s"
    "\<forall>k. \<not> money_key k \<longrightarrow> same_key k (abs t) (abs s)"
proof (cases "flt fzero amount")
  case False
  then show thesis using that [of s] assms by (simp add: pay_share_def)
next
  case True
  obtain st where st: "get_state R owner s = Inr st" using assms by (auto simp: wallets_readable_def)
  obtain st' where st': "wallet_step now r (OpCredit amount) st = Inr st'" "ws_balance st' = fadd (ws_balance st) amount"
    "ws_holds st' = ws_holds st" using credit_ok [OF positive_not_negative [OF True]] by blast
  obtain t where t: "wallet_tx R now owner r (OpCredit amount) s = (Inr st', t)" "wallets_readable R t"
    "balances R t = (balances R s)(owner := ws_balance st')" "holds_of R t = (holds_of R s)(owner := ws_holds st')"
    "\<forall>k. \<not> money_key k \<longrightarrow> same_key k (abs t) (abs s)" by (rule balances_step [OF st st'(1) assms])
  have "pay_share R now owner amount r s = (Inr (), t)" using True t(1) by (simp add: pay_share_def sbind_run)
  moreover have "balances R t = credit_all [(owner, amount)] (balances R s)" "holds_of R t = holds_of R s"
    using True by (simp_all add: t(3,4) st'(2,3)) (simp_all add: balances_def holds_of_def st fun_upd_idem_iff)
  ultimately show thesis using that t(2,5) by blast
qed

end

lemma credit_all_Cons: "credit_all (c # cs) b = credit_all cs (credit_all [c] b)"
  by (cases c) simp

context quiet_redis
begin

lemma settle_moves:
  assumes R: "bk_redis B = R" and ok: "wallets_readable R s"
    and h: "map_of (holds_of R s caller) hold_id = Some h"
    and d: "\<not> flt (st_pre_tax st) fzero" "\<not> flt (fadd h (flit (1 / 1000000000))) (st_pre_tax st)"
  obtains t where "bk_settle B now caller hold_id st server provider s = (Inr (), t)" "wallets_readable R t"
    "balances R t = credit_all (payout st server provider)
       ((balances R s)(caller := fsub (balances R s caller) (st_pre_tax st)))"
    "holds_of R t = (holds_of R s)(caller := AList.delete hold_id (holds_of R s caller))"
    "\<forall>k. \<not> money_key k \<longrightarrow> same_key k (abs t) (abs s)"
proof -
  obtain cs where cs: "get_state R caller s = Inr cs" using ok by (auto simp: wallets_readable_def)
  then have h': "map_of (ws_holds cs) hold_id = Some h" using h by (simp add: holds_of_def)
  obtain c1 where c1: "wallet_step now (''settle hold '' @ hold_id) (OpRelease hold_id (st_pre_tax st)) cs = Inr c1"
    "ws_balance c1 = fsub (ws_balance cs) (st_pre_tax st)" "ws_holds c1 = AList.delete hold_id (ws_holds cs)"
    using release_ok [OF d(1) h' d(2)] by blast
  obtain t0 where t0: "wallet_tx R now caller (''settle hold '' @ hold_id) (OpRelease hold_id (st_pre_tax st)) s = (Inr c1, t0)"
    "wallets_readable R t0" "balances R t0 = (balances R s)(caller := ws_balance c1)"
    "holds_of R t0 = (holds_of R s)(caller := ws_holds c1)" "\<forall>k. \<not> money_key k \<longrightarrow> same_key k (abs t0) (abs s)"
    by (rule balances_step [OF cs c1(1) ok])
  define target where "target = (case provider of Some c \<Rightarrow> if c \<noteq> [] then c else server | None \<Rightarrow> server)"
  obtain t1 where t1: "pay_share R now server (st_to_server st) (''server share of '' @ hold_id) t0 = (Inr (), t1)" "wallets_readable R t1"
    "balances R t1 = credit_all [(server, st_to_server st)] (balances R t0)" "holds_of R t1 = holds_of R t0"
    "\<forall>k. \<not> money_key k \<longrightarrow> same_key k (abs t1) (abs t0)" by (rule pay_share_run [OF t0(2)])
  obtain t2 where t2: "pay_share R now target (st_to_compute st) (''compute share of '' @ hold_id) t1 = (Inr (), t2)" "wallets_readable R t2"
    "balances R t2 = credit_all [(target, st_to_compute st)] (balances R t1)" "holds_of R t2 = holds_of R t1"
    "\<forall>k. \<not> money_key k \<longrightarrow> same_key k (abs t2) (abs t1)" by (rule pay_share_run [OF t1(2)])
  obtain t3 where t3: "pay_share R now BROKER_WALLET (st_to_broker st) (''broker tax '' @ hold_id) t2 = (Inr (), t3)" "wallets_readable R t3"
    "balances R t3 = credit_all [(BROKER_WALLET, st_to_broker st)] (balances R t2)" "holds_of R t3 = holds_of R t2"
    "\<forall>k. \<not> money_key k \<longrightarrow> same_key k (abs t3) (abs t2)" by (rule pay_share_run [OF t2(2)])
  obtain t4 where t4: "pay_share R now COMMONS_WALLET (st_to_commons st) (''commons tax '' @ hold_id) t3 = (Inr (), t4)" "wallets_readable R t4"
    "balances R t4 = credit_all [(COMMONS_WALLET, st_to_commons st)] (balances R t3)" "holds_of R t4 = holds_of R t3"
    "\<forall>k. \<not> money_key k \<longrightarrow> same_key k (abs t4) (abs t3)" by (rule pay_share_run [OF t3(2)])
  have "bk_settle B now caller hold_id st server provider s = (Inr (), t4)"
    unfolding bk_settle_def R Let_def target_def [symmetric] tx_names
    by (simp only: sbind_def t0(1) t1(1) t2(1) t3(1) t4(1) prod.case sum.case)
  moreover have "balances R t4 = credit_all (payout st server provider)
       ((balances R s)(caller := fsub (balances R s caller) (st_pre_tax st)))"
    unfolding payout_def target_def [symmetric] credit_all_Cons [of _ "_ # _"] t4(3) t3(3) t2(3) t1(3) t0(3)
    by (simp only: c1(2)) (simp add: balances_def cs)
  moreover have "holds_of R t4 = (holds_of R s)(caller := AList.delete hold_id (holds_of R s caller))"
    by (simp add: t4(4) t3(4) t2(4) t1(4) t0(4) c1(3)) (simp add: holds_of_def cs)
  moreover have "\<forall>k. \<not> money_key k \<longrightarrow> same_key k (abs t4) (abs s)"
    using t0(5) t1(5) t2(5) t3(5) t4(5) by (simp add: same_key_def)
  ultimately show thesis using that t4(2) by blast
qed

text \<open>A debit that is refused changes nothing.\<close>

lemma settle_refused:
  assumes "bk_redis B = R" "get_state R caller s = Inr cs"
    "wallet_step now (''settle hold '' @ hold_id) (OpRelease hold_id (st_pre_tax st)) cs = Inl e"
  shows "bk_settle B now caller hold_id st server provider s = (Inl e, s)"
  unfolding bk_settle_def assms(1) Let_def tx_names by (rule sbind_run(2)) (rule step_fails [OF assms(2,3)])

end

section \<open>The pipeline\<close>

locale broker_on = quiet_redis "bk_redis B" abs for B :: "'s Broker" and abs :: "'s \<Rightarrow> view" +
  assumes sink: "sink_ok abs (bk_audit B)"
    and wired: "bk_registry B = Some G \<Longrightarrow> rg_redis G = bk_redis B \<and> sink_ok abs (rg_audit G)"
begin

lemma bk_emit_strs [simp]: "strs (abs (bk_emit B now op' target ok err extra s)) = strs (abs s)"
  unfolding bk_emit_def by (rule emit_opt_view(1) [OF sink])

lemma update_reputation_strs:
  assumes "bk_registry B = Some G" "update_reputation G now a delta s = (r, t)"
  shows "strs (abs t) = strs (abs s)"
proof -
  have G: "rg_redis G = bk_redis B" and e: "strs (abs (rg_emit G now op' a ok err u)) = strs (abs u)" for op' a ok err u
    using wired [OF assms(1)] by (auto simp: rg_emit_def intro: emit_opt_view(1))
  have loop: "update_reputation_loop (Suc n) G now a delta s = (r, t) \<Longrightarrow> strs (abs t) = strs (abs s)" for n
    by (auto simp: G e split: option.splits sum.splits)
  have "(8 :: nat) = Suc 7" by simp
  then show ?thesis using loop [of 7] assms(2) by (simp only: update_reputation_def)
qed

lemma nudge_frame:
  assumes "nudge_responder B now c s = (r, t)" shows "r = Inr () \<and> strs (abs t) = strs (abs s)"
proof (cases "\<exists>a G. ca_responder c = Some a \<and> bk_registry B = Some G")
  case False
  then show ?thesis using assms by (auto simp: nudge_responder_def split: option.splits)
next
  case True
  then obtain a G where w: "ca_responder c = Some a" "bk_registry B = Some G" by blast
  define d where "d = (if call_outcome c = ''accepted'' then REP_REWARD_SUCCESS else fneg REP_PENALTY_FAILURE)"
  obtain r' u where u: "update_reputation G now a d s = (r', u)" by fastforce
  have "r = Inr () \<and> t = u"
    using assms u by (cases r') (simp_all add: nudge_responder_def w d_def [symmetric] scatch_def sbind_def)
  then show ?thesis using update_reputation_strs [OF w(2) u] by simp
qed

lemma enqueue_frame:
  assumes "k \<notin> range survey_request_key" "k \<noteq> SURVEY_QUEUE_KEY"
  shows "strs (abs (snd (enqueue (bk_surveys B) now q s))) k = strs (abs s) k"
  using assms emit_opt_view(1) [OF sink]
  by (auto simp: enqueue_def bk_surveys_def setnx sy_emit_def Let_def)

lemma maybe_survey_frame:
  assumes "maybe_request_survey B env uuid now caller srv st hold_id s = (r, t)"
  shows "r = Inr () \<and> (\<forall>k. k \<notin> range survey_request_key \<longrightarrow> k \<noteq> SURVEY_QUEUE_KEY \<longrightarrow> strs (abs t) k = strs (abs s) k)"
proof -
  obtain th rate where k: "survey_knobs env = (th, rate)" by fastforce
  show ?thesis
  proof (cases "flt (st_pre_tax st) th")
    case True
    then show ?thesis using assms by (simp add: maybe_request_survey_def k)
  next
    case False
    obtain r' u where u: "request_survey B uuid now ''post_settlement'' (sm_server_id srv) caller ''post_settlement:csat''
        hold_id (fround (fmul (st_pre_tax st) rate) 6) (Fin 300) (Fin 86400) s = (r', u)" by fastforce
    have "r = Inr () \<and> t = u"
      using assms False u by (cases r') (simp_all add: maybe_request_survey_def k scatch_def sbind_def)
    moreover have "strs (abs u) k = strs (abs s) k" if "k \<notin> range survey_request_key" "k \<noteq> SURVEY_QUEUE_KEY" for k
      using u enqueue_frame [OF that]
      by (auto simp: request_survey_def sbind_def Let_def split: sum.splits option.splits if_splits prod.splits) (metis snd_conv)+
    ultimately show ?thesis by blast
  qed
qed

lemma settle_call:
  assumes ok: "wallets_readable (bk_redis B) s"
    and rep: "current_reputation (bk_redis B) (sm_server_id (ca_server c)) s = Inr e" "re_owner e = sm_server_id (ca_server c)"
    and st: "settle_payment log10 (settlement_inputs c e) = Inr st"
    and h: "map_of (holds_of (bk_redis B) s (ca_caller c)) (ca_hold_id c) = Some h"
    and d: "\<not> flt (st_pre_tax st) fzero" "\<not> flt (fadd h (flit (1 / 1000000000))) (st_pre_tax st)"
    and ov: "0 < ca_max_response_chars c" "update_avg_overage (re_avg_overage e) (ca_response_chars c) (ca_max_response_chars c) LAMBDA_AVG_OVERAGE = Inr ov"
  shows "\<exists>t. calculate_and_settle B log10 env uuid now c s = (Inr st, t)
     \<and> balances (bk_redis B) t = credit_all (payout st (sm_server_id (ca_server c)) (map_option ml_provider_id (ca_leaf c)))
          ((balances (bk_redis B) s)(ca_caller c := fsub (balances (bk_redis B) s (ca_caller c)) (st_pre_tax st)))
     \<and> holds_of (bk_redis B) t = (holds_of (bk_redis B) s)(ca_caller c := AList.delete (ca_hold_id c) (holds_of (bk_redis B) s (ca_caller c)))
     \<and> get_reputation (bk_redis B) (sm_server_id (ca_server c)) t
         = Inr (Some ((apply_outcome e (call_outcome c) (ca_actual_latency_ms c))\<lparr>re_avg_overage := ov\<rparr>))"
proof -
  let ?R = "bk_redis B" and ?sid = "sm_server_id (ca_server c)"
  let ?e = "(apply_outcome e (call_outcome c) (ca_actual_latency_ms c))\<lparr>re_avg_overage := ov\<rparr>"
  obtain t1 where t1: "bk_settle B now (ca_caller c) (ca_hold_id c) st ?sid (map_option ml_provider_id (ca_leaf c)) s = (Inr (), t1)"
    "balances ?R t1 = credit_all (payout st ?sid (map_option ml_provider_id (ca_leaf c)))
          ((balances ?R s)(ca_caller c := fsub (balances ?R s (ca_caller c)) (st_pre_tax st)))"
    "holds_of ?R t1 = (holds_of ?R s)(ca_caller c := AList.delete (ca_hold_id c) (holds_of ?R s (ca_caller c)))"
    "\<forall>k. \<not> money_key k \<longrightarrow> same_key k (abs t1) (abs s)"
    by (rule settle_moves [OF refl ok h d])
  have "strs (abs t1) (reputation_key ?sid) = strs (abs s) (reputation_key ?sid)"
    using t1(4) by (simp add: same_key_def)
  then have cr: "current_reputation ?R ?sid t1 = Inr e" using rep(1) current_reputation_cong by metis
  have av: "re_avg_overage (apply_outcome e o' l) = re_avg_overage e" for o' l by (simp add: apply_outcome_def)
  have "(if 0 < ca_max_response_chars c then update_avg_overage (re_avg_overage (apply_outcome e (call_outcome c) (ca_actual_latency_ms c)))
      (ca_response_chars c) (ca_max_response_chars c) LAMBDA_AVG_OVERAGE
      else Inr (re_avg_overage (apply_outcome e (call_outcome c) (ca_actual_latency_ms c)))) = Inr ov" using ov by (simp only: av if_True)
  from record_outcome_run [OF cr rep(2) this] obtain t2 where t2:
    "record_outcome ?R ?sid (call_outcome c) (ca_actual_latency_ms c) (ca_response_chars c) (ca_max_response_chars c) t1 = (Inr ?e, t2)"
    "get_reputation ?R ?sid t2 = Inr (Some ?e)" "\<forall>k. k \<noteq> reputation_key ?sid \<longrightarrow> strs (abs t2) k = strs (abs t1) k" by blast
  obtain r3 t3 where t3: "nudge_responder B now c t2 = (r3, t3)" by fastforce
  note n = nudge_frame [OF t3]
  define t4 where "t4 = bk_emit B now ''broker.settlement'' ?sid True None
        [(''caller'', PStr (ca_caller c)), (''hold_id'', PStr (ca_hold_id c)),
         (''leaf'', opt_str (map_option leaf_address (ca_leaf c))),
         (''pre_tax'', PFloat (fround (st_pre_tax st) 6)), (''to_server'', PFloat (fround (st_to_server st) 6)),
         (''to_compute'', PFloat (fround (st_to_compute st) 6)), (''to_broker'', PFloat (fround (st_to_broker st) 6)),
         (''to_commons'', PFloat (fround (st_to_commons st) 6)), (''effective_chars'', PInt (st_effective_chars st)),
         (''actual_latency_ms'', PFloat (fround (ca_actual_latency_ms c) 2)),
         (''tier_verdict'', PStr (ca_tier_verdict c))] t3"
  obtain r5 t5 where t5: "maybe_request_survey B env uuid now (ca_caller c) (ca_server c) st (ca_hold_id c) t4 = (r5, t5)" by fastforce
  note m = maybe_survey_frame [OF t5]
  have run: "calculate_and_settle B log10 env uuid now c s = (Inr st, t5)"
    using n m unfolding calculate_and_settle_def sbind_def
    by (simp only: sop_simps rep(1) st t1(1) t2(1) t3 t4_def [symmetric] t5 prod.case sum.case)
  have s5: "strs (abs t5) k = strs (abs t2) k" if "k \<notin> range survey_request_key" "k \<noteq> SURVEY_QUEUE_KEY" for k
    using m n that by (simp add: t4_def)
  have w: "strs (abs t5) (wallet_key o') = strs (abs t1) (wallet_key o')" for o'
  proof -
    have "wallet_key o' \<notin> range survey_request_key" by auto
    then show ?thesis using s5 [of "wallet_key o'"] t2(3) [THEN spec, of "wallet_key o'"] by simp
  qed
  have "get_state ?R o' t5 = get_state ?R o' t1" for o' by (rule get_state_cong [OF w])
  then have b: "balances ?R t5 = balances ?R t1" "holds_of ?R t5 = holds_of ?R t1"
    by (simp_all add: balances_def [abs_def] holds_of_def [abs_def])
  have "strs (abs t5) (reputation_key ?sid) = strs (abs t2) (reputation_key ?sid)" by (rule s5) auto
  then have "get_reputation ?R ?sid t5 = Inr (Some ?e)" using t2(2) get_reputation_cong by metis
  with run b t1(2,3) show ?thesis by metis
qed

end

context broker_on
begin

text \<open>A settlement whose debit the hold does not cover is refused before anything is written.\<close>

lemma settle_call_refused:
  assumes ok: "wallets_readable (bk_redis B) s"
    and rep: "current_reputation (bk_redis B) (sm_server_id (ca_server c)) s = Inr e"
    and st: "settle_payment log10 (settlement_inputs c e) = Inr st"
    and h: "map_of (holds_of (bk_redis B) s (ca_caller c)) (ca_hold_id c) = Some h"
    and d: "\<not> flt (st_pre_tax st) fzero" "flt (fadd h (flit (1 / 1000000000))) (st_pre_tax st)"
  shows "calculate_and_settle B log10 env uuid now c s = (Inl InsufficientFundsError, s)"
proof -
  obtain cs where cs: "get_state (bk_redis B) (ca_caller c) s = Inr cs" using ok by (auto simp: wallets_readable_def)
  then have "map_of (ws_holds cs) (ca_hold_id c) = Some h" using h by (simp add: holds_of_def)
  then have "wallet_step now (''settle hold '' @ ca_hold_id c) (OpRelease (ca_hold_id c) (st_pre_tax st)) cs = Inl InsufficientFundsError"
    using d by (simp add: apply_release_def)
  from settle_refused [OF refl cs this]
  show ?thesis unfolding calculate_and_settle_def sbind_def by (simp only: sop_simps rep st prod.case sum.case)
qed

text \<open>The sweep only reports what the provider hash lists.\<close>

lemma outage_loop_subset:
  "outage_loop B now pids hit s = (Inr out, t) \<Longrightarrow> set out \<subseteq> set hit \<union> set pids"
proof (induction pids arbitrary: hit s)
  case (Cons p ps)
  obtain down u where d: "detect_outage (bk_compute B) p s = (down, u)" by fastforce
  show ?case
  proof (cases down)
    case False
    with Cons.prems d Cons.IH [of hit u] show ?thesis by auto
  next
    case True
    obtain r w where r: "record_outcome (bk_redis B) p ''timeout'' fzero 0 0 u = (r, w)" by fastforce
    with Cons.prems d True show ?thesis
      by (cases r) (auto simp: sbind_def dest!: Cons.IH)
  qed
qed auto

lemma departed_never_credited:
  assumes "deregister_provider (bk_compute B) pid graceful s = (Inr (), t)" and menu: "menu_ok (abs s)"
    and own: "\<forall>k raw p. hashes (abs s) PROVIDER_HASH_KEY k = Some raw \<longrightarrow> provider_from_raw raw = Inr p \<longrightarrow> cp_provider_id p = k"
    and run: "check_compute_outages B now t = (Inr hit, u)"
  shows "pid \<notin> set hit"
proof -
  have co: "computes_on (bk_compute B) abs" by (simp add: computes_on_def bk_compute_def redis_axioms)
  have h: "hashes (abs t) PROVIDER_HASH_KEY = (hashes (abs s) PROVIDER_HASH_KEY)(pid := None)"
    by (rule computes_on.deregister_provider_hash [OF co menu assms(1)])
  have "cp_provider_id p \<noteq> pid" if "p \<in> set (list_providers (bk_compute B) t)" for p
    using that own by (auto simp: computes_on.in_list_providers [OF co] h split: if_splits)
  then have "pid \<notin> set (map cp_provider_id (list_providers (bk_compute B) t))" by auto
  moreover have "set hit \<subseteq> set [] \<union> set (map cp_provider_id (list_providers (bk_compute B) t))"
    using run unfolding check_compute_outages_def by (rule outage_loop_subset)
  ultimately show ?thesis by auto
qed

end

section \<open>A sample broker\<close>

definition sample_broker :: "mem Broker" where
  "sample_broker = \<lparr>bk_redis = mem_redis, bk_audit = Some (redis_stream_sink mem_redis AUDIT_STREAM), bk_registry = None\<rparr>"

interpretation mem_broker: broker_on sample_broker mem_view
  by (simp add: broker_on_def broker_on_axioms_def sample_broker_def mem.quiet_redis_axioms
      sink_ok_Some [OF mem_stream.audit_sink_axioms])

definition sample_call :: Call where
  "sample_call = \<lparr>ca_caller = ''me'', ca_hold_id = ''h1'', ca_server = sample_server, ca_leaf = None,
     ca_response_chars = 10, ca_max_response_chars = 100, ca_actual_latency_ms = Fin 700,
     ca_completed_with_caller = 0, ca_tier_verdict = ''matched'', ca_responder = None\<rparr>"

lemma sample_call_price:
  "\<exists>st. settle_payment floor_log10 (settlement_inputs sample_call (new_entry ''srv'')) = Inr st \<and> st_pre_tax st = Fin 20"
proof -
  have n: "mk 20 = Fin 20" "mk 10 = Fin 10" using mk_of_int [of 20] mk_of_int [of 10] by simp_all
  have v: "verbosity_multiplier (Fin 1) = Fin 1" by (simp add: verbosity_multiplier_def Let_def)
  have r: "reputation_multiplier (Fin (1/2)) = Fin 1" by (simp add: reputation_multiplier_def Let_def mk_dyadic)
  have m: "mk (5404319552844595 / 2 ^ 54 * 600) = Fin (6333186975989760 / 2 ^ 45)"
    using mk_eval [of "5404319552844595 / 2 ^ 54 * 600" 45 6333186975989760] by simp
  have c: "compute_multiplier (Fin 700) ''small'' ''matched'' = Fin 1"
    using m by (simp add: compute_multiplier_def Let_def EXPECTED_LATENCY_MS_def dict_get_def flit_0_3 [simplified])
  have ret: "retention_multiplier floor_log10 0 = Fin 1"
    using log10_fun.log_1 [OF floor_log10.log10_fun_axioms] by (simp add: retention_multiplier_def)
  have i: "settlement_inputs sample_call (new_entry ''srv'') = \<lparr>si_base_rate = Fin 1, si_tier = ''small'', si_response_chars = 10,
     si_max_response_chars = 100, si_actual_latency_ms = Fin 700, si_leaf_rate = Fin 0, si_completed_with_caller = 0,
     si_server_reputation = Fin (1/2), si_server_avg_overage = Fin 1, si_tier_verdict = ''matched''\<rparr>"
    by (simp add: settlement_inputs_def sample_call_def sample_server_def new_entry_def)
  have "\<exists>st. settle_payment floor_log10 (settlement_inputs sample_call (new_entry ''srv'')) = Inr st"
    unfolding settle_total i by (simp add: TIER_ORDER_def fl_of_int_def is_fin_def n)
  then obtain st where st: "settle_payment floor_log10 (settlement_inputs sample_call (new_entry ''srv'')) = Inr st" by blast
  then have "st_pre_tax st = Fin 20"
    unfolding i by (rule settle_price) (auto simp: tier_multiplier_eq TIER_MULTIPLIER_def int_float_small n v r c ret)
  with st show ?thesis by blast
qed

lemma sample_hold_store:
  assumes "0 \<le> x" "x \<le> 100"
  obtains t where "wallets_readable mem_redis t" "holds_of mem_redis t ''me'' = [(''h1'', Fin x)]"
    "balances mem_redis t ''me'' = INITIAL_FUND" "current_reputation mem_redis ''srv'' t = Inr (new_entry ''srv'')"
proof -
  have e: "get_state mem_redis o' empty_mem = Inr (new_wallet o')" for o'
    by (simp add: mem.get_state_view del: mem_view_sel) (simp add: empty_mem_def)
  have ok: "wallets_readable mem_redis empty_mem" by (simp add: wallets_readable_def e)
  have "mk 100 = Fin 100" using mk_of_int [of 100] by simp
  then have "\<exists>w. wallet_step (Fin 0) [] (OpHold ''h1'' (Fin x)) (new_wallet ''me'') = Inr w
     \<and> ws_balance w = ws_balance (new_wallet ''me'') \<and> ws_holds w = AList.update ''h1'' (Fin x) (ws_holds (new_wallet ''me''))
     \<and> ws_held_total w = fadd (ws_held_total (new_wallet ''me'')) (Fin x)"
    using assms by (intro hold_fresh_ok) (simp_all add: new_wallet_def available_def INITIAL_FUND_def)
  then obtain w where w: "wallet_step (Fin 0) [] (OpHold ''h1'' (Fin x)) (new_wallet ''me'') = Inr w"
    "ws_balance w = INITIAL_FUND" "ws_holds w = [(''h1'', Fin x)]" by (auto simp: new_wallet_def)
  obtain t where t: "wallets_readable mem_redis t" "balances mem_redis t = (balances mem_redis empty_mem)(''me'' := ws_balance w)"
    "holds_of mem_redis t = (holds_of mem_redis empty_mem)(''me'' := ws_holds w)"
    "\<forall>k. \<not> money_key k \<longrightarrow> same_key k (mem_view t) (mem_view empty_mem)"
    by (rule mem.balances_step [OF e w(1) ok])
  have "strs (mem_view t) (reputation_key ''srv'') = None"
    using t(4) [THEN spec, of "reputation_key ''srv''"] by (simp add: same_key_def empty_mem_def del: mem_view_sel(2-))
  then have "current_reputation mem_redis ''srv'' t = Inr (new_entry ''srv'')"
    by (simp add: current_reputation_def mem.get_reputation_view del: mem_view_sel)
  with t(1-3) w show thesis using that by simp
qed

section \<open>Properties\<close>

text \<open>C6: A settled call pays out as specified: when the hold covers the price, \<open>calculate_and_settle\<close> succeeds and,
  whatever wallets coincide and whatever audit, agent registry and survey settings are in force, every balance is
  the one of the payout specification (the caller debited, the four positive shares credited in order), exactly the
  one hold disappears, and the server's reputation record is the outcome folded into the one it was priced by (no
  other client writing in between).\<close>

theorem settlement_pays_out:
  assumes "broker_on B view" and "wallets_readable (bk_redis B) s"
    and "current_reputation (bk_redis B) (sm_server_id (ca_server c)) s = Inr e" and "re_owner e = sm_server_id (ca_server c)"
    and "settle_payment log10 (settlement_inputs c e) = Inr st"
    and "map_of (holds_of (bk_redis B) s (ca_caller c)) (ca_hold_id c) = Some h"
    and "\<not> flt (st_pre_tax st) fzero" and "\<not> flt (fadd h (flit (1 / 1000000000))) (st_pre_tax st)"
    and "0 < ca_max_response_chars c"
    and "update_avg_overage (re_avg_overage e) (ca_response_chars c) (ca_max_response_chars c) LAMBDA_AVG_OVERAGE = Inr ov"
  shows "\<exists>t. calculate_and_settle B log10 env uuid now c s = (Inr st, t)
     \<and> balances (bk_redis B) t = credit_all (payout st (sm_server_id (ca_server c)) (map_option ml_provider_id (ca_leaf c)))
          ((balances (bk_redis B) s)(ca_caller c := fsub (balances (bk_redis B) s (ca_caller c)) (st_pre_tax st)))
     \<and> holds_of (bk_redis B) t = (holds_of (bk_redis B) s)(ca_caller c := AList.delete (ca_hold_id c) (holds_of (bk_redis B) s (ca_caller c)))
     \<and> get_reputation (bk_redis B) (sm_server_id (ca_server c)) t
         = Inr (Some ((apply_outcome e (call_outcome c) (ca_actual_latency_ms c))\<lparr>re_avg_overage := ov\<rparr>))"
  using assms by (rule broker_on.settle_call)

theorem settlement_pays_out_witness:
  "\<exists>s st t. calculate_and_settle sample_broker floor_log10 (\<lambda>_. None) ''u'' (Fin 0) sample_call s = (Inr st, t)
     \<and> st_pre_tax st = Fin 20 \<and> holds_of mem_redis s ''me'' = [(''h1'', Fin 50)] \<and> holds_of mem_redis t ''me'' = []"
proof -
  obtain s where s: "wallets_readable mem_redis s" "holds_of mem_redis s ''me'' = [(''h1'', Fin 50)]"
    "current_reputation mem_redis ''srv'' s = Inr (new_entry ''srv'')"
    by (rule sample_hold_store [of 50]) auto
  obtain st where st: "settle_payment floor_log10 (settlement_inputs sample_call (new_entry ''srv'')) = Inr st" "st_pre_tax st = Fin 20"
    using sample_call_price by blast
  have R: "bk_redis sample_broker = mem_redis" by (simp add: sample_broker_def)
  have c: "ca_caller sample_call = ''me''" "ca_hold_id sample_call = ''h1''" "sm_server_id (ca_server sample_call) = ''srv''"
    "ca_max_response_chars sample_call = 100" "ca_response_chars sample_call = 10"
    by (simp_all add: sample_call_def sample_server_def)
  obtain ov where ov: "update_avg_overage (re_avg_overage (new_entry ''srv'')) 10 100 LAMBDA_AVG_OVERAGE = Inr ov"
    by (simp add: update_avg_overage_def int_float_small)
  have cov: "\<not> flt (fadd (Fin 50) (flit (1 / 1000000000))) (Fin 20)"
  proof (rule release_passes)
    show "rnd 20 = (20::rat)" using rnd_of_int [of 20] by simp
  qed simp_all
  have "\<exists>t. calculate_and_settle sample_broker floor_log10 (\<lambda>_. None) ''u'' (Fin 0) sample_call s = (Inr st, t)
     \<and> balances (bk_redis sample_broker) t = credit_all (payout st (sm_server_id (ca_server sample_call)) (map_option ml_provider_id (ca_leaf sample_call)))
          ((balances (bk_redis sample_broker) s)(ca_caller sample_call := fsub (balances (bk_redis sample_broker) s (ca_caller sample_call)) (st_pre_tax st)))
     \<and> holds_of (bk_redis sample_broker) t = (holds_of (bk_redis sample_broker) s)(ca_caller sample_call :=
          AList.delete (ca_hold_id sample_call) (holds_of (bk_redis sample_broker) s (ca_caller sample_call)))
     \<and> get_reputation (bk_redis sample_broker) (sm_server_id (ca_server sample_call)) t
         = Inr (Some ((apply_outcome (new_entry ''srv'') (call_outcome sample_call) (ca_actual_latency_ms sample_call))\<lparr>re_avg_overage := ov\<rparr>))"
    by (rule settlement_pays_out [OF mem_broker.broker_on_axioms _ _ _ st(1), of _ "Fin 50"])
      (simp_all only: R c s st(2) ov cov, simp_all add: new_entry_def)
  then obtain t where t: "calculate_and_settle sample_broker floor_log10 (\<lambda>_. None) ''u'' (Fin 0) sample_call s = (Inr st, t)"
    "holds_of mem_redis t = (holds_of mem_redis s)(''me'' := AList.delete ''h1'' (holds_of mem_redis s ''me''))" unfolding R c by blast
  have "holds_of mem_redis t ''me'' = []" by (simp add: t(2) s(2))
  then show ?thesis using s(2) st(2) t(1) by blast
qed

text \<open>C7: A settlement above the hold is refused whole: when the price exceeds what was held by more than the
  tolerance, \<open>calculate_and_settle\<close> raises InsufficientFundsError and the store is untouched, so no share is
  paid and no reputation moves.\<close>

theorem settlement_refused:
  assumes "broker_on B view" and "wallets_readable (bk_redis B) s"
    and "current_reputation (bk_redis B) (sm_server_id (ca_server c)) s = Inr e"
    and "settle_payment log10 (settlement_inputs c e) = Inr st"
    and "map_of (holds_of (bk_redis B) s (ca_caller c)) (ca_hold_id c) = Some h"
    and "\<not> flt (st_pre_tax st) fzero" and "flt (fadd h (flit (1 / 1000000000))) (st_pre_tax st)"
  shows "calculate_and_settle B log10 env uuid now c s = (Inl InsufficientFundsError, s)"
  using assms by (rule broker_on.settle_call_refused)

theorem settlement_refused_witness:
  "\<exists>s. calculate_and_settle sample_broker floor_log10 (\<lambda>_. None) ''u'' (Fin 0) sample_call s = (Inl InsufficientFundsError, s)
     \<and> holds_of mem_redis s ''me'' = [(''h1'', Fin 10)]"
proof -
  obtain s where s: "wallets_readable mem_redis s" "holds_of mem_redis s ''me'' = [(''h1'', Fin 10)]"
    "current_reputation mem_redis ''srv'' s = Inr (new_entry ''srv'')"
    by (rule sample_hold_store [of 10]) auto
  obtain st where st: "settle_payment floor_log10 (settlement_inputs sample_call (new_entry ''srv'')) = Inr st" "st_pre_tax st = Fin 20"
    using sample_call_price by blast
  have R: "bk_redis sample_broker = mem_redis" by (simp add: sample_broker_def)
  have c: "ca_caller sample_call = ''me''" "ca_hold_id sample_call = ''h1''" "sm_server_id (ca_server sample_call) = ''srv''"
    by (simp_all add: sample_call_def sample_server_def)
  have "rnd (10 + 4835703278458517 / 2 ^ 82) \<le> 19"
    using rnd_mono [of "10 + 4835703278458517 / 2 ^ 82" 19] rnd_of_int [of 19] by simp
  then have cov: "flt (fadd (Fin 10) (flit (1 / 1000000000))) (Fin 20)"
    using mk_below [of "10 + 4835703278458517 / 2 ^ 82"] by (simp add: flit_1e9)
  have "calculate_and_settle sample_broker floor_log10 (\<lambda>_. None) ''u'' (Fin 0) sample_call s = (Inl InsufficientFundsError, s)"
    by (rule settlement_refused [OF mem_broker.broker_on_axioms _ _ st(1), of _ "Fin 10"])
      (simp_all only: R c s st(2) cov, simp_all)
  with s(2) show ?thesis by blast
qed

text \<open>An abrupt departure is never credited: \<open>deregister_provider(graceful=False)\<close> arms the outage sentinel but
  removes the provider from the hash that \<open>check_compute_outages\<close> sweeps, so the next sweep never reports it
  (contrary to the documentation of \<open>deregister_compute_provider\<close>).\<close>

lemma abrupt_departure_never_credited:
  assumes "broker_on B view" and "deregister_provider (bk_compute B) pid False s = (Inr (), t)" and "menu_ok (view s)"
    and "\<forall>k raw p. hashes (view s) PROVIDER_HASH_KEY k = Some raw \<longrightarrow> provider_from_raw raw = Inr p \<longrightarrow> cp_provider_id p = k"
    and "check_compute_outages B now t = (Inr hit, u)"
  shows "pid \<notin> set hit"
  using assms by (rule broker_on.departed_never_credited)

lemma abrupt_departure_never_credited_witness:
  "\<exists>s t hit u. menu (mem_view s) = {sample_leaf ''a''}
     \<and> deregister_provider (bk_compute sample_broker) ''p'' False s = (Inr (), t)
     \<and> fst (detect_outage (bk_compute sample_broker) ''p'' t)
     \<and> check_compute_outages sample_broker (Fin 0) t = (Inr hit, u) \<and> ''p'' \<notin> set hit"
proof -
  let ?C = "bk_compute sample_broker"
  have C: "?C = \<lparr>cr_redis = mem_redis, cr_ttl = 30\<rparr>"
    by (simp add: bk_compute_def sample_broker_def DEFAULT_HEARTBEAT_TTL_def)
  have ok: "menu_ok (mem_view empty_mem)" and none: "menu (mem_view empty_mem) = {}"
    by (simp_all add: menu_ok_def menu_def empty_mem_def table_def)
  define s where "s = register_leaf ?C [] (sample_leaf ''a'') empty_mem"
  note m = mem_computes.register_leaf_menu [OF ok sample_leaf_valid, of 30 "[]", folded C, folded s_def, unfolded none]
  have emp: "hashes (mem_view empty_mem) PROVIDER_HASH_KEY = Map.empty" by (simp add: empty_mem_def table_def)
  then have seen: "key_exists (mem_view s) (provider_last_seen_key ''p'')"
    using mem_computes.register_leaf_alive(2) [of empty_mem "sample_leaf ''a''" 30 "[]"]
    by (simp add: s_def C sample_leaf_def del: mem_view_sel)
  obtain t where t: "deregister_provider ?C ''p'' False s = (Inr (), t)" "fst (detect_outage ?C ''p'' t)"
    using provider_departure [OF mem_computes.computes_on_axioms m(1), of 30 "''p''" False] seen unfolding C by blast
  have h: "hashes (mem_view s) PROVIDER_HASH_KEY k = Some raw \<Longrightarrow> k = ''p''" for k raw
    unfolding s_def C using emp
    by (simp add: register_leaf_def register_provider_def provider_mark_alive_def Let_def sample_leaf_def del: mem_view_sel split: if_splits)
  have ht: "hashes (mem_view t) PROVIDER_HASH_KEY = (hashes (mem_view s) PROVIDER_HASH_KEY)(''p'' := None)"
    using mem_computes.deregister_provider_hash [OF m(1), of 30 "''p''" False] t(1) unfolding C by blast
  have "hashes (mem_view t) PROVIDER_HASH_KEY k = None" for k
    using h [of k] by (cases "hashes (mem_view s) PROVIDER_HASH_KEY k") (auto simp: ht simp del: mem_view_sel)
  then have "p \<notin> set (list_providers ?C t)" for p
    using mem_computes.in_list_providers [of p 30 t] by (auto simp: C simp del: mem_view_sel)
  then have "list_providers ?C t = []" by (cases "list_providers ?C t") auto
  then have run: "check_compute_outages sample_broker (Fin 0) t = (Inr [], t)" by (simp add: check_compute_outages_def)
  have own: "\<forall>k raw p. hashes (mem_view s) PROVIDER_HASH_KEY k = Some raw \<longrightarrow> provider_from_raw raw = Inr p \<longrightarrow> cp_provider_id p = k"
    unfolding s_def C using emp
    by (auto simp: register_leaf_def register_provider_def provider_mark_alive_def Let_def provider_roundtrip
        simp del: mem_view_sel split: if_splits)
  have "''p'' \<notin> set []" by (rule abrupt_departure_never_credited [OF mem_broker.broker_on_axioms t(1) m(1) own run])
  with m(2) t run show ?thesis by auto
qed

end
