(* ===== verification/Bus.thy ===== *)
theory Bus
  imports AuditSink
begin

text \<open>
  \<open>ahp/transport/redis_bus.py\<close>: the wire layer. Delivery is a publication on a channel,
  mirrored on the tap channel; history is one stream per thread. The entry ids the server
  assigns are not modelled: an append answers with no id, and a read takes the default
  range of ids.

  The other clients of the network are a parameter: while the bus waits on a channel they
  run, change the store and publish. \<open>pe_inbox chan s\<close> is what the successive calls of
  \<open>get_message\<close> on \<open>chan\<close> return from state \<open>s\<close>, each with the clock reading before it
  (\<open>None\<close> is the call that times out), and the state in which the others leave the store.
  A list that ends stands for a last call that times out. Subscribing and unsubscribing
  leave no trace in the store.
\<close>

section \<open>Encoding\<close>

definition bus_encode :: "Message \<Rightarrow> pyval res" where
  "bus_encode m = (let v = PDict (to_dict m) in if json_ok v then Inr v else Inl TypeError)"

definition decode_payload :: "string \<Rightarrow> pyval \<Rightarrow> Message res" where
  "decode_payload nid raw = rbind (as_dict raw) (from_dict nid)"

lemma bus_encode_eq: "bus_encode m = (if json_ok (m_body m) then Inr (PDict (to_dict m)) else Inl TypeError)"
  by (cases "m_ttl m"; cases "m_reply_to m"; cases "m_format m") (simp_all add: bus_encode_def to_dict_def Let_def opt_str_def)

section \<open>The network\<close>

datatype frame = Frame (fr_type: string) (fr_data: pyval)

record 's peers =
  pe_clock :: pyfloat
  pe_inbox :: "string \<Rightarrow> 's \<Rightarrow> (pyfloat \<times> frame option) list \<times> 's"

section \<open>Thread history\<close>

definition append_thread :: "'s redis \<Rightarrow> Message \<Rightarrow> ('s, unit) op" where
  "append_thread R m = sbind (slift (bus_encode m)) (\<lambda>v. swrite (r_xadd R (thread_stream (m_thread m)) v))"

text \<open>A count below 1 is refused by the client library.\<close>

definition get_thread :: "string \<Rightarrow> 's redis \<Rightarrow> string \<Rightarrow> int option \<Rightarrow> 's \<Rightarrow> Message list res" where
  "get_thread nid R tid cnt s =
     (let entries = r_xrange R (thread_stream tid) s in
      case cnt of
        None \<Rightarrow> mapM (decode_payload nid) entries
      | Some n \<Rightarrow> if n < 1 then Inl TransportError else mapM (decode_payload nid) (take (nat n) entries))"

definition thread_length :: "'s redis \<Rightarrow> string \<Rightarrow> 's \<Rightarrow> int" where
  "thread_length R tid s = int (length (r_xrange R (thread_stream tid) s))"

section \<open>Delivery\<close>

text \<open>\<open>_publish\<close>; the suppressed failure of the mirror leaves nothing to model.\<close>

definition bus_publish :: "'s redis \<Rightarrow> string \<Rightarrow> Message \<Rightarrow> ('s, int) op" where
  "bus_publish R channel m =
     sbind (slift (bus_encode m)) (\<lambda>v s.
       let (delivered, t) = r_publish R channel v s in (Inr delivered, snd (r_publish R tap_channel v t)))"

fun publish_all :: "'s redis \<Rightarrow> Message \<Rightarrow> AgentAddress list \<Rightarrow> int \<Rightarrow> ('s, int) op" where
  "publish_all R m [] delivered s = (Inr delivered, s)"
| "publish_all R m (target # targets) delivered s =
     sbind (bus_publish R (agent_channel (to_str target)) m) (\<lambda>n. publish_all R m targets (delivered + n)) s"

definition bus_send :: "'s redis \<Rightarrow> Message \<Rightarrow> ('s, int) op" where
  "bus_send R m =
     (case m_target m of
        TPat _ \<Rightarrow> sraise ValueError
      | TAddr target \<Rightarrow> sbind (append_thread R m) (\<lambda>_. bus_publish R (agent_channel (to_str target)) m))"

definition bus_cast :: "'s redis \<Rightarrow> Message \<Rightarrow> AgentAddress list \<Rightarrow> ('s, int) op" where
  "bus_cast R m targets = sbind (append_thread R m) (\<lambda>_. publish_all R m targets 0)"

definition send_reply :: "'s redis \<Rightarrow> Message \<Rightarrow> Message \<Rightarrow> ('s, int) op" where
  "send_reply R original response =
     (case m_reply_to original of
        None \<Rightarrow> sraise ValueError
      | Some channel \<Rightarrow>
          if channel = [] then sraise ValueError
          else sbind (append_thread R response) (\<lambda>_. bus_publish R channel response))"

section \<open>Collecting replies\<close>

fun collect_loop :: "string \<Rightarrow> pyfloat \<Rightarrow> int \<Rightarrow> (pyfloat \<times> frame option) list \<Rightarrow> Message list \<Rightarrow> Message list res" where
  "collect_loop nid deadline max_responses [] responses = Inr responses"
| "collect_loop nid deadline max_responses ((now, raw) # script) responses =
     (if \<not> int (length responses) < max_responses then Inr responses
      else if fle (fsub deadline now) fzero then Inr responses
      else (case raw of
              None \<Rightarrow> Inr responses
            | Some (Frame ty dat) \<Rightarrow>
                if ty \<noteq> ''message'' then collect_loop nid deadline max_responses script responses
                else rbind (decode_payload nid dat) (\<lambda>msg.
                       collect_loop nid deadline max_responses script (responses @ [msg]))))"

text \<open>\<open>reply_to\<close> is set on the message before it is appended and published.\<close>

definition with_reply :: "Message \<Rightarrow> Message" where
  "with_reply m = m\<lparr>m_reply_to := Some (reply_channel (m_message_id m))\<rparr>"

definition collect_replies ::
  "string \<Rightarrow> 's redis \<Rightarrow> 's peers \<Rightarrow> Message \<Rightarrow> AgentAddress list \<Rightarrow> pyfloat \<Rightarrow> int \<Rightarrow> ('s, Message list) op" where
  "collect_replies nid R P m targets timeout max_responses =
     sbind (append_thread R (with_reply m)) (\<lambda>_.
     sbind (publish_all R (with_reply m) targets 0) (\<lambda>_ s.
       let (script, t) = pe_inbox P (reply_channel (m_message_id m)) s
       in (collect_loop nid (fadd (pe_clock P) timeout) max_responses script [], t)))"

definition bus_send_get :: "string \<Rightarrow> 's redis \<Rightarrow> 's peers \<Rightarrow> Message \<Rightarrow> pyfloat \<Rightarrow> ('s, Message option) op" where
  "bus_send_get nid R P m timeout =
     (case m_target m of
        TPat _ \<Rightarrow> sraise ValueError
      | TAddr target \<Rightarrow>
          sbind (collect_replies nid R P m [target] timeout 1) (\<lambda>replies.
          sret (case replies of [] \<Rightarrow> None | r # _ \<Rightarrow> Some r)))"

definition bus_cast_get ::
  "string \<Rightarrow> 's redis \<Rightarrow> 's peers \<Rightarrow> Message \<Rightarrow> AgentAddress list \<Rightarrow> pyfloat \<Rightarrow> int option \<Rightarrow> ('s, Message list) op" where
  "bus_cast_get nid R P m targets timeout max_responses =
     collect_replies nid R P m targets timeout
       (case max_responses of None \<Rightarrow> int (length targets) | Some n \<Rightarrow> n)"

section \<open>Subscriptions\<close>

record Subscription =
  su_channel :: string
  su_predicate :: "Message \<Rightarrow> bool"
  su_closed :: bool

definition listen :: "AgentAddress \<Rightarrow> Subscription" where
  "listen a = \<lparr>su_channel = agent_channel (to_str a), su_predicate = (\<lambda>_. True), su_closed = False\<rparr>"

definition tap_subscribe :: "(Message \<Rightarrow> bool) \<Rightarrow> Subscription" where
  "tap_subscribe predicate = \<lparr>su_channel = tap_channel, su_predicate = predicate, su_closed = False\<rparr>"

definition su_close :: "Subscription \<Rightarrow> Subscription" where
  "su_close sub = sub\<lparr>su_closed := True\<rparr>"

text \<open>
  \<open>get_one\<close> on the results of its successive calls, each with the clock read after it, and
  the deadline; the results not consumed are left for the next call.
\<close>

fun get_one_loop :: "string \<Rightarrow> (Message \<Rightarrow> bool) \<Rightarrow> pyfloat option \<Rightarrow> (pyfloat \<times> frame option) list \<Rightarrow>
    Message option res \<times> (pyfloat \<times> frame option) list" where
  "get_one_loop nid predicate deadline [] = (Inr None, [])"
| "get_one_loop nid predicate deadline ((after, raw) # script) =
     (case raw of
        None \<Rightarrow> (Inr None, script)
      | Some (Frame ty dat) \<Rightarrow>
          if ty \<noteq> ''message'' then (Inr None, script)
          else (case decode_payload nid dat of
                  Inl e \<Rightarrow> (Inl e, script)
                | Inr msg \<Rightarrow>
                    if predicate msg then (Inr (Some msg), script)
                    else (case deadline of
                            None \<Rightarrow> get_one_loop nid predicate deadline script
                          | Some d \<Rightarrow>
                              if fle d after then (Inr None, script) else get_one_loop nid predicate deadline script)))"

definition get_one :: "string \<Rightarrow> Subscription \<Rightarrow> pyfloat option \<Rightarrow> (pyfloat \<times> frame option) list \<Rightarrow>
    Message option res \<times> (pyfloat \<times> frame option) list" where
  "get_one nid sub deadline script =
     (if su_closed sub then (Inr None, script) else get_one_loop nid (su_predicate sub) deadline script)"

text \<open>
  The consumer task: the messages of the inbox, each given to a handler whose exceptions
  are logged. The frames are those received before the task is cancelled; an idle timeout
  and a frame of another type are skipped, a payload that does not decode raises out of the
  generator.
\<close>

fun consume_loop :: "string \<Rightarrow> (Message \<Rightarrow> bool) \<Rightarrow> (Message \<Rightarrow> ('s, unit) op) \<Rightarrow> frame option list \<Rightarrow> ('s, unit) op" where
  "consume_loop nid predicate handler [] s = (Inr (), s)"
| "consume_loop nid predicate handler (raw # frames) s =
     (case raw of
        None \<Rightarrow> consume_loop nid predicate handler frames s
      | Some (Frame ty dat) \<Rightarrow>
          if ty \<noteq> ''message'' then consume_loop nid predicate handler frames s
          else sbind (slift (decode_payload nid dat)) (\<lambda>msg.
               if predicate msg
               then sbind (scatch (handler msg) (\<lambda>_. sret ())) (\<lambda>_. consume_loop nid predicate handler frames)
               else consume_loop nid predicate handler frames) s)"

section \<open>History\<close>

lemma mapM_append: "mapM f (xs @ ys) = rbind (mapM f xs) (\<lambda>as. rbind (mapM f ys) (\<lambda>bs. Inr (as @ bs)))"
proof (induction xs)
  case Nil then show ?case by (cases "mapM f ys") simp_all
next
  case (Cons x xs)
  then show ?case by (cases "f x"; cases "mapM f xs"; cases "mapM f ys") simp_all
qed

lemma thread_stream_inj [simp]: "thread_stream a = thread_stream b \<longleftrightarrow> a = b"
  by (simp add: thread_stream_def)

lemma decode_sent: "valid_message m \<Longrightarrow> decode_payload nid (PDict (to_dict m)) = Inr (canonical_msg m)"
  by (simp add: decode_payload_def from_dict_to_dict)

definition sendable :: "Message \<Rightarrow> bool" where
  "sendable m \<longleftrightarrow> valid_message m \<and> json_ok (m_body m)"

lemma sendable_with_reply [simp]: "sendable (with_reply m) \<longleftrightarrow> sendable m"
  by (auto simp: sendable_def with_reply_def valid_message_def is_broadcast_def)

lemma sendable_encode [simp]: "sendable m \<Longrightarrow> bus_encode m = Inr (PDict (to_dict m))"
  by (simp add: sendable_def bus_encode_eq)

text \<open>The messages of one thread among those appended, as a reader gets them.\<close>

definition posted :: "string \<Rightarrow> Message list \<Rightarrow> Message list" where
  "posted tid ms = map canonical_msg (filter (\<lambda>m. m_thread m = tid) ms)"

context redis
begin

lemma append_thread_run:
  assumes "bus_encode m = Inr v"
  shows "append_thread R m s = (Inr (), r_xadd R (thread_stream (m_thread m)) v s)"
  using assms by (simp add: append_thread_def)

lemma append_posts:
  assumes "\<forall>m\<in>set ms. sendable m" "get_thread nid R tid None s = Inr old"
  shows "\<exists>t. sfor (append_thread R) ms s = (Inr (), t) \<and> get_thread nid R tid None t = Inr (old @ posted tid ms)"
  using assms
proof (induction ms arbitrary: s old)
  case (Cons m ms)
  let ?s = "r_xadd R (thread_stream (m_thread m)) (PDict (to_dict m)) s"
  have "get_thread nid R tid None ?s = Inr (old @ posted tid [m])"
    using Cons.prems by (cases "m_thread m = tid") (auto simp: get_thread_def posted_def mapM_append decode_sent sendable_def)
  from Cons.IH [OF _ this] Cons.prems(1) show ?case
    by (auto simp: append_thread_run sbind_run posted_def)
qed (simp add: posted_def)

lemma thread_length_history: "get_thread nid R tid None s = Inr ms \<Longrightarrow> thread_length R tid s = int (length ms)"
proof -
  have "mapM f xs = Inr ys \<Longrightarrow> length xs = length ys" for f :: "pyval \<Rightarrow> Message res" and xs ys
    by (induction xs arbitrary: ys) (auto simp: rbind_eq_Inr)
  then show "get_thread nid R tid None s = Inr ms \<Longrightarrow> thread_length R tid s = int (length ms)"
    by (auto simp: get_thread_def thread_length_def)
qed

lemma bus_publish_run:
  assumes "bus_encode m = Inr v"
  obtains n t where "bus_publish R chan m s = (Inr n, t)" "0 \<le> n"
    "abs t = (abs s)\<lparr>published := published (abs s) @ [(chan, v), (tap_channel, v)]\<rparr>"
proof -
  obtain n u where p: "r_publish R chan v s = (n, u)" by (cases "r_publish R chan v s")
  let ?t = "snd (r_publish R tap_channel v u)"
  have "bus_publish R chan m s = (Inr n, ?t)" by (simp add: bus_publish_def assms p)
  moreover have "0 \<le> n" using publish_count [of chan v s] by (simp add: p)
  moreover have "abs u = (abs s)\<lparr>published := published (abs s) @ [(chan, v)]\<rparr>"
    using abs_publish [of chan v s] by (simp add: p)
  ultimately show thesis using that [of n ?t] by simp
qed

text \<open>What a fan-out publishes: one message per target, each mirrored on the tap.\<close>

lemma publish_all_run:
  assumes "bus_encode m = Inr v"
  shows "\<exists>n t. publish_all R m targets k s = (Inr n, t) \<and> k \<le> n
    \<and> abs t = (abs s)\<lparr>published := published (abs s) @
        concat (map (\<lambda>a. [(agent_channel (to_str a), v), (tap_channel, v)]) targets)\<rparr>"
proof (induction targets arbitrary: k s)
  case (Cons a targets)
  obtain n t where p: "bus_publish R (agent_channel (to_str a)) m s = (Inr n, t)" "0 \<le> n"
    "abs t = (abs s)\<lparr>published := published (abs s) @ [(agent_channel (to_str a), v), (tap_channel, v)]\<rparr>"
    by (rule bus_publish_run [OF assms])
  from Cons.IH [of "k + n" t] obtain n' t' where i: "publish_all R m targets (k + n) t = (Inr n', t')" "k + n \<le> n'"
    "abs t' = (abs t)\<lparr>published := published (abs t) @
        concat (map (\<lambda>a. [(agent_channel (to_str a), v), (tap_channel, v)]) targets)\<rparr>" by blast
  show ?case using p i by (simp add: sbind_run)
qed simp

end

section \<open>What a wait collects\<close>

text \<open>The payloads received in time, before the first call that times out.\<close>

fun timely :: "pyfloat \<Rightarrow> (pyfloat \<times> frame option) list \<Rightarrow> pyval list" where
  "timely deadline [] = []"
| "timely deadline ((now, raw) # script) =
     (if fle (fsub deadline now) fzero then []
      else (case raw of None \<Rightarrow> []
            | Some (Frame ty dat) \<Rightarrow> (if ty = ''message'' then [dat] else []) @ timely deadline script))"

lemma collect_loop_spec:
  "collect_loop nid deadline n script responses =
     rbind (mapM (decode_payload nid) (take (nat (n - int (length responses))) (timely deadline script)))
       (\<lambda>ms. Inr (responses @ ms))"
proof (induction script arbitrary: responses)
  case (Cons c script)
  obtain now raw where c: "c = (now, raw)" by (cases c)
  show ?case
  proof (cases "int (length responses) < n \<and> \<not> fle (fsub deadline now) fzero")
    case False
    then show ?thesis by (auto simp: c)
  next
    case True
    then have k: "nat (n - int (length responses)) = Suc (nat (n - int (length responses) - 1))" by arith
    show ?thesis
    proof (cases raw)
      case (Some f)
      obtain ty dat where f: "f = Frame ty dat" by (cases f)
      show ?thesis
      proof (cases "ty = ''message''")
        case True
        have e: "n - (1 + int (length responses)) = n - int (length responses) - 1" by simp
        show ?thesis using \<open>int (length responses) < n \<and> _\<close> Cons.IH [of "responses @ [_]"]
          by (cases "decode_payload nid dat";
            cases "mapM (decode_payload nid) (take (nat (n - int (length responses) - 1)) (timely deadline script))")
            (simp_all add: c Some f True k e)
      qed (use True Cons.IH in \<open>simp add: c Some f\<close>)
    qed (use True in \<open>simp add: c\<close>)
  qed
qed simp

lemma collect_loop_bound: "collect_loop nid deadline n script [] = Inr ms \<Longrightarrow> int (length ms) \<le> max 0 n"
proof -
  have "mapM f xs = Inr ys \<Longrightarrow> length ys = length xs" for f :: "pyval \<Rightarrow> Message res" and xs ys
    by (induction xs arbitrary: ys) (auto simp: rbind_eq_Inr)
  then show "collect_loop nid deadline n script [] = Inr ms \<Longrightarrow> int (length ms) \<le> max 0 n"
    by (auto simp: collect_loop_spec rbind_eq_Inr)
qed

context redis
begin

lemma collect_replies_run:
  assumes "sendable m"
  obtains t script u where "pe_inbox P (reply_channel (m_message_id m)) t = (script, u)"
    "collect_replies nid R P m targets timeout n s =
       (mapM (decode_payload nid) (take (nat n) (timely (fadd (pe_clock P) timeout) script)), u)"
    "streams (abs t) = (streams (abs s))(thread_stream (m_thread m) :=
        streams (abs s) (thread_stream (m_thread m)) @ [PDict (to_dict (with_reply m))])"
    "published (abs t) = published (abs s) @ concat (map (\<lambda>a.
        [(agent_channel (to_str a), PDict (to_dict (with_reply m))), (tap_channel, PDict (to_dict (with_reply m)))]) targets)"
    "strs (abs t) = strs (abs s)" "hashes (abs t) = hashes (abs s)" "sets (abs t) = sets (abs s)" "zsets (abs t) = zsets (abs s)"
proof -
  have e: "bus_encode (with_reply m) = Inr (PDict (to_dict (with_reply m)))" using assms by simp
  have th: "m_thread (with_reply m) = m_thread m" by (simp add: with_reply_def)
  let ?s = "r_xadd R (thread_stream (m_thread m)) (PDict (to_dict (with_reply m))) s"
  obtain k t where p: "publish_all R (with_reply m) targets 0 ?s = (Inr k, t)"
    "abs t = (abs ?s)\<lparr>published := published (abs ?s) @ concat (map (\<lambda>a. [(agent_channel (to_str a), PDict (to_dict (with_reply m))),
        (tap_channel, PDict (to_dict (with_reply m)))]) targets)\<rparr>"
    using publish_all_run [OF e] by blast
  obtain script u where i: "pe_inbox P (reply_channel (m_message_id m)) t = (script, u)" by (cases "pe_inbox P (reply_channel (m_message_id m)) t")
  have r: "rbind x Inr = x" for x :: "Message list res" by (cases x) simp_all
  have "collect_replies nid R P m targets timeout n s =
      (mapM (decode_payload nid) (take (nat n) (timely (fadd (pe_clock P) timeout) script)), u)"
    using append_thread_run [OF e, of s] p(1) i
    by (simp add: collect_replies_def sbind_run th collect_loop_spec r)
  then show thesis by (rule that [OF i]) (simp_all add: p(2))
qed

end

section \<open>A network for the witnesses\<close>

text \<open>One agent that answers every request with the same message, at once.\<close>

definition answering :: "'s redis \<Rightarrow> Message \<Rightarrow> 's peers" where
  "answering R r = \<lparr>pe_clock = fzero, pe_inbox = (\<lambda>chan s.
     ([(fzero, Some (Frame ''subscribe'' (PInt 1))), (fzero, Some (Frame ''message'' (PDict (to_dict r))))],
      snd (bus_publish R chan r (snd (append_thread R r s)))))\<rparr>"

definition silent :: "'s peers" where
  "silent = \<lparr>pe_clock = fzero, pe_inbox = (\<lambda>chan s. ([], s))\<rparr>"

definition sample_reply :: Message where
  "sample_reply = sample_message\<lparr>m_source := sample_address ''i2'', m_target := TAddr (sample_address ''i1''),
     m_verb := ''SEND'', m_body := PStr ''hello'', m_message_id := ''m2''\<rparr>"

lemma sample_sendable: "sendable sample_message" "sendable sample_reply"
proof -
  have "valid_address (sample_address ''i1'')" "edges_ok (sample_address ''i1'')"
    "valid_address (sample_address ''i2'')" "edges_ok (sample_address ''i2'')" by code_simp+
  moreover have "iso_aware ''2024-05-01T10:00:00+00:00''" by code_simp
  ultimately show "sendable sample_message" "sendable sample_reply"
    by (simp_all add: sendable_def valid_message_def sample_message_def sample_reply_def valid_target_def VALID_VERBS_def is_broadcast_def)
qed

section \<open>Properties\<close>

text \<open>C33: Thread history is what was said: after any sequence of well-formed messages on any threads, reading a thread
  returns its earlier history followed by exactly the new messages of that thread, in the order sent.\<close>

theorem thread_history:
  assumes "redis R view" and "\<forall>m\<in>set ms. sendable m" and "get_thread nid R tid None s = Inr old"
  shows "\<exists>t. sfor (append_thread R) ms s = (Inr (), t) \<and> get_thread nid R tid None t = Inr (old @ posted tid ms)
    \<and> thread_length R tid t = int (length old + length (posted tid ms))"
proof -
  obtain t where t: "sfor (append_thread R) ms s = (Inr (), t)" "get_thread nid R tid None t = Inr (old @ posted tid ms)"
    using redis.append_posts [OF assms] by blast
  then show ?thesis using redis.thread_length_history [OF assms(1) t(2)] by auto
qed

theorem thread_history_witness:
  "\<exists>t. sfor (append_thread mem_redis) [sample_message, sample_reply\<lparr>m_thread := ''t2''\<rparr>, sample_reply] empty_mem = (Inr (), t)
     \<and> get_thread [] mem_redis ''t1'' None t = Inr [canonical_msg sample_message, canonical_msg sample_reply]
     \<and> thread_length mem_redis ''t1'' t = 2"
proof -
  have "sendable (sample_reply\<lparr>m_thread := ''t2''\<rparr>)"
    using sample_sendable(2) by (auto simp: sendable_def valid_message_def is_broadcast_def)
  then have "\<forall>m\<in>set [sample_message, sample_reply\<lparr>m_thread := ''t2''\<rparr>, sample_reply]. sendable m"
    using sample_sendable by simp
  moreover have "get_thread [] mem_redis ''t1'' None empty_mem = Inr []"
    by (simp add: get_thread_def) (simp add: empty_mem_def table_def)
  moreover have "posted ''t1'' [sample_message, sample_reply\<lparr>m_thread := ''t2''\<rparr>, sample_reply] = [canonical_msg sample_message, canonical_msg sample_reply]"
    by (simp add: posted_def) (simp add: sample_message_def sample_reply_def)
  ultimately show ?thesis
    using thread_history [OF mem.redis_axioms, of "[sample_message, sample_reply\<lparr>m_thread := ''t2''\<rparr>, sample_reply]" "[]" "''t1''" empty_mem "[]"]
    by simp
qed

text \<open>C34: A wait collects what it should: the reply loop is equivalent to the specification that takes, from the
  message frames received on the request's own reply channel before the deadline, the first \<open>max_responses\<close> and
  decodes them; the wait starts only when the request (carrying that channel) is in the thread's history and
  published to every target, with one mirror on the tap each.\<close>

theorem replies_collected:
  assumes "redis R view" and "sendable m"
  shows "\<exists>t script u. pe_inbox P (reply_channel (m_message_id m)) t = (script, u)
    \<and> collect_replies nid R P m targets timeout n s =
        (mapM (decode_payload nid) (take (nat n) (timely (fadd (pe_clock P) timeout) script)), u)
    \<and> streams (view t) (thread_stream (m_thread m)) = streams (view s) (thread_stream (m_thread m)) @ [PDict (to_dict (with_reply m))]
    \<and> published (view t) = published (view s) @ concat (map (\<lambda>a.
        [(agent_channel (to_str a), PDict (to_dict (with_reply m))), (tap_channel, PDict (to_dict (with_reply m)))]) targets)"
proof -
  obtain t script u where t: "pe_inbox P (reply_channel (m_message_id m)) t = (script, u)"
    "collect_replies nid R P m targets timeout n s =
       (mapM (decode_payload nid) (take (nat n) (timely (fadd (pe_clock P) timeout) script)), u)"
    "streams (view t) = (streams (view s))(thread_stream (m_thread m) :=
        streams (view s) (thread_stream (m_thread m)) @ [PDict (to_dict (with_reply m))])"
    "published (view t) = published (view s) @ concat (map (\<lambda>a.
        [(agent_channel (to_str a), PDict (to_dict (with_reply m))), (tap_channel, PDict (to_dict (with_reply m)))]) targets)"
    by (rule redis.collect_replies_run [OF assms, of P nid targets timeout n s])
  from t(3) have "streams (view t) (thread_stream (m_thread m))
      = streams (view s) (thread_stream (m_thread m)) @ [PDict (to_dict (with_reply m))]" by simp
  with t(1,2,4) show ?thesis by blast
qed

theorem replies_collected_witness:
  "fst (collect_replies [] mem_redis (answering mem_redis sample_reply) sample_message [sample_address ''i2''] (Fin 5) 1 empty_mem)
     = Inr [canonical_msg sample_reply]"
proof -
  have d: "decode_payload [] (PDict (to_dict sample_reply)) = Inr (canonical_msg sample_reply)"
    using decode_sent sample_sendable(2) by (simp add: sendable_def)
  have f: "fsub (fadd fzero (Fin 5)) fzero = Fin 5" using mk_of_int [of 5] by simp
  show ?thesis
    using replies_collected [OF mem.redis_axioms sample_sendable(1), of "answering mem_redis sample_reply" "[]" "[sample_address ''i2'']" "Fin 5" 1 empty_mem] f
    by (auto simp: answering_def d)
qed

end
