(* ===== verification/Threads.thy ===== *)
theory Threads
  imports Bus
begin

text \<open>
  \<open>ahp/engine/thread_manager.py\<close>: metadata and participants of conversations, over the
  history the bus keeps. \<open>now\<close> is the clock of the call and \<open>uuid8\<close> the eight fresh hex
  digits of a generated id. A number stored as text is the number.
\<close>

section \<open>Thread ids\<close>

definition slug_char :: "char \<Rightarrow> bool" where
  "slug_char c \<longleftrightarrow> (CHR ''a'' \<le> c \<and> c \<le> CHR ''z'') \<or> (CHR ''0'' \<le> c \<and> c \<le> CHR ''9'')"

definition lower_char :: "char \<Rightarrow> char" where
  "lower_char c = (if CHR ''A'' \<le> c \<and> c \<le> CHR ''Z'' then char_of (of_char c + 32 :: nat) else c)"

text \<open>\<open>_SLUG_RE.sub("-", text)\<close>: each maximal run of other characters becomes one dash.\<close>

fun dash_runs :: "bool \<Rightarrow> string \<Rightarrow> string" where
  "dash_runs in_run [] = []"
| "dash_runs in_run (c # cs) =
     (if slug_char c then c # dash_runs False cs
      else if in_run then dash_runs True cs else CHR ''-'' # dash_runs True cs)"

definition strip_dashes :: "string \<Rightarrow> string" where
  "strip_dashes t = rev (dropWhile (\<lambda>c. c = CHR ''-'') (rev (dropWhile (\<lambda>c. c = CHR ''-'') t)))"

definition slugify :: "string \<Rightarrow> nat \<Rightarrow> string" where
  "slugify text max_len =
     (let slug = take max_len (strip_dashes (dash_runs False (map lower_char text)))
      in if slug = [] then ''thread'' else slug)"

section \<open>Lifecycle\<close>

record Thread =
  th_thread_id :: string
  th_topic :: string
  th_initiator :: AgentAddress
  th_created_at :: pyfloat
  th_closed_at :: "pyfloat option"

definition th_is_closed :: "Thread \<Rightarrow> bool" where
  "th_is_closed t \<longleftrightarrow> th_closed_at t \<noteq> None"

definition thread_create :: "'s redis \<Rightarrow> pyfloat \<Rightarrow> string \<Rightarrow> string \<Rightarrow> AgentAddress \<Rightarrow> string option \<Rightarrow> ('s, Thread) op" where
  "thread_create R now uuid8 topic initiator thread_id =
     (if topic = [] then sraise ValueError
      else
        let fresh = ''thread::'' @ slugify topic 40 @ ''::'' @ uuid8;
            tid = (case thread_id of None \<Rightarrow> fresh | Some t \<Rightarrow> if t = [] then fresh else t)
        in sbind (swrite (r_hset R (thread_meta tid) ''topic'' (PStr topic))) (\<lambda>_.
           sbind (swrite (r_hset R (thread_meta tid) ''initiator'' (PStr (to_str initiator)))) (\<lambda>_.
           sbind (swrite (r_hset R (thread_meta tid) ''created_at'' (PFloat now))) (\<lambda>_.
           sbind (swrite (r_sadd R (thread_participants tid) (to_str initiator))) (\<lambda>_.
           sret \<lparr>th_thread_id = tid, th_topic = topic, th_initiator = initiator, th_created_at = now, th_closed_at = None\<rparr>)))))"

definition thread_get :: "'s redis \<Rightarrow> string \<Rightarrow> 's \<Rightarrow> Thread option res" where
  "thread_get R tid s =
     (let dat = r_hgetall R (thread_meta tid) s in
      if dat = [] then Inr None
      else
        rbind (item dat ''topic'') (\<lambda>v. rbind (as_str v) (\<lambda>topic.
        rbind (item dat ''initiator'') (\<lambda>v. rbind (as_str v) (\<lambda>text. rbind (parse text) (\<lambda>initiator.
        rbind (item dat ''created_at'') (\<lambda>v. rbind (as_num v) (\<lambda>created.
        rbind (case map_of dat ''closed_at'' of None \<Rightarrow> Inr None | Some v \<Rightarrow> rbind (as_num v) (\<lambda>x. Inr (Some x))) (\<lambda>closed.
          Inr (Some \<lparr>th_thread_id = tid, th_topic = topic, th_initiator = initiator, th_created_at = created,
            th_closed_at = closed\<rparr>))))))))))"

definition thread_close :: "'s redis \<Rightarrow> pyfloat \<Rightarrow> string \<Rightarrow> 's \<Rightarrow> bool \<times> 's" where
  "thread_close R now tid s =
     (if \<not> r_exists R (thread_meta tid) s then (False, s)
      else (True, r_hset R (thread_meta tid) ''closed_at'' (PFloat now) s))"

definition thread_closed :: "'s redis \<Rightarrow> string \<Rightarrow> 's \<Rightarrow> bool res" where
  "thread_closed R tid s =
     rbind (thread_get R tid s) (\<lambda>found. Inr (case found of None \<Rightarrow> False | Some t \<Rightarrow> th_is_closed t))"

section \<open>Participation\<close>

definition thread_join :: "'s redis \<Rightarrow> string \<Rightarrow> AgentAddress \<Rightarrow> 's \<Rightarrow> 's" where
  "thread_join R tid agent = r_sadd R (thread_participants tid) (to_str agent)"

definition thread_leave :: "'s redis \<Rightarrow> string \<Rightarrow> AgentAddress \<Rightarrow> 's \<Rightarrow> 's" where
  "thread_leave R tid agent = r_srem R (thread_participants tid) (to_str agent)"

definition participants :: "'s redis \<Rightarrow> string \<Rightarrow> 's \<Rightarrow> AgentAddress list res" where
  "participants R tid s = mapM parse (r_smembers R (thread_participants tid) s)"

definition is_participant :: "'s redis \<Rightarrow> string \<Rightarrow> AgentAddress \<Rightarrow> 's \<Rightarrow> bool" where
  "is_participant R tid agent s = r_sismember R (thread_participants tid) (to_str agent) s"

section \<open>Messages\<close>

definition thread_append :: "'s redis \<Rightarrow> string \<Rightarrow> Message \<Rightarrow> ('s, unit) op" where
  "thread_append R tid m = sbind (swrite (thread_join R tid (m_source m))) (\<lambda>_. append_thread R m)"

definition get_history :: "string \<Rightarrow> 's redis \<Rightarrow> string \<Rightarrow> string option \<Rightarrow> int option \<Rightarrow> 's \<Rightarrow> Message list res" where
  "get_history nid R tid tier_filter cnt s =
     rbind (get_thread nid R tid cnt s) (\<lambda>history.
     case tier_filter of
       None \<Rightarrow> Inr history
     | Some tiers \<Rightarrow>
         if tiers = [] then Inr history
         else Inr (filter (\<lambda>m. list_ex (\<lambda>c. c \<in> set tiers) (required_tiers (m_code m))) history))"

section \<open>Facts\<close>

lemma slug_length: "length (slugify text n) \<le> max n 6"
  by (auto simp: slugify_def Let_def)

lemma thread_keys [simp]:
  "thread_meta a = thread_meta b \<longleftrightarrow> a = b" "thread_participants a = thread_participants b \<longleftrightarrow> a = b"
  "thread_meta a \<noteq> thread_participants b" "thread_participants b \<noteq> thread_meta a"
  by (simp_all add: thread_meta_def thread_participants_def)

text \<open>The metadata of a thread as a reader of the hash sees it.\<close>

definition thread_recorded :: "view \<Rightarrow> Thread \<Rightarrow> bool" where
  "thread_recorded v t \<longleftrightarrow> hashes v (thread_meta (th_thread_id t)) =
     [''topic'' \<mapsto> PStr (th_topic t), ''initiator'' \<mapsto> PStr (to_str (th_initiator t)), ''created_at'' \<mapsto> PFloat (th_created_at t)]
       (''closed_at'' := map_option PFloat (th_closed_at t))"

context redis
begin

lemma thread_get_recorded:
  assumes "thread_recorded (abs s) t" "valid_address (th_initiator t)" "edges_ok (th_initiator t)"
  shows "thread_get R (th_thread_id t) s = Inr (Some (t\<lparr>th_initiator := canonical (th_initiator t)\<rparr>))"
proof -
  have m: "map_of (r_hgetall R (thread_meta (th_thread_id t)) s) =
      [''topic'' \<mapsto> PStr (th_topic t), ''initiator'' \<mapsto> PStr (to_str (th_initiator t)), ''created_at'' \<mapsto> PFloat (th_created_at t)]
       (''closed_at'' := map_option PFloat (th_closed_at t))"
    using assms(1) by (simp add: hgetall(1) thread_recorded_def)
  then have "map_of (r_hgetall R (thread_meta (th_thread_id t)) s) ''topic'' \<noteq> None" by simp
  then have "r_hgetall R (thread_meta (th_thread_id t)) s \<noteq> []" by auto
  moreover have k: "map_of (r_hgetall R (thread_meta (th_thread_id t)) s) ''topic'' = Some (PStr (th_topic t))"
    "map_of (r_hgetall R (thread_meta (th_thread_id t)) s) ''initiator'' = Some (PStr (to_str (th_initiator t)))"
    "map_of (r_hgetall R (thread_meta (th_thread_id t)) s) ''created_at'' = Some (PFloat (th_created_at t))"
    "map_of (r_hgetall R (thread_meta (th_thread_id t)) s) ''closed_at'' = map_option PFloat (th_closed_at t)"
    by (simp_all add: m)
  ultimately have "thread_get R (th_thread_id t) s = Inr (Some \<lparr>th_thread_id = th_thread_id t, th_topic = th_topic t,
      th_initiator = canonical (th_initiator t), th_created_at = th_created_at t, th_closed_at = th_closed_at t\<rparr>)"
    using assms(2,3) by (cases "th_closed_at t") (simp_all add: thread_get_def Let_def item_def k parse_to_str)
  then show ?thesis by simp
qed

lemma thread_create_run:
  assumes "topic \<noteq> []" "hashes (abs s) (thread_meta tid) = Map.empty" "tid \<noteq> []"
  obtains t where "thread_create R now uuid8 topic a (Some tid) s =
      (Inr \<lparr>th_thread_id = tid, th_topic = topic, th_initiator = a, th_created_at = now, th_closed_at = None\<rparr>, t)"
    "thread_recorded (abs t) \<lparr>th_thread_id = tid, th_topic = topic, th_initiator = a, th_created_at = now, th_closed_at = None\<rparr>"
    "sets (abs t) (thread_participants tid) = insert (to_str a) (sets (abs s) (thread_participants tid))"
  using assms by (simp add: thread_create_def thread_recorded_def) 

lemma thread_close_recorded:
  assumes "thread_recorded (abs s) t"
  shows "thread_close R now (th_thread_id t) s = (True, snd (thread_close R now (th_thread_id t) s))"
    "thread_recorded (abs (snd (thread_close R now (th_thread_id t) s))) (t\<lparr>th_closed_at := Some now\<rparr>)"
    "sets (abs (snd (thread_close R now (th_thread_id t) s))) = sets (abs s)"
proof -
  have "hashes (abs s) (thread_meta (th_thread_id t)) ''topic'' \<noteq> None"
    using assms by (simp add: thread_recorded_def)
  then have "key_exists (abs s) (thread_meta (th_thread_id t))" by (auto simp: key_exists_def)
  then have e: "thread_close R now (th_thread_id t) s = (True, r_hset R (thread_meta (th_thread_id t)) ''closed_at'' (PFloat now) s)"
    by (simp add: thread_close_def)
  show "thread_close R now (th_thread_id t) s = (True, snd (thread_close R now (th_thread_id t) s))"
    "thread_recorded (abs (snd (thread_close R now (th_thread_id t) s))) (t\<lparr>th_closed_at := Some now\<rparr>)"
    "sets (abs (snd (thread_close R now (th_thread_id t) s))) = sets (abs s)"
    using assms by (simp_all add: e thread_recorded_def)
qed

lemma participation:
  "is_participant R tid b (thread_join R tid' a s) \<longleftrightarrow> tid' = tid \<and> addr_eq b a \<or> is_participant R tid b s"
  "is_participant R tid b (thread_leave R tid' a s) \<longleftrightarrow> is_participant R tid b s \<and> \<not> (tid' = tid \<and> addr_eq b a)"
  by (auto simp: is_participant_def thread_join_def thread_leave_def addr_eq_def)

lemma history_frame:
  "get_thread nid R tid cnt (thread_join R tid' a s) = get_thread nid R tid cnt s"
  by (simp add: get_thread_def thread_join_def)

end

section \<open>Properties\<close>

text \<open>The life of a thread: a created thread reads back as created, open, with its initiator as a participant
  besides whoever had joined under that id; closing it succeeds and is visible as the closing time with the rest of
  the record and the participants unchanged.\<close>

lemma thread_lifecycle:
  assumes "redis R view" and "topic \<noteq> []" and "tid \<noteq> []" and "hashes (view s) (thread_meta tid) = Map.empty"
    and "valid_address a" and "edges_ok a"
  shows "\<exists>th t u. thread_create R now uuid8 topic a (Some tid) s = (Inr th, t)
    \<and> thread_get R tid t = Inr (Some (th\<lparr>th_initiator := canonical a\<rparr>)) \<and> thread_closed R tid t = Inr False
    \<and> (\<forall>b. is_participant R tid b t \<longleftrightarrow> addr_eq b a \<or> is_participant R tid b s)
    \<and> thread_close R later tid t = (True, u)
    \<and> thread_get R tid u = Inr (Some (th\<lparr>th_initiator := canonical a, th_closed_at := Some later\<rparr>))
    \<and> thread_closed R tid u = Inr True
    \<and> (\<forall>b. is_participant R tid b u \<longleftrightarrow> is_participant R tid b t)"
proof -
  let ?th = "\<lparr>th_thread_id = tid, th_topic = topic, th_initiator = a, th_created_at = now, th_closed_at = None\<rparr>"
  obtain t where t: "thread_create R now uuid8 topic a (Some tid) s = (Inr ?th, t)" "thread_recorded (view t) ?th"
    "sets (view t) (thread_participants tid) = insert (to_str a) (sets (view s) (thread_participants tid))"
    by (rule redis.thread_create_run [OF assms(1,2,4,3)])
  obtain u where u: "thread_close R later tid t = (True, u)" "thread_recorded (view u) (?th\<lparr>th_closed_at := Some later\<rparr>)"
    "sets (view u) = sets (view t)"
    using redis.thread_close_recorded [OF assms(1) t(2), of later] by (metis Thread.select_convs(1) snd_conv)
  have g: "thread_get R tid t = Inr (Some (?th\<lparr>th_initiator := canonical a\<rparr>))"
    "thread_get R tid u = Inr (Some (?th\<lparr>th_initiator := canonical a, th_closed_at := Some later\<rparr>))"
    using redis.thread_get_recorded [OF assms(1) t(2)] redis.thread_get_recorded [OF assms(1) u(2)] assms(5,6) by simp_all
  have "is_participant R tid b t \<longleftrightarrow> addr_eq b a \<or> is_participant R tid b s" "is_participant R tid b u \<longleftrightarrow> is_participant R tid b t" for b
    using redis.sismember [OF assms(1)] t(3) u(3) by (simp_all add: is_participant_def addr_eq_def)
  with t(1) u(1) g show ?thesis by (auto simp: thread_closed_def th_is_closed_def)
qed

lemma thread_lifecycle_witness:
  "\<exists>th t u. thread_create mem_redis (Fin 1) ''0a1b2c3d'' ''Budget'' (sample_address ''i1'') (Some ''t1'') empty_mem = (Inr th, t)
    \<and> thread_closed mem_redis ''t1'' t = Inr False \<and> thread_close mem_redis (Fin 2) ''t1'' t = (True, u)
    \<and> thread_closed mem_redis ''t1'' u = Inr True \<and> is_participant mem_redis ''t1'' (sample_address ''i1'') u"
proof -
  have v: "valid_address (sample_address ''i1'')" "edges_ok (sample_address ''i1'')" by code_simp+
  have h: "hashes (mem_view empty_mem) (thread_meta ''t1'') = Map.empty" by (simp add: empty_mem_def table_def)
  show ?thesis
    using thread_lifecycle [OF mem.redis_axioms _ _ h v, of "''Budget''" "Fin 1" "''0a1b2c3d''" "Fin 2"]
    by (simp add: addr_eq_def) blast
qed

text \<open>An append goes to the thread its message names, whatever thread is passed: \<open>append(thread_id, message)\<close>
  joins the source to \<open>thread_id\<close>, but the history that grows is that of \<open>message.thread\<close> (contrary to the
  documentation of \<open>append\<close>).\<close>

lemma append_ignores_thread_id:
  assumes "redis R view" and "sendable m" and "m_thread m \<noteq> tid"
    and "get_thread nid R (m_thread m) None s = Inr old" and "get_thread nid R tid None s = Inr here"
  shows "\<exists>t. thread_append R tid m s = (Inr (), t) \<and> is_participant R tid (m_source m) t
    \<and> get_history nid R tid None None t = Inr here
    \<and> get_history nid R (m_thread m) None None t = Inr (old @ [canonical_msg m])"
proof -
  let ?s = "thread_join R tid (m_source m) s"
  let ?t = "r_xadd R (thread_stream (m_thread m)) (PDict (to_dict m)) ?s"
  have e: "bus_encode m = Inr (PDict (to_dict m))" using assms(2) by simp
  have run: "thread_append R tid m s = (Inr (), ?t)" "sfor (append_thread R) [m] ?s = (Inr (), ?t)"
    using redis.append_thread_run [OF assms(1) e, of ?s] by (simp_all add: thread_append_def sbind_run)
  have old: "get_thread nid R (m_thread m) None ?s = Inr old" "get_thread nid R tid None ?s = Inr here"
    using assms(4,5) by (simp_all add: redis.history_frame [OF assms(1)])
  have "get_thread nid R (m_thread m) None ?t = Inr (old @ [canonical_msg m])" "get_thread nid R tid None ?t = Inr here"
    using redis.append_posts [OF assms(1), of "[m]" nid, OF _ old(1)] redis.append_posts [OF assms(1), of "[m]" nid, OF _ old(2)]
      assms(2,3) run(2) by (auto simp: posted_def)
  moreover have "is_participant R tid (m_source m) ?t"
    by (simp add: is_participant_def thread_join_def redis.sismember [OF assms(1)] redis.abs_xadd [OF assms(1)] redis.abs_sadd [OF assms(1)])
  ultimately show ?thesis using run(1) by (auto simp: get_history_def)
qed

lemma append_ignores_thread_id_witness:
  "\<exists>t. thread_append mem_redis ''t2'' sample_message empty_mem = (Inr (), t)
     \<and> get_history [] mem_redis ''t2'' None None t = Inr []
     \<and> get_history [] mem_redis ''t1'' None None t = Inr [canonical_msg sample_message]"
proof -
  have th: "m_thread sample_message = ''t1''" by (simp add: sample_message_def)
  have h: "get_thread [] mem_redis tid None empty_mem = Inr []" for tid
    by (simp add: get_thread_def) (simp add: empty_mem_def table_def)
  show ?thesis
    using append_ignores_thread_id [OF mem.redis_axioms sample_sendable(1), of "''t2''" "[]" empty_mem "[]" "[]"] h by (auto simp: th)
qed

end
