(* ===== verification/Cache.thy ===== *)
theory Cache
  imports AuditSink
begin

text \<open>
  \<open>ahp/transport/cache.py\<close>: the response cache of the GET verbs. \<open>digest\<close> and
  \<open>bytes_digest\<close> are the hash functions of \<open>ahp/core/message.py\<close>, \<open>nid\<close> the fresh message id
  the decoder would use for a message without one.
\<close>

section \<open>Entries\<close>

record CachedEntry =
  ce_target_uri :: string
  ce_code :: string
  ce_response :: Message

text \<open>\<open>if params:\<close> treats an empty dict as none.\<close>

definition entry_matches :: "CachedEntry \<Rightarrow> AddressPattern \<Rightarrow> (string, string) dict \<Rightarrow> bool res" where
  "entry_matches e pat params =
     rbind (parse (ce_target_uri e)) (\<lambda>target.
       Inr (pmatches pat target \<and> list_all (\<lambda>(k, v). map_of (a_params target) k = Some v) params))"

definition cache_encode :: "CachedEntry \<Rightarrow> pyval res" where
  "cache_encode e =
     (let v = PDict [(''target_uri'', PStr (ce_target_uri e)), (''code'', PStr (ce_code e)),
                     (''response'', PDict (to_dict (ce_response e)))]
      in if json_ok v then Inr v else Inl TypeError)"

definition cache_decode :: "string \<Rightarrow> pyval \<Rightarrow> CachedEntry res" where
  "cache_decode nid raw =
     rbind (as_dict raw) (\<lambda>data.
     rbind (item data ''target_uri'') (\<lambda>tv. rbind (as_str tv) (\<lambda>target_uri.
     rbind (item data ''code'') (\<lambda>cv. rbind (as_str cv) (\<lambda>code.
     rbind (item data ''response'') (\<lambda>rv. rbind (as_dict rv) (\<lambda>rd.
     rbind (from_dict nid rd) (\<lambda>response.
       Inr \<lparr>ce_target_uri = target_uri, ce_code = code, ce_response = response\<rparr>))))))))"

lemma cache_decode_encode:
  assumes "cache_encode e = Inr v" "valid_message (ce_response e)"
  shows "cache_decode nid v = Inr (e\<lparr>ce_response := canonical_msg (ce_response e)\<rparr>)"
  using assms from_dict_to_dict [OF assms(2), of nid]
  by (cases e) (auto simp: cache_encode_def cache_decode_def item_def Let_def split: if_splits)

section \<open>The cache\<close>

definition ttl_for :: "AgentAddress \<Rightarrow> int" where
  "ttl_for target = dict_get LIFECYCLE_TTL (a_lifecycle target) 0"

definition request_key :: "(pyval \<Rightarrow> string) \<Rightarrow> (string \<Rightarrow> string) \<Rightarrow> Message \<Rightarrow> string res" where
  "request_key digest bytes_digest request =
     rbind (cache_key digest bytes_digest request) (\<lambda>d. Inr (cache_entry_key d))"

definition cache_get :: "(pyval \<Rightarrow> string) \<Rightarrow> (string \<Rightarrow> string) \<Rightarrow> string \<Rightarrow> 's redis \<Rightarrow> Message \<Rightarrow> 's \<Rightarrow> Message option res" where
  "cache_get digest bytes_digest nid R request s =
     rbind (request_key digest bytes_digest request) (\<lambda>key.
       case r_get R key s of
         None \<Rightarrow> Inr None
       | Some raw \<Rightarrow> rbind (cache_decode nid raw) (\<lambda>e. Inr (Some (ce_response e))))"

definition cache_put :: "(pyval \<Rightarrow> string) \<Rightarrow> (string \<Rightarrow> string) \<Rightarrow> 's redis \<Rightarrow> Message \<Rightarrow> Message \<Rightarrow> ('s, bool) op" where
  "cache_put digest bytes_digest R request response =
     (case m_target request of
        TPat _ \<Rightarrow> sret False
      | TAddr target \<Rightarrow>
          let ttl = ttl_for target in
          if ttl \<le> 0 then sret False
          else
            let entry = \<lparr>ce_target_uri = to_str target, ce_code = m_code request, ce_response = response\<rparr>
            in sbind (slift (request_key digest bytes_digest request)) (\<lambda>key.
               sbind (slift (cache_encode entry)) (\<lambda>v.
               sbind (swrite (r_setex R key v ttl)) (\<lambda>_. sret True))))"

text \<open>
  \<open>invalidate\<close>: entries that vanish or do not decode are skipped (a TypeError is not among
  the exceptions caught), the target text of a decoded one must parse.
\<close>

fun invalidate_keys :: "string \<Rightarrow> 's redis \<Rightarrow> AddressPattern \<Rightarrow> (string, string) dict \<Rightarrow> string list \<Rightarrow> int \<Rightarrow> ('s, int) op" where
  "invalidate_keys nid R pat params [] deleted s = (Inr deleted, s)"
| "invalidate_keys nid R pat params (key # keys) deleted s =
     (case r_get R key s of
        None \<Rightarrow> invalidate_keys nid R pat params keys deleted s
      | Some raw \<Rightarrow>
          (case cache_decode nid raw of
             Inl e \<Rightarrow>
               if e = KeyError \<or> e = ValueError then invalidate_keys nid R pat params keys deleted s
               else (Inl e, s)
           | Inr entry \<Rightarrow>
               (case entry_matches entry pat params of
                  Inl e \<Rightarrow> (Inl e, s)
                | Inr m \<Rightarrow>
                    if m then invalidate_keys nid R pat params keys (deleted + 1) (r_delete R key s)
                    else invalidate_keys nid R pat params keys deleted s)))"

definition invalidate :: "string \<Rightarrow> 's redis \<Rightarrow> AddressPattern \<Rightarrow> (string, string) dict option \<Rightarrow> ('s, int) op" where
  "invalidate nid R pat params s =
     invalidate_keys nid R pat (case params of None \<Rightarrow> [] | Some d \<Rightarrow> d) (r_scan R cache_scan_prefix s) 0 s"

definition cache_clear :: "'s redis \<Rightarrow> ('s, int) op" where
  "cache_clear R s =
     (let keys = r_scan R cache_scan_prefix s in (Inr (int (length keys)), fold (\<lambda>k. r_delete R k) keys s))"

section \<open>What an invalidation removes\<close>

text \<open>The entries an invalidation is about: those that decode and match.\<close>

definition doomed :: "string \<Rightarrow> AddressPattern \<Rightarrow> (string, string) dict \<Rightarrow> view \<Rightarrow> string \<Rightarrow> bool" where
  "doomed nid pat params v k \<longleftrightarrow>
     (\<exists>raw e. strs v k = Some raw \<and> cache_decode nid raw = Inr e \<and> entry_matches e pat params = Inr True)"

text \<open>No entry makes the scan raise.\<close>

definition scannable :: "string \<Rightarrow> view \<Rightarrow> string \<Rightarrow> bool" where
  "scannable nid v k \<longleftrightarrow> (\<forall>raw. strs v k = Some raw \<longrightarrow>
     (case cache_decode nid raw of Inl e \<Rightarrow> e = KeyError \<or> e = ValueError
      | Inr entry \<Rightarrow> \<exists>a. parse (ce_target_uri entry) = Inr a))"

context redis
begin

lemma invalidate_keys_run:
  assumes "distinct keys" "\<And>k. k \<in> set keys \<Longrightarrow> scannable nid (abs s) k"
  shows "\<exists>t. invalidate_keys nid R pat params keys n s =
       (Inr (n + int (length (filter (doomed nid pat params (abs s)) keys))), t)
     \<and> strs (abs t) = (\<lambda>k. if k \<in> set keys \<and> doomed nid pat params (abs s) k then None else strs (abs s) k)"
  using assms
proof (induction keys arbitrary: n s)
  case (Cons k ks)
  let ?D = "doomed nid pat params"
  have sc: "scannable nid (abs s) k" using Cons.prems(2) by simp
  have other: "?D (abs (r_delete R k s)) j = ?D (abs s) j" "scannable nid (abs (r_delete R k s)) j = scannable nid (abs s) j"
    if "j \<noteq> k" for j using that by (simp_all add: doomed_def scannable_def)
  have nk: "k \<notin> set ks" using Cons.prems(1) by simp
  have keep: "\<not> ?D (abs s) k \<Longrightarrow> invalidate_keys nid R pat params (k # ks) n s = invalidate_keys nid R pat params ks n s"
  proof (cases "strs (abs s) k")
    case (Some raw)
    assume nd: "\<not> ?D (abs s) k"
    show ?thesis
    proof (cases "cache_decode nid raw")
      case (Inl e)
      with Some sc show ?thesis by (auto simp: scannable_def)
    next
      case (Inr entry)
      with Some sc obtain a where "parse (ce_target_uri entry) = Inr a" by (auto simp: scannable_def)
      then obtain m where "entry_matches entry pat params = Inr m" by (simp add: entry_matches_def)
      with Some Inr nd show ?thesis by (auto simp: doomed_def)
    qed
  qed simp
  have drop: "?D (abs s) k \<Longrightarrow> invalidate_keys nid R pat params (k # ks) n s
      = invalidate_keys nid R pat params ks (n + 1) (r_delete R k s)"
    by (auto simp: doomed_def)
  show ?case
  proof (cases "?D (abs s) k")
    case True
    obtain t where t: "invalidate_keys nid R pat params ks (n + 1) (r_delete R k s) =
        (Inr (n + 1 + int (length (filter (?D (abs (r_delete R k s))) ks))), t)"
      "strs (abs t) = (\<lambda>j. if j \<in> set ks \<and> ?D (abs (r_delete R k s)) j then None else strs (abs (r_delete R k s)) j)"
    proof -
      have "distinct ks" using Cons.prems(1) by simp
      moreover have "scannable nid (abs (r_delete R k s)) j" if "j \<in> set ks" for j
      proof -
        have "j \<noteq> k" using that nk by auto
        moreover have "scannable nid (abs s) j" using Cons.prems(2) that by simp
        ultimately show ?thesis using other(2) [of j] by blast
      qed
      ultimately show thesis using Cons.IH [of "r_delete R k s" "n + 1"] that by blast
    qed
    have f: "filter (?D (abs (r_delete R k s))) ks = filter (?D (abs s)) ks"
    proof (rule filter_cong)
      fix j assume "j \<in> set ks"
      with nk have "j \<noteq> k" by auto
      then show "?D (abs (r_delete R k s)) j = ?D (abs s) j" by (rule other(1))
    qed simp
    have "strs (abs t) = (\<lambda>j. if j \<in> set (k # ks) \<and> ?D (abs s) j then None else strs (abs s) j)"
    proof
      fix j show "strs (abs t) j = (if j \<in> set (k # ks) \<and> ?D (abs s) j then None else strs (abs s) j)"
        using True nk other(1) [of j] by (cases "j = k") (simp_all add: t(2))
    qed
    moreover have "int (length (filter (?D (abs s)) (k # ks))) = 1 + int (length (filter (?D (abs s)) ks))"
      using True by simp
    ultimately show ?thesis unfolding drop [OF True] t(1) f by (intro exI [of _ t]) (simp only: add.assoc simp_thms)
  next
    case False
    obtain t where t: "invalidate_keys nid R pat params ks n s =
        (Inr (n + int (length (filter (?D (abs s)) ks))), t)"
      "strs (abs t) = (\<lambda>j. if j \<in> set ks \<and> ?D (abs s) j then None else strs (abs s) j)"
      using Cons.IH [of s n] Cons.prems by auto
    moreover have "filter (?D (abs s)) (k # ks) = filter (?D (abs s)) ks" using False by simp
    moreover have "(\<lambda>j. if j \<in> set ks \<and> ?D (abs s) j then None else strs (abs s) j)
        = (\<lambda>j. if j \<in> set (k # ks) \<and> ?D (abs s) j then None else strs (abs s) j)"
      using False by (intro ext) auto
    ultimately show ?thesis unfolding keep [OF False] by (intro exI [of _ t]) (simp only: simp_thms)
  qed
qed simp

lemma put_get:
  assumes "m_target request = TAddr a" "0 < ttl_for a" "valid_message response" "json_ok (m_body response)"
  obtains t where "cache_put digest bytes_digest R request response s = (Inr True, t)"
    "cache_get digest bytes_digest nid R request t = Inr (Some (canonical_msg response))"
proof -
  obtain d where d: "cache_key digest bytes_digest request = Inr d" using assms(1) by (simp add: cache_key_def)
  define entry where "entry = \<lparr>ce_target_uri = to_str a, ce_code = m_code request, ce_response = response\<rparr>"
  have "json_ok (PDict (to_dict response))"
    using assms(4) by (simp add: to_dict_def opt_str_def split: option.splits)
  then obtain v where v: "cache_encode entry = Inr v" by (simp add: cache_encode_def entry_def Let_def)
  have dec: "cache_decode nid v = Inr (entry\<lparr>ce_response := canonical_msg response\<rparr>)"
    using cache_decode_encode [OF v, of nid] assms(3) by (simp add: entry_def)
  define t where "t = r_setex R (cache_entry_key d) v (ttl_for a) s"
  have "cache_put digest bytes_digest R request response s = (Inr True, t)"
    using assms(1,2) v by (simp add: cache_put_def request_key_def d entry_def [symmetric] t_def)
  moreover have "cache_get digest bytes_digest nid R request t = Inr (Some (canonical_msg response))"
    by (simp add: cache_get_def request_key_def d t_def dec)
  ultimately show thesis by (rule that)
qed

end

section \<open>Properties\<close>

text \<open>A cached response is served back: for an addressed request whose target lives long enough to be cached and
  a well-formed JSON response, \<open>put\<close> stores it and an immediate \<open>get\<close> for the same request returns that
  response (addresses in canonical form).\<close>

lemma cache_put_get:
  assumes "redis R view" and "m_target request = TAddr a" and "0 < ttl_for a"
    and "valid_message response" and "json_ok (m_body response)"
  shows "\<exists>t. cache_put digest bytes_digest R request response s = (Inr True, t)
     \<and> cache_get digest bytes_digest nid R request t = Inr (Some (canonical_msg response))"
  using redis.put_get [OF assms] by blast

lemma sample_message_ok: "valid_message sample_message" "json_ok (m_body sample_message)"
proof -
  have "valid_address (sample_address ''i1'')" "edges_ok (sample_address ''i1'')"
    "valid_address (sample_address ''i2'')" "edges_ok (sample_address ''i2'')" by code_simp+
  moreover have "iso_aware ''2024-05-01T10:00:00+00:00''" by code_simp
  ultimately show "valid_message sample_message"
    by (simp add: valid_message_def sample_message_def valid_target_def VALID_VERBS_def is_broadcast_def)
qed (simp add: sample_message_def)

lemma cache_put_get_witness:
  "\<exists>t. cache_put (\<lambda>_. ''d'') (\<lambda>b. b) mem_redis sample_message sample_message empty_mem = (Inr True, t)
     \<and> cache_get (\<lambda>_. ''d'') (\<lambda>b. b) [] mem_redis sample_message t = Inr (Some (canonical_msg sample_message))"
proof (rule cache_put_get [OF mem.redis_axioms])
  show "m_target sample_message = TAddr (sample_address ''i2'')" by (simp add: sample_message_def)
  show "0 < ttl_for (sample_address ''i2'')"
    by (simp add: ttl_for_def sample_address_def LIFECYCLE_TTL_def dict_get_def)
qed (rule sample_message_ok)+

text \<open>Invalidation is exact: when the target texts of the stored entries parse, it removes precisely the cache
  entries whose target matches the pattern and carries the given parameters, leaves every other string key
  as it was, and returns the number of removed entries.\<close>

lemma invalidate_exact:
  assumes "redis R view" and "\<And>k. startswith k cache_scan_prefix \<Longrightarrow> scannable nid (view s) k"
  shows "\<exists>t n. invalidate nid R pat params s = (Inr n, t)
     \<and> n = int (card {k. startswith k cache_scan_prefix \<and> doomed nid pat (case params of None \<Rightarrow> [] | Some d \<Rightarrow> d) (view s) k})
     \<and> strs (view t) = (\<lambda>k. if startswith k cache_scan_prefix
           \<and> doomed nid pat (case params of None \<Rightarrow> [] | Some d \<Rightarrow> d) (view s) k then None else strs (view s) k)"
proof -
  let ?ps = "case params of None \<Rightarrow> [] | Some d \<Rightarrow> d"
  let ?keys = "r_scan R cache_scan_prefix s"
  note sc = redis.scan [OF assms(1), of cache_scan_prefix s]
  have "\<And>k. k \<in> set ?keys \<Longrightarrow> scannable nid (view s) k" using assms(2) sc(1) by blast
  from redis.invalidate_keys_run [OF assms(1) sc(2) this, of pat ?ps 0] obtain t where
    t: "invalidate_keys nid R pat ?ps ?keys 0 s = (Inr (int (length (filter (doomed nid pat ?ps (view s)) ?keys))), t)"
    "strs (view t) = (\<lambda>k. if k \<in> set ?keys \<and> doomed nid pat ?ps (view s) k then None else strs (view s) k)" by auto
  have ex: "doomed nid pat ?ps (view s) k \<Longrightarrow> key_exists (view s) k" for k
    by (auto simp: doomed_def key_exists_def)
  then have eq: "set (filter (doomed nid pat ?ps (view s)) ?keys)
      = {k. startswith k cache_scan_prefix \<and> doomed nid pat ?ps (view s) k}" by (auto simp: sc(1))
  have "distinct (filter (doomed nid pat ?ps (view s)) ?keys)" using sc(2) by simp
  then have "length (filter (doomed nid pat ?ps (view s)) ?keys)
      = card {k. startswith k cache_scan_prefix \<and> doomed nid pat ?ps (view s) k}"
    unfolding eq [symmetric] by (rule distinct_card [symmetric])
  moreover have "strs (view t) = (\<lambda>k. if startswith k cache_scan_prefix \<and> doomed nid pat ?ps (view s) k
      then None else strs (view s) k)" using ex by (auto simp: t(2) sc(1))
  ultimately show ?thesis using t(1) by (simp add: invalidate_def)
qed

lemma invalidate_exact_witness:
  "\<exists>t. invalidate [] mem_redis pall None empty_mem = (Inr 0, t)"
proof -
  have none: "\<not> doomed [] pall [] (mem_view empty_mem) k" for k by (simp add: doomed_def empty_mem_def)
  have "\<exists>t n. invalidate [] mem_redis pall None empty_mem = (Inr n, t)
     \<and> n = int (card {k. startswith k cache_scan_prefix \<and> doomed [] pall (case None of None \<Rightarrow> [] | Some d \<Rightarrow> d) (mem_view empty_mem) k})
     \<and> strs (mem_view t) = (\<lambda>k. if startswith k cache_scan_prefix
           \<and> doomed [] pall (case None of None \<Rightarrow> [] | Some d \<Rightarrow> d) (mem_view empty_mem) k then None else strs (mem_view empty_mem) k)"
    by (rule invalidate_exact [OF mem.redis_axioms]) (simp add: scannable_def empty_mem_def)
  then show ?thesis by (auto simp: none)
qed

end
