(* ===== verification/Scope.thy ===== *)
theory Scope
  imports Message
begin

text \<open>
  \<open>ahp/engine/scope.py\<close>: open-default, address-based access control. A policy is the list
  of its rules in registration order.
\<close>

record ScopeRule =
  sr_target :: AddressPattern
  sr_allow :: AddressPattern
  sr_code :: string
  sr_description :: string

type_synonym ScopePolicy = "ScopeRule list"

text \<open>\<open>restrict\<close> accepts a pattern or its text.\<close>

datatype pattern_arg = PatArg AddressPattern | TextArg string

fun coerce_pattern :: "pattern_arg \<Rightarrow> AddressPattern res" where
  "coerce_pattern (PatArg p) = Inr p"
| "coerce_pattern (TextArg t) = pparse t"

definition restrict :: "ScopePolicy \<Rightarrow> pattern_arg \<Rightarrow> pattern_arg \<Rightarrow> string \<Rightarrow> string \<Rightarrow> (ScopeRule \<times> ScopePolicy) res" where
  "restrict pol target allow code description =
     rbind (coerce_pattern target) (\<lambda>t. rbind (coerce_pattern allow) (\<lambda>s.
       let rule = \<lparr>sr_target = t, sr_allow = s, sr_code = code, sr_description = description\<rparr>
       in Inr (rule, pol @ [rule])))"

definition scope_clear :: "ScopePolicy \<Rightarrow> ScopePolicy" where
  "scope_clear pol = []"

definition is_allowed :: "ScopePolicy \<Rightarrow> AgentAddress \<Rightarrow> AgentAddress \<Rightarrow> string \<Rightarrow> bool" where
  "is_allowed pol source target code =
     (let covering = filter (\<lambda>r. pmatches (sr_target r) target \<and> code_matches code (sr_code r)) pol
      in if covering = [] then True
         else list_ex (\<lambda>r. pmatches (sr_allow r) source) covering)"

definition scope_filter_targets :: "ScopePolicy \<Rightarrow> AgentAddress \<Rightarrow> AgentAddress list \<Rightarrow> string \<Rightarrow> AgentAddress list" where
  "scope_filter_targets pol source targets code = filter (\<lambda>t. is_allowed pol source t code) targets"

interpretation scope: target_filter "is_allowed pol" "scope_filter_targets pol" for pol
  by unfold_locales (simp_all add: scope_filter_targets_def)

section \<open>Facts\<close>

definition covers :: "ScopeRule \<Rightarrow> AgentAddress \<Rightarrow> string \<Rightarrow> bool" where
  "covers r target code \<longleftrightarrow> pmatches (sr_target r) target \<and> code_matches code (sr_code r)"

text \<open>The declarative reading: open unless covered, and any covering rule admits.\<close>

lemma is_allowed_iff:
  "is_allowed pol s t c \<longleftrightarrow>
     (\<forall>r \<in> set pol. \<not> covers r t c) \<or> (\<exists>r \<in> set pol. covers r t c \<and> pmatches (sr_allow r) s)"
  by (auto simp: is_allowed_def Let_def covers_def list_ex_iff filter_empty_conv)

lemma is_allowed_set: "set pol = set pol' \<Longrightarrow> is_allowed pol s t c \<longleftrightarrow> is_allowed pol' s t c"
  by (simp add: is_allowed_iff)

lemma is_allowed_Nil [simp]: "is_allowed [] s t c"
  by (simp add: is_allowed_iff)

lemma is_allowed_append:
  assumes "\<exists>r \<in> set pol. covers r t c"
  shows "is_allowed (pol @ [r]) s t c \<longleftrightarrow> is_allowed pol s t c \<or> covers r t c \<and> pmatches (sr_allow r) s"
  using assms by (auto simp: is_allowed_iff)

section \<open>Properties\<close>

text \<open>Access control is open by default and a union of rules: a source may reach a target for a code exactly when
  no rule covers that target and code, or some covering rule admits the source; so the order and repetition
  of rules never matter, and adding a rule for an already covered target can only widen access to it.\<close>

lemma scope_semantics:
  "(is_allowed pol s t c \<longleftrightarrow> filter (\<lambda>r. covers r t c) pol = [] \<or> list_ex (\<lambda>r. covers r t c \<and> pmatches (sr_allow r) s) pol)
   \<and> is_allowed (rev pol @ pol) s t c = is_allowed pol s t c
   \<and> scope_filter_targets pol s ts c = filter (\<lambda>t. is_allowed pol s t c) ts"
proof -
  have "is_allowed (rev pol @ pol) s t c = is_allowed pol s t c" by (rule is_allowed_set) auto
  then show ?thesis
    by (auto simp: is_allowed_iff filter_empty_conv list_ex_iff scope.filt_filter)
qed

end
