(* ===== verification/Formats.thy ===== *)
theory Formats
  imports Codes
begin

text \<open>
  \<open>ahp/adapters/formats.py\<close>: named interaction shapes, of two kinds: session templates and
  turn-sequence games. The shapes, their validation and the table of the session templates;
  the games are in theory GameModes. A frozenset is a list read through membership. The
  builder of a graph is the turn sequence it closes over; the measurement hooks, which no
  format sets, are left out.
\<close>

section \<open>Shapes\<close>

datatype count_strategy = As_Requested | Force_One
datatype round_kind = Broadcast | Sequential_Probes | Skip
datatype recipe_kind = Legacy_Session | Turn_Sequence
datatype termination_kind = Counter | Signal | Never | Convergence

record TerminationRule =
  tr_kind :: termination_kind
  tr_max_turns :: int
  tr_signal_codes :: "string list"
  tr_description :: string

definition default_rule :: TerminationRule where
  "default_rule = \<lparr>tr_kind = Counter, tr_max_turns = 16, tr_signal_codes = [], tr_description = []\<rparr>"

record Format =
  fm_name :: string
  fm_description :: string
  fm_code :: "string option"
  fm_role :: string
  fm_round1_recipe :: "string option"
  fm_round2_recipe :: "string option"
  fm_closing_recipe :: "string option"
  fm_count_strategy :: count_strategy
  fm_round2_kind :: round_kind
  fm_closing_kind :: round_kind
  fm_probe_count :: int
  fm_mode_hint :: string
  fm_recipe_kind :: recipe_kind
  fm_turn_primitives :: "string list"
  fm_role_set :: "string list"
  fm_role_turn_permissions :: "(string, string list) dict"
  fm_termination_rule :: TerminationRule
  fm_invariants_prompt :: string
  fm_graph_builder :: "string list option"

definition default_format :: "string \<Rightarrow> string \<Rightarrow> Format" where
  "default_format name description = \<lparr>fm_name = name, fm_description = description, fm_code = None, fm_role = ''*'',
     fm_round1_recipe = None, fm_round2_recipe = None, fm_closing_recipe = None, fm_count_strategy = As_Requested,
     fm_round2_kind = Broadcast, fm_closing_kind = Broadcast, fm_probe_count = 3, fm_mode_hint = [],
     fm_recipe_kind = Legacy_Session, fm_turn_primitives = [], fm_role_set = [], fm_role_turn_permissions = [],
     fm_termination_rule = default_rule, fm_invariants_prompt = [], fm_graph_builder = None\<rparr>"

text \<open>\<open>__post_init__\<close>.\<close>

definition format_post_init :: "Format \<Rightarrow> Format res" where
  "format_post_init f =
     (case fm_recipe_kind f of
        Legacy_Session \<Rightarrow>
          if fm_code f = None then Inl ValueError
          else if fm_round1_recipe f = None then Inl ValueError else Inr f
      | Turn_Sequence \<Rightarrow>
          if fm_turn_primitives f = [] then Inl ValueError
          else if fm_role_set f = [] then Inl ValueError
          else if list_ex (\<lambda>(r, _). r \<notin> set (fm_role_set f)) (fm_role_turn_permissions f) then Inl ValueError
          else if list_ex (\<lambda>(_, ts). list_ex (\<lambda>t. t \<notin> set (fm_turn_primitives f)) ts) (fm_role_turn_permissions f)
          then Inl ValueError
          else Inr f)"

definition is_turn_legal :: "Format \<Rightarrow> string \<Rightarrow> string \<Rightarrow> bool" where
  "is_turn_legal f role turn_code =
     (if fm_role_turn_permissions f = [] then True
      else (case map_of (fm_role_turn_permissions f) role of None \<Rightarrow> False | Some permitted \<Rightarrow> turn_code \<in> set permitted))"

definition is_turn_in_format :: "Format \<Rightarrow> string \<Rightarrow> bool" where
  "is_turn_in_format f turn_code =
     (if fm_recipe_kind f = Legacy_Session then True else turn_code \<in> set (fm_turn_primitives f))"

lemma legal_in_format:
  assumes "format_post_init f = Inr g" "fm_recipe_kind f = Turn_Sequence" "fm_role_turn_permissions f \<noteq> []"
    "is_turn_legal f role t"
  shows "is_turn_in_format f t \<and> role \<in> set (fm_role_set f)"
proof -
  obtain ts where ts: "map_of (fm_role_turn_permissions f) role = Some ts" "t \<in> set ts"
    using assms(3,4) by (auto simp: is_turn_legal_def split: option.splits)
  then have "(role, ts) \<in> set (fm_role_turn_permissions f)" by (meson map_of_SomeD)
  with assms(1,2) ts(2) show ?thesis
    by (auto simp: format_post_init_def is_turn_in_format_def list_ex_iff split: if_splits)
qed

section \<open>The session templates\<close>

definition fmt_debate :: Format where
  "fmt_debate = (default_format ''debate'' (''Adversarial: stake, attack, rebut, close.''))\<lparr>
     fm_code := Some ''adversarial.debate'',
     fm_role := ''adversarial'',
     fm_round1_recipe := Some ''adversarial:debate-me'',
     fm_round2_recipe := Some ''adversarial:debate-others'',
     fm_closing_recipe := Some ''adversarial:closing'',
     fm_mode_hint := ''adversarial debate with critique and closing rounds''\<rparr>"

definition fmt_interview_me :: Format where
  "fmt_interview_me = (default_format ''interview-me'' (''Solo long-form: one expert, moderator probes.''))\<lparr>
     fm_code := Some ''human.query'',
     fm_role := ''interview'',
     fm_round1_recipe := Some ''interview:me'',
     fm_round2_recipe := Some ''interview:me-probe'',
     fm_closing_recipe := Some ''interview:me-summary'',
     fm_count_strategy := Force_One,
     fm_round2_kind := Sequential_Probes,
     fm_closing_kind := Sequential_Probes,
     fm_probe_count := 3,
     fm_mode_hint := ''long-form one-on-one expert interview''\<rparr>"

definition fmt_interview_yall :: Format where
  "fmt_interview_yall = (default_format ''interview-yall'' (''Panel openings + a synthesis closing.''))\<lparr>
     fm_code := Some ''human.query'',
     fm_role := ''interview'',
     fm_round1_recipe := Some ''interview:yall'',
     fm_round2_recipe := None,
     fm_closing_recipe := Some ''interview:yall-synthesize'',
     fm_round2_kind := Skip,
     fm_mode_hint := ''panel of expert perspectives, parallel openings''\<rparr>"

definition fmt_interview_eachother :: Format where
  "fmt_interview_eachother = (default_format ''interview-eachother'' (''Panel openings; peers probe each other.''))\<lparr>
     fm_code := Some ''human.query'',
     fm_role := ''interview'',
     fm_round1_recipe := Some ''interview:yall'',
     fm_round2_recipe := Some ''interview:eachother'',
     fm_closing_recipe := Some ''interview:eachother-answer'',
     fm_mode_hint := ''panel of experts who will ask each other follow-ups''\<rparr>"

definition fmt_collaborate_joint :: Format where
  "fmt_collaborate_joint = (default_format ''collaborate-joint'' (''Joint problem-solving: propose, build, synthesize.''))\<lparr>
     fm_code := Some ''collaborative.reason'',
     fm_role := ''collaborate'',
     fm_round1_recipe := Some ''collaborate:joint-propose'',
     fm_round2_recipe := Some ''collaborate:joint-build-on'',
     fm_closing_recipe := Some ''collaborate:joint-synthesize'',
     fm_mode_hint := ''team of collaborators solving a shared problem together''\<rparr>"

definition fmt_collaborate_role :: Format where
  "fmt_collaborate_role = (default_format ''collaborate-role'' (''Role-divided planning: plan, conflict, consolidate.''))\<lparr>
     fm_code := Some ''collaborative.reason'',
     fm_role := ''collaborate'',
     fm_round1_recipe := Some ''collaborate:role-plan'',
     fm_round2_recipe := Some ''collaborate:role-conflicts'',
     fm_closing_recipe := Some ''collaborate:role-consolidate'',
     fm_mode_hint := ''team where each member owns a distinct role in one plan''\<rparr>"

definition fmt_collaborate_brainstorm :: Format where
  "fmt_collaborate_brainstorm = (default_format ''collaborate-brainstorm'' (''Divergence + clustering + top-3 commitment.''))\<lparr>
     fm_code := Some ''collaborative.reason'',
     fm_role := ''collaborate'',
     fm_round1_recipe := Some ''collaborate:brainstorm-diverge'',
     fm_round2_recipe := Some ''collaborate:brainstorm-cluster'',
     fm_closing_recipe := Some ''collaborate:brainstorm-top3'',
     fm_mode_hint := ''brainstorming session with diverse idea generators''\<rparr>"

definition fmt_converse_free :: Format where
  "fmt_converse_free = (default_format ''converse-free'' (''Free-flowing chat: open, respond, reflect.''))\<lparr>
     fm_code := Some ''collaborative.reason'',
     fm_role := ''converse'',
     fm_round1_recipe := Some ''converse:free-open'',
     fm_round2_recipe := Some ''converse:free-respond'',
     fm_closing_recipe := Some ''converse:free-reflect'',
     fm_mode_hint := ''open-ended conversation, no goal, just exchange''\<rparr>"

definition fmt_converse_socratic :: Format where
  "fmt_converse_socratic = (default_format ''converse-socratic'' (''Pose-and-answer: question, answer, unanswered.''))\<lparr>
     fm_code := Some ''collaborative.reason'',
     fm_role := ''converse'',
     fm_round1_recipe := Some ''converse:socratic-question'',
     fm_round2_recipe := Some ''converse:socratic-answer'',
     fm_closing_recipe := Some ''converse:socratic-unanswered'',
     fm_mode_hint := ''socratic dialogue where participants pose pointed questions''\<rparr>"

definition fmt_converse_devils :: Format where
  "fmt_converse_devils = (default_format ''converse-devils'' (''Devil'' @ [CHR 0x27] @ ''s advocate: position, flip, final.''))\<lparr>
     fm_code := Some ''collaborative.reason'',
     fm_role := ''converse'',
     fm_round1_recipe := Some ''converse:devils-position'',
     fm_round2_recipe := Some ''converse:devils-flip'',
     fm_closing_recipe := Some ''converse:devils-final'',
     fm_mode_hint := ''participants prepared to argue both sides; opinionated but honest''\<rparr>"

definition fmt_fiction_theatre :: Format where
  "fmt_fiction_theatre = (default_format ''fiction-theatre'' (''Character-driven scene: enter, respond, final beat.''))\<lparr>
     fm_code := Some ''collaborative.reason'',
     fm_role := ''fiction'',
     fm_round1_recipe := Some ''fiction:theatre-enter'',
     fm_round2_recipe := Some ''fiction:theatre-respond'',
     fm_closing_recipe := Some ''fiction:theatre-final'',
     fm_mode_hint := ''cast of characters for a short dramatic scene''\<rparr>"

definition fmt_fiction_authors :: Format where
  "fmt_fiction_authors = (default_format ''fiction-authors'' (''Co-authors writing one narration: setup, complication, resolution.''))\<lparr>
     fm_code := Some ''collaborative.reason'',
     fm_role := ''fiction'',
     fm_round1_recipe := Some ''fiction:authors-setup'',
     fm_round2_recipe := Some ''fiction:authors-complication'',
     fm_closing_recipe := Some ''fiction:authors-resolution'',
     fm_mode_hint := ''co-authors in a writers'' @ [CHR 0x27] @ '' room building one short story together''\<rparr>"

definition fmt_deliberate :: Format where
  "fmt_deliberate = (default_format ''deliberate'' (''Decision panel: position, negotiate, vote.''))\<lparr>
     fm_code := Some ''collaborative.consensus'',
     fm_role := ''deliberate'',
     fm_round1_recipe := Some ''deliberate:position'',
     fm_round2_recipe := Some ''deliberate:negotiate'',
     fm_closing_recipe := Some ''deliberate:vote'',
     fm_mode_hint := ''stakeholders deliberating to reach a decision''\<rparr>"

definition fmt_teach :: Format where
  "fmt_teach = (default_format ''teach'' (''Single teacher + 3 misconception questions.''))\<lparr>
     fm_code := Some ''human.explain'',
     fm_role := ''teach'',
     fm_round1_recipe := Some ''teach:explain'',
     fm_round2_recipe := Some ''teach:misconception'',
     fm_closing_recipe := Some ''teach:remember'',
     fm_count_strategy := Force_One,
     fm_round2_kind := Sequential_Probes,
     fm_closing_kind := Sequential_Probes,
     fm_probe_count := 3,
     fm_mode_hint := ''domain expert chosen specifically for clear teaching ability''\<rparr>"

definition fmt_estimate :: Format where
  "fmt_estimate = (default_format ''estimate'' (''Forecasting panel: propose, update, commit.''))\<lparr>
     fm_code := Some ''collaborative.consensus'',
     fm_role := ''estimate'',
     fm_round1_recipe := Some ''estimate:propose'',
     fm_round2_recipe := Some ''estimate:update'',
     fm_closing_recipe := Some ''estimate:commit'',
     fm_mode_hint := ''diverse forecasters with different priors on this question''\<rparr>"

definition fmt_interrogate :: Format where
  "fmt_interrogate = (default_format ''interrogate'' (''Hostile cross-examination of one witness.''))\<lparr>
     fm_code := Some ''adversarial.challenge'',
     fm_role := ''interrogate'',
     fm_round1_recipe := Some ''interrogate:open'',
     fm_round2_recipe := Some ''interrogate:cross'',
     fm_closing_recipe := Some ''interrogate:hold'',
     fm_count_strategy := Force_One,
     fm_round2_kind := Sequential_Probes,
     fm_closing_kind := Sequential_Probes,
     fm_probe_count := 3,
     fm_mode_hint := ''single witness with a defensible position to cross-examine''\<rparr>"


definition LEGACY_FORMATS :: "Format list" where
  "LEGACY_FORMATS = [fmt_debate,
     fmt_interview_me,
     fmt_interview_yall,
     fmt_interview_eachother,
     fmt_collaborate_joint,
     fmt_collaborate_role,
     fmt_collaborate_brainstorm,
     fmt_converse_free,
     fmt_converse_socratic,
     fmt_converse_devils,
     fmt_fiction_theatre,
     fmt_fiction_authors,
     fmt_deliberate,
     fmt_teach,
     fmt_estimate,
     fmt_interrogate]"

section \<open>Registration\<close>

text \<open>
  The dictionary of the templates, and the loop that adds the games at import time and
  refuses a name that is taken.
\<close>

fun add_formats :: "(string, Format) dict \<Rightarrow> Format list \<Rightarrow> (string, Format) dict res" where
  "add_formats d [] = Inr d"
| "add_formats d (f # fs) =
     (if map_of d (fm_name f) \<noteq> None then Inl RuntimeError else add_formats (AList.update (fm_name f) f d) fs)"

definition format_table :: "Format list \<Rightarrow> (string, Format) dict" where
  "format_table fs = dict_of (map (\<lambda>f. (fm_name f, f)) fs)"

definition get_format :: "(string, Format) dict \<Rightarrow> string \<Rightarrow> Format res" where
  "get_format table name = (case map_of table name of None \<Rightarrow> Inl LookupError | Some f \<Rightarrow> Inr f)"

definition list_formats :: "(string, Format) dict \<Rightarrow> Format list" where
  "list_formats table = sort_key fm_name (map snd table)"

lemma add_formats_fresh:
  assumes "distinct (map fst d @ map fm_name fs)"
  shows "add_formats d fs = Inr (d @ map (\<lambda>f. (fm_name f, f)) fs)"
  using assms
proof (induction fs arbitrary: d)
  case (Cons f fs)
  then have "fm_name f \<notin> fst ` set d" by auto
  with Cons show ?case by (simp add: map_of_eq_None_iff update_new)
qed simp

lemma format_table_distinct: "distinct (map fm_name fs) \<Longrightarrow> format_table fs = map (\<lambda>f. (fm_name f, f)) fs"
  unfolding format_table_def by (rule dict_of_id) (simp add: comp_def)

end
