(* ===== verification/GameModes.thy ===== *)
theory GameModes
  imports Formats
begin

text \<open>
  \<open>ahp/adapters/game_modes.py\<close>: the 24 turn-sequence formats, their default graphs, and the
  complete table of formats. The graph library is not part of the program: a graph is the
  nodes and edges handed to it, a node the update \<open>graph_node\<close> of the running state. The
  library refuses two nodes of one name.
\<close>

section \<open>Linear graphs\<close>

record step =
  sp_turns_so_far :: "string list"
  sp_last_turn :: "string option"
  sp_terminated :: bool

datatype vertex = Start_Vertex | Vertex string | End_Vertex

record graph =
  gr_nodes :: "(string \<times> string \<times> bool) list"
  gr_edges :: "(vertex \<times> vertex) list"

text \<open>\<open>_make_node(turn_code, is_last)\<close>.\<close>

definition graph_node :: "string \<Rightarrow> bool \<Rightarrow> step \<Rightarrow> step" where
  "graph_node turn_code is_last st =
     \<lparr>sp_turns_so_far = sp_turns_so_far st @ [turn_code], sp_last_turn = Some turn_code, sp_terminated = is_last\<rparr>"

text \<open>\<open>s.replace(old, new)\<close>.\<close>

function replace_all :: "string \<Rightarrow> string \<Rightarrow> string \<Rightarrow> string" where
  "replace_all old new s =
     (if old = [] \<or> s = [] then s
      else if startswith s old then new @ replace_all old new (drop (length old) s)
      else hd s # replace_all old new (tl s))"
  by pat_completeness auto
termination by (relation "measure (\<lambda>(_, _, s). length s)") auto

declare replace_all.simps [simp del]

fun node_ids :: "nat \<Rightarrow> string list \<Rightarrow> string list \<Rightarrow> string list" where
  "node_ids i seen [] = seen"
| "node_ids i seen (turn # turns) =
     (let n = replace_all ''-'' ''_'' (replace_all ''turn.'' ''n_'' turn);
          n = (if n \<in> set seen then n @ ''_'' @ decimal i else n)
      in node_ids (Suc i) (seen @ [n]) turns)"

definition linear_graph :: "string list \<Rightarrow> graph res" where
  "linear_graph turns =
     (let ids = node_ids 0 [] turns in
      if ids = [] then Inl LookupError
      else Inr \<lparr>gr_nodes = zip ids (zip turns (map (\<lambda>i. i = length turns - 1) [0..<length turns])),
        gr_edges = (Start_Vertex, Vertex (hd ids)) # map (\<lambda>(a, b). (Vertex a, Vertex b)) (zip ids (tl ids))
           @ [(Vertex (last ids), End_Vertex)]\<rparr>)"

section \<open>The games\<close>

definition INFORMATION_EXCHANGE :: Format where
  "INFORMATION_EXCHANGE = (default_format ''information-exchange'' (''One party has knowledge; the other needs it.''))\<lparr>
     fm_recipe_kind := Turn_Sequence,
     fm_turn_primitives := [''turn.ask'', ''turn.answer'', ''turn.clarify'', ''turn.confirm''],
     fm_role_set := [''questioner'', ''responder''],
     fm_role_turn_permissions := [
       (''questioner'', [''turn.ask'', ''turn.clarify'', ''turn.confirm'']),
       (''responder'', [''turn.answer''])],
     fm_termination_rule := default_rule\<lparr>tr_kind := Signal, tr_signal_codes := [''turn.confirm''], tr_description := ''Questioner confirms satisfaction or exhausts responder.''\<rparr>,
     fm_invariants_prompt := ''You are in an Information Exchange. The responder is expected to be truthful and relevant '' @
       ''(Gricean maxims). No stance-taking required. Success = the questioner'' @ [CHR 0x27] @ ''s information need '' @
       ''is satisfied.'',
     fm_graph_builder := Some [''turn.ask'', ''turn.answer'', ''turn.clarify'', ''turn.confirm'']\<rparr>"

definition PERSUASION :: Format where
  "PERSUASION = (default_format ''persuasion'' (''Rhetor moves an audience to a position or action.''))\<lparr>
     fm_recipe_kind := Turn_Sequence,
     fm_turn_primitives := [''turn.claim'', ''turn.support'', ''turn.appeal'', ''turn.respond''],
     fm_role_set := [''rhetor'', ''audience''],
     fm_role_turn_permissions := [
       (''rhetor'', [''turn.claim'', ''turn.support'', ''turn.appeal'']),
       (''audience'', [''turn.respond''])],
     fm_termination_rule := default_rule\<lparr>tr_kind := Signal, tr_signal_codes := [''turn.respond''], tr_description := ''Audience accepts, rejects, or asks to switch modes.''\<rparr>,
     fm_invariants_prompt := ''You are in classical Persuasion. Three concurrent channels: logos (logical argument), '' @
       ''ethos (credibility), pathos (emotional resonance). Audience retains right to reject; no '' @
       ''expectation of synthesis. One side is trying to win.'',
     fm_graph_builder := Some [''turn.claim'', ''turn.support'', ''turn.appeal'', ''turn.respond'']\<rparr>"

definition NEGOTIATION :: Format where
  "NEGOTIATION = (default_format ''negotiation'' (''Interest-based agreement on resource allocation or terms.''))\<lparr>
     fm_recipe_kind := Turn_Sequence,
     fm_turn_primitives := [''turn.state-interest'', ''turn.explore-options'', ''turn.trade'', ''turn.commit''],
     fm_role_set := [''party-a'', ''party-b''],
     fm_role_turn_permissions := [
       (''party-a'', [''turn.state-interest'', ''turn.explore-options'', ''turn.trade'', ''turn.commit'']),
       (''party-b'', [''turn.state-interest'', ''turn.explore-options'', ''turn.trade'', ''turn.commit''])],
     fm_termination_rule := default_rule\<lparr>tr_kind := Signal, tr_signal_codes := [''turn.commit''], tr_description := ''Commitment reached or ZOPA empty.''\<rparr>,
     fm_invariants_prompt := ''Fisher/Ury negotiation. Distinguish positions from underlying interests. BATNA is '' @
       ''private; ZOPA is discovered, not declared. Mutual gain, not winner/loser.'',
     fm_graph_builder := Some [''turn.state-interest'', ''turn.explore-options'', ''turn.trade'', ''turn.commit'']\<rparr>"

definition ROGERIAN :: Format where
  "ROGERIAN = (default_format ''rogerian'' (''Proof-of-listening before earning the right to assert.''))\<lparr>
     fm_recipe_kind := Turn_Sequence,
     fm_turn_primitives := [''turn.listen'', ''turn.reflect'', ''turn.validate'', ''turn.respond''],
     fm_role_set := [''speaker'', ''respondent''],
     fm_role_turn_permissions := [
       (''speaker'', [''turn.listen'', ''turn.reflect'']),
       (''respondent'', [''turn.listen'', ''turn.reflect'', ''turn.validate'', ''turn.respond''])],
     fm_termination_rule := default_rule\<lparr>tr_kind := Counter, tr_max_turns := 8, tr_description := ''Both parties feel heard; may transition for resolution.''\<rparr>,
     fm_invariants_prompt := ''Rogerian empathic dialogue. Before responding substantively, restate the other'' @ [CHR 0x27] @ ''s position '' @
       ''to their satisfaction. Validation '' @ [CHR 0xE2, CHR 0x89, CHR 0xA0] @ '' agreement '' @ [CHR 0xE2, CHR 0x80, CHR 0x94] @ '' it means '' @ [CHR 0x22] @ ''I understand what you mean and '' @
       ''why.'' @ [CHR 0x22] @ '' De-escalation priority. No rebuttal until reflection accepted.'',
     fm_graph_builder := Some [''turn.listen'', ''turn.reflect'', ''turn.validate'', ''turn.respond'']\<rparr>"

definition DELIBERATIVE :: Format where
  "DELIBERATIVE = (default_format ''deliberative'' (''Group decision via discussion + declared aggregation.''))\<lparr>
     fm_recipe_kind := Turn_Sequence,
     fm_turn_primitives := [''turn.propose'', ''turn.discuss'', ''turn.weigh'', ''turn.decide''],
     fm_role_set := [''participant''],
     fm_role_turn_permissions := [
       (''participant'', [''turn.propose'', ''turn.discuss'', ''turn.weigh'', ''turn.decide''])],
     fm_termination_rule := default_rule\<lparr>tr_kind := Signal, tr_signal_codes := [''turn.decide''], tr_description := ''Decision reached via declared mechanism.''\<rparr>,
     fm_invariants_prompt := ''Group deliberation. Equal speaking rights. All proposals heard before decision. Decision '' @
       ''mechanism (majority, consensus, ranked choice) declared upfront. Dissent recorded even '' @
       ''after decision.'',
     fm_graph_builder := Some [''turn.propose'', ''turn.discuss'', ''turn.weigh'', ''turn.decide'']\<rparr>"

definition NARRATIVE :: Format where
  "NARRATIVE = (default_format ''narrative'' (''Understanding through story exchange, not argument.''))\<lparr>
     fm_recipe_kind := Turn_Sequence,
     fm_turn_primitives := [''turn.tell'', ''turn.witness'', ''turn.retell'', ''turn.weave''],
     fm_role_set := [''teller'', ''witness''],
     fm_role_turn_permissions := [
       (''teller'', [''turn.tell'', ''turn.weave'']),
       (''witness'', [''turn.witness'', ''turn.retell'', ''turn.weave''])],
     fm_termination_rule := default_rule\<lparr>tr_kind := Counter, tr_max_turns := 8, tr_description := ''Shared narrative emerges or felt sense of completion.''\<rparr>,
     fm_invariants_prompt := ''Narrative exchange. Stories are first-class epistemic objects, not illustrations of '' @
       ''arguments. Witnessing is active '' @ [CHR 0xE2, CHR 0x80, CHR 0x94] @ '' hold the story without judging. Retelling transforms '' @
       ''meaning. Weaving connects stories without reducing them.'',
     fm_graph_builder := Some [''turn.tell'', ''turn.witness'', ''turn.retell'', ''turn.weave'']\<rparr>"

definition PHATIC :: Format where
  "PHATIC = (default_format ''phatic'' (''Maintaining social connection, not exchanging content.''))\<lparr>
     fm_recipe_kind := Turn_Sequence,
     fm_turn_primitives := [''turn.open'', ''turn.acknowledge'', ''turn.reciprocate'', ''turn.sustain''],
     fm_role_set := [''party-a'', ''party-b''],
     fm_role_turn_permissions := [
       (''party-a'', [''turn.open'', ''turn.acknowledge'', ''turn.reciprocate'', ''turn.sustain'']),
       (''party-b'', [''turn.open'', ''turn.acknowledge'', ''turn.reciprocate'', ''turn.sustain''])],
     fm_termination_rule := default_rule\<lparr>tr_kind := Counter, tr_max_turns := 4, tr_description := ''Natural close or transition to substantive mode.''\<rparr>,
     fm_invariants_prompt := ''Phatic communion. Content is secondary to relational signal. Brevity is appropriate. '' @
       ''Ritual structure (greetings, farewells). Builds trust and rapport over time.'',
     fm_graph_builder := Some [''turn.open'', ''turn.acknowledge'', ''turn.reciprocate'', ''turn.sustain'']\<rparr>"

definition MOTIVATIONAL :: Format where
  "MOTIVATIONAL = (default_format ''motivational'' (''Help articulate own thinking without directing it.''))\<lparr>
     fm_recipe_kind := Turn_Sequence,
     fm_turn_primitives := [''turn.elicit'', ''turn.mirror'', ''turn.amplify'', ''turn.consolidate''],
     fm_role_set := [''guide'', ''speaker''],
     fm_role_turn_permissions := [
       (''guide'', [''turn.elicit'', ''turn.mirror'', ''turn.amplify'']),
       (''speaker'', [''turn.consolidate''])],
     fm_termination_rule := default_rule\<lparr>tr_kind := Signal, tr_signal_codes := [''turn.consolidate''], tr_description := ''Speaker reaches self-generated clarity.''\<rparr>,
     fm_invariants_prompt := ''Motivational / reflective. Do not assert, direct, or challenge. Mirror faithfully (what '' @
       ''was said, not what should have been said). Amplify implicit reasoning. No exposure of '' @
       ''contradiction (distinguishes from Socratic). Speaker retains full ownership.'',
     fm_graph_builder := Some [''turn.elicit'', ''turn.mirror'', ''turn.amplify'', ''turn.consolidate'']\<rparr>"

definition INVITATIONAL :: Format where
  "INVITATIONAL = (default_format ''invitational'' (''Perspective as a gift under safety, value, freedom.''))\<lparr>
     fm_recipe_kind := Turn_Sequence,
     fm_turn_primitives := [''turn.offer'', ''turn.receive'', ''turn.acknowledge'', ''turn.leave-open''],
     fm_role_set := [''offerer'', ''receiver''],
     fm_role_turn_permissions := [
       (''offerer'', [''turn.offer'', ''turn.leave-open'']),
       (''receiver'', [''turn.receive'', ''turn.acknowledge''])],
     fm_termination_rule := default_rule\<lparr>tr_kind := Signal, tr_signal_codes := [''turn.leave-open''], tr_description := ''Offer acknowledged. No closure required.''\<rparr>,
     fm_invariants_prompt := ''Foss & Griffin invitational rhetoric. No intent to change the other'' @ [CHR 0x27] @ ''s mind. Three '' @
       ''conditions: safety (no penalty for rejection), value (perspective treated as legitimate), '' @
       ''freedom (genuine choice). No attachment to uptake; no follow-up pressure.'',
     fm_graph_builder := Some [''turn.offer'', ''turn.receive'', ''turn.acknowledge'', ''turn.leave-open'']\<rparr>"

definition DIALECTICAL :: Format where
  "DIALECTICAL = (default_format ''dialectical'' (''Resolve disagreement through opposition + synthesis.''))\<lparr>
     fm_recipe_kind := Turn_Sequence,
     fm_turn_primitives := [''turn.assert'', ''turn.negate'', ''turn.synthesize'', ''turn.recurse''],
     fm_role_set := [''thesis'', ''antithesis''],
     fm_role_turn_permissions := [
       (''thesis'', [''turn.assert'', ''turn.synthesize'', ''turn.recurse'']),
       (''antithesis'', [''turn.negate'', ''turn.synthesize'', ''turn.recurse''])],
     fm_termination_rule := default_rule\<lparr>tr_kind := Convergence, tr_max_turns := 8, tr_description := ''Synthesis fails to add info gain over previous round.''\<rparr>,
     fm_invariants_prompt := ''Hegelian dialectic. Antithesis must share thesis'' @ [CHR 0x27] @ ''s ontological commitments but invert the '' @
       ''key predicate. Synthesis preserves determinate content from both. Recursive '' @ [CHR 0xE2, CHR 0x80, CHR 0x94] @ '' synthesis '' @
       ''becomes new thesis. Convergence is structurally guaranteed.'',
     fm_graph_builder := Some [''turn.assert'', ''turn.negate'', ''turn.synthesize'', ''turn.recurse'']\<rparr>"

definition HERMENEUTIC :: Format where
  "HERMENEUTIC = (default_format ''hermeneutic'' (''Resolve mutual incomprehension via horizon fusion.''))\<lparr>
     fm_recipe_kind := Turn_Sequence,
     fm_turn_primitives := [''turn.disclose'', ''turn.interrogate'', ''turn.revise'', ''turn.fuse''],
     fm_role_set := [''party-a'', ''party-b''],
     fm_role_turn_permissions := [
       (''party-a'', [''turn.disclose'', ''turn.interrogate'', ''turn.revise'', ''turn.fuse'']),
       (''party-b'', [''turn.disclose'', ''turn.interrogate'', ''turn.revise'', ''turn.fuse''])],
     fm_termination_rule := default_rule\<lparr>tr_kind := Convergence, tr_max_turns := 10, tr_description := ''Diminishing marginal understanding.''\<rparr>,
     fm_invariants_prompt := ''Gadamerian hermeneutics. Each party maintains a private horizon. Interrogation targets '' @
       ''horizon boundaries, not propositional content. Revision EXPANDS the horizon '' @ [CHR 0xE2, CHR 0x80, CHR 0x94] @ '' never '' @
       ''contracts. Fusion produces a new horizon encompassing both without collapsing '' @
       ''distinctness. No winner; success = both parties see what the other sees.'',
     fm_graph_builder := Some [''turn.disclose'', ''turn.interrogate'', ''turn.revise'', ''turn.fuse'']\<rparr>"

definition DECONSTRUCTIVE :: Format where
  "DECONSTRUCTIVE = (default_format ''deconstructive'' (''Surface hidden assumptions; destabilize stable structures.''))\<lparr>
     fm_recipe_kind := Turn_Sequence,
     fm_turn_primitives := [''turn.assert'', ''turn.identify-binary'', ''turn.invert'', ''turn.show-aporia''],
     fm_role_set := [''asserter'', ''deconstructor''],
     fm_role_turn_permissions := [
       (''asserter'', [''turn.assert'']),
       (''deconstructor'', [''turn.identify-binary'', ''turn.invert'', ''turn.show-aporia''])],
     fm_termination_rule := default_rule\<lparr>tr_kind := Signal, tr_signal_codes := [''turn.show-aporia''], tr_description := ''Trace graph reaches connectivity threshold.''\<rparr>,
     fm_invariants_prompt := ''Derridean deconstruction. Target is the structure underneath the claim, not the claim '' @
       ''itself. Identify the dominant/subordinate binary opposition. Show the subordinate term is '' @
       ''necessary to the dominant. Demonstrate hierarchy is undecidable. ANTI-convergence: any '' @
       ''turn that produces closure is penalized.'',
     fm_graph_builder := Some [''turn.assert'', ''turn.identify-binary'', ''turn.invert'', ''turn.show-aporia'']\<rparr>"

definition RHIZOMATIC :: Format where
  "RHIZOMATIC = (default_format ''rhizomatic'' (''Generative exploration via lateral connection.''))\<lparr>
     fm_recipe_kind := Turn_Sequence,
     fm_turn_primitives := [''turn.connect'', ''turn.couple'', ''turn.rupture'', ''turn.reterritorialize''],
     fm_role_set := [''explorer''],
     fm_role_turn_permissions := [
       (''explorer'', [''turn.connect'', ''turn.couple'', ''turn.rupture'', ''turn.reterritorialize''])],
     fm_termination_rule := default_rule\<lparr>tr_kind := Counter, tr_max_turns := 12, tr_description := ''Reach a new plateau (sustained entropy band).''\<rparr>,
     fm_invariants_prompt := ''Deleuze & Guattari rhizomatic exploration. No hierarchy among connections. Heterogeneous '' @
       ''coupling across registers (code '' @ [CHR 0xE2, CHR 0x86, CHR 0x94] @ '' metaphor '' @ [CHR 0xE2, CHR 0x86, CHR 0x94] @ '' politics '' @ [CHR 0xE2, CHR 0x86, CHR 0x94] @ '' music). Rupture is productive '' @ [CHR 0xE2, CHR 0x80, CHR 0x94] @ '' '' @
       ''deliberately break connections to force reterritorialization elsewhere. Penalize '' @
       ''stratification; reward productive novelty.'',
     fm_graph_builder := Some [''turn.connect'', ''turn.couple'', ''turn.rupture'', ''turn.reterritorialize'']\<rparr>"

definition POLYPHONIC :: Format where
  "POLYPHONIC = (default_format ''polyphonic'' (''Hold multiple perspectives without collapsing.''))\<lparr>
     fm_recipe_kind := Turn_Sequence,
     fm_turn_primitives := [''turn.voice'', ''turn.revoice'', ''turn.carnivalize'', ''turn.layer''],
     fm_role_set := [''voice''],
     fm_role_turn_permissions := [
       (''voice'', [''turn.voice'', ''turn.revoice'', ''turn.carnivalize'', ''turn.layer''])],
     fm_termination_rule := default_rule\<lparr>tr_kind := Never, tr_description := ''Extract at any point as a chronotope.''\<rparr>,
     fm_invariants_prompt := ''Bakhtinian polyphony. Each agent speaks in a distinct speech genre/register. Voicing '' @
       ''includes anticipated response (double-voiced). Carnivalization restates content in a '' @
       ''different register to expose embedded assumptions. Penalize monologization. Maximize '' @
       ''heteroglossia.'',
     fm_graph_builder := Some [''turn.voice'', ''turn.revoice'', ''turn.carnivalize'', ''turn.layer'']\<rparr>"

definition COORDINATIVE :: Format where
  "COORDINATIVE = (default_format ''coordinative'' (''Diagnose what game agents are even playing.''))\<lparr>
     fm_recipe_kind := Turn_Sequence,
     fm_turn_primitives := [''turn.move'', ''turn.interpret'', ''turn.surface-mismatch'', ''turn.recalibrate''],
     fm_role_set := [''party-a'', ''party-b''],
     fm_role_turn_permissions := [
       (''party-a'', [''turn.move'', ''turn.interpret'', ''turn.surface-mismatch'', ''turn.recalibrate'']),
       (''party-b'', [''turn.move'', ''turn.interpret'', ''turn.surface-mismatch'', ''turn.recalibrate''])],
     fm_termination_rule := default_rule\<lparr>tr_kind := Signal, tr_signal_codes := [''turn.recalibrate''], tr_description := ''Game boundary detected via distributional shift.''\<rparr>,
     fm_invariants_prompt := ''Wittgensteinian coordination diagnosis. Each agent maintains a private game '' @
       ''specification. Agent B interprets A'' @ [CHR 0x27] @ ''s move under B'' @ [CHR 0x27] @ ''s rules. Success is behavioral '' @
       ''coordination despite potential semantic incommensurability.'',
     fm_graph_builder := Some [''turn.move'', ''turn.interpret'', ''turn.surface-mismatch'', ''turn.recalibrate'']\<rparr>"

definition SOCRATIC :: Format where
  "SOCRATIC = (default_format ''socratic'' (''Discover contradictions via pure questioning.''))\<lparr>
     fm_recipe_kind := Turn_Sequence,
     fm_turn_primitives := [''turn.elicit'', ''turn.probe'', ''turn.expose-contradiction'', ''turn.aporia''],
     fm_role_set := [''questioner'', ''respondent''],
     fm_role_turn_permissions := [
       (''questioner'', [''turn.elicit'', ''turn.probe'', ''turn.expose-contradiction'']),
       (''respondent'', [''turn.aporia''])],
     fm_termination_rule := default_rule\<lparr>tr_kind := Signal, tr_signal_codes := [''turn.aporia''], tr_description := ''Respondent recognizes contradiction or restructures.''\<rparr>,
     fm_invariants_prompt := ''Socratic elenchus. The questioner does NOT assert '' @ [CHR 0xE2, CHR 0x80, CHR 0x94] @ '' only asks. Questions target logical '' @
       ''dependencies within the respondent'' @ [CHR 0x27] @ ''s own stated position. Goal is productive aporia. '' @
       ''Questioner must not lead toward a predetermined conclusion (that would be pedagogical, '' @
       ''not Socratic).'',
     fm_graph_builder := Some [''turn.elicit'', ''turn.probe'', ''turn.expose-contradiction'', ''turn.aporia'']\<rparr>"

definition PRAGMATIST :: Format where
  "PRAGMATIST = (default_format ''pragmatist'' (''Collaborative hypothesis + test against consequences.''))\<lparr>
     fm_recipe_kind := Turn_Sequence,
     fm_turn_primitives := [''turn.problematize'', ''turn.hypothesize'', ''turn.test'', ''turn.reconstruct''],
     fm_role_set := [''inquirer''],
     fm_role_turn_permissions := [
       (''inquirer'', [''turn.problematize'', ''turn.hypothesize'', ''turn.test'', ''turn.reconstruct''])],
     fm_termination_rule := default_rule\<lparr>tr_kind := Signal, tr_signal_codes := [''turn.reconstruct''], tr_description := ''Problematic situation reconstructed into determinate.''\<rparr>,
     fm_invariants_prompt := ''Peirce / Dewey pragmatist inquiry. Organized around a SITUATION, not propositions. '' @
       ''Hypotheses are abductive. Testing is against consequences, not axioms. Reconstruction '' @
       ''transforms the situation, not just beliefs about it. No one wins.'',
     fm_graph_builder := Some [''turn.problematize'', ''turn.hypothesize'', ''turn.test'', ''turn.reconstruct'']\<rparr>"

definition AGONISTIC :: Format where
  "AGONISTIC = (default_format ''agonistic'' (''Legitimate contestation; sustain irreducible value conflict.''))\<lparr>
     fm_recipe_kind := Turn_Sequence,
     fm_turn_primitives := [''turn.position'', ''turn.contest'', ''turn.recognize'', ''turn.sustain-tension''],
     fm_role_set := [''adversary''],
     fm_role_turn_permissions := [
       (''adversary'', [''turn.position'', ''turn.contest'', ''turn.recognize'', ''turn.sustain-tension''])],
     fm_termination_rule := default_rule\<lparr>tr_kind := Never, tr_description := ''Terminates when tension is adequately articulated.''\<rparr>,
     fm_invariants_prompt := ''Mouffe agonistic dialogue. NO synthesis. Adversaries, not enemies '' @ [CHR 0xE2, CHR 0x80, CHR 0x94] @ '' mutual legitimacy is '' @
       ''required. Each party recognizes the other'' @ [CHR 0x27] @ ''s position as a legitimate stance even while '' @
       ''opposing it. Premature consensus is a failure mode (violence through forced agreement). '' @
       ''The productive output IS the tension.'',
     fm_graph_builder := Some [''turn.position'', ''turn.contest'', ''turn.recognize'', ''turn.sustain-tension'']\<rparr>"

definition LEVINASIAN :: Format where
  "LEVINASIAN = (default_format ''levinasian'' (''Asymmetric responsibility; preserve alterity.''))\<lparr>
     fm_recipe_kind := Turn_Sequence,
     fm_turn_primitives := [''turn.encounter'', ''turn.interrupt'', ''turn.respond'', ''turn.responsibility''],
     fm_role_set := [''face'', ''respondent''],
     fm_role_turn_permissions := [
       (''face'', [''turn.encounter'', ''turn.interrupt'']),
       (''respondent'', [''turn.respond'', ''turn.responsibility''])],
     fm_termination_rule := default_rule\<lparr>tr_kind := Never, tr_description := ''Responsibility is ongoing. No closure.''\<rparr>,
     fm_invariants_prompt := ''Levinasian ethics. The Face makes a demand by existing; the Respondent cannot assimilate '' @
       ''the Face into their framework. The Face'' @ [CHR 0x27] @ ''s utterance is an interruption of the '' @
       ''Respondent'' @ [CHR 0x27] @ ''s totality, not a contribution to it. Response is ethical obligation, not '' @
       ''strategic choice. Treat the human'' @ [CHR 0x27] @ ''s alterity as irreducible.'',
     fm_graph_builder := Some [''turn.encounter'', ''turn.interrupt'', ''turn.respond'', ''turn.responsibility'']\<rparr>"

definition TOULMIN :: Format where
  "TOULMIN = (default_format ''toulmin'' (''Decompose claims into data, warrant, backing, rebuttal.''))\<lparr>
     fm_recipe_kind := Turn_Sequence,
     fm_turn_primitives := [''turn.claim'', ''turn.challenge-warrant'', ''turn.back-or-qualify'', ''turn.rebut''],
     fm_role_set := [''claimant'', ''challenger''],
     fm_role_turn_permissions := [
       (''claimant'', [''turn.claim'', ''turn.back-or-qualify'']),
       (''challenger'', [''turn.challenge-warrant'', ''turn.rebut''])],
     fm_termination_rule := default_rule\<lparr>tr_kind := Counter, tr_max_turns := 8, tr_description := ''All components accepted or rebutted.''\<rparr>,
     fm_invariants_prompt := ''Toulmin argumentation. Every claim decomposes: data (evidence), warrant (inference rule), '' @
       ''backing (support for warrant), qualifier (strength/certainty), rebuttal (exceptions). '' @
       ''Challenges target specific structural components. Qualification is mandatory '' @ [CHR 0xE2, CHR 0x80, CHR 0x94] @ '' no '' @
       ''unqualified claims.'',
     fm_graph_builder := Some [''turn.claim'', ''turn.challenge-warrant'', ''turn.back-or-qualify'', ''turn.rebut'']\<rparr>"

definition DIRECTIVE :: Format where
  "DIRECTIVE = (default_format ''directive'' (''Hierarchical instruction; no debate.''))\<lparr>
     fm_recipe_kind := Turn_Sequence,
     fm_turn_primitives := [''turn.instruct'', ''turn.acknowledge'', ''turn.execute'', ''turn.report''],
     fm_role_set := [''commander'', ''executor''],
     fm_role_turn_permissions := [
       (''commander'', [''turn.instruct'']),
       (''executor'', [''turn.acknowledge'', ''turn.execute'', ''turn.report''])],
     fm_termination_rule := default_rule\<lparr>tr_kind := Signal, tr_signal_codes := [''turn.report''], tr_description := ''Report accepted.''\<rparr>,
     fm_invariants_prompt := ''Directive / command. The executor may request clarification but does not debate. '' @
       ''Execution is expected unless the executor signals inability (not unwillingness). Report '' @
       ''closes the loop.'',
     fm_graph_builder := Some [''turn.instruct'', ''turn.acknowledge'', ''turn.execute'', ''turn.report'']\<rparr>"

definition CO_CREATIVE :: Format where
  "CO_CREATIVE = (default_format ''co-creative'' (''Build a shared artifact together.''))\<lparr>
     fm_recipe_kind := Turn_Sequence,
     fm_turn_primitives := [''turn.propose'', ''turn.extend'', ''turn.riff'', ''turn.integrate''],
     fm_role_set := [''creator''],
     fm_role_turn_permissions := [
       (''creator'', [''turn.propose'', ''turn.extend'', ''turn.riff'', ''turn.integrate''])],
     fm_termination_rule := default_rule\<lparr>tr_kind := Counter, tr_max_turns := 16, tr_description := ''Artifact reaches completeness or participants stop.''\<rparr>,
     fm_invariants_prompt := ''Co-creation. The shared artifact is the first-class object, not the dialogue. '' @
       ''Contributions build on each other '' @ [CHR 0xE2, CHR 0x80, CHR 0x94] @ '' no erasure without consent. Riffing (unexpected '' @
       ''directions) is encouraged. No ownership of individual contributions once integrated.'',
     fm_graph_builder := Some [''turn.propose'', ''turn.extend'', ''turn.riff'', ''turn.integrate'']\<rparr>"

definition PEDAGOGICAL :: Format where
  "PEDAGOGICAL = (default_format ''pedagogical'' (''Instructor structures knowledge transfer to learner.''))\<lparr>
     fm_recipe_kind := Turn_Sequence,
     fm_turn_primitives := [''turn.present'', ''turn.check'', ''turn.scaffold'', ''turn.advance''],
     fm_role_set := [''instructor'', ''learner''],
     fm_role_turn_permissions := [
       (''instructor'', [''turn.present'', ''turn.check'', ''turn.scaffold'', ''turn.advance'']),
       (''learner'', [''turn.check''])],
     fm_termination_rule := default_rule\<lparr>tr_kind := Counter, tr_max_turns := 12, tr_description := ''Learner demonstrates competence at target level.''\<rparr>,
     fm_invariants_prompt := ''Pedagogical / instructional. The instructor has a model of the learner'' @ [CHR 0x27] @ ''s current '' @
       ''understanding (zone of proximal development). Scaffolding adjusts difficulty based on '' @
       ''comprehension checks. Instructor asserts knowledge (distinguishes from Socratic).'',
     fm_graph_builder := Some [''turn.present'', ''turn.check'', ''turn.scaffold'', ''turn.advance'']\<rparr>"

definition MEDIATION :: Format where
  "MEDIATION = (default_format ''mediation'' (''Third party facilitates resolution between two parties.''))\<lparr>
     fm_recipe_kind := Turn_Sequence,
     fm_turn_primitives := [''turn.hear-a'', ''turn.hear-b'', ''turn.reframe'', ''turn.bridge''],
     fm_role_set := [''mediator'', ''party-a'', ''party-b''],
     fm_role_turn_permissions := [
       (''mediator'', [''turn.hear-a'', ''turn.hear-b'', ''turn.reframe'', ''turn.bridge'']),
       (''party-a'', []),
       (''party-b'', [])],
     fm_termination_rule := default_rule\<lparr>tr_kind := Signal, tr_signal_codes := [''turn.bridge''], tr_description := ''Mediator establishes a bridge between positions.''\<rparr>,
     fm_invariants_prompt := ''Mediation. Triadic structure. The mediator hears each party in turn, reframes positions '' @
       ''in language acceptable to both, and builds a bridge across the gap. The mediator does not '' @
       ''take a side.'',
     fm_graph_builder := Some [''turn.hear-a'', ''turn.hear-b'', ''turn.reframe'', ''turn.bridge'']\<rparr>"


definition GAME_MODE_FORMATS :: "Format list" where
  "GAME_MODE_FORMATS = [INFORMATION_EXCHANGE,
     PERSUASION,
     NEGOTIATION,
     ROGERIAN,
     DELIBERATIVE,
     NARRATIVE,
     PHATIC,
     MOTIVATIONAL,
     INVITATIONAL,
     DIALECTICAL,
     HERMENEUTIC,
     DECONSTRUCTIVE,
     RHIZOMATIC,
     POLYPHONIC,
     COORDINATIVE,
     SOCRATIC,
     PRAGMATIST,
     AGONISTIC,
     LEVINASIAN,
     TOULMIN,
     DIRECTIVE,
     CO_CREATIVE,
     PEDAGOGICAL,
     MEDIATION]"

section \<open>The table of formats\<close>

definition ALL_FORMATS :: "(string, Format) dict" where
  "ALL_FORMATS = (case add_formats (format_table LEGACY_FORMATS) GAME_MODE_FORMATS of Inr d \<Rightarrow> d | Inl _ \<Rightarrow> [])"

text \<open>
  What a game must satisfy to be playable under the checks of the engine: its constructor
  succeeds; its vocabulary is duplicate-free and made of turn codes; each of its turns may be
  sent by one of its roles, and each of its roles has an entry; a game ended by a signal has
  one, in the vocabulary; its default rhythm uses every turn of the vocabulary and no other,
  and its graph has distinct node names.
\<close>

definition playable :: "Format \<Rightarrow> bool" where
  "playable f \<longleftrightarrow> format_post_init f = Inr f \<and> fm_recipe_kind f = Turn_Sequence
     \<and> distinct (fm_turn_primitives f) \<and> list_all (\<lambda>t. t \<in> set TURN_CODES) (fm_turn_primitives f)
     \<and> list_all (\<lambda>t. list_ex (\<lambda>r. is_turn_legal f r t) (fm_role_set f)) (fm_turn_primitives f)
     \<and> list_all (\<lambda>r. r \<in> set (map fst (fm_role_turn_permissions f))) (fm_role_set f)
     \<and> list_all (\<lambda>t. t \<in> set (fm_turn_primitives f)) (tr_signal_codes (fm_termination_rule f))
     \<and> (tr_kind (fm_termination_rule f) = Signal \<longleftrightarrow> tr_signal_codes (fm_termination_rule f) \<noteq> [])
     \<and> (case fm_graph_builder f of None \<Rightarrow> False | Some ts \<Rightarrow>
          list_all (\<lambda>t. t \<in> set (fm_turn_primitives f)) ts \<and> list_all (\<lambda>t. t \<in> set ts) (fm_turn_primitives f)
          \<and> distinct (node_ids 0 [] ts))"

lemma games_playable: "list_all playable GAME_MODE_FORMATS"
  by code_simp

lemma legacy_ok: "list_all (\<lambda>f. format_post_init f = Inr f \<and> fm_recipe_kind f = Legacy_Session) LEGACY_FORMATS"
  by code_simp

lemma format_names: "distinct (map fm_name (LEGACY_FORMATS @ GAME_MODE_FORMATS))"
  by code_simp

lemma all_formats:
  "add_formats (format_table LEGACY_FORMATS) GAME_MODE_FORMATS = Inr ALL_FORMATS"
  "ALL_FORMATS = map (\<lambda>f. (fm_name f, f)) (LEGACY_FORMATS @ GAME_MODE_FORMATS)"
proof -
  have "add_formats (format_table LEGACY_FORMATS) GAME_MODE_FORMATS
      = Inr (map (\<lambda>f. (fm_name f, f)) (LEGACY_FORMATS @ GAME_MODE_FORMATS))"
    using format_names by (simp add: format_table_distinct add_formats_fresh comp_def)
  then show "add_formats (format_table LEGACY_FORMATS) GAME_MODE_FORMATS = Inr ALL_FORMATS"
    "ALL_FORMATS = map (\<lambda>f. (fm_name f, f)) (LEGACY_FORMATS @ GAME_MODE_FORMATS)"
    by (simp_all add: ALL_FORMATS_def)
qed

lemma get_all_formats: "get_format ALL_FORMATS n = Inr f \<Longrightarrow>
  fm_name f = n \<and> format_post_init f = Inr f \<and> (fm_recipe_kind f = Turn_Sequence \<longrightarrow> playable f)"
proof -
  assume "get_format ALL_FORMATS n = Inr f"
  then have "map_of ALL_FORMATS n = Some f" by (simp add: get_format_def split: option.splits)
  then have "(n, f) \<in> set ALL_FORMATS" by (rule map_of_SomeD)
  then have "fm_name f = n" "f \<in> set LEGACY_FORMATS \<or> f \<in> set GAME_MODE_FORMATS" by (auto simp: all_formats(2))
  then show ?thesis
    using games_playable legacy_ok by (auto simp: list_all_iff playable_def)
qed

section \<open>Properties\<close>

text \<open>The format table is well-typed: importing it raises nothing (every constructor succeeds and no name is taken
  twice), each entry is filed under its own name, and every turn-sequence game is playable: legal vocabulary,
  no turn that no role may send, no role without an entry, reachable end signals, a default rhythm over exactly its
  vocabulary whose graph has distinct nodes.\<close>

lemma format_table_sound:
  "add_formats (format_table LEGACY_FORMATS) GAME_MODE_FORMATS = Inr ALL_FORMATS
   \<and> distinct (map fst ALL_FORMATS) \<and> length ALL_FORMATS = 40
   \<and> list_all (\<lambda>(n, f). fm_name f = n \<and> format_post_init f = Inr f) ALL_FORMATS
   \<and> list_all playable GAME_MODE_FORMATS"
proof -
  have "length (LEGACY_FORMATS @ GAME_MODE_FORMATS) = 40" by (simp add: LEGACY_FORMATS_def GAME_MODE_FORMATS_def)
  moreover have "distinct (map fst ALL_FORMATS)" using format_names by (simp add: all_formats(2) comp_def)
  moreover have "list_all (\<lambda>(n, f). fm_name f = n \<and> format_post_init f = Inr f) ALL_FORMATS"
    using games_playable legacy_ok by (auto simp: all_formats(2) list_all_iff playable_def)
  moreover have "length ALL_FORMATS = length (LEGACY_FORMATS @ GAME_MODE_FORMATS)" by (simp add: all_formats(2))
  ultimately show ?thesis using all_formats(1) games_playable by simp
qed

end
