(* ===== verification/Engine.thy ===== *)
theory Engine
  imports Broker Threads Cache Scope GameModes
begin

text \<open>
  \<open>ahp/engine/router.py\<close>: the verb dispatcher. \<open>outside\<close> gathers what a dispatch takes from
  outside the program: the hash functions and fresh ids, the clocks, the environment, the
  texts of \<open>str\<close> on values that are not strings and of exceptions, the other clients of the
  network. The whole stack shares one store.
\<close>

section \<open>The engine\<close>

record 's outside =
  os_digest :: "pyval \<Rightarrow> string"
  os_bytes_digest :: "string \<Rightarrow> string"
  os_nid :: string
  os_uuid :: string
  os_now :: pyfloat
  os_latency_ms :: "nat \<Rightarrow> pyfloat"
  os_log10 :: "int \<Rightarrow> pyfloat"
  os_env :: "string \<Rightarrow> pyfloat res option"
  os_text :: "pyval \<Rightarrow> string"
  os_err_text :: "pyexc \<Rightarrow> string"
  os_peers :: "'s peers"

definition DEFAULT_TIMEOUT :: pyfloat where "DEFAULT_TIMEOUT = Fin 5"

record 's ProtocolEngine =
  en_redis :: "'s redis"
  en_registry :: "'s registry"
  en_cache :: "'s redis"
  en_default_timeout :: pyfloat
  en_scope :: "ScopePolicy option"
  en_audit :: "'s sink option"
  en_broker :: "'s Broker option"

datatype engine_result =
  Count int | Reply "Message option" | Replies "Message list" | Subscribed Subscription

section \<open>Values\<close>

definition py_str :: "'s outside \<Rightarrow> pyval \<Rightarrow> string" where
  "py_str W v = (case v of PStr t \<Rightarrow> t | _ \<Rightarrow> os_text W v)"

text \<open>\<open>len(str(body)) if body is not None else 0\<close>.\<close>

definition body_chars :: "'s outside \<Rightarrow> pyval \<Rightarrow> int" where
  "body_chars W body = (case body of PNone \<Rightarrow> 0 | _ \<Rightarrow> py_len (py_str W body))"

text \<open>\<open>int(text)\<close>: surrounding white space, one sign, digits with single underscores between them.\<close>

definition int_of_text :: "string \<Rightarrow> int res" where
  "int_of_text text =
     (let t = strip text;
          neg = startswith t ''-'';
          body = (if neg \<or> startswith t ''+'' then tl t else t);
          parts = split_on (CHR ''_'') body
      in if list_all (\<lambda>p. p \<noteq> [] \<and> list_all is_digit p) parts
         then Inr ((if neg then -1 else 1) * digits_value (concat parts))
         else Inl ValueError)"

fun py_int :: "pyval \<Rightarrow> int res" where
  "py_int (PInt n) = Inr n"
| "py_int (PBool b) = Inr (if b then 1 else 0)"
| "py_int (PFloat (Fin x)) = Inr (if 0 \<le> x then floor x else ceiling x)"
| "py_int (PFloat NaN) = Inl ValueError"
| "py_int (PFloat x) = Inl OverflowError"
| "py_int (PStr t) = int_of_text t"
| "py_int _ = Inl TypeError"

definition max_response_of :: "pyval \<Rightarrow> int res" where
  "max_response_of body =
     (case body of
        PDict d \<Rightarrow>
          (case py_int (dict_get d ''max_response_chars'' (PInt DEFAULT_EXPECTED_RESPONSE_CHARS)) of
             Inr n \<Rightarrow> Inr n
           | Inl e \<Rightarrow> if e = TypeError \<or> e = ValueError then Inr DEFAULT_EXPECTED_RESPONSE_CHARS else Inl e)
      | _ \<Rightarrow> Inr DEFAULT_EXPECTED_RESPONSE_CHARS)"

section \<open>Gates\<close>

definition require_address :: "Message \<Rightarrow> AgentAddress res" where
  "require_address m = (case m_target m of TAddr a \<Rightarrow> Inr a | TPat _ \<Rightarrow> Inl InvalidTargetTypeError)"

definition check_compatibility :: "AgentAddress \<Rightarrow> AgentAddress \<Rightarrow> string \<Rightarrow> unit res" where
  "check_compatibility source target code = guard_res (can_route source target code) IncompatibleTargetError"

definition check_scope :: "'s ProtocolEngine \<Rightarrow> AgentAddress \<Rightarrow> AgentAddress \<Rightarrow> string \<Rightarrow> unit res" where
  "check_scope E source target code =
     (case en_scope E of None \<Rightarrow> Inr () | Some pol \<Rightarrow> guard_res (is_allowed pol source target code) UnauthorizedError)"

definition check_format :: "Message \<Rightarrow> unit res" where
  "check_format m =
     (case m_format m of
        None \<Rightarrow> Inr ()
      | Some name \<Rightarrow>
          (case map_of ALL_FORMATS name of
             None \<Rightarrow> Inl FormatViolationError
           | Some f \<Rightarrow>
               if fm_recipe_kind f = Legacy_Session then Inr ()
               else if \<not> is_turn_in_format f (m_code m) then Inl FormatViolationError
               else if fm_role_turn_permissions f \<noteq> [] \<and> \<not> is_turn_legal f (a_role (m_source m)) (m_code m)
               then Inl FormatViolationError
               else Inr ()))"

section \<open>Point to point\<close>

definition handle_send :: "'s ProtocolEngine \<Rightarrow> Message \<Rightarrow> ('s, int) op" where
  "handle_send E m =
     sbind (slift (require_address m)) (\<lambda>target.
     sbind (slift (check_compatibility (m_source m) target (m_code m))) (\<lambda>_.
     sbind (slift (check_scope E (m_source m) target (m_code m))) (\<lambda>_.
     sbind (sread (is_alive (en_registry E) target)) (\<lambda>alive.
     if \<not> alive then sret 0 else bus_send (en_redis E) m))))"

text \<open>Placing a hold: None is "insufficient funds", every other exception propagates.\<close>

definition try_hold :: "'s Broker \<Rightarrow> pyfloat \<Rightarrow> string \<Rightarrow> pyfloat \<Rightarrow> string \<Rightarrow> string \<Rightarrow> ('s, bool) op" where
  "try_hold B now caller amount hold_id reason =
     scatch (sbind (bk_hold B now caller amount hold_id reason) (\<lambda>_. sret True))
       (\<lambda>e. if e = InsufficientFundsError then sret False else sraise e)"

text \<open>Settling: a failure is logged and the hold refunded; a failure of that is swallowed.\<close>

definition settle_or_refund :: "'s Broker \<Rightarrow> 's outside \<Rightarrow> Call \<Rightarrow> ('s, unit) op" where
  "settle_or_refund B W c =
     scatch (sbind (calculate_and_settle B (os_log10 W) (os_env W) (os_uuid W) (os_now W) c) (\<lambda>_. sret ()))
       (\<lambda>_. scatch (bk_refund B (os_now W) (ca_caller c) (ca_hold_id c) ''settlement raised'') (\<lambda>_. sret ()))"

definition call_for :: "string \<Rightarrow> string \<Rightarrow> ServerMeta \<Rightarrow> MenuLeaf option \<Rightarrow> int \<Rightarrow> int \<Rightarrow> pyfloat \<Rightarrow> AgentAddress \<Rightarrow> Call" where
  "call_for caller hold_id server leaf response_chars max_resp latency_ms responder =
     \<lparr>ca_caller = caller, ca_hold_id = hold_id, ca_server = server, ca_leaf = leaf, ca_response_chars = response_chars,
       ca_max_response_chars = max_resp, ca_actual_latency_ms = latency_ms, ca_completed_with_caller = 0,
       ca_tier_verdict = ''matched'', ca_responder = Some responder\<rparr>"

definition broker_send_get :: "'s ProtocolEngine \<Rightarrow> 's Broker \<Rightarrow> 's outside \<Rightarrow> Message \<Rightarrow> AgentAddress \<Rightarrow> pyfloat \<Rightarrow> ('s, Message option) op" where
  "broker_send_get E B W m target timeout =
     (let prompt_chars = body_chars W (m_body m);
          dispatch = bus_send_get (os_nid W) (en_redis E) (os_peers W) m timeout;
          caller = to_str (m_source m);
          hold_id = ''msg:'' @ m_message_id m
      in sbind (slift (max_response_of (m_body m))) (\<lambda>max_resp.
         sbind (sreadr (server_discover (bk_servers B) (os_now W) None None None None True)) (\<lambda>owning_servers.
         case find (\<lambda>v. sm_org v = a_org target) owning_servers of
           None \<Rightarrow> dispatch
         | Some server \<Rightarrow>
             sbind (list_leaves (bk_compute B) True) (\<lambda>leaves.
             sbind (slift (best_leaf (sm_compute_binding server) leaves (sm_compute_ranking server) [])) (\<lambda>leaf.
             sbind (slift (estimate_hold (sm_base_rate server) ''small'' prompt_chars max_resp)) (\<lambda>hold.
             sbind (try_hold B (os_now W) caller (h_amount hold) hold_id (''send_get to '' @ to_str target)) (\<lambda>held.
             if \<not> held then sret None
             else
               sbind (scatch dispatch (\<lambda>e.
                        sbind (bk_refund B (os_now W) caller hold_id ''dispatch exception'') (\<lambda>_. sraise e))) (\<lambda>response.
               case response of
                 None \<Rightarrow> sbind (bk_refund B (os_now W) caller hold_id ''no response (timeout or target dead)'') (\<lambda>_. sret None)
               | Some r \<Rightarrow>
                   sbind (settle_or_refund B W
                     (call_for caller hold_id server leaf (body_chars W (m_body r)) max_resp (os_latency_ms W 0) (m_source r)))
                     (\<lambda>_. sret (Some r))))))))))"

definition handle_send_get :: "'s ProtocolEngine \<Rightarrow> 's outside \<Rightarrow> Message \<Rightarrow> pyfloat \<Rightarrow> ('s, Message option) op" where
  "handle_send_get E W m timeout =
     sbind (slift (require_address m)) (\<lambda>target.
     sbind (sreadr (cache_get (os_digest W) (os_bytes_digest W) (os_nid W) (en_cache E) m)) (\<lambda>cached.
     case cached of
       Some r \<Rightarrow> sret (Some r)
     | None \<Rightarrow>
         sbind (slift (check_compatibility (m_source m) target (m_code m))) (\<lambda>_.
         sbind (slift (check_scope E (m_source m) target (m_code m))) (\<lambda>_.
         sbind (sread (is_alive (en_registry E) target)) (\<lambda>alive.
         if \<not> alive then sret None
         else
           sbind (case en_broker E of
                    None \<Rightarrow> bus_send_get (os_nid W) (en_redis E) (os_peers W) m timeout
                  | Some B \<Rightarrow> broker_send_get E B W m target timeout) (\<lambda>response.
           case response of
             None \<Rightarrow> sret None
           | Some r \<Rightarrow> sbind (cache_put (os_digest W) (os_bytes_digest W) (en_cache E) m r) (\<lambda>_. sret (Some r))))))))"

section \<open>Broadcast\<close>

definition resolve_for_broadcast :: "'s ProtocolEngine \<Rightarrow> 's outside \<Rightarrow> Message \<Rightarrow> 's \<Rightarrow> AgentAddress list" where
  "resolve_for_broadcast E W m s =
     (case m_target m of
        TAddr a \<Rightarrow>
          if \<not> is_alive (en_registry E) a s then []
          else if \<not> can_route (m_source m) a (m_code m) then []
          else if (case en_scope E of None \<Rightarrow> False | Some pol \<Rightarrow> \<not> is_allowed pol (m_source m) a (m_code m)) then []
          else [a]
      | TPat p \<Rightarrow>
          let candidates = matrix_filter_targets (m_source m) (resolve (en_registry E) (os_now W) p True s) (m_code m)
          in case en_scope E of None \<Rightarrow> candidates
             | Some pol \<Rightarrow> scope_filter_targets pol (m_source m) candidates (m_code m))"

definition handle_cast :: "'s ProtocolEngine \<Rightarrow> 's outside \<Rightarrow> Message \<Rightarrow> ('s, int) op" where
  "handle_cast E W m =
     sbind (sread (resolve_for_broadcast E W m)) (\<lambda>targets.
     if targets = [] then sret 0 else bus_cast (en_redis E) m targets)"

definition target_hold_id :: "Message \<Rightarrow> string \<Rightarrow> string" where
  "target_hold_id m target = ''msg:'' @ m_message_id m @ '':t:'' @ target"

text \<open>The holds of a broadcast, by the text of the target: hold id, server, leaf.\<close>

type_synonym holds_by_target = "(string, string \<times> ServerMeta \<times> MenuLeaf option) dict"

fun hold_loop :: "'s Broker \<Rightarrow> 's outside \<Rightarrow> Message \<Rightarrow> int \<Rightarrow> (string, ServerMeta) dict \<Rightarrow> MenuLeaf list \<Rightarrow>
    (string, MenuLeaf option) dict \<Rightarrow> AgentAddress list \<Rightarrow> holds_by_target \<Rightarrow> AgentAddress list \<Rightarrow>
    ('s, holds_by_target \<times> AgentAddress list) op" where
  "hold_loop B W m max_resp servers leaves chosen [] held deliverable s = (Inr (held, deliverable), s)"
| "hold_loop B W m max_resp servers leaves chosen (target # targets) held deliverable s =
     (case map_of servers (a_org target) of
        None \<Rightarrow> hold_loop B W m max_resp servers leaves chosen targets held (deliverable @ [target]) s
      | Some server \<Rightarrow>
          sbind (slift (case map_of chosen (sm_server_id server) of
                          Some l \<Rightarrow> Inr l
                        | None \<Rightarrow> best_leaf (sm_compute_binding server) leaves (sm_compute_ranking server) [])) (\<lambda>leaf.
          let chosen = AList.update (sm_server_id server) leaf chosen;
              hold_id = target_hold_id m (to_str target)
          in sbind (slift (estimate_hold (sm_base_rate server) ''small'' (body_chars W (m_body m)) max_resp)) (\<lambda>hold.
             sbind (try_hold B (os_now W) (to_str (m_source m)) (h_amount hold) hold_id (''cast_get to '' @ to_str target)) (\<lambda>ok.
             if \<not> ok then hold_loop B W m max_resp servers leaves chosen targets held deliverable
             else hold_loop B W m max_resp servers leaves chosen targets
                    (AList.update (to_str target) (hold_id, server, leaf) held) (deliverable @ [target])))) s)"

fun refund_holds :: "'s Broker \<Rightarrow> 's outside \<Rightarrow> string \<Rightarrow> string \<Rightarrow> holds_by_target \<Rightarrow> ('s, unit) op" where
  "refund_holds B W caller reason [] s = (Inr (), s)"
| "refund_holds B W caller reason ((_, hold_id, _) # held) s =
     sbind (scatch (bk_refund B (os_now W) caller hold_id reason) (\<lambda>_. sret ())) (\<lambda>_. refund_holds B W caller reason held) s"

text \<open>One settlement per responder; a reply of a target without a hold is free.\<close>

fun settle_loop :: "'s Broker \<Rightarrow> 's outside \<Rightarrow> string \<Rightarrow> int \<Rightarrow> holds_by_target \<Rightarrow> nat \<Rightarrow> Message list \<Rightarrow> string list \<Rightarrow> ('s, string list) op" where
  "settle_loop B W caller max_resp held i [] responded s = (Inr responded, s)"
| "settle_loop B W caller max_resp held i (r # rs) responded s =
     (let src = to_str (m_source r) in
      if src \<in> set responded then settle_loop B W caller max_resp held (Suc i) rs responded s
      else (case map_of held src of
              None \<Rightarrow> settle_loop B W caller max_resp held (Suc i) rs (src # responded) s
            | Some (hold_id, server, leaf) \<Rightarrow>
                sbind (settle_or_refund B W
                  (call_for caller hold_id server leaf (body_chars W (m_body r)) max_resp (os_latency_ms W i) (m_source r)))
                  (\<lambda>_. settle_loop B W caller max_resp held (Suc i) rs (src # responded)) s))"

definition broker_cast_get :: "'s ProtocolEngine \<Rightarrow> 's Broker \<Rightarrow> 's outside \<Rightarrow> Message \<Rightarrow> AgentAddress list \<Rightarrow> pyfloat \<Rightarrow> int option \<Rightarrow>
    ('s, Message list) op" where
  "broker_cast_get E B W m targets timeout max_responses =
     (let caller = to_str (m_source m) in
      sbind (slift (max_response_of (m_body m))) (\<lambda>max_resp.
      sbind (sreadr (server_discover (bk_servers B) (os_now W) None None None None True)) (\<lambda>owning_servers.
      sbind (list_leaves (bk_compute B) True) (\<lambda>leaves.
      sbind (hold_loop B W m max_resp (dict_of (map (\<lambda>v. (sm_org v, v)) owning_servers)) leaves [] targets [] []) (\<lambda>(held, deliverable).
      if deliverable = [] then sret []
      else
        sbind (scatch (bus_cast_get (os_nid W) (en_redis E) (os_peers W) m deliverable timeout max_responses) (\<lambda>e.
                 sbind (refund_holds B W caller ''cast_get dispatch raised'' held) (\<lambda>_. sraise e))) (\<lambda>responses.
        sbind (settle_loop B W caller max_resp held 0 responses []) (\<lambda>responded.
        sbind (refund_holds B W caller ''no response (cast_get timeout or target silent)''
                 (filter (\<lambda>p. fst p \<notin> set responded) held)) (\<lambda>_.
        sret responses))))))))"

definition handle_cast_get :: "'s ProtocolEngine \<Rightarrow> 's outside \<Rightarrow> Message \<Rightarrow> pyfloat \<Rightarrow> int option \<Rightarrow> ('s, Message list) op" where
  "handle_cast_get E W m timeout max_responses =
     sbind (sread (resolve_for_broadcast E W m)) (\<lambda>targets.
     if targets = [] then sret []
     else (case en_broker E of
             None \<Rightarrow> bus_cast_get (os_nid W) (en_redis E) (os_peers W) m targets timeout max_responses
           | Some B \<Rightarrow> broker_cast_get E B W m targets timeout max_responses))"

text \<open>The filter of a CAST-SUB subscription.\<close>

definition tap_predicate :: "msg_target \<Rightarrow> string \<Rightarrow> Message \<Rightarrow> bool" where
  "tap_predicate target code_glob msg =
     (code_matches (m_code msg) code_glob \<and>
      (case target of
         TAddr exact \<Rightarrow> (case m_target msg of TAddr a \<Rightarrow> addr_eq a exact | TPat _ \<Rightarrow> False)
       | TPat pat \<Rightarrow> (case m_target msg of TAddr a \<Rightarrow> pmatches pat a | TPat _ \<Rightarrow> pmatches pat (m_source msg))))"

definition handle_cast_sub :: "Message \<Rightarrow> ('s, Subscription) op" where
  "handle_cast_sub m = sret (tap_subscribe (tap_predicate (m_target m) (m_code m)))"

definition handle_invalidate :: "'s ProtocolEngine \<Rightarrow> 's outside \<Rightarrow> Message \<Rightarrow> ('s, int) op" where
  "handle_invalidate E W m =
     (case m_target m of
        TAddr _ \<Rightarrow> sraise InvalidTargetTypeError
      | TPat p \<Rightarrow>
          invalidate (os_nid W) (en_cache E) p
            (case m_body m of
               PDict d \<Rightarrow> (case map_of d ''params'' of
                            Some (PDict ps) \<Rightarrow> Some (map (\<lambda>(k, v). (k, py_str W v)) ps)
                          | _ \<Rightarrow> None)
             | _ \<Rightarrow> None))"

section \<open>Dispatch\<close>

definition outcome_extra :: "engine_result option \<Rightarrow> (string, pyval) dict" where
  "outcome_extra result =
     (case result of
        Some (Count n) \<Rightarrow> [(''count'', PInt n)]
      | Some (Reply r) \<Rightarrow> [(''hit'', PBool (r \<noteq> None))]
      | Some (Replies rs) \<Rightarrow> [(''responses'', PInt (int (length rs)))]
      | _ \<Rightarrow> [])"

definition engine_op :: "string \<Rightarrow> string" where
  "engine_op verb = dict_get [(''SEND'', ''engine.send''), (''SEND-GET'', ''engine.send_get''), (''CAST'', ''engine.cast''),
     (''CAST-GET'', ''engine.cast_get''), (''CAST-SUB'', ''engine.cast_sub''), (''INVALIDATE'', ''engine.invalidate'')] verb
     (''engine.'' @ map lower_char verb)"

text \<open>\<open>_emit_message\<close>: \<open>result\<close> on success, \<open>err\<close> on failure.\<close>

definition emit_message :: "'s ProtocolEngine \<Rightarrow> 's outside \<Rightarrow> Message \<Rightarrow> engine_result option \<Rightarrow> pyexc option \<Rightarrow> 's \<Rightarrow> 's" where
  "emit_message E W m result err =
     emit_opt (en_audit E) \<lparr>ae_op = engine_op (m_verb m), ae_timestamp = os_now W,
       ae_principal = map_option pr_id (rg_principal (en_registry E)), ae_source = Some (to_str (m_source m)),
       ae_target = Some (target_str (m_target m)), ae_code = Some (m_code m), ae_verb = Some (m_verb m),
       ae_success = (err = None), ae_error = map_option (os_err_text W) err, ae_extra = outcome_extra result\<rparr>"

definition dispatch :: "'s ProtocolEngine \<Rightarrow> 's outside \<Rightarrow> Message \<Rightarrow> pyfloat \<Rightarrow> int option \<Rightarrow> ('s, engine_result) op" where
  "dispatch E W m timeout max_responses =
     (if m_verb m = ''SEND'' then sbind (handle_send E m) (\<lambda>n. sret (Count n))
      else if m_verb m = ''SEND-GET'' then sbind (handle_send_get E W m timeout) (\<lambda>r. sret (Reply r))
      else if m_verb m = ''CAST'' then sbind (handle_cast E W m) (\<lambda>n. sret (Count n))
      else if m_verb m = ''CAST-GET'' then sbind (handle_cast_get E W m timeout max_responses) (\<lambda>rs. sret (Replies rs))
      else if m_verb m = ''CAST-SUB'' then sbind (handle_cast_sub m) (\<lambda>sub. sret (Subscribed sub))
      else sbind (handle_invalidate E W m) (\<lambda>n. sret (Count n)))"

definition engine_handle :: "'s ProtocolEngine \<Rightarrow> 's outside \<Rightarrow> Message \<Rightarrow> pyfloat option \<Rightarrow> int option \<Rightarrow> ('s, engine_result) op" where
  "engine_handle E W m timeout max_responses =
     (if m_verb m \<notin> set VALID_VERBS then sraise ProtocolError
      else
        sbind (slift (check_format m)) (\<lambda>_.
        sbind (scatch (dispatch E W m (case timeout of None \<Rightarrow> en_default_timeout E | Some t \<Rightarrow> t) max_responses)
                 (\<lambda>e. sbind (swrite (emit_message E W m None (Some e))) (\<lambda>_. sraise e))) (\<lambda>result.
        sbind (swrite (emit_message E W m (Some result) None)) (\<lambda>_. sret result))))"

definition spawn_thread :: "'s ProtocolEngine \<Rightarrow> 's outside \<Rightarrow> string \<Rightarrow> AgentAddress \<Rightarrow> ('s, string) op" where
  "spawn_thread E W topic initiator =
     sbind (thread_create (en_redis E) (os_now W) (os_uuid W) topic initiator None) (\<lambda>t. sret (th_thread_id t))"

definition join_thread :: "'s ProtocolEngine \<Rightarrow> string \<Rightarrow> AgentAddress \<Rightarrow> 's \<Rightarrow> 's" where
  "join_thread E tid agent = thread_join (en_redis E) tid agent"

section \<open>The gates\<close>

definition scope_admits :: "'s ProtocolEngine \<Rightarrow> AgentAddress \<Rightarrow> AgentAddress \<Rightarrow> string \<Rightarrow> bool" where
  "scope_admits E source target code = (case en_scope E of None \<Rightarrow> True | Some pol \<Rightarrow> is_allowed pol source target code)"

lemma check_scope_eq: "check_scope E source target code = guard_res (scope_admits E source target code) UnauthorizedError"
  by (simp add: check_scope_def scope_admits_def split: option.split)

text \<open>Who may be reached by a message, besides being alive.\<close>

definition permitted :: "'s ProtocolEngine \<Rightarrow> Message \<Rightarrow> AgentAddress \<Rightarrow> bool" where
  "permitted E m a \<longleftrightarrow> can_route (m_source m) a (m_code m) \<and> scope_admits E (m_source m) a (m_code m)"

lemma in_broadcast:
  "a \<in> set (resolve_for_broadcast E W m s) \<longleftrightarrow> permitted E m a \<and>
     (case m_target m of TAddr b \<Rightarrow> a = b \<and> is_alive (en_registry E) a s
      | TPat p \<Rightarrow> a \<in> set (resolve (en_registry E) (os_now W) p True s))"
  by (cases "m_target m"; cases "en_scope E")
    (auto simp: resolve_for_broadcast_def permitted_def scope_admits_def Let_def matrix.set_filt scope.set_filt)

text \<open>Dispatch after the checks that come first.\<close>

lemma handle_ok:
  assumes "m_verb m \<in> set VALID_VERBS" "check_format m = Inr ()"
    and "dispatch E W m (case timeout of None \<Rightarrow> en_default_timeout E | Some t \<Rightarrow> t) mr s = (Inr r, u)"
  shows "engine_handle E W m timeout mr s = (Inr r, emit_message E W m (Some r) None u)"
  using assms by (simp add: engine_handle_def scatch_def sbind_def)

lemma handle_raises:
  assumes "m_verb m \<in> set VALID_VERBS" "check_format m = Inr ()"
    and "dispatch E W m (case timeout of None \<Rightarrow> en_default_timeout E | Some t \<Rightarrow> t) mr s = (Inl e, u)"
  shows "engine_handle E W m timeout mr s = (Inl e, emit_message E W m None (Some e) u)"
  using assms by (simp add: engine_handle_def scatch_def sbind_def)

lemma point_to_point_cases:
  assumes "m_verb m \<in> set POINT_TO_POINT_VERBS" obtains "m_verb m = ''SEND''" | "m_verb m = ''SEND-GET''"
  using assms by (auto simp: POINT_TO_POINT_VERBS_def)

section \<open>A sample engine\<close>

definition sample_outside :: "mem peers \<Rightarrow> mem outside" where
  "sample_outside P = \<lparr>os_digest = (\<lambda>_. ''d''), os_bytes_digest = (\<lambda>b. b), os_nid = [], os_uuid = ''u'', os_now = Fin 0,
     os_latency_ms = (\<lambda>_. Fin 700), os_log10 = floor_log10, os_env = (\<lambda>_. None), os_text = (\<lambda>_. []),
     os_err_text = (\<lambda>_. ''error''), os_peers = P\<rparr>"

definition sample_engine :: "ScopePolicy option \<Rightarrow> mem Broker option \<Rightarrow> mem ProtocolEngine" where
  "sample_engine scope broker = \<lparr>en_redis = mem_redis, en_registry = open_registry, en_cache = mem_redis,
     en_default_timeout = DEFAULT_TIMEOUT, en_scope = scope, en_audit = None, en_broker = broker\<rparr>"

text \<open>A policy that admits no source of the samples.\<close>

definition closed_policy :: ScopePolicy where
  "closed_policy = [\<lparr>sr_target = pall, sr_allow = pall\<lparr>p_org := ''elsewhere''\<rparr>, sr_code = ''*'', sr_description = []\<rparr>]"

lemma sample_refused: "can_route (m_source sample_message) (sample_address ''i2'') (m_code sample_message)"
  "\<not> is_allowed closed_policy (m_source sample_message) (sample_address ''i2'') (m_code sample_message)"
  by code_simp+

lemma sample_message_fields: "m_verb sample_message = ''SEND-GET''" "m_target sample_message = TAddr (sample_address ''i2'')"
  "check_format sample_message = Inr ()"
  by (simp_all add: sample_message_def check_format_def)

section \<open>Properties\<close>

text \<open>
  The first gate that refuses a message, as a specification: its format; a pattern where one address is wanted or
  an address where a pattern is; for one target, unless the cache answers first, the tier matrix and the scope policy.
\<close>

definition first_refusal :: "'s ProtocolEngine \<Rightarrow> 's outside \<Rightarrow> Message \<Rightarrow> 's \<Rightarrow> pyexc option" where
  "first_refusal E W m s =
     (case check_format m of
        Inl e \<Rightarrow> Some e
      | Inr _ \<Rightarrow>
          (case m_target m of
             TPat _ \<Rightarrow> if m_verb m \<in> set POINT_TO_POINT_VERBS then Some InvalidTargetTypeError else None
           | TAddr a \<Rightarrow>
               if m_verb m = ''INVALIDATE'' then Some InvalidTargetTypeError
               else if m_verb m \<notin> set POINT_TO_POINT_VERBS then None
               else if m_verb m = ''SEND-GET'' \<and> cache_get (os_digest W) (os_bytes_digest W) (os_nid W) (en_cache E) m s \<noteq> Inr None then None
               else if \<not> can_route (m_source m) a (m_code m) then Some IncompatibleTargetError
               else if \<not> scope_admits E (m_source m) a (m_code m) then Some UnauthorizedError
               else None))"

lemma handle_format_refused:
  assumes "m_verb m \<in> set VALID_VERBS" "check_format m = Inl e"
  shows "engine_handle E W m timeout mr s = (Inl e, s)"
  using assms by (simp add: engine_handle_def sbind_def slift_def)

lemma dispatch_refused:
  assumes "m_verb m \<in> set VALID_VERBS" "check_format m = Inr ()" "first_refusal E W m s = Some e"
  shows "dispatch E W m tm mr s = (Inl e, s)"
proof (cases "m_target m")
  case (TPat p)
  then have "m_verb m \<in> set POINT_TO_POINT_VERBS" "e = InvalidTargetTypeError"
    using assms(2,3) by (simp_all add: first_refusal_def split: if_splits)
  then show ?thesis
    using TPat by (auto elim!: point_to_point_cases simp: dispatch_def handle_send_def handle_send_get_def require_address_def sbind_def)
next
  case (TAddr a)
  show ?thesis
  proof (cases "m_verb m = ''INVALIDATE''")
    case True
    with TAddr assms(2,3) show ?thesis by (simp add: first_refusal_def dispatch_def handle_invalidate_def sbind_def)
  next
    case False
    note r = assms(3) [unfolded first_refusal_def assms(2) TAddr sum.case msg_target.case if_not_P [OF False]]
    from r have "m_verb m \<in> set POINT_TO_POINT_VERBS" by (simp split: if_splits)
    then show ?thesis
    proof (rule point_to_point_cases)
      assume "m_verb m = ''SEND''"
      with r TAddr show ?thesis
        by (auto simp: dispatch_def handle_send_def require_address_def check_compatibility_def check_scope_eq guard_res_def sbind_def split: if_splits)
    next
      assume "m_verb m = ''SEND-GET''"
      with r TAddr show ?thesis
        by (auto simp: dispatch_def handle_send_get_def require_address_def check_compatibility_def check_scope_eq guard_res_def sbind_def split: if_splits)
    qed
  qed
qed

text \<open>C11: A refused message leaves no trace: when a gate of the engine refuses a message of any verb, because of its format,
  of the kind of its target, of the tier matrix or of the scope policy, \<open>handle\<close> raises the exception of the first
  gate that fails. A format refusal leaves the store exactly as it was; after any other the store is as before but for
  the audit event of the failure: nothing is appended, published, held or paid. An answer from the cache is no refusal,
  it comes before the last two gates.\<close>

theorem refused_call_leaves_no_trace:
  assumes "m_verb m \<in> set VALID_VERBS" and "first_refusal E W m s = Some e"
  shows "engine_handle E W m timeout mr s =
     (Inl e, case check_format m of Inl _ \<Rightarrow> s | Inr _ \<Rightarrow> emit_message E W m None (Some e) s)"
proof (cases "check_format m")
  case (Inl x)
  with assms(2) have "x = e" by (simp add: first_refusal_def)
  with Inl handle_format_refused [OF assms(1) Inl] show ?thesis by simp
next
  case (Inr u)
  then have ok: "check_format m = Inr ()" by simp
  show ?thesis using handle_raises [OF assms(1) ok dispatch_refused [OF assms(1) ok assms(2)]] by (simp add: ok)
qed

theorem refused_call_leaves_no_trace_witness:
  "engine_handle (sample_engine (Some closed_policy) None) (sample_outside silent) sample_message None None empty_mem
     = (Inl UnauthorizedError, empty_mem)
   \<and> engine_handle (sample_engine None None) (sample_outside silent) (sample_message\<lparr>m_format := Some ''no such format''\<rparr>) None None empty_mem
     = (Inl FormatViolationError, empty_mem)
   \<and> engine_handle (sample_engine None None) (sample_outside silent) (sample_message\<lparr>m_target := TPat pall\<rparr>) None None empty_mem
     = (Inl InvalidTargetTypeError, empty_mem)"
proof -
  let ?W = "sample_outside silent" and ?f = "sample_message\<lparr>m_format := Some ''no such format''\<rparr>" and ?p = "sample_message\<lparr>m_target := TPat pall\<rparr>"
  have emit: "emit_message (sample_engine pol None) ?W m None (Some e) s = s" for pol m e s
    by (simp add: emit_message_def emit_opt_def sample_engine_def)
  have v: "m_verb sample_message \<in> set VALID_VERBS" "m_verb ?f \<in> set VALID_VERBS" "m_verb ?p \<in> set VALID_VERBS"
    by (simp_all add: sample_message_fields VALID_VERBS_def)
  have "''no such format'' \<notin> set (map fm_name (LEGACY_FORMATS @ GAME_MODE_FORMATS))" by code_simp
  then have none: "map_of ALL_FORMATS ''no such format'' = None"
    unfolding all_formats(2) map_of_eq_None_iff by (simp only: set_map image_image fst_conv not_False_eq_True)
  have cache: "cache_get (os_digest ?W) (os_bytes_digest ?W) (os_nid ?W) (en_cache (sample_engine (Some closed_policy) None)) sample_message empty_mem = Inr None"
    by (simp add: cache_get_def request_key_def cache_key_def sample_message_fields sample_engine_def)
      (simp add: empty_mem_def)
  have r1: "first_refusal (sample_engine (Some closed_policy) None) ?W sample_message empty_mem = Some UnauthorizedError"
    using sample_refused cache
    by (simp add: first_refusal_def sample_message_fields POINT_TO_POINT_VERBS_def scope_admits_def) (simp add: sample_engine_def)
  have r2: "first_refusal (sample_engine None None) ?W ?f empty_mem = Some FormatViolationError"
    by (simp add: first_refusal_def check_format_def none)
  have ok: "check_format ?p = Inr ()" by (simp add: check_format_def sample_message_def)
  have r3: "first_refusal (sample_engine None None) ?W ?p empty_mem = Some InvalidTargetTypeError"
    by (simp add: first_refusal_def ok POINT_TO_POINT_VERBS_def sample_message_fields)
  show ?thesis
    using refused_call_leaves_no_trace [OF v(1) r1] refused_call_leaves_no_trace [OF v(2) r2] refused_call_leaves_no_trace [OF v(3) r3]
    by (simp add: emit sample_message_fields ok split: sum.split)
qed

text \<open>The cache answers before the gates: a SEND-GET whose answer is cached returns it to a source the scope policy
  or the tier matrix would refuse, and to a target that is not alive (contrary to the documented order, in which
  every dispatch is filtered).\<close>

lemma cached_answer_skips_gates:
  assumes "m_verb m = ''SEND-GET''" and "m_target m = TAddr a" and "check_format m = Inr ()"
    and "cache_get (os_digest W) (os_bytes_digest W) (os_nid W) (en_cache E) m s = Inr (Some r)"
  shows "engine_handle E W m timeout mr s = (Inr (Reply (Some r)), emit_message E W m (Some (Reply (Some r))) None s)"
proof (rule handle_ok)
  show "dispatch E W m (case timeout of None \<Rightarrow> en_default_timeout E | Some t \<Rightarrow> t) mr s = (Inr (Reply (Some r)), s)"
    using assms by (simp add: dispatch_def handle_send_get_def require_address_def sbind_def)
qed (use assms in \<open>simp_all add: VALID_VERBS_def\<close>)

lemma cached_answer_skips_gates_witness:
  "\<exists>s. \<not> permitted (sample_engine (Some closed_policy) None) sample_message (sample_address ''i2'')
     \<and> fst (engine_handle (sample_engine (Some closed_policy) None) (sample_outside silent) sample_message None None s)
       = Inr (Reply (Some (canonical_msg sample_reply)))"
proof -
  let ?E = "sample_engine (Some closed_policy) None" and ?W = "sample_outside silent"
  have "0 < ttl_for (sample_address ''i2'')" by code_simp
  moreover have "valid_message sample_reply" "json_ok (m_body sample_reply)" using sample_sendable(2) by (simp_all add: sendable_def)
  ultimately obtain t where "cache_get (os_digest ?W) (os_bytes_digest ?W) (os_nid ?W) (en_cache ?E) sample_message t
      = Inr (Some (canonical_msg sample_reply))"
    using mem.put_get [OF sample_message_fields(2), of sample_reply] by (metis select_convs(3) sample_engine_def)
  from cached_answer_skips_gates [OF sample_message_fields this] sample_refused(2)
  show ?thesis by (auto simp: permitted_def scope_admits_def sample_engine_def intro!: exI [of _ t])
qed

text \<open>C12: A broadcast reaches exactly whom it should: the targets of a CAST to a pattern are the live registered agents
  that the pattern, the tier matrix and the scope policy admit; when there are any, the message enters its thread's
  history once and is published to each of them (with one mirror on the tap each), and when there are none nothing
  is written at all.\<close>

theorem cast_reaches_exactly:
  assumes "registry_on (en_registry E) view" and "rg_redis (en_registry E) = en_redis E"
    and "sendable m" and "m_verb m = ''CAST''" and "m_target m = TPat p" and "check_format m = Inr ()"
  shows "\<exists>targets n u. engine_handle E W m timeout mr s = (Inr (Count n), emit_message E W m (Some (Count n)) None u)
    \<and> (\<forall>a. a \<in> set targets \<longleftrightarrow> pmatches p a \<and> is_alive (en_registry E) a s \<and> permitted E m a
         \<and> (\<exists>k raw meta. hashes (view s) registry_hash k = Some raw \<and> parse k = Inr a \<and> meta_from_json (os_now W) raw = Inr meta))
    \<and> (if targets = [] then n = 0 \<and> u = s
       else view u = (view s)\<lparr>streams := (streams (view s))(thread_stream (m_thread m) :=
                streams (view s) (thread_stream (m_thread m)) @ [PDict (to_dict m)]),
              published := published (view s) @ concat (map (\<lambda>a.
                [(agent_channel (to_str a), PDict (to_dict m)), (tap_channel, PDict (to_dict m))]) targets)\<rparr>)"
proof -
  let ?ts = "resolve_for_broadcast E W m s"
  have R: "redis (en_redis E) view" using assms(1,2) by (simp add: registry_on_def)
  have e: "bus_encode m = Inr (PDict (to_dict m))" using assms(3) by simp
  have mem: "a \<in> set ?ts \<longleftrightarrow> pmatches p a \<and> is_alive (en_registry E) a s \<and> permitted E m a
       \<and> (\<exists>k raw meta. hashes (view s) registry_hash k = Some raw \<and> parse k = Inr a \<and> meta_from_json (os_now W) raw = Inr meta)" for a
    unfolding in_broadcast assms(5) msg_target.case registry_on.in_resolve [OF assms(1)] registry_on.in_scan [OF assms(1)] by blast
  have "\<exists>n u. dispatch E W m tm mr s = (Inr (Count n), u) \<and> (if ?ts = [] then n = 0 \<and> u = s
       else view u = (view s)\<lparr>streams := (streams (view s))(thread_stream (m_thread m) :=
                streams (view s) (thread_stream (m_thread m)) @ [PDict (to_dict m)]),
              published := published (view s) @ concat (map (\<lambda>a.
                [(agent_channel (to_str a), PDict (to_dict m)), (tap_channel, PDict (to_dict m))]) ?ts)\<rparr>)" for tm
  proof (cases "?ts = []")
    case True
    then show ?thesis using assms(4) by (simp add: dispatch_def handle_cast_def sbind_def)
  next
    case False
    let ?s = "r_xadd (en_redis E) (thread_stream (m_thread m)) (PDict (to_dict m)) s"
    obtain n u where u: "publish_all (en_redis E) m ?ts 0 ?s = (Inr n, u)"
      "view u = (view ?s)\<lparr>published := published (view ?s) @ concat (map (\<lambda>a.
          [(agent_channel (to_str a), PDict (to_dict m)), (tap_channel, PDict (to_dict m))]) ?ts)\<rparr>"
      using redis.publish_all_run [OF R e] by blast
    have "dispatch E W m tm mr s = (Inr (Count n), u)"
      using assms(4) False u(1) redis.append_thread_run [OF R e, of s]
      by (simp add: dispatch_def handle_cast_def bus_cast_def sbind_def)
    then show ?thesis using u(2) False by (simp add: redis.abs_xadd [OF R])
  qed
  then obtain n u where nu: "dispatch E W m (case timeout of None \<Rightarrow> en_default_timeout E | Some t \<Rightarrow> t) mr s = (Inr (Count n), u)"
    "if ?ts = [] then n = 0 \<and> u = s
       else view u = (view s)\<lparr>streams := (streams (view s))(thread_stream (m_thread m) :=
                streams (view s) (thread_stream (m_thread m)) @ [PDict (to_dict m)]),
              published := published (view s) @ concat (map (\<lambda>a.
                [(agent_channel (to_str a), PDict (to_dict m)), (tap_channel, PDict (to_dict m))]) ?ts)\<rparr>" by blast
  have v: "m_verb m \<in> set VALID_VERBS" using assms(4) by (simp add: VALID_VERBS_def)
  show ?thesis using handle_ok [OF v assms(6) nu(1)] nu(2) mem by blast
qed

theorem cast_reaches_exactly_witness:
  "\<exists>s n u. engine_handle (sample_engine None None) (sample_outside silent)
       (sample_message\<lparr>m_verb := ''CAST'', m_target := TPat pall\<rparr>) None None s = (Inr (Count n), u)
     \<and> (agent_channel (to_str (sample_address ''i'')), PDict (to_dict (sample_message\<lparr>m_verb := ''CAST'', m_target := TPat pall\<rparr>)))
        \<in> set (published (mem_view u))"
proof -
  let ?m = "sample_message\<lparr>m_verb := ''CAST'', m_target := TPat pall\<rparr>" and ?E = "sample_engine None None"
    and ?a = "canonical (sample_address ''i'')"
  obtain v where v: "meta_to_json (default_meta (Fin 0)) = Inr v" using default_meta_json by blast
  have auth: "can_register (rg_policy open_registry) (rg_principal open_registry) (sample_address ''i'')" by (simp add: open_registry_def)
  obtain s where s: "recorded mem_view (sample_address ''i'') (default_meta (Fin 0)) (Fin 0) s"
    "is_alive open_registry (sample_address ''i'') s \<longleftrightarrow> True \<or> is_alive open_registry (sample_address ''i'') empty_mem"
    by (rule registry_on.register_run [OF open_registry_on auth v])
  have sm: "sendable ?m"
  proof -
    have "valid_target (TPat pall)" by code_simp
    then show ?thesis using sample_sendable(1)
      by (auto simp: sendable_def valid_message_def is_broadcast_def VALID_VERBS_def POINT_TO_POINT_VERBS_def)
  qed
  have ok: "check_format ?m = Inr ()" by (simp add: check_format_def sample_message_def)
  have reg: "registry_on (en_registry ?E) mem_view" "rg_redis (en_registry ?E) = en_redis ?E"
    using open_registry_on by (simp_all add: sample_engine_def open_registry_def)
  obtain targets n u where r: "engine_handle ?E (sample_outside silent) ?m None None s = (Inr (Count n), emit_message ?E (sample_outside silent) ?m (Some (Count n)) None u)"
    "\<forall>a. a \<in> set targets \<longleftrightarrow> pmatches pall a \<and> is_alive (en_registry ?E) a s \<and> permitted ?E ?m a
         \<and> (\<exists>k raw meta. hashes (mem_view s) registry_hash k = Some raw \<and> parse k = Inr a \<and> meta_from_json (os_now (sample_outside silent)) raw = Inr meta)"
    "if targets = [] then n = 0 \<and> u = s
       else mem_view u = (mem_view s)\<lparr>streams := (streams (mem_view s))(thread_stream (m_thread ?m) :=
                streams (mem_view s) (thread_stream (m_thread ?m)) @ [PDict (to_dict ?m)]),
              published := published (mem_view s) @ concat (map (\<lambda>a.
                [(agent_channel (to_str a), PDict (to_dict ?m)), (tap_channel, PDict (to_dict ?m))]) targets)\<rparr>"
    using cast_reaches_exactly [OF reg sm _ _ ok, of pall "sample_outside silent" None None s] by (auto simp del: mem_view_sel)
  have "pmatches pall ?a" "permitted ?E ?m ?a" by code_simp+
  moreover have "is_alive open_registry ?a s" using s(2) by (simp add: is_alive_def to_str_canonical)
  moreover have "parse (to_str (sample_address ''i'')) = Inr ?a" using sample_valid by (simp add: parse_to_str)
  ultimately have "?a \<in> set targets"
    using r(2) s(1) by (auto simp: recorded_def sample_engine_def sample_outside_def simp del: mem_view_sel)
  then have "(agent_channel (to_str (sample_address ''i'')), PDict (to_dict ?m)) \<in> set (published (mem_view u))"
    using r(3) by (force simp: to_str_canonical simp del: mem_view_sel split: if_splits)
  moreover have "emit_message ?E (sample_outside silent) ?m (Some (Count n)) None u = u"
    by (simp add: emit_message_def emit_opt_def sample_engine_def)
  ultimately show ?thesis using r(1) by metis
qed

end
