(* ===== verification/Json.thy ===== *)
theory Json
  imports Address
begin

text \<open>
  \<open>json.loads\<close>, the part of the library that the program runs on texts it did not write itself
  (the replies of a language model): the strict grammar with Python's three float words,
  surrogate pairs joined, later duplicates of a key winning. A text is the UTF-8 form of its
  code points; a lone surrogate is the three bytes of its number. The recursion runs on fuel, and
  \<open>json_fuel_enough\<close> shows that the length of the text is enough.
\<close>

section \<open>Strings\<close>

definition utf8 :: "nat \<Rightarrow> string" where
  "utf8 n =
     (if n < 0x80 then [char_of n]
      else if n < 0x800 then [char_of (0xC0 + n div 64), char_of (0x80 + n mod 64)]
      else if n < 0x10000 then [char_of (0xE0 + n div 4096), char_of (0x80 + n div 64 mod 64), char_of (0x80 + n mod 64)]
      else [char_of (0xF0 + n div 262144), char_of (0x80 + n div 4096 mod 64), char_of (0x80 + n div 64 mod 64), char_of (0x80 + n mod 64)])"

definition hex4 :: "char \<Rightarrow> char \<Rightarrow> char \<Rightarrow> char \<Rightarrow> nat option" where
  "hex4 a b c d = (case (hex_val a, hex_val b, hex_val c, hex_val d) of
     (Some w, Some x, Some y, Some z) \<Rightarrow> Some (4096 * w + 256 * x + 16 * y + z)
   | _ \<Rightarrow> None)"

definition simple_escape :: "char \<Rightarrow> char option" where
  "simple_escape c = map_of [(CHR 0x22, CHR 0x22), (CHR 0x5C, CHR 0x5C), (CHR ''/'', CHR ''/''), (CHR ''b'', CHR 0x08),
     (CHR ''f'', CHR 0x0C), (CHR ''n'', CHR 0x0A), (CHR ''r'', CHR 0x0D), (CHR ''t'', CHR 0x09)] c"

text \<open>A \<open>\u\<close> escape after its \<open>u\<close>, joined with the low surrogate that may follow it.\<close>

definition unicode_escape :: "string \<Rightarrow> (string \<times> string) option" where
  "unicode_escape s = (case s of
     a # b # c # d # rest \<Rightarrow>
       (case hex4 a b c d of
          None \<Rightarrow> None
        | Some hi \<Rightarrow>
            if 0xD800 \<le> hi \<and> hi < 0xDC00 then
              (case rest of
                 x # u # e # f # g # h # rest2 \<Rightarrow>
                   (if x = CHR 0x5C \<and> u = CHR ''u'' then
                      (case hex4 e f g h of
                         None \<Rightarrow> Some (utf8 hi, rest)
                       | Some lo \<Rightarrow>
                           if 0xDC00 \<le> lo \<and> lo < 0xE000 then Some (utf8 (0x10000 + 1024 * (hi - 0xD800) + (lo - 0xDC00)), rest2)
                           else Some (utf8 hi, rest))
                    else Some (utf8 hi, rest))
               | _ \<Rightarrow> Some (utf8 hi, rest))
            else Some (utf8 hi, rest))
   | _ \<Rightarrow> None)"

lemma unicode_escape_shorter: "unicode_escape s = Some (t, r) \<Longrightarrow> length r < length s"
  by (auto simp: unicode_escape_def split: list.splits option.splits if_splits)

text \<open>The characters of a string after its opening quote, and the text after its closing one.\<close>

function (sequential) jstring :: "string \<Rightarrow> (string \<times> string) option" where
  "jstring [] = None"
| "jstring (c # cs) =
     (if c = CHR 0x22 then Some ([], cs)
      else if c = CHR 0x5C then
        (case cs of
           [] \<Rightarrow> None
         | e # es \<Rightarrow>
             if e = CHR ''u'' then
               (case unicode_escape es of
                  None \<Rightarrow> None
                | Some (u, r) \<Rightarrow> (case jstring r of None \<Rightarrow> None | Some (t, r') \<Rightarrow> Some (u @ t, r')))
             else
               (case simple_escape e of
                  None \<Rightarrow> None
                | Some x \<Rightarrow> (case jstring es of None \<Rightarrow> None | Some (t, r) \<Rightarrow> Some (x # t, r))))
      else if of_char c < (32 :: nat) then None
      else (case jstring cs of None \<Rightarrow> None | Some (t, r) \<Rightarrow> Some (c # t, r)))"
  by pat_completeness auto
termination
  by (relation "measure length") (auto dest: unicode_escape_shorter)

lemma jstring_shorter: "jstring s = Some (t, r) \<Longrightarrow> length r < length s"
proof (induction s arbitrary: t r rule: jstring.induct)
  case (2 c cs)
  then show ?case
    by (auto simp del: jstring.simps(2) simp: jstring.simps(2) [of c cs] split: if_splits list.splits option.splits prod.splits
        dest!: unicode_escape_shorter intro: less_SucI)
       (fastforce dest: unicode_escape_shorter)+
qed simp

section \<open>Numbers\<close>

definition span :: "('a \<Rightarrow> bool) \<Rightarrow> 'a list \<Rightarrow> 'a list \<times> 'a list" where
  "span P xs = (takeWhile P xs, dropWhile P xs)"

text \<open>The integer part, then the fraction and the exponent where their digits follow.\<close>

definition int_part :: "string \<Rightarrow> (string \<times> string) option" where
  "int_part s = (case s of
     [] \<Rightarrow> None
   | c # cs \<Rightarrow> if c = CHR ''0'' then Some ([c], cs) else if is_digit c then Some (span is_digit s) else None)"

definition frac_part :: "string \<Rightarrow> string option \<times> string" where
  "frac_part s = (case s of
     c # cs \<Rightarrow> (if c = CHR ''.'' \<and> takeWhile is_digit cs \<noteq> [] then (Some (takeWhile is_digit cs), dropWhile is_digit cs) else (None, s))
   | [] \<Rightarrow> (None, s))"

definition exp_part :: "string \<Rightarrow> int option \<times> string" where
  "exp_part s = (case s of
     c # cs \<Rightarrow>
       (let sign = (case cs of [] \<Rightarrow> 1 :: int | d # _ \<Rightarrow> (if d = CHR ''-'' then -1 else 1));
            ds = (case cs of [] \<Rightarrow> [] | d # es \<Rightarrow> (if d = CHR ''-'' \<or> d = CHR ''+'' then es else cs))
        in if (c = CHR ''e'' \<or> c = CHR ''E'') \<and> takeWhile is_digit ds \<noteq> []
           then (Some (sign * digits_value (takeWhile is_digit ds)), dropWhile is_digit ds) else (None, s))
   | [] \<Rightarrow> (None, s))"

definition jnumber :: "string \<Rightarrow> (pyval \<times> string) option" where
  "jnumber s =
     (let neg = (s \<noteq> [] \<and> hd s = CHR ''-''); body = (if neg then tl s else s); sgn = (if neg then -1 else 1)
      in case int_part body of
           None \<Rightarrow> None
         | Some (ip, r1) \<Rightarrow>
             (case frac_part r1 of (fp, r2) \<Rightarrow>
              (case exp_part r2 of (ep, r3) \<Rightarrow>
                 if fp = None \<and> ep = None then Some (PInt (sgn * digits_value ip), r3)
                 else let fd = (case fp of None \<Rightarrow> [] | Some ds \<Rightarrow> ds);
                          e = (case ep of None \<Rightarrow> 0 | Some n \<Rightarrow> n) - int (length fd)
                      in Some (PFloat (mk (of_int (sgn * digits_value (ip @ fd)) * 10 powi e)), r3))))"

section \<open>Values\<close>

definition jws :: "string \<Rightarrow> string" where
  "jws s = dropWhile (\<lambda>c. c \<in> {CHR '' '', CHR 0x09, CHR 0x0A, CHR 0x0D}) s"

definition jword :: "string \<Rightarrow> (pyval \<times> string) option" where
  "jword s =
     (if startswith s ''null'' then Some (PNone, drop 4 s)
      else if startswith s ''true'' then Some (PBool True, drop 4 s)
      else if startswith s ''false'' then Some (PBool False, drop 5 s)
      else if startswith s ''NaN'' then Some (PFloat NaN, drop 3 s)
      else if startswith s ''Infinity'' then Some (PFloat PInf, drop 8 s)
      else if startswith s ''-Infinity'' then Some (PFloat NInf, drop 9 s)
      else jnumber s)"

fun jvalue :: "nat \<Rightarrow> string \<Rightarrow> (pyval \<times> string) option"
  and jmembers :: "nat \<Rightarrow> (string \<times> pyval) list \<Rightarrow> string \<Rightarrow> (pyval \<times> string) option"
  and jelems :: "nat \<Rightarrow> pyval list \<Rightarrow> string \<Rightarrow> (pyval \<times> string) option" where
  "jvalue 0 s = None"
| "jvalue (Suc n) s = (case s of
     [] \<Rightarrow> None
   | c # cs \<Rightarrow>
       if c = CHR 0x22 then (case jstring cs of None \<Rightarrow> None | Some (t, r) \<Rightarrow> Some (PStr t, r))
       else if c = CHR ''{'' then
         (if jws cs \<noteq> [] \<and> hd (jws cs) = CHR ''}'' then Some (PDict [], tl (jws cs)) else jmembers n [] (jws cs))
       else if c = CHR ''['' then
         (if jws cs \<noteq> [] \<and> hd (jws cs) = CHR '']'' then Some (PList [], tl (jws cs)) else jelems n [] (jws cs))
       else jword s)"
| "jmembers 0 acc s = None"
| "jmembers (Suc n) acc s = (case s of
     [] \<Rightarrow> None
   | c # cs \<Rightarrow>
       if c \<noteq> CHR 0x22 then None
       else (case jstring cs of
          None \<Rightarrow> None
        | Some (k, r) \<Rightarrow>
            (case jws r of
               [] \<Rightarrow> None
             | d # ds \<Rightarrow>
                 if d \<noteq> CHR '':'' then None
                 else (case jvalue n (jws ds) of
                    None \<Rightarrow> None
                  | Some (v, r') \<Rightarrow>
                      (case jws r' of
                         [] \<Rightarrow> None
                       | e # es \<Rightarrow>
                           if e = CHR ''}'' then Some (PDict (dict_of (acc @ [(k, v)])), es)
                           else if e = CHR '','' then jmembers n (acc @ [(k, v)]) (jws es)
                           else None)))))"
| "jelems 0 acc s = None"
| "jelems (Suc n) acc s =
     (case jvalue n s of
        None \<Rightarrow> None
      | Some (v, r) \<Rightarrow>
          (case jws r of
             [] \<Rightarrow> None
           | e # es \<Rightarrow>
               if e = CHR '']'' then Some (PList (acc @ [v]), es)
               else if e = CHR '','' then jelems n (acc @ [v]) (jws es)
               else None))"

text \<open>A document that does not decode raises JSONDecodeError, a ValueError.\<close>

definition json_loads :: "string \<Rightarrow> pyval res" where
  "json_loads s =
     (case jvalue (2 * Suc (length s)) (jws s) of
        None \<Rightarrow> Inl ValueError
      | Some (v, r) \<Rightarrow> if jws r = [] then Inr v else Inl ValueError)"

section \<open>Fuel\<close>

lemma length_jws: "length (jws s) \<le> length s"
  by (simp add: jws_def length_dropWhile_le)

lemma length_tl_jws: "jws s = c # cs \<Longrightarrow> length cs < length s"
  using length_jws [of s] by simp

lemma int_part_shorter: "int_part s = Some (ip, r) \<Longrightarrow> length r < length s"
  using length_dropWhile_le [of is_digit "tl s"]
  by (auto simp: int_part_def span_def split: list.splits if_splits)

lemma frac_part_le: "frac_part s = (f, r) \<Longrightarrow> length r \<le> length s"
  using length_dropWhile_le [of is_digit "tl s"]
  by (auto simp: frac_part_def split: list.splits if_splits)

lemma exp_part_le: "exp_part s = (e, r) \<Longrightarrow> length r \<le> length s"
  using length_dropWhile_le [of is_digit "tl s"] length_dropWhile_le [of is_digit "tl (tl s)"]
  by (auto simp: exp_part_def Let_def split: list.splits if_splits)

lemma jnumber_shorter: "jnumber s = Some (v, r) \<Longrightarrow> length r < length s"
proof -
  assume a: "jnumber s = Some (v, r)"
  define body where "body = (if s \<noteq> [] \<and> hd s = CHR ''-'' then tl s else s)"
  from a obtain ip r1 fp r2 ep where "int_part body = Some (ip, r1)" "frac_part r1 = (fp, r2)" "exp_part r2 = (ep, r)"
    by (auto simp: jnumber_def Let_def body_def split: option.splits prod.splits if_splits)
  then have "length r < length body"
    using int_part_shorter frac_part_le exp_part_le by (meson less_le_trans order.trans le_less_trans)
  also have "\<dots> \<le> length s" by (simp add: body_def)
  finally show ?thesis .
qed

lemma jword_shorter: "s \<noteq> [] \<Longrightarrow> jword s = Some (v, r) \<Longrightarrow> length r < length s"
  by (auto simp: jword_def dest: jnumber_shorter split: if_splits)

declare jvalue.simps(2) [simp del] jmembers.simps(2) [simp del] jelems.simps(2) [simp del]

lemma jvalue_SucE:
  assumes "jvalue (Suc n) (c # cs) = Some (v, r)"
  obtains (string) t where "jstring cs = Some (t, r)"
  | (empty) d where "jws cs = d # r"
  | (members) "jmembers n [] (jws cs) = Some (v, r)"
  | (elems) "jelems n [] (jws cs) = Some (v, r)"
  | (word) "jword (c # cs) = Some (v, r)"
  using assms by (cases "jws cs") (auto simp: jvalue.simps(2) split: if_splits option.splits prod.splits)

lemma jmembers_SucE:
  assumes "jmembers (Suc n) acc s = Some (v, r)"
  obtains c cs k r1 ds v1 r2 e es where "s = c # cs" "jstring cs = Some (k, r1)" "jws r1 = CHR '':'' # ds"
    "jvalue n (jws ds) = Some (v1, r2)" "jws r2 = e # es" "r = es \<or> jmembers n (acc @ [(k, v1)]) (jws es) = Some (v, r)"
  using assms unfolding jmembers.simps(2)
  by (cases s; cases "jws (snd (the (jstring (tl s))))") (simp_all split: if_splits option.splits prod.splits list.splits)

lemma jelems_SucE:
  assumes "jelems (Suc n) acc s = Some (v, r)"
  obtains v1 r1 e es where "jvalue n s = Some (v1, r1)" "jws r1 = e # es" "r = es \<or> jelems n (acc @ [v1]) (jws es) = Some (v, r)"
  using assms unfolding jelems.simps(2) by (simp split: if_splits option.splits prod.splits list.splits)

lemma jparse_shorter:
  "(\<forall>s v r. jvalue n s = Some (v, r) \<longrightarrow> length r < length s) \<and>
   (\<forall>acc s v r. jmembers n acc s = Some (v, r) \<longrightarrow> length r < length s) \<and>
   (\<forall>vs s v r. jelems n vs s = Some (v, r) \<longrightarrow> length r < length s)"
proof (induction n)
  case (Suc n)
  then have ih: "\<And>s v r. jvalue n s = Some (v, r) \<Longrightarrow> length r < length s"
    "\<And>acc s v r. jmembers n acc s = Some (v, r) \<Longrightarrow> length r < length s"
    "\<And>vs s v r. jelems n vs s = Some (v, r) \<Longrightarrow> length r < length s" by blast+
  have "length r < length s" if "jvalue (Suc n) s = Some (v, r)" for s v r
  proof (cases s)
    case Nil
    with that show ?thesis by (simp add: jvalue.simps(2))
  next
    case (Cons c cs)
    from that [unfolded Cons] show ?thesis
    proof (cases rule: jvalue_SucE)
      case (string t)
      with Cons show ?thesis by (auto dest: jstring_shorter)
    next
      case (empty d)
      with Cons show ?thesis by (auto dest: length_tl_jws)
    next
      case members
      from ih(2) [OF members] length_jws [of cs] show ?thesis unfolding Cons by simp
    next
      case elems
      from ih(3) [OF elems] length_jws [of cs] show ?thesis unfolding Cons by simp
    next
      case word
      from jword_shorter [OF _ word] Cons show ?thesis by simp
    qed
  qed
  moreover have "length r < length s" if "jmembers (Suc n) acc s = Some (v, r)" for acc s v r
    using that
  proof (cases rule: jmembers_SucE)
    case (1 c cs k r1 ds v1 r2 e es)
    have "length r1 < length cs" "length ds < length r1" "length r2 < length (jws ds)" "length es < length r2"
      using 1 ih(1) by (auto dest: jstring_shorter length_tl_jws)
    moreover have "length r \<le> length es" using 1(6) ih(2) [of "acc @ [(k, v1)]" "jws es" v r] length_jws [of es] by auto
    ultimately show ?thesis using 1(1) length_jws [of ds] by simp
  qed
  moreover have "length r < length s" if "jelems (Suc n) vs s = Some (v, r)" for vs s v r
    using that
  proof (cases rule: jelems_SucE)
    case (1 v1 r1 e es)
    have "length r1 < length s" "length es < length r1" using 1 ih(1) by (auto dest: length_tl_jws)
    moreover have "length r \<le> length es" using 1(3) ih(3) [of "vs @ [v1]" "jws es" v r] length_jws [of es] by auto
    ultimately show ?thesis by simp
  qed
  ultimately show ?case by blast
qed simp

lemma jvalue_shorter: "jvalue n s = Some (v, r) \<Longrightarrow> length r < length s"
  using jparse_shorter by blast

lemma jparse_fuel:
  "(\<forall>s m. 2 * length s < n \<longrightarrow> 2 * length s < m \<longrightarrow> jvalue n s = jvalue m s) \<and>
   (\<forall>acc s m. 2 * length s < n \<longrightarrow> 2 * length s < m \<longrightarrow> jmembers n acc s = jmembers m acc s) \<and>
   (\<forall>vs s m. Suc (2 * length s) < n \<longrightarrow> Suc (2 * length s) < m \<longrightarrow> jelems n vs s = jelems m vs s)"
proof (induction n)
  case (Suc n)
  then have ih: "\<And>s m. 2 * length s < n \<Longrightarrow> 2 * length s < m \<Longrightarrow> jvalue n s = jvalue m s"
    "\<And>acc s m. 2 * length s < n \<Longrightarrow> 2 * length s < m \<Longrightarrow> jmembers n acc s = jmembers m acc s"
    "\<And>vs s m. Suc (2 * length s) < n \<Longrightarrow> Suc (2 * length s) < m \<Longrightarrow> jelems n vs s = jelems m vs s" by blast+
  have "jvalue (Suc n) s = jvalue m s" if l: "2 * length s < Suc n" "2 * length s < m" for s m
  proof -
    obtain k where m: "m = Suc k" using l(2) by (cases m) auto
    show ?thesis
    proof (cases s)
      case (Cons c cs)
      have "jmembers n [] (jws cs) = jmembers k [] (jws cs)" "jelems n [] (jws cs) = jelems k [] (jws cs)"
        using l Cons length_jws [of cs] by (auto simp: m intro!: ih)
      then show ?thesis unfolding m Cons jvalue.simps(2) list.case by (simp only:)
    qed (simp add: m jvalue.simps(2))
  qed
  moreover have "jmembers (Suc n) acc s = jmembers m acc s" if l: "2 * length s < Suc n" "2 * length s < m" for acc s m
  proof -
    obtain k where m: "m = Suc k" using l(2) by (cases m) auto
    have val: "jvalue n (jws ds) = jvalue k (jws ds)" if "length ds < length s" for ds
      using that l length_jws [of ds] by (intro ih) (simp_all add: m)
    have rest: "jmembers n acc' (jws es) = jmembers k acc' (jws es)" if "length es < length s" for acc' es
      using that l length_jws [of es] by (intro ih) (simp_all add: m)
    show ?thesis
    proof (cases s)
      case (Cons c cs)
      show ?thesis
      proof (cases "jstring cs")
        case (Some p)
        obtain key r1 where p: "p = (key, r1)" by (cases p)
        then have r1: "length r1 < length cs" using Some jstring_shorter by blast
        show ?thesis
        proof (cases "jws r1")
          case d: (Cons d ds)
          then have ds: "length ds < length s" using length_tl_jws [of r1] r1 Cons by fastforce
          have "jmembers n (acc @ [(key, v)]) (jws es) = jmembers k (acc @ [(key, v)]) (jws es)"
            if "jvalue k (jws ds) = Some (v, r)" "jws r = e # es" for v r e es
            using jvalue_shorter [OF that(1)] length_tl_jws [OF that(2)] length_jws [of ds] ds by (intro rest) simp
          then show ?thesis using Cons Some p d val [OF ds]
            by (auto simp: m jmembers.simps(2) split: option.split list.split)
        qed (simp add: m jmembers.simps(2) Cons Some p)
      qed (simp add: m jmembers.simps(2) Cons)
    qed (simp add: m jmembers.simps(2))
  qed
  moreover have "jelems (Suc n) vs s = jelems m vs s" if l: "Suc (2 * length s) < Suc n" "Suc (2 * length s) < m" for vs s m
  proof -
    obtain k where m: "m = Suc k" using l(2) by (cases m) auto
    have val: "jvalue n s = jvalue k s" using l by (intro ih) (simp_all add: m)
    have rest: "jelems n vs' (jws es) = jelems k vs' (jws es)" if "length es < length s" for vs' es
      using that l length_jws [of es] by (intro ih) (simp_all add: m)
    show ?thesis
    proof (cases "jvalue k s")
      case (Some p)
      obtain v r where p: "p = (v, r)" by (cases p)
      then have "length r < length s" using jvalue_shorter Some by blast
      then have "jelems n vs' (jws es) = jelems k vs' (jws es)" if "jws r = e # es" for vs' e es
        using rest length_tl_jws [OF that] by simp
      then show ?thesis using Some p val by (simp add: m jelems.simps(2) split: list.split)
    qed (simp add: m jelems.simps(2) val)
  qed
  ultimately show ?case by blast
qed simp

text \<open>Fuel never runs out in \<open>json_loads\<close>: more of it gives the same result.\<close>

lemma json_fuel_enough:
  assumes "2 * length s < n"
  shows "json_loads s = (case jvalue n (jws s) of
     None \<Rightarrow> Inl ValueError | Some (v, r) \<Rightarrow> if jws r = [] then Inr v else Inl ValueError)"
proof -
  have "2 * length (jws s) < n" "2 * length (jws s) < 2 * Suc (length s)"
    using assms length_jws [of s] by simp_all
  then have "jvalue (2 * Suc (length s)) (jws s) = jvalue n (jws s)" using jparse_fuel by blast
  then show ?thesis by (simp add: json_loads_def)
qed

text \<open>A text with its double quotes written as tildes.\<close>

definition quoted :: "string \<Rightarrow> string" where "quoted t = map (\<lambda>c. if c = CHR ''~'' then CHR 0x22 else c) t"

lemma json_loads_samples:
  "json_loads ''[1, true]'' = Inr (PList [PInt 1, PBool True])" "json_loads ''[1,]'' = Inl ValueError"
  "json_loads (quoted ''{~a~:~x~}'') = Inr (PDict [(''a'', PStr ''x'')])"
  by code_simp+

end
