(* ===== verification/CommandLine.thy ===== *)
theory CommandLine
  imports Engine Json
begin

text \<open>
  \<open>ahp/cli.py\<close>, the command line: the parser of \<open>build_parser\<close> as tables, and the part of
  \<open>argparse\<close> that reads them (long options and their unambiguous abbreviations, \<open>--opt=value\<close>,
  short options with their bundles, positionals, \<open>--\<close>, nested sub-commands, help). A parse ends
  with the namespace, or with the exit code: 0 after help, 2 after an error.
\<close>

section \<open>Arguments\<close>

datatype arg_type = Text | Whole | Real
datatype arg_action = Store | Append | Store_True | Help

record arg_spec =
  ar_flags :: "string list"
  ar_dest :: string
  ar_action :: arg_action
  ar_type :: arg_type
  ar_default :: pyval
  ar_choices :: "string list"
  ar_required :: bool

datatype command = Cmd_List_Tools | Cmd_List_Resources | Cmd_List_Groups | Cmd_List_Skills | Cmd_List_Agents | Cmd_Profile
  | Cmd_Template | Cmd_Scaffold | Cmd_New | Cmd_Register_Agent | Cmd_Start_Agent | Cmd_Stop_Agent | Cmd_Deregister_Agent
  | Cmd_List_Surveys | Cmd_Vote | Cmd_Fire_Surveys | Cmd_Export_Surveys | Cmd_Tap | Cmd_Send | Cmd_Describe_Agent | Cmd_Audit_Tail

text \<open>A parser: its arguments, its \<open>set_defaults(func=...)\<close>, and the sub-parsers with the name that holds the choice.\<close>

datatype parser = Parser (ps_args: "arg_spec list") (ps_func: "command option") (ps_subs: "(string \<times> (string \<times> parser) list) option")

type_synonym namespace = "(string, pyval) dict"

definition dest_of :: "string \<Rightarrow> string" where
  "dest_of flag = map (\<lambda>c. if c = CHR ''-'' then CHR ''_'' else c) (dropWhile (\<lambda>c. c = CHR ''-'') flag)"

definition opt :: "string \<Rightarrow> pyval \<Rightarrow> arg_spec" where
  "opt flag d = \<lparr>ar_flags = [flag], ar_dest = dest_of flag, ar_action = Store, ar_type = Text, ar_default = d,
     ar_choices = [], ar_required = False\<rparr>"

definition opt_as :: "string \<Rightarrow> string \<Rightarrow> pyval \<Rightarrow> arg_spec" where
  "opt_as flag dest d = (opt flag d)\<lparr>ar_dest := dest\<rparr>"

definition req :: "string \<Rightarrow> arg_spec" where "req flag = (opt flag PNone)\<lparr>ar_required := True\<rparr>"

definition sw :: "string \<Rightarrow> arg_spec" where
  "sw flag = (opt flag (PBool False))\<lparr>ar_action := Store_True\<rparr>"

definition many :: "string \<Rightarrow> arg_spec" where
  "many flag = (opt flag (PList []))\<lparr>ar_action := Append\<rparr>"

definition one_of :: "string \<Rightarrow> string \<Rightarrow> string list \<Rightarrow> arg_spec" where
  "one_of flag d choices = (opt flag (PStr d))\<lparr>ar_choices := choices\<rparr>"

definition whole :: "string \<Rightarrow> int \<Rightarrow> arg_spec" where
  "whole flag d = (opt flag (PInt d))\<lparr>ar_type := Whole\<rparr>"

definition real_opt :: "string \<Rightarrow> pyfloat \<Rightarrow> arg_spec" where
  "real_opt flag d = (opt flag (PFloat d))\<lparr>ar_type := Real\<rparr>"

definition also_as :: "string \<Rightarrow> arg_spec \<Rightarrow> arg_spec" where
  "also_as flag a = a\<lparr>ar_flags := flag # ar_flags a\<rparr>"

definition pos :: "string \<Rightarrow> string list \<Rightarrow> arg_spec" where
  "pos name choices = \<lparr>ar_flags = [], ar_dest = name, ar_action = Store, ar_type = Text, ar_default = PNone,
     ar_choices = choices, ar_required = True\<rparr>"

definition help_arg :: arg_spec where
  "help_arg = \<lparr>ar_flags = [''-h'', ''--help''], ar_dest = [], ar_action = Help, ar_type = Text, ar_default = PNone,
     ar_choices = [], ar_required = False\<rparr>"

definition options_of :: "parser \<Rightarrow> arg_spec list" where
  "options_of p = help_arg # filter (\<lambda>a. ar_flags a \<noteq> []) (ps_args p)"

definition positionals_of :: "parser \<Rightarrow> arg_spec list" where
  "positionals_of p = filter (\<lambda>a. ar_flags a = []) (ps_args p)"

section \<open>Reading the words\<close>

definition has_flag :: "string \<Rightarrow> arg_spec \<Rightarrow> bool" where "has_flag s a \<longleftrightarrow> s \<in> set (ar_flags a)"

definition negative_number :: "string \<Rightarrow> bool" where
  "negative_number s \<longleftrightarrow> (case s of
     c # cs \<Rightarrow> c = CHR ''-'' \<and> (list_all is_digit cs \<and> cs \<noteq> []
       \<or> (let (a, b) = span is_digit cs in case b of d # ds \<Rightarrow> d = CHR ''.'' \<and> ds \<noteq> [] \<and> list_all is_digit ds | [] \<Rightarrow> False))
   | [] \<Rightarrow> False)"

datatype word = Plain string | Dashes | Known arg_spec bool "string option" | Unknown string | Ambiguous

text \<open>The options a word abbreviates, with the value attached to it; the flag tells a short option.\<close>

definition abbreviates :: "arg_spec list \<Rightarrow> string \<Rightarrow> (arg_spec \<times> bool \<times> string option) list" where
  "abbreviates opts s =
     (if startswith s ''--'' then
        (let (p, v) = (if CHR ''='' \<in> set s then (fst (partition_on (CHR ''='') s), Some (snd (partition_on (CHR ''='') s))) else (s, None))
         in concat (map (\<lambda>a. map (\<lambda>_. (a, False, v)) (filter (\<lambda>f. startswith f p) (ar_flags a))) opts))
      else
        concat (map (\<lambda>a. List.map_filter (\<lambda>f. if f = take 2 s then Some (a, True, Some (drop 2 s))
                            else if startswith f s then Some (a, False, None) else None) (ar_flags a)) opts))"

definition short_flag :: "string \<Rightarrow> bool" where "short_flag s \<longleftrightarrow> \<not> startswith s ''--''"

definition classify :: "arg_spec list \<Rightarrow> string \<Rightarrow> word" where
  "classify opts s =
     (if s = [] \<or> hd s \<noteq> CHR ''-'' then Plain s
      else case find (has_flag s) opts of Some a \<Rightarrow> Known a (short_flag s) None
      | None \<Rightarrow>
          if length s = 1 then Plain s
          else case (if CHR ''='' \<in> set s then find (has_flag (fst (partition_on (CHR ''='') s))) opts else None) of
            Some a \<Rightarrow> Known a (short_flag s) (Some (snd (partition_on (CHR ''='') s)))
          | None \<Rightarrow>
              (case abbreviates opts s of
                 [(a, short, v)] \<Rightarrow> Known a short v
               | _ # _ \<Rightarrow> Ambiguous
               | [] \<Rightarrow> if negative_number s \<or> CHR '' '' \<in> set s then Plain s else Unknown s))"

text \<open>After the first \<open>--\<close> every word is plain. A word keeps its text for the sub-parser.\<close>

fun classify_all :: "arg_spec list \<Rightarrow> string list \<Rightarrow> (string \<times> word) list" where
  "classify_all opts [] = []"
| "classify_all opts (s # ss) =
     (if s = ''--'' then (s, Dashes) # map (\<lambda>t. (t, Plain t)) ss else (s, classify opts s) # classify_all opts ss)"

section \<open>Values\<close>

text \<open>\<open>float(text)\<close>: the digits of a group may have single underscores between them.\<close>

definition digit_group :: "string \<Rightarrow> string option" where
  "digit_group s = (if s = [] then Some []
     else let parts = split_on (CHR ''_'') s
          in if list_all (\<lambda>p. p \<noteq> [] \<and> list_all is_digit p) parts then Some (concat parts) else None)"

definition float_of_text :: "string \<Rightarrow> pyfloat res" where
  "float_of_text s =
     (let t = map lower_char (strip s);
          neg = startswith t ''-'';
          body = (if neg \<or> startswith t ''+'' then tl t else t);
          signed = (\<lambda>x. if neg then fneg x else x) in
      if body \<in> {''inf'', ''infinity''} then Inr (signed PInf)
      else if body = ''nan'' then Inr NaN
      else
        let (mant, rest) = span (\<lambda>c. c \<noteq> CHR ''e'') body;
            (whole_part, frac) = span (\<lambda>c. c \<noteq> CHR ''.'') mant in
        case (digit_group whole_part, digit_group (tl frac), if rest = [] then Inr 0 else
                if tl rest = [] \<or> is_space (hd (tl rest)) \<or> is_space (last rest) then Inl ValueError else int_of_text (tl rest)) of
          (Some w, Some f, Inr e) \<Rightarrow>
            if w = [] \<and> f = [] then Inl ValueError
            else Inr (signed (flit (of_int (digits_value (w @ f)) * 10 powi (e - int (length f)))))
        | _ \<Rightarrow> Inl ValueError)"

definition convert :: "arg_spec \<Rightarrow> string \<Rightarrow> pyval res" where
  "convert a s =
     rbind (case ar_type a of Text \<Rightarrow> Inr (PStr s) | Whole \<Rightarrow> rbind (int_of_text s) (\<lambda>n. Inr (PInt n))
            | Real \<Rightarrow> rbind (float_of_text s) (\<lambda>x. Inr (PFloat x))) (\<lambda>v.
     if ar_choices a = [] \<or> v \<in> PStr ` set (ar_choices a) then Inr v else Inl ValueError)"

section \<open>Parsing\<close>

text \<open>Where the parsing of one parser stands: the namespace, the destinations seen, and whether words were left over.\<close>

record progress =
  pg_ns :: namespace
  pg_seen :: "string list"
  pg_extras :: bool

definition put :: "arg_spec \<Rightarrow> pyval \<Rightarrow> progress \<Rightarrow> progress" where
  "put a v st = st\<lparr>pg_ns := AList.update (ar_dest a) v (pg_ns st), pg_seen := ar_dest a # pg_seen st\<rparr>"

definition store_value :: "arg_spec \<Rightarrow> string \<Rightarrow> progress \<Rightarrow> int + progress" where
  "store_value a s st =
     (case convert a s of
        Inl _ \<Rightarrow> Inl 2
      | Inr v \<Rightarrow>
          (case ar_action a of
             Append \<Rightarrow> Inr (put a (case dict_get (pg_ns st) (ar_dest a) PNone of PList vs \<Rightarrow> PList (vs @ [v]) | _ \<Rightarrow> PList [v]) st)
           | _ \<Rightarrow> Inr (put a v st)))"

definition takes_value :: "arg_spec \<Rightarrow> bool" where
  "takes_value a \<longleftrightarrow> ar_action a = Store \<or> ar_action a = Append"

definition switch_on :: "arg_spec \<Rightarrow> progress \<Rightarrow> int + progress" where
  "switch_on a st = (if ar_action a = Help then Inl 0 else Inr (put a (PBool True) st))"

text \<open>
  A short option without a value may carry the letters of others: the switches before the last
  option, the last one and what is attached to it.
\<close>

fun spread :: "arg_spec list \<Rightarrow> arg_spec \<Rightarrow> string \<Rightarrow> (arg_spec list \<times> arg_spec \<times> string option) option" where
  "spread opts a [] = (if takes_value a then Some ([], a, Some []) else None)"
| "spread opts a (c # cs) =
     (if takes_value a then Some ([], a, Some (c # cs))
      else case find (has_flag [CHR ''-'', c]) opts of
        None \<Rightarrow> None
      | Some b \<Rightarrow>
          if cs = [] then Some ([a], b, None)
          else map_option (\<lambda>(fs, x). (a # fs, x)) (spread opts b cs))"

fun switch_all :: "arg_spec list \<Rightarrow> progress \<Rightarrow> int + progress" where
  "switch_all [] st = Inr st"
| "switch_all (a # as) st = (case switch_on a st of Inl n \<Rightarrow> Inl n | Inr st' \<Rightarrow> switch_all as st')"

text \<open>The switches of a bundle, then its last option with the value attached or with the next word.\<close>

definition take_value :: "string option \<Rightarrow> (string \<times> word) list \<Rightarrow> (string \<times> (string \<times> word) list) option" where
  "take_value v rest =
     (case v of
        Some s \<Rightarrow> Some (s, rest)
      | None \<Rightarrow> (case rest of (_, Plain s) # rest' \<Rightarrow> Some (s, rest') | _ \<Rightarrow> None))"

definition finish_option :: "arg_spec list \<Rightarrow> arg_spec \<Rightarrow> string option \<Rightarrow> (string \<times> word) list \<Rightarrow> progress \<Rightarrow>
    int + progress \<times> (string \<times> word) list" where
  "finish_option fs b v rest st =
     (if takes_value b then
        (case take_value v rest of
           None \<Rightarrow> Inl 2
         | Some (s, rest') \<Rightarrow>
             (case switch_all fs st of
                Inl n \<Rightarrow> Inl n
              | Inr st' \<Rightarrow> (case store_value b s st' of Inl n \<Rightarrow> Inl n | Inr st'' \<Rightarrow> Inr (st'', rest'))))
      else if v \<noteq> None then Inl 2
      else (case switch_all (fs @ [b]) st of Inl n \<Rightarrow> Inl n | Inr st' \<Rightarrow> Inr (st', rest)))"

text \<open>One option word with the words after it: the new progress and the words left.\<close>

definition consume_optional :: "arg_spec list \<Rightarrow> arg_spec \<Rightarrow> bool \<Rightarrow> string option \<Rightarrow> (string \<times> word) list \<Rightarrow> progress \<Rightarrow>
    int + progress \<times> (string \<times> word) list" where
  "consume_optional opts a bundled v rest st =
     (case v of
        Some s \<Rightarrow>
          if bundled then (case spread opts a s of None \<Rightarrow> Inl 2 | Some (fs, b, v') \<Rightarrow> finish_option fs b v' rest st)
          else finish_option [] a v rest st
      | None \<Rightarrow> finish_option [] a v rest st)"

text \<open>
  The words in order. A plain word goes to the next positional; when the parser has sub-parsers it
  names one, which gets every word after it.
\<close>

datatype outcome = Exit int | Done progress "arg_spec list" | Sub progress string "string list"

function parse_words :: "arg_spec list \<Rightarrow> arg_spec list \<Rightarrow> bool \<Rightarrow> (string \<times> word) list \<Rightarrow> progress \<Rightarrow> outcome" where
  "parse_words opts poss subs [] st = Done st poss"
| "parse_words opts poss subs ((raw, w) # rest) st =
     (case w of
        Ambiguous \<Rightarrow> Exit 2
      | Unknown _ \<Rightarrow> parse_words opts poss subs rest (st\<lparr>pg_extras := True\<rparr>)
      | Dashes \<Rightarrow>
          if subs then (case rest of [] \<Rightarrow> parse_words opts poss subs rest (st\<lparr>pg_extras := True\<rparr>) | _ \<Rightarrow> Sub st raw (map fst rest))
          else parse_words opts poss subs rest (if poss = [] \<or> rest = [] then st\<lparr>pg_extras := True\<rparr> else st)
      | Known a short v \<Rightarrow>
          (case consume_optional opts a short v rest st of
             Inl n \<Rightarrow> Exit n
           | Inr (st', rest') \<Rightarrow> if length rest' \<le> length rest then parse_words opts poss subs rest' st' else Exit 2)
      | Plain s \<Rightarrow>
          if subs then Sub st s (map fst rest)
          else
            (case poss of
               [] \<Rightarrow> parse_words opts poss subs rest (st\<lparr>pg_extras := True\<rparr>)
             | a # poss' \<Rightarrow>
                 (case store_value a s st of
                    Inl n \<Rightarrow> Exit n
                  | Inr st' \<Rightarrow> parse_words opts poss' subs (case rest of (_, Dashes) # rest' \<Rightarrow> rest' | _ \<Rightarrow> rest) st')))"
  by pat_completeness auto
termination
  by (relation "measure (\<lambda>(opts, poss, subs, ws, st). length ws)") (auto split: list.splits word.splits)

definition start :: "parser \<Rightarrow> progress" where
  "start p = \<lparr>pg_ns = dict_of (map (\<lambda>a. (ar_dest a, ar_default a)) (ps_args p)
       @ (case ps_subs p of None \<Rightarrow> [] | Some (dest, _) \<Rightarrow> [(dest, PNone)])), pg_seen = [], pg_extras = False\<rparr>"

definition required_met :: "parser \<Rightarrow> progress \<Rightarrow> bool" where
  "required_met p st \<longleftrightarrow> list_all (\<lambda>a. ar_required a \<longrightarrow> ar_dest a \<in> set (pg_seen st)) (ps_args p)"

text \<open>The namespace of a parser is that of its sub-parser over its own.\<close>

definition merge_ns :: "namespace \<Rightarrow> namespace \<Rightarrow> namespace" where
  "merge_ns ns sub = fold (\<lambda>(k, v) d. AList.update k v d) sub ns"

fun parse_known :: "parser \<Rightarrow> string list \<Rightarrow> int + namespace \<times> command option \<times> bool"
and parse_choice :: "(string \<times> parser) list \<Rightarrow> string \<Rightarrow> string list \<Rightarrow> int + namespace \<times> command option \<times> bool" where
  "parse_known (Parser args func subs) argv =
     (let p = Parser args func subs in
      case parse_words (options_of p) (positionals_of p) (subs \<noteq> None) (classify_all (options_of p) argv) (start p) of
        Exit n \<Rightarrow> Inl n
      | Done st _ \<Rightarrow> if required_met p st \<and> subs = None then Inr (pg_ns st, func, pg_extras st) else Inl 2
      | Sub st name rest \<Rightarrow>
          (case subs of
             None \<Rightarrow> Inl 2
           | Some (dest, choices) \<Rightarrow>
               (case parse_choice choices name rest of
                  Inl n \<Rightarrow> Inl n
                | Inr (ns, f, extras) \<Rightarrow>
                    if required_met p st
                    then Inr (merge_ns (AList.update dest (PStr name) (pg_ns st)) ns, (case f of None \<Rightarrow> func | Some _ \<Rightarrow> f), pg_extras st \<or> extras)
                    else Inl 2)))"
| "parse_choice [] name rest = Inl 2"
| "parse_choice ((n, p) # choices) name rest = (if n = name then parse_known p rest else parse_choice choices name rest)"

definition parse_args :: "parser \<Rightarrow> string list \<Rightarrow> int + namespace \<times> command option" where
  "parse_args p argv =
     (case parse_known p argv of
        Inl n \<Rightarrow> Inl n
      | Inr (ns, f, extras) \<Rightarrow> if extras then Inl 2 else Inr (ns, f))"

section \<open>The parser of the program\<close>

definition module_arg :: arg_spec where "module_arg = also_as ''-m'' (many ''--module'')"
definition force_arg :: arg_spec where "force_arg = also_as ''-f'' (sw ''--force'')"
definition url_arg :: "string \<Rightarrow> arg_spec" where "url_arg url = opt ''--redis-url'' (PStr url)"
definition leaf :: "command \<Rightarrow> arg_spec list \<Rightarrow> parser" where "leaf c args = Parser args (Some c) None"

definition list_tools_parser :: parser where
  "list_tools_parser = leaf Cmd_List_Tools [module_arg, opt_as ''--for'' ''for_addr'' PNone, many ''--tag'']"

definition list_resources_parser :: parser where
  "list_resources_parser = leaf Cmd_List_Resources [module_arg, opt_as ''--for'' ''for_addr'' PNone]"

definition list_groups_parser :: parser where "list_groups_parser = leaf Cmd_List_Groups [module_arg]"

definition list_skills_parser :: parser where
  "list_skills_parser = leaf Cmd_List_Skills [module_arg, opt_as ''--for'' ''for_addr'' PNone, many ''--tag'']"

definition list_agents_parser :: "string \<Rightarrow> parser" where
  "list_agents_parser url = leaf Cmd_List_Agents [url_arg url, opt ''--pattern'' PNone, sw ''--all'']"

definition profile_parser :: parser where
  "profile_parser = leaf Cmd_Profile [pos ''address'' [], module_arg]"

definition template_args :: "arg_spec list" where
  "template_args = [pos ''target'' [''tool'', ''resource''],
     opt ''--scope'' (PStr ''tifin''), opt ''--kind'' (PStr ''db''), opt ''--role'' (PStr ''*''), opt ''--category'' (PStr ''crud''),
     opt ''--operation'' PNone, opt ''--signature'' PNone,
     opt ''--domain'' (PStr ''finance''), opt ''--subdomain'' (PStr ''equities''), opt ''--name'' (PStr ''my_resource''),
     opt ''--factory-name'' PNone, opt ''--summary'' PNone]"

definition template_parser :: parser where "template_parser = leaf Cmd_Template template_args"

definition scaffold_parser :: parser where
  "scaffold_parser = leaf Cmd_Scaffold (template_args @ [also_as ''-o'' (req ''--output''), force_arg])"

definition depth_arg :: arg_spec where "depth_arg = one_of ''--depth'' ''starter'' [''skeleton'', ''starter'']"

definition new_tool_parser :: parser where
  "new_tool_parser = leaf Cmd_New [req ''--name'', opt ''--scope'' (PStr ''tifin''), opt ''--tool-kind'' (PStr ''api''),
     opt ''--role'' (PStr ''*''), opt ''--category'' (PStr ''search''), opt ''--signature'' PNone, opt ''--summary'' PNone,
     depth_arg, opt ''--path'' PNone, force_arg]"

definition new_integration_parser :: parser where
  "new_integration_parser = leaf Cmd_New [req ''--name'', one_of ''--type'' ''api_key'' [''api_key'', ''oauth'', ''webhook''],
     opt ''--scope'' (PStr ''tifin''), depth_arg, opt ''--path'' PNone, force_arg]"

definition new_agent_parser :: parser where
  "new_agent_parser = leaf Cmd_New [req ''--name'', one_of ''--type'' ''simple'' [''simple'', ''react'', ''deepagent'', ''formatagent''],
     opt ''--scope'' (PStr ''tifin''), opt ''--role'' (PStr ''researcher''), opt ''--format'' PNone, depth_arg, opt ''--path'' PNone, force_arg]"

definition new_parser :: parser where
  "new_parser = Parser [] None (Some (''kind'',
     [(''tool'', new_tool_parser), (''integration'', new_integration_parser), (''agent'', new_agent_parser)]))"

definition address_args :: "string \<Rightarrow> arg_spec list" where
  "address_args url = [req ''--name'', opt ''--scope'' (PStr ''tifin''), opt ''--role'' (PStr ''researcher''),
     opt ''--domain'' (PStr ''example''), opt ''--subdomain'' (PStr ''example''), opt ''--accept'' (PStr ''s''),
     opt ''--lifecycle'' (PStr ''session''), url_arg url]"

text \<open>\<open>register\<close>, \<open>start\<close>, \<open>stop\<close> and \<open>deregister\<close> have the one entity \<open>agent\<close>.\<close>

definition agent_entity :: "command \<Rightarrow> arg_spec list \<Rightarrow> parser" where
  "agent_entity c args = Parser [] None (Some (''entity'', [(''agent'', leaf c args)]))"

definition register_parser :: "string \<Rightarrow> parser" where
  "register_parser url = agent_entity Cmd_Register_Agent (address_args url @ [many ''--capability'', opt ''--description'' PNone])"

definition start_parser :: "string \<Rightarrow> parser" where "start_parser url = agent_entity Cmd_Start_Agent (address_args url)"
definition stop_parser :: "string \<Rightarrow> parser" where "stop_parser url = agent_entity Cmd_Stop_Agent (address_args url)"
definition deregister_parser :: "string \<Rightarrow> parser" where
  "deregister_parser url = agent_entity Cmd_Deregister_Agent (address_args url)"

definition list_surveys_parser :: "string \<Rightarrow> parser" where
  "list_surveys_parser url = leaf Cmd_List_Surveys [url_arg url, opt_as ''--for'' ''for_addr'' PNone, sw ''--include-future'',
     whole ''--limit'' 100]"

definition vote_parser :: "string \<Rightarrow> parser" where
  "vote_parser url = leaf Cmd_Vote [url_arg url, req ''--survey-id'', (req ''--score'')\<lparr>ar_type := Real\<rparr>,
     one_of ''--scale'' ''zero_to_one'' [''zero_to_one'', ''1to5''], opt ''--free-text'' (PStr []),
     sw ''--allow-training'', sw ''--deny-csat'']"

definition fire_surveys_parser :: "string \<Rightarrow> parser" where
  "fire_surveys_parser url = leaf Cmd_Fire_Surveys [url_arg url, sw ''--dry-run'', whole ''--limit'' 50]"

definition export_surveys_parser :: "string \<Rightarrow> parser" where
  "export_surveys_parser url = leaf Cmd_Export_Surveys [url_arg url, opt ''--out'' PNone, real_opt ''--since'' fzero,
     sw ''--no-anonymize'']"

definition tap_parser :: "string \<Rightarrow> parser" where
  "tap_parser url = leaf Cmd_Tap [url_arg url, opt ''--code'' PNone, opt ''--source'' PNone, opt ''--target'' PNone,
     whole ''--limit'' 0]"

definition send_parser :: "string \<Rightarrow> parser" where
  "send_parser url = leaf Cmd_Send [url_arg url, req ''--target'', req ''--code'', opt ''--body'' (PStr []),
     opt ''--source'' PNone, sw ''--get'', real_opt ''--timeout'' (Fin 10), opt ''--thread'' PNone]"

definition describe_agent_parser :: "string \<Rightarrow> parser" where
  "describe_agent_parser url = leaf Cmd_Describe_Agent [pos ''address'' [], url_arg url]"

definition audit_tail_parser :: "string \<Rightarrow> parser" where
  "audit_tail_parser url = leaf Cmd_Audit_Tail [url_arg url, opt ''--stream'' PNone, opt ''--since'' PNone, opt ''--op'' PNone,
     opt ''--target-contains'' PNone, whole ''--limit'' 100, sw ''--follow'']"

definition commands :: "string \<Rightarrow> (string \<times> parser) list" where
  "commands url = [(''list-tools'', list_tools_parser), (''list-resources'', list_resources_parser),
     (''list-groups'', list_groups_parser), (''list-skills'', list_skills_parser), (''list-agents'', list_agents_parser url),
     (''profile'', profile_parser), (''template'', template_parser), (''scaffold'', scaffold_parser), (''new'', new_parser),
     (''register'', register_parser url), (''start'', start_parser url), (''stop'', stop_parser url),
     (''deregister'', deregister_parser url), (''list-surveys'', list_surveys_parser url), (''vote'', vote_parser url),
     (''fire-surveys'', fire_surveys_parser url), (''export-surveys'', export_surveys_parser url), (''tap'', tap_parser url),
     (''send'', send_parser url), (''describe-agent'', describe_agent_parser url), (''audit-tail'', audit_tail_parser url)]"

definition build_parser :: "string \<Rightarrow> parser" where
  "build_parser url = Parser [] None (Some (''cmd'', commands url))"

definition DEFAULT_URL :: string where "DEFAULT_URL = ''redis://localhost:6379/0''"

text \<open>\<open>env_url\<close> is the environment variable \<open>AHP_REDIS_URL\<close>.\<close>

definition default_url :: "string option \<Rightarrow> string" where
  "default_url env_url = (case env_url of None \<Rightarrow> DEFAULT_URL | Some u \<Rightarrow> u)"

section \<open>The terminal\<close>

text \<open>What a command writes to \<open>out\<close> and to standard error, and the world it acts on.\<close>

record 's terminal =
  tm_out :: string
  tm_err :: string
  tm_store :: 's

definition on_term :: "('s, 'a) op \<Rightarrow> ('s terminal, 'a) op" where
  "on_term f T = (case f (tm_store T) of (r, s) \<Rightarrow> (r, T\<lparr>tm_store := s\<rparr>))"

definition print_line :: "string \<Rightarrow> ('s terminal, unit) op" where
  "print_line t = swrite (\<lambda>T. T\<lparr>tm_out := tm_out T @ t @ [CHR 0x0A]\<rparr>)"

definition warn_line :: "string \<Rightarrow> ('s terminal, unit) op" where
  "warn_line t = swrite (\<lambda>T. T\<lparr>tm_err := tm_err T @ t @ [CHR 0x0A]\<rparr>)"

definition fail_with :: "string \<Rightarrow> ('s terminal, int) op" where
  "fail_with t = sbind (warn_line t) (\<lambda>_. sret 2)"

definition succeed_with :: "string \<Rightarrow> ('s terminal, int) op" where
  "succeed_with t = sbind (print_line t) (\<lambda>_. sret 0)"

text \<open>\<open>args.name\<close>, for arguments that are texts, optional texts, lists of texts, switches and numbers.\<close>

definition text_arg :: "namespace \<Rightarrow> string \<Rightarrow> string" where
  "text_arg ns k = (case map_of ns k of Some (PStr t) \<Rightarrow> t | _ \<Rightarrow> [])"

definition opt_arg :: "namespace \<Rightarrow> string \<Rightarrow> string option" where
  "opt_arg ns k = (case map_of ns k of Some (PStr t) \<Rightarrow> Some t | _ \<Rightarrow> None)"

definition texts_arg :: "namespace \<Rightarrow> string \<Rightarrow> string list" where
  "texts_arg ns k = (case map_of ns k of Some (PList vs) \<Rightarrow> List.map_filter (\<lambda>v. case v of PStr t \<Rightarrow> Some t | _ \<Rightarrow> None) vs | _ \<Rightarrow> [])"

definition flag_arg :: "namespace \<Rightarrow> string \<Rightarrow> bool" where
  "flag_arg ns k \<longleftrightarrow> map_of ns k = Some (PBool True)"

definition whole_arg :: "namespace \<Rightarrow> string \<Rightarrow> int" where
  "whole_arg ns k = (case map_of ns k of Some (PInt n) \<Rightarrow> n | _ \<Rightarrow> 0)"

definition real_arg :: "namespace \<Rightarrow> string \<Rightarrow> pyfloat" where
  "real_arg ns k = (case map_of ns k of Some (PFloat x) \<Rightarrow> x | _ \<Rightarrow> fzero)"

text \<open>An optional text is used when it is not empty: \<open>if args.x\<close>.\<close>

definition given :: "string option \<Rightarrow> string option" where
  "given x = (case x of Some t \<Rightarrow> if t = [] then None else Some t | None \<Rightarrow> None)"

section \<open>Every argument a command reads is there\<close>

datatype attr = T_Text | T_Opt | T_Texts | T_Flag | T_Whole | T_Real

fun has_attr :: "attr \<Rightarrow> pyval \<Rightarrow> bool" where
  "has_attr T_Text (PStr t) = True" | "has_attr T_Opt (PStr t) = True" | "has_attr T_Opt PNone = True"
| "has_attr T_Texts (PList vs) = list_all (\<lambda>v. case v of PStr t \<Rightarrow> True | _ \<Rightarrow> False) vs"
| "has_attr T_Flag (PBool b) = True" | "has_attr T_Whole (PInt n) = True" | "has_attr T_Real (PFloat x) = True"
| "has_attr _ _ = False"

definition spec_attr :: "arg_spec \<Rightarrow> attr" where
  "spec_attr a =
     (case ar_action a of
        Append \<Rightarrow> T_Texts
      | Store \<Rightarrow> (case ar_type a of Whole \<Rightarrow> T_Whole | Real \<Rightarrow> T_Real
                 | Text \<Rightarrow> if ar_required a \<or> ar_default a \<noteq> PNone then T_Text else T_Opt)
      | _ \<Rightarrow> T_Flag)"

text \<open>A table of arguments is sound when every default has the type of its argument, or the argument is required.\<close>

definition sound_arg :: "arg_spec \<Rightarrow> bool" where
  "sound_arg a \<longleftrightarrow> ar_action a \<noteq> Help \<and> (ar_required a \<or> has_attr (spec_attr a) (ar_default a))
     \<and> (ar_action a = Append \<longrightarrow> ar_type a = Text \<and> \<not> ar_required a)"

definition sound_args :: "arg_spec list \<Rightarrow> bool" where
  "sound_args as \<longleftrightarrow> distinct (map ar_dest as) \<and> list_all sound_arg as"

text \<open>
  The progress of a parser: each argument has its type, unless it is required and not seen yet; besides the
  arguments the namespace has at most the names in \<open>K\<close>.
\<close>

definition on_track :: "string set \<Rightarrow> arg_spec list \<Rightarrow> progress \<Rightarrow> bool" where
  "on_track K as st \<longleftrightarrow> is_dict (pg_ns st) \<and> fst ` set (pg_ns st) \<subseteq> K \<union> ar_dest ` set as \<and>
     (\<forall>a\<in>set as. \<exists>v. map_of (pg_ns st) (ar_dest a) = Some v \<and>
        (has_attr (spec_attr a) v \<or> ar_required a \<and> ar_dest a \<notin> set (pg_seen st)))"

definition has_all :: "arg_spec list \<Rightarrow> namespace \<Rightarrow> bool" where
  "has_all as ns \<longleftrightarrow> is_dict ns \<and> (\<forall>a\<in>set as. \<exists>v. map_of ns (ar_dest a) = Some v \<and> has_attr (spec_attr a) v)"

lemma convert_attr:
  assumes "convert a s = Inr v" "ar_action a = Store"
  shows "has_attr (spec_attr a) v"
  using assms by (auto simp: convert_def spec_attr_def rbind_eq_Inr split: arg_type.splits if_splits)

lemma put_on_track:
  assumes "on_track K as st" "sound_args as" "a \<in> set as" "has_attr (spec_attr a) v"
  shows "on_track K as (put a v st)"
proof -
  have "is_dict (pg_ns (put a v st))" "fst ` set (pg_ns (put a v st)) \<subseteq> K \<union> ar_dest ` set as"
    using assms(1,3) by (auto simp: put_def on_track_def is_dict_update dom_update)
  moreover have "\<exists>w. map_of (pg_ns (put a v st)) (ar_dest b) = Some w \<and>
      (has_attr (spec_attr b) w \<or> ar_required b \<and> ar_dest b \<notin> set (pg_seen (put a v st)))" if b: "b \<in> set as" for b
  proof (cases "ar_dest b = ar_dest a")
    case True
    then have "b = a" using assms(2,3) b by (auto simp: sound_args_def distinct_map dest: inj_onD)
    with assms(4) show ?thesis by (simp add: put_def update_Some_unfold)
  next
    case False
    with assms(1) b show ?thesis by (fastforce simp: put_def on_track_def update_conv)
  qed
  ultimately show ?thesis by (simp add: on_track_def)
qed

lemma store_on_track:
  assumes "on_track K as st" "sound_args as" "a \<in> set as" "takes_value a" "store_value a s st = Inr st'"
  shows "on_track K as st'"
proof -
  obtain v where v: "convert a s = Inr v" using assms(5) by (auto simp: store_value_def split: sum.splits)
  have sa: "sound_arg a" using assms(2,3) by (auto simp: sound_args_def list_all_iff)
  show ?thesis
  proof (cases "ar_action a = Append")
    case True
    then have t: "ar_type a = Text" using sa by (simp add: sound_arg_def)
    with v have vt: "\<exists>t. v = PStr t" by (auto simp: convert_def rbind_eq_Inr split: if_splits)
    obtain vs where vs: "map_of (pg_ns st) (ar_dest a) = Some (PList vs)" "has_attr T_Texts (PList vs)"
      using assms(1,3) True sa by (auto simp: on_track_def spec_attr_def sound_arg_def elim!: has_attr.elims)
    then have "has_attr (spec_attr a) (PList (vs @ [v]))" using vt True by (auto simp: spec_attr_def)
    with vs(1) show ?thesis
      using assms(1,2,3,5) True v by (auto simp: store_value_def dict_get_def intro!: put_on_track)
  next
    case False
    then have "ar_action a = Store" using assms(4) by (simp add: takes_value_def)
    with assms v convert_attr [OF v] show ?thesis by (auto simp: store_value_def intro: put_on_track)
  qed
qed

text \<open>Option words name options of the parser.\<close>

definition own_options :: "arg_spec list \<Rightarrow> arg_spec list \<Rightarrow> bool" where
  "own_options as opts \<longleftrightarrow> set opts \<subseteq> insert help_arg (set as)"

definition own_words :: "arg_spec list \<Rightarrow> (string \<times> word) list \<Rightarrow> bool" where
  "own_words opts ws \<longleftrightarrow> (\<forall>raw a bundled v. (raw, Known a bundled v) \<in> set ws \<longrightarrow> a \<in> set opts)"

lemma own_words_subset: "own_words opts ws \<Longrightarrow> set ws' \<subseteq> set ws \<Longrightarrow> own_words opts ws'"
  unfolding own_words_def by blast

lemma abbreviates_own: "(a, sh, v) \<in> set (abbreviates opts s) \<Longrightarrow> a \<in> set opts"
  by (auto simp: abbreviates_def map_filter_mem split: if_splits)

lemma find_mem: "find P xs = Some x \<Longrightarrow> x \<in> set xs"
  by (auto simp: find_Some_iff)

lemma classify_own: "classify opts s = Known a sh v \<Longrightarrow> a \<in> set opts"
  using abbreviates_own [of _ _ _ opts s]
  by (auto simp: classify_def split: if_splits option.splits list.splits dest: find_mem)

lemma classify_all_own: "own_words opts (classify_all opts ss)"
  by (induction ss) (auto simp: own_words_def dest: classify_own [OF sym])

lemma spread_own: "spread opts a s = Some (fs, b, v) \<Longrightarrow> a \<in> set opts \<Longrightarrow> set (b # fs) \<subseteq> set opts"
proof (induction s arbitrary: a fs b v)
  case (Cons c cs)
  then show ?case by (fastforce split: if_splits option.splits dest!: find_mem)
qed (auto split: if_splits)

lemma spread_switches: "spread opts a s = Some (fs, b, v) \<Longrightarrow> c \<in> set fs \<Longrightarrow> \<not> takes_value c"
proof (induction s arbitrary: a fs b v)
  case (Cons d ds)
  then show ?case by (auto split: if_splits option.splits)
qed (auto split: if_splits)

lemma switch_on_track:
  assumes "on_track K as st" "sound_args as" "own_options as opts" "set fs \<subseteq> set opts" "\<forall>a\<in>set fs. \<not> takes_value a"
    "switch_all fs st = Inr st'"
  shows "on_track K as st'"
  using assms
proof (induction fs arbitrary: st)
  case (Cons a fs)
  from Cons.prems obtain st1 where st1: "switch_on a st = Inr st1" "switch_all fs st1 = Inr st'"
    by (auto split: sum.splits)
  then have nh: "ar_action a \<noteq> Help" and eq: "st1 = put a (PBool True) st" by (auto simp: switch_on_def split: if_splits)
  have a: "a \<in> set as" using Cons.prems(3,4) nh by (auto simp: own_options_def help_arg_def)
  have "has_attr (spec_attr a) (PBool True)" using Cons.prems(5) nh
    by (cases "ar_action a") (auto simp: spec_attr_def takes_value_def)
  then have "on_track K as st1" using put_on_track [OF Cons.prems(1,2) a] eq by simp
  then show ?case using Cons.IH [OF _ Cons.prems(2,3)] Cons.prems(4,5) st1(2) by simp
qed simp

text \<open>What one option does: it keeps the progress on track and leaves no more words than there were.\<close>

lemma finish_on_track:
  assumes "on_track K as st" "sound_args as" "own_options as opts" "set (b # fs) \<subseteq> set opts" "\<forall>c\<in>set fs. \<not> takes_value c"
    "finish_option fs b v rest st = Inr (st', rest')"
  shows "on_track K as st' \<and> set rest' \<subseteq> set rest \<and> length rest' \<le> length rest"
proof (cases "takes_value b")
  case True
  then obtain s st1 where s: "take_value v rest = Some (s, rest')" "switch_all fs st = Inr st1" "store_value b s st1 = Inr st'"
    using assms(6) by (auto simp: finish_option_def split: option.splits sum.splits)
  have "on_track K as st1" using switch_on_track [OF assms(1,2,3) _ assms(5) s(2)] assms(4) by simp
  moreover have "b \<in> set as" using True assms(3,4) by (auto simp: own_options_def takes_value_def help_arg_def)
  ultimately have "on_track K as st'" using store_on_track [OF _ assms(2) _ True s(3)] by blast
  moreover have "set rest' \<subseteq> set rest \<and> length rest' \<le> length rest"
    using s(1) by (auto simp: take_value_def split: option.splits list.splits word.splits)
  ultimately show ?thesis by blast
next
  case False
  then have "switch_all (fs @ [b]) st = Inr st'" "rest' = rest"
    using assms(6) by (auto simp: finish_option_def split: if_splits sum.splits)
  with switch_on_track [OF assms(1,2,3), of "fs @ [b]"] False assms(4,5) show ?thesis by auto
qed

lemma consume_on_track:
  assumes "on_track K as st" "sound_args as" "own_options as opts" "a \<in> set opts"
    "consume_optional opts a sh v rest st = Inr (st', rest')"
  shows "on_track K as st' \<and> set rest' \<subseteq> set rest \<and> length rest' \<le> length rest"
proof (cases v)
  case None
  with assms(4,5) finish_on_track [OF assms(1,2,3), of a "[]"] show ?thesis by (auto simp: consume_optional_def)
next
  case (Some s)
  show ?thesis
  proof (cases sh)
    case True
    with assms(5) Some obtain fs b v' where fb: "spread opts a s = Some (fs, b, v')" "finish_option fs b v' rest st = Inr (st', rest')"
      by (auto simp: consume_optional_def split: option.splits)
    with finish_on_track [OF assms(1,2,3)] spread_own [OF fb(1) assms(4)] spread_switches [OF fb(1)] show ?thesis by blast
  next
    case False
    with assms(4,5) Some finish_on_track [OF assms(1,2,3), of a "[]"] show ?thesis by (auto simp: consume_optional_def)
  qed
qed

lemma extras_on_track: "on_track K as (st\<lparr>pg_extras := b\<rparr>) \<longleftrightarrow> on_track K as st"
  by (simp add: on_track_def)

lemma parse_words_on_track:
  assumes "sound_args as" "own_options as opts"
  shows "on_track K as st \<Longrightarrow> own_words opts ws \<Longrightarrow> set poss \<subseteq> set as \<Longrightarrow> list_all takes_value poss \<Longrightarrow>
    (case parse_words opts poss subs ws st of Exit n \<Rightarrow> True | Done st' _ \<Rightarrow> on_track K as st' | Sub st' _ _ \<Rightarrow> on_track K as st')"
  using assms
proof (induction opts poss subs ws st rule: parse_words.induct)
  case (2 opts poss subs raw w rest st)
  note pre = "2.prems"
  have more: "on_track K as (st\<lparr>pg_extras := b\<rparr>)" for b using pre(1) by (simp add: extras_on_track)
  have own: "own_words opts rest" by (rule own_words_subset [OF pre(2)]) auto
  show ?case
  proof (cases w)
    case (Plain s)
    show ?thesis
    proof (cases poss)
      case (Cons a poss')
      have a: "a \<in> set as" "takes_value a" "set poss' \<subseteq> set as" "list_all takes_value poss'"
        using pre(3,4) Cons by auto
      have own': "own_words opts (case rest of (_, Dashes) # rest' \<Rightarrow> rest' | _ \<Rightarrow> rest)"
        by (rule own_words_subset [OF own]) (auto split: list.splits word.splits)
      show ?thesis
      proof (cases "store_value a s st")
        case (Inr st')
        with "2.IH"(2) [OF Plain _ Cons Inr] store_on_track [OF pre(1,5) a(1,2)] own' a pre(1,5,6) Plain Cons
        show ?thesis by (cases subs) auto
      qed (use Plain Cons pre in auto)
    qed (use "2.IH"(1) Plain more own pre in auto)
  next
    case Dashes
    with "2.IH"(3,4) more own pre show ?thesis by (auto split: list.splits)
  next
    case (Known a sh v)
    have a: "a \<in> set opts" using pre(2) Known by (auto simp: own_words_def)
    show ?thesis
    proof (cases "consume_optional opts a sh v rest st")
      case (Inr x)
      obtain st' rest' where x: "x = (st', rest')" by (cases x)
      have c: "on_track K as st'" "set rest' \<subseteq> set rest" "length rest' \<le> length rest"
        using consume_on_track [OF pre(1,5,6) a] Inr x by auto
      moreover have "own_words opts rest'" by (rule own_words_subset [OF own c(2)])
      ultimately show ?thesis using "2.IH"(5) Known Inr x pre by auto
    qed (use Known in auto)
  qed (use "2.IH"(6) more own pre in auto)
qed simp

lemma start_on_track: "sound_args as \<Longrightarrow> on_track {} as (start (Parser as f None))"
  by (auto simp: start_def on_track_def sound_args_def dict_of_id comp_def sound_arg_def list_all_iff distinct_map
      intro!: map_of_is_SomeI)

lemma on_track_done:
  assumes "on_track {} as st" "list_all (\<lambda>a. ar_required a \<longrightarrow> ar_dest a \<in> set (pg_seen st)) as"
  shows "has_all as (pg_ns st)"
  using assms unfolding on_track_def has_all_def list_all_iff by blast

lemma merge_ns_lookup: "is_dict sub \<Longrightarrow> map_of (merge_ns ns sub) k = (case map_of sub k of None \<Rightarrow> map_of ns k | Some v \<Rightarrow> Some v)"
proof (induction sub arbitrary: ns)
  case (Cons p sub)
  obtain j v where p: "p = (j, v)" by (cases p)
  have "merge_ns ns (p # sub) = merge_ns (AList.update j v ns) sub" by (simp add: merge_ns_def p)
  moreover have "map_of sub j = None" using Cons.prems p by (auto simp: map_of_eq_None_iff)
  ultimately show ?case using Cons.IH [of "AList.update j v ns"] Cons.prems p
    by (auto simp: update_conv' split: option.splits)
qed (simp add: merge_ns_def)

lemma merge_ns_dict: "is_dict ns \<Longrightarrow> is_dict (merge_ns ns sub)"
  by (induction sub arbitrary: ns) (auto simp: merge_ns_def is_dict_update split: prod.splits)

lemma has_all_merge: "has_all as sub \<Longrightarrow> is_dict ns \<Longrightarrow> has_all as (merge_ns ns sub)"
  using merge_ns_lookup [of sub ns] merge_ns_dict [of ns sub] unfolding has_all_def by (metis option.simps(5))

lemma merge_ns_keys: "fst ` set (merge_ns ns sub) = fst ` set ns \<union> fst ` set sub"
  by (induction sub arbitrary: ns) (auto simp: merge_ns_def dom_update split: prod.splits)

text \<open>A sound parser has its arguments at its leaves, each with a command.\<close>

fun sound_parser :: "parser \<Rightarrow> bool" and sound_choices :: "(string \<times> parser) list \<Rightarrow> bool" where
  "sound_parser (Parser as f subs) \<longleftrightarrow>
     (case subs of
        None \<Rightarrow> f \<noteq> None \<and> sound_args as \<and> list_all takes_value (positionals_of (Parser as f None))
      | Some (dest, choices) \<Rightarrow> as = [] \<and> sound_choices choices)"
| "sound_choices [] \<longleftrightarrow> True"
| "sound_choices ((n, p) # choices) \<longleftrightarrow> sound_parser p \<and> sound_choices choices"

text \<open>
  The leaves of a parser: the command, the path that leads to it (the names that hold the choices, with the
  choice made at each), and the arguments.
\<close>

type_synonym parser_leaf = "command \<times> (string \<times> string) list \<times> arg_spec list"

fun leaves :: "parser \<Rightarrow> parser_leaf list" and leaves_of :: "string \<Rightarrow> (string \<times> parser) list \<Rightarrow> parser_leaf list" where
  "leaves (Parser as f subs) =
     (case subs of
        None \<Rightarrow> (case f of None \<Rightarrow> [] | Some c \<Rightarrow> [(c, [], as)])
      | Some (dest, choices) \<Rightarrow> leaves_of dest choices)"
| "leaves_of dest [] = []"
| "leaves_of dest ((n, p) # choices) = map (\<lambda>(c, path, as). (c, (dest, n) # path, as)) (leaves p) @ leaves_of dest choices"

text \<open>
  The namespace of an accepted line: it has the arguments of the leaf and nothing but them and the choices;
  each choice is there under its name, where no argument takes that name.
\<close>

definition parsed_as :: "(string \<times> string) list \<Rightarrow> arg_spec list \<Rightarrow> namespace \<Rightarrow> bool" where
  "parsed_as path as ns \<longleftrightarrow> has_all as ns \<and> fst ` set ns \<subseteq> fst ` set path \<union> ar_dest ` set as \<and>
     (distinct (map fst path @ map ar_dest as) \<longrightarrow> (\<forall>(d, n)\<in>set path. map_of ns d = Some (PStr n)))"

lemma parsed_merge:
  assumes "parsed_as path as sub" "is_dict ns" "fst ` set ns \<subseteq> {d}" "map_of ns d = Some (PStr n)"
  shows "parsed_as ((d, n) # path) as (merge_ns ns sub)"
proof -
  have dict: "is_dict sub" using assms(1) by (simp add: parsed_as_def has_all_def)
  have keys: "fst ` set (merge_ns ns sub) \<subseteq> fst ` set ((d, n) # path) \<union> ar_dest ` set as"
    using assms(1,3) by (auto simp: merge_ns_keys parsed_as_def)
  have "\<forall>(e, k)\<in>set ((d, n) # path). map_of (merge_ns ns sub) e = Some (PStr k)"
    if "distinct (map fst ((d, n) # path) @ map ar_dest as)"
  proof -
    from that have new: "d \<notin> fst ` set path \<union> ar_dest ` set as" and dis: "distinct (map fst path @ map ar_dest as)"
      by auto
    with assms(1) have "d \<notin> fst ` set sub" unfolding parsed_as_def by blast
    then have "map_of sub d = None" by (simp add: map_of_eq_None_iff)
    moreover have "\<forall>(e, k)\<in>set path. map_of sub e = Some (PStr k)" using assms(1) dis unfolding parsed_as_def by blast
    ultimately show ?thesis using assms(4) by (auto simp: merge_ns_lookup [OF dict] split_beta)
  qed
  with keys has_all_merge [OF _ assms(2)] assms(1) show ?thesis unfolding parsed_as_def by blast
qed

lemma parse_known_parsed:
  "sound_parser p \<Longrightarrow> parse_known p argv = Inr (ns, f, extras) \<Longrightarrow>
     \<exists>c path as. f = Some c \<and> (c, path, as) \<in> set (leaves p) \<and> parsed_as path as ns"
  "sound_choices choices \<Longrightarrow> parse_choice choices name argv = Inr (ns, f, extras) \<Longrightarrow>
     \<exists>c path as. f = Some c \<and> (\<forall>d. (c, (d, name) # path, as) \<in> set (leaves_of d choices)) \<and> parsed_as path as ns"
proof (induction p argv and choices name argv arbitrary: ns f extras and ns f extras rule: parse_known_parse_choice.induct)
  case (1 as func subs argv)
  let ?p = "Parser as func subs"
  let ?out = "parse_words (options_of ?p) (positionals_of ?p) (subs \<noteq> None) (classify_all (options_of ?p) argv) (start ?p)"
  show ?case
  proof (cases subs)
    case None
    have own: "own_options as (options_of ?p)" "set (positionals_of ?p) \<subseteq> set as"
      by (auto simp: own_options_def options_of_def positionals_of_def)
    have "case ?out of Exit n \<Rightarrow> True | Done st' _ \<Rightarrow> on_track {} as st' | Sub st' _ _ \<Rightarrow> on_track {} as st'"
      using 1(2) None own by (intro parse_words_on_track classify_all_own) (auto simp: start_on_track)
    moreover obtain st poss where "?out = Done st poss" "required_met ?p st" "ns = pg_ns st" "f = func"
      using 1(3) None by (auto simp: Let_def split: outcome.splits if_splits)
    ultimately have "has_all as ns" "fst ` set ns \<subseteq> ar_dest ` set as"
      by (auto simp: required_met_def on_track_def intro!: on_track_done)
    with 1(2) None \<open>f = func\<close> show ?thesis by (auto simp: parsed_as_def)
  next
    case (Some x)
    obtain dest choices where x: "x = (dest, choices)" by (cases x)
    have none: "as = []" using 1(2) Some x by simp
    have base: "pg_ns (start ?p) = [(dest, PNone)]" by (simp add: start_def none Some x dict_of_def)
    have nopos: "positionals_of ?p = []" "sound_args []" "own_options [] (options_of ?p)" "on_track {dest} [] (start ?p)"
      using base by (simp_all add: none positionals_of_def sound_args_def own_options_def options_of_def on_track_def)
    have "case ?out of Exit n \<Rightarrow> True | Done st' _ \<Rightarrow> on_track {dest} [] st' | Sub st' _ _ \<Rightarrow> on_track {dest} [] st'"
      using nopos by (intro parse_words_on_track classify_all_own) auto
    moreover obtain st nm rest sub g ex where sub: "?out = Sub st nm rest" "parse_choice choices nm rest = Inr (sub, g, ex)"
      "ns = merge_ns (AList.update dest (PStr nm) (pg_ns st)) sub" "f = (case g of None \<Rightarrow> func | Some _ \<Rightarrow> g)"
      using 1(3) Some x by (auto simp: Let_def split: outcome.splits if_splits sum.splits prod.splits)
    ultimately have st: "is_dict (AList.update dest (PStr nm) (pg_ns st))" "fst ` set (AList.update dest (PStr nm) (pg_ns st)) \<subseteq> {dest}"
      "map_of (AList.update dest (PStr nm) (pg_ns st)) dest = Some (PStr nm)"
      by (auto simp: on_track_def is_dict_update dom_update update_conv')
    have "\<exists>c path bs. g = Some c \<and> (\<forall>d. (c, (d, nm) # path, bs) \<in> set (leaves_of d choices)) \<and> parsed_as path bs sub"
      using 1(1) 1(2) Some x sub by auto
    then obtain c path bs where "g = Some c" "\<forall>d. (c, (d, nm) # path, bs) \<in> set (leaves_of d choices)" "parsed_as path bs sub" by blast
    with sub(3,4) Some x parsed_merge [OF _ st] show ?thesis
      by (intro exI [of _ c] exI [of _ "(dest, nm) # path"] exI [of _ bs]) simp
  qed
next
  case (3 n p choices name rest)
  show ?case
  proof (cases "n = name")
    case True
    with 3 obtain c path as where "f = Some c" "(c, path, as) \<in> set (leaves p)" "parsed_as path as ns" by fastforce
    with True show ?thesis by (intro exI [of _ c] exI [of _ path] exI [of _ as]) force
  next
    case False
    with 3 show ?thesis by fastforce
  qed
qed simp

text \<open>
  The attributes of the namespace each command reads. What \<open>cmd_new\<close> reads depends on the kind of
  thing it is asked for, which is itself an attribute: the choice of the sub-parser.
\<close>

definition template_reads :: "(string \<times> attr) list" where
  "template_reads = [(''target'', T_Text), (''scope'', T_Text), (''kind'', T_Text), (''role'', T_Text), (''category'', T_Text),
     (''operation'', T_Opt), (''signature'', T_Opt), (''domain'', T_Text), (''subdomain'', T_Text), (''name'', T_Text),
     (''factory_name'', T_Opt), (''summary'', T_Opt)]"

definition address_reads :: "(string \<times> attr) list" where
  "address_reads = [(''name'', T_Text), (''scope'', T_Text), (''role'', T_Text), (''domain'', T_Text), (''subdomain'', T_Text),
     (''accept'', T_Text), (''lifecycle'', T_Text), (''redis_url'', T_Text)]"

definition new_reads :: "string \<Rightarrow> (string \<times> attr) list" where
  "new_reads kind =
     (if kind = ''tool'' then [(''tool_kind'', T_Text), (''role'', T_Text), (''category'', T_Text), (''signature'', T_Opt), (''summary'', T_Opt)]
      else if kind = ''integration'' then [(''type'', T_Text)]
      else if kind = ''agent'' then [(''type'', T_Text), (''role'', T_Text), (''format'', T_Opt)]
      else [])"

fun reads :: "command \<Rightarrow> string \<Rightarrow> (string \<times> attr) list" where
  "reads Cmd_List_Tools kind = [(''module'', T_Texts), (''for_addr'', T_Opt), (''tag'', T_Texts)]"
| "reads Cmd_List_Resources kind = [(''module'', T_Texts), (''for_addr'', T_Opt)]"
| "reads Cmd_List_Groups kind = [(''module'', T_Texts)]"
| "reads Cmd_List_Skills kind = [(''module'', T_Texts), (''for_addr'', T_Opt), (''tag'', T_Texts)]"
| "reads Cmd_List_Agents kind = [(''redis_url'', T_Text), (''pattern'', T_Opt), (''all'', T_Flag)]"
| "reads Cmd_Profile kind = [(''address'', T_Text), (''module'', T_Texts)]"
| "reads Cmd_Template kind = template_reads"
| "reads Cmd_Scaffold kind = template_reads @ [(''output'', T_Text), (''force'', T_Flag)]"
| "reads Cmd_New kind = [(''kind'', T_Text), (''name'', T_Text), (''scope'', T_Text), (''depth'', T_Text), (''path'', T_Opt),
     (''force'', T_Flag)] @ new_reads kind"
| "reads Cmd_Register_Agent kind = address_reads @ [(''capability'', T_Texts), (''description'', T_Opt)]"
| "reads Cmd_Start_Agent kind = address_reads"
| "reads Cmd_Stop_Agent kind = address_reads"
| "reads Cmd_Deregister_Agent kind = address_reads"
| "reads Cmd_List_Surveys kind = [(''redis_url'', T_Text), (''for_addr'', T_Opt), (''include_future'', T_Flag), (''limit'', T_Whole)]"
| "reads Cmd_Vote kind = [(''redis_url'', T_Text), (''survey_id'', T_Text), (''score'', T_Real), (''scale'', T_Text), (''free_text'', T_Text),
     (''allow_training'', T_Flag), (''deny_csat'', T_Flag)]"
| "reads Cmd_Fire_Surveys kind = [(''redis_url'', T_Text), (''dry_run'', T_Flag), (''limit'', T_Whole)]"
| "reads Cmd_Export_Surveys kind = [(''redis_url'', T_Text), (''out'', T_Opt), (''since'', T_Real), (''no_anonymize'', T_Flag)]"
| "reads Cmd_Tap kind = [(''redis_url'', T_Text), (''code'', T_Opt), (''source'', T_Opt), (''target'', T_Opt), (''limit'', T_Whole)]"
| "reads Cmd_Send kind = [(''redis_url'', T_Text), (''target'', T_Text), (''code'', T_Text), (''body'', T_Text), (''source'', T_Opt),
     (''get'', T_Flag), (''timeout'', T_Real), (''thread'', T_Opt)]"
| "reads Cmd_Describe_Agent kind = [(''address'', T_Text), (''redis_url'', T_Text)]"
| "reads Cmd_Audit_Tail kind = [(''redis_url'', T_Text), (''stream'', T_Opt), (''since'', T_Opt), (''op'', T_Opt), (''target_contains'', T_Opt),
     (''limit'', T_Whole), (''follow'', T_Flag)]"

text \<open>Every leaf of the parser declares what its command reads, as arguments or as choices on the path to it.\<close>

definition declares :: "(string \<times> string) list \<Rightarrow> arg_spec list \<Rightarrow> (string \<times> attr) list \<Rightarrow> bool" where
  "declares path as rs \<longleftrightarrow> set rs \<subseteq> set (map (\<lambda>a. (ar_dest a, spec_attr a)) as @ map (\<lambda>(d, n). (d, T_Text)) path)"

definition kind_chosen :: "(string \<times> string) list \<Rightarrow> string" where
  "kind_chosen path = (case map_of path ''kind'' of None \<Rightarrow> [] | Some k \<Rightarrow> k)"

definition NEW_KINDS :: "string list" where "NEW_KINDS = [''tool'', ''integration'', ''agent'']"

lemma parser_tables:
  "sound_parser (build_parser url)"
  "list_all (\<lambda>(c, path, as). distinct (map fst path @ map ar_dest as)) (leaves (build_parser url))"
  "list_all (\<lambda>(c, path, as). declares path as ((''cmd'', T_Text) # reads c (kind_chosen path))) (leaves (build_parser url))"
  "list_all (\<lambda>(c, path, as). c = Cmd_New \<longrightarrow> map_of path ''kind'' \<in> Some ` set NEW_KINDS) (leaves (build_parser url))"
  by code_simp+

lemma parsed_has:
  assumes "parsed_as path as ns" "distinct (map fst path @ map ar_dest as)" "declares path as rs"
  shows "list_all (\<lambda>(k, ty). \<exists>v. map_of ns k = Some v \<and> has_attr ty v) rs"
  unfolding list_all_iff split_beta
proof
  fix r assume "r \<in> set rs"
  with assms(3) consider a where "a \<in> set as" "r = (ar_dest a, spec_attr a)" | d n where "(d, n) \<in> set path" "r = (d, T_Text)"
    unfolding declares_def by fastforce
  then show "\<exists>v. map_of ns (fst r) = Some v \<and> has_attr (snd r) v"
  proof cases
    case 1
    with assms(1) show ?thesis unfolding parsed_as_def has_all_def by auto
  next
    case 2
    with assms(1,2) have "map_of ns d = Some (PStr n)" unfolding parsed_as_def by blast
    with 2 show ?thesis by simp
  qed
qed

lemma reads_by_kind: "c \<noteq> Cmd_New \<Longrightarrow> reads c k = reads c l"
  by (cases c) simp_all

text \<open>C30: An accepted command line runs one of the commands, and every attribute that \<open>main\<close> and that command
  read is in the namespace with its type; for \<open>new\<close> the kind is one of the three, and what is there is what
  that kind of \<open>new\<close> reads.\<close>

theorem cli_arguments_typed:
  assumes "parse_args (build_parser url) argv = Inr (ns, f)"
  shows "\<exists>c. f = Some c
    \<and> list_all (\<lambda>(k, ty). \<exists>v. map_of ns k = Some v \<and> has_attr ty v) ((''cmd'', T_Text) # reads c (text_arg ns ''kind''))
    \<and> (c = Cmd_New \<longrightarrow> text_arg ns ''kind'' \<in> set NEW_KINDS)"
proof -
  obtain extras where "parse_known (build_parser url) argv = Inr (ns, f, extras)"
    using assms by (auto simp: parse_args_def split: sum.splits prod.splits if_splits)
  from parse_known_parsed(1) [OF parser_tables(1) this] obtain c path as where
    c: "f = Some c" "(c, path, as) \<in> set (leaves (build_parser url))" "parsed_as path as ns" by blast
  from c(2) parser_tables(2-4) [of url] have
    t: "distinct (map fst path @ map ar_dest as)" "declares path as ((''cmd'', T_Text) # reads c (kind_chosen path))"
       "c = Cmd_New \<longrightarrow> map_of path ''kind'' \<in> Some ` set NEW_KINDS"
    unfolding list_all_iff by blast+
  have kind: "text_arg ns ''kind'' = kind_chosen path \<and> kind_chosen path \<in> set NEW_KINDS" if "c = Cmd_New"
  proof -
    from t(3) that obtain k where k: "map_of path ''kind'' = Some k" "k \<in> set NEW_KINDS" by blast
    with c(3) t(1) have "map_of ns ''kind'' = Some (PStr k)" using map_of_SomeD [OF k(1)] unfolding parsed_as_def by blast
    with k show ?thesis by (simp add: text_arg_def kind_chosen_def)
  qed
  have "reads c (text_arg ns ''kind'') = reads c (kind_chosen path)"
    using kind reads_by_kind by metis
  with c(1) kind parsed_has [OF c(3) t(1,2)] show ?thesis by auto
qed

text \<open>\<open>vote\<close>, and \<open>new\<close> for a tool.\<close>

theorem cli_arguments_typed_witness:
  "(\<exists>ns. parse_args (build_parser DEFAULT_URL) [''vote'', ''--score=0.5'', ''--survey'', ''s1''] = Inr (ns, Some Cmd_Vote)
     \<and> list_all (\<lambda>(k, ty). \<exists>v. map_of ns k = Some v \<and> has_attr ty v) (reads Cmd_Vote []))
   \<and> (\<exists>ns. parse_args (build_parser DEFAULT_URL) [''new'', ''tool'', ''--name'', ''x'', ''--tool-kind=db''] = Inr (ns, Some Cmd_New)
     \<and> text_arg ns ''kind'' = ''tool''
     \<and> list_all (\<lambda>(k, ty). \<exists>v. map_of ns k = Some v \<and> has_attr ty v) (reads Cmd_New ''tool''))"
proof -
  have "(case parse_args (build_parser DEFAULT_URL) [''vote'', ''--score=0.5'', ''--survey'', ''s1''] of
      Inl _ \<Rightarrow> False | Inr (_, f) \<Rightarrow> f = Some Cmd_Vote)" by code_simp
  then obtain ns where ns: "parse_args (build_parser DEFAULT_URL) [''vote'', ''--score=0.5'', ''--survey'', ''s1''] = Inr (ns, Some Cmd_Vote)"
    by (auto split: sum.splits prod.splits)
  have "(case parse_args (build_parser DEFAULT_URL) [''new'', ''tool'', ''--name'', ''x'', ''--tool-kind=db''] of
      Inl _ \<Rightarrow> False | Inr (ns, f) \<Rightarrow> f = Some Cmd_New \<and> text_arg ns ''kind'' = ''tool'')" by code_simp
  then obtain ns' where ns': "parse_args (build_parser DEFAULT_URL) [''new'', ''tool'', ''--name'', ''x'', ''--tool-kind=db''] = Inr (ns', Some Cmd_New)"
    "text_arg ns' ''kind'' = ''tool''"
    by (auto split: sum.splits prod.splits)
  from cli_arguments_typed [OF ns] have "list_all (\<lambda>(k, ty). \<exists>v. map_of ns k = Some v \<and> has_attr ty v) (reads Cmd_Vote [])"
    by simp
  moreover from cli_arguments_typed [OF ns'(1)] have "list_all (\<lambda>(k, ty). \<exists>v. map_of ns' k = Some v \<and> has_attr ty v) (reads Cmd_New ''tool'')"
    by (simp add: ns'(2) del: reads.simps)
  ultimately show ?thesis using ns ns' by (simp del: reads.simps)
qed

end
