(* ===== verification/Agents.thy ===== *)
theory Agents
  imports Engine
begin

text \<open>
  \<open>ahp/adapters/base.py\<close> and \<open>ahp/adapters/groups.py\<close>: the participants of the protocol.
  What an agent does with a message is its subclass, here the argument \<open>handler\<close>, which may
  use the store and may raise. A task is the flag that it runs; cancelling it clears the flag.
\<close>

section \<open>Groups\<close>

record Group =
  gp_name :: string
  gp_pattern :: AddressPattern
  gp_description :: string

type_synonym GroupRegistry = "(string, Group) dict"

datatype name_or_pattern = Named string | Given AddressPattern

definition as_pattern :: "name_or_pattern \<Rightarrow> AddressPattern res" where
  "as_pattern x = (case x of Given p \<Rightarrow> Inr p | Named t \<Rightarrow> pparse t)"

definition group_register :: "GroupRegistry \<Rightarrow> string \<Rightarrow> name_or_pattern \<Rightarrow> string \<Rightarrow> (Group \<times> GroupRegistry) res" where
  "group_register d name pattern description =
     (if name = [] then Inl ValueError
      else if CHR ''.'' \<in> set name then Inl ValueError
      else if map_of d name \<noteq> None then Inl ValueError
      else rbind (as_pattern pattern) (\<lambda>p.
           let g = \<lparr>gp_name = name, gp_pattern = p, gp_description = description\<rparr>
           in Inr (g, AList.update name g d)))"

definition group_unregister :: "GroupRegistry \<Rightarrow> string \<Rightarrow> bool \<times> GroupRegistry" where
  "group_unregister d name = (map_of d name \<noteq> None, AList.delete name d)"

definition group_names :: "GroupRegistry \<Rightarrow> string list" where "group_names d = map fst d"

definition group_get :: "GroupRegistry \<Rightarrow> string \<Rightarrow> Group res" where
  "group_get d name = (case map_of d name of None \<Rightarrow> Inl KeyError | Some g \<Rightarrow> Inr g)"

definition group_resolve :: "GroupRegistry \<Rightarrow> name_or_pattern \<Rightarrow> AddressPattern res" where
  "group_resolve d x =
     (case x of
        Given p \<Rightarrow> Inr p
      | Named t \<Rightarrow> (case map_of d t of Some g \<Rightarrow> Inr (gp_pattern g) | None \<Rightarrow> pparse t))"

section \<open>New messages\<close>

text \<open>What a constructor of messages takes from outside: a fresh id, the time, the text of an exception with its class.\<close>

record minted =
  mi_id :: string
  mi_time :: string
  mi_error :: "pyexc \<Rightarrow> string"

definition new_message :: "minted \<Rightarrow> AgentAddress \<Rightarrow> msg_target \<Rightarrow> string \<Rightarrow> string \<Rightarrow> string \<Rightarrow> pyval \<Rightarrow> Message res" where
  "new_message mt source target verb code thread body =
     msg_post_init \<lparr>m_source = source, m_target = target, m_verb = verb, m_code = code, m_thread = thread, m_body = body,
       m_timestamp = mi_time mt, m_ttl = None, m_reply_to = None, m_message_id = mi_id mt, m_format = None\<rparr>"

section \<open>The agent\<close>

record 's AHPAgent =
  ag_address :: AgentAddress
  ag_engine :: "'s ProtocolEngine"
  ag_groups :: "GroupRegistry option"
  ag_metadata :: AgentMeta
  ag_heartbeat_interval :: pyfloat
  ag_default_thread :: string
  ag_consuming :: bool
  ag_heartbeating :: bool

type_synonym 's handler = "Message \<Rightarrow> ('s, Message option) op"

definition new_agent :: "pyfloat \<Rightarrow> AgentAddress \<Rightarrow> 's ProtocolEngine \<Rightarrow> GroupRegistry option \<Rightarrow> AgentMeta option \<Rightarrow> pyfloat \<Rightarrow> string option \<Rightarrow> 's AHPAgent" where
  "new_agent now address engine groups metadata interval default_thread =
     \<lparr>ag_address = address, ag_engine = engine, ag_groups = groups,
      ag_metadata = (case metadata of None \<Rightarrow> default_meta now | Some m \<Rightarrow> m), ag_heartbeat_interval = interval,
      ag_default_thread = (case default_thread of
          Some t \<Rightarrow> if t = [] then ''thread::'' @ to_str address @ ''::default'' else t
        | None \<Rightarrow> ''thread::'' @ to_str address @ ''::default''),
      ag_consuming = False, ag_heartbeating = False\<rparr>"

definition ag_register :: "'s AHPAgent \<Rightarrow> pyfloat \<Rightarrow> ('s, unit) op" where
  "ag_register a now = register (en_registry (ag_engine a)) now (ag_address a) (Some (ag_metadata a)) True"

definition ag_deregister :: "'s AHPAgent \<Rightarrow> pyfloat \<Rightarrow> ('s, unit) op" where
  "ag_deregister a now = deregister (en_registry (ag_engine a)) now (ag_address a)"

definition ag_heartbeat :: "'s AHPAgent \<Rightarrow> pyfloat \<Rightarrow> ('s, bool) op" where
  "ag_heartbeat a now = heartbeat (en_registry (ag_engine a)) now (ag_address a)"

definition ag_start :: "'s AHPAgent \<Rightarrow> 's AHPAgent" where
  "ag_start a =
     (if ag_consuming a then a
      else a\<lparr>ag_consuming := True, ag_heartbeating := (flt fzero (ag_heartbeat_interval a) \<or> ag_heartbeating a)\<rparr>)"

definition ag_stop :: "'s AHPAgent \<Rightarrow> 's AHPAgent" where
  "ag_stop a = a\<lparr>ag_consuming := False, ag_heartbeating := False\<rparr>"

text \<open>The heartbeats sent before the task is cancelled, at the given times; their exceptions are dropped.\<close>

fun heartbeat_loop :: "'s AHPAgent \<Rightarrow> pyfloat list \<Rightarrow> ('s, unit) op" where
  "heartbeat_loop a [] s = (Inr (), s)"
| "heartbeat_loop a (now # ticks) s = heartbeat_loop a ticks (snd (heartbeat (en_registry (ag_engine a)) now (ag_address a) s))"

section \<open>Outbound\<close>

definition ag_send :: "'s AHPAgent \<Rightarrow> 's outside \<Rightarrow> minted \<Rightarrow> msg_target \<Rightarrow> string \<Rightarrow> pyval \<Rightarrow> string \<Rightarrow> string option \<Rightarrow>
    pyfloat option \<Rightarrow> int option \<Rightarrow> ('s, engine_result) op" where
  "ag_send a W mt target code body verb thread timeout max_responses =
     sbind (slift (new_message mt (ag_address a) target verb code (or_default thread (ag_default_thread a)) body)) (\<lambda>m.
     engine_handle (ag_engine a) W m timeout max_responses)"

definition ag_broadcast :: "'s AHPAgent \<Rightarrow> 's outside \<Rightarrow> minted \<Rightarrow> AddressPattern \<Rightarrow> string \<Rightarrow> pyval \<Rightarrow> string \<Rightarrow> string option \<Rightarrow>
    pyfloat option \<Rightarrow> int option \<Rightarrow> ('s, engine_result) op" where
  "ag_broadcast a W mt pattern = ag_send a W mt (TPat pattern)"

definition resolve_group :: "'s AHPAgent \<Rightarrow> name_or_pattern \<Rightarrow> AddressPattern res" where
  "resolve_group a x =
     (case x of
        Given p \<Rightarrow> Inr p
      | Named t \<Rightarrow> (case ag_groups a of Some d \<Rightarrow> group_resolve d x | None \<Rightarrow> pparse t))"

definition ag_broadcast_to :: "'s AHPAgent \<Rightarrow> 's outside \<Rightarrow> minted \<Rightarrow> name_or_pattern \<Rightarrow> string \<Rightarrow> pyval \<Rightarrow> string \<Rightarrow> string option \<Rightarrow>
    pyfloat option \<Rightarrow> int option \<Rightarrow> ('s, engine_result) op" where
  "ag_broadcast_to a W mt x code body verb thread timeout max_responses =
     sbind (slift (resolve_group a x)) (\<lambda>p. ag_send a W mt (TPat p) code body verb thread timeout max_responses)"

section \<open>Inbound\<close>

definition error_response :: "'s AHPAgent \<Rightarrow> minted \<Rightarrow> Message \<Rightarrow> pyexc \<Rightarrow> Message res" where
  "error_response a mt request e =
     new_message mt (ag_address a) (TAddr (m_source request)) ''SEND'' ''error.internal'' (m_thread request) (PStr (mi_error mt e))"

text \<open>\<open>_dispatch\<close>: a failing handler becomes an error reply, a failing reply is dropped.\<close>

definition ag_dispatch :: "'s AHPAgent \<Rightarrow> minted \<Rightarrow> 's handler \<Rightarrow> Message \<Rightarrow> ('s, unit) op" where
  "ag_dispatch a mt handler m =
     sbind (scatch (handler m) (\<lambda>e. sbind (slift (error_response a mt m e)) (\<lambda>r. sret (Some r)))) (\<lambda>response.
     case response of
       None \<Rightarrow> sret ()
     | Some r \<Rightarrow>
         if (case m_reply_to m of None \<Rightarrow> False | Some ch \<Rightarrow> ch \<noteq> [])
         then scatch (sbind (send_reply (en_redis (ag_engine a)) m r) (\<lambda>_. sret ())) (\<lambda>_. sret ())
         else sret ())"

text \<open>The consumer task of a started agent, on the frames of its inbox.\<close>

definition ag_consume :: "string \<Rightarrow> 's AHPAgent \<Rightarrow> minted \<Rightarrow> 's handler \<Rightarrow> frame option list \<Rightarrow> ('s, unit) op" where
  "ag_consume nid a mt handler frames = consume_loop nid (\<lambda>_. True) (ag_dispatch a mt handler) frames"

section \<open>Groups resolve\<close>

text \<open>Registered names are free of dots, so no name is ever read as a pattern, nor a pattern as a name.\<close>

definition groups_ok :: "GroupRegistry \<Rightarrow> bool" where
  "groups_ok d \<longleftrightarrow> is_dict d \<and> list_all (\<lambda>(n, g). n \<noteq> [] \<and> CHR ''.'' \<notin> set n \<and> gp_name g = n) d"

lemma groups_ok_register:
  assumes "groups_ok d" "group_register d name pattern description = Inr (g, d')"
  shows "groups_ok d' \<and> group_names d' = group_names d @ [name] \<and> group_resolve d' (Named name) = Inr (gp_pattern g)"
proof -
  have new: "map_of d name = None" "name \<noteq> []" "CHR ''.'' \<notin> set name"
    and d': "d' = AList.update name g d" "gp_name g = name"
    using assms(2) by (auto simp: group_register_def Let_def rbind_eq_Inr split: if_splits)
  have "name \<notin> fst ` set d" using new(1) by (simp add: map_of_eq_None_iff)
  then have "d' = d @ [(name, g)]" by (simp add: d' update_new)
  moreover have "groups_ok (d @ [(name, g)])"
    using assms(1) new d'(2) \<open>name \<notin> fst ` set d\<close> by (auto simp: groups_ok_def)
  ultimately show ?thesis using new(1) by (simp add: group_names_def group_resolve_def map_add_def map_of_append)
qed

lemma groups_ok_unregister: "groups_ok d \<Longrightarrow> groups_ok (snd (group_unregister d name))"
  using distinct_delete [of d name] by (auto simp: groups_ok_def group_unregister_def list_all_iff) (auto simp: AList.delete_eq)

section \<open>What a request gets back\<close>

text \<open>The answer of an agent to a message, given what its handler did.\<close>

definition answer :: "'s AHPAgent \<Rightarrow> minted \<Rightarrow> Message \<Rightarrow> Message option res \<Rightarrow> Message option" where
  "answer a mt m r =
     (case r of
        Inr resp \<Rightarrow> resp
      | Inl e \<Rightarrow> (case error_response a mt m e of Inr err \<Rightarrow> Some err | Inl _ \<Rightarrow> None))"

definition agent_ok :: "'s AHPAgent \<Rightarrow> minted \<Rightarrow> bool" where
  "agent_ok a mt \<longleftrightarrow> valid_address (ag_address a) \<and> edges_ok (ag_address a) \<and> iso_aware (mi_time mt)"

lemma error_response_run:
  assumes "agent_ok a mt" "valid_message m"
  obtains err where "error_response a mt m e = Inr err" "sendable err" "m_target err = TAddr (m_source m)" "m_source err = ag_address a"
    "m_code err = ''error.internal''" "m_thread err = m_thread m" "m_body err = PStr (mi_error mt e)"
proof -
  let ?m = "\<lparr>m_source = ag_address a, m_target = TAddr (m_source m), m_verb = ''SEND'', m_code = ''error.internal'', m_thread = m_thread m,
       m_body = PStr (mi_error mt e), m_timestamp = mi_time mt, m_ttl = Some (dict_get LIFECYCLE_TTL (a_lifecycle (ag_address a)) 0),
       m_reply_to = None, m_message_id = mi_id mt, m_format = None\<rparr>"
  have "0 \<le> dict_get LIFECYCLE_TTL lc 0" for lc by (simp add: dict_get_def LIFECYCLE_TTL_def)
  then have "sendable ?m"
    using assms by (simp add: sendable_def valid_message_def agent_ok_def valid_target_def VALID_VERBS_def is_broadcast_def)
  moreover have "error_response a mt m e = Inr ?m"
    using assms by (simp add: error_response_def new_message_def msg_post_init_def VALID_VERBS_def agent_ok_def valid_message_def normalize_ts_def)
  ultimately show thesis using that [of ?m] by simp
qed

lemma dispatch_answers:
  assumes ok: "agent_ok a mt" "valid_message m" and h: "handler m s = (r, t)"
  shows "ag_dispatch a mt handler m s =
     (Inr (), case answer a mt m r of None \<Rightarrow> t
        | Some resp \<Rightarrow> if m_reply_to m \<in> {None, Some []} then t else snd (send_reply (en_redis (ag_engine a)) m resp t))"
proof -
  have run: "scatch (handler m) (\<lambda>e. sbind (slift (error_response a mt m e)) (\<lambda>r. sret (Some r))) s = (Inr (answer a mt m r), t)"
  proof (cases r)
    case (Inl e)
    obtain err where "error_response a mt m e = Inr err" by (rule error_response_run [OF ok])
    then show ?thesis by (simp add: scatch_run h Inl answer_def)
  qed (simp add: scatch_run h answer_def)
  have drop: "scatch (sbind (send_reply R m resp) (\<lambda>_. sret ())) (\<lambda>_. sret ()) t = (Inr (), snd (send_reply R m resp t))" for R :: "'a redis" and resp
    by (cases "send_reply R m resp t"; cases "fst (send_reply R m resp t)") (auto simp: scatch_def sbind_def)
  show ?thesis
    unfolding ag_dispatch_def sbind_run(1) [where f = "scatch _ _", OF run]
    by (cases "m_reply_to m"; cases "answer a mt m r") (auto simp: drop)
qed

context redis
begin

lemma send_reply_run:
  assumes "m_reply_to m = Some ch" "ch \<noteq> []" "json_ok (m_body resp)"
  obtains n u where "send_reply R m resp t = (Inr n, u)"
    "abs u = (abs t)\<lparr>streams := (streams (abs t))(thread_stream (m_thread resp) := streams (abs t) (thread_stream (m_thread resp)) @ [PDict (to_dict resp)]),
        published := published (abs t) @ [(ch, PDict (to_dict resp)), (tap_channel, PDict (to_dict resp))]\<rparr>"
proof -
  have e: "bus_encode resp = Inr (PDict (to_dict resp))" using assms(3) by (simp add: bus_encode_eq)
  let ?t = "r_xadd R (thread_stream (m_thread resp)) (PDict (to_dict resp)) t"
  obtain n u where "bus_publish R ch resp ?t = (Inr n, u)"
    "abs u = (abs ?t)\<lparr>published := published (abs ?t) @ [(ch, PDict (to_dict resp)), (tap_channel, PDict (to_dict resp))]\<rparr>"
    by (rule bus_publish_run [OF e])
  then show thesis using that [of n u] assms append_thread_run [OF e, of t]
    by (simp add: send_reply_def sbind_run)
qed

lemma send_reply_unencodable:
  "m_reply_to m = Some ch \<Longrightarrow> ch \<noteq> [] \<Longrightarrow> \<not> json_ok (m_body resp) \<Longrightarrow> send_reply R m resp t = (Inl TypeError, t)"
  by (simp add: send_reply_def append_thread_def bus_encode_eq sbind_def)

end

section \<open>The consumer\<close>

text \<open>The payloads of the message frames, and the messages before the first payload that does not decode.\<close>

definition payloads :: "frame option list \<Rightarrow> pyval list" where
  "payloads frames = concat (map (\<lambda>f. case f of None \<Rightarrow> [] | Some (Frame ty dat) \<Rightarrow> if ty = ''message'' then [dat] else []) frames)"

definition readable_prefix :: "string \<Rightarrow> pyval list \<Rightarrow> Message list" where
  "readable_prefix nid vs = map (projr \<circ> decode_payload nid) (takeWhile (\<lambda>v. \<not> isl (decode_payload nid v)) vs)"

definition first_unreadable :: "string \<Rightarrow> pyval list \<Rightarrow> pyexc option" where
  "first_unreadable nid vs = map_option (projl \<circ> decode_payload nid) (find (\<lambda>v. isl (decode_payload nid v)) vs)"

lemma consume_loop_spec:
  "consume_loop nid pred h frames s =
     (case first_unreadable nid (payloads frames) of None \<Rightarrow> Inr () | Some e \<Rightarrow> Inl e,
      fold (\<lambda>m t. snd (h m t)) (filter pred (readable_prefix nid (payloads frames))) s)"
proof (induction frames arbitrary: s)
  case Nil
  then show ?case by (simp add: payloads_def readable_prefix_def first_unreadable_def)
next
  case (Cons raw frames)
  have drop: "sbind (scatch (h m) (\<lambda>_. sret ())) (\<lambda>_. consume_loop nid pred h frames) s = consume_loop nid pred h frames (snd (h m s))" for m
    by (cases "h m s"; cases "fst (h m s)") (auto simp: sbind_def scatch_def)
  show ?case
  proof (cases raw)
    case None
    with Cons show ?thesis by (simp add: payloads_def)
  next
    case (Some f)
    obtain ty dat where f: "f = Frame ty dat" by (cases f)
    show ?thesis
      using Cons drop
      by (cases "decode_payload nid dat"; cases "ty = ''message''")
        (simp_all add: Some f payloads_def readable_prefix_def first_unreadable_def)
  qed
qed

section \<open>Two agents on one store\<close>

text \<open>
  The network of a caller whose only partner is an agent with the given handler, subscribed
  since \<open>n\<close> messages had been published: while the caller waits, the agent's consumer works
  off its inbox, and what it publishes on the caller's channel arrives at once.
\<close>

definition on_channel :: "string \<Rightarrow> (string \<times> pyval) list \<Rightarrow> pyval list" where
  "on_channel ch sent = map snd (filter (\<lambda>p. fst p = ch) sent)"

definition partner :: "('s \<Rightarrow> view) \<Rightarrow> nat \<Rightarrow> string \<Rightarrow> 's AHPAgent \<Rightarrow> minted \<Rightarrow> 's handler \<Rightarrow> 's peers" where
  "partner see n nid a mt handler = \<lparr>pe_clock = fzero, pe_inbox = (\<lambda>ch s.
     let inbox = on_channel (agent_channel (to_str (ag_address a))) (drop n (published (see s)));
         t = snd (ag_consume nid a mt handler (map (\<lambda>v. Some (Frame ''message'' v)) inbox) s)
     in (map (\<lambda>v. (fzero, Some (Frame ''message'' v))) (on_channel ch (drop n (published (see t)))), t))\<rparr>"

lemma channels_differ [simp]:
  "agent_channel x \<noteq> reply_channel y" "reply_channel y \<noteq> agent_channel x" "agent_channel x \<noteq> tap_channel"
  "tap_channel \<noteq> agent_channel x" "reply_channel y \<noteq> tap_channel" "tap_channel \<noteq> reply_channel y" "reply_channel y \<noteq> []"
  "cache_entry_key x \<noteq> thread_stream y" "thread_stream y \<noteq> cache_entry_key x"
  by (simp_all add: agent_channel_def reply_channel_def tap_channel_def cache_entry_key_def thread_stream_def)

lemma canonical_with_reply: "m_reply_to (canonical_msg (with_reply m)) = Some (reply_channel (m_message_id m))"
  "m_thread (canonical_msg m) = m_thread m" "m_source (canonical_msg m) = canonical (m_source m)"
  by (simp_all add: canonical_msg_def with_reply_def)

context redis
begin

lemma partner_answers:
  assumes "sendable m" "agent_ok b mt" "en_redis (ag_engine b) = R"
    and h: "\<And>t. handler (canonical_msg (with_reply m)) t = (r, t)"
    and resp: "answer b mt (canonical_msg (with_reply m)) r = Some resp" "sendable resp"
    and log: "published (abs t) = pre @ [(agent_channel (to_str (ag_address b)), PDict (to_dict (with_reply m))), (tap_channel, PDict (to_dict (with_reply m)))]"
  obtains u where "pe_inbox (partner abs (length pre) nid b mt handler) (reply_channel (m_message_id m)) t =
      ([(fzero, Some (Frame ''message'' (PDict (to_dict resp))))], u)"
    "streams (abs u) = (streams (abs t))(thread_stream (m_thread resp) := streams (abs t) (thread_stream (m_thread resp)) @ [PDict (to_dict resp)])"
proof -
  let ?q = "canonical_msg (with_reply m)"
  have v: "valid_message (with_reply m)" using assms(1) sendable_with_reply [of m] by (simp add: sendable_def)
  have q: "valid_message ?q" by (rule canonical_valid_message [OF v])
  have dec: "decode_payload nid (PDict (to_dict (with_reply m))) = Inr ?q" by (rule decode_sent [OF v])
  have inbox: "on_channel (agent_channel (to_str (ag_address b))) (drop (length pre) (published (abs t))) = [PDict (to_dict (with_reply m))]"
    by (simp add: log on_channel_def)
  obtain k u where sr: "send_reply R ?q resp t = (Inr k, u)"
    "abs u = (abs t)\<lparr>streams := (streams (abs t))(thread_stream (m_thread resp) := streams (abs t) (thread_stream (m_thread resp)) @ [PDict (to_dict resp)]),
        published := published (abs t) @ [(reply_channel (m_message_id m), PDict (to_dict resp)), (tap_channel, PDict (to_dict resp))]\<rparr>"
    by (rule send_reply_run [OF canonical_with_reply(1) channels_differ(7), where resp = resp and t = t]) (use resp(2) in \<open>simp_all add: sendable_def\<close>)
  have "ag_dispatch b mt handler ?q t = (Inr (), u)"
    using dispatch_answers [OF assms(2) q, where handler = handler, OF h, of t] sr(1) by (simp add: resp(1) canonical_with_reply assms(3))
  then have run: "ag_consume nid b mt handler [Some (Frame ''message'' (PDict (to_dict (with_reply m))))] t = (Inr (), u)"
    by (simp add: ag_consume_def consume_loop_spec payloads_def first_unreadable_def readable_prefix_def dec)
  have "pe_inbox (partner abs (length pre) nid b mt handler) (reply_channel (m_message_id m)) t =
      ([(fzero, Some (Frame ''message'' (PDict (to_dict resp))))], u)"
    by (simp add: partner_def inbox Let_def run) (simp add: sr(2) log on_channel_def)
  then show thesis by (rule that) (simp add: sr(2))
qed

end

context redis
begin

text \<open>Storing a response in the cache leaves the histories alone.\<close>

lemma cache_put_run:
  assumes "m_target m = TAddr a" "sendable resp"
  obtains c w where "cache_put digest bytes_digest R m resp u = (Inr c, w)"
    "streams (abs w) (thread_stream tid) = streams (abs u) (thread_stream tid)"
proof (cases "ttl_for a \<le> 0")
  case True
  then show thesis using that [of False u] assms(1) by (simp add: cache_put_def)
next
  case False
  obtain d where d: "cache_key digest bytes_digest m = Inr d" using assms(1) by (simp add: cache_key_def)
  have "json_ok (PDict (to_dict resp))"
    using assms(2) by (simp add: sendable_def to_dict_def opt_str_def split: option.splits)
  then obtain v where "cache_encode \<lparr>ce_target_uri = to_str a, ce_code = m_code m, ce_response = resp\<rparr> = Inr v"
    by (simp add: cache_encode_def Let_def)
  with False d assms(1) show thesis
    using that [of True "r_setex R (cache_entry_key d) v (ttl_for a) u"] by (simp add: cache_put_def request_key_def)
qed

end

section \<open>Properties\<close>

text \<open>C14: Every request is answered: whatever the handler of an agent does with a message, the consumer task survives it;
  when the message carries a reply channel, the handler's response, or for a handler that raised an
  \<open>error.internal\<close> message of the agent in the request's thread, enters its thread's history and is published once
  on that channel (mirrored on the tap), and with no response, or one that JSON cannot carry, nothing is.\<close>

theorem agent_always_answers:
  assumes "redis (en_redis (ag_engine a)) view" and "agent_ok a mt" and "valid_message m" and "handler m s = (r, t)"
    and "m_reply_to m = Some ch" and "ch \<noteq> []"
  shows "\<exists>u. ag_dispatch a mt handler m s = (Inr (), u) \<and>
     (case answer a mt m r of
        None \<Rightarrow> u = t \<and> r = Inr None
      | Some resp \<Rightarrow>
          (case r of Inr _ \<Rightarrow> True | Inl e \<Rightarrow> m_code resp = ''error.internal'' \<and> m_thread resp = m_thread m \<and> sendable resp) \<and>
          (if json_ok (m_body resp)
           then view u = (view t)\<lparr>streams := (streams (view t))(thread_stream (m_thread resp) :=
                    streams (view t) (thread_stream (m_thread resp)) @ [PDict (to_dict resp)]),
                  published := published (view t) @ [(ch, PDict (to_dict resp)), (tap_channel, PDict (to_dict resp))]\<rparr>
           else u = t))"
proof -
  let ?R = "en_redis (ag_engine a)"
  note run = dispatch_answers [OF assms(2,3), where handler = handler, OF assms(4)]
  show ?thesis
  proof (cases "answer a mt m r")
    case None
    have "r = Inr None"
    proof (cases r)
      case (Inl e)
      obtain err where "error_response a mt m e = Inr err" by (rule error_response_run [OF assms(2,3)])
      with Inl None show ?thesis by (simp add: answer_def)
    qed (use None in \<open>simp add: answer_def\<close>)
    with run None show ?thesis by simp
  next
    case (Some resp)
    have kind: "case r of Inr _ \<Rightarrow> True | Inl e \<Rightarrow> m_code resp = ''error.internal'' \<and> m_thread resp = m_thread m \<and> sendable resp"
    proof (cases r)
      case (Inl e)
      obtain err where "error_response a mt m e = Inr err" "sendable err" "m_code err = ''error.internal''" "m_thread err = m_thread m"
        by (rule error_response_run [OF assms(2,3)])
      with Inl Some show ?thesis by (simp add: answer_def)
    qed simp
    have run': "ag_dispatch a mt handler m s = (Inr (), snd (send_reply ?R m resp t))"
      using run assms(5,6) by (simp add: Some)
    show ?thesis
    proof (cases "json_ok (m_body resp)")
      case True
      obtain n u where "send_reply ?R m resp t = (Inr n, u)"
        "view u = (view t)\<lparr>streams := (streams (view t))(thread_stream (m_thread resp) :=
                    streams (view t) (thread_stream (m_thread resp)) @ [PDict (to_dict resp)]),
                  published := published (view t) @ [(ch, PDict (to_dict resp)), (tap_channel, PDict (to_dict resp))]\<rparr>"
        by (rule redis.send_reply_run [OF assms(1,5,6) True])
      with run' kind True show ?thesis by (simp add: Some)
    next
      case False
      with run' kind redis.send_reply_unencodable [OF assms(1,5,6) False, of t] show ?thesis by (simp add: Some)
    qed
  qed
qed

definition sample_minted :: minted where
  "sample_minted = \<lparr>mi_id = ''m9'', mi_time = ''2024-05-01T10:00:01+00:00'', mi_error = (\<lambda>_. ''ValueError: no'')\<rparr>"

definition sample_agent :: "mem AHPAgent" where
  "sample_agent = new_agent (Fin 0) (sample_address ''i2'') (sample_engine None None) None None (Fin 10) None"

lemma sample_agent_ok: "agent_ok sample_agent sample_minted" "redis (en_redis (ag_engine sample_agent)) mem_view"
proof -
  have "valid_address (sample_address ''i2'')" "edges_ok (sample_address ''i2'')" "iso_aware ''2024-05-01T10:00:01+00:00''" by code_simp+
  then show "agent_ok sample_agent sample_minted" by (simp add: agent_ok_def sample_agent_def new_agent_def sample_minted_def)
  show "redis (en_redis (ag_engine sample_agent)) mem_view"
    using mem.redis_axioms by (simp add: sample_agent_def new_agent_def sample_engine_def)
qed

theorem agent_always_answers_witness:
  "\<exists>u err. ag_dispatch sample_agent sample_minted (\<lambda>m s. (Inl ValueError, s)) (with_reply sample_message) empty_mem = (Inr (), u)
     \<and> m_code err = ''error.internal'' \<and> published (mem_view u) =
         [(reply_channel (m_message_id sample_message), PDict (to_dict err)), (tap_channel, PDict (to_dict err))]"
proof -
  have v: "valid_message (with_reply sample_message)" using sample_sendable(1) sendable_with_reply [of sample_message] by (simp add: sendable_def)
  have ch: "m_reply_to (with_reply sample_message) = Some (reply_channel (m_message_id sample_message))" by (simp add: with_reply_def)
  obtain err where e: "error_response sample_agent sample_minted (with_reply sample_message) ValueError = Inr err" "sendable err"
    by (rule error_response_run [OF sample_agent_ok(1) v])
  have "published (mem_view empty_mem) = []" by (simp add: empty_mem_def)
  then show ?thesis
    using agent_always_answers [OF sample_agent_ok(2,1) v _ ch channels_differ(7), where handler = "\<lambda>m s. (Inl ValueError, s)" and s = empty_mem] e
    by (auto simp: answer_def sendable_def simp del: mem_view_sel)
qed

text \<open>An inbox is worked off in order: the consumer task is equivalent to handling, one after another in the order of
  arrival and each exactly once, the messages received before the first payload that does not decode, whether or not
  their handlers raise; such a payload ends the task with its exception, and without one the task ends only when it
  is cancelled.\<close>

lemma consumer_serves_in_order:
  "ag_consume nid a mt handler frames s =
     (case first_unreadable nid (payloads frames) of None \<Rightarrow> Inr () | Some e \<Rightarrow> Inl e,
      fold (\<lambda>m t. snd (ag_dispatch a mt handler m t)) (readable_prefix nid (payloads frames)) s)"
  by (simp add: ag_consume_def consume_loop_spec)

text \<open>C13: Request and response meet: a SEND-GET through the engine to a live, permitted agent on the same store, whose
  consumer serves the request while the caller waits, returns exactly the agent's answer (its handler's response or
  the error reply when the handler raised), addresses in canonical form; request and answer are then in the history
  of their threads, in that order.\<close>

theorem request_meets_response:
  assumes "redis (en_redis E) view" and "en_cache E = en_redis E" and "en_broker E = None"
    and "m_verb m = ''SEND-GET''" and "m_target m = TAddr (ag_address b)" and "check_format m = Inr ()" and "sendable m"
    and "permitted E m (ag_address b)" and "is_alive (en_registry E) (ag_address b) s"
    and "cache_get (os_digest W) (os_bytes_digest W) (os_nid W) (en_cache E) m s = Inr None"
    and "agent_ok b mt" and "en_redis (ag_engine b) = en_redis E"
    and "\<And>t. handler (canonical_msg (with_reply m)) t = (r, t)"
    and "answer b mt (canonical_msg (with_reply m)) r = Some resp" and "sendable resp" and "m_thread resp = m_thread m"
    and "os_peers W = partner view (length (published (view s))) (os_nid W) b mt handler"
    and "\<not> fle (fsub (fadd fzero timeout) fzero) fzero"
  shows "\<exists>u. engine_handle E W m (Some timeout) mr s =
       (Inr (Reply (Some (canonical_msg resp))), emit_message E W m (Some (Reply (Some (canonical_msg resp)))) None u)
     \<and> streams (view u) (thread_stream (m_thread m)) =
         streams (view s) (thread_stream (m_thread m)) @ [PDict (to_dict (with_reply m)), PDict (to_dict resp)]"
proof -
  let ?R = "en_redis E" and ?resp = "canonical_msg resp" and ?th = "thread_stream (m_thread m)"
  obtain t script u where c: "pe_inbox (os_peers W) (reply_channel (m_message_id m)) t = (script, u)"
    "collect_replies (os_nid W) ?R (os_peers W) m [ag_address b] timeout 1 s =
       (mapM (decode_payload (os_nid W)) (take (nat 1) (timely (fadd (pe_clock (os_peers W)) timeout) script)), u)"
    "streams (view t) = (streams (view s))(?th := streams (view s) ?th @ [PDict (to_dict (with_reply m))])"
    "published (view t) = published (view s) @ concat (map (\<lambda>a.
        [(agent_channel (to_str a), PDict (to_dict (with_reply m))), (tap_channel, PDict (to_dict (with_reply m)))]) [ag_address b])"
    by (rule redis.collect_replies_run [OF assms(1) assms(7), of "os_peers W" "os_nid W" "[ag_address b]" timeout 1 s])
  have log: "published (view t) = published (view s) @ [(agent_channel (to_str (ag_address b)), PDict (to_dict (with_reply m))),
      (tap_channel, PDict (to_dict (with_reply m)))]" by (simp add: c(4))
  obtain u' where p: "pe_inbox (partner view (length (published (view s))) (os_nid W) b mt handler) (reply_channel (m_message_id m)) t =
      ([(fzero, Some (Frame ''message'' (PDict (to_dict resp))))], u')"
    "streams (view u') = (streams (view t))(thread_stream (m_thread resp) := streams (view t) (thread_stream (m_thread resp)) @ [PDict (to_dict resp)])"
    by (rule redis.partner_answers [where handler = handler, OF assms(1,7,11,12,13,14,15) log])
  have su: "script = [(fzero, Some (Frame ''message'' (PDict (to_dict resp))))]" "u = u'"
    using c(1) p(1) by (simp_all add: assms(17))
  have clock: "pe_clock (os_peers W) = fzero" by (simp add: assms(17) partner_def)
  have dec: "decode_payload (os_nid W) (PDict (to_dict resp)) = Inr ?resp"
    using assms(15) by (simp add: sendable_def decode_sent)
  have "collect_replies (os_nid W) ?R (os_peers W) m [ag_address b] timeout 1 s = (Inr [?resp], u)"
    using c(2) assms(18) by (simp add: su clock dec)
  then have sg: "bus_send_get (os_nid W) ?R (os_peers W) m timeout s = (Inr (Some ?resp), u)"
    by (simp add: bus_send_get_def assms(5) sbind_run)
  have "sendable ?resp" using assms(15) canonical_valid_message [of resp] by (simp add: sendable_def canonical_msg_def)
  then obtain c' w where put: "cache_put (os_digest W) (os_bytes_digest W) ?R m ?resp u = (Inr c', w)"
    "streams (view w) ?th = streams (view u) ?th"
    by (rule redis.cache_put_run [OF assms(1,5)])
  have "dispatch E W m timeout mr s = (Inr (Reply (Some ?resp)), w)"
    using assms(4,5,8,9,10) put(1)
    by (simp add: dispatch_def sbind_def handle_send_get_def require_address_def check_compatibility_def check_scope_eq
        permitted_def guard_res_def assms(2,3) sg)
  then have "engine_handle E W m (Some timeout) mr s = (Inr (Reply (Some ?resp)), emit_message E W m (Some (Reply (Some ?resp))) None w)"
    using assms(4,6) by (intro handle_ok) (simp_all add: VALID_VERBS_def)
  moreover have "streams (view w) ?th = streams (view s) ?th @ [PDict (to_dict (with_reply m)), PDict (to_dict resp)]"
    by (simp add: put(2) su p(2) c(3) assms(16))
  ultimately show ?thesis by blast
qed

theorem request_meets_response_witness:
  "\<exists>s u W. engine_handle (sample_engine None None) W sample_message (Some (Fin 5)) None s
     = (Inr (Reply (Some (canonical_msg sample_reply))), u)"
proof -
  let ?E = "sample_engine None None" and ?h = "\<lambda>m (s :: mem). (Inr (Some sample_reply), s)"
  define s where "s = mark_alive open_registry (sample_address ''i2'') empty_mem"
  let ?W = "sample_outside (partner mem_view (length (published (mem_view s))) [] sample_agent sample_minted ?h)"
  have view: "strs (mem_view s) = (strs (mem_view empty_mem))(alive_key (to_str (sample_address ''i2'')) \<mapsto> PStr ''1'')"
    by (simp add: s_def mark_alive_def open_registry_def del: mem_view_sel)
  have alive: "is_alive (en_registry ?E) (ag_address sample_agent) s"
    using view by (simp add: is_alive_def sample_engine_def open_registry_def sample_agent_def new_agent_def key_exists_def del: mem_view_sel)
  have miss: "cache_get (os_digest ?W) (os_bytes_digest ?W) (os_nid ?W) (en_cache ?E) sample_message s = Inr None"
    using view by (simp add: cache_get_def request_key_def cache_key_def sample_message_fields sample_engine_def cache_entry_key_def alive_key_def del: mem_view_sel)
      (simp add: empty_mem_def)
  have allowed: "permitted ?E sample_message (ag_address sample_agent)"
    using sample_refused(1) by (simp add: permitted_def scope_admits_def sample_engine_def sample_agent_def new_agent_def)
  have late: "\<not> fle (fsub (fadd fzero (Fin 5)) fzero) fzero" using mk_of_int [of 5] by simp
  have parts: "en_redis ?E = mem_redis" "en_cache ?E = en_redis ?E" "en_broker ?E = None" "en_redis (ag_engine sample_agent) = en_redis ?E"
    "m_target sample_message = TAddr (ag_address sample_agent)" "m_thread sample_reply = m_thread sample_message"
    by (simp_all add: sample_engine_def sample_agent_def new_agent_def sample_message_def sample_reply_def)
  have "os_peers ?W = partner mem_view (length (published (mem_view s))) (os_nid ?W) sample_agent sample_minted ?h"
    by (simp add: sample_outside_def)
  from request_meets_response [of ?E mem_view sample_message sample_agent s ?W sample_minted ?h "Inr (Some sample_reply)" sample_reply "Fin 5" None,
      OF _ parts(2,3) sample_message_fields(1) parts(5) sample_message_fields(3) sample_sendable(1) allowed alive miss sample_agent_ok(1) parts(4) refl _ sample_sendable(2) parts(6) this late]
  show ?thesis using mem.redis_axioms by (auto simp: parts(1) answer_def)
qed

end
