(* ===== verification/FormatAgents.thy ===== *)
theory FormatAgents
  imports Agents
begin

text \<open>
  \<open>ahp/adapters/format_agent.py\<close>: agents that play the turn-sequence formats. A subclass is
  the formats it declares and the methods it defines; the attributes of the base class are
  the placeholder hooks, one for each turn code. The checkpointer is handed to the graph
  library and not modelled.
\<close>

section \<open>Hooks\<close>

definition turn_code_to_method :: "string \<Rightarrow> string res" where
  "turn_code_to_method code =
     (if \<not> startswith code ''turn.'' then Inl ValueError
      else Inr (''on_'' @ replace_all ''-'' ''_'' (drop (length ''turn.'') code)))"

record 's FormatClass =
  fc_supported_formats :: "string list"
  fc_methods :: "(string, 's handler) dict"

text \<open>An attribute: the placeholder of \<open>_make_base_hook\<close>, or what the subclass defines.\<close>

datatype 's hook = Base_Hook | Override "'s handler"

definition install_base_hooks :: "string list \<Rightarrow> string list" where
  "install_base_hooks codes = fold (\<lambda>t names. case turn_code_to_method t of Inr n \<Rightarrow> List.insert n names | Inl _ \<Rightarrow> names) codes []"

definition get_hook :: "'s FormatClass \<Rightarrow> string \<Rightarrow> 's hook option" where
  "get_hook C name =
     (case map_of (fc_methods C) name of
        Some h \<Rightarrow> Some (Override h)
      | None \<Rightarrow> if name \<in> set (install_base_hooks TURN_CODES) then Some Base_Hook else None)"

definition run_hook :: "'s hook \<Rightarrow> 's handler" where
  "run_hook hk m = (case hk of Base_Hook \<Rightarrow> sraise NotImplementedError | Override h \<Rightarrow> h m)"

section \<open>The contract\<close>

text \<open>The turns of a format whose hook is missing or still the placeholder.\<close>

definition missing_turns :: "'s FormatClass \<Rightarrow> Format \<Rightarrow> string list res" where
  "missing_turns C f =
     (if fm_recipe_kind f = Legacy_Session then Inr []
      else rbind (mapM (\<lambda>turn. rbind (turn_code_to_method turn) (\<lambda>n. Inr (turn, n))) (fm_turn_primitives f)) (\<lambda>ps.
           Inr (map fst (filter (\<lambda>(turn, n). case get_hook C n of None \<Rightarrow> True | Some Base_Hook \<Rightarrow> True | Some (Override _) \<Rightarrow> False) ps))))"

definition validate_format_contracts :: "'s FormatClass \<Rightarrow> unit res" where
  "validate_format_contracts C =
     (if fc_supported_formats C = [] then Inr ()
      else rbind (mapM (\<lambda>name. case map_of ALL_FORMATS name of None \<Rightarrow> Inl TypeError | Some f \<Rightarrow> missing_turns C f) (fc_supported_formats C)) (\<lambda>missing.
           if concat missing \<noteq> [] then Inl TypeError else Inr ()))"

section \<open>The agent\<close>

definition stamp_meta :: "AgentMeta \<Rightarrow> string \<Rightarrow> pyval \<Rightarrow> string \<Rightarrow> AgentMeta" where
  "stamp_meta meta key v tag =
     meta\<lparr>am_extra := AList.update key v (am_extra meta),
          am_capabilities := (if tag \<in> set (am_capabilities meta) then am_capabilities meta else am_capabilities meta @ [tag])\<rparr>"

definition new_format_agent :: "pyfloat \<Rightarrow> 's FormatClass \<Rightarrow> AgentAddress \<Rightarrow> 's ProtocolEngine \<Rightarrow> GroupRegistry option \<Rightarrow>
    AgentMeta option \<Rightarrow> pyfloat \<Rightarrow> string option \<Rightarrow> 's AHPAgent res" where
  "new_format_agent now C address engine groups metadata interval default_thread =
     rbind (validate_format_contracts C) (\<lambda>_.
       let meta = (case metadata of None \<Rightarrow> default_meta now | Some m \<Rightarrow> m);
           meta = stamp_meta meta ''formats'' (PDict [(''supported'', PList (map PStr (fc_supported_formats C)))]) ''format-agent''
       in Inr (new_agent now address engine groups (Some meta) interval default_thread))"

definition fa_handle_message :: "'s FormatClass \<Rightarrow> 's handler" where
  "fa_handle_message C m =
     (case m_format m of
        None \<Rightarrow> sret None
      | Some name \<Rightarrow>
          if name \<notin> set (fc_supported_formats C) then sret None
          else if \<not> startswith (m_code m) ''turn.'' then sret None
          else sbind (slift (turn_code_to_method (m_code m))) (\<lambda>meth.
               case get_hook C meth of None \<Rightarrow> sret None | Some hk \<Rightarrow> run_hook hk m))"

section \<open>What the contract buys\<close>

lemma mapM_member:
  assumes "mapM f xs = Inr ys" "x \<in> set xs" obtains y where "f x = Inr y" "y \<in> set ys"
  using assms by (induction xs arbitrary: ys) (auto simp: rbind_eq_Inr)

lemma contract_covers:
  assumes "validate_format_contracts C = Inr ()" "name \<in> set (fc_supported_formats C)"
  obtains f where "map_of ALL_FORMATS name = Some f" "missing_turns C f = Inr []"
proof -
  from assms obtain ms where ms: "mapM (\<lambda>name. case map_of ALL_FORMATS name of None \<Rightarrow> Inl TypeError | Some f \<Rightarrow> missing_turns C f)
      (fc_supported_formats C) = Inr ms" "concat ms = []"
    by (auto simp: validate_format_contracts_def rbind_eq_Inr split: if_splits)
  obtain y where y: "(case map_of ALL_FORMATS name of None \<Rightarrow> Inl TypeError | Some f \<Rightarrow> missing_turns C f) = Inr y" "y \<in> set ms"
    by (rule mapM_member [OF ms(1) assms(2)])
  then show thesis using that ms(2) by (auto split: option.splits)
qed

lemma no_missing_turn:
  assumes "missing_turns C f = Inr []" "fm_recipe_kind f = Turn_Sequence" "turn \<in> set (fm_turn_primitives f)"
  obtains n h where "turn_code_to_method turn = Inr n" "map_of (fc_methods C) n = Some h"
proof -
  from assms(1,2) obtain ps where ps: "mapM (\<lambda>turn. rbind (turn_code_to_method turn) (\<lambda>n. Inr (turn, n))) (fm_turn_primitives f) = Inr ps"
    "\<forall>(turn, n)\<in>set ps. \<not> (case get_hook C n of None \<Rightarrow> True | Some Base_Hook \<Rightarrow> True | Some (Override _) \<Rightarrow> False)"
    by (auto simp: missing_turns_def rbind_eq_Inr filter_empty_conv)
  obtain y where y: "rbind (turn_code_to_method turn) (\<lambda>n. Inr (turn, n)) = Inr y" "y \<in> set ps"
    by (rule mapM_member [OF ps(1) assms(3)])
  then obtain n where n: "turn_code_to_method turn = Inr n" "(turn, n) \<in> set ps" by (auto simp: rbind_eq_Inr)
  with ps(2) have "\<not> (case get_hook C n of None \<Rightarrow> True | Some Base_Hook \<Rightarrow> True | Some (Override _) \<Rightarrow> False)" by auto
  then obtain h where "map_of (fc_methods C) n = Some h"
    by (auto simp: get_hook_def split: option.splits if_splits)
  then show thesis by (rule that [OF n(1)])
qed

lemma turn_method_code: "turn_code_to_method code = Inr n \<Longrightarrow> startswith code ''turn.''"
  by (auto simp: turn_code_to_method_def split: if_splits)

section \<open>Properties\<close>

text \<open>
  The placeholder is reachable: an agent that declares a session template passes the contract with no turn methods, and
  a turn code tagged with that template is not dropped but raises.
\<close>

lemma template_turn_hits_placeholder:
  assumes "name \<in> set (fc_supported_formats C)" "m_format m = Some name" "turn_code_to_method (m_code m) = Inr n"
    "n \<in> set (install_base_hooks TURN_CODES)" "map_of (fc_methods C) n = None"
  shows "fa_handle_message C m s = (Inl NotImplementedError, s)"
  using assms turn_method_code [OF assms(3)] by (simp add: fa_handle_message_def get_hook_def run_hook_def)

text \<open>C15: The contract of a format agent holds at run time: for an agent that could be constructed and a message that
  the engine's format check admits, a message of an undeclared format is dropped, a declared format is in the table,
  and if it is a game the agent runs the method its own class defines for the turn, never a placeholder.\<close>

theorem format_contract_holds:
  assumes "new_format_agent now C address engine groups metadata interval dt = Inr a" and "check_format m = Inr ()"
    and "m_format m = Some name"
  shows "if name \<notin> set (fc_supported_formats C) then fa_handle_message C m = sret None
    else (\<exists>f. map_of ALL_FORMATS name = Some f \<and>
      (fm_recipe_kind f = Turn_Sequence \<longrightarrow>
        (\<exists>n h. turn_code_to_method (m_code m) = Inr n \<and> map_of (fc_methods C) n = Some h \<and> fa_handle_message C m = h m)))"
proof (cases "name \<in> set (fc_supported_formats C)")
  case True
  have "validate_format_contracts C = Inr ()"
    using assms(1) by (auto simp: new_format_agent_def rbind_eq_Inr)
  then obtain f where f: "map_of ALL_FORMATS name = Some f" "missing_turns C f = Inr []"
    using True by (rule contract_covers)
  have "\<exists>n h. turn_code_to_method (m_code m) = Inr n \<and> map_of (fc_methods C) n = Some h \<and> fa_handle_message C m = h m"
    if game: "fm_recipe_kind f = Turn_Sequence"
  proof -
    have "m_code m \<in> set (fm_turn_primitives f)"
      using assms(2,3) game f(1) by (auto simp: check_format_def is_turn_in_format_def split: if_splits)
    with f(2) game obtain n h where h: "turn_code_to_method (m_code m) = Inr n" "map_of (fc_methods C) n = Some h"
      by (rule no_missing_turn)
    then have "fa_handle_message C m = h m"
      using assms(3) True turn_method_code [OF h(1)] by (auto simp: fa_handle_message_def get_hook_def run_hook_def fun_eq_iff)
    with h show ?thesis by blast
  qed
  with f(1) True show ?thesis by auto
qed (use assms(3) in \<open>simp add: fa_handle_message_def\<close>)

definition game_class :: "mem FormatClass" where
  "game_class = \<lparr>fc_supported_formats = [''information-exchange''],
     fc_methods = map (\<lambda>t. (projr (turn_code_to_method t), \<lambda>m. sret (Some sample_reply))) (fm_turn_primitives INFORMATION_EXCHANGE)\<rparr>"

lemma information_exchange: "map_of ALL_FORMATS ''information-exchange'' = Some INFORMATION_EXCHANGE"
  by (simp add: all_formats(2) LEGACY_FORMATS_def GAME_MODE_FORMATS_def default_format_def INFORMATION_EXCHANGE_def
      fmt_debate_def fmt_interview_me_def fmt_interview_yall_def fmt_interview_eachother_def fmt_collaborate_joint_def
      fmt_collaborate_role_def fmt_collaborate_brainstorm_def fmt_converse_free_def fmt_converse_socratic_def
      fmt_converse_devils_def fmt_fiction_theatre_def fmt_fiction_authors_def fmt_deliberate_def fmt_teach_def
      fmt_estimate_def fmt_interrogate_def)

theorem format_contract_holds_witness:
  "fa_handle_message game_class (sample_message\<lparr>m_format := Some ''information-exchange'', m_code := ''turn.ask'',
      m_source := (sample_address ''i1'')\<lparr>a_role := ''questioner''\<rparr>\<rparr>) = sret (Some sample_reply)"
proof -
  let ?m = "sample_message\<lparr>m_format := Some ''information-exchange'', m_code := ''turn.ask'',
      m_source := (sample_address ''i1'')\<lparr>a_role := ''questioner''\<rparr>\<rparr>"
  have games: "fm_recipe_kind INFORMATION_EXCHANGE = Turn_Sequence" "is_turn_in_format INFORMATION_EXCHANGE ''turn.ask''"
    "is_turn_legal INFORMATION_EXCHANGE ''questioner'' ''turn.ask''" by code_simp+
  then have c: "check_format ?m = Inr ()" by (simp add: check_format_def information_exchange)
  have "missing_turns game_class INFORMATION_EXCHANGE = Inr []" by code_simp
  then have "validate_format_contracts game_class = Inr ()"
    by (simp add: validate_format_contracts_def information_exchange game_class_def [THEN arg_cong [of _ _ fc_supported_formats]])
  then obtain a where "new_format_agent (Fin 0) game_class (sample_address ''i2'') (sample_engine None None) None None (Fin 10) None = Inr a"
    by (simp add: new_format_agent_def)
  from format_contract_holds [OF this c, of "''information-exchange''"] games(1)
  obtain n h where "map_of (fc_methods game_class) n = Some h" "fa_handle_message game_class ?m = h ?m"
    by (auto simp: information_exchange game_class_def [THEN arg_cong [of _ _ fc_supported_formats]])
  then show ?thesis by (auto simp: game_class_def dest!: map_of_SomeD)
qed

end
