(* ===== verification/Scaffolders.thy ===== *)
theory Scaffolders
  imports CommandLine FormatAgents
begin

text \<open>
  \<open>ahp/scaffolders.py\<close> and the commands \<open>new\<close>, \<open>template\<close> and \<open>scaffold\<close> of \<open>ahp/cli.py\<close>: starter
  files from templates. A template is the list of its lines in the syntax of \<open>str.format\<close>. The file
  system (current directory, resolution of paths, existence, writing with the parents of the path) is
  an argument.
\<close>

section \<open>Names\<close>

definition upper_char :: "char \<Rightarrow> char" where
  "upper_char c = (if CHR ''a'' \<le> c \<and> c \<le> CHR ''z'' then char_of (of_char c - 32 :: nat) else c)"

definition normalize_name :: "string \<Rightarrow> string" where
  "normalize_name name = map (\<lambda>c. if c = CHR ''-'' \<or> c = CHR '' '' then CHR ''_'' else c) (map lower_char (strip name))"

definition is_lower :: "char \<Rightarrow> bool" where "is_lower c \<longleftrightarrow> CHR ''a'' \<le> c \<and> c \<le> CHR ''z''"

text \<open>\<open>^[a-z][a-z0-9_]{0,63}$\<close>; the \<open>$\<close> also matches before a final line break.\<close>

definition valid_name :: "string \<Rightarrow> bool" where
  "valid_name name \<longleftrightarrow> (case drop_final_newline name of
     [] \<Rightarrow> False
   | c # cs \<Rightarrow> is_lower c \<and> length cs \<le> 63 \<and> list_all (\<lambda>d. is_lower d \<or> is_digit d \<or> d = CHR ''_'') cs)"

definition validate_name :: "string \<Rightarrow> unit res" where
  "validate_name name = guard_res (valid_name name) ValueError"

definition capitalize :: "string \<Rightarrow> string" where
  "capitalize s = (case s of [] \<Rightarrow> [] | c # cs \<Rightarrow> upper_char c # map lower_char cs)"

definition camel :: "string \<Rightarrow> string" where
  "camel name = concat (map (\<lambda>part. or_default (Some (capitalize part)) ''_'') (split_on (CHR ''_'') name)) @ ''Agent''"

section \<open>Templates\<close>

text \<open>
  A line of a template: literal text, \<open>{name}\<close> and \<open>{name!r}\<close>. The literals write a double quote as a
  dollar, an apostrophe as a percent sign and a dash as an ampersand; doubled braces are single here.
\<close>

datatype piece = Lit string | Fld string | Rep string

definition tpl_char :: "char \<Rightarrow> string" where
  "tpl_char c = (if c = CHR ''$'' then [CHR 0x22] else if c = CHR ''%'' then [CHR 0x27]
     else if c = CHR ''&'' then [CHR 0xE2, CHR 0x80, CHR 0x94] else [c])"

text \<open>\<open>repr\<close> of a text: apostrophes around it unless it has some and no double quote.\<close>

definition hex_byte :: "char \<Rightarrow> string" where
  "hex_byte c = (let n = of_char c :: nat; d = (\<lambda>k. ''0123456789abcdef'' ! k) in [CHR 0x5C, CHR ''x'', d (n div 16), d (n mod 16)])"

definition repr_char :: "char \<Rightarrow> char \<Rightarrow> string" where
  "repr_char q c =
     (if c = q \<or> c = CHR 0x5C then [CHR 0x5C, c]
      else if c = CHR 0x0A then [CHR 0x5C, CHR ''n''] else if c = CHR 0x0D then [CHR 0x5C, CHR ''r'']
      else if c = CHR 0x09 then [CHR 0x5C, CHR ''t'']
      else if c < CHR 0x20 \<or> c = CHR 0x7F then hex_byte c else [c])"

definition str_repr :: "string \<Rightarrow> string" where
  "str_repr s = (let q = (if CHR 0x27 \<in> set s \<and> CHR 0x22 \<notin> set s then CHR 0x22 else CHR 0x27)
     in [q] @ concat (map (repr_char q) s) @ [q])"

text \<open>\<open>template.format(**given)\<close>; a missing name raises.\<close>

definition piece_text :: "(string, string) dict \<Rightarrow> piece \<Rightarrow> string res" where
  "piece_text env p =
     (case p of
        Lit t \<Rightarrow> Inr (concat (map tpl_char t))
      | Fld name \<Rightarrow> (case map_of env name of None \<Rightarrow> Inl KeyError | Some v \<Rightarrow> Inr v)
      | Rep name \<Rightarrow> (case map_of env name of None \<Rightarrow> Inl KeyError | Some v \<Rightarrow> Inr (str_repr v)))"

definition fill_in :: "(string, string) dict \<Rightarrow> piece list list \<Rightarrow> string res" where
  "fill_in env ls = rbind (mapM (\<lambda>l. rbind (mapM (piece_text env) l) (\<lambda>ts. Inr (concat ts @ [CHR 0x0A]))) ls) (\<lambda>ts. Inr (concat ts))"

section \<open>The tool templates\<close>

definition tpl_tool_skeleton :: "piece list list" where
  "tpl_tool_skeleton = [
    [Lit ''$$$Tool: '', Fld ''name'', Lit '' (skeleton).''],
    [],
    [Lit ''Registered at ``'', Fld ''scope'', Lit ''.'', Fld ''kind'', Lit ''.'', Fld ''role'', Lit ''.'', Fld ''category'', Lit ''.'', Fld ''name'', Lit ''`` & every agent''],
    [Lit ''whose address matches the convention (``'', Fld ''scope'', Lit ''.'', Fld ''role'', Lit ''.*.*.*.*.*``)''],
    [Lit ''will see this tool when the module is imported.''],
    [],
    [Lit ''Skeleton depth: the function body raises ``NotImplementedError``.''],
    [Lit ''Replace with a real implementation before relying on this tool.''],
    [Lit ''$$$''],
    [],
    [Lit ''from __future__ import annotations''],
    [],
    [Lit ''from typing import Any''],
    [],
    [Lit ''from ahp.adapters import tool''],
    [],
    [],
    [Lit ''@tool('', Rep ''scope'', Lit '', '', Rep ''kind'', Lit '', '', Rep ''role'', Lit '', '', Rep ''category'', Lit '', name='', Rep ''name'', Lit '')''],
    [Lit ''def '', Fld ''name'', Lit ''('', Fld ''signature'', Lit '') -> Any:''],
    [Lit ''    $$$'', Fld ''summary'', Lit ''$$$''],
    [Lit ''    raise NotImplementedError($tool '', Fld ''name'', Lit '' is not implemented yet$)'']]"

definition tpl_tool_starter :: "piece list list" where
  "tpl_tool_starter = [
    [Lit ''$$$Tool: '', Fld ''name'', Lit '' (starter & works out of the box).''],
    [],
    [Lit ''Registered at ``'', Fld ''scope'', Lit ''.'', Fld ''kind'', Lit ''.'', Fld ''role'', Lit ''.'', Fld ''category'', Lit ''.'', Fld ''name'', Lit ''`` & every agent''],
    [Lit ''whose address matches the convention (``'', Fld ''scope'', Lit ''.'', Fld ''role'', Lit ''.*.*.*.*.*``)''],
    [Lit ''will see this tool when the module is imported.''],
    [],
    [Lit ''Starter depth: the function returns a templated response that%s''],
    [Lit ''useful as a sanity check (callable, type-correct, deterministic).''],
    [Lit ''Replace the body when you wire it to your real backend.''],
    [Lit ''$$$''],
    [],
    [Lit ''from __future__ import annotations''],
    [],
    [Lit ''from typing import Any''],
    [],
    [Lit ''from ahp.adapters import tool''],
    [],
    [],
    [Lit ''@tool('', Rep ''scope'', Lit '', '', Rep ''kind'', Lit '', '', Rep ''role'', Lit '', '', Rep ''category'', Lit '', name='', Rep ''name'', Lit '')''],
    [Lit ''def '', Fld ''name'', Lit ''('', Fld ''signature'', Lit '') -> dict[str, Any]:''],
    [Lit ''    $$$'', Fld ''summary'', Lit ''$$$''],
    [Lit ''    # Working stub: echoes the inputs so callers can verify wiring.''],
    [Lit ''    # Replace with a real implementation when you have one.''],
    [Lit ''    return {''],
    [Lit ''        $tool$: '', Rep ''name'', Lit '',''],
    [Lit ''        $scope$: '', Rep ''scope'', Lit '',''],
    [Lit ''        $echo_query$: query,''],
    [Lit ''        $result_count$: 0,''],
    [Lit ''        $results$: [],''],
    [Lit ''        $note$: $starter stub & replace this body with real logic$,''],
    [Lit ''    }'']]"

section \<open>The integration templates\<close>

definition tpl_integration_api_key_skeleton :: "piece list list" where
  "tpl_integration_api_key_skeleton = [
    [Lit ''$$$Integration: '', Fld ''name'', Lit '' (api_key auth, skeleton).''],
    [],
    [Lit ''External service wrapper for '', Fld ''name'', Lit ''. Skeleton depth & every tool''],
    [Lit ''in this file raises NotImplementedError until you wire it.''],
    [Lit ''$$$''],
    [],
    [Lit ''from __future__ import annotations''],
    [],
    [Lit ''import os''],
    [Lit ''from typing import Any''],
    [],
    [Lit ''from ahp.adapters import tool''],
    [],
    [],
    [Lit ''_ENV_KEY = $'', Fld ''env_key'', Lit ''$''],
    [],
    [],
    [Lit ''def _api_key() -> str:''],
    [Lit ''    key = os.environ.get(_ENV_KEY)''],
    [Lit ''    if not key:''],
    [Lit ''        raise RuntimeError(''],
    [Lit ''            f$set {_ENV_KEY!r} to call '', Fld ''name'', Lit ''$''],
    [Lit ''        )''],
    [Lit ''    return key''],
    [],
    [],
    [Lit ''@tool('', Rep ''scope'', Lit '', $api$, $*$, '', Rep ''name'', Lit '', name=$'', Fld ''name'', Lit ''_ping$)''],
    [Lit ''def '', Fld ''name'', Lit ''_ping() -> dict[str, Any]:''],
    [Lit ''    $$$Sanity-check that the API key env var is present.$$$''],
    [Lit ''    raise NotImplementedError($'', Fld ''name'', Lit ''_ping needs implementation$)'']]"

definition tpl_integration_api_key_starter :: "piece list list" where
  "tpl_integration_api_key_starter = [
    [Lit ''$$$Integration: '', Fld ''name'', Lit '' (api_key auth, starter & runnable as-is).''],
    [],
    [Lit ''External service wrapper for '', Fld ''name'', Lit ''. Loads its credential from an''],
    [Lit ''environment variable and exposes ``'', Fld ''name'', Lit ''_ping`` (sanity check) and''],
    [Lit ''``'', Fld ''name'', Lit ''_search`` (templated stub returning empty results so callers''],
    [Lit ''can verify wiring without a real backend).''],
    [],
    [Lit ''When the module is imported, the @tool decorator registers each''],
    [Lit ''operation under the ``'', Fld ''scope'', Lit ''.api.*.'', Fld ''name'', Lit ''.*`` address space.''],
    [Lit ''$$$''],
    [],
    [Lit ''from __future__ import annotations''],
    [],
    [Lit ''import os''],
    [Lit ''from typing import Any''],
    [],
    [Lit ''from ahp.adapters import tool''],
    [],
    [],
    [Lit ''# Where the API key lives in the env. Convention: NAME_API_KEY upper.''],
    [Lit ''_ENV_KEY = $'', Fld ''env_key'', Lit ''$''],
    [],
    [],
    [Lit ''def _api_key() -> str | None:''],
    [Lit ''    $$$Read the API key. Starter returns None when unset so calls''],
    [Lit ''    can degrade to templated responses rather than crash; production''],
    [Lit ''    code typically raises instead.$$$''],
    [Lit ''    return os.environ.get(_ENV_KEY)''],
    [],
    [],
    [Lit ''@tool('', Rep ''scope'', Lit '', $api$, $*$, '', Rep ''name'', Lit '', name=$'', Fld ''name'', Lit ''_ping$)''],
    [Lit ''def '', Fld ''name'', Lit ''_ping() -> dict[str, Any]:''],
    [Lit ''    $$$Sanity-check the integration is wired (no external call).$$$''],
    [Lit ''    return {''],
    [Lit ''        $integration$: '', Rep ''name'', Lit '',''],
    [Lit ''        $env_key$: _ENV_KEY,''],
    [Lit ''        $env_key_present$: bool(_api_key()),''],
    [Lit ''        $status$: $ok$,''],
    [Lit ''    }''],
    [],
    [],
    [Lit ''@tool('', Rep ''scope'', Lit '', $api$, $*$, '', Rep ''name'', Lit '', name=$'', Fld ''name'', Lit ''_search$)''],
    [Lit ''def '', Fld ''name'', Lit ''_search(query: str, top_k: int = 5) -> dict[str, Any]:''],
    [Lit ''    $$$Search '', Fld ''name'', Lit ''. Starter returns an empty result set with the''],
    [Lit ''    inputs echoed so you can verify the call shape without a backend.$$$''],
    [Lit ''    return {''],
    [Lit ''        $integration$: '', Rep ''name'', Lit '',''],
    [Lit ''        $query$: query,''],
    [Lit ''        $top_k$: top_k,''],
    [Lit ''        $results$: [],''],
    [Lit ''        $note$: $starter stub & wire to '', Fld ''name'', Lit ''%s real search endpoint$,''],
    [Lit ''    }'']]"

definition tpl_integration_oauth_skeleton :: "piece list list" where
  "tpl_integration_oauth_skeleton = [
    [Lit ''$$$Integration: '', Fld ''name'', Lit '' (oauth, skeleton & every hook unwired).''],
    [],
    [Lit ''OAuth flow scaffolding is intentionally left as TODOs.''],
    [Lit ''$$$''],
    [],
    [Lit ''from __future__ import annotations''],
    [],
    [Lit ''from typing import Any''],
    [],
    [Lit ''from ahp.adapters import tool''],
    [],
    [],
    [Lit ''def _client() -> Any:''],
    [Lit ''    raise NotImplementedError($OAuth client for '', Fld ''name'', Lit '' is not configured$)''],
    [],
    [],
    [Lit ''@tool('', Rep ''scope'', Lit '', $api$, $*$, '', Rep ''name'', Lit '', name=$'', Fld ''name'', Lit ''_whoami$)''],
    [Lit ''def '', Fld ''name'', Lit ''_whoami() -> dict[str, Any]:''],
    [Lit ''    raise NotImplementedError($hook up to '', Fld ''name'', Lit '' OAuth$)'']]"

definition tpl_integration_oauth_starter :: "piece list list" where
  "tpl_integration_oauth_starter = [
    [Lit ''$$$Integration: '', Fld ''name'', Lit '' (oauth, starter & runnable stubs).''],
    [],
    [Lit ''OAuth flow scaffolding is intentionally left as TODOs (drop in''],
    [Lit ''authlib / oauthlib / your provider%s SDK). The starter depth wires''],
    [Lit ''``'', Fld ''name'', Lit ''_whoami`` to return a clear $not yet authenticated$''],
    [Lit ''response so you can verify the registration without crashing.''],
    [],
    [Lit ''Suggested env-var layout:''],
    [],
    [Lit ''    '', Fld ''ENVUPPER'', Lit ''_CLIENT_ID''],
    [Lit ''    '', Fld ''ENVUPPER'', Lit ''_CLIENT_SECRET''],
    [Lit ''    '', Fld ''ENVUPPER'', Lit ''_REDIRECT_URI''],
    [Lit ''    '', Fld ''ENVUPPER'', Lit ''_REFRESH_TOKEN''],
    [Lit ''$$$''],
    [],
    [Lit ''from __future__ import annotations''],
    [],
    [Lit ''import os''],
    [Lit ''from typing import Any''],
    [],
    [Lit ''from ahp.adapters import tool''],
    [],
    [],
    [Lit ''def _client_configured() -> bool:''],
    [Lit ''    $$$Check whether the OAuth client env vars are all set.$$$''],
    [Lit ''    needed = ($'', Fld ''ENVUPPER'', Lit ''_CLIENT_ID$, $'', Fld ''ENVUPPER'', Lit ''_CLIENT_SECRET$)''],
    [Lit ''    return all(os.environ.get(k) for k in needed)''],
    [],
    [],
    [Lit ''@tool('', Rep ''scope'', Lit '', $api$, $*$, '', Rep ''name'', Lit '', name=$'', Fld ''name'', Lit ''_whoami$)''],
    [Lit ''def '', Fld ''name'', Lit ''_whoami() -> dict[str, Any]:''],
    [Lit ''    $$$Report OAuth wiring status. Starter doesn%t actually hit the''],
    [Lit ''    OAuth provider & replace with a real /me call when you wire it.$$$''],
    [Lit ''    return {''],
    [Lit ''        $integration$: '', Rep ''name'', Lit '',''],
    [Lit ''        $configured$: _client_configured(),''],
    [Lit ''        $identity$: None,''],
    [Lit ''        $note$: $starter stub & wire to '', Fld ''name'', Lit ''%s real OAuth /me endpoint$,''],
    [Lit ''    }'']]"

definition tpl_integration_webhook_skeleton :: "piece list list" where
  "tpl_integration_webhook_skeleton = [
    [Lit ''$$$Integration: '', Fld ''name'', Lit '' (inbound webhook, skeleton).''],
    [],
    [Lit ''Webhooks are inbound: an external service POSTs to a URL you host.''],
    [Lit ''Skeleton & verify_signature and event handler both raise.''],
    [Lit ''$$$''],
    [],
    [Lit ''from __future__ import annotations''],
    [],
    [Lit ''from typing import Any''],
    [],
    [Lit ''from ahp.adapters import tool''],
    [],
    [],
    [Lit ''_SECRET_ENV = $'', Fld ''ENVUPPER'', Lit ''_WEBHOOK_SECRET$''],
    [],
    [],
    [Lit ''def verify_signature(payload: bytes, header_sig: str) -> bool:''],
    [Lit ''    raise NotImplementedError($verify_signature for '', Fld ''name'', Lit '' is not implemented$)''],
    [],
    [],
    [Lit ''@tool('', Rep ''scope'', Lit '', $api$, $*$, '', Rep ''name'', Lit '', name=$'', Fld ''name'', Lit ''_consume_event$)''],
    [Lit ''def '', Fld ''name'', Lit ''_consume_event(payload: dict[str, Any]) -> dict[str, Any]:''],
    [Lit ''    raise NotImplementedError($event handler for '', Fld ''name'', Lit '' is not implemented$)'']]"

definition tpl_integration_webhook_starter :: "piece list list" where
  "tpl_integration_webhook_starter = [
    [Lit ''$$$Integration: '', Fld ''name'', Lit '' (inbound webhook, starter & runnable stubs).''],
    [],
    [Lit ''Webhooks are inbound: an external service POSTs to a URL you host.''],
    [Lit ''This module holds signature verification, parsing, and AHP-side''],
    [Lit ''dispatch logic that turns the webhook payload into a message on the''],
    [Lit ''protocol.''],
    [],
    [Lit ''The starter depth wires ``'', Fld ''name'', Lit ''_consume_event`` to acknowledge any''],
    [Lit ''payload by echoing it; ``verify_signature`` returns False by default''],
    [Lit ''(fail closed) until you implement the real scheme.''],
    [],
    [Lit ''This scaffold doesn%t ship a server & the FastAPI viewer example''],
    [Lit ''(see ``examples/fastapi_serve/``) is the recommended pattern.''],
    [Lit ''$$$''],
    [],
    [Lit ''from __future__ import annotations''],
    [],
    [Lit ''import os''],
    [Lit ''from typing import Any''],
    [],
    [Lit ''from ahp.adapters import tool''],
    [],
    [],
    [Lit ''_SECRET_ENV = $'', Fld ''ENVUPPER'', Lit ''_WEBHOOK_SECRET$''],
    [],
    [],
    [Lit ''def verify_signature(payload: bytes, header_sig: str) -> bool:''],
    [Lit ''    $$$Default: fail closed. Replace with HMAC-SHA256 of the body with''],
    [Lit ''    the shared secret (or whatever scheme '', Fld ''name'', Lit '' uses).$$$''],
    [Lit ''    return False''],
    [],
    [],
    [Lit ''@tool('', Rep ''scope'', Lit '', $api$, $*$, '', Rep ''name'', Lit '', name=$'', Fld ''name'', Lit ''_consume_event$)''],
    [Lit ''def '', Fld ''name'', Lit ''_consume_event(payload: dict[str, Any]) -> dict[str, Any]:''],
    [Lit ''    $$$Acknowledge a verified webhook event. Starter echoes the''],
    [Lit ''    payload back so you can verify wiring. Replace with logic that''],
    [Lit ''    converts the payload into a protocol message.$$$''],
    [Lit ''    return {''],
    [Lit ''        $integration$: '', Rep ''name'', Lit '',''],
    [Lit ''        $ack$: True,''],
    [Lit ''        $secret_env_present$: bool(os.environ.get(_SECRET_ENV)),''],
    [Lit ''        $payload_keys$: sorted(payload.keys()) if isinstance(payload, dict) else [],''],
    [Lit ''        $note$: $starter stub & wire to a real protocol-side dispatch$,''],
    [Lit ''    }'']]"

section \<open>The agent templates\<close>

definition tpl_agent_simple_starter :: "piece list list" where
  "tpl_agent_simple_starter = [
    [Lit ''$$$Agent: '', Fld ''name'', Lit '' ('', Fld ''role'', Lit '' in '', Fld ''scope'', Lit '').''],
    [],
    [Lit ''A minimal :class:`ahp.adapters.base.AHPAgent` subclass that you can''],
    [Lit ''extend in place. Override :meth:`handle_message` to define behavior.''],
    [],
    [Lit ''To run::''],
    [],
    [Lit ''    python -m agents.'', Fld ''name''],
    [],
    [Lit ''Menu visibility (separate, broker-side)::''],
    [],
    [Lit ''    python -m ahp register agent  --name '', Fld ''name'', Lit '' ...   # write the durable record''],
    [Lit ''    python -m ahp start agent     --name '', Fld ''name'', Lit '' ...   # become visible on the menu''],
    [Lit ''    python -m ahp stop agent      --name '', Fld ''name'', Lit '' ...   # hide without stopping the process''],
    [Lit ''    python -m ahp deregister agent --name '', Fld ''name'', Lit '' ...  # remove the record entirely''],
    [Lit ''$$$''],
    [],
    [Lit ''from __future__ import annotations''],
    [],
    [Lit ''import asyncio''],
    [Lit ''import os''],
    [],
    [Lit ''from ahp.adapters.base import AHPAgent''],
    [Lit ''from ahp.core import AgentAddress, Message''],
    [Lit ''from ahp.core.compatibility import CompatibilityMatrix''],
    [Lit ''from ahp.engine.router import ProtocolEngine''],
    [Lit ''from ahp.registry.registry import AgentRegistry''],
    [Lit ''from ahp.transport.cache import ProtocolCache''],
    [Lit ''from ahp.transport.redis_bus import RedisBus''],
    [],
    [],
    [Lit ''SCOPE = '', Rep ''scope''],
    [Lit ''ROLE = '', Rep ''role''],
    [Lit ''INSTANCE = '', Rep ''name''],
    [],
    [],
    [Lit ''class '', Fld ''class_name'', Lit ''(AHPAgent):''],
    [Lit ''    $$$Replace this docstring with what the agent does.$$$''],
    [],
    [Lit ''    async def handle_message(self, message: Message) -> Message | None:''],
    [Lit ''        # TODO: implement''],
    [Lit ''        body = message.body if isinstance(message.body, dict) else {$text$: str(message.body)}''],
    [Lit ''        return Message(''],
    [Lit ''            source=self.address, target=message.source,''],
    [Lit ''            verb=$SEND$, code=message.code,''],
    [Lit ''            body={$text$: f$'', Fld ''name'', Lit '' received: {body!r}$},''],
    [Lit ''            thread=message.thread,''],
    [Lit ''        )''],
    [],
    [],
    [Lit ''async def main() -> None:''],
    [Lit ''    redis_url = os.environ.get($AHP_REDIS_URL$, $redis://localhost:6379/0$)''],
    [Lit ''    import redis.asyncio as aioredis''],
    [Lit ''    redis = aioredis.from_url(redis_url, decode_responses=True)''],
    [],
    [Lit ''    bus = RedisBus(redis)''],
    [Lit ''    registry = AgentRegistry(redis, heartbeat_ttl=60)''],
    [Lit ''    cache = ProtocolCache(redis)''],
    [Lit ''    engine = ProtocolEngine(bus, registry, cache, CompatibilityMatrix())''],
    [],
    [Lit ''    address = AgentAddress.parse(''],
    [Lit ''        f${SCOPE}.{ROLE}.example.example.s.session.{INSTANCE}$''],
    [Lit ''    )''],
    [Lit ''    agent = '', Fld ''class_name'', Lit ''(address=address, engine=engine)''],
    [Lit ''    await agent.register()''],
    [Lit ''    await agent.start()''],
    [Lit ''    print(f${address} alive & Ctrl-C to stop$)''],
    [Lit ''    try:''],
    [Lit ''        await asyncio.Event().wait()''],
    [Lit ''    finally:''],
    [Lit ''        await agent.stop()''],
    [Lit ''        await agent.deregister()''],
    [Lit ''        await bus.close()''],
    [],
    [],
    [Lit ''if __name__ == $__main__$:''],
    [Lit ''    asyncio.run(main())'']]"

definition tpl_agent_react_starter :: "piece list list" where
  "tpl_agent_react_starter = [
    [Lit ''$$$Agent: '', Fld ''name'', Lit '' (ReAct loop, langgraph-backed).''],
    [],
    [Lit ''Builds an :class:`ahp.adapters.react_agent.ReactAgent` from an''],
    [Lit '':class:`ahp.adapters.AgentProfile`. Tools registered to the address''],
    [Lit ''(via ``@tool(...)``) are auto-bound. Persona is read from the''],
    [Lit ''profile or supplied here.''],
    [],
    [Lit ''Requires ``pip install ahp[langgraph]`` (or ``ahp[deepagents]``).''],
    [],
    [Lit ''To run::''],
    [],
    [Lit ''    python -m agents.'', Fld ''name''],
    [Lit ''$$$''],
    [],
    [Lit ''from __future__ import annotations''],
    [],
    [Lit ''import asyncio''],
    [Lit ''import os''],
    [],
    [Lit ''from ahp.adapters import AgentProfile''],
    [Lit ''from ahp.adapters.react_agent import ReactAgent''],
    [Lit ''from ahp.core import AgentAddress''],
    [Lit ''from ahp.core.compatibility import CompatibilityMatrix''],
    [Lit ''from ahp.engine.router import ProtocolEngine''],
    [Lit ''from ahp.registry.registry import AgentRegistry''],
    [Lit ''from ahp.transport.cache import ProtocolCache''],
    [Lit ''from ahp.transport.redis_bus import RedisBus''],
    [],
    [],
    [Lit ''SCOPE = '', Rep ''scope''],
    [Lit ''ROLE = '', Rep ''role''],
    [Lit ''INSTANCE = '', Rep ''name''],
    [],
    [],
    [Lit ''def _model():''],
    [Lit ''    $$$Return a chat model. Defaults to Bedrock; swap freely.''],
    [],
    [Lit ''    See ``ahp.llm.bedrock`` / ``ahp.llm.openrouter`` for helpers.''],
    [Lit ''    $$$''],
    [Lit ''    from ahp.llm.bedrock import bedrock_chat_model''],
    [Lit ''    return bedrock_chat_model(temperature=0.3, max_tokens=512)''],
    [],
    [],
    [Lit ''async def main() -> None:''],
    [Lit ''    redis_url = os.environ.get($AHP_REDIS_URL$, $redis://localhost:6379/0$)''],
    [Lit ''    import redis.asyncio as aioredis''],
    [Lit ''    redis = aioredis.from_url(redis_url, decode_responses=True)''],
    [],
    [Lit ''    bus = RedisBus(redis)''],
    [Lit ''    registry = AgentRegistry(redis, heartbeat_ttl=60)''],
    [Lit ''    cache = ProtocolCache(redis)''],
    [Lit ''    engine = ProtocolEngine(bus, registry, cache, CompatibilityMatrix())''],
    [],
    [Lit ''    address = AgentAddress.parse(''],
    [Lit ''        f${SCOPE}.{ROLE}.example.example.s.session.{INSTANCE}$''],
    [Lit ''    )''],
    [Lit ''    profile = AgentProfile(''],
    [Lit ''        agent_kind=$react$,''],
    [Lit ''        prompt=$You are '', Fld ''name'', Lit ''. TODO: replace with a real persona.$,''],
    [Lit ''    )''],
    [Lit ''    agent = ReactAgent.from_profile(''],
    [Lit ''        address=address, engine=engine, profile=profile, model=_model(),''],
    [Lit ''    )''],
    [Lit ''    await agent.register()''],
    [Lit ''    await agent.start()''],
    [Lit ''    print(f${address} alive & Ctrl-C to stop$)''],
    [Lit ''    try:''],
    [Lit ''        await asyncio.Event().wait()''],
    [Lit ''    finally:''],
    [Lit ''        await agent.stop()''],
    [Lit ''        await agent.deregister()''],
    [Lit ''        await bus.close()''],
    [],
    [],
    [Lit ''if __name__ == $__main__$:''],
    [Lit ''    asyncio.run(main())'']]"

definition tpl_agent_deepagent_starter :: "piece list list" where
  "tpl_agent_deepagent_starter = [
    [Lit ''$$$Agent: '', Fld ''name'', Lit '' (deepagent, with planning + subagents).''],
    [],
    [Lit ''Wraps :class:`ahp.adapters.deep_agent.DeepAgent` & the deepagents''],
    [Lit ''``create_deep_agent`` graph behind an AHP-shaped address. Use this when''],
    [Lit ''you want planning + tool-using subagents rather than a flat ReAct loop.''],
    [],
    [Lit ''Requires ``pip install ahp[deepagents]``.''],
    [],
    [Lit ''To run::''],
    [],
    [Lit ''    python -m agents.'', Fld ''name''],
    [Lit ''$$$''],
    [],
    [Lit ''from __future__ import annotations''],
    [],
    [Lit ''import asyncio''],
    [Lit ''import os''],
    [],
    [Lit ''from ahp.adapters import AgentProfile''],
    [Lit ''from ahp.adapters.deep_agent import DeepAgent''],
    [Lit ''from ahp.core import AgentAddress''],
    [Lit ''from ahp.core.compatibility import CompatibilityMatrix''],
    [Lit ''from ahp.engine.router import ProtocolEngine''],
    [Lit ''from ahp.registry.registry import AgentRegistry''],
    [Lit ''from ahp.transport.cache import ProtocolCache''],
    [Lit ''from ahp.transport.redis_bus import RedisBus''],
    [],
    [],
    [Lit ''SCOPE = '', Rep ''scope''],
    [Lit ''ROLE = '', Rep ''role''],
    [Lit ''INSTANCE = '', Rep ''name''],
    [],
    [],
    [Lit ''def _model():''],
    [Lit ''    from ahp.llm.bedrock import bedrock_chat_model''],
    [Lit ''    return bedrock_chat_model(temperature=0.3, max_tokens=512)''],
    [],
    [],
    [Lit ''async def main() -> None:''],
    [Lit ''    redis_url = os.environ.get($AHP_REDIS_URL$, $redis://localhost:6379/0$)''],
    [Lit ''    import redis.asyncio as aioredis''],
    [Lit ''    redis = aioredis.from_url(redis_url, decode_responses=True)''],
    [],
    [Lit ''    bus = RedisBus(redis)''],
    [Lit ''    registry = AgentRegistry(redis, heartbeat_ttl=60)''],
    [Lit ''    cache = ProtocolCache(redis)''],
    [Lit ''    engine = ProtocolEngine(bus, registry, cache, CompatibilityMatrix())''],
    [],
    [Lit ''    address = AgentAddress.parse(''],
    [Lit ''        f${SCOPE}.{ROLE}.example.example.s.session.{INSTANCE}$''],
    [Lit ''    )''],
    [Lit ''    profile = AgentProfile(''],
    [Lit ''        agent_kind=$deepagent$,''],
    [Lit ''        prompt=$You are '', Fld ''name'', Lit ''. TODO: replace with a real persona.$,''],
    [Lit ''    )''],
    [Lit ''    agent = DeepAgent.from_profile(''],
    [Lit ''        address=address, engine=engine, profile=profile, model=_model(),''],
    [Lit ''    )''],
    [Lit ''    await agent.register()''],
    [Lit ''    await agent.start()''],
    [Lit ''    print(f${address} alive & Ctrl-C to stop$)''],
    [Lit ''    try:''],
    [Lit ''        await asyncio.Event().wait()''],
    [Lit ''    finally:''],
    [Lit ''        await agent.stop()''],
    [Lit ''        await agent.deregister()''],
    [Lit ''        await bus.close()''],
    [],
    [],
    [Lit ''if __name__ == $__main__$:''],
    [Lit ''    asyncio.run(main())'']]"

definition tpl_agent_simple_skeleton :: "piece list list" where
  "tpl_agent_simple_skeleton = [
    [Lit ''$$$Agent: '', Fld ''name'', Lit '' ('', Fld ''role'', Lit '' in '', Fld ''scope'', Lit '') & skeleton.''],
    [],
    [Lit ''A minimal :class:`ahp.adapters.base.AHPAgent` subclass. Override''],
    [Lit '':meth:`handle_message` to define behavior; without it the agent''],
    [Lit ''will raise on every inbound message.''],
    [],
    [Lit ''To run (once you%ve implemented the handler)::''],
    [],
    [Lit ''    python -m agents.'', Fld ''name''],
    [Lit ''$$$''],
    [],
    [Lit ''from __future__ import annotations''],
    [],
    [Lit ''from ahp.adapters.base import AHPAgent''],
    [Lit ''from ahp.core import Message''],
    [],
    [],
    [Lit ''SCOPE = '', Rep ''scope''],
    [Lit ''ROLE = '', Rep ''role''],
    [Lit ''INSTANCE = '', Rep ''name''],
    [],
    [],
    [Lit ''class '', Fld ''class_name'', Lit ''(AHPAgent):''],
    [Lit ''    $$$TODO: replace this docstring with what the agent does.$$$''],
    [],
    [Lit ''    async def handle_message(self, message: Message) -> Message | None:''],
    [Lit ''        raise NotImplementedError(''],
    [Lit ''            f$'', Fld ''class_name'', Lit ''.handle_message must be overridden$''],
    [Lit ''        )'']]"

definition tpl_agent_react_skeleton :: "piece list list" where
  "tpl_agent_react_skeleton = [
    [Lit ''$$$Agent: '', Fld ''name'', Lit '' (ReAct, langgraph-backed) & skeleton.''],
    [],
    [Lit ''Skeleton depth: declares the class + persona stub but does not wire''],
    [Lit ''the chat model or the run loop. Replace the `_model` factory and the''],
    [Lit ''persona before this is usable.''],
    [Lit ''$$$''],
    [],
    [Lit ''from __future__ import annotations''],
    [],
    [Lit ''from typing import Any''],
    [],
    [Lit ''from ahp.adapters import AgentProfile''],
    [Lit ''from ahp.adapters.react_agent import ReactAgent''],
    [Lit ''from ahp.core import AgentAddress''],
    [Lit ''from ahp.engine.router import ProtocolEngine''],
    [],
    [],
    [Lit ''SCOPE = '', Rep ''scope''],
    [Lit ''ROLE = '', Rep ''role''],
    [Lit ''INSTANCE = '', Rep ''name''],
    [],
    [],
    [Lit ''def _model() -> Any:''],
    [Lit ''    $$$Return a LangChain-compatible chat model.$$$''],
    [Lit ''    raise NotImplementedError($supply a chat model for '', Fld ''name'', Lit ''$)''],
    [],
    [],
    [Lit ''def _persona() -> str:''],
    [Lit ''    $$$Return the system prompt that defines this agent%s behavior.$$$''],
    [Lit ''    raise NotImplementedError($write a persona for '', Fld ''name'', Lit ''$)''],
    [],
    [],
    [Lit ''def build(engine: ProtocolEngine) -> ReactAgent:''],
    [Lit ''    address = AgentAddress.parse(''],
    [Lit ''        f${SCOPE}.{ROLE}.example.example.s.session.{INSTANCE}$''],
    [Lit ''    )''],
    [Lit ''    profile = AgentProfile(agent_kind=$react$, prompt=_persona())''],
    [Lit ''    return ReactAgent.from_profile(''],
    [Lit ''        address=address, engine=engine, profile=profile, model=_model(),''],
    [Lit ''    )'']]"

definition tpl_agent_deepagent_skeleton :: "piece list list" where
  "tpl_agent_deepagent_skeleton = [
    [Lit ''$$$Agent: '', Fld ''name'', Lit '' (deepagent) & skeleton.''],
    [],
    [Lit ''Skeleton depth: declares the class + persona stub; does not wire''],
    [Lit ''the chat model or run loop. Replace `_model` and `_persona` before''],
    [Lit ''use.''],
    [Lit ''$$$''],
    [],
    [Lit ''from __future__ import annotations''],
    [],
    [Lit ''from typing import Any''],
    [],
    [Lit ''from ahp.adapters import AgentProfile''],
    [Lit ''from ahp.adapters.deep_agent import DeepAgent''],
    [Lit ''from ahp.core import AgentAddress''],
    [Lit ''from ahp.engine.router import ProtocolEngine''],
    [],
    [],
    [Lit ''SCOPE = '', Rep ''scope''],
    [Lit ''ROLE = '', Rep ''role''],
    [Lit ''INSTANCE = '', Rep ''name''],
    [],
    [],
    [Lit ''def _model() -> Any:''],
    [Lit ''    raise NotImplementedError($supply a chat model for '', Fld ''name'', Lit ''$)''],
    [],
    [],
    [Lit ''def _persona() -> str:''],
    [Lit ''    raise NotImplementedError($write a persona for '', Fld ''name'', Lit ''$)''],
    [],
    [],
    [Lit ''def build(engine: ProtocolEngine) -> DeepAgent:''],
    [Lit ''    address = AgentAddress.parse(''],
    [Lit ''        f${SCOPE}.{ROLE}.example.example.s.session.{INSTANCE}$''],
    [Lit ''    )''],
    [Lit ''    profile = AgentProfile(agent_kind=$deepagent$, prompt=_persona())''],
    [Lit ''    return DeepAgent.from_profile(''],
    [Lit ''        address=address, engine=engine, profile=profile, model=_model(),''],
    [Lit ''    )'']]"

definition tpl_agent_formatagent_skeleton :: "piece list list" where
  "tpl_agent_formatagent_skeleton = [
    [Lit ''$$$Agent: '', Fld ''name'', Lit '' ('', Fld ''role'', Lit '' in '', Fld ''scope'', Lit '') & FormatAgent skeleton.''],
    [],
    [Lit ''A :class:`~ahp.adapters.FormatAgent` subclass declaring participation''],
    [Lit ''in the '', Rep ''format'', Lit '' format. The wrapper%s contract check verifies every''],
    [Lit ''required ``on_<turn>`` hook is overridden at instantiation. Skeleton''],
    [Lit ''depth: every hook raises NotImplementedError. Fill them in before''],
    [Lit ''running.''],
    [Lit ''$$$''],
    [],
    [Lit ''from __future__ import annotations''],
    [],
    [Lit ''from ahp.adapters import FormatAgent, get_format''],
    [Lit ''from ahp.core import Message''],
    [],
    [],
    [Lit ''SCOPE = '', Rep ''scope''],
    [Lit ''ROLE = '', Rep ''role''],
    [Lit ''INSTANCE = '', Rep ''name''],
    [Lit ''FORMAT_NAME = '', Rep ''format''],
    [],
    [],
    [Lit ''class '', Fld ''class_name'', Lit ''(FormatAgent):''],
    [Lit ''    $$$TODO: describe what this agent does in the '', Rep ''format'', Lit '' format.$$$''],
    [],
    [Lit ''    supported_formats = (FORMAT_NAME,)''],
    [],
    [Lit ''    # The required hooks below were generated from''],
    [Lit ''    # get_format('', Rep ''format'', Lit '').turn_primitives. Override each before''],
    [Lit ''    # the contract check passes at construction.''],
    [Fld ''format_hooks_skeleton'']]"

definition tpl_agent_formatagent_starter :: "piece list list" where
  "tpl_agent_formatagent_starter = [
    [Lit ''$$$Agent: '', Fld ''name'', Lit '' ('', Fld ''role'', Lit '' in '', Fld ''scope'', Lit '') & FormatAgent starter.''],
    [],
    [Lit ''A :class:`~ahp.adapters.FormatAgent` subclass that participates in''],
    [Lit ''the '', Rep ''format'', Lit '' format. Each ``on_<turn>`` hook returns a templated''],
    [Lit ''response shaped like the format%s contract so the agent runs''],
    [Lit ''end-to-end without an LLM. Replace each body with real logic when''],
    [Lit ''you wire your model.''],
    [],
    [Lit ''To run::''],
    [],
    [Lit ''    python -m agents.'', Fld ''name''],
    [Lit ''$$$''],
    [],
    [Lit ''from __future__ import annotations''],
    [],
    [Lit ''import asyncio''],
    [Lit ''import os''],
    [],
    [Lit ''from ahp.adapters import FormatAgent''],
    [Lit ''from ahp.core import AgentAddress, Code, Message''],
    [Lit ''from ahp.core.compatibility import CompatibilityMatrix''],
    [Lit ''from ahp.engine.router import ProtocolEngine''],
    [Lit ''from ahp.registry.registry import AgentRegistry''],
    [Lit ''from ahp.transport.cache import ProtocolCache''],
    [Lit ''from ahp.transport.redis_bus import RedisBus''],
    [],
    [],
    [Lit ''SCOPE = '', Rep ''scope''],
    [Lit ''ROLE = '', Rep ''role''],
    [Lit ''INSTANCE = '', Rep ''name''],
    [Lit ''FORMAT_NAME = '', Rep ''format''],
    [],
    [],
    [Lit ''class '', Fld ''class_name'', Lit ''(FormatAgent):''],
    [Lit ''    $$$Starter agent for the '', Rep ''format'', Lit '' format. Each hook returns a''],
    [Lit ''    templated reply so the conversation runs end-to-end without a''],
    [Lit ''    real LLM. Replace each body when you have one.$$$''],
    [],
    [Lit ''    supported_formats = (FORMAT_NAME,)''],
    [],
    [Fld ''format_hooks_starter''],
    [],
    [],
    [Lit ''async def main() -> None:''],
    [Lit ''    redis_url = os.environ.get($AHP_REDIS_URL$, $redis://localhost:6379/0$)''],
    [Lit ''    import redis.asyncio as aioredis''],
    [Lit ''    redis = aioredis.from_url(redis_url, decode_responses=True)''],
    [],
    [Lit ''    bus = RedisBus(redis)''],
    [Lit ''    registry = AgentRegistry(redis, heartbeat_ttl=60)''],
    [Lit ''    cache = ProtocolCache(redis)''],
    [Lit ''    engine = ProtocolEngine(bus, registry, cache, CompatibilityMatrix())''],
    [],
    [Lit ''    address = AgentAddress.parse(''],
    [Lit ''        f${SCOPE}.{ROLE}.example.example.s.session.{INSTANCE}$''],
    [Lit ''    )''],
    [Lit ''    agent = '', Fld ''class_name'', Lit ''(address=address, engine=engine)''],
    [Lit ''    await agent.register()''],
    [Lit ''    await agent.start()''],
    [Lit ''    print(f${address} alive (format={FORMAT_NAME}) & Ctrl-C to stop$)''],
    [Lit ''    try:''],
    [Lit ''        await asyncio.Event().wait()''],
    [Lit ''    finally:''],
    [Lit ''        await agent.stop()''],
    [Lit ''        await agent.deregister()''],
    [Lit ''        await bus.close()''],
    [],
    [],
    [Lit ''if __name__ == $__main__$:''],
    [Lit ''    asyncio.run(main())'']]"

definition TOOL_TEMPLATES :: "(string \<times> piece list list) list" where
  "TOOL_TEMPLATES = [(''skeleton'', tpl_tool_skeleton), (''starter'', tpl_tool_starter)]"

definition INTEGRATION_TEMPLATES :: "((string \<times> string) \<times> piece list list) list" where
  "INTEGRATION_TEMPLATES = [((''api_key'', ''skeleton''), tpl_integration_api_key_skeleton),
     ((''api_key'', ''starter''), tpl_integration_api_key_starter), ((''oauth'', ''skeleton''), tpl_integration_oauth_skeleton),
     ((''oauth'', ''starter''), tpl_integration_oauth_starter), ((''webhook'', ''skeleton''), tpl_integration_webhook_skeleton),
     ((''webhook'', ''starter''), tpl_integration_webhook_starter)]"

definition AGENT_TEMPLATES :: "((string \<times> string) \<times> piece list list) list" where
  "AGENT_TEMPLATES = [((''simple'', ''starter''), tpl_agent_simple_starter), ((''react'', ''starter''), tpl_agent_react_starter),
     ((''deepagent'', ''starter''), tpl_agent_deepagent_starter), ((''simple'', ''skeleton''), tpl_agent_simple_skeleton),
     ((''react'', ''skeleton''), tpl_agent_react_skeleton), ((''deepagent'', ''skeleton''), tpl_agent_deepagent_skeleton),
     ((''formatagent'', ''skeleton''), tpl_agent_formatagent_skeleton), ((''formatagent'', ''starter''), tpl_agent_formatagent_starter)]"

section \<open>Writing\<close>

record 's files =
  fl_cwd :: "'s \<Rightarrow> string"
  fl_resolve :: "string \<Rightarrow> 's \<Rightarrow> string"
  fl_exists :: "string \<Rightarrow> 's \<Rightarrow> bool"
  fl_write :: "string \<Rightarrow> string \<Rightarrow> ('s, unit) op"

definition path_join :: "string \<Rightarrow> string \<Rightarrow> string" where
  "path_join d name = (if endswith d ''/'' then d @ name else d @ ''/'' @ name)"

definition write_file :: "'s files \<Rightarrow> string \<Rightarrow> string \<Rightarrow> bool \<Rightarrow> ('s, string) op" where
  "write_file FS path body force =
     sbind (sread (fl_resolve FS path)) (\<lambda>path.
     sbind (sread (fl_exists FS path)) (\<lambda>there.
     if there \<and> \<not> force then sraise FileExistsError
     else sbind (fl_write FS path body) (\<lambda>_. sret path)))"

text \<open>\<open>(out_dir or Path.cwd()).resolve()\<close> with the file of a section under it.\<close>

definition file_place :: "'s files \<Rightarrow> string option \<Rightarrow> string \<Rightarrow> string \<Rightarrow> 's \<Rightarrow> string" where
  "file_place FS out_dir section_dir name s =
     path_join (path_join (fl_resolve FS (case out_dir of None \<Rightarrow> fl_cwd FS s | Some d \<Rightarrow> d) s) section_dir) (name @ ''.py'')"

section \<open>The scaffolders\<close>

definition tool_fields_of :: "string \<Rightarrow> string \<Rightarrow> string \<Rightarrow> string \<Rightarrow> string \<Rightarrow> string \<Rightarrow> string option \<Rightarrow> (string, string) dict" where
  "tool_fields_of name scope kind role category signature summary =
     [(''name'', name), (''scope'', scope), (''kind'', kind), (''role'', role), (''category'', category), (''signature'', signature),
      (''summary'', or_default summary (name @ '' tool '' @ [CHR 0xE2, CHR 0x80, CHR 0x94] @ '' describe what it does.''))]"

definition scaffold_tool :: "'s files \<Rightarrow> string \<Rightarrow> string \<Rightarrow> string \<Rightarrow> string \<Rightarrow> string \<Rightarrow> string \<Rightarrow> string option \<Rightarrow> string \<Rightarrow>
    string option \<Rightarrow> bool \<Rightarrow> ('s, string) op" where
  "scaffold_tool FS name scope kind role category signature summary depth out_dir force =
     sbind (slift (validate_name name)) (\<lambda>_.
     case map_of TOOL_TEMPLATES depth of
       None \<Rightarrow> sraise ValueError
     | Some tpl \<Rightarrow>
         sbind (sread (file_place FS out_dir ''tools'' name)) (\<lambda>path.
         sbind (slift (fill_in (tool_fields_of name scope kind role category signature summary) tpl)) (\<lambda>body.
         write_file FS path body force)))"

definition integration_fields :: "string \<Rightarrow> string \<Rightarrow> (string, string) dict" where
  "integration_fields name scope =
     [(''name'', name), (''scope'', scope), (''env_key'', map upper_char name @ ''_API_KEY''), (''ENVUPPER'', map upper_char name)]"

definition scaffold_integration :: "'s files \<Rightarrow> string \<Rightarrow> string \<Rightarrow> string \<Rightarrow> string \<Rightarrow> string option \<Rightarrow> bool \<Rightarrow> ('s, string) op" where
  "scaffold_integration FS name kind scope depth out_dir force =
     sbind (slift (validate_name name)) (\<lambda>_.
     case map_of INTEGRATION_TEMPLATES (kind, depth) of
       None \<Rightarrow> sraise ValueError
     | Some tpl \<Rightarrow>
         sbind (sread (file_place FS out_dir ''integrations'' name)) (\<lambda>path.
         sbind (slift (fill_in (integration_fields name scope) tpl)) (\<lambda>body.
         write_file FS path body force)))"

definition turn_to_hook_name :: "string \<Rightarrow> string" where
  "turn_to_hook_name turn_code =
     (let stem = (if startswith turn_code ''turn.'' then drop (length ''turn.'') turn_code else turn_code)
      in ''on_'' @ replace_all ''-'' ''_'' stem)"

definition hook_signature :: "string \<Rightarrow> string" where
  "hook_signature turn = ''    async def '' @ turn_to_hook_name turn @ ''(self, message: Message) -> Message | None:''"

definition hook_body :: "string \<Rightarrow> string \<Rightarrow> string list" where
  "hook_body depth turn =
     (if depth = ''skeleton''
      then [quoted ''        raise NotImplementedError(~'' @ turn_to_hook_name turn @ quoted '' not implemented~)'']
      else [''        # Templated starter reply; replace with real logic.'',
            ''        return Message('', ''            source=self.address,'', ''            target=message.source,'',
            quoted ''            verb=~SEND~,'', ''            code=message.code,'', ''            thread=message.thread,'',
            ''            format=message.format,'',
            quoted ''            body=f~{INSTANCE} handled '' @ str_repr turn @ quoted '': {message.body!r}~,'', ''        )''])"

definition hook_lines :: "string \<Rightarrow> string \<Rightarrow> string list" where
  "hook_lines depth turn =
     hook_signature turn # (quoted ''        ~~~Handle a '' @ str_repr turn @ quoted '' turn.~~~'') # hook_body depth turn @ [[]]"

definition format_hooks :: "string \<Rightarrow> string \<Rightarrow> string res" where
  "format_hooks format_name depth =
     (case map_of ALL_FORMATS format_name of
        None \<Rightarrow> Inl ValueError
      | Some f \<Rightarrow>
          if fm_recipe_kind f \<noteq> Turn_Sequence then Inl ValueError
          else Inr (join [CHR 0x0A] (concat (map (hook_lines depth) (fm_turn_primitives f)))))"

definition agent_fields :: "string \<Rightarrow> string \<Rightarrow> string \<Rightarrow> (string, string) dict" where
  "agent_fields name scope role = [(''name'', name), (''scope'', scope), (''role'', role), (''class_name'', camel name)]"

definition format_fields :: "string \<Rightarrow> string \<Rightarrow> string \<Rightarrow> (string, string) dict res" where
  "format_fields kind fmt depth =
     (if kind = ''formatagent''
      then rbind (format_hooks fmt (if depth = ''skeleton'' then ''skeleton'' else ''starter'')) (\<lambda>hooks.
           Inr [(if depth = ''skeleton'' then ''format_hooks_skeleton'' else ''format_hooks_starter'', hooks), (''format'', fmt)])
      else Inr [])"

definition scaffold_agent :: "'s files \<Rightarrow> string \<Rightarrow> string \<Rightarrow> string \<Rightarrow> string \<Rightarrow> string option \<Rightarrow> string \<Rightarrow> string option \<Rightarrow> bool \<Rightarrow>
    ('s, string) op" where
  "scaffold_agent FS name kind scope role fmt depth out_dir force =
     sbind (slift (validate_name name)) (\<lambda>_.
     case map_of AGENT_TEMPLATES (kind, depth) of
       None \<Rightarrow> sraise ValueError
     | Some tpl \<Rightarrow>
         if kind = ''formatagent'' \<and> or_default fmt [] = [] then sraise ValueError
         else
           sbind (slift (format_fields kind (or_default fmt []) depth)) (\<lambda>extra.
           sbind (sread (file_place FS out_dir ''agents'' name)) (\<lambda>path.
           sbind (slift (fill_in (agent_fields name scope role @ extra) tpl)) (\<lambda>body.
           write_file FS path body force))))"

section \<open>The commands\<close>

definition cli_TOOL_TEMPLATE :: "piece list list" where
  "cli_TOOL_TEMPLATE = [
    [Lit ''$$$Tools registered at scope='', Fld ''scope'', Lit '' kind='', Fld ''kind'', Lit '' role='', Fld ''role'', Lit '' category='', Fld ''category'', Lit ''.$$$''],
    [],
    [Lit ''from ahp.adapters import tool''],
    [],
    [],
    [Lit ''@tool('', Rep ''scope'', Lit '', '', Rep ''kind'', Lit '', '', Rep ''role'', Lit '', '', Rep ''category'', Lit '')''],
    [Lit ''def '', Fld ''operation'', Lit ''('', Fld ''signature'', Lit ''):''],
    [Lit ''    $$$'', Fld ''summary'', Lit ''$$$''],
    [Lit ''    # TODO: implement''],
    [Lit ''    raise NotImplementedError'']]"

definition cli_RESOURCE_TEMPLATE :: "piece list list" where
  "cli_RESOURCE_TEMPLATE = [
    [Lit ''$$$Resource registered at scope='', Fld ''scope'', Lit '' kind='', Fld ''kind'', Lit '' domain='', Fld ''domain'', Lit '' subdomain='', Fld ''subdomain'', Lit ''.$$$''],
    [],
    [Lit ''from ahp.adapters import resource''],
    [],
    [],
    [Lit ''@resource('', Rep ''scope'', Lit '', '', Rep ''kind'', Lit '', '', Rep ''domain'', Lit '', '', Rep ''subdomain'', Lit '', name='', Rep ''name'', Lit '')''],
    [Lit ''def '', Fld ''factory_name'', Lit ''():''],
    [Lit ''    $$$'', Fld ''summary'', Lit ''$$$''],
    [Lit ''    # TODO: construct + return the resource instance''],
    [Lit ''    raise NotImplementedError'']]"

definition tool_template_text :: "namespace \<Rightarrow> string \<Rightarrow> string res" where
  "tool_template_text ns operation =
     fill_in [(''scope'', text_arg ns ''scope''), (''kind'', text_arg ns ''kind''), (''role'', text_arg ns ''role''),
       (''category'', text_arg ns ''category''), (''operation'', operation),
       (''signature'', or_default (Some (strip (or_default (opt_arg ns ''signature'') []))) ''**kwargs''),
       (''summary'', or_default (opt_arg ns ''summary'') ''One-line description.'')] cli_TOOL_TEMPLATE"

definition resource_template_text :: "namespace \<Rightarrow> string res" where
  "resource_template_text ns =
     fill_in [(''scope'', text_arg ns ''scope''), (''kind'', text_arg ns ''kind''), (''domain'', text_arg ns ''domain''),
       (''subdomain'', text_arg ns ''subdomain''), (''name'', text_arg ns ''name''),
       (''factory_name'', or_default (opt_arg ns ''factory_name'') (''make_'' @ replace_all ''-'' ''_'' (text_arg ns ''name''))),
       (''summary'', or_default (opt_arg ns ''summary'') ''One-line description.'')] cli_RESOURCE_TEMPLATE"

text \<open>\<open>main\<close> fills in the operation of a tool that has none.\<close>

definition operation_of :: "namespace \<Rightarrow> string" where
  "operation_of ns = or_default (opt_arg ns ''operation'') ''my_tool''"

definition target_text :: "namespace \<Rightarrow> string res" where
  "target_text ns = (if text_arg ns ''target'' = ''tool'' then tool_template_text ns (operation_of ns) else resource_template_text ns)"

definition cmd_template :: "namespace \<Rightarrow> ('s terminal, int) op" where
  "cmd_template ns =
     (if text_arg ns ''target'' \<in> {''tool'', ''resource''}
      then sbind (slift (target_text ns)) (\<lambda>body. sbind (swrite (\<lambda>T. T\<lparr>tm_out := tm_out T @ body\<rparr>)) (\<lambda>_. sret 0))
      else sret 0)"

definition cmd_scaffold :: "'s files \<Rightarrow> namespace \<Rightarrow> ('s terminal, int) op" where
  "cmd_scaffold FS ns =
     sbind (slift (target_text ns)) (\<lambda>body.
     sbind (on_term (sread (fl_resolve FS (text_arg ns ''output'')))) (\<lambda>path.
     sbind (on_term (sread (fl_exists FS path))) (\<lambda>there.
     if there \<and> \<not> flag_arg ns ''force'' then fail_with (''refusing to overwrite '' @ path @ '' (pass --force to overwrite)'')
     else sbind (on_term (fl_write FS path body)) (\<lambda>_. succeed_with (''wrote '' @ path)))))"

definition scaffold_kind :: "'s files \<Rightarrow> namespace \<Rightarrow> ('s, string) op" where
  "scaffold_kind FS ns =
     (let kind = text_arg ns ''kind''; name = normalize_name (text_arg ns ''name''); scope = text_arg ns ''scope'';
          depth = text_arg ns ''depth''; out_dir = given (opt_arg ns ''path''); force = flag_arg ns ''force'' in
      if kind = ''tool''
      then scaffold_tool FS name scope (text_arg ns ''tool_kind'') (text_arg ns ''role'') (text_arg ns ''category'')
             (or_default (opt_arg ns ''signature'') ''query: str'') (opt_arg ns ''summary'') depth out_dir force
      else if kind = ''integration'' then scaffold_integration FS name (text_arg ns ''type'') scope depth out_dir force
      else scaffold_agent FS name (text_arg ns ''type'') scope (text_arg ns ''role'') (opt_arg ns ''format'') depth out_dir force)"

text \<open>\<open>err_text\<close> is the text of an exception.\<close>

definition cmd_new :: "'s files \<Rightarrow> (pyexc \<Rightarrow> string) \<Rightarrow> namespace \<Rightarrow> ('s terminal, int) op" where
  "cmd_new FS err_text ns =
     (if text_arg ns ''kind'' \<notin> {''tool'', ''integration'', ''agent''}
      then fail_with (''unknown new kind: '' @ str_repr (text_arg ns ''kind''))
      else
        scatch (sbind (on_term (scaffold_kind FS ns)) (\<lambda>path. succeed_with (''wrote '' @ path)))
          (\<lambda>e. if e = ValueError \<or> e = FileExistsError then fail_with (err_text e) else sraise e))"

section \<open>Every template can be filled in\<close>

fun piece_known :: "string list \<Rightarrow> piece \<Rightarrow> bool" where
  "piece_known names (Lit t) \<longleftrightarrow> True"
| "piece_known names (Fld n) \<longleftrightarrow> n \<in> set names"
| "piece_known names (Rep n) \<longleftrightarrow> n \<in> set names"

definition fillable :: "string list \<Rightarrow> piece list list \<Rightarrow> bool" where
  "fillable names tpl \<longleftrightarrow> list_all (list_all (piece_known names)) tpl"

lemma mapM_all: "\<forall>x\<in>set xs. \<exists>y. f x = Inr y \<Longrightarrow> \<exists>ys. mapM f xs = Inr ys"
  by (induction xs) auto

lemma fillable_fills:
  assumes "fillable names tpl" "set names \<subseteq> fst ` set env"
  shows "\<exists>t. fill_in env tpl = Inr t"
proof -
  have known: "\<exists>v. map_of env n = Some v" if "n \<in> set names" for n
    using that assms(2) by (metis map_of_eq_None_iff not_None_eq subsetD)
  have piece: "\<exists>y. piece_text env p = Inr y" if "piece_known names p" for p
    using that known by (cases p) (force simp: piece_text_def)+
  have "\<exists>y. rbind (mapM (piece_text env) l) (\<lambda>ts. Inr (concat ts @ [CHR 0x0A])) = Inr y" if "l \<in> set tpl" for l
  proof -
    have "\<forall>p\<in>set l. \<exists>y. piece_text env p = Inr y" using that assms(1) piece by (auto simp: fillable_def list_all_iff)
    from mapM_all [OF this] show ?thesis by auto
  qed
  then have "\<forall>l\<in>set tpl. \<exists>y. rbind (mapM (piece_text env) l) (\<lambda>ts. Inr (concat ts @ [CHR 0x0A])) = Inr y" by blast
  from mapM_all [OF this] show ?thesis by (auto simp: fill_in_def)
qed

definition tool_names :: "string list" where
  "tool_names = [''name'', ''scope'', ''kind'', ''role'', ''category'', ''signature'', ''summary'']"

definition integration_names :: "string list" where "integration_names = [''name'', ''scope'', ''env_key'', ''ENVUPPER'']"

definition agent_names :: "string \<Rightarrow> string \<Rightarrow> string list" where
  "agent_names kind depth = [''name'', ''scope'', ''role'', ''class_name''] @
     (if kind = ''formatagent'' then [''format'', if depth = ''skeleton'' then ''format_hooks_skeleton'' else ''format_hooks_starter''] else [])"

lemma templates_fillable:
  "list_all (\<lambda>(depth, tpl). fillable tool_names tpl) TOOL_TEMPLATES"
  "list_all (\<lambda>(key, tpl). fillable integration_names tpl) INTEGRATION_TEMPLATES"
  "list_all (\<lambda>((kind, depth), tpl). fillable (agent_names kind depth) tpl) AGENT_TEMPLATES"
  by code_simp+

section \<open>A new file is written whole, or nothing is\<close>

text \<open>What a scaffolder may do: write one text at a resolved path that was free or forced, or refuse and write nothing.\<close>

definition writes_or_refuses :: "'s files \<Rightarrow> bool \<Rightarrow> ('s, string) op \<Rightarrow> bool" where
  "writes_or_refuses FS force f \<longleftrightarrow> (\<forall>s. case f s of
     (Inl e, t) \<Rightarrow> (e = ValueError \<or> e = FileExistsError) \<and> t = s
   | (Inr path, t) \<Rightarrow> (force \<or> \<not> fl_exists FS path s) \<and> (\<exists>body. fl_write FS path body s = (Inr (), t)))"

definition disk_works :: "'s files \<Rightarrow> bool" where
  "disk_works FS \<longleftrightarrow> (\<forall>path body s. \<exists>t. fl_write FS path body s = (Inr (), t))"

lemma refuses: "e = ValueError \<or> e = FileExistsError \<Longrightarrow> writes_or_refuses FS force (sraise e)"
  by (simp add: writes_or_refuses_def)

lemma refuses_bind: "(\<And>a. r = Inr a \<Longrightarrow> writes_or_refuses FS force (g a)) \<Longrightarrow> (\<And>e. r = Inl e \<Longrightarrow> e = ValueError) \<Longrightarrow>
    writes_or_refuses FS force (sbind (slift r) g)"
  by (cases r) (auto simp: writes_or_refuses_def)

lemma reads_then: "(\<And>a. writes_or_refuses FS force (g a)) \<Longrightarrow> writes_or_refuses FS force (sbind (sread h) g)"
  by (simp add: writes_or_refuses_def)

lemma write_file_ok: "disk_works FS \<Longrightarrow> writes_or_refuses FS force (write_file FS path body force)"
  unfolding writes_or_refuses_def disk_works_def
proof
  fix s
  assume "\<forall>path body s. \<exists>t. fl_write FS path body s = (Inr (), t)"
  then obtain t where t: "fl_write FS (fl_resolve FS path s) body s = (Inr (), t)" by blast
  then have "sbind (fl_write FS (fl_resolve FS path s) body) (\<lambda>_. sret (fl_resolve FS path s)) s = (Inr (fl_resolve FS path s), t)"
    by (simp add: sbind_def)
  with t show "case write_file FS path body force s of
      (Inl e, t) \<Rightarrow> (e = ValueError \<or> e = FileExistsError) \<and> t = s
    | (Inr path, t) \<Rightarrow> (force \<or> \<not> fl_exists FS path s) \<and> (\<exists>body. fl_write FS path body s = (Inr (), t))"
    by (auto simp: write_file_def)
qed

lemma validate_refuses: "validate_name n = Inl e \<Longrightarrow> e = ValueError"
  by (auto simp: validate_name_def guard_res_def split: if_splits)

lemma template_at: "map_of tbl k = Some tpl \<Longrightarrow> list_all P tbl \<Longrightarrow> P (k, tpl)"
  by (metis list_all_iff map_of_SomeD)

lemma filled: "fillable names tpl \<Longrightarrow> set names \<subseteq> fst ` set env \<Longrightarrow> fill_in env tpl \<noteq> Inl e"
  using fillable_fills [of names tpl env] by auto

lemma tool_filled:
  assumes "map_of TOOL_TEMPLATES depth = Some tpl"
  shows "fill_in (tool_fields_of name scope kind role category signature summary) tpl \<noteq> Inl e"
  using template_at [OF assms templates_fillable(1)]
  by (intro filled [of tool_names]) (simp_all add: tool_names_def tool_fields_of_def)

lemma integration_filled:
  assumes "map_of INTEGRATION_TEMPLATES key = Some tpl"
  shows "fill_in (integration_fields name scope) tpl \<noteq> Inl e"
  using template_at [OF assms templates_fillable(2)]
  by (intro filled [of integration_names]) (auto simp: integration_names_def integration_fields_def)

lemma agent_filled:
  assumes "map_of AGENT_TEMPLATES (kind, depth) = Some tpl" "format_fields kind fmt depth = Inr extra"
  shows "fill_in (agent_fields name scope role @ extra) tpl \<noteq> Inl e"
proof (rule filled [of "agent_names kind depth"])
  show "fillable (agent_names kind depth) tpl" using template_at [OF assms(1) templates_fillable(3)] by simp
  have extra: "kind = ''formatagent'' \<Longrightarrow>
      fst ` set extra = {if depth = ''skeleton'' then ''format_hooks_skeleton'' else ''format_hooks_starter'', ''format''}"
    using assms(2) by (auto simp: format_fields_def rbind_eq_Inr)
  show "set (agent_names kind depth) \<subseteq> fst ` set (agent_fields name scope role @ extra)"
    unfolding set_append image_Un by (cases "kind = ''formatagent''") (simp_all add: extra agent_names_def agent_fields_def)
qed

lemma format_fields_refuses: "format_fields kind fmt depth = Inl e \<Longrightarrow> e = ValueError"
  by (auto simp: format_fields_def format_hooks_def rbind_def split: if_splits option.splits sum.splits)

lemmas scaffold_steps = refuses_bind reads_then refuses write_file_ok

lemma scaffold_tool_ok:
  assumes "disk_works FS"
  shows "writes_or_refuses FS force (scaffold_tool FS name scope kind role category signature summary depth out_dir force)"
  using assms unfolding scaffold_tool_def
  by (auto split: option.splits intro!: scaffold_steps dest: validate_refuses simp: tool_filled)

lemma scaffold_integration_ok:
  assumes "disk_works FS"
  shows "writes_or_refuses FS force (scaffold_integration FS name kind scope depth out_dir force)"
  using assms unfolding scaffold_integration_def
  by (auto split: option.splits intro!: scaffold_steps dest: validate_refuses simp: integration_filled)

lemma scaffold_agent_ok:
  assumes "disk_works FS"
  shows "writes_or_refuses FS force (scaffold_agent FS name kind scope role fmt depth out_dir force)"
  using assms unfolding scaffold_agent_def
  by (auto split: option.splits intro!: scaffold_steps dest: validate_refuses format_fields_refuses simp: agent_filled)

text \<open>C31: The command new either ends with code 0, having written one text at a path that was free or was to be overwritten, or with code 2, having written nothing.\<close>

theorem new_writes_or_refuses:
  assumes "disk_works FS"
  shows "case cmd_new FS err_text ns T of
      (Inr n, T') \<Rightarrow> n = 0 \<and> (\<exists>path body. (flag_arg ns ''force'' \<or> \<not> fl_exists FS path (tm_store T))
            \<and> fl_write FS path body (tm_store T) = (Inr (), tm_store T') \<and> tm_out T' = tm_out T @ ''wrote '' @ path @ [CHR 0x0A])
        \<or> n = 2 \<and> tm_store T' = tm_store T \<and> tm_out T' = tm_out T
    | (Inl e, T') \<Rightarrow> False"
proof -
  have ok: "writes_or_refuses FS (flag_arg ns ''force'') (scaffold_kind FS ns)"
    using assms by (simp add: scaffold_kind_def Let_def scaffold_tool_ok scaffold_integration_ok scaffold_agent_ok)
  then have "case scaffold_kind FS ns (tm_store T) of
      (Inl e, t) \<Rightarrow> (e = ValueError \<or> e = FileExistsError) \<and> t = tm_store T
    | (Inr path, t) \<Rightarrow> (flag_arg ns ''force'' \<or> \<not> fl_exists FS path (tm_store T))
        \<and> (\<exists>body. fl_write FS path body (tm_store T) = (Inr (), t))"
    by (simp add: writes_or_refuses_def)
  then show ?thesis
    by (cases "scaffold_kind FS ns (tm_store T)" rule: prod.exhaust; cases "fst (scaffold_kind FS ns (tm_store T))")
      (auto simp: cmd_new_def scatch_def sbind_def on_term_def succeed_with_def fail_with_def print_line_def warn_line_def
        split: prod.splits sum.splits)
qed

definition sample_files :: "(string, string) dict files" where
  "sample_files = \<lparr>fl_cwd = (\<lambda>_. ''/w''), fl_resolve = (\<lambda>p _. p), fl_exists = (\<lambda>p s. map_of s p \<noteq> None),
     fl_write = (\<lambda>p b s. (Inr (), AList.update p b s))\<rparr>"

definition sample_new :: namespace where
  "sample_new = [(''kind'', PStr ''tool''), (''name'', PStr ''My-Tool''), (''scope'', PStr ''o''), (''tool_kind'', PStr ''api''), (''role'', PStr ''*''),
     (''category'', PStr ''c''), (''signature'', PNone), (''summary'', PNone), (''depth'', PStr ''skeleton''), (''path'', PNone), (''force'', PBool False)]"

theorem new_writes_or_refuses_witness:
  "disk_works sample_files \<and> (case cmd_new sample_files (\<lambda>_. []) sample_new \<lparr>tm_out = [], tm_err = [], tm_store = []\<rparr> of
      (Inr n, T') \<Rightarrow> n = 0 \<or> n = 2 | (Inl e, T') \<Rightarrow> False)"
proof -
  have d: "disk_works sample_files" by (simp add: disk_works_def sample_files_def)
  with new_writes_or_refuses [OF d, where err_text = "\<lambda>_. []" and ns = sample_new and T = "\<lparr>tm_out = [], tm_err = [], tm_store = []\<rparr>"]
  show ?thesis by (auto split: prod.splits sum.splits)
qed

section \<open>What is generated\<close>

text \<open>The keyword arguments of the decorator \<open>tool\<close> (\<open>adapters/tool_registry.py\<close>), and the lines that pass one.\<close>

definition TOOL_KEYWORDS :: "string list" where
  "TOOL_KEYWORDS = [''operation'', ''description'', ''allowed_for'', ''tags'', ''schema'']"

definition passes_keyword :: "string \<Rightarrow> piece list \<Rightarrow> bool" where
  "passes_keyword k l \<longleftrightarrow> (case l of
     Lit t # rest \<Rightarrow> startswith t ''@tool('' \<and> list_ex (\<lambda>p. case p of Lit u \<Rightarrow> startswith u ('', '' @ k @ ''='') | _ \<Rightarrow> False) rest
   | _ \<Rightarrow> False)"

text \<open>Every generated tool passes the decorator a keyword that it does not take.\<close>

lemma generated_tools_pass_name:
  "''name'' \<notin> set TOOL_KEYWORDS"
  "list_all (\<lambda>(key, tpl). list_ex (passes_keyword ''name'') tpl) TOOL_TEMPLATES"
  "list_all (\<lambda>(key, tpl). list_ex (passes_keyword ''name'') tpl) INTEGRATION_TEMPLATES"
  by code_simp+

text \<open>The methods that the text of the hooks defines.\<close>

definition method_of_line :: "string \<Rightarrow> string option" where
  "method_of_line l = (if startswith l ''    async def '' then Some (takeWhile (\<lambda>c. c \<noteq> CHR ''('') (drop 14 l)) else None)"

definition defined_methods :: "string \<Rightarrow> string list" where
  "defined_methods hooks = List.map_filter method_of_line (split_on (CHR 0x0A) hooks)"

text \<open>A turn code whose hook has a name of its own on one line.\<close>

definition turn_clean :: "string \<Rightarrow> bool" where
  "turn_clean t \<longleftrightarrow> turn_code_to_method t = Inr (turn_to_hook_name t) \<and> CHR ''('' \<notin> set (turn_to_hook_name t)
     \<and> CHR 0x0A \<notin> set (turn_to_hook_name t) \<and> CHR 0x0A \<notin> set (str_repr t)"

lemma turns_clean: "list_all turn_clean TURN_CODES"
  by code_simp

lemma format_turn_clean:
  assumes "map_of ALL_FORMATS fmt = Some f" "fm_recipe_kind f = Turn_Sequence" "t \<in> set (fm_turn_primitives f)"
  shows "turn_clean t"
proof -
  have "playable f" using get_all_formats [of fmt f] assms(1,2) by (simp add: get_format_def)
  then show ?thesis using assms(3) turns_clean by (auto simp: playable_def list_all_iff)
qed

lemma hook_lines_one_line: "turn_clean t \<Longrightarrow> l \<in> set (hook_lines depth t) \<Longrightarrow> CHR 0x0A \<notin> set l"
  by (auto simp: hook_lines_def hook_signature_def hook_body_def quoted_def turn_clean_def split: if_splits)

lemma signature_defines: "turn_clean t \<Longrightarrow> method_of_line (hook_signature t) = Some (turn_to_hook_name t)"
  by (auto simp: method_of_line_def hook_signature_def startswith_def turn_clean_def takeWhile_append)

lemma hooks_define:
  assumes "map_of ALL_FORMATS fmt = Some f" "format_hooks fmt depth = Inr hooks" "t \<in> set (fm_turn_primitives f)"
  shows "fm_recipe_kind f = Turn_Sequence \<and> turn_to_hook_name t \<in> set (defined_methods hooks)"
proof -
  let ?ls = "concat (map (hook_lines depth) (fm_turn_primitives f))"
  have k: "fm_recipe_kind f = Turn_Sequence" and h: "hooks = join [CHR 0x0A] ?ls"
    using assms(1,2) by (auto simp: format_hooks_def split: if_splits)
  note clean = format_turn_clean [OF assms(1) k]
  have sig: "hook_signature t \<in> set ?ls" using assms(3) by (auto simp: hook_lines_def)
  have "\<forall>l\<in>set ?ls. CHR 0x0A \<notin> set l" using clean hook_lines_one_line by fastforce
  moreover have "?ls \<noteq> []" using sig by (metis empty_iff empty_set)
  ultimately have "split_on (CHR 0x0A) hooks = ?ls" unfolding h by (intro split_on_join)
  then show ?thesis using sig k signature_defines [OF clean [OF assms(3)]] by (auto simp: defined_methods_def map_filter_mem)
qed

text \<open>C32: A generated FormatAgent keeps the contract of its format: when a class supports that format and has the methods the generated text defines, the check at construction finds no turn without a hook.\<close>

theorem generated_agent_meets_contract:
  assumes "format_hooks fmt depth = Inr hooks" "fc_supported_formats C = [fmt]"
    "\<forall>m\<in>set (defined_methods hooks). map_of (fc_methods C) m \<noteq> None"
  shows "validate_format_contracts C = Inr ()"
proof -
  obtain f where f: "map_of ALL_FORMATS fmt = Some f" using assms(1) by (auto simp: format_hooks_def split: option.splits)
  have k: "fm_recipe_kind f = Turn_Sequence" using f assms(1) by (auto simp: format_hooks_def split: if_splits)
  have hook: "\<exists>h. get_hook C (turn_to_hook_name t) = Some (Override h)" if "t \<in> set (fm_turn_primitives f)" for t
    using hooks_define [OF f assms(1) that] assms(3) by (auto simp: get_hook_def)
  have names: "mapM (\<lambda>turn. rbind (turn_code_to_method turn) (\<lambda>n. Inr (turn, n))) ts = Inr (map (\<lambda>t. (t, turn_to_hook_name t)) ts)"
    if "set ts \<subseteq> set (fm_turn_primitives f)" for ts
    using that by (induction ts) (use format_turn_clean [OF f k] in \<open>auto simp: turn_clean_def\<close>)
  have "missing_turns C f = Inr []"
    using k hook names [of "fm_turn_primitives f"] by (fastforce simp: missing_turns_def filter_empty_conv)
  then show ?thesis using f assms(2) by (simp add: validate_format_contracts_def)
qed

theorem generated_agent_meets_contract_witness:
  "\<exists>hooks C. format_hooks ''information-exchange'' ''starter'' = Inr hooks
     \<and> validate_format_contracts (C :: unit FormatClass) = Inr () \<and> fc_supported_formats C = [''information-exchange'']"
proof -
  have "fm_recipe_kind INFORMATION_EXCHANGE = Turn_Sequence" by code_simp
  then obtain hooks where h: "format_hooks ''information-exchange'' ''starter'' = Inr hooks"
    by (simp add: format_hooks_def information_exchange)
  let ?C = "\<lparr>fc_supported_formats = [''information-exchange''], fc_methods = map (\<lambda>m. (m, \<lambda>_. sret None)) (defined_methods hooks)\<rparr> :: unit FormatClass"
  have "\<forall>m\<in>set (defined_methods hooks). map_of (fc_methods ?C) m \<noteq> None" by (auto simp: map_of_eq_None_iff image_iff)
  with generated_agent_meets_contract [OF h, of ?C] h show ?thesis by auto
qed

end
