(* ===== verification/Catalog.thy ===== *)
theory Catalog
  imports Scope
begin

text \<open>
  \<open>ahp/adapters/tool_address.py\<close>, \<open>tool_registry.py\<close> and \<open>skill_registry.py\<close>: the catalogs of
  callables that agents find by address. A Python callable is its name, its docstring and
  an opaque body; an argument \<open>address\<close> of a lookup is its text. What both registries promise
  is the locale \<open>catalog\<close>.
\<close>

section \<open>Addresses of tools and resources\<close>

definition field_clean :: "string \<Rightarrow> bool" where
  "field_clean v \<longleftrightarrow> v \<noteq> [] \<and> list_all (\<lambda>c. c \<notin> set v) [CHR ''.'', CHR ''?'', CHR '' '', CHR 0x09, CHR 0x0A]"

record ToolAddress =
  ta_scope :: string
  ta_kind :: string
  ta_role :: string
  ta_category :: string
  ta_operation :: string

definition tool_fields :: "ToolAddress \<Rightarrow> string list" where
  "tool_fields t = [ta_scope t, ta_kind t, ta_role t, ta_category t, ta_operation t]"

definition tool_post_init :: "ToolAddress \<Rightarrow> ToolAddress res" where
  "tool_post_init t = (if list_all field_clean (tool_fields t) then Inr t else Inl ValueError)"

definition tool_parse :: "string \<Rightarrow> ToolAddress res" where
  "tool_parse uri =
     (case split_on (CHR ''.'') (strip uri) of
        [s, k, r, c, op] \<Rightarrow> tool_post_init \<lparr>ta_scope = s, ta_kind = k, ta_role = r, ta_category = c, ta_operation = op\<rparr>
      | _ \<Rightarrow> Inl ValueError)"

definition tool_str :: "ToolAddress \<Rightarrow> string" where "tool_str t = join ''.'' (tool_fields t)"

definition tool_allowed_for :: "ToolAddress \<Rightarrow> AddressPattern res" where
  "tool_allowed_for t = pattern_post_init \<lparr>p_org = ta_scope t, p_role = ta_role t, p_domain = WILDCARD, p_subdomain = WILDCARD,
     p_accept = WILDCARD, p_lifecycle = WILDCARD, p_instance = WILDCARD\<rparr>"

record ResourceAddress =
  ra_scope :: string
  ra_kind :: string
  ra_domain :: string
  ra_subdomain :: string
  ra_name :: string

definition res_fields :: "ResourceAddress \<Rightarrow> string list" where
  "res_fields r = [ra_scope r, ra_kind r, ra_domain r, ra_subdomain r, ra_name r]"

definition res_post_init :: "ResourceAddress \<Rightarrow> ResourceAddress res" where
  "res_post_init r = (if list_all field_clean (res_fields r) then Inr r else Inl ValueError)"

definition res_parse :: "string \<Rightarrow> ResourceAddress res" where
  "res_parse uri =
     (case split_on (CHR ''.'') (strip uri) of
        [s, k, d, sd, n] \<Rightarrow> res_post_init \<lparr>ra_scope = s, ra_kind = k, ra_domain = d, ra_subdomain = sd, ra_name = n\<rparr>
      | _ \<Rightarrow> Inl ValueError)"

definition res_str :: "ResourceAddress \<Rightarrow> string" where "res_str r = join ''.'' (res_fields r)"

definition res_allowed_for :: "ResourceAddress \<Rightarrow> AddressPattern res" where
  "res_allowed_for r = pattern_post_init \<lparr>p_org = ra_scope r, p_role = WILDCARD, p_domain = ra_domain r, p_subdomain = ra_subdomain r,
     p_accept = WILDCARD, p_lifecycle = WILDCARD, p_instance = WILDCARD\<rparr>"

section \<open>The tool registry\<close>

record 'f callable =
  fn_name :: string
  fn_doc :: "string option"
  fn_body :: 'f

record 'f Tool =
  tl_name :: string
  tl_description :: string
  tl_handler :: "'f callable"
  tl_schema :: "pyval option"

record 'f ToolBinding =
  tb_address :: ToolAddress
  tb_tool :: "'f Tool"
  tb_allowed_for :: AddressPattern
  tb_tags :: "string list"

type_synonym 'f ToolRegistry = "(string, 'f ToolBinding) dict"

text \<open>\<open>s.splitlines()[0]\<close> on the ASCII range.\<close>

definition line_break :: "char \<Rightarrow> bool" where
  "line_break c \<longleftrightarrow> c \<in> {CHR 0x0A, CHR 0x0B, CHR 0x0C, CHR 0x0D, CHR 0x1C, CHR 0x1D, CHR 0x1E}"

definition first_line :: "string \<Rightarrow> string res" where
  "first_line s = (if s = [] then Inl IndexError else Inr (takeWhile (\<lambda>c. \<not> line_break c) s))"

text \<open>
  \<open>description or X if (description or doc) else op\<close>: the conditional binds weaker than \<open>or\<close>.
\<close>

definition tool_description :: "string option \<Rightarrow> string option \<Rightarrow> string \<Rightarrow> string res" where
  "tool_description description doc op =
     (if or_default description (or_default doc []) = [] then Inr op
      else if or_default description [] \<noteq> [] then Inr (or_default description [])
      else first_line (strip (or_default doc [])))"

text \<open>The access pattern of a registration: given, given as text, or the convention of its address.\<close>

definition access_pattern :: "AddressPattern res \<Rightarrow> pattern_arg option \<Rightarrow> AddressPattern res" where
  "access_pattern convention allowed_for =
     (case allowed_for of None \<Rightarrow> convention | Some p \<Rightarrow> coerce_pattern p)"

definition tool_register :: "'f ToolRegistry \<Rightarrow> 'f callable \<Rightarrow> string \<Rightarrow> string \<Rightarrow> string \<Rightarrow> string \<Rightarrow> string option \<Rightarrow>
    string option \<Rightarrow> pattern_arg option \<Rightarrow> string list \<Rightarrow> pyval option \<Rightarrow> ('f ToolBinding \<times> 'f ToolRegistry) res" where
  "tool_register d func scope kind role category operation description allowed_for tags schema =
     (let op = or_default operation (fn_name func) in
      rbind (tool_post_init \<lparr>ta_scope = scope, ta_kind = kind, ta_role = role, ta_category = category, ta_operation = op\<rparr>) (\<lambda>address.
      if map_of d (tool_str address) \<noteq> None then Inl ValueError
      else rbind (access_pattern (tool_allowed_for address) allowed_for) (\<lambda>pattern.
      rbind (tool_description description (fn_doc func) op) (\<lambda>desc.
      let b = \<lparr>tb_address = address, tb_tool = \<lparr>tl_name = op, tl_description = desc, tl_handler = func, tl_schema = schema\<rparr>,
            tb_allowed_for = pattern, tb_tags = tags\<rparr>
      in Inr (b, AList.update (tool_str address) b d)))))"

definition tool_unregister :: "'f ToolRegistry \<Rightarrow> string \<Rightarrow> bool \<times> 'f ToolRegistry" where
  "tool_unregister d key = (map_of d key \<noteq> None, AList.delete key d)"

definition tool_binding_at :: "'f ToolRegistry \<Rightarrow> string \<Rightarrow> 'f ToolBinding res" where
  "tool_binding_at d key = (case map_of d key of None \<Rightarrow> Inl KeyError | Some b \<Rightarrow> Inr b)"

definition tool_get :: "'f ToolRegistry \<Rightarrow> string \<Rightarrow> 'f Tool res" where
  "tool_get d key = (case map_of d key of None \<Rightarrow> Inl KeyError | Some b \<Rightarrow> Inr (tb_tool b))"

definition tool_addresses :: "'f ToolRegistry \<Rightarrow> ToolAddress list" where
  "tool_addresses d = map (tb_address \<circ> snd) d"

text \<open>\<open>tags\<close> filter as any-of; \<open>None\<close> does not filter.\<close>

definition tags_admit :: "string list option \<Rightarrow> string list \<Rightarrow> bool" where
  "tags_admit wanted tags = (case wanted of None \<Rightarrow> True | Some ts \<Rightarrow> list_ex (\<lambda>t. t \<in> set tags) ts)"

definition tool_bindings_for :: "'f ToolRegistry \<Rightarrow> AgentAddress \<Rightarrow> string list option \<Rightarrow> 'f ToolBinding list" where
  "tool_bindings_for d agent tags = filter (\<lambda>b. pmatches (tb_allowed_for b) agent \<and> tags_admit tags (tb_tags b)) (map snd d)"

definition tools_for :: "'f ToolRegistry \<Rightarrow> AgentAddress \<Rightarrow> string list option \<Rightarrow> 'f Tool list" where
  "tools_for d agent tags = map tb_tool (filter (\<lambda>b. pmatches (tb_allowed_for b) agent \<and> tags_admit tags (tb_tags b)) (map snd d))"

section \<open>The skill registry\<close>

datatype source_ref = Resource_Ref ResourceAddress | Agent_Ref AgentAddress | Pattern_Ref AddressPattern

record 'f Skill =
  sk_name :: string
  sk_description :: string
  sk_tools :: "'f Tool list"
  sk_prompt_fragment :: string
  sk_when_to_use :: string
  sk_graph :: "'f option"
  sk_suggested_tools :: "ToolAddress list"
  sk_suggested_specialists :: "source_ref list"
  sk_suggested_loras :: "ResourceAddress list"
  sk_suggested_sources :: "source_ref list"

definition SKILL_KIND :: string where "SKILL_KIND = ''skill''"

record 'f SkillBinding =
  sb_address :: ResourceAddress
  sb_skill :: "'f Skill"
  sb_allowed_for :: AddressPattern
  sb_tags :: "string list"

type_synonym 'f SkillRegistry = "(string, 'f SkillBinding) dict"

definition strip_make_prefix :: "string \<Rightarrow> string" where
  "strip_make_prefix name = map (\<lambda>c. if c = CHR ''_'' then CHR ''-'' else c)
     (if startswith name ''make_'' then drop 5 name else name)"

text \<open>
  A skill factory is called once, at registration; \<open>made\<close> is what it does: raise, return a
  skill, or return something else (\<open>None\<close>).
\<close>

definition skill_register :: "'f SkillRegistry \<Rightarrow> string \<Rightarrow> 'f Skill option res \<Rightarrow> string \<Rightarrow> string \<Rightarrow> string \<Rightarrow> string option \<Rightarrow>
    pattern_arg option \<Rightarrow> string list \<Rightarrow> ('f SkillBinding \<times> 'f SkillRegistry) res" where
  "skill_register d factory_name made scope domain subdomain name allowed_for tags =
     (let skill_name = or_default name (strip_make_prefix factory_name) in
      rbind (res_post_init \<lparr>ra_scope = scope, ra_kind = SKILL_KIND, ra_domain = domain, ra_subdomain = subdomain, ra_name = skill_name\<rparr>) (\<lambda>address.
      if map_of d (res_str address) \<noteq> None then Inl ValueError
      else rbind (access_pattern (pparse (scope @ ''.*.'' @ domain @ ''.'' @ subdomain @ ''.*.*.*'')) allowed_for) (\<lambda>pattern.
      rbind made (\<lambda>obj.
      case obj of None \<Rightarrow> Inl TypeError
      | Some skill \<Rightarrow>
          let b = \<lparr>sb_address = address, sb_skill = skill, sb_allowed_for = pattern, sb_tags = tags\<rparr>
          in Inr (b, AList.update (res_str address) b d)))))"

definition skill_unregister :: "'f SkillRegistry \<Rightarrow> string \<Rightarrow> bool \<times> 'f SkillRegistry" where
  "skill_unregister d key = (map_of d key \<noteq> None, AList.delete key d)"

definition skill_binding_at :: "'f SkillRegistry \<Rightarrow> string \<Rightarrow> 'f SkillBinding res" where
  "skill_binding_at d key = (case map_of d key of None \<Rightarrow> Inl KeyError | Some b \<Rightarrow> Inr b)"

definition skill_get :: "'f SkillRegistry \<Rightarrow> string \<Rightarrow> 'f Skill res" where
  "skill_get d key = (case map_of d key of None \<Rightarrow> Inl KeyError | Some b \<Rightarrow> Inr (sb_skill b))"

definition skill_addresses :: "'f SkillRegistry \<Rightarrow> ResourceAddress list" where
  "skill_addresses d = map (sb_address \<circ> snd) d"

definition skill_clear :: "'f SkillRegistry \<Rightarrow> 'f SkillRegistry" where "skill_clear d = []"

definition skill_bindings_for :: "'f SkillRegistry \<Rightarrow> AgentAddress \<Rightarrow> string list option \<Rightarrow> 'f SkillBinding list" where
  "skill_bindings_for d agent tags = filter (\<lambda>b. pmatches (sb_allowed_for b) agent \<and> tags_admit tags (sb_tags b)) (map snd d)"

definition skills_for :: "'f SkillRegistry \<Rightarrow> AgentAddress \<Rightarrow> string list option \<Rightarrow> 'f Skill list" where
  "skills_for d agent tags = map sb_skill (skill_bindings_for d agent tags)"

section \<open>Printing and parsing\<close>

definition tool_ok :: "ToolAddress \<Rightarrow> bool" where
  "tool_ok t \<longleftrightarrow> list_all field_clean (tool_fields t) \<and> \<not> is_space (hd (ta_scope t)) \<and> \<not> is_space (last (ta_operation t))"

definition res_ok :: "ResourceAddress \<Rightarrow> bool" where
  "res_ok r \<longleftrightarrow> list_all field_clean (res_fields r) \<and> \<not> is_space (hd (ra_scope r)) \<and> \<not> is_space (last (ra_name r))"

lemma split_dotted:
  assumes "xs \<noteq> []" "list_all field_clean xs" "\<not> is_space (hd (hd xs))" "\<not> is_space (last (last xs))"
  shows "split_on (CHR ''.'') (strip (join ''.'' xs)) = xs"
proof -
  have hd: "join ''.'' ys \<noteq> [] \<and> hd (join ''.'' ys) = hd (hd ys)" if "ys \<noteq> []" "hd ys \<noteq> []" for ys
    using that by (induction "''.''" ys rule: join.induct) auto
  have last: "last (join ''.'' ys) = last (last ys)" if "ys \<noteq> []" "last ys \<noteq> []" for ys
    using that
  proof (induction "''.''" ys rule: join.induct)
    case (3 x y zs)
    then show ?case by (cases zs) auto
  qed auto
  have ne: "\<forall>x\<in>set xs. x \<noteq> []" and dots: "\<forall>x\<in>set xs. CHR ''.'' \<notin> set x"
    using assms(2) by (auto simp: list_all_iff field_clean_def)
  then have "hd xs \<noteq> []" "last xs \<noteq> []" using assms(1) by simp_all
  then have "strip (join ''.'' xs) = join ''.'' xs"
    using assms(1,3,4) by (intro strip_id) (simp add: hd last)
  with dots assms(1) show ?thesis by (simp add: split_on_join)
qed

lemma tool_parse_str:
  assumes "tool_ok t" shows "tool_parse (tool_str t) = Inr t"
proof -
  have "split_on (CHR ''.'') (strip (tool_str t)) = tool_fields t"
    using assms unfolding tool_str_def by (intro split_dotted) (simp_all add: tool_ok_def tool_fields_def)
  with assms show ?thesis by (simp add: tool_ok_def tool_parse_def tool_fields_def tool_post_init_def)
qed

lemma res_parse_str:
  assumes "res_ok r" shows "res_parse (res_str r) = Inr r"
proof -
  have "split_on (CHR ''.'') (strip (res_str r)) = res_fields r"
    using assms unfolding res_str_def by (intro split_dotted) (simp_all add: res_ok_def res_fields_def)
  with assms show ?thesis by (simp add: res_ok_def res_parse_def res_fields_def res_post_init_def)
qed

interpretation tool_address: codec tool_str tool_parse tool_ok "\<lambda>t. t"
  by unfold_locales (rule tool_parse_str)

interpretation resource_address: codec res_str res_parse res_ok "\<lambda>r. r"
  by unfold_locales (rule res_parse_str)

text \<open>The keys of the registries tell valid addresses apart, edges or not.\<close>

lemma split_join_fields: "list_all field_clean xs \<Longrightarrow> xs \<noteq> [] \<Longrightarrow> split_on (CHR ''.'') (join ''.'' xs) = xs"
  by (rule split_on_join) (auto simp: list_all_iff field_clean_def)

lemma dotted_inject:
  assumes "list_all field_clean xs" "list_all field_clean ys" "xs \<noteq> []" "ys \<noteq> []" "join ''.'' xs = join ''.'' ys"
  shows "xs = ys"
proof -
  have "xs = split_on (CHR ''.'') (join ''.'' xs)" using assms(1,3) by (simp add: split_join_fields)
  also have "\<dots> = split_on (CHR ''.'') (join ''.'' ys)" by (simp only: assms(5))
  also have "\<dots> = ys" using assms(2,4) by (rule split_join_fields)
  finally show ?thesis .
qed

lemma tool_str_inject:
  fixes t u :: ToolAddress
  assumes "tool_post_init t = Inr t" "tool_post_init u = Inr u" "tool_str t = tool_str u"
  shows "t = u"
proof -
  have "tool_fields t = tool_fields u"
    by (rule dotted_inject) (use assms in \<open>auto simp: tool_post_init_def tool_str_def tool_fields_def split: if_splits\<close>)
  then show ?thesis by (simp add: tool_fields_def)
qed

lemma res_str_inject:
  fixes r q :: ResourceAddress
  assumes "res_post_init r = Inr r" "res_post_init q = Inr q" "res_str r = res_str q"
  shows "r = q"
proof -
  have "res_fields r = res_fields q"
    by (rule dotted_inject) (use assms in \<open>auto simp: res_post_init_def res_str_def res_fields_def split: if_splits\<close>)
  then show ?thesis by (simp add: res_fields_def)
qed

text \<open>The conventions of access.\<close>

lemma tool_convention:
  assumes "tool_post_init t = Inr t"
  obtains p where "tool_allowed_for t = Inr p"
    "\<And>a. pmatches p a \<longleftrightarrow> field_match (ta_scope t) (a_org a) \<and> field_match (ta_role t) (a_role a)"
  using assms
  by (auto simp: tool_allowed_for_def tool_post_init_def pattern_post_init_def pfields_def tool_fields_def pattern_field_ok_def
      field_clean_def WILDCARD_def pmatches_iff field_match_def accept_match_def split: if_splits)

lemma resource_convention:
  assumes "res_post_init r = Inr r"
  obtains p where "res_allowed_for r = Inr p"
    "\<And>a. pmatches p a \<longleftrightarrow> field_match (ra_scope r) (a_org a) \<and> field_match (ra_domain r) (a_domain a) \<and> field_match (ra_subdomain r) (a_subdomain a)"
  using assms
  by (auto simp: res_allowed_for_def res_post_init_def pattern_post_init_def pfields_def res_fields_def pattern_field_ok_def
      field_clean_def WILDCARD_def pmatches_iff field_match_def accept_match_def split: if_splits)

section \<open>The contract of a catalog\<close>

definition catalog_ok :: "('b \<Rightarrow> string) \<Rightarrow> (string, 'b) dict \<Rightarrow> bool" where
  "catalog_ok text_of d \<longleftrightarrow> is_dict d \<and> list_all (\<lambda>(k, b). k = text_of b) d"

lemma catalog_ok_delete: "catalog_ok text_of d \<Longrightarrow> catalog_ok text_of (AList.delete key d)"
  by (simp add: catalog_ok_def is_dict_delete) (simp add: AList.delete_eq list_all_iff)

locale catalog =
  fixes text_of :: "'b \<Rightarrow> string" and allowed :: "'b \<Rightarrow> AddressPattern" and tags :: "'b \<Rightarrow> string list"
    and added :: "(string, 'b) dict \<Rightarrow> 'b \<Rightarrow> (string, 'b) dict \<Rightarrow> bool"
    and visible :: "(string, 'b) dict \<Rightarrow> AgentAddress \<Rightarrow> string list option \<Rightarrow> 'b list"
  assumes added_new: "added d b d' \<Longrightarrow> map_of d (text_of b) = None"
    and added_update: "added d b d' \<Longrightarrow> d' = AList.update (text_of b) b d"
    and visible_filter: "visible d a ts = filter (\<lambda>b. pmatches (allowed b) a \<and> tags_admit ts (tags b)) (map snd d)"
begin

lemma added_append: "added d b d' \<Longrightarrow> d' = d @ [(text_of b, b)]"
  using added_update added_new by (metis map_of_eq_None_iff update_new)

lemma added_lookup: "added d b d' \<Longrightarrow> map_of d' = (map_of d)(text_of b \<mapsto> b)"
  by (drule added_update) (simp add: update_conv')

lemma added_ok: "added d b d' \<Longrightarrow> catalog_ok text_of d \<Longrightarrow> catalog_ok text_of d'"
  by (frule added_append, drule added_new) (auto simp: catalog_ok_def map_of_eq_None_iff)

lemma visible_added:
  "added d b d' \<Longrightarrow> visible d' a ts = visible d a ts @ (if pmatches (allowed b) a \<and> tags_admit ts (tags b) then [b] else [])"
  by (drule added_append) (simp add: visible_filter)

lemma visible_lookup: "catalog_ok text_of d \<Longrightarrow> b \<in> set (visible d a ts) \<Longrightarrow> map_of d (text_of b) = Some b"
  by (auto simp: visible_filter catalog_ok_def list_all_iff split: prod.splits)

lemma visible_distinct: "catalog_ok text_of d \<Longrightarrow> distinct (map text_of (visible d a ts))"
proof -
  assume ok: "catalog_ok text_of d"
  then have "map text_of (map snd d) = map fst d" by (auto simp: catalog_ok_def list_all_iff)
  with ok have "distinct (map text_of (map snd d))" by (simp only: catalog_ok_def)
  then show ?thesis unfolding visible_filter by (rule distinct_map_filter)
qed

end

definition tool_added :: "'f ToolRegistry \<Rightarrow> 'f ToolBinding \<Rightarrow> 'f ToolRegistry \<Rightarrow> bool" where
  "tool_added d b d' \<longleftrightarrow> (\<exists>func scope kind role category operation description allowed_for tags schema.
     tool_register d func scope kind role category operation description allowed_for tags schema = Inr (b, d'))"

definition skill_added :: "'f SkillRegistry \<Rightarrow> 'f SkillBinding \<Rightarrow> 'f SkillRegistry \<Rightarrow> bool" where
  "skill_added d b d' \<longleftrightarrow> (\<exists>factory_name made scope domain subdomain name allowed_for tags.
     skill_register d factory_name made scope domain subdomain name allowed_for tags = Inr (b, d'))"

lemma tool_addedE:
  assumes "tool_added d b d'"
  obtains "map_of d (tool_str (tb_address b)) = None" "d' = AList.update (tool_str (tb_address b)) b d"
    "tool_post_init (tb_address b) = Inr (tb_address b)"
proof -
  from assms obtain func scope kind role category operation description allowed_for tags schema
    where r: "tool_register d func scope kind role category operation description allowed_for tags schema = Inr (b, d')"
    by (auto simp: tool_added_def)
  then show thesis
    by (intro that) (clarsimp simp: tool_register_def Let_def rbind_eq_Inr tool_post_init_def split: if_splits)+
qed

lemma skill_addedE:
  assumes "skill_added d b d'"
  obtains "map_of d (res_str (sb_address b)) = None" "d' = AList.update (res_str (sb_address b)) b d"
    "res_post_init (sb_address b) = Inr (sb_address b)"
proof -
  from assms obtain factory_name made scope domain subdomain name allowed_for tags
    where r: "skill_register d factory_name made scope domain subdomain name allowed_for tags = Inr (b, d')"
    by (auto simp: skill_added_def)
  then show thesis
    by (intro that) (clarsimp simp: skill_register_def Let_def rbind_eq_Inr res_post_init_def split: if_splits option.splits)+
qed

interpretation tools: catalog "tool_str \<circ> tb_address" tb_allowed_for tb_tags tool_added tool_bindings_for
  by unfold_locales (auto elim: tool_addedE simp: tool_bindings_for_def)

interpretation skills: catalog "res_str \<circ> sb_address" sb_allowed_for sb_tags skill_added skill_bindings_for
  by unfold_locales (auto elim: skill_addedE simp: skill_bindings_for_def)

section \<open>Properties\<close>

lemma tool_register_inv:
  assumes "tool_register d func scope kind role category operation description allowed_for tags schema = Inr (b, d')"
  shows "tool_added d b d'" "tb_address b = \<lparr>ta_scope = scope, ta_kind = kind, ta_role = role, ta_category = category,
      ta_operation = or_default operation (fn_name func)\<rparr>"
    "access_pattern (tool_allowed_for (tb_address b)) allowed_for = Inr (tb_allowed_for b)"
    "tl_name (tb_tool b) = ta_operation (tb_address b)" "tl_handler (tb_tool b) = func"
  using assms unfolding tool_added_def
  by (blast, simp_all add: tool_register_def Let_def rbind_eq_Inr tool_post_init_def split: if_splits) auto

lemma tools_for_bindings: "tools_for d a ts = map tb_tool (tool_bindings_for d a ts)"
  by (simp add: tools_for_def tool_bindings_for_def)

text \<open>A docstring of blanks only makes registration raise IndexError.\<close>

lemma blank_docstring_raises:
  assumes "tool_post_init \<lparr>ta_scope = s, ta_kind = k, ta_role = r, ta_category = c, ta_operation = fn_name f\<rparr> = Inr address"
    and "map_of d (tool_str address) = None" and "fn_doc f = Some doc" and "doc \<noteq> []" and "strip doc = []"
  shows "tool_register d f s k r c None None None tags schema = Inl IndexError"
proof -
  have "address = \<lparr>ta_scope = s, ta_kind = k, ta_role = r, ta_category = c, ta_operation = fn_name f\<rparr>"
    "tool_post_init address = Inr address"
    using assms(1) by (auto simp: tool_post_init_def split: if_splits)
  moreover from this(2) obtain p where "tool_allowed_for address = Inr p" by (rule tool_convention)
  ultimately show ?thesis
    using assms by (simp add: tool_register_def or_default_def access_pattern_def tool_description_def first_line_def)
qed

text \<open>A registered tool is found exactly where its address says: after a registration with the default access the
  tool is the one at its address, every other address is as before, each agent sees what it saw before and in addition,
  last, the new tool if and only if the scope and the role of the tool are wildcards or the agent's own organization
  and role; and a second registration at that address raises.\<close>

lemma tool_registration:
  assumes "tool_register d func scope kind role category operation description None tags schema = Inr (b, d')"
  shows "(\<forall>key. tool_get d' key = (if key = tool_str (tb_address b) then Inr (tb_tool b) else tool_get d key))
    \<and> (\<forall>a. tools_for d' a None = tools_for d a None @ (if scope \<in> {''*'', a_org a} \<and> role \<in> {''*'', a_role a} then [tb_tool b] else []))
    \<and> tool_register d' func2 scope kind role category (Some (ta_operation (tb_address b))) description2 allowed2 tags2 schema2 = Inl ValueError"
proof -
  note inv = tool_register_inv [OF assms]
  from inv(1) have ok: "tool_post_init (tb_address b) = Inr (tb_address b)" by (rule tool_addedE)
  obtain p where p: "tool_allowed_for (tb_address b) = Inr p"
    "\<And>a. pmatches p a \<longleftrightarrow> field_match (ta_scope (tb_address b)) (a_org a) \<and> field_match (ta_role (tb_address b)) (a_role a)"
    using tool_convention [OF ok] by blast
  have "\<forall>key. tool_get d' key = (if key = tool_str (tb_address b) then Inr (tb_tool b) else tool_get d key)"
    using tools.added_lookup [OF inv(1)] by (simp add: tool_get_def)
  moreover have "\<forall>a. tools_for d' a None = tools_for d a None @ (if scope \<in> {''*'', a_org a} \<and> role \<in> {''*'', a_role a} then [tb_tool b] else [])"
    using p inv(2,3) tools.visible_added [OF inv(1), of _ None]
    by (auto simp: tools_for_bindings access_pattern_def tags_admit_def field_match_def WILDCARD_def)
  moreover have "or_default (Some (ta_operation (tb_address b))) x = ta_operation (tb_address b)" for x
    using ok by (auto simp: or_default_def tool_post_init_def tool_fields_def field_clean_def split: if_splits)
  then have "tool_register d' func2 scope kind role category (Some (ta_operation (tb_address b))) description2 allowed2 tags2 schema2 = Inl ValueError"
    using ok inv(2) tools.added_lookup [OF inv(1)] by (simp add: tool_register_def)
  ultimately show ?thesis by blast
qed

lemma tool_registration_witness:
  "\<exists>b d'. tool_register ([] :: unit ToolRegistry) \<lparr>fn_name = ''update_record'', fn_doc = Some ''Update a row.'', fn_body = ()\<rparr> ''tifin'' ''db'' ''*'' ''crud'' None None None [] None
      = Inr (b, d') \<and> length (tools_for d' ((sample_address ''i1'')\<lparr>a_org := ''tifin''\<rparr>) None) = 1 \<and> tools_for d' ((sample_address ''i1'')\<lparr>a_org := ''acme''\<rparr>) None = []"
proof -
  let ?f = "\<lparr>fn_name = ''update_record'', fn_doc = Some ''Update a row.'', fn_body = ()\<rparr>"
  let ?r = "tool_register ([] :: unit ToolRegistry) ?f ''tifin'' ''db'' ''*'' ''crud'' None None None [] None"
  have "\<not> isl ?r" by code_simp
  then obtain b d' where r: "?r = Inr (b, d')" by (cases ?r) auto
  have "tools_for ([] :: unit ToolRegistry) a None = []" for a by (simp add: tools_for_def)
  then have "\<forall>a. tools_for d' a None = (if ''tifin'' = a_org a then [tb_tool b] else [])"
    using tool_registration [OF r] by simp
  with r show ?thesis by auto
qed

end
