(* ===== verification/Capability.thy ===== *)
theory Capability
  imports Catalog
begin

text \<open>
  \<open>ahp/adapters/capability.py\<close>: the fragments of an agent's configuration that match its address,
  merged by priority. Graphs, retrievers and instances are opaque.
\<close>

section \<open>Profiles\<close>

datatype AgentKind = React | Deep | Custom

record 'f RagSource =
  rag_name :: string
  rag_retrieve :: 'f
  rag_description :: string

record ('f, 'i) AgentProfile =
  ap_address :: AgentAddress
  ap_tools :: "'f Tool list"
  ap_skills :: "'f Skill list"
  ap_rag_sources :: "'f RagSource list"
  ap_prompt :: string
  ap_agent_kind :: AgentKind
  ap_resources :: "(string, 'i option) dict"

definition all_tools :: "('f, 'i) AgentProfile \<Rightarrow> 'f Tool list" where
  "all_tools p = ap_tools p @ concat (map sk_tools (ap_skills p))"

record 'f CapabilityProvider =
  cp_pattern :: AddressPattern
  cp_priority :: int
  cp_tools :: "'f Tool list"
  cp_skills :: "'f Skill list"
  cp_rag_sources :: "'f RagSource list"
  cp_prompt :: string
  cp_agent_kind :: "AgentKind option"

section \<open>The registry\<close>

type_synonym 'f CapabilityRegistry = "'f CapabilityProvider list"

text \<open>\<open>provider\<close> carries the arguments of a registration, its pattern aside.\<close>

definition capability_register :: "'f CapabilityRegistry \<Rightarrow> pattern_arg \<Rightarrow> 'f CapabilityProvider \<Rightarrow> ('f CapabilityProvider \<times> 'f CapabilityRegistry) res" where
  "capability_register providers pattern provider =
     rbind (coerce_pattern pattern) (\<lambda>p.
       let provider = provider\<lparr>cp_pattern := p\<rparr>
       in Inr (provider, sort_key (\<lambda>p. - cp_priority p) (providers @ [provider])))"

definition capability_clear :: "'f CapabilityRegistry \<Rightarrow> 'f CapabilityRegistry" where "capability_clear providers = []"

fun resolve_loop :: "AgentAddress \<Rightarrow> 'f CapabilityProvider list \<Rightarrow> 'f Tool list \<times> 'f Skill list \<times> 'f RagSource list \<times> string list \<times> AgentKind option \<Rightarrow>
    'f Tool list \<times> 'f Skill list \<times> 'f RagSource list \<times> string list \<times> AgentKind option" where
  "resolve_loop a [] acc = acc"
| "resolve_loop a (p # ps) (tools, skills, rags, prompts, kind) =
     (if \<not> pmatches (cp_pattern p) a then resolve_loop a ps (tools, skills, rags, prompts, kind)
      else resolve_loop a ps (tools @ cp_tools p, skills @ cp_skills p, rags @ cp_rag_sources p,
        (if cp_prompt p \<noteq> [] then prompts @ [cp_prompt p] else prompts),
        (case kind of None \<Rightarrow> cp_agent_kind p | Some k \<Rightarrow> Some k)))"

definition blank_line :: string where "blank_line = [CHR 0x0A, CHR 0x0A]"

definition capability_resolve :: "'f CapabilityRegistry \<Rightarrow> AgentAddress \<Rightarrow> ('f, 'i) AgentProfile" where
  "capability_resolve providers a =
     (case resolve_loop a providers ([], [], [], [], None) of
        (tools, skills, rags, prompts, kind) \<Rightarrow>
          \<lparr>ap_address = a, ap_tools = tools, ap_skills = skills, ap_rag_sources = rags, ap_prompt = join blank_line prompts,
           ap_agent_kind = (case kind of None \<Rightarrow> React | Some k \<Rightarrow> k), ap_resources = []\<rparr>)"

section \<open>Facts\<close>

text \<open>The first declared kind, in the order of the list.\<close>

fun first_kind :: "'f CapabilityProvider list \<Rightarrow> AgentKind option" where
  "first_kind [] = None"
| "first_kind (p # ps) = (case cp_agent_kind p of None \<Rightarrow> first_kind ps | Some k \<Rightarrow> Some k)"

lemma resolve_loop_spec:
  "resolve_loop a ps (tools, skills, rags, prompts, kind) =
     (let ms = filter (\<lambda>p. pmatches (cp_pattern p) a) ps in
      (tools @ concat (map cp_tools ms), skills @ concat (map cp_skills ms), rags @ concat (map cp_rag_sources ms),
       prompts @ filter (\<lambda>t. t \<noteq> []) (map cp_prompt ms), case kind of None \<Rightarrow> first_kind ms | Some k \<Rightarrow> Some k))"
  by (induction ps arbitrary: tools skills rags prompts kind) (auto simp: Let_def split: option.splits)

text \<open>Registering one after another.\<close>

fun capability_register_all :: "'f CapabilityRegistry \<Rightarrow> 'f CapabilityProvider list \<Rightarrow> 'f CapabilityRegistry res" where
  "capability_register_all R [] = Inr R"
| "capability_register_all R (p # ps) = rbind (capability_register R (PatArg (cp_pattern p)) p) (\<lambda>(_, R'). capability_register_all R' ps)"

lemma capability_register_pat:
  "capability_register R (PatArg (cp_pattern p)) p = Inr (p, sort_key (\<lambda>p. - cp_priority p) (R @ [p]))"
  by (simp add: capability_register_def)

lemma capability_order: "capability_register_all (sort_key (\<lambda>p. - cp_priority p) R) ps = Inr (sort_key (\<lambda>p. - cp_priority p) (R @ ps))"
proof (induction ps arbitrary: R)
  case (Cons p ps)
  have "capability_register_all (sort_key (\<lambda>p. - cp_priority p) R) (p # ps)
      = capability_register_all (sort_key (\<lambda>p. - cp_priority p) (R @ [p])) ps"
    by (simp add: capability_register_pat sort_key_resort)
  then show ?case using Cons.IH [of "R @ [p]"] by simp
qed simp

lemma filter_sort_key: "filter P (sort_key f xs) = sort_key f (filter P xs)"
  by (rule filter_sort)

section \<open>Properties\<close>

text \<open>C20: The configuration of an agent is the union of the fragments that match its address: registering fragments one
  after another, in any number, and resolving an address equals taking the matching fragments once, sorted stably by
  descending priority, concatenating their tools, skills and sources and joining their non-empty prompts in that order,
  with the first declared kind, \<open>react\<close> when none declares one.\<close>

theorem capability_merge:
  "\<exists>R. capability_register_all [] ps = Inr R \<and>
     (let ms = sort_key (\<lambda>p. - cp_priority p) (filter (\<lambda>p. pmatches (cp_pattern p) a) ps) in
      (capability_resolve R a :: ('f, 'i) AgentProfile) =
        \<lparr>ap_address = a, ap_tools = concat (map cp_tools ms), ap_skills = concat (map cp_skills ms),
         ap_rag_sources = concat (map cp_rag_sources ms), ap_prompt = join blank_line (filter (\<lambda>t. t \<noteq> []) (map cp_prompt ms)),
         ap_agent_kind = (case first_kind ms of None \<Rightarrow> React | Some k \<Rightarrow> k), ap_resources = []\<rparr>)"
  using capability_order [of "[]" ps]
  by (simp add: capability_resolve_def resolve_loop_spec filter_sort_key Let_def)

end
