(* ===== verification/Resources.thy ===== *)
theory Resources
  imports Catalog
begin

text \<open>
  \<open>ahp/adapters/resources.py\<close> and \<open>storage.py\<close>: shared resources, constructed on first access
  and torn down in reverse order. A factory and its clean-up act on the world outside
  (\<open>'s\<close>) and may raise; an instance is an opaque \<open>'i\<close>, \<open>None\<close> where a factory returns None.
  The operations that construct run on the pair of the registry and that world.
\<close>

section \<open>Registration\<close>

record ('s, 'i) factory =
  rf_name :: "string option"
  rf_make :: "('s, 'i option) op"
  rf_is_class :: bool
  rf_aclose :: "('i \<Rightarrow> ('s, unit) op) option"
  rf_close :: "('i \<Rightarrow> ('s, unit) op) option"

record ('s, 'i) ResourceBinding =
  rb_address :: ResourceAddress
  rb_factory :: "('s, 'i) factory"
  rb_cleanup :: "('i \<Rightarrow> ('s, unit) op) option"
  rb_allowed_for :: AddressPattern
  rb_description :: string

record ('s, 'i) ResourceRegistry =
  rr_bindings :: "(string, ('s, 'i) ResourceBinding) dict"
  rr_instances :: "(string, 'i option) dict"
  rr_order :: "string list"

definition new_resources :: "('s, 'i) ResourceRegistry" where
  "new_resources = \<lparr>rr_bindings = [], rr_instances = [], rr_order = []\<rparr>"

definition auto_cleanup_for :: "('s, 'i) factory \<Rightarrow> ('i \<Rightarrow> ('s, unit) op) option" where
  "auto_cleanup_for f = (case rf_aclose f of Some c \<Rightarrow> Some c | None \<Rightarrow> rf_close f)"

definition resource_register :: "('s, 'i) ResourceRegistry \<Rightarrow> ('s, 'i) factory \<Rightarrow> string \<Rightarrow> string \<Rightarrow> string \<Rightarrow> string \<Rightarrow>
    string option \<Rightarrow> string \<Rightarrow> pattern_arg option \<Rightarrow> ('i \<Rightarrow> ('s, unit) op) option \<Rightarrow>
    (('s, 'i) ResourceBinding \<times> ('s, 'i) ResourceRegistry) res" where
  "resource_register R f scope kind domain subdomain name description allowed_for cleanup =
     (let resolved = or_default name (or_default (rf_name f) ''anonymous'') in
      rbind (res_post_init \<lparr>ra_scope = scope, ra_kind = kind, ra_domain = domain, ra_subdomain = subdomain, ra_name = resolved\<rparr>) (\<lambda>address.
      if map_of (rr_bindings R) (res_str address) \<noteq> None then Inl ValueError
      else rbind (access_pattern (res_allowed_for address) allowed_for) (\<lambda>pattern.
      let cleanup = (if cleanup = None \<and> rf_is_class f then auto_cleanup_for f else cleanup);
          b = \<lparr>rb_address = address, rb_factory = f, rb_cleanup = cleanup, rb_allowed_for = pattern, rb_description = description\<rparr>
      in Inr (b, R\<lparr>rr_bindings := AList.update (res_str address) b (rr_bindings R)\<rparr>))))"

definition resource_unregister :: "('s, 'i) ResourceRegistry \<Rightarrow> string \<Rightarrow> (bool \<times> ('s, 'i) ResourceRegistry) res" where
  "resource_unregister R key =
     (if map_of (rr_instances R) key \<noteq> None then Inl RuntimeError
      else Inr (map_of (rr_bindings R) key \<noteq> None, R\<lparr>rr_bindings := AList.delete key (rr_bindings R)\<rparr>))"

definition resource_addresses :: "('s, 'i) ResourceRegistry \<Rightarrow> ResourceAddress list" where
  "resource_addresses R = map (rb_address \<circ> snd) (rr_bindings R)"

section \<open>Access\<close>

definition resource_get :: "string \<Rightarrow> (('s, 'i) ResourceRegistry \<times> 's, 'i option) op" where
  "resource_get key = (\<lambda>(R, s).
     case map_of (rr_instances R) key of
       Some i \<Rightarrow> (Inr i, (R, s))
     | None \<Rightarrow>
         (case map_of (rr_bindings R) key of
            None \<Rightarrow> (Inl KeyError, (R, s))
          | Some b \<Rightarrow>
              (case rf_make (rb_factory b) s of
                 (Inl e, t) \<Rightarrow> (Inl e, (R, t))
               | (Inr i, t) \<Rightarrow> (Inr i, (R\<lparr>rr_instances := AList.update key i (rr_instances R), rr_order := rr_order R @ [key]\<rparr>, t)))))"

fun claim_names :: "AgentAddress \<Rightarrow> ('s, 'i) ResourceBinding list \<Rightarrow> (string, ResourceAddress) dict \<Rightarrow> (string, 'i option) dict \<Rightarrow>
    (('s, 'i) ResourceRegistry \<times> 's, (string, 'i option) dict) op" where
  "claim_names a [] provenance out W = (Inr out, W)"
| "claim_names a (b # bs) provenance out W =
     (if \<not> pmatches (rb_allowed_for b) a then claim_names a bs provenance out W
      else let name = ra_name (rb_address b) in
        if (case map_of provenance name of None \<Rightarrow> False | Some p \<Rightarrow> p \<noteq> rb_address b) then (Inl ResourceNameCollisionError, W)
        else sbind (resource_get (res_str (rb_address b))) (\<lambda>i.
          claim_names a bs (AList.update name (rb_address b) provenance) (AList.update name i out)) W)"

definition resources_for :: "AgentAddress \<Rightarrow> (('s, 'i) ResourceRegistry \<times> 's, (string, 'i option) dict) op" where
  "resources_for a W = claim_names a (map snd (rr_bindings (fst W))) [] [] W"

section \<open>Teardown\<close>

fun close_loop :: "('s, 'i) ResourceRegistry \<Rightarrow> string list \<Rightarrow> pyexc option \<Rightarrow> 's \<Rightarrow> pyexc option \<times> 's" where
  "close_loop R [] first_error s = (first_error, s)"
| "close_loop R (key # keys) first_error s =
     (case (map_of (rr_bindings R) key, map_of (rr_instances R) key) of
        (Some b, Some (Some i)) \<Rightarrow>
          (case rb_cleanup b of
             None \<Rightarrow> close_loop R keys first_error s
           | Some c \<Rightarrow>
               (case c i s of
                  (Inr _, t) \<Rightarrow> close_loop R keys first_error t
                | (Inl e, t) \<Rightarrow> close_loop R keys (if first_error = None then Some e else first_error) t))
      | _ \<Rightarrow> close_loop R keys first_error s)"

definition close_all :: "(('s, 'i) ResourceRegistry \<times> 's, unit) op" where
  "close_all = (\<lambda>(R, s).
     case close_loop R (rev (rr_order R)) None s of
       (first_error, t) \<Rightarrow>
         (case first_error of None \<Rightarrow> Inr () | Some e \<Rightarrow> Inl e, (R\<lparr>rr_instances := [], rr_order := []\<rparr>, t)))"

section \<open>Filesystem mounts\<close>

definition FS_KIND :: string where "FS_KIND = ''fs''"

definition default_mount_path :: "ResourceAddress \<Rightarrow> string" where
  "default_mount_path r = ''/'' @ ra_name r @ ''/''"

definition bindings_of_kind :: "string \<Rightarrow> ('s, 'i) ResourceRegistry \<Rightarrow> AgentAddress \<Rightarrow> ('s, 'i) ResourceBinding list" where
  "bindings_of_kind kind R a = filter (\<lambda>b. ra_kind (rb_address b) = kind \<and> pmatches (rb_allowed_for b) a) (map snd (rr_bindings R))"

definition matching_fs_bindings :: "('s, 'i) ResourceRegistry \<Rightarrow> AgentAddress \<Rightarrow> ('s, 'i) ResourceBinding list" where
  "matching_fs_bindings = bindings_of_kind FS_KIND"

text \<open>
  The backend handed to an agent: its default, a fresh state backend, one resource, or a
  composite of the resources by mount path.
\<close>

datatype 'i fs_backend = Fresh_State | Backend "'i option" | Composite "'i fs_backend" "(string, 'i option) dict"

fun mount_loop :: "(ResourceAddress \<Rightarrow> string) \<Rightarrow> ('s, 'i) ResourceBinding list \<Rightarrow> (string, 'i option) dict \<Rightarrow>
    (('s, 'i) ResourceRegistry \<times> 's, (string, 'i option) dict) op" where
  "mount_loop mount_path [] routes W = (Inr routes, W)"
| "mount_loop mount_path (b # bs) routes W =
     (let path = mount_path (rb_address b) in
      if map_of routes path \<noteq> None then (Inl ValueError, W)
      else sbind (resource_get (res_str (rb_address b))) (\<lambda>i. mount_loop mount_path bs (AList.update path i routes)) W)"

definition or_fresh :: "'i option \<Rightarrow> 'i fs_backend" where
  "or_fresh dflt = (case dflt of None \<Rightarrow> Fresh_State | Some i \<Rightarrow> Backend (Some i))"

definition build_fs_backend :: "(ResourceAddress \<Rightarrow> string) \<Rightarrow> 'i option \<Rightarrow> AgentAddress \<Rightarrow> (('s, 'i) ResourceRegistry \<times> 's, 'i fs_backend) op" where
  "build_fs_backend mount_path dflt a W =
     (let bindings = matching_fs_bindings (fst W) a in
      if bindings = [] then (Inr (or_fresh dflt), W)
      else sbind (mount_loop mount_path bindings []) (\<lambda>routes.
        if length routes = 1 \<and> dflt = None then sret (Backend (snd (hd routes)))
        else sret (Composite (or_fresh dflt) routes)) W)"

text \<open>The dash of a line is the UTF-8 form of an em dash.\<close>

definition em_dash :: string where "em_dash = [CHR '' '', CHR 0xE2, CHR 0x80, CHR 0x94, CHR '' '']"

definition newline :: string where "newline = [CHR 0x0A]"

definition or_text :: "string \<Rightarrow> string \<Rightarrow> string" where "or_text x dflt = (if x = [] then dflt else x)"

definition mount_lines :: "string \<Rightarrow> string list \<Rightarrow> string" where
  "mount_lines header ls = (if ls = [] then [] else header @ newline @ join newline ls)"

definition fs_mount_description :: "(ResourceAddress \<Rightarrow> string) \<Rightarrow> string \<Rightarrow> ('s, 'i) ResourceRegistry \<Rightarrow> AgentAddress \<Rightarrow> string" where
  "fs_mount_description mount_path header R a = mount_lines header
     (map (\<lambda>b. ''- '' @ mount_path (rb_address b) @ em_dash @ or_text (rb_description b) (ra_name (rb_address b))) (matching_fs_bindings R a))"

definition fs_resource_addresses :: "('s, 'i) ResourceRegistry \<Rightarrow> AgentAddress \<Rightarrow> ResourceAddress list" where
  "fs_resource_addresses R a = map rb_address (matching_fs_bindings R a)"

section \<open>Invariant\<close>

definition resources_ok :: "('s, 'i) ResourceRegistry \<Rightarrow> bool" where
  "resources_ok R \<longleftrightarrow> catalog_ok (res_str \<circ> rb_address) (rr_bindings R) \<and> map fst (rr_instances R) = rr_order R
     \<and> distinct (rr_order R) \<and> set (rr_order R) \<subseteq> fst ` set (rr_bindings R)"

text \<open>What an access may change: it adds instances, in the order it constructs them.\<close>

definition extends :: "('s, 'i) ResourceRegistry \<Rightarrow> ('s, 'i) ResourceRegistry \<Rightarrow> bool" where
  "extends R R' \<longleftrightarrow> rr_bindings R' = rr_bindings R \<and> map_of (rr_instances R) \<subseteq>\<^sub>m map_of (rr_instances R')
     \<and> (\<exists>ks. rr_order R' = rr_order R @ ks)"

lemma extends_refl [simp]: "extends R R" by (simp add: extends_def)

lemma extends_trans: "extends R R' \<Longrightarrow> extends R' R'' \<Longrightarrow> extends R R''"
  by (auto simp: extends_def intro: map_le_trans)

definition resource_added :: "(string, ('s, 'i) ResourceBinding) dict \<Rightarrow> ('s, 'i) ResourceBinding \<Rightarrow> (string, ('s, 'i) ResourceBinding) dict \<Rightarrow> bool" where
  "resource_added d b d' \<longleftrightarrow> (\<exists>R R' f scope kind domain subdomain name description allowed_for cleanup.
     resource_register R f scope kind domain subdomain name description allowed_for cleanup = Inr (b, R')
     \<and> d = rr_bindings R \<and> d' = rr_bindings R')"

definition resource_visible :: "(string, ('s, 'i) ResourceBinding) dict \<Rightarrow> AgentAddress \<Rightarrow> string list option \<Rightarrow> ('s, 'i) ResourceBinding list" where
  "resource_visible d a ts = filter (\<lambda>b. pmatches (rb_allowed_for b) a \<and> tags_admit ts []) (map snd d)"

lemma resource_register_inv:
  assumes "resource_register R f scope kind domain subdomain name description allowed_for cleanup = Inr (b, R')"
  shows "map_of (rr_bindings R) (res_str (rb_address b)) = None"
    "R' = R\<lparr>rr_bindings := AList.update (res_str (rb_address b)) b (rr_bindings R)\<rparr>"
    "res_post_init (rb_address b) = Inr (rb_address b)"
  using assms by (clarsimp simp: resource_register_def Let_def rbind_eq_Inr res_post_init_def split: if_splits)+

interpretation resources: catalog "res_str \<circ> rb_address" rb_allowed_for "\<lambda>b. []" resource_added resource_visible
proof
  fix d d' :: "(string, ('s, 'i) ResourceBinding) dict" and b
  assume "resource_added d b d'"
  then obtain R R' f scope kind domain subdomain name description allowed_for cleanup
    where r: "resource_register R f scope kind domain subdomain name description allowed_for cleanup = Inr (b, R')"
      "d = rr_bindings R" "d' = rr_bindings R'"
    unfolding resource_added_def by blast
  from resource_register_inv(1,2) [OF r(1)] r(2,3)
  show "map_of d ((res_str \<circ> rb_address) b) = None" "d' = AList.update ((res_str \<circ> rb_address) b) b d" by simp_all
qed (simp add: resource_visible_def)

lemma resource_register_ok:
  assumes "resource_register R f scope kind domain subdomain name description allowed_for cleanup = Inr (b, R')" and "resources_ok R"
  shows "resources_ok R'"
proof -
  have "resource_added (rr_bindings R) b (rr_bindings R')" unfolding resource_added_def using assms(1) by blast
  with assms(2) have "catalog_ok (res_str \<circ> rb_address) (rr_bindings R')"
    using resources.added_ok by (auto simp: resources_ok_def)
  with assms(2) resource_register_inv(2) [OF assms(1)] show ?thesis
    by (auto simp: resources_ok_def dom_map_of_conv_image_fst [symmetric] update_conv')
qed

lemma resource_unregister_ok:
  assumes "resource_unregister R key = Inr (found, R')" and "resources_ok R"
  shows "resources_ok R'"
proof -
  have "key \<notin> fst ` set (rr_instances R)"
    using assms(1) by (auto simp: resource_unregister_def map_of_eq_None_iff split: if_splits)
  moreover have "rr_order R = map fst (rr_instances R)" using assms(2) by (simp add: resources_ok_def)
  ultimately have "key \<notin> set (rr_order R)" by simp
  then have "set (rr_order R) \<subseteq> fst ` set (AList.delete key (rr_bindings R))"
    using assms(2) delete_keys [of key "rr_bindings R"]
    by (auto simp: resources_ok_def set_removeAll simp flip: set_map)
  with assms show ?thesis
    by (auto simp: resource_unregister_def resources_ok_def catalog_ok_delete split: if_splits)
qed

lemma resource_get_run:
  assumes "resource_get key (R, s) = (r, (R', s'))" and "resources_ok R"
  shows "resources_ok R'" "extends R R'" "\<And>i. r = Inr i \<Longrightarrow> map_of (rr_instances R') key = Some i"
    "\<And>e. r = Inl e \<Longrightarrow> R' = R"
proof -
  have "resources_ok R' \<and> extends R R' \<and> (\<forall>i. r = Inr i \<longrightarrow> map_of (rr_instances R') key = Some i) \<and> (\<forall>e. r = Inl e \<longrightarrow> R' = R)"
  proof (cases "map_of (rr_instances R) key")
    case (Some i)
    with assms show ?thesis by (auto simp: resource_get_def)
  next
    case None
    show ?thesis
    proof (cases "\<exists>b i t. map_of (rr_bindings R) key = Some b \<and> rf_make (rb_factory b) s = (Inr i, t)")
      case True
      then obtain b i t where b: "map_of (rr_bindings R) key = Some b" "rf_make (rb_factory b) s = (Inr i, t)" by blast
      let ?R = "R\<lparr>rr_instances := rr_instances R @ [(key, i)], rr_order := rr_order R @ [key]\<rparr>"
      have fresh: "key \<notin> fst ` set (rr_instances R)" using None by (simp add: map_of_eq_None_iff)
      then have run: "r = Inr i" "R' = ?R" using assms(1) None b by (simp_all add: resource_get_def update_new)
      have inst: "map_of (rr_instances ?R) = (map_of (rr_instances R))(key \<mapsto> i)"
        using update_conv' [of key i "rr_instances R"] fresh by (simp add: update_new)
      have "key \<in> fst ` set (rr_bindings R)" using b(1) by (metis domI dom_map_of_conv_image_fst)
      moreover have "set (rr_order R) = fst ` set (rr_instances R)" using assms(2) by (metis resources_ok_def set_map)
      ultimately have "resources_ok ?R" using assms(2) fresh by (simp add: resources_ok_def)
      moreover have "extends R ?R" using None inst by (auto simp: extends_def map_le_def)
      ultimately show ?thesis using run inst by simp
    qed (use assms None in \<open>auto simp: resource_get_def split: option.splits prod.splits sum.splits\<close>)
  qed
  then show "resources_ok R'" "extends R R'" "\<And>i. r = Inr i \<Longrightarrow> map_of (rr_instances R') key = Some i"
    "\<And>e. r = Inl e \<Longrightarrow> R' = R" by blast+
qed

section \<open>The resources of an agent\<close>

definition constructible :: "('s, 'i) ResourceRegistry \<Rightarrow> bool" where
  "constructible R \<longleftrightarrow> (\<forall>(k, b) \<in> set (rr_bindings R). \<forall>s. \<not> isl (fst (rf_make (rb_factory b) s)))"

lemma resource_get_total:
  assumes "map_of (rr_bindings R) key = Some b" "constructible R" "resources_ok R"
  obtains i R' s' where "resource_get key (R, s) = (Inr i, (R', s'))" "resources_ok R'" "extends R R'" "map_of (rr_instances R') key = Some i"
proof -
  have "\<not> isl (fst (rf_make (rb_factory b) s))"
    using bspec [OF assms(2) [unfolded constructible_def] map_of_SomeD [OF assms(1)]] by simp
  then obtain i t where "rf_make (rb_factory b) s = (Inr i, t)"
    by (cases "rf_make (rb_factory b) s"; cases "fst (rf_make (rb_factory b) s)") auto
  with assms(1) have "\<exists>j R' s'. resource_get key (R, s) = (Inr j, (R', s'))"
    by (cases "map_of (rr_instances R) key") (auto simp: resource_get_def)
  then obtain j R' s' where g: "resource_get key (R, s) = (Inr j, (R', s'))" by blast
  from resource_get_run [OF g assms(3)] g that show thesis by blast
qed

lemma constructible_extends: "extends R R' \<Longrightarrow> constructible R' \<longleftrightarrow> constructible R"
  by (simp add: extends_def constructible_def)

abbreviation short :: "('s, 'i) ResourceBinding \<Rightarrow> string" where "short b \<equiv> ra_name (rb_address b)"
abbreviation res_key :: "('s, 'i) ResourceBinding \<Rightarrow> string" where "res_key b \<equiv> res_str (rb_address b)"

abbreviation seen_by :: "AgentAddress \<Rightarrow> ('s, 'i) ResourceBinding list \<Rightarrow> ('s, 'i) ResourceBinding list" where
  "seen_by a bs \<equiv> filter (\<lambda>b. pmatches (rb_allowed_for b) a) bs"

text \<open>What \<open>claim_names\<close> needs to know of its arguments to go on.\<close>

definition claimable :: "('s, 'i) ResourceRegistry \<Rightarrow> ('s, 'i) ResourceBinding list \<Rightarrow> (string, ResourceAddress) dict \<Rightarrow> bool" where
  "claimable R bs provenance \<longleftrightarrow> resources_ok R \<and> constructible R \<and> (\<forall>b\<in>set bs. map_of (rr_bindings R) (res_key b) = Some b)
     \<and> distinct (map rb_address bs) \<and> (\<forall>b\<in>set bs. rb_address b \<notin> snd ` set provenance)"

lemma claimable_tl: "claimable R (b # bs) provenance \<Longrightarrow> claimable R bs provenance"
  by (simp add: claimable_def)

lemma claim_step:
  assumes "claimable R (b # bs) provenance" "pmatches (rb_allowed_for b) a" "short b \<notin> fst ` set provenance"
  obtains i R1 s1 where "claim_names a (b # bs) provenance out (R, s) =
        claim_names a bs (AList.update (short b) (rb_address b) provenance) (AList.update (short b) i out) (R1, s1)"
    "claimable R1 bs (AList.update (short b) (rb_address b) provenance)" "extends R R1" "map_of (rr_instances R1) (res_key b) = Some i"
proof -
  have fresh: "map_of provenance (short b) = None" using assms(3) by (simp add: map_of_eq_None_iff)
  have "map_of (rr_bindings R) (res_key b) = Some b" "constructible R" "resources_ok R"
    using assms(1) by (simp_all add: claimable_def)
  then obtain i R1 s1 where g: "resource_get (res_key b) (R, s) = (Inr i, (R1, s1))"
    "resources_ok R1" "extends R R1" "map_of (rr_instances R1) (res_key b) = Some i" by (rule resource_get_total)
  let ?prov = "AList.update (short b) (rb_address b) provenance"
  have "rr_bindings R1 = rr_bindings R" using g(3) by (simp add: extends_def)
  moreover have "rb_address c \<notin> snd ` set ?prov" if c: "c \<in> set bs" for c
  proof -
    have "rb_address b \<notin> rb_address ` set bs" using assms(1) by (simp add: claimable_def)
    then have "rb_address c \<noteq> rb_address b" using imageI [OF c, of rb_address] by metis
    moreover have "rb_address c \<notin> snd ` set provenance" using assms(1) c by (simp add: claimable_def)
    ultimately show ?thesis by (simp add: update_new [OF assms(3)])
  qed
  moreover have "constructible R1" using assms(1) g(3) by (simp add: claimable_def constructible_extends)
  ultimately have cl: "claimable R1 bs ?prov" using assms(1) g(2) by (simp add: claimable_def)
  have eq: "claim_names a (b # bs) provenance out (R, s) = claim_names a bs ?prov (AList.update (short b) i out) (R1, s1)"
    using assms(2) fresh g(1) by (simp add: Let_def sbind_def)
  show thesis by (rule that [OF eq cl g(3,4)])
qed

lemma claim_names_distinct:
  assumes "claimable R bs provenance" "distinct (map short (seen_by a bs))"
    "set (map short (seen_by a bs)) \<inter> fst ` set provenance = {}" "fst ` set out = fst ` set provenance"
  shows "\<exists>out' R' s'. claim_names a bs provenance out (R, s) = (Inr out', (R', s')) \<and> resources_ok R' \<and> extends R R'
    \<and> map fst out' = map fst out @ map short (seen_by a bs)
    \<and> (\<forall>n. n \<notin> set (map short (seen_by a bs)) \<longrightarrow> map_of out' n = map_of out n)
    \<and> (\<forall>v\<in>set (seen_by a bs). \<exists>i. map_of out' (short v) = Some i \<and> map_of (rr_instances R') (res_key v) = Some i)"
  using assms
proof (induction bs arbitrary: provenance out R s)
  case Nil
  then show ?case by (intro exI [of _ out] exI [of _ R] exI [of _ s]) (simp add: claimable_def)
next
  case (Cons b bs)
  show ?case
  proof (cases "pmatches (rb_allowed_for b) a")
    case False
    then have c: "claim_names a (b # bs) provenance out (R, s) = claim_names a bs provenance out (R, s)"
      and f: "seen_by a (b # bs) = seen_by a bs" by simp_all
    show ?thesis unfolding c f
      by (rule Cons.IH [OF claimable_tl [OF Cons.prems(1)] Cons.prems(2-4) [unfolded f]])
  next
    case True
    let ?ns = "map short (seen_by a bs)" and ?prov = "AList.update (short b) (rb_address b) provenance"
    from True Cons.prems(2,3) have names: "distinct ?ns" "short b \<notin> set ?ns" "set ?ns \<inter> fst ` set provenance = {}"
      and new: "short b \<notin> fst ` set provenance" by auto
    obtain i R1 s1 where step: "claim_names a (b # bs) provenance out (R, s) = claim_names a bs ?prov (AList.update (short b) i out) (R1, s1)"
      "claimable R1 bs ?prov" "extends R R1" "map_of (rr_instances R1) (res_key b) = Some i"
      by (rule claim_step [OF Cons.prems(1) True new])
    let ?out = "AList.update (short b) i out"
    have outs: "?out = out @ [(short b, i)]" "?prov = provenance @ [(short b, rb_address b)]"
      using new Cons.prems(4) by (simp_all add: update_new)
    have "set ?ns \<inter> fst ` set ?prov = {}" "fst ` set ?out = fst ` set ?prov"
      using names(2,3) Cons.prems(4) by (simp_all add: outs)
    from Cons.IH [OF step(2) names(1) this, of s1] obtain out' R' s'
      where ih: "claim_names a bs ?prov ?out (R1, s1) = (Inr out', (R', s'))" "resources_ok R'" "extends R1 R'"
        "map fst out' = map fst ?out @ ?ns" "\<forall>n. n \<notin> set ?ns \<longrightarrow> map_of out' n = map_of ?out n"
        "\<forall>v\<in>set (seen_by a bs). \<exists>i. map_of out' (short v) = Some i \<and> map_of (rr_instances R') (res_key v) = Some i" by blast
    have "map_of out' (short b) = Some i" using ih(5) names(2) by (simp add: update_conv')
    moreover have "map_of (rr_instances R') (res_key b) = Some i"
      using ih(3) step(4) by (auto simp: extends_def map_le_def dom_def)
    moreover have "extends R R'" using step(3) ih(3) by (rule extends_trans)
    moreover have "map fst out' = map fst out @ map short (seen_by a (b # bs))" using ih(4) True by (simp add: outs(1))
    moreover have "map_of out' n = map_of out n" if "n \<notin> set (map short (seen_by a (b # bs)))" for n
      using that ih(5) True by (simp add: update_conv')
    moreover have "claim_names a (b # bs) provenance out (R, s) = (Inr out', (R', s'))" using step(1) ih(1) by simp
    ultimately show ?thesis using ih(2,6) True
      by (intro exI [of _ out'] exI [of _ R'] exI [of _ s']) simp
  qed
qed

lemma claim_names_clash:
  assumes "claimable R bs provenance"
    "\<not> (distinct (map short (seen_by a bs)) \<and> set (map short (seen_by a bs)) \<inter> fst ` set provenance = {})"
  shows "\<exists>R' s'. claim_names a bs provenance out (R, s) = (Inl ResourceNameCollisionError, (R', s')) \<and> extends R R'"
  using assms
proof (induction bs arbitrary: provenance out R s)
  case (Cons b bs)
  show ?case
  proof (cases "pmatches (rb_allowed_for b) a")
    case False
    then have c: "claim_names a (b # bs) provenance out (R, s) = claim_names a bs provenance out (R, s)"
      and f: "seen_by a (b # bs) = seen_by a bs" by simp_all
    show ?thesis unfolding c by (rule Cons.IH [OF claimable_tl [OF Cons.prems(1)] Cons.prems(2) [unfolded f]])
  next
    case vis: True
    show ?thesis
    proof (cases "short b \<in> fst ` set provenance")
      case True
      then obtain p where p: "map_of provenance (short b) = Some p" "p \<in> snd ` set provenance"
        by (metis map_of_SomeD imageI prod.sel(2) map_of_eq_None_iff not_None_eq)
      moreover have "rb_address b \<notin> snd ` set provenance" using Cons.prems(1) by (simp add: claimable_def)
      ultimately have "p \<noteq> rb_address b" by metis
      then show ?thesis using vis p(1) by (simp add: Let_def)
    next
      case False
      obtain i R1 s1 where step: "claim_names a (b # bs) provenance out (R, s) =
          claim_names a bs (AList.update (short b) (rb_address b) provenance) (AList.update (short b) i out) (R1, s1)"
        "claimable R1 bs (AList.update (short b) (rb_address b) provenance)" "extends R R1" "map_of (rr_instances R1) (res_key b) = Some i"
        by (rule claim_step [OF Cons.prems(1) vis False])
      have "\<not> (distinct (map short (seen_by a bs)) \<and>
          set (map short (seen_by a bs)) \<inter> fst ` set (AList.update (short b) (rb_address b) provenance) = {})"
        using Cons.prems(2) vis False by (auto simp: update_new)
      from Cons.IH [OF step(2) this, of "AList.update (short b) i out" s1] obtain R' s'
        where "claim_names a bs (AList.update (short b) (rb_address b) provenance) (AList.update (short b) i out) (R1, s1)
            = (Inl ResourceNameCollisionError, (R', s'))" "extends R1 R'" by blast
      with step(1,3) show ?thesis by (intro exI [of _ R'] exI [of _ s'] conjI) (simp only:, rule extends_trans)
    qed
  qed
qed (simp add: claimable_def)

text \<open>What no factory changes in the world outside, no access changes.\<close>

definition factories_keep :: "('s \<Rightarrow> 'x) \<Rightarrow> ('s, 'i) ResourceRegistry \<Rightarrow> bool" where
  "factories_keep I R \<longleftrightarrow> (\<forall>(k, b)\<in>set (rr_bindings R). \<forall>s. I (snd (rf_make (rb_factory b) s)) = I s)"

lemma resource_get_keeps:
  assumes "resource_get key (R, s) = (r, (R', s'))" "factories_keep I R"
  shows "rr_bindings R' = rr_bindings R \<and> I s' = I s"
proof (cases "\<exists>b. map_of (rr_instances R) key = None \<and> map_of (rr_bindings R) key = Some b")
  case True
  then obtain b where b: "map_of (rr_instances R) key = None" "map_of (rr_bindings R) key = Some b" by blast
  have "I (snd (rf_make (rb_factory b) s)) = I s"
    using bspec [OF assms(2) [unfolded factories_keep_def] map_of_SomeD [OF b(2)]] by simp
  moreover obtain x t where "rf_make (rb_factory b) s = (x, t)" by (metis prod.collapse)
  ultimately show ?thesis using assms(1) b by (cases x) (auto simp: resource_get_def)
next
  case False
  then have "(R', s') = (R, s)" using assms(1) by (simp add: resource_get_def split: option.splits)
  then show ?thesis by simp
qed

lemma claim_names_keeps:
  "claim_names a bs provenance out (R, s) = (r, (R', s')) \<Longrightarrow> factories_keep I R \<Longrightarrow> rr_bindings R' = rr_bindings R \<and> I s' = I s"
proof (induction bs arbitrary: provenance out R s)
  case (Cons b bs)
  define clash where "clash \<longleftrightarrow> (case map_of provenance (ra_name (rb_address b)) of None \<Rightarrow> False | Some p \<Rightarrow> p \<noteq> rb_address b)"
  let ?prov = "AList.update (ra_name (rb_address b)) (rb_address b) provenance"
  consider "\<not> pmatches (rb_allowed_for b) a" | "pmatches (rb_allowed_for b) a" clash | "pmatches (rb_allowed_for b) a" "\<not> clash" by blast
  then show ?case
  proof cases
    case 1
    then have "claim_names a bs provenance out (R, s) = (r, (R', s'))" using Cons.prems(1) by simp
    then show ?thesis using Cons.prems(2) by (rule Cons.IH)
  next
    case 2
    then have "(R, s) = (R', s')" using Cons.prems(1) unfolding claim_names.simps Let_def clash_def [symmetric] by simp
    then show ?thesis by simp
  next
    case 3
    obtain x R1 s1 where g: "resource_get (res_str (rb_address b)) (R, s) = (x, (R1, s1))" by (metis prod.collapse)
    note keep = resource_get_keeps [OF g Cons.prems(2)]
    have step: "sbind (resource_get (res_str (rb_address b))) (\<lambda>i. claim_names a bs ?prov (AList.update (ra_name (rb_address b)) i out)) (R, s)
        = (r, (R', s'))"
      using Cons.prems(1) 3 unfolding claim_names.simps Let_def clash_def [symmetric] by simp
    show ?thesis
    proof (cases x)
      case (Inl e)
      with step g keep show ?thesis by (simp add: sbind_def)
    next
      case (Inr i)
      with step g have "claim_names a bs ?prov (AList.update (ra_name (rb_address b)) i out) (R1, s1) = (r, (R', s'))" by (simp add: sbind_def)
      moreover have "factories_keep I R1" using keep Cons.prems(2) by (simp add: factories_keep_def)
      ultimately have "rr_bindings R' = rr_bindings R1 \<and> I s' = I s1" by (rule Cons.IH)
      with keep show ?thesis by simp
    qed
  qed
next
  case Nil
  then show ?case by (auto simp del: split_paired_all)
qed

section \<open>The order of teardown\<close>

text \<open>The clean-ups due, last constructed first, and running them all whatever they raise.\<close>

definition cleanup_of :: "('s, 'i) ResourceRegistry \<Rightarrow> string \<times> 'i option \<Rightarrow> ('s, unit) op list" where
  "cleanup_of R = (\<lambda>(key, i).
     case (map_of (rr_bindings R) key, i) of
       (Some b, Some x) \<Rightarrow> (case rb_cleanup b of None \<Rightarrow> [] | Some c \<Rightarrow> [c x])
     | _ \<Rightarrow> [])"

fun run_all :: "('s, unit) op list \<Rightarrow> 's \<Rightarrow> pyexc list \<times> 's" where
  "run_all [] s = ([], s)"
| "run_all (f # fs) s =
     (case f s of
        (Inl e, t) \<Rightarrow> (case run_all fs t of (es, u) \<Rightarrow> (e # es, u))
      | (Inr _, t) \<Rightarrow> run_all fs t)"

definition first_of :: "pyexc option \<Rightarrow> pyexc list \<Rightarrow> pyexc option" where
  "first_of e es = (case e of Some x \<Rightarrow> Some x | None \<Rightarrow> (case es of [] \<Rightarrow> None | x # _ \<Rightarrow> Some x))"

lemma close_loop_runs_all:
  assumes "\<forall>(k, i)\<in>set ps. map_of (rr_instances R) k = Some i"
  shows "close_loop R (map fst ps) e s = (case run_all (concat (map (cleanup_of R) ps)) s of (es, t) \<Rightarrow> (first_of e es, t))"
  using assms
proof (induction ps arbitrary: e s)
  case Nil
  then show ?case by (cases e) (simp_all add: first_of_def)
next
  case (Cons p ps)
  obtain k i where p: "p = (k, i)" by (cases p)
  have ih: "close_loop R (map fst ps) e s = (case run_all (concat (map (cleanup_of R) ps)) s of (es, t) \<Rightarrow> (first_of e es, t))" for e s
    using Cons.prems by (intro Cons.IH) simp
  have "map_of (rr_instances R) k = Some i" using Cons.prems p by simp
  then show ?case
    by (auto simp: p ih cleanup_of_def first_of_def split: option.splits prod.splits sum.splits list.splits)
qed

section \<open>Properties\<close>

lemma resource_get_twice:
  assumes "resources_ok R" "resource_get key (R, s) = (Inr i, (R', s'))"
  shows "resource_get key (R', t) = (Inr i, (R', t)) \<and> resource_unregister R' key = Inl RuntimeError"
  using resource_get_run(3) [OF assms(2,1)] by (simp add: resource_get_def resource_unregister_def)

text \<open>The resources of an agent are unambiguous: when no factory raises, an agent is given the resources its address
  admits under their short names, each name the one shared instance of its address, in registration order; and if and
  only if two of them share a short name the collision is raised instead. Access constructs at most one instance per
  address and the registry stays well-formed.\<close>

lemma resources_for_agent:
  assumes "resources_ok R" and "constructible R"
  shows "let vs = resource_visible (rr_bindings R) a None in
    if distinct (map short vs)
    then \<exists>out R' s'. resources_for a (R, s) = (Inr out, (R', s')) \<and> resources_ok R' \<and> extends R R' \<and> map fst out = map short vs
      \<and> list_all (\<lambda>v. map_of out (short v) \<noteq> None \<and> map_of out (short v) = map_of (rr_instances R') (res_key v)) vs
    else \<exists>R' s'. resources_for a (R, s) = (Inl ResourceNameCollisionError, (R', s'))"
proof -
  let ?bs = "map snd (rr_bindings R)"
  have vs: "resource_visible (rr_bindings R) a None = seen_by a ?bs" by (simp add: resource_visible_def tags_admit_def)
  have cat: "catalog_ok (res_str \<circ> rb_address) (rr_bindings R)" using assms(1) by (simp add: resources_ok_def)
  then have keys: "map (res_str \<circ> rb_address) ?bs = map fst (rr_bindings R)"
    by (auto simp: catalog_ok_def list_all_iff)
  then have "distinct (map (res_str \<circ> rb_address) ?bs)" using cat unfolding catalog_ok_def by (simp only:)
  then have "distinct (map res_str (map rb_address ?bs))" by (simp only: map_map comp_assoc)
  then have "distinct (map rb_address ?bs)" unfolding distinct_map by blast
  moreover have "map_of (rr_bindings R) (res_key b) = Some b" if "b \<in> set ?bs" for b
    using that cat by (auto simp: catalog_ok_def list_all_iff)
  ultimately have cl: "claimable R ?bs []" using assms by (simp add: claimable_def)
  show ?thesis
  proof (cases "distinct (map short (seen_by a ?bs))")
    case True
    from claim_names_distinct [OF cl True, of "[]" s] obtain out R' s'
      where r: "claim_names a ?bs [] [] (R, s) = (Inr out, (R', s'))" "resources_ok R'" "extends R R'"
        "map fst out = map short (seen_by a ?bs)"
        and found: "\<forall>v\<in>set (seen_by a ?bs). \<exists>i. map_of out (short v) = Some i \<and> map_of (rr_instances R') (res_key v) = Some i"
      by auto
    from found have "list_all (\<lambda>v. map_of out (short v) \<noteq> None \<and> map_of out (short v) = map_of (rr_instances R') (res_key v)) (seen_by a ?bs)"
      unfolding list_all_iff by (metis option.distinct(1))
    with r show ?thesis unfolding Let_def vs if_P [OF True] by (auto simp: resources_for_def)
  next
    case False
    from claim_names_clash [OF cl, of a "[]" s] False show ?thesis
      unfolding Let_def vs by (auto simp: resources_for_def)
  qed
qed

definition sample_resource :: "string \<Rightarrow> string \<Rightarrow> (string list, nat) ResourceBinding" where
  "sample_resource name domain =
     (let f = \<lparr>rf_name = Some name, rf_make = (\<lambda>s. (Inr (Some (length s)), (''open '' @ name) # s)), rf_is_class = False,
            rf_aclose = None, rf_close = None\<rparr>;
          r = \<lparr>ra_scope = ''acme'', ra_kind = ''kv'', ra_domain = domain, ra_subdomain = ''*'', ra_name = name\<rparr>
      in \<lparr>rb_address = r, rb_factory = f,
            rb_cleanup = Some (\<lambda>i s. (if i = 0 then Inr () else Inl RuntimeError, (''close '' @ name) # s)),
            rb_allowed_for = projr (res_allowed_for r), rb_description = []\<rparr>)"

definition sample_resources :: "(string list, nat) ResourceRegistry" where
  "sample_resources = new_resources\<lparr>rr_bindings :=
     map (\<lambda>b. (res_key b, b)) [sample_resource ''a'' ''nlp'', sample_resource ''b'' ''nlp'', sample_resource ''a'' ''law'']\<rparr>"

lemma sample_resources_ok: "resources_ok sample_resources" "constructible sample_resources"
proof -
  have "distinct (map fst (rr_bindings sample_resources))" by code_simp
  then show "resources_ok sample_resources"
    by (auto simp: resources_ok_def catalog_ok_def sample_resources_def new_resources_def)
  show "constructible sample_resources"
    by (simp add: constructible_def sample_resources_def sample_resource_def Let_def)
qed

lemma resources_for_agent_witness:
  "\<exists>out R' s'. resources_for (sample_address ''i1'') (sample_resources, []) = (Inr out, (R', s')) \<and> map fst out = [''a'', ''b'']"
proof -
  have "distinct (map short (resource_visible (rr_bindings sample_resources) (sample_address ''i1'') None))"
    "map short (resource_visible (rr_bindings sample_resources) (sample_address ''i1'') None) = [''a'', ''b'']" by code_simp+
  then show ?thesis
    using resources_for_agent [OF sample_resources_ok, of "sample_address ''i1''" "[]"] by (auto simp: Let_def)
qed

text \<open>C18: Teardown runs every clean-up exactly once, in the reverse order of construction, whatever the others raise:
  \<open>close_all\<close> is equivalent to running the clean-ups of all live instances from the last constructed to the first,
  then forgetting every instance, and it raises the first error there was, or none.\<close>

theorem teardown_in_reverse_order:
  assumes "resources_ok R"
  shows "close_all (R, s) = (case run_all (concat (map (cleanup_of R) (rev (rr_instances R)))) s of
     (es, t) \<Rightarrow> (case es of [] \<Rightarrow> Inr () | e # _ \<Rightarrow> Inl e, (R\<lparr>rr_instances := [], rr_order := []\<rparr>, t)))"
proof -
  have inst: "map fst (rr_instances R) = rr_order R" "is_dict (rr_instances R)"
    using assms by (simp_all add: resources_ok_def)
  then have "rev (rr_order R) = map fst (rev (rr_instances R))" by (metis rev_map)
  moreover have "\<forall>(k, i)\<in>set (rev (rr_instances R)). map_of (rr_instances R) k = Some i" using inst(2) by auto
  ultimately show ?thesis
    using close_loop_runs_all [of "rev (rr_instances R)" R None s]
    by (auto simp: close_all_def first_of_def split: prod.splits list.splits)
qed

definition live_resources :: "(string list, nat) ResourceRegistry" where
  "live_resources = fst (snd (resources_for (sample_address ''i1'') (sample_resources, [])))"

theorem teardown_in_reverse_order_witness:
  "close_all (live_resources, []) = (Inl RuntimeError, (live_resources\<lparr>rr_instances := [], rr_order := []\<rparr>, [''close a'', ''close b'']))"
proof -
  obtain out R' s' where r: "resources_for (sample_address ''i1'') (sample_resources, []) = (Inr out, (R', s'))" "resources_ok R'"
  proof -
    have "distinct (map short (resource_visible (rr_bindings sample_resources) (sample_address ''i1'') None))" by code_simp
    then show thesis
      using that resources_for_agent [OF sample_resources_ok, of "sample_address ''i1''" "[]"] by (auto simp: Let_def)
  qed
  then have "resources_ok live_resources" by (simp add: live_resources_def)
  moreover have "run_all (concat (map (cleanup_of live_resources) (rev (rr_instances live_resources)))) [] = ([RuntimeError], [''close a'', ''close b''])"
    by code_simp
  ultimately show ?thesis using teardown_in_reverse_order [of live_resources "[]"] by simp
qed

end
