(* ===== verification/Inviter.thy ===== *)
theory Inviter
  imports Json ComputeMenu
begin

text \<open>
  \<open>ahp/adapters/inviter.py\<close>: a slate of personas from a language model. The model is an argument,
  a function of the prompt that acts on the world outside and may raise; \<open>why\<close> is the message of the
  error a reply was refused with, which the next prompt quotes.
\<close>

section \<open>Reading a reply\<close>

record AgentInvitation =
  iv_slug :: string
  iv_system :: string

text \<open>From after an opening brace to the first closing brace with a fence behind it.\<close>

fun upto_fence :: "string \<Rightarrow> string option" where
  "upto_fence [] = None"
| "upto_fence (c # cs) =
     (if c = CHR ''}'' \<and> startswith (lstrip cs) ''```'' then Some [c] else map_option ((#) c) (upto_fence cs))"

definition fence_at :: "string \<Rightarrow> string option" where
  "fence_at s =
     (if \<not> startswith s ''```'' then None
      else let r = drop 3 s; r = lstrip (if startswith r ''json'' then drop 4 r else r) in
        case r of [] \<Rightarrow> None | c # cs \<Rightarrow> if c = CHR ''{'' then map_option ((#) c) (upto_fence cs) else None)"

fun fenced :: "string \<Rightarrow> string option" where
  "fenced [] = None"
| "fenced (c # cs) = (case fence_at (c # cs) of Some b \<Rightarrow> Some b | None \<Rightarrow> fenced cs)"

text \<open>From the first opening brace to the last closing one.\<close>

definition braces :: "string \<Rightarrow> string option" where
  "braces s =
     (let tail = dropWhile (\<lambda>c. c \<noteq> CHR ''{'') s; body = rev (dropWhile (\<lambda>c. c \<noteq> CHR ''}'') (rev tail))
      in if body = [] then None else Some body)"

definition extract_json :: "string \<Rightarrow> string res" where
  "extract_json text =
     (let s = strip text in
      if startswith s ''{'' then Inr s
      else (case fenced s of Some b \<Rightarrow> Inr b
            | None \<Rightarrow> (case braces s of Some b \<Rightarrow> Inr b | None \<Rightarrow> Inl SlateError)))"

text \<open>\<open>_SLUG_RE\<close>.\<close>

definition slug_ok :: "string \<Rightarrow> bool" where
  "slug_ok s \<longleftrightarrow> slug_match ''-'' s \<and> length (drop_final_newline s) \<le> 48"

fun slate_items :: "pyval list \<Rightarrow> string list \<Rightarrow> AgentInvitation list \<Rightarrow> AgentInvitation list res" where
  "slate_items [] seen out = Inr out"
| "slate_items (v # vs) seen out =
     (case v of
        PDict d \<Rightarrow>
          (case dict_get d ''slug'' PNone of
             PStr slug \<Rightarrow>
               if \<not> slug_ok slug then Inl SlateError
               else if slug \<in> set seen then Inl SlateError
               else (case dict_get d ''system'' PNone of
                  PStr system \<Rightarrow>
                    if strip system = [] then Inl SlateError
                    else slate_items vs (slug # seen) (out @ [\<lparr>iv_slug = slug, iv_system = strip system\<rparr>])
                | _ \<Rightarrow> Inl SlateError)
           | _ \<Rightarrow> Inl SlateError)
      | _ \<Rightarrow> Inl SlateError)"

definition parse_slate :: "string \<Rightarrow> int \<Rightarrow> AgentInvitation list res" where
  "parse_slate text expected =
     rbind (extract_json text) (\<lambda>raw.
     case json_loads raw of
       Inl e \<Rightarrow> if e = ValueError then Inl SlateError else Inl e
     | Inr data \<Rightarrow>
         (case (case data of PDict d \<Rightarrow> dict_get d ''agents'' PNone | _ \<Rightarrow> PNone) of
            PList agents \<Rightarrow> if int (length agents) \<noteq> expected then Inl SlateError else slate_items agents [] []
          | _ \<Rightarrow> Inl SlateError))"

section \<open>The prompts\<close>

text \<open>Literals write a double quote as a tilde, a backslash as a caret and a line break as a bar.\<close>

definition lit :: "string \<Rightarrow> string" where
  "lit t = map (\<lambda>c. if c = CHR ''~'' then CHR 0x22 else if c = CHR ''^'' then CHR 0x5C else if c = CHR ''|'' then CHR 0x0A else c) t"

definition int_text :: "int \<Rightarrow> string" where
  "int_text n = (if n < 0 then ''-'' @ decimal (nat (- n)) else decimal (nat n))"

definition build_prompt :: "string \<Rightarrow> string \<Rightarrow> string \<Rightarrow> int \<Rightarrow> string option \<Rightarrow> string" where
  "build_prompt domain subdomain topic n_agents mode_hint =
     (let usage = (if or_default mode_hint [] = [] then [] else '' They will participate in '' @ or_default mode_hint [] @ ''.'')
      in ''You are curating a panel of '' @ int_text n_agents @ '' experts from the field of ''
       @ domain @ '' / '' @ subdomain @ ''.'' @ usage @ lit ''||TOPIC: '' @ topic
       @ lit ''||Return exactly '' @ int_text n_agents @ '' distinct, well-known perspectives a real community of '' @ subdomain
       @ '' specialists holds on this topic. Each perspective should be substantive and clearly differ from the others.''
       @ lit ''||Output STRICT JSON only (no prose, no markdown fences). Schema:|{|  ~agents~: [|    {~slug~: ~kebab-case-short-label~,|     ~system~: ~First-person system prompt that puts the model in this perspective. 1-2 sentences. Start with ^~You hold ...^~ or ^~You argue ...^~.~}|  ]|}||Constraints: slugs must be unique, lowercase, kebab-case, <= 48 chars. system prompts must not include the topic verbatim; they describe the *stance*, not the question.'')"

definition tighten_prompt :: "string \<Rightarrow> string \<Rightarrow> string" where
  "tighten_prompt prior error = prior @ lit ''||Your previous reply could not be parsed: '' @ error
     @ lit ''|Return STRICT JSON only. No prose. No code fences. No commentary.''"

section \<open>The retry loop\<close>

fun invite_attempts :: "nat \<Rightarrow> (string \<Rightarrow> ('s, string) op) \<Rightarrow> (string \<Rightarrow> string) \<Rightarrow> int \<Rightarrow> string \<Rightarrow> bool \<Rightarrow> ('s, AgentInvitation list) op" where
  "invite_attempts 0 ask why n_agents prompt failed s = (Inl (if failed then RuntimeError else AssertionError), s)"
| "invite_attempts (Suc n) ask why n_agents prompt failed s =
     (case ask prompt s of
        (Inl e, t) \<Rightarrow> (Inl e, t)
      | (Inr text, t) \<Rightarrow>
          (case parse_slate text n_agents of
             Inr slate \<Rightarrow> (Inr slate, t)
           | Inl e \<Rightarrow> if e = SlateError then invite_attempts n ask why n_agents (tighten_prompt prompt (why text)) True t else (Inl e, t)))"

definition inviter_invite :: "(string \<Rightarrow> ('s, string) op) \<Rightarrow> (string \<Rightarrow> string) \<Rightarrow> int \<Rightarrow> string \<Rightarrow> string \<Rightarrow> string \<Rightarrow> int \<Rightarrow> string option \<Rightarrow>
    ('s, AgentInvitation list) op" where
  "inviter_invite ask why max_retries domain subdomain topic n_agents mode_hint s =
     (if n_agents \<le> 0 then (Inl ValueError, s)
      else invite_attempts (nat (max_retries + 1)) ask why n_agents (build_prompt domain subdomain topic n_agents mode_hint) False s)"

section \<open>Facts\<close>

definition slate_ok :: "int \<Rightarrow> AgentInvitation list \<Rightarrow> bool" where
  "slate_ok n slate \<longleftrightarrow> int (length slate) = n \<and> distinct (map iv_slug slate)
     \<and> list_all (\<lambda>i. slug_ok (iv_slug i) \<and> iv_system i \<noteq> [] \<and> strip (iv_system i) = iv_system i) slate"

lemma strip_strip: "strip (strip s) = strip s"
proof (rule strip_id)
  assume ne: "strip s \<noteq> []"
  define l where "l = dropWhile is_space s"
  have s: "strip s = rev (dropWhile is_space (rev l))" by (simp add: strip_def lstrip_def l_def)
  have "dropWhile is_space (rev l) \<noteq> []" using ne s by simp
  then have "\<not> is_space (hd (dropWhile is_space (rev l)))" by (rule hd_dropWhile)
  then have "\<not> is_space (last (strip s))" by (simp add: s last_rev)
  moreover obtain pre where "strip s = rev pre" "suffix pre (rev l)" using s suffix_dropWhile by blast
  then have p: "prefix (strip s) l" by (simp add: suffix_to_prefix)
  then have "hd (strip s) = hd l" using ne by (auto simp: prefix_def)
  moreover have "l \<noteq> []" using p ne by auto
  then have "\<not> is_space (hd l)" unfolding l_def by (rule hd_dropWhile)
  ultimately show "\<not> is_space (hd (strip s)) \<and> \<not> is_space (last (strip s))" by simp
qed

lemma slate_items_sound:
  assumes "slate_items items seen out = Inr slate"
  shows "\<exists>new. slate = out @ new \<and> length new = length items \<and> distinct (map iv_slug new) \<and> set (map iv_slug new) \<inter> set seen = {}
    \<and> list_all (\<lambda>i. slug_ok (iv_slug i) \<and> iv_system i \<noteq> [] \<and> strip (iv_system i) = iv_system i) new"
  using assms
proof (induction items seen out rule: slate_items.induct)
  case (2 v vs seen out)
  then obtain d slug system where v: "v = PDict d" "dict_get d ''slug'' PNone = PStr slug" "dict_get d ''system'' PNone = PStr system"
    "slug_ok slug" "slug \<notin> set seen" "strip system \<noteq> []"
    by (auto split: pyval.splits if_splits)
  then have run: "slate_items vs (slug # seen) (out @ [\<lparr>iv_slug = slug, iv_system = strip system\<rparr>]) = Inr slate"
    using "2.prems" by simp
  have "\<exists>new. slate = (out @ [\<lparr>iv_slug = slug, iv_system = strip system\<rparr>]) @ new \<and> length new = length vs \<and> distinct (map iv_slug new)
      \<and> set (map iv_slug new) \<inter> set (slug # seen) = {}
      \<and> list_all (\<lambda>i. slug_ok (iv_slug i) \<and> iv_system i \<noteq> [] \<and> strip (iv_system i) = iv_system i) new"
    by (rule "2.IH") (use v run in simp_all)
  then obtain new where "slate = (out @ [\<lparr>iv_slug = slug, iv_system = strip system\<rparr>]) @ new" "length new = length vs"
    "distinct (map iv_slug new)" "set (map iv_slug new) \<inter> set (slug # seen) = {}"
    "list_all (\<lambda>i. slug_ok (iv_slug i) \<and> iv_system i \<noteq> [] \<and> strip (iv_system i) = iv_system i) new" by blast
  with v show ?case
    by (intro exI [of _ "\<lparr>iv_slug = slug, iv_system = strip system\<rparr> # new"]) (auto simp: strip_strip)
qed simp

lemma parse_slate_sound:
  assumes "parse_slate txt n = Inr slate" shows "slate_ok n slate"
proof -
  obtain agents where a: "int (length agents) = n" "slate_items agents [] [] = Inr slate"
    using assms by (auto simp: parse_slate_def rbind_def split: sum.splits pyval.splits if_splits)
  from slate_items_sound [OF a(2)] a(1) show ?thesis by (auto simp: slate_ok_def)
qed

text \<open>The model with a counter of its calls.\<close>

definition counted :: "(string \<Rightarrow> ('s, string) op) \<Rightarrow> string \<Rightarrow> (nat \<times> 's, string) op" where
  "counted ask prompt = (\<lambda>(k, s). case ask prompt s of (r, t) \<Rightarrow> (r, (Suc k, t)))"

lemma counted_run: "counted ask prompt (k, s) = (fst (ask prompt s), (Suc k, snd (ask prompt s)))"
  by (simp add: counted_def split: prod.split)

lemma attempts_bounded:
  assumes "invite_attempts n (counted ask) why n_agents prompt failed (k, s) = (r, (k', t))"
  shows "k' \<le> k + n \<and> k \<le> k' \<and> (0 < n \<longrightarrow> k < k') \<and> (\<forall>slate. r = Inr slate \<longrightarrow> slate_ok n_agents slate)"
  using assms
proof (induction n arbitrary: prompt failed k s)
  case (Suc n)
  obtain x u where a: "ask prompt s = (x, u)" by (cases "ask prompt s")
  show ?case
  proof (cases x)
    case (Inl e)
    with Suc.prems a show ?thesis by (auto simp: counted_run)
  next
    case (Inr reply)
    show ?thesis
    proof (cases "parse_slate reply n_agents")
      case (Inr slate)
      with Suc.prems a \<open>x = Inr reply\<close> show ?thesis by (auto simp: counted_run parse_slate_sound)
    next
      case (Inl e)
      show ?thesis
      proof (cases "e = SlateError")
        case True
        then have "invite_attempts n (counted ask) why n_agents (tighten_prompt prompt (why reply)) True (Suc k, u) = (r, (k', t))"
          using Suc.prems a Inl \<open>x = Inr reply\<close> by (simp add: counted_run)
        from Suc.IH [OF this] show ?thesis by (cases n) auto
      qed (use Suc.prems a Inl \<open>x = Inr reply\<close> in \<open>auto simp: counted_run\<close>)
    qed
  qed
qed auto

lemma attempts_exhausted:
  assumes "\<And>p u. \<exists>text v. ask p u = (Inr text, v) \<and> parse_slate text n_agents = Inl SlateError"
  shows "\<exists>t. invite_attempts n (counted ask) why n_agents prompt failed (k, s) =
    (Inl (if failed \<or> 0 < n then RuntimeError else AssertionError), (k + n, t))"
proof (induction n arbitrary: prompt failed k s)
  case (Suc n)
  obtain reply v where "ask prompt s = (Inr reply, v)" "parse_slate reply n_agents = Inl SlateError" using assms by blast
  then show ?case using Suc.IH [of "tighten_prompt prompt (why reply)" True "Suc k" v] by (simp add: counted_run)
qed simp

text \<open>A slug that ends in a newline passes the check.\<close>

lemma slug_newline_passes: "slug_ok (''bull'' @ [CHR 0x0A])" "validate_token (''bull'' @ [CHR 0x0A]) = Inl ValueError"
  by code_simp+

section \<open>Properties\<close>

text \<open>C19: An invitation asks the model a bounded number of times: with a positive number of agents and retries not
  negative, it returns after at least one and at most one more call than the retries allowed; a slate it returns has
  exactly the agents asked for, their slugs distinct and well-formed and their prompts not blank; the first readable
  reply ends it, and if no reply is readable it raises RuntimeError after using up every call.\<close>

theorem inviter_bounded:
  assumes "0 < n_agents" and "0 \<le> max_retries"
    and "inviter_invite (counted ask) why max_retries domain subdomain topic n_agents mode_hint (0, s) = (r, (k, t))"
  shows "1 \<le> k \<and> int k \<le> max_retries + 1 \<and> (\<forall>slate. r = Inr slate \<longrightarrow> slate_ok n_agents slate)
    \<and> (\<forall>reply u slate. ask (build_prompt domain subdomain topic n_agents mode_hint) s = (Inr reply, u) \<and> parse_slate reply n_agents = Inr slate
         \<longrightarrow> r = Inr slate \<and> k = 1)
    \<and> ((\<forall>p u. \<exists>reply v. ask p u = (Inr reply, v) \<and> parse_slate reply n_agents = Inl SlateError)
         \<longrightarrow> r = Inl RuntimeError \<and> int k = max_retries + 1)"
proof -
  obtain n where n: "nat (max_retries + 1) = Suc n" using assms(2) by (metis Suc_nat_eq_nat_zadd1 add.commute)
  then have int: "int (Suc n) = max_retries + 1" using assms(2) by simp
  let ?p = "build_prompt domain subdomain topic n_agents mode_hint"
  have run: "invite_attempts (Suc n) (counted ask) why n_agents ?p False (0, s) = (r, (k, t))"
    using assms(1,3) by (simp add: inviter_invite_def n)
  have first: "r = Inr slate \<and> k = 1" if "ask ?p s = (Inr reply, u)" "parse_slate reply n_agents = Inr slate" for reply u slate
    using run that by (simp add: counted_run)
  have "r = Inl RuntimeError \<and> k = Suc n"
    if "\<forall>p u. \<exists>reply v. ask p u = (Inr reply, v) \<and> parse_slate reply n_agents = Inl SlateError"
    using attempts_exhausted [of ask n_agents "Suc n" why ?p False 0 s] that run by auto
  with attempts_bounded [OF run] first int show ?thesis by auto
qed

theorem inviter_bounded_witness:
  "inviter_invite (counted (\<lambda>p (s :: unit). (Inr ''I cannot help.'', s))) id 2 ''finance'' ''equities'' ''rates'' 3 None (0, ()) = (Inl RuntimeError, (3, ()))"
proof -
  let ?ask = "\<lambda>p (s :: unit). (Inr ''I cannot help.'', s) :: string res \<times> unit"
  have no: "parse_slate ''I cannot help.'' 3 = Inl SlateError" by code_simp
  obtain r k t where run: "inviter_invite (counted ?ask) id 2 ''finance'' ''equities'' ''rates'' 3 None (0, ()) = (r, (k, t))"
    by (metis prod.collapse)
  from inviter_bounded [OF _ _ this] no have "r = Inl RuntimeError \<and> int k = 3" by auto
  with run show ?thesis by simp
qed

end
