(* ===== verification/Provisioning.thy ===== *)
theory Provisioning
  imports Registry
begin

text \<open>
  \<open>ahp/adapters/provisioning.py\<close>: one spec for many agents. A count caps a field (\<open>N*\<close>, its
  values cycle together with those of the other capped fields) or multiplies (\<open>*N\<close>, a cross
  product); a dash asks for fresh names. The regular expressions and \<open>int\<close> are read on ASCII
  digits.
\<close>

section \<open>Fields\<close>

definition COUNTABLE_FIELDS :: "string list" where
  "COUNTABLE_FIELDS = [''org'', ''domain'', ''subdomain'', ''instance'']"

definition FIELD_ORDER :: "string list" where
  "FIELD_ORDER = [''org'', ''role'', ''domain'', ''subdomain'', ''accept'', ''lifecycle'', ''instance'']"

text \<open>
  \<open>^\d+-?\*$\<close> and \<open>^\*-?\d+$\<close>: the count and whether the dash is there. The dollar also
  matches before a final newline.
\<close>

definition before_newline :: "string \<Rightarrow> string" where
  "before_newline raw = (if raw \<noteq> [] \<and> last raw = CHR 0x0A then butlast raw else raw)"

definition prefix_count :: "string \<Rightarrow> (int \<times> bool) option" where
  "prefix_count raw =
     (let body = before_newline raw; n = takeWhile is_digit body; rest = dropWhile is_digit body
      in if n \<noteq> [] \<and> rest \<in> {''*'', ''-*''} then Some (digits_value n, rest = ''-*'') else None)"

definition suffix_count :: "string \<Rightarrow> (int \<times> bool) option" where
  "suffix_count raw =
     (let body = before_newline raw in
      if \<not> startswith body ''*'' then None
      else let rest = tl body; dash = startswith rest ''-''; n = (if dash then tl rest else rest)
           in if n \<noteq> [] \<and> list_all is_digit n then Some (digits_value n, dash) else None)"

text \<open>\<open>default_namer\<close>.\<close>

definition default_namer :: "string \<Rightarrow> nat \<Rightarrow> string" where
  "default_namer field_name i = field_name @ decimal i"

datatype pkind = Fixed | Capped | Crossed

record ProvisioningField =
  pf_name :: string
  pf_kind :: pkind
  pf_count :: int
  pf_fixed :: "string option"
  pf_reuse :: bool

definition pf_post_init :: "ProvisioningField \<Rightarrow> ProvisioningField res" where
  "pf_post_init f =
     (if pf_count f < 1 then Inl ValueError
      else if pf_kind f = Fixed \<and> pf_fixed f = None then Inl ValueError
      else if pf_kind f \<noteq> Fixed \<and> pf_fixed f \<noteq> None then Inl ValueError
      else Inr f)"

definition fresh_values :: "(string \<Rightarrow> nat \<Rightarrow> string) \<Rightarrow> ProvisioningField \<Rightarrow> string list" where
  "fresh_values namer f =
     (if pf_kind f = Fixed then [the (pf_fixed f)] else map (namer (pf_name f)) [0..<nat (pf_count f)])"

definition fixed_field :: "string \<Rightarrow> string \<Rightarrow> ProvisioningField" where
  "fixed_field name v = \<lparr>pf_name = name, pf_kind = Fixed, pf_count = 1, pf_fixed = Some v, pf_reuse = False\<rparr>"

definition counted_field :: "string \<Rightarrow> pkind \<Rightarrow> int \<times> bool \<Rightarrow> ProvisioningField" where
  "counted_field name k c = \<lparr>pf_name = name, pf_kind = k, pf_count = fst c, pf_fixed = None, pf_reuse = (\<not> snd c)\<rparr>"

text \<open>
  \<open>_parse_field\<close>. \<open>_canonical_accept\<close> looks every letter up in the table of tiers, so an
  unknown letter is a \<open>KeyError\<close>.
\<close>

definition parse_field :: "string \<Rightarrow> string \<Rightarrow> ProvisioningField res" where
  "parse_field name raw =
     (if raw = [] then Inl ValueError
      else if prefix_count raw \<noteq> None \<or> suffix_count raw \<noteq> None then
        (if name \<notin> set COUNTABLE_FIELDS then Inl ValueError
         else (case prefix_count raw of
                 Some c \<Rightarrow> pf_post_init (counted_field name Capped c)
               | None \<Rightarrow> pf_post_init (counted_field name Crossed (the (suffix_count raw)))))
      else if raw = ''*'' then
        (if name = ''role'' then Inl ValueError
         else if name = ''accept'' then pf_post_init (fixed_field name ''s'')
         else if name = ''lifecycle'' then pf_post_init (fixed_field name ''session'')
         else pf_post_init (counted_field name Capped (1, False)))
      else if name = ''accept'' then
        (if list_ex (\<lambda>c. c \<notin> set ACCEPT_TIER_ORDER) raw then Inl KeyError
         else if canonical_accept raw \<noteq> raw then Inl ValueError
         else pf_post_init (fixed_field name raw))
      else if name = ''lifecycle'' \<and> raw \<notin> set VALID_LIFECYCLES then Inl ValueError
      else pf_post_init (fixed_field name raw))"

section \<open>Patterns\<close>

record ProvisioningPattern =
  pv_org :: ProvisioningField
  pv_role :: ProvisioningField
  pv_domain :: ProvisioningField
  pv_subdomain :: ProvisioningField
  pv_accept :: ProvisioningField
  pv_lifecycle :: ProvisioningField
  pv_instance :: ProvisioningField

definition pv_fields :: "ProvisioningPattern \<Rightarrow> ProvisioningField list" where
  "pv_fields p = [pv_org p, pv_role p, pv_domain p, pv_subdomain p, pv_accept p, pv_lifecycle p, pv_instance p]"

definition pv_parse :: "string \<Rightarrow> ProvisioningPattern res" where
  "pv_parse spec =
     (let spec = strip spec; parts = split_on (CHR ''.'') spec in
      if CHR ''?'' \<in> set spec then Inl ValueError
      else if length parts \<noteq> 7 then Inl ValueError
      else rbind (mapM (\<lambda>(name, raw). parse_field name raw) (zip FIELD_ORDER parts)) (\<lambda>fs.
           case fs of
             [o', r, d, sd, ac, lc, i] \<Rightarrow>
               Inr \<lparr>pv_org = o', pv_role = r, pv_domain = d, pv_subdomain = sd, pv_accept = ac, pv_lifecycle = lc, pv_instance = i\<rparr>
           | _ \<Rightarrow> Inl TypeError))"

definition kinds :: "pkind \<Rightarrow> ProvisioningField list \<Rightarrow> ProvisioningField list" where
  "kinds k fs = filter (\<lambda>f. pf_kind f = k) fs"

definition pv_max_iters :: "ProvisioningPattern \<Rightarrow> int" where
  "pv_max_iters p = (let counts = map pf_count (kinds Capped (pv_fields p)) in if counts = [] then 1 else Max (set counts))"

definition pv_total :: "ProvisioningPattern \<Rightarrow> int" where
  "pv_total p = pv_max_iters p * prod_list (map pf_count (kinds Crossed (pv_fields p)))"

text \<open>\<open>__str__\<close>.\<close>

definition field_str :: "ProvisioningField \<Rightarrow> string" where
  "field_str f =
     (let dash = (if pf_reuse f then [] else ''-''); n = decimal (nat (pf_count f)) in
      case pf_kind f of
        Fixed \<Rightarrow> the (pf_fixed f)
      | Capped \<Rightarrow> if pf_count f = 1 then ''*'' else n @ dash @ ''*''
      | Crossed \<Rightarrow> ''*'' @ dash @ n)"

definition pv_str :: "ProvisioningPattern \<Rightarrow> string" where
  "pv_str p = join ''.'' (map field_str (pv_fields p))"

definition fixed_or_star :: "ProvisioningField \<Rightarrow> string" where
  "fixed_or_star f = (if pf_kind f = Fixed then the (pf_fixed f) else WILDCARD)"

definition skeleton :: "ProvisioningPattern \<Rightarrow> AddressPattern res" where
  "skeleton p = pattern_post_init \<lparr>p_org = fixed_or_star (pv_org p), p_role = fixed_or_star (pv_role p),
     p_domain = fixed_or_star (pv_domain p), p_subdomain = fixed_or_star (pv_subdomain p),
     p_accept = fixed_or_star (pv_accept p), p_lifecycle = fixed_or_star (pv_lifecycle p),
     p_instance = fixed_or_star (pv_instance p)\<rparr>"

section \<open>Materialization\<close>

text \<open>
  \<open>_combine\<close>: one outer pass per index of the capped fields, which cycle; inside it the
  product of the crossed ones, the rightmost varying fastest.
\<close>

definition base_slots :: "ProvisioningField list \<Rightarrow> string list list \<Rightarrow> nat \<Rightarrow> string list" where
  "base_slots fs vals k =
     map (\<lambda>(f, vs). case pf_kind f of Fixed \<Rightarrow> vs ! 0 | Capped \<Rightarrow> vs ! (k mod length vs) | Crossed \<Rightarrow> []) (zip fs vals)"

fun fill_slots :: "ProvisioningField list \<Rightarrow> string list \<Rightarrow> string list \<Rightarrow> string list" where
  "fill_slots (f # fs) (s # ss) (c # cs) =
     (if pf_kind f = Crossed then c # fill_slots fs ss cs else s # fill_slots fs ss (c # cs))"
| "fill_slots fs ss cs = ss"

definition values_of :: "pkind \<Rightarrow> ProvisioningField list \<Rightarrow> string list list \<Rightarrow> string list list" where
  "values_of k fs vals = map snd (filter (\<lambda>(f, vs). pf_kind f = k) (zip fs vals))"

definition outer_passes :: "ProvisioningPattern \<Rightarrow> string list list \<Rightarrow> nat" where
  "outer_passes p vals =
     (let capped = values_of Capped (pv_fields p) vals; declared = max (pv_max_iters p) 1 in
      nat (if capped = [] then declared else min declared (int (Max (set (map length capped))))))"

definition address_of :: "string list \<Rightarrow> AgentAddress res" where
  "address_of slots =
     (case slots of
        [o', r, d, sd, ac, lc, i] \<Rightarrow>
          post_init \<lparr>a_org = o', a_role = r, a_domain = d, a_subdomain = sd, a_accept = ac, a_lifecycle = lc, a_instance = i, a_params = []\<rparr>
      | _ \<Rightarrow> Inl TypeError)"

definition all_slots :: "ProvisioningPattern \<Rightarrow> string list list \<Rightarrow> string list list" where
  "all_slots p vals =
     concat (map (\<lambda>k. map (fill_slots (pv_fields p) (base_slots (pv_fields p) vals k))
                        (product_lists (values_of Crossed (pv_fields p) vals)))
              [0..<outer_passes p vals])"

definition combine :: "ProvisioningPattern \<Rightarrow> string list list \<Rightarrow> AgentAddress list res" where
  "combine p vals = mapM address_of (all_slots p vals)"

definition materialize :: "(string \<Rightarrow> nat \<Rightarrow> string) \<Rightarrow> ProvisioningPattern \<Rightarrow> AgentAddress list res" where
  "materialize namer p = combine p (map (fresh_values namer) (pv_fields p))"

definition fresh_only :: "ProvisioningPattern \<Rightarrow> bool" where
  "fresh_only p \<longleftrightarrow> list_ex (\<lambda>f. pf_kind f \<noteq> Fixed \<and> \<not> pf_reuse f) (pv_fields p)"

text \<open>\<open>materialize_async\<close>: whole live addresses first, in the order of their texts, then the tail of the fresh ones.\<close>

definition materialize_async :: "'s registry \<Rightarrow> pyfloat \<Rightarrow> (string \<Rightarrow> nat \<Rightarrow> string) \<Rightarrow> ProvisioningPattern \<Rightarrow> 's \<Rightarrow> AgentAddress list res" where
  "materialize_async G now namer p s =
     (if fresh_only p then materialize namer p
      else rbind (skeleton p) (\<lambda>pat.
        let reused = take (nat (pv_total p)) (sort_key to_str (resolve G now pat True s));
            shortfall = pv_total p - int (length reused)
        in if shortfall \<le> 0 then Inr reused
           else rbind (materialize namer p) (\<lambda>fresh_all.
                Inr (reused @ drop (length fresh_all - nat shortfall) fresh_all))))"

section \<open>Parsed specs\<close>

definition field_ok :: "ProvisioningField \<Rightarrow> bool" where
  "field_ok f \<longleftrightarrow> 1 \<le> pf_count f \<and> (pf_kind f = Fixed \<longleftrightarrow> pf_fixed f \<noteq> None)"

definition spec_ok :: "ProvisioningPattern \<Rightarrow> bool" where
  "spec_ok p \<longleftrightarrow> map pf_name (pv_fields p) = FIELD_ORDER \<and> (\<forall>f\<in>set (pv_fields p). field_ok f)"

lemma pf_post_init_Inr [simp]: "pf_post_init f = Inr g \<longleftrightarrow> g = f \<and> field_ok f"
  by (auto simp: pf_post_init_def field_ok_def)

lemma made_field_sel [simp]:
  "pf_name (fixed_field name v) = name" "pf_name (counted_field name k c) = name"
  "pf_kind (fixed_field name v) = Fixed" "pf_kind (counted_field name k c) = k"
  "pf_count (fixed_field name v) = 1" "pf_count (counted_field name k c) = fst c"
  "pf_fixed (fixed_field name v) = Some v" "pf_fixed (counted_field name k c) = None"
  "pf_reuse (fixed_field name v) = False" "pf_reuse (counted_field name k c) = (\<not> snd c)"
  by (simp_all add: fixed_field_def counted_field_def)

lemma parse_field_ok: "parse_field name raw = Inr f \<Longrightarrow> pf_name f = name \<and> field_ok f"
  by (auto simp: parse_field_def split: if_splits option.splits)

lemma mapM_Inl: "mapM f xs = Inl e \<Longrightarrow> \<exists>x\<in>set xs. f x = Inl e"
  by (induction xs) (auto simp: rbind_def split: sum.splits)

lemma pv_parse_fields:
  assumes "pv_parse spec = Inr p"
  shows "list_all2 (\<lambda>(name, raw) f. parse_field name raw = Inr f) (zip FIELD_ORDER (split_on (CHR ''.'') (strip spec))) (pv_fields p)"
    "length (split_on (CHR ''.'') (strip spec)) = 7" "CHR ''?'' \<notin> set (strip spec)"
proof -
  let ?ps = "split_on (CHR ''.'') (strip spec)"
  from assms obtain fs where fs: "mapM (\<lambda>(name, raw). parse_field name raw) (zip FIELD_ORDER ?ps) = Inr fs"
    and len: "length ?ps = 7" and q: "CHR ''?'' \<notin> set (strip spec)"
    by (auto simp: pv_parse_def Let_def rbind_eq_Inr split: if_splits)
  have "length fs = 7"
    using fs len list_all2_lengthD unfolding mapM_Inr by (fastforce simp: FIELD_ORDER_def)
  then obtain o' r d sd ac lc i where e: "fs = [o', r, d, sd, ac, lc, i]"
    by (auto simp: length_Suc_conv eval_nat_numeral)
  have "pv_fields p = fs" using assms fs len q by (auto simp: pv_parse_def Let_def e pv_fields_def)
  then show "list_all2 (\<lambda>(name, raw) f. parse_field name raw = Inr f) (zip FIELD_ORDER ?ps) (pv_fields p)"
    using fs by (simp add: mapM_Inr split_def)
  show "length ?ps = 7" "CHR ''?'' \<notin> set (strip spec)" by (fact len q)+
qed

lemma pv_parse_ok:
  assumes "pv_parse spec = Inr p" shows "spec_ok p"
proof -
  note pf = pv_parse_fields [OF assms]
  have "list_all2 (\<lambda>name f. pf_name f = name \<and> field_ok f) FIELD_ORDER (pv_fields p)"
    using pf parse_field_ok by (auto simp: list_all2_conv_all_nth FIELD_ORDER_def)
  then have "map pf_name (pv_fields p) = FIELD_ORDER" "\<forall>f\<in>set (pv_fields p). field_ok f"
    by (auto simp: list_all2_conv_all_nth in_set_conv_nth intro!: nth_equalityI)
  then show ?thesis by (simp add: spec_ok_def)
qed

section \<open>How many\<close>

lemma length_product_lists: "length (product_lists xss) = prod_list (map length xss)"
  by (induction xss) (simp_all add: length_concat comp_def sum_list_triv)

lemma values_of_map: "values_of k fs (map g fs) = map g (kinds k fs)"
  by (induction fs) (simp_all add: values_of_def kinds_def)

lemma length_fresh [simp]: "field_ok f \<Longrightarrow> length (fresh_values namer f) = (if pf_kind f = Fixed then 1 else nat (pf_count f))"
  by (simp add: fresh_values_def)

lemma fresh_nonempty: "field_ok f \<Longrightarrow> fresh_values namer f \<noteq> []"
  by (auto simp: fresh_values_def field_ok_def)

lemma counts_prod: "\<forall>f\<in>set fs. 1 \<le> pf_count f \<Longrightarrow> int (prod_list (map (\<lambda>f. nat (pf_count f)) fs)) = prod_list (map pf_count fs)"
  by (induction fs) auto

lemma max_iters_pos: "spec_ok p \<Longrightarrow> 1 \<le> pv_max_iters p"
proof -
  assume ok: "spec_ok p"
  let ?c = "map pf_count (kinds Capped (pv_fields p))"
  { assume "?c \<noteq> []"
    then have "Max (set ?c) \<in> set ?c" by (intro Max_in) auto
    then have "1 \<le> Max (set ?c)" using ok by (auto simp: spec_ok_def field_ok_def kinds_def) }
  then show ?thesis by (simp add: pv_max_iters_def Let_def)
qed

lemma outer_passes_fresh:
  assumes "spec_ok p"
  shows "outer_passes p (map (fresh_values namer) (pv_fields p)) = nat (pv_max_iters p)"
proof -
  let ?c = "kinds Capped (pv_fields p)"
  have len: "map length (map (fresh_values namer) ?c) = map (nat \<circ> pf_count) ?c"
    using assms by (auto simp: spec_ok_def kinds_def)
  have "int (Max (set (map (nat \<circ> pf_count) ?c))) = pv_max_iters p" if ne: "?c \<noteq> []"
  proof -
    have "mono nat" by (rule monoI) simp
    then have "nat (Max (pf_count ` set ?c)) = Max (nat ` pf_count ` set ?c)"
      using ne by (intro mono_Max_commute) auto
    then show ?thesis using ne max_iters_pos [OF assms] by (simp add: pv_max_iters_def Let_def image_comp)
  qed
  then show ?thesis
    using max_iters_pos [OF assms] unfolding outer_passes_def Let_def values_of_map len by auto
qed

lemma length_all_slots:
  assumes "spec_ok p"
  shows "int (length (all_slots p (map (fresh_values namer) (pv_fields p)))) = pv_total p"
proof -
  let ?x = "kinds Crossed (pv_fields p)"
  have len: "map length (map (fresh_values namer) ?x) = map (\<lambda>f. nat (pf_count f)) ?x"
    using assms by (auto simp: spec_ok_def kinds_def)
  have "\<forall>f\<in>set ?x. 1 \<le> pf_count f" using assms by (auto simp: spec_ok_def kinds_def field_ok_def)
  then show ?thesis
    using max_iters_pos [OF assms]
    by (simp add: all_slots_def length_concat comp_def outer_passes_fresh [OF assms] values_of_map length_product_lists
        len [unfolded map_map comp_def] sum_list_triv pv_total_def counts_prod)
qed

section \<open>No address twice\<close>

lemma distinct_grid:
  assumes "distinct ks" "distinct cs" "inj_on (\<lambda>(k, c). f k c) (set ks \<times> set cs)"
  shows "distinct (concat (map (\<lambda>k. map (f k) cs) ks))"
proof -
  have "concat (map (\<lambda>k. map (f k) cs) ks) = map (\<lambda>(k, c). f k c) (List.product ks cs)"
    by (simp add: product_concat_map map_concat comp_def)
  then show ?thesis using assms by (simp add: distinct_map distinct_product)
qed

lemma fill_slots_length:
  "length bs = length fs \<Longrightarrow> length cs = length (kinds Crossed fs) \<Longrightarrow> length (fill_slots fs bs cs) = length fs"
  by (induction fs bs cs rule: fill_slots.induct) (auto simp: kinds_def split: if_splits)

lemma fill_slots_nth:
  "length bs = length fs \<Longrightarrow> length cs = length (kinds Crossed fs) \<Longrightarrow> i < length fs \<Longrightarrow> pf_kind (fs ! i) \<noteq> Crossed \<Longrightarrow>
   fill_slots fs bs cs ! i = bs ! i"
proof (induction fs bs cs arbitrary: i rule: fill_slots.induct)
  case (1 f fs s ss c cs)
  then show ?case by (cases i) (auto simp: kinds_def split: if_splits)
qed (auto simp: kinds_def)

lemma fill_slots_inject:
  "length bs = length fs \<Longrightarrow> length bs' = length fs \<Longrightarrow> length cs = length (kinds Crossed fs) \<Longrightarrow>
   length cs' = length (kinds Crossed fs) \<Longrightarrow> fill_slots fs bs cs = fill_slots fs bs' cs' \<Longrightarrow> cs = cs'"
proof (induction fs bs cs arbitrary: bs' cs' rule: fill_slots.induct)
  case (1 f fs s ss c cs)
  then obtain s' ss' c' cs'' where e: "bs' = s' # ss'" "cs' = c' # cs''"
    by (auto simp: kinds_def Suc_length_conv split: if_splits) (metis length_Suc_conv)+
  show ?case
  proof (cases "pf_kind f = Crossed")
    case True
    with 1(1) [OF True, of ss' cs''] 1(3-7) show ?thesis by (auto simp: e kinds_def)
  next
    case False
    with 1(2) [OF False, of ss' "c' # cs''"] 1(3-7) show ?thesis by (auto simp: e kinds_def)
  qed
qed (auto simp: kinds_def)

lemma default_namer_inject [simp]: "default_namer n i = default_namer n j \<longleftrightarrow> i = j"
  by (simp add: default_namer_def)

lemma fresh_distinct: "(\<And>n. inj (namer n)) \<Longrightarrow> distinct (fresh_values namer f)"
  by (auto simp: fresh_values_def distinct_map intro: inj_on_subset)

lemma length_base [simp]: "length (base_slots fs (map g fs) k) = length fs"
  by (simp add: base_slots_def)

lemma base_slots_nth:
  "i < length fs \<Longrightarrow> base_slots fs (map g fs) k ! i =
     (case pf_kind (fs ! i) of Fixed \<Rightarrow> g (fs ! i) ! 0 | Capped \<Rightarrow> g (fs ! i) ! (k mod length (g (fs ! i))) | Crossed \<Rightarrow> [])"
  by (simp add: base_slots_def)

lemma combo_length: "c \<in> set (product_lists (map g (kinds Crossed fs))) \<Longrightarrow> length c = length (kinds Crossed fs)"
  by (drule in_set_product_lists_length) simp

lemma all_slots_distinct:
  assumes "spec_ok p" and "\<And>n. inj (namer n)"
  shows "distinct (all_slots p (map (fresh_values namer) (pv_fields p)))"
proof -
  let ?fs = "pv_fields p" and ?g = "fresh_values namer"
  let ?cs = "product_lists (map ?g (kinds Crossed ?fs))"
  have "inj_on (\<lambda>(k, c). fill_slots ?fs (base_slots ?fs (map ?g ?fs) k) c) (set [0..<nat (pv_max_iters p)] \<times> set ?cs)"
  proof (rule inj_onI, clarsimp)
    fix k c j d
    assume k: "k < nat (pv_max_iters p)" "j < nat (pv_max_iters p)" and c: "c \<in> set ?cs" "d \<in> set ?cs"
      and eq: "fill_slots ?fs (base_slots ?fs (map ?g ?fs) k) c = fill_slots ?fs (base_slots ?fs (map ?g ?fs) j) d"
    note l = combo_length [OF c(1)] combo_length [OF c(2)]
    have "c = d" using fill_slots_inject [OF _ _ l eq] by simp
    moreover have "k = j"
    proof (cases "kinds Capped ?fs = []")
      case True
      then show ?thesis using k by (simp add: pv_max_iters_def)
    next
      case False
      then have "pv_max_iters p \<in> set (map pf_count (kinds Capped ?fs))"
        using Max_in [of "set (map pf_count (kinds Capped ?fs))"] by (simp add: pv_max_iters_def Let_def)
      then obtain i where i: "i < length ?fs" "pf_kind (?fs ! i) = Capped" "pf_count (?fs ! i) = pv_max_iters p"
        by (auto simp: kinds_def in_set_conv_nth)
      have len: "length (?g (?fs ! i)) = nat (pv_max_iters p)"
        using assms(1) i by (simp add: spec_ok_def)
      have "?g (?fs ! i) ! k = ?g (?fs ! i) ! j"
        using arg_cong [OF eq, of "\<lambda>xs. xs ! i"] i l k by (simp add: fill_slots_nth base_slots_nth len)
      then show ?thesis using nth_eq_iff_index_eq [OF fresh_distinct [OF assms(2)]] k len by simp
    qed
    ultimately show "k = j \<and> c = d" by simp
  qed
  moreover have "distinct ?cs" by (rule distinct_product_lists) (auto intro: fresh_distinct assms(2))
  ultimately show ?thesis
    unfolding all_slots_def outer_passes_fresh [OF assms(1)] values_of_map by (intro distinct_grid) auto
qed

section \<open>Which addresses\<close>

lemma address_of_Inr:
  assumes "address_of slots = Inr a"
  shows "addr_fields a = slots" "valid_address a"
  using assms
  by (auto simp: address_of_def addr_fields_def valid_address_def post_init_eq split: list.splits)

lemma address_of_error: "length slots = 7 \<Longrightarrow> address_of slots = Inl e \<Longrightarrow> e = ValueError"
  by (auto simp: address_of_def length_Suc_conv eval_nat_numeral post_init_error)

lemma all_slots_length:
  assumes "sl \<in> set (all_slots p (map (fresh_values namer) (pv_fields p)))"
  shows "length sl = 7"
proof -
  have "length (pv_fields p) = 7" by (simp add: pv_fields_def)
  with assms show ?thesis
    by (auto simp: all_slots_def values_of_map dest!: combo_length) (subst fill_slots_length, simp_all)
qed

lemma all_slots_fixed:
  assumes "sl \<in> set (all_slots p (map (fresh_values namer) (pv_fields p)))" and "i < 7" and "pf_kind (pv_fields p ! i) = Fixed"
  shows "sl ! i = the (pf_fixed (pv_fields p ! i))"
proof -
  have "length (pv_fields p) = 7" by (simp add: pv_fields_def)
  with assms show ?thesis
    by (auto simp: all_slots_def values_of_map fill_slots_nth base_slots_nth fresh_values_def dest!: combo_length)
qed

lemma skeleton_of_address:
  assumes "addr_fields a = sl" and "\<And>i. i < 7 \<Longrightarrow> pf_kind (pv_fields p ! i) = Fixed \<Longrightarrow> sl ! i = the (pf_fixed (pv_fields p ! i))"
    and "valid_address a"
  shows "\<exists>pat. skeleton p = Inr pat \<and> pmatches pat a"
proof -
  let ?P = "\<lparr>p_org = fixed_or_star (pv_org p), p_role = fixed_or_star (pv_role p),
     p_domain = fixed_or_star (pv_domain p), p_subdomain = fixed_or_star (pv_subdomain p),
     p_accept = fixed_or_star (pv_accept p), p_lifecycle = fixed_or_star (pv_lifecycle p),
     p_instance = fixed_or_star (pv_instance p)\<rparr>"
  have f: "field_match (fixed_or_star (pv_fields p ! i)) (addr_fields a ! i)" if "i < 7" for i
    using that assms(1) assms(2) [of i] by (simp add: fixed_or_star_def field_match_def)
  have "\<forall>v\<in>{a_org a, a_role a, a_domain a, a_subdomain a, a_instance a}. pattern_field_ok v"
    using assms(3) by (auto simp: valid_address_def post_init_eq token_ok_def pattern_field_ok_def)
  moreover have "pattern_field_ok (a_accept a)"
    using assms(3) by (auto simp: valid_address_def post_init_eq pattern_field_ok_def ACCEPT_TIER_ORDER_def)
  moreover have "pattern_field_ok (a_lifecycle a)"
    using assms(3) by (auto simp: valid_address_def post_init_eq pattern_field_ok_def VALID_LIFECYCLES_def)
  ultimately have "\<forall>v\<in>set (addr_fields a). pattern_field_ok v" by (simp add: addr_fields_def)
  moreover have "length (addr_fields a) = 7" by (simp add: addr_fields_def)
  moreover have "pattern_field_ok WILDCARD" by (simp add: pattern_field_ok_def WILDCARD_def)
  ultimately have ok: "pattern_field_ok (fixed_or_star (pv_fields p ! i))" if "i < 7" for i
    using f [OF that] that by (auto simp: field_match_def)
  note seven = f [of 0] f [of 1] f [of 2] f [of 3] f [of 4] f [of 5] f [of 6]
    ok [of 0] ok [of 1] ok [of 2] ok [of 3] ok [of 4] ok [of 5] ok [of 6]
  note seven = seven [unfolded pv_fields_def addr_fields_def, simplified]
  have "skeleton p = Inr ?P" using seven by (simp add: skeleton_def pattern_post_init_eq pfields_def)
  moreover have "accept_match (p_accept ?P) (a_accept a)"
    using seven by (auto simp: field_match_def accept_match_def)
  then have "pmatches ?P a" using seven by (simp add: pmatches_iff)
  ultimately show ?thesis by blast
qed

lemma list_all2_map_eq: "list_all2 P xs ys \<Longrightarrow> (\<And>x y. P x y \<Longrightarrow> g y = x) \<Longrightarrow> map g ys = xs"
  by (induction xs ys rule: list_all2_induct) auto

lemma list_all2_source: "list_all2 P xs ys \<Longrightarrow> y \<in> set ys \<Longrightarrow> \<exists>x\<in>set xs. P x y"
  by (induction xs ys rule: list_all2_induct) auto

lemma materialize_cases:
  assumes "spec_ok p" and "\<And>n. inj (namer n)"
  shows "case materialize namer p of Inl e \<Rightarrow> e = ValueError
    | Inr as \<Rightarrow> int (length as) = pv_total p \<and> distinct as \<and>
        list_all (\<lambda>a. valid_address a \<and> (\<exists>pat. skeleton p = Inr pat \<and> pmatches pat a)) as"
proof (cases "materialize namer p")
  case (Inl e)
  then have "e = ValueError"
    by (auto simp: materialize_def combine_def dest!: mapM_Inl address_of_error [OF all_slots_length])
  with Inl show ?thesis by simp
next
  case (Inr as)
  let ?sl = "all_slots p (map (fresh_values namer) (pv_fields p))"
  from Inr have l2: "list_all2 (\<lambda>sl a. address_of sl = Inr a) ?sl as"
    by (simp add: materialize_def combine_def mapM_Inr)
  then have "map addr_fields as = ?sl"
    by (rule list_all2_map_eq) (rule address_of_Inr(1))
  then have "distinct as" using all_slots_distinct [OF assms] distinct_map [of addr_fields as] by simp
  moreover have "int (length as) = pv_total p"
    using length_all_slots [OF assms(1), of namer] list_all2_lengthD [OF l2] by simp
  moreover have "valid_address a \<and> (\<exists>pat. skeleton p = Inr pat \<and> pmatches pat a)" if "a \<in> set as" for a
  proof -
    from list_all2_source [OF l2 that] obtain sl where sl: "sl \<in> set ?sl" "address_of sl = Inr a" by (elim bexE)
    note v = address_of_Inr [OF sl(2)]
    show ?thesis using skeleton_of_address [OF v(1) all_slots_fixed [OF sl(1)] v(2)] v(2) by (intro conjI)
  qed
  ultimately show ?thesis using Inr by (simp add: list_all_iff)
qed

lemma namer_inj: "inj (default_namer n)"
  by (rule injI) simp

section \<open>Reuse\<close>

lemma resolve_live: "a \<in> set (resolve G now pat True s) \<Longrightarrow> is_alive G a s \<and> pmatches pat a \<and> valid_address a"
  by (auto simp: resolve_def rg_scan_def List.map_filter_def scan_entry_def parse_valid split: sum.splits if_splits)

lemma skeleton_error: "skeleton p = Inl e \<Longrightarrow> e = ValueError"
  by (auto simp: skeleton_def pattern_post_init_def split: if_splits)

text \<open>What a registry-aware materialization is made of.\<close>

definition reused_part :: "'s registry \<Rightarrow> pyfloat \<Rightarrow> ProvisioningPattern \<Rightarrow> 's \<Rightarrow> AgentAddress list" where
  "reused_part G now p s =
     (if fresh_only p then []
      else (case skeleton p of Inl _ \<Rightarrow> [] | Inr pat \<Rightarrow> take (nat (pv_total p)) (sort_key to_str (resolve G now pat True s))))"

lemma int_mult_pos: "1 \<le> a \<Longrightarrow> 1 \<le> b \<Longrightarrow> 1 \<le> a * (b :: int)"
  using mult_mono [of 1 a 1 b] by simp

lemma materialize_async_cases:
  assumes ok: "spec_ok p" and inj: "\<And>n. inj (namer n)"
  shows "case materialize_async G now namer p s of Inl e \<Rightarrow> e = ValueError
    | Inr as \<Rightarrow> int (length as) = pv_total p \<and> list_all valid_address as \<and>
        list_all (\<lambda>a. is_alive G a s) (reused_part G now p s) \<and>
        (\<exists>fresh. as = reused_part G now p s @ fresh \<and> distinct fresh)"
proof (cases "fresh_only p")
  case True
  with materialize_cases [OF ok, of namer, OF inj] show ?thesis
    by (auto simp: materialize_async_def reused_part_def list_all_iff split: sum.splits)
next
  case False
  show ?thesis
  proof (cases "skeleton p")
    case (Inl e)
    with False show ?thesis by (simp add: materialize_async_def skeleton_error)
  next
    case (Inr pat)
    let ?r = "take (nat (pv_total p)) (sort_key to_str (resolve G now pat True s))"
    have r: "reused_part G now p s = ?r" by (simp add: reused_part_def False Inr)
    have sub: "a \<in> set (resolve G now pat True s)" if "a \<in> set ?r" for a
      using set_take_subset [of _ "sort_key to_str (resolve G now pat True s)"] that by auto
    have live: "list_all (\<lambda>a. is_alive G a s) ?r" "list_all valid_address ?r"
      by (simp_all add: list_all_iff resolve_live [OF sub])
    have "1 \<le> prod_list (map pf_count fs)" if "\<forall>f\<in>set fs. 1 \<le> pf_count f" for fs :: "ProvisioningField list"
      using that by (induction fs) (auto intro: int_mult_pos)
    then have "1 \<le> prod_list (map pf_count (kinds Crossed (pv_fields p)))"
      using ok by (auto simp: spec_ok_def field_ok_def kinds_def)
    then have pos: "0 \<le> pv_total p" using max_iters_pos [OF ok] by (simp add: pv_total_def)
    show ?thesis
    proof (cases "pv_total p \<le> int (length ?r)")
      case True
      then have "int (length ?r) = pv_total p" using pos by simp
      then show ?thesis using True False Inr live by (simp add: materialize_async_def r)
    next
      case short: False
      show ?thesis
        using materialize_cases [OF ok, of namer, OF inj] short False Inr live
        by (cases "materialize namer p")
          (auto simp: materialize_async_def r Let_def list_all_iff dest: in_set_dropD)
    qed
  qed
qed

section \<open>Properties\<close>

text \<open>A provisioning spec that parses asks for a definite number of agents, and gets them: without a registry the
  product of the crossed counts times the largest capped one, all different, all well-formed, all matched by the
  routing pattern of the spec's fixed fields; the only failure is a ValueError for a token no address may have.\<close>

lemma spawn_counts:
  assumes "pv_parse spec = Inr p"
  shows "case materialize default_namer p of Inl e \<Rightarrow> e = ValueError
    | Inr as \<Rightarrow> int (length as) = pv_total p \<and> distinct as \<and>
        list_all (\<lambda>a. valid_address a \<and> (\<exists>pat. skeleton p = Inr pat \<and> pmatches pat a)) as"
  using materialize_cases [OF pv_parse_ok [OF assms] namer_inj] .

definition sample_spec :: ProvisioningPattern where
  "sample_spec = (case pv_parse ''acme.r.d.2*.s.session.x'' of Inr p \<Rightarrow> p)"

lemma sample_spec_parsed: "pv_parse ''acme.r.d.2*.s.session.x'' = Inr sample_spec"
  by code_simp

lemma spawn_counts_witness:
  "pv_total sample_spec = 2 \<and> (case materialize default_namer sample_spec of Inl e \<Rightarrow> False | Inr as \<Rightarrow> int (length as) = pv_total sample_spec \<and> distinct as)"
proof -
  have "pv_total sample_spec = 2" by code_simp
  moreover have "\<not> isl (materialize default_namer sample_spec)" by code_simp
  ultimately show ?thesis using spawn_counts [OF sample_spec_parsed] by (auto split: sum.splits)
qed

text \<open>Registry-aware provisioning tops up what is alive: it returns exactly the number of addresses asked for, all
  well-formed, first the live agents it reuses, then distinct fresh names; the only failure is a ValueError.\<close>

lemma reuse_tops_up:
  assumes "pv_parse spec = Inr p"
  shows "case materialize_async G now default_namer p s of Inl e \<Rightarrow> e = ValueError
    | Inr as \<Rightarrow> int (length as) = pv_total p \<and> list_all valid_address as \<and>
        list_all (\<lambda>a. is_alive G a s) (reused_part G now p s) \<and>
        (\<exists>fresh. as = reused_part G now p s @ fresh \<and> distinct fresh)"
  using materialize_async_cases [OF pv_parse_ok [OF assms] namer_inj] .

definition one_live :: mem where
  "one_live = empty_mem\<lparr>ms_hashes := [(registry_hash, [(''acme.r.d.subdomain1.s.session.x'', PDict [])])],
     ms_strs := [(alive_key ''acme.r.d.subdomain1.s.session.x'', PStr ''1'')]\<rparr>"

lemma reuse_tops_up_witness:
  "\<exists>as fresh. materialize_async open_registry (Fin 0) default_namer sample_spec one_live = Inr as
     \<and> int (length as) = 2 \<and> as = reused_part open_registry (Fin 0) sample_spec one_live @ fresh
     \<and> length (reused_part open_registry (Fin 0) sample_spec one_live) = 1"
proof -
  have "pv_total sample_spec = 2" "\<not> isl (materialize_async open_registry (Fin 0) default_namer sample_spec one_live)"
    "length (reused_part open_registry (Fin 0) sample_spec one_live) = 1" by code_simp+
  then show ?thesis using reuse_tops_up [OF sample_spec_parsed, where G = open_registry and now = "Fin 0" and s = one_live] by (auto split: sum.splits)
qed

text \<open>Topping up can deliver fewer agents than asked: the fresh names are the last of the fresh numbering whether
  or not they are taken, so when the live match is the address with the last number, that address is returned twice
  and no other agent is created for it.\<close>

lemma reuse_can_duplicate:
  assumes "pv_parse spec = Inr p" and "\<not> fresh_only p" and "skeleton p = Inr pat" and "2 \<le> pv_total p"
    and "materialize default_namer p = Inr (names @ [a])" and "resolve G now pat True s = [a]"
  shows "\<exists>as. materialize_async G now default_namer p s = Inr as \<and> \<not> distinct as \<and> int (card (set as)) < pv_total p"
proof -
  have len: "int (length (names @ [a])) = pv_total p" and dis: "distinct (names @ [a])"
    using materialize_cases [OF pv_parse_ok [OF assms(1)], of default_namer, OF namer_inj] assms(5) by auto
  then have "names \<noteq> []" "nat (pv_total p - 1) = length names" using assms(4) by auto
  then have run: "materialize_async G now default_namer p s = Inr (a # tl names @ [a])"
    using assms(2-6) by (simp add: materialize_async_def drop_Suc)
  have "card (set (a # tl names @ [a])) \<le> Suc (length (tl names))"
    using card_length [of "a # tl names"] by (simp add: insert_absorb)
  then have "int (card (set (a # tl names @ [a]))) < pv_total p"
    using len \<open>names \<noteq> []\<close> by simp
  then show ?thesis using run by auto
qed

lemma reuse_can_duplicate_witness:
  "\<exists>as. materialize_async open_registry (Fin 0) default_namer sample_spec one_live = Inr as \<and> \<not> distinct as"
proof -
  have f: "\<not> fresh_only sample_spec" "2 \<le> pv_total sample_spec" by code_simp+
  let ?a = "(case materialize default_namer sample_spec of Inr as \<Rightarrow> as ! 1)"
  let ?n = "(case materialize default_namer sample_spec of Inr as \<Rightarrow> [as ! 0])"
  have m: "materialize default_namer sample_spec = Inr (?n @ [?a])" by code_simp
  have k: "skeleton sample_spec = Inr (case skeleton sample_spec of Inr pat \<Rightarrow> pat)" by code_simp
  have r: "resolve open_registry (Fin 0) (case skeleton sample_spec of Inr pat \<Rightarrow> pat) True one_live = [?a]" by code_simp
  show ?thesis using reuse_can_duplicate [OF sample_spec_parsed f(1) k f(2) m r] by blast
qed

section \<open>Printing\<close>

text \<open>What printing keeps of a field: a single fresh agent is printed as \<open>*\<close>, without its dash.\<close>

definition printed_field :: "ProvisioningField \<Rightarrow> ProvisioningField" where
  "printed_field f = (if pf_kind f = Capped \<and> pf_count f = 1 then f\<lparr>pf_reuse := True\<rparr> else f)"

definition printed :: "ProvisioningPattern \<Rightarrow> ProvisioningPattern" where
  "printed p = \<lparr>pv_org = printed_field (pv_org p), pv_role = printed_field (pv_role p), pv_domain = printed_field (pv_domain p),
     pv_subdomain = printed_field (pv_subdomain p), pv_accept = printed_field (pv_accept p),
     pv_lifecycle = printed_field (pv_lifecycle p), pv_instance = printed_field (pv_instance p)\<rparr>"

lemma digits_then: 
  assumes "list_all is_digit n" "rest \<noteq> []" "\<not> is_digit (hd rest)"
  shows "takeWhile is_digit (n @ rest) = n" "dropWhile is_digit (n @ rest) = rest"
  using assms by (cases rest; induction n; auto)+

lemma not_digit [simp]: "\<not> is_digit (CHR ''*'')" "\<not> is_digit (CHR ''-'')" "\<not> is_digit (CHR 0x0A)" "\<not> is_digit (CHR ''.'')" "\<not> is_digit (CHR ''?'')"
  by (simp_all add: is_digit_iff)

lemma prefix_count_printed:
  "prefix_count (decimal i @ (if d then ''-'' else []) @ ''*'') = Some (int i, d)"
proof -
  have "before_newline (decimal i @ (if d then ''-'' else []) @ ''*'') = decimal i @ (if d then ''-'' else []) @ ''*''"
    by (simp add: before_newline_def)
  moreover note digits_then [OF conjunct2 [OF decimal_digits [of i]], of "(if d then ''-'' else []) @ ''*''"]
  ultimately show ?thesis using decimal_digits [of i] by (auto simp: prefix_count_def)
qed

lemma suffix_count_printed:
  "prefix_count (''*'' @ (if d then ''-'' else []) @ decimal i) = None"
  "suffix_count (''*'' @ (if d then ''-'' else []) @ decimal i) = Some (int i, d)"
proof -
  note dd = decimal_digits [of i]
  then have "last (decimal i) \<noteq> CHR 0x0A" "\<not> startswith (decimal i) ''-''"
    by (auto simp: list_all_iff startswith_iff) (metis last_in_set not_digit(3))
  then have b: "before_newline (''*'' @ (if d then ''-'' else []) @ decimal i) = ''*'' @ (if d then ''-'' else []) @ decimal i"
    using dd by (simp add: before_newline_def)
  show "prefix_count (''*'' @ (if d then ''-'' else []) @ decimal i) = None"
    by (simp add: prefix_count_def b [simplified])
  show "suffix_count (''*'' @ (if d then ''-'' else []) @ decimal i) = Some (int i, d)"
    using dd \<open>\<not> startswith (decimal i) ''-''\<close> by (auto simp: suffix_count_def b [simplified] Let_def startswith_def)
qed

lemma star_counts [simp]: "prefix_count ''*'' = None" "suffix_count ''*'' = None"
  by code_simp+

lemma parse_star: "name \<notin> {''role'', ''accept'', ''lifecycle''} \<Longrightarrow> parse_field name ''*'' = Inr (counted_field name Capped (1, False))"
  by (simp add: parse_field_def) (simp add: field_ok_def)

lemma parse_printed_count:
  assumes "name \<in> set COUNTABLE_FIELDS" "1 \<le> n"
  shows "parse_field name (field_str (counted_field name Capped (n, d))) = Inr (printed_field (counted_field name Capped (n, d)))"
    "parse_field name (field_str (counted_field name Crossed (n, d))) = Inr (printed_field (counted_field name Crossed (n, d)))"
proof -
  have dash: "(if pf_reuse (counted_field name k (n, d)) then [] else ''-'') = (if d then ''-'' else [])" for k
    by simp
  have pi: "k \<noteq> Fixed \<Longrightarrow> pf_post_init (counted_field name k (n, d)) = Inr (counted_field name k (n, d))" for k
    using assms(2) by (simp add: pf_post_init_def)
  have "name \<notin> {''role'', ''accept'', ''lifecycle''}" using assms(1) by (auto simp: COUNTABLE_FIELDS_def)
  then show "parse_field name (field_str (counted_field name Capped (n, d))) = Inr (printed_field (counted_field name Capped (n, d)))"
    using assms parse_star prefix_count_printed [of "nat n" d] pi [of Capped]
    by (cases "n = 1") (auto simp: field_str_def printed_field_def dash [simplified] Let_def parse_field_def counted_field_def)
  show "parse_field name (field_str (counted_field name Crossed (n, d))) = Inr (printed_field (counted_field name Crossed (n, d)))"
    using assms suffix_count_printed [where i = "nat n" and d = d] pi [of Crossed]
    by (auto simp: field_str_def printed_field_def dash [simplified] Let_def parse_field_def)
qed

lemma parse_field_shape:
  assumes "parse_field name raw = Inr f"
  obtains n d where "name \<in> set COUNTABLE_FIELDS" "1 \<le> n" "f = counted_field name Capped (n, d)"
  | n d where "name \<in> set COUNTABLE_FIELDS" "1 \<le> n" "f = counted_field name Crossed (n, d)"
  | "raw = ''*''" "name \<notin> {''role'', ''accept'', ''lifecycle''}" "f = counted_field name Capped (1, False)"
  | v where "v = raw \<or> v \<in> {''s'', ''session''}" "f = fixed_field name v" "v \<noteq> []" "parse_field name v = Inr f"
proof -
  have a: "parse_field ''accept'' ''s'' = Inr (fixed_field ''accept'' ''s'')"
    "parse_field ''lifecycle'' ''session'' = Inr (fixed_field ''lifecycle'' ''session'')" by code_simp+
  show thesis
  proof (cases "pf_kind f")
    case Fixed
    then have "f = fixed_field name raw \<and> raw \<noteq> [] \<or> name = ''accept'' \<and> f = fixed_field name ''s'' \<or> name = ''lifecycle'' \<and> f = fixed_field name ''session''"
      using assms by (auto simp: parse_field_def split: if_splits option.splits)
    then show thesis using that(4) assms a by fastforce
  next
    case Capped
    then show thesis
      using assms that(1,3) parse_field_ok [OF assms]
      by (auto simp: parse_field_def field_ok_def split: if_splits option.splits)
  next
    case Crossed
    then show thesis
      using assms that(2) parse_field_ok [OF assms]
      by (auto simp: parse_field_def field_ok_def split: if_splits option.splits)
  qed
qed

lemma parse_field_printed:
  assumes "parse_field name raw = Inr f"
  shows "parse_field name (field_str f) = Inr (printed_field f)"
  using assms
proof (cases rule: parse_field_shape)
  case 3
  then show ?thesis using parse_star by (simp add: field_str_def printed_field_def counted_field_def)
next
  case 4
  then show ?thesis by (simp add: field_str_def printed_field_def)
qed (auto intro: parse_printed_count)

lemma field_str_text:
  assumes "parse_field name raw = Inr f"
  shows "field_str f \<noteq> []" "c \<in> {CHR ''.'', CHR ''?''} \<Longrightarrow> c \<notin> set raw \<Longrightarrow> c \<notin> set (field_str f)"
    "\<not> is_space (hd raw) \<Longrightarrow> \<not> is_space (hd (field_str f))" "\<not> is_space (last raw) \<Longrightarrow> \<not> is_space (last (field_str f))"
proof -
  have dec: "c \<in> set (decimal i) \<Longrightarrow> is_digit c" for c i using decimal_digits [of i] by (simp add: list_all_iff)
  have sp: "is_space c \<Longrightarrow> \<not> is_digit c" for c by (auto simp: is_space_def is_digit_iff)
  have ds: "\<not> is_space (hd (decimal i))" "\<not> is_space (last (decimal i))" for i
    using sp dec [of "hd (decimal i)" i] dec [of "last (decimal i)" i] decimal_digits [of i] by auto
  have st: "\<not> is_space (CHR ''*'')" by (simp add: is_space_def)
  have nd: "CHR ''.'' \<notin> set (decimal i)" "CHR ''?'' \<notin> set (decimal i)" for i using dec not_digit by blast+
  from assms have "field_str f \<noteq> [] \<and> (\<forall>c\<in>{CHR ''.'', CHR ''?''}. c \<notin> set raw \<longrightarrow> c \<notin> set (field_str f))
      \<and> (\<not> is_space (hd raw) \<longrightarrow> \<not> is_space (hd (field_str f))) \<and> (\<not> is_space (last raw) \<longrightarrow> \<not> is_space (last (field_str f)))"
  proof (cases rule: parse_field_shape)
    case (1 n d)
    then show ?thesis using ds st nd decimal_digits [of "nat n"] by (auto simp: field_str_def Let_def)
  next
    case (2 n d)
    then show ?thesis using ds st nd decimal_digits [of "nat n"] by (auto simp: field_str_def Let_def)
  next
    case 3
    then show ?thesis using st by (simp add: field_str_def)
  next
    case (4 v)
    then show ?thesis by (auto simp: field_str_def is_space_def)
  qed
  then show "field_str f \<noteq> []" "c \<in> {CHR ''.'', CHR ''?''} \<Longrightarrow> c \<notin> set raw \<Longrightarrow> c \<notin> set (field_str f)"
    "\<not> is_space (hd raw) \<Longrightarrow> \<not> is_space (hd (field_str f))" "\<not> is_space (last raw) \<Longrightarrow> \<not> is_space (last (field_str f))"
    by blast+
qed

lemma strip_ends: "strip s \<noteq> [] \<Longrightarrow> \<not> is_space (hd (strip s)) \<and> \<not> is_space (last (strip s))"
proof -
  assume ne: "strip s \<noteq> []"
  let ?r = "dropWhile is_space (rev (lstrip s))"
  have r: "strip s = rev ?r" by (simp add: strip_def)
  with ne have "?r \<noteq> []" by simp
  then have "\<not> is_space (last (strip s))" using hd_dropWhile [of is_space "rev (lstrip s)"] by (simp add: r last_rev)
  moreover obtain z where z: "rev (lstrip s) = z @ ?r" by (metis takeWhile_dropWhile_id)
  then have "lstrip s = strip s @ rev z" using r by (metis rev_append rev_rev_ident)
  then have "hd (strip s) = hd (lstrip s)" "lstrip s \<noteq> []" using ne by (auto simp: hd_append)
  then have "\<not> is_space (hd (strip s))" using hd_dropWhile [of is_space s] by (simp add: lstrip_def)
  ultimately show ?thesis by blast
qed

lemma join_ends:
  assumes "xs \<noteq> []" "hd xs \<noteq> []" "last xs \<noteq> []"
  shows "hd (join sep xs) = hd (hd xs) \<and> last (join sep xs) = last (last xs)"
  using assms
proof (induction sep xs rule: join.induct)
  case (3 sep x y zs)
  have "last (join sep (y # zs)) = last (last (y # zs)) \<and> join sep (y # zs) \<noteq> []"
  proof (cases "y = []")
    case True
    with 3(4) obtain w ws where z: "zs = w # ws" by (cases zs) auto
    show ?thesis using 3(1) True
    proof -
      have "last (join sep zs) = last (last zs) \<and> join sep zs \<noteq> []" if "zs \<noteq> []" "last zs \<noteq> []" for zs
        using that by (induction sep zs rule: join.induct) (auto split: if_splits)
      with 3(4) z True show ?thesis by auto
    qed
  next
    case False
    with 3 show ?thesis by (cases zs) auto
  qed
  with 3(3) show ?case by (simp add: hd_append)
qed auto

lemma split_on_subset: "x \<in> set (split_on c s) \<Longrightarrow> set x \<subseteq> set s"
proof (induction s arbitrary: x)
  case (Cons a s)
  then show ?case by (cases "split_on c s") (fastforce split: if_splits)+
qed simp

lemma print_parse:
  assumes "pv_parse spec = Inr p"
  shows "pv_parse (pv_str p) = Inr (printed p)"
proof -
  let ?ps = "split_on (CHR ''.'') (strip spec)" and ?fs = "pv_fields p"
  note pf = pv_parse_fields [OF assms]
  have len: "length ?fs = 7" "length FIELD_ORDER = 7" by (simp_all add: pv_fields_def FIELD_ORDER_def)
  have each: "parse_field (FIELD_ORDER ! i) (?ps ! i) = Inr (?fs ! i)" if "i < 7" for i
    using list_all2_nthD [OF pf(1), of i] that pf(2) len by simp
  let ?ts = "map field_str ?fs"
  have raw: "c \<notin> set (?ps ! i)" if "i < 7" "c \<in> {CHR ''.'', CHR ''?''}" for i c
  proof -
    have m: "?ps ! i \<in> set ?ps" using that(1) pf(2) by simp
    show ?thesis using that(2) split_on_parts [OF m] split_on_subset [OF m] pf(3) by auto
  qed
  have plain: "c \<notin> set t" if "t \<in> set ?ts" "c \<in> {CHR ''.'', CHR ''?''}" for c t
  proof -
    from that(1) obtain f where f: "f \<in> set ?fs" "t = field_str f" by auto
    from f(1) obtain i where i: "i < length ?fs" "?fs ! i = f" unfolding in_set_conv_nth by (elim exE conjE)
    then have "i < 7" using len by simp
    then show ?thesis using field_str_text(2) [OF each [OF \<open>i < 7\<close>] that(2) raw [OF \<open>i < 7\<close> that(2)]] f(2) i(2) by simp
  qed
  have ne: "?ps ! i \<noteq> []" "?ts ! i \<noteq> []" if "i < 7" for i
    using each [OF that] field_str_text(1) [OF each [OF that]] that len by (auto simp: parse_field_def)
  have ends: "hd ?ps = ?ps ! 0" "last ?ps = ?ps ! 6" "hd ?ts = field_str (?fs ! 0)" "last ?ts = field_str (?fs ! 6)" "?ps \<noteq> []" "?ts \<noteq> []"
    using pf(2) by (auto simp: hd_conv_nth last_conv_nth pv_fields_def)
  have "\<not> is_space (hd (?ps ! 0)) \<and> \<not> is_space (last (?ps ! 6))"
  proof -
    have "strip spec \<noteq> []" using pf(2) by auto
    moreover have "hd (strip spec) = hd (hd ?ps) \<and> last (strip spec) = last (last ?ps)"
      using join_ends [of ?ps "''.''"] ne(1) [of 0] ne(1) [of 6] ends by (simp add: join_split_on)
    ultimately show ?thesis using strip_ends [of spec] ends by simp
  qed
  then have "\<not> is_space (hd (field_str (?fs ! 0)))" "\<not> is_space (last (field_str (?fs ! 6)))"
    using field_str_text(3,4) [OF each] by simp_all
  then have "strip (pv_str p) = pv_str p"
    using join_ends [of ?ts "''.''"] ne(2) [of 0] ne(2) [of 6] ends len by (intro strip_id) (simp add: pv_str_def)
  moreover have "split_on (CHR ''.'') (pv_str p) = ?ts"
    unfolding pv_str_def using plain ends by (intro split_on_join) auto
  moreover have "CHR ''?'' \<notin> set (pv_str p)"
  proof
    assume "CHR ''?'' \<in> set (pv_str p)"
    then have "CHR ''?'' \<in> set ''.'' \<union> (\<Union>t\<in>set ?ts. set t)" unfolding pv_str_def by (rule subsetD [OF set_join])
    then obtain t where t: "t \<in> set ?ts" "CHR ''?'' \<in> set t" by (elim UnE UN_E) simp_all
    from plain [OF t(1), of "CHR ''?''"] t(2) show False by simp
  qed
  moreover have "mapM (\<lambda>(name, raw). parse_field name raw) (zip FIELD_ORDER ?ts) = Inr (map printed_field ?fs)"
    unfolding mapM_Inr using len parse_field_printed [OF each] by (simp add: list_all2_conv_all_nth)
  ultimately show ?thesis using len by (simp add: pv_parse_def Let_def) (simp add: pv_fields_def printed_def)
qed

lemma printed_field_id: "printed_field f = f \<longleftrightarrow> \<not> (pf_kind f = Capped \<and> pf_count f = 1 \<and> \<not> pf_reuse f)"
  by (cases f) (auto simp: printed_field_def)

lemma map_fixed: "map g xs = xs \<longleftrightarrow> \<not> list_ex P xs" if "\<And>x. g x = x \<longleftrightarrow> \<not> P x" for xs
  using that by (induction xs) auto

lemma field_str_printed: "field_str (printed_field f) = field_str f"
  by (simp add: printed_field_def field_str_def)

text \<open>A spec's text parses, to the spec with every request for a single fresh agent (\<open>1-*\<close>) turned into one that
  may reuse a live agent; so printing loses nothing exactly when there is no such field, and loses it for good.\<close>

lemma spec_print_parse:
  assumes "pv_parse spec = Inr p"
  shows "pv_parse (pv_str p) = Inr (printed p) \<and> pv_str (printed p) = pv_str p
    \<and> (printed p = p \<longleftrightarrow> \<not> list_ex (\<lambda>f. pf_kind f = Capped \<and> pf_count f = 1 \<and> \<not> pf_reuse f) (pv_fields p))"
proof -
  have "printed p = p \<longleftrightarrow> map printed_field (pv_fields p) = pv_fields p"
    by (cases p) (auto simp: printed_def pv_fields_def)
  then have "printed p = p \<longleftrightarrow> \<not> list_ex (\<lambda>f. pf_kind f = Capped \<and> pf_count f = 1 \<and> \<not> pf_reuse f) (pv_fields p)"
    by (simp only: map_fixed [of printed_field, OF printed_field_id])
  moreover have "pv_str (printed p) = pv_str p"
    by (simp add: pv_str_def pv_fields_def printed_def field_str_printed)
  ultimately show ?thesis using print_parse [OF assms] by simp
qed

definition one_fresh :: ProvisioningPattern where
  "one_fresh = (case pv_parse ''acme.r.d.1-*.s.session.x'' of Inr p \<Rightarrow> p)"

lemma spec_print_parse_witness:
  "pv_str one_fresh = ''acme.r.d.*.s.session.x'' \<and> pv_parse (pv_str one_fresh) = Inr (printed one_fresh) \<and> printed one_fresh \<noteq> one_fresh
   \<and> fresh_only one_fresh \<and> \<not> fresh_only (printed one_fresh)"
proof -
  have "pv_parse ''acme.r.d.1-*.s.session.x'' = Inr one_fresh" by code_simp
  note r = spec_print_parse [OF this]
  have "list_ex (\<lambda>f. pf_kind f = Capped \<and> pf_count f = 1 \<and> \<not> pf_reuse f) (pv_fields one_fresh)"
    "pv_str one_fresh = ''acme.r.d.*.s.session.x''" "fresh_only one_fresh" "\<not> fresh_only (printed one_fresh)" by code_simp+
  with r show ?thesis by blast
qed

end
