(* ===== verification/Factory.thy ===== *)
theory Factory
  imports Capability Resources Inviter Provisioning Agents AgentBanker
begin

text \<open>
  \<open>ahp/adapters/factory.py\<close>: from addresses to agents. The operations run on the pair of the
  factory object (its registries, registrations and personas) and the store. A builder is an
  argument of the model; what it can reach beside its three arguments (the groups that the
  factory attaches to the engine, the personas of the invitations) is passed to it.
\<close>

section \<open>The factory\<close>

type_synonym ('s, 'f, 'i) builder =
  "AgentAddress \<Rightarrow> 's ProtocolEngine \<Rightarrow> GroupRegistry \<Rightarrow> (string, string) dict \<Rightarrow> ('f, 'i) AgentProfile \<Rightarrow> ('s, 's AHPAgent) op"

record ('s, 'f, 'i) Registration =
  rn_pattern :: AddressPattern
  rn_builder :: "('s, 'f, 'i) builder"
  rn_priority :: int

record ('s, 'f, 'i) AgentFactory =
  fa_engine :: "'s ProtocolEngine"
  fa_regs :: "('s, 'f, 'i) Registration list"
  fa_slm :: "(string \<Rightarrow> ('s, string) op) option"
  fa_personas :: "(string, string) dict"
  fa_host :: "string option"
  fa_fund :: bool
  fa_capabilities :: "'f CapabilityRegistry"
  fa_tools :: "'f ToolRegistry"
  fa_resources :: "('s, 'i) ResourceRegistry"
  fa_skills :: "'f SkillRegistry"
  fa_groups :: GroupRegistry
  fa_scope :: "ScopePolicy option"

type_synonym ('s, 'f, 'i, 'a) factory_op = "(('s, 'f, 'i) AgentFactory \<times> 's, 'a) op"

text \<open>An absent registry is an empty one; a scope policy replaces the one of the engine.\<close>

definition new_factory :: "'s ProtocolEngine \<Rightarrow> 'f CapabilityRegistry option \<Rightarrow> 'f ToolRegistry option \<Rightarrow> ('s, 'i) ResourceRegistry option \<Rightarrow>
    GroupRegistry option \<Rightarrow> ScopePolicy option \<Rightarrow> (string \<Rightarrow> ('s, string) op) option \<Rightarrow> 'f SkillRegistry option \<Rightarrow> string option \<Rightarrow> bool \<Rightarrow>
    ('s, 'f, 'i) AgentFactory" where
  "new_factory engine capabilities tools resources groups scope slm skills host fund =
     \<lparr>fa_engine = (case scope of None \<Rightarrow> engine | Some _ \<Rightarrow> engine\<lparr>en_scope := scope\<rparr>), fa_regs = [], fa_slm = slm, fa_personas = [],
      fa_host = host, fa_fund = fund,
      fa_capabilities = (case capabilities of None \<Rightarrow> [] | Some c \<Rightarrow> c), fa_tools = (case tools of None \<Rightarrow> [] | Some t \<Rightarrow> t),
      fa_resources = (case resources of None \<Rightarrow> new_resources | Some r \<Rightarrow> r), fa_skills = (case skills of None \<Rightarrow> [] | Some s \<Rightarrow> s),
      fa_groups = (case groups of None \<Rightarrow> [] | Some g \<Rightarrow> g), fa_scope = scope\<rparr>"

definition on_store :: "('s, 'a) op \<Rightarrow> ('s, 'f, 'i, 'a) factory_op" where
  "on_store f = (\<lambda>(F, s). case f s of (r, t) \<Rightarrow> (r, (F, t)))"

definition set_slm :: "(string \<Rightarrow> ('s, string) op) \<Rightarrow> ('s, 'f, 'i) AgentFactory \<Rightarrow> ('s, 'f, 'i) AgentFactory" where
  "set_slm ask F = F\<lparr>fa_slm := Some ask\<rparr>"

definition persona_for :: "('s, 'f, 'i) AgentFactory \<Rightarrow> AgentAddress \<Rightarrow> string option" where
  "persona_for F a = map_of (fa_personas F) (to_str a)"

definition factory_register :: "pattern_arg \<Rightarrow> ('s, 'f, 'i) builder \<Rightarrow> int \<Rightarrow> ('s, 'f, 'i) AgentFactory \<Rightarrow> ('s, 'f, 'i) AgentFactory res" where
  "factory_register pattern builder priority F =
     rbind (coerce_pattern pattern) (\<lambda>p.
       Inr (F\<lparr>fa_regs := sort_key (\<lambda>r. - rn_priority r) (fa_regs F @ [\<lparr>rn_pattern = p, rn_builder = builder, rn_priority = priority\<rparr>])\<rparr>))"

definition unregister_all :: "('s, 'f, 'i) AgentFactory \<Rightarrow> ('s, 'f, 'i) AgentFactory" where
  "unregister_all F = F\<lparr>fa_regs := []\<rparr>"

definition registrations :: "('s, 'f, 'i) AgentFactory \<Rightarrow> (AddressPattern \<times> ('s, 'f, 'i) builder \<times> int) list" where
  "registrations F = map (\<lambda>r. (rn_pattern r, rn_builder r, rn_priority r)) (fa_regs F)"

section \<open>Profiles\<close>

text \<open>
  The two merging loops of \<open>profile_for\<close>: the short name, the address text and the item of every
  visible binding, against the names already claimed.
\<close>

fun merge_named :: "(string \<times> string \<times> 'a) list \<Rightarrow> (string, string) dict \<Rightarrow> 'a list \<Rightarrow> 'a list res" where
  "merge_named [] provenance merged = Inr merged"
| "merge_named ((nm, key, x) # rest) provenance merged =
     (case map_of provenance nm of
        Some p \<Rightarrow> if p \<noteq> key then Inl ToolNameCollisionError else merge_named rest provenance merged
      | None \<Rightarrow> merge_named rest (AList.update nm key provenance) (merged @ [x]))"

definition inline_names :: "string list \<Rightarrow> (string, string) dict" where
  "inline_names names = dict_of (map (\<lambda>n. (n, ''inline capability provider'')) names)"

definition tool_entries :: "'f ToolRegistry \<Rightarrow> AgentAddress \<Rightarrow> (string \<times> string \<times> 'f Tool) list" where
  "tool_entries d a = map (\<lambda>b. (tl_name (tb_tool b), tool_str (tb_address b), tb_tool b)) (tool_bindings_for d a None)"

definition skill_entries :: "'f SkillRegistry \<Rightarrow> AgentAddress \<Rightarrow> (string \<times> string \<times> 'f Skill) list" where
  "skill_entries d a = map (\<lambda>b. (sk_name (sb_skill b), res_str (sb_address b), sb_skill b)) (skill_bindings_for d a None)"

definition merged_tools :: "('s, 'f, 'i) AgentFactory \<Rightarrow> AgentAddress \<Rightarrow> 'f Tool list \<Rightarrow> 'f Tool list res" where
  "merged_tools F a inline = merge_named (tool_entries (fa_tools F) a) (inline_names (map tl_name inline)) inline"

definition merged_skills :: "('s, 'f, 'i) AgentFactory \<Rightarrow> AgentAddress \<Rightarrow> 'f Skill list \<Rightarrow> 'f Skill list res" where
  "merged_skills F a inline =
     (if skill_entries (fa_skills F) a = [] then Inr inline
      else merge_named (skill_entries (fa_skills F) a) (inline_names (map sk_name inline)) inline)"

definition profile_for :: "AgentAddress \<Rightarrow> ('s, 'f, 'i, ('f, 'i) AgentProfile) factory_op" where
  "profile_for a = (\<lambda>(F, s).
     let base = capability_resolve (fa_capabilities F) a in
     case merged_tools F a (ap_tools base) of
       Inl e \<Rightarrow> (Inl e, (F, s))
     | Inr tools \<Rightarrow>
         (case resources_for a (fa_resources F, s) of
            (r, (R, t)) \<Rightarrow>
              (let F' = F\<lparr>fa_resources := R\<rparr> in
               case r of
                 Inl e \<Rightarrow> (Inl e, (F', t))
               | Inr resources \<Rightarrow>
                   (case merged_skills F a (ap_skills base) of
                      Inl e \<Rightarrow> (Inl e, (F', t))
                    | Inr skills \<Rightarrow> (Inr (base\<lparr>ap_tools := tools, ap_resources := resources, ap_skills := skills\<rparr>), (F', t))))))"

datatype address_arg = Address_Arg AgentAddress | Address_Text string

fun coerce_address :: "address_arg \<Rightarrow> AgentAddress res" where
  "coerce_address (Address_Arg a) = Inr a"
| "coerce_address (Address_Text t) = parse t"

section \<open>Building\<close>

definition can_create :: "('s, 'f, 'i) AgentFactory \<Rightarrow> address_arg \<Rightarrow> bool res" where
  "can_create F address = rbind (coerce_address address) (\<lambda>a. Inr (list_ex (\<lambda>r. pmatches (rn_pattern r) a) (fa_regs F)))"

definition build :: "AgentAddress \<Rightarrow> ('f, 'i) AgentProfile \<Rightarrow> ('s, 'f, 'i, 's AHPAgent) factory_op" where
  "build a profile = (\<lambda>(F, s).
     case List.find (\<lambda>r. pmatches (rn_pattern r) a) (fa_regs F) of
       None \<Rightarrow> (Inl LookupError, (F, s))
     | Some r \<Rightarrow> on_store (rn_builder r a (fa_engine F) (fa_groups F) (fa_personas F) profile) (F, s))"

definition create :: "address_arg \<Rightarrow> ('s, 'f, 'i, 's AHPAgent) factory_op" where
  "create address = sbind (slift (coerce_address address)) (\<lambda>a. sbind (profile_for a) (build a))"

record 's SpawnResult =
  sp_new :: "'s AHPAgent list"
  sp_reused :: "AgentAddress list"

definition no_spawn :: "'s SpawnResult" where "no_spawn = \<lparr>sp_new = [], sp_reused = []\<rparr>"

definition all_addresses :: "'s SpawnResult \<Rightarrow> AgentAddress list" where
  "all_addresses r = map ag_address (sp_new r) @ sp_reused r"

text \<open>One address of a spawn or an invitation: reuse it when it is alive, build it otherwise.\<close>

definition place_agent :: "AgentAddress \<Rightarrow> 's SpawnResult \<Rightarrow> ('s, 'f, 'i, 's SpawnResult) factory_op" where
  "place_agent a result = (\<lambda>(F, s).
     if is_alive (en_registry (fa_engine F)) a s then (Inr (result\<lparr>sp_reused := sp_reused result @ [a]\<rparr>), (F, s))
     else sbind (create (Address_Arg a)) (\<lambda>agent. sret (result\<lparr>sp_new := sp_new result @ [agent]\<rparr>)) (F, s))"

fun spawn_loop :: "AgentAddress list \<Rightarrow> 's SpawnResult \<Rightarrow> ('s, 'f, 'i, 's SpawnResult) factory_op" where
  "spawn_loop [] result W = (Inr result, W)"
| "spawn_loop (a # as) result W = sbind (place_agent a result) (spawn_loop as) W"

datatype spec_arg = Spec ProvisioningPattern | Spec_Text string

fun coerce_spec :: "spec_arg \<Rightarrow> ProvisioningPattern res" where
  "coerce_spec (Spec p) = Inr p"
| "coerce_spec (Spec_Text t) = pv_parse t"

definition spawn :: "pyfloat \<Rightarrow> (string \<Rightarrow> nat \<Rightarrow> string) \<Rightarrow> spec_arg \<Rightarrow> ('s, 'f, 'i, 's SpawnResult) factory_op" where
  "spawn now namer spec =
     sbind (slift (coerce_spec spec)) (\<lambda>p.
     sbind (sreadr (\<lambda>(F, s). materialize_async (en_registry (fa_engine F)) now namer p s)) (\<lambda>addresses.
     spawn_loop addresses no_spawn))"

fun register_loop :: "pyfloat \<Rightarrow> 's AHPAgent list \<Rightarrow> ('s, unit) op" where
  "register_loop now [] s = (Inr (), s)"
| "register_loop now (a # as) s = sbind (ag_register a now) (\<lambda>_. register_loop now as) s"

text \<open>Every new agent is registered before the first one starts.\<close>

definition start_all :: "pyfloat \<Rightarrow> 's SpawnResult \<Rightarrow> ('s, 'f, 'i, 's SpawnResult) factory_op" where
  "start_all now result = on_store (sbind (register_loop now (sp_new result)) (\<lambda>_. sret (result\<lparr>sp_new := map ag_start (sp_new result)\<rparr>)))"

definition spawn_and_start :: "pyfloat \<Rightarrow> (string \<Rightarrow> nat \<Rightarrow> string) \<Rightarrow> spec_arg \<Rightarrow> ('s, 'f, 'i, 's SpawnResult) factory_op" where
  "spawn_and_start now namer spec = sbind (spawn now namer spec) (start_all now)"

fun create_all :: "AgentAddress list \<Rightarrow> ('s, 'f, 'i, 's AHPAgent list) factory_op" where
  "create_all [] W = (Inr [], W)"
| "create_all (a # as) W = sbind (create (Address_Arg a)) (\<lambda>agent. sbind (create_all as) (\<lambda>agents. sret (agent # agents))) W"

definition spawn_fresh :: "(string \<Rightarrow> nat \<Rightarrow> string) \<Rightarrow> spec_arg \<Rightarrow> ('s, 'f, 'i, 's AHPAgent list) factory_op" where
  "spawn_fresh namer spec = sbind (slift (coerce_spec spec)) (\<lambda>p. sbind (slift (materialize namer p)) create_all)"

section \<open>Invitations\<close>

record seat =
  st_org :: string
  st_role :: string
  st_domain :: string
  st_subdomain :: string
  st_accept :: string
  st_lifecycle :: string

definition seat_address :: "seat \<Rightarrow> string \<Rightarrow> AgentAddress res" where
  "seat_address st slug = post_init \<lparr>a_org = st_org st, a_role = st_role st, a_domain = st_domain st, a_subdomain = st_subdomain st,
     a_accept = st_accept st, a_lifecycle = st_lifecycle st, a_instance = slug, a_params = []\<rparr>"

fun seat_loop :: "seat \<Rightarrow> AgentInvitation list \<Rightarrow> 's SpawnResult \<Rightarrow> ('s, 'f, 'i, 's SpawnResult) factory_op" where
  "seat_loop st [] result W = (Inr result, W)"
| "seat_loop st (iv # ivs) result W =
     sbind (slift (seat_address st (iv_slug iv))) (\<lambda>a.
     sbind (swrite (\<lambda>(F, s). (F\<lparr>fa_personas := AList.update (to_str a) (iv_system iv) (fa_personas F)\<rparr>, s))) (\<lambda>_.
     sbind (place_agent a result) (seat_loop st ivs))) W"

definition factory_invite :: "(string \<Rightarrow> string) \<Rightarrow> seat \<Rightarrow> string \<Rightarrow> int \<Rightarrow> string option \<Rightarrow> ('s, 'f, 'i, 's SpawnResult) factory_op" where
  "factory_invite why st topic n_agents mode_hint = (\<lambda>(F, s).
     case fa_slm F of
       None \<Rightarrow> (Inl RuntimeError, (F, s))
     | Some ask \<Rightarrow>
         sbind (on_store (inviter_invite ask why 2 (st_domain st) (st_subdomain st) topic n_agents mode_hint)) (\<lambda>invitations.
         seat_loop st invitations no_spawn) (F, s))"

fun fund_loop :: "'s redis \<Rightarrow> pyfloat \<Rightarrow> string option \<Rightarrow> 's AHPAgent list \<Rightarrow> ('s, unit) op" where
  "fund_loop R now host [] s = (Inr (), s)"
| "fund_loop R now host (a # as) s = sbind (fund_agent R now (ag_address a) host None) (\<lambda>_. fund_loop R now host as) s"

definition invite_and_start :: "pyfloat \<Rightarrow> (string \<Rightarrow> string) \<Rightarrow> seat \<Rightarrow> string \<Rightarrow> int \<Rightarrow> string option \<Rightarrow> ('s, 'f, 'i, 's SpawnResult) factory_op" where
  "invite_and_start now why st topic n_agents mode_hint =
     sbind (factory_invite why st topic n_agents mode_hint) (\<lambda>result.
     sbind (\<lambda>(F, s). if fa_fund F then on_store (fund_loop (en_redis (fa_engine F)) now (fa_host F) (sp_new result)) (F, s) else (Inr (), (F, s))) (\<lambda>_.
     start_all now result))"

definition factory_drain :: "pyfloat \<Rightarrow> 's AHPAgent \<Rightarrow> ('s, 'f, 'i, pyfloat) factory_op" where
  "factory_drain now agent = (\<lambda>(F, s).
     if \<not> fa_fund F then (Inr (Fin 0), (F, s))
     else on_store (drain_agent (en_redis (fa_engine F)) now (ag_address agent) (fa_host F)) (F, s))"

section \<open>Short names\<close>

text \<open>New names may neither repeat nor meet the inline ones.\<close>

definition names_clear :: "string list \<Rightarrow> string list \<Rightarrow> bool" where
  "names_clear inline names \<longleftrightarrow> distinct names \<and> set names \<inter> set inline = {}"

lemma merge_named_spec:
  assumes "distinct (map (\<lambda>e. fst (snd e)) es)" "\<forall>e\<in>set es. fst (snd e) \<notin> ran (map_of provenance)"
  shows "merge_named es provenance merged =
    (if distinct (map fst es) \<and> set (map fst es) \<inter> fst ` set provenance = {} then Inr (merged @ map (\<lambda>e. snd (snd e)) es)
     else Inl ToolNameCollisionError)"
  using assms
proof (induction es provenance merged rule: merge_named.induct)
  case (2 nm key x rest provenance merged)
  show ?case
  proof (cases "map_of provenance nm")
    case None
    then have new: "nm \<notin> fst ` set provenance" by (simp add: map_of_eq_None_iff)
    have "ran (map_of (AList.update nm key provenance)) = insert key (ran (map_of provenance))"
      using None by (simp add: update_conv')
    then have "\<forall>e\<in>set rest. fst (snd e) \<notin> ran (map_of (AList.update nm key provenance))"
      using "2.prems" by auto
    moreover have "distinct (map (\<lambda>e. fst (snd e)) rest)" using "2.prems"(1) by simp
    ultimately have "merge_named rest (AList.update nm key provenance) (merged @ [x]) =
        (if distinct (map fst rest) \<and> set (map fst rest) \<inter> fst ` set (AList.update nm key provenance) = {}
         then Inr ((merged @ [x]) @ map (\<lambda>e. snd (snd e)) rest) else Inl ToolNameCollisionError)"
      using "2.IH"(1) [OF None] by blast
    then show ?thesis using None new by (auto simp: update_new)
  next
    case (Some p)
    then have "p \<noteq> key" using "2.prems"(2) by (auto simp: ran_def)
    moreover have "nm \<in> fst ` set provenance" using Some by (metis map_of_eq_None_iff option.distinct(1))
    ultimately show ?thesis using Some by auto
  qed
qed simp

abbreviation marker :: string where "marker \<equiv> ''inline capability provider''"

lemma inline_names_keys: "fst ` set (inline_names ns) = set ns" and inline_names_values: "ran (map_of (inline_names ns)) \<subseteq> {marker}"
proof -
  have "dom (map_of (fold (\<lambda>(k, v) d. AList.update k v d) (map (\<lambda>n. (n, m)) ns) d)) = set ns \<union> dom (map_of d)
    \<and> ran (map_of (fold (\<lambda>(k, v) d. AList.update k v d) (map (\<lambda>n. (n, m)) ns) d)) \<subseteq> insert m (ran (map_of d))" for m d
  proof (induction ns arbitrary: d)
    case (Cons n ns)
    have "ran (map_of (AList.update n m d)) \<subseteq> insert m (ran (map_of d))" "dom (map_of (AList.update n m d)) = insert n (dom (map_of d))"
      by (auto simp: update_conv' ran_def split: if_splits)
    with Cons.IH [of "AList.update n m d"] show ?case by auto
  qed auto
  from this [of marker "[]"] have "dom (map_of (inline_names ns)) = set ns" "ran (map_of (inline_names ns)) \<subseteq> {marker}"
    by (simp_all add: inline_names_def dict_of_def)
  then show "fst ` set (inline_names ns) = set ns" "ran (map_of (inline_names ns)) \<subseteq> {marker}"
    by (simp_all add: dom_map_of_conv_image_fst)
qed

lemma inline_marker: "tool_str t \<noteq> marker" "res_str r \<noteq> marker"
proof -
  have "CHR ''.'' \<in> set (join ''.'' (x # y # zs))" for x y zs by simp
  then have "CHR ''.'' \<in> set (tool_str t)" "CHR ''.'' \<in> set (res_str r)"
    by (simp_all add: tool_str_def tool_fields_def res_str_def res_fields_def)
  then show "tool_str t \<noteq> marker" "res_str r \<noteq> marker" by auto
qed

lemma merged_spec:
  assumes "distinct (map key bs)" "\<And>b. key b \<noteq> marker"
  shows "merge_named (map (\<lambda>b. (nm b, key b, it b)) bs) (inline_names ns) inline =
    (if names_clear ns (map nm bs) then Inr (inline @ map it bs) else Inl ToolNameCollisionError)"
proof -
  have "key b \<notin> ran (map_of (inline_names ns))" for b using assms(2) [of b] inline_names_values [of ns] by blast
  then show ?thesis
    using assms(1) merge_named_spec [of "map (\<lambda>b. (nm b, key b, it b)) bs" "inline_names ns" inline]
    by (simp add: comp_def names_clear_def inline_names_keys)
qed

lemma merged_tools_spec:
  assumes "catalog_ok (tool_str \<circ> tb_address) (fa_tools F)"
  shows "merged_tools F a inline =
    (if names_clear (map tl_name inline) (map tl_name (tools_for (fa_tools F) a None)) then Inr (inline @ tools_for (fa_tools F) a None)
     else Inl ToolNameCollisionError)"
  using merged_spec [OF tools.visible_distinct [OF assms, of a None], of "\<lambda>b. tl_name (tb_tool b)" tb_tool "map tl_name inline" inline]
  by (simp add: merged_tools_def tool_entries_def inline_marker tools_for_bindings comp_def)

lemma merged_skills_spec:
  assumes "catalog_ok (res_str \<circ> sb_address) (fa_skills F)"
  shows "merged_skills F a inline =
    (if names_clear (map sk_name inline) (map sk_name (skills_for (fa_skills F) a None)) then Inr (inline @ skills_for (fa_skills F) a None)
     else Inl ToolNameCollisionError)"
  using merged_spec [OF skills.visible_distinct [OF assms, of a None], of "\<lambda>b. sk_name (sb_skill b)" sb_skill "map sk_name inline" inline]
  by (auto simp: merged_skills_def skill_entries_def inline_marker skills_for_def comp_def names_clear_def)

section \<open>Precedence of builders\<close>

lemma find_hd_filter: "List.find P xs = (case filter P xs of [] \<Rightarrow> None | x # _ \<Rightarrow> Some x)"
  by (induction xs) auto

text \<open>The head of a stable sort is the first of the least.\<close>

lemma hd_sort_key:
  fixes f :: "'a \<Rightarrow> 'b :: linorder"
  assumes "xs \<noteq> []"
  shows "List.find (\<lambda>x. \<forall>y\<in>set xs. f x \<le> f y) xs = Some (hd (sort_key f xs))"
proof -
  let ?h = "hd (sort_key f xs)"
  note least = hd_sort_key_least [where f = f, OF assms]
  have stable: "filter (\<lambda>x. f x = f ?h) xs = filter (\<lambda>x. f x = f ?h) (sort_key f xs)" by (rule sort_key_stable [symmetric])
  have "sort_key f xs \<noteq> []" using assms by (metis length_0_conv length_sort)
  then obtain t where "sort_key f xs = ?h # t" by (metis list.collapse)
  then have "filter (\<lambda>x. f x = f ?h) xs = ?h # filter (\<lambda>x. f x = f ?h) t" unfolding stable by (metis (mono_tags) filter.simps(2))
  moreover have "(\<forall>y\<in>set xs. f x \<le> f y) \<longleftrightarrow> f x = f ?h" if "x \<in> set xs" for x
    using least that by (metis order.antisym)
  then have "filter (\<lambda>x. \<forall>y\<in>set xs. f x \<le> f y) xs = filter (\<lambda>x. f x = f ?h) xs" by (intro filter_cong) auto
  ultimately show ?thesis by (simp add: find_hd_filter)
qed

lemma find_sort_key:
  fixes f :: "'a \<Rightarrow> 'b :: linorder"
  shows "List.find P (sort_key f xs) = List.find (\<lambda>x. P x \<and> (\<forall>y\<in>set xs. P y \<longrightarrow> f x \<le> f y)) xs"
proof (cases "filter P xs = []")
  case True
  then have "filter (\<lambda>x. P x \<and> (\<forall>y\<in>set xs. P y \<longrightarrow> f x \<le> f y)) xs = []" by (auto simp: filter_empty_conv)
  with True show ?thesis by (simp add: find_hd_filter filter_sort_key)
next
  case False
  have "filter (\<lambda>x. P x \<and> (\<forall>y\<in>set xs. P y \<longrightarrow> f x \<le> f y)) xs = filter (\<lambda>x. \<forall>y\<in>set (filter P xs). f x \<le> f y) (filter P xs)"
    by (simp add: filter_filter) (metis (lifting))
  then have "List.find (\<lambda>x. P x \<and> (\<forall>y\<in>set xs. P y \<longrightarrow> f x \<le> f y)) xs = List.find (\<lambda>x. \<forall>y\<in>set (filter P xs). f x \<le> f y) (filter P xs)"
    by (simp only: find_hd_filter)
  also have "\<dots> = Some (hd (sort_key f (filter P xs)))" by (rule hd_sort_key [OF False])
  also have "\<dots> = List.find P (sort_key f xs)"
  proof -
    have "sort_key f (filter P xs) \<noteq> []" using False by (metis length_0_conv length_sort)
    then show ?thesis by (cases "sort_key f (filter P xs)") (simp_all add: find_hd_filter filter_sort_key)
  qed
  finally show ?thesis ..
qed

fun register_builders :: "('s, 'f, 'i) Registration list \<Rightarrow> ('s, 'f, 'i) AgentFactory \<Rightarrow> ('s, 'f, 'i) AgentFactory res" where
  "register_builders [] F = Inr F"
| "register_builders (r # rs) F =
     rbind (factory_register (PatArg (rn_pattern r)) (rn_builder r) (rn_priority r) F) (register_builders rs)"

lemma registration_rebuild [simp]:
  "\<lparr>rn_pattern = rn_pattern r, rn_builder = rn_builder r, rn_priority = rn_priority r\<rparr> = (r :: ('s, 'f, 'i) Registration)"
  by (cases r) simp

lemma register_builders_order:
  "fa_regs F = sort_key (\<lambda>r. - rn_priority r) old \<Longrightarrow>
   register_builders rs F = Inr (F\<lparr>fa_regs := sort_key (\<lambda>r. - rn_priority r) (old @ rs)\<rparr>)"
proof (induction rs arbitrary: F old)
  case (Cons r rs)
  let ?F = "F\<lparr>fa_regs := sort_key (\<lambda>r. - rn_priority r) (old @ [r])\<rparr>"
  have "factory_register (PatArg (rn_pattern r)) (rn_builder r) (rn_priority r) F = Inr ?F"
    using Cons.prems by (simp add: factory_register_def sort_key_resort)
  then show ?case using Cons.IH [of ?F "old @ [r]"] by simp
next
  case Nil
  then show ?case by (cases F) simp
qed

definition preferred :: "('s, 'f, 'i) Registration list \<Rightarrow> AgentAddress \<Rightarrow> ('s, 'f, 'i) Registration \<Rightarrow> bool" where
  "preferred rs a r \<longleftrightarrow> pmatches (rn_pattern r) a \<and> list_all (\<lambda>q. pmatches (rn_pattern q) a \<longrightarrow> rn_priority q \<le> rn_priority r) rs"

section \<open>Properties\<close>

text \<open>The builder of an address is the one of highest priority that matches it, the earliest registered among equals:
  after registering builders one after another, in any order of priorities, building an address runs exactly that
  builder on the address, the engine and the profile, and with no matching builder it raises LookupError and changes
  nothing.\<close>

lemma builder_precedence:
  "\<exists>F'. register_builders rs (unregister_all F) = Inr F' \<and>
    build a profile (F', s) =
      (case List.find (preferred rs a) rs of
         None \<Rightarrow> (Inl LookupError, (F', s))
       | Some r \<Rightarrow> on_store (rn_builder r a (fa_engine F) (fa_groups F) (fa_personas F) profile) (F', s))"
proof -
  have "register_builders rs (unregister_all F) = Inr (F\<lparr>fa_regs := sort_key (\<lambda>r. - rn_priority r) rs\<rparr>)"
    using register_builders_order [of "unregister_all F" "[]" rs] by (simp add: unregister_all_def)
  moreover have "preferred rs a = (\<lambda>r. pmatches (rn_pattern r) a \<and> (\<forall>q\<in>set rs. pmatches (rn_pattern q) a \<longrightarrow> - rn_priority r \<le> - rn_priority q))"
    by (auto simp: preferred_def list_all_iff fun_eq_iff)
  ultimately show ?thesis by (auto simp: build_def find_sort_key split: option.split)
qed

text \<open>A profile is unambiguous or refused: on well-formed registries whose factories do not raise, the profile of an
  address holds the inline tools and skills that match it followed by the registered ones it may use, and its resources
  under their short names; two tools, two resources or two skills that would claim one short name make it raise
  the collision error instead, the tools first, the resources second, the skills last.\<close>

lemma profile_unambiguous:
  assumes "catalog_ok (tool_str \<circ> tb_address) (fa_tools F)" and "catalog_ok (res_str \<circ> sb_address) (fa_skills F)"
    and "resources_ok (fa_resources F)" and "constructible (fa_resources F)"
  shows "let base = (capability_resolve (fa_capabilities F) a :: ('f, 'i) AgentProfile);
             tools = tools_for (fa_tools F) a None; skills = skills_for (fa_skills F) a None;
             names = map short (resource_visible (rr_bindings (fa_resources F)) a None);
             (r, _) = profile_for a (F, s)
         in if \<not> names_clear (map tl_name (ap_tools base)) (map tl_name tools) then r = Inl ToolNameCollisionError
            else if \<not> distinct names then r = Inl ResourceNameCollisionError
            else if \<not> names_clear (map sk_name (ap_skills base)) (map sk_name skills) then r = Inl ToolNameCollisionError
            else \<exists>resources. map fst resources = names \<and>
              r = Inr (base\<lparr>ap_tools := ap_tools base @ tools, ap_resources := resources, ap_skills := ap_skills base @ skills\<rparr>)"
proof -
  note res = resources_for_agent [OF assms(3,4), of a s, unfolded Let_def]
  show ?thesis
  proof (cases "distinct (map short (resource_visible (rr_bindings (fa_resources F)) a None))")
    case True
    with res obtain out R' s' where "resources_for a (fa_resources F, s) = (Inr out, (R', s'))"
      "map fst out = map short (resource_visible (rr_bindings (fa_resources F)) a None)" by auto
    with True show ?thesis
      by (auto simp: profile_for_def Let_def merged_tools_spec [OF assms(1)] merged_skills_spec [OF assms(2)])
  next
    case False
    with res obtain R' s' where "resources_for a (fa_resources F, s) = (Inl ResourceNameCollisionError, (R', s'))" by auto
    with False show ?thesis by (simp add: profile_for_def Let_def merged_tools_spec [OF assms(1)])
  qed
qed

definition plain_builder :: "('s, 'f, 'i) builder" where
  "plain_builder = (\<lambda>a engine groups personas profile. sret (new_agent (Fin 0) a engine (Some groups) None (Fin 10) None))"

definition sample_factory :: "(mem, unit, unit) AgentFactory" where
  "sample_factory = projr (factory_register (PatArg pall) plain_builder 0
     (new_factory (sample_engine None None) None None None None None None None None False))"

lemma sample_factory_sel:
  "fa_regs sample_factory = [\<lparr>rn_pattern = pall, rn_builder = plain_builder, rn_priority = 0\<rparr>]" "fa_resources sample_factory = new_resources"
  "fa_tools sample_factory = []" "fa_skills sample_factory = []" "fa_capabilities sample_factory = []"
  by (simp_all add: sample_factory_def factory_register_def new_factory_def)

lemma profile_unambiguous_witness:
  "\<exists>p W. profile_for (sample_address ''i1'') (sample_factory, empty_mem) = (Inr p, W) \<and> ap_tools p = [] \<and> ap_resources p = []"
proof -
  have ok: "catalog_ok (tool_str \<circ> tb_address) (fa_tools sample_factory)" "catalog_ok (res_str \<circ> sb_address) (fa_skills sample_factory)"
    "resources_ok (fa_resources sample_factory)" "constructible (fa_resources sample_factory)"
    by (simp_all add: sample_factory_sel catalog_ok_def resources_ok_def new_resources_def constructible_def)
  have base: "(capability_resolve (fa_capabilities sample_factory) (sample_address ''i1'') :: (unit, unit) AgentProfile) =
      \<lparr>ap_address = sample_address ''i1'', ap_tools = [], ap_skills = [], ap_rag_sources = [], ap_prompt = [], ap_agent_kind = React, ap_resources = []\<rparr>"
    by (simp add: sample_factory_sel capability_resolve_def)
  obtain r W where run: "profile_for (sample_address ''i1'') (sample_factory, empty_mem) = (r, W)" by (metis prod.collapse)
  from profile_unambiguous [OF ok, of "sample_address ''i1''" empty_mem]
  show ?thesis unfolding Let_def run base
    by (simp add: run sample_factory_sel names_clear_def tools_for_def skills_for_def skill_bindings_for_def new_resources_def resource_visible_def)
qed

section \<open>Spawning\<close>

text \<open>Who is alive, and builders and resource factories that only construct: they leave that as it is.\<close>

definition living :: "('s, 'f, 'i) AgentFactory \<Rightarrow> 's \<Rightarrow> AgentAddress \<Rightarrow> bool" where
  "living F s = (\<lambda>a. is_alive (en_registry (fa_engine F)) a s)"

definition constructs_only :: "('s, 'f, 'i) AgentFactory \<Rightarrow> bool" where
  "constructs_only F \<longleftrightarrow>
     (\<forall>r\<in>set (fa_regs F). \<forall>a g p f s x t. rn_builder r a (fa_engine F) g p f s = (x, t) \<longrightarrow>
        living F t = living F s \<and> (\<forall>ag. x = Inr ag \<longrightarrow> ag_address ag = a))
   \<and> factories_keep (living F) (fa_resources F)"

text \<open>Two factories that differ in the instances constructed and in their personas only.\<close>

definition same_wiring :: "('s, 'f, 'i) AgentFactory \<Rightarrow> ('s, 'f, 'i) AgentFactory \<Rightarrow> bool" where
  "same_wiring F G \<longleftrightarrow> fa_engine G = fa_engine F \<and> fa_regs G = fa_regs F \<and> rr_bindings (fa_resources G) = rr_bindings (fa_resources F)"

lemma same_wiring_trans: "same_wiring F G \<Longrightarrow> same_wiring G H \<Longrightarrow> same_wiring F H"
  by (simp add: same_wiring_def)

lemma same_wiring_living: "same_wiring F G \<Longrightarrow> living G = living F"
  by (simp add: same_wiring_def living_def fun_eq_iff)

lemma same_wiring_constructs: "same_wiring F G \<Longrightarrow> constructs_only G = constructs_only F"
  unfolding same_wiring_def constructs_only_def living_def factories_keep_def by simp

lemma profile_for_keeps:
  assumes "profile_for a (F, s) = (r, (G, t))" "constructs_only F"
  shows "same_wiring F G \<and> living F t = living F s"
proof -
  obtain x R u where res: "resources_for a (fa_resources F, s) = (x, (R, u))" by (metis prod.collapse)
  have "factories_keep (living F) (fa_resources F)" using assms(2) by (simp add: constructs_only_def)
  with res have k: "rr_bindings R = rr_bindings (fa_resources F)" "living F u = living F s"
    using claim_names_keeps [of a _ "[]" "[]" "fa_resources F" s x R u "living F"] by (auto simp: resources_for_def)
  with assms(1) res show ?thesis
    by (auto simp: profile_for_def Let_def same_wiring_def split: sum.splits)
qed

lemma create_keeps:
  assumes "create (Address_Arg a) (F, s) = (r, (G, t))" "constructs_only F"
  shows "same_wiring F G \<and> living F t = living F s \<and> (\<forall>ag. r = Inr ag \<longrightarrow> ag_address ag = a)"
proof -
  obtain x G1 s1 where p: "profile_for a (F, s) = (x, (G1, s1))" by (metis prod.collapse)
  note k = profile_for_keeps [OF p assms(2)]
  show ?thesis
  proof (cases x)
    case (Inl e)
    with assms(1) p k show ?thesis by (auto simp: create_def sbind_def)
  next
    case (Inr profile)
    then have b: "build a profile (G1, s1) = (r, (G, t))" using assms(1) p by (simp add: create_def sbind_def)
    show ?thesis
    proof (cases "List.find (\<lambda>q. pmatches (rn_pattern q) a) (fa_regs G1)")
      case None
      with b k show ?thesis by (auto simp: build_def)
    next
      case (Some q)
      then have "q \<in> set (fa_regs F)" using k by (auto simp: find_Some_iff same_wiring_def)
      moreover have run: "rn_builder q a (fa_engine F) (fa_groups G1) (fa_personas G1) profile s1 = (r, t)" "G = G1"
        using b Some k by (auto simp: build_def on_store_def same_wiring_def split: prod.splits)
      ultimately have "living F t = living F s1 \<and> (\<forall>ag. r = Inr ag \<longrightarrow> ag_address ag = a)"
        using assms(2) unfolding constructs_only_def by blast
      with k run(2) show ?thesis by simp
    qed
  qed
qed

lemma spawn_loop_partition:
  assumes "spawn_loop as result (F, s) = (Inr out, (G, t))" "constructs_only F"
  shows "sp_reused out = sp_reused result @ filter (living F s) as
    \<and> map ag_address (sp_new out) = map ag_address (sp_new result) @ filter (\<lambda>a. \<not> living F s a) as"
  using assms
proof (induction as arbitrary: result F s)
  case (Cons a as)
  show ?case
  proof (cases "living F s a")
    case True
    then have "spawn_loop as (result\<lparr>sp_reused := sp_reused result @ [a]\<rparr>) (F, s) = (Inr out, (G, t))"
      using Cons.prems(1) by (simp add: place_agent_def living_def sbind_def)
    from Cons.IH [OF this Cons.prems(2)] True show ?thesis by simp
  next
    case False
    obtain x F1 s1 where c: "create (Address_Arg a) (F, s) = (x, (F1, s1))" by (metis prod.collapse)
    note k = create_keeps [OF c Cons.prems(2)]
    obtain ag where x: "x = Inr ag" using Cons.prems(1) False c
      by (cases x) (simp_all add: place_agent_def living_def sbind_def)
    then have run: "spawn_loop as (result\<lparr>sp_new := sp_new result @ [ag]\<rparr>) (F1, s1) = (Inr out, (G, t))"
      using Cons.prems(1) False c by (simp add: place_agent_def living_def sbind_def)
    from k x have sw: "same_wiring F F1" and alive: "living F s1 = living F s" and ag: "ag_address ag = a" by simp_all
    have "constructs_only F1" using Cons.prems(2) same_wiring_constructs [OF sw] by (simp only:)
    with run have "sp_reused out = sp_reused result @ filter (living F1 s1) as
        \<and> map ag_address (sp_new out) = map ag_address (sp_new result @ [ag]) @ filter (\<lambda>a. \<not> living F1 s1 a) as"
      using Cons.IH [of "result\<lparr>sp_new := sp_new result @ [ag]\<rparr>" F1 s1] by simp
    then show ?thesis unfolding same_wiring_living [OF sw] alive using False ag by simp
  qed
qed simp

text \<open>C17: A spawn builds exactly the agents that are not there: when builders and factories only construct, a spawn that
  succeeds materializes the spec and splits its addresses, each side in their order, into the reused ones, which are
  exactly those alive at the start, and the new agents, one built at every other address.\<close>

theorem spawn_partition:
  assumes "constructs_only F" and "spawn now namer spec (F, s) = (Inr result, W')"
  shows "\<exists>p addresses. coerce_spec spec = Inr p \<and> materialize_async (en_registry (fa_engine F)) now namer p s = Inr addresses
    \<and> sp_reused result = filter (\<lambda>a. is_alive (en_registry (fa_engine F)) a s) addresses
    \<and> map ag_address (sp_new result) = filter (\<lambda>a. \<not> is_alive (en_registry (fa_engine F)) a s) addresses"
proof -
  obtain G t where w: "W' = (G, t)" by (cases W')
  from assms(2) obtain p addresses where m: "coerce_spec spec = Inr p"
    "materialize_async (en_registry (fa_engine F)) now namer p s = Inr addresses"
    "spawn_loop addresses no_spawn (F, s) = (Inr result, (G, t))"
    by (auto simp: spawn_def w split: sum.splits)
  from spawn_loop_partition [OF m(3) assms(1)] m(1,2) show ?thesis by (simp add: no_spawn_def living_def)
qed

theorem spawn_partition_witness:
  "\<exists>result W. spawn (Fin 0) default_namer (Spec_Text ''acme.agent.nlp.sum.s.session.2-*'') (sample_factory, empty_mem) = (Inr result, W)
    \<and> sp_reused result = [] \<and> map (to_str \<circ> ag_address) (sp_new result) = [''acme.agent.nlp.sum.s.session.instance0'', ''acme.agent.nlp.sum.s.session.instance1'']"
proof -
  let ?t = "''acme.agent.nlp.sum.s.session.2-*''" and ?G = "en_registry (fa_engine sample_factory)"
  have c: "constructs_only sample_factory"
    by (auto simp: constructs_only_def sample_factory_sel plain_builder_def new_agent_def factories_keep_def new_resources_def)
  let ?run = "spawn (Fin 0) default_namer (Spec_Text ?t) (sample_factory, empty_mem)"
  have "\<not> isl (fst ?run)" by code_simp
  then obtain result W where run: "?run = (Inr result, W)" by (cases ?run; cases "fst ?run") auto
  have m: "rbind (pv_parse ?t) (\<lambda>p. rbind (materialize_async ?G (Fin 0) default_namer p empty_mem) (\<lambda>as.
      Inr (list_all (\<lambda>a. \<not> is_alive ?G a empty_mem) as, map to_str as)))
      = Inr (True, [''acme.agent.nlp.sum.s.session.instance0'', ''acme.agent.nlp.sum.s.session.instance1''])" by code_simp
  from spawn_partition [OF c run] m run show ?thesis
    by (auto simp: list_all_iff filter_empty_conv simp flip: map_map)
qed

text \<open>A spec that asks for fresh agents only still reuses a live one that bears a fresh name.\<close>

lemma fresh_spawn_reuses:
  assumes "fresh_only p" "materialize namer p = Inr [a]" "is_alive (en_registry (fa_engine F)) a s"
  shows "spawn now namer (Spec p) (F, s) = (Inr \<lparr>sp_new = [], sp_reused = [a]\<rparr>, (F, s))"
  using assms by (simp add: spawn_def materialize_async_def place_agent_def no_spawn_def sbind_def)

text \<open>An invitation whose slug ends in a newline passes the inviter and fails as an address.\<close>

lemma newline_slug_fails: "seat_address st (''bull'' @ [CHR 0x0A]) = Inl ValueError"
proof -
  have e: "validate_token x = Inl e \<Longrightarrow> e = ValueError" for x e
    by (simp add: validate_token_def split: if_splits)
  show ?thesis
    using slug_newline_passes(2) by (auto simp: seat_address_def post_init_def rbind_def dest: e split: sum.split)
qed

end
