(* ===== verification/Human.thy ===== *)
theory Human
  imports Agents
begin

text \<open>
  \<open>ahp/adapters/human.py\<close>: a person at the network, through a display and an input that are
  arguments. \<open>repr\<close> is the text of a body that is neither \<open>None\<close> nor a string.
\<close>

section \<open>Rendering\<close>

definition format_body :: "(pyval \<Rightarrow> string) \<Rightarrow> pyval \<Rightarrow> string" where
  "format_body repr body = (case body of PNone \<Rightarrow> ''(empty)'' | PStr t \<Rightarrow> t | _ \<Rightarrow> repr body)"

text \<open>\<open>text[:n]\<close> in code points: a continuation byte goes with the byte before it.\<close>

definition continues :: "char \<Rightarrow> bool" where "continues c \<longleftrightarrow> CHR 0x80 \<le> c \<and> c < CHR 0xC0"

fun take_points :: "nat \<Rightarrow> string \<Rightarrow> string" where
  "take_points n [] = []"
| "take_points n (c # cs) =
     (if continues c then c # take_points n cs else case n of 0 \<Rightarrow> [] | Suc k \<Rightarrow> c # take_points k cs)"

definition ellipsis :: string where "ellipsis = [CHR 0xE2, CHR 0x80, CHR 0xA6]"

definition preview :: "(pyval \<Rightarrow> string) \<Rightarrow> pyval \<Rightarrow> int \<Rightarrow> string" where
  "preview repr body limit =
     (let t = format_body repr body in if py_len t \<le> limit then t else take_points (nat (limit - 1)) t @ ellipsis)"

section \<open>The person\<close>

datatype observation_level = L0 | L1 | L2 | L3

record 's HumanAgent =
  ha_agent :: "'s AHPAgent"
  ha_on_message :: "(string \<Rightarrow> ('s, unit) op) option"
  ha_input_provider :: "(Message \<Rightarrow> ('s, string) op) option"
  ha_level :: observation_level

definition should_display :: "'s HumanAgent \<Rightarrow> Message \<Rightarrow> bool res" where
  "should_display H m =
     (case ha_level H of
        L0 \<Rightarrow> Inr False
      | L3 \<Rightarrow> Inr True
      | L1 \<Rightarrow> rbind (is_error (m_code m)) (\<lambda>e. Inr (\<not> e))
      | L2 \<Rightarrow> Inr True)"

definition render :: "(pyval \<Rightarrow> string) \<Rightarrow> 's HumanAgent \<Rightarrow> Message \<Rightarrow> string" where
  "render repr H m =
     (if ha_level H = L1 then ''['' @ a_instance (m_source m) @ ''] '' @ m_code m @ '': '' @ preview repr (m_body m) 200
      else ''['' @ to_str (m_source m) @ ''] '' @ m_code m @ [CHR 0x0A] @ format_body repr (m_body m)
        @ (if ha_level H = L3 then [CHR 0x0A] @ ''  message_id='' @ m_message_id m @ '' thread='' @ m_thread m @ '' verb='' @ m_verb m else []))"

definition human_handle_message :: "(pyval \<Rightarrow> string) \<Rightarrow> 's HumanAgent \<Rightarrow> minted \<Rightarrow> 's handler" where
  "human_handle_message repr H mt m =
     sbind (slift (should_display H m)) (\<lambda>shown.
     if \<not> shown then sret None
     else
       sbind (case ha_on_message H of None \<Rightarrow> sret () | Some show_text \<Rightarrow> show_text (render repr H m)) (\<lambda>_.
       case (expects_response m, ha_input_provider H) of
         (True, Some ask) \<Rightarrow>
           sbind (ask m) (\<lambda>said.
           sbind (slift (new_message mt (ag_address (ha_agent H)) (TAddr (m_source m)) ''SEND'' ''human.query'' (m_thread m) (PStr said))) (\<lambda>r.
           sret (Some r)))
       | _ \<Rightarrow> sret None))"

section \<open>What a person sees\<close>

lemma py_len_Cons [simp]: "py_len [] = 0" "py_len (c # cs) = (if continues c then 0 else 1) + py_len cs"
  by (simp_all add: py_len_def continues_def)

lemma py_len_append [simp]: "py_len (s @ t) = py_len s + py_len t"
  by (induction s) auto

lemma take_points_len: "py_len (take_points n s) = min (int n) (py_len s)"
proof -
  have nonneg: "0 \<le> py_len t" for t by (simp add: py_len_def)
  show ?thesis
  proof (induction n s rule: take_points.induct)
    case (2 n c cs)
    then show ?case using nonneg [of cs] by (cases n) auto
  qed simp
qed

lemma take_points_prefix: "\<exists>u. s = take_points n s @ u"
  by (induction n s rule: take_points.induct) (auto split: nat.split)

text \<open>A preview is at most as long as its limit, in code points; a short body is shown whole, of a long one the beginning.\<close>

lemma preview_bounded:
  assumes "0 < limit"
  shows "py_len (preview repr body limit) \<le> limit"
    "py_len (format_body repr body) \<le> limit \<Longrightarrow> preview repr body limit = format_body repr body"
    "limit < py_len (format_body repr body) \<Longrightarrow> py_len (preview repr body limit) = limit"
proof -
  have "continues (CHR 0x80)" "continues (CHR 0xA6)" "\<not> continues (CHR 0xE2)" by code_simp+
  then have e: "py_len ellipsis = 1" by (simp add: ellipsis_def)
  show "py_len (preview repr body limit) \<le> limit"
    "py_len (format_body repr body) \<le> limit \<Longrightarrow> preview repr body limit = format_body repr body"
    "limit < py_len (format_body repr body) \<Longrightarrow> py_len (preview repr body limit) = limit"
    using assms by (auto simp: preview_def Let_def e take_points_len)
qed

text \<open>What a level hides: nothing is shown, asked or answered, and the store stays as it is.\<close>

definition hidden :: "'s HumanAgent \<Rightarrow> Message \<Rightarrow> bool" where
  "hidden H m \<longleftrightarrow> ha_level H = L0 \<or> ha_level H = L1 \<and> is_error (m_code m) = Inr True"

text \<open>A person sees what the level allows: a hidden message (any at level L0, an error at L1) touches nothing and is not
  answered; any other well-formed message is shown once, before the person is asked; the answer is sent only when the
  sender waits and there is somebody to ask, as a well-formed reply in the sender's thread.\<close>

lemma person_sees_and_answers:
  assumes "agent_ok (ha_agent H) mt" and "valid_message m" and "ha_on_message H = Some shown" and "shown (render repr H m) s = (Inr (), u)"
    and "ha_input_provider H = Some ask" and "ask m u = (Inr said, t)"
  shows "if hidden H m then human_handle_message repr H mt m s = (Inr None, s)
    else if \<not> expects_response m then human_handle_message repr H mt m s = (Inr None, u)
    else \<exists>r. human_handle_message repr H mt m s = (Inr (Some r), t) \<and> valid_message r \<and> m_source r = ag_address (ha_agent H)
      \<and> m_target r = TAddr (m_source m) \<and> m_thread r = m_thread m \<and> m_code r = ''human.query'' \<and> m_body r = PStr said"
proof -
  have "m_code m \<noteq> []" using assms(2) by (simp add: valid_message_def)
  then have disp: "should_display H m = Inr (\<not> hidden H m)"
    by (auto simp: should_display_def hidden_def is_error_def family_def split: observation_level.splits)
  let ?r = "\<lparr>m_source = ag_address (ha_agent H), m_target = TAddr (m_source m), m_verb = ''SEND'', m_code = ''human.query'', m_thread = m_thread m,
       m_body = PStr said, m_timestamp = mi_time mt, m_ttl = Some (dict_get LIFECYCLE_TTL (a_lifecycle (ag_address (ha_agent H))) 0),
       m_reply_to = None, m_message_id = mi_id mt, m_format = None\<rparr>"
  have "0 \<le> dict_get LIFECYCLE_TTL lc 0" for lc by (simp add: dict_get_def LIFECYCLE_TTL_def)
  then have valid: "valid_message ?r"
    using assms(1,2) by (simp add: valid_message_def agent_ok_def valid_target_def VALID_VERBS_def is_broadcast_def)
  have new: "new_message mt (ag_address (ha_agent H)) (TAddr (m_source m)) ''SEND'' ''human.query'' (m_thread m) (PStr said) = Inr ?r"
    using assms(1,2) by (simp add: new_message_def msg_post_init_def VALID_VERBS_def agent_ok_def valid_message_def normalize_ts_def)
  show ?thesis
    using valid by (auto simp: human_handle_message_def disp assms(3-6) new sbind_def)
qed

definition sample_person :: "observation_level \<Rightarrow> mem HumanAgent" where
  "sample_person level = \<lparr>ha_agent = sample_agent, ha_on_message = Some (\<lambda>t. sret ()), ha_input_provider = Some (\<lambda>m. sret ''fine''), ha_level = level\<rparr>"

lemma person_sees_and_answers_witness:
  "(\<exists>r. human_handle_message (\<lambda>_. []) (sample_person L1) sample_minted sample_message empty_mem = (Inr (Some r), empty_mem) \<and> m_body r = PStr ''fine'')
   \<and> human_handle_message (\<lambda>_. []) (sample_person L0) sample_minted sample_message empty_mem = (Inr None, empty_mem)"
proof -
  have v: "valid_message sample_message" using sample_sendable(1) by (simp add: sendable_def)
  have "is_error (m_code sample_message) = Inr False" "expects_response sample_message" by code_simp+
  moreover have ok: "agent_ok (ha_agent (sample_person l)) sample_minted" for l using sample_agent_ok(1) by (simp add: sample_person_def)
  ultimately show ?thesis
    using person_sees_and_answers [OF ok v, of L1 "\<lambda>t. sret ()" "\<lambda>_. []" empty_mem empty_mem "\<lambda>m. sret ''fine''" "''fine''" empty_mem]
      person_sees_and_answers [OF ok v, of L0 "\<lambda>t. sret ()" "\<lambda>_. []" empty_mem empty_mem "\<lambda>m. sret ''fine''" "''fine''" empty_mem]
    by (auto simp: sample_person_def hidden_def)
qed

end
