(* ===== verification/Gateways.thy ===== *)
theory Gateways
  imports FormatAgents
begin

text \<open>
  \<open>ahp/adapters/gateway.py\<close>: agents that translate between accept tiers. A subclass is its
  two tiers and its translation. \<open>py_texts\<close> gathers the texts the concrete gateways take from
  the library: the JSON text with sorted keys, \<open>str\<close>, the type name of a value, a number with
  three decimals, a SHA-256 digest in hexadecimal.
\<close>

section \<open>Gateways\<close>

record 's GatewayClass =
  gc_source_tier :: string
  gc_output_tier :: string
  gc_translate :: "Message \<Rightarrow> ('s, pyval) op"

text \<open>\<open>tier in address.accept\<close> on strings.\<close>

definition substring :: "string \<Rightarrow> string \<Rightarrow> bool" where
  "substring p s \<longleftrightarrow> list_ex (\<lambda>k. startswith (drop k s) p) [0..<Suc (length s)]"

definition new_gateway :: "pyfloat \<Rightarrow> 's GatewayClass \<Rightarrow> AgentAddress \<Rightarrow> 's ProtocolEngine \<Rightarrow> GroupRegistry option \<Rightarrow>
    AgentMeta option \<Rightarrow> pyfloat \<Rightarrow> string option \<Rightarrow> 's AHPAgent res" where
  "new_gateway now C address engine groups metadata interval default_thread =
     (if \<not> substring (gc_source_tier C) (a_accept address) then Inl ValueError
      else
        let meta = (case metadata of None \<Rightarrow> default_meta now | Some m \<Rightarrow> m);
            meta = stamp_meta meta ''gateway'' (PDict [(''source_tier'', PStr (gc_source_tier C)), (''output_tier'', PStr (gc_output_tier C))]) ''gateway''
        in Inr (new_agent now address engine groups (Some meta) interval default_thread))"

text \<open>The reply all gateways build: to the requester, in its thread, under its code.\<close>

definition gateway_reply :: "'s AHPAgent \<Rightarrow> minted \<Rightarrow> Message \<Rightarrow> pyval \<Rightarrow> Message res" where
  "gateway_reply a mt m body = new_message mt (ag_address a) (TAddr (m_source m)) ''SEND'' (m_code m) (m_thread m) body"

definition gw_handle_message :: "'s GatewayClass \<Rightarrow> 's AHPAgent \<Rightarrow> minted \<Rightarrow> 's handler" where
  "gw_handle_message C a mt m =
     sbind (gc_translate C m) (\<lambda>body. sbind (slift (gateway_reply a mt m body)) (\<lambda>r. sret (Some r)))"

section \<open>The concrete translations\<close>

record py_texts =
  pt_dumps :: "pyval \<Rightarrow> string res"
  pt_str :: "pyval \<Rightarrow> string"
  pt_type :: "pyval \<Rightarrow> string"
  pt_fixed3 :: "pyval \<Rightarrow> string res"
  pt_sha256 :: "string \<Rightarrow> string"

definition embedding_text :: "py_texts \<Rightarrow> pyval \<Rightarrow> string res" where
  "embedding_text T body =
     (let opaque = Inr (''[embedding payload of type '' @ pt_type T body @ ''; stand-in describer]'') in
      case body of
        PBytes b \<Rightarrow> Inr (''[embedding payload: '' @ decimal (length b) @ '' bytes, sha256='' @ take 12 (pt_sha256 T b) @ ''; stand-in describer]'')
      | PList vs \<Rightarrow>
          (case mapM (pt_fixed3 T) (take 4 vs) of
             Inr texts \<Rightarrow> Inr (''[embedding vector: dim='' @ decimal (length vs) @ '', first4=['' @ join '', '' texts
                 @ (if 4 < length vs then '', ...'' else []) @ '']; stand-in describer]'')
           | Inl e \<Rightarrow> if e = TypeError \<or> e = ValueError then opaque else Inl e)
      | _ \<Rightarrow> opaque)"

definition embedding_to_text :: "py_texts \<Rightarrow> 's GatewayClass" where
  "embedding_to_text T = \<lparr>gc_source_tier = ''e'', gc_output_tier = ''s'',
     gc_translate = (\<lambda>m. sbind (slift (embedding_text T (m_body m))) (\<lambda>t. sret (PStr t)))\<rparr>"

definition json_text :: "py_texts \<Rightarrow> pyval \<Rightarrow> string res" where
  "json_text T body =
     (case pt_dumps T body of
        Inr t \<Rightarrow> Inr t
      | Inl e \<Rightarrow> if e = TypeError \<or> e = ValueError then Inr (pt_str T body) else Inl e)"

definition json_to_text :: "py_texts \<Rightarrow> 's GatewayClass" where
  "json_to_text T = \<lparr>gc_source_tier = ''j'', gc_output_tier = ''s'',
     gc_translate = (\<lambda>m. sbind (slift (json_text T (m_body m))) (\<lambda>t. sret (PStr t)))\<rparr>"

section \<open>Relaying\<close>

record 's RelayClass = "'s GatewayClass" +
  rc_translate_request :: "Message \<Rightarrow> ('s, pyval) op"
  rc_translate_response :: "Message \<Rightarrow> Message \<Rightarrow> ('s, pyval) op"

definition default_relay :: "'s GatewayClass \<Rightarrow> 's RelayClass" where
  "default_relay C = GatewayClass.extend C \<lparr>rc_translate_request = gc_translate C, rc_translate_response = (\<lambda>response original. sret (m_body response))\<rparr>"

definition relay_field :: "Message \<Rightarrow> pyval" where
  "relay_field m = (case m_body m of PDict d \<Rightarrow> dict_get d ''relay_to'' PNone | _ \<Rightarrow> PNone)"

definition relay_address :: "pyval \<Rightarrow> AgentAddress res" where
  "relay_address v = (case v of PStr t \<Rightarrow> parse t | _ \<Rightarrow> Inl TypeError)"

text \<open>
  \<open>handle_message\<close> of a relay; \<open>mt\<close> mints the forwarded message, \<open>mt'\<close> the reply, \<open>repr\<close> is the
  text of \<open>repr\<close>.
\<close>

definition relay_handle_message :: "(pyval \<Rightarrow> string) \<Rightarrow> 's RelayClass \<Rightarrow> 's AHPAgent \<Rightarrow> 's outside \<Rightarrow> minted \<Rightarrow> minted \<Rightarrow> 's handler" where
  "relay_handle_message repr C a W mt mt' m =
     (let relay_to = relay_field m;
          reply = (\<lambda>body. sbind (slift (gateway_reply a mt' m body)) (\<lambda>r. sret (Some r)))
      in if \<not> truthy relay_to then gw_handle_message (GatewayClass.truncate C) a mt' m
         else (case relay_address relay_to of
             Inl e \<Rightarrow> if e = ValueError \<or> e = TypeError
                      then reply (PStr (''[gateway error: invalid relay_to '' @ repr relay_to @ '']'')) else sraise e
           | Inr target \<Rightarrow>
               sbind (rc_translate_request C m) (\<lambda>translated.
               sbind (slift (new_message mt (ag_address a) (TAddr target) ''SEND-GET'' (m_code m) (m_thread m) translated)) (\<lambda>relayed.
               sbind (engine_handle (ag_engine a) W relayed (Some (Fin 30)) None) (\<lambda>result.
               case result of
                 Reply (Some response) \<Rightarrow> sbind (rc_translate_response C response m) reply
               | _ \<Rightarrow> reply (PStr ''[gateway: relay target did not respond]''))))))"

section \<open>The envelope of a gateway's reply\<close>

definition keeps_conversation :: "'s AHPAgent \<Rightarrow> Message \<Rightarrow> Message \<Rightarrow> bool" where
  "keeps_conversation a m r \<longleftrightarrow> valid_message r \<and> m_source r = ag_address a \<and> m_target r = TAddr (m_source m)
     \<and> m_verb r = ''SEND'' \<and> m_code r = m_code m \<and> m_thread r = m_thread m"

lemma gateway_reply_run:
  assumes "agent_ok a mt" "valid_message m"
  obtains r where "gateway_reply a mt m body = Inr r" "keeps_conversation a m r" "m_body r = body"
proof -
  let ?r = "\<lparr>m_source = ag_address a, m_target = TAddr (m_source m), m_verb = ''SEND'', m_code = m_code m, m_thread = m_thread m,
       m_body = body, m_timestamp = mi_time mt, m_ttl = Some (dict_get LIFECYCLE_TTL (a_lifecycle (ag_address a)) 0),
       m_reply_to = None, m_message_id = mi_id mt, m_format = None\<rparr>"
  have "0 \<le> dict_get LIFECYCLE_TTL lc 0" for lc by (simp add: dict_get_def LIFECYCLE_TTL_def)
  then have "keeps_conversation a m ?r"
    using assms by (simp add: keeps_conversation_def valid_message_def agent_ok_def valid_target_def VALID_VERBS_def is_broadcast_def)
  moreover have "gateway_reply a mt m body = Inr ?r"
    using assms by (simp add: gateway_reply_def new_message_def msg_post_init_def VALID_VERBS_def agent_ok_def valid_message_def normalize_ts_def)
  ultimately show thesis using that [of ?r] by simp
qed

lemma reply_step:
  assumes "agent_ok a mt" "valid_message m"
    and "sbind (slift (gateway_reply a mt m body)) (\<lambda>r. sret (Some r)) s = (Inr out, t)"
  shows "\<exists>r. out = Some r \<and> keeps_conversation a m r"
proof -
  obtain r where "gateway_reply a mt m body = Inr r" "keeps_conversation a m r" by (rule gateway_reply_run [OF assms(1,2)])
  with assms(3) show ?thesis by auto
qed

lemma gateway_reply_keeps:
  assumes "agent_ok a mt" "valid_message m" and "gateway_reply a mt m body = Inr r"
  shows "keeps_conversation a m r"
proof -
  obtain r' where "gateway_reply a mt m body = Inr r'" "keeps_conversation a m r'" by (rule gateway_reply_run [OF assms(1,2)])
  with assms(3) show ?thesis by simp
qed

lemma gw_handle_step:
  assumes "agent_ok a mt" "valid_message m" and "gw_handle_message C a mt m s = (Inr out, t)"
  shows "\<exists>r. out = Some r \<and> keeps_conversation a m r"
  using assms(3) unfolding gw_handle_message_def by (elim sbind_InrE [of "gc_translate C m"]) (rule reply_step [OF assms(1,2)])

section \<open>Properties\<close>

text \<open>C16: A gateway keeps the conversation: whenever a relaying gateway (or, without a relay target, a plain one) returns,
  it returns a well-formed reply from itself to the requester, in the requester's thread and under its code,
  whichever of its paths produced the body; and for a target text that is no address nothing is sent at all.\<close>

theorem gateway_keeps_conversation:
  assumes "agent_ok a mt'" and "valid_message m" and "relay_handle_message repr C a W mt mt' m s = (Inr out, t)"
  shows "(\<exists>r. out = Some r \<and> keeps_conversation a m r)
    \<and> (case relay_field m of PStr txt \<Rightarrow> txt \<noteq> [] \<and> isl (parse txt) \<longrightarrow> t = s | _ \<Rightarrow> True)"
proof -
  note step = reply_step [OF assms(1,2)]
  show ?thesis
  proof (cases "truthy (relay_field m)")
    case False
    then have "gw_handle_message (GatewayClass.truncate C) a mt' m s = (Inr out, t)"
      using assms(3) by (simp add: relay_handle_message_def Let_def)
    from gw_handle_step [OF assms(1,2) this] False show ?thesis by (auto split: pyval.splits)
  next
    case True
    show ?thesis
    proof (cases "relay_address (relay_field m)")
      case (Inl e)
      then have "e = ValueError \<or> e = TypeError" by (auto simp: relay_address_def parse_error split: pyval.splits)
      then have run: "sbind (slift (gateway_reply a mt' m (PStr (''[gateway error: invalid relay_to '' @ repr (relay_field m) @ '']''))))
          (\<lambda>r. sret (Some r)) s = (Inr out, t)"
        using assms(3) True Inl by (simp add: relay_handle_message_def Let_def)
      then have "t = s" by (auto split: sum.splits)
      with step [OF run] show ?thesis by (auto split: pyval.splits)
    next
      case (Inr target)
      have "\<exists>r. out = Some r \<and> keeps_conversation a m r"
        using assms(3) True Inr unfolding relay_handle_message_def Let_def
        by (auto elim!: sbind_InrE split: engine_result.splits option.splits simp del: sbind_simps dest!: gateway_reply_keeps [OF assms(1,2)])
      moreover have "case relay_field m of PStr txt \<Rightarrow> \<not> isl (parse txt) | _ \<Rightarrow> True"
        using Inr by (auto simp: relay_address_def split: pyval.splits)
      ultimately show ?thesis by (auto split: pyval.splits)
    qed
  qed
qed

definition sample_texts :: py_texts where
  "sample_texts = \<lparr>pt_dumps = (\<lambda>v. Inr ''{}''), pt_str = (\<lambda>v. ''x''), pt_type = (\<lambda>v. ''dict''),
     pt_fixed3 = (\<lambda>v. Inr ''0.000''), pt_sha256 = (\<lambda>t. t)\<rparr>"

theorem gateway_keeps_conversation_witness:
  "\<forall>W. \<exists>m r. relay_handle_message (\<lambda>v. ''?'') (default_relay (json_to_text sample_texts)) sample_agent W sample_minted sample_minted m empty_mem
      = (Inr (Some r), empty_mem) \<and> keeps_conversation sample_agent m r"
proof
  fix W
  let ?m = "sample_message\<lparr>m_body := PDict [(''relay_to'', PStr ''nobody'')]\<rparr>"
  let ?C = "default_relay (json_to_text sample_texts)"
  have field: "relay_field ?m = PStr ''nobody''" by (simp add: relay_field_def dict_get_def)
  have bad: "parse ''nobody'' = Inl ValueError" by code_simp
  have v: "valid_message ?m" using sample_sendable(1) by (simp add: sendable_def valid_message_def is_broadcast_def)
  obtain r where "gateway_reply sample_agent sample_minted ?m (PStr ''[gateway error: invalid relay_to ?]'') = Inr r"
    by (rule gateway_reply_run [OF sample_agent_ok(1) v])
  then have run: "relay_handle_message (\<lambda>v. ''?'') ?C sample_agent W sample_minted sample_minted ?m empty_mem = (Inr (Some r), empty_mem)"
    by (simp add: relay_handle_message_def field bad relay_address_def)
  from gateway_keeps_conversation [OF sample_agent_ok(1) v run] run
  show "\<exists>m r. relay_handle_message (\<lambda>v. ''?'') ?C sample_agent W sample_minted sample_minted m empty_mem
      = (Inr (Some r), empty_mem) \<and> keeps_conversation sample_agent m r" by auto
qed

end
