(* ===== verification/Cli.thy ===== *)
theory Cli
  imports Scaffolders Factory Human Gateways
begin

text \<open>
  \<open>ahp/cli.py\<close>, the commands: listings of the libraries and of the live network, the life cycle of an
  agent, surveys, the tap, one-off messages and the audit stream. \<open>cli_env\<close> gathers what a command takes
  from outside: the connection, the clock and the local time, the texts of JSON values, of values and of
  exceptions, fresh identifiers, the frames of a subscription, the entries of a stream. Closing the
  connection changes nothing that is modelled.
\<close>

section \<open>Texts\<close>

text \<open>\<open>format(x, '.kf')\<close>: the exact value, rounded half to even at the last decimal.\<close>

definition pad_zeros :: "nat \<Rightarrow> string \<Rightarrow> string" where
  "pad_zeros k t = replicate (k - length t) (CHR ''0'') @ t"

definition fixed_text :: "nat \<Rightarrow> pyfloat \<Rightarrow> string" where
  "fixed_text k x =
     (case x of
        NaN \<Rightarrow> ''nan'' | PInf \<Rightarrow> ''inf'' | NInf \<Rightarrow> ''-inf''
      | Fin q \<Rightarrow>
          (let n = nat (rhe (\<bar>q\<bar> * 10 ^ k)) in
           (if q < 0 then ''-'' else []) @ decimal (n div 10 ^ k)
           @ (if k = 0 then [] else CHR ''.'' # pad_zeros k (decimal (n mod 10 ^ k)))))"

definition ljust :: "int \<Rightarrow> string \<Rightarrow> string" where
  "ljust w t = t @ replicate (nat (w - py_len t)) (CHR '' '')"

section \<open>Tables\<close>

definition column_width :: "string list list \<Rightarrow> nat \<Rightarrow> string \<Rightarrow> int res" where
  "column_width rows i h =
     (if rows = [] then Inl TypeError
      else rbind (mapM (\<lambda>r. if i < length r then Inr (py_len (r ! i)) else Inl IndexError) rows) (\<lambda>ws.
           Inr (fold max ws (py_len h))))"

definition table_row :: "int list \<Rightarrow> string list \<Rightarrow> string res" where
  "table_row widths row =
     (if length row < length widths then Inl IndexError
      else Inr (join ''  '' (map (\<lambda>(w, t). ljust w t) (zip widths row))))"

definition render_table :: "string list \<Rightarrow> string list list \<Rightarrow> string list res" where
  "render_table headers rows =
     rbind (mapM (\<lambda>(i, h). column_width rows i h) (enumerate 0 headers)) (\<lambda>widths.
     rbind (table_row widths headers) (\<lambda>top.
     rbind (table_row widths (map (\<lambda>w. replicate (nat w) (CHR ''-'')) widths)) (\<lambda>rule.
     rbind (mapM (table_row widths) rows) (\<lambda>body.
     Inr (top # rule # body)))))"

fun print_lines :: "string list \<Rightarrow> ('s terminal, unit) op" where
  "print_lines [] = sret ()"
| "print_lines (l # ls) = sbind (print_line l) (\<lambda>_. print_lines ls)"

definition print_table :: "string list \<Rightarrow> string list list \<Rightarrow> ('s terminal, int) op" where
  "print_table headers rows = sbind (slift (render_table headers rows)) (\<lambda>ls. sbind (print_lines ls) (\<lambda>_. sret 0))"

definition dashed :: "string \<Rightarrow> string" where "dashed t = or_default (Some t) ''-''"

section \<open>The libraries\<close>

record ('s, 'f, 'i) shell =
  sh_tools :: "'f ToolRegistry"
  sh_resources :: "('s, 'i) ResourceRegistry"
  sh_skills :: "'f SkillRegistry"
  sh_groups :: GroupRegistry
  sh_store :: 's

type_synonym ('s, 'f, 'i, 'a) shell_op = "(('s, 'f, 'i) shell terminal, 'a) op"

text \<open>Importing a module runs its decorators: an argument. The first that fails ends the command with code 2.\<close>

fun load_modules :: "(string \<Rightarrow> ('w, unit) op) \<Rightarrow> (pyexc \<Rightarrow> string) \<Rightarrow> string list \<Rightarrow> ('w terminal, bool) op" where
  "load_modules import_module err_text [] = sret True"
| "load_modules import_module err_text (m # ms) =
     sbind (scatch (sbind (on_term (import_module m)) (\<lambda>_. sret True))
              (\<lambda>e. sbind (warn_line (''failed to import '' @ str_repr m @ '': '' @ err_text e)) (\<lambda>_. sret False)))
       (\<lambda>ok. if ok then load_modules import_module err_text ms else sret False)"

definition with_modules :: "(string \<Rightarrow> ('w, unit) op) \<Rightarrow> (pyexc \<Rightarrow> string) \<Rightarrow> namespace \<Rightarrow> ('w terminal, int) op \<Rightarrow> ('w terminal, int) op" where
  "with_modules import_module err_text ns body =
     sbind (load_modules import_module err_text (texts_arg ns ''module'')) (\<lambda>ok. if ok then body else sret 2)"

definition wanted_tags :: "namespace \<Rightarrow> string list option" where
  "wanted_tags ns = (case texts_arg ns ''tag'' of [] \<Rightarrow> None | ts \<Rightarrow> Some ts)"

definition tag_text :: "string list \<Rightarrow> string" where "tag_text tags = dashed (join '','' (sort (remdups tags)))"

definition first_60 :: "string \<Rightarrow> string res" where "first_60 d = rbind (first_line d) (\<lambda>l. Inr (take_points 60 l))"

definition listed_tools :: "'f ToolRegistry \<Rightarrow> namespace \<Rightarrow> 'f ToolBinding list res" where
  "listed_tools d ns =
     (case given (opt_arg ns ''for_addr'') of
        Some a \<Rightarrow> rbind (parse a) (\<lambda>addr. Inr (tool_bindings_for d addr (wanted_tags ns)))
      | None \<Rightarrow> Inr (filter (\<lambda>b. tags_admit (wanted_tags ns) (tb_tags b)) (map snd d)))"

definition tool_row :: "'f ToolBinding \<Rightarrow> string list res" where
  "tool_row b = rbind (first_60 (tl_description (tb_tool b))) (\<lambda>desc.
     Inr [tool_str (tb_address b), tl_name (tb_tool b), tag_text (tb_tags b), desc])"

definition cmd_list_tools :: "namespace \<Rightarrow> ('s, 'f, 'i, int) shell_op" where
  "cmd_list_tools ns =
     sbind (sread (\<lambda>T. sh_tools (tm_store T))) (\<lambda>d.
     sbind (slift (rbind (listed_tools d ns) (mapM tool_row))) (\<lambda>rows.
     if rows = [] then succeed_with ''(no tools registered)''
     else print_table [''address'', ''name'', ''tags'', ''description''] rows))"

definition resource_row :: "('s, 'i) ResourceBinding \<Rightarrow> string list" where
  "resource_row b = [res_str (rb_address b), ra_kind (rb_address b), dashed (take_points 60 (rb_description b))]"

definition listed_resources :: "('s, 'i) ResourceRegistry \<Rightarrow> namespace \<Rightarrow> ('s, 'i) ResourceBinding list res" where
  "listed_resources R ns =
     (case given (opt_arg ns ''for_addr'') of
        Some a \<Rightarrow> rbind (parse a) (\<lambda>addr. Inr (filter (\<lambda>b. pmatches (rb_allowed_for b) addr) (map snd (rr_bindings R))))
      | None \<Rightarrow> Inr (map snd (rr_bindings R)))"

definition cmd_list_resources :: "namespace \<Rightarrow> ('s, 'f, 'i, int) shell_op" where
  "cmd_list_resources ns =
     sbind (sread (\<lambda>T. sh_resources (tm_store T))) (\<lambda>R.
     sbind (slift (listed_resources R ns)) (\<lambda>bs.
     if bs = [] then succeed_with ''(no resources registered)''
     else print_table [''address'', ''kind'', ''description''] (map resource_row bs)))"

definition listed_skills :: "'f SkillRegistry \<Rightarrow> namespace \<Rightarrow> 'f SkillBinding list res" where
  "listed_skills d ns =
     (case given (opt_arg ns ''for_addr'') of
        Some a \<Rightarrow> rbind (parse a) (\<lambda>addr. Inr (skill_bindings_for d addr (wanted_tags ns)))
      | None \<Rightarrow> Inr (filter (\<lambda>b. tags_admit (wanted_tags ns) (sb_tags b)) (map snd d)))"

definition bundle_sizes :: "'f Skill \<Rightarrow> string" where
  "bundle_sizes sk = ''t='' @ decimal (length (sk_suggested_tools sk)) @ '' s='' @ decimal (length (sk_suggested_specialists sk))
     @ '' l='' @ decimal (length (sk_suggested_loras sk)) @ '' i='' @ decimal (length (sk_suggested_sources sk))"

definition skill_row :: "'f SkillBinding \<Rightarrow> string list res" where
  "skill_row b = (let sk = sb_skill b in
     rbind (first_60 (sk_description sk)) (\<lambda>desc.
     Inr [res_str (sb_address b), sk_name sk, tag_text (sb_tags b), if sk_graph sk = None then ''-'' else ''yes'', bundle_sizes sk, desc]))"

definition cmd_list_skills :: "namespace \<Rightarrow> ('s, 'f, 'i, int) shell_op" where
  "cmd_list_skills ns =
     sbind (sread (\<lambda>T. sh_skills (tm_store T))) (\<lambda>d.
     sbind (slift (listed_skills d ns)) (\<lambda>bs.
     if bs = [] then succeed_with ''(no skills registered)''
     else sbind (slift (mapM skill_row bs)) (print_table [''address'', ''name'', ''tags'', ''graph'', ''bundles'', ''description''])))"

definition cmd_list_groups :: "namespace \<Rightarrow> ('s, 'f, 'i, int) shell_op" where
  "cmd_list_groups ns =
     sbind (sread (\<lambda>T. map snd (sh_groups (tm_store T)))) (\<lambda>gs.
     if gs = [] then succeed_with ''(no groups registered)''
     else print_table [''name'', ''pattern'', ''description'']
       (map (\<lambda>g. [gp_name g, pto_str (gp_pattern g), dashed (take_points 60 (gp_description g))]) gs))"

text \<open>
  \<open>profile\<close>: a throw-away factory over the default libraries; \<open>null_engine\<close> stands for the stub that
  only fills the constructor. The factory is given no skills and no capabilities.
\<close>

definition agent_kind_text :: "AgentKind \<Rightarrow> string" where
  "agent_kind_text k = (case k of React \<Rightarrow> ''react'' | Deep \<Rightarrow> ''deep'' | Custom \<Rightarrow> ''custom'')"

definition profile_factory :: "'s ProtocolEngine \<Rightarrow> ('s, 'f, 'i) shell \<Rightarrow> ('s, 'f, 'i) AgentFactory" where
  "profile_factory null_engine w =
     new_factory null_engine None (Some (sh_tools w)) (Some (sh_resources w)) (Some (sh_groups w)) None None None None False"

definition shell_profile :: "'s ProtocolEngine \<Rightarrow> AgentAddress \<Rightarrow> (('s, 'f, 'i) shell, ('f, 'i) AgentProfile) op" where
  "shell_profile null_engine a w =
     (case profile_for a (profile_factory null_engine w, sh_store w) of
        (r, (F, t)) \<Rightarrow> (r, w\<lparr>sh_resources := fa_resources F, sh_store := t\<rparr>))"

definition bullets :: "string list \<Rightarrow> string list" where
  "bullets ls = (if ls = [] then [''  (none)''] else map (\<lambda>l. ''  - '' @ l) ls)"

text \<open>\<open>s.splitlines()\<close>: a carriage return with its line feed is one break, a final break opens no line.\<close>

fun splitlines :: "string \<Rightarrow> string list" where
  "splitlines [] = []"
| "splitlines (c # cs) =
     (if c = CHR 0x0D \<and> cs \<noteq> [] \<and> hd cs = CHR 0x0A then [] # splitlines (tl cs)
      else if line_break c then [] # splitlines cs
      else (case cs of
              [] \<Rightarrow> [[c]]
            | d # ds \<Rightarrow> if line_break d then (c # hd (splitlines cs)) # tl (splitlines cs)
                        else (case splitlines cs of [] \<Rightarrow> [[c]] | l # ls \<Rightarrow> (c # l) # ls)))"

definition profile_head :: "AgentAddress \<Rightarrow> ('f, 'i) AgentProfile \<Rightarrow> string list" where
  "profile_head a p =
     [''agent address:  '' @ to_str a, ''agent kind:     '' @ agent_kind_text (ap_agent_kind p), [], ''tools:'']"

definition tool_line :: "'f Tool \<Rightarrow> string res" where
  "tool_line t = rbind (first_60 (tl_description t)) (\<lambda>d. Inr (''  - '' @ ljust 32 (tl_name t) @ '' '' @ d))"

definition profile_rest :: "('f, 'i) AgentProfile \<Rightarrow> string list" where
  "profile_rest p =
     [[], ''skills:''] @ bullets (map (\<lambda>s. ljust 32 (sk_name s) @ '' '' @ take_points 60 (sk_description s)) (ap_skills p))
     @ [[], ''resources:''] @ bullets (sort (map fst (ap_resources p)))
     @ [[]] @ (if ap_prompt p = [] then [] else ''prompt:'' # map (\<lambda>l. ''  '' @ l) (splitlines (ap_prompt p)))"

fun print_each :: "('a \<Rightarrow> string res) \<Rightarrow> 'a list \<Rightarrow> ('s terminal, unit) op" where
  "print_each f [] = sret ()"
| "print_each f (x # xs) = sbind (slift (f x)) (\<lambda>l. sbind (print_line l) (\<lambda>_. print_each f xs))"

definition cmd_profile :: "'s ProtocolEngine \<Rightarrow> (pyexc \<Rightarrow> string) \<Rightarrow> namespace \<Rightarrow> ('s, 'f, 'i, int) shell_op" where
  "cmd_profile null_engine err_text ns =
     sbind (slift (parse (text_arg ns ''address''))) (\<lambda>a.
     sbind (scatch (sbind (on_term (shell_profile null_engine a)) (\<lambda>p. sret (Inr p))) (\<lambda>e. sret (Inl e))) (\<lambda>r.
     case r of
       Inl e \<Rightarrow> fail_with (''failed to resolve profile for '' @ to_str a @ '': '' @ err_text e)
     | Inr p \<Rightarrow>
         sbind (print_lines (profile_head a p)) (\<lambda>_.
         sbind (if ap_tools p = [] then print_line ''  (none)'' else print_each tool_line (ap_tools p)) (\<lambda>_.
         sbind (print_lines (profile_rest p)) (\<lambda>_. sret 0)))))"

section \<open>The live network\<close>

text \<open>An entry of a stream: its identifier and its fields.\<close>

type_synonym stream_entry = "string \<times> (string, string) dict"

record 's cli_env =
  ce_connect :: "string \<Rightarrow> 's redis"
  ce_now :: pyfloat
  ce_time :: "string \<Rightarrow> pyfloat \<Rightarrow> string"
  ce_dumps :: "pyval \<Rightarrow> string res"
  ce_str :: "pyval \<Rightarrow> string"
  ce_err :: "pyexc \<Rightarrow> string"
  ce_actor_digest :: "string \<Rightarrow> string"
  ce_ids :: "string \<Rightarrow> string \<times> string"
  ce_minted :: minted
  ce_outside :: "'s outside"
  ce_files :: "'s files"
  ce_tap :: "'s \<Rightarrow> frame option list \<times> 's"
  ce_xrange :: "string \<Rightarrow> string \<Rightarrow> int option \<Rightarrow> 's \<Rightarrow> stream_entry list"
  ce_polls :: nat
  ce_xread :: "nat \<Rightarrow> string \<Rightarrow> string \<Rightarrow> stream_entry list res"

definition redis_of :: "'s cli_env \<Rightarrow> namespace \<Rightarrow> 's redis" where
  "redis_of E ns = ce_connect E (text_arg ns ''redis_url'')"

definition cli_registry :: "'s cli_env \<Rightarrow> namespace \<Rightarrow> 's registry res" where
  "cli_registry E ns = new_registry (redis_of E ns) DEFAULT_HEARTBEAT_TTL None None None"

definition cli_broker :: "'s cli_env \<Rightarrow> namespace \<Rightarrow> 's Broker" where
  "cli_broker E ns = \<lparr>bk_redis = redis_of E ns, bk_audit = None, bk_registry = None\<rparr>"

definition agent_row :: "'s cli_env \<Rightarrow> 's registry \<Rightarrow> AgentAddress \<Rightarrow> 's \<Rightarrow> string list res" where
  "agent_row E G a s =
     rbind (rg_get G (ce_now E) a s) (\<lambda>m.
       let meta = (case m of None \<Rightarrow> default_meta (ce_now E) | Some x \<Rightarrow> x) in
       Inr [to_str a, if is_alive G a s then ''alive'' else ''stale'', dashed (join '','' (am_capabilities meta)),
         fixed_text 2 (am_reputation meta), take_points 60 (or_default (am_description meta) ''-'')])"

definition cmd_list_agents :: "'s cli_env \<Rightarrow> namespace \<Rightarrow> ('s terminal, int) op" where
  "cmd_list_agents E ns =
     sbind (slift (cli_registry E ns)) (\<lambda>G.
     sbind (slift (case given (opt_arg ns ''pattern'') of Some p \<Rightarrow> pparse p | None \<Rightarrow> Inr pall)) (\<lambda>pat.
     sbind (on_term (sread (\<lambda>s. if flag_arg ns ''all'' then filter (pmatches pat) (list_all_agents G (ce_now E) False s)
                               else resolve G (ce_now E) pat True s))) (\<lambda>addresses.
     if addresses = []
     then succeed_with (if given (opt_arg ns ''pattern'') = None then ''(registry is empty)'' else ''(no matching agents)'')
     else sbind (on_term (sreadr (\<lambda>s. mapM (\<lambda>a. agent_row E G a s) (sort_key to_str addresses))))
            (print_table [''address'', ''status'', ''capabilities'', ''rep'', ''description'']))))"

section \<open>The life cycle of an agent\<close>

definition build_address :: "namespace \<Rightarrow> AgentAddress res" where
  "build_address ns =
     (let name = normalize_name (text_arg ns ''name'') in
      parse (text_arg ns ''scope'' @ ''.'' @ text_arg ns ''role'' @ ''.'' @ text_arg ns ''domain'' @ ''.'' @ text_arg ns ''subdomain'' @ ''.''
        @ text_arg ns ''accept'' @ ''.'' @ text_arg ns ''lifecycle'' @ ''.'' @ name))"

text \<open>An address that does not parse ends the command with code 2.\<close>

definition with_address :: "'s cli_env \<Rightarrow> AgentAddress res \<Rightarrow> (AgentAddress \<Rightarrow> ('s terminal, int) op) \<Rightarrow> ('s terminal, int) op" where
  "with_address E r body =
     (case r of
        Inr a \<Rightarrow> body a
      | Inl e \<Rightarrow> if e = ValueError then fail_with (''invalid agent address: '' @ ce_err E e) else sraise e)"

definition cli_meta :: "'s cli_env \<Rightarrow> namespace \<Rightarrow> AgentMeta" where
  "cli_meta E ns = (default_meta (ce_now E))\<lparr>am_capabilities := texts_arg ns ''capability'', am_description := opt_arg ns ''description''\<rparr>"

definition cmd_register_agent :: "'s cli_env \<Rightarrow> namespace \<Rightarrow> ('s terminal, int) op" where
  "cmd_register_agent E ns =
     with_address E (build_address ns) (\<lambda>a.
       sbind (slift (cli_registry E ns)) (\<lambda>G.
       sbind (on_term (register G (ce_now E) a (Some (cli_meta E ns)) False)) (\<lambda>_. succeed_with (''registered '' @ to_str a))))"

definition cmd_start_agent :: "'s cli_env \<Rightarrow> namespace \<Rightarrow> ('s terminal, int) op" where
  "cmd_start_agent E ns =
     with_address E (build_address ns) (\<lambda>a.
       sbind (slift (cli_registry E ns)) (\<lambda>G.
       sbind (on_term (heartbeat G (ce_now E) a)) (\<lambda>ok.
       if \<not> ok then fail_with (''no record for '' @ to_str a @ '' '' @ [CHR 0xE2, CHR 0x80, CHR 0x94] @ '' run `ahp register agent ...` first'')
       else succeed_with (''visible: '' @ to_str a))))"

definition cmd_stop_agent :: "'s cli_env \<Rightarrow> namespace \<Rightarrow> ('s terminal, int) op" where
  "cmd_stop_agent E ns =
     with_address E (build_address ns) (\<lambda>a.
       sbind (slift (cli_registry E ns)) (\<lambda>G.
       sbind (on_term (hide G (ce_now E) a)) (\<lambda>had_record.
       if \<not> had_record then fail_with (''no record for '' @ to_str a @ '' (nothing to hide)'')
       else succeed_with (''hidden: '' @ to_str a))))"

definition cmd_deregister_agent :: "'s cli_env \<Rightarrow> namespace \<Rightarrow> ('s terminal, int) op" where
  "cmd_deregister_agent E ns =
     with_address E (build_address ns) (\<lambda>a.
       sbind (slift (cli_registry E ns)) (\<lambda>G.
       sbind (on_term (deregister G (ce_now E) a)) (\<lambda>_. succeed_with (''deregistered '' @ to_str a))))"

section \<open>Surveys\<close>

definition cli_queue :: "'s cli_env \<Rightarrow> namespace \<Rightarrow> 's SurveyQueue" where
  "cli_queue E ns = \<lparr>sy_redis = redis_of E ns, sy_commons = ''__commons__'', sy_audit = None\<rparr>"

definition survey_cells :: "'s cli_env \<Rightarrow> SurveyRequest \<Rightarrow> string list" where
  "survey_cells E q = [take_points 12 (sq_survey_id q), sq_kind q, sq_surveyed_actor q, sq_target_server q,
     fixed_text 4 (sq_reward q), ce_time E ''%H:%M:%S'' (sq_dispatch_at q)]"

definition cmd_list_surveys :: "'s cli_env \<Rightarrow> namespace \<Rightarrow> ('s terminal, int) op" where
  "cmd_list_surveys E ns =
     sbind (on_term (list_pending (cli_queue E ns) (ce_now E) (flag_arg ns ''include_future'') (opt_arg ns ''for_addr'') (whole_arg ns ''limit''))) (\<lambda>pending.
     if pending = []
     then succeed_with (case given (opt_arg ns ''for_addr'') of None \<Rightarrow> ''(no pending surveys)''
                        | Some a \<Rightarrow> ''(no pending surveys for '' @ a @ '')'')
     else print_table [''survey_id'', ''kind'', ''actor'', ''server'', ''reward'', ''due''] (map (survey_cells E) pending))"

text \<open>The score on the scale from 0 to 1, or the message that refuses it; no comparison admits NaN.\<close>

definition vote_score :: "'s cli_env \<Rightarrow> string \<Rightarrow> pyfloat \<Rightarrow> string + pyfloat" where
  "vote_score E scale score =
     (let shown = ce_str E (PFloat score) in
      if scale = ''1to5''
      then if fle fone score \<and> fle score (Fin 5) then
             (case fdiv (fsub score fone) (Fin 4) of Inr x \<Rightarrow> Inr x | Inl _ \<Rightarrow> Inl [])
           else Inl (''score must be in [1, 5] when --scale 1to5 (got '' @ shown @ '')'')
      else if scale = ''zero_to_one''
      then if fle fzero score \<and> fle score fone then Inr score
           else Inl (''score must be in [0, 1] when --scale zero_to_one (got '' @ shown @ '')'')
      else Inl (''unknown scale '' @ str_repr scale))"

definition vote_response :: "'s cli_env \<Rightarrow> namespace \<Rightarrow> SurveyRequest \<Rightarrow> pyfloat \<Rightarrow> SurveyResponse" where
  "vote_response E ns q score =
     \<lparr>sp_survey_id = sq_survey_id q, sp_surveyed_actor = sq_surveyed_actor q, sp_target_server = sq_target_server q,
      sp_recipe = sq_recipe q, sp_settlement_id = sq_settlement_id q, sp_score = score, sp_free_text = text_arg ns ''free_text'',
      sp_collected_at = ce_now E, sp_consent_csat_routing = (\<not> flag_arg ns ''deny_csat''),
      sp_consent_training_export = flag_arg ns ''allow_training''\<rparr>"

definition cmd_vote :: "'s cli_env \<Rightarrow> namespace \<Rightarrow> ('s terminal, int) op" where
  "cmd_vote E ns =
     (case vote_score E (text_arg ns ''scale'') (real_arg ns ''score'') of
        Inl msg \<Rightarrow> fail_with msg
      | Inr score \<Rightarrow>
          (let B = cli_broker E ns; sid = text_arg ns ''survey_id'' in
           sbind (on_term (sreadr (get_request (bk_surveys B) sid))) (\<lambda>request.
           case request of
             None \<Rightarrow> fail_with (''no such survey: '' @ str_repr sid)
           | Some q \<Rightarrow>
               sbind (on_term (submit_survey_response B (ce_now E) (vote_response E ns q score))) (\<lambda>was_new.
               if \<not> was_new then fail_with (''survey '' @ sid @ '' already has a response on file'')
               else
                 sbind (on_term (sreadr (get_state (bk_redis B) (sq_surveyed_actor q)))) (\<lambda>w.
                 succeed_with (''recorded vote for '' @ sid @ '': score='' @ fixed_text 2 score @ '' actor='' @ sq_surveyed_actor q
                   @ '' new_balance='' @ fixed_text 4 (ws_balance w)))))))"

definition DEFAULT_MAX_DISPATCH :: int where "DEFAULT_MAX_DISPATCH = 50"

definition fired_line :: "string \<Rightarrow> SurveyRequest \<Rightarrow> string" where
  "fired_line mode q = mode @ ''  '' @ take_points 12 (sq_survey_id q) @ ''  actor='' @ sq_surveyed_actor q @ ''  server=''
     @ sq_target_server q @ ''  reward='' @ fixed_text 4 (sq_reward q)"

definition cmd_fire_surveys :: "'s cli_env \<Rightarrow> namespace \<Rightarrow> ('s terminal, int) op" where
  "cmd_fire_surveys E ns =
     (let Q = bk_surveys (cli_broker E ns); dry = flag_arg ns ''dry_run'';
          mode = (if dry then ''dry-run'' else ''fired'');
          send = (\<lambda>m. sbind (bus_send (redis_of E ns) m) (\<lambda>_. sret ())) in
      sbind (on_term (if dry then fire_due Q (ce_now E) (ce_ids E) None DEFAULT_BROKER_ADDRESS DEFAULT_MAX_DISPATCH
                      else fire_due Q (ce_now E) (ce_ids E) (Some send) DEFAULT_BROKER_ADDRESS (whole_arg ns ''limit''))) (\<lambda>dispatched.
      if dispatched = [] then succeed_with (''('' @ mode @ '': no ready surveys)'')
      else sbind (print_lines (map (fired_line mode) dispatched)) (\<lambda>_. sret 0)))"

definition row_json :: "TrainingDataRow \<Rightarrow> pyval" where
  "row_json r = PDict [(''row_id'', PStr (td_row_id r)), (''target_server'', PStr (td_target_server r)), (''recipe'', PStr (td_recipe r)),
     (''score'', PFloat (td_score r)), (''free_text'', PStr (td_free_text r)), (''collected_at'', PFloat (td_collected_at r)),
     (''actor_handle'', PStr (td_actor_handle r))]"

text \<open>\<open>write_corpus_jsonl\<close>: one line for each row.\<close>

definition write_corpus_jsonl :: "'s cli_env \<Rightarrow> 's redis \<Rightarrow> string \<Rightarrow> pyfloat \<Rightarrow> bool \<Rightarrow> ('s, nat) op" where
  "write_corpus_jsonl E R path since anonymize =
     sbind (export_corpus R (ce_now E) (ce_actor_digest E) since anonymize) (\<lambda>rows.
     sbind (slift (mapM (\<lambda>r. ce_dumps E (row_json r)) rows)) (\<lambda>ls.
     sbind (fl_write (ce_files E) path (concat (map (\<lambda>l. l @ [CHR 0x0A]) ls))) (\<lambda>_. sret (length rows))))"

definition cmd_export_surveys :: "'s cli_env \<Rightarrow> namespace \<Rightarrow> ('s terminal, int) op" where
  "cmd_export_surveys E ns =
     (let since = real_arg ns ''since''; anonymize = (\<not> flag_arg ns ''no_anonymize''); R = redis_of E ns in
      case given (opt_arg ns ''out'') of
        Some path \<Rightarrow>
          sbind (on_term (write_corpus_jsonl E R path since anonymize)) (\<lambda>n.
          succeed_with (''wrote '' @ decimal n @ '' row(s) to '' @ path @ '' (since='' @ ce_str E (PFloat since) @ '', anonymize=''
            @ (if anonymize then ''True'' else ''False'') @ '')''))
      | None \<Rightarrow>
          sbind (on_term (export_corpus R (ce_now E) (ce_actor_digest E) since anonymize)) (\<lambda>rows.
          sbind (print_each (\<lambda>r. ce_dumps E (row_json r)) rows) (\<lambda>_. sret 0)))"

section \<open>The tap\<close>

text \<open>
  A message has no attribute \<open>sent_at\<close>, so the default of \<open>getattr\<close>, the time of the call, is shown.
\<close>

definition tap_line :: "'s cli_env \<Rightarrow> Message \<Rightarrow> string" where
  "tap_line E m =
     (let body = (case m_body m of
            PStr t \<Rightarrow> t
          | PDict d \<Rightarrow> (case ce_dumps E (PDict d) of Inr t \<Rightarrow> t | Inl _ \<Rightarrow> ce_str E (PDict d))
          | PList xs \<Rightarrow> (case ce_dumps E (PList xs) of Inr t \<Rightarrow> t | Inl _ \<Rightarrow> ce_str E (PList xs))
          | v \<Rightarrow> ce_str E v)
      in ce_time E ''%Y-%m-%dT%H:%M:%S'' (ce_now E) @ ''  '' @ ljust 8 (m_verb m) @ ''  '' @ to_str (m_source m) @ '' -> ''
         @ target_str (m_target m) @ ''  '' @ m_code m @ ''  '' @ (if 80 < py_len body then take_points 77 body @ ''...'' else body))"

definition cli_tap_predicate :: "string option \<Rightarrow> AddressPattern option \<Rightarrow> AddressPattern option \<Rightarrow> Message \<Rightarrow> bool" where
  "cli_tap_predicate code_glob source target m \<longleftrightarrow>
     (case code_glob of None \<Rightarrow> True | Some g \<Rightarrow> code_matches (m_code m) g)
   \<and> (case source of None \<Rightarrow> True | Some p \<Rightarrow> pmatches p (m_source m))
   \<and> (case target of None \<Rightarrow> True
      | Some p \<Rightarrow> (case m_target m of TAddr a \<Rightarrow> pmatches p a | TPat q \<Rightarrow> pto_str q = pto_str p))"

text \<open>The messages of the subscription until the limit, or until the command is interrupted (the end of the frames).\<close>

fun tap_loop :: "'s cli_env \<Rightarrow> (Message \<Rightarrow> bool) \<Rightarrow> int \<Rightarrow> int \<Rightarrow> frame option list \<Rightarrow> ('s terminal, int) op" where
  "tap_loop E predicate limit seen [] = sret 0"
| "tap_loop E predicate limit seen (raw # frames) =
     (case raw of
        None \<Rightarrow> tap_loop E predicate limit seen frames
      | Some (Frame ty dat) \<Rightarrow>
          if ty \<noteq> ''message'' then tap_loop E predicate limit seen frames
          else sbind (slift (decode_payload (os_nid (ce_outside E)) dat)) (\<lambda>m.
               if predicate m
               then sbind (print_line (tap_line E m)) (\<lambda>_.
                    if limit \<noteq> 0 \<and> limit \<le> seen + 1 then sret 0 else tap_loop E predicate limit (seen + 1) frames)
               else tap_loop E predicate limit seen frames))"

definition opt_pattern :: "string option \<Rightarrow> AddressPattern option res" where
  "opt_pattern x = (case given x of None \<Rightarrow> Inr None | Some t \<Rightarrow> rbind (pparse t) (\<lambda>p. Inr (Some p)))"

definition cmd_tap :: "'s cli_env \<Rightarrow> namespace \<Rightarrow> ('s terminal, int) op" where
  "cmd_tap E ns =
     sbind (slift (opt_pattern (opt_arg ns ''source''))) (\<lambda>source.
     sbind (slift (opt_pattern (opt_arg ns ''target''))) (\<lambda>target.
     sbind (print_line (''tap: streaming bus events (Ctrl-C to stop)'' @ ellipsis)) (\<lambda>_.
     sbind (on_term (\<lambda>s. let (frames, t) = ce_tap E s in (Inr frames, t))) (\<lambda>frames.
     tap_loop E (cli_tap_predicate (given (opt_arg ns ''code'')) source target) (whole_arg ns ''limit'') 0 frames))))"

section \<open>One-off messages\<close>

definition millis :: "'s cli_env \<Rightarrow> string res" where
  "millis E = rbind (py_int (PFloat (fmul (ce_now E) (Fin 1000)))) (\<lambda>n. Inr (int_text n))"

definition send_source :: "'s cli_env \<Rightarrow> namespace \<Rightarrow> AgentAddress res" where
  "send_source E ns =
     (case given (opt_arg ns ''source'') of
        Some a \<Rightarrow> parse a
      | None \<Rightarrow> rbind (millis E) (\<lambda>n. parse (''you.cli.x.y.s.ephemeral.send-'' @ n)))"

definition send_target :: "string \<Rightarrow> msg_target res" where
  "send_target t =
     (if CHR ''*'' \<in> set t then rbind (pparse t) (\<lambda>p. Inr (TPat p)) else rbind (parse t) (\<lambda>a. Inr (TAddr a)))"

definition send_body :: "string \<Rightarrow> pyval" where
  "send_body t = (case json_loads t of Inr v \<Rightarrow> v | Inl _ \<Rightarrow> PStr t)"

definition send_thread :: "'s cli_env \<Rightarrow> namespace \<Rightarrow> string res" where
  "send_thread E ns =
     (case given (opt_arg ns ''thread'') of Some t \<Rightarrow> Inr t | None \<Rightarrow> rbind (millis E) (\<lambda>n. Inr (''cli::send::'' @ n)))"

definition cli_engine :: "'s cli_env \<Rightarrow> namespace \<Rightarrow> 's registry \<Rightarrow> 's ProtocolEngine" where
  "cli_engine E ns G = \<lparr>en_redis = redis_of E ns, en_registry = G, en_cache = redis_of E ns,
     en_default_timeout = real_arg ns ''timeout'', en_scope = None, en_audit = None, en_broker = None\<rparr>"

definition result_line :: "'s cli_env \<Rightarrow> bool \<Rightarrow> msg_target \<Rightarrow> engine_result \<Rightarrow> string" where
  "result_line E get target r =
     (case r of
        Reply (Some m) \<Rightarrow> tap_line E m
      | Reply None \<Rightarrow> ''(no response within timeout)''
      | Count n \<Rightarrow> ''sent to '' @ target_str target @ '' (delivered to '' @ int_text n @ '' subscriber(s))''
      | _ \<Rightarrow> [])"

text \<open>The body of the \<open>try\<close>; \<open>finally\<close> then removes the source that was registered for the answer.\<close>

definition send_once :: "'s cli_env \<Rightarrow> namespace \<Rightarrow> 's registry \<Rightarrow> AgentAddress \<Rightarrow> msg_target \<Rightarrow> string \<Rightarrow> ('s terminal, int) op" where
  "send_once E ns G source target thread =
     sbind (slift (new_message (ce_minted E) source target (if flag_arg ns ''get'' then ''SEND-GET'' else ''SEND'')
              (text_arg ns ''code'') thread (send_body (text_arg ns ''body'')))) (\<lambda>m.
     sbind (on_term (engine_handle (cli_engine E ns G) (ce_outside E) m (Some (real_arg ns ''timeout'')) None)) (\<lambda>r.
     succeed_with (result_line E (flag_arg ns ''get'') target r)))"

definition finally_do :: "('s, 'a) op \<Rightarrow> ('s, unit) op \<Rightarrow> ('s, 'a) op" where
  "finally_do f g s = (case f s of (r, t) \<Rightarrow> (case g t of (Inr _, u) \<Rightarrow> (r, u) | (Inl e, u) \<Rightarrow> (Inl e, u)))"

definition quietly :: "('s, 'a) op \<Rightarrow> ('s, bool) op" where
  "quietly f = scatch (sbind f (\<lambda>_. sret True)) (\<lambda>_. sret False)"

definition cmd_send :: "'s cli_env \<Rightarrow> namespace \<Rightarrow> ('s terminal, int) op" where
  "cmd_send E ns =
     sbind (slift (send_source E ns)) (\<lambda>source.
     sbind (slift (send_target (text_arg ns ''target''))) (\<lambda>target.
     sbind (slift (send_thread E ns)) (\<lambda>thread.
     sbind (slift (cli_registry E ns)) (\<lambda>G.
     sbind (if flag_arg ns ''get'' then quietly (on_term (register G (ce_now E) source None True)) else sret False) (\<lambda>registered.
     finally_do (send_once E ns G source target thread)
       (if registered then sbind (quietly (on_term (deregister G (ce_now E) source))) (\<lambda>_. sret ()) else sret ()))))))"

section \<open>One agent\<close>

text \<open>The lines are printed one by one, up to the first whose text fails.\<close>

definition meta_lines :: "'s cli_env \<Rightarrow> AgentMeta \<Rightarrow> string res list" where
  "meta_lines E m =
     [Inr (''capabilities:   '' @ (if am_capabilities m = [] then ''-'' else join '', '' (am_capabilities m))),
      Inr (''reputation*:    '' @ fixed_text 2 (am_reputation m) @ ''    (*from AgentMeta; the broker tracks a richer record below)'')]
     @ (case given (am_description m) of None \<Rightarrow> [] | Some d \<Rightarrow> [Inr (''description:    '' @ d)])
     @ (case given (am_health_endpoint m) of None \<Rightarrow> [] | Some h \<Rightarrow> [Inr (''health_endpt:   '' @ h)])
     @ (if am_extra m = [] then [] else [rbind (ce_dumps E (PDict (am_extra m))) (\<lambda>t. Inr (''extra:          '' @ t))])
     @ (if am_registered_at m = fzero then []
        else [Inr (''registered:     '' @ ce_time E ''%Y-%m-%dT%H:%M:%S'' (am_registered_at m))])"

definition reputation_lines :: "ReputationEntry \<Rightarrow> string res list" where
  "reputation_lines r =
     [Inr [], Inr ''broker reputation:'', Inr (''  reputation:   '' @ fixed_text 3 (re_reputation r)),
      Inr (''  completed:    '' @ int_text (re_completed_accepted r) @ ''/'' @ int_text (re_completed_total r)
        @ ''  failed: '' @ int_text (re_failed r)),
      Inr (''  csat:         '' @ fixed_text 3 (re_csat r) @ ''  ('' @ int_text (re_csat_samples r) @ '' samples)''),
      rbind (avg_latency_ms r) (\<lambda>lat. Inr (''  avg_latency:  '' @ fixed_text 0 lat @ ''ms'')),
      Inr (''  avg_overage:  '' @ fixed_text 3 (re_avg_overage r))]"

definition server_lines :: "'s cli_env \<Rightarrow> ServerMeta \<Rightarrow> string list" where
  "server_lines E srv = [[], ''owning server:'', ''  server_id:    '' @ sm_server_id srv, ''  base_rate:    '' @ ce_str E (PFloat (sm_base_rate srv)),
     ''  binding:      '' @ sm_compute_binding srv, ''  rank_by:      '' @ sm_compute_ranking srv]"

definition leaf_line :: "'s cli_env \<Rightarrow> MenuLeaf option \<Rightarrow> string" where
  "leaf_line E l =
     (case l of
        None \<Rightarrow> ''  best leaf:    (no matching live leaf)''
      | Some x \<Rightarrow> ''  best leaf:    '' @ leaf_address x @ ''  @ '' @ ce_str E (PFloat (ml_rate_per_1k_chars x)) @ ''/1k chars  (''
          @ fixed_text 0 (ml_latency_p95_ms x) @ ''ms p95)'')"

definition describe_owner :: "'s cli_env \<Rightarrow> 's Broker \<Rightarrow> string \<Rightarrow> ('s terminal, unit) op" where
  "describe_owner E B org =
     sbind (on_term (sreadr (server_discover (bk_servers B) (ce_now E) None None None None False))) (\<lambda>servers.
     case find (\<lambda>srv. sm_org srv = org) servers of
       None \<Rightarrow> sret ()
     | Some srv \<Rightarrow>
         sbind (print_lines (server_lines E srv)) (\<lambda>_.
         sbind (on_term (list_leaves (bk_compute B) True)) (\<lambda>leaves.
         sbind (slift (best_leaf (sm_compute_binding srv) leaves (sm_compute_ranking srv) [])) (\<lambda>chosen.
         print_line (leaf_line E chosen)))))"

definition cmd_describe_agent :: "'s cli_env \<Rightarrow> namespace \<Rightarrow> ('s terminal, int) op" where
  "cmd_describe_agent E ns =
     with_address E (parse (text_arg ns ''address'')) (\<lambda>a.
       let B = cli_broker E ns in
       sbind (slift (cli_registry E ns)) (\<lambda>G.
       sbind (on_term (sreadr (rg_get G (ce_now E) a))) (\<lambda>meta.
       sbind (on_term (sread (is_alive G a))) (\<lambda>alive.
       sbind (print_lines [''address:        '' @ to_str a, ''status:         '' @ (if alive then ''alive'' else ''stale or unknown'')]) (\<lambda>_.
       case meta of
         None \<Rightarrow> succeed_with (''(no registry metadata '' @ [CHR 0xE2, CHR 0x80, CHR 0x94] @ '' agent is not registered)'')
       | Some m \<Rightarrow>
           sbind (print_each (\<lambda>l. l) (meta_lines E m)) (\<lambda>_.
           sbind (on_term (sreadr (get_reputation (bk_redis B) (to_str a)))) (\<lambda>rep.
           sbind (case rep of None \<Rightarrow> sret () | Some r \<Rightarrow> print_each (\<lambda>l. l) (reputation_lines r)) (\<lambda>_.
           sbind (describe_owner E B (a_org a)) (\<lambda>_. sret 0)))))))))"

section \<open>The audit stream\<close>

text \<open>The payload of an entry: \<open>None\<close> when it has no data or the data does not decode.\<close>

definition audit_payload :: "stream_entry \<Rightarrow> pyval option" where
  "audit_payload entry =
     (case map_of (snd entry) ''data'' of
        None \<Rightarrow> None
      | Some raw \<Rightarrow> (case json_loads raw of Inr v \<Rightarrow> Some v | Inl _ \<Rightarrow> None))"

text \<open>\<open>Code.matches\<close> on an operation of any type, and the substring test on a target of any type.\<close>

definition op_matches :: "pyval \<Rightarrow> string \<Rightarrow> bool res" where
  "op_matches op selector =
     (case op of
        PStr t \<Rightarrow> Inr (code_matches t selector)
      | _ \<Rightarrow> if selector = ''*'' then Inr True else if endswith selector ''.*'' then Inl AttributeError else Inr False)"

definition target_has :: "pyval \<Rightarrow> string \<Rightarrow> bool res" where
  "target_has target sub =
     (if \<not> truthy target then Inr (substring sub [])
      else case target of
        PStr t \<Rightarrow> Inr (substring sub t)
      | PList xs \<Rightarrow> Inr (PStr sub \<in> set xs)
      | PDict d \<Rightarrow> Inr (map_of d sub \<noteq> None)
      | _ \<Rightarrow> Inl TypeError)"

definition audit_match :: "namespace \<Rightarrow> (string, pyval) dict \<Rightarrow> bool res" where
  "audit_match ns d =
     rbind (case given (opt_arg ns ''op'') of None \<Rightarrow> Inr True | Some sel \<Rightarrow> op_matches (dict_get d ''op'' (PStr [])) sel) (\<lambda>ok.
     if \<not> ok then Inr False
     else case given (opt_arg ns ''target_contains'') of None \<Rightarrow> Inr True | Some sub \<Rightarrow> target_has (dict_get d ''target'' PNone) sub)"

text \<open>\<open>format(op, '32s')\<close>.\<close>

definition op_column :: "pyval \<Rightarrow> string res" where
  "op_column v = (case v of PStr t \<Rightarrow> Inr (ljust 32 t) | PInt _ \<Rightarrow> Inl ValueError | PBool _ \<Rightarrow> Inl ValueError | PFloat _ \<Rightarrow> Inl ValueError
     | _ \<Rightarrow> Inl TypeError)"

definition or_value :: "pyval \<Rightarrow> pyval \<Rightarrow> pyval" where "or_value v d = (if truthy v then v else d)"

definition audit_line :: "'s cli_env \<Rightarrow> string \<Rightarrow> (string, pyval) dict \<Rightarrow> string res" where
  "audit_line E sid d =
     rbind (as_num (or_value (dict_get d ''timestamp'' PNone) (PFloat (ce_now E)))) (\<lambda>ts.
     let shown = (\<lambda>v. value_text (ce_str E) v);
         suffix = (if truthy (dict_get d ''success'' (PBool True)) then []
                   else ''  ERROR='' @ shown (or_value (dict_get d ''error'' PNone) (PStr [])));
         extra = or_value (dict_get d ''extra'' PNone) (PDict []);
         extra_text = (if \<not> truthy extra then []
                       else ''  '' @ (case ce_dumps E extra of Inr t \<Rightarrow> t | Inl _ \<Rightarrow> shown extra));
         extra_text = (if 120 < py_len extra_text then take_points 117 extra_text @ ''...'' else extra_text) in
     rbind (op_column (dict_get d ''op'' (PStr ''?''))) (\<lambda>op.
     Inr (ce_time E ''%Y-%m-%dT%H:%M:%S'' ts @ ''  '' @ sid @ ''  '' @ op @ ''  target=''
       @ shown (or_value (dict_get d ''target'' PNone) (PStr ''-'')) @ suffix @ extra_text)))"

text \<open>Where the command stands: the entries shown, the identifier it goes on from, whether it has shown its limit.\<close>

record tail =
  ta_seen :: int
  ta_last :: string
  ta_done :: bool

definition show_entry :: "'s cli_env \<Rightarrow> namespace \<Rightarrow> string \<Rightarrow> (string, pyval) dict \<Rightarrow> tail \<Rightarrow> ('s terminal, tail) op" where
  "show_entry E ns sid d st =
     sbind (slift (audit_line E sid d)) (\<lambda>l.
     sbind (print_line l) (\<lambda>_.
     let seen = ta_seen st + 1; limit = whole_arg ns ''limit'' in
     sret \<lparr>ta_seen = seen, ta_last = sid, ta_done = (limit \<noteq> 0 \<and> limit \<le> seen)\<rparr>))"

text \<open>
  The entries in order. In the first range only an entry that is shown moves the identifier; while
  following, every entry that decodes does.
\<close>

fun tail_entries :: "'s cli_env \<Rightarrow> namespace \<Rightarrow> bool \<Rightarrow> stream_entry list \<Rightarrow> tail \<Rightarrow> ('s terminal, tail) op" where
  "tail_entries E ns following [] st = sret st"
| "tail_entries E ns following (entry # entries) st =
     (if ta_done st then sret st
      else case audit_payload entry of
        None \<Rightarrow> tail_entries E ns following entries st
      | Some (PDict d) \<Rightarrow>
          sbind (slift (audit_match ns d)) (\<lambda>ok.
          if ok then sbind (show_entry E ns (fst entry) d st) (tail_entries E ns following entries)
          else tail_entries E ns following entries (if following then st\<lparr>ta_last := fst entry\<rparr> else st))
      | Some _ \<Rightarrow> sraise AttributeError)"

text \<open>The polls until the command is interrupted; one that fails is tried again.\<close>

fun follow_loop :: "'s cli_env \<Rightarrow> namespace \<Rightarrow> string \<Rightarrow> nat \<Rightarrow> nat \<Rightarrow> tail \<Rightarrow> ('s terminal, int) op" where
  "follow_loop E ns stream k 0 st = sret 0"
| "follow_loop E ns stream k (Suc polls) st =
     (case ce_xread E k stream (ta_last st) of
        Inl _ \<Rightarrow> follow_loop E ns stream (Suc k) polls st
      | Inr entries \<Rightarrow>
          sbind (tail_entries E ns True entries st) (\<lambda>st'.
          if ta_done st' then sret 0 else follow_loop E ns stream (Suc k) polls st'))"

definition cmd_audit_tail :: "'s cli_env \<Rightarrow> namespace \<Rightarrow> ('s terminal, int) op" where
  "cmd_audit_tail E ns =
     (let stream = or_default (opt_arg ns ''stream'') AUDIT_STREAM; first = or_default (opt_arg ns ''since'') ''-'';
          limit = whole_arg ns ''limit'' in
      sbind (on_term (sread (ce_xrange E stream first (if limit = 0 then None else Some limit)))) (\<lambda>entries.
      sbind (tail_entries E ns False entries \<lparr>ta_seen = 0, ta_last = first, ta_done = False\<rparr>) (\<lambda>st.
      if ta_done st then sret 0
      else if \<not> flag_arg ns ''follow''
      then (if ta_seen st = 0 then succeed_with (''(no audit entries on '' @ stream @ '')'') else sret 0)
      else
        sbind (print_line (''tail: following '' @ stream @ '' (Ctrl-C to stop)'' @ ellipsis)) (\<lambda>_.
        follow_loop E ns stream 0 (ce_polls E) (st\<lparr>ta_last := (if ta_last st = ''-'' then ''$'' else ta_last st)\<rparr>)))))"

section \<open>The program\<close>

text \<open>A command on the network, run in the shell.\<close>

definition on_shell :: "('s terminal, 'a) op \<Rightarrow> ('s, 'f, 'i, 'a) shell_op" where
  "on_shell f T =
     (case f \<lparr>tm_out = tm_out T, tm_err = tm_err T, tm_store = sh_store (tm_store T)\<rparr> of
        (r, U) \<Rightarrow> (r, \<lparr>tm_out = tm_out U, tm_err = tm_err U, tm_store = (tm_store T)\<lparr>sh_store := tm_store U\<rparr>\<rparr>))"

fun run_command :: "(string \<Rightarrow> (('s, 'f, 'i) shell, unit) op) \<Rightarrow> 's ProtocolEngine \<Rightarrow> 's cli_env \<Rightarrow> command \<Rightarrow> namespace \<Rightarrow>
    ('s, 'f, 'i, int) shell_op" where
  "run_command imp null E Cmd_List_Tools ns = with_modules imp (ce_err E) ns (cmd_list_tools ns)"
| "run_command imp null E Cmd_List_Resources ns = with_modules imp (ce_err E) ns (cmd_list_resources ns)"
| "run_command imp null E Cmd_List_Groups ns = with_modules imp (ce_err E) ns (cmd_list_groups ns)"
| "run_command imp null E Cmd_List_Skills ns = with_modules imp (ce_err E) ns (cmd_list_skills ns)"
| "run_command imp null E Cmd_Profile ns = with_modules imp (ce_err E) ns (cmd_profile null (ce_err E) ns)"
| "run_command imp null E Cmd_List_Agents ns = on_shell (cmd_list_agents E ns)"
| "run_command imp null E Cmd_Template ns = on_shell (cmd_template ns)"
| "run_command imp null E Cmd_Scaffold ns = on_shell (cmd_scaffold (ce_files E) ns)"
| "run_command imp null E Cmd_New ns = on_shell (cmd_new (ce_files E) (ce_err E) ns)"
| "run_command imp null E Cmd_Register_Agent ns = on_shell (cmd_register_agent E ns)"
| "run_command imp null E Cmd_Start_Agent ns = on_shell (cmd_start_agent E ns)"
| "run_command imp null E Cmd_Stop_Agent ns = on_shell (cmd_stop_agent E ns)"
| "run_command imp null E Cmd_Deregister_Agent ns = on_shell (cmd_deregister_agent E ns)"
| "run_command imp null E Cmd_List_Surveys ns = on_shell (cmd_list_surveys E ns)"
| "run_command imp null E Cmd_Vote ns = on_shell (cmd_vote E ns)"
| "run_command imp null E Cmd_Fire_Surveys ns = on_shell (cmd_fire_surveys E ns)"
| "run_command imp null E Cmd_Export_Surveys ns = on_shell (cmd_export_surveys E ns)"
| "run_command imp null E Cmd_Tap ns = on_shell (cmd_tap E ns)"
| "run_command imp null E Cmd_Send ns = on_shell (cmd_send E ns)"
| "run_command imp null E Cmd_Describe_Agent ns = on_shell (cmd_describe_agent E ns)"
| "run_command imp null E Cmd_Audit_Tail ns = on_shell (cmd_audit_tail E ns)"

text \<open>A tool template without an operation is given one.\<close>

definition main_defaults :: "command \<Rightarrow> namespace \<Rightarrow> namespace" where
  "main_defaults c ns =
     (if c \<in> {Cmd_Template, Cmd_Scaffold} \<and> text_arg ns ''target'' = ''tool'' \<and> given (opt_arg ns ''operation'') = None
      then AList.update ''operation'' (PStr ''my_tool'') ns else ns)"

text \<open>\<open>main\<close>: what \<open>argparse\<close> prints for help and errors is not modelled, the code it exits with is.\<close>

definition cli_main :: "(string \<Rightarrow> (('s, 'f, 'i) shell, unit) op) \<Rightarrow> 's ProtocolEngine \<Rightarrow> 's cli_env \<Rightarrow> string option \<Rightarrow> string list \<Rightarrow>
    ('s, 'f, 'i, int) shell_op" where
  "cli_main imp null E env_url argv =
     (case parse_args (build_parser (default_url env_url)) argv of
        Inl n \<Rightarrow> sret n
      | Inr (ns, None) \<Rightarrow> sret 1
      | Inr (ns, Some c) \<Rightarrow> run_command imp null E c (main_defaults c ns))"

section \<open>The life cycle of an agent, from the command line\<close>

lemma on_term_run: "f (tm_store T) = (r, s) \<Longrightarrow> on_term f T = (r, T\<lparr>tm_store := s\<rparr>)"
  by (simp add: on_term_def)

lemma bind_on_term:
  "f (tm_store T) = (Inr a, s) \<Longrightarrow> sbind (on_term f) g T = g a (T\<lparr>tm_store := s\<rparr>)"
  "f (tm_store T) = (Inl e, s) \<Longrightarrow> sbind (on_term f) g T = (Inl e, T\<lparr>tm_store := s\<rparr>)"
  by (simp_all add: sbind_def on_term_def)

lemma ends_with_code:
  "succeed_with t T = (Inr 0, T\<lparr>tm_out := tm_out T @ t @ [CHR 0x0A]\<rparr>)"
  "fail_with t T = (Inr 2, T\<lparr>tm_err := tm_err T @ t @ [CHR 0x0A]\<rparr>)"
  by (simp_all add: succeed_with_def fail_with_def print_line_def warn_line_def)

definition open_reg :: "'s redis \<Rightarrow> 's registry" where
  "open_reg R = \<lparr>rg_redis = R, rg_heartbeat_ttl = DEFAULT_HEARTBEAT_TTL, rg_principal = None, rg_policy = OpenAuthPolicy, rg_audit = None\<rparr>"

lemma cli_registry_open: "cli_registry E ns = Inr (open_reg (redis_of E ns))"
  by (simp add: cli_registry_def new_registry_def open_reg_def DEFAULT_HEARTBEAT_TTL_def)

lemma open_reg_on: "redis R view \<Longrightarrow> registry_on (open_reg R) view"
  by (simp add: registry_on_def registry_on_axioms_def open_reg_def sink_ok_def emit_opt_def)

lemma open_reg_may [simp]: "can_register (rg_policy (open_reg R)) (rg_principal (open_reg R)) a"
  by (simp add: open_reg_def)

context registry_on
begin

lemma deregister_run:
  assumes "can_register (rg_policy G) (rg_principal G) ad"
  obtains t where "deregister G now ad s = (Inr (), t)" "hashes (abs t) registry_hash (to_str ad) = None" "\<not> is_alive G ad t"
proof (rule that)
  define t where "t = rg_emit G now ''registry.deregister'' ad True None
     (r_delete (rg_redis G) (alive_key (to_str ad)) (r_hdel (rg_redis G) registry_hash (to_str ad) s))"
  show "deregister G now ad s = (Inr (), t)" using assms by (simp add: deregister_def t_def can_deregister_def)
  show "hashes (abs t) registry_hash (to_str ad) = None" by (simp add: t_def)
  show "\<not> is_alive G ad t" by (simp add: t_def)
qed

lemma heartbeat_unknown:
  assumes "can_register (rg_policy G) (rg_principal G) ad" "hashes (abs s) registry_hash (to_str ad) = None"
  obtains t where "heartbeat G now ad s = (Inr False, t)" "is_alive G ad t \<longleftrightarrow> is_alive G ad s"
proof (rule that)
  define t where "t = rg_emit G now ''registry.heartbeat'' ad False (Some ''NotRegistered'') s"
  show "heartbeat G now ad s = (Inr False, t)"
    using assms by (simp add: heartbeat_def t_def can_heartbeat_def)
  show "is_alive G ad t \<longleftrightarrow> is_alive G ad s" by (simp add: t_def)
qed

end

lemma lifecycle_codes:
  assumes a: "build_address ns = Inr a"
  shows
    "register (open_reg (redis_of E ns)) (ce_now E) a (Some (cli_meta E ns)) False (tm_store T) = (Inr (), s)
       \<Longrightarrow> \<exists>U. cmd_register_agent E ns T = (Inr 0, U) \<and> tm_store U = s"
    "heartbeat (open_reg (redis_of E ns)) (ce_now E) a (tm_store T) = (Inr ok, s)
       \<Longrightarrow> \<exists>U. cmd_start_agent E ns T = (Inr (if ok then 0 else 2), U) \<and> tm_store U = s"
    "hide (open_reg (redis_of E ns)) (ce_now E) a (tm_store T) = (Inr ok, s)
       \<Longrightarrow> \<exists>U. cmd_stop_agent E ns T = (Inr (if ok then 0 else 2), U) \<and> tm_store U = s"
    "deregister (open_reg (redis_of E ns)) (ce_now E) a (tm_store T) = (Inr (), s)
       \<Longrightarrow> \<exists>U. cmd_deregister_agent E ns T = (Inr 0, U) \<and> tm_store U = s"
  unfolding cmd_register_agent_def cmd_start_agent_def cmd_stop_agent_def cmd_deregister_agent_def with_address_def
  by (simp_all add: a cli_registry_open bind_on_term ends_with_code)

text \<open>The commands of the life cycle, one after the other: register writes the record and does not change whether the agent is visible; start makes it visible; stop hides it and keeps the record; deregister removes the record; after that start ends with code 2 and the agent stays invisible.\<close>

lemma cli_lifecycle:
  assumes "redis (redis_of E ns) view" "build_address ns = Inr a" "meta_to_json (cli_meta E ns) = Inr v"
  shows "\<exists>T1 T2 T3 T4 T5.
       cmd_register_agent E ns T = (Inr 0, T1) \<and> recorded view a (cli_meta E ns) (ce_now E) (tm_store T1)
         \<and> is_alive (open_reg (redis_of E ns)) a (tm_store T1) = is_alive (open_reg (redis_of E ns)) a (tm_store T)
     \<and> cmd_start_agent E ns T1 = (Inr 0, T2) \<and> recorded view a (cli_meta E ns) (ce_now E) (tm_store T2)
         \<and> is_alive (open_reg (redis_of E ns)) a (tm_store T2)
     \<and> cmd_stop_agent E ns T2 = (Inr 0, T3) \<and> recorded view a (cli_meta E ns) (ce_now E) (tm_store T3)
         \<and> \<not> is_alive (open_reg (redis_of E ns)) a (tm_store T3)
     \<and> cmd_deregister_agent E ns T3 = (Inr 0, T4) \<and> hashes (view (tm_store T4)) registry_hash (to_str a) = None
     \<and> cmd_start_agent E ns T4 = (Inr 2, T5) \<and> \<not> is_alive (open_reg (redis_of E ns)) a (tm_store T5)"
proof -
  let ?G = "open_reg (redis_of E ns)" and ?now = "ce_now E"
  note on = open_reg_on [OF assms(1)] and codes = lifecycle_codes [OF assms(2)]
  obtain s1 where s1: "register ?G ?now a (Some (cli_meta E ns)) False (tm_store T) = (Inr (), s1)"
    "recorded view a (cli_meta E ns) ?now s1" "is_alive ?G a s1 \<longleftrightarrow> is_alive ?G a (tm_store T)"
    using registry_on.register_run [OF on open_reg_may assms(3), where now = ?now and mark = False and s = "tm_store T"] by metis
  obtain T1 where T1: "cmd_register_agent E ns T = (Inr 0, T1)" "tm_store T1 = s1" using codes(1) [OF s1(1)] by blast
  obtain s2 where s2: "heartbeat ?G ?now a (tm_store T1) = (Inr True, s2)" "recorded view a (cli_meta E ns) ?now s2" "is_alive ?G a s2"
    using registry_on.heartbeat_run [OF on open_reg_may s1(2)] T1(2) by metis
  obtain T2 where T2: "cmd_start_agent E ns T1 = (Inr 0, T2)" "tm_store T2 = s2" using codes(2) [OF s2(1)] by auto
  obtain s3 where s3: "hide ?G ?now a (tm_store T2) = (Inr True, s3)" "recorded view a (cli_meta E ns) ?now s3" "\<not> is_alive ?G a s3"
    using registry_on.hide_run [OF on open_reg_may s2(2)] T2(2) by metis
  obtain T3 where T3: "cmd_stop_agent E ns T2 = (Inr 0, T3)" "tm_store T3 = s3" using codes(3) [OF s3(1)] by auto
  obtain s4 where s4: "deregister ?G ?now a (tm_store T3) = (Inr (), s4)" "hashes (view s4) registry_hash (to_str a) = None"
    "\<not> is_alive ?G a s4"
    using registry_on.deregister_run [OF on open_reg_may] by metis
  obtain T4 where T4: "cmd_deregister_agent E ns T3 = (Inr 0, T4)" "tm_store T4 = s4" using codes(4) [OF s4(1)] by blast
  obtain s5 where s5: "heartbeat ?G ?now a (tm_store T4) = (Inr False, s5)" "is_alive ?G a s5 \<longleftrightarrow> is_alive ?G a s4"
    using registry_on.heartbeat_unknown [OF on open_reg_may s4(2)] T4(2) by metis
  obtain T5 where T5: "cmd_start_agent E ns T4 = (Inr 2, T5)" "tm_store T5 = s5" using codes(2) [OF s5(1)] by auto
  show ?thesis
    using T1 T2 T3 T4 T5 s1 s2 s3 s4 s5 by blast
qed

definition sample_cli :: "mem cli_env" where
  "sample_cli = \<lparr>ce_connect = (\<lambda>_. mem_redis), ce_now = Fin 7, ce_time = (\<lambda>_ _. ''now''), ce_dumps = (\<lambda>_. Inr ''{}''), ce_str = (\<lambda>_. ''v''),
     ce_err = (\<lambda>_. ''error''), ce_actor_digest = (\<lambda>t. t), ce_ids = (\<lambda>t. (t, t)), ce_minted = sample_minted,
     ce_outside = sample_outside \<lparr>pe_clock = fzero, pe_inbox = (\<lambda>_ s. ([], s))\<rparr>,
     ce_files = \<lparr>fl_cwd = (\<lambda>_. ''/w''), fl_resolve = (\<lambda>p _. p), fl_exists = (\<lambda>_ _. False), fl_write = (\<lambda>_ _ s. (Inr (), s))\<rparr>,
     ce_tap = (\<lambda>s. ([], s)), ce_xrange = (\<lambda>_ _ _ _. []), ce_polls = 0, ce_xread = (\<lambda>_ _ _. Inr [])\<rparr>"

definition sample_agent_args :: namespace where
  "sample_agent_args = [(''name'', PStr ''Bull-1''), (''scope'', PStr ''o''), (''role'', PStr ''adv''), (''domain'', PStr ''sci''),
     (''subdomain'', PStr ''x''), (''accept'', PStr ''s''), (''lifecycle'', PStr ''session''), (''capability'', PList []), (''description'', PNone),
     (''redis_url'', PStr ''u'')]"

lemma cli_lifecycle_witness:
  "\<exists>a T1 T2 T3 T4 T5. build_address sample_agent_args = Inr a
     \<and> cmd_register_agent sample_cli sample_agent_args \<lparr>tm_out = [], tm_err = [], tm_store = empty_mem\<rparr> = (Inr 0, T1)
     \<and> cmd_start_agent sample_cli sample_agent_args T1 = (Inr 0, T2) \<and> cmd_stop_agent sample_cli sample_agent_args T2 = (Inr 0, T3)
     \<and> cmd_deregister_agent sample_cli sample_agent_args T3 = (Inr 0, T4) \<and> cmd_start_agent sample_cli sample_agent_args T4 = (Inr 2, T5)"
proof -
  have R: "redis (redis_of sample_cli sample_agent_args) mem_view"
    using mem.redis_axioms by (simp add: redis_of_def sample_cli_def)
  obtain a where a: "build_address sample_agent_args = Inr a"
  proof -
    have "case build_address sample_agent_args of Inl e \<Rightarrow> False | Inr a \<Rightarrow> True" by code_simp
    then show ?thesis using that by (cases "build_address sample_agent_args") auto
  qed
  have "\<exists>v. meta_to_json (cli_meta sample_cli sample_agent_args) = Inr v"
    by (simp add: cli_meta_def meta_to_json_def default_meta_def Let_def opt_str_def texts_arg_def opt_arg_def sample_agent_args_def)
  then obtain v where v: "meta_to_json (cli_meta sample_cli sample_agent_args) = Inr v" by blast
  show ?thesis using cli_lifecycle [OF R a v, of "\<lparr>tm_out = [], tm_err = [], tm_store = empty_mem\<rparr>"] a by blast
qed

section \<open>What the audit tail shows\<close>

text \<open>The filters of the command and its line, on an event of the sink.\<close>

definition event_shown :: "namespace \<Rightarrow> AuditEvent \<Rightarrow> bool" where
  "event_shown ns ev \<longleftrightarrow>
     (case given (opt_arg ns ''op'') of None \<Rightarrow> True | Some sel \<Rightarrow> code_matches (ae_op ev) sel)
   \<and> (case given (opt_arg ns ''target_contains'') of None \<Rightarrow> True
      | Some sub \<Rightarrow> substring sub (case ae_target ev of None \<Rightarrow> [] | Some t \<Rightarrow> t))"

definition event_line :: "'s cli_env \<Rightarrow> string \<Rightarrow> AuditEvent \<Rightarrow> string" where
  "event_line E sid ev =
     (let t = (if ae_extra ev = [] then [] else ''  '' @ (case ce_dumps E (PDict (ae_extra ev)) of Inr t \<Rightarrow> t | Inl _ \<Rightarrow> ce_str E (PDict (ae_extra ev)))) in
      ce_time E ''%Y-%m-%dT%H:%M:%S'' (if ae_timestamp ev = Fin 0 then ce_now E else ae_timestamp ev) @ ''  '' @ sid @ ''  '' @ ljust 32 (ae_op ev)
      @ ''  target='' @ (case given (ae_target ev) of None \<Rightarrow> ''-'' | Some x \<Rightarrow> x)
      @ (if ae_success ev then [] else ''  ERROR='' @ (case ae_error ev of None \<Rightarrow> [] | Some x \<Rightarrow> x))
      @ (if 120 < py_len t then take_points 117 t @ ''...'' else t))"

definition hits :: "'s cli_env \<Rightarrow> namespace \<Rightarrow> stream_entry list \<Rightarrow> AuditEvent option list \<Rightarrow> string list" where
  "hits E ns entries evs =
     List.map_filter (\<lambda>(e, x). case x of None \<Rightarrow> None | Some ev \<Rightarrow> if event_shown ns ev then Some (event_line E (fst e) ev) else None)
       (zip entries evs)"

definition unlines :: "string list \<Rightarrow> string" where "unlines ls = concat (map (\<lambda>l. l @ [CHR 0x0A]) ls)"

lemma hits_simps:
  "hits E ns [] [] = []" "hits E ns (e # es) (None # xs) = hits E ns es xs"
  "hits E ns (e # es) (Some ev # xs) = (if event_shown ns ev then event_line E (fst e) ev # hits E ns es xs else hits E ns es xs)"
  by (simp_all add: hits_def List.map_filter_simps)

lemma event_matches: "audit_match ns (ae_to_dict ev) = Inr (event_shown ns ev)"
  by (cases "ae_target ev")
    (auto simp: audit_match_def ae_to_dict_def event_shown_def dict_get_def op_matches_def target_has_def opt_str_def split: option.splits)

lemma event_prints: "audit_line E sid (ae_to_dict ev) = Inr (event_line E sid ev)"
  by (cases "ae_target ev"; cases "ae_error ev")
    (auto simp: audit_line_def ae_to_dict_def event_line_def dict_get_def op_column_def or_value_def opt_str_def value_text_def given_def Let_def
      split: option.splits sum.splits)

lemma print_line_run: "print_line l T = (Inr (), T\<lparr>tm_out := tm_out T @ l @ [CHR 0x0A]\<rparr>)"
  by (simp add: print_line_def)

text \<open>The entries that a run may still show, and how it stands afterwards.\<close>

definition capped :: "int \<Rightarrow> int \<Rightarrow> 'a list \<Rightarrow> 'a list" where
  "capped limit seen xs = (if limit = 0 then xs else take (nat (limit - seen)) xs)"

lemma capped_Cons:
  assumes "limit = 0 \<or> seen < limit" shows "capped limit seen (x # xs) = x # capped limit (seen + 1) xs"
proof -
  have "nat (limit - seen) = Suc (nat (limit - (seen + 1)))" if "seen < limit" using that by simp
  with assms show ?thesis by (auto simp: capped_def)
qed

definition decodes_to :: "stream_entry list \<Rightarrow> AuditEvent option list \<Rightarrow> bool" where
  "decodes_to entries evs \<longleftrightarrow> list_all2 (\<lambda>e x. audit_payload e = map_option (PDict \<circ> ae_to_dict) x) entries evs"

lemma tail_shows:
  assumes "decodes_to entries evs" "ta_done st \<longleftrightarrow> whole_arg ns ''limit'' \<noteq> 0 \<and> whole_arg ns ''limit'' \<le> ta_seen st"
  shows "\<exists>st'. tail_entries E ns False entries st T
        = (Inr st', T\<lparr>tm_out := tm_out T @ unlines (capped (whole_arg ns ''limit'') (ta_seen st) (hits E ns entries evs))\<rparr>)
      \<and> ta_seen st' = ta_seen st + int (length (capped (whole_arg ns ''limit'') (ta_seen st) (hits E ns entries evs)))
      \<and> (ta_done st' \<longleftrightarrow> whole_arg ns ''limit'' \<noteq> 0 \<and> whole_arg ns ''limit'' \<le> ta_seen st')"
  using assms(1)[unfolded decodes_to_def] assms(2)
proof (induction entries evs arbitrary: st T rule: list_all2_induct)
  case Nil
  then show ?case by (simp add: hits_simps sret_def capped_def unlines_def)
next
  case (Cons e entries x evs)
  let ?limit = "whole_arg ns ''limit''"
  show ?case
  proof (cases "ta_done st")
    case True
    with Cons.prems show ?thesis by (simp add: sret_def capped_def unlines_def)
  next
    case open_: False
    show ?thesis
    proof (cases x)
      case None
      with Cons open_ show ?thesis by (simp add: hits_simps)
    next
      case (Some ev)
      show ?thesis
      proof (cases "event_shown ns ev")
        case False
        with Cons open_ Some show ?thesis by (simp add: hits_simps event_matches sbind_def slift_def)
      next
        case True
        define st1 where "st1 = \<lparr>ta_seen = ta_seen st + 1, ta_last = fst e, ta_done = (?limit \<noteq> 0 \<and> ?limit \<le> ta_seen st + 1)\<rparr>"
        have seen1: "ta_seen st1 = ta_seen st + 1" and done1: "ta_done st1 \<longleftrightarrow> ?limit \<noteq> 0 \<and> ?limit \<le> ta_seen st1"
          by (simp_all add: st1_def)
        define T1 where "T1 = T\<lparr>tm_out := tm_out T @ event_line E (fst e) ev @ [CHR 0x0A]\<rparr>"
        have "tail_entries E ns False (e # entries) st T = tail_entries E ns False entries st1 T1"
          using open_ Cons.hyps(1) Some True
          by (simp add: event_matches event_prints show_entry_def print_line_run sbind_def slift_def sret_def Let_def st1_def T1_def)
        moreover have "capped ?limit (ta_seen st) (hits E ns (e # entries) (x # evs))
            = event_line E (fst e) ev # capped ?limit (ta_seen st + 1) (hits E ns entries evs)"
          using open_ Cons.prems Some True by (simp add: hits_simps capped_Cons not_le)
        moreover obtain st' where "tail_entries E ns False entries st1 T1
            = (Inr st', T1\<lparr>tm_out := tm_out T1 @ unlines (capped ?limit (ta_seen st + 1) (hits E ns entries evs))\<rparr>)"
          "ta_seen st' = ta_seen st + 1 + int (length (capped ?limit (ta_seen st + 1) (hits E ns entries evs)))"
          "ta_done st' \<longleftrightarrow> ?limit \<noteq> 0 \<and> ?limit \<le> ta_seen st'"
          using Cons.IH [OF done1, of T1] unfolding seen1 by blast
        ultimately show ?thesis by (simp add: T1_def unlines_def)
      qed
    qed
  qed
qed

text \<open>The audit tail without follow ends with code 0 and shows exactly the lines of the events that pass its filters, in the order of the stream, at most limit of them when a limit is set; entries whose data is missing or does not decode are skipped, and when nothing is shown it says so.\<close>

lemma audit_tail_shows_matching:
  assumes "decodes_to entries evs" "\<not> flag_arg ns ''follow''" "0 \<le> whole_arg ns ''limit''"
    and "ce_xrange E (or_default (opt_arg ns ''stream'') AUDIT_STREAM) (or_default (opt_arg ns ''since'') ''-'')
           (if whole_arg ns ''limit'' = 0 then None else Some (whole_arg ns ''limit'')) (tm_store T) = entries"
  shows "cmd_audit_tail E ns T = (Inr 0, T\<lparr>tm_out := tm_out T @ unlines
           (case capped (whole_arg ns ''limit'') 0 (hits E ns entries evs) of
              [] \<Rightarrow> [''(no audit entries on '' @ or_default (opt_arg ns ''stream'') AUDIT_STREAM @ '')'']
            | l # ls \<Rightarrow> l # ls)\<rparr>)"
proof -
  let ?st = "\<lparr>ta_seen = 0, ta_last = or_default (opt_arg ns ''since'') ''-'', ta_done = False\<rparr>" and ?limit = "whole_arg ns ''limit''"
  have "ta_done ?st \<longleftrightarrow> ?limit \<noteq> 0 \<and> ?limit \<le> ta_seen ?st" using assms(3) by auto
  from tail_shows [OF assms(1) this, of E T, simplified tail.simps add_0] obtain st' where st':
    "tail_entries E ns False entries ?st T = (Inr st', T\<lparr>tm_out := tm_out T @ unlines (capped ?limit 0 (hits E ns entries evs))\<rparr>)"
    "ta_seen st' = int (length (capped ?limit 0 (hits E ns entries evs)))" "ta_done st' \<longleftrightarrow> ?limit \<noteq> 0 \<and> ?limit \<le> ta_seen st'"
    by blast
  have read: "on_term (sread f) T = (Inr (f (tm_store T)), T)" for f :: "'a \<Rightarrow> stream_entry list" by (simp add: on_term_def sread_def)
  have "cmd_audit_tail E ns T = (if ta_done st' \<or> ta_seen st' \<noteq> 0 then sret 0
      else succeed_with (''(no audit entries on '' @ or_default (opt_arg ns ''stream'') AUDIT_STREAM @ '')''))
        (T\<lparr>tm_out := tm_out T @ unlines (capped ?limit 0 (hits E ns entries evs))\<rparr>)"
    using assms(2) st'(1) by (simp add: cmd_audit_tail_def Let_def sbind_def read assms(4))
  then show ?thesis
    using st'(2,3) assms(3) by (auto simp: sret_def ends_with_code unlines_def split: list.split)
qed

text \<open>Three entries: one without data, one that does not decode, one event of the sink.\<close>

definition tail_event :: AuditEvent where
  "tail_event = \<lparr>ae_op = ''a.b'', ae_timestamp = Fin 1, ae_principal = None, ae_source = None, ae_target = Some ''t'', ae_code = None,
     ae_verb = None, ae_success = True, ae_error = None, ae_extra = []\<rparr>"

definition sample_data :: string where
  "sample_data = quoted (''{~op~:~a.b~,~timestamp~:1.0,~principal~:null,~source~:null,~target~:~t~,~code~:null,~verb~:null,''
     @ ''~success~:true,~error~:null,~extra~:{}}'')"

definition sample_entries :: "stream_entry list" where
  "sample_entries = [(''1-0'', [(''x'', ''y'')]), (''2-0'', [(''data'', ''{'')]), (''3-0'', [(''data'', sample_data)])]"

lemma sample_decodes_to: "decodes_to sample_entries [None, None, Some tail_event]"
proof -
  have "json_loads sample_data = Inr (PDict (ae_to_dict tail_event))" by code_simp
  moreover have "json_loads ''{'' = Inl ValueError" by code_simp
  ultimately show ?thesis by (simp add: decodes_to_def sample_entries_def audit_payload_def)
qed

definition sample_tail_args :: namespace where
  "sample_tail_args = [(''op'', PStr ''a.*''), (''target_contains'', PNone), (''stream'', PNone), (''since'', PNone), (''limit'', PInt 5),
     (''follow'', PBool False), (''redis_url'', PStr ''u'')]"

lemma audit_tail_shows_matching_witness:
  "cmd_audit_tail (sample_cli\<lparr>ce_xrange := \<lambda>_ _ _ _. sample_entries\<rparr>) sample_tail_args \<lparr>tm_out = [], tm_err = [], tm_store = empty_mem\<rparr>
       = (Inr 0, \<lparr>tm_out = event_line sample_cli ''3-0'' tail_event @ [CHR 0x0A], tm_err = [], tm_store = empty_mem\<rparr>)"
proof -
  let ?E = "sample_cli\<lparr>ce_xrange := \<lambda>_ _ _ _. sample_entries\<rparr>" and ?T = "\<lparr>tm_out = [], tm_err = [], tm_store = empty_mem\<rparr>"
  have args: "\<not> flag_arg sample_tail_args ''follow''" "whole_arg sample_tail_args ''limit'' = 5" by code_simp+
  have data: "ce_time ?E = ce_time sample_cli" "ce_now ?E = ce_now sample_cli" "ae_extra tail_event = []" by (simp_all add: tail_event_def)
  have line: "event_line ?E ''3-0'' tail_event = event_line sample_cli ''3-0'' tail_event"
    by (simp add: event_line_def data)
  have "event_shown sample_tail_args tail_event" by code_simp
  then have "hits ?E sample_tail_args sample_entries [None, None, Some tail_event] = [event_line sample_cli ''3-0'' tail_event]"
    using line by (simp only: sample_entries_def hits_simps fst_conv if_True)
  with audit_tail_shows_matching [OF sample_decodes_to args(1), of ?E ?T] show ?thesis
    by (simp add: args capped_def unlines_def)
qed

section \<open>Smaller facts\<close>

text \<open>A score that a vote records is on the scale from 0 to 1.\<close>

lemma vote_score_unit:
  assumes "vote_score E scale x = Inr y" shows "fle fzero y \<and> fle y fone"
proof (cases "scale = ''1to5''")
  case True
  with assms have b: "fle fone x" "fle x (Fin 5)" and d: "fdiv (fsub x fone) (Fin 4) = Inr y"
    by (auto simp: vote_score_def Let_def split: if_splits sum.splits)
  then obtain q where q: "x = Fin q" "1 \<le> q" "q \<le> 5" by (cases x) (auto simp: fle_def feq_def)
  have four: "rnd (4 :: rat) = 4" and one: "rnd (1 :: rat) = 1" using rnd_of_int [of 4] by simp_all
  have "in_range 0 4 (mk (q - 1))" using q four by (intro mk_in_range) simp_all
  then obtain z where z: "mk (q - 1) = Fin z" "0 \<le> z" "z \<le> 4" by (rule in_rangeE)
  have "in_range 0 1 (mk (z / 4))" using z one by (intro mk_in_range) simp_all
  moreover have "y = mk (z / 4)" using d q(1) z(1) by simp
  ultimately show ?thesis by (auto elim: in_rangeE)
next
  case False
  with assms show ?thesis by (auto simp: vote_score_def Let_def split: if_splits)
qed

lemma vote_off_scale:
  "vote_score E (text_arg ns ''scale'') (real_arg ns ''score'') = Inl msg
     \<Longrightarrow> cmd_vote E ns T = (Inr 2, T\<lparr>tm_err := tm_err T @ msg @ [CHR 0x0A]\<rparr>)"
  by (simp add: cmd_vote_def ends_with_code)

text \<open>The target of a one-off message may be a pattern by its documentation, and the message refuses it.\<close>

lemma pattern_refused: "new_message mt source (TPat p) (if get then ''SEND-GET'' else ''SEND'') code thread body = Inl ValueError"
  by (simp add: new_message_def msg_post_init_def VALID_VERBS_def POINT_TO_POINT_VERBS_def)

lemma send_pattern_raises:
  assumes "send_target (text_arg ns ''target'') = Inr target" "CHR ''*'' \<in> set (text_arg ns ''target'')"
  shows "send_once E ns G source target thread T = (Inl ValueError, T)"
proof -
  obtain p where "target = TPat p" using assms by (auto simp: send_target_def rbind_def split: sum.splits)
  then show ?thesis by (simp add: send_once_def pattern_refused sbind_def slift_def)
qed

text \<open>A tool with an empty description ends the listing with an error.\<close>

lemma empty_description_fails: "tl_description (tb_tool b) = [] \<Longrightarrow> tool_row b = Inl IndexError"
  by (simp add: tool_row_def first_60_def first_line_def rbind_def)

text \<open>The factory of \<open>profile\<close> has neither capabilities nor skills, so that no profile it shows has a skill.\<close>

lemma profile_shows_no_skills:
  assumes "shell_profile null_engine a w = (Inr p, w')" shows "ap_skills p = []"
  using assms
  by (auto simp: shell_profile_def profile_for_def profile_factory_def new_factory_def capability_resolve_def merged_skills_def skill_entries_def skill_bindings_for_def Let_def
    split: prod.splits sum.splits if_splits)

end
