(* ===== verification/Billing.thy ===== *)
theory Billing
  imports Engine
begin

text \<open>
  The money of a dispatch: what the hold, the wait, the settlement and the refunds of
  \<open>ahp/engine/router.py\<close> do to the wallets, on every path. No other client moves money
  while a dispatch runs.
\<close>

section \<open>Wallets as a part of the store\<close>

definition same_money :: "view \<Rightarrow> view \<Rightarrow> bool" where
  "same_money v w \<longleftrightarrow> (\<forall>owner. strs v (wallet_key owner) = strs w (wallet_key owner))"

lemma same_money_refl [simp]: "same_money v v"
  by (simp add: same_money_def)

lemma same_money_trans: "same_money u v \<Longrightarrow> same_money v w \<Longrightarrow> same_money u w"
  by (simp add: same_money_def)

lemma same_money_strs: "strs v = strs w \<Longrightarrow> same_money v w"
  by (simp add: same_money_def)

context redis
begin

lemma same_money_facts:
  assumes "same_money (abs t) (abs s)"
  shows "balances R t = balances R s" "holds_of R t = holds_of R s" "wallets_readable R t \<longleftrightarrow> wallets_readable R s"
proof -
  have "get_state R owner t = get_state R owner s" for owner
    by (rule get_state_cong) (use assms in \<open>simp add: same_money_def\<close>)
  then show "balances R t = balances R s" "holds_of R t = holds_of R s" "wallets_readable R t \<longleftrightarrow> wallets_readable R s"
    by (simp_all add: balances_def [abs_def] holds_of_def [abs_def] wallets_readable_def)
qed

end

section \<open>What is due\<close>

text \<open>
  The specification of a settlement: what is due for a call under a hold of \<open>h\<close> is the settlement computed
  from the server's reputation at that moment, unless the price is negative or above the hold.
\<close>

definition due :: "'s redis \<Rightarrow> (int \<Rightarrow> pyfloat) \<Rightarrow> Call \<Rightarrow> pyfloat \<Rightarrow> 's \<Rightarrow> (Call \<times> Settlement) option" where
  "due R log10 c h s =
     (case current_reputation R (sm_server_id (ca_server c)) s of
        Inl _ \<Rightarrow> None
      | Inr rep \<Rightarrow>
          (case settle_payment log10 (settlement_inputs c rep) of
             Inl _ \<Rightarrow> None
           | Inr st \<Rightarrow>
               if flt (st_pre_tax st) fzero \<or> flt (fadd h (flit (1 / 1000000000))) (st_pre_tax st) then None else Some (c, st)))"

text \<open>The balances after it: the caller debited by the price, the positive shares credited.\<close>

definition settled_balances :: "(Call \<times> Settlement) option \<Rightarrow> (string \<Rightarrow> pyfloat) \<Rightarrow> string \<Rightarrow> pyfloat" where
  "settled_balances x b =
     (case x of
        None \<Rightarrow> b
      | Some (c, st) \<Rightarrow> credit_all (payout st (sm_server_id (ca_server c)) (map_option ml_provider_id (ca_leaf c)))
          (b(ca_caller c := fsub (b (ca_caller c)) (st_pre_tax st))))"

lemma settled_balances_simps [simp]:
  "settled_balances None b = b"
  "settled_balances (Some (c, st)) b = credit_all (payout st (sm_server_id (ca_server c)) (map_option ml_provider_id (ca_leaf c)))
     (b(ca_caller c := fsub (b (ca_caller c)) (st_pre_tax st)))"
  by (simp_all add: settled_balances_def)

section \<open>The steps of a billed call\<close>

context broker_on
begin

abbreviation "money s \<equiv> balances (bk_redis B) s"
abbreviation "held_by s \<equiv> holds_of (bk_redis B) s"
abbreviation "readable s \<equiv> wallets_readable (bk_redis B) s"

lemma readable_state: "readable s \<Longrightarrow> \<exists>st. get_state (bk_redis B) owner s = Inr st"
  by (simp add: wallets_readable_def)

text \<open>Placing a fresh hold: it is placed, or nothing changes.\<close>

lemma try_hold_cases:
  assumes ok: "readable s" and fresh: "map_of (held_by s caller) i = None" and run: "try_hold B now caller a i reason s = (res, t)"
  obtains (placed) "res = Inr True" "readable t" "money t = money s"
      "held_by t = (held_by s)(caller := held_by s caller @ [(i, a)])"
      "\<forall>k. \<not> money_key k \<longrightarrow> same_key k (abs t) (abs s)"
    | (refused) "res = Inr False" "t = s"
    | (raised) e where "res = Inl e" "t = s"
proof -
  obtain st where st: "get_state (bk_redis B) caller s = Inr st" using readable_state [OF ok] by blast
  have f: "map_of (ws_holds st) i = None" "i \<notin> fst ` set (ws_holds st)"
    using fresh by (simp_all add: holds_of_def st map_of_eq_None_iff)
  show thesis
  proof (cases "wallet_step now reason (OpHold i a) st")
    case (Inl e)
    have "bk_hold B now caller a i reason s = (Inl e, s)"
      unfolding bk_hold_def tx_names by (rule sbind_run(2)) (rule step_fails [OF st Inl])
    then have "try_hold B now caller a i reason s = (if e = InsufficientFundsError then Inr False else Inl e, s)"
      by (simp add: try_hold_def scatch_def sbind_def)
    then show thesis using run refused raised by (cases "e = InsufficientFundsError") auto
  next
    case (Inr st')
    then have st': "ws_balance st' = ws_balance st" "ws_holds st' = ws_holds st @ [(i, a)]"
      using f by (auto simp: apply_hold_def record_entry_def update_new split: if_splits option.splits)
    obtain u where u: "wallet_tx (bk_redis B) now caller reason (OpHold i a) s = (Inr st', u)" "readable u"
      "money u = (money s)(caller := ws_balance st')" "held_by u = (held_by s)(caller := ws_holds st')"
      "\<forall>k. \<not> money_key k \<longrightarrow> same_key k (abs u) (abs s)"
      by (rule balances_step [OF st Inr ok])
    have "try_hold B now caller a i reason s = (Inr True, u)"
      unfolding try_hold_def bk_hold_def tx_names by (simp only: scatch_def sbind_def u(1) prod.case sum.case sop_simps)
    moreover have "money u = money s" unfolding u(3) st' by (simp add: balances_def st fun_upd_idem_iff)
    moreover have "held_by u = (held_by s)(caller := held_by s caller @ [(i, a)])" unfolding u(4) st' by (simp add: holds_of_def st)
    ultimately show thesis using placed u(2,5) run by simp
  qed
qed

text \<open>A hold within the funds is placed.\<close>

lemma try_hold_placed:
  assumes ok: "readable s" and st: "get_state (bk_redis B) caller s = Inr st" and step: "wallet_step now reason (OpHold i a) st = Inr st'"
  shows "\<exists>t. try_hold B now caller a i reason s = (Inr True, t)"
proof -
  obtain u where "wallet_tx (bk_redis B) now caller reason (OpHold i a) s = (Inr st', u)" by (rule balances_step [OF st step ok])
  then have "try_hold B now caller a i reason s = (Inr True, u)"
    unfolding try_hold_def bk_hold_def tx_names by (simp only: scatch_def sbind_def prod.case sum.case sop_simps)
  then show ?thesis ..
qed

text \<open>A refund removes the hold and nothing else; without a hold it changes nothing.\<close>

lemma refund_held:
  assumes ok: "readable s" and h: "map_of (held_by s caller) i = Some h"
  obtains t where "bk_refund B now caller i reason s = (Inr (), t)" "readable t" "money t = money s"
    "held_by t = (held_by s)(caller := AList.delete i (held_by s caller))" "\<forall>k. \<not> money_key k \<longrightarrow> same_key k (abs t) (abs s)"
proof -
  obtain st where st: "get_state (bk_redis B) caller s = Inr st" using readable_state [OF ok] by blast
  have m: "map_of (ws_holds st) i = Some h" using h by (simp add: holds_of_def st)
  then obtain st' where st': "wallet_step now reason (OpRefund i) st = Inr st'" "ws_balance st' = ws_balance st"
    "ws_holds st' = AList.delete i (ws_holds st)" by (simp add: apply_refund_def record_entry_def)
  obtain u where u: "wallet_tx (bk_redis B) now caller reason (OpRefund i) s = (Inr st', u)" "readable u"
      "money u = (money s)(caller := ws_balance st')" "held_by u = (held_by s)(caller := ws_holds st')"
      "\<forall>k. \<not> money_key k \<longrightarrow> same_key k (abs u) (abs s)"
    by (rule balances_step [OF st st'(1) ok])
  have "bk_refund B now caller i reason s = (Inr (), u)"
    unfolding bk_refund_def tx_names by (simp only: sbind_def u(1) prod.case sum.case sop_simps)
  moreover have "money u = money s" unfolding u(3) st' by (simp add: balances_def st fun_upd_idem_iff)
  moreover have "held_by u = (held_by s)(caller := AList.delete i (held_by s caller))" unfolding u(4) st' by (simp add: holds_of_def st)
  ultimately show thesis using that u(2,5) by blast
qed

lemma refund_absent:
  assumes ok: "readable s" and h: "map_of (held_by s caller) i = None"
  shows "bk_refund B now caller i reason s = (Inl UnknownHoldError, s)"
proof -
  obtain st where st: "get_state (bk_redis B) caller s = Inr st" using readable_state [OF ok] by blast
  have "wallet_step now reason (OpRefund i) st = Inl UnknownHoldError"
    using h by (simp add: holds_of_def st apply_refund_def)
  then show ?thesis unfolding bk_refund_def tx_names by (intro sbind_run(2) step_fails [OF st])
qed

text \<open>The settlement pipeline on every path: it raises with the wallets unchanged, or the payout has happened.\<close>

lemma calculate_cases:
  assumes ok: "readable s" and h: "map_of (held_by s (ca_caller c)) (ca_hold_id c) = Some h"
    and run: "calculate_and_settle B log10 env uuid now c s = (res, t)"
  obtains (unpaid) e where "res = Inl e" "due (bk_redis B) log10 c h s = None" "same_money (abs t) (abs s)"
    | (paid) st where "due (bk_redis B) log10 c h s = Some (c, st)" "readable t"
      "money t = settled_balances (Some (c, st)) (money s)"
      "held_by t = (held_by s)(ca_caller c := AList.delete (ca_hold_id c) (held_by s (ca_caller c)))"
proof -
  let ?R = "bk_redis B" and ?sid = "sm_server_id (ca_server c)"
  obtain cs where cs: "get_state ?R (ca_caller c) s = Inr cs" using readable_state [OF ok] by blast
  note run' = run [unfolded calculate_and_settle_def sbind_def sop_simps]
  show thesis
  proof (cases "current_reputation ?R ?sid s")
    case (Inl e)
    with run' show thesis by (intro unpaid [of e]) (simp_all only: prod.case sum.case prod.inject, simp_all add: due_def)
  next
    case rep: (Inr rep)
    show thesis
    proof (cases "settle_payment log10 (settlement_inputs c rep)")
      case (Inl e)
      then have "due (bk_redis B) log10 c h s = None" using rep by (simp add: due_def)
      with run' rep Inl show thesis by (intro unpaid [of e]) (simp_all only: prod.case sum.case prod.inject, simp_all)
    next
      case st: (Inr st)
      show thesis
      proof (cases "wallet_step now (''settle hold '' @ ca_hold_id c) (OpRelease (ca_hold_id c) (st_pre_tax st)) cs")
        case (Inl e)
        have "bk_settle B now (ca_caller c) (ca_hold_id c) st ?sid (map_option ml_provider_id (ca_leaf c)) s = (Inl e, s)"
          by (rule settle_refused [OF refl cs Inl])
        moreover have "flt (st_pre_tax st) fzero \<or> flt (fadd h (flit (1 / 1000000000))) (st_pre_tax st)"
        proof (rule ccontr)
          assume "\<not> ?thesis"
          moreover have "map_of (ws_holds cs) (ca_hold_id c) = Some h" using h by (simp add: holds_of_def cs)
          ultimately obtain x where "wallet_step now (''settle hold '' @ ca_hold_id c) (OpRelease (ca_hold_id c) (st_pre_tax st)) cs = Inr x"
            using release_ok by blast
          with Inl show False by simp
        qed
        then have "due ?R log10 c h s = None" using rep st by (auto simp: due_def)
        ultimately show thesis
          using run' rep st by (intro unpaid [of e]) (simp_all only: prod.case sum.case prod.inject, simp_all)
      next
        case (Inr cs')
        then have d: "\<not> flt (st_pre_tax st) fzero" "\<not> flt (fadd h (flit (1 / 1000000000))) (st_pre_tax st)"
          using h by (auto simp: apply_release_def holds_of_def cs split: if_splits)
        obtain t1 where t1: "bk_settle B now (ca_caller c) (ca_hold_id c) st ?sid (map_option ml_provider_id (ca_leaf c)) s = (Inr (), t1)"
          "readable t1" "money t1 = credit_all (payout st ?sid (map_option ml_provider_id (ca_leaf c)))
              ((money s)(ca_caller c := fsub (money s (ca_caller c)) (st_pre_tax st)))"
          "held_by t1 = (held_by s)(ca_caller c := AList.delete (ca_hold_id c) (held_by s (ca_caller c)))"
          by (rule settle_moves [OF refl ok h d])
        obtain r2 t2 where t2: "record_outcome ?R ?sid (call_outcome c) (ca_actual_latency_ms c) (ca_response_chars c)
            (ca_max_response_chars c) t1 = (r2, t2)" by fastforce
        have "wallet_key owner \<notin> range reputation_key" for owner by auto
        then have m2: "same_money (abs t2) (abs t1)" using record_outcome_frame [OF t2] by (simp add: same_money_def)
        obtain r3 t3 where t3: "nudge_responder B now c t2 = (r3, t3)" by fastforce
        note n = nudge_frame [OF t3]
        obtain ev where ev: "bk_emit B now ''broker.settlement'' ?sid True None
            [(''caller'', PStr (ca_caller c)), (''hold_id'', PStr (ca_hold_id c)),
             (''leaf'', opt_str (map_option leaf_address (ca_leaf c))),
             (''pre_tax'', PFloat (fround (st_pre_tax st) 6)), (''to_server'', PFloat (fround (st_to_server st) 6)),
             (''to_compute'', PFloat (fround (st_to_compute st) 6)), (''to_broker'', PFloat (fround (st_to_broker st) 6)),
             (''to_commons'', PFloat (fround (st_to_commons st) 6)), (''effective_chars'', PInt (st_effective_chars st)),
             (''actual_latency_ms'', PFloat (fround (ca_actual_latency_ms c) 2)),
             (''tier_verdict'', PStr (ca_tier_verdict c))] t3 = ev" by blast
        obtain r5 t5 where t5: "maybe_request_survey B env uuid now (ca_caller c) (ca_server c) st (ca_hold_id c) ev = (r5, t5)" by fastforce
        note m = maybe_survey_frame [OF t5]
        have "wallet_key owner \<notin> range survey_request_key \<and> wallet_key owner \<noteq> SURVEY_QUEUE_KEY" for owner by auto
        then have "same_money (abs t5) (abs t2)" using m n ev [symmetric] by (simp add: same_money_def)
        moreover have "t = t2 \<or> t = t5"
          using run' m n unfolding rep st t1(1) t2 t3 ev t5 prod.case sum.case by (cases r2) auto
        ultimately have "same_money (abs t) (abs t1)" using m2 same_money_trans by blast
        moreover have "due ?R log10 c h s = Some (c, st)" using rep st d by (simp add: due_def)
        ultimately show thesis using same_money_facts [of t t1] t1(2-4) by (intro paid [of st]) simp_all
      qed
    qed
  qed
qed

text \<open>Settle or refund: the hold is gone either way.\<close>

lemma settle_or_refund_cases:
  assumes ok: "readable s" and h: "map_of (held_by s (ca_caller c)) (ca_hold_id c) = Some h"
  obtains t where "settle_or_refund B W c s = (Inr (), t)" "readable t"
    "held_by t = (held_by s)(ca_caller c := AList.delete (ca_hold_id c) (held_by s (ca_caller c)))"
    "money t = settled_balances (due (bk_redis B) (os_log10 W) c h s) (money s)"
proof -
  obtain r u where u: "calculate_and_settle B (os_log10 W) (os_env W) (os_uuid W) (os_now W) c s = (r, u)" by fastforce
  show thesis
  proof (rule calculate_cases [OF ok h u])
    fix e assume e: "r = Inl e" "due (bk_redis B) (os_log10 W) c h s = None" and m: "same_money (abs u) (abs s)"
    note f = same_money_facts [OF m]
    obtain t where t: "bk_refund B (os_now W) (ca_caller c) (ca_hold_id c) ''settlement raised'' u = (Inr (), t)" "readable t"
      "money t = money u" "held_by t = (held_by u)(ca_caller c := AList.delete (ca_hold_id c) (held_by u (ca_caller c)))"
      by (rule refund_held [of u "ca_caller c" "ca_hold_id c" h]) (use f ok h in simp_all)
    have "settle_or_refund B W c s = (Inr (), t)"
      unfolding settle_or_refund_def by (simp only: scatch_def sbind_def u e(1) t(1) prod.case sum.case)
    then show thesis using that t f e(2) by simp
  next
    fix st assume p: "due (bk_redis B) (os_log10 W) c h s = Some (c, st)" "readable u"
      "money u = settled_balances (Some (c, st)) (money s)"
      "held_by u = (held_by s)(ca_caller c := AList.delete (ca_hold_id c) (held_by s (ca_caller c)))"
    have "map_of (held_by u (ca_caller c)) (ca_hold_id c) = None" by (simp add: p(4) delete_conv')
    note a = refund_absent [OF p(2) this]
    have "settle_or_refund B W c s = (Inr (), u)"
      unfolding settle_or_refund_def by (cases r) (simp_all only: scatch_def sbind_def u a prod.case sum.case sop_simps)
    then show thesis using that p by simp
  qed
qed

end

section \<open>The whole call\<close>

context redis
begin

lemma list_leaves_strs: "strs (abs (snd (list_leaves_loop C alive addrs out s))) = strs (abs s)" if "cr_redis C = R"
  by (induction addrs arbitrary: out s) (auto simp: that split: sum.splits option.splits)

lemma collect_strs:
  assumes "collect_replies nid R P m targets timeout n s = (r, u)" and "\<forall>ch v. same_money (abs (snd (pe_inbox P ch v))) (abs v)"
  shows "same_money (abs u) (abs s)"
proof (cases "bus_encode (with_reply m)")
  case (Inl e)
  then show ?thesis using assms(1) by (simp add: collect_replies_def append_thread_def sbind_def)
next
  case (Inr v)
  let ?s = "r_xadd R (thread_stream (m_thread (with_reply m))) v s"
  obtain k w where p: "publish_all R (with_reply m) targets 0 ?s = (Inr k, w)" "strs (abs w) = strs (abs s)"
    using publish_all_run [OF Inr, of targets 0 ?s] by auto
  have "u = snd (pe_inbox P (reply_channel (m_message_id m)) w)"
    using assms(1) append_thread_run [OF Inr, of s] p(1)
    by (simp add: collect_replies_def sbind_def split: prod.splits)
  then show ?thesis using assms(2) same_money_strs [OF p(2)] same_money_trans by blast
qed

lemma send_get_money:
  assumes "bus_send_get nid R P m timeout s = (r, u)" and "\<forall>ch v. same_money (abs (snd (pe_inbox P ch v))) (abs v)"
  shows "same_money (abs u) (abs s)"
proof (cases "m_target m")
  case (TAddr a)
  obtain r' u' where c: "collect_replies nid R P m [a] timeout 1 s = (r', u')" by fastforce
  then have "u = u'" using assms(1) TAddr by (cases r') (simp_all add: bus_send_get_def sbind_def)
  then show ?thesis using collect_strs [OF c assms(2)] by simp
qed (use assms(1) in \<open>simp add: bus_send_get_def\<close>)

lemma cast_get_money:
  assumes "bus_cast_get nid R P m targets timeout n s = (r, u)" and "\<forall>ch v. same_money (abs (snd (pe_inbox P ch v))) (abs v)"
  shows "same_money (abs u) (abs s)"
  using assms collect_strs by (simp add: bus_cast_get_def)

end

text \<open>
  What is billed for a call, as a specification: nothing unless a server owns the target, its leaf and the hold can be
  determined, the hold is placed and a reply comes; then what is due at that moment for a call of that length.
\<close>

definition bill :: "'s ProtocolEngine \<Rightarrow> 's Broker \<Rightarrow> 's outside \<Rightarrow> Message \<Rightarrow> AgentAddress \<Rightarrow> pyfloat \<Rightarrow> 's \<Rightarrow> (Call \<times> Settlement) option" where
  "bill E B W m target timeout s =
     (let caller = to_str (m_source m); hold_id = ''msg:'' @ m_message_id m in
      case max_response_of (m_body m) of Inl _ \<Rightarrow> None
      | Inr max_resp \<Rightarrow>
     (case server_discover (bk_servers B) (os_now W) None None None None True s of Inl _ \<Rightarrow> None
      | Inr servers \<Rightarrow>
     (case find (\<lambda>v. sm_org v = a_org target) servers of None \<Rightarrow> None
      | Some server \<Rightarrow>
     (case list_leaves (bk_compute B) True s of (Inl _, _) \<Rightarrow> None
      | (Inr leaves, s') \<Rightarrow>
     (case best_leaf (sm_compute_binding server) leaves (sm_compute_ranking server) [] of Inl _ \<Rightarrow> None
      | Inr leaf \<Rightarrow>
     (case estimate_hold (sm_base_rate server) ''small'' (body_chars W (m_body m)) max_resp of Inl _ \<Rightarrow> None
      | Inr hold \<Rightarrow>
     (case try_hold B (os_now W) caller (h_amount hold) hold_id (''send_get to '' @ to_str target) s' of (Inl _, _) \<Rightarrow> None
      | (Inr held, u) \<Rightarrow>
          if \<not> held then None
          else
     (case bus_send_get (os_nid W) (bk_redis B) (os_peers W) m timeout u of
        (Inr (Some r), v) \<Rightarrow>
          due (bk_redis B) (os_log10 W)
            (call_for caller hold_id server leaf (body_chars W (m_body r)) max_resp (os_latency_ms W 0) (m_source r)) (h_amount hold) v
      | _ \<Rightarrow> None))))))))"

text \<open>Through the engine: only for an address, past the format check, on a cache miss, past the gates, and alive.\<close>

definition engine_bill :: "'s ProtocolEngine \<Rightarrow> 's Broker \<Rightarrow> 's outside \<Rightarrow> Message \<Rightarrow> pyfloat option \<Rightarrow> 's \<Rightarrow> (Call \<times> Settlement) option" where
  "engine_bill E B W m timeout s =
     (case m_target m of
        TPat _ \<Rightarrow> None
      | TAddr target \<Rightarrow>
          if check_format m = Inr () \<and> cache_get (os_digest W) (os_bytes_digest W) (os_nid W) (en_cache E) m s = Inr None
            \<and> permitted E m target \<and> is_alive (en_registry E) target s
          then bill E B W m target (case timeout of None \<Rightarrow> en_default_timeout E | Some t \<Rightarrow> t) s else None)"

text \<open>An engine on the broker's store, among clients that move no money while it waits.\<close>

locale billed_engine = broker_on B abs for E :: "'s ProtocolEngine" and W :: "'s outside" and B :: "'s Broker" and abs :: "'s \<Rightarrow> view" +
  assumes store: "en_redis E = bk_redis B"
    and peers: "same_money (abs (snd (pe_inbox (os_peers W) ch s))) (abs s)"
begin

text \<open>From a placed hold on: the wait, then the refund or the settlement.\<close>

lemma billed_wait:
  assumes ok: "readable s" and h: "map_of (held_by s caller) i = Some a" and D: "D s = (r, u)" "same_money (abs u) (abs s)"
    and run: "sbind (scatch D (\<lambda>e. sbind (bk_refund B (os_now W) caller i why) (\<lambda>_. sraise e))) (\<lambda>response.
        case response of None \<Rightarrow> sbind (bk_refund B (os_now W) caller i why') (\<lambda>_. sret None)
        | Some r \<Rightarrow> sbind (settle_or_refund B W (call_for caller i server leaf (chars r) mx lat (m_source r))) (\<lambda>_. sret (Some r))) s = (res, t)"
  shows "readable t \<and> held_by t = (held_by s)(caller := AList.delete i (held_by s caller))
    \<and> money t = settled_balances (case r of Inr (Some x) \<Rightarrow>
          due (bk_redis B) (os_log10 W) (call_for caller i server leaf (chars x) mx lat (m_source x)) a u | _ \<Rightarrow> None) (money s)"
proof -
  note f = same_money_facts [OF D(2)]
  have u: "readable u" "map_of (held_by u caller) i = Some a" using ok h f by simp_all
  obtain v where v: "bk_refund B (os_now W) caller i why u = (Inr (), v)" "readable v" "money v = money u"
    "held_by v = (held_by u)(caller := AList.delete i (held_by u caller))" by (rule refund_held [OF u])
  obtain w where w: "bk_refund B (os_now W) caller i why' u = (Inr (), w)" "readable w" "money w = money u"
    "held_by w = (held_by u)(caller := AList.delete i (held_by u caller))" by (rule refund_held [OF u])
  note run' = run [unfolded sbind_def scatch_def D(1) prod.case sum.case]
  show ?thesis
  proof (cases r)
    case (Inl e)
    from run' [unfolded Inl prod.case sum.case v(1)] have "t = v" by simp
    with Inl v show ?thesis by (simp add: f)
  next
    case x: (Inr x)
    show ?thesis
    proof (cases x)
      case None
      from run' [unfolded x None prod.case sum.case option.case w(1)] have "t = w" by simp
      with x None w show ?thesis by (simp add: f)
    next
      case (Some r')
      let ?c = "call_for caller i server leaf (chars r') mx lat (m_source r')"
      have c: "ca_caller ?c = caller" "ca_hold_id ?c = i" "ca_server ?c = server" "ca_leaf ?c = leaf" by (simp_all add: call_for_def)
      obtain z where z: "settle_or_refund B W ?c u = (Inr (), z)" "readable z"
        "held_by z = (held_by u)(caller := AList.delete i (held_by u caller))"
        "money z = settled_balances (due (bk_redis B) (os_log10 W) ?c a u) (money u)"
        by (rule settle_or_refund_cases [OF u(1), of ?c, unfolded c, OF u(2), where W = W])
      have "res = Inr (Some r') \<and> t = z" using run' unfolding x Some sum.case option.case z(1) prod.case by simp
      with z(2-4) x Some show ?thesis by (simp add: f)
    qed
  qed
qed

lemma billed_call:
  assumes ok: "readable s" and fresh: "map_of (held_by s (to_str (m_source m))) (''msg:'' @ m_message_id m) = None"
    and run: "broker_send_get E B W m target timeout s = (res, t)"
  shows "readable t \<and> held_by t = held_by s \<and> money t = settled_balances (bill E B W m target timeout s) (money s)"
proof -
  let ?caller = "to_str (m_source m)" and ?i = "''msg:'' @ m_message_id m"
  have quiet: "\<forall>ch v. same_money (abs (snd (pe_inbox (os_peers W) ch v))) (abs v)" using peers by blast
  have same: "?thesis" if "same_money (abs t) (abs s)" "bill E B W m target timeout s = None"
    using same_money_facts [OF that(1)] ok that(2) by simp
  note run' = run [unfolded broker_send_get_def Let_def store sbind_def sop_simps]
  show ?thesis
  proof (cases "max_response_of (m_body m)")
    case (Inl e)
    with run' show ?thesis using same by (simp add: bill_def)
  next
    case mx: (Inr mx)
    show ?thesis
    proof (cases "server_discover (bk_servers B) (os_now W) None None None None True s")
      case (Inl e)
      with run' mx show ?thesis using same by (simp add: bill_def)
    next
      case sv: (Inr servers)
      show ?thesis
      proof (cases "find (\<lambda>v. sm_org v = a_org target) servers")
        case None
        with run' mx sv have "bus_send_get (os_nid W) (bk_redis B) (os_peers W) m timeout s = (res, t)" by simp
        moreover have "bill E B W m target timeout s = None" using mx sv None by (simp add: bill_def)
        ultimately show ?thesis using same send_get_money quiet by blast
      next
        case srv: (Some server)
        obtain r1 s1 where s1: "list_leaves (bk_compute B) True s = (r1, s1)" by fastforce
        have "strs (abs s1) = strs (abs s)"
          using list_leaves_strs [of "bk_compute B" True "r_smembers (cr_redis (bk_compute B)) MENU_LEAF_INDEX s" "[]" s] s1
          by (simp add: list_leaves_def bk_compute_def)
        then have m1: "same_money (abs s1) (abs s)" by (rule same_money_strs)
        note f1 = same_money_facts [OF m1]
        show ?thesis
        proof (cases "\<exists>leaves leaf hold. r1 = Inr leaves
            \<and> best_leaf (sm_compute_binding server) leaves (sm_compute_ranking server) [] = Inr leaf
            \<and> estimate_hold (sm_base_rate server) ''small'' (body_chars W (m_body m)) mx = Inr hold")
          case False
          with run' mx sv srv s1 have "t = s1" by (auto split: sum.splits)
          moreover have "bill E B W m target timeout s = None"
            using mx sv srv s1 False by (auto simp: bill_def Let_def split: sum.splits)
          ultimately show ?thesis using same m1 by simp
        next
          case True
          then obtain leaves leaf hold where l: "r1 = Inr leaves"
            "best_leaf (sm_compute_binding server) leaves (sm_compute_ranking server) [] = Inr leaf"
            "estimate_hold (sm_base_rate server) ''small'' (body_chars W (m_body m)) mx = Inr hold" by blast
          obtain r2 s2 where s2: "try_hold B (os_now W) ?caller (h_amount hold) ?i (''send_get to '' @ to_str target) s1 = (r2, s2)" by fastforce
          note run2 = run' [unfolded mx sv srv s1 l s2 prod.case sum.case option.case]
          note b2 = bill_def [of E B W m target timeout s, unfolded Let_def mx sv srv s1 l s2 prod.case sum.case option.case]
          have "readable s1" "map_of (held_by s1 ?caller) ?i = None" using f1 ok fresh by simp_all
          then show ?thesis
          proof (rule try_hold_cases [OF _ _ s2])
            assume "r2 = Inr False" "s2 = s1"
            with run2 b2 show ?thesis using same m1 by simp
          next
            fix e assume "r2 = Inl e" "s2 = s1"
            with run2 b2 show ?thesis using same m1 by simp
          next
            assume h: "r2 = Inr True" "readable s2" "money s2 = money s1"
              "held_by s2 = (held_by s1)(?caller := held_by s1 ?caller @ [(?i, h_amount hold)])"
            obtain r3 s3 where s3: "bus_send_get (os_nid W) (bk_redis B) (os_peers W) m timeout s2 = (r3, s3)" by fastforce
            have "map_of (held_by s2 ?caller) ?i = Some (h_amount hold)" using h(4) f1 fresh by (simp add: map_add_def)
            note w = billed_wait [where D = "bus_send_get (os_nid W) (bk_redis B) (os_peers W) m timeout" and s = s2
                and chars = "\<lambda>r. body_chars W (m_body r)" and mx = mx and lat = "os_latency_ms W 0" and server = server and leaf = leaf
                and why = "''dispatch exception''" and why' = "''no response (timeout or target dead)''",
                OF h(2) this s3 send_get_money [OF s3 quiet]]
            have e: "(held_by s2)(?caller := AList.delete ?i (held_by s2 ?caller)) = held_by s" "money s2 = money s"
              using h f1 fresh by (simp_all add: delete_snoc map_of_eq_None_iff)
            note w' = w [unfolded sbind_def sop_simps e, OF run2 [unfolded h(1) prod.case sum.case not_True_eq_False if_False]]
            have "bill E B W m target timeout s = (case r3 of Inr (Some x) \<Rightarrow> due (bk_redis B) (os_log10 W)
                (call_for ?caller ?i server leaf (body_chars W (m_body x)) mx (os_latency_ms W 0) (m_source x)) (h_amount hold) s3 | _ \<Rightarrow> None)"
              unfolding b2 h(1) s3 sum.case prod.case not_True_eq_False if_False ..
            with w' show ?thesis by simp
          qed
        qed
      qed
    qed
  qed
qed

text \<open>The whole SEND-GET: nothing but the broker moves money.\<close>

lemma cache_put_money:
  assumes "en_cache E = bk_redis B" "cache_put d bd (en_cache E) m r s = (res, t)"
  shows "same_money (abs t) (abs s)"
  using assms(2) by (auto simp: cache_entry_key_def wallet_key_def assms(1) cache_put_def sbind_def Let_def same_money_def request_key_def rbind_eq_Inr
      split: msg_target.splits sum.splits if_splits)

lemma billed_send_get:
  assumes ok: "readable s" and fresh: "map_of (held_by s (to_str (m_source m))) (''msg:'' @ m_message_id m) = None"
    and E: "en_broker E = Some B" "en_cache E = bk_redis B" and fmt: "check_format m = Inr ()"
    and run: "handle_send_get E W m (case timeout of None \<Rightarrow> en_default_timeout E | Some t \<Rightarrow> t) s = (res, t)"
  shows "readable t \<and> held_by t = held_by s \<and> money t = settled_balances (engine_bill E B W m timeout s) (money s)"
proof (cases "m_target m")
  case (TPat p)
  with run ok show ?thesis by (simp add: handle_send_get_def require_address_def sbind_def engine_bill_def)
next
  case (TAddr target)
  let ?tm = "case timeout of None \<Rightarrow> en_default_timeout E | Some t \<Rightarrow> t"
  show ?thesis
  proof (cases "cache_get (os_digest W) (os_bytes_digest W) (os_nid W) (en_cache E) m s = Inr None
      \<and> permitted E m target \<and> is_alive (en_registry E) target s")
    case False
    then have "t = s"
      using run TAddr by (auto simp: handle_send_get_def require_address_def check_compatibility_def check_scope_eq guard_res_def
        permitted_def sbind_def split: sum.splits option.splits if_splits)
    then show ?thesis using ok TAddr False by (auto simp: engine_bill_def)
  next
    case True
    obtain r u where u: "broker_send_get E B W m target ?tm s = (r, u)" by fastforce
    note c = billed_call [OF ok fresh u]
    have "engine_bill E B W m timeout s = bill E B W m target ?tm s" using TAddr True fmt by (simp add: engine_bill_def)
    moreover have "same_money (abs t) (abs u)"
      using run TAddr True u E(1) cache_put_money [OF E(2)]
      by (auto simp: handle_send_get_def require_address_def check_compatibility_def check_scope_eq guard_res_def
          permitted_def sbind_def split: sum.splits option.splits prod.splits)
    ultimately show ?thesis using same_money_facts [of t u] c by simp
  qed
qed

lemma billed_handle:
  assumes "readable s" "map_of (held_by s (to_str (m_source m))) (''msg:'' @ m_message_id m) = None"
    and E: "en_broker E = Some B" "en_cache E = bk_redis B" "sink_ok abs (en_audit E)" and verb: "m_verb m = ''SEND-GET''"
    and run: "engine_handle E W m timeout mr s = (res, t)"
  shows "readable t \<and> held_by t = held_by s \<and> money t = settled_balances (engine_bill E B W m timeout s) (money s)"
proof (cases "check_format m")
  case (Inl e)
  then have "t = s" "engine_bill E B W m timeout s = None"
    using run verb by (auto simp: engine_handle_def VALID_VERBS_def sbind_def engine_bill_def split: msg_target.splits)
  then show ?thesis using assms(1) by simp
next
  case (Inr x)
  then have fmt: "check_format m = Inr ()" by simp
  obtain r u where u: "handle_send_get E W m (case timeout of None \<Rightarrow> en_default_timeout E | Some t \<Rightarrow> t) s = (r, u)" by fastforce
  have "strs (abs (emit_message E W m a b v)) = strs (abs v)" for a b v
    unfolding emit_message_def by (rule emit_opt_view(1) [OF E(3)])
  moreover have "\<exists>a b. t = emit_message E W m a b u"
    using run verb fmt u by (cases r) (auto simp: engine_handle_def VALID_VERBS_def dispatch_def scatch_def sbind_def)
  ultimately have "same_money (abs t) (abs u)" by (auto simp: same_money_def)
  with billed_send_get [OF assms(1,2) E(1,2) fmt u] show ?thesis using same_money_facts [of t u] by simp
qed

end

section \<open>A sample engine\<close>

lemma answering_money: "same_money (mem_view (snd (pe_inbox (answering mem_redis r) ch s))) (mem_view s)"
  by (cases "bus_encode r")
    (simp_all add: answering_def bus_publish_def append_thread_def same_money_def case_prod_beta del: mem_view_sel)

lemma sample_billed:
  assumes "\<forall>ch s. same_money (mem_view (snd (pe_inbox P ch s))) (mem_view s)"
  shows "billed_engine (sample_engine None (Some sample_broker)) (sample_outside P) sample_broker mem_view"
  using assms mem_broker.broker_on_axioms
  by (simp add: billed_engine_def billed_engine_axioms_def sample_engine_def sample_outside_def sample_broker_def)

interpretation mem_engine: billed_engine "sample_engine None (Some sample_broker)" "sample_outside (answering mem_redis r)" sample_broker mem_view
  for r
  by (rule sample_billed) (simp add: answering_money)

text \<open>A store with one server and its agent alive, and a call that asks for at most 20 characters.\<close>

definition served_store :: mem where
  "served_store = snd (server_register (bk_servers sample_broker) sample_server
     (r_setex mem_redis (alive_key (to_str (sample_address ''i2''))) (PStr ''1'') 30 empty_mem))"

definition short_call :: Message where
  "short_call = sample_message\<lparr>m_body := PDict [(''max_response_chars'', PInt 20)]\<rparr>"

lemma short_call_fields: "m_source short_call = sample_address ''i1''" "m_target short_call = TAddr (sample_address ''i2'')"
  "m_message_id short_call = ''m1''" "m_code short_call = ''query''" "m_verb short_call = ''SEND-GET''"
  "max_response_of (m_body short_call) = Inr 20" "body_chars (sample_outside P) (m_body short_call) = 0"
  "check_format short_call = Inr ()" "sendable short_call"
  using sample_sendable(1) by (simp_all add: short_call_def sample_message_def max_response_of_def dict_get_def body_chars_def py_str_def
      sample_outside_def py_len_def check_format_def sendable_def valid_message_def is_broadcast_def json_ok.simps)

lemma served_store_run:
  obtains v where "server_to_json sample_server = Inr v"
    "served_store = server_mark_alive (bk_servers sample_broker) ''srv'' (r_hset mem_redis SERVER_HASH_KEY ''srv'' v
       (r_setex mem_redis (alive_key (to_str (sample_address ''i2''))) (PStr ''1'') 30 empty_mem))"
proof -
  obtain v where v: "server_to_json sample_server = Inr v"
    by (simp add: server_to_json_def sample_server_def Let_def strs_json_def)
  have "sm_server_id sample_server = ''srv''" "bk_redis sample_broker = mem_redis" by (simp_all add: sample_server_def sample_broker_def)
  then show thesis using that [OF v] by (simp add: served_store_def server_register_def v bk_servers_def)
qed

lemma served_store_facts:
  "server_discover (bk_servers sample_broker) (Fin 0) None None None None True served_store = Inr [sample_server]"
  "list_leaves (bk_compute sample_broker) True served_store = (Inr [], served_store)"
  "get_state mem_redis owner served_store = Inr (new_wallet owner)"
  "strs (mem_view served_store) (reputation_key ''srv'') = None"
  "is_alive open_registry (sample_address ''i2'') served_store"
  "strs (mem_view served_store) (cache_entry_key d) = None"
proof -
  obtain v where v: "server_to_json sample_server = Inr v" and st:
    "served_store = server_mark_alive (bk_servers sample_broker) ''srv'' (r_hset mem_redis SERVER_HASH_KEY ''srv'' v
       (r_setex mem_redis (alive_key (to_str (sample_address ''i2''))) (PStr ''1'') 30 empty_mem))" by (rule served_store_run)
  have R: "bk_redis sample_broker = mem_redis" by (simp add: sample_broker_def)
  have strs: "strs (mem_view served_store) = [alive_key (to_str (sample_address ''i2'')) \<mapsto> PStr ''1'', server_alive_key ''srv'' \<mapsto> PStr ''1'']"
    unfolding st server_mark_alive_def bk_servers_def R by (simp add: put_str_def del_key_def fun_eq_iff del: mem_view_sel) (simp add: empty_mem_def)
  have hashes: "ms_hashes served_store = [(SERVER_HASH_KEY, [(''srv'', v)])]"
    unfolding st server_mark_alive_def bk_servers_def R
    by (simp add: mem_redis_def mem_put_def mem_del_def Let_def empty_mem_def table_def)
  have alive: "server_is_alive (bk_servers sample_broker) ''srv'' served_store"
    by (simp add: server_is_alive_def bk_servers_def R key_exists_def strs del: mem_view_sel)
  have "server_from_json (Fin 0) v = Inr sample_server"
    by (rule server_roundtrip [OF v])
      (simp add: valid_server_def server_meta_post_init_def sample_server_def parse_tier_known TIER_ORDER_def)
  then have "server_scan (bk_servers sample_broker) (Fin 0) True served_store = [sample_server]"
    using alive by (simp add: server_scan_def) (simp add: bk_servers_def R mem_redis_def hashes table_def List.map_filter_simps)
  then show "server_discover (bk_servers sample_broker) (Fin 0) None None None None True served_store = Inr [sample_server]"
    by (simp add: server_discover_def capable_def)
  show "list_leaves (bk_compute sample_broker) True served_store = (Inr [], served_store)"
    unfolding st by (simp add: list_leaves_def bk_compute_def R bk_servers_def server_mark_alive_def)
      (simp add: mem_redis_def empty_mem_def table_def mem_put_def mem_del_def Let_def)
  have k: "wallet_key owner \<noteq> server_alive_key x" "wallet_key owner \<noteq> alive_key y" "reputation_key owner \<noteq> server_alive_key x"
    "reputation_key owner \<noteq> alive_key y" "cache_entry_key owner \<noteq> server_alive_key x" "cache_entry_key owner \<noteq> alive_key y" for owner x y
    by (simp_all add: wallet_key_def server_alive_key_def alive_key_def reputation_key_def cache_entry_key_def)
  show "get_state mem_redis owner served_store = Inr (new_wallet owner)"
    by (simp add: mem.get_state_view strs k del: mem_view_sel)
  show "strs (mem_view served_store) (reputation_key ''srv'') = None" "strs (mem_view served_store) (cache_entry_key d) = None"
    by (simp_all add: strs k del: mem_view_sel)
  have "server_alive_key ''srv'' \<noteq> alive_key (to_str (sample_address ''i2''))" by (simp add: server_alive_key_def alive_key_def)
  then show "is_alive open_registry (sample_address ''i2'') served_store"
    by (simp add: is_alive_def open_registry_def key_exists_def strs del: mem_view_sel)
qed

lemma served_money: "wallets_readable mem_redis served_store" "holds_of mem_redis served_store owner = []"
  "balances mem_redis served_store owner = INITIAL_FUND"
  by (simp_all add: wallets_readable_def holds_of_def balances_def served_store_facts(3) new_wallet_def)

lemma short_hold: "estimate_hold (sm_base_rate sample_server) ''small'' 0 20 = Inr \<lparr>h_amount = Fin 40, h_estimated_chars = 20\<rparr>"
  using mk_of_int [of 2] mk_of_int [of 40] by (simp add: estimate_hold_def sample_server_def tier_multiplier_eq TIER_MULTIPLIER_def int_float_small)

lemma served_hold:
  obtains u where "try_hold sample_broker (Fin 0) owner (Fin 40) i why served_store = (Inr True, u)"
    "wallets_readable mem_redis u" "balances mem_redis u = balances mem_redis served_store"
    "holds_of mem_redis u = (holds_of mem_redis served_store)(owner := [(i, Fin 40)])"
    "strs (mem_view u) (reputation_key ''srv'') = None"
proof -
  have R: "bk_redis sample_broker = mem_redis" by (simp add: sample_broker_def)
  have "mk 100 = Fin 100" using mk_of_int [of 100] by simp
  then have "\<exists>w. wallet_step (Fin 0) why (OpHold i (Fin 40)) (new_wallet owner) = Inr w
     \<and> ws_balance w = ws_balance (new_wallet owner) \<and> ws_holds w = AList.update i (Fin 40) (ws_holds (new_wallet owner))
     \<and> ws_held_total w = fadd (ws_held_total (new_wallet owner)) (Fin 40)"
    by (intro hold_fresh_ok) (simp_all add: new_wallet_def available_def INITIAL_FUND_def)
  then obtain w where w: "wallet_step (Fin 0) why (OpHold i (Fin 40)) (new_wallet owner) = Inr w" by blast
  obtain u where u: "try_hold sample_broker (Fin 0) owner (Fin 40) i why served_store = (Inr True, u)"
    using mem_broker.try_hold_placed [unfolded R, OF served_money(1) served_store_facts(3) w] by blast
  have fresh: "map_of (holds_of (bk_redis sample_broker) served_store owner) i = None" by (simp add: R served_money)
  show thesis
  proof (rule mem_broker.try_hold_cases [unfolded R, OF served_money(1) fresh [unfolded R] u])
    assume a: "wallets_readable mem_redis u" "balances mem_redis u = balances mem_redis served_store"
      "holds_of mem_redis u = (holds_of mem_redis served_store)(owner := holds_of mem_redis served_store owner @ [(i, Fin 40)])"
      "\<forall>k. \<not> money_key k \<longrightarrow> same_key k (mem_view u) (mem_view served_store)"
    have "\<not> money_key (reputation_key ''srv'')" by (simp add: money_key_def reputation_key_def startswith_def)
    with a(4) served_store_facts(4) have "strs (mem_view u) (reputation_key ''srv'') = None" by (simp add: same_key_def del: mem_view_sel)
    with a u show thesis by (intro that) (simp_all add: served_money(2) del: mem_view_sel)
  qed simp_all
qed

lemma answering_strs: "strs (mem_view (snd (pe_inbox (answering mem_redis r) ch s))) = strs (mem_view s)"
  by (cases "bus_encode r") (simp_all add: answering_def bus_publish_def append_thread_def case_prod_beta del: mem_view_sel)

lemma short_reply:
  assumes "sendable m" "m_target m = TAddr a"
  obtains v where "bus_send_get [] mem_redis (answering mem_redis sample_reply) m (Fin 5) u = (Inr (Some (canonical_msg sample_reply)), v)"
    "strs (mem_view v) = strs (mem_view u)"
proof -
  let ?P = "answering mem_redis sample_reply"
  have d: "decode_payload [] (PDict (to_dict sample_reply)) = Inr (canonical_msg sample_reply)"
    using decode_sent sample_sendable(2) by (simp add: sendable_def)
  have f: "fsub (fadd fzero (Fin 5)) fzero = Fin 5" using mk_of_int [of 5] by simp
  obtain t script v where c: "pe_inbox ?P (reply_channel (m_message_id m)) t = (script, v)"
    "collect_replies [] mem_redis ?P m [a] (Fin 5) 1 u =
       (mapM (decode_payload []) (take (nat 1) (timely (fadd (pe_clock ?P) (Fin 5)) script)), v)"
    "strs (mem_view t) = strs (mem_view u)"
    by (rule mem.collect_replies_run [OF assms(1)])
  have "strs (mem_view v) = strs (mem_view u)" using answering_strs [of sample_reply "reply_channel (m_message_id m)" t] c(1,3) by simp
  moreover have "collect_replies [] mem_redis ?P m [a] (Fin 5) 1 u = (Inr [canonical_msg sample_reply], v)"
    using c f by (auto simp: answering_def d)
  then have "bus_send_get [] mem_redis ?P m (Fin 5) u = (Inr (Some (canonical_msg sample_reply)), v)"
    using assms(2) by (simp add: bus_send_get_def sbind_def)
  ultimately show thesis using that by blast
qed

text \<open>The price of a reply of five characters.\<close>

lemma short_price:
  "\<exists>st. settle_payment floor_log10 (settlement_inputs (call_for caller i sample_server None 5 20 (Fin 700) a) (new_entry ''srv'')) = Inr st
     \<and> st_pre_tax st = Fin 10"
proof -
  have n: "mk 10 = Fin 10" "mk 5 = Fin 5" "mk 2 = Fin 2" using mk_of_int [of 10] mk_of_int [of 5] mk_of_int [of 2] by simp_all
  have v: "verbosity_multiplier (Fin 1) = Fin 1" by (simp add: verbosity_multiplier_def Let_def)
  have r: "reputation_multiplier (Fin (1/2)) = Fin 1" by (simp add: reputation_multiplier_def Let_def mk_dyadic)
  have m: "mk (5404319552844595 / 2 ^ 54 * 600) = Fin (6333186975989760 / 2 ^ 45)"
    using mk_eval [of "5404319552844595 / 2 ^ 54 * 600" 45 6333186975989760] by simp
  have c: "compute_multiplier (Fin 700) ''small'' ''matched'' = Fin 1"
    using m by (simp add: compute_multiplier_def Let_def EXPECTED_LATENCY_MS_def dict_get_def flit_0_3 [simplified])
  have ret: "retention_multiplier floor_log10 0 = Fin 1"
    using log10_fun.log_1 [OF floor_log10.log10_fun_axioms] by (simp add: retention_multiplier_def)
  have i: "settlement_inputs (call_for caller i sample_server None 5 20 (Fin 700) a) (new_entry ''srv'') = \<lparr>si_base_rate = Fin 1, si_tier = ''small'', si_response_chars = 5,
     si_max_response_chars = 20, si_actual_latency_ms = Fin 700, si_leaf_rate = Fin 0, si_completed_with_caller = 0,
     si_server_reputation = Fin (1/2), si_server_avg_overage = Fin 1, si_tier_verdict = ''matched''\<rparr>"
    by (simp add: settlement_inputs_def call_for_def sample_server_def new_entry_def)
  have "\<exists>st. settle_payment floor_log10 (settlement_inputs (call_for caller i sample_server None 5 20 (Fin 700) a) (new_entry ''srv'')) = Inr st"
    unfolding settle_total i by (simp add: TIER_ORDER_def fl_of_int_def is_fin_def n)
  then obtain st where st: "settle_payment floor_log10 (settlement_inputs (call_for caller i sample_server None 5 20 (Fin 700) a) (new_entry ''srv'')) = Inr st" by blast
  then have "st_pre_tax st = Fin 10"
    unfolding i by (rule settle_price) (auto simp: tier_multiplier_eq TIER_MULTIPLIER_def int_float_small n v r c ret)
  with st show ?thesis by blast
qed

section \<open>Properties\<close>

text \<open>C9: The money of a billed call, on every path: when a SEND-GET through an engine with a broker ends, normally or by
  an exception, no hold of it is left behind, and the balances are those of the specification \<open>engine_bill\<close>: if a
  gate refused, the cache answered, nobody owned the target or was alive, the hold was not placed, no reply came, or
  the settlement could not be computed or exceeded the hold, no balance has moved; otherwise exactly one settlement has
  happened, the one \<open>settle_payment\<close> computes from the server's reputation when the reply arrives and the length of
  that reply, whatever wallets coincide, and also when the reputation, the audit, the survey or the cache raises after it.\<close>

theorem call_money_discipline:
  assumes "billed_engine E W B view" and "en_broker E = Some B" and "en_cache E = bk_redis B" and "sink_ok view (en_audit E)"
    and "wallets_readable (bk_redis B) s"
    and "map_of (holds_of (bk_redis B) s (to_str (m_source m))) (''msg:'' @ m_message_id m) = None"
    and "m_verb m = ''SEND-GET''" and "engine_handle E W m timeout mr s = (res, t)"
  shows "wallets_readable (bk_redis B) t \<and> holds_of (bk_redis B) t = holds_of (bk_redis B) s
    \<and> balances (bk_redis B) t = settled_balances (engine_bill E B W m timeout s) (balances (bk_redis B) s)"
  by (rule billed_engine.billed_handle [OF assms(1,5,6,2,3,4,7,8)])

text \<open>A call that holds 40 and is settled for 10: the caller, who had 100, has 90 and no hold.\<close>

theorem call_money_discipline_witness:
  "\<exists>c st res t. engine_bill (sample_engine None (Some sample_broker)) sample_broker (sample_outside (answering mem_redis sample_reply))
        short_call None served_store = Some (c, st) \<and> st_pre_tax st = Fin 10
     \<and> engine_handle (sample_engine None (Some sample_broker)) (sample_outside (answering mem_redis sample_reply))
        short_call None None served_store = (res, t)
     \<and> balances mem_redis served_store (to_str (sample_address ''i1'')) = Fin 100
     \<and> balances mem_redis t (to_str (sample_address ''i1'')) = Fin 90
     \<and> holds_of mem_redis t (to_str (sample_address ''i1'')) = []"
proof -
  let ?E = "sample_engine None (Some sample_broker)" and ?W = "sample_outside (answering mem_redis sample_reply)"
  let ?c = "to_str (sample_address ''i1'')"
  have R: "bk_redis sample_broker = mem_redis" by (simp add: sample_broker_def)
  have E: "en_broker ?E = Some sample_broker" "en_cache ?E = mem_redis" "en_audit ?E = None" "en_registry ?E = open_registry"
    "en_default_timeout ?E = Fin 5" "en_scope ?E = None" by (simp_all add: sample_engine_def DEFAULT_TIMEOUT_def)
  have W: "os_now ?W = Fin 0" "os_nid ?W = []" "os_peers ?W = answering mem_redis sample_reply" "os_log10 ?W = floor_log10"
    "os_latency_ms ?W i = Fin 700" for i by (simp_all add: sample_outside_def)
  have len: "body_chars ?W (m_body (canonical_msg sample_reply)) = 5"
    by (simp add: body_chars_def canonical_msg_def sample_reply_def py_str_def py_len_def)
  have cache: "cache_get (os_digest ?W) (os_bytes_digest ?W) (os_nid ?W) mem_redis short_call served_store = Inr None"
    using served_store_facts(6) by (simp add: cache_get_def request_key_def cache_key_def short_call_fields del: mem_view_sel)
  have perm: "permitted ?E short_call (sample_address ''i2'')"
    using sample_refused(1) by (simp add: permitted_def scope_admits_def E short_call_fields sample_message_def)
  have leaf: "best_leaf (sm_compute_binding sample_server) [] (sm_compute_ranking sample_server) [] = Inr None"
    by (simp add: best_leaf_def matching_leaves_def sample_server_def rank_leaves_def)
  have hid: "''msg:'' @ ''m1'' = ''msg:m1''" by simp
  have own: "find (\<lambda>v. sm_org v = a_org (sample_address ''i2'')) [sample_server] = Some sample_server"
    by (simp add: sample_server_def sample_address_def)
  obtain u where u: "try_hold sample_broker (Fin 0) ?c (Fin 40) ''msg:m1'' (''send_get to '' @ to_str (sample_address ''i2'')) served_store = (Inr True, u)"
    "strs (mem_view u) (reputation_key ''srv'') = None" by (rule served_hold)
  obtain v where v: "bus_send_get [] mem_redis (answering mem_redis sample_reply) short_call (Fin 5) u = (Inr (Some (canonical_msg sample_reply)), v)"
    "strs (mem_view v) = strs (mem_view u)" by (rule short_reply [OF short_call_fields(9,2)])
  let ?call = "call_for ?c ''msg:m1'' sample_server None 5 20 (Fin 700) (m_source (canonical_msg sample_reply))"
  have rep: "current_reputation mem_redis ''srv'' v = Inr (new_entry ''srv'')"
    using u(2) v(2) by (simp add: current_reputation_def mem.get_reputation_view del: mem_view_sel)
  obtain st where st: "settle_payment floor_log10 (settlement_inputs ?call (new_entry ''srv'')) = Inr st" "st_pre_tax st = Fin 10"
    using short_price by blast
  have cov: "\<not> flt (fadd (Fin 40) (flit (1 / 1000000000))) (Fin 10)"
  proof (rule release_passes)
    show "rnd 10 = (10::rat)" using rnd_of_int [of 10] by simp
  qed simp_all
  have "sm_server_id (ca_server ?call) = ''srv''" by (simp add: call_for_def sample_server_def)
  then have "due mem_redis floor_log10 ?call (Fin 40) v = Some (?call, st)" using rep st cov by (simp add: due_def)
  moreover have "engine_bill ?E sample_broker ?W short_call None served_store = due mem_redis floor_log10 ?call (Fin 40) v"
    by (simp only: engine_bill_def bill_def Let_def short_call_fields E W perm cache [unfolded W] served_store_facts leaf own short_hold Hold.simps
        msg_target.case option.case sum.case prod.case simp_thms if_True if_False list.case u(1) v(1) R len hid)
  ultimately have bill: "engine_bill ?E sample_broker ?W short_call None served_store = Some (?call, st)" by simp
  obtain res t where t: "engine_handle ?E ?W short_call None None served_store = (res, t)" by fastforce
  have "holds_of mem_redis t = holds_of mem_redis served_store
    \<and> balances mem_redis t = settled_balances (engine_bill ?E sample_broker ?W short_call None served_store) (balances mem_redis served_store)"
    using call_money_discipline [OF mem_engine.billed_engine_axioms E(1) _ _ _ _ short_call_fields(5) t] served_money E(2,3)
    by (simp add: R)
  moreover have "?c \<noteq> ''srv''" "?c \<noteq> BROKER_WALLET" "?c \<noteq> COMMONS_WALLET" by code_simp+
  moreover have "fsub (Fin 100) (Fin 10) = Fin 90" using mk_of_int [of 90] by simp
  ultimately have "holds_of mem_redis t ?c = []" "balances mem_redis t ?c = Fin 90" "balances mem_redis served_store ?c = Fin 100"
    using served_money st(2) unfolding bill
    by (simp_all add: payout_def call_for_def INITIAL_FUND_def) (simp_all add: sample_server_def)
  with bill st(2) t show ?thesis by blast
qed

end
