(* ===== verification/Broadcast.thy ===== *)
theory Broadcast
  imports Billing
begin

text \<open>
  The money of a broadcast (\<open>_broker_cast_get\<close> of \<open>ahp/engine/router.py\<close>): one hold per
  target, one settlement or refund per hold.
\<close>

section \<open>The holds of a broadcast\<close>

lemma target_hold_id_inj [simp]: "target_hold_id m a = target_hold_id m b \<longleftrightarrow> a = b"
  by (simp add: target_hold_id_def)

text \<open>Every entry carries the id of its target.\<close>

definition own_ids :: "Message \<Rightarrow> holds_by_target \<Rightarrow> bool" where
  "own_ids m held \<longleftrightarrow> list_all (\<lambda>(k, i, _). i = target_hold_id m k) held"

lemma own_ids_simps [simp]: "own_ids m []" "own_ids m (x # xs) \<longleftrightarrow> fst (snd x) = target_hold_id m (fst x) \<and> own_ids m xs"
  "own_ids m (xs @ ys) \<longleftrightarrow> own_ids m xs \<and> own_ids m ys"
  by (auto simp: own_ids_def split: prod.splits)

lemma own_ids_map_of: "own_ids m held \<Longrightarrow> map_of held k = Some (i, v, l) \<Longrightarrow> i = target_hold_id m k"
  by (auto simp: own_ids_def list_all_iff dest!: map_of_SomeD)

lemma own_ids_filter: "own_ids m held \<Longrightarrow> own_ids m (filter P held)"
  by (auto simp: own_ids_def list_all_iff)

text \<open>The holds left once those of some targets are gone.\<close>

definition without :: "Message \<Rightarrow> string set \<Rightarrow> (string, pyfloat) dict \<Rightarrow> (string, pyfloat) dict" where
  "without m ks d = filter (\<lambda>p. fst p \<notin> target_hold_id m ` ks) d"

lemma without_empty [simp]: "without m {} d = d"
  by (simp add: without_def)

lemma without_without [simp]: "without m ks (without m js d) = without m (js \<union> ks) d"
  by (auto simp: without_def intro: filter_cong)

lemma delete_without: "AList.delete (target_hold_id m k) d = without m {k} d"
  by (induction d) (auto simp: without_def)

lemma map_of_without: "map_of (without m ks d) (target_hold_id m k) = (if k \<in> ks then None else map_of d (target_hold_id m k))"
  by (induction d) (auto simp: without_def)

lemma without_absent: "map_of d (target_hold_id m k) = None \<Longrightarrow> without m {k} d = d"
  by (auto simp: without_def map_of_eq_None_iff image_iff intro!: filter_True)

lemma hold_loop_step:
  assumes "map_of servers (a_org a) = Some server"
    and "(case map_of chosen (sm_server_id server) of Some l \<Rightarrow> Inr l
        | None \<Rightarrow> best_leaf (sm_compute_binding server) leaves (sm_compute_ranking server) []) = Inr leaf"
    and "estimate_hold (sm_base_rate server) ''small'' (body_chars W (m_body m)) mx = Inr hold"
  shows "hold_loop B W m mx servers leaves chosen (a # targets) held deliverable s =
     sbind (try_hold B (os_now W) (to_str (m_source m)) (h_amount hold) (target_hold_id m (to_str a)) (''cast_get to '' @ to_str a)) (\<lambda>ok.
       if \<not> ok then hold_loop B W m mx servers leaves (AList.update (sm_server_id server) leaf chosen) targets held deliverable
       else hold_loop B W m mx servers leaves (AList.update (sm_server_id server) leaf chosen) targets
              (AList.update (to_str a) (target_hold_id m (to_str a), server, leaf) held) (deliverable @ [a])) s"
  using assms by (simp add: Let_def)

context broker_on
begin

lemma hold_loop_run:
  assumes "hold_loop B W m mx servers leaves chosen targets held deliverable s = (Inr (held', deliverable'), t)"
    and "readable s" and "distinct (map to_str targets)" and "own_ids m held"
    and "\<forall>a\<in>set targets. to_str a \<notin> fst ` set held \<and> map_of (held_by s (to_str (m_source m))) (target_hold_id m (to_str a)) = None"
  shows "readable t \<and> money t = money s \<and> own_ids m held' \<and> (\<exists>hs. set (map fst hs) = target_hold_id m ` (fst ` set held' - fst ` set held)
      \<and> held_by t = (held_by s)(to_str (m_source m) := held_by s (to_str (m_source m)) @ hs))
    \<and> fst ` set held \<subseteq> fst ` set held' \<and> fst ` set held' \<subseteq> fst ` set held \<union> to_str ` set targets"
  using assms
proof (induction targets arbitrary: chosen held deliverable s)
  case Nil then show ?case by auto
next
  case (Cons a targets)
  let ?c = "to_str (m_source m)" and ?i = "target_hold_id m (to_str a)"
  have dist: "distinct (map to_str targets)"
    and apart: "\<forall>a\<in>set targets. to_str a \<notin> fst ` set held \<and> map_of (held_by s ?c) (target_hold_id m (to_str a)) = None"
    using Cons.prems(3,5) by simp_all
  have more: "ks \<subseteq> js \<union> to_str ` set targets \<Longrightarrow> ks \<subseteq> js \<union> to_str ` set (a # targets)" for ks js by auto
  show ?case
  proof (cases "map_of servers (a_org a)")
    case None
    then have "hold_loop B W m mx servers leaves chosen targets held (deliverable @ [a]) s = (Inr (held', deliverable'), t)"
      using Cons.prems(1) by simp
    from Cons.IH [OF this Cons.prems(2) dist Cons.prems(4) apart] have "readable t \<and> money t = money s \<and> own_ids m held' \<and> (\<exists>hs. set (map fst hs) = target_hold_id m ` (fst ` set held' - fst ` set held)
        \<and> held_by t = (held_by s)(?c := held_by s ?c @ hs))
      \<and> fst ` set held \<subseteq> fst ` set held' \<and> fst ` set held' \<subseteq> fst ` set held \<union> to_str ` set targets" .
    then show ?thesis by (elim conjE) (intro conjI more, assumption+)
  next
    case (Some server)
    note run0 = Cons.prems(1) [unfolded hold_loop.simps Some option.case sbind_def sop_simps Let_def]
    obtain leaf where l1: "(case map_of chosen (sm_server_id server) of Some l \<Rightarrow> Inr l
        | None \<Rightarrow> best_leaf (sm_compute_binding server) leaves (sm_compute_ranking server) []) = Inr leaf"
    proof (cases "case map_of chosen (sm_server_id server) of Some l \<Rightarrow> Inr l
        | None \<Rightarrow> best_leaf (sm_compute_binding server) leaves (sm_compute_ranking server) []")
      case (Inl e) from run0 [unfolded Inl prod.case sum.case] show thesis by simp
    qed (rule that)
    note run1 = run0 [unfolded l1 prod.case sum.case]
    obtain hold where l2: "estimate_hold (sm_base_rate server) ''small'' (body_chars W (m_body m)) mx = Inr hold"
    proof (cases "estimate_hold (sm_base_rate server) ''small'' (body_chars W (m_body m)) mx")
      case (Inl e) from run1 [unfolded Inl prod.case sum.case] show thesis by simp
    qed (rule that)
    note l = l1 l2
    obtain r u where u: "try_hold B (os_now W) ?c (h_amount hold) ?i (''cast_get to '' @ to_str a) s = (r, u)" by fastforce
    let ?chosen = "AList.update (sm_server_id server) leaf chosen"
    note run = Cons.prems(1) [unfolded hold_loop_step [OF Some l] sbind_def u prod.case]
    have fresh: "map_of (held_by s ?c) ?i = None" using Cons.prems(5) by simp
    show ?thesis
    proof (rule try_hold_cases [OF Cons.prems(2) fresh u])
      fix e assume "r = Inl e" with run show ?thesis by simp
    next
      assume x: "r = Inr False" "u = s"
      then have "hold_loop B W m mx servers leaves ?chosen targets held deliverable s = (Inr (held', deliverable'), t)"
        using run by simp
      from Cons.IH [OF this Cons.prems(2) dist Cons.prems(4) apart] have "readable t \<and> money t = money s \<and> own_ids m held' \<and> (\<exists>hs. set (map fst hs) = target_hold_id m ` (fst ` set held' - fst ` set held)
        \<and> held_by t = (held_by s)(?c := held_by s ?c @ hs))
      \<and> fst ` set held \<subseteq> fst ` set held' \<and> fst ` set held' \<subseteq> fst ` set held \<union> to_str ` set targets" .
    then show ?thesis by (elim conjE) (intro conjI more, assumption+)
    next
      assume x: "r = Inr True" "readable u" "money u = money s"
        "held_by u = (held_by s)(?c := held_by s ?c @ [(?i, h_amount hold)])"
      let ?held = "held @ [(to_str a, ?i, server, leaf)]"
      have "AList.update (to_str a) (?i, server, leaf) held = ?held" using Cons.prems(5) by (simp add: update_new)
      then have run': "hold_loop B W m mx servers leaves ?chosen targets ?held (deliverable @ [a]) u = (Inr (held', deliverable'), t)"
        using run x(1) by simp
      have own: "own_ids m ?held" using Cons.prems(4) by simp
      have apart': "\<forall>b\<in>set targets. to_str b \<notin> fst ` set ?held \<and> map_of (held_by u ?c) (target_hold_id m (to_str b)) = None"
        using apart Cons.prems(3) by (auto simp: x(4) map_add_def image_iff)
      have ih: "readable t \<and> money t = money u \<and> own_ids m held' \<and> (\<exists>hs. set (map fst hs) = target_hold_id m ` (fst ` set held' - fst ` set ?held)
          \<and> held_by t = (held_by u)(?c := held_by u ?c @ hs))
        \<and> fst ` set ?held \<subseteq> fst ` set held' \<and> fst ` set held' \<subseteq> fst ` set ?held \<union> to_str ` set targets"
        by (rule Cons.IH [OF run' x(2) dist own apart'])
      then obtain hs where hs: "set (map fst hs) = target_hold_id m ` (fst ` set held' - fst ` set ?held)"
        "held_by t = (held_by u)(?c := held_by u ?c @ hs)" by (elim conjE exE) (rule that)
      have "set (map fst ((?i, h_amount hold) # hs)) = target_hold_id m ` (fst ` set held' - fst ` set held)"
        using hs(1) ih Cons.prems(5) by auto
      moreover have "held_by t = (held_by s)(?c := held_by s ?c @ (?i, h_amount hold) # hs)" by (simp add: hs(2) x(4))
      moreover have "fst ` set held \<subseteq> fst ` set held'" "fst ` set held' \<subseteq> fst ` set held \<union> to_str ` set (a # targets)"
        using ih by auto
      ultimately show ?thesis using ih x(3) by metis
    qed
  qed
qed

text \<open>Whatever the outcome, placing the holds moves no money and touches no other hold.\<close>

lemma hold_loop_frame:
  assumes "hold_loop B W m mx servers leaves chosen targets held deliverable s = (res, t)" and "readable s"
    and "distinct (map to_str targets)"
    and "\<forall>a\<in>set targets. map_of (held_by s (to_str (m_source m))) (target_hold_id m (to_str a)) = None"
  shows "readable t \<and> money t = money s \<and> (\<exists>hs. set (map fst hs) \<subseteq> target_hold_id m ` to_str ` set targets
    \<and> held_by t = (held_by s)(to_str (m_source m) := held_by s (to_str (m_source m)) @ hs))"
  using assms
proof (induction targets arbitrary: chosen held deliverable s)
  case Nil
  then show ?case by (auto intro!: exI [of _ "[]"])
next
  case (Cons a targets)
  let ?c = "to_str (m_source m)" and ?i = "target_hold_id m (to_str a)"
  have dist: "distinct (map to_str targets)"
    and apart: "\<forall>a\<in>set targets. map_of (held_by s ?c) (target_hold_id m (to_str a)) = None" using Cons.prems(3,4) by simp_all
  have none: "?case" if "t = s" using that Cons.prems(2) by (auto intro!: exI [of _ "[]"])
  have more: "?case" if "hold_loop B W m mx servers leaves ch targets hd dl s = (res, t)" for ch hd dl
  proof -
    from Cons.IH [OF that Cons.prems(2) dist apart] obtain hs where "readable t" "money t = money s"
      "set (map fst hs) \<subseteq> target_hold_id m ` to_str ` set targets" "held_by t = (held_by s)(?c := held_by s ?c @ hs)" by blast
    then show ?thesis by (intro conjI exI [of _ hs]) auto
  qed
  show ?case
  proof (cases "map_of servers (a_org a)")
    case None
    with Cons.prems(1) show ?thesis by (intro more) simp
  next
    case (Some server)
    show ?thesis
    proof (cases "\<exists>leaf hold. (case map_of chosen (sm_server_id server) of Some l \<Rightarrow> Inr l
          | None \<Rightarrow> best_leaf (sm_compute_binding server) leaves (sm_compute_ranking server) []) = Inr leaf
        \<and> estimate_hold (sm_base_rate server) ''small'' (body_chars W (m_body m)) mx = Inr hold")
      case False
      have "t = s"
      proof (cases "case map_of chosen (sm_server_id server) of Some l \<Rightarrow> Inr l
          | None \<Rightarrow> best_leaf (sm_compute_binding server) leaves (sm_compute_ranking server) []")
        case (Inl e)
        from Cons.prems(1) [unfolded hold_loop.simps Some option.case sbind_def sop_simps Inl prod.case sum.case] show ?thesis by simp
      next
        case leaf: (Inr leaf)
        with False obtain e where "estimate_hold (sm_base_rate server) ''small'' (body_chars W (m_body m)) mx = Inl e"
          by (cases "estimate_hold (sm_base_rate server) ''small'' (body_chars W (m_body m)) mx") auto
        from Cons.prems(1) [unfolded hold_loop.simps Some option.case sbind_def sop_simps leaf prod.case sum.case Let_def this] show ?thesis by simp
      qed
      then show ?thesis by (rule none)
    next
      case True
      then obtain leaf hold where l: "(case map_of chosen (sm_server_id server) of Some l \<Rightarrow> Inr l
          | None \<Rightarrow> best_leaf (sm_compute_binding server) leaves (sm_compute_ranking server) []) = Inr leaf"
        "estimate_hold (sm_base_rate server) ''small'' (body_chars W (m_body m)) mx = Inr hold" by blast
      obtain r u where u: "try_hold B (os_now W) ?c (h_amount hold) ?i (''cast_get to '' @ to_str a) s = (r, u)" by fastforce
      note run = Cons.prems(1) [unfolded hold_loop_step [OF Some l] sbind_def u prod.case]
      have "map_of (held_by s ?c) ?i = None" using Cons.prems(4) by simp
      show ?thesis
      proof (rule try_hold_cases [OF Cons.prems(2) \<open>map_of (held_by s ?c) ?i = None\<close> u])
        assume placed: "r = Inr True" "readable u" "money u = money s"
          "held_by u = (held_by s)(?c := held_by s ?c @ [(?i, h_amount hold)])"
        from run [unfolded placed(1) sum.case not_True_eq_False if_False] have
          run': "hold_loop B W m mx servers leaves (AList.update (sm_server_id server) leaf chosen) targets
            (AList.update (to_str a) (?i, server, leaf) held) (deliverable @ [a]) u = (res, t)" .
        have "\<forall>b\<in>set targets. map_of (held_by u ?c) (target_hold_id m (to_str b)) = None"
          using apart Cons.prems(3) by (auto simp: placed(4) map_add_def image_iff)
        from Cons.IH [OF run' placed(2) dist this] obtain hs where hs: "readable t" "money t = money u"
          "set (map fst hs) \<subseteq> target_hold_id m ` to_str ` set targets" "held_by t = (held_by u)(?c := held_by u ?c @ hs)" by blast
        have "held_by t = (held_by s)(?c := held_by s ?c @ (?i, h_amount hold) # hs)" by (simp add: hs(4) placed(4))
        moreover have "set (map fst ((?i, h_amount hold) # hs)) \<subseteq> target_hold_id m ` to_str ` set (a # targets)" using hs(3) by auto
        ultimately show ?thesis using hs(1,2) placed(3) by metis
      next
        assume refused: "r = Inr False" "u = s"
        from run [unfolded refused sum.case not_False_eq_True if_True] show ?thesis by (rule more)
      next
        fix e assume raised: "r = Inl e" "u = s"
        from run [unfolded raised sum.case] show ?thesis by (intro none) simp
      qed
    qed
  qed
qed

text \<open>Each settlement removes the hold of its responder.\<close>

lemma settle_loop_run:
  assumes "readable s" and "own_ids m held"
    and "\<forall>k\<in>fst ` set held - set responded. map_of (held_by s caller) (target_hold_id m k) \<noteq> None"
  shows "\<exists>responded' t. settle_loop B W caller mx held i rs responded s = (Inr responded', t) \<and> readable t
    \<and> set responded \<subseteq> set responded'
    \<and> held_by t = (held_by s)(caller := without m (fst ` set held \<inter> (set responded' - set responded)) (held_by s caller))"
  using assms
proof (induction rs arbitrary: i responded s)
  case Nil then show ?case by auto
next
  case (Cons r rs)
  let ?k = "to_str (m_source r)"
  show ?case
  proof (cases "?k \<in> set responded")
    case True
    with Cons.IH [OF Cons.prems] show ?thesis by (simp add: Let_def)
  next
    case new: False
    show ?thesis
    proof (cases "map_of held ?k")
      case None
      then have "?k \<notin> fst ` set held" by (simp add: map_of_eq_None_iff)
      then have e: "fst ` set held \<inter> (ks - set (?k # responded)) = fst ` set held \<inter> (ks - set responded)" for ks
        by (simp only: list.set) blast
      obtain responded' t where t: "settle_loop B W caller mx held (Suc i) rs (?k # responded) s = (Inr responded', t)" "readable t"
        "set (?k # responded) \<subseteq> set responded'"
        "held_by t = (held_by s)(caller := without m (fst ` set held \<inter> (set responded' - set (?k # responded))) (held_by s caller))"
        using Cons.IH [OF Cons.prems(1,2), of "?k # responded" "Suc i"] Cons.prems(3) by (meson Diff_iff list.set_intros(2))
      have "settle_loop B W caller mx held i (r # rs) responded s = (Inr responded', t)" using new None t(1) by (simp add: Let_def)
      with t(2-4) show ?thesis unfolding e by auto
    next
      case (Some x)
      obtain j server leaf where x: "x = (j, server, leaf)" by (cases x)
      have j: "j = target_hold_id m ?k" using own_ids_map_of [OF Cons.prems(2)] Some x by simp
      have k: "?k \<in> fst ` set held" using Some by (metis map_of_eq_None_iff option.distinct(1))
      then obtain h where h: "map_of (held_by s caller) j = Some h" using Cons.prems(3) new j by auto
      let ?c = "call_for caller j server leaf (body_chars W (m_body r)) mx (os_latency_ms W i) (m_source r)"
      have c: "ca_caller ?c = caller" "ca_hold_id ?c = j" by (simp_all add: call_for_def)
      obtain u where u: "settle_or_refund B W ?c s = (Inr (), u)" "readable u"
        "held_by u = (held_by s)(caller := AList.delete j (held_by s caller))"
        by (rule settle_or_refund_cases [OF Cons.prems(1), of ?c, unfolded c, OF h, where W = W])
      have "\<forall>k'\<in>fst ` set held - set (?k # responded). map_of (held_by u caller) (target_hold_id m k') \<noteq> None"
        using Cons.prems(3) by (auto simp: u(3) j delete_without map_of_without)
      from Cons.IH [OF u(2) Cons.prems(2) this, of "Suc i"] obtain responded' t where
        t: "settle_loop B W caller mx held (Suc i) rs (?k # responded) u = (Inr responded', t)" "readable t"
        "set (?k # responded) \<subseteq> set responded'"
        "held_by t = (held_by u)(caller := without m (fst ` set held \<inter> (set responded' - set (?k # responded))) (held_by u caller))" by blast
      have "{?k} \<union> fst ` set held \<inter> (set responded' - set (?k # responded)) = fst ` set held \<inter> (set responded' - set responded)"
        using k new t(3) by auto
      then have "held_by t = (held_by s)(caller := without m (fst ` set held \<inter> (set responded' - set responded)) (held_by s caller))"
        by (simp add: t(4) u(3) j delete_without)
      moreover have "settle_loop B W caller mx held i (r # rs) responded s = (Inr responded', t)"
        using new Some x u(1) t(1) by (simp add: Let_def sbind_run)
      ultimately show ?thesis using t(2,3) by auto
    qed
  qed
qed

lemma refund_holds_run:
  assumes "readable s" "own_ids m held"
  shows "\<exists>t. refund_holds B W caller reason held s = (Inr (), t) \<and> readable t
    \<and> held_by t = (held_by s)(caller := without m (fst ` set held) (held_by s caller))"
  using assms
proof (induction held arbitrary: s)
  case (Cons x held)
  obtain k v where x: "x = (k, target_hold_id m k, v)" using Cons.prems(2) by (cases x) auto
  have "\<exists>u. scatch (bk_refund B (os_now W) caller (target_hold_id m k) reason) (\<lambda>_. sret ()) s = (Inr (), u) \<and> readable u
      \<and> held_by u = (held_by s)(caller := without m {k} (held_by s caller))"
  proof (cases "map_of (held_by s caller) (target_hold_id m k)")
    case None
    from refund_absent [OF Cons.prems(1) None] without_absent [OF None] Cons.prems(1) show ?thesis by (simp add: scatch_def)
  next
    case (Some h)
    obtain u where u: "bk_refund B (os_now W) caller (target_hold_id m k) reason s = (Inr (), u)" "readable u"
      "held_by u = (held_by s)(caller := AList.delete (target_hold_id m k) (held_by s caller))"
      by (rule refund_held [OF Cons.prems(1) Some])
    then show ?thesis by (simp add: scatch_def delete_without)
  qed
  then obtain u where u: "scatch (bk_refund B (os_now W) caller (target_hold_id m k) reason) (\<lambda>_. sret ()) s = (Inr (), u)"
    "readable u" "held_by u = (held_by s)(caller := without m {k} (held_by s caller))" by blast
  obtain t where t: "refund_holds B W caller reason held u = (Inr (), t)" "readable t"
    "held_by t = (held_by u)(caller := without m (fst ` set held) (held_by u caller))"
    using Cons.IH [OF u(2)] Cons.prems(2) unfolding x own_ids_simps by blast
  have "held_by t = (held_by s)(caller := without m (fst ` set (x # held)) (held_by s caller))"
    by (simp add: t(3) u(3) x)
  moreover have "refund_holds B W caller reason (x # held) s = (Inr (), t)"
    using u(1) t(1) by (cases v) (simp add: x sbind_run)
  ultimately show ?case using t(2) by blast
qed simp

text \<open>Every target with a hold is delivered to.\<close>

lemma hold_loop_deliverable:
  assumes "hold_loop B W m mx servers leaves chosen targets held deliverable s = (Inr (held', deliverable'), t)"
    and "fst ` set held \<subseteq> to_str ` set deliverable"
  shows "fst ` set held' \<subseteq> to_str ` set deliverable'"
  using assms
proof (induction targets arbitrary: chosen held deliverable s)
  case (Cons a targets)
  have keys: "fst ` set (AList.update k x held) = insert k (fst ` set held)" for k and x :: "string \<times> ServerMeta \<times> MenuLeaf option"
    by (induction held) auto
  show ?case
  proof (cases "map_of servers (a_org a)")
    case None
    then have "hold_loop B W m mx servers leaves chosen targets held (deliverable @ [a]) s = (Inr (held', deliverable'), t)"
      using Cons.prems(1) by simp
    then show ?thesis by (rule Cons.IH) (use Cons.prems(2) in auto)
  next
    case (Some server)
    from Cons.prems(1) [unfolded hold_loop.simps Some option.case Let_def] show ?thesis
    proof (elim sbind_InrE, goal_cases)
      case (1 leaf u1 hold u2 ok u)
      show ?thesis
      proof (cases ok)
        case True
        with 1(4) have "hold_loop B W m mx servers leaves (AList.update (sm_server_id server) leaf chosen) targets
            (AList.update (to_str a) (target_hold_id m (to_str a), server, leaf) held) (deliverable @ [a]) u = (Inr (held', deliverable'), t)"
          by (simp only: not_True_eq_False if_False)
        then show ?thesis by (rule Cons.IH) (use Cons.prems(2) in \<open>auto simp: keys\<close>)
      next
        case False
        with 1(4) have "hold_loop B W m mx servers leaves (AList.update (sm_server_id server) leaf chosen) targets held deliverable u
            = (Inr (held', deliverable'), t)" by (simp only: not_False_eq_True if_True)
        then show ?thesis by (rule Cons.IH [OF _ Cons.prems(2)])
      qed
    qed
  qed
qed simp

end

lemma without_undo:
  assumes "set (map fst hs) \<subseteq> target_hold_id m ` ks" "\<forall>k\<in>ks. map_of d (target_hold_id m k) = None"
  shows "without m ks (d @ hs) = d"
proof -
  have "\<forall>p\<in>set d. fst p \<notin> target_hold_id m ` ks" using assms(2) by (force simp: map_of_eq_None_iff)
  moreover have "\<forall>p\<in>set hs. fst p \<in> target_hold_id m ` ks" using assms(1) by auto
  ultimately show ?thesis by (simp add: without_def filter_id_conv filter_empty_conv)
qed

section \<open>The whole broadcast\<close>

text \<open>The first part of \<open>_broker_cast_get\<close>, up to the dispatch.\<close>

definition place_holds :: "'s Broker \<Rightarrow> 's outside \<Rightarrow> Message \<Rightarrow> AgentAddress list \<Rightarrow> ('s, holds_by_target \<times> AgentAddress list) op" where
  "place_holds B W m targets =
     sbind (slift (max_response_of (m_body m))) (\<lambda>max_resp.
     sbind (sreadr (server_discover (bk_servers B) (os_now W) None None None None True)) (\<lambda>owning_servers.
     sbind (list_leaves (bk_compute B) True) (\<lambda>leaves.
       hold_loop B W m max_resp (dict_of (map (\<lambda>v. (sm_org v, v)) owning_servers)) leaves [] targets [] [])))"

context billed_engine
begin

text \<open>Settling the responders and refunding the rest removes exactly the holds of the broadcast.\<close>

lemma billed_end:
  assumes ok: "readable s" and own: "own_ids m held" and d: "held_by s caller = d @ hs"
    and hs: "set (map fst hs) = target_hold_id m ` (fst ` set held)" and fresh: "\<forall>k\<in>fst ` set held. map_of d (target_hold_id m k) = None"
    and settle: "settle_loop B W caller mx held 0 responses [] s = (Inr responded, u)"
    and refund: "refund_holds B W caller reason (filter (\<lambda>p. fst p \<notin> set responded) held) u = (r, t)"
  shows "readable t \<and> held_by t = (held_by s)(caller := d)"
proof -
  have "map_of (held_by s caller) (target_hold_id m k) \<noteq> None" if "k \<in> fst ` set held" for k
  proof -
    have "target_hold_id m k \<in> set (map fst hs)" using hs that by blast
    then show ?thesis by (auto simp: d map_of_eq_None_iff map_add_None)
  qed
  then have "\<forall>k\<in>fst ` set held - set []. map_of (held_by s caller) (target_hold_id m k) \<noteq> None" by blast
  from settle_loop_run [OF ok own this, where W = W and mx = mx and i = 0 and rs = responses] settle
  have u: "readable u" "held_by u = (held_by s)(caller := without m (fst ` set held \<inter> set responded) (held_by s caller))" by auto
  let ?rest = "filter (\<lambda>p. fst p \<notin> set responded) held"
  from refund_holds_run [OF u(1) own_ids_filter [OF own, of "\<lambda>p. fst p \<notin> set responded"], where W = W and caller = caller and reason = reason] refund
  have t: "readable t" "held_by t = (held_by u)(caller := without m (fst ` set ?rest) (held_by u caller))" by fastforce+
  have "fst ` set held \<inter> set responded \<union> fst ` set ?rest = fst ` set held" by auto
  then have "held_by t = (held_by s)(caller := without m (fst ` set held) (d @ hs))" by (simp add: t(2) u(2) d)
  then show ?thesis using t(1) without_undo [of hs m "fst ` set held" d] hs fresh by simp
qed

lemma place_holds_run:
  assumes ok: "readable s" and dist: "distinct (map to_str targets)"
    and fresh: "\<forall>a\<in>set targets. map_of (held_by s (to_str (m_source m))) (target_hold_id m (to_str a)) = None"
    and run: "place_holds B W m targets s = (res, t)"
  shows "readable t \<and> money t = money s \<and> (\<exists>hs. set (map fst hs) \<subseteq> target_hold_id m ` to_str ` set targets
    \<and> held_by t = (held_by s)(to_str (m_source m) := held_by s (to_str (m_source m)) @ hs))"
proof -
  obtain r1 s1 where l: "list_leaves (bk_compute B) True s = (r1, s1)" by fastforce
  have "strs (abs s1) = strs (abs s)"
    using list_leaves_strs [of "bk_compute B" True "r_smembers (cr_redis (bk_compute B)) MENU_LEAF_INDEX s" "[]" s] l
    by (simp add: list_leaves_def bk_compute_def)
  note f = same_money_facts [OF same_money_strs [OF this]]
  consider "t = s" | "t = s1" | mx servers leaves where
    "hold_loop B W m mx (dict_of (map (\<lambda>v. (sm_org v, v)) servers)) leaves [] targets [] [] s1 = (res, t)"
    using run l by (auto simp: place_holds_def sbind_def split: sum.splits)
  then show ?thesis
  proof cases
    case 3
    from hold_loop_frame [OF this _ dist] fresh ok f show ?thesis by simp
  qed (use ok f in \<open>auto intro!: exI [of _ "[]"]\<close>)
qed

lemma billed_broadcast:
  assumes ok: "readable s" and dist: "distinct (map to_str targets)"
    and fresh: "\<forall>a\<in>set targets. map_of (held_by s (to_str (m_source m))) (target_hold_id m (to_str a)) = None"
    and run: "broker_cast_get E B W m targets timeout n s = (res, t)"
    and placed: "place_holds B W m targets s = (Inr (held, deliverable), s2)"
  shows "readable t \<and> held_by t = held_by s"
proof -
  let ?c = "to_str (m_source m)"
  have quiet: "\<forall>ch v. same_money (abs (snd (pe_inbox (os_peers W) ch v))) (abs v)" using peers by blast
  from placed [unfolded place_holds_def] show ?thesis
  proof (elim sbind_InrE, goal_cases)
    case (1 mx u0 servers u1 leaves s1)
    have u: "u0 = s" "u1 = s" using 1(1,2) by simp_all
    have q: "max_response_of (m_body m) = Inr mx"
      "server_discover (bk_servers B) (os_now W) None None None None True s = Inr servers" using 1(1,2) unfolding u by simp_all
    have "strs (abs s1) = strs (abs s)"
      using list_leaves_strs [of "bk_compute B" True "r_smembers (cr_redis (bk_compute B)) MENU_LEAF_INDEX s" "[]" s] 1(3)
      by (simp add: u list_leaves_def bk_compute_def)
    note f1 = same_money_facts [OF same_money_strs [OF this]]
    have fresh1: "\<forall>a\<in>set targets. to_str a \<notin> fst ` set ([] :: holds_by_target) \<and> map_of (held_by s1 ?c) (target_hold_id m (to_str a)) = None"
      using fresh by (simp add: f1)
    note loop = 1(4)
    note run1 = hold_loop_run [OF loop f1(3) [THEN iffD2, OF ok] dist own_ids_simps(1) fresh1]
    have deliv: "fst ` set held \<subseteq> to_str ` set deliverable" by (rule hold_loop_deliverable [OF loop]) simp
    note rest = run [unfolded broker_cast_get_def Let_def store sbind_def sop_simps q 1(3) [unfolded u] loop prod.case sum.case]
    obtain hs where hs: "set (map fst hs) = target_hold_id m ` (fst ` set held - fst ` set ([] :: holds_by_target))"
      "held_by s2 = (held_by s1)(?c := held_by s1 ?c @ hs)" using run1 by (elim conjE exE) (rule that)
    have "fst ` set held \<subseteq> to_str ` set targets" using run1 by simp
    then have new: "\<forall>k\<in>fst ` set held. map_of (held_by s ?c) (target_hold_id m k) = None" using fresh by auto
    show ?thesis
    proof (cases "deliverable = []")
      case True
      then have "held = []" using deliv by auto
      with True rest run1 f1 show ?thesis by auto
    next
      case False
      obtain r3 s3 where w: "bus_cast_get (os_nid W) (bk_redis B) (os_peers W) m deliverable timeout n s2 = (r3, s3)" by fastforce
      note f3 = same_money_facts [OF cast_get_money [OF w quiet]]
      have held: "held_by s3 ?c = held_by s ?c @ hs" "readable s3" "own_ids m held" using hs(2) f1 f3 run1 by simp_all
      have ids: "set (map fst hs) = target_hold_id m ` (fst ` set held)" using hs(1) by simp
      note rest' = rest [unfolded if_not_P [OF False] scatch_def sbind_def w prod.case]
      show ?thesis
      proof (cases r3)
        case (Inl e)
        obtain v where v: "refund_holds B W ?c ''cast_get dispatch raised'' held s3 = (Inr (), v)" "readable v"
          "held_by v = (held_by s3)(?c := without m (fst ` set held) (held_by s3 ?c))"
          using refund_holds_run [OF held(2,3)] by blast
        have "t = v" using rest' by (simp add: Inl v(1))
        then show ?thesis using v(2,3) hs(2) f1 f3 without_undo [of hs m "fst ` set held" "held_by s ?c"] ids new
          by (simp add: held(1))
      next
        case (Inr responses)
        have "\<forall>k\<in>fst ` set held - set []. map_of (held_by s3 ?c) (target_hold_id m k) \<noteq> None"
        proof
          fix k assume "k \<in> fst ` set held - set []"
          then have "target_hold_id m k \<in> set (map fst hs)" using ids by blast
          then show "map_of (held_by s3 ?c) (target_hold_id m k) \<noteq> None" by (auto simp: held(1) map_of_eq_None_iff map_add_None)
        qed
        from settle_loop_run [OF held(2,3) this, where W = W and mx = mx and i = 0 and rs = responses]
        obtain responded u where st: "settle_loop B W ?c mx held 0 responses [] s3 = (Inr responded, u)" "readable u" by blast
        obtain v where v: "refund_holds B W ?c ''no response (cast_get timeout or target silent)'' (filter (\<lambda>p. fst p \<notin> set responded) held) u = (Inr (), v)"
          using refund_holds_run [OF st(2) own_ids_filter [OF held(3)]] by blast
        have "readable v \<and> held_by v = (held_by s3)(?c := held_by s ?c)" by (rule billed_end [OF held(2,3,1) ids new st(1) v])
        moreover have "t = v" using rest' by (simp add: Inr st(1) v)
        ultimately show ?thesis using hs(2) f1 f3 by simp
      qed
    qed
  qed
qed

lemma broadcast_stopped:
  assumes "place_holds B W m targets s = (Inl e, u)" and "broker_cast_get E B W m targets timeout n s = (res, t)"
  shows "res = Inl e \<and> t = u"
  using assms by (auto simp: place_holds_def broker_cast_get_def Let_def sbind_def split: sum.splits prod.splits)

end

section \<open>Properties\<close>

text \<open>C10: The holds of a broadcast, whatever its outcome. When a billed CAST-GET to distinct targets gets past placing its
  holds, then however it ends (replies, silence, a target that replies more than once or without having been asked,
  settlements that fail, or a dispatch that raises) every hold it placed has been settled or refunded: the holds of
  every wallet are those from before. When placing the holds itself raises, the broadcast raises the same exception at
  that point, with no balance moved: the holds placed for the earlier targets, and no others, are left behind (the code
  has no refund there).\<close>

theorem broadcast_leaves_no_hold:
  assumes "billed_engine E W B view" and "wallets_readable (bk_redis B) s" and "distinct (map to_str targets)"
    and "\<forall>a\<in>set targets. map_of (holds_of (bk_redis B) s (to_str (m_source m))) (target_hold_id m (to_str a)) = None"
    and "broker_cast_get E B W m targets timeout n s = (res, t)"
  shows "wallets_readable (bk_redis B) t \<and>
    (case place_holds B W m targets s of
       (Inr _, _) \<Rightarrow> holds_of (bk_redis B) t = holds_of (bk_redis B) s
     | (Inl e, u) \<Rightarrow> res = Inl e \<and> t = u \<and> balances (bk_redis B) t = balances (bk_redis B) s
         \<and> (\<exists>hs. set (map fst hs) \<subseteq> target_hold_id m ` to_str ` set targets
              \<and> holds_of (bk_redis B) t = (holds_of (bk_redis B) s)(to_str (m_source m) := holds_of (bk_redis B) s (to_str (m_source m)) @ hs)))"
proof -
  obtain r u where p: "place_holds B W m targets s = (r, u)" by fastforce
  note run = billed_engine.place_holds_run [OF assms(1-4) p]
  show ?thesis
  proof (cases r)
    case (Inl e)
    with p run billed_engine.broadcast_stopped [OF assms(1) _ assms(5), of e u] show ?thesis by simp
  next
    case (Inr x)
    with p billed_engine.billed_broadcast [OF assms(1-5), of "fst x" "snd x" u] show ?thesis by simp
  qed
qed

text \<open>A broadcast to an agent of a registered server and to one without: a hold of 40 is placed, and none is left.\<close>

theorem broadcast_leaves_no_hold_witness:
  "\<exists>held deliverable u res t.
     place_holds sample_broker (sample_outside (answering mem_redis sample_reply)) short_call
       [sample_address ''i2'', (sample_address ''i3'')\<lparr>a_org := ''other''\<rparr>] served_store = (Inr (held, deliverable), u)
     \<and> holds_of mem_redis u (to_str (sample_address ''i1'')) = [(target_hold_id short_call (to_str (sample_address ''i2'')), Fin 40)]
     \<and> broker_cast_get (sample_engine None (Some sample_broker)) sample_broker (sample_outside (answering mem_redis sample_reply)) short_call
       [sample_address ''i2'', (sample_address ''i3'')\<lparr>a_org := ''other''\<rparr>] (Fin 5) None served_store = (res, t)
     \<and> (\<forall>owner. holds_of mem_redis t owner = [])"
proof -
  let ?W = "sample_outside (answering mem_redis sample_reply)" and ?E = "sample_engine None (Some sample_broker)"
  let ?o = "(sample_address ''i3'')\<lparr>a_org := ''other''\<rparr>" and ?a = "sample_address ''i2''" and ?c = "to_str (sample_address ''i1'')"
  have R: "bk_redis sample_broker = mem_redis" by (simp add: sample_broker_def)
  have W: "os_now ?W = Fin 0" by (simp add: sample_outside_def)
  obtain u where u: "try_hold sample_broker (Fin 0) ?c (Fin 40) (target_hold_id short_call (to_str ?a)) (''cast_get to '' @ to_str ?a) served_store = (Inr True, u)"
    "holds_of mem_redis u = (holds_of mem_redis served_store)(?c := [(target_hold_id short_call (to_str ?a), Fin 40)])" by (rule served_hold)
  have leaf: "(case map_of [] (sm_server_id sample_server) of Some l \<Rightarrow> Inr l
      | None \<Rightarrow> best_leaf (sm_compute_binding sample_server) [] (sm_compute_ranking sample_server) []) = Inr None"
    by (simp add: best_leaf_def matching_leaves_def sample_server_def rank_leaves_def)
  have servers: "dict_of (map (\<lambda>v. (sm_org v, v)) [sample_server]) = [(''acme'', sample_server)]"
    by (simp add: dict_of_def sample_server_def)
  have own: "map_of [(''acme'', sample_server)] (a_org ?a) = Some sample_server" "map_of [(''acme'', sample_server)] (a_org ?o) = None"
    by (simp_all add: sample_address_def)
  note step = hold_loop_step [OF own(1) leaf, where W = ?W and m = short_call and mx = 20, unfolded short_call_fields, OF short_hold]
  have p: "place_holds sample_broker ?W short_call [?a, ?o] served_store = (Inr ([(to_str ?a, target_hold_id short_call (to_str ?a), sample_server, None)], [?a, ?o]), u)"
    unfolding place_holds_def sbind_def sop_simps short_call_fields W served_store_facts(1,2) servers prod.case sum.case step u(1) Hold.simps
    using own(2) by simp
  obtain res t where t: "broker_cast_get ?E sample_broker ?W short_call [?a, ?o] (Fin 5) None served_store = (res, t)" by fastforce
  have dist: "distinct (map to_str [?a, ?o])" by code_simp
  have "\<forall>owner. holds_of mem_redis t owner = []"
    using broadcast_leaves_no_hold [OF mem_engine.billed_engine_axioms _ dist _ t] served_money p by (simp add: R)
  with p u(2) t show ?thesis by (simp add: served_money)
qed

end
