(* ===== verification/Recipe.thy ===== *)
theory Recipe
  imports Capability Resources
begin

text \<open>
  \<open>ahp/llm/recipe.py\<close> and \<open>openrouter.py\<close>: the model and the adapters among an agent's resources,
  the endpoint they are served at, and the chat model composed of them. The environment is a
  function, the texts of floats and of other values are arguments, and so is the constructor of
  the chat client; log lines are left out.
\<close>

section \<open>Handles\<close>

record ModelHandle =
  mo_name :: string
  mo_repo_id :: "string option"
  mo_revision :: "string option"
  mo_quantization :: "string option"
  mo_torch_dtype :: "string option"
  mo_device_map :: "string option"
  mo_extra :: "(string, pyval) dict"

record LoRAHandle =
  lo_name :: string
  lo_repo_id :: "string option"
  lo_revision :: "string option"
  lo_adapter_name :: "string option"
  lo_weight :: pyfloat
  lo_extra :: "(string, pyval) dict"

text \<open>The instance of a resource: one of the handles or anything else.\<close>

datatype 'o recipe_instance = Model ModelHandle | LoRA LoRAHandle | Other 'o

type_synonym ('f, 'o) recipe_profile = "('f, 'o recipe_instance) AgentProfile"

fun as_model :: "'o recipe_instance option \<Rightarrow> ModelHandle option" where
  "as_model (Some (Model h)) = Some h" | "as_model _ = None"

fun as_lora :: "'o recipe_instance option \<Rightarrow> LoRAHandle option" where
  "as_lora (Some (LoRA h)) = Some h" | "as_lora _ = None"

section \<open>Finders\<close>

definition profile_instances :: "('f, 'o) recipe_profile \<Rightarrow> 'o recipe_instance option list" where
  "profile_instances p = map snd (ap_resources p)"

definition find_model :: "('f, 'o) recipe_profile \<Rightarrow> ModelHandle option" where
  "find_model p = (case List.map_filter as_model (profile_instances p) of [] \<Rightarrow> None | h # _ \<Rightarrow> Some h)"

definition find_loras :: "('f, 'o) recipe_profile \<Rightarrow> LoRAHandle list" where
  "find_loras p = sort_key lo_name (List.map_filter as_lora (profile_instances p))"

definition repo_suffix :: "string option \<Rightarrow> string" where
  "repo_suffix r = (if or_default r [] = [] then [] else '' ('' @ or_default r [] @ '')'')"

definition recipe_summary :: "(pyfloat \<Rightarrow> string) \<Rightarrow> ('f, 'o) recipe_profile \<Rightarrow> string \<Rightarrow> string" where
  "recipe_summary float_text p header =
     (let base = find_model p; loras = find_loras p in
      if base = None \<and> loras = [] then []
      else join newline ([header]
        @ (case base of None \<Rightarrow> [] | Some b \<Rightarrow> [''  base: '' @ mo_name b @ repo_suffix (mo_repo_id b)])
        @ (if loras = [] then []
           else ''  loras (composed in this order):''
             # map (\<lambda>h. ''    - '' @ lo_name h @ repo_suffix (lo_repo_id h) @ '' weight='' @ float_text (lo_weight h)) loras)))"

definition all_recipe_handles :: "('f, 'o) recipe_profile \<Rightarrow> 'o recipe_instance list" where
  "all_recipe_handles p = (case find_model p of None \<Rightarrow> [] | Some b \<Rightarrow> [Model b]) @ map LoRA (find_loras p)"

section \<open>The chat client\<close>

text \<open>\<open>functools.lru_cache(maxsize)\<close>: the most recently used entry is kept last; a call that raises is not kept.\<close>

definition lru_call :: "nat \<Rightarrow> ('k \<Rightarrow> ('s, 'v) op) \<Rightarrow> 'k \<Rightarrow> (('k, 'v) dict \<times> 's, 'v) op" where
  "lru_call maxsize f k = (\<lambda>(cache, s).
     case map_of cache k of
       Some v \<Rightarrow> (Inr v, (AList.delete k cache @ [(k, v)], s))
     | None \<Rightarrow>
         (case f k s of
            (Inl e, t) \<Rightarrow> (Inl e, (cache, t))
          | (Inr v, t) \<Rightarrow> (Inr v, ((if length cache < maxsize then cache else tl cache) @ [(k, v)], t))))"

type_synonym environ = "string \<Rightarrow> string option"

definition OPENROUTER_DEFAULT_MODEL_ID :: string where
  "OPENROUTER_DEFAULT_MODEL_ID = ''anthropic/claude-3.5-sonnet''"

definition OPENROUTER_DEFAULT_BASE_URL :: string where
  "OPENROUTER_DEFAULT_BASE_URL = ''https://openrouter.ai/api/v1''"

definition default_openrouter_model_id :: "environ \<Rightarrow> string" where
  "default_openrouter_model_id env = (case env ''OPENROUTER_MODEL'' of None \<Rightarrow> OPENROUTER_DEFAULT_MODEL_ID | Some v \<Rightarrow> v)"

definition default_base_url :: "environ \<Rightarrow> string" where
  "default_base_url env = (case env ''OPENROUTER_BASE_URL'' of None \<Rightarrow> OPENROUTER_DEFAULT_BASE_URL | Some v \<Rightarrow> v)"

definition has_openrouter_credentials :: "environ \<Rightarrow> bool" where
  "has_openrouter_credentials env \<longleftrightarrow> or_default (env ''OPENROUTER_API_KEY'') [] \<noteq> []"

record chat_call =
  cc_model :: "string option"
  cc_base_url :: "string option"
  cc_temperature :: pyfloat
  cc_max_tokens :: int

record chat_client =
  cl_model :: string
  cl_base_url :: string
  cl_api_key :: string
  cl_temperature :: pyfloat
  cl_max_tokens :: int

text \<open>\<open>client\<close> is the constructor \<open>ChatOpenAI\<close>; \<open>env\<close> is read when the call runs.\<close>

definition openrouter_chat_model :: "('s \<Rightarrow> environ) \<Rightarrow> (chat_client \<Rightarrow> ('s, 'c) op) \<Rightarrow> chat_call \<Rightarrow> ('s, 'c) op" where
  "openrouter_chat_model env client call =
     sbind (sread env) (\<lambda>E.
     let api_key = or_default (E ''OPENROUTER_API_KEY'') [] in
     if api_key = [] then sraise RuntimeError
     else client \<lparr>cl_model = or_default (cc_model call) (default_openrouter_model_id E),
       cl_base_url = or_default (cc_base_url call) (default_base_url E),
       cl_api_key = api_key, cl_temperature = cc_temperature call, cl_max_tokens = cc_max_tokens call\<rparr>)"

definition cached_chat_model :: "('s \<Rightarrow> environ) \<Rightarrow> (chat_client \<Rightarrow> ('s, 'c) op) \<Rightarrow> chat_call \<Rightarrow> ((chat_call, 'c) dict \<times> 's, 'c) op" where
  "cached_chat_model env client = lru_call 16 (openrouter_chat_model env client)"

section \<open>Composition\<close>

definition resolve_endpoint :: "(pyval \<Rightarrow> string) \<Rightarrow> environ \<Rightarrow> ModelHandle \<Rightarrow> string option" where
  "resolve_endpoint to_text env h =
     (let extra = mo_extra h;
          str = (\<lambda>v. case v of PStr t \<Rightarrow> t | _ \<Rightarrow> to_text v);
          endpoint = dict_get extra ''endpoint'' PNone;
          env_name = dict_get extra ''endpoint_env'' PNone
      in if truthy endpoint then Some (str endpoint)
         else if truthy env_name then (case env (str env_name) of None \<Rightarrow> None | Some v \<Rightarrow> if v \<noteq> [] then Some v else None)
         else None)"

text \<open>\<open>max(loras, key=weight)\<close>: a later handle wins only with a strictly greater weight.\<close>

fun heaviest :: "LoRAHandle \<Rightarrow> LoRAHandle list \<Rightarrow> LoRAHandle" where
  "heaviest best [] = best"
| "heaviest best (h # hs) = heaviest (if flt (lo_weight best) (lo_weight h) then h else best) hs"

definition primary_lora :: "LoRAHandle list \<Rightarrow> LoRAHandle option" where
  "primary_lora loras = (case loras of [] \<Rightarrow> None | h # hs \<Rightarrow> Some (heaviest h hs))"

definition compose_recipe :: "(pyval \<Rightarrow> string) \<Rightarrow> environ \<Rightarrow> (chat_call \<Rightarrow> ('s, 'c) op) \<Rightarrow> pyfloat \<Rightarrow> int \<Rightarrow> ('f, 'o) recipe_profile \<Rightarrow>
    ('s, 'c option) op" where
  "compose_recipe to_text env chat_factory temperature max_tokens p =
     (case find_model p of
        None \<Rightarrow> sret None
      | Some base \<Rightarrow>
          (case resolve_endpoint to_text env base of
             None \<Rightarrow> sraise RecipeError
           | Some endpoint \<Rightarrow>
               let model_id = (case primary_lora (find_loras p) of Some h \<Rightarrow> lo_name h | None \<Rightarrow> mo_name base)
               in sbind (chat_factory \<lparr>cc_model = Some model_id, cc_base_url = Some endpoint,
                    cc_temperature = temperature, cc_max_tokens = max_tokens\<rparr>) (\<lambda>c. sret (Some c))))"

definition text_or_none :: "string option \<Rightarrow> pyval" where
  "text_or_none x = (case x of None \<Rightarrow> PNone | Some t \<Rightarrow> PStr t)"

definition describe_recipe :: "(pyval \<Rightarrow> string) \<Rightarrow> environ \<Rightarrow> ('f, 'o) recipe_profile \<Rightarrow> (string, pyval) dict" where
  "describe_recipe to_text env p =
     (let base = find_model p; loras = find_loras p;
          primary = map_option lo_name (primary_lora loras)
      in if base = None \<and> loras = [] then [(''base'', PNone), (''loras'', PList []), (''endpoint'', PNone)]
         else [(''base'', case base of None \<Rightarrow> PNone | Some b \<Rightarrow> PDict [(''name'', PStr (mo_name b)),
                  (''repo_id'', text_or_none (mo_repo_id b)), (''revision'', text_or_none (mo_revision b))]),
           (''loras'', PList (map (\<lambda>h. PDict [(''name'', PStr (lo_name h)), (''weight'', PFloat (lo_weight h)),
                  (''repo_id'', text_or_none (lo_repo_id h))]) loras)),
           (''endpoint'', case base of None \<Rightarrow> PNone | Some b \<Rightarrow> text_or_none (resolve_endpoint to_text env b)),
           (''primary_lora'', text_or_none primary),
           (''model_id_for_request'', if or_default primary [] \<noteq> [] then text_or_none primary
              else text_or_none (map_option mo_name base))])"

section \<open>Which adapter serves a request\<close>

definition lora_before :: "LoRAHandle \<Rightarrow> LoRAHandle \<Rightarrow> bool" where
  "lora_before g h \<longleftrightarrow> lo_weight h < lo_weight g \<or> lo_weight h = lo_weight g \<and> lo_name g \<le> lo_name h"

lemma lora_before_refl [simp]: "lora_before h h" by (simp add: lora_before_def)

lemma lora_before_trans: "lora_before f g \<Longrightarrow> lora_before g h \<Longrightarrow> lora_before f h"
  by (auto simp: lora_before_def)

lemma heaviest_first:
  assumes "sorted (map lo_name (best # hs))" and "\<forall>h\<in>set (best # hs). lo_weight h \<noteq> NaN"
  shows "heaviest best hs \<in> set (best # hs) \<and> (\<forall>h\<in>set (best # hs). lora_before (heaviest best hs) h)"
  using assms
proof (induction hs arbitrary: best)
  case (Cons h hs)
  let ?b = "if flt (lo_weight best) (lo_weight h) then h else best"
  have "sorted (map lo_name (?b # hs))" "\<forall>x\<in>set (?b # hs). lo_weight x \<noteq> NaN" using Cons.prems by auto
  then have IH: "heaviest ?b hs \<in> set (?b # hs)" "\<forall>x\<in>set (?b # hs). lora_before (heaviest ?b hs) x"
    using Cons.IH [of ?b] by blast+
  have "lo_weight best \<noteq> NaN" "lo_weight h \<noteq> NaN" "lo_name best \<le> lo_name h" using Cons.prems by auto
  then have "lora_before ?b best" "lora_before ?b h" by (auto simp: lora_before_def simp flip: less_iff_flt)
  then have "lora_before (heaviest ?b hs) best" "lora_before (heaviest ?b hs) h"
    using IH(2) lora_before_trans by (meson list.set_intros(1))+
  with IH show ?case by (auto split: if_splits)
qed simp

definition served_lora :: "('f, 'o) recipe_profile \<Rightarrow> LoRAHandle \<Rightarrow> bool" where
  "served_lora p h \<longleftrightarrow> Some (LoRA h) \<in> set (profile_instances p)
     \<and> (\<forall>g. Some (LoRA g) \<in> set (profile_instances p) \<longrightarrow> lora_before h g)"

lemma as_lora_Some: "as_lora x = Some h \<longleftrightarrow> x = Some (LoRA h)"
  by (cases x rule: as_lora.cases) auto

lemma set_loras: "h \<in> set (find_loras p) \<longleftrightarrow> Some (LoRA h) \<in> set (profile_instances p)"
proof -
  have "h \<in> set (find_loras p) \<longleftrightarrow> (\<exists>x\<in>set (profile_instances p). as_lora x = Some h)"
    by (simp add: find_loras_def List.map_filter_def image_iff) (metis option.distinct(1) option.sel)
  then show ?thesis by (auto simp: as_lora_Some)
qed

lemma primary_served:
  assumes "\<forall>h. Some (LoRA h) \<in> set (profile_instances p) \<longrightarrow> lo_weight h \<noteq> NaN"
  shows "case primary_lora (find_loras p) of None \<Rightarrow> \<forall>h. Some (LoRA h) \<notin> set (profile_instances p) | Some h \<Rightarrow> served_lora p h"
proof (cases "find_loras p")
  case Nil
  then show ?thesis using set_loras [of _ p] by (simp add: primary_lora_def)
next
  case (Cons h hs)
  have "sorted (map lo_name (find_loras p))" by (simp add: find_loras_def)
  moreover have "\<forall>h\<in>set (find_loras p). lo_weight h \<noteq> NaN" using assms by (simp add: set_loras)
  ultimately have "heaviest h hs \<in> set (find_loras p) \<and> (\<forall>g\<in>set (find_loras p). lora_before (heaviest h hs) g)"
    using heaviest_first [of h hs] Cons by metis
  then have "served_lora p (heaviest h hs)" by (simp add: served_lora_def set_loras)
  with Cons show ?thesis by (simp add: primary_lora_def)
qed

text \<open>Two adapters that may both be served have the same name and weight.\<close>

lemma served_lora_name: "served_lora p g \<Longrightarrow> served_lora p h \<Longrightarrow> lo_name g = lo_name h"
  unfolding served_lora_def lora_before_def by (metis less_irrefl order_antisym order.strict_trans)

text \<open>C21: A recipe is routed by weight, not by accident: composing the profile of an agent with a reachable base model asks
  the chat factory, exactly once, for the adapter of the highest weight (the least name among equals) at the model's
  endpoint, or for the base model when there is no adapter; the name depends only on the set of the agent's resources,
  not on their order, and is the one that the description of the recipe reports.\<close>

theorem recipe_routed:
  assumes "find_model p = Some base" and "resolve_endpoint to_text env base = Some url"
    and "\<forall>h. Some (LoRA h) \<in> set (profile_instances p) \<longrightarrow> lo_weight h \<noteq> NaN \<and> lo_name h \<noteq> []"
  shows "\<exists>name. compose_recipe to_text env chat_factory temperature max_tokens p s =
       sbind (chat_factory \<lparr>cc_model = Some name, cc_base_url = Some url, cc_temperature = temperature, cc_max_tokens = max_tokens\<rparr>)
         (\<lambda>c. sret (Some c)) s
     \<and> map_of (describe_recipe to_text env p) ''model_id_for_request'' = Some (PStr name)
     \<and> (if \<exists>h. Some (LoRA h) \<in> set (profile_instances p) then \<exists>h. served_lora p h \<and> lo_name h = name else name = mo_name base)
     \<and> (\<forall>q. set (profile_instances q) = set (profile_instances p) \<longrightarrow> map_option lo_name (primary_lora (find_loras q))
            = map_option lo_name (primary_lora (find_loras p)))"
proof -
  have nan: "\<forall>h. Some (LoRA h) \<in> set (profile_instances p) \<longrightarrow> lo_weight h \<noteq> NaN" using assms(3) by blast
  have order: "map_option lo_name (primary_lora (find_loras q)) = map_option lo_name (primary_lora (find_loras p))"
    if q: "set (profile_instances q) = set (profile_instances p)" for q
  proof -
    have "served_lora q = served_lora p" by (rule ext) (simp add: served_lora_def q)
    with primary_served [of q] nan q
    have sq: "case primary_lora (find_loras q) of None \<Rightarrow> \<forall>h. Some (LoRA h) \<notin> set (profile_instances p) | Some h \<Rightarrow> served_lora p h"
      by (simp split: option.splits)
    show ?thesis
    proof (cases "primary_lora (find_loras p)")
      case None
      with primary_served [OF nan] sq show ?thesis
        by (cases "primary_lora (find_loras q)") (simp_all add: served_lora_def)
    next
      case (Some h)
      with primary_served [OF nan] have h: "served_lora p h" by simp
      with sq obtain g where g: "primary_lora (find_loras q) = Some g" "served_lora p g"
        by (cases "primary_lora (find_loras q)") (simp_all add: served_lora_def)
      from served_lora_name [OF g(2) h] g(1) Some show ?thesis by simp
    qed
  qed
  define name where "name = (case primary_lora (find_loras p) of None \<Rightarrow> mo_name base | Some h \<Rightarrow> lo_name h)"
  have compose: "compose_recipe to_text env chat_factory temperature max_tokens p s =
      sbind (chat_factory \<lparr>cc_model = Some name, cc_base_url = Some url, cc_temperature = temperature, cc_max_tokens = max_tokens\<rparr>)
        (\<lambda>c. sret (Some c)) s"
    by (simp add: compose_recipe_def assms(1,2) name_def Let_def split: option.splits)
  have lora: "served_lora p h \<and> lo_name h = name \<and> lo_name h \<noteq> [] \<and> Some (LoRA h) \<in> set (profile_instances p)"
    if "primary_lora (find_loras p) = Some h" for h
    using that primary_served [OF nan] assms(3) by (simp add: name_def served_lora_def)
  then have describe: "map_of (describe_recipe to_text env p) ''model_id_for_request'' = Some (PStr name)"
    by (cases "primary_lora (find_loras p)")
      (simp_all add: describe_recipe_def assms(1) name_def or_default_def text_or_none_def Let_def)
  have served: "if \<exists>h. Some (LoRA h) \<in> set (profile_instances p) then \<exists>h. served_lora p h \<and> lo_name h = name else name = mo_name base"
  proof (cases "primary_lora (find_loras p)")
    case None
    with primary_served [OF nan] show ?thesis by (simp add: name_def)
  next
    case (Some h)
    from lora [OF this] show ?thesis by auto
  qed
  show ?thesis using compose describe served order by blast
qed

definition sample_model :: ModelHandle where
  "sample_model = \<lparr>mo_name = ''llama3-8b'', mo_repo_id = None, mo_revision = None, mo_quantization = None, mo_torch_dtype = None,
     mo_device_map = None, mo_extra = [(''endpoint_env'', PStr ''VLLM_URL'')]\<rparr>"

definition sample_lora :: "string \<Rightarrow> rat \<Rightarrow> LoRAHandle" where
  "sample_lora name w = \<lparr>lo_name = name, lo_repo_id = None, lo_revision = None, lo_adapter_name = None, lo_weight = Fin w, lo_extra = []\<rparr>"

definition sample_recipe :: "(unit, unit) recipe_profile" where
  "sample_recipe = \<lparr>ap_address = \<lparr>a_org = ''tifin'', a_role = ''expert'', a_domain = ''finance'', a_subdomain = ''equity'',
       a_accept = ''s'', a_lifecycle = ''live'', a_instance = ''a1'', a_params = []\<rparr>,
     ap_tools = [], ap_skills = [], ap_rag_sources = [], ap_prompt = [], ap_agent_kind = React,
     ap_resources = [(''bullish'', Some (LoRA (sample_lora ''bullish'' (1/2)))), (''other'', Some (Other ())),
       (''llama'', Some (Model sample_model)), (''bearish'', Some (LoRA (sample_lora ''bearish'' 1)))]\<rparr>"

theorem recipe_routed_witness:
  "\<exists>name. compose_recipe (\<lambda>_. []) (\<lambda>k. if k = ''VLLM_URL'' then Some ''http://gpu'' else None) (\<lambda>call s. (Inr call, Suc s)) fzero 1024 sample_recipe 0
       = sbind (\<lambda>s. (Inr \<lparr>cc_model = Some name, cc_base_url = Some ''http://gpu'', cc_temperature = fzero, cc_max_tokens = 1024\<rparr>, Suc s))
         (\<lambda>c. sret (Some c)) 0"
proof -
  have m: "find_model sample_recipe = Some sample_model"
    by (simp add: find_model_def profile_instances_def sample_recipe_def List.map_filter_def)
  have e: "resolve_endpoint (\<lambda>_. []) (\<lambda>k. if k = ''VLLM_URL'' then Some ''http://gpu'' else None) sample_model = Some ''http://gpu''"
    by (simp add: resolve_endpoint_def sample_model_def dict_get_def)
  have w: "\<forall>h. Some (LoRA h) \<in> set (profile_instances sample_recipe) \<longrightarrow> lo_weight h \<noteq> NaN \<and> lo_name h \<noteq> []"
    by (auto simp: profile_instances_def sample_recipe_def sample_lora_def)
  from recipe_routed [OF m e w, where chat_factory = "\<lambda>call s. (Inr call, Suc s)" and temperature = fzero and max_tokens = 1024 and s = 0]
  show ?thesis by blast
qed

section \<open>The client cache\<close>

lemma lru_call_run:
  assumes "lru_call n f k (cache, s) = (r, (cache', t))" and "is_dict cache" and "length cache \<le> n" and "0 < n"
  shows "is_dict cache' \<and> length cache' \<le> n
    \<and> (case r of Inl e \<Rightarrow> cache' = cache | Inr v \<Rightarrow> map_of cache' k = Some v \<and> (map_of cache k \<in> {None, Some v}))"
proof (cases "map_of cache k")
  case None
  then have k: "k \<notin> fst ` set cache" by (simp add: map_of_eq_None_iff)
  then have "k \<notin> fst ` set (tl cache)" by (cases cache) auto
  moreover have "distinct (map fst (tl cache))" using assms(2) by (cases cache) auto
  moreover have "map_of (tl cache) k = None" using \<open>k \<notin> fst ` set (tl cache)\<close> by (simp add: map_of_eq_None_iff)
  ultimately show ?thesis using assms None k
    by (auto simp: lru_call_def map_add_def split: prod.splits sum.splits if_splits)
next
  case (Some v)
  then have "(k, v) \<in> set cache" by (rule map_of_SomeD)
  then have "length (AList.delete k cache) < length cache" unfolding AList.delete_eq by (rule length_filter_less) simp
  moreover have "k \<notin> fst ` set (AList.delete k cache)" by (simp add: delete_keys flip: set_map)
  moreover have "map_of (AList.delete k cache) k = None" by (simp add: delete_conv')
  ultimately show ?thesis using assms Some
    by (auto simp: lru_call_def map_add_def is_dict_delete)
qed

text \<open>Constructing chat clients keeps at most sixteen, and serves a repeated call from the kept one.\<close>

lemma cached_chat_model_kept:
  assumes "cached_chat_model env client call (cache, s) = (Inr c, (cache', t))" and "is_dict cache" and "length cache \<le> 16"
  shows "length cache' \<le> 16 \<and> fst (cached_chat_model env client call (cache', u)) = Inr c"
proof -
  have "length cache' \<le> 16 \<and> map_of cache' call = Some c"
    using lru_call_run [OF assms(1) [unfolded cached_chat_model_def] assms(2,3)] by simp
  then show ?thesis by (simp add: cached_chat_model_def lru_call_def)
qed

end
