(* ===== verification/Prompts.thy ===== *)
theory Prompts
  imports GameModes
begin

text \<open>
  \<open>ahp/adapters/prompts.py\<close>: the prompt recipes of the round-based formats. A context is a Python
  dictionary; \<open>repr\<close> is the text of a value that is not a string. A renderer is a list of pieces in the
  order of the source's f-string, the first missing key ends it.
\<close>

type_synonym ctx = "(string \<times> pyval) list"
type_synonym renderer = "(pyval \<Rightarrow> string) \<Rightarrow> string \<Rightarrow> ctx \<Rightarrow> string res"

record Recipe =
  rc_role :: string
  rc_mode :: string
  rc_description :: string
  rc_render :: renderer

definition recipe_key :: "Recipe \<Rightarrow> string" where
  "recipe_key r = rc_role r @ '':'' @ rc_mode r"

section \<open>Pieces of a prompt\<close>

text \<open>Literal text; a bar is a line break, a hash the bytes of a dash, a tilde an apostrophe at the end of a literal.\<close>

definition prose :: "string \<Rightarrow> string res" where
  "prose t = Inr (concat (map (\<lambda>c. if c = CHR ''|'' then [CHR 0x0A] else if c = CHR ''#'' then [CHR 0xE2, CHR 0x80, CHR 0x94]
     else if c = CHR ''~'' then [CHR 0x27] else [c]) t))"

definition joined :: "string res list \<Rightarrow> string res" where
  "joined parts = rbind (mapM (\<lambda>p. p) parts) (\<lambda>ts. Inr (concat ts))"

definition ctx_item :: "(pyval \<Rightarrow> string) \<Rightarrow> ctx \<Rightarrow> string \<Rightarrow> string res" where
  "ctx_item repr ctx k = rbind (item ctx k) (\<lambda>v. Inr (value_text repr v))"

definition ctx_get :: "(pyval \<Rightarrow> string) \<Rightarrow> ctx \<Rightarrow> string \<Rightarrow> string res" where
  "ctx_get repr ctx k = Inr (value_text repr (dict_get ctx k (PStr [])))"

fun turn_dict :: "pyval \<Rightarrow> ctx res" where
  "turn_dict (PDict d) = Inr d" | "turn_dict _ = Inl AttributeError"

text \<open>\<open>v.strip()\<close>; bytes are shown by their \<open>repr\<close>.\<close>

definition is_byte_space :: "char \<Rightarrow> bool" where
  "is_byte_space c \<longleftrightarrow> c \<in> {CHR '' '', CHR 0x09, CHR 0x0A, CHR 0x0B, CHR 0x0C, CHR 0x0D}"

fun stripped :: "(pyval \<Rightarrow> string) \<Rightarrow> pyval \<Rightarrow> string res" where
  "stripped repr (PStr t) = Inr (strip t)"
| "stripped repr (PBytes b) = Inr (repr (PBytes (rev (dropWhile is_byte_space (rev (dropWhile is_byte_space b))))))"
| "stripped repr _ = Inl AttributeError"

text \<open>Python's \<open>==\<close>: numbers by value across their types, dictionaries whatever their order.\<close>

fun num_of :: "pyval \<Rightarrow> pyfloat option" where
  "num_of (PBool b) = Some (Fin (if b then 1 else 0))"
| "num_of (PInt n) = Some (Fin (of_int n))"
| "num_of (PFloat x) = Some x"
| "num_of _ = None"

function (sequential) py_eq :: "pyval \<Rightarrow> pyval \<Rightarrow> bool" where
  "py_eq (PList xs) (PList ys) = (length xs = length ys \<and> list_all (\<lambda>(x, y). py_eq x y) (zip xs ys))"
| "py_eq (PDict d) (PDict e) =
     (length d = length e \<and> list_all (\<lambda>(k, v). list_ex (\<lambda>(j, w). k = j \<and> py_eq v w) e) d)"
| "py_eq v w =
     (case (num_of v, num_of w) of (Some x, Some y) \<Rightarrow> feq x y | (None, None) \<Rightarrow> v = w | _ \<Rightarrow> False)"
  by pat_completeness auto

lemma size_item: "x \<in> set xs \<Longrightarrow> size x < Suc (size_list size xs)" for x :: pyval
  by (induction xs) auto

lemma size_entry: "(k, v) \<in> set d \<Longrightarrow> size v < Suc (size_list (size_prod (\<lambda>_. 0) size) d)" for v :: pyval
  by (induction d) auto

termination py_eq
  by (relation "measure (\<lambda>(v, w). size v)") (auto intro: size_item size_entry dest: set_zip_leftD)

definition bullet :: "(pyval \<Rightarrow> string) \<Rightarrow> ctx \<Rightarrow> string res" where
  "bullet repr d = rbind (stripped repr (dict_get d ''body'' (PStr [])))
     (\<lambda>body. Inr (''- ['' @ value_text repr (dict_get d ''slug'' (PStr ''?'')) @ ''] '' @ body))"

definition others_bulleted :: "(pyval \<Rightarrow> string) \<Rightarrow> ctx \<Rightarrow> string res" where
  "others_bulleted repr ctx =
     (let my_slug = dict_get ctx ''self_slug'' PNone
      in rbind (iterate (dict_get ctx ''others'' (PList []))) (\<lambda>os.
         rbind (mapM turn_dict os) (\<lambda>ds.
         rbind (mapM (bullet repr) (filter (\<lambda>d. \<not> py_eq (dict_get d ''slug'' PNone) my_slug) ds)) (\<lambda>ls.
         Inr (join [CHR 0x0A] ls)))))"

definition history_line :: "(pyval \<Rightarrow> string) \<Rightarrow> pyval \<Rightarrow> string res" where
  "history_line repr v = rbind (turn_dict v) (\<lambda>d.
     Inr (''['' @ value_text repr (dict_get d ''slug'' (PStr ''?'')) @ ''] '' @ strip (value_text repr (dict_get d ''body'' (PStr [])))))"

definition transcript :: "(pyval \<Rightarrow> string) \<Rightarrow> ctx \<Rightarrow> string res" where
  "transcript repr ctx =
     rbind (iterate (dict_get ctx ''transcript'' (PList []))) (\<lambda>turns.
     rbind (mapM (history_line repr) turns) (\<lambda>ls. Inr (join [CHR 0x0A] ls)))"

text \<open>The bullets of the turns addressed to the agent, or what stands for none.\<close>

definition addressed :: "(pyval \<Rightarrow> string) \<Rightarrow> ctx \<Rightarrow> string \<Rightarrow> string \<Rightarrow> string res" where
  "addressed repr ctx key nothing =
     rbind (iterate (dict_get ctx key (PList []))) (\<lambda>os.
     rbind (mapM (\<lambda>v. rbind (turn_dict v) (bullet repr)) os) (\<lambda>ls.
     Inr (let b = join [CHR 0x0A] ls in if b = [] then nothing else b)))"

section \<open>Debate\<close>

definition r_debate_me :: renderer where
  "r_debate_me repr system ctx =
     joined [
      Inr system, prose ''||QUESTION: '', ctx_item repr ctx ''question'',
      prose ''||In 3 short sentences argue your position. Be confident, specific, and name one piece of '',
      prose ''evidence.'']"

definition r_debate_others :: renderer where
  "r_debate_others repr system ctx =
     joined [
      Inr system, prose ''||QUESTION: '', ctx_item repr ctx ''question'', prose ''||OTHER PARTICIPANTS' ARGUMENTS:|'',
      others_bulleted repr ctx,
      prose ''||Pick the single weakest claim above and attack it in 2 short sentences. Do not restate your '',
      prose ''own position # only critique.'']"

definition r_debate_rebuttal :: renderer where
  "r_debate_rebuttal repr system ctx =
     rbind (addressed repr ctx ''attacks_on_me'' ''(no direct attacks on you this round)'') (\<lambda>bulleted. joined [
      Inr system, prose ''||QUESTION: '', ctx_item repr ctx ''question'', prose ''||ATTACKS DIRECTED AT YOUR POSITION:|'',
      Inr bulleted,
      prose ''||In 2-3 short sentences, defend against the strongest attack. If the attacker mischaracterized '',
      prose ''you, say so. Otherwise concede the partial point and explain why your core claim still stands.''])"

definition r_debate_closing :: renderer where
  "r_debate_closing repr system ctx =
     joined [
      Inr system, prose ''||QUESTION: '', ctx_item repr ctx ''question'',
      prose ''||This is your 90-second closing statement. In 3-4 sentences, restate your strongest argument, '',
      prose ''acknowledge the most legitimate objection you faced, and explain why a reasonable person should '',
      prose ''still side with you.'']"

section \<open>Interviews\<close>

definition r_int_me :: renderer where
  "r_int_me repr system ctx =
     joined [
      Inr system, prose ''||You are the sole subject of this interview. TOPIC: '', ctx_item repr ctx ''topic'',
      prose ''||Give an opening statement in 4-6 sentences. Stake the most important claim you'd want this '',
      prose ''audience to understand, and sketch the strongest evidence for it.'']"

definition r_int_me_probe :: renderer where
  "r_int_me_probe repr system ctx =
     joined [
      Inr system, prose ''||TOPIC: '', ctx_item repr ctx ''topic'', prose ''||YOUR PRIOR ANSWER: '',
      ctx_get repr ctx ''prior'', prose ''||MODERATOR'S FOLLOW-UP: '', ctx_get repr ctx ''follow_up'',
      prose ''||Answer directly in 3-4 sentences. If the moderator's probe exposes a hedge or weak spot in '',
      prose ''your prior answer, name it.'']"

definition r_int_me_summary :: renderer where
  "r_int_me_summary repr system ctx =
     joined [
      Inr system, prose ''||TOPIC: '', ctx_item repr ctx ''topic'', prose ''||FULL INTERVIEW TRANSCRIPT:|'',
      transcript repr ctx,
      prose ''||Give a 2-line takeaway: line 1 is your single most important claim, line 2 is the strongest '',
      prose ''reason to act on it. No preamble.'']"

definition r_int_yall :: renderer where
  "r_int_yall repr system ctx =
     joined [
      Inr system, prose ''||You are one of several panelists being asked the same question. TOPIC: '',
      ctx_item repr ctx ''topic'',
      prose ''||Answer in 2-4 sentences from your perspective only. Don't reference the other panelists; '',
      prose ''speak as if you were the only one being asked.'']"

definition r_int_yall_synthesize :: renderer where
  "r_int_yall_synthesize repr system ctx =
     joined [
      Inr system, prose ''||TOPIC: '', ctx_item repr ctx ''topic'', prose ''||WHAT THE OTHER PANELISTS SAID:|'',
      others_bulleted repr ctx,
      prose ''||In 3 sentences, identify the ONE thing every panelist (including you) implicitly agreed on. '',
      prose ''Be specific # name an assumption, value, or fact that runs through every answer.'']"

definition r_int_yall_disagree :: renderer where
  "r_int_yall_disagree repr system ctx =
     joined [
      Inr system, prose ''||TOPIC: '', ctx_item repr ctx ''topic'', prose ''||WHAT THE OTHER PANELISTS SAID:|'',
      others_bulleted repr ctx,
      prose ''||In 3 sentences, name the single sharpest disagreement between the panelists. Quote the '',
      prose ''specific claims that are in tension. State which side you fall on and why.'']"

definition r_int_eachother :: renderer where
  "r_int_eachother repr system ctx =
     joined [
      Inr system, prose ''||TOPIC: '', ctx_item repr ctx ''topic'', prose ''||OTHER PANELISTS' OPENING STATEMENTS:|'',
      others_bulleted repr ctx,
      prose ''||Pick whichever statement above you found most surprising or under-specified. In 2-3 '',
      prose ''sentences, ask the panelist a precise follow-up question. Start your reply with `@<slug>:` so '',
      prose ''it's clear who you're addressing. Don't restate your own position.'']"

definition r_int_eachother_answer :: renderer where
  "r_int_eachother_answer repr system ctx =
     rbind (addressed repr ctx ''questions_for_me'' ''(no follow-up questions directed at you)'') (\<lambda>bulleted. joined [
      Inr system, prose ''||TOPIC: '', ctx_item repr ctx ''topic'', prose ''||PEER QUESTIONS DIRECTED AT YOU:|'',
      Inr bulleted, prose ''||Answer the most substantive question above in 3 sentences. Address the asker by name '',
      prose ''(`@<slug>:`). If their question reveals a real gap in your earlier statement, say so.''])"

section \<open>Collaboration\<close>

definition r_col_joint_propose :: renderer where
  "r_col_joint_propose repr system ctx =
     joined [
      Inr system, prose ''||PROBLEM: '', ctx_item repr ctx ''question'',
      prose ''||Propose your approach to solving this in 4 sentences. State the core idea, the first concrete '',
      prose ''step, the main risk, and one reason to believe your approach beats the obvious default.'']"

definition r_col_joint_build_on :: renderer where
  "r_col_joint_build_on repr system ctx =
     joined [
      Inr system, prose ''||PROBLEM: '', ctx_item repr ctx ''question'', prose ''||OTHER PEOPLE'S PROPOSALS:|'',
      others_bulleted repr ctx,
      prose ''||Pick the single most promising peer proposal above. In 3 sentences, build on it: keep what '',
      prose ''works, add one missing piece, flag one risk the original author missed. Address them as '',
      prose ''`@<slug>:`.'']"

definition r_col_joint_synthesize :: renderer where
  "r_col_joint_synthesize repr system ctx =
     joined [
      Inr system, prose ''||PROBLEM: '', ctx_item repr ctx ''question'', prose ''||FULL DISCUSSION:|'', transcript repr ctx,
      prose ''||Stitch the strongest ideas from the discussion into a single 4-sentence proposal. Credit '',
      prose ''specific contributors by `@<slug>` where you took an idea. Be concrete enough to act on.'']"

definition r_col_role_plan :: renderer where
  "r_col_role_plan repr system ctx =
     joined [
      Inr system, prose ''||PLAN OBJECTIVE: '', ctx_item repr ctx ''question'',
      prose ''||You own one role in this plan (your persona tells you which). Describe your portion in 4 '',
      prose ''sentences: what you'll produce, what you need from other roles to do it, and what could block '',
      prose ''you.'']"

definition r_col_role_conflicts :: renderer where
  "r_col_role_conflicts repr system ctx =
     joined [
      Inr system, prose ''||PLAN OBJECTIVE: '', ctx_item repr ctx ''question'', prose ''||OTHER ROLES' PLAN PORTIONS:|'',
      others_bulleted repr ctx,
      prose ''||In 3 sentences, name the single sharpest dependency or conflict between your portion and a '',
      prose ''peer's. Be specific about the resource, ordering, or assumption at stake. Address as `@<slug>:`.'']"

definition r_col_role_consolidate :: renderer where
  "r_col_role_consolidate repr system ctx =
     joined [
      Inr system, prose ''||PLAN OBJECTIVE: '', ctx_item repr ctx ''question'', prose ''||FULL DISCUSSION:|'',
      transcript repr ctx,
      prose ''||Stitch the role portions and conflict notes into one coherent plan in 5 sentences. Sequence '',
      prose ''the steps in order. Be explicit about which role owns each step.'']"

definition r_col_brainstorm_diverge :: renderer where
  "r_col_brainstorm_diverge repr system ctx =
     joined [
      Inr system, prose ''||QUESTION: '', ctx_item repr ctx ''question'',
      prose ''||This is divergence: low bar, high volume. Generate 4-6 ideas as a bullet list. They can be '',
      prose ''wild, half-baked, or contradict each other. Do not pre-filter. Do not explain # just name the '',
      prose ''idea.'']"

definition r_col_brainstorm_cluster :: renderer where
  "r_col_brainstorm_cluster repr system ctx =
     joined [
      Inr system, prose ''||QUESTION: '', ctx_item repr ctx ''question'', prose ''||ALL IDEAS FROM ALL PARTICIPANTS:|'',
      others_bulleted repr ctx,
      prose ''||Group the ideas above into 2-3 themes you see. Name each theme in one phrase. For each theme, '',
      prose ''mark the strongest idea with a plus and the weakest with a minus.'']"

definition r_col_brainstorm_top3 :: renderer where
  "r_col_brainstorm_top3 repr system ctx =
     joined [
      Inr system, prose ''||QUESTION: '', ctx_item repr ctx ''question'', prose ''||FULL DISCUSSION:|'', transcript repr ctx,
      prose ''||Pick the top 3 ideas overall and rank them. For each, give a one-line justification. End with '',
      prose ''the single idea you would bet on if forced to pick only one.'']"

section \<open>Conversation\<close>

definition r_con_free_open :: renderer where
  "r_con_free_open repr system ctx =
     joined [
      Inr system, prose ''||TOPIC FOR CONVERSATION: '', ctx_item repr ctx ''question'',
      prose ''||Open the conversation in 2-3 sentences. Share what comes up for you when you hear this topic. '',
      prose ''No need to argue # just speak.'']"

definition r_con_free_respond :: renderer where
  "r_con_free_respond repr system ctx =
     joined [
      Inr system, prose ''||TOPIC: '', ctx_item repr ctx ''question'', prose ''||WHAT'S BEEN SAID SO FAR:|'',
      transcript repr ctx,
      prose ''||Add your reaction in 2-3 sentences. You can pick up on what someone else said, change tack, '',
      prose ''or share a connected thought. Don't summarize the conversation # just contribute.'']"

definition r_con_free_reflect :: renderer where
  "r_con_free_reflect repr system ctx =
     joined [
      Inr system, prose ''||TOPIC: '', ctx_item repr ctx ''question'', prose ''||FULL CONVERSATION:|'', transcript repr ctx,
      prose ''||In 2 sentences, name the single thing from this conversation that stuck with you. It can be '',
      prose ''someone else's line. Be specific.'']"

definition r_con_soc_question :: renderer where
  "r_con_soc_question repr system ctx =
     joined [
      Inr system, prose ''||DOMAIN: '', ctx_item repr ctx ''question'',
      prose ''||Pose one sharp question about this domain # the kind whose answer would actually change how '',
      prose ''someone thinks. One sentence. Don't answer it. Don't preface it.'']"

definition r_con_soc_answer :: renderer where
  "r_con_soc_answer repr system ctx =
     joined [
      Inr system, prose ''||DOMAIN: '', ctx_item repr ctx ''question'', prose ''||QUESTIONS FROM OTHER PARTICIPANTS:|'',
      others_bulleted repr ctx,
      prose ''||Pick the single most interesting question and answer it in 3-4 sentences. Address the asker '',
      prose ''as `@<slug>:`. Be willing to say 'I don't know, but here's my best guess and why.~'']"

definition r_con_soc_unanswered :: renderer where
  "r_con_soc_unanswered repr system ctx =
     joined [
      Inr system, prose ''||DOMAIN: '', ctx_item repr ctx ''question'', prose ''||FULL EXCHANGE:|'', transcript repr ctx,
      prose ''||Name the one question from above that you genuinely can't answer. In 2 sentences, explain '',
      prose ''what would have to be true for you to be able to answer it.'']"

definition r_con_dev_position :: renderer where
  "r_con_dev_position repr system ctx =
     joined [
      Inr system, prose ''||QUESTION: '', ctx_item repr ctx ''question'',
      prose ''||Stake your actual position in 3 sentences. State the claim, the main reason, and the '',
      prose ''strongest objection you've heard against it.'']"

definition r_con_dev_flip :: renderer where
  "r_con_dev_flip repr system ctx =
     joined [
      Inr system, prose ''||QUESTION: '', ctx_item repr ctx ''question'', prose ''||PEERS' POSITIONS:|'',
      others_bulleted repr ctx,
      prose ''||Pick the peer whose position is most distant from yours. In 3 sentences, argue *for* their '',
      prose ''position # better than they did. Don't hedge. Address them as `@<slug>:`.'']"

definition r_con_dev_final :: renderer where
  "r_con_dev_final repr system ctx =
     joined [
      Inr system, prose ''||QUESTION: '', ctx_item repr ctx ''question'', prose ''||FULL EXCHANGE:|'', transcript repr ctx,
      prose ''||In 2-3 sentences, state what you now actually believe after having to argue the other side. '',
      prose ''If your position shifted, name what shifted it. If it didn't, name what would have had to.'']"

section \<open>Fiction\<close>

definition r_fic_theatre_enter :: renderer where
  "r_fic_theatre_enter repr system ctx =
     joined [
      prose ''You are a character in a scene. CHARACTER: '', Inr system, prose ''||SCENE PROMPT: '',
      ctx_item repr ctx ''question'',
      prose ''||Write your character's entrance: 2-3 sentences. Use action and one line of dialogue. Stay in '',
      prose ''character throughout. Don't narrate others' inner states.'']"

definition r_fic_theatre_respond :: renderer where
  "r_fic_theatre_respond repr system ctx =
     joined [
      prose ''You are a character in a scene. CHARACTER: '', Inr system, prose ''||SCENE SO FAR:|'', transcript repr ctx,
      prose ''||Write your character's next beat: 3-4 sentences. Respond to something another character just '',
      prose ''did. Use action + dialogue. Stay strictly in character # only describe what your character '',
      prose ''says, does, sees, feels.'']"

definition r_fic_theatre_final :: renderer where
  "r_fic_theatre_final repr system ctx =
     joined [
      prose ''You are a character in a scene. CHARACTER: '', Inr system, prose ''||SCENE SO FAR:|'', transcript repr ctx,
      prose ''||Write your character's closing beat: 2-3 sentences that resolve or punctuate your arc in this '',
      prose ''scene. End on a line that has finality # even if the story isn't over.'']"

definition r_fic_authors_setup :: renderer where
  "r_fic_authors_setup repr system ctx =
     joined [
      Inr system, prose ''||YOU ARE A CO-AUTHOR IN A WRITERS' ROOM.|STORY PREMISE: '', ctx_item repr ctx ''question'',
      prose ''||Contribute one paragraph of setup: 3-4 sentences in third-person narration. Establish '',
      prose ''setting, mood, and at least one specific detail. Don't introduce a conflict yet # set the stage.'']"

definition r_fic_authors_complication :: renderer where
  "r_fic_authors_complication repr system ctx =
     joined [
      Inr system, prose ''||YOU ARE A CO-AUTHOR IN A WRITERS' ROOM.|STORY PREMISE: '', ctx_item repr ctx ''question'',
      prose ''||STORY SO FAR:|'', transcript repr ctx,
      prose ''||Introduce one complication: 3-4 sentences in third-person narration that build on what your '',
      prose ''co-authors wrote. Raise the stakes. Be specific # name a person, place, or object.'']"

definition r_fic_authors_resolution :: renderer where
  "r_fic_authors_resolution repr system ctx =
     joined [
      Inr system, prose ''||YOU ARE A CO-AUTHOR IN A WRITERS' ROOM.|STORY PREMISE: '', ctx_item repr ctx ''question'',
      prose ''||STORY SO FAR:|'', transcript repr ctx,
      prose ''||Contribute the resolution: 3-4 sentences in third-person narration. The story doesn't have to '',
      prose ''end happily, but it should end with consequence. Address the complications your co-authors '',
      prose ''introduced; don't ignore them.'']"

section \<open>Deliberation\<close>

definition r_del_position :: renderer where
  "r_del_position repr system ctx =
     joined [
      Inr system, prose ''||DECISION TO MAKE: '', ctx_item repr ctx ''question'',
      prose ''||State your current position in 3 sentences. Name the option you favor, the one thing you'd '',
      prose ''need to be wrong about to change your mind, and what you're willing to trade for consensus.'']"

definition r_del_negotiate :: renderer where
  "r_del_negotiate repr system ctx =
     joined [
      Inr system, prose ''||DECISION TO MAKE: '', ctx_item repr ctx ''question'', prose ''||OTHER PANELISTS' POSITIONS:|'',
      others_bulleted repr ctx,
      prose ''||Propose a concrete concession that could move the panel toward consensus, in 3 sentences. '',
      prose ''Address the panelist whose position is farthest from yours as `@<slug>:`. State what you're '',
      prose ''willing to give up and what you need in return.'']"

definition r_del_vote :: renderer where
  "r_del_vote repr system ctx =
     joined [
      Inr system, prose ''||DECISION TO MAKE: '', ctx_item repr ctx ''question'', prose ''||FULL DELIBERATION:|'',
      transcript repr ctx,
      prose ''||Commit. State your final vote in line 1 (single phrase, no hedging). State your confidence '',
      prose ''(low/medium/high) in line 2. State what would change your vote in line 3. Three lines only.'']"

section \<open>Teaching\<close>

definition r_teach_explain :: renderer where
  "r_teach_explain repr system ctx =
     joined [
      Inr system, prose ''||YOU ARE TEACHING THIS TOPIC TO A SMART NON-EXPERT: '', ctx_item repr ctx ''topic'',
      prose ''||Explain it in 5-7 sentences. Start with the one idea that, if missed, breaks understanding of '',
      prose ''everything else. Use one concrete example. Do not use jargon without defining it on first use.'']"

definition r_teach_misconception :: renderer where
  "r_teach_misconception repr system ctx =
     joined [
      Inr system, prose ''||TOPIC: '', ctx_item repr ctx ''topic'', prose ''||YOUR PRIOR EXPLANATION: '',
      ctx_get repr ctx ''prior'', prose ''||COMMON-MISCONCEPTION QUESTION FROM A STUDENT: '', ctx_get repr ctx ''follow_up'',
      prose ''||Answer in 3-4 sentences. First name the misconception explicitly (what the student likely '',
      prose ''believes that's wrong). Then give the correct picture. End with one sentence on why the '',
      prose ''misconception is so seductive.'']"

definition r_teach_remember :: renderer where
  "r_teach_remember repr system ctx =
     joined [
      Inr system, prose ''||TOPIC: '', ctx_item repr ctx ''topic'', prose ''||FULL LESSON:|'', transcript repr ctx,
      prose ''||Give the student three things to remember: a bullet list of 3 items, each one sentence. Order '',
      prose ''them by importance. The first bullet should be the one idea you'd want them to walk out with if '',
      prose ''they forget everything else.'']"

section \<open>Estimates\<close>

definition r_est_propose :: renderer where
  "r_est_propose repr system ctx =
     joined [
      Inr system, prose ''||FORECASTING QUESTION: '', ctx_item repr ctx ''question'',
      prose ''||Give your estimate. Line 1: a single number or probability. Lines 2-3: your reasoning # name '',
      prose ''the two anchors you used and why. Don't hedge by giving a range; commit to a point estimate.'']"

definition r_est_update :: renderer where
  "r_est_update repr system ctx =
     joined [
      Inr system, prose ''||FORECASTING QUESTION: '', ctx_item repr ctx ''question'',
      prose ''||OTHER FORECASTERS' ESTIMATES + REASONING:|'', others_bulleted repr ctx,
      prose ''||Update your estimate based on what you read. Line 1: your new number. Line 2: which peer's '',
      prose ''reasoning moved you most and why (use `@<slug>`). Line 3: which piece of your prior reasoning '',
      prose ''you're now less sure about.'']"

definition r_est_commit :: renderer where
  "r_est_commit repr system ctx =
     joined [
      Inr system, prose ''||FORECASTING QUESTION: '', ctx_item repr ctx ''question'', prose ''||FULL DELIBERATION:|'',
      transcript repr ctx,
      prose ''||Final commitment. Line 1: your final number. Line 2: confidence (low/medium/high) plus the '',
      prose ''single observation in the next 12 months that would most update you. Line 3: the prior of yours '',
      prose ''that you'd most expect to break first.'']"

section \<open>Interrogation\<close>

definition r_interr_open :: renderer where
  "r_interr_open repr system ctx =
     joined [
      Inr system, prose ''||YOU ARE A WITNESS UNDER CROSS-EXAMINATION. SUBJECT: '', ctx_item repr ctx ''topic'',
      prose ''||Give your opening statement in 4-5 sentences. State your position plainly. Do not '',
      prose ''pre-emptively defend yourself # answer only what's been asked. Be specific, not evasive.'']"

definition r_interr_cross :: renderer where
  "r_interr_cross repr system ctx =
     joined [
      Inr system, prose ''||YOU ARE A WITNESS UNDER CROSS-EXAMINATION. SUBJECT: '', ctx_item repr ctx ''topic'',
      prose ''||YOUR PRIOR ANSWER: '', ctx_get repr ctx ''prior'', prose ''||CROSS-EXAMINATION QUESTION: '',
      ctx_get repr ctx ''follow_up'',
      prose ''||Answer in 2-3 sentences. The question is designed to expose a contradiction with what you '',
      prose ''said earlier. If there is no contradiction, demonstrate it. If there is, acknowledge it and '',
      prose ''reconcile.'']"

definition r_interr_hold :: renderer where
  "r_interr_hold repr system ctx =
     joined [
      Inr system, prose ''||YOU ARE A WITNESS UNDER CROSS-EXAMINATION. SUBJECT: '', ctx_item repr ctx ''topic'',
      prose ''||FULL CROSS-EXAMINATION:|'', transcript repr ctx,
      prose ''||Closing statement: 3 sentences. State the one claim you still hold to be true after this '',
      prose ''cross-examination. Concede whatever the cross-examination legitimately weakened. Do not '',
      prose ''over-defend.'']"

section \<open>Kept for old callers\<close>

definition r_legacy_int_open :: renderer where
  "r_legacy_int_open repr system ctx =
     joined [
      Inr system, prose ''||You are being interviewed about: '', ctx_item repr ctx ''topic'',
      prose ''||Give your opening statement in 3-5 sentences. Stake your core claim and the strongest reason '',
      prose ''to believe it.'']"

definition r_legacy_int_probe :: renderer where
  "r_legacy_int_probe repr system ctx =
     joined [
      Inr system, prose ''||TOPIC: '', ctx_item repr ctx ''topic'', prose ''||YOUR PRIOR ANSWER: '',
      ctx_get repr ctx ''prior'', prose ''||FOLLOW-UP QUESTION: '', ctx_get repr ctx ''follow_up'',
      prose ''||Answer the follow-up directly in 2-3 sentences. If the follow-up exposes a weakness in your '',
      prose ''prior answer, acknowledge it.'']"

definition r_legacy_collab_reason :: renderer where
  "r_legacy_collab_reason repr system ctx =
     joined [
      Inr system, prose ''||QUESTION: '', ctx_item repr ctx ''question'',
      prose ''||Think step by step in 3-5 sentences. End with a single-line answer prefixed 'Answer: '.'']"

section \<open>The table\<close>

definition recipe_list :: "Recipe list" where
  "recipe_list = [
     \<lparr>rc_role = ''adversarial'', rc_mode = ''debate-me'', rc_description = ''Argue your own position in 3 sentences with one piece of evidence.'', rc_render = r_debate_me\<rparr>,
     \<lparr>rc_role = ''adversarial'', rc_mode = ''debate-others'', rc_description = ''Attack the weakest opposing claim; do not restate.'', rc_render = r_debate_others\<rparr>,
     \<lparr>rc_role = ''adversarial'', rc_mode = ''rebuttal'', rc_description = ''Defend against attacks directed at your position.'', rc_render = r_debate_rebuttal\<rparr>,
     \<lparr>rc_role = ''adversarial'', rc_mode = ''closing'', rc_description = ''90-second closing case with one concession.'', rc_render = r_debate_closing\<rparr>,
     \<lparr>rc_role = ''interview'', rc_mode = ''me'', rc_description = ''Sole interviewee opening; long-form claim + evidence.'', rc_render = r_int_me\<rparr>,
     \<lparr>rc_role = ''interview'', rc_mode = ''me-probe'', rc_description = ''Sole interviewee answering a moderator follow-up.'', rc_render = r_int_me_probe\<rparr>,
     \<lparr>rc_role = ''interview'', rc_mode = ''me-summary'', rc_description = ''Two-line takeaway after the interview.'', rc_render = r_int_me_summary\<rparr>,
     \<lparr>rc_role = ''interview'', rc_mode = ''yall'', rc_description = ''Panelist short opening, no peer reference.'', rc_render = r_int_yall\<rparr>,
     \<lparr>rc_role = ''interview'', rc_mode = ''yall-synthesize'', rc_description = ''Name the one thing every panelist implicitly agreed on.'', rc_render = r_int_yall_synthesize\<rparr>,
     \<lparr>rc_role = ''interview'', rc_mode = ''yall-disagree'', rc_description = ''Name the sharpest disagreement; pick a side.'', rc_render = r_int_yall_disagree\<rparr>,
     \<lparr>rc_role = ''interview'', rc_mode = ''eachother'', rc_description = ''Probe one peer's opening with @slug prefix.'', rc_render = r_int_eachother\<rparr>,
     \<lparr>rc_role = ''interview'', rc_mode = ''eachother-answer'', rc_description = ''Answer the peer questions directed at you.'', rc_render = r_int_eachother_answer\<rparr>,
     \<lparr>rc_role = ''collaborate'', rc_mode = ''joint-propose'', rc_description = ''Propose your approach to a shared problem in 4 sentences.'', rc_render = r_col_joint_propose\<rparr>,
     \<lparr>rc_role = ''collaborate'', rc_mode = ''joint-build-on'', rc_description = ''Build on one peer's proposal; address as @slug.'', rc_render = r_col_joint_build_on\<rparr>,
     \<lparr>rc_role = ''collaborate'', rc_mode = ''joint-synthesize'', rc_description = ''Synthesize the discussion into one 4-sentence proposal.'', rc_render = r_col_joint_synthesize\<rparr>,
     \<lparr>rc_role = ''collaborate'', rc_mode = ''role-plan'', rc_description = ''Describe your role's portion of a shared plan.'', rc_render = r_col_role_plan\<rparr>,
     \<lparr>rc_role = ''collaborate'', rc_mode = ''role-conflicts'', rc_description = ''Flag a dependency or conflict with another role.'', rc_render = r_col_role_conflicts\<rparr>,
     \<lparr>rc_role = ''collaborate'', rc_mode = ''role-consolidate'', rc_description = ''Stitch role portions into one coherent ordered plan.'', rc_render = r_col_role_consolidate\<rparr>,
     \<lparr>rc_role = ''collaborate'', rc_mode = ''brainstorm-diverge'', rc_description = ''Generate 4-6 wild ideas, no filtering.'', rc_render = r_col_brainstorm_diverge\<rparr>,
     \<lparr>rc_role = ''collaborate'', rc_mode = ''brainstorm-cluster'', rc_description = ''Group ideas into themes; mark best/worst per theme.'', rc_render = r_col_brainstorm_cluster\<rparr>,
     \<lparr>rc_role = ''collaborate'', rc_mode = ''brainstorm-top3'', rc_description = ''Pick top 3 ideas; rank them; commit to one favorite.'', rc_render = r_col_brainstorm_top3\<rparr>,
     \<lparr>rc_role = ''converse'', rc_mode = ''free-open'', rc_description = ''Open the conversation with what comes up for you.'', rc_render = r_con_free_open\<rparr>,
     \<lparr>rc_role = ''converse'', rc_mode = ''free-respond'', rc_description = ''Add your reaction to the conversation so far.'', rc_render = r_con_free_respond\<rparr>,
     \<lparr>rc_role = ''converse'', rc_mode = ''free-reflect'', rc_description = ''Name the one thing from the conversation that stuck.'', rc_render = r_con_free_reflect\<rparr>,
     \<lparr>rc_role = ''converse'', rc_mode = ''socratic-question'', rc_description = ''Pose one sharp question that would change minds.'', rc_render = r_con_soc_question\<rparr>,
     \<lparr>rc_role = ''converse'', rc_mode = ''socratic-answer'', rc_description = ''Answer the most interesting peer question; @slug.'', rc_render = r_con_soc_answer\<rparr>,
     \<lparr>rc_role = ''converse'', rc_mode = ''socratic-unanswered'', rc_description = ''Name the question you genuinely cannot answer.'', rc_render = r_con_soc_unanswered\<rparr>,
     \<lparr>rc_role = ''converse'', rc_mode = ''devils-position'', rc_description = ''State your actual position with strongest objection you've heard.'', rc_render = r_con_dev_position\<rparr>,
     \<lparr>rc_role = ''converse'', rc_mode = ''devils-flip'', rc_description = ''Argue for the position most distant from yours, better than they did.'', rc_render = r_con_dev_flip\<rparr>,
     \<lparr>rc_role = ''converse'', rc_mode = ''devils-final'', rc_description = ''State what you actually believe now after arguing the other side.'', rc_render = r_con_dev_final\<rparr>,
     \<lparr>rc_role = ''fiction'', rc_mode = ''theatre-enter'', rc_description = ''Character entrance: action + one line of dialogue.'', rc_render = r_fic_theatre_enter\<rparr>,
     \<lparr>rc_role = ''fiction'', rc_mode = ''theatre-respond'', rc_description = ''Character next beat: respond to another character.'', rc_render = r_fic_theatre_respond\<rparr>,
     \<lparr>rc_role = ''fiction'', rc_mode = ''theatre-final'', rc_description = ''Character closing beat: resolve or punctuate the arc.'', rc_render = r_fic_theatre_final\<rparr>,
     \<lparr>rc_role = ''fiction'', rc_mode = ''authors-setup'', rc_description = ''Co-author paragraph: establish setting, mood, one detail.'', rc_render = r_fic_authors_setup\<rparr>,
     \<lparr>rc_role = ''fiction'', rc_mode = ''authors-complication'', rc_description = ''Co-author paragraph: raise the stakes with a specific complication.'', rc_render = r_fic_authors_complication\<rparr>,
     \<lparr>rc_role = ''fiction'', rc_mode = ''authors-resolution'', rc_description = ''Co-author paragraph: deliver a consequential resolution.'', rc_render = r_fic_authors_resolution\<rparr>,
     \<lparr>rc_role = ''deliberate'', rc_mode = ''position'', rc_description = ''State your option, what would change your mind, your tradeoff.'', rc_render = r_del_position\<rparr>,
     \<lparr>rc_role = ''deliberate'', rc_mode = ''negotiate'', rc_description = ''Propose a concession to move the panel toward consensus.'', rc_render = r_del_negotiate\<rparr>,
     \<lparr>rc_role = ''deliberate'', rc_mode = ''vote'', rc_description = ''Commit final vote, confidence, and what would change it.'', rc_render = r_del_vote\<rparr>,
     \<lparr>rc_role = ''teach'', rc_mode = ''explain'', rc_description = ''Explain a topic to a smart non-expert in 5-7 sentences.'', rc_render = r_teach_explain\<rparr>,
     \<lparr>rc_role = ''teach'', rc_mode = ''misconception'', rc_description = ''Address a student misconception explicitly.'', rc_render = r_teach_misconception\<rparr>,
     \<lparr>rc_role = ''teach'', rc_mode = ''remember'', rc_description = ''Give 3 ordered takeaways for the student to keep.'', rc_render = r_teach_remember\<rparr>,
     \<lparr>rc_role = ''estimate'', rc_mode = ''propose'', rc_description = ''Commit a point estimate with two anchors of reasoning.'', rc_render = r_est_propose\<rparr>,
     \<lparr>rc_role = ''estimate'', rc_mode = ''update'', rc_description = ''Update your estimate; cite which peer moved you.'', rc_render = r_est_update\<rparr>,
     \<lparr>rc_role = ''estimate'', rc_mode = ''commit'', rc_description = ''Final commitment with confidence + observation that would update.'', rc_render = r_est_commit\<rparr>,
     \<lparr>rc_role = ''interrogate'', rc_mode = ''open'', rc_description = ''Witness opening statement under cross-examination.'', rc_render = r_interr_open\<rparr>,
     \<lparr>rc_role = ''interrogate'', rc_mode = ''cross'', rc_description = ''Answer a hostile question; reconcile any contradiction.'', rc_render = r_interr_cross\<rparr>,
     \<lparr>rc_role = ''interrogate'', rc_mode = ''hold'', rc_description = ''Closing: name what you still hold; concede what was weakened.'', rc_render = r_interr_hold\<rparr>,
     \<lparr>rc_role = ''interview'', rc_mode = ''open'', rc_description = ''Legacy: opening statement on the interview topic.'', rc_render = r_legacy_int_open\<rparr>,
     \<lparr>rc_role = ''interview'', rc_mode = ''probe'', rc_description = ''Legacy: answer a probing follow-up.'', rc_render = r_legacy_int_probe\<rparr>,
     \<lparr>rc_role = ''collaborative'', rc_mode = ''reason'', rc_description = ''Legacy: step-by-step reasoning ending in one-line answer.'', rc_render = r_legacy_collab_reason\<rparr>]"

definition RECIPES :: "(string, Recipe) dict" where
  "RECIPES = dict_of (map (\<lambda>r. (recipe_key r, r)) recipe_list)"

definition get_recipe :: "string \<Rightarrow> string \<Rightarrow> Recipe res" where
  "get_recipe role mode = (case map_of RECIPES (role @ '':'' @ mode) of None \<Rightarrow> Inl RecipeNotFoundError | Some r \<Rightarrow> Inr r)"

definition render_prompt :: "(pyval \<Rightarrow> string) \<Rightarrow> string \<Rightarrow> string \<Rightarrow> string \<Rightarrow> ctx \<Rightarrow> string res" where
  "render_prompt repr role mode system ctx = rbind (get_recipe role mode) (\<lambda>r. rc_render r repr system ctx)"

definition list_recipes :: "Recipe list" where
  "list_recipes = sort_key recipe_key (map snd RECIPES)"

section \<open>Every recipe renders\<close>

text \<open>The index of the table: role and mode, in its order.\<close>

definition recipe_index :: "(string \<times> string) list" where
  "recipe_index = [
      (''adversarial'', ''debate-me''), (''adversarial'', ''debate-others''), (''adversarial'', ''rebuttal''),
      (''adversarial'', ''closing''), (''interview'', ''me''), (''interview'', ''me-probe''),
      (''interview'', ''me-summary''), (''interview'', ''yall''), (''interview'', ''yall-synthesize''),
      (''interview'', ''yall-disagree''), (''interview'', ''eachother''), (''interview'', ''eachother-answer''),
      (''collaborate'', ''joint-propose''), (''collaborate'', ''joint-build-on''),
      (''collaborate'', ''joint-synthesize''), (''collaborate'', ''role-plan''), (''collaborate'', ''role-conflicts''),
      (''collaborate'', ''role-consolidate''), (''collaborate'', ''brainstorm-diverge''),
      (''collaborate'', ''brainstorm-cluster''), (''collaborate'', ''brainstorm-top3''), (''converse'', ''free-open''),
      (''converse'', ''free-respond''), (''converse'', ''free-reflect''), (''converse'', ''socratic-question''),
      (''converse'', ''socratic-answer''), (''converse'', ''socratic-unanswered''), (''converse'', ''devils-position''),
      (''converse'', ''devils-flip''), (''converse'', ''devils-final''), (''fiction'', ''theatre-enter''),
      (''fiction'', ''theatre-respond''), (''fiction'', ''theatre-final''), (''fiction'', ''authors-setup''),
      (''fiction'', ''authors-complication''), (''fiction'', ''authors-resolution''), (''deliberate'', ''position''),
      (''deliberate'', ''negotiate''), (''deliberate'', ''vote''), (''teach'', ''explain''),
      (''teach'', ''misconception''), (''teach'', ''remember''), (''estimate'', ''propose''), (''estimate'', ''update''),
      (''estimate'', ''commit''), (''interrogate'', ''open''), (''interrogate'', ''cross''), (''interrogate'', ''hold''),
      (''interview'', ''open''), (''interview'', ''probe''), (''collaborative'', ''reason'')]"

lemma recipe_names: "map recipe_key recipe_list = map (\<lambda>(r, m). r @ '':'' @ m) recipe_index"
  by (simp add: recipe_list_def recipe_key_def recipe_index_def)

lemma recipe_keys: "distinct (map recipe_key recipe_list)"
  unfolding recipe_names by code_simp

lemma recipes_list: "RECIPES = map (\<lambda>r. (recipe_key r, r)) recipe_list"
  using recipe_keys by (simp add: RECIPES_def dict_of_id comp_def)

lemma get_recipe_Inr: "get_recipe role mode = Inr r \<longleftrightarrow> r \<in> set recipe_list \<and> recipe_key r = role @ '':'' @ mode"
proof -
  have "is_dict RECIPES" using recipe_keys by (simp add: recipes_list comp_def)
  then have "map_of RECIPES k = Some r \<longleftrightarrow> (k, r) \<in> set RECIPES" for k by (rule map_of_eq_Some_iff)
  moreover have "(k, r) \<in> set RECIPES \<longleftrightarrow> r \<in> set recipe_list \<and> recipe_key r = k" for k
    by (simp only: recipes_list set_map image_iff Pair_inject) blast
  moreover have "get_recipe role mode = Inr r \<longleftrightarrow> map_of RECIPES (role @ '':'' @ mode) = Some r"
    by (simp add: get_recipe_def split: option.split)
  ultimately show ?thesis by blast
qed

lemma joined_Inr: "joined parts = Inr t \<longleftrightarrow> (\<exists>ts. list_all2 (\<lambda>p u. p = Inr u) parts ts \<and> t = concat ts)"
  by (auto simp: joined_def rbind_eq_Inr mapM_Inr)

lemma joined_fine:
  assumes "list_all (\<lambda>p. \<exists>t. p = Inr t) parts" and "Inr system \<in> set parts"
  shows "\<exists>t. joined parts = Inr t \<and> sublist system t"
proof -
  from assms(1) obtain ts where ts: "list_all2 (\<lambda>p u. p = Inr u) parts ts"
    by (induction parts) (auto simp: list_all2_Cons1)
  then have parts: "parts = map Inr ts" by (induction rule: list_all2_induct) auto
  with assms(2) obtain us vs where "ts = us @ system # vs" by (auto dest: split_list)
  then show ?thesis using ts by (auto simp: joined_Inr sublist_appendI)
qed

definition speaks :: "pyval \<Rightarrow> bool" where
  "speaks v = (case v of PDict d \<Rightarrow> (case dict_get d ''body'' (PStr []) of PStr _ \<Rightarrow> True | _ \<Rightarrow> False) | _ \<Rightarrow> False)"

definition turns_ok :: "ctx \<Rightarrow> string \<Rightarrow> bool" where
  "turns_ok ctx k = (case dict_get ctx k (PList []) of PList vs \<Rightarrow> list_all speaks vs | _ \<Rightarrow> False)"

definition ctx_ok :: "ctx \<Rightarrow> bool" where
  "ctx_ok ctx \<longleftrightarrow> map_of ctx ''topic'' \<noteq> None \<and> map_of ctx ''question'' \<noteq> None \<and> turns_ok ctx ''others''
     \<and> turns_ok ctx ''transcript'' \<and> turns_ok ctx ''attacks_on_me'' \<and> turns_ok ctx ''questions_for_me''"

lemma speaks_dict: "speaks v \<Longrightarrow> \<exists>d t. v = PDict d \<and> dict_get d ''body'' (PStr []) = PStr t"
  by (auto simp: speaks_def split: pyval.splits)

lemma mapM_fine: "(\<And>x. x \<in> set xs \<Longrightarrow> \<exists>y. f x = Inr y) \<Longrightarrow> \<exists>ys. mapM f xs = Inr ys"
  by (induction xs) fastforce+

lemma turns_fine:
  assumes "turns_ok ctx k"
  obtains ds where "iterate (dict_get ctx k (PList [])) = Inr (map PDict ds)" "\<And>repr d. d \<in> set ds \<Longrightarrow> \<exists>t. bullet repr d = Inr t"
proof -
  from assms obtain vs where vs: "dict_get ctx k (PList []) = PList vs" "list_all speaks vs"
    by (auto simp: turns_ok_def split: pyval.splits)
  then have "\<forall>v\<in>set vs. \<exists>d. v = PDict d" by (auto simp: list_all_iff dest: speaks_dict)
  then obtain ds where ds: "vs = map PDict ds" by (metis ex_map_conv)
  have "\<exists>t. bullet repr d = Inr t" if "d \<in> set ds" for repr d
    using vs(2) that speaks_dict [of "PDict d"] by (auto simp: ds list_all_iff bullet_def)
  then show ?thesis using that vs(1) ds by (auto simp: iterate_def)
qed

lemma mapM_turn_dict [simp]: "mapM turn_dict (map PDict ds) = Inr ds"
  by (induction ds) auto

lemma others_fine: "turns_ok ctx ''others'' \<Longrightarrow> \<exists>t. others_bulleted repr ctx = Inr t"
proof -
  assume "turns_ok ctx ''others''"
  then obtain ds where ds: "iterate (dict_get ctx ''others'' (PList [])) = Inr (map PDict ds)"
    "\<And>repr d. d \<in> set ds \<Longrightarrow> \<exists>t. bullet repr d = Inr t" by (rule turns_fine) blast
  have "\<exists>ys. mapM (bullet repr) (filter P ds) = Inr ys" for P using ds(2) by (intro mapM_fine) auto
  then show ?thesis using ds(1) by (simp add: others_bulleted_def Let_def) (metis rbind_simps(2))
qed

lemma transcript_fine: "turns_ok ctx ''transcript'' \<Longrightarrow> \<exists>t. transcript repr ctx = Inr t"
proof -
  assume "turns_ok ctx ''transcript''"
  then obtain ds where ds: "iterate (dict_get ctx ''transcript'' (PList [])) = Inr (map PDict ds)" by (rule turns_fine) blast
  have "\<exists>ys. mapM (history_line repr) (map PDict ds) = Inr ys" by (intro mapM_fine) (auto simp: history_line_def)
  then show ?thesis using ds(1) by (auto simp: transcript_def)
qed

lemma addressed_fine: "turns_ok ctx k \<Longrightarrow> \<exists>t. addressed repr ctx k nothing = Inr t"
proof -
  assume "turns_ok ctx k"
  then obtain ds where ds: "iterate (dict_get ctx k (PList [])) = Inr (map PDict ds)"
    "\<And>repr d. d \<in> set ds \<Longrightarrow> \<exists>t. bullet repr d = Inr t" by (rule turns_fine) blast
  have "\<exists>ys. mapM (\<lambda>v. rbind (turn_dict v) (bullet repr)) (map PDict ds) = Inr ys" using ds(2) by (intro mapM_fine) auto
  then show ?thesis using ds(1) by (auto simp: addressed_def Let_def)
qed

lemma prose_fine: "\<exists>t. prose s = Inr t" by (simp add: prose_def)

lemma item_fine: "map_of ctx k \<noteq> None \<Longrightarrow> \<exists>t. ctx_item repr ctx k = Inr t"
  by (auto simp: ctx_item_def item_def)

lemma get_fine: "\<exists>t. ctx_get repr ctx k = Inr t" by (simp add: ctx_get_def)

text \<open>A renderer is sound if, given a question, a topic and well-formed turns, it gives a prompt with the persona in it.\<close>

definition sound_renderer :: "renderer \<Rightarrow> bool" where
  "sound_renderer f \<longleftrightarrow> (\<forall>repr system ctx. ctx_ok ctx \<longrightarrow> (\<exists>t. f repr system ctx = Inr t \<and> sublist system t))"

lemma sound_joined:
  assumes "\<And>repr system ctx. f repr system ctx = joined (parts repr system ctx)"
    and "\<And>repr system ctx. Inr system \<in> set (parts repr system ctx)"
    and "\<And>repr system ctx. ctx_ok ctx \<Longrightarrow> list_all (\<lambda>p. \<exists>t. p = Inr t) (parts repr system ctx)"
  shows "sound_renderer f"
  unfolding sound_renderer_def assms(1) using assms(2,3) by (blast intro: joined_fine)

lemmas piece_fine = prose_fine item_fine get_fine others_fine transcript_fine

lemmas renderer_defs =
  r_debate_me_def r_debate_others_def r_debate_closing_def r_int_me_def r_int_me_probe_def r_int_me_summary_def
  r_int_yall_def r_int_yall_synthesize_def r_int_yall_disagree_def r_int_eachother_def r_col_joint_propose_def
  r_col_joint_build_on_def r_col_joint_synthesize_def r_col_role_plan_def r_col_role_conflicts_def
  r_col_role_consolidate_def r_col_brainstorm_diverge_def r_col_brainstorm_cluster_def r_col_brainstorm_top3_def
  r_con_free_open_def r_con_free_respond_def r_con_free_reflect_def r_con_soc_question_def r_con_soc_answer_def
  r_con_soc_unanswered_def r_con_dev_position_def r_con_dev_flip_def r_con_dev_final_def r_fic_theatre_enter_def
  r_fic_theatre_respond_def r_fic_theatre_final_def r_fic_authors_setup_def r_fic_authors_complication_def
  r_fic_authors_resolution_def r_del_position_def r_del_negotiate_def r_del_vote_def r_teach_explain_def
  r_teach_misconception_def r_teach_remember_def r_est_propose_def r_est_update_def r_est_commit_def r_interr_open_def
  r_interr_cross_def r_interr_hold_def r_legacy_int_open_def r_legacy_int_probe_def r_legacy_collab_reason_def

lemma sound_renderers:
  "sound_renderer r_debate_me" "sound_renderer r_debate_others" "sound_renderer r_debate_closing"
  "sound_renderer r_int_me" "sound_renderer r_int_me_probe" "sound_renderer r_int_me_summary"
  "sound_renderer r_int_yall" "sound_renderer r_int_yall_synthesize" "sound_renderer r_int_yall_disagree"
  "sound_renderer r_int_eachother" "sound_renderer r_col_joint_propose" "sound_renderer r_col_joint_build_on"
  "sound_renderer r_col_joint_synthesize" "sound_renderer r_col_role_plan" "sound_renderer r_col_role_conflicts"
  "sound_renderer r_col_role_consolidate" "sound_renderer r_col_brainstorm_diverge"
  "sound_renderer r_col_brainstorm_cluster" "sound_renderer r_col_brainstorm_top3" "sound_renderer r_con_free_open"
  "sound_renderer r_con_free_respond" "sound_renderer r_con_free_reflect" "sound_renderer r_con_soc_question"
  "sound_renderer r_con_soc_answer" "sound_renderer r_con_soc_unanswered" "sound_renderer r_con_dev_position"
  "sound_renderer r_con_dev_flip" "sound_renderer r_con_dev_final" "sound_renderer r_fic_theatre_enter"
  "sound_renderer r_fic_theatre_respond" "sound_renderer r_fic_theatre_final" "sound_renderer r_fic_authors_setup"
  "sound_renderer r_fic_authors_complication" "sound_renderer r_fic_authors_resolution"
  "sound_renderer r_del_position" "sound_renderer r_del_negotiate" "sound_renderer r_del_vote"
  "sound_renderer r_teach_explain" "sound_renderer r_teach_misconception" "sound_renderer r_teach_remember"
  "sound_renderer r_est_propose" "sound_renderer r_est_update" "sound_renderer r_est_commit"
  "sound_renderer r_interr_open" "sound_renderer r_interr_cross" "sound_renderer r_interr_hold"
  "sound_renderer r_legacy_int_open" "sound_renderer r_legacy_int_probe" "sound_renderer r_legacy_collab_reason"
  by (rule sound_joined, rule renderer_defs, simp, auto simp: ctx_ok_def intro: piece_fine)+

lemma sound_addressed:
  assumes "\<And>repr system ctx. f repr system ctx = rbind (addressed repr ctx k nothing) (\<lambda>b. joined (parts b repr system ctx))"
    and "\<And>b repr system ctx. Inr system \<in> set (parts b repr system ctx)"
    and "\<And>ctx. ctx_ok ctx \<Longrightarrow> turns_ok ctx k"
    and "\<And>b repr system ctx. ctx_ok ctx \<Longrightarrow> list_all (\<lambda>p. \<exists>t. p = Inr t) (parts b repr system ctx)"
  shows "sound_renderer f"
proof -
  have "\<exists>t. f repr system ctx = Inr t \<and> sublist system t" if ok: "ctx_ok ctx" for repr system ctx
  proof -
    obtain b where "addressed repr ctx k nothing = Inr b" using addressed_fine assms(3) ok by blast
    then have "f repr system ctx = joined (parts b repr system ctx)" by (simp add: assms(1))
    then show ?thesis using joined_fine assms(2,4) ok by metis
  qed
  then show ?thesis by (simp add: sound_renderer_def)
qed

lemma sound_addressing: "sound_renderer r_debate_rebuttal" "sound_renderer r_int_eachother_answer"
  by (rule sound_addressed, rule r_debate_rebuttal_def r_int_eachother_answer_def, simp, simp add: ctx_ok_def,
      auto simp: ctx_ok_def intro: piece_fine)+

lemma recipes_sound: "list_all (\<lambda>r. sound_renderer (rc_render r)) recipe_list"
  by (simp add: recipe_list_def sound_renderers sound_addressing)

lemma recipe_renders:
  assumes "get_recipe role mode = Inr r" and "ctx_ok ctx"
  obtains t where "render_prompt repr role mode system ctx = Inr t" "sublist system t"
proof -
  have "sound_renderer (rc_render r)" using assms(1) recipes_sound by (simp add: get_recipe_Inr list_all_iff)
  with assms(2) obtain t where "rc_render r repr system ctx = Inr t" "sublist system t" unfolding sound_renderer_def by blast
  with assms(1) show ?thesis using that by (simp add: render_prompt_def)
qed

end
