(* ===== verification/KnowledgeGraph.thy ===== *)
theory KnowledgeGraph
  imports Resources
begin

text \<open>
  \<open>ahp/adapters/knowledge_graph.py\<close>: typed nodes and edges that agents share, the in-memory
  backend, and the choice of the backend of an agent. What a client may rely on, whatever the
  backend, is the locale \<open>kg_backend\<close>. \<open>fsum\<close> is the library's sum of floats, \<open>froot\<close> its power
  \<open>0.5\<close>; similarities are read without NaN, where Python's sort is a sort.
\<close>

section \<open>Nodes and edges\<close>

record KGNode =
  kn_id :: string
  kn_kind :: string
  kn_label :: string
  kn_props :: "(string, pyval) dict"
  kn_embedding :: "pyfloat list option"

definition with_id :: "KGNode \<Rightarrow> string \<Rightarrow> KGNode" where "with_id n i = n\<lparr>kn_id := i\<rparr>"

record KGEdge =
  ke_source :: string
  ke_target :: string
  ke_kind :: string
  ke_props :: "(string, pyval) dict"

record KGSimilarityHit =
  hi_node :: KGNode
  hi_score :: pyfloat

text \<open>An optional argument \<open>kind\<close> may be any value; only a text can equal the kind of a node.\<close>

definition kind_admits :: "pyval \<Rightarrow> string \<Rightarrow> bool" where "kind_admits kind k \<longleftrightarrow> kind = PNone \<or> kind = PStr k"

section \<open>The in-memory backend\<close>

record InMemoryKnowledgeGraph =
  kg_nodes :: "(string, KGNode) dict"
  kg_edges :: "KGEdge list"

definition empty_kg :: InMemoryKnowledgeGraph where "empty_kg = \<lparr>kg_nodes = [], kg_edges = []\<rparr>"

text \<open>\<open>hex12\<close> is the twelve fresh hexadecimal digits of a generated id.\<close>

definition new_id :: "string \<Rightarrow> string \<Rightarrow> string" where "new_id pre hex12 = pre @ ''-'' @ hex12"

definition write_node :: "string \<Rightarrow> KGNode \<Rightarrow> InMemoryKnowledgeGraph \<Rightarrow> KGNode \<times> InMemoryKnowledgeGraph" where
  "write_node hex12 n G =
     (let stored = (if kn_id n \<noteq> [] then n else with_id n (new_id ''node'' hex12))
      in (stored, G\<lparr>kg_nodes := AList.update (kn_id stored) stored (kg_nodes G)\<rparr>))"

definition write_edge :: "KGEdge \<Rightarrow> InMemoryKnowledgeGraph \<Rightarrow> InMemoryKnowledgeGraph res" where
  "write_edge e G =
     (if map_of (kg_nodes G) (ke_source e) = None then Inl KeyError
      else if map_of (kg_nodes G) (ke_target e) = None then Inl KeyError
      else Inr (G\<lparr>kg_edges := kg_edges G @ [e]\<rparr>))"

definition get_node :: "string \<Rightarrow> InMemoryKnowledgeGraph \<Rightarrow> KGNode option" where
  "get_node i G = map_of (kg_nodes G) i"

definition list_nodes :: "pyval \<Rightarrow> InMemoryKnowledgeGraph \<Rightarrow> KGNode list" where
  "list_nodes kind G = filter (\<lambda>n. kind_admits kind (kn_kind n)) (map snd (kg_nodes G))"

definition list_edges :: "string option \<Rightarrow> string option \<Rightarrow> string option \<Rightarrow> InMemoryKnowledgeGraph \<Rightarrow> KGEdge list" where
  "list_edges src tgt kind G =
     filter (\<lambda>e. src \<in> {None, Some (ke_source e)} \<and> tgt \<in> {None, Some (ke_target e)} \<and> kind \<in> {None, Some (ke_kind e)}) (kg_edges G)"

definition delete_node :: "string \<Rightarrow> InMemoryKnowledgeGraph \<Rightarrow> bool \<times> InMemoryKnowledgeGraph" where
  "delete_node i G =
     (if map_of (kg_nodes G) i = None then (False, G)
      else (True, G\<lparr>kg_nodes := AList.delete i (kg_nodes G),
        kg_edges := filter (\<lambda>e. ke_source e \<noteq> i \<and> ke_target e \<noteq> i) (kg_edges G)\<rparr>))"

definition kg_close :: "InMemoryKnowledgeGraph \<Rightarrow> InMemoryKnowledgeGraph" where "kg_close G = \<lparr>kg_nodes = [], kg_edges = []\<rparr>"

section \<open>Similarity\<close>

definition cosine :: "(pyfloat list \<Rightarrow> pyfloat) \<Rightarrow> (pyfloat \<Rightarrow> pyfloat) \<Rightarrow> pyfloat list \<Rightarrow> pyfloat list \<Rightarrow> pyfloat res" where
  "cosine fsum froot a b =
     (if length a \<noteq> length b \<or> a = [] then Inr fzero
      else let dot = fsum (map2 fmul a b); na = froot (fsum (map (\<lambda>x. fmul x x) a)); nb = froot (fsum (map (\<lambda>y. fmul y y) b))
        in if feq na fzero \<or> feq nb fzero then Inr fzero else fdiv dot (fmul na nb))"

text \<open>\<open>xs[:k]\<close>, where a negative \<open>k\<close> counts from the end.\<close>

definition slice_to :: "int \<Rightarrow> 'a list \<Rightarrow> 'a list" where
  "slice_to k xs = take (nat (if 0 \<le> k then k else int (length xs) + k)) xs"

definition query_by_similarity :: "(pyfloat list \<Rightarrow> pyfloat) \<Rightarrow> (pyfloat \<Rightarrow> pyfloat) \<Rightarrow> pyfloat list \<Rightarrow> int \<Rightarrow> pyval \<Rightarrow>
    InMemoryKnowledgeGraph \<Rightarrow> KGSimilarityHit list res" where
  "query_by_similarity fsum froot target top_k kind G =
     rbind (mapM (\<lambda>n. rbind (cosine fsum froot target (the (kn_embedding n))) (\<lambda>sc. Inr \<lparr>hi_node = n, hi_score = sc\<rparr>))
        (filter (\<lambda>n. kn_embedding n \<noteq> None \<and> kind_admits kind (kn_kind n)) (map snd (kg_nodes G)))) (\<lambda>hits.
     Inr (slice_to top_k (sort_key (\<lambda>h. fneg (hi_score h)) hits)))"

section \<open>The backend of an agent\<close>

definition KG_KIND :: string where "KG_KIND = ''kg''"

datatype 'i kg_choice = Fresh_Graph | Shared_Graph "'i option"

definition matching_kg_bindings :: "('s, 'i) ResourceRegistry \<Rightarrow> AgentAddress \<Rightarrow> ('s, 'i) ResourceBinding list" where
  "matching_kg_bindings = bindings_of_kind KG_KIND"

definition build_kg_backend :: "'i option \<Rightarrow> AgentAddress \<Rightarrow> (('s, 'i) ResourceRegistry \<times> 's, 'i kg_choice) op" where
  "build_kg_backend dflt a W =
     (case matching_kg_bindings (fst W) a of
        [] \<Rightarrow> (Inr (case dflt of None \<Rightarrow> Fresh_Graph | Some i \<Rightarrow> Shared_Graph (Some i)), W)
      | [b] \<Rightarrow> sbind (resource_get (res_str (rb_address b))) (\<lambda>i. sret (Shared_Graph i)) W
      | _ \<Rightarrow> (Inl ValueError, W))"

definition kg_mount_description :: "string \<Rightarrow> ('s, 'i) ResourceRegistry \<Rightarrow> AgentAddress \<Rightarrow> string" where
  "kg_mount_description header R a = mount_lines header
     (map (\<lambda>b. ''- '' @ res_str (rb_address b) @ em_dash @ or_text (rb_description b) (ra_name (rb_address b))) (matching_kg_bindings R a))"

definition kg_resource_addresses :: "('s, 'i) ResourceRegistry \<Rightarrow> AgentAddress \<Rightarrow> ResourceAddress list" where
  "kg_resource_addresses R a = map rb_address (matching_kg_bindings R a)"

section \<open>Deterministic identifiers\<close>

definition node_id_for_agent :: "AgentAddress \<Rightarrow> string" where "node_id_for_agent a = ''agent::'' @ to_str a"

definition node_id_for_rubric :: "string \<Rightarrow> string" where "node_id_for_rubric name = ''rubric::'' @ name"

text \<open>\<open>fixed6\<close> is the text of a float with six decimals.\<close>

definition node_id_for_judgement :: "(pyfloat \<Rightarrow> string) \<Rightarrow> AgentAddress \<Rightarrow> AgentAddress \<Rightarrow> pyfloat \<Rightarrow> string" where
  "node_id_for_judgement fixed6 judge subject ts = ''judgement::'' @ to_str judge @ ''::'' @ to_str subject @ ''::'' @ fixed6 ts"

section \<open>Integrity of the in-memory graph\<close>

definition kg_ok :: "InMemoryKnowledgeGraph \<Rightarrow> bool" where
  "kg_ok G \<longleftrightarrow> is_dict (kg_nodes G) \<and> (\<forall>(i, n)\<in>set (kg_nodes G). kn_id n = i \<and> i \<noteq> [])
     \<and> (\<forall>e\<in>set (kg_edges G). get_node (ke_source e) G \<noteq> None \<and> get_node (ke_target e) G \<noteq> None)"

lemma empty_kg_ok [simp]: "kg_ok empty_kg" "kg_ok (kg_close G)"
  by (simp_all add: kg_ok_def empty_kg_def kg_close_def)

lemma get_node_id: "kg_ok G \<Longrightarrow> get_node i G = Some n \<Longrightarrow> kn_id n = i"
  by (auto simp: kg_ok_def get_node_def dest!: map_of_SomeD)

lemma write_node_sel:
  assumes "kn_id n \<noteq> []"
  shows "write_node hex12 n G = (n, G\<lparr>kg_nodes := AList.update (kn_id n) n (kg_nodes G)\<rparr>)"
    "get_node i (snd (write_node hex12 n G)) = (if i = kn_id n then Some n else get_node i G)"
    "list_edges src tgt kind (snd (write_node hex12 n G)) = list_edges src tgt kind G"
  using assms by (simp_all add: write_node_def Let_def get_node_def update_conv' list_edges_def)

lemma update_in: "is_dict d \<Longrightarrow> p \<in> set (AList.update k v d) \<longleftrightarrow> p = (k, v) \<or> p \<in> set d \<and> fst p \<noteq> k"
  by (induction d) (auto simp: image_iff)

lemma write_node_ok: "kg_ok G \<Longrightarrow> kg_ok (snd (write_node hex12 n G))"
  by (auto simp: kg_ok_def write_node_def Let_def update_in is_dict_update get_node_def update_conv' with_id_def new_id_def)

lemma write_edge_ok: "write_edge e G = Inr G' \<Longrightarrow> kg_ok G \<Longrightarrow> kg_ok G'"
  by (auto simp: kg_ok_def write_edge_def get_node_def split: if_splits)

lemma delete_in: "p \<in> set (AList.delete k d) \<longleftrightarrow> p \<in> set d \<and> fst p \<noteq> k"
  by (auto simp: AList.delete_eq)

lemma delete_node_ok: "kg_ok G \<Longrightarrow> kg_ok (snd (delete_node i G))"
  by (auto simp: kg_ok_def delete_node_def get_node_def is_dict_delete delete_conv' delete_in)

lemma delete_node_gone:
  assumes "kg_ok G" "delete_node i G = (found, G')"
  shows "found \<longleftrightarrow> get_node i G \<noteq> None" "get_node j G' = (if j = i then None else get_node j G)"
    "kg_edges G' = filter (\<lambda>e. ke_source e \<noteq> i \<and> ke_target e \<noteq> i) (kg_edges G)"
proof -
  have "filter (\<lambda>e. ke_source e \<noteq> i \<and> ke_target e \<noteq> i) (kg_edges G) = kg_edges G" if "get_node i G = None"
    using assms(1) that by (auto simp: kg_ok_def filter_id_conv)
  with assms(2) show "found \<longleftrightarrow> get_node i G \<noteq> None" "get_node j G' = (if j = i then None else get_node j G)"
    "kg_edges G' = filter (\<lambda>e. ke_source e \<noteq> i \<and> ke_target e \<noteq> i) (kg_edges G)"
    by (auto simp: delete_node_def get_node_def delete_conv' split: if_splits)
qed

lemma in_list_nodes: "kg_ok G \<Longrightarrow> n \<in> set (list_nodes kind G) \<longleftrightarrow> get_node (kn_id n) G = Some n \<and> kind_admits kind (kn_kind n)"
  by (auto simp: kg_ok_def list_nodes_def get_node_def image_iff Bex_def)

section \<open>What a client may rely on\<close>

text \<open>The methods of the protocol class \<open>KnowledgeGraphBackend\<close>, with the similarity query that both backends add.\<close>

record 's KnowledgeGraphBackend =
  kb_write_node :: "KGNode \<Rightarrow> ('s, KGNode) op"
  kb_write_edge :: "KGEdge \<Rightarrow> ('s, KGEdge) op"
  kb_get_node :: "string \<Rightarrow> 's \<Rightarrow> KGNode option"
  kb_list_nodes :: "pyval \<Rightarrow> 's \<Rightarrow> KGNode list"
  kb_list_edges :: "string option \<Rightarrow> string option \<Rightarrow> string option \<Rightarrow> 's \<Rightarrow> KGEdge list"
  kb_delete_node :: "string \<Rightarrow> ('s, bool) op"
  kb_query :: "pyfloat list \<Rightarrow> int \<Rightarrow> pyval \<Rightarrow> 's \<Rightarrow> KGSimilarityHit list res"

text \<open>
  A backend may merge the attributes of a node it already has and the repetitions of an edge; so the
  contract speaks of what a written node at least carries and of edges by their ends and kind.
\<close>

definition carries :: "KGNode option \<Rightarrow> KGNode \<Rightarrow> bool" where
  "carries r n \<longleftrightarrow> (\<exists>m. r = Some m \<and> kn_id m = kn_id n \<and> kn_kind m = kn_kind n \<and> kn_label m = kn_label n
     \<and> map_of (kn_props n) \<subseteq>\<^sub>m map_of (kn_props m))"

definition edge_key :: "KGEdge \<Rightarrow> string \<times> string \<times> string" where "edge_key e = (ke_source e, ke_target e, ke_kind e)"

definition edge_keys :: "'s KnowledgeGraphBackend \<Rightarrow> 's \<Rightarrow> (string \<times> string \<times> string) set" where
  "edge_keys K s = edge_key ` set (kb_list_edges K None None None s)"

text \<open>A write whose answer is not used.\<close>

definition put_node :: "'s KnowledgeGraphBackend \<Rightarrow> KGNode \<Rightarrow> ('s, unit) op" where
  "put_node K n = sbind (kb_write_node K n) (\<lambda>_. sret ())"

definition put_edge :: "'s KnowledgeGraphBackend \<Rightarrow> KGEdge \<Rightarrow> ('s, unit) op" where
  "put_edge K e = sbind (kb_write_edge K e) (\<lambda>_. sret ())"

lemma put_run:
  "kb_write_node K n s = (Inr m, t) \<Longrightarrow> put_node K n s = (Inr (), t)"
  "kb_write_edge K e s = (r, t) \<Longrightarrow> put_edge K e s = (map_sum id (\<lambda>_. ()) r, t)"
  by (simp_all add: put_node_def put_edge_def sbind_def split: sum.split)

locale kg_backend =
  fixes K :: "'s KnowledgeGraphBackend" and good :: "'s \<Rightarrow> bool"
  assumes wrote: "good s \<Longrightarrow> kn_id n \<noteq> [] \<Longrightarrow> \<exists>t. kb_write_node K n s = (Inr n, t) \<and> good t \<and> carries (kb_get_node K (kn_id n) t) n
      \<and> (\<forall>i. i \<noteq> kn_id n \<longrightarrow> kb_get_node K i t = kb_get_node K i s) \<and> edge_keys K t = edge_keys K s"
    and link: "good s \<Longrightarrow> kb_get_node K (ke_source e) s \<noteq> None \<Longrightarrow> kb_get_node K (ke_target e) s \<noteq> None \<Longrightarrow>
      \<exists>t. kb_write_edge K e s = (Inr e, t) \<and> good t \<and> (\<forall>i. kb_get_node K i t = kb_get_node K i s)
        \<and> edge_keys K t = insert (edge_key e) (edge_keys K s)"
    and no_link: "good s \<Longrightarrow> kb_get_node K (ke_source e) s = None \<or> kb_get_node K (ke_target e) s = None \<Longrightarrow>
      kb_write_edge K e s = (Inl KeyError, s)"
    and delete: "good s \<Longrightarrow> \<exists>t. kb_delete_node K i s = (Inr (kb_get_node K i s \<noteq> None), t) \<and> good t
        \<and> (\<forall>j. kb_get_node K j t = (if j = i then None else kb_get_node K j s))
        \<and> edge_keys K t = {(a, b, k) \<in> edge_keys K s. a \<noteq> i \<and> b \<noteq> i}"
    and ends: "good s \<Longrightarrow> (a, b, k) \<in> edge_keys K s \<Longrightarrow> kb_get_node K a s \<noteq> None \<and> kb_get_node K b s \<noteq> None"
    and listed: "good s \<Longrightarrow> n \<in> set (kb_list_nodes K kind s) \<longleftrightarrow> kb_get_node K (kn_id n) s = Some n \<and> kind_admits kind (kn_kind n)"
begin

text \<open>Writing a batch of nodes leaves every other node and all edges alone.\<close>

lemma write_nodes:
  assumes "good s" "\<forall>n\<in>set ns. kn_id n \<noteq> []"
  shows "\<exists>t. sfor (put_node K) ns s = (Inr (), t) \<and> good t
    \<and> (\<forall>i. i \<notin> kn_id ` set ns \<longrightarrow> kb_get_node K i t = kb_get_node K i s)
    \<and> (distinct (map kn_id ns) \<longrightarrow> (\<forall>n\<in>set ns. carries (kb_get_node K (kn_id n) t) n)) \<and> edge_keys K t = edge_keys K s"
  using assms
proof (induction ns arbitrary: s)
  case (Cons n ns)
  then obtain u where u: "kb_write_node K n s = (Inr n, u)" "good u" "carries (kb_get_node K (kn_id n) u) n"
    "\<forall>i. i \<noteq> kn_id n \<longrightarrow> kb_get_node K i u = kb_get_node K i s" "edge_keys K u = edge_keys K s"
    using wrote [of s n] by auto
  have ns: "\<forall>n\<in>set ns. kn_id n \<noteq> []" using Cons.prems by simp
  from Cons.IH [OF u(2) ns] obtain t where t: "sfor (put_node K) ns u = (Inr (), t)" "good t"
    "\<forall>i. i \<notin> kn_id ` set ns \<longrightarrow> kb_get_node K i t = kb_get_node K i u"
    "distinct (map kn_id ns) \<longrightarrow> (\<forall>n\<in>set ns. carries (kb_get_node K (kn_id n) t) n)" "edge_keys K t = edge_keys K u" by blast
  have "sfor (put_node K) (n # ns) s = (Inr (), t)"
    using put_run(1) [OF u(1)] t(1) by (simp add: sbind_def)
  with u t show ?case by (intro exI [of _ t]) auto
qed simp

text \<open>Linking existing nodes adds exactly the edges asked for.\<close>

lemma link_all:
  assumes "good s" "\<forall>e\<in>set es. kb_get_node K (ke_source e) s \<noteq> None \<and> kb_get_node K (ke_target e) s \<noteq> None"
  shows "\<exists>t. sfor (put_edge K) es s = (Inr (), t) \<and> good t
    \<and> (\<forall>i. kb_get_node K i t = kb_get_node K i s) \<and> edge_keys K t = edge_key ` set es \<union> edge_keys K s"
  using assms
proof (induction es arbitrary: s)
  case (Cons e es)
  then obtain u where u: "kb_write_edge K e s = (Inr e, u)" "good u" "\<forall>i. kb_get_node K i u = kb_get_node K i s"
    "edge_keys K u = insert (edge_key e) (edge_keys K s)" using link [of s e] by auto
  have es: "\<forall>e\<in>set es. kb_get_node K (ke_source e) u \<noteq> None \<and> kb_get_node K (ke_target e) u \<noteq> None" using Cons.prems u(3) by simp
  from Cons.IH [OF u(2) es] obtain t where t: "sfor (put_edge K) es u = (Inr (), t)" "good t"
    "\<forall>i. kb_get_node K i t = kb_get_node K i u" "edge_keys K t = edge_key ` set es \<union> edge_keys K u" by blast
  have "sfor (put_edge K) (e # es) s = (Inr (), t)"
    using put_run(2) [OF u(1)] t(1) by (simp add: sbind_def)
  with u t show ?case by (intro exI [of _ t]) auto
qed simp

end

text \<open>A backend that keeps the edges as a list, one entry for every write.\<close>

abbreviation all_edges :: "'s KnowledgeGraphBackend \<Rightarrow> 's \<Rightarrow> KGEdge list" where
  "all_edges K s \<equiv> kb_list_edges K None None None s"

locale kg_log = kg_backend +
  assumes node_only: "kb_write_node K n s = (r, t) \<Longrightarrow> all_edges K t = all_edges K s"
    and appended: "kb_write_edge K e s = (Inr e', t) \<Longrightarrow> all_edges K t = all_edges K s @ [e]"
begin

lemma put_logged:
  "put_node K n s = (r, t) \<Longrightarrow> all_edges K t = all_edges K s"
  "put_edge K e s = (Inr (), t) \<Longrightarrow> all_edges K t = all_edges K s @ [e]"
  by (auto simp: put_node_def put_edge_def sbind_def dest: node_only appended split: prod.splits sum.splits)

end

text \<open>The in-memory backend as an object beside the rest of the store.\<close>

definition memory_backend :: "(pyfloat list \<Rightarrow> pyfloat) \<Rightarrow> (pyfloat \<Rightarrow> pyfloat) \<Rightarrow> string \<Rightarrow> (InMemoryKnowledgeGraph \<times> 'w) KnowledgeGraphBackend" where
  "memory_backend fsum froot hex12 =
     \<lparr>kb_write_node = (\<lambda>n (G, w). case write_node hex12 n G of (m, G') \<Rightarrow> (Inr m, (G', w))),
      kb_write_edge = (\<lambda>e (G, w). case write_edge e G of Inl x \<Rightarrow> (Inl x, (G, w)) | Inr G' \<Rightarrow> (Inr e, (G', w))),
      kb_get_node = (\<lambda>i (G, w). get_node i G), kb_list_nodes = (\<lambda>kind (G, w). list_nodes kind G),
      kb_list_edges = (\<lambda>src tgt kind (G, w). list_edges src tgt kind G),
      kb_delete_node = (\<lambda>i (G, w). case delete_node i G of (found, G') \<Rightarrow> (Inr found, (G', w))),
      kb_query = (\<lambda>v k kind (G, w). query_by_similarity fsum froot v k kind G)\<rparr>"

lemma memory_backend_sel [simp]:
  "kb_write_node (memory_backend fsum froot hex12) n (G, w) = (case write_node hex12 n G of (m, G') \<Rightarrow> (Inr m, (G', w)))"
  "kb_write_edge (memory_backend fsum froot hex12) e (G, w) = (case write_edge e G of Inl x \<Rightarrow> (Inl x, (G, w)) | Inr G' \<Rightarrow> (Inr e, (G', w)))"
  "kb_get_node (memory_backend fsum froot hex12) i (G, w) = get_node i G"
  "kb_list_nodes (memory_backend fsum froot hex12) kind (G, w) = list_nodes kind G"
  "kb_delete_node (memory_backend fsum froot hex12) i (G, w) = (case delete_node i G of (found, G') \<Rightarrow> (Inr found, (G', w)))"
  "kb_query (memory_backend fsum froot hex12) v k kind (G, w) = query_by_similarity fsum froot v k kind G"
  by (simp_all add: memory_backend_def)

lemma memory_edge_keys [simp]: "edge_keys (memory_backend fsum froot hex12) (G, w) = edge_key ` set (kg_edges G)"
  by (simp add: edge_keys_def memory_backend_def list_edges_def)

interpretation memory_kg: kg_backend "memory_backend fsum froot hex12" "\<lambda>s. kg_ok (fst s)" for fsum froot hex12
proof
  let ?K = "memory_backend fsum froot hex12 :: (InMemoryKnowledgeGraph \<times> 'a) KnowledgeGraphBackend"
  fix s :: "InMemoryKnowledgeGraph \<times> 'a" and n e i a b k kind
  obtain G w where s: "s = (G, w)" by (cases s)
  assume "kg_ok (fst s)" then have G: "kg_ok G" by (simp add: s)
  show "\<exists>t. kb_write_node ?K n s = (Inr n, t) \<and> kg_ok (fst t) \<and> carries (kb_get_node ?K (kn_id n) t) n
      \<and> (\<forall>i. i \<noteq> kn_id n \<longrightarrow> kb_get_node ?K i t = kb_get_node ?K i s) \<and> edge_keys ?K t = edge_keys ?K s" if "kn_id n \<noteq> []"
  proof -
    have "kg_ok (G\<lparr>kg_nodes := AList.update (kn_id n) n (kg_nodes G)\<rparr>)" using write_node_ok [OF G, of hex12 n] write_node_sel(1) [OF that, of hex12 G] by simp
    then show ?thesis using that
      by (intro exI [of _ "(G\<lparr>kg_nodes := AList.update (kn_id n) n (kg_nodes G)\<rparr>, w)"])
        (simp add: s write_node_sel(1) get_node_def update_conv' carries_def)
  qed
  show "kb_write_edge ?K e s = (Inl KeyError, s)" if "kb_get_node ?K (ke_source e) s = None \<or> kb_get_node ?K (ke_target e) s = None"
    using that by (auto simp: s write_edge_def get_node_def)
  show "\<exists>t. kb_write_edge ?K e s = (Inr e, t) \<and> kg_ok (fst t) \<and> (\<forall>i. kb_get_node ?K i t = kb_get_node ?K i s)
        \<and> edge_keys ?K t = insert (edge_key e) (edge_keys ?K s)"
    if "kb_get_node ?K (ke_source e) s \<noteq> None" "kb_get_node ?K (ke_target e) s \<noteq> None"
  proof -
    have w: "write_edge e G = Inr (G\<lparr>kg_edges := kg_edges G @ [e]\<rparr>)"
      using that by (simp add: s write_edge_def get_node_def)
    from write_edge_ok [OF this G] w show ?thesis
      by (intro exI [of _ "(G\<lparr>kg_edges := kg_edges G @ [e]\<rparr>, w)"]) (simp add: s get_node_def)
  qed
  show "\<exists>t. kb_delete_node ?K i s = (Inr (kb_get_node ?K i s \<noteq> None), t) \<and> kg_ok (fst t)
        \<and> (\<forall>j. kb_get_node ?K j t = (if j = i then None else kb_get_node ?K j s))
        \<and> edge_keys ?K t = {(a, b, k) \<in> edge_keys ?K s. a \<noteq> i \<and> b \<noteq> i}"
  proof -
    obtain found G' where d: "delete_node i G = (found, G')" by (cases "delete_node i G")
    note gone = delete_node_gone [OF G d]
    have "kg_ok G'" using delete_node_ok [OF G, of i] d by simp
    moreover have "edge_keys ?K (G', w) = {(a, b, k) \<in> edge_keys ?K s. a \<noteq> i \<and> b \<noteq> i}"
      by (auto simp: s gone(3) edge_key_def)
    moreover have "kb_delete_node ?K i s = (Inr (kb_get_node ?K i s \<noteq> None), (G', w))"
      by (simp add: s d gone(1))
    ultimately show ?thesis using gone(2) by (intro exI [of _ "(G', w)"]) (simp add: s)
  qed
  show "kb_get_node ?K a s \<noteq> None \<and> kb_get_node ?K b s \<noteq> None" if "(a, b, k) \<in> edge_keys ?K s"
    using that G by (auto simp: s edge_key_def kg_ok_def)
  show "n \<in> set (kb_list_nodes ?K kind s) \<longleftrightarrow> kb_get_node ?K (kn_id n) s = Some n \<and> kind_admits kind (kn_kind n)"
    using in_list_nodes [OF G] by (simp add: s)
qed

interpretation memory_log: kg_log "memory_backend fsum froot hex12" "\<lambda>s. kg_ok (fst s)" for fsum froot hex12
proof
  let ?K = "memory_backend fsum froot hex12 :: (InMemoryKnowledgeGraph \<times> 'a) KnowledgeGraphBackend"
  have edges: "all_edges ?K (G, w) = kg_edges G" for G w by (simp add: memory_backend_def list_edges_def)
  show "all_edges ?K t = all_edges ?K s" if "kb_write_node ?K n s = (r, t)" for n s r t
    using that by (cases s; cases t) (auto simp: edges write_node_def Let_def split: prod.splits if_splits)
  show "all_edges ?K t = all_edges ?K s @ [e]" if "kb_write_edge ?K e s = (Inr e', t)" for e s e' t
    using that by (cases s; cases t) (auto simp: edges write_edge_def split: if_splits)
qed

section \<open>The graph never dangles\<close>

datatype kg_step = Put string KGNode | Link KGEdge | Drop string | Close

fun kg_apply :: "kg_step \<Rightarrow> InMemoryKnowledgeGraph \<Rightarrow> InMemoryKnowledgeGraph" where
  "kg_apply (Put hex12 n) G = snd (write_node hex12 n G)"
| "kg_apply (Link e) G = (case write_edge e G of Inl _ \<Rightarrow> G | Inr G' \<Rightarrow> G')"
| "kg_apply (Drop i) G = snd (delete_node i G)"
| "kg_apply Close G = kg_close G"

lemma kg_apply_ok: "kg_ok G \<Longrightarrow> kg_ok (kg_apply x G)"
  by (cases x) (auto simp: write_node_ok delete_node_ok intro: write_edge_ok split: sum.split)

lemma kg_run_ok: "kg_ok G \<Longrightarrow> kg_ok (fold kg_apply xs G)"
  by (induction xs arbitrary: G) (simp_all add: kg_apply_ok)

text \<open>C24: A knowledge graph never dangles: after any sequence of writes, links, deletions and closings, failed ones
  included, every listed edge joins two nodes that the graph still has, every node is found under its own id, and
  deleting a node takes exactly its edges along.\<close>

theorem graph_never_dangles:
  "let G = fold kg_apply xs empty_kg in
     (list_all (\<lambda>e. get_node (ke_source e) G \<noteq> None \<and> get_node (ke_target e) G \<noteq> None) (list_edges None None None G))
   \<and> list_all (\<lambda>n. get_node (kn_id n) G = Some n) (list_nodes PNone G)
   \<and> get_node i (snd (delete_node i G)) = None
   \<and> list_edges None None None (snd (delete_node i G)) = filter (\<lambda>e. ke_source e \<noteq> i \<and> ke_target e \<noteq> i) (list_edges None None None G)"
proof -
  let ?G = "fold kg_apply xs empty_kg"
  have ok: "kg_ok ?G" by (rule kg_run_ok) simp
  obtain found G' where d: "delete_node i ?G = (found, G')" by (cases "delete_node i ?G")
  have edges: "list_edges None None None H = kg_edges H" for H by (simp add: list_edges_def)
  have "list_all (\<lambda>e. get_node (ke_source e) ?G \<noteq> None \<and> get_node (ke_target e) ?G \<noteq> None) (kg_edges ?G)"
    using ok by (simp add: kg_ok_def list_all_iff)
  moreover have "list_all (\<lambda>n. get_node (kn_id n) ?G = Some n) (list_nodes PNone ?G)"
    using in_list_nodes [OF ok, of _ PNone] by (simp add: list_all_iff)
  ultimately show ?thesis using delete_node_gone(2,3) [OF ok d] d by (simp add: edges Let_def)
qed

section \<open>The nearest nodes\<close>

lemma take_least:
  assumes "x \<in> set (take k (sort_key f xs))" and "y \<in> set (drop k (sort_key f xs))"
  shows "f x \<le> f y"
proof -
  have "sorted (map f (take k (sort_key f xs) @ drop k (sort_key f xs)))" by simp
  then show ?thesis using assms by (simp only: map_append sorted_append) auto
qed

lemma fneg_le: "a \<noteq> NaN \<Longrightarrow> b \<noteq> NaN \<Longrightarrow> fneg a \<le> fneg b \<longleftrightarrow> b \<le> a"
  by (cases a; cases b) (simp_all add: less_eq_pyfloat_def)

lemma all2_partner:
  assumes "list_all2 P xs ys"
  shows "y \<in> set ys \<Longrightarrow> \<exists>x\<in>set xs. P x y" "x \<in> set xs \<Longrightarrow> \<exists>y\<in>set ys. P x y"
  using assms by (induction xs ys rule: list_all2_induct) auto

abbreviation candidates :: "pyval \<Rightarrow> InMemoryKnowledgeGraph \<Rightarrow> KGNode list" where
  "candidates kind G \<equiv> filter (\<lambda>n. kn_embedding n \<noteq> None) (list_nodes kind G)"

text \<open>C25: A similarity query returns the nearest nodes: as many as asked for or as there are, in descending order of
  their score, each a node of the kind asked for with its own score, and no node left out scores higher than
  one returned.\<close>

theorem similarity_nearest:
  assumes "query_by_similarity fsum froot v k kind G = Inr hits" and "0 \<le> k"
    and "\<forall>n\<in>set (candidates kind G). cosine fsum froot v (the (kn_embedding n)) \<noteq> Inr NaN"
  shows "length hits = min (nat k) (length (candidates kind G)) \<and> sorted_wrt (\<lambda>g h. hi_score h \<le> hi_score g) hits
    \<and> (\<forall>h\<in>set hits. hi_node h \<in> set (candidates kind G) \<and> cosine fsum froot v (the (kn_embedding (hi_node h))) = Inr (hi_score h)
        \<and> (\<forall>n\<in>set (candidates kind G). n \<in> hi_node ` set hits \<or>
             (\<exists>sc. cosine fsum froot v (the (kn_embedding n)) = Inr sc \<and> sc \<le> hi_score h)))"
proof -
  let ?score = "\<lambda>n. cosine fsum froot v (the (kn_embedding n))" and ?key = "\<lambda>h. fneg (hi_score h)"
  have "filter (\<lambda>n. kn_embedding n \<noteq> None \<and> kind_admits kind (kn_kind n)) (map snd (kg_nodes G)) = candidates kind G"
    by (simp add: list_nodes_def conj_commute)
  with assms(1) obtain all where m: "list_all2 (\<lambda>n h. \<exists>sc. ?score n = Inr sc \<and> \<lparr>hi_node = n, hi_score = sc\<rparr> = h) (candidates kind G) all"
    and hits: "hits = slice_to k (sort_key ?key all)"
    by (auto simp: query_by_similarity_def rbind_eq_Inr mapM_Inr)
  from m have all: "list_all2 (\<lambda>n h. ?score n = Inr (hi_score h) \<and> hi_node h = n) (candidates kind G) all"
    by (rule list_all2_mono) auto
  have take: "hits = take (nat k) (sort_key ?key all)" using assms(2) by (simp add: hits slice_to_def)
  have in_all: "hi_node h \<in> set (candidates kind G) \<and> ?score (hi_node h) = Inr (hi_score h) \<and> hi_score h \<noteq> NaN" if "h \<in> set all" for h
    using all2_partner(1) [OF all that] assms(3) by metis
  have from_all: "\<exists>h\<in>set all. hi_node h = n" if "n \<in> set (candidates kind G)" for n
    using all2_partner(2) [OF all that] by blast
  have sub: "h \<in> set all" if "h \<in> set hits" for h using in_set_takeD [OF that [unfolded take]] by simp
  have len: "length hits = min (nat k) (length (candidates kind G))"
    using all by (simp add: take list_all2_lengthD min.commute)
  have "sorted (map ?key hits)" unfolding take take_map [symmetric] by (simp add: sorted_wrt_take)
  then have sorted: "sorted_wrt (\<lambda>g h. hi_score h \<le> hi_score g) hits"
    unfolding sorted_map by (rule sorted_wrt_mono_rel [rotated]) (use sub in_all fneg_le in blast)
  have least: "n \<in> hi_node ` set hits \<or> (\<exists>sc. ?score n = Inr sc \<and> sc \<le> hi_score h)"
    if h: "h \<in> set hits" and n: "n \<in> set (candidates kind G)" for h n
  proof -
    obtain g where g: "g \<in> set all" "hi_node g = n" using from_all [OF n] by blast
    have "set all = set hits \<union> set (drop (nat k) (sort_key ?key all))"
      unfolding take by (metis append_take_drop_id set_append set_sort)
    then consider "g \<in> set hits" | "g \<in> set (drop (nat k) (sort_key ?key all))" using g(1) by blast
    then show ?thesis
    proof cases
      case 2
      from take_least [OF h [unfolded take] 2] have "hi_score g \<le> hi_score h" using in_all sub h g(1) fneg_le by blast
      with in_all [OF g(1)] g(2) show ?thesis by blast
    qed (use g(2) in blast)
  qed
  show ?thesis using len sorted least in_all sub by blast
qed

definition sample_node :: "string \<Rightarrow> rat \<Rightarrow> KGNode" where
  "sample_node i x = \<lparr>kn_id = i, kn_kind = ''Belief'', kn_label = i, kn_props = [], kn_embedding = Some [Fin x]\<rparr>"

definition sample_graph :: InMemoryKnowledgeGraph where
  "sample_graph = \<lparr>kg_nodes = [(''a'', sample_node ''a'' (-1)), (''b'', sample_node ''b'' 0), (''c'', sample_node ''c'' 1)], kg_edges = []\<rparr>"

lemma sample_cosine:
  "x \<in> {-1, 0, 1} \<Longrightarrow> cosine hd (\<lambda>x. x) [Fin 1] [Fin x] = Inr (Fin x)"
  using mk_of_int [of 1] mk_of_int [of "-1"] by (auto simp: cosine_def)

theorem similarity_nearest_witness:
  "query_by_similarity hd (\<lambda>x. x) [Fin 1] 2 PNone sample_graph =
       Inr [\<lparr>hi_node = sample_node ''c'' 1, hi_score = Fin 1\<rparr>, \<lparr>hi_node = sample_node ''b'' 0, hi_score = Fin 0\<rparr>]
   \<and> (\<exists>sc. cosine hd (\<lambda>x. x) [Fin 1] [Fin (-1)] = Inr sc \<and> sc \<le> Fin 0)"
proof -
  let ?hits = "[\<lparr>hi_node = sample_node ''c'' 1, hi_score = Fin 1\<rparr>, \<lparr>hi_node = sample_node ''b'' 0, hi_score = Fin 0\<rparr>]"
  have c: "candidates PNone sample_graph = [sample_node ''a'' (-1), sample_node ''b'' 0, sample_node ''c'' 1]"
    by (simp add: list_nodes_def sample_graph_def kind_admits_def sample_node_def)
  have q: "query_by_similarity hd (\<lambda>x. x) [Fin 1] 2 PNone sample_graph = Inr ?hits"
    by (simp add: query_by_similarity_def sample_graph_def kind_admits_def sample_node_def sample_cosine slice_to_def)
  have nan: "\<forall>n\<in>set (candidates PNone sample_graph). cosine hd (\<lambda>x. x) [Fin 1] (the (kn_embedding n)) \<noteq> Inr NaN"
    unfolding c by (simp add: sample_node_def sample_cosine)
  from similarity_nearest [OF q _ nan] show ?thesis
    unfolding c by (auto simp: q sample_node_def)
qed

end
