(* ===== verification/InfoSource.thy ===== *)
theory InfoSource
  imports KnowledgeGraph Gateways
begin

text \<open>
  \<open>ahp/adapters/info_source.py\<close>: agents that answer queries against a backing store. A subclass is
  its tiers, its label and the hooks it overrides. \<open>to_text\<close> is \<open>str\<close> on values that are not strings,
  \<open>repr\<close> the quoted form of a text, \<open>float_text\<close> the float a text denotes. Letter case and white
  space are those of the ASCII range.
\<close>

section \<open>Information sources\<close>

record 's InfoClass =
  ic_output_tiers :: "string list"
  ic_backend_label :: string
  ic_query :: "(Message \<Rightarrow> ('s, pyval) op) option"
  ic_query_embedding :: "(Message \<Rightarrow> ('s, pyval) op) option"
  ic_list :: "(Message \<Rightarrow> ('s, pyval) op) option"
  ic_write :: "(Message \<Rightarrow> ('s, pyval) op) option"

definition new_info_source :: "pyfloat \<Rightarrow> 's InfoClass \<Rightarrow> AgentAddress \<Rightarrow> 's ProtocolEngine \<Rightarrow> GroupRegistry option \<Rightarrow>
    AgentMeta option \<Rightarrow> pyfloat \<Rightarrow> string option \<Rightarrow> 's AHPAgent res" where
  "new_info_source now C address engine groups metadata interval default_thread =
     (if \<not> list_ex (\<lambda>c. [c] \<in> set (ic_output_tiers C)) (a_accept address) then Inl ValueError
      else
        let meta = (case metadata of None \<Rightarrow> default_meta now | Some m \<Rightarrow> m);
            descriptor = PDict [(''output_tiers'', PList (map PStr (sort (remdups (ic_output_tiers C))))), (''backend'', PStr (ic_backend_label C))]
        in Inr (new_agent now address engine groups (Some (stamp_meta meta ''info_source'' descriptor ''info-source'')) interval default_thread))"

definition info_hook :: "(Message \<Rightarrow> ('s, pyval) op) option \<Rightarrow> Message \<Rightarrow> ('s, pyval) op" where
  "info_hook h m = (case h of None \<Rightarrow> sraise NotImplementedError | Some f \<Rightarrow> f m)"

definition hook_for :: "'s InfoClass \<Rightarrow> string \<Rightarrow> (Message \<Rightarrow> ('s, pyval) op) option option" where
  "hook_for C code =
     (if code = ''info.query'' then Some (ic_query C)
      else if code = ''info.query.embedding'' then Some (ic_query_embedding C)
      else if code = ''info.list'' then Some (ic_list C)
      else if code = ''info.write'' then Some (ic_write C)
      else None)"

definition info_handle_message :: "'s InfoClass \<Rightarrow> 's AHPAgent \<Rightarrow> minted \<Rightarrow> 's handler" where
  "info_handle_message C a mt m =
     (case hook_for C (m_code m) of
        None \<Rightarrow> sret None
      | Some h \<Rightarrow> sbind (info_hook h m) (\<lambda>body.
          if body = PNone then sret None
          else sbind (slift (gateway_reply a mt m body)) (\<lambda>r. sret (Some r))))"

section \<open>Words\<close>

text \<open>\<open>text.split()\<close>, \<open>text.lower()\<close>, \<open>text.count(p)\<close>.\<close>

fun split_space :: "string \<Rightarrow> string \<Rightarrow> string list" where
  "split_space word [] = (if word = [] then [] else [rev word])"
| "split_space word (c # cs) =
     (if is_space c then (if word = [] then [] else [rev word]) @ split_space [] cs else split_space (c # word) cs)"

definition words :: "string \<Rightarrow> string list" where "words = split_space []"

definition lower :: "string \<Rightarrow> string" where "lower = map lower_char"

function py_count :: "string \<Rightarrow> string \<Rightarrow> int" where
  "py_count p s =
     (if p = [] then int (length s) + 1
      else if s = [] then 0
      else if startswith s p then 1 + py_count p (drop (length p) s)
      else py_count p (tl s))"
  by auto
termination by (relation "measure (\<lambda>(p, s). length s)") auto

declare py_count.simps [simp del]

definition term_score :: "string list \<Rightarrow> string \<Rightarrow> int" where
  "term_score terms text_lower = sum_list (map (\<lambda>t. py_count t text_lower) terms)"

definition blank_between :: string where "blank_between = [CHR 0x0A, CHR 0x0A]"

section \<open>Documents\<close>

definition extract_query :: "(pyval \<Rightarrow> string) \<Rightarrow> pyval \<Rightarrow> string" where
  "extract_query to_text body =
     (case body of
        PStr t \<Rightarrow> t
      | PDict d \<Rightarrow>
          (let v = dict_get d ''query'' PNone; w = dict_get d ''q'' PNone
           in if truthy v then value_text to_text v else if truthy w then value_text to_text w else [])
      | _ \<Rightarrow> to_text body)"

definition int_or :: "int \<Rightarrow> pyval \<Rightarrow> int res" where
  "int_or dflt v = (case py_int v of Inr k \<Rightarrow> Inr k | Inl e \<Rightarrow> if e = TypeError \<or> e = ValueError then Inr dflt else Inl e)"

definition extract_top_k :: "int \<Rightarrow> pyval \<Rightarrow> int res" where
  "extract_top_k dflt body = (case body of PDict d \<Rightarrow> int_or dflt (dict_get d ''top_k'' (PInt dflt)) | _ \<Rightarrow> Inr dflt)"

text \<open>The documents that score, best first, equal scores by name.\<close>

definition scored_documents :: "(string, string) dict \<Rightarrow> string list \<Rightarrow> (int \<times> string \<times> string) list" where
  "scored_documents documents terms =
     sort_key (\<lambda>(sc, name, _). (- sc, name))
       (filter (\<lambda>(sc, _). 0 < sc) (map (\<lambda>(name, tx). (term_score terms (lower tx), name, tx)) documents))"

definition static_query :: "(pyval \<Rightarrow> string) \<Rightarrow> (string \<Rightarrow> string) \<Rightarrow> (string, string) dict \<Rightarrow> int \<Rightarrow> Message \<Rightarrow> ('s, pyval) op" where
  "static_query to_text repr documents default_top_k m =
     (let query = extract_query to_text (m_body m) in
      sbind (slift (extract_top_k default_top_k (m_body m))) (\<lambda>top_k.
      let snippets = map (\<lambda>(_, name, tx). ''['' @ name @ ''] '' @ tx) (slice_to top_k (scored_documents documents (map lower (words query))))
      in sret (PStr (if snippets \<noteq> [] then join blank_between snippets
           else ''(no matches in static-document source for '' @ repr query @ '')''))))"

definition static_list :: "(string, string) dict \<Rightarrow> Message \<Rightarrow> ('s, pyval) op" where
  "static_list documents m = sret (PDict [(''documents'', PList (map PStr (sort (map fst documents))))])"

definition StaticDocumentSource :: "(pyval \<Rightarrow> string) \<Rightarrow> (string \<Rightarrow> string) \<Rightarrow> (string, string) dict \<Rightarrow> int \<Rightarrow> 's InfoClass" where
  "StaticDocumentSource to_text repr documents default_top_k =
     \<lparr>ic_output_tiers = [''s''], ic_backend_label = ''static-document'', ic_query = Some (static_query to_text repr documents default_top_k),
      ic_query_embedding = None, ic_list = Some (static_list documents), ic_write = None\<rparr>"

section \<open>Knowledge graphs\<close>

definition string_props :: "KGNode \<Rightarrow> string list" where
  "string_props n = concat (map (\<lambda>(_, v). case v of PStr t \<Rightarrow> [t] | _ \<Rightarrow> []) (kn_props n))"

definition scored_nodes :: "KGNode list \<Rightarrow> string list \<Rightarrow> (int \<times> KGNode) list" where
  "scored_nodes nodes terms =
     sort_key (\<lambda>(sc, _). - sc)
       (filter (\<lambda>(sc, _). 0 < sc) (map (\<lambda>n. (term_score terms (lower (join '' '' (kn_label n # string_props n))), n)) nodes))"

definition kg_query_text :: "(pyval \<Rightarrow> string) \<Rightarrow> pyval \<Rightarrow> string" where
  "kg_query_text to_text body =
     (case body of PStr t \<Rightarrow> t | PDict d \<Rightarrow> value_text to_text (dict_get d ''query'' (PStr [])) | _ \<Rightarrow> to_text body)"

definition kg_query :: "(pyval \<Rightarrow> string) \<Rightarrow> (string \<Rightarrow> string) \<Rightarrow> 's KnowledgeGraphBackend \<Rightarrow> pyval \<Rightarrow> int \<Rightarrow> Message \<Rightarrow> ('s, pyval) op" where
  "kg_query to_text repr K kind default_top_k m =
     (let query = kg_query_text to_text (m_body m) in
      sbind (sread (kb_list_nodes K kind)) (\<lambda>nodes.
      let top = slice_to default_top_k (scored_nodes nodes (map lower (words query)))
      in sret (PStr (if top = [] then ''(no KG matches for '' @ repr query @ '')''
           else join blank_between (map (\<lambda>(_, n). ''['' @ or_text (kn_label n) (kn_id n) @ ''] '' @ join '' '' (string_props n)) top)))))"

text \<open>\<open>[float(x) for x in raw]\<close>.\<close>

definition float_of :: "(string \<Rightarrow> pyfloat res) \<Rightarrow> pyval \<Rightarrow> pyfloat res" where
  "float_of float_text v = (case v of PStr t \<Rightarrow> float_text t | PBytes b \<Rightarrow> float_text b | _ \<Rightarrow> py_float v)"

definition query_vector :: "(string \<Rightarrow> pyfloat res) \<Rightarrow> pyval \<Rightarrow> int \<Rightarrow> (pyfloat list \<times> int) res" where
  "query_vector float_text body default_top_k =
     (case body of
        PList xs \<Rightarrow> rbind (mapM (float_of float_text) xs) (\<lambda>vs. Inr (vs, default_top_k))
      | PDict d \<Rightarrow>
          (let e = dict_get d ''embedding'' PNone; v = dict_get d ''vector'' PNone;
               raw = (if truthy e then e else if truthy v then v else PList [])
           in case rbind (iterate raw) (mapM (float_of float_text)) of
                Inl x \<Rightarrow> if x = TypeError \<or> x = ValueError
                         then rbind (int_or default_top_k (dict_get d ''top_k'' (PInt default_top_k))) (\<lambda>k. Inr ([], k)) else Inl x
              | Inr vs \<Rightarrow> rbind (int_or default_top_k (dict_get d ''top_k'' (PInt default_top_k))) (\<lambda>k. Inr (vs, k)))
      | _ \<Rightarrow> Inr ([], default_top_k))"

definition hit_row :: "KGSimilarityHit \<Rightarrow> pyval" where
  "hit_row h = PDict [(''node_id'', PStr (kn_id (hi_node h))), (''label'', PStr (kn_label (hi_node h))),
     (''kind'', PStr (kn_kind (hi_node h))), (''score'', PFloat (fround (hi_score h) 6))]"

definition kg_query_embedding :: "(string \<Rightarrow> pyfloat res) \<Rightarrow> 's KnowledgeGraphBackend \<Rightarrow> pyval \<Rightarrow> int \<Rightarrow> Message \<Rightarrow> ('s, pyval) op" where
  "kg_query_embedding float_text K kind default_top_k m =
     sbind (slift (query_vector float_text (m_body m) default_top_k)) (\<lambda>(vector, top_k).
     if vector = [] then sret (PDict [(''hits'', PList []), (''error'', PStr ''no vector in request body'')])
     else sbind (sreadr (kb_query K vector top_k kind)) (\<lambda>hits. sret (PDict [(''hits'', PList (map hit_row hits))])))"

definition kg_list :: "'s KnowledgeGraphBackend \<Rightarrow> pyval \<Rightarrow> Message \<Rightarrow> ('s, pyval) op" where
  "kg_list K kind m =
     sbind (sread (kb_list_nodes K (case m_body m of PDict d \<Rightarrow> dict_get d ''kind'' kind | _ \<Rightarrow> kind))) (\<lambda>nodes.
     sret (PDict [(''nodes'', PList (map (\<lambda>n. PDict [(''node_id'', PStr (kn_id n)), (''label'', PStr (kn_label n)), (''kind'', PStr (kn_kind n))]) nodes))]))"

definition KGBackedSource :: "(pyval \<Rightarrow> string) \<Rightarrow> (string \<Rightarrow> string) \<Rightarrow> (string \<Rightarrow> pyfloat res) \<Rightarrow> 's KnowledgeGraphBackend \<Rightarrow> pyval \<Rightarrow> int \<Rightarrow> 's InfoClass" where
  "KGBackedSource to_text repr float_text K kind default_top_k =
     \<lparr>ic_output_tiers = [''s'', ''e''], ic_backend_label = ''knowledge-graph'', ic_query = Some (kg_query to_text repr K kind default_top_k),
      ic_query_embedding = Some (kg_query_embedding float_text K kind default_top_k), ic_list = Some (kg_list K kind), ic_write = None\<rparr>"

section \<open>Counting and searching\<close>

lemma substring_iff: "substring p s \<longleftrightarrow> (\<exists>u v. s = u @ p @ v)"
proof
  assume "substring p s"
  then obtain k where "startswith (drop k s) p" unfolding substring_def list_ex_iff by blast
  then obtain v where "drop k s = p @ v" by (auto simp: startswith_iff)
  then show "\<exists>u v. s = u @ p @ v" using append_take_drop_id [of k s] by metis
next
  assume "\<exists>u v. s = u @ p @ v"
  then obtain u v where "s = u @ p @ v" by blast
  then have "length u \<in> set [0..<Suc (length s)] \<and> startswith (drop (length u) s) p" by (simp add: startswith_iff)
  then show "substring p s" unfolding substring_def list_ex_iff by blast
qed

lemma py_count_nonneg: "0 \<le> py_count p s"
proof (induction p s rule: py_count.induct)
  case (1 p s)
  then show ?case by (subst py_count.simps) auto
qed

lemma py_count_pos: "p \<noteq> [] \<Longrightarrow> 0 < py_count p s \<longleftrightarrow> substring p s"
proof (induction p s rule: py_count.induct)
  case (1 p s)
  consider "s = []" | "s \<noteq> []" "startswith s p" | "s \<noteq> []" "\<not> startswith s p" by blast
  then show ?case
  proof cases
    case 1
    with \<open>p \<noteq> []\<close> show ?thesis by (subst py_count.simps) (auto simp: substring_iff)
  next
    case 2
    then have "substring p s" unfolding substring_iff startswith_iff by (metis append_Nil)
    with 2 \<open>p \<noteq> []\<close> py_count_nonneg [of p "drop (length p) s"] show ?thesis by (subst py_count.simps) auto
  next
    case 3
    have "substring p s \<longleftrightarrow> substring p (tl s)"
    proof
      assume "substring p s"
      then obtain u v where uv: "s = u @ p @ v" by (auto simp: substring_iff)
      with 3 have "u \<noteq> []" by (auto simp: startswith_iff)
      with uv have "tl s = tl u @ p @ v" by simp
      then show "substring p (tl s)" unfolding substring_iff by blast
    next
      assume "substring p (tl s)"
      then obtain u v where "tl s = u @ p @ v" by (auto simp: substring_iff)
      with 3(1) have "s = (hd s # u) @ p @ v" by (cases s) auto
      then show "substring p s" unfolding substring_iff by blast
    qed
    moreover have "py_count p s = py_count p (tl s)" using 3 \<open>p \<noteq> []\<close> by (subst py_count.simps) simp
    ultimately show ?thesis using "1.IH"(2) 3 \<open>p \<noteq> []\<close> by simp
  qed
qed

lemma term_score_nonneg: "0 \<le> term_score terms tx"
  by (induction terms) (auto simp: term_score_def py_count_nonneg)

lemma term_score_pos: "[] \<notin> set terms \<Longrightarrow> 0 < term_score terms tx \<longleftrightarrow> (\<exists>t\<in>set terms. substring t tx)"
proof (induction terms)
  case (Cons t terms)
  have "term_score (t # terms) tx = py_count t tx + term_score terms tx" by (simp add: term_score_def)
  then show ?case using Cons py_count_nonneg [of t tx] term_score_nonneg [of terms tx] py_count_pos [of t tx] by force
qed (simp add: term_score_def)

lemma split_space_nonempty: "[] \<notin> set (split_space w s)"
  by (induction w s rule: split_space.induct) auto

definition hits_any :: "string list \<Rightarrow> string \<Rightarrow> bool" where
  "hits_any terms tx \<longleftrightarrow> (\<exists>t\<in>set terms. substring t (lower tx))"

definition outranks :: "string list \<Rightarrow> string \<times> string \<Rightarrow> string \<times> string \<Rightarrow> bool" where
  "outranks terms d e \<longleftrightarrow> term_score terms (lower (snd e)) < term_score terms (lower (snd d))
     \<or> term_score terms (lower (snd e)) = term_score terms (lower (snd d)) \<and> fst d \<le> fst e"

text \<open>The documents behind the snippets of an answer.\<close>

definition found_documents :: "(string, string) dict \<Rightarrow> string list \<Rightarrow> int \<Rightarrow> (string \<times> string) list" where
  "found_documents documents terms k = map snd (slice_to k (scored_documents documents terms))"

abbreviation rank_key :: "int \<times> string \<times> string \<Rightarrow> int \<times> string" where "rank_key \<equiv> \<lambda>(sc, name, _). (- sc, name)"

lemma scored_in: "(sc, d) \<in> set (scored_documents documents terms) \<longleftrightarrow> d \<in> set documents \<and> sc = term_score terms (lower (snd d)) \<and> 0 < sc"
  by (cases d) (auto simp: scored_documents_def)

lemma rank_outranks:
  assumes "x \<in> set (scored_documents documents terms)" "y \<in> set (scored_documents documents terms)" "rank_key x \<le> rank_key y"
  shows "outranks terms (snd x) (snd y)"
proof -
  obtain a d b e where "x = (a, d)" "y = (b, e)" by (cases x, cases y) blast
  with assms show ?thesis by (cases d; cases e) (auto simp: scored_in outranks_def)
qed

lemma found_documents_best:
  assumes "0 \<le> k" "[] \<notin> set terms"
  shows "set (found_documents documents terms k) \<subseteq> {d \<in> set documents. hits_any terms (snd d)}"
    "sorted_wrt (outranks terms) (found_documents documents terms k)"
    "\<And>d e. d \<in> set documents \<Longrightarrow> hits_any terms (snd d) \<Longrightarrow> d \<notin> set (found_documents documents terms k) \<Longrightarrow>
       e \<in> set (found_documents documents terms k) \<Longrightarrow> outranks terms e d"
    "length (found_documents documents terms k) = min (nat k) (length (filter (hits_any terms \<circ> snd) documents))"
proof -
  let ?all = "scored_documents documents terms" and ?n = "nat k"
  have f: "found_documents documents terms k = map snd (take ?n ?all)" using assms(1) by (simp add: found_documents_def slice_to_def)
  have pos: "0 < term_score terms (lower tx) \<longleftrightarrow> hits_any terms tx" for tx
    using term_score_pos [OF assms(2)] by (simp add: hits_any_def)
  have sub: "x \<in> set ?all" if "x \<in> set (take ?n ?all)" for x using in_set_takeD [OF that] .
  show "set (found_documents documents terms k) \<subseteq> {d \<in> set documents. hits_any terms (snd d)}"
    using sub by (fastforce simp: f scored_in pos)
  have "sorted (map rank_key ?all)" by (simp add: scored_documents_def)
  then have "sorted_wrt (\<lambda>x y. rank_key x \<le> rank_key y) (take ?n ?all)" by (simp add: sorted_map sorted_wrt_take)
  then have "sorted_wrt (\<lambda>x y. outranks terms (snd x) (snd y)) (take ?n ?all)"
    by (rule sorted_wrt_mono_rel [rotated]) (rule rank_outranks [OF sub sub])
  then show "sorted_wrt (outranks terms) (found_documents documents terms k)" by (simp add: f sorted_wrt_map)
  show "outranks terms e d" if d: "d \<in> set documents" "hits_any terms (snd d)" "d \<notin> set (found_documents documents terms k)"
    and e: "e \<in> set (found_documents documents terms k)" for d e
  proof -
    obtain x where x: "x \<in> set (take ?n ?all)" "e = snd x" using e by (auto simp: f)
    let ?y = "(term_score terms (lower (snd d)), d)"
    have y: "?y \<in> set ?all" using d(1,2) by (simp add: scored_in pos)
    moreover have "?y \<notin> set (take ?n ?all)" using d(3) by (force simp: f image_iff)
    ultimately have "?y \<in> set (drop ?n ?all)" by (metis Un_iff append_take_drop_id set_append)
    then have "rank_key x \<le> rank_key ?y" using x(1) unfolding scored_documents_def by (rule take_least [rotated])
    from rank_outranks [OF sub [OF x(1)] y this] show ?thesis by (simp add: x(2))
  qed
  have "length ?all = length (filter (hits_any terms \<circ> snd) documents)"
    by (simp add: scored_documents_def filter_map comp_def case_prod_beta pos)
  then show "length (found_documents documents terms k) = min ?n (length (filter (hits_any terms \<circ> snd) documents))"
    by (simp add: f min.commute)
qed

section \<open>Properties\<close>

text \<open>A document source answers with its best documents: the answer to a query lists, in order, the documents that
  contain one of its words (letter case aside), as many as asked for or as there are, by descending number of
  occurrences and then by name, and no document left out outranks one of them; without one the answer says so.\<close>

lemma static_search:
  assumes "extract_top_k default_top_k (m_body m) = Inr k" and "0 \<le> k"
  shows "let terms = map lower (words (extract_query to_text (m_body m))); found = found_documents documents terms k in
     static_query to_text repr documents default_top_k m s =
       (Inr (PStr (if found = [] then ''(no matches in static-document source for '' @ repr (extract_query to_text (m_body m)) @ '')''
          else join blank_between (map (\<lambda>(name, tx). ''['' @ name @ ''] '' @ tx) found))), s)
   \<and> length found = min (nat k) (length (filter (hits_any terms \<circ> snd) documents))
   \<and> set found \<subseteq> {d \<in> set documents. hits_any terms (snd d)} \<and> sorted_wrt (outranks terms) found
   \<and> (\<forall>d\<in>set documents. \<forall>e\<in>set found. d \<in> set found \<or> \<not> hits_any terms (snd d) \<or> outranks terms e d)"
proof -
  let ?terms = "map lower (words (extract_query to_text (m_body m)))"
  let ?found = "found_documents documents ?terms k"
  have ne: "[] \<notin> set ?terms" using split_space_nonempty [of "[]"] by (auto simp: words_def lower_def)
  have snippets: "map (\<lambda>(_, name, tx). ''['' @ name @ ''] '' @ tx) xs = map (\<lambda>(name, tx). ''['' @ name @ ''] '' @ tx) (map snd xs)"
    for xs :: "(int \<times> string \<times> string) list" by (induction xs) auto
  have "static_query to_text repr documents default_top_k m s =
       (Inr (PStr (if ?found = [] then ''(no matches in static-document source for '' @ repr (extract_query to_text (m_body m)) @ '')''
          else join blank_between (map (\<lambda>(name, tx). ''['' @ name @ ''] '' @ tx) ?found))), s)"
    unfolding static_query_def Let_def snippets found_documents_def using assms(1) by simp
  with found_documents_best [OF assms(2) ne, where documents = documents] show ?thesis unfolding Let_def by blast
qed

definition sample_documents :: "(string, string) dict" where
  "sample_documents = [(''refunds'', ''Refund a card within a day''), (''cards'', ''A card is a card''), (''hours'', ''Open at nine'')]"

lemma static_search_witness:
  "static_query (\<lambda>_. []) id sample_documents 3 (sample_message\<lparr>m_body := PStr ''Card''\<rparr>) ()
     = (Inr (PStr (join blank_between [''[cards] A card is a card'', ''[refunds] Refund a card within a day''])), ())
   \<and> length (found_documents sample_documents [''card''] 3) = 2"
proof -
  have k: "extract_top_k 3 (m_body (sample_message\<lparr>m_body := PStr ''Card''\<rparr>)) = Inr 3" by (simp add: extract_top_k_def)
  have q: "map lower (words (extract_query (\<lambda>_. []) (PStr ''Card''))) = [''card'']" by code_simp
  have f: "found_documents sample_documents [''card''] 3 = [(''cards'', ''A card is a card''), (''refunds'', ''Refund a card within a day'')]" by code_simp
  show ?thesis
    using static_search [OF k, where to_text = "\<lambda>_. []" and repr = id and documents = sample_documents and s = "()"]
    by (simp add: q f Let_def)
qed

text \<open>An information source answers what it is asked and nothing else: for a code outside the information family it does
  nothing; a hook its class does not override raises \<open>NotImplementedError\<close> before anything happens; otherwise it does
  what the hook does, and a body that is not \<open>None\<close> becomes a well-formed reply to the requester, in its thread and
  under its code.\<close>

lemma info_source_answers:
  assumes "agent_ok a mt" and "valid_message m"
  shows "case hook_for C (m_code m) of
      None \<Rightarrow> info_handle_message C a mt m s = (Inr None, s) \<and> m_code m \<notin> set INFO_CODES
    | Some None \<Rightarrow> info_handle_message C a mt m s = (Inl NotImplementedError, s)
    | Some (Some h) \<Rightarrow>
        (case h m s of
           (Inl e, t) \<Rightarrow> info_handle_message C a mt m s = (Inl e, t)
         | (Inr body, t) \<Rightarrow>
             if body = PNone then info_handle_message C a mt m s = (Inr None, t)
             else \<exists>r. info_handle_message C a mt m s = (Inr (Some r), t) \<and> keeps_conversation a m r \<and> m_body r = body)"
proof (cases "hook_for C (m_code m)")
  case None
  then have "m_code m \<notin> set INFO_CODES" by (auto simp: hook_for_def INFO_CODES_def split: if_splits)
  with None show ?thesis by (simp add: info_handle_message_def)
next
  case (Some h)
  show ?thesis
  proof (cases h)
    case None
    with Some show ?thesis by (simp add: info_handle_message_def info_hook_def)
  next
    case (Some f)
    note run = \<open>hook_for C (m_code m) = Some h\<close> Some
    obtain r t where ft: "f m s = (r, t)" by (cases "f m s")
    show ?thesis
    proof (cases r)
      case (Inl e)
      with run ft show ?thesis by (simp add: info_handle_message_def info_hook_def sbind_def)
    next
      case (Inr body)
      obtain reply where "gateway_reply a mt m body = Inr reply" "keeps_conversation a m reply" "m_body reply = body"
        by (rule gateway_reply_run [OF assms])
      with run ft Inr show ?thesis by (simp add: info_handle_message_def info_hook_def sbind_def)
    qed
  qed
qed

lemma info_source_answers_witness:
  "\<exists>r. info_handle_message (StaticDocumentSource (\<lambda>_. []) id sample_documents 3) sample_agent sample_minted
       (sample_message\<lparr>m_code := ''info.list''\<rparr>) empty_mem = (Inr (Some r), empty_mem)
     \<and> m_body r = PDict [(''documents'', PList [PStr ''cards'', PStr ''hours'', PStr ''refunds''])]"
proof -
  let ?m = "sample_message\<lparr>m_code := ''info.list''\<rparr>"
  have v: "valid_message ?m" using sample_sendable(1) by (simp add: sendable_def valid_message_def is_broadcast_def)
  have l: "sort (map fst sample_documents) = [''cards'', ''hours'', ''refunds'']" by code_simp
  from info_source_answers [OF sample_agent_ok(1) v, of "StaticDocumentSource (\<lambda>_. []) id sample_documents 3" empty_mem]
  show ?thesis by (simp add: hook_for_def StaticDocumentSource_def static_list_def l) blast
qed

end
