(* ===== verification/Teacher.thy ===== *)
theory Teacher
  imports InfoSource
begin

text \<open>
  \<open>ahp/adapters/teacher_agent.py\<close>: an agent that scores others and files its verdicts in a knowledge
  graph. The judge is an argument; \<open>teacher_texts\<close> gathers what the code takes from the library:
  \<open>str\<close> on values that are not strings, the float of a text, \<open>json.dumps\<close>, floats with six and with
  two decimals, the sum of floats. \<open>clock i\<close> is the \<open>i\<close>-th reading of the clock. A rubric in a message
  is a dictionary, as it is in everything that comes over the wire.
\<close>

section \<open>Rubrics and judgements\<close>

record teacher_texts =
  tt_str :: "pyval \<Rightarrow> string"
  tt_float :: "string \<Rightarrow> pyfloat res"
  tt_dumps :: "pyval \<Rightarrow> string res"
  tt_fixed6 :: "pyfloat \<Rightarrow> string"
  tt_fixed2 :: "pyfloat \<Rightarrow> string"
  tt_sum :: "pyfloat list \<Rightarrow> pyfloat"

definition tstr :: "teacher_texts \<Rightarrow> pyval \<Rightarrow> string" where "tstr T = value_text (tt_str T)"

record Criterion =
  cr_name :: string
  cr_description :: string
  cr_weight :: pyfloat

record Rubric =
  ru_name :: string
  ru_description :: string
  ru_criteria :: "Criterion list"

definition criterion_from :: "teacher_texts \<Rightarrow> pyval \<Rightarrow> Criterion res" where
  "criterion_from T v =
     rbind (as_dict v) (\<lambda>c. rbind (item c ''name'') (\<lambda>name.
     rbind (float_of (tt_float T) (dict_get c ''weight'' (PFloat fone))) (\<lambda>w.
     Inr \<lparr>cr_name = tstr T name, cr_description = tstr T (dict_get c ''description'' (PStr [])), cr_weight = w\<rparr>)))"

definition rubric_from_dict :: "teacher_texts \<Rightarrow> (string, pyval) dict \<Rightarrow> Rubric res" where
  "rubric_from_dict T d =
     rbind (item d ''name'') (\<lambda>name.
     rbind (iterate (dict_get d ''criteria'' (PList []))) (\<lambda>cs. rbind (mapM (criterion_from T) cs) (\<lambda>criteria.
     Inr \<lparr>ru_name = tstr T name, ru_description = tstr T (dict_get d ''description'' (PStr [])), ru_criteria = criteria\<rparr>)))"

record Judgement =
  jd_subject :: string
  jd_rubric :: string
  jd_per_criterion :: "(string, pyfloat) dict"
  jd_composite :: pyfloat
  jd_rationale :: string
  jd_metadata :: "(string, pyval) dict"
  jd_ts :: pyfloat

definition py_sum :: "teacher_texts \<Rightarrow> pyfloat list \<Rightarrow> pyfloat" where
  "py_sum T xs = (if xs = [] then fzero else tt_sum T xs)"

definition compose :: "teacher_texts \<Rightarrow> pyfloat \<Rightarrow> string \<Rightarrow> Rubric \<Rightarrow> (string, pyfloat) dict \<Rightarrow> string \<Rightarrow> Judgement res" where
  "compose T now subject rubric per rationale =
     (let weights = dict_of (map (\<lambda>c. (cr_name c, cr_weight c)) (ru_criteria rubric));
          summed = py_sum T (map (\<lambda>(k, _). dict_get weights k fzero) per);
          total_weight = (if feq summed fzero then fone else summed)
      in rbind (fdiv (py_sum T (map (\<lambda>(k, x). fmul x (dict_get weights k fzero)) per)) total_weight) (\<lambda>composite.
         Inr \<lparr>jd_subject = subject, jd_rubric = ru_name rubric, jd_per_criterion = per, jd_composite = composite,
           jd_rationale = rationale, jd_metadata = [], jd_ts = now\<rparr>))"

definition float_dict :: "(string, pyfloat) dict \<Rightarrow> pyval" where
  "float_dict d = PDict (map (\<lambda>(k, x). (k, PFloat x)) d)"

definition to_props :: "teacher_texts \<Rightarrow> Judgement \<Rightarrow> (string, pyval) dict res" where
  "to_props T j =
     rbind (tt_dumps T (float_dict (jd_per_criterion j))) (\<lambda>per. rbind (tt_dumps T (PDict (jd_metadata j))) (\<lambda>meta.
     Inr [(''subject'', PStr (jd_subject j)), (''rubric'', PStr (jd_rubric j)), (''composite'', PFloat (jd_composite j)),
       (''rationale'', PStr (jd_rationale j)), (''per_criterion_json'', PStr per), (''metadata_json'', PStr meta), (''ts'', PFloat (jd_ts j))]))"

section \<open>The teacher\<close>

text \<open>What a judge returns: a judgement, scores by criterion, or anything else.\<close>

datatype verdict = Verdict Judgement | Scores "(string, pyval) dict" | Other_Result

record 's TeacherAgent =
  ta_agent :: "'s AHPAgent"
  ta_rubric :: Rubric
  ta_judge :: "Rubric \<Rightarrow> pyval \<Rightarrow> ('s, verdict) op"
  ta_kg :: "'s KnowledgeGraphBackend"

abbreviation ta_address :: "'s TeacherAgent \<Rightarrow> AgentAddress" where "ta_address X \<equiv> ag_address (ta_agent X)"

definition agent_node :: "AgentAddress \<Rightarrow> KGNode" where
  "agent_node a = \<lparr>kn_id = node_id_for_agent a, kn_kind = ''Agent'', kn_label = to_str a, kn_props = [], kn_embedding = None\<rparr>"

definition rubric_node :: "string \<Rightarrow> KGNode" where
  "rubric_node name = \<lparr>kn_id = node_id_for_rubric name, kn_kind = ''Rubric'', kn_label = name, kn_props = [], kn_embedding = None\<rparr>"

definition default_zero_judge :: "teacher_texts \<Rightarrow> (nat \<Rightarrow> pyfloat) \<Rightarrow> Rubric \<Rightarrow> pyval \<Rightarrow> ('s, verdict) op" where
  "default_zero_judge T clock rubric _ =
     sbind (slift (compose T (clock 0) ''<unscored>'' rubric (dict_of (map (\<lambda>c. (cr_name c, fzero)) (ru_criteria rubric)))
       (''(default zero judge'' @ em_dash @ ''no judge_fn configured)''))) (\<lambda>j. sret (Verdict j))"

definition ensure_self_nodes :: "teacher_texts \<Rightarrow> 's TeacherAgent \<Rightarrow> ('s, unit) op" where
  "ensure_self_nodes T X =
     sbind (put_node (ta_kg X) ((agent_node (ta_address X))\<lparr>kn_props := [(''role'', PStr ''teacher'')]\<rparr>)) (\<lambda>_.
     sbind (slift (tt_dumps T (PList (map (\<lambda>c. PDict [(''name'', PStr (cr_name c)), (''description'', PStr (cr_description c)),
         (''weight'', PFloat (cr_weight c))]) (ru_criteria (ta_rubric X)))))) (\<lambda>criteria_json.
     put_node (ta_kg X) ((rubric_node (ru_name (ta_rubric X)))\<lparr>kn_props := [(''description'', PStr (ru_description (ta_rubric X))),
         (''criteria_json'', PStr criteria_json)]\<rparr>)))"

definition new_teacher :: "teacher_texts \<Rightarrow> (nat \<Rightarrow> pyfloat) \<Rightarrow> 's AHPAgent \<Rightarrow> Rubric \<Rightarrow> (Rubric \<Rightarrow> pyval \<Rightarrow> ('s, verdict) op) option \<Rightarrow>
    's KnowledgeGraphBackend \<Rightarrow> ('s, 's TeacherAgent) op" where
  "new_teacher T clock a rubric judge_fn kg =
     (let X = \<lparr>ta_agent = a, ta_rubric = rubric, ta_judge = (case judge_fn of None \<Rightarrow> default_zero_judge T clock | Some f \<Rightarrow> f), ta_kg = kg\<rparr>
      in sbind (ensure_self_nodes T X) (\<lambda>_. sret X))"

section \<open>Judging\<close>

definition rubric_from_body :: "teacher_texts \<Rightarrow> Rubric \<Rightarrow> pyval \<Rightarrow> Rubric res" where
  "rubric_from_body T dflt body =
     (case body of
        PDict d \<Rightarrow> (case map_of d ''rubric'' of Some (PDict r) \<Rightarrow> rubric_from_dict T r | _ \<Rightarrow> Inr dflt)
      | _ \<Rightarrow> Inr dflt)"

definition judge_one :: "teacher_texts \<Rightarrow> pyfloat \<Rightarrow> 's TeacherAgent \<Rightarrow> pyval \<Rightarrow> AgentAddress \<Rightarrow> ('s, Judgement) op" where
  "judge_one T now X body subject =
     sbind (slift (rubric_from_body T (ta_rubric X) body)) (\<lambda>rubric.
     let payload = (case body of PDict d \<Rightarrow> dict_get d ''subject'' body | _ \<Rightarrow> body)
     in sbind (ta_judge X rubric payload) (\<lambda>result.
        case result of
          Verdict j \<Rightarrow> sret j
        | Scores sc \<Rightarrow> slift (rbind (mapM (\<lambda>(k, v). rbind (float_of (tt_float T) v) (\<lambda>x. Inr (k, x))) sc) (\<lambda>per.
            compose T now (to_str subject) rubric per []))
        | Other_Result \<Rightarrow> sraise TypeError))"

definition judgement_node :: "teacher_texts \<Rightarrow> 's TeacherAgent \<Rightarrow> Judgement \<Rightarrow> AgentAddress \<Rightarrow> (string, pyval) dict \<Rightarrow> KGNode" where
  "judgement_node T X j subject props =
     \<lparr>kn_id = node_id_for_judgement (tt_fixed6 T) (ta_address X) subject (jd_ts j), kn_kind = ''Judgement'',
      kn_label = jd_rubric j @ ''('' @ tt_fixed2 T (jd_composite j) @ '')'', kn_props = props, kn_embedding = None\<rparr>"

definition kg_edge :: "string \<Rightarrow> string \<Rightarrow> string \<Rightarrow> KGEdge" where
  "kg_edge src tgt kind = \<lparr>ke_source = src, ke_target = tgt, ke_kind = kind, ke_props = []\<rparr>"

definition persist_judgement :: "teacher_texts \<Rightarrow> 's TeacherAgent \<Rightarrow> Judgement \<Rightarrow> AgentAddress \<Rightarrow> ('s, unit) op" where
  "persist_judgement T X j subject =
     (let K = ta_kg X;
          subject_id = node_id_for_agent subject;
          rubric_id = node_id_for_rubric (jd_rubric j);
          judgement_id = node_id_for_judgement (tt_fixed6 T) (ta_address X) subject (jd_ts j)
      in sbind (put_node K (agent_node subject)) (\<lambda>_.
         sbind (put_node K (rubric_node (jd_rubric j))) (\<lambda>_.
         sbind (slift (to_props T j)) (\<lambda>props.
         sbind (put_node K (judgement_node T X j subject props)) (\<lambda>_.
         sbind (put_edge K (kg_edge (node_id_for_agent (ta_address X)) judgement_id ''ISSUED'')) (\<lambda>_.
         sbind (put_edge K (kg_edge judgement_id subject_id ''ABOUT'')) (\<lambda>_.
         put_edge K (kg_edge judgement_id rubric_id ''USES_RUBRIC''))))))))"

definition persist_observation :: "teacher_texts \<Rightarrow> (nat \<Rightarrow> pyfloat) \<Rightarrow> 's TeacherAgent \<Rightarrow> pyval \<Rightarrow> AgentAddress \<Rightarrow> ('s, unit) op" where
  "persist_observation T clock X body source =
     (let K = ta_kg X;
          payload = (case body of PDict d \<Rightarrow> d | _ \<Rightarrow> [(''text'', PStr (tstr T body))]);
          node_id = ''observation::'' @ to_str source @ ''::'' @ tt_fixed6 T (clock 0)
      in sbind (put_node K \<lparr>kn_id = node_id, kn_kind = ''Observation'', kn_label = tstr T (dict_get payload ''label'' (PStr [])),
             kn_props = [(''text'', PStr (tstr T (dict_get payload ''text'' (PDict payload)))), (''ts'', PFloat (clock 1))], kn_embedding = None\<rparr>) (\<lambda>_.
         sbind (put_node K (agent_node source)) (\<lambda>_.
         put_edge K (kg_edge (node_id_for_agent source) node_id ''REPORTED''))))"

section \<open>Handling messages\<close>

definition teacher_reply :: "'s TeacherAgent \<Rightarrow> minted \<Rightarrow> Message \<Rightarrow> pyval \<Rightarrow> Message option res" where
  "teacher_reply X mt m body =
     (if \<not> expects_response m then Inr None
      else rbind (gateway_reply (ta_agent X) mt m body) (\<lambda>r. Inr (Some r)))"

definition judgement_body :: "Judgement \<Rightarrow> pyval" where
  "judgement_body j = PDict [(''subject'', PStr (jd_subject j)), (''rubric'', PStr (jd_rubric j)), (''composite'', PFloat (jd_composite j)),
     (''per_criterion'', float_dict (jd_per_criterion j)), (''rationale'', PStr (jd_rationale j)), (''ts'', PFloat (jd_ts j))]"

text \<open>The messages among what the engine returns; anything else has no source and is passed over.\<close>

definition iter_replies :: "engine_result \<Rightarrow> Message list" where
  "iter_replies r = (case r of Replies ms \<Rightarrow> ms | Reply (Some m) \<Rightarrow> [m] | _ \<Rightarrow> [])"

definition survey_row :: "Judgement \<Rightarrow> AgentAddress \<Rightarrow> pyval" where
  "survey_row j respondent = PDict [(''respondent'', PStr (to_str respondent)), (''composite'', PFloat (jd_composite j)), (''rationale'', PStr (jd_rationale j))]"

fun judge_replies :: "teacher_texts \<Rightarrow> (nat \<Rightarrow> pyfloat) \<Rightarrow> 's TeacherAgent \<Rightarrow> nat \<Rightarrow> Message list \<Rightarrow> pyval list \<Rightarrow> ('s, pyval list) op" where
  "judge_replies T clock X i [] rows s = (Inr rows, s)"
| "judge_replies T clock X i (r # rs) rows s =
     sbind (judge_one T (clock i) X (m_body r) (m_source r)) (\<lambda>j.
     sbind (persist_judgement T X j (m_source r)) (\<lambda>_.
     judge_replies T clock X (Suc i) rs (rows @ [survey_row j (m_source r)]))) s"

definition run_survey :: "teacher_texts \<Rightarrow> (nat \<Rightarrow> pyfloat) \<Rightarrow> 's TeacherAgent \<Rightarrow> 's outside \<Rightarrow> minted \<Rightarrow> Message \<Rightarrow> ('s, pyval list) op" where
  "run_survey T clock X W mt m =
     (let spec = (case m_body m of PDict d \<Rightarrow> d | _ \<Rightarrow> []);
          target = dict_get spec ''target'' PNone
      in if target = PNone then sraise ValueError
         else
           sbind (slift (pparse (tstr T target))) (\<lambda>pattern.
           sbind (slift (as_str (dict_get spec ''code'' (PStr ''collaborative.reason'')))) (\<lambda>code.
           sbind (slift (new_message mt (ta_address X) (TPat pattern) ''CAST-GET'' code (m_thread m) (dict_get spec ''prompt'' (PStr [])))) (\<lambda>ask.
           sbind (engine_handle (ag_engine (ta_agent X)) W ask None None) (\<lambda>replies.
           judge_replies T clock X 0 (iter_replies replies) [])))))"

definition teacher_handle_message :: "teacher_texts \<Rightarrow> (nat \<Rightarrow> pyfloat) \<Rightarrow> 's TeacherAgent \<Rightarrow> 's outside \<Rightarrow> minted \<Rightarrow> minted \<Rightarrow> 's handler" where
  "teacher_handle_message T clock X W mt mt' m =
     (if m_code m = ''teacher.judge'' then
        sbind (judge_one T (clock 0) X (m_body m) (m_source m)) (\<lambda>j.
        sbind (persist_judgement T X j (m_source m)) (\<lambda>_.
        slift (teacher_reply X mt' m (judgement_body j))))
      else if m_code m = ''teacher.survey'' then
        sbind (run_survey T clock X W mt m) (\<lambda>findings.
        slift (teacher_reply X mt' m (PDict [(''survey'', PList findings), (''rubric'', PStr (ru_name (ta_rubric X)))])))
      else if m_code m = ''teacher.observe'' then
        sbind (persist_observation T clock X (m_body m) (m_source m)) (\<lambda>_.
        slift (teacher_reply X mt' m (PDict [(''ok'', PBool True)])))
      else sret None)"

text \<open>\<open>from_profile\<close>: the graph that the resources hold for the address, or a fresh one without a registry.\<close>

definition teacher_kg :: "('s, 'i) ResourceRegistry option \<Rightarrow> AgentAddress \<Rightarrow> 's \<Rightarrow> 'i kg_choice res \<times> ('s, 'i) ResourceRegistry option \<times> 's" where
  "teacher_kg resources a s =
     (case resources of
        None \<Rightarrow> (Inr Fresh_Graph, None, s)
      | Some R \<Rightarrow> (case build_kg_backend None a (R, s) of (r, (R', t)) \<Rightarrow> (r, Some R', t)))"

section \<open>What a verdict leaves in the graph\<close>

lemma feq_Fin0: "feq x fzero \<longleftrightarrow> x = fzero" by (auto simp: feq_def)

text \<open>A composite score never divides by zero.\<close>

lemma compose_total: "\<exists>j. compose T now subject rubric per rationale = Inr j \<and> jd_rubric j = ru_name rubric \<and> jd_per_criterion j = per"
proof -
  have "\<exists>c. fdiv x (if feq y fzero then fone else y) = Inr c" for x y
    by (cases x; cases y) (auto simp: feq_def)
  then obtain c where "fdiv (py_sum T (map (\<lambda>(k, x). fmul x (dict_get (dict_of (map (\<lambda>c. (cr_name c, cr_weight c)) (ru_criteria rubric))) k fzero)) per))
      (if feq (py_sum T (map (\<lambda>(k, _). dict_get (dict_of (map (\<lambda>c. (cr_name c, cr_weight c)) (ru_criteria rubric))) k fzero) per)) fzero then fone
       else py_sum T (map (\<lambda>(k, _). dict_get (dict_of (map (\<lambda>c. (cr_name c, cr_weight c)) (ru_criteria rubric))) k fzero) per)) = Inr c"
    by blast
  then show ?thesis by (simp add: compose_def Let_def)
qed

definition verdict_edges :: "teacher_texts \<Rightarrow> 's TeacherAgent \<Rightarrow> Judgement \<Rightarrow> AgentAddress \<Rightarrow> (string \<times> string \<times> string) set" where
  "verdict_edges T X j subject =
     (let i = node_id_for_judgement (tt_fixed6 T) (ta_address X) subject (jd_ts j)
      in {(node_id_for_agent (ta_address X), i, ''ISSUED''), (i, node_id_for_agent subject, ''ABOUT''), (i, node_id_for_rubric (jd_rubric j), ''USES_RUBRIC'')})"

text \<open>The edges one verdict writes, in order.\<close>

definition filed_edges :: "teacher_texts \<Rightarrow> 's TeacherAgent \<Rightarrow> Judgement \<Rightarrow> AgentAddress \<Rightarrow> KGEdge list" where
  "filed_edges T X j subject =
     (let i = node_id_for_judgement (tt_fixed6 T) (ta_address X) subject (jd_ts j)
      in [kg_edge (node_id_for_agent (ta_address X)) i ''ISSUED'', kg_edge i (node_id_for_agent subject) ''ABOUT'',
          kg_edge i (node_id_for_rubric (jd_rubric j)) ''USES_RUBRIC''])"

text \<open>Filing the verdicts on some replies, one after the other: \<open>J k r\<close> is the verdict on the \<open>k\<close>-th of them, \<open>r\<close>.\<close>

definition file_all :: "teacher_texts \<Rightarrow> 's TeacherAgent \<Rightarrow> (nat \<Rightarrow> Message \<Rightarrow> Judgement) \<Rightarrow> (nat \<times> Message) list \<Rightarrow> ('s, unit) op" where
  "file_all T X J = sfor (\<lambda>(k, r). persist_judgement T X (J k r) (m_source r))"

text \<open>The verdict on a reply is \<open>j\<close>, it can be stored, and reaching it leaves the store alone.\<close>

definition graded :: "teacher_texts \<Rightarrow> (nat \<Rightarrow> pyfloat) \<Rightarrow> 's TeacherAgent \<Rightarrow> nat \<Rightarrow> Message \<Rightarrow> Judgement \<Rightarrow> bool" where
  "graded T clock X i r j \<longleftrightarrow> (\<forall>s. judge_one T (clock i) X (m_body r) (m_source r) s = (Inr j, s)) \<and> (\<exists>ps. to_props T j = Inr ps)"

lemma put_three: "sbind (f a) (\<lambda>_. sbind (f b) (\<lambda>_. sbind (f c) (\<lambda>_. g))) s = sbind (sfor f [a, b, c]) (\<lambda>_. g) s"
  and put_last_three: "sbind (f a) (\<lambda>_. sbind (f b) (\<lambda>_. f c)) s = sfor f [a, b, c] s" for f :: "'a \<Rightarrow> ('s, unit) op"
  by (auto simp: sbind_def split: prod.splits sum.splits)

context kg_backend
begin

lemma persist_run:
  assumes "ta_kg X = K" "good s" "kb_get_node K (node_id_for_agent (ta_address X)) s \<noteq> None" "to_props T j = Inr props"
  shows "\<exists>t. persist_judgement T X j subject s = (Inr (), t) \<and> good t
    \<and> carries (kb_get_node K (kn_id (judgement_node T X j subject props)) t) (judgement_node T X j subject props)
    \<and> edge_keys K t = verdict_edges T X j subject \<union> edge_keys K s
    \<and> (\<forall>i. i \<notin> {node_id_for_agent subject, node_id_for_rubric (jd_rubric j), kn_id (judgement_node T X j subject props)} \<longrightarrow>
         kb_get_node K i t = kb_get_node K i s)
    \<and> kb_get_node K (node_id_for_agent (ta_address X)) t \<noteq> None"
proof -
  let ?n = "judgement_node T X j subject props" and ?ns = "[agent_node subject, rubric_node (jd_rubric j), judgement_node T X j subject props]"
  let ?self = "node_id_for_agent (ta_address X)"
  let ?es = "[kg_edge ?self (kn_id ?n) ''ISSUED'', kg_edge (kn_id ?n) (node_id_for_agent subject) ''ABOUT'',
    kg_edge (kn_id ?n) (node_id_for_rubric (jd_rubric j)) ''USES_RUBRIC'']"
  have ids: "kn_id (agent_node subject) = node_id_for_agent subject" "kn_id (rubric_node (jd_rubric j)) = node_id_for_rubric (jd_rubric j)"
    by (simp_all add: agent_node_def rubric_node_def)
  have dist: "distinct (map kn_id ?ns)" and ne: "\<forall>n\<in>set ?ns. kn_id n \<noteq> []" and self: "?self \<noteq> kn_id ?n" "?self \<noteq> node_id_for_rubric (jd_rubric j)"
    by (simp_all add: agent_node_def rubric_node_def judgement_node_def node_id_for_agent_def node_id_for_rubric_def node_id_for_judgement_def)
  from write_nodes [OF assms(2) ne] dist obtain u where u: "sfor (put_node K) ?ns s = (Inr (), u)" "good u"
    "\<forall>i. i \<notin> kn_id ` set ?ns \<longrightarrow> kb_get_node K i u = kb_get_node K i s" "\<forall>n\<in>set ?ns. carries (kb_get_node K (kn_id n) u) n"
    "edge_keys K u = edge_keys K s" by blast
  have there: "kb_get_node K (kn_id n) u \<noteq> None" if "n \<in> set ?ns" for n using u(4) that by (auto simp: carries_def)
  have has_self: "kb_get_node K ?self u \<noteq> None"
  proof (cases "?self = node_id_for_agent subject")
    case True
    with there [of "agent_node subject"] ids show ?thesis by simp
  next
    case False
    with self u(3) ids assms(3) show ?thesis by simp
  qed
  have "\<forall>e\<in>set ?es. kb_get_node K (ke_source e) u \<noteq> None \<and> kb_get_node K (ke_target e) u \<noteq> None"
    using there [of "agent_node subject"] there [of "rubric_node (jd_rubric j)"] there [of ?n] has_self by (simp add: kg_edge_def ids)
  from link_all [OF u(2) this] obtain t where t: "sfor (put_edge K) ?es u = (Inr (), t)" "good t"
    "\<forall>i. kb_get_node K i t = kb_get_node K i u" "edge_keys K t = edge_key ` set ?es \<union> edge_keys K u" by blast
  have id: "kn_id ?n = node_id_for_judgement (tt_fixed6 T) (ta_address X) subject (jd_ts j)" by (simp add: judgement_node_def)
  have "persist_judgement T X j subject = (\<lambda>s. sbind (put_node K (agent_node subject)) (\<lambda>_. sbind (put_node K (rubric_node (jd_rubric j))) (\<lambda>_.
      sbind (put_node K ?n) (\<lambda>_. sfor (put_edge K) ?es))) s)"
    unfolding persist_judgement_def Let_def assms(1,4) id [symmetric] put_last_three [abs_def]
    by (rule ext) (simp add: sbind_def slift_def split: prod.splits sum.splits)
  then have "persist_judgement T X j subject s = (Inr (), t)"
    unfolding put_three using u(1) t(1) by (simp only: sbind_run(1))
  moreover have "edge_keys K t = verdict_edges T X j subject \<union> edge_keys K s"
    by (auto simp: t(4) u(5) verdict_edges_def edge_key_def kg_edge_def id Let_def)
  moreover have "carries (kb_get_node K (kn_id ?n) t) ?n" using u(4) t(3) by simp
  moreover have "kb_get_node K i t = kb_get_node K i s"
    if "i \<notin> {node_id_for_agent subject, node_id_for_rubric (jd_rubric j), kn_id ?n}" for i
    using u(3) t(3) ids that by simp
  ultimately show ?thesis using t(2,3) has_self by simp
qed

text \<open>A survey whose judge answers without touching the store: \<open>J i r\<close> is the verdict on the \<open>i\<close>-th reply \<open>r\<close>.\<close>

lemma judge_replies_run:
  assumes "ta_kg X = K" "good s" "kb_get_node K (node_id_for_agent (ta_address X)) s \<noteq> None"
    and "\<forall>(k, r)\<in>set (enumerate i rs). graded T clock X k r (J k r)"
  shows "\<exists>t. judge_replies T clock X i rs rows s =
       (Inr (rows @ map (\<lambda>(k, r). survey_row (J k r) (m_source r)) (enumerate i rs)), t) \<and> good t
    \<and> file_all T X J (enumerate i rs) s = (Inr (), t)
    \<and> edge_keys K t = (\<Union>(k, r)\<in>set (enumerate i rs). verdict_edges T X (J k r) (m_source r)) \<union> edge_keys K s"
  using assms(2-4)
proof (induction rs arbitrary: i rows s)
  case (Cons r rs)
  let ?j = "J i r"
  have g: "graded T clock X i r ?j" and rest: "\<forall>(k, r)\<in>set (enumerate (Suc i) rs). graded T clock X k r (J k r)" using Cons.prems(3) by simp_all
  then obtain ps where "to_props T ?j = Inr ps" unfolding graded_def by blast
  from persist_run [OF assms(1) Cons.prems(1,2) this, of "m_source r"] obtain u where u: "persist_judgement T X ?j (m_source r) s = (Inr (), u)"
    "good u" "edge_keys K u = verdict_edges T X ?j (m_source r) \<union> edge_keys K s" "kb_get_node K (node_id_for_agent (ta_address X)) u \<noteq> None" by blast
  from Cons.IH [OF u(2,4) rest, of "rows @ [survey_row ?j (m_source r)]"] obtain t where
    t: "judge_replies T clock X (Suc i) rs (rows @ [survey_row ?j (m_source r)]) u =
       (Inr ((rows @ [survey_row ?j (m_source r)]) @ map (\<lambda>(k, r). survey_row (J k r) (m_source r)) (enumerate (Suc i) rs)), t)"
      "good t" "edge_keys K t = (\<Union>(k, r)\<in>set (enumerate (Suc i) rs). verdict_edges T X (J k r) (m_source r)) \<union> edge_keys K u"
      "file_all T X J (enumerate (Suc i) rs) u = (Inr (), t)"
    by blast
  have "judge_replies T clock X i (r # rs) rows s = judge_replies T clock X (Suc i) rs (rows @ [survey_row ?j (m_source r)]) u"
    using u(1) g by (simp add: sbind_def graded_def)
  moreover have "file_all T X J (enumerate i (r # rs)) s = (Inr (), t)"
    using u(1) t(4) by (simp add: file_all_def sbind_run(1))
  ultimately show ?case using t u(3) by (intro exI [of _ t]) auto
qed (simp add: file_all_def)

end

context kg_log
begin

lemma persist_logged:
  assumes "ta_kg X = K" "persist_judgement T X j subject s = (Inr (), t)"
  shows "all_edges K t = all_edges K s @ filed_edges T X j subject"
  using assms(2) unfolding persist_judgement_def Let_def assms(1)
  by (elim sbind_InrE) (auto simp: filed_edges_def Let_def slift_def dest!: put_logged)

lemma filed_logged:
  assumes "ta_kg X = K" "file_all T X J krs s = (Inr (), t)"
  shows "all_edges K t = all_edges K s @ concat (map (\<lambda>(k, r). filed_edges T X (J k r) (m_source r)) krs)"
  using assms(2)
proof (induction krs arbitrary: s)
  case (Cons p krs)
  obtain k r where p: "p = (k, r)" by (cases p)
  from Cons.prems obtain u where u: "persist_judgement T X (J k r) (m_source r) s = (Inr (), u)" "file_all T X J krs u = (Inr (), t)"
    by (auto simp: file_all_def p elim: sbind_InrE)
  show ?case using Cons.IH [OF u(2)] persist_logged [OF assms(1) u(1)] by (simp add: p)
qed (simp add: file_all_def)

end

section \<open>A sample teacher\<close>

text \<open>A server that knows one live agent and stores nothing, and a network on which that agent has answered.\<close>

definition canned_redis :: "(string, pyval) dict \<Rightarrow> 's redis" where
  "canned_redis d = \<lparr>r_get = (\<lambda>k s. None), r_set = (\<lambda>k v s. s), r_setex = (\<lambda>k v n s. s), r_setnx = (\<lambda>k v s. (True, s)),
     r_delete = (\<lambda>k s. s), r_exists = (\<lambda>k s. True), r_scan = (\<lambda>p s. []), r_hget = (\<lambda>k f s. None), r_hset = (\<lambda>k f v s. s),
     r_hdel = (\<lambda>k f s. s), r_hgetall = (\<lambda>k s. d), r_sadd = (\<lambda>k m s. s), r_srem = (\<lambda>k m s. s), r_smembers = (\<lambda>k s. []),
     r_zadd = (\<lambda>k m x s. s), r_zrem = (\<lambda>k m s. s), r_zrangebyscore = (\<lambda>k x s. []), r_xadd = (\<lambda>k v s. s), r_xrange = (\<lambda>k s. []),
     r_publish = (\<lambda>c v s. (0, s)), r_watch_exec = (\<lambda>k f s. Committed (f s))\<rparr>"

definition canned_engine :: "'s ProtocolEngine" where
  "canned_engine =
     (let R = canned_redis [(to_str (sample_address ''i2''), case meta_to_json (default_meta fzero) of Inr v \<Rightarrow> v | Inl _ \<Rightarrow> PNone)]
      in \<lparr>en_redis = R, en_registry = \<lparr>rg_redis = R, rg_heartbeat_ttl = 30, rg_principal = None, rg_policy = OpenAuthPolicy, rg_audit = None\<rparr>,
        en_cache = R, en_default_timeout = PInf, en_scope = None, en_audit = None, en_broker = None\<rparr>)"

definition graded_reply :: Message where
  "graded_reply = sample_message\<lparr>m_source := sample_address ''i2'', m_target := TAddr (sample_address ''i1''), m_verb := ''SEND'', m_message_id := ''m2''\<rparr>"

definition canned_outside :: "'s outside" where
  "canned_outside = \<lparr>os_digest = (\<lambda>_. ''d''), os_bytes_digest = (\<lambda>b. b), os_nid = [], os_uuid = ''u'', os_now = Fin 0,
     os_latency_ms = (\<lambda>_. Fin 700), os_log10 = floor_log10, os_env = (\<lambda>_. None), os_text = (\<lambda>_. []), os_err_text = (\<lambda>_. ''error''),
     os_peers = \<lparr>pe_clock = fzero, pe_inbox = (\<lambda>ch s. ([(fzero, Some (Frame ''message'' (PDict (to_dict graded_reply))))], s))\<rparr>\<rparr>"

definition sample_judgement :: Judgement where
  "sample_judgement = \<lparr>jd_subject = ''essay'', jd_rubric = ''clarity'', jd_per_criterion = [(''terse'', fone)], jd_composite = fone,
     jd_rationale = [], jd_metadata = [], jd_ts = fzero\<rparr>"

definition sample_teacher :: "(InMemoryKnowledgeGraph \<times> unit) TeacherAgent" where
  "sample_teacher = \<lparr>ta_agent = new_agent fzero (sample_address ''i1'') canned_engine None None fone None,
     ta_rubric = \<lparr>ru_name = ''clarity'', ru_description = [], ru_criteria = [\<lparr>cr_name = ''terse'', cr_description = [], cr_weight = fone\<rparr>]\<rparr>,
     ta_judge = (\<lambda>_ _. sret (Verdict sample_judgement)), ta_kg = memory_backend hd (\<lambda>x. x) ''0''\<rparr>"

definition sample_teacher_texts :: teacher_texts where
  "sample_teacher_texts = \<lparr>tt_str = (\<lambda>_. []), tt_float = (\<lambda>_. Inl ValueError), tt_dumps = (\<lambda>_. Inr ''{}''), tt_fixed6 = (\<lambda>_. ''0.000000''),
     tt_fixed2 = (\<lambda>_. ''1.00''), tt_sum = hd\<rparr>"

definition taught_graph :: InMemoryKnowledgeGraph where
  "taught_graph = snd (write_node [] (agent_node (sample_address ''i1'')) empty_kg)"

lemma sample_teacher_ok:
  "kg_backend (ta_kg sample_teacher) (\<lambda>s. kg_ok (fst s))" "kg_ok (fst (taught_graph, ()))"
  "kb_get_node (ta_kg sample_teacher) (node_id_for_agent (ta_address sample_teacher)) (taught_graph, ()) \<noteq> None"
  "\<exists>ps. to_props sample_teacher_texts sample_judgement = Inr ps" "agent_ok (ta_agent sample_teacher) sample_minted"
proof -
  show "kg_backend (ta_kg sample_teacher) (\<lambda>s. kg_ok (fst s))" using memory_kg.kg_backend_axioms by (simp add: sample_teacher_def)
  show "kg_ok (fst (taught_graph, ()))" by (simp add: taught_graph_def write_node_ok)
  have "kn_id (agent_node (sample_address ''i1'')) \<noteq> []" by (simp add: agent_node_def node_id_for_agent_def)
  from write_node_sel(2) [OF this, of _ "[]" empty_kg]
  show "kb_get_node (ta_kg sample_teacher) (node_id_for_agent (ta_address sample_teacher)) (taught_graph, ()) \<noteq> None"
    by (simp add: sample_teacher_def taught_graph_def new_agent_def agent_node_def)
  show "\<exists>ps. to_props sample_teacher_texts sample_judgement = Inr ps" by (simp add: to_props_def sample_teacher_texts_def)
  have "valid_address (sample_address ''i1'')" "edges_ok (sample_address ''i1'')" "iso_aware ''2024-05-01T10:00:01+00:00''" by code_simp+
  then show "agent_ok (ta_agent sample_teacher) sample_minted" by (simp add: agent_ok_def sample_teacher_def new_agent_def sample_minted_def)
qed

definition survey_ask :: Message where
  "survey_ask = (case new_message sample_minted (sample_address ''i1'') (TPat pall) ''CAST-GET'' ''collaborative.reason'' ''t1'' (PStr ''Why?'') of
     Inr m \<Rightarrow> m | Inl _ \<Rightarrow> sample_message)"

lemma canned_survey:
  "case engine_handle canned_engine canned_outside survey_ask None None (taught_graph, ()) of
     (Inr (Replies [r]), u) \<Rightarrow> r = canonical_msg graded_reply \<and> u = (taught_graph, ()) | _ \<Rightarrow> False"
  by code_simp

section \<open>Properties\<close>

text \<open>C22: A verdict is filed where everyone finds it: when a teacher whose own node is in the graph judges a message, on any
  backend that keeps the contract, the graph then has the judgement with its scores, linked to the teacher, to the
  judged agent and to the rubric by exactly three new edges; every node but these keeps what it had; and a requester
  who waits gets the scores in a well-formed reply.\<close>

theorem teacher_files_verdict:
  assumes "kg_backend (ta_kg X) good" and "good u" and "kb_get_node (ta_kg X) (node_id_for_agent (ta_address X)) u \<noteq> None"
    and "m_code m = ''teacher.judge''" and "judge_one T (clock 0) X (m_body m) (m_source m) s = (Inr j, u)" and "to_props T j = Inr props"
    and "agent_ok (ta_agent X) mt'" and "valid_message m"
  shows "\<exists>out t. teacher_handle_message T clock X W mt mt' m s = (Inr out, t) \<and> good t
    \<and> carries (kb_get_node (ta_kg X) (kn_id (judgement_node T X j (m_source m) props)) t) (judgement_node T X j (m_source m) props)
    \<and> edge_keys (ta_kg X) t = verdict_edges T X j (m_source m) \<union> edge_keys (ta_kg X) u
    \<and> (\<forall>i. kb_get_node (ta_kg X) i t = kb_get_node (ta_kg X) i u \<or> i \<in> {node_id_for_agent (m_source m), node_id_for_rubric (jd_rubric j),
          kn_id (judgement_node T X j (m_source m) props)})
    \<and> (if expects_response m then \<exists>r. out = Some r \<and> keeps_conversation (ta_agent X) m r \<and> m_body r = judgement_body j else out = None)"
proof -
  from kg_backend.persist_run [OF assms(1) refl assms(2,3,6), of "m_source m"] obtain t where
    t: "persist_judgement T X j (m_source m) u = (Inr (), t)" "good t"
      "carries (kb_get_node (ta_kg X) (kn_id (judgement_node T X j (m_source m) props)) t) (judgement_node T X j (m_source m) props)"
      "edge_keys (ta_kg X) t = verdict_edges T X j (m_source m) \<union> edge_keys (ta_kg X) u"
      "\<forall>i. kb_get_node (ta_kg X) i t = kb_get_node (ta_kg X) i u \<or> i \<in> {node_id_for_agent (m_source m), node_id_for_rubric (jd_rubric j),
          kn_id (judgement_node T X j (m_source m) props)}" by blast
  obtain r where r: "gateway_reply (ta_agent X) mt' m (judgement_body j) = Inr r" "keeps_conversation (ta_agent X) m r" "m_body r = judgement_body j"
    by (rule gateway_reply_run [OF assms(7,8)])
  let ?out = "if expects_response m then Some r else None"
  have "teacher_handle_message T clock X W mt mt' m s = (Inr ?out, t)"
    using assms(4,5) t(1) r(1) by (simp add: teacher_handle_message_def teacher_reply_def sbind_def)
  moreover have "if expects_response m then \<exists>r. ?out = Some r \<and> keeps_conversation (ta_agent X) m r \<and> m_body r = judgement_body j else ?out = None"
    using r(2,3) by simp
  ultimately show ?thesis using t(2-5) by blast
qed

theorem teacher_files_verdict_witness:
  "\<exists>out t. teacher_handle_message sample_teacher_texts (\<lambda>_. fzero) sample_teacher canned_outside sample_minted sample_minted
       (sample_message\<lparr>m_code := ''teacher.judge''\<rparr>) (taught_graph, ()) = (Inr out, t)
     \<and> edge_keys (ta_kg sample_teacher) t = verdict_edges sample_teacher_texts sample_teacher sample_judgement (sample_address ''i1'')"
proof -
  let ?m = "sample_message\<lparr>m_code := ''teacher.judge''\<rparr>"
  obtain ps where ps: "to_props sample_teacher_texts sample_judgement = Inr ps" using sample_teacher_ok(4) by blast
  have v: "valid_message ?m" using sample_sendable(1) by (simp add: sendable_def valid_message_def is_broadcast_def)
  have j: "judge_one sample_teacher_texts ((\<lambda>_. fzero) 0) sample_teacher (m_body ?m) (m_source ?m) (taught_graph, ()) = (Inr sample_judgement, (taught_graph, ()))"
    by (simp add: judge_one_def rubric_from_body_def sample_message_def sample_teacher_def Let_def)
  have e: "edge_keys (ta_kg sample_teacher) (taught_graph, ()) = {}" by (simp add: sample_teacher_def taught_graph_def write_node_def Let_def empty_kg_def)
  from teacher_files_verdict [OF sample_teacher_ok(1-3) _ j ps sample_teacher_ok(5) v, where W = canned_outside and mt = sample_minted]
  show ?thesis by (auto simp: e sample_message_def)
qed

text \<open>C23: A survey grades everyone who answered, once and in order: when the broadcast of a survey (its own code, or the
  default one) returns its replies, the answer has one row for each of them in the order received; the graph is what
  filing each of those verdicts once, in that order, makes of it, so each is linked to the teacher, to its respondent and
  to its rubric; and on a backend that keeps every edge it is told of, as the in-memory one does, exactly the three edges
  of each verdict are added, in that order (the judge not touching the store).\<close>

theorem survey_grades_all:
  assumes "kg_backend (ta_kg X) good" and "m_code m = ''teacher.survey''" and "m_body m = PDict spec"
    and "map_of spec ''target'' = Some (PStr target)" and "pparse target = Inr p"
    and "dict_get spec ''code'' (PStr ''collaborative.reason'') = PStr code"
    and "new_message mt (ta_address X) (TPat p) ''CAST-GET'' code (m_thread m) (dict_get spec ''prompt'' (PStr [])) = Inr ask"
    and "engine_handle (ag_engine (ta_agent X)) W ask None None s = (Inr (Replies rs), u)"
    and "good u" and "kb_get_node (ta_kg X) (node_id_for_agent (ta_address X)) u \<noteq> None"
    and "\<forall>(k, r)\<in>set (enumerate 0 rs). graded T clock X k r (J k r)"
    and "agent_ok (ta_agent X) mt'" and "valid_message m" and "expects_response m"
  shows "\<exists>r t. teacher_handle_message T clock X W mt mt' m s = (Inr (Some r), t) \<and> good t \<and> keeps_conversation (ta_agent X) m r
    \<and> m_body r = PDict [(''survey'', PList (map (\<lambda>(k, r). survey_row (J k r) (m_source r)) (enumerate 0 rs))),
        (''rubric'', PStr (ru_name (ta_rubric X)))]
    \<and> file_all T X J (enumerate 0 rs) u = (Inr (), t)
    \<and> edge_keys (ta_kg X) t = (\<Union>(k, r)\<in>set (enumerate 0 rs). verdict_edges T X (J k r) (m_source r)) \<union> edge_keys (ta_kg X) u
    \<and> (kg_log (ta_kg X) good \<longrightarrow> all_edges (ta_kg X) t
        = all_edges (ta_kg X) u @ concat (map (\<lambda>(k, r). filed_edges T X (J k r) (m_source r)) (enumerate 0 rs)))"
proof -
  let ?rows = "map (\<lambda>(k, r). survey_row (J k r) (m_source r)) (enumerate 0 rs)"
  from kg_backend.judge_replies_run [where clock = clock and J = J and i = 0 and rs = rs and rows = "[]", OF assms(1) refl assms(9-11)] obtain t where
    t: "judge_replies T clock X 0 rs [] u = (Inr ?rows, t)" "good t" "file_all T X J (enumerate 0 rs) u = (Inr (), t)"
      "edge_keys (ta_kg X) t = (\<Union>(k, r)\<in>set (enumerate 0 rs). verdict_edges T X (J k r) (m_source r)) \<union> edge_keys (ta_kg X) u"
    by auto
  obtain r where r: "gateway_reply (ta_agent X) mt' m (PDict [(''survey'', PList ?rows), (''rubric'', PStr (ru_name (ta_rubric X)))]) = Inr r"
      "keeps_conversation (ta_agent X) m r" "m_body r = PDict [(''survey'', PList ?rows), (''rubric'', PStr (ru_name (ta_rubric X)))]"
    by (rule gateway_reply_run [OF assms(12,13)])
  have g: "dict_get spec ''target'' PNone = PStr target" using assms(4) by (simp add: dict_get_def)
  have "run_survey T clock X W mt m s = (Inr ?rows, t)"
    using assms(3,5,7,8) t(1) by (simp add: run_survey_def g assms(6) tstr_def value_text_def sbind_def iter_replies_def)
  then have "teacher_handle_message T clock X W mt mt' m s = (Inr (Some r), t)"
    using assms(2,14) r(1) by (simp add: teacher_handle_message_def teacher_reply_def sbind_def)
  moreover have "kg_log (ta_kg X) good \<longrightarrow> all_edges (ta_kg X) t
      = all_edges (ta_kg X) u @ concat (map (\<lambda>(k, r). filed_edges T X (J k r) (m_source r)) (enumerate 0 rs))"
    using kg_log.filed_logged [OF _ refl t(3)] by blast
  ultimately show ?thesis using t(2-4) r(2,3) by blast
qed

text \<open>The documented form of a survey, with a code; one agent answers, and three edges are added.\<close>

theorem survey_grades_all_witness:
  "\<exists>r t. teacher_handle_message sample_teacher_texts (\<lambda>_. fzero) sample_teacher canned_outside sample_minted sample_minted
       (sample_message\<lparr>m_code := ''teacher.survey'', m_body := PDict [(''target'', PStr ''*.*.*.*.*.*.*''),
          (''code'', PStr ''collaborative.reason''), (''prompt'', PStr ''Why?'')]\<rparr>) (taught_graph, ())
       = (Inr (Some r), t)
     \<and> m_body r = PDict [(''survey'', PList [survey_row sample_judgement (m_source (canonical_msg graded_reply))]), (''rubric'', PStr ''clarity'')]
     \<and> kg_edges (fst t) = filed_edges sample_teacher_texts sample_teacher sample_judgement (m_source (canonical_msg graded_reply))"
proof -
  let ?spec = "[(''target'', PStr ''*.*.*.*.*.*.*''), (''code'', PStr ''collaborative.reason''), (''prompt'', PStr ''Why?'')]"
  let ?m = "sample_message\<lparr>m_code := ''teacher.survey'', m_body := PDict ?spec\<rparr>"
  have v: "valid_message ?m" using sample_sendable(1) by (simp add: sendable_def valid_message_def is_broadcast_def)
  have x: "expects_response ?m" by (simp add: expects_response_def sample_message_def)
  have p: "pparse ''*.*.*.*.*.*.*'' = Inr pall" by code_simp
  have c: "dict_get ?spec ''code'' (PStr ''collaborative.reason'') = PStr ''collaborative.reason''" by (simp add: dict_get_def)
  have "\<not> isl (new_message sample_minted (sample_address ''i1'') (TPat pall) ''CAST-GET'' ''collaborative.reason'' ''t1'' (PStr ''Why?''))" by code_simp
  then have "new_message sample_minted (sample_address ''i1'') (TPat pall) ''CAST-GET'' ''collaborative.reason'' ''t1'' (PStr ''Why?'') = Inr survey_ask"
    by (auto simp: survey_ask_def split: sum.splits)
  then have ask: "new_message sample_minted (ta_address sample_teacher) (TPat pall) ''CAST-GET'' ''collaborative.reason'' (m_thread ?m)
      (dict_get ?spec ''prompt'' (PStr [])) = Inr survey_ask"
    by (simp add: sample_teacher_def new_agent_def sample_message_def dict_get_def)
  have run: "engine_handle (ag_engine (ta_agent sample_teacher)) canned_outside survey_ask None None (taught_graph, ())
      = (Inr (Replies [canonical_msg graded_reply]), (taught_graph, ()))"
    using canned_survey by (simp add: sample_teacher_def new_agent_def split: prod.splits sum.splits engine_result.splits list.splits)
  have "judge_one sample_teacher_texts fzero sample_teacher (PDict d) a s = (Inr sample_judgement, s)" if "map_of d ''rubric'' = None" for d a s
    using that by (simp add: judge_one_def rubric_from_body_def sample_teacher_def Let_def)
  then have j: "\<forall>(k, r)\<in>set (enumerate 0 [canonical_msg graded_reply]). graded sample_teacher_texts (\<lambda>_. fzero) sample_teacher k r sample_judgement"
    using sample_teacher_ok(4) by (simp add: graded_def graded_reply_def sample_message_def canonical_msg_def)
  have kept: "kg_log (ta_kg sample_teacher) (\<lambda>s. kg_ok (fst s))" using memory_log.kg_log_axioms by (simp add: sample_teacher_def)
  have edges: "all_edges (ta_kg sample_teacher) t = kg_edges (fst t)" for t
    by (cases t) (simp add: sample_teacher_def memory_backend_def list_edges_def)
  have none: "kg_edges taught_graph = []" by (simp add: taught_graph_def write_node_def Let_def empty_kg_def)
  from survey_grades_all [where J = "\<lambda>_ _. sample_judgement", OF sample_teacher_ok(1) _ _ _ p c ask run sample_teacher_ok(2,3) j sample_teacher_ok(5) v x] kept
  show ?thesis by (auto simp: edges none) (auto simp: sample_teacher_def)
qed

text \<open>The in-memory graph forgets a rubric at its first verdict: the node written at construction, with the description
  and the criteria, is overwritten by one without attributes.\<close>

lemma rubric_forgotten:
  assumes "ta_kg X = memory_backend fsum froot hex12" and "persist_judgement T X j subject (G, w) = (Inr (), (G', w'))"
  shows "get_node (node_id_for_rubric (jd_rubric j)) G' = Some (rubric_node (jd_rubric j))"
proof -
  have ids: "node_id_for_rubric (jd_rubric j) \<noteq> kn_id (judgement_node T X j subject props)" for props
    by (simp add: judgement_node_def node_id_for_rubric_def node_id_for_judgement_def)
  have ne: "kn_id (agent_node subject) \<noteq> []" "kn_id (rubric_node (jd_rubric j)) \<noteq> []" "kn_id (judgement_node T X j subject props) \<noteq> []" for props
    by (simp_all add: agent_node_def rubric_node_def judgement_node_def node_id_for_agent_def node_id_for_rubric_def node_id_for_judgement_def)
  have edge: "kg_nodes (fst t) = kg_nodes (fst s)" if "put_edge (ta_kg X) e s = (Inr (), t)" for e s t
    using that by (cases s) (auto simp: assms(1) put_edge_def sbind_def write_edge_def split: if_splits)
  have node: "kg_nodes (fst t) = AList.update (kn_id n) n (kg_nodes (fst s))" if "put_node (ta_kg X) n s = (Inr (), t)" "kn_id n \<noteq> []" for n s t
    using that by (cases s) (auto simp: assms(1) put_node_def sbind_def write_node_sel(1))
  obtain s1 s2 s3 s4 s5 props where run: "put_node (ta_kg X) (agent_node subject) (G, w) = (Inr (), s1)"
    "put_node (ta_kg X) (rubric_node (jd_rubric j)) s1 = (Inr (), s2)" "put_node (ta_kg X) (judgement_node T X j subject props) s2 = (Inr (), s3)"
    "put_edge (ta_kg X) (kg_edge (node_id_for_agent (ta_address X)) (node_id_for_judgement (tt_fixed6 T) (ta_address X) subject (jd_ts j)) ''ISSUED'') s3 = (Inr (), s4)"
    "put_edge (ta_kg X) (kg_edge (node_id_for_judgement (tt_fixed6 T) (ta_address X) subject (jd_ts j)) (node_id_for_agent subject) ''ABOUT'') s4 = (Inr (), s5)"
    "put_edge (ta_kg X) (kg_edge (node_id_for_judgement (tt_fixed6 T) (ta_address X) subject (jd_ts j)) (node_id_for_rubric (jd_rubric j)) ''USES_RUBRIC'') s5 = (Inr (), (G', w'))"
    using assms(2) unfolding persist_judgement_def Let_def by (elim sbind_InrE) (auto simp: slift_def)
  have "kg_nodes G' = kg_nodes (fst s3)" using edge [OF run(4)] edge [OF run(5)] edge [OF run(6)] by simp
  also have "\<dots> = AList.update (kn_id (judgement_node T X j subject props)) (judgement_node T X j subject props)
      (AList.update (kn_id (rubric_node (jd_rubric j))) (rubric_node (jd_rubric j)) (kg_nodes (fst s1)))"
    using node [OF run(2) ne(2)] node [OF run(3) ne(3)] by simp
  finally show ?thesis using ids by (simp add: get_node_def update_conv' rubric_node_def)
qed

end
