(* ===== verification/SessionRunner.thy ===== *)
theory SessionRunner
  imports Prompts Teacher
begin

text \<open>
  \<open>examples/viewer/runner.py\<close>: the agent that answers every round-based format, and the rounds a
  moderator runs through the engine. A chat model is a function of the prompt that acts on the world
  outside; the graph of the agents that have tools is an argument as well.
\<close>

section \<open>What a model returns\<close>

text \<open>\<open>cr_content\<close> is the attribute, \<open>None\<close> when the object has none; \<open>cr_str\<close> is the text of the object.\<close>

datatype tool_call = Call_Dict ctx | Call_Object "pyval option" "pyval option"

record Chat_Response =
  cr_content :: "pyval option"
  cr_str :: string
  cr_tool_calls :: "tool_call list"

definition block_text :: "(pyval \<Rightarrow> string) \<Rightarrow> pyval \<Rightarrow> string option" where
  "block_text repr v =
     (case v of
        PDict d \<Rightarrow>
          (let t = dict_get d ''text'' PNone;
               t = (if truthy t then t else dict_get d ''content'' PNone)
           in if truthy t then Some (value_text repr t) else None)
      | _ \<Rightarrow> Some (value_text repr v))"

definition extract_text :: "(pyval \<Rightarrow> string) \<Rightarrow> Chat_Response option \<Rightarrow> string res" where
  "extract_text repr resp =
     (case resp of
        None \<Rightarrow> Inr []
      | Some r \<Rightarrow>
          (case cr_content r of
             None \<Rightarrow> Inr (strip (cr_str r))
           | Some PNone \<Rightarrow> Inr (strip (cr_str r))
           | Some (PStr t) \<Rightarrow> Inr (strip t)
           | Some v \<Rightarrow> rbind (iterate v) (\<lambda>blocks. Inr (strip (join [CHR 0x0A] (List.map_filter (block_text repr) blocks))))))"

definition call_record :: "tool_call \<Rightarrow> pyval" where
  "call_record c =
     (case c of
        Call_Dict d \<Rightarrow> PDict [(''name'', dict_get d ''name'' PNone), (''args'', dict_get d ''args'' PNone)]
      | Call_Object name args \<Rightarrow>
          PDict [(''name'', case name of None \<Rightarrow> PStr ''?'' | Some v \<Rightarrow> v), (''args'', case args of None \<Rightarrow> PDict [] | Some v \<Rightarrow> v)])"

section \<open>The agent\<close>

record 's SessionAgent =
  sa_agent :: "'s AHPAgent"
  sa_model :: "string \<Rightarrow> ('s, Chat_Response) op"
  sa_persona :: string
  sa_graph :: "(string \<Rightarrow> ('s, Chat_Response list) op) option"

text \<open>\<open>_invoke\<close>: the model alone, or the graph when the agent has tools.\<close>

definition invoke :: "(pyval \<Rightarrow> string) \<Rightarrow> 's SessionAgent \<Rightarrow> string \<Rightarrow> ('s, string \<times> pyval) op" where
  "invoke repr A prompt =
     (case sa_graph A of
        None \<Rightarrow> sbind (sa_model A prompt) (\<lambda>resp. sbind (slift (extract_text repr (Some resp))) (\<lambda>t. sret (t, PList [])))
      | Some graph \<Rightarrow>
          sbind (graph prompt) (\<lambda>messages.
          sbind (slift (extract_text repr (if messages = [] then None else Some (last messages)))) (\<lambda>t.
          sret (t, PList (map call_record (concat (map cr_tool_calls messages)))))))"

text \<open>The recipe of a body: the text of its key, nothing, or the error of \<open>":" not in key\<close> and \<open>key.split\<close>.\<close>

definition recipe_of :: "ctx \<Rightarrow> string option res" where
  "recipe_of body =
     (let key = dict_get body ''recipe'' PNone in
      if \<not> truthy key then Inr None
      else (case key of
              PStr t \<Rightarrow> Inr (if CHR '':'' \<in> set t then Some t else None)
            | PList xs \<Rightarrow> if PStr '':'' \<in> set xs then Inl AttributeError else Inr None
            | PDict d \<Rightarrow> if map_of d '':'' \<noteq> None then Inl AttributeError else Inr None
            | _ \<Rightarrow> Inl TypeError))"

text \<open>The prompt of a body, \<open>None\<close> where the agent stays silent. \<open>**ctx\<close> refuses a second value for a parameter of
  \<open>render\<close>; of the errors of rendering only \<open>KeyError\<close> is caught.\<close>

definition session_prompt :: "(pyval \<Rightarrow> string) \<Rightarrow> string \<Rightarrow> string \<Rightarrow> ctx \<Rightarrow> string option res" where
  "session_prompt repr persona slug body =
     rbind (recipe_of body) (\<lambda>key.
     case key of
       None \<Rightarrow> Inr None
     | Some key \<Rightarrow>
         (let role = fst (partition_on (CHR '':'') key);
              mode = snd (partition_on (CHR '':'') key);
              ctx = filter (\<lambda>(k, v). k \<noteq> ''recipe'') body;
              ctx = (if map_of ctx ''self_slug'' = None then ctx @ [(''self_slug'', PStr slug)] else ctx)
          in if \<exists>k\<in>set (map fst ctx). k \<in> {''role'', ''mode'', ''system''} then Inl TypeError
             else (case render_prompt repr role mode persona ctx of
                     Inr prompt \<Rightarrow> Inr (Some prompt)
                   | Inl e \<Rightarrow> if e = KeyError then Inr None else Inl e)))"

definition body_dict :: "pyval \<Rightarrow> ctx" where
  "body_dict v = (case v of PDict d \<Rightarrow> d | _ \<Rightarrow> [])"

definition session_handle_message :: "(pyval \<Rightarrow> string) \<Rightarrow> 's SessionAgent \<Rightarrow> minted \<Rightarrow> 's handler" where
  "session_handle_message repr A mt m =
     (let me = ag_address (sa_agent A); body = body_dict (m_body m) in
      sbind (slift (session_prompt repr (sa_persona A) (a_instance me) body)) (\<lambda>prompt.
      case prompt of
        None \<Rightarrow> sret None
      | Some prompt \<Rightarrow>
          sbind (invoke repr A prompt) (\<lambda>(said, calls).
          sbind (slift (new_message mt me (TAddr (m_source m)) ''SEND'' (m_code m) (m_thread m)
            (PDict [(''slug'', PStr (a_instance me)), (''recipe'', dict_get body ''recipe'' PNone),
                    (''text'', PStr said), (''tool_calls'', calls)]))) (\<lambda>r.
          sret (Some r)))))"

section \<open>Turns\<close>

record AgentTurn =
  at_slug :: pyval
  at_address :: string
  at_text :: string
  at_round_name :: string
  at_tool_calls :: "pyval list"

definition turn :: "(pyval \<Rightarrow> string) \<Rightarrow> string \<Rightarrow> Message \<Rightarrow> AgentTurn res" where
  "turn repr round_name m =
     (let body = body_dict (m_body m); calls = dict_get body ''tool_calls'' PNone in
      rbind (if truthy calls then iterate calls else Inr []) (\<lambda>tool_calls.
      Inr \<lparr>at_slug = dict_get body ''slug'' (PStr ''?''), at_address = to_str (m_source m),
           at_text = strip (value_text repr (dict_get body ''text'' (PStr []))), at_round_name = round_name,
           at_tool_calls = tool_calls\<rparr>))"

definition transcript_entries :: "AgentTurn list \<Rightarrow> pyval list" where
  "transcript_entries turns = map (\<lambda>t. PDict [(''slug'', at_slug t), (''body'', PStr (at_text t))]) turns"

section \<open>Rounds\<close>

text \<open>The moderator: by thread, what constructing a message and the world outside supply.\<close>

record 's Moderator =
  md_engine :: "'s ProtocolEngine"
  md_outside :: "string \<Rightarrow> 's outside"
  md_mint :: "string \<Rightarrow> minted"
  md_address :: AgentAddress
  md_pattern :: AddressPattern
  md_model :: "string \<Rightarrow> ('s, Chat_Response) op"
  md_seconds :: "string \<Rightarrow> string"

definition probe_prompt :: "string \<Rightarrow> string \<Rightarrow> string" where
  "probe_prompt topic prior =
     ''You are a sharp moderator probing an interviewee.'' @ [CHR 0x0A, CHR 0x0A] @ ''TOPIC: '' @ topic @ [CHR 0x0A, CHR 0x0A]
     @ ''INTERVIEWEE'S MOST RECENT ANSWER: '' @ prior @ [CHR 0x0A, CHR 0x0A]
     @ ''Ask one short follow-up question (under 30 words). Push on the weakest point or biggest hidden assumption. Plain question only ''
     @ [CHR 0xE2, CHR 0x80, CHR 0x94] @ '' no preamble, no quoting.''"

definition generate_probe :: "'s Moderator \<Rightarrow> string \<Rightarrow> string \<Rightarrow> ('s, string) op" where
  "generate_probe M topic prior =
     sbind (md_model M (probe_prompt topic prior)) (\<lambda>resp.
     slift (case cr_content resp of None \<Rightarrow> Inr (strip (cr_str resp)) | Some (PStr t) \<Rightarrow> Inr (strip t) | Some _ \<Rightarrow> Inl AttributeError))"

definition moderator_message :: "'s Moderator \<Rightarrow> string \<Rightarrow> msg_target \<Rightarrow> string \<Rightarrow> string option \<Rightarrow> ctx \<Rightarrow> Message res" where
  "moderator_message M thread target verb code body =
     new_message (md_mint M thread) (md_address M) target verb (or_default code []) thread (PDict body)"

definition probe_body :: "ctx \<Rightarrow> string \<Rightarrow> string \<Rightarrow> ctx" where
  "probe_body body prior follow_up =
     AList.update ''moderator_question'' (PStr follow_up) (AList.update ''follow_up'' (PStr follow_up) (AList.update ''prior'' (PStr prior) body))"

definition reply_text :: "(pyval \<Rightarrow> string) \<Rightarrow> Message \<Rightarrow> string" where
  "reply_text repr m = (case m_body m of PDict d \<Rightarrow> value_text repr (dict_get d ''text'' (PStr [])) | v \<Rightarrow> value_text repr v)"

fun probe_loop :: "(pyval \<Rightarrow> string) \<Rightarrow> 's Moderator \<Rightarrow> string option \<Rightarrow> ctx \<Rightarrow> string \<Rightarrow> string \<Rightarrow> AgentAddress \<Rightarrow> nat list \<Rightarrow> string \<Rightarrow>
    Message list \<Rightarrow> ('s, Message list) op" where
  "probe_loop repr M code body thread topic target [] prior replies s = (Inr replies, s)"
| "probe_loop repr M code body thread topic target (i # is) prior replies s =
     sbind (generate_probe M topic prior) (\<lambda>follow_up.
     let th = thread @ ''::probe-'' @ decimal i in
     sbind (slift (moderator_message M th (TAddr target) ''SEND-GET'' code (probe_body body prior follow_up))) (\<lambda>m.
     sbind (engine_handle (md_engine M) (md_outside M th) m (Some (Fin 60)) None) (\<lambda>result.
     case result of
       Reply (Some reply) \<Rightarrow> probe_loop repr M code body thread topic target is (reply_text repr reply) (replies @ [reply])
     | _ \<Rightarrow> probe_loop repr M code body thread topic target is prior replies))) s"

definition last_words :: "pyval list \<Rightarrow> string" where
  "last_words history =
     (if history = [] then ''(opening statement)''
      else (case dict_get (body_dict (last history)) ''body'' PNone of PStr t \<Rightarrow> t | _ \<Rightarrow> []))"

definition run_round :: "(pyval \<Rightarrow> string) \<Rightarrow> 's Moderator \<Rightarrow> string option \<Rightarrow> ctx \<Rightarrow> round_kind \<Rightarrow> int \<Rightarrow> string \<Rightarrow> string \<Rightarrow> int \<Rightarrow>
    pyval list \<Rightarrow> AgentAddress option \<Rightarrow> ('s, Message list) op" where
  "run_round repr M code body kind max_responses thread topic probe_count history single_target =
     (case kind of
        Broadcast \<Rightarrow>
          sbind (slift (moderator_message M thread (TPat (md_pattern M)) ''CAST-GET'' code body)) (\<lambda>m.
          sbind (engine_handle (md_engine M) (md_outside M thread) m (Some (Fin 90)) (Some max_responses)) (\<lambda>result.
          sret (case result of Replies ms \<Rightarrow> ms | _ \<Rightarrow> [])))
      | Sequential_Probes \<Rightarrow>
          (case single_target of
             None \<Rightarrow> sret []
           | Some target \<Rightarrow>
               probe_loop repr M code body thread topic target [0..<nat probe_count] (last_words history) [])
      | Skip \<Rightarrow> sret [])"

section \<open>A session\<close>

definition common_body :: "string \<Rightarrow> string option \<Rightarrow> ctx" where
  "common_body topic recipe = [(''recipe'', case recipe of None \<Rightarrow> PNone | Some k \<Rightarrow> PStr k), (''topic'', PStr topic), (''question'', PStr topic)]"

definition round2_body :: "Format \<Rightarrow> string \<Rightarrow> AgentTurn list \<Rightarrow> pyval list \<Rightarrow> ctx" where
  "round2_body f topic round1 history =
     common_body topic (fm_round2_recipe f) @
     (if fm_round2_kind f = Broadcast
      then [(''others'', PList (transcript_entries round1)), (''transcript'', PList history),
            (''attacks_on_me'', PList (transcript_entries round1)), (''questions_for_me'', PList (transcript_entries round1))]
      else [])"

definition closing_body :: "Format \<Rightarrow> string \<Rightarrow> AgentTurn list \<Rightarrow> pyval list \<Rightarrow> ctx" where
  "closing_body f topic round1 history =
     common_body topic (fm_closing_recipe f) @ [(''transcript'', PList history), (''others'', PList (transcript_entries round1))]"

record Rounds =
  rd_round1 :: "AgentTurn list"
  rd_round2 :: "AgentTurn list"
  rd_closing :: "AgentTurn list"

definition runs_round2 :: "Format \<Rightarrow> bool" where
  "runs_round2 f \<longleftrightarrow> fm_round2_recipe f \<noteq> None \<and> fm_round2_kind f \<noteq> Skip"

definition runs_closing :: "Format \<Rightarrow> bool" where
  "runs_closing f \<longleftrightarrow> fm_closing_recipe f \<noteq> None \<and> fm_closing_kind f \<noteq> Skip"

text \<open>The three rounds of \<open>run_debate\<close> with the transcript they build.\<close>

definition run_rounds :: "(pyval \<Rightarrow> string) \<Rightarrow> 's Moderator \<Rightarrow> Format \<Rightarrow> string \<Rightarrow> int \<Rightarrow> AgentAddress option \<Rightarrow> ('s, Rounds) op" where
  "run_rounds repr M f topic panel single_target =
     (let thread = (\<lambda>n. ''thread::'' @ md_seconds M n @ ''::'' @ n) in
      sbind (run_round repr M (fm_code f) (common_body topic (fm_round1_recipe f)) Broadcast panel (thread ''1'') topic
               (fm_probe_count f) [] single_target) (\<lambda>ms.
      sbind (slift (mapM (turn repr ''round1'') ms)) (\<lambda>round1.
      let said = transcript_entries round1 in
      sbind (if runs_round2 f
             then sbind (run_round repr M (fm_code f) (round2_body f topic round1 said) (fm_round2_kind f) panel (thread ''2'') topic
                    (fm_probe_count f) said single_target) (\<lambda>ms. slift (mapM (turn repr ''round2'') ms))
             else sret []) (\<lambda>round2.
      let said = said @ transcript_entries round2 in
      sbind (if runs_closing f
             then sbind (run_round repr M (fm_code f) (closing_body f topic round1 said) (fm_closing_kind f) panel (thread ''close'') topic
                    1 said single_target) (\<lambda>ms. slift (mapM (turn repr ''closing'') ms))
             else sret []) (\<lambda>closing.
      sret \<lparr>rd_round1 = round1, rd_round2 = round2, rd_closing = closing\<rparr>)))))"

section \<open>What the rounds ask\<close>

text \<open>The bodies of a session: a probe body for each sequential question.\<close>

definition sequential :: "round_kind \<Rightarrow> string \<Rightarrow> string \<Rightarrow> ctx \<Rightarrow> ctx" where
  "sequential kind prior probe body = (if kind = Sequential_Probes then probe_body body prior probe else body)"

definition session_bodies :: "Format \<Rightarrow> string \<Rightarrow> AgentTurn list \<Rightarrow> AgentTurn list \<Rightarrow> string \<Rightarrow> string \<Rightarrow> ctx list" where
  "session_bodies f topic round1 round2 prior probe =
     [common_body topic (fm_round1_recipe f)]
     @ (if runs_round2 f then [sequential (fm_round2_kind f) prior probe (round2_body f topic round1 (transcript_entries round1))] else [])
     @ (if runs_closing f
        then [sequential (fm_closing_kind f) prior probe (closing_body f topic round1 (transcript_entries round1 @ transcript_entries round2))]
        else [])"

definition known_key :: "string option \<Rightarrow> bool" where
  "known_key k = (case k of None \<Rightarrow> False | Some key \<Rightarrow> (fst (partition_on (CHR '':'') key), snd (partition_on (CHR '':'') key)) \<in> set recipe_index)"

lemma legacy_keys:
  "list_all (\<lambda>f. known_key (fm_round1_recipe f) \<and> (runs_round2 f \<longrightarrow> known_key (fm_round2_recipe f))
     \<and> (runs_closing f \<longrightarrow> known_key (fm_closing_recipe f))) LEGACY_FORMATS"
  by code_simp

lemma known_keyD:
  assumes "known_key k"
  obtains key r where "k = Some key" "CHR '':'' \<in> set key"
    "get_recipe (fst (partition_on (CHR '':'') key)) (snd (partition_on (CHR '':'') key)) = Inr r"
proof -
  from assms obtain key role mode where k: "k = Some key" "partition_on (CHR '':'') key = (role, mode)" "(role, mode) \<in> set recipe_index"
    by (auto simp: known_key_def split: option.splits) (metis prod.exhaust_sel)
  have ne: "mode \<noteq> []" using k(3) by (auto simp: recipe_index_def)
  have "CHR '':'' \<in> set key"
  proof (rule ccontr)
    assume "CHR '':'' \<notin> set key"
    then have "dropWhile (\<lambda>x. x \<noteq> CHR '':'') key = []" by (auto simp: dropWhile_eq_Nil_conv)
    moreover have "mode = tl (dropWhile (\<lambda>x. x \<noteq> CHR '':'') key)" using k(2) by (auto simp: partition_on_def)
    ultimately show False using ne by (metis list.sel(2))
  qed
  moreover have "role @ '':'' @ mode \<in> set (map recipe_key recipe_list)" unfolding recipe_names using k(3) by force
  then obtain r where "r \<in> set recipe_list" "recipe_key r = role @ '':'' @ mode" by auto
  then have "get_recipe role mode = Inr r" by (simp add: get_recipe_Inr)
  ultimately show ?thesis using that k(1,2) by simp
qed

lemma turns_said [simp]: "list_all speaks (transcript_entries ts)"
  by (simp add: transcript_entries_def list_all_iff speaks_def dict_get_def)

lemma mapped_filter: "P k \<Longrightarrow> map_of (filter (\<lambda>(k, v). P k) d) k = map_of d k"
  by (induction d) auto

text \<open>A body of the session: the key of a recipe, a topic and a question, turns that were said, and no key that is
  a parameter of \<open>render\<close>.\<close>

definition session_body :: "ctx \<Rightarrow> bool" where
  "session_body body \<longleftrightarrow> (\<exists>key. known_key (Some key) \<and> map_of body ''recipe'' = Some (PStr key)) \<and> ctx_ok body
     \<and> map_of body ''self_slug'' = None \<and> list_all (\<lambda>k. map_of body k = None) [''role'', ''mode'', ''system'']"

lemma ctx_ok_cong:
  assumes "\<And>k. k \<in> {''topic'', ''question'', ''others'', ''transcript'', ''attacks_on_me'', ''questions_for_me''} \<Longrightarrow> map_of d k = map_of e k"
  shows "ctx_ok d = ctx_ok e"
  using assms by (simp add: ctx_ok_def turns_ok_def dict_get_def)

lemmas body_defs = common_body_def ctx_ok_def turns_ok_def dict_get_def

lemma known_key_some: "known_key k \<Longrightarrow> \<exists>key. k = Some key \<and> known_key (Some key)"
  by (cases k) (auto simp: known_key_def)

lemma session_body_probe: "session_body body \<Longrightarrow> session_body (probe_body body prior probe)"
proof -
  have other: "map_of (probe_body body prior probe) k = map_of body k" if "k \<notin> {''prior'', ''follow_up'', ''moderator_question''}" for k
    using that by (simp add: probe_body_def update_conv)
  have "ctx_ok (probe_body body prior probe) = ctx_ok body" by (rule ctx_ok_cong) (auto intro: other)
  then show "session_body body \<Longrightarrow> session_body (probe_body body prior probe)"
    by (simp add: session_body_def other)
qed

lemma session_body_sequential: "session_body body \<Longrightarrow> session_body (sequential kind prior probe body)"
  by (simp add: sequential_def session_body_probe)

lemma session_body_common: "known_key k \<Longrightarrow> session_body (common_body topic k)"
  by (drule known_key_some) (auto simp: session_body_def body_defs)

lemma session_body_round2: "known_key (fm_round2_recipe f) \<Longrightarrow> session_body (round2_body f topic round1 (transcript_entries ts))"
  by (drule known_key_some) (auto simp: session_body_def round2_body_def body_defs)

lemma session_body_closing: "known_key (fm_closing_recipe f) \<Longrightarrow> session_body (closing_body f topic round1 (transcript_entries ts))"
  by (drule known_key_some) (auto simp: session_body_def closing_body_def body_defs)

lemma said_append: "transcript_entries ts @ transcript_entries us = transcript_entries (ts @ us)"
  by (simp add: transcript_entries_def)

lemma session_bodies_fine:
  assumes f: "f \<in> set LEGACY_FORMATS" and body: "body \<in> set (session_bodies f topic round1 round2 prior probe)"
  shows "session_body body"
proof -
  have "known_key (fm_round1_recipe f)" "runs_round2 f \<Longrightarrow> known_key (fm_round2_recipe f)"
    "runs_closing f \<Longrightarrow> known_key (fm_closing_recipe f)"
    using f legacy_keys by (auto simp: list_all_iff)
  then have "list_all session_body (session_bodies f topic round1 round2 prior probe)"
    by (simp add: session_bodies_def said_append session_body_sequential session_body_common session_body_round2 session_body_closing)
  then show ?thesis using body by (simp add: list_all_iff)
qed

text \<open>Such a body is always prompted for, with the persona in the prompt.\<close>

lemma session_body_prompted:
  assumes "session_body body"
  obtains prompt where "session_prompt repr persona slug body = Inr (Some prompt)" "sublist persona prompt"
proof -
  from assms obtain key where key: "known_key (Some key)" "map_of body ''recipe'' = Some (PStr key)" by (auto simp: session_body_def)
  let ?ctx = "filter (\<lambda>(k, v). k \<noteq> ''recipe'') body @ [(''self_slug'', PStr slug)]"
  from key(1) obtain r where r: "CHR '':'' \<in> set key"
    "get_recipe (fst (partition_on (CHR '':'') key)) (snd (partition_on (CHR '':'') key)) = Inr r" by (rule known_keyD) simp
  have other: "map_of (filter (\<lambda>(k, v). k \<noteq> ''recipe'') body) k = map_of body k" if "k \<noteq> ''recipe''" for k
    using that by (rule mapped_filter [where P = "\<lambda>k. k \<noteq> ''recipe''"])
  have kept: "map_of ?ctx k = map_of body k" if "k \<noteq> ''recipe''" "k \<noteq> ''self_slug''" for k
    using that by (simp add: map_add_def map_of_append other split: option.split)
  have "ctx_ok ?ctx = ctx_ok body" by (rule ctx_ok_cong, rule kept) auto
  then have "ctx_ok ?ctx" using assms by (simp add: session_body_def)
  with r(2) obtain t where t: "render_prompt repr (fst (partition_on (CHR '':'') key)) (snd (partition_on (CHR '':'') key)) persona ?ctx = Inr t"
    "sublist persona t" by (rule recipe_renders)
  have "recipe_of body = Inr (Some key)" using key(2) r(1) by (auto simp: recipe_of_def dict_get_def)
  moreover have "map_of (filter (\<lambda>(k, v). k \<noteq> ''recipe'') body) ''self_slug'' = None"
    using assms other [of "''self_slug''"] by (simp add: session_body_def)
  moreover have "\<not> (\<exists>k\<in>set (map fst ?ctx). k \<in> {''role'', ''mode'', ''system''})"
  proof -
    have "k \<notin> set (map fst ?ctx)" if "map_of body k = None" "k \<noteq> ''self_slug''" for k
      using that by (auto simp: map_of_eq_None_iff image_iff)
    moreover have "map_of body k = None \<and> k \<noteq> ''self_slug''" if "k \<in> {''role'', ''mode'', ''system''}" for k
      using assms that by (auto simp: session_body_def)
    ultimately show ?thesis by blast
  qed
  ultimately have "session_prompt repr persona slug body = Inr (Some t)" using t(1) by (simp add: session_prompt_def Let_def)
  then show ?thesis using that t(2) by blast
qed

section \<open>How long a session gets\<close>

lemma collected_yields: "yields (collect_replies nid R P m targets timeout n) (\<lambda>ms. int (length ms) \<le> max 0 n)"
  unfolding collect_replies_def
  by (intro yields_bind) (auto simp: yields_def dest: collect_loop_bound split: prod.splits)

definition at_most :: "int \<Rightarrow> engine_result \<Rightarrow> bool" where
  "at_most n r = (case r of Replies ms \<Rightarrow> int (length ms) \<le> max 0 n | _ \<Rightarrow> True)"

lemma at_most_single [simp]: "at_most n (Count k)" "at_most n (Reply r)" "at_most n (Subscribed u)"
  by (simp_all add: at_most_def)

lemma cast_get_yields: "yields (handle_cast_get E W m timeout (Some n)) (\<lambda>ms. int (length ms) \<le> max 0 n)"
proof -
  have none: "yields (sret ([] :: Message list)) (\<lambda>ms. int (length ms) \<le> max 0 n)" by (rule yields_ret) simp
  have cast: "yields (bus_cast_get nid R P m targets timeout (Some n)) (\<lambda>ms. int (length ms) \<le> max 0 n)" for nid R P targets
    unfolding bus_cast_get_def using collected_yields [of nid R P m targets timeout n] by simp
  have tail: "yields (sbind (scatch (bus_cast_get nid R P m targets timeout (Some n)) (\<lambda>e. sbind (undo e) (\<lambda>_. sraise e)))
      (\<lambda>ms. sbind (settle ms) (\<lambda>r. sbind (rest r) (\<lambda>_. sret ms)))) (\<lambda>ms. int (length ms) \<le> max 0 n)" for nid R P targets undo settle rest
    by (rule yields_bind_with [OF yields_catch [OF cast yields_bind [OF yields_raise]]]) (intro yields_bind yields_ret)
  have broker: "yields (broker_cast_get E B W m targets timeout (Some n)) (\<lambda>ms. int (length ms) \<le> max 0 n)" for B targets
    unfolding broker_cast_get_def Let_def
    by (rule yields_bind)+ (auto split: prod.split intro: none tail)
  show ?thesis unfolding handle_cast_get_def
    by (rule yields_bind) (auto split: option.split intro: none cast broker)
qed

lemma engine_yields: "yields (engine_handle E W m timeout (Some n)) (at_most n)"
proof -
  have d: "yields (dispatch E W m t (Some n)) (at_most n)" for t
  proof -
    have c: "yields (sbind (handle_cast_get E W m t (Some n)) (\<lambda>rs. sret (Replies rs))) (at_most n)"
      by (rule yields_bind_with [OF cast_get_yields]) (simp add: at_most_def yields_ret)
    have o: "yields (sbind f (\<lambda>x. sret (r x))) (at_most n)" if "\<And>x. at_most n (r x)" for f r
      by (intro yields_bind yields_ret that)
    show ?thesis unfolding dispatch_def by (auto intro!: c o)
  qed
  show ?thesis unfolding engine_handle_def
    by (auto intro!: yields_raise yields_bind yields_bind_with [OF yields_catch [OF d yields_bind [OF yields_raise]]] yields_ret)
qed

lemma probes_yield: "yields (probe_loop repr M code body thread topic target is prior replies) (\<lambda>ms. length ms \<le> length replies + length is)"
proof (induction "is" arbitrary: prior replies)
  case (Cons i "is")
  have "probe_loop repr M code body thread topic target (i # is) prior replies =
     sbind (generate_probe M topic prior) (\<lambda>follow_up.
     sbind (slift (moderator_message M (thread @ ''::probe-'' @ decimal i) (TAddr target) ''SEND-GET'' code (probe_body body prior follow_up))) (\<lambda>m.
     sbind (engine_handle (md_engine M) (md_outside M (thread @ ''::probe-'' @ decimal i)) m (Some (Fin 60)) None) (\<lambda>result.
     case result of
       Reply (Some reply) \<Rightarrow> probe_loop repr M code body thread topic target is (reply_text repr reply) (replies @ [reply])
     | _ \<Rightarrow> probe_loop repr M code body thread topic target is prior replies)))" (is "?l = ?r")
    by (rule ext) (simp add: Let_def)
  moreover have "yields ?r (\<lambda>ms. length ms \<le> length replies + length (i # is))"
    using Cons by (intro yields_bind) (fastforce simp: yields_def split: engine_result.splits option.splits)
  ultimately show ?case by simp
qed (simp add: yields_def)

lemma nat_bound: "length xs \<le> nat n \<Longrightarrow> int (length xs) \<le> max 0 n"
  by linarith

text \<open>The number of turns a round may take.\<close>

definition turns_allowed :: "round_kind \<Rightarrow> int \<Rightarrow> int \<Rightarrow> AgentAddress option \<Rightarrow> int" where
  "turns_allowed kind panel probes target =
     (case kind of Broadcast \<Rightarrow> max 0 panel | Sequential_Probes \<Rightarrow> if target = None then 0 else max 0 probes | Skip \<Rightarrow> 0)"

lemma round_yields:
  "yields (run_round repr M code body kind panel thread topic probes history target) (\<lambda>ms. int (length ms) \<le> turns_allowed kind panel probes target)"
proof (cases kind)
  case Broadcast
  then show ?thesis unfolding run_round_def
    by (auto simp: turns_allowed_def at_most_def split: engine_result.splits intro!: yields_bind yields_ret yields_bind_with [OF engine_yields])
next
  case Sequential_Probes
  then show ?thesis using probes_yield [of repr M code body thread topic _ "[0..<nat probes]" "last_words history" "[]"]
    unfolding run_round_def by (cases target) (auto simp: turns_allowed_def yields_def intro!: nat_bound)
qed (auto simp: run_round_def turns_allowed_def intro: yields_ret)

section \<open>Properties\<close>

text \<open>C26: No agent of a round-based session stays silent. Whatever the format, every body the three rounds send names a
  registered recipe and carries what that recipe needs, so the prompt is built, with the persona of the agent in it; the
  agent answers once its model does, in the conversation of the request, and the moderator reads back exactly what was
  said, under the agent's own name.\<close>

theorem session_agent_speaks:
  assumes "f \<in> set LEGACY_FORMATS" and "body \<in> set (session_bodies f topic round1 round2 prior probe)"
    and "m_body m = PDict body" and "agent_ok (sa_agent A) mt" and "valid_message m"
    and model: "\<And>prompt. \<exists>said calls t. invoke repr A prompt s = (Inr (said, PList calls), t)"
  shows "\<exists>prompt said calls t r.
       session_prompt repr (sa_persona A) (a_instance (ag_address (sa_agent A))) body = Inr (Some prompt) \<and> sublist (sa_persona A) prompt
     \<and> invoke repr A prompt s = (Inr (said, PList calls), t)
     \<and> session_handle_message repr A mt m s = (Inr (Some r), t)
     \<and> m_source r = ag_address (sa_agent A) \<and> m_target r = TAddr (m_source m) \<and> m_code r = m_code m \<and> m_thread r = m_thread m
     \<and> turn repr n r = Inr \<lparr>at_slug = PStr (a_instance (ag_address (sa_agent A))), at_address = to_str (ag_address (sa_agent A)),
         at_text = strip said, at_round_name = n, at_tool_calls = calls\<rparr>"
proof -
  let ?me = "ag_address (sa_agent A)"
  from session_bodies_fine [OF assms(1,2)] obtain prompt
    where p: "session_prompt repr (sa_persona A) (a_instance ?me) body = Inr (Some prompt)" "sublist (sa_persona A) prompt"
    by (rule session_body_prompted)
  from model [of prompt] obtain said calls t where i: "invoke repr A prompt s = (Inr (said, PList calls), t)" by blast
  let ?b = "PDict [(''slug'', PStr (a_instance ?me)), (''recipe'', dict_get body ''recipe'' PNone), (''text'', PStr said), (''tool_calls'', PList calls)]"
  obtain r where r: "new_message mt ?me (TAddr (m_source m)) ''SEND'' (m_code m) (m_thread m) ?b = Inr r"
    "m_source r = ?me" "m_target r = TAddr (m_source m)" "m_code r = m_code m" "m_thread r = m_thread m" "m_body r = ?b"
    using assms(4,5) by (auto simp: new_message_def msg_post_init_def valid_message_def VALID_VERBS_def POINT_TO_POINT_VERBS_def)
  have "session_handle_message repr A mt m s = (Inr (Some r), t)"
    using p(1) i r(1) by (simp add: session_handle_message_def body_dict_def assms(3) Let_def sbind_run)
  moreover have "turn repr n r = Inr \<lparr>at_slug = PStr (a_instance ?me), at_address = to_str ?me, at_text = strip said, at_round_name = n, at_tool_calls = calls\<rparr>"
    by (simp add: turn_def body_dict_def r dict_get_def iterate_def value_text_def Let_def)
  ultimately show ?thesis using p i r by blast
qed

definition sample_speaker :: "mem SessionAgent" where
  "sample_speaker = \<lparr>sa_agent = sample_agent, sa_model = (\<lambda>prompt s. (Inr \<lparr>cr_content = Some (PStr '' Tea it is. ''), cr_str = [], cr_tool_calls = []\<rparr>, s)),
     sa_persona = ''You are Ada.'', sa_graph = None\<rparr>"

definition sample_question :: Message where
  "sample_question = sample_message\<lparr>m_body := PDict (common_body ''tea'' (Some ''adversarial:debate-me''))\<rparr>"

theorem session_agent_speaks_witness:
  "\<exists>r. session_handle_message (\<lambda>_. []) sample_speaker sample_minted sample_question empty_mem = (Inr (Some r), empty_mem)
     \<and> m_target r = TAddr (m_source sample_message) \<and> m_thread r = m_thread sample_message
     \<and> turn (\<lambda>_. []) ''round1'' r = Inr \<lparr>at_slug = PStr ''i2'', at_address = to_str (sample_address ''i2''),
         at_text = ''Tea it is.'', at_round_name = ''round1'', at_tool_calls = []\<rparr>"
proof -
  have said: "strip '' Tea it is. '' = ''Tea it is.''" "strip ''Tea it is.'' = ''Tea it is.''" by code_simp+
  have i: "invoke (\<lambda>_. []) sample_speaker prompt empty_mem = (Inr (''Tea it is.'', PList []), empty_mem)" for prompt
    by (simp add: invoke_def sample_speaker_def extract_text_def sbind_run said)
  have a: "sa_agent sample_speaker = sample_agent" "ag_address sample_agent = sample_address ''i2''" "a_instance (sample_address ''i2'') = ''i2''"
    by (simp_all add: sample_speaker_def sample_agent_def new_agent_def sample_address_def)
  have f: "fmt_debate \<in> set LEGACY_FORMATS" by (simp add: LEGACY_FORMATS_def)
  have b: "common_body ''tea'' (Some ''adversarial:debate-me'') \<in> set (session_bodies fmt_debate ''tea'' [] [] [] [])"
    by (simp add: session_bodies_def fmt_debate_def)
  have v: "valid_message sample_question" using sample_message_ok(1) by (simp add: sample_question_def valid_message_def is_broadcast_def)
  have ex: "\<exists>said calls t. invoke (\<lambda>_. []) sample_speaker prompt empty_mem = (Inr (said, PList calls), t)" for prompt using i by blast
  from session_agent_speaks [OF f b, of sample_question sample_speaker sample_minted "\<lambda>_. []" empty_mem "''round1''"] ex v sample_agent_ok(1)
  show ?thesis by (auto simp: a i said) (auto simp: sample_question_def)
qed

lemma turns_named:
  assumes "mapM (turn repr n) ms = Inr ts"
  shows "length ts = length ms" "list_all (\<lambda>t. at_round_name t = n) ts"
proof -
  have each: "list_all2 (\<lambda>m t. turn repr n m = Inr t) ms ts" using assms by (simp add: mapM_Inr)
  then show "length ts = length ms" by (simp add: list_all2_lengthD)
  from each show "list_all (\<lambda>t. at_round_name t = n) ts"
    by (induction rule: list_all2_induct) (auto simp: turn_def Let_def rbind_eq_Inr)
qed

definition round_within :: "string \<Rightarrow> int \<Rightarrow> AgentTurn list \<Rightarrow> bool" where
  "round_within n k ts \<longleftrightarrow> int (length ts) \<le> k \<and> list_all (\<lambda>t. at_round_name t = n) ts"

lemma turns_yield:
  "yields (sbind (run_round repr M code body kind panel thread topic probes history target) (\<lambda>ms. slift (mapM (turn repr n) ms)))
     (round_within n (turns_allowed kind panel probes target))"
proof (rule yields_bind_with [OF round_yields], rule yields_lift)
  fix ms ts assume "int (length ms) \<le> turns_allowed kind panel probes target" and ts: "mapM (turn repr n) ms = Inr ts"
  then show "round_within n (turns_allowed kind panel probes target) ts"
    using turns_named [OF ts] by (simp add: round_within_def)
qed

text \<open>C27: A session takes a bounded number of turns. When the rounds of a format return, the opening has at most one turn per
  seat of the panel; the middle round at most one per seat, or one per probe of the single subject, and none where the
  format skips it; the closing at most one per seat, or one; and each turn is filed under its round.\<close>

theorem session_bounded:
  assumes "run_rounds repr M f topic panel target s = (Inr R, t)"
  shows "round_within ''round1'' (turns_allowed Broadcast panel (fm_probe_count f) target) (rd_round1 R)
     \<and> round_within ''round2'' (if runs_round2 f then turns_allowed (fm_round2_kind f) panel (fm_probe_count f) target else 0) (rd_round2 R)
     \<and> round_within ''closing'' (if runs_closing f then turns_allowed (fm_closing_kind f) panel 1 target else 0) (rd_closing R)"
proof -
  let ?P = "\<lambda>R. round_within ''round1'' (turns_allowed Broadcast panel (fm_probe_count f) target) (rd_round1 R)
     \<and> round_within ''round2'' (if runs_round2 f then turns_allowed (fm_round2_kind f) panel (fm_probe_count f) target else 0) (rd_round2 R)
     \<and> round_within ''closing'' (if runs_closing f then turns_allowed (fm_closing_kind f) panel 1 target else 0) (rd_closing R)"
  have opt: "yields (if b then sbind (run_round repr M code body kind panel thread topic probes history target) (\<lambda>ms. slift (mapM (turn repr n) ms)) else sret [])
      (round_within n (if b then turns_allowed kind panel probes target else 0))" for b code body kind thread probes history n
    using turns_yield by (auto intro!: yields_ret simp: round_within_def)
  have assoc: "sbind f (\<lambda>ms. sbind (slift (g ms)) h) = sbind (sbind f (\<lambda>ms. slift (g ms))) h" for f :: "('s, Message list) op" and g and h :: "AgentTurn list \<Rightarrow> ('s, Rounds) op"
    by (rule ext) (auto simp: sbind_def split: prod.splits sum.splits)
  have "yields (run_rounds repr M f topic panel target) ?P"
    unfolding run_rounds_def Let_def assoc
    by (rule yields_bind_with [OF turns_yield], rule yields_bind_with [OF opt], rule yields_bind_with [OF opt], rule yields_ret) simp
  then show ?thesis using assms by (rule yieldsD)
qed

text \<open>A moderator on a network where one agent has answered; its clock stands still beyond every deadline.\<close>

definition sample_moderator :: "(InMemoryKnowledgeGraph \<times> unit) Moderator" where
  "sample_moderator = \<lparr>md_engine = canned_engine,
     md_outside = (\<lambda>_. canned_outside\<lparr>os_peers := (os_peers canned_outside)\<lparr>pe_clock := PInf\<rparr>\<rparr>), md_mint = (\<lambda>_. sample_minted),
     md_address = sample_address ''i1'', md_pattern = pall,
     md_model = (\<lambda>prompt s. (Inr \<lparr>cr_content = Some (PStr ''Why?''), cr_str = [], cr_tool_calls = []\<rparr>, s)), md_seconds = (\<lambda>_. ''7'')\<rparr>"

lemma sample_session:
  "case run_rounds (\<lambda>_. []) sample_moderator fmt_interrogate ''tea'' 1 (Some (sample_address ''i2'')) (taught_graph, ()) of
     (Inr R, _) \<Rightarrow> length (rd_round1 R) = 1 \<and> length (rd_round2 R) = 3 \<and> length (rd_closing R) = 1 | _ \<Rightarrow> False"
  by code_simp

theorem session_bounded_witness:
  "\<exists>R t. run_rounds (\<lambda>_. []) sample_moderator fmt_interrogate ''tea'' 1 (Some (sample_address ''i2'')) (taught_graph, ()) = (Inr R, t)
     \<and> length (rd_round1 R) = 1 \<and> length (rd_round2 R) = 3 \<and> length (rd_closing R) = 1
     \<and> round_within ''round1'' 1 (rd_round1 R) \<and> round_within ''round2'' 3 (rd_round2 R) \<and> round_within ''closing'' 1 (rd_closing R)"
proof -
  obtain R t where R: "run_rounds (\<lambda>_. []) sample_moderator fmt_interrogate ''tea'' 1 (Some (sample_address ''i2'')) (taught_graph, ()) = (Inr R, t)"
    "length (rd_round1 R) = 1" "length (rd_round2 R) = 3" "length (rd_closing R) = 1"
    using sample_session by (auto split: prod.splits sum.splits)
  from session_bounded [OF R(1)]
  have "round_within ''round1'' 1 (rd_round1 R) \<and> round_within ''round2'' 3 (rd_round2 R) \<and> round_within ''closing'' 1 (rd_closing R)"
    by (simp add: turns_allowed_def runs_round2_def runs_closing_def fmt_interrogate_def default_format_def)
  with R show ?thesis by blast
qed

section \<open>What an agent is shown\<close>

text \<open>Of the turns of the opening an agent is shown those of the others, in order, and never its own.\<close>

definition named_turn :: "AgentTurn \<Rightarrow> bool" where
  "named_turn t = (case at_slug t of PStr _ \<Rightarrow> True | _ \<Rightarrow> False)"

definition turn_line :: "AgentTurn \<Rightarrow> string" where
  "turn_line t = ''- ['' @ value_text (\<lambda>_. []) (at_slug t) @ ''] '' @ strip (at_text t)"

lemma others_shown_never_own:
  assumes "list_all named_turn round1" and "map_of ctx ''others'' = Some (PList (transcript_entries round1))"
    and "map_of ctx ''self_slug'' = Some (PStr me)"
  shows "others_bulleted repr ctx = Inr (join [CHR 0x0A] (map turn_line (filter (\<lambda>t. at_slug t \<noteq> PStr me) round1)))"
proof -
  let ?e = "\<lambda>t. [(''slug'', at_slug t), (''body'', PStr (at_text t))]"
  have own: "py_eq (at_slug t) (PStr me) \<longleftrightarrow> at_slug t = PStr me" if "named_turn t" for t
    using that by (auto simp: named_turn_def split: pyval.splits)
  have "mapM (bullet repr) (filter (\<lambda>d. \<not> py_eq (dict_get d ''slug'' PNone) (PStr me)) (map ?e round1))
      = Inr (map turn_line (filter (\<lambda>t. at_slug t \<noteq> PStr me) round1))"
    using assms(1)
  proof (induction round1)
    case (Cons t ts)
    then show ?case
      by (auto simp: own dict_get_def bullet_def turn_line_def value_text_def named_turn_def split: pyval.splits)
  qed simp
  moreover have "transcript_entries round1 = map PDict (map ?e round1)" by (simp add: transcript_entries_def)
  ultimately show ?thesis
    using assms(2,3) by (simp only: others_bulleted_def Let_def dict_get_def [of ctx] option.case iterate_def pyval.case rbind_simps mapM_turn_dict)
qed

text \<open>A registered-looking key that is not in the table is not caught: \<open>RecipeNotFoundError\<close> is no \<open>KeyError\<close>.\<close>

lemma unknown_recipe_escapes: "session_prompt repr persona slug [(''recipe'', PStr ''debate:nosuch'')] = Inl RecipeNotFoundError"
proof -
  have "get_recipe ''debate'' ''nosuch'' = Inl RecipeNotFoundError"
    by (simp add: get_recipe_def recipes_list recipe_list_def recipe_key_def)
  then show ?thesis
    by (simp add: session_prompt_def recipe_of_def dict_get_def partition_on_def Let_def render_prompt_def)
qed

lemma asked_shown:
  assumes "addressed repr ctx ''questions_for_me'' ''(no follow-up questions directed at you)'' = Inr b" and "map_of ctx ''topic'' \<noteq> None"
  shows "\<exists>t. r_int_eachother_answer repr system ctx = Inr t \<and> sublist b t"
  unfolding r_int_eachother_answer_def assms(1) rbind_simps
  using item_fine [OF assms(2)] by (intro joined_fine) (auto intro: piece_fine)

text \<open>In the closing of \<open>interview-eachother\<close> every panelist is told that no question was put to it, whatever was asked.\<close>

lemma questions_never_arrive:
  "\<exists>prompt. session_prompt repr persona slug (closing_body fmt_interview_eachother topic round1 history) = Inr (Some prompt)
     \<and> sublist ''(no follow-up questions directed at you)'' prompt"
proof -
  let ?nothing = "''(no follow-up questions directed at you)''"
  let ?ctx = "filter (\<lambda>(k, v). k \<noteq> ''recipe'') (closing_body fmt_interview_eachother topic round1 history) @ [(''self_slug'', PStr slug)]"
  have key: "fm_closing_recipe fmt_interview_eachother = Some ''interview:eachother-answer''" by (simp add: fmt_interview_eachother_def)
  have "addressed repr ?ctx ''questions_for_me'' ?nothing = Inr ?nothing"
    by (simp add: addressed_def closing_body_def common_body_def dict_get_def iterate_def Let_def)
  moreover have "map_of ?ctx ''topic'' \<noteq> None" by (simp add: closing_body_def common_body_def)
  ultimately obtain t where t: "r_int_eachother_answer repr persona ?ctx = Inr t" "sublist ?nothing t"
    using asked_shown by blast
  have "get_recipe ''interview'' ''eachother-answer'' = Inr \<lparr>rc_role = ''interview'', rc_mode = ''eachother-answer'',
      rc_description = ''Answer the peer questions directed at you.'', rc_render = r_int_eachother_answer\<rparr>"
    by (simp add: get_recipe_def recipes_list recipe_list_def recipe_key_def)
  then have "render_prompt repr ''interview'' ''eachother-answer'' persona ?ctx = Inr t" using t(1) by (simp add: render_prompt_def)
  then have "session_prompt repr persona slug (closing_body fmt_interview_eachother topic round1 history) = Inr (Some t)"
    by (simp add: session_prompt_def recipe_of_def closing_body_def common_body_def key dict_get_def partition_on_def Let_def)
  then show ?thesis using t(2) by blast
qed

end
