(* ===== verification/CloudWatch.thy ===== *)
theory CloudWatch
  imports Engine
begin

text \<open>
  \<open>ahp/audit/cloudwatch.py\<close>: the batching sink for CloudWatch Logs. The client of the cloud library is an
  argument; its calls act on the world outside and raise. A flush releases the lock while its batch is
  sent, so emissions, flushes and failures of other tasks come in between: the sink is a step relation
  whose steps are the code's locked sections and one call of the client's thread.
\<close>

section \<open>The client\<close>

text \<open>What an exception of the client shows to \<open>_AlreadyExistsMatcher\<close>: the typed class, the code in its response, or neither.\<close>

datatype aws_error = Typed_Already_Exists | Coded string | Other_Error

definition already_exists :: "aws_error \<Rightarrow> bool" where
  "already_exists e = (case e of Typed_Already_Exists \<Rightarrow> True | Coded c \<Rightarrow> c = ''ResourceAlreadyExistsException'' | Other_Error \<Rightarrow> False)"

record log_event =
  le_timestamp :: int
  le_message :: string

type_synonym ('s, 'a) call = "'s \<Rightarrow> (aws_error + 'a) \<times> 's"

record 's logs_client =
  lc_create_log_group :: "string \<Rightarrow> ('s, unit) call"
  lc_create_log_stream :: "string \<Rightarrow> string \<Rightarrow> ('s, unit) call"
  lc_put_log_events :: "string \<Rightarrow> string \<Rightarrow> log_event list \<Rightarrow> ('s, unit) call"

section \<open>The sink\<close>

record 's CloudWatchLogsSink =
  cw_log_group :: string
  cw_log_stream :: string
  cw_client :: "'s logs_client option"
  cw_batch_size :: int
  cw_flush_interval :: pyfloat
  cw_max_buffer :: int
  cw_buffer :: "log_event list"
  cw_oldest_pending_at :: "pyfloat option"
  cw_initialized :: bool

definition DEFAULT_LOG_GROUP :: string where "DEFAULT_LOG_GROUP = ''/ahp/audit''"
definition DEFAULT_BATCH_SIZE :: int where "DEFAULT_BATCH_SIZE = 100"
definition DEFAULT_FLUSH_INTERVAL :: pyfloat where "DEFAULT_FLUSH_INTERVAL = Fin 5"
definition DEFAULT_MAX_BUFFER :: int where "DEFAULT_MAX_BUFFER = 10000"

definition default_stream_name :: "string \<Rightarrow> string \<Rightarrow> string" where
  "default_stream_name seconds pid = ''ahp-'' @ seconds @ ''-'' @ pid"

definition new_cloudwatch :: "string \<Rightarrow> string \<Rightarrow> string option \<Rightarrow> string \<Rightarrow> 's logs_client option \<Rightarrow> int \<Rightarrow> pyfloat \<Rightarrow> int \<Rightarrow> 's CloudWatchLogsSink res" where
  "new_cloudwatch seconds pid log_stream log_group client batch_size flush_interval max_buffer =
     (if batch_size \<le> 0 then Inl ValueError
      else if fle flush_interval fzero then Inl ValueError
      else if max_buffer < batch_size then Inl ValueError
      else Inr \<lparr>cw_log_group = log_group, cw_log_stream = or_default log_stream (default_stream_name seconds pid), cw_client = client,
        cw_batch_size = batch_size, cw_flush_interval = flush_interval, cw_max_buffer = max_buffer, cw_buffer = [],
        cw_oldest_pending_at = None, cw_initialized = False\<rparr>)"

text \<open>The locked section of \<open>emit\<close>: whether it asks for a flush, and the sink with the event.\<close>

definition log_entry :: "(AuditEvent \<Rightarrow> string res) \<Rightarrow> AuditEvent \<Rightarrow> log_event res" where
  "log_entry to_json e =
     rbind (py_int (PFloat (fmul (ae_timestamp e) (Fin 1000)))) (\<lambda>ts. rbind (to_json e) (\<lambda>message.
     Inr \<lparr>le_timestamp = ts, le_message = message\<rparr>))"

definition cw_append :: "pyfloat \<Rightarrow> AuditEvent \<Rightarrow> log_event \<Rightarrow> 's CloudWatchLogsSink \<Rightarrow> bool \<times> 's CloudWatchLogsSink" where
  "cw_append now e entry S =
     (let oldest = (case cw_oldest_pending_at S of None \<Rightarrow> ae_timestamp e | Some t \<Rightarrow> t);
          S = S\<lparr>cw_buffer := cw_buffer S @ [entry], cw_oldest_pending_at := Some oldest\<rparr>
      in (int (length (cw_buffer S)) \<ge> cw_batch_size S \<or> fle (cw_flush_interval S) (fsub now oldest), S))"

text \<open>The locked section of \<open>flush\<close>.\<close>

definition cw_take :: "'s CloudWatchLogsSink \<Rightarrow> (log_event list \<times> 's CloudWatchLogsSink) option" where
  "cw_take S = (if cw_buffer S = [] then None else Some (cw_buffer S, S\<lparr>cw_buffer := [], cw_oldest_pending_at := None\<rparr>))"

text \<open>The locked section after a failed send.\<close>

definition cw_rebuffer :: "log_event list \<Rightarrow> 's CloudWatchLogsSink \<Rightarrow> 's CloudWatchLogsSink" where
  "cw_rebuffer pending S =
     (let merged = pending @ cw_buffer S;
          merged = (if int (length merged) > cw_max_buffer S then drop (length merged - nat (cw_max_buffer S)) merged else merged);
          S = S\<lparr>cw_buffer := merged\<rparr>
      in if merged = [] then S
         else S\<lparr>cw_oldest_pending_at :=
            (case fdiv (fl_of_int (le_timestamp (hd merged))) (Fin 1000) of Inr t \<Rightarrow> Some t | Inl _ \<Rightarrow> None)\<rparr>)"

section \<open>Sending\<close>

text \<open>\<open>try: call except Exception as e: if not already_exists(e): raise\<close>.\<close>

definition tolerate :: "(aws_error + unit) \<times> 's \<Rightarrow> (aws_error + unit) \<times> 's" where
  "tolerate r = (case r of (Inl e, t) \<Rightarrow> (if already_exists e then Inr () else Inl e, t) | (Inr u, t) \<Rightarrow> (Inr u, t))"

definition ensure_group_and_stream :: "'s logs_client \<Rightarrow> string \<Rightarrow> string \<Rightarrow> ('s, unit) call" where
  "ensure_group_and_stream C log_group log_stream s =
     (case tolerate (lc_create_log_group C log_group s) of
        (Inl e, t) \<Rightarrow> (Inl e, t)
      | (Inr _, t) \<Rightarrow> tolerate (lc_create_log_stream C log_group log_stream t))"

text \<open>
  \<open>_sync_send_batch\<close> in the client's thread: its outcome, the batch as it leaves it (sorted in place before the
  call), the sink, the world. \<open>connect\<close> builds a client when none was given; it raises without the library.
\<close>

definition sync_send_batch :: "('s, 's logs_client) call \<Rightarrow> log_event list \<Rightarrow> 's CloudWatchLogsSink \<Rightarrow> 's \<Rightarrow>
    (aws_error + unit) \<times> log_event list \<times> 's CloudWatchLogsSink \<times> 's" where
  "sync_send_batch connect pending S s =
     (case (case cw_client S of Some C \<Rightarrow> (Inr C, s) | None \<Rightarrow> connect s) of
        (Inl e, t) \<Rightarrow> (Inl e, pending, S, t)
      | (Inr C, t) \<Rightarrow>
          (let S = S\<lparr>cw_client := Some C\<rparr> in
           case (if cw_initialized S then (Inr (), t) else ensure_group_and_stream C (cw_log_group S) (cw_log_stream S) t) of
             (Inl e, t) \<Rightarrow> (Inl e, pending, S, t)
           | (Inr _, t) \<Rightarrow>
               (let S = S\<lparr>cw_initialized := True\<rparr>;
                    batch = sort_key le_timestamp pending;
                    (r, t) = lc_put_log_events C (cw_log_group S) (cw_log_stream S) batch t
                in (r, batch, S, t))))"

text \<open>\<open>flush\<close> and \<open>emit\<close> when no other task runs in between.\<close>

definition cw_flush :: "('s, 's logs_client) call \<Rightarrow> 's CloudWatchLogsSink \<Rightarrow> 's \<Rightarrow> 's CloudWatchLogsSink \<times> 's" where
  "cw_flush connect S s =
     (case cw_take S of
        None \<Rightarrow> (S, s)
      | Some (pending, S) \<Rightarrow>
          (case sync_send_batch connect pending S s of
             (Inr _, _, S, t) \<Rightarrow> (S, t)
           | (Inl _, batch, S, t) \<Rightarrow> (cw_rebuffer batch S, t)))"

definition cw_emit :: "(AuditEvent \<Rightarrow> string res) \<Rightarrow> ('s, 's logs_client) call \<Rightarrow> pyfloat \<Rightarrow> AuditEvent \<Rightarrow>
    ('s CloudWatchLogsSink \<times> 's, unit) op" where
  "cw_emit to_json connect now e = (\<lambda>(S, s).
     case log_entry to_json e of
       Inl x \<Rightarrow> (Inl x, (S, s))
     | Inr entry \<Rightarrow> (let (due, S) = cw_append now e entry S in (Inr (), if due then cw_flush connect S s else (S, s))))"

section \<open>Tasks in any order\<close>

text \<open>
  The sink with the batches its tasks are sending and those whose send has failed and that wait for the lock;
  for the statement, what was emitted, delivered and dropped.
\<close>

record 's cw_config =
  cf_sink :: "'s CloudWatchLogsSink"
  cf_sending :: "log_event list list"
  cf_failed :: "log_event list list"
  cf_world :: 's
  cf_emitted :: "log_event list"
  cf_delivered :: "log_event list list"
  cf_dropped :: "log_event list"

definition overflow :: "log_event list \<Rightarrow> 's CloudWatchLogsSink \<Rightarrow> log_event list" where
  "overflow pending S = take (length pending + length (cw_buffer S) - nat (cw_max_buffer S)) (pending @ cw_buffer S)"

inductive cw_step :: "(AuditEvent \<Rightarrow> string res) \<Rightarrow> ('s, 's logs_client) call \<Rightarrow> 's cw_config \<Rightarrow> 's cw_config \<Rightarrow> bool"
  for to_json connect where
  Emits: "log_entry to_json e = Inr entry \<Longrightarrow> cw_append now e entry (cf_sink c) = (due, S) \<Longrightarrow>
    cw_step to_json connect c (c\<lparr>cf_sink := S, cf_emitted := cf_emitted c @ [entry]\<rparr>)"
| Takes: "cw_take (cf_sink c) = Some (pending, S) \<Longrightarrow>
    cw_step to_json connect c (c\<lparr>cf_sink := S, cf_sending := cf_sending c @ [pending]\<rparr>)"
| Sends: "cf_sending c = xs @ pending # ys \<Longrightarrow> sync_send_batch connect pending (cf_sink c) (cf_world c) = (Inr u, batch, S, t) \<Longrightarrow>
    cw_step to_json connect c (c\<lparr>cf_sink := S, cf_world := t, cf_sending := xs @ ys, cf_delivered := cf_delivered c @ [batch]\<rparr>)"
| Fails: "cf_sending c = xs @ pending # ys \<Longrightarrow> sync_send_batch connect pending (cf_sink c) (cf_world c) = (Inl e, batch, S, t) \<Longrightarrow>
    cw_step to_json connect c (c\<lparr>cf_sink := S, cf_world := t, cf_sending := xs @ ys, cf_failed := cf_failed c @ [batch]\<rparr>)"
| Rebuffers: "cf_failed c = xs @ pending # ys \<Longrightarrow>
    cw_step to_json connect c (c\<lparr>cf_sink := cw_rebuffer pending (cf_sink c), cf_failed := xs @ ys,
      cf_dropped := cf_dropped c @ overflow pending (cf_sink c)\<rparr>)"

definition cw_start :: "'s CloudWatchLogsSink \<Rightarrow> 's \<Rightarrow> 's cw_config" where
  "cw_start S s = \<lparr>cf_sink = S, cf_sending = [], cf_failed = [], cf_world = s, cf_emitted = [], cf_delivered = [], cf_dropped = []\<rparr>"

section \<open>Nothing is lost\<close>

inductive_cases cw_stepE: "cw_step to_json connect c d"

lemma send_keeps:
  assumes "sync_send_batch connect pending S s = (r, batch, T, t)"
  shows "mset batch = mset pending" "cw_buffer T = cw_buffer S" "cw_max_buffer T = cw_max_buffer S"
    "r = Inr u \<Longrightarrow> sorted (map le_timestamp batch)"
  using assms by (auto simp: sync_send_batch_def Let_def split: option.splits prod.splits sum.splits if_splits)

lemma append_keeps:
  assumes "cw_append now e entry S = (due, T)"
  shows "cw_buffer T = cw_buffer S @ [entry]" "cw_max_buffer T = cw_max_buffer S"
  using assms by (auto simp: cw_append_def Let_def)

lemma rebuffer_keeps:
  assumes "0 \<le> cw_max_buffer S"
  shows "mset pending + mset (cw_buffer S) = mset (cw_buffer (cw_rebuffer pending S)) + mset (overflow pending S)"
    "cw_max_buffer (cw_rebuffer pending S) = cw_max_buffer S"
    "overflow pending S \<noteq> [] \<Longrightarrow> cw_max_buffer S < int (length pending + length (cw_buffer S))"
    "int (length (cw_buffer (cw_rebuffer pending S))) \<le> cw_max_buffer S"
proof -
  let ?m = "pending @ cw_buffer S"
  let ?k = "length ?m - nat (cw_max_buffer S)"
  have buf: "cw_buffer (cw_rebuffer pending S) = drop ?k ?m"
    using assms by (auto simp: cw_rebuffer_def Let_def nat_le_iff zdiff_int_split) 
  have "mset (take ?k ?m) + mset (drop ?k ?m) = mset ?m" by (metis append_take_drop_id mset_append)
  then show "mset pending + mset (cw_buffer S) = mset (cw_buffer (cw_rebuffer pending S)) + mset (overflow pending S)"
    by (simp add: buf overflow_def add.commute)
  show "cw_max_buffer (cw_rebuffer pending S) = cw_max_buffer S" by (simp add: cw_rebuffer_def Let_def)
  show "overflow pending S \<noteq> [] \<Longrightarrow> cw_max_buffer S < int (length pending + length (cw_buffer S))"
    by (auto simp: overflow_def)
  show "int (length (cw_buffer (cw_rebuffer pending S))) \<le> cw_max_buffer S" using assms by (simp add: buf)
qed

definition accounted :: "'s cw_config \<Rightarrow> bool" where
  "accounted c \<longleftrightarrow> mset (cf_emitted c) = mset (concat (cf_delivered c)) + mset (concat (cf_sending c)) + mset (concat (cf_failed c))
     + mset (cw_buffer (cf_sink c)) + mset (cf_dropped c)"

definition cw_ok :: "int \<Rightarrow> 's cw_config \<Rightarrow> bool" where
  "cw_ok limit c \<longleftrightarrow> accounted c \<and> cw_max_buffer (cf_sink c) = limit \<and> list_all (\<lambda>b. sorted (map le_timestamp b)) (cf_delivered c)
     \<and> [] \<notin> set (cf_delivered c @ cf_sending c @ cf_failed c) \<and> (cf_dropped c \<noteq> [] \<longrightarrow> limit < int (length (cf_emitted c)))"

lemma accounted_length: "accounted c \<Longrightarrow> length (cf_emitted c) = length (concat (cf_delivered c)) + length (concat (cf_sending c))
    + length (concat (cf_failed c)) + length (cw_buffer (cf_sink c)) + length (cf_dropped c)"
  unfolding accounted_def by (drule arg_cong [where f = size]) simp

lemma cw_step_ok:
  assumes "cw_step to_json connect c d" and "cw_ok limit c" and "0 \<le> limit"
  shows "cw_ok limit d"
  using assms(1)
proof cases
  case (Emits e entry now due S)
  then show ?thesis using assms(2) append_keeps [OF Emits(3)] by (auto simp: cw_ok_def accounted_def)
next
  case (Takes pending S)
  then show ?thesis using assms(2) by (auto simp: cw_ok_def accounted_def cw_take_def split: if_splits)
next
  case (Sends xs pending ys u batch S t)
  then show ?thesis using assms(2) send_keeps [OF Sends(3)] by (auto simp: cw_ok_def accounted_def)
next
  case (Fails xs pending ys e batch S t)
  then show ?thesis using assms(2) send_keeps(1-3) [OF Fails(3)] by (auto simp: cw_ok_def accounted_def)
next
  case (Rebuffers xs pending ys)
  have lim: "cw_max_buffer (cf_sink c) = limit" using assms(2) by (simp add: cw_ok_def)
  note k = rebuffer_keeps [of "cf_sink c" pending, unfolded lim, OF assms(3)]
  have "length pending + length (cw_buffer (cf_sink c)) \<le> length (cf_emitted c)"
    using accounted_length [of c] assms(2) Rebuffers(2) by (simp add: cw_ok_def)
  then show ?thesis using assms(2) k(1,2,3) Rebuffers by (auto simp: cw_ok_def accounted_def lim)
qed

text \<open>A flush leaves nothing waiting, whatever the client answers, unless the send failed; then nothing but an overflow is gone.\<close>

lemma flush_outcome:
  assumes "cw_flush connect S s = (T, t)" and "0 \<le> cw_max_buffer S"
  shows "cw_buffer T = [] \<or> mset (cw_buffer T) = mset (cw_buffer S) \<or> cw_max_buffer S < int (length (cw_buffer S))"
proof (cases "cw_buffer S = []")
  case False
  then obtain r batch U u where send: "sync_send_batch connect (cw_buffer S) (S\<lparr>cw_buffer := [], cw_oldest_pending_at := None\<rparr>) s = (r, batch, U, u)"
    by (metis prod_cases4)
  note k = send_keeps(1-3) [OF send]
  show ?thesis
  proof (cases r)
    case (Inl e)
    have "T = cw_rebuffer batch U" using assms(1) False send Inl by (simp add: cw_flush_def cw_take_def)
    moreover have "length batch = length (cw_buffer S)" using k(1) by (metis size_mset)
    ultimately show ?thesis using rebuffer_keeps [of U batch] k assms(2)
      by (cases "overflow batch U = []") auto
  next
    case (Inr v)
    then show ?thesis using assms(1) False send k by (simp add: cw_flush_def cw_take_def)
  qed
qed (use assms in \<open>auto simp: cw_flush_def cw_take_def\<close>)

section \<open>Properties\<close>

text \<open>C28: The sink loses no event silently and delivers none twice. In every interleaving of emissions, flushes, deliveries,
  failures and re-buffering, each event emitted is in exactly one place: delivered, being sent, waiting after a
  failure, buffered, or dropped; every delivered batch is non-empty and ascending in time, as the service demands; and
  an event is dropped only after more than \<open>max_buffer\<close> were emitted.\<close>

theorem cloudwatch_conserves:
  assumes "new_cloudwatch seconds pid stream log_group client batch_size interval max_buffer = Inr S"
    and "rtranclp (cw_step to_json connect) (cw_start S s) c"
  shows "mset (cf_emitted c) = mset (concat (cf_delivered c)) + mset (concat (cf_sending c)) + mset (concat (cf_failed c))
       + mset (cw_buffer (cf_sink c)) + mset (cf_dropped c)
     \<and> list_all (\<lambda>b. b \<noteq> [] \<and> sorted (map le_timestamp b)) (cf_delivered c)
     \<and> (cf_dropped c \<noteq> [] \<longrightarrow> max_buffer < int (length (cf_emitted c)))"
proof -
  have S: "cw_max_buffer S = max_buffer" "cw_buffer S = []" "0 \<le> max_buffer"
    using assms(1) by (auto simp: new_cloudwatch_def split: if_splits)
  have "cw_ok max_buffer (cw_start S s)" using S by (simp add: cw_ok_def accounted_def cw_start_def)
  with assms(2) have "cw_ok max_buffer c" by (induction rule: rtranclp_induct) (use S(3) cw_step_ok in blast)+
  then show ?thesis by (auto simp: cw_ok_def accounted_def list_all_iff)
qed

text \<open>A client whose first call for events fails.\<close>

definition flaky_client :: "nat logs_client" where
  "flaky_client = \<lparr>lc_create_log_group = (\<lambda>g n. (Inl Typed_Already_Exists, n)), lc_create_log_stream = (\<lambda>g l n. (Inr (), n)),
     lc_put_log_events = (\<lambda>g l batch n. (if n = 0 then Inl (Coded ''ThrottlingException'') else Inr (), Suc n))\<rparr>"

definition sample_event :: AuditEvent where
  "sample_event = \<lparr>ae_op = ''engine.send'', ae_timestamp = Fin 0, ae_principal = None, ae_source = None, ae_target = None, ae_code = None,
     ae_verb = None, ae_success = True, ae_error = None, ae_extra = []\<rparr>"

definition sample_cloudwatch :: "nat CloudWatchLogsSink" where
  "sample_cloudwatch = \<lparr>cw_log_group = DEFAULT_LOG_GROUP, cw_log_stream = ''ahp-7-1'', cw_client = None, cw_batch_size = 1,
     cw_flush_interval = Fin 5, cw_max_buffer = 2, cw_buffer = [], cw_oldest_pending_at = None, cw_initialized = False\<rparr>"

theorem cloudwatch_conserves_witness:
  "\<exists>c. rtranclp (cw_step (\<lambda>_. Inr ''{}'') (\<lambda>n. (Inr flaky_client, n))) (cw_start sample_cloudwatch 0) c
     \<and> cf_delivered c = [[\<lparr>le_timestamp = 0, le_message = ''{}''\<rparr>]] \<and> mset (cf_emitted c) = mset (concat (cf_delivered c)) + mset (cf_dropped c)
     \<and> cf_world c = 2"
proof -
  let ?R = "cw_step (\<lambda>_. Inr ''{}'') (\<lambda>n. (Inr flaky_client, n))" and ?e = "\<lparr>le_timestamp = 0, le_message = ''{}''\<rparr>"
  let ?S0 = sample_cloudwatch
  let ?S1 = "?S0\<lparr>cw_buffer := [?e], cw_oldest_pending_at := Some (Fin 0)\<rparr>"
  let ?S2 = "?S0\<lparr>cw_client := Some flaky_client, cw_initialized := True\<rparr>"
  let ?S3 = "?S2\<lparr>cw_buffer := [?e], cw_oldest_pending_at := Some (Fin 0)\<rparr>"
  let ?c0 = "cw_start ?S0 0"
  let ?c1 = "?c0\<lparr>cf_sink := ?S1, cf_emitted := [?e]\<rparr>"
  let ?c2 = "?c1\<lparr>cf_sink := ?S0, cf_sending := [[?e]]\<rparr>"
  let ?c3 = "?c2\<lparr>cf_sink := ?S2, cf_world := 1, cf_sending := [], cf_failed := [[?e]]\<rparr>"
  let ?c4 = "?c3\<lparr>cf_sink := ?S3, cf_failed := []\<rparr>"
  let ?c5 = "?c4\<lparr>cf_sink := ?S2, cf_sending := [[?e]]\<rparr>"
  let ?c6 = "?c5\<lparr>cf_world := 2, cf_sending := [], cf_delivered := [[?e]]\<rparr>"
  note d = cw_start_def sample_cloudwatch_def cw_append_def cw_take_def sync_send_batch_def flaky_client_def ensure_group_and_stream_def
    tolerate_def already_exists_def Let_def
  have f: "fmul (Fin 0) (Fin 1000) = Fin 0" "fl_of_int 0 = Fin 0" by (simp_all add: fl_of_int_def)
  have new: "new_cloudwatch ''7'' ''1'' (Some ''ahp-7-1'') DEFAULT_LOG_GROUP None 1 (Fin 5) 2 = Inr ?S0"
    by (simp add: new_cloudwatch_def sample_cloudwatch_def or_default_def)
  have "log_entry (\<lambda>_. Inr ''{}'') sample_event = Inr ?e" by (simp add: log_entry_def sample_event_def f)
  then have s1: "?R ?c0 ?c1"
    using cw_step.Emits [of "\<lambda>_. Inr ''{}''" sample_event ?e NaN ?c0 True ?S1] by (simp add: d sample_event_def)
  have s2: "?R ?c1 ?c2" using cw_step.Takes [of ?c1 "[?e]" ?S0] by (simp add: d)
  have s3: "?R ?c2 ?c3" using cw_step.Fails [of ?c2 "[]" "[?e]" "[]" _ "Coded ''ThrottlingException''" "[?e]" ?S2 1] by (simp add: d)
  have s4: "?R ?c3 ?c4" using cw_step.Rebuffers [of ?c3 "[]" "[?e]" "[]"] by (simp add: d cw_rebuffer_def overflow_def f)
  have s5: "?R ?c4 ?c5" using cw_step.Takes [of ?c4 "[?e]" ?S2] by (simp add: d)
  have s6: "?R ?c5 ?c6" using cw_step.Sends [of ?c5 "[]" "[?e]" "[]" _ "()" "[?e]" ?S2 2] by (simp add: d)
  note step = converse_rtranclp_into_rtranclp [where r = ?R]
  have run: "rtranclp ?R ?c0 ?c6"
    by (rule step [OF s1 step [OF s2 step [OF s3 step [OF s4 step [OF s5 step [OF s6 rtranclp.rtrancl_refl]]]]]])
  from cloudwatch_conserves [OF new run] run show ?thesis by (intro exI [of _ ?c6]) simp
qed

end
