(* ===== verification/FrameworkAgents.thy ===== *)
theory FrameworkAgents
  imports Factory Gateways
begin

text \<open>
  Agents around third-party frameworks, \<open>ahp/adapters/langgraph_agent.py\<close>, \<open>react_agent.py\<close>, \<open>deep_agent.py\<close>,
  \<open>dspy_agent.py\<close> and \<open>mcp.py\<close>. What the libraries build and run (a compiled graph, a module, a client)
  is an argument that acts on the world outside and may raise. Their adapters share one contract, the
  locale \<open>answering_mapper\<close>: a request gets a reply in its conversation, anything else gets none.
\<close>

section \<open>The contract of an output mapper\<close>

locale answering_mapper =
  fixes out :: "'s AHPAgent \<Rightarrow> minted \<Rightarrow> 'r \<Rightarrow> Message \<Rightarrow> Message option res" and body_of :: "'r \<Rightarrow> pyval res"
  assumes silent: "\<not> expects_response m \<Longrightarrow> out a mt r m = Inr None"
    and reply: "expects_response m \<Longrightarrow> out a mt r m = rbind (body_of r) (\<lambda>b. rbind (gateway_reply a mt m b) (\<lambda>x. Inr (Some x)))"
begin

lemma in_conversation:
  assumes "agent_ok a mt" and "valid_message m" and "body_of r = Inr b"
  shows "if expects_response m then \<exists>x. out a mt r m = Inr (Some x) \<and> keeps_conversation a m x \<and> m_body x = b else out a mt r m = Inr None"
proof (cases "expects_response m")
  case True
  obtain x where "gateway_reply a mt m b = Inr x" "keeps_conversation a m x" "m_body x = b"
    by (rule gateway_reply_run [OF assms(1,2)])
  then show ?thesis using True reply [OF True] assms(3) by simp
qed (simp add: silent)

text \<open>A handler that maps the request, runs the framework and maps its result.\<close>

lemma handled:
  assumes "agent_ok a mt" and "valid_message m" and "run m s = (Inr r, t)" and "body_of r = Inr b"
  shows "\<exists>x. sbind (run m) (\<lambda>r. slift (out a mt r m)) s = (Inr x, t)
    \<and> (if expects_response m then \<exists>y. x = Some y \<and> keeps_conversation a m y \<and> m_body y = b else x = None)"
  using in_conversation [OF assms(1,2,4)] assms(3) by (auto simp: sbind_run split: if_splits)

end

section \<open>Graphs\<close>

text \<open>What the graph's nodes find under \<open>configurable\<close>; the plain agent passes nothing.\<close>

record 's invoke_config =
  ic_engine :: "'s ProtocolEngine"
  ic_address :: AgentAddress
  ic_message :: Message

record ('s, 'g) LangGraphAgent =
  lg_agent :: "'s AHPAgent"
  lg_graph :: "'g \<Rightarrow> 's invoke_config option \<Rightarrow> ('s, 'g) op"
  lg_input_mapper :: "Message \<Rightarrow> 'g res"
  lg_output_mapper :: "minted \<Rightarrow> 'g \<Rightarrow> Message \<Rightarrow> Message option res"
  lg_deep :: bool

definition default_input_mapper :: "Message \<Rightarrow> (string, pyval) dict res" where
  "default_input_mapper m = Inr [(''input'', m_body m), (''code'', PStr (m_code m)), (''source'', PStr (to_str (m_source m))),
     (''thread'', PStr (m_thread m))]"

definition state_body :: "(string, pyval) dict \<Rightarrow> pyval" where
  "state_body state = dict_get state ''output'' (dict_get state ''result'' (dict_get state ''answer'' PNone))"

definition default_output_mapper_for :: "'s AHPAgent \<Rightarrow> minted \<Rightarrow> (string, pyval) dict \<Rightarrow> Message \<Rightarrow> Message option res" where
  "default_output_mapper_for a mt state request =
     (if \<not> expects_response request then Inr None
      else rbind (gateway_reply a mt request (state_body state)) (\<lambda>r. Inr (Some r)))"

definition new_langgraph :: "'s AHPAgent \<Rightarrow> bool \<Rightarrow> ((string, pyval) dict \<Rightarrow> 's invoke_config option \<Rightarrow> ('s, (string, pyval) dict) op) \<Rightarrow>
    (Message \<Rightarrow> (string, pyval) dict res) option \<Rightarrow> (minted \<Rightarrow> (string, pyval) dict \<Rightarrow> Message \<Rightarrow> Message option res) option \<Rightarrow>
    ('s, (string, pyval) dict) LangGraphAgent" where
  "new_langgraph a deep graph input_mapper output_mapper =
     \<lparr>lg_agent = a, lg_graph = graph, lg_input_mapper = (case input_mapper of None \<Rightarrow> default_input_mapper | Some f \<Rightarrow> f),
      lg_output_mapper = (case output_mapper of None \<Rightarrow> default_output_mapper_for a | Some f \<Rightarrow> f), lg_deep = deep\<rparr>"

definition invoke_config :: "('s, 'g) LangGraphAgent \<Rightarrow> Message \<Rightarrow> 's invoke_config option" where
  "invoke_config A m =
     (if lg_deep A then Some \<lparr>ic_engine = ag_engine (lg_agent A), ic_address = ag_address (lg_agent A), ic_message = m\<rparr> else None)"

definition lg_run :: "('s, 'g) LangGraphAgent \<Rightarrow> Message \<Rightarrow> ('s, 'g) op" where
  "lg_run A m = sbind (slift (lg_input_mapper A m)) (\<lambda>state. lg_graph A state (invoke_config A m))"

definition lg_handle_message :: "('s, 'g) LangGraphAgent \<Rightarrow> minted \<Rightarrow> 's handler" where
  "lg_handle_message A mt m = sbind (lg_run A m) (\<lambda>result. slift (lg_output_mapper A mt result m))"

section \<open>ReAct agents\<close>

text \<open>A message of the chat state: of the model, or of any other kind.\<close>

datatype chat_message = AI_Message (chat_content: pyval) | Other_Message (chat_content: pyval)

fun block_texts :: "pyval list \<Rightarrow> string list res" where
  "block_texts [] = Inr []"
| "block_texts (PStr t # bs) = rbind (block_texts bs) (\<lambda>ts. Inr (t # ts))"
| "block_texts (PDict d # bs) =
     rbind (block_texts bs) (\<lambda>ts. case dict_get d ''text'' (PStr []) of PStr t \<Rightarrow> Inr (t # ts) | _ \<Rightarrow> Inl TypeError)"
| "block_texts (b # bs) = block_texts bs"

definition coerce_content :: "(pyval \<Rightarrow> string) \<Rightarrow> pyval \<Rightarrow> string res" where
  "coerce_content repr content =
     (case content of
        PStr t \<Rightarrow> Inr t
      | PList bs \<Rightarrow> rbind (block_texts bs) (\<lambda>ts. Inr (concat ts))
      | v \<Rightarrow> Inr (repr v))"

fun last_ai :: "chat_message list \<Rightarrow> pyval option" where
  "last_ai [] = None"
| "last_ai (m # ms) = (case last_ai ms of Some c \<Rightarrow> Some c | None \<Rightarrow> (case m of AI_Message c \<Rightarrow> Some c | Other_Message _ \<Rightarrow> None))"

definition react_body :: "(pyval \<Rightarrow> string) \<Rightarrow> chat_message list \<Rightarrow> string res" where
  "react_body repr messages =
     rbind (case last_ai messages of None \<Rightarrow> Inr [] | Some c \<Rightarrow> coerce_content repr c) (\<lambda>body.
     if body = [] \<and> messages \<noteq> [] then coerce_content repr (chat_content (last messages)) else Inr body)"

definition react_input_mapper :: "(pyval \<Rightarrow> string) \<Rightarrow> Message \<Rightarrow> chat_message list res" where
  "react_input_mapper repr m = Inr [Other_Message (PStr (value_text repr (m_body m)))]"

definition react_output_mapper_for :: "(pyval \<Rightarrow> string) \<Rightarrow> 's AHPAgent \<Rightarrow> minted \<Rightarrow> chat_message list \<Rightarrow> Message \<Rightarrow> Message option res" where
  "react_output_mapper_for repr a mt messages request =
     (if \<not> expects_response request then Inr None
      else rbind (react_body repr messages) (\<lambda>body. rbind (gateway_reply a mt request (PStr body)) (\<lambda>r. Inr (Some r))))"

type_synonym 's chat_graph = "chat_message list \<Rightarrow> 's invoke_config option \<Rightarrow> ('s, chat_message list) op"

text \<open>\<open>create_agent(model, tools, system_prompt)\<close> is an argument, applied to the tools and to the prompt or nothing.\<close>

definition some_text :: "string \<Rightarrow> string option" where "some_text t = (if t = [] then None else Some t)"

definition react_from_profile :: "(pyval \<Rightarrow> string) \<Rightarrow> ('f Tool list \<Rightarrow> string option \<Rightarrow> 's chat_graph) \<Rightarrow> 's AHPAgent \<Rightarrow> ('f, 'i) AgentProfile \<Rightarrow>
    'f Tool list \<Rightarrow> ('s, chat_message list) LangGraphAgent" where
  "react_from_profile repr create_agent a profile extra_tools =
     \<lparr>lg_agent = a, lg_graph = create_agent (all_tools profile @ extra_tools) (some_text (ap_prompt profile)),
      lg_input_mapper = react_input_mapper repr, lg_output_mapper = react_output_mapper_for repr a, lg_deep = False\<rparr>"

section \<open>Deep agents\<close>

record 'f SubAgent =
  sb_name :: string
  sb_description :: string
  sb_system_prompt :: string
  sb_tools :: "'f Tool list option"

definition skill_to_subagent :: "'f Skill \<Rightarrow> 'f SubAgent" where
  "skill_to_subagent s = \<lparr>sb_name = sk_name s, sb_description = sk_description s,
     sb_system_prompt = or_text (sk_prompt_fragment s) (sk_description s), sb_tools = (if sk_tools s = [] then None else Some (sk_tools s))\<rparr>"

definition deep_prompt :: "string \<Rightarrow> string \<Rightarrow> string" where
  "deep_prompt prompt mount_desc =
     (if mount_desc = [] then prompt else (if prompt = [] then [] else prompt @ [CHR 0x0A, CHR 0x0A]) @ mount_desc)"

definition deep_from_profile ::
  "(pyval \<Rightarrow> string) \<Rightarrow> ('f Tool list \<Rightarrow> string option \<Rightarrow> 'f SubAgent list option \<Rightarrow> 'i fs_backend option \<Rightarrow> 's chat_graph) \<Rightarrow> string \<Rightarrow>
    's AHPAgent \<Rightarrow> ('f, 'i) AgentProfile \<Rightarrow> 'f Tool list \<Rightarrow> 'f SubAgent list \<Rightarrow> bool \<Rightarrow>
    (('s, 'i) ResourceRegistry \<times> 's, ('s, chat_message list) LangGraphAgent) op" where
  "deep_from_profile repr create_deep_agent header a profile extra_tools extra_subagents mounted =
     sbind (if mounted
            then sbind (build_fs_backend default_mount_path None (ag_address a)) (\<lambda>backend W.
              (Inr (Some backend, deep_prompt (ap_prompt profile) (fs_mount_description default_mount_path header (fst W) (ag_address a))), W))
            else sret (None, ap_prompt profile)) (\<lambda>(backend, prompt).
     let subagents = map skill_to_subagent (ap_skills profile) @ extra_subagents in
     sret \<lparr>lg_agent = a,
       lg_graph = create_deep_agent (ap_tools profile @ extra_tools) (some_text prompt) (if subagents = [] then None else Some subagents) backend,
       lg_input_mapper = react_input_mapper repr, lg_output_mapper = react_output_mapper_for repr a, lg_deep = False\<rparr>)"

section \<open>DSPy modules\<close>

text \<open>A prediction by its attributes.\<close>

record 's DSPyAgent =
  dy_agent :: "'s AHPAgent"
  dy_module :: "(string, pyval) dict \<Rightarrow> ('s, (string, pyval) dict) op"
  dy_input_mapper :: "Message \<Rightarrow> (string, pyval) dict res"
  dy_output_mapper :: "minted \<Rightarrow> (string, pyval) dict \<Rightarrow> Message \<Rightarrow> Message option res"

definition dspy_input_mapper :: "string \<Rightarrow> Message \<Rightarrow> (string, pyval) dict res" where
  "dspy_input_mapper input_field m = Inr [(input_field, m_body m)]"

definition dspy_output_mapper :: "'s AHPAgent \<Rightarrow> string \<Rightarrow> minted \<Rightarrow> (string, pyval) dict \<Rightarrow> Message \<Rightarrow> Message option res" where
  "dspy_output_mapper a output_field mt prediction request =
     (if \<not> expects_response request then Inr None
      else rbind (gateway_reply a mt request (dict_get prediction output_field PNone)) (\<lambda>r. Inr (Some r)))"

definition new_dspy :: "'s AHPAgent \<Rightarrow> ((string, pyval) dict \<Rightarrow> ('s, (string, pyval) dict) op) \<Rightarrow> string \<Rightarrow> string \<Rightarrow>
    (Message \<Rightarrow> (string, pyval) dict res) option \<Rightarrow> (minted \<Rightarrow> (string, pyval) dict \<Rightarrow> Message \<Rightarrow> Message option res) option \<Rightarrow> 's DSPyAgent" where
  "new_dspy a modul input_field output_field input_mapper output_mapper =
     \<lparr>dy_agent = a, dy_module = modul, dy_input_mapper = (case input_mapper of None \<Rightarrow> dspy_input_mapper input_field | Some f \<Rightarrow> f),
      dy_output_mapper = (case output_mapper of None \<Rightarrow> dspy_output_mapper a output_field | Some f \<Rightarrow> f)\<rparr>"

definition dspy_run :: "'s DSPyAgent \<Rightarrow> Message \<Rightarrow> ('s, (string, pyval) dict) op" where
  "dspy_run A m = sbind (slift (dy_input_mapper A m)) (dy_module A)"

definition dspy_handle_message :: "'s DSPyAgent \<Rightarrow> minted \<Rightarrow> 's handler" where
  "dspy_handle_message A mt m = sbind (dspy_run A m) (\<lambda>prediction. slift (dy_output_mapper A mt prediction m))"

section \<open>MCP tools\<close>

text \<open>The schema methods of \<open>args_schema\<close>: absent, or what calling them does.\<close>

record args_schema =
  as_model_json_schema :: "pyval res option"
  as_schema :: "pyval res option"

record 'f lc_tool =
  lt_name :: string
  lt_description :: "string option"
  lt_args_schema :: "args_schema option"
  lt_ainvoke :: 'f

definition lc_schema :: "args_schema \<Rightarrow> pyval option res" where
  "lc_schema a =
     (case (case as_model_json_schema a of None \<Rightarrow> Inl AttributeError | Some r \<Rightarrow> r) of
        Inr v \<Rightarrow> Inr (Some v)
      | Inl e \<Rightarrow> if e = AttributeError then Inr (case as_schema a of Some (Inr v) \<Rightarrow> Some v | _ \<Rightarrow> None) else Inl e)"

definition wrap_langchain_tool :: "'f lc_tool \<Rightarrow> ('f callable \<times> string option \<times> pyval option) res" where
  "wrap_langchain_tool t =
     rbind (case lt_args_schema t of None \<Rightarrow> Inr None | Some a \<Rightarrow> lc_schema a) (\<lambda>schema.
     Inr (\<lparr>fn_name = lt_name t, fn_doc = None, fn_body = lt_ainvoke t\<rparr>,
          (case lt_description t of None \<Rightarrow> None | Some d \<Rightarrow> some_text d), schema))"

fun register_mcp_loop :: "string \<Rightarrow> string \<Rightarrow> string \<Rightarrow> string \<Rightarrow> pattern_arg option \<Rightarrow> string list \<Rightarrow> 'f lc_tool list \<Rightarrow> 'f ToolBinding list \<Rightarrow>
    ('f ToolRegistry, 'f ToolBinding list) op" where
  "register_mcp_loop scope kind role category allowed_for tags [] bindings d = (Inr bindings, d)"
| "register_mcp_loop scope kind role category allowed_for tags (t # ts) bindings d =
     (case wrap_langchain_tool t of
        Inl e \<Rightarrow> (Inl e, d)
      | Inr (handler, description, schema) \<Rightarrow>
          (case tool_register d handler scope kind role category (Some (lt_name t)) description allowed_for tags schema of
             Inl e \<Rightarrow> (Inl e, d)
           | Inr (b, d) \<Rightarrow> register_mcp_loop scope kind role category allowed_for tags ts (bindings @ [b]) d))"

definition register_mcp_tools :: "string \<Rightarrow> string \<Rightarrow> string \<Rightarrow> string \<Rightarrow> 'f lc_tool list \<Rightarrow> pattern_arg option \<Rightarrow> string list \<Rightarrow>
    ('f ToolRegistry, 'f ToolBinding list) op" where
  "register_mcp_tools scope kind role category tools allowed_for tags = register_mcp_loop scope kind role category allowed_for tags tools []"

text \<open>
  The client of the library: what connecting and listing the tools does to the world, and its close method, \<open>aclose\<close>
  before \<open>close\<close>. The operation runs on both registries and the world.
\<close>

record ('s, 'f, 'i) mcp_library =
  ml_get_tools :: "string \<Rightarrow> ('s, 'i \<times> 'f lc_tool list) op"
  ml_aclose :: "'i \<Rightarrow> ('s, unit) op option"
  ml_close :: "'i \<Rightarrow> ('s, unit) op option"

definition mcp_cleanup :: "('s, 'f, 'i) mcp_library \<Rightarrow> 'i \<Rightarrow> ('s, unit) op" where
  "mcp_cleanup L c =
     (case ml_aclose L c of Some f \<Rightarrow> f | None \<Rightarrow> (case ml_close L c of Some f \<Rightarrow> f | None \<Rightarrow> sret ()))"

definition register_mcp_server :: "('s, 'f, 'i) mcp_library \<Rightarrow> string \<Rightarrow> string \<Rightarrow> string \<Rightarrow> string \<Rightarrow> string option \<Rightarrow> pattern_arg option \<Rightarrow>
    string list \<Rightarrow> ('f ToolRegistry \<times> ('s, 'i) ResourceRegistry \<times> 's, 'f ToolBinding list) op" where
  "register_mcp_server L scope kind role category server_name allowed_for tags = (\<lambda>(d, R, s).
     let name = or_default server_name category in
     case ml_get_tools L name s of
       (Inl e, s) \<Rightarrow> (Inl e, (d, R, s))
     | (Inr (client, tools), s) \<Rightarrow>
         (case register_mcp_tools scope kind role category tools allowed_for tags d of
            (Inl e, d) \<Rightarrow> (Inl e, (d, R, s))
          | (Inr bindings, d) \<Rightarrow>
              (case resource_register R
                  \<lparr>rf_name = Some ''<lambda>'', rf_make = sret (Some client), rf_is_class = False, rf_aclose = None, rf_close = None\<rparr>
                  scope ''api'' ''mcp'' category (Some name) (''MCP server connection: '' @ name) allowed_for (Some (mcp_cleanup L)) of
                 Inl e \<Rightarrow> (Inl e, (d, R, s))
               | Inr (_, R) \<Rightarrow> (Inr bindings, (d, R, s)))))"

section \<open>The adapters keep the contract\<close>

interpretation graph_mapper: answering_mapper default_output_mapper_for "\<lambda>state. Inr (state_body state)"
  by unfold_locales (simp_all add: default_output_mapper_for_def)

interpretation react_mapper: answering_mapper "react_output_mapper_for repr" "\<lambda>ms. rbind (react_body repr ms) (\<lambda>t. Inr (PStr t))" for repr
  by unfold_locales (simp_all add: react_output_mapper_for_def rbind_def split: sum.split)

interpretation dspy_mapper: answering_mapper "\<lambda>a. dspy_output_mapper a field" "\<lambda>p. Inr (dict_get p field PNone)" for field
  by unfold_locales (simp_all add: dspy_output_mapper_def)

text \<open>The answer of a chat state: the last message of the model, if it says anything, else the last message.\<close>

lemma last_ai_append: "last_ai (ms @ ns) = (case last_ai ns of Some c \<Rightarrow> Some c | None \<Rightarrow> last_ai ms)"
  by (induction ms) (auto split: option.splits)

lemma react_body_said:
  assumes "\<And>n. n \<in> set ns \<Longrightarrow> \<exists>c. n = Other_Message c" and "coerce_content repr c = Inr t" and "t \<noteq> []"
  shows "react_body repr (ms @ AI_Message c # ns) = Inr t"
proof -
  have "last_ai ns = None" using assms(1) by (induction ns) fastforce+
  then have "last_ai (ms @ AI_Message c # ns) = Some c" by (simp add: last_ai_append)
  then show ?thesis using assms(2,3) by (simp add: react_body_def)
qed

definition mcp_address :: "string \<Rightarrow> string \<Rightarrow> string \<Rightarrow> string \<Rightarrow> string \<Rightarrow> ToolAddress" where
  "mcp_address scope kind role category name = \<lparr>ta_scope = scope, ta_kind = kind, ta_role = role, ta_category = category, ta_operation = name\<rparr>"

definition serves :: "string \<Rightarrow> string \<Rightarrow> string \<Rightarrow> string \<Rightarrow> 'f lc_tool \<Rightarrow> 'f ToolBinding \<Rightarrow> bool" where
  "serves scope kind role category t b \<longleftrightarrow> tb_address b = mcp_address scope kind role category (lt_name t) \<and> tl_name (tb_tool b) = lt_name t
     \<and> fn_body (tl_handler (tb_tool b)) = lt_ainvoke t"

definition tool_entries_of :: "'f ToolBinding list \<Rightarrow> 'f ToolRegistry" where
  "tool_entries_of bs = map (\<lambda>b. (tool_str (tb_address b), b)) bs"

lemma mcp_step:
  assumes "wrap_langchain_tool t = Inr (handler, description, schema)"
    and "tool_register d handler scope kind role category (Some (lt_name t)) description allowed_for tags schema = Inr (b, d')"
  shows "serves scope kind role category t b \<and> d' = d @ tool_entries_of [b] \<and> map_of d (tool_str (tb_address b)) = None"
proof -
  have h: "fn_name handler = lt_name t" "fn_body handler = lt_ainvoke t" using assms(1) by (auto simp: wrap_langchain_tool_def rbind_eq_Inr)
  then have "or_default (Some (lt_name t)) (fn_name handler) = lt_name t" by (simp add: or_default_def)
  with assms(2) have b: "b = \<lparr>tb_address = mcp_address scope kind role category (lt_name t),
      tb_tool = tb_tool b, tb_allowed_for = tb_allowed_for b, tb_tags = tb_tags b\<rparr>" "tl_name (tb_tool b) = lt_name t" "tl_handler (tb_tool b) = handler"
    and new: "map_of d (tool_str (tb_address b)) = None" "d' = AList.update (tool_str (tb_address b)) b d"
    by (auto simp: tool_register_def Let_def rbind_eq_Inr tool_post_init_def mcp_address_def split: if_splits)
  from new(1) have "tool_str (tb_address b) \<notin> fst ` set d" by (simp add: map_of_eq_None_iff)
  then have "d' = d @ tool_entries_of [b]" by (simp add: new(2) update_new tool_entries_of_def)
  moreover have "tb_address b = mcp_address scope kind role category (lt_name t)" using arg_cong [OF b(1), of tb_address] by simp
  ultimately show ?thesis using b(2,3) h(2) new(1) by (simp add: serves_def)
qed

text \<open>What a registration of a batch leaves: the tools before the first refused one, each under its address.\<close>

lemma mcp_loop:
  assumes "register_mcp_loop scope kind role category allowed_for tags ts bindings d = (r, d')"
  shows "\<exists>bs. d' = d @ tool_entries_of bs \<and> list_all2 (serves scope kind role category) (take (length bs) ts) bs
    \<and> (case r of Inr out \<Rightarrow> out = bindings @ bs \<and> length bs = length ts | Inl _ \<Rightarrow> length bs < length ts)"
  using assms
proof (induction ts arbitrary: bindings d)
  case Nil
  then show ?case by (intro exI [of _ "[]"]) (auto simp: tool_entries_of_def)
next
  case (Cons t ts)
  show ?case
  proof (cases "wrap_langchain_tool t")
    case (Inl e)
    then show ?thesis using Cons.prems by (intro exI [of _ "[]"]) (auto simp: tool_entries_of_def)
  next
    case (Inr w)
    obtain handler description schema where w: "wrap_langchain_tool t = Inr (handler, description, schema)" using Inr by (metis prod_cases3)
    show ?thesis
    proof (cases "tool_register d handler scope kind role category (Some (lt_name t)) description allowed_for tags schema")
      case (Inl e)
      then show ?thesis using Cons.prems w by (intro exI [of _ "[]"]) (auto simp: tool_entries_of_def)
    next
      case (Inr x)
      then obtain b e where b: "tool_register d handler scope kind role category (Some (lt_name t)) description allowed_for tags schema = Inr (b, e)"
        by (metis surj_pair)
      note k = mcp_step [OF w b]
      from Cons.prems w b have "register_mcp_loop scope kind role category allowed_for tags ts (bindings @ [b]) e = (r, d')" by simp
      from Cons.IH [OF this] obtain bs where "d' = e @ tool_entries_of bs" "list_all2 (serves scope kind role category) (take (length bs) ts) bs"
        "case r of Inr out \<Rightarrow> out = (bindings @ [b]) @ bs \<and> length bs = length ts | Inl _ \<Rightarrow> length bs < length ts" by blast
      then show ?thesis using k by (intro exI [of _ "b # bs"]) (auto simp: tool_entries_of_def split: sum.splits)
    qed
  qed
qed

section \<open>Properties\<close>

text \<open>A ReAct agent answers with what its model said last. On a request that waits, once the graph returns, the agent
  sends one well-formed reply in the conversation of the request whose body is the text of the last model message with
  text, or of the last message when the model said nothing; the graph was built from all tools of the profile and got the
  text of the request; and a message that expects no answer runs the graph but gets none.\<close>

lemma react_agent_answers:
  assumes "agent_ok a mt" and "valid_message m"
    and "create_agent (all_tools profile @ extra) (some_text (ap_prompt profile)) [Other_Message (PStr (value_text repr (m_body m)))] None s = (Inr ms, t)"
    and "react_body repr ms = Inr body"
  shows "\<exists>out. lg_handle_message (react_from_profile repr create_agent a profile extra) mt m s = (Inr out, t)
     \<and> (if expects_response m then \<exists>r. out = Some r \<and> keeps_conversation a m r \<and> m_body r = PStr body else out = None)"
proof -
  let ?A = "react_from_profile repr create_agent a profile extra"
  have run: "lg_run ?A m s = (Inr ms, t)"
    using assms(3) by (simp add: lg_run_def react_from_profile_def react_input_mapper_def invoke_config_def)
  have body: "rbind (react_body repr ms) (\<lambda>t. Inr (PStr t)) = Inr (PStr body)" using assms(4) by simp
  from react_mapper.handled [where run = "lg_run ?A", OF assms(1,2) run body] show ?thesis
    by (simp add: lg_handle_message_def react_from_profile_def)
qed

definition echo_graph :: "'f Tool list \<Rightarrow> string option \<Rightarrow> mem chat_graph" where
  "echo_graph tools prompt ms config = sret (ms @ [AI_Message (PStr ''Hi.''), Other_Message (PStr ''tool done'')])"

definition bare_profile :: "(unit, unit) AgentProfile" where
  "bare_profile = \<lparr>ap_address = sample_address ''i2'', ap_tools = [], ap_skills = [], ap_rag_sources = [], ap_prompt = [],
     ap_agent_kind = React, ap_resources = []\<rparr>"

lemma react_agent_answers_witness:
  "\<exists>r. lg_handle_message (react_from_profile (\<lambda>_. []) echo_graph sample_agent bare_profile []) sample_minted sample_message empty_mem
       = (Inr (Some r), empty_mem) \<and> keeps_conversation sample_agent sample_message r \<and> m_body r = PStr ''Hi.''"
proof -
  let ?q = "[Other_Message (PStr (value_text (\<lambda>_. []) (m_body sample_message)))]"
  let ?ms = "?q @ [AI_Message (PStr ''Hi.''), Other_Message (PStr ''tool done'')]"
  have run: "echo_graph (all_tools bare_profile @ []) (some_text (ap_prompt bare_profile)) ?q None empty_mem = (Inr ?ms, empty_mem)"
    by (simp add: echo_graph_def)
  have body: "react_body (\<lambda>_. []) ?ms = Inr ''Hi.''" by (simp add: react_body_def coerce_content_def)
  have v: "valid_message sample_message" using sample_sendable(1) by (simp add: sendable_def)
  have "expects_response sample_message" by (simp add: sample_message_def expects_response_def)
  with react_agent_answers [where create_agent = echo_graph and profile = bare_profile, OF sample_agent_ok(1) v run body] show ?thesis by auto
qed

text \<open>C29: Registering the tools of an MCP server is ordered and not atomic: whatever the outcome, the registry afterwards is
  the registry before with exactly the tools up to the first refused one added, in their order, each under the address
  with its own name and bound to its own call; it succeeds exactly when none was refused, and then returns all their
  bindings.\<close>

theorem mcp_registration:
  assumes "register_mcp_tools scope kind role category tools allowed_for tags d = (r, d')"
  shows "\<exists>bs. d' = d @ tool_entries_of bs \<and> list_all2 (serves scope kind role category) (take (length bs) tools) bs
    \<and> (case r of Inr out \<Rightarrow> out = bs \<and> length bs = length tools | Inl _ \<Rightarrow> length bs < length tools)"
  using mcp_loop [OF assms [unfolded register_mcp_tools_def]] by (simp only: append_Nil)

definition sample_tools :: "nat lc_tool list" where
  "sample_tools = [\<lparr>lt_name = ''search'', lt_description = None, lt_args_schema = None, lt_ainvoke = 0\<rparr>,
     \<lparr>lt_name = ''search'', lt_description = Some ''Again.'', lt_args_schema = None, lt_ainvoke = 1\<rparr>]"

theorem mcp_registration_witness:
  "\<exists>d b. register_mcp_tools ''acme'' ''api'' ''*'' ''web'' sample_tools None [] [] = (Inl ValueError, d)
     \<and> d = tool_entries_of [b] \<and> serves ''acme'' ''api'' ''*'' ''web'' (hd sample_tools) b"
proof -
  have "fst (register_mcp_tools ''acme'' ''api'' ''*'' ''web'' sample_tools None [] []) = Inl ValueError \<and>
      length (snd (register_mcp_tools ''acme'' ''api'' ''*'' ''web'' sample_tools None [] [])) = 1" by code_simp
  then obtain d where d: "register_mcp_tools ''acme'' ''api'' ''*'' ''web'' sample_tools None [] [] = (Inl ValueError, d)" "length d = 1"
    by (metis prod.collapse)
  from mcp_registration [OF d(1)] obtain bs where bs: "d = tool_entries_of bs"
    "list_all2 (serves ''acme'' ''api'' ''*'' ''web'') (take (length bs) sample_tools) bs" by auto
  from bs(1) d(2) have "length bs = 1" by (simp add: tool_entries_of_def)
  then obtain b where b: "bs = [b]" by (auto simp: length_Suc_conv)
  with bs(2) have "serves ''acme'' ''api'' ''*'' ''web'' (hd sample_tools) b" by (simp add: sample_tools_def)
  with d(1) bs(1) b show ?thesis by blast
qed

text \<open>A graph agent and a module agent answer in the same way, with the output of the state and the field of the prediction.\<close>

lemma graph_agent_answers:
  assumes "agent_ok a mt" and "valid_message m" and "lg_run (new_langgraph a deep graph f None) m s = (Inr state, t)"
  shows "\<exists>out. lg_handle_message (new_langgraph a deep graph f None) mt m s = (Inr out, t)
    \<and> (if expects_response m then \<exists>r. out = Some r \<and> keeps_conversation a m r \<and> m_body r = state_body state else out = None)"
  using graph_mapper.handled [where run = "lg_run (new_langgraph a deep graph f None)", OF assms]
  by (simp add: lg_handle_message_def new_langgraph_def)

lemma dspy_agent_answers:
  assumes "agent_ok a mt" and "valid_message m" and "dspy_run (new_dspy a modul input_field output_field f None) m s = (Inr prediction, t)"
  shows "\<exists>out. dspy_handle_message (new_dspy a modul input_field output_field f None) mt m s = (Inr out, t)
    \<and> (if expects_response m then \<exists>r. out = Some r \<and> keeps_conversation a m r \<and> m_body r = dict_get prediction output_field PNone else out = None)"
  using dspy_mapper.handled [where run = "dspy_run (new_dspy a modul input_field output_field f None)", OF assms]
  by (simp add: dspy_handle_message_def new_dspy_def)

end
