(* ===== verification/Spec2Isabelle.thy ===== *)
theory Spec2Isabelle
  imports Cli Broadcast Provisioning Gateways Recipe Human SessionRunner CloudWatch FrameworkAgents
begin

text \<open>
  A verification library for the Agent Handshake Protocol (\<open>src/ahp\<close>): a network on which
  language-model agents, people and data sources find each other by address and exchange
  messages, with a broker that routes calls to servers and charges for them.

  THE PROGRAM AND ITS PARTS

  Every participant has a seven-field address (\<open>core/address.py\<close>); sets of participants are
  patterns (\<open>core/pattern.py\<close>). A message (\<open>core/message.py\<close>) carries a verb, an interaction
  code, a thread and a body; the code decides which payload tiers the target must accept
  (\<open>core/codes.py\<close>, \<open>core/compatibility.py\<close>). The protocol engine (\<open>engine/router.py\<close>) is the
  one entry point: it checks the session format, the tier matrix and the scope policy
  (\<open>engine/scope.py\<close>), resolves a pattern through the agent registry
  (\<open>registry/registry.py\<close>, guarded by \<open>registry/auth.py\<close>), serves a GET verb from the response
  cache (\<open>transport/cache.py\<close>), and otherwise publishes on the bus (\<open>transport/redis_bus.py\<close>),
  which also keeps the history of threads (\<open>engine/thread_manager.py\<close>). With a broker
  attached (\<open>broker/broker.py\<close>) a GET call is billed: a hold on the caller's wallet
  (\<open>economy/wallet.py\<close>) is placed before the wait and settled or refunded after it, at the
  price of \<open>economy/pricing.py\<close>, by the reputation of \<open>economy/reputation.py\<close>, on a leaf of the
  compute menu (\<open>economy/compute_provider.py\<close>, \<open>broker/compute_registry.py\<close>) of the server that
  \<open>broker/server_registry.py\<close> knows; \<open>broker/router.py\<close> chooses server and leaf,
  \<open>broker/surveys.py\<close> asks the callers how it went. Every mutation may be audited
  (\<open>audit/\<close>). The adapters build the participants: \<open>adapters/base.py\<close> is the agent and its
  consumer task, \<open>format_agent.py\<close> and \<open>gateway.py\<close> are kinds of agents, and \<open>factory.py\<close> turns
  addresses into agents, configured by what matches their address in the catalogs of tools,
  skills, resources and capabilities.

  THE THEORIES

  Foundations. Prelude: exceptions as values (\<open>'a res = pyexc + 'a\<close>), operations on a store
  (\<open>('s, 'a) op\<close>, which keep what was written before an exception), string methods, dicts in
  insertion order, stable sorting. PyFloat: binary64 floats on exact rationals, with rounding
  to nearest-even, infinities and NaN. PyVal: dynamic values, and the locale \<open>codec\<close> of all
  print/parse and encode/decode pairs. Redis: the interface to the server as a record of
  commands and the locale \<open>redis\<close> of their documented effects through a view of the key
  space, extended by \<open>quiet_redis\<close> (no other client writes in between); \<open>mem_redis\<close> is the
  in-memory instance on which the witnesses run. Json: the reader of JSON texts.

  Core. Address, Pattern, Codes, Message: data, validation, printing, parsing, the tier matrix;
  lemmas: round trips, matching, what each code requires.

  Economy. Pricing (\<open>tiers.py\<close>, \<open>pricing.py\<close>), Wallet and WalletTx (\<open>wallet.py\<close>: pure steps, then
  optimistic transactions, then their effect on the whole store), Reputation and RepStore,
  ComputeMenu, AgentBanker. Lemmas: an exact ledger as the abstract specification of a wallet and
  the simulation between them, rounding bounds of the settlement, ranges of the scores, totals
  moved by transfers.

  Registries and routing. AuditSink (\<open>audit/\<close>, \<open>transport/keys.py\<close>; locale \<open>audit_sink\<close>: emitting
  is observational), Auth, Registry, Cache, ServerRegistry, ComputeRegistry, Router, Surveys,
  Broker. Lemmas: what is read after what is written, soundness and completeness of a routing
  decision, the payout specification \<open>payout\<close> of a settlement and the proof that
  \<open>calculate_and_settle\<close> implements it.

  Conversation. Bus, Threads, Formats and GameModes (\<open>adapters/formats.py\<close>, \<open>game_modes.py\<close>),
  Scope, Engine (\<open>engine/router.py\<close>), and over it Billing and Broadcast, which follow the money
  of a dispatch on every path, errors included: \<open>engine_bill\<close> specifies what a call is billed, and
  \<open>place_holds\<close> is the point of a broadcast after which no hold is left behind.

  Participants. Agents (\<open>base.py\<close>, \<open>groups.py\<close>), FormatAgents, Gateways, Provisioning, Catalog
  (locale \<open>catalog\<close>, interpreted by the tool, the skill and the resource registry), Resources,
  Capability, Inviter, Factory, Recipe (\<open>llm/recipe.py\<close>, \<open>llm/openrouter.py\<close>). KnowledgeGraph
  (locale \<open>kg_backend\<close>: what a backend of the graph promises, extended by \<open>kg_log\<close>: every edge
  written is kept; both interpreted by the in-memory graph),
  InfoSource and Teacher, which ground and grade on it; Human (participants at a terminal);
  FrameworkAgents (the agents over graph, ReAct and DSPy programs and the MCP tools; locale
  \<open>answering_mapper\<close>, interpreted by the mapper of each kind).

  Sessions and sinks. Prompts (\<open>adapters/prompts.py\<close>: every renderer and the table of recipes),
  SessionRunner (\<open>examples/viewer/runner.py\<close>: the session agent and the rounds a moderator runs
  through the engine), CloudWatch (\<open>audit/cloudwatch.py\<close>: a step relation whose steps are the
  sections of the code between two awaits or under the lock, with conservation of events as its
  invariant).

  Command line. CommandLine (\<open>cli.py\<close>: the tables of \<open>build_parser\<close>, the part of \<open>argparse\<close> that
  reads them, the terminal; every accepted command line has the attributes its command reads).
  Scaffolders (\<open>scaffolders.py\<close> and the commands new, template and scaffold: every template line by
  line; a file is written whole or not at all, a generated format agent keeps its contract).
  Cli (the commands of \<open>cli.py\<close> and \<open>main\<close>: the listings, the profile, registration and visibility
  of an agent, surveys and votes, the tap, one-off messages, the audit stream; what each life-cycle
  command leaves in the registry, and which events the audit tail shows).

  HOW THE MODEL CORRESPONDS TO THE CODE

  A class is a record whose fields carry a prefix of their own; a method is a definition of the
  method's name (prefixed where two classes share one) on the record and the store; a raise is
  \<open>Inl\<close> of the class of the exception, its message is not modelled. A coroutine is the sequence of
  its store operations: the awaits of one operation run in order, and what other clients do in
  between is an argument (the commands of \<open>redis\<close> may let others write before each one; the
  properties say where they need \<open>quiet_redis\<close>). A dict is an association list in insertion order,
  a JSON text the value it encodes, a set is read through membership, an unordered scan of the
  server is any list with the right elements.

  ARGUMENTS OF THE MODEL

  Redis (commands in the record \<open>'s redis\<close>), the other clients of the network (\<open>peers\<close>, scripts of
  received frames), clocks, fresh identifiers, hash functions, random draws, \<open>math.log10\<close> (locale
  \<open>log10_fun\<close>: monotone enough, exact at 1), the texts of values and exceptions, environment
  variables, language models and their clients, the subclass-provided handlers, translations,
  builders, factories and clean-ups. Each hypothesis on one of them is a locale with an
  interpretation or has a witness.

  BOUNDS AND FUEL

  \<open>cas_loop\<close> runs the eight attempts of the code (\<open>CAS_RETRIES\<close>), so it needs no fuel. Loops that
  wait for frames recurse over the script of frames received. \<open>invite_attempts\<close> runs
  \<open>max_retries + 1\<close> calls as the code does. The recursion of the JSON reader runs on the length of
  the text, and \<open>json_fuel_enough\<close> shows that more fuel changes nothing. The wallet refinement is
  stated on multiples of 1/1024 up to 2^40, where binary64 addition is exact. All other recursion
  is structural or over a measure.

  LIMITS OF THE TEXT MODEL

  Strings are the bytes of their UTF-8 form. White space, letter case and digits are those of the
  ASCII range, where Python's \<open>strip\<close>, \<open>lower\<close>, \<open>isspace\<close> and \<open>int\<close> also know others; percent-encoding
  and ordering are exact.

  NOT MODELLED

  \<open>demo/\<close> and \<open>tools/research.py\<close>
  are prompts and tables around a search service and model libraries; \<open>llm/bedrock.py\<close> constructs
  a client of an external library. \<open>adapters/neo4j_kg.py\<close> sends Cypher texts to a database whose
  language is not in the repository: \<open>kg_backend\<close> states the interface it implements. Of the
  examples, the web applications (\<open>viewer/app.py\<close>, \<open>fastapi_serve\<close>), the two federation nodes and
  the knowledge-graph demonstration start what is modelled here and show it on pages or terminals;
  of \<open>viewer/runner.py\<close> the set-up of a session, its snapshots and its tear-down are left out, as
  they build the clients of the model services. The package files only re-export names.
\<close>

end
